(* ===== verification/Trustrail_Prelude.thy ===== *)
theory Trustrail_Prelude
  imports Complex_Main "HOL-Library.AList" "HOL-Library.Multiset"
begin

text \<open>
  Shared vocabulary of the development: Python values the model needs (text as code points,
  dynamically typed metadata values, insertion-ordered dictionaries, bounded deques), the generic
  lemmas about them, and the contracts that more than one component obeys:
  \<^item> \<open>ordered_dict\<close>: what a Python \<open>dict\<close> / \<open>OrderedDict\<close> promises, interpreted on association
    lists;
  \<^item> \<open>single_use\<close>: an operation that consumes a key at most once along every run;
  \<^item> \<open>preserved\<close>: an invariant of a step relation, lifted to runs.
\<close>

section \<open>Python values\<close>

text \<open>
  A Python \<open>str\<close> that carries content is the list of its code points, so that both \<open>len(s)\<close> and
  \<open>len(s.encode("utf-8"))\<close> can be computed. Identifiers and messages, which are only compared,
  are Isabelle strings. Floating-point numbers (seconds, costs, ratios) are exact rationals:
  rounding is not modelled. Datetimes are integers counting microseconds.
\<close>

type_synonym pytext = "nat list"
type_synonym ident = string
type_synonym seconds = rat
type_synonym datetime = int

datatype pyval =
    PNone
  | PBool bool
  | PInt int
  | PFloat rat
  | PStr string
  | PList "pyval list"
  | PDict "(string \<times> pyval) list"

text \<open>The size of one code point, and of a text, in UTF-8.\<close>

definition utf8_size :: "nat \<Rightarrow> nat" where
  "utf8_size c = (if c < 128 then 1 else if c < 2048 then 2 else if c < 65536 then 3 else 4)"

definition utf8_len :: "pytext \<Rightarrow> nat" where
  "utf8_len t = sum_list (map utf8_size t)"

lemma utf8_size_bounds: "1 \<le> utf8_size c" "utf8_size c \<le> 4"
  by (simp_all add: utf8_size_def)

lemma utf8_len_simps [simp]:
  "utf8_len [] = 0"
  "utf8_len (c # t) = utf8_size c + utf8_len t"
  "utf8_len (t @ u) = utf8_len t + utf8_len u"
  by (simp_all add: utf8_len_def)

lemma utf8_len_ge_length: "length t \<le> utf8_len t"
proof (induction t)
  case (Cons c t)
  then show ?case using utf8_size_bounds(1) [of c] by simp
qed simp

text \<open>\<open>timedelta(seconds=n)\<close> in the microseconds of a datetime.\<close>

definition td_seconds :: "int \<Rightarrow> int" where
  "td_seconds n = n * 1000000"

lemma td_seconds_mono [simp]: "td_seconds a \<le> td_seconds b \<longleftrightarrow> a \<le> b"
  by (simp add: td_seconds_def)

lemma td_seconds_pos [simp]: "0 < td_seconds a \<longleftrightarrow> 0 < a" "0 \<le> td_seconds a \<longleftrightarrow> 0 \<le> a"
  by (simp_all add: td_seconds_def zero_le_mult_iff)

section \<open>Insertion-ordered dictionaries\<close>

text \<open>
  A dictionary is its list of items in insertion order. Assigning to a present key keeps its
  position, assigning to a new key appends, as in Python.
\<close>

type_synonym ('k, 'v) dict = "('k \<times> 'v) list"

abbreviation dict_get :: "('k, 'v) dict \<Rightarrow> 'k \<Rightarrow> 'v option" where
  "dict_get \<equiv> map_of"

abbreviation dict_set :: "('k, 'v) dict \<Rightarrow> 'k \<Rightarrow> 'v \<Rightarrow> ('k, 'v) dict" where
  "dict_set m k v \<equiv> AList.update k v m"

abbreviation dict_del :: "('k, 'v) dict \<Rightarrow> 'k \<Rightarrow> ('k, 'v) dict" where
  "dict_del m k \<equiv> AList.delete k m"

definition dict_get_default :: "('k, 'v) dict \<Rightarrow> 'k \<Rightarrow> 'v \<Rightarrow> 'v" where
  "dict_get_default m k d = (case dict_get m k of None \<Rightarrow> d | Some v \<Rightarrow> v)"

definition move_to_end :: "('k, 'v) dict \<Rightarrow> 'k \<Rightarrow> ('k, 'v) dict" where
  "move_to_end m k = (case dict_get m k of None \<Rightarrow> m | Some v \<Rightarrow> dict_del m k @ [(k, v)])"

definition dict_ok :: "('k, 'v) dict \<Rightarrow> bool" where
  "dict_ok m \<longleftrightarrow> distinct (map fst m)"

abbreviation dict_keys :: "('k, 'v) dict \<Rightarrow> 'k set" where
  "dict_keys m \<equiv> fst ` set m"

locale ordered_dict =
  fixes get :: "'d \<Rightarrow> 'k \<Rightarrow> 'v option"
    and put :: "'d \<Rightarrow> 'k \<Rightarrow> 'v \<Rightarrow> 'd"
    and del :: "'d \<Rightarrow> 'k \<Rightarrow> 'd"
    and size :: "'d \<Rightarrow> nat"
    and inv :: "'d \<Rightarrow> bool"
  assumes get_put: "get (put d k v) j = (if j = k then Some v else get d j)"
    and get_del: "get (del d k) j = (if j = k then None else get d j)"
    and size_put: "size (put d k v) = (if get d k = None then Suc (size d) else size d)"
    and size_del: "inv d \<Longrightarrow> size (del d k) = (if get d k = None then size d else size d - 1)"
    and inv_put: "inv d \<Longrightarrow> inv (put d k v)"
    and inv_del: "inv d \<Longrightarrow> inv (del d k)"
begin

lemma size_put_le: "size (put d k v) \<le> Suc (size d)"
  by (simp add: size_put)

lemma size_put_present: "get d k = Some w \<Longrightarrow> size (put d k v) = size d"
  by (simp add: size_put)

lemma get_put_other: "j \<noteq> k \<Longrightarrow> get (put d k v) j = get d j"
  by (simp add: get_put)

lemma size_del_le: "inv d \<Longrightarrow> size (del d k) \<le> size d"
  by (simp add: size_del)

lemma put_put_get: "get (put (put d k v) k w) j = get (put d k w) j"
  by (simp add: get_put)

end

lemma length_dict_set:
  "length (dict_set m k v) = (if dict_get m k = None then Suc (length m) else length m)"
  by (induction m) auto

lemma length_dict_del:
  "dict_ok m \<Longrightarrow> length (dict_del m k) = (if dict_get m k = None then length m else length m - 1)"
proof (induction m)
  case (Cons p m)
  obtain j w where p: "p = (j, w)" by (cases p)
  show ?case
  proof (cases "j = k")
    case True
    with Cons.prems p have "k \<notin> fst ` set m" by (auto simp: dict_ok_def)
    then show ?thesis using p True by simp
  next
    case False
    have "dict_get m k \<noteq> None \<Longrightarrow> 0 < length m" by (cases m) auto
    with False Cons p show ?thesis by (auto simp: dict_ok_def)
  qed
qed simp

lemma dict_ok_simps [simp, intro]:
  "dict_ok []"
  "dict_ok m \<Longrightarrow> dict_ok (dict_set m k v)"
  "dict_ok m \<Longrightarrow> dict_ok (dict_del m k)"
  by (simp_all add: dict_ok_def distinct_update distinct_delete)

interpretation assoc: ordered_dict "map_of" "\<lambda>m k v. AList.update k v m"
    "\<lambda>m k. AList.delete k m" length dict_ok
  by unfold_locales
    (auto simp: update_conv' delete_conv' length_dict_set length_dict_del)

lemma dict_get_move_to_end [simp]: "dict_get (move_to_end m k) j = dict_get m j"
  by (auto simp: move_to_end_def map_of_append delete_conv' map_add_def
      split: option.splits)

lemma length_move_to_end [simp]: "dict_ok m \<Longrightarrow> length (move_to_end m k) = length m"
proof (cases "dict_get m k")
  case (Some v)
  assume "dict_ok m"
  moreover have "0 < length m" using Some by (cases m) auto
  ultimately show ?thesis using Some by (simp add: move_to_end_def length_dict_del)
qed (simp add: move_to_end_def)

lemma dict_ok_move_to_end [simp, intro]: "dict_ok m \<Longrightarrow> dict_ok (move_to_end m k)"
  by (auto simp: move_to_end_def dict_ok_def delete_keys distinct_removeAll split: option.splits)

lemma dict_ok_tl [intro]: "dict_ok m \<Longrightarrow> dict_ok (tl m)"
  by (cases m) (auto simp: dict_ok_def)

lemma dict_ok_filter [intro]: "dict_ok m \<Longrightarrow> dict_ok (filter P m)"
  by (induction m) (auto simp: dict_ok_def)

lemma dict_get_filter:
  "dict_ok m \<Longrightarrow> dict_get (filter P m) k =
     (case dict_get m k of None \<Rightarrow> None | Some v \<Rightarrow> if P (k, v) then Some v else None)"
proof (induction m)
  case (Cons p m)
  obtain j w where p: "p = (j, w)" by (cases p)
  from Cons.prems p have "dict_ok m" "j \<notin> fst ` set m" by (auto simp: dict_ok_def)
  with Cons.IH p show ?case
    by (auto simp: map_of_eq_None_iff split: option.splits dest: map_of_SomeD)
qed simp

lemma dict_set_fresh: "dict_get m k = None \<Longrightarrow> dict_set m k v = m @ [(k, v)]"
  by (induction m) auto

lemma dict_del_absent: "dict_get m k = None \<Longrightarrow> dict_del m k = m"
  by (induction m) (auto split: if_splits)

lemma dict_get_set [simp]: "dict_get (dict_set m k v) j = (if j = k then Some v else dict_get m j)"
  by (simp add: update_conv')

lemma dict_get_del [simp]: "dict_get (dict_del m k) j = (if j = k then None else dict_get m j)"
  by (simp add: delete_conv')

lemma dict_get_default_simps [simp]:
  "dict_get_default (dict_set m k v) j d = (if j = k then v else dict_get_default m j d)"
  "dict_get_default (dict_del m k) j d = (if j = k then d else dict_get_default m j d)"
  "dict_get_default [] j d = d"
  by (simp_all add: dict_get_default_def)

lemma length_filter_dict_del:
  "dict_ok m \<Longrightarrow> dict_get m k = Some v \<Longrightarrow>
   length (filter Q m) = length (filter Q (dict_del m k)) + (if Q (k, v) then 1 else 0)"
proof (induction m)
  case (Cons p m)
  obtain j w where p: "p = (j, w)" by (cases p)
  show ?case
  proof (cases "j = k")
    case True
    with Cons.prems p have "k \<notin> fst ` set m" "w = v" by (auto simp: dict_ok_def)
    then show ?thesis using p True by simp
  next
    case False
    with Cons p show ?thesis by (auto simp: dict_ok_def)
  qed
qed simp

lemma length_filter_dict_set_fresh:
  "dict_get m k = None \<Longrightarrow>
   length (filter Q (dict_set m k v)) = length (filter Q m) + (if Q (k, v) then 1 else 0)"
  by (simp add: dict_set_fresh)

lemma dict_keys_set [simp]: "dict_keys (dict_set m k v) = insert k (dict_keys m)"
  by (induction m) auto

lemma dict_set_subset: "set (dict_set m k v) \<subseteq> insert (k, v) (set m)"
  by (induction m) auto

lemma dict_del_subset: "set (dict_del m k) \<subseteq> set m"
  by (auto simp: AList.delete_eq)

text \<open>\<open>{**a, **b}\<close>: the entries of \<open>a\<close>, overwritten and extended by those of \<open>b\<close>.\<close>

definition dict_merge :: "('k, 'v) dict \<Rightarrow> ('k, 'v) dict \<Rightarrow> ('k, 'v) dict" where
  "dict_merge a b = fold (\<lambda>(k, v) m. dict_set m k v) b a"

lemma dict_get_merge_other: "k \<notin> dict_keys b \<Longrightarrow> dict_get (dict_merge a b) k = dict_get a k"
  unfolding dict_merge_def by (induction b arbitrary: a) auto

lemma dict_get_merge_key:
  "dict_ok b \<Longrightarrow> dict_get b k = Some v \<Longrightarrow> dict_get (dict_merge a b) k = Some v"
proof (induction b arbitrary: a)
  case (Cons x b)
  obtain j w where x: "x = (j, w)" by (cases x)
  show ?case
  proof (cases "j = k")
    case True
    then have "k \<notin> dict_keys b" using Cons.prems(1) x by (auto simp: dict_ok_def)
    then show ?thesis
      using Cons.prems(2) True x dict_get_merge_other [of k b "dict_set a j w"] by (simp add: dict_merge_def)
  next
    case False
    then show ?thesis using Cons x by (simp add: dict_merge_def dict_ok_def)
  qed
qed simp

section \<open>Tables of checks\<close>

text \<open>A table of checks and findings keeps the findings whose check holds, in order.\<close>

lemma map_snd_filter_fst_Nil: "map snd (filter fst xs) = [] \<longleftrightarrow> (\<forall>(b, c) \<in> set xs. \<not> b)"
  by (auto simp: filter_empty_conv)

section \<open>Duplicates\<close>

text \<open>\<open>dict.fromkeys\<close> keeps the first of equal elements.\<close>

fun first_occurrences :: "'a list \<Rightarrow> 'a list" where
  "first_occurrences [] = []"
| "first_occurrences (x # xs) = x # first_occurrences (filter (\<lambda>y. y \<noteq> x) xs)"

lemma first_occurrences_Nil [simp]: "first_occurrences xs = [] \<longleftrightarrow> xs = []"
  by (cases xs) simp_all

lemma first_occurrences_set [simp]: "set (first_occurrences xs) = set xs"
  by (induction xs rule: first_occurrences.induct) auto

text \<open>A list of guarded findings is empty when no guard holds.\<close>

lemma guard_Nil [simp]: "(if b then [x] else []) = [] \<longleftrightarrow> \<not> b"
  by simp

section \<open>Bounded deques\<close>

text \<open>\<open>collections.deque(maxlen=n)\<close>: appending to a full deque drops items from the left.\<close>

definition deque_append :: "nat \<Rightarrow> 'a list \<Rightarrow> 'a \<Rightarrow> 'a list" where
  "deque_append n xs x = drop (length xs + 1 - n) (xs @ [x])"

definition deque_extend :: "nat \<Rightarrow> 'a list \<Rightarrow> 'a list \<Rightarrow> 'a list" where
  "deque_extend n xs ys = foldl (deque_append n) xs ys"

lemma length_deque_append: "length xs \<le> n \<Longrightarrow> length (deque_append n xs x) \<le> n"
  by (simp add: deque_append_def)

lemma deque_extend_drop:
  "length xs \<le> n \<Longrightarrow> deque_extend n xs ys = drop (length xs + length ys - n) (xs @ ys)"
proof (induction ys rule: rev_induct)
  case (snoc y ys)
  let ?z = "xs @ ys" and ?k = "length xs + length ys - n"
  have "deque_extend n xs (ys @ [y]) = deque_append n (drop ?k ?z) y"
    using snoc by (simp add: deque_extend_def)
  also have "\<dots> = drop (length (drop ?k ?z) + 1 - n) (drop ?k (?z @ [y]))"
    by (simp add: deque_append_def)
  also have "\<dots> = drop (length (drop ?k ?z) + 1 - n + ?k) (?z @ [y])"
    by (simp only: drop_drop)
  also have "length (drop ?k ?z) + 1 - n + ?k = length xs + length (ys @ [y]) - n"
    by auto
  finally show ?case by simp
qed (simp add: deque_extend_def)

text \<open>A deque fed with the pieces of a text holds the last \<open>n\<close> items of the text.\<close>

lemma deque_extend_tail:
  "deque_extend n (drop (length xs - n) xs) ys = drop (length (xs @ ys) - n) (xs @ ys)"
proof -
  let ?k = "length xs - n" and ?y = "drop (length xs - n) xs"
  have "deque_extend n ?y ys = drop (length ?y + length ys - n) (?y @ ys)"
    by (rule deque_extend_drop) simp
  also have "?y @ ys = drop ?k (xs @ ys)" by simp
  also have "drop (length ?y + length ys - n) (drop ?k (xs @ ys))
      = drop (length ?y + length ys - n + ?k) (xs @ ys)"
    by (simp only: drop_drop)
  also have "length ?y + length ys - n + ?k = length (xs @ ys) - n" by auto
  finally show ?thesis .
qed

lemma length_deque_extend: "length xs \<le> n \<Longrightarrow> length (deque_extend n xs ys) \<le> n"
  unfolding deque_extend_def
  by (induction ys arbitrary: xs) (simp_all add: length_deque_append)

text \<open>Popping from the left while the head satisfies a test: \<open>while d and p(d[0]): d.popleft()\<close>.\<close>

abbreviation popleft_while :: "('a \<Rightarrow> bool) \<Rightarrow> 'a list \<Rightarrow> 'a list" where
  "popleft_while \<equiv> dropWhile"

lemma popleft_while_sorted:
  fixes xs :: "'a :: linorder list"
  assumes "sorted xs"
  shows "popleft_while (\<lambda>x. x \<le> c) xs = filter (\<lambda>x. c < x) xs"
  using assms
proof (induction xs)
  case (Cons x xs)
  show ?case
  proof (cases "x \<le> c")
    case True
    with Cons show ?thesis by simp
  next
    case False
    with Cons.prems have "\<forall>y \<in> set xs. c < y" by auto
    with False show ?thesis by (simp add: filter_True)
  qed
qed simp

lemma length_popleft_while: "length (popleft_while p xs) \<le> length xs"
  by (rule length_dropWhile_le)

lemma sorted_popleft_while: "sorted xs \<Longrightarrow> sorted (popleft_while p xs)"
  by (rule sorted_dropWhile)

section \<open>Contracts shared by several components\<close>

text \<open>
  An operation consumes a key at most once. \<open>attempt s i\<close> is the accept flag and the next state;
  \<open>spent s\<close> is the set of keys that can no longer be consumed; \<open>admissible\<close> restricts the inputs
  (a clock that does not run backwards, for instance). The laws say that an accepted input had
  an unspent key and leaves it spent, and that spent keys stay spent.
\<close>

fun run_attempts :: "('s \<Rightarrow> 'i \<Rightarrow> bool \<times> 's) \<Rightarrow> 's \<Rightarrow> 'i list \<Rightarrow> 'i list \<times> 's" where
  "run_attempts f s [] = ([], s)"
| "run_attempts f s (i # is) =
     (let (ok, s') = f s i; (acc, s'') = run_attempts f s' is
      in ((if ok then i # acc else acc), s''))"

fun all_admissible :: "('s \<Rightarrow> 'i \<Rightarrow> bool) \<Rightarrow> ('s \<Rightarrow> 'i \<Rightarrow> bool \<times> 's) \<Rightarrow> 's \<Rightarrow> 'i list \<Rightarrow> bool" where
  "all_admissible ok f s [] = True"
| "all_admissible ok f s (i # is) = (ok s i \<and> all_admissible ok f (snd (f s i)) is)"

lemma all_admissible_True [simp]: "all_admissible (\<lambda>_ _. True) f s ops"
  by (induction ops arbitrary: s) simp_all

locale single_use =
  fixes attempt :: "'s \<Rightarrow> 'i \<Rightarrow> bool \<times> 's"
    and key :: "'i \<Rightarrow> 'k"
    and spent :: "'s \<Rightarrow> 'k set"
    and admissible :: "'s \<Rightarrow> 'i \<Rightarrow> bool"
    and inv :: "'s \<Rightarrow> bool"
  assumes accept_fresh: "inv s \<Longrightarrow> admissible s i \<Longrightarrow> attempt s i = (True, s') \<Longrightarrow> key i \<notin> spent s"
    and accept_spends: "inv s \<Longrightarrow> admissible s i \<Longrightarrow> attempt s i = (True, s') \<Longrightarrow> key i \<in> spent s'"
    and spent_mono: "inv s \<Longrightarrow> admissible s i \<Longrightarrow> attempt s i = (ok, s') \<Longrightarrow> spent s \<subseteq> spent s'"
    and inv_step: "inv s \<Longrightarrow> admissible s i \<Longrightarrow> attempt s i = (ok, s') \<Longrightarrow> inv s'"
begin

lemma accepted_not_spent:
  "inv s \<Longrightarrow> all_admissible admissible attempt s is \<Longrightarrow> run_attempts attempt s is = (acc, s') \<Longrightarrow>
   i \<in> set acc \<Longrightarrow> key i \<notin> spent s"
proof (induction "is" arbitrary: s acc s')
  case (Cons j js)
  obtain ok t where step: "attempt s j = (ok, t)" by (cases "attempt s j")
  obtain acc' u where run: "run_attempts attempt t js = (acc', u)"
    by (cases "run_attempts attempt t js")
  from Cons.prems step have adm: "admissible s j" "all_admissible admissible attempt t js" by auto
  have "inv t" using inv_step [OF Cons.prems(1) adm(1) step] .
  have "i \<in> set acc' \<Longrightarrow> key i \<notin> spent s"
    using Cons.IH [OF \<open>inv t\<close> adm(2) run] spent_mono [OF Cons.prems(1) adm(1) step] by blast
  moreover have "ok \<Longrightarrow> key j \<notin> spent s"
    using accept_fresh [OF Cons.prems(1) adm(1)] step by simp
  ultimately show ?case using Cons.prems step run by (auto split: if_splits)
qed simp

theorem accepted_at_most_once:
  "inv s \<Longrightarrow> all_admissible admissible attempt s is \<Longrightarrow> run_attempts attempt s is = (acc, s') \<Longrightarrow>
   distinct (map key acc)"
proof (induction "is" arbitrary: s acc s')
  case (Cons j js)
  obtain ok t where step: "attempt s j = (ok, t)" by (cases "attempt s j")
  obtain acc' u where run: "run_attempts attempt t js = (acc', u)"
    by (cases "run_attempts attempt t js")
  from Cons.prems step have adm: "admissible s j" "all_admissible admissible attempt t js" by auto
  have inv: "inv t" using inv_step [OF Cons.prems(1) adm(1) step] .
  note IH = Cons.IH [OF inv adm(2) run]
  show ?case
  proof (cases ok)
    case True
    then have "key j \<in> spent t"
      using accept_spends [OF Cons.prems(1) adm(1)] step by simp
    then have "key j \<notin> set (map key acc')"
      using accepted_not_spent [OF inv adm(2) run] by auto
    then show ?thesis using Cons.prems True step run IH by auto
  next
    case False
    then show ?thesis using Cons.prems step run IH by auto
  qed
qed simp

end

text \<open>An invariant of a labelled transition function, lifted to every run.\<close>

locale preserved =
  fixes step :: "'s \<Rightarrow> 'l \<Rightarrow> 's"
    and inv :: "'s \<Rightarrow> bool"
    and allowed :: "'l \<Rightarrow> bool"
  assumes step_inv: "inv s \<Longrightarrow> allowed l \<Longrightarrow> inv (step s l)"
begin

theorem run_inv: "inv s \<Longrightarrow> list_all allowed ls \<Longrightarrow> inv (foldl step s ls)"
  by (induction ls arbitrary: s) (simp_all add: step_inv)

end

end
