(* ===== verification/Core_Models.thy ===== *)
theory Core_Models
  imports Trustrail_Prelude
begin

text \<open>
  The data model every guard component shares: the enumerations of \<open>models/enums.py\<close>, and the
  context, finding, score, decision, result and audit event of \<open>models/core.py\<close>.
  Latency measurements and wall-clock time stamps of results are observability data and are left
  out; the identifier and time stamp an audit event draws are arguments.
\<close>

section \<open>Enumerations\<close>

datatype guard_stage =
    USER_INPUT | SYSTEM_PROMPT | EXTERNAL_CONTENT | RAG_DOCUMENT | RAG_CONTEXT
  | LLM_REQUEST | LLM_RESPONSE | TOOL_REQUEST | TOOL_RESPONSE | AGENT_ACTION
  | MEMORY_READ | MEMORY_WRITE | STREAM | FINAL_OUTPUT

datatype guard_action =
    ALLOW | WARN | REDACT | TRANSFORM | BLOCK | QUARANTINE | REQUIRE_APPROVAL | RETRY

datatype sensitive_data_mode = SDM_DEFAULT | SDM_REDACT | SDM_BLOCK | SDM_ALLOW

datatype severity = INFO | LOW | MEDIUM | HIGH | CRITICAL

datatype trust_level = TRUSTED | SEMI_TRUSTED | UNTRUSTED

datatype memory_class = GENERAL | PREFERENCE | PROFILE | INSTRUCTION | SENSITIVE

datatype fail_mode = OPEN | CLOSED

datatype rule_category =
    PROMPT_INJECTION | JAILBREAK | SENSITIVE_DATA | SECRET | OUTPUT_SAFETY | URL_SSRF | RAG
  | TOOL | AGENT | RESOURCE | CONTENT_SAFETY | FAIRNESS | GROUNDING | MEMORY

datatype rule_phase =
    NORMALIZE | VALIDATE | DETECT | POLICY | TRANSFORM_PHASE | FINAL_VALIDATE | AUDIT

text \<open>The order of severities is the table \<open>_SEVERITY_ORDER\<close> of the engine.\<close>

fun severity_order :: "severity \<Rightarrow> nat" where
  "severity_order INFO = 0"
| "severity_order LOW = 1"
| "severity_order MEDIUM = 2"
| "severity_order HIGH = 3"
| "severity_order CRITICAL = 4"

lemma severity_order_inject [simp]: "severity_order a = severity_order b \<longleftrightarrow> a = b"
  by (cases a; cases b) simp_all

instantiation severity :: linorder
begin

definition less_eq_severity :: "severity \<Rightarrow> severity \<Rightarrow> bool" where
  "less_eq_severity a b \<longleftrightarrow> severity_order a \<le> severity_order b"

definition less_severity :: "severity \<Rightarrow> severity \<Rightarrow> bool" where
  "less_severity a b \<longleftrightarrow> severity_order a < severity_order b"

instance
  by standard (auto simp: less_eq_severity_def less_severity_def)

end

lemma severity_le_CRITICAL [simp]: "a \<le> CRITICAL"
  by (cases a) (simp_all add: less_eq_severity_def)

section \<open>Contexts, findings, scores, decisions and results\<close>

record guard_context =
  cx_request_id :: ident
  cx_session_id :: "ident option"
  cx_user_id :: "ident option"
  cx_tenant_id :: "ident option"
  cx_stage :: guard_stage
  cx_trust_level :: trust_level
  cx_metadata :: "(string, pyval) dict"
  cx_tags :: "string list"

record finding =
  fi_rule_id :: ident
  fi_rule_name :: string
  fi_category :: rule_category
  fi_severity :: severity
  fi_message :: string
  fi_offset_start :: "int option"
  fi_offset_end :: "int option"
  fi_redacted_value :: "pytext option"
  fi_confidence :: rat
  fi_owasp :: "string list"
  fi_metadata :: "(string, pyval) dict"

text \<open>The fields a \<open>GuardFinding\<close> has when only the five mandatory ones are given.\<close>

definition mk_finding :: "ident \<Rightarrow> string \<Rightarrow> rule_category \<Rightarrow> severity \<Rightarrow> string \<Rightarrow> finding" where
  "mk_finding rid rname cat sev msg =
     \<lparr>fi_rule_id = rid, fi_rule_name = rname, fi_category = cat, fi_severity = sev,
      fi_message = msg, fi_offset_start = None, fi_offset_end = None,
      fi_redacted_value = None, fi_confidence = 1, fi_owasp = [], fi_metadata = []\<rparr>"

record risk_score =
  rs_value :: int
  rs_block_at :: int
  rs_warn_at :: int

definition should_block :: "risk_score \<Rightarrow> bool" where
  "should_block s \<longleftrightarrow> rs_block_at s \<le> rs_value s"

definition should_warn :: "risk_score \<Rightarrow> bool" where
  "should_warn s \<longleftrightarrow> rs_warn_at s \<le> rs_value s"

text \<open>The loop of \<open>RiskScore.from_findings\<close>; the first critical finding sets 100 and stops it.\<close>

fun score_loop :: "int \<Rightarrow> finding list \<Rightarrow> int" where
  "score_loop score [] = score"
| "score_loop score (f # fs) =
     (case fi_severity f of
        CRITICAL \<Rightarrow> 100
      | HIGH \<Rightarrow> score_loop (score + 30) fs
      | MEDIUM \<Rightarrow> score_loop (score + 15) fs
      | LOW \<Rightarrow> score_loop (score + 5) fs
      | INFO \<Rightarrow> score_loop score fs)"

definition from_findings :: "finding list \<Rightarrow> int \<Rightarrow> int \<Rightarrow> risk_score" where
  "from_findings fs block_at warn_at =
     \<lparr>rs_value = min (score_loop 0 fs) 100, rs_block_at = block_at, rs_warn_at = warn_at\<rparr>"

record decision =
  de_action :: guard_action
  de_finding :: "finding option"
  de_transformed :: "pytext option"
  de_rule_id :: ident
  de_suppress_risk :: bool

definition allow_decision :: "ident \<Rightarrow> decision" where
  "allow_decision rid = \<lparr>de_action = ALLOW, de_finding = None, de_transformed = None,
     de_rule_id = rid, de_suppress_risk = False\<rparr>"

record guard_result =
  gr_action :: guard_action
  gr_findings :: "finding list"
  gr_score :: risk_score
  gr_value :: pytext
  gr_transformed :: "pytext option"
  gr_input_length :: "int option"
  gr_stage :: guard_stage
  gr_context :: "guard_context option"
  gr_rules_evaluated :: int

definition is_blocked :: "guard_result \<Rightarrow> bool" where
  "is_blocked r \<longleftrightarrow> gr_action r = BLOCK"

definition is_allowed :: "guard_result \<Rightarrow> bool" where
  "is_allowed r \<longleftrightarrow> gr_action r \<in> {ALLOW, WARN}"

definition requires_approval :: "guard_result \<Rightarrow> bool" where
  "requires_approval r \<longleftrightarrow> gr_action r = REQUIRE_APPROVAL"

definition output_value :: "guard_result \<Rightarrow> pytext" where
  "output_value r = (case gr_transformed r of Some t \<Rightarrow> t | None \<Rightarrow> gr_value r)"

section \<open>Risk scores\<close>

text \<open>
  What the loop computes: 100 as soon as one finding is critical, else the sum of the weights.
\<close>

fun severity_weight :: "severity \<Rightarrow> int" where
  "severity_weight HIGH = 30"
| "severity_weight MEDIUM = 15"
| "severity_weight LOW = 5"
| "severity_weight INFO = 0"
| "severity_weight CRITICAL = 0"

lemma score_loop_spec:
  "score_loop s fs =
     (if \<exists>f \<in> set fs. fi_severity f = CRITICAL then 100
      else s + (\<Sum>f\<leftarrow>fs. severity_weight (fi_severity f)))"
proof (induction fs arbitrary: s)
  case (Cons f fs)
  then show ?case by (cases "fi_severity f") auto
qed simp

lemma severity_weight_nonneg [simp]: "0 \<le> severity_weight s"
  by (cases s) simp_all

lemma sum_weights_nonneg: "0 \<le> (\<Sum>f\<leftarrow>fs. severity_weight (fi_severity f))"
  by (induction fs) simp_all

lemma from_findings_thresholds [simp]:
  "rs_block_at (from_findings fs b w) = b" "rs_warn_at (from_findings fs b w) = w"
  by (simp_all add: from_findings_def)

lemma from_findings_critical:
  "f \<in> set fs \<Longrightarrow> fi_severity f = CRITICAL \<Longrightarrow> rs_value (from_findings fs b w) = 100"
  by (auto simp: from_findings_def score_loop_spec)

lemma from_findings_bounds: "0 \<le> rs_value (from_findings fs b w)" "rs_value (from_findings fs b w) \<le> 100"
  using sum_weights_nonneg [of fs] by (simp_all add: from_findings_def score_loop_spec)

text \<open>The score never drops when findings are added, in any order.\<close>

lemma from_findings_mono:
  assumes "mset fs \<subseteq># mset gs"
  shows "rs_value (from_findings fs b w) \<le> rs_value (from_findings gs b' w')"
proof -
  obtain d where d: "mset gs = mset fs + d"
    using assms by (metis subset_mset.le_iff_add)
  obtain ds where ds: "mset ds = d" using ex_mset by blast
  have set: "set gs = set fs \<union> set ds"
    using d ds by (metis set_mset_mset set_mset_union)
  have "(\<Sum>f\<leftarrow>gs. severity_weight (fi_severity f)) =
      (\<Sum>f\<in>#mset fs + mset ds. severity_weight (fi_severity f))"
    using d ds by (metis mset_map sum_mset_sum_list)
  also have "\<dots> = (\<Sum>f\<leftarrow>fs. severity_weight (fi_severity f)) +
      (\<Sum>f\<leftarrow>ds. severity_weight (fi_severity f))"
    by (simp add: sum_mset_sum_list flip: mset_map)
  finally show ?thesis
    using sum_weights_nonneg [of ds] by (auto simp: from_findings_def score_loop_spec set min_def)
qed

section \<open>Audit events\<close>

datatype approval_outcome = Required | Approved | Denied | Missing_provider | Provider_error

record audit_event =
  ae_event_id :: ident
  ae_timestamp :: datetime
  ae_stage :: guard_stage
  ae_action :: guard_action
  ae_score :: int
  ae_finding_ids :: "ident list"
  ae_finding_categories :: "rule_category list"
  ae_finding_severities :: "severity list"
  ae_rules_evaluated :: int
  ae_request_id :: "ident option"
  ae_session_id :: "ident option"
  ae_user_id :: "ident option"
  ae_tenant_id :: "ident option"
  ae_input_length :: int
  ae_tags :: "string list"
  ae_memory_classification :: "memory_class option"
  ae_memory_approval_outcome :: "approval_outcome option"

fun memory_class_value :: "memory_class \<Rightarrow> string" where
  "memory_class_value GENERAL = ''general''"
| "memory_class_value PREFERENCE = ''preference''"
| "memory_class_value PROFILE = ''profile''"
| "memory_class_value INSTRUCTION = ''instruction''"
| "memory_class_value SENSITIVE = ''sensitive''"

definition memory_class_of_value :: "string \<Rightarrow> memory_class option" where
  "memory_class_of_value v =
     find (\<lambda>c. memory_class_value c = v) [GENERAL, PREFERENCE, PROFILE, INSTRUCTION, SENSITIVE]"

definition memory_classification :: "finding list \<Rightarrow> memory_class option" where
  "memory_classification fs =
     (case find (\<lambda>f. fi_rule_id f = ''MEM-001'') fs of
        None \<Rightarrow> None
      | Some f \<Rightarrow>
          (case dict_get (fi_metadata f) ''classification'' of
             Some (PStr v) \<Rightarrow> memory_class_of_value v
           | _ \<Rightarrow> None))"

text \<open>\<open>AuditEvent.from_result\<close>; the drawn event identifier and time stamp are arguments.\<close>

definition audit_from_result :: "ident \<Rightarrow> datetime \<Rightarrow> bool \<Rightarrow> guard_result \<Rightarrow> audit_event" where
  "audit_from_result eid ts include_metadata r =
     (let ctx = (if include_metadata then gr_context r else None) in
      \<lparr>ae_event_id = eid, ae_timestamp = ts,
       ae_stage = gr_stage r, ae_action = gr_action r, ae_score = rs_value (gr_score r),
       ae_finding_ids = map fi_rule_id (gr_findings r),
       ae_finding_categories = map fi_category (gr_findings r),
       ae_finding_severities = map fi_severity (gr_findings r),
       ae_rules_evaluated = gr_rules_evaluated r,
       ae_request_id = map_option cx_request_id ctx,
       ae_session_id = Option.bind ctx cx_session_id,
       ae_user_id = Option.bind ctx cx_user_id,
       ae_tenant_id = Option.bind ctx cx_tenant_id,
       ae_input_length =
         (case gr_input_length r of Some n \<Rightarrow> n | None \<Rightarrow> int (length (gr_value r))),
       ae_tags = (case ctx of None \<Rightarrow> [] | Some c \<Rightarrow> cx_tags c),
       ae_memory_classification = memory_classification (gr_findings r),
       ae_memory_approval_outcome =
         (if gr_action r = REQUIRE_APPROVAL then Some Required else None)\<rparr>)"

text \<open>
  Erasing content: the scanned value, its transformation, and from every finding the message, the
  replacement text, the offsets and all metadata but the memory classification label.
\<close>

definition erase_finding :: "finding \<Rightarrow> finding" where
  "erase_finding f = f\<lparr>fi_message := [], fi_offset_start := None, fi_offset_end := None,
     fi_redacted_value := None,
     fi_metadata := filter (\<lambda>(k, _). k = ''classification'') (fi_metadata f)\<rparr>"

definition erase_content :: "guard_result \<Rightarrow> guard_result" where
  "erase_content r = r\<lparr>gr_value := [], gr_transformed := None,
     gr_findings := map erase_finding (gr_findings r)\<rparr>"

lemma erase_finding_simps [simp]:
  "fi_rule_id (erase_finding f) = fi_rule_id f"
  "fi_category (erase_finding f) = fi_category f"
  "fi_severity (erase_finding f) = fi_severity f"
  by (simp_all add: erase_finding_def)

lemma dict_get_filter_key: "dict_get (filter (\<lambda>(j, _). j = k) m) k = dict_get m k"
  by (induction m) auto

lemma memory_classification_erase [simp]:
  "memory_classification (map erase_finding fs) = memory_classification fs"
proof -
  have "find (\<lambda>f. fi_rule_id f = ''MEM-001'') (map erase_finding fs) =
      map_option erase_finding (find (\<lambda>f. fi_rule_id f = ''MEM-001'') fs)"
    by (induction fs) simp_all
  then show ?thesis
    by (auto simp: memory_classification_def erase_finding_def dict_get_filter_key
        split: option.split)
qed

text \<open>
  An audit event carries no content. It is the same event when the scanned value, its
  transformation and every text of the findings are erased first (the engine always records the
  input length, the hypothesis here), whatever the metadata switch says.
\<close>

theorem audit_event_content_free:
  assumes "gr_input_length r = Some n"
  shows "audit_from_result eid ts inc (erase_content r) = audit_from_result eid ts inc r"
  using assms by (simp add: audit_from_result_def erase_content_def o_def)

theorem audit_event_content_free_witness:
  "audit_from_result ''e'' 0 True
     (erase_content \<lparr>gr_action = BLOCK,
        gr_findings = [mk_finding ''SD-001'' ''PII'' SENSITIVE_DATA HIGH ''found 4111''],
        gr_score = from_findings [] 80 40, gr_value = [52, 49, 49, 49], gr_transformed = Some [42],
        gr_input_length = Some 4, gr_stage = USER_INPUT, gr_context = None,
        gr_rules_evaluated = 3\<rparr>) =
   audit_from_result ''e'' 0 True
     \<lparr>gr_action = BLOCK,
        gr_findings = [mk_finding ''SD-001'' ''PII'' SENSITIVE_DATA HIGH ''found 4111''],
        gr_score = from_findings [] 80 40, gr_value = [52, 49, 49, 49], gr_transformed = Some [42],
        gr_input_length = Some 4, gr_stage = USER_INPUT, gr_context = None,
        gr_rules_evaluated = 3\<rparr>"
  by (rule audit_event_content_free [where n = 4]) simp

end
