(* ===== verification/Rule_Base.thy ===== *)
theory Rule_Base
  imports Core_Models
begin

text \<open>
  The rule infrastructure of \<open>rules/base.py\<close>: what the engine knows of a synchronous rule, the
  runtime controls \<open>configure\<close> stores, and \<open>_apply_runtime_config\<close>, through which every decision
  of a detector passes. A detector itself is the field \<open>ru_evaluate\<close>: an arbitrary function of the
  text and the context that either raises (\<open>Inl\<close> the exception's type name) or decides.
  \<open>BaseAsyncRule\<close> repeats the runtime controls of \<open>BaseRule\<close> literally and shares their model.
\<close>

section \<open>Rules and their runtime controls\<close>

record stream_args =
  sa_chunk :: pytext
  sa_chunk_index :: int
  sa_total_chars :: int
  sa_total_bytes :: int

record rule =
  ru_id :: ident
  ru_name :: string
  ru_category :: rule_category
  ru_phase :: rule_phase
  ru_enabled :: bool
  ru_action :: "guard_action option"
  ru_severity :: "severity option"
  ru_threshold :: "rat option"
  ru_fail_mode :: "fail_mode option"
  ru_evaluate :: "pytext \<Rightarrow> guard_context \<Rightarrow> string + decision"
  ru_evaluate_stream :: "pytext \<Rightarrow> guard_context \<Rightarrow> stream_args \<Rightarrow> string + decision"

definition configure ::
  "guard_action option \<Rightarrow> severity option \<Rightarrow> rat option \<Rightarrow> fail_mode option \<Rightarrow> rule \<Rightarrow> rule" where
  "configure action sev threshold fail r =
     r\<lparr>ru_action := action, ru_severity := sev, ru_threshold := threshold, ru_fail_mode := fail\<rparr>"

text \<open>The forced action, with its fail-closed fallback when there is no safe replacement.\<close>

definition force_action :: "guard_action \<Rightarrow> decision \<Rightarrow> decision" where
  "force_action a d =
     (if a = ALLOW then d\<lparr>de_action := ALLOW, de_suppress_risk := True, de_transformed := None\<rparr>
      else if a \<in> {REDACT, TRANSFORM} \<and> de_transformed d = None
        then d\<lparr>de_action := BLOCK, de_suppress_risk := False\<rparr>
      else d\<lparr>de_action := a, de_suppress_risk := True\<rparr>)"

definition apply_runtime_config :: "rule \<Rightarrow> decision \<Rightarrow> decision" where
  "apply_runtime_config r d =
     (case de_finding d of
        None \<Rightarrow> d
      | Some f \<Rightarrow>
          (if (case ru_threshold r of Some t \<Rightarrow> fi_confidence f < t | None \<Rightarrow> False)
           then allow_decision (ru_id r)
           else
             let d1 = (case ru_severity r of
                         Some s \<Rightarrow> d\<lparr>de_finding := Some (f\<lparr>fi_severity := s\<rparr>)\<rparr>
                       | None \<Rightarrow> d)
             in (case ru_action r of Some a \<Rightarrow> force_action a d1 | None \<Rightarrow> d1)))"

definition timed_evaluate :: "rule \<Rightarrow> pytext \<Rightarrow> guard_context \<Rightarrow> string + decision" where
  "timed_evaluate r v ctx =
     (case ru_evaluate r v ctx of Inl e \<Rightarrow> Inl e | Inr d \<Rightarrow> Inr (apply_runtime_config r d))"

definition timed_evaluate_stream ::
  "rule \<Rightarrow> pytext \<Rightarrow> guard_context \<Rightarrow> stream_args \<Rightarrow> string + decision" where
  "timed_evaluate_stream r v ctx a =
     (case ru_evaluate_stream r v ctx a of Inl e \<Rightarrow> Inl e | Inr d \<Rightarrow> Inr (apply_runtime_config r d))"

text \<open>\<open>BaseRule.evaluate_stream\<close> ignores the stream counters unless a rule overrides it.\<close>

definition default_evaluate_stream ::
  "(pytext \<Rightarrow> guard_context \<Rightarrow> string + decision) \<Rightarrow>
   pytext \<Rightarrow> guard_context \<Rightarrow> stream_args \<Rightarrow> string + decision" where
  "default_evaluate_stream ev v ctx a = ev v ctx"

text \<open>\<open>_finding\<close> and \<open>_block\<close>: how a detector builds its own finding and decision.\<close>

definition rule_block ::
  "rule \<Rightarrow> severity \<Rightarrow> guard_action \<Rightarrow> string list \<Rightarrow> string \<Rightarrow> severity option \<Rightarrow>
   int option \<Rightarrow> int option \<Rightarrow> rat \<Rightarrow> guard_action option \<Rightarrow> (string, pyval) dict \<Rightarrow> decision" where
  "rule_block r default_severity default_action owasp msg sev off_start off_end conf action metadata =
     \<lparr>de_action = (case action of Some a \<Rightarrow> a | None \<Rightarrow> default_action),
      de_finding = Some
        \<lparr>fi_rule_id = ru_id r, fi_rule_name = ru_name r, fi_category = ru_category r,
         fi_severity = (case sev of Some s \<Rightarrow> s | None \<Rightarrow> default_severity),
         fi_message = msg, fi_offset_start = off_start, fi_offset_end = off_end,
         fi_redacted_value = None, fi_confidence = conf, fi_owasp = owasp,
         fi_metadata = metadata\<rparr>,
      de_transformed = None, de_rule_id = ru_id r, de_suppress_risk = False\<rparr>"

section \<open>What the runtime controls guarantee\<close>

lemma apply_runtime_config_no_finding [simp]:
  "de_finding d = None \<Longrightarrow> apply_runtime_config r d = d"
  by (simp add: apply_runtime_config_def)

lemma allow_decision_simps [simp]:
  "de_action (allow_decision rid) = ALLOW" "de_finding (allow_decision rid) = None"
  "de_transformed (allow_decision rid) = None" "\<not> de_suppress_risk (allow_decision rid)"
  by (simp_all add: allow_decision_def)

lemma force_action_simps [simp]:
  "de_finding (force_action a d) = de_finding d"
  "de_rule_id (force_action a d) = de_rule_id d"
  by (simp_all add: force_action_def)

lemma force_action_action:
  "de_action (force_action a d) =
     (if a \<in> {REDACT, TRANSFORM} \<and> de_transformed d = None then BLOCK else a)"
  by (auto simp: force_action_def)

lemma force_action_transformed:
  "de_transformed (force_action a d) = (if a = ALLOW then None else de_transformed d)"
  by (auto simp: force_action_def)

lemma force_action_suppress:
  "de_suppress_risk (force_action a d) \<longleftrightarrow> \<not> (a \<in> {REDACT, TRANSFORM} \<and> de_transformed d = None)"
  by (auto simp: force_action_def)

lemmas force_action_facts = force_action_action force_action_transformed force_action_suppress

definition below_threshold :: "rule \<Rightarrow> finding \<Rightarrow> bool" where
  "below_threshold r f \<longleftrightarrow> (\<exists>t. ru_threshold r = Some t \<and> fi_confidence f < t)"

lemma apply_runtime_config_finding:
  "de_finding d = Some f \<Longrightarrow> apply_runtime_config r d =
     (if below_threshold r f then allow_decision (ru_id r)
      else let d1 = (case ru_severity r of
                       Some s \<Rightarrow> d\<lparr>de_finding := Some (f\<lparr>fi_severity := s\<rparr>)\<rparr> | None \<Rightarrow> d)
           in (case ru_action r of Some a \<Rightarrow> force_action a d1 | None \<Rightarrow> d1))"
  by (auto simp: apply_runtime_config_def below_threshold_def split: option.splits)

text \<open>
  A configured REDACT or TRANSFORM never forwards the original content of a finding: after the
  runtime controls, either the finding was dropped for low confidence, or the decision blocks
  (and is not treated as handled), or it carries a replacement text.
\<close>

theorem forced_redaction_fails_closed:
  assumes "de_finding d = Some f" and "ru_action r \<in> {Some REDACT, Some TRANSFORM}"
  shows "apply_runtime_config r d = allow_decision (ru_id r) \<and> below_threshold r f
    \<or> de_action (apply_runtime_config r d) = BLOCK \<and> \<not> de_suppress_risk (apply_runtime_config r d)
        \<and> de_transformed d = None
    \<or> Some (de_action (apply_runtime_config r d)) = ru_action r
        \<and> de_transformed (apply_runtime_config r d) = de_transformed d \<and> de_transformed d \<noteq> None"
  using assms
  by (auto simp: apply_runtime_config_finding force_action_facts Let_def split: option.splits)

definition demo_rule :: rule where
  "demo_rule = \<lparr>ru_id = ''SD-001'', ru_name = ''PII'', ru_category = SENSITIVE_DATA,
     ru_phase = DETECT, ru_enabled = True, ru_action = Some REDACT, ru_severity = None,
     ru_threshold = None, ru_fail_mode = Some CLOSED,
     ru_evaluate = (\<lambda>v ctx. Inl ''ValueError''),
     ru_evaluate_stream = (\<lambda>v ctx a. Inl ''ValueError'')\<rparr>"

definition demo_decision :: decision where
  "demo_decision = \<lparr>de_action = WARN,
     de_finding = Some (mk_finding ''SD-001'' ''PII'' SENSITIVE_DATA MEDIUM ''card''),
     de_transformed = None, de_rule_id = ''SD-001'', de_suppress_risk = False\<rparr>"

theorem forced_redaction_fails_closed_witness:
  "de_action (apply_runtime_config demo_rule demo_decision) = BLOCK"
  using forced_redaction_fails_closed
    [of demo_decision "mk_finding ''SD-001'' ''PII'' SENSITIVE_DATA MEDIUM ''card''" demo_rule]
  by (simp add: demo_decision_def demo_rule_def below_threshold_def)

end
