(* ===== verification/Guard_Engine.thy ===== *)
theory Guard_Engine
  imports Rule_Base
begin

text \<open>
  The synchronous core of \<open>guard.py\<close>: the configuration merge and rule cache, the rules selected
  for a stage, the evaluation loop with its fail-closed exception path, and the decision table
  \<open>_determine_action\<close>.

  The engine remembers a handled finding by \<open>id(finding)\<close>. Every rule evaluation builds a new
  finding object, so the object is represented by its position in the list of findings.
\<close>

section \<open>Configuration\<close>

text \<open>
  A pydantic field that was not set explicitly (\<open>model_fields_set\<close>) is \<open>None\<close>; rule parameters,
  which rebuild a rule through its constructor, are outside the model.
\<close>

record rule_config =
  rc_enabled :: "bool option"
  rc_action :: "guard_action option"
  rc_severity_override :: "severity option option"
  rc_threshold :: "rat option"

datatype policy_id =
    P_prompt_injection | P_sensitive_data | P_supply_chain | P_output_safety | P_content_safety
  | P_resource | P_rag | P_memory | P_tools | P_agent

definition all_policy_ids :: "policy_id list" where
  "all_policy_ids = [P_prompt_injection, P_sensitive_data, P_supply_chain, P_output_safety,
     P_content_safety, P_resource, P_rag, P_memory, P_tools, P_agent]"

record guard_policy =
  gp_enabled :: bool
  gp_fail_mode :: "fail_mode option"
  gp_rules :: "(ident, rule_config) dict"
  gp_default_action :: "guard_action option"

record guard_config =
  gc_fail_mode :: fail_mode
  gc_block_at :: int
  gc_warn_at :: int
  gc_policies :: "(policy_id, guard_policy) dict"
  gc_rule_overrides :: "(ident, rule_config) dict"
  gc_audit_enabled :: bool
  gc_audit_include_metadata :: bool
  gc_sensitive_data_mode :: sensitive_data_mode
  gc_timeout_seconds :: seconds
  gc_strip_invisible_unicode :: bool
  gc_max_prompt_segments :: int
  gc_prompt_boundary_window :: int
  gc_enabled_categories :: "rule_category list option"
  gc_disabled_categories :: "rule_category list"

record rule_override =
  ov_enabled :: "bool option"
  ov_action :: "guard_action option"
  ov_severity :: "severity option"
  ov_threshold :: "rat option"

definition category_enabled :: "guard_config \<Rightarrow> rule_category \<Rightarrow> bool" where
  "category_enabled c cat \<longleftrightarrow>
     (case gc_enabled_categories c of Some en \<Rightarrow> cat \<in> set en | None \<Rightarrow> True) \<and>
     cat \<notin> set (gc_disabled_categories c)"

definition merge_config :: "rule_config \<Rightarrow> rule_override \<Rightarrow> rule_override" where
  "merge_config rc m =
     (let m1 = (case rc_enabled rc of Some b \<Rightarrow> m\<lparr>ov_enabled := Some b\<rparr> | None \<Rightarrow> m);
          m2 = (case rc_action rc of Some a \<Rightarrow> m1\<lparr>ov_action := Some a\<rparr> | None \<Rightarrow> m1);
          m3 = (case rc_severity_override rc of Some s \<Rightarrow> m2\<lparr>ov_severity := s\<rparr> | None \<Rightarrow> m2)
      in (case rc_threshold rc of Some t \<Rightarrow> m3\<lparr>ov_threshold := Some t\<rparr> | None \<Rightarrow> m3))"

definition merge_rule_override :: "guard_config \<Rightarrow> guard_policy option \<Rightarrow> ident \<Rightarrow> rule_override" where
  "merge_rule_override c pol rid =
     (let m0 = \<lparr>ov_enabled = None, ov_action = Option.bind pol gp_default_action,
                ov_severity = None, ov_threshold = None\<rparr>;
          cfgs = (case Option.bind pol (\<lambda>p. dict_get (gp_rules p) rid) of
                    Some rc \<Rightarrow> [rc] | None \<Rightarrow> []) @
                 (case dict_get (gc_rule_overrides c) rid of Some rc \<Rightarrow> [rc] | None \<Rightarrow> [])
      in fold merge_config cfgs m0)"

definition policy_fail_mode :: "guard_config \<Rightarrow> policy_id \<Rightarrow> fail_mode" where
  "policy_fail_mode c pid =
     (case Option.bind (dict_get (gc_policies c) pid) gp_fail_mode of
        Some m \<Rightarrow> m | None \<Rightarrow> gc_fail_mode c)"

definition configure_rule :: "guard_config \<Rightarrow> policy_id option \<Rightarrow> rule \<Rightarrow> rule" where
  "configure_rule c pid r =
     (let ov = merge_rule_override c (Option.bind pid (dict_get (gc_policies c))) (ru_id r);
          r1 = (case ov_enabled ov of Some b \<Rightarrow> r\<lparr>ru_enabled := b\<rparr> | None \<Rightarrow> r)
      in configure (ov_action ov) (ov_severity ov) (ov_threshold ov)
           (Some (case pid of Some p \<Rightarrow> policy_fail_mode c p | None \<Rightarrow> gc_fail_mode c)) r1)"

section \<open>The rule cache\<close>

text \<open>
  A policy of the guard is its enabled flag and the rules \<open>get_rules()\<close> returned. The guard holds
  the cache: configured rules of enabled policies and categories. \<open>g_protected\<close> is the
  constructor of the per-request rule SD-017.
\<close>

record 'p guard =
  g_config :: guard_config
  g_policy_rules :: "policy_id \<Rightarrow> rule list"
  g_standalone :: "rule list"
  g_extra :: "rule list"
  g_protected :: "'p list \<Rightarrow> rule"

datatype config_error =
    Unknown_policy_rules policy_id "ident list"
  | Unknown_global_rules "ident list"

definition configured_policy ::
  "guard_config \<Rightarrow> (policy_id \<Rightarrow> bool \<times> rule list) \<Rightarrow> policy_id \<Rightarrow> rule list" where
  "configured_policy c pols pid = map (configure_rule c (Some pid)) (snd (pols pid))"

definition enabled_rules :: "guard_config \<Rightarrow> rule list \<Rightarrow> rule list" where
  "enabled_rules c rs = filter (\<lambda>r. category_enabled c (ru_category r)) rs"

definition unknown_policy_rules ::
  "guard_config \<Rightarrow> (policy_id \<Rightarrow> bool \<times> rule list) \<Rightarrow> policy_id \<Rightarrow> ident list" where
  "unknown_policy_rules c pols pid =
     (case dict_get (gc_policies c) pid of
        None \<Rightarrow> []
      | Some p \<Rightarrow>
          filter (\<lambda>rid. rid \<notin> set (map ru_id (snd (pols pid)))) (map fst (gp_rules p)))"

definition build_rule_cache ::
  "guard_config \<Rightarrow> (policy_id \<Rightarrow> bool \<times> rule list) \<Rightarrow> rule list \<Rightarrow> rule list \<Rightarrow>
   ident list \<Rightarrow> ('p list \<Rightarrow> rule) \<Rightarrow> config_error + 'p guard" where
  "build_rule_cache c pols standalone extra async_ids protected_rule =
     (case find (\<lambda>pid. unknown_policy_rules c pols pid \<noteq> []) all_policy_ids of
        Some pid \<Rightarrow> Inl (Unknown_policy_rules pid (unknown_policy_rules c pols pid))
      | None \<Rightarrow>
          (let known = concat (map (\<lambda>pid. map ru_id (snd (pols pid))) all_policy_ids) @
                       map ru_id standalone @ map ru_id extra @ async_ids @ [''SD-017''];
               unknown = filter (\<lambda>rid. rid \<notin> set known) (map fst (gc_rule_overrides c))
           in if unknown \<noteq> [] then Inl (Unknown_global_rules unknown)
              else Inr
                \<lparr>g_config = c,
                 g_policy_rules = (\<lambda>pid. if fst (pols pid)
                    then enabled_rules c (configured_policy c pols pid) else []),
                 g_standalone = enabled_rules c (map (configure_rule c None) standalone),
                 g_extra = enabled_rules c (map (configure_rule c None) extra),
                 g_protected = protected_rule\<rparr>))"

definition stage_policies :: "guard_stage \<Rightarrow> policy_id list" where
  "stage_policies st =
     (if st \<in> {USER_INPUT, LLM_REQUEST} then [P_prompt_injection, P_sensitive_data]
      else if st = SYSTEM_PROMPT then [P_sensitive_data]
      else if st \<in> {LLM_RESPONSE, FINAL_OUTPUT, STREAM}
        then [P_output_safety, P_content_safety, P_sensitive_data]
      else if st \<in> {RAG_DOCUMENT, EXTERNAL_CONTENT, RAG_CONTEXT}
        then [P_prompt_injection, P_rag, P_supply_chain, P_sensitive_data]
      else if st = TOOL_REQUEST then [P_tools, P_prompt_injection, P_sensitive_data]
      else if st = TOOL_RESPONSE
        then [P_supply_chain, P_prompt_injection, P_output_safety, P_sensitive_data]
      else if st = AGENT_ACTION then [P_agent, P_prompt_injection, P_sensitive_data]
      else if st = MEMORY_READ then [P_prompt_injection, P_sensitive_data]
      else if st = MEMORY_WRITE then [P_prompt_injection, P_sensitive_data, P_memory]
      else [])"

definition get_rules_for_stage :: "'p guard \<Rightarrow> guard_stage \<Rightarrow> 'p list \<Rightarrow> rule list" where
  "get_rules_for_stage g st pd =
     g_policy_rules g P_resource
     @ filter (\<lambda>r. ru_id r = ''PI-016'') (g_standalone g)
     @ concat (map (g_policy_rules g) (stage_policies st))
     @ (if st \<in> {USER_INPUT, LLM_REQUEST}
        then filter (\<lambda>r. ru_category r = URL_SSRF) (g_standalone g) else [])
     @ g_extra g
     @ (if pd = [] then []
        else let r = configure_rule (g_config g) None (g_protected g pd)
             in if category_enabled (g_config g) (ru_category r) then [r] else [])"

section \<open>The decision table\<close>

text \<open>The findings that are not handled, given the positions of the handled ones.\<close>

fun unhandled_from :: "nat \<Rightarrow> nat set \<Rightarrow> finding list \<Rightarrow> finding list" where
  "unhandled_from i H [] = []"
| "unhandled_from i H (f # fs) =
     (if i \<in> H then unhandled_from (Suc i) H fs else f # unhandled_from (Suc i) H fs)"

abbreviation unhandled :: "nat set \<Rightarrow> finding list \<Rightarrow> finding list" where
  "unhandled H fs \<equiv> unhandled_from 0 H fs"

definition determine_action ::
  "risk_score \<Rightarrow> finding list \<Rightarrow> guard_action set \<Rightarrow> nat set \<Rightarrow> guard_action" where
  "determine_action score fs actions handled =
     (let actionable = unhandled handled fs;
          ascore = from_findings actionable (rs_block_at score) (rs_warn_at score)
      in if \<exists>f \<in> set actionable. fi_severity f = CRITICAL then BLOCK
         else if BLOCK \<in> actions then BLOCK
         else if should_block ascore then BLOCK
         else if QUARANTINE \<in> actions then QUARANTINE
         else if REQUIRE_APPROVAL \<in> actions then REQUIRE_APPROVAL
         else if RETRY \<in> actions then RETRY
         else if should_warn ascore \<or> WARN \<in> actions then WARN
         else if \<exists>f \<in> set actionable. fi_severity f = HIGH then WARN
         else if REDACT \<in> actions then REDACT
         else if TRANSFORM \<in> actions then TRANSFORM
         else ALLOW)"

definition apply_sensitive_data_mode :: "sensitive_data_mode \<Rightarrow> decision \<Rightarrow> bool \<times> decision" where
  "apply_sensitive_data_mode mode d =
     (case de_finding d of
        None \<Rightarrow> (False, d)
      | Some f \<Rightarrow>
          if fi_category f \<notin> {SENSITIVE_DATA, SECRET} then (False, d)
          else (case mode of
              SDM_DEFAULT \<Rightarrow> (False, d)
            | SDM_BLOCK \<Rightarrow> (False, d\<lparr>de_action := BLOCK\<rparr>)
            | SDM_REDACT \<Rightarrow>
                if de_transformed d \<noteq> None then (True, d\<lparr>de_action := REDACT\<rparr>)
                else (False, d\<lparr>de_action := BLOCK\<rparr>)
            | SDM_ALLOW \<Rightarrow> (True, d\<lparr>de_action := ALLOW, de_transformed := None\<rparr>)))"

text \<open>\<open>decision.suppress_risk or self._apply_sensitive_data_mode(decision)\<close>, which short-circuits.\<close>

definition policy_handling :: "sensitive_data_mode \<Rightarrow> decision \<Rightarrow> bool \<times> decision" where
  "policy_handling mode d =
     (if de_suppress_risk d then (True, d) else apply_sensitive_data_mode mode d)"

section \<open>The evaluation loop\<close>

record loop_state =
  ls_findings :: "finding list"
  ls_transformed :: "pytext option"
  ls_current :: pytext
  ls_requested :: "guard_action set"
  ls_handled :: "nat set"

text \<open>One decision absorbed: finding and handled mark, requested action, transformation.\<close>

definition absorb :: "bool \<Rightarrow> decision \<Rightarrow> loop_state \<Rightarrow> loop_state" where
  "absorb handled d st =
     (let st1 = (case de_finding d of
                   None \<Rightarrow> st
                 | Some f \<Rightarrow> st\<lparr>ls_findings := ls_findings st @ [f],
                     ls_handled := (if handled then insert (length (ls_findings st)) (ls_handled st)
                                    else ls_handled st)\<rparr>);
          st2 = (if de_action d \<noteq> TRANSFORM \<or> de_suppress_risk d
                 then st1\<lparr>ls_requested := insert (de_action d) (ls_requested st1)\<rparr> else st1)
      in (case de_transformed d of
            Some t \<Rightarrow> if de_action d \<in> {REDACT, TRANSFORM}
                      then st2\<lparr>ls_transformed := Some t, ls_current := t\<rparr> else st2
          | None \<Rightarrow> st2))"

text \<open>Critical and resource-limit findings end the loop.\<close>

definition stops_loop :: "bool \<Rightarrow> decision \<Rightarrow> bool" where
  "stops_loop handled d =
     (case de_finding d of
        None \<Rightarrow> False
      | Some f \<Rightarrow> fi_severity f = CRITICAL \<and> \<not> handled
                  \<or> de_action d = BLOCK \<and> fi_category f = RESOURCE)"

definition rule_failure_finding :: "rule \<Rightarrow> string \<Rightarrow> finding" where
  "rule_failure_finding r e =
     mk_finding (ru_id r) (ru_name r) (ru_category r) HIGH
       (''Rule evaluation failed (fail-closed): '' @ e)"

definition effective_fail_mode :: "fail_mode \<Rightarrow> rule \<Rightarrow> fail_mode" where
  "effective_fail_mode m r = (case ru_fail_mode r of Some fm \<Rightarrow> fm | None \<Rightarrow> m)"

definition absorb_failure :: "fail_mode \<Rightarrow> rule \<Rightarrow> string \<Rightarrow> loop_state \<Rightarrow> loop_state" where
  "absorb_failure m r e st =
     (if effective_fail_mode m r = CLOSED
      then st\<lparr>ls_requested := insert BLOCK (ls_requested st),
              ls_findings := ls_findings st @ [rule_failure_finding r e]\<rparr>
      else st)"

text \<open>One iteration for an enabled rule: whether the loop breaks, and the next state.\<close>

definition eval_rule :: "guard_config \<Rightarrow> guard_context \<Rightarrow> rule \<Rightarrow> loop_state \<Rightarrow> bool \<times> loop_state" where
  "eval_rule c ctx r st =
     (case timed_evaluate r (ls_current st) ctx of
        Inl e \<Rightarrow> (False, absorb_failure (gc_fail_mode c) r e st)
      | Inr d0 \<Rightarrow>
          (let (handled, d) = policy_handling (gc_sensitive_data_mode c) d0
           in (stops_loop handled d, absorb handled d st)))"

fun eval_loop :: "guard_config \<Rightarrow> guard_context \<Rightarrow> rule list \<Rightarrow> loop_state \<Rightarrow> loop_state" where
  "eval_loop c ctx [] st = st"
| "eval_loop c ctx (r # rs) st =
     (if \<not> ru_enabled r then eval_loop c ctx rs st
      else (let (stop, st') = eval_rule c ctx r st
            in if stop then st' else eval_loop c ctx rs st'))"

definition init_loop :: "pytext \<Rightarrow> loop_state" where
  "init_loop v = \<lparr>ls_findings = [], ls_transformed = None, ls_current = v,
     ls_requested = {}, ls_handled = {}\<rparr>"

record evaluation_state =
  es_result :: guard_result
  es_current :: pytext
  es_requested :: "guard_action set"
  es_handled :: "nat set"

definition evaluate_rules_state ::
  "'p guard \<Rightarrow> pytext \<Rightarrow> guard_stage \<Rightarrow> guard_context \<Rightarrow> 'p list \<Rightarrow> evaluation_state" where
  "evaluate_rules_state g v stage ctx pd =
     (let c = g_config g;
          rules = get_rules_for_stage g stage pd;
          st = eval_loop c ctx rules (init_loop v);
          score = from_findings (ls_findings st) (gc_block_at c) (gc_warn_at c);
          action = determine_action score (ls_findings st) (ls_requested st) (ls_handled st)
      in \<lparr>es_result =
            \<lparr>gr_action = action, gr_findings = ls_findings st, gr_score = score, gr_value = v,
             gr_transformed = ls_transformed st, gr_input_length = Some (int (length v)),
             gr_stage = stage, gr_context = Some ctx, gr_rules_evaluated = int (length rules)\<rparr>,
          es_current = ls_current st, es_requested = ls_requested st,
          es_handled = ls_handled st\<rparr>)"

definition evaluate_rules ::
  "'p guard \<Rightarrow> pytext \<Rightarrow> guard_stage \<Rightarrow> guard_context \<Rightarrow> 'p list \<Rightarrow> guard_result" where
  "evaluate_rules g v stage ctx pd = es_result (evaluate_rules_state g v stage ctx pd)"

definition timeout_result ::
  "guard_config \<Rightarrow> pytext \<Rightarrow> guard_stage \<Rightarrow> guard_context \<Rightarrow> guard_result" where
  "timeout_result c v stage ctx =
     (let fail_closed = (gc_fail_mode c = CLOSED);
          f = (mk_finding ''SYS-001'' ''Evaluation timeout'' RESOURCE HIGH
                (if fail_closed then ''Guard evaluation timed out (fail-closed)''
                 else ''Guard evaluation timed out (fail-open)''))
                \<lparr>fi_metadata := [(''timeout_seconds'', PFloat (gc_timeout_seconds c))]\<rparr>
      in \<lparr>gr_action = (if fail_closed then BLOCK else WARN), gr_findings = [f],
          gr_score = from_findings [f] (gc_block_at c) (gc_warn_at c), gr_value = v,
          gr_transformed = None, gr_input_length = Some (int (length v)), gr_stage = stage,
          gr_context = Some ctx, gr_rules_evaluated = 0\<rparr>)"

text \<open>Whether the worker thread misses the deadline is an input of the model.\<close>

definition evaluate_with_timeout ::
  "'p guard \<Rightarrow> bool \<Rightarrow> pytext \<Rightarrow> guard_stage \<Rightarrow> guard_context \<Rightarrow> 'p list \<Rightarrow> guard_result" where
  "evaluate_with_timeout g timed_out v stage ctx pd =
     (if timed_out then timeout_result (g_config g) v stage ctx
      else evaluate_rules g v stage ctx pd)"

section \<open>The decision table is monotone\<close>

fun action_rank :: "guard_action \<Rightarrow> nat" where
  "action_rank ALLOW = 0"
| "action_rank TRANSFORM = 1"
| "action_rank REDACT = 2"
| "action_rank WARN = 3"
| "action_rank RETRY = 4"
| "action_rank REQUIRE_APPROVAL = 5"
| "action_rank QUARANTINE = 6"
| "action_rank BLOCK = 7"

lemma action_rank_le_7 [simp]: "action_rank a \<le> 7"
  by (cases a) simp_all

lemma action_rank_7 [simp]: "action_rank a = 7 \<longleftrightarrow> a = BLOCK" "7 \<le> action_rank a \<longleftrightarrow> a = BLOCK"
  by (cases a; simp)+

lemma unhandled_append:
  "unhandled_from i H (fs @ gs) = unhandled_from i H fs @ unhandled_from (i + length fs) H gs"
  by (induction fs arbitrary: i) simp_all

lemma unhandled_insert_beyond:
  "i + length fs \<le> n \<Longrightarrow> unhandled_from i (insert n H) fs = unhandled_from i H fs"
  by (induction fs arbitrary: i) auto

lemma set_unhandled: "set (unhandled_from i H fs) \<subseteq> set fs"
  by (induction fs arbitrary: i) auto

lemma unhandled_empty [simp]: "unhandled_from i {} fs = fs"
  by (induction fs arbitrary: i) simp_all

lemma should_block_mono:
  "mset fs \<subseteq># mset gs \<Longrightarrow> should_block (from_findings fs b w) \<Longrightarrow> should_block (from_findings gs b w)"
  using from_findings_mono [of fs gs b w b w] by (simp add: should_block_def)

lemma should_warn_mono:
  "mset fs \<subseteq># mset gs \<Longrightarrow> should_warn (from_findings fs b w) \<Longrightarrow> should_warn (from_findings gs b w)"
  using from_findings_mono [of fs gs b w b w] by (simp add: should_warn_def)

lemma has_severity_mono:
  "mset fs \<subseteq># mset gs \<Longrightarrow> \<exists>f \<in> set fs. fi_severity f = s \<Longrightarrow> \<exists>f \<in> set gs. fi_severity f = s"
  by (metis mset_subset_eqD set_mset_mset)

lemma determine_action_BLOCK_iff:
  "determine_action score fs A H = BLOCK \<longleftrightarrow>
     (\<exists>f \<in> set (unhandled H fs). fi_severity f = CRITICAL) \<or> BLOCK \<in> A \<or>
     should_block (from_findings (unhandled H fs) (rs_block_at score) (rs_warn_at score))"
  by (simp add: determine_action_def Let_def)

lemma rank_if_mono:
  assumes "c \<Longrightarrow> c'" and "action_rank x \<le> action_rank y" and "action_rank x \<le> action_rank a"
  shows "action_rank (if c then a else x) \<le> action_rank (if c' then a else y)"
  using assms by simp

lemma determine_action_mono:
  assumes "A \<subseteq> A'" and "mset (unhandled H fs) \<subseteq># mset (unhandled H' fs')"
    and "rs_block_at s = rs_block_at s'" and "rs_warn_at s = rs_warn_at s'"
  shows "action_rank (determine_action s fs A H) \<le> action_rank (determine_action s' fs' A' H')"
proof -
  let ?f = "from_findings (unhandled H fs) (rs_block_at s') (rs_warn_at s')"
    and ?f' = "from_findings (unhandled H' fs') (rs_block_at s') (rs_warn_at s')"
  have m: "should_block ?f \<Longrightarrow> should_block ?f'" "should_warn ?f \<Longrightarrow> should_warn ?f'"
    "\<And>v. \<exists>f \<in> set (unhandled H fs). fi_severity f = v \<Longrightarrow>
       \<exists>f \<in> set (unhandled H' fs'). fi_severity f = v"
    using assms(2) by (blast intro: should_block_mono should_warn_mono has_severity_mono)+
  have w: "should_warn ?f \<or> WARN \<in> A \<Longrightarrow> should_warn ?f' \<or> WARN \<in> A'"
    using m(2) assms(1) by blast
  show ?thesis
    unfolding determine_action_def Let_def assms(3,4)
    by (intro rank_if_mono m w subsetD [OF assms(1)]) simp_all
qed

text \<open>
  More evidence never weakens the verdict. If the requested actions and the unhandled findings
  of one evaluation are contained in those of another, with the same thresholds, the second
  verdict is at least as strict, in the order ALLOW, TRANSFORM, REDACT, WARN, RETRY,
  REQUIRE_APPROVAL, QUARANTINE, BLOCK.
\<close>

theorem determine_action_monotone:
  assumes "A \<subseteq> A'" and "mset (unhandled H fs) \<subseteq># mset (unhandled H' fs')"
    and "rs_block_at s = rs_block_at s'" and "rs_warn_at s = rs_warn_at s'"
  shows "action_rank (determine_action s fs A H) \<le> action_rank (determine_action s' fs' A' H')"
  using assms by (rule determine_action_mono)

text \<open>Witness: a medium finding alone allows, with a requested quarantine it quarantines.\<close>

theorem determine_action_monotone_witness:
  "action_rank (determine_action (from_findings [] 80 40) [] {} {}) \<le>
   action_rank (determine_action (from_findings [] 80 40)
     [mk_finding ''TL-002'' ''Tool'' TOOL MEDIUM ''m''] {QUARANTINE} {})"
  by (rule determine_action_monotone) simp_all

section \<open>The loop preserves verdicts\<close>

definition verdict :: "guard_config \<Rightarrow> loop_state \<Rightarrow> guard_action" where
  "verdict c st = determine_action
     (from_findings (ls_findings st) (gc_block_at c) (gc_warn_at c))
     (ls_findings st) (ls_requested st) (ls_handled st)"

definition handled_ok :: "loop_state \<Rightarrow> bool" where
  "handled_ok st \<longleftrightarrow> (\<forall>i \<in> ls_handled st. i < length (ls_findings st))"

lemma absorb_findings:
  "ls_findings (absorb h d st) = ls_findings st @ (case de_finding d of None \<Rightarrow> [] | Some f \<Rightarrow> [f])"
  by (auto simp: absorb_def Let_def split: option.splits)

lemma absorb_handled:
  "ls_handled (absorb h d st) =
     (if h \<and> de_finding d \<noteq> None then insert (length (ls_findings st)) (ls_handled st)
      else ls_handled st)"
  by (auto simp: absorb_def Let_def split: option.splits)

lemma absorb_requested:
  "ls_requested (absorb h d st) =
     (if de_action d \<noteq> TRANSFORM \<or> de_suppress_risk d then insert (de_action d) (ls_requested st)
      else ls_requested st)"
  by (auto simp: absorb_def Let_def split: option.splits)

lemma absorb_current:
  "ls_current (absorb h d st) =
     (if de_action d \<in> {REDACT, TRANSFORM} then
        (case de_transformed d of Some t \<Rightarrow> t | None \<Rightarrow> ls_current st) else ls_current st)"
  by (auto simp: absorb_def Let_def split: option.splits)

lemmas absorb_facts = absorb_findings absorb_handled absorb_requested absorb_current

lemma absorb_failure_facts:
  "ls_findings (absorb_failure m r e st) = ls_findings st @
     (if effective_fail_mode m r = CLOSED then [rule_failure_finding r e] else [])"
  "ls_handled (absorb_failure m r e st) = ls_handled st"
  "ls_requested (absorb_failure m r e st) =
     (if effective_fail_mode m r = CLOSED then insert BLOCK (ls_requested st) else ls_requested st)"
  "ls_current (absorb_failure m r e st) = ls_current st"
  by (simp_all add: absorb_failure_def)

lemma handled_ok_init [simp]: "handled_ok (init_loop v)"
  by (simp add: handled_ok_def init_loop_def)

lemma handled_ok_absorb: "handled_ok st \<Longrightarrow> handled_ok (absorb h d st)"
  by (auto simp: handled_ok_def absorb_facts split: option.splits)

lemma handled_ok_absorb_failure: "handled_ok st \<Longrightarrow> handled_ok (absorb_failure m r e st)"
  by (auto simp: handled_ok_def absorb_failure_facts)

lemma absorb_unhandled:
  "mset (unhandled (ls_handled st) (ls_findings st)) \<subseteq>#
   mset (unhandled (ls_handled (absorb h d st)) (ls_findings (absorb h d st)))"
  by (auto simp: absorb_facts unhandled_append unhandled_insert_beyond split: option.splits)

lemma verdict_absorb_mono: "action_rank (verdict c st) \<le> action_rank (verdict c (absorb h d st))"
  unfolding verdict_def
  by (rule determine_action_mono [OF _ absorb_unhandled]) (auto simp: absorb_requested)

lemma verdict_absorb_failure_mono:
  "action_rank (verdict c st) \<le> action_rank (verdict c (absorb_failure m r e st))"
  unfolding verdict_def
  by (rule determine_action_mono) (auto simp: absorb_failure_facts unhandled_append)

text \<open>Absorbing decisions, in any number, never lowers a verdict that has reached rank \<open>n\<close>.\<close>

interpretation verdict_gate: preserved "\<lambda>st (h, d). absorb h d st"
    "\<lambda>st. n \<le> action_rank (verdict c st)" "\<lambda>_. True" for n c
  by unfold_locales (auto intro: order_trans [OF _ verdict_absorb_mono])

end
