(* ===== verification/Guard_Verdicts.thy ===== *)
theory Guard_Verdicts
  imports Guard_Engine
begin

text \<open>
  Correctness of the synchronous engine: which rules a guard can run at all, that an evaluation
  which does not block has consulted every enabled rule, and that failing detectors and sensitive
  findings end in the verdict the configuration asks for.
\<close>

section \<open>Which rules can run\<close>

lemma configure_rule_simps [simp]:
  "ru_category (configure_rule c p r) = ru_category r"
  "ru_id (configure_rule c p r) = ru_id r"
  "ru_evaluate (configure_rule c p r) = ru_evaluate r"
  "ru_phase (configure_rule c p r) = ru_phase r"
  by (auto simp: configure_rule_def configure_def Let_def split: option.splits)

lemma configure_rule_fail_mode:
  "ru_fail_mode (configure_rule c p r) =
     Some (case p of Some q \<Rightarrow> policy_fail_mode c q | None \<Rightarrow> gc_fail_mode c)"
  by (simp add: configure_rule_def configure_def Let_def)

lemma enabled_rules_category: "r \<in> set (enabled_rules c rs) \<Longrightarrow> category_enabled c (ru_category r)"
  by (simp add: enabled_rules_def)

lemma build_rule_cache_Inr:
  assumes "build_rule_cache c pols standalone extra ids prot = Inr g"
  shows "g_config g = c"
    and "g_policy_rules g = (\<lambda>pid. if fst (pols pid)
           then enabled_rules c (configured_policy c pols pid) else [])"
    and "g_standalone g = enabled_rules c (map (configure_rule c None) standalone)"
    and "g_extra g = enabled_rules c (map (configure_rule c None) extra)"
  using assms by (auto simp: build_rule_cache_def Let_def split: option.splits if_splits)

lemma policy_rules_category:
  assumes "build_rule_cache c pols standalone extra ids prot = Inr g"
    and "r \<in> set (g_policy_rules g pid)"
  shows "category_enabled c (ru_category r)"
  using assms(2) build_rule_cache_Inr(2) [OF assms(1)]
  by (auto dest: enabled_rules_category split: if_splits)

text \<open>
  A guard built from a configuration never runs a rule of a switched-off category. Every rule
  selected for any stage belongs to a category that is on the allowlist, if there is one, and not
  on the denylist, which therefore wins over the allowlist.
\<close>

theorem stage_rules_category_enabled:
  assumes "build_rule_cache c pols standalone extra ids prot = Inr g"
    and "r \<in> set (get_rules_for_stage g st pd)"
  shows "ru_category r \<notin> set (gc_disabled_categories c) \<and>
    (case gc_enabled_categories c of Some en \<Rightarrow> ru_category r \<in> set en | None \<Rightarrow> True)"
proof -
  note g = build_rule_cache_Inr [OF assms(1)]
  have "category_enabled c (ru_category r)"
    using assms(2) policy_rules_category [OF assms(1)]
    unfolding get_rules_for_stage_def
    by (auto simp: g(1) g(3,4) Let_def dest: enabled_rules_category split: if_splits)
  then show ?thesis by (auto simp: category_enabled_def)
qed

section \<open>The trace of an evaluation\<close>

text \<open>The rules the loop evaluates, each with the text it is given, in order.\<close>

fun eval_trace ::
  "guard_config \<Rightarrow> guard_context \<Rightarrow> rule list \<Rightarrow> loop_state \<Rightarrow> (rule \<times> pytext) list" where
  "eval_trace c ctx [] st = []"
| "eval_trace c ctx (r # rs) st =
     (if \<not> ru_enabled r then eval_trace c ctx rs st
      else (r, ls_current st) #
        (let (stop, st') = eval_rule c ctx r st
         in if stop then [] else eval_trace c ctx rs st'))"

definition check_trace ::
  "'p guard \<Rightarrow> pytext \<Rightarrow> guard_stage \<Rightarrow> guard_context \<Rightarrow> 'p list \<Rightarrow> (rule \<times> pytext) list" where
  "check_trace g v stage ctx pd =
     eval_trace (g_config g) ctx (get_rules_for_stage g stage pd) (init_loop v)"

lemma evaluate_rules_verdict:
  "gr_action (evaluate_rules g v stage ctx pd) =
   verdict (g_config g) (eval_loop (g_config g) ctx (get_rules_for_stage g stage pd) (init_loop v))"
  by (simp add: evaluate_rules_def evaluate_rules_state_def Let_def verdict_def)

lemma eval_rule_mono:
  "eval_rule c ctx r st = (stop, st') \<Longrightarrow> action_rank (verdict c st) \<le> action_rank (verdict c st')"
  by (auto simp: eval_rule_def Let_def verdict_absorb_mono verdict_absorb_failure_mono
      split: sum.splits prod.splits)

lemma handled_ok_eval_rule: "handled_ok st \<Longrightarrow> eval_rule c ctx r st = (stop, st') \<Longrightarrow> handled_ok st'"
  by (auto simp: eval_rule_def Let_def handled_ok_absorb handled_ok_absorb_failure
      split: sum.splits prod.splits)

lemma eval_loop_mono: "action_rank (verdict c st) \<le> action_rank (verdict c (eval_loop c ctx rs st))"
proof (induction rs arbitrary: st)
  case (Cons r rs)
  obtain stop st' where step: "eval_rule c ctx r st = (stop, st')" by (cases "eval_rule c ctx r st")
  show ?case using Cons [of st] Cons [of st'] eval_rule_mono [OF step] step by auto
qed simp

lemma eval_loop_stays_blocked: "verdict c st = BLOCK \<Longrightarrow> verdict c (eval_loop c ctx rs st) = BLOCK"
  using eval_loop_mono [of c st ctx rs] by simp

lemma verdict_BLOCK_iff:
  "verdict c st = BLOCK \<longleftrightarrow>
     (\<exists>f \<in> set (unhandled (ls_handled st) (ls_findings st)). fi_severity f = CRITICAL) \<or>
     BLOCK \<in> ls_requested st \<or>
     should_block (from_findings (unhandled (ls_handled st) (ls_findings st))
       (gc_block_at c) (gc_warn_at c))"
  by (simp add: verdict_def determine_action_BLOCK_iff)

lemma absorb_blocks_on_request: "de_action d = BLOCK \<Longrightarrow> verdict c (absorb h d st) = BLOCK"
  by (simp add: verdict_BLOCK_iff absorb_requested)

lemma absorb_blocks_on_critical:
  assumes "handled_ok st" and "de_finding d = Some f" and "fi_severity f = CRITICAL" and "\<not> h"
  shows "verdict c (absorb h d st) = BLOCK"
proof -
  have "length (ls_findings st) \<notin> ls_handled st" using assms(1) by (auto simp: handled_ok_def)
  then show ?thesis using assms by (auto simp: verdict_BLOCK_iff absorb_facts unhandled_append)
qed

lemma stop_blocks:
  "handled_ok st \<Longrightarrow> eval_rule c ctx r st = (True, st') \<Longrightarrow> verdict c st' = BLOCK"
  by (auto simp: eval_rule_def Let_def stops_loop_def
      split: sum.splits prod.splits option.splits
      intro: absorb_blocks_on_request absorb_blocks_on_critical)

text \<open>
  What one evaluated rule forces: if its step blocks whatever the state was, the loop blocks.
\<close>

lemma eval_loop_forced:
  assumes "handled_ok st" and "(r, v) \<in> set (eval_trace c ctx rs st)"
    and "\<And>s stop s'. handled_ok s \<Longrightarrow> ls_current s = v \<Longrightarrow> eval_rule c ctx r s = (stop, s') \<Longrightarrow>
           verdict c s' = BLOCK"
  shows "verdict c (eval_loop c ctx rs st) = BLOCK"
  using assms(1,2)
proof (induction rs arbitrary: st)
  case (Cons q rs)
  obtain stop st' where step: "eval_rule c ctx q st = (stop, st')"
    by (cases "eval_rule c ctx q st")
  have ok: "handled_ok st'" using handled_ok_eval_rule [OF Cons.prems(1) step] .
  show ?case
  proof (cases "ru_enabled q \<and> (q, ls_current st) = (r, v)")
    case True
    then have "verdict c st' = BLOCK" using assms(3) [OF Cons.prems(1)] step by auto
    then show ?thesis using True step by (auto simp: eval_loop_stays_blocked)
  next
    case False
    then show ?thesis using Cons.IH [OF Cons.prems(1)] Cons.IH [OF ok] Cons.prems step
      by (auto split: if_splits)
  qed
qed simp

lemma eval_trace_complete:
  "handled_ok st \<Longrightarrow> verdict c (eval_loop c ctx rs st) \<noteq> BLOCK \<Longrightarrow>
   map fst (eval_trace c ctx rs st) = filter ru_enabled rs"
proof (induction rs arbitrary: st)
  case (Cons r rs)
  obtain stop st' where step: "eval_rule c ctx r st = (stop, st')"
    by (cases "eval_rule c ctx r st")
  have ok: "handled_ok st'" using handled_ok_eval_rule [OF Cons.prems(1) step] .
  show ?case
    using Cons.IH [OF Cons.prems(1)] Cons.IH [OF ok] Cons.prems step stop_blocks [OF Cons.prems(1), of c ctx r st']
    by (auto split: if_splits)
qed simp

text \<open>
  C1: complete mediation. An evaluation that does not block has run every enabled rule selected
  for the stage, in order: the loop is never left early with anything but BLOCK.
\<close>

theorem unblocked_check_ran_every_rule:
  assumes "gr_action (evaluate_rules g v stage ctx pd) \<noteq> BLOCK"
  shows "map fst (check_trace g v stage ctx pd) = filter ru_enabled (get_rules_for_stage g stage pd)"
  using assms unfolding evaluate_rules_verdict check_trace_def
  by (intro eval_trace_complete) simp_all

text \<open>
  C2: fail-closed rules. If any rule the evaluation runs raises on the text it is given, and its
  failure mode (its own, else the global one) is CLOSED, the verdict is BLOCK.
\<close>

theorem failing_rule_blocks:
  assumes "(r, u) \<in> set (check_trace g v stage ctx pd)" and "ru_evaluate r u ctx = Inl e"
    and "effective_fail_mode (gc_fail_mode (g_config g)) r = CLOSED"
  shows "gr_action (evaluate_rules g v stage ctx pd) = BLOCK"
  unfolding evaluate_rules_verdict
  by (rule eval_loop_forced [OF _ assms(1) [unfolded check_trace_def]])
    (use assms(2,3) in \<open>auto simp: eval_rule_def timed_evaluate_def verdict_BLOCK_iff
       absorb_failure_facts\<close>)

text \<open>
  Sensitive data is handled as configured. When a rule the evaluation runs reports a
  sensitive-data or secret finding that no explicit rule action has settled: in BLOCK mode the
  verdict is BLOCK; in REDACT mode it is BLOCK unless the rule supplied a replacement text.
\<close>

theorem sensitive_finding_enforced:
  assumes "(r, u) \<in> set (check_trace g v stage ctx pd)" and "timed_evaluate r u ctx = Inr d"
    and "de_finding d = Some f" and "fi_category f \<in> {SENSITIVE_DATA, SECRET}"
    and "\<not> de_suppress_risk d"
    and "gc_sensitive_data_mode (g_config g) = SDM_BLOCK \<or>
         gc_sensitive_data_mode (g_config g) = SDM_REDACT \<and> de_transformed d = None"
  shows "gr_action (evaluate_rules g v stage ctx pd) = BLOCK"
  unfolding evaluate_rules_verdict
  by (rule eval_loop_forced [OF _ assms(1) [unfolded check_trace_def]])
    (use assms(2-) in \<open>auto simp: eval_rule_def policy_handling_def apply_sensitive_data_mode_def
       intro!: absorb_blocks_on_request\<close>)

section \<open>Witnesses\<close>

text \<open>
  A guard with a closed-mode URL rule that raises, a resource rule that finds nothing, and a
  sensitive-data detector without a replacement.
\<close>

definition quiet_rule :: "ident \<Rightarrow> rule_category \<Rightarrow> rule" where
  "quiet_rule rid cat = \<lparr>ru_id = rid, ru_name = rid, ru_category = cat, ru_phase = DETECT,
     ru_enabled = True, ru_action = None, ru_severity = None, ru_threshold = None,
     ru_fail_mode = None, ru_evaluate = (\<lambda>v ctx. Inr (allow_decision rid)),
     ru_evaluate_stream = (\<lambda>v ctx a. Inr (allow_decision rid))\<rparr>"

definition raising_rule :: "ident \<Rightarrow> rule_category \<Rightarrow> rule" where
  "raising_rule rid cat = (quiet_rule rid cat)\<lparr>ru_evaluate := (\<lambda>v ctx. Inl ''ValueError'')\<rparr>"

definition pii_decision :: decision where
  "pii_decision = \<lparr>de_action = WARN,
     de_finding = Some (mk_finding ''SD-001'' ''PII'' SENSITIVE_DATA MEDIUM ''card''),
     de_transformed = None, de_rule_id = ''SD-001'', de_suppress_risk = False\<rparr>"

definition pii_rule :: rule where
  "pii_rule = (quiet_rule ''SD-001'' SENSITIVE_DATA)
     \<lparr>ru_evaluate := (\<lambda>v ctx. Inr pii_decision)\<rparr>"

definition demo_config :: guard_config where
  "demo_config = \<lparr>gc_fail_mode = CLOSED, gc_block_at = 80, gc_warn_at = 40, gc_policies = [],
     gc_rule_overrides = [], gc_audit_enabled = True, gc_audit_include_metadata = True,
     gc_sensitive_data_mode = SDM_REDACT, gc_timeout_seconds = 10,
     gc_strip_invisible_unicode = True, gc_max_prompt_segments = 64,
     gc_prompt_boundary_window = 512, gc_enabled_categories = None,
     gc_disabled_categories = [JAILBREAK]\<rparr>"

definition demo_context :: guard_context where
  "demo_context = \<lparr>cx_request_id = ''r1'', cx_session_id = None, cx_user_id = None,
     cx_tenant_id = None, cx_stage = USER_INPUT, cx_trust_level = UNTRUSTED, cx_metadata = [],
     cx_tags = []\<rparr>"

definition demo_guard :: "unit guard" where
  "demo_guard = \<lparr>g_config = demo_config,
     g_policy_rules = (\<lambda>p. if p = P_resource then [quiet_rule ''RES-001'' RESOURCE]
        else if p = P_sensitive_data then [pii_rule] else []),
     g_standalone = [raising_rule ''URL-001'' URL_SSRF], g_extra = [],
     g_protected = (\<lambda>_. quiet_rule ''SD-017'' SENSITIVE_DATA)\<rparr>"

definition quiet_guard :: "unit guard" where
  "quiet_guard = demo_guard\<lparr>g_policy_rules := (\<lambda>p. if p = P_resource
     then [quiet_rule ''RES-001'' RESOURCE] else []), g_standalone := []\<rparr>"

lemmas demo_defs = demo_guard_def quiet_guard_def demo_config_def demo_context_def pii_rule_def
  pii_decision_def raising_rule_def quiet_rule_def get_rules_for_stage_def stage_policies_def

lemmas engine_defs = check_trace_def eval_rule_def timed_evaluate_def policy_handling_def
  apply_sensitive_data_mode_def stops_loop_def absorb_failure_def effective_fail_mode_def
  absorb_def init_loop_def mk_finding_def rule_failure_finding_def apply_runtime_config_def
  allow_decision_def

theorem stage_rules_category_enabled_witness:
  "URL_SSRF \<notin> set (gc_disabled_categories demo_config)"
proof -
  obtain g :: "unit guard" where g: "build_rule_cache demo_config (\<lambda>_. (True, []))
      [quiet_rule ''URL-001'' URL_SSRF] [] [] (\<lambda>_. quiet_rule ''SD-017'' SENSITIVE_DATA) = Inr g"
    by (simp add: build_rule_cache_def unknown_policy_rules_def demo_config_def all_policy_ids_def)
  have "configure_rule demo_config None (quiet_rule ''URL-001'' URL_SSRF)
      \<in> set (get_rules_for_stage g USER_INPUT [])"
    using build_rule_cache_Inr(3) [OF g]
    by (simp add: get_rules_for_stage_def enabled_rules_def category_enabled_def demo_config_def
        quiet_rule_def)
  from stage_rules_category_enabled [OF g this] show ?thesis
    by (simp add: quiet_rule_def)
qed

theorem unblocked_check_ran_every_rule_witness:
  "map fst (check_trace quiet_guard [104, 105] USER_INPUT demo_context []) =
   [quiet_rule ''RES-001'' RESOURCE]"
proof -
  have "gr_action (evaluate_rules quiet_guard [104, 105] USER_INPUT demo_context []) \<noteq> BLOCK"
    by (simp add: evaluate_rules_verdict demo_defs engine_defs verdict_def determine_action_def
        from_findings_def should_block_def)
  from unblocked_check_ran_every_rule [OF this] show ?thesis
    by (simp add: demo_defs)
qed

theorem failing_rule_blocks_witness:
  "gr_action (evaluate_rules demo_guard [104, 105] LLM_REQUEST demo_context []) = BLOCK"
  by (rule failing_rule_blocks [where r = "raising_rule ''URL-001'' URL_SSRF"
        and u = "[104, 105]" and e = "''ValueError''"])
    (simp_all add: demo_defs engine_defs)

theorem sensitive_finding_enforced_witness:
  "gr_action (evaluate_rules demo_guard [104, 105] SYSTEM_PROMPT demo_context []) = BLOCK"
  by (rule sensitive_finding_enforced [where r = pii_rule and u = "[104, 105]"
        and d = pii_decision
        and f = "mk_finding ''SD-001'' ''PII'' SENSITIVE_DATA MEDIUM ''card''"])
    (simp_all add: demo_defs engine_defs)

end
