(* ===== verification/Guard_Async.thy ===== *)
theory Guard_Async
  imports Guard_Verdicts
begin

text \<open>
  The asynchronous checks of \<open>guard.py\<close>: how async rules and external providers are bound, how one
  of them is run inside its timeout and turned into decisions, and the pipeline that extends a
  synchronous evaluation with them. A check under \<open>asyncio.timeout\<close> ends in one of three ways: a
  reply, a timeout, an exception; which one, and the reply, are functions of the text and context.
\<close>

section \<open>Bindings\<close>

datatype 'a reply = Reply 'a | Timed_out | Raised

record document =
  do_id :: ident
  do_content :: pytext
  do_source :: "string option"
  do_source_url :: "string option"
  do_trust_level :: trust_level
  do_metadata :: "(string, pyval) dict"

text \<open>
  A \<open>BaseAsyncRule\<close> carries the runtime controls of a rule; any other object that follows the
  protocol is wrapped by the merged override.
\<close>

datatype async_rule =
    Base_async rule "pytext \<Rightarrow> guard_context \<Rightarrow> decision reply"
  | Protocol_async rule_override "pytext \<Rightarrow> guard_context \<Rightarrow> decision reply"

record async_binding =
  ab_rule :: async_rule
  ab_rule_id :: ident
  ab_phase :: rule_phase
  ab_enabled :: bool
  ab_fail_mode :: fail_mode
  ab_stages :: "guard_stage list"

datatype provider_kind = K_content_safety | K_prompt_injection | K_sensitive_data | K_grounding

record provider =
  pv_check :: "pytext \<Rightarrow> guard_context \<Rightarrow> document list \<Rightarrow> finding list reply"
  pv_redact :: "pytext \<Rightarrow> guard_context \<Rightarrow> pytext reply"

record provider_binding =
  pb_id :: ident
  pb_provider :: provider
  pb_kind :: provider_kind
  pb_fail_mode :: fail_mode
  pb_stages :: "guard_stage list"
  pb_action :: guard_action

record async_guard =
  ag_rules :: "async_binding list"
  ag_providers :: "provider_binding list"

definition all_stages :: "guard_stage list" where
  "all_stages = [USER_INPUT, SYSTEM_PROMPT, EXTERNAL_CONTENT, RAG_DOCUMENT, RAG_CONTEXT,
     LLM_REQUEST, LLM_RESPONSE, TOOL_REQUEST, TOOL_RESPONSE, AGENT_ACTION, MEMORY_READ,
     MEMORY_WRITE, STREAM, FINAL_OUTPUT]"

fun default_stages :: "provider_kind \<Rightarrow> guard_stage list" where
  "default_stages K_content_safety = [USER_INPUT, EXTERNAL_CONTENT, RAG_DOCUMENT, RAG_CONTEXT,
     LLM_REQUEST, LLM_RESPONSE, TOOL_REQUEST, TOOL_RESPONSE, AGENT_ACTION, MEMORY_READ,
     MEMORY_WRITE, FINAL_OUTPUT]"
| "default_stages K_prompt_injection = [USER_INPUT, EXTERNAL_CONTENT, RAG_DOCUMENT, RAG_CONTEXT,
     LLM_REQUEST, TOOL_REQUEST, TOOL_RESPONSE, AGENT_ACTION, MEMORY_READ, MEMORY_WRITE]"
| "default_stages K_sensitive_data = filter (\<lambda>s. s \<noteq> STREAM) all_stages"
| "default_stages K_grounding = [LLM_RESPONSE, FINAL_OUTPUT]"

fun default_action :: "provider_kind \<Rightarrow> guard_action" where
  "default_action K_sensitive_data = REDACT"
| "default_action _ = BLOCK"

fun default_category :: "provider_kind \<Rightarrow> rule_category" where
  "default_category K_content_safety = CONTENT_SAFETY"
| "default_category K_prompt_injection = PROMPT_INJECTION"
| "default_category K_sensitive_data = SENSITIVE_DATA"
| "default_category K_grounding = GROUNDING"

text \<open>
  What a caller registers. \<open>ar_enabled\<close>, \<open>ar_phase\<close>, \<open>ar_category\<close> and \<open>ar_own_fail_mode\<close> are the
  attributes the rule object has, with the defaults the code gives to absent ones.
\<close>

record async_registration =
  ar_rule_id :: ident
  ar_evaluate :: "pytext \<Rightarrow> guard_context \<Rightarrow> decision reply"
  ar_base :: "rule option"
  ar_category :: rule_category
  ar_phase :: rule_phase
  ar_enabled :: bool
  ar_own_fail_mode :: "fail_mode option"
  ar_fail_mode :: "fail_mode option"
  ar_stages :: "guard_stage list option"

definition bind_async_rule :: "guard_config \<Rightarrow> async_registration \<Rightarrow> async_binding" where
  "bind_async_rule c r =
     (let ov = merge_rule_override c None (ar_rule_id r);
          fm = (case ar_fail_mode r of Some m \<Rightarrow> m | None \<Rightarrow> gc_fail_mode c);
          own = (case ar_base r of Some b \<Rightarrow> Some fm | None \<Rightarrow> ar_own_fail_mode r)
      in \<lparr>ab_rule = (case ar_base r of
              Some b \<Rightarrow> Base_async
                (configure (ov_action ov) (ov_severity ov) (ov_threshold ov) (Some fm) b) (ar_evaluate r)
            | None \<Rightarrow> Protocol_async ov (ar_evaluate r)),
          ab_rule_id = ar_rule_id r, ab_phase = ar_phase r,
          ab_enabled = (case ov_enabled ov of Some b \<Rightarrow> b | None \<Rightarrow> ar_enabled r)
            \<and> category_enabled c (ar_category r),
          ab_fail_mode = (case ar_fail_mode r of Some m \<Rightarrow> m
            | None \<Rightarrow> (case own of Some m \<Rightarrow> m | None \<Rightarrow> gc_fail_mode c)),
          ab_stages = (case ar_stages r of Some ss \<Rightarrow> ss | None \<Rightarrow> all_stages)\<rparr>)"

text \<open>\<open>None\<close> is the \<open>ConfigurationError\<close> of a duplicate or already known identifier.\<close>

definition build_async_bindings ::
  "guard_config \<Rightarrow> ident list \<Rightarrow> async_registration list \<Rightarrow> async_binding list option" where
  "build_async_bindings c known rs =
     (if \<not> distinct (map ar_rule_id rs) \<or> (\<exists>r \<in> set rs. ar_rule_id r \<in> set known) then None
      else Some (map (bind_async_rule c) rs))"

record provider_registration =
  pr_id :: ident
  pr_provider :: provider
  pr_kind :: provider_kind
  pr_fail_mode :: "fail_mode option"
  pr_stages :: "guard_stage list option"
  pr_action :: "guard_action option"

definition bind_provider :: "guard_config \<Rightarrow> provider_registration \<Rightarrow> provider_binding" where
  "bind_provider c r =
     \<lparr>pb_id = pr_id r, pb_provider = pr_provider r, pb_kind = pr_kind r,
      pb_fail_mode = (case pr_fail_mode r of Some m \<Rightarrow> m | None \<Rightarrow> gc_fail_mode c),
      pb_stages = (case pr_stages r of Some ss \<Rightarrow> ss | None \<Rightarrow> default_stages (pr_kind r)),
      pb_action = (case pr_action r of Some a \<Rightarrow> a | None \<Rightarrow> default_action (pr_kind r))\<rparr>"

definition build_provider_bindings ::
  "guard_config \<Rightarrow> provider_registration list \<Rightarrow> provider_binding list option" where
  "build_provider_bindings c rs =
     (let kept = filter (\<lambda>r. category_enabled c (default_category (pr_kind r))) rs in
      if \<not> distinct (map pr_id kept) then None else Some (map (bind_provider c) kept))"

definition has_async_checks :: "async_guard \<Rightarrow> guard_stage \<Rightarrow> bool" where
  "has_async_checks ag st \<longleftrightarrow>
     (\<exists>b \<in> set (ag_rules ag). ab_enabled b \<and> st \<in> set (ab_stages b)) \<or>
     (\<exists>b \<in> set (ag_providers ag). st \<in> set (pb_stages b))"

section \<open>Running one check\<close>

record async_outcome =
  ao_decisions :: "decision list"
  ao_checks :: int

definition outcome_of :: "decision list \<Rightarrow> async_outcome" where
  "outcome_of ds = \<lparr>ao_decisions = ds, ao_checks = 1\<rparr>"

definition failure_outcome :: "ident \<Rightarrow> string \<Rightarrow> fail_mode \<Rightarrow> string \<Rightarrow> async_outcome" where
  "failure_outcome check_id check_kind fm err =
     (let closed = (fm = CLOSED);
          rid = ''ASYNC-'' @ check_id @ '':error'';
          f = (mk_finding rid ''Async safety check failure'' RESOURCE (if closed then HIGH else INFO)
                (if closed then ''Async safety check failed (fail-closed)''
                 else ''Async safety check failed (fail-open)''))
              \<lparr>fi_metadata := [(''check_id'', PStr check_id), (''check_kind'', PStr check_kind),
                 (''error_type'', PStr err)]\<rparr>
      in outcome_of
           [\<lparr>de_action = (if closed then BLOCK else WARN), de_finding = Some f, de_transformed = None,
             de_rule_id = rid, de_suppress_risk = \<not> closed\<rparr>])"

definition protocol_override :: "ident \<Rightarrow> rule_override \<Rightarrow> decision \<Rightarrow> decision" where
  "protocol_override rid ov d =
     (case de_finding d of
        None \<Rightarrow> d
      | Some f \<Rightarrow>
          if (case ov_threshold ov of Some t \<Rightarrow> fi_confidence f < t | None \<Rightarrow> False) then allow_decision rid
          else
            (let d1 = (case ov_severity ov of
                         Some s \<Rightarrow> d\<lparr>de_finding := Some (f\<lparr>fi_severity := s\<rparr>)\<rparr> | None \<Rightarrow> d)
             in (case ov_action ov of
                   None \<Rightarrow> d1
                 | Some a \<Rightarrow>
                     (let d2 = d1\<lparr>de_action := a, de_suppress_risk := True\<rparr> in
                      if a = ALLOW then d2\<lparr>de_transformed := None\<rparr>
                      else if a \<in> {REDACT, TRANSFORM} \<and> de_transformed d2 = None
                        then d2\<lparr>de_action := BLOCK, de_suppress_risk := False\<rparr>
                      else d2))))"

definition async_decision :: "ident \<Rightarrow> async_rule \<Rightarrow> pytext \<Rightarrow> guard_context \<Rightarrow> decision reply" where
  "async_decision rid ar v ctx =
     (case ar of
        Base_async r ev \<Rightarrow> (case ev v ctx of Reply d \<Rightarrow> Reply (apply_runtime_config r d) | e \<Rightarrow> e)
      | Protocol_async ov ev \<Rightarrow> (case ev v ctx of Reply d \<Rightarrow> Reply (protocol_override rid ov d) | e \<Rightarrow> e))"

definition run_async_rule ::
  "bool \<Rightarrow> pytext \<Rightarrow> guard_context \<Rightarrow> async_binding \<Rightarrow> async_outcome" where
  "run_async_rule allow_transformation v ctx b =
     (case async_decision (ab_rule_id b) (ab_rule b) v ctx of
        Reply d \<Rightarrow>
          if \<not> allow_transformation \<and> de_action d \<in> {REDACT, TRANSFORM}
          then failure_outcome (ab_rule_id b) ''async_rule'' (ab_fail_mode b) ''exception''
          else outcome_of [d]
      | Timed_out \<Rightarrow> failure_outcome (ab_rule_id b) ''async_rule'' (ab_fail_mode b) ''timeout''
      | Raised \<Rightarrow> failure_outcome (ab_rule_id b) ''async_rule'' (ab_fail_mode b) ''exception'')"

fun kind_name :: "provider_kind \<Rightarrow> string" where
  "kind_name K_content_safety = ''content_safety''"
| "kind_name K_prompt_injection = ''prompt_injection''"
| "kind_name K_sensitive_data = ''sensitive_data''"
| "kind_name K_grounding = ''grounding''"

fun kind_categories :: "provider_kind \<Rightarrow> rule_category list" where
  "kind_categories K_content_safety = [CONTENT_SAFETY]"
| "kind_categories K_prompt_injection = [PROMPT_INJECTION, JAILBREAK]"
| "kind_categories K_sensitive_data = [SENSITIVE_DATA, SECRET]"
| "kind_categories K_grounding = [GROUNDING]"

text \<open>\<open>_validate_provider_findings\<close>: a finding of a foreign category raises.\<close>

definition provider_findings ::
  "provider_binding \<Rightarrow> pytext \<Rightarrow> guard_context \<Rightarrow> document list option \<Rightarrow> finding list reply" where
  "provider_findings b v ctx docs =
     (if pb_kind b = K_grounding \<and> docs = None then Raised
      else (case pv_check (pb_provider b) v ctx (case docs of Some ds \<Rightarrow> ds | None \<Rightarrow> []) of
          Reply fs \<Rightarrow> if \<exists>f \<in> set fs. fi_category f \<notin> set (kind_categories (pb_kind b)) then Raised
                     else Reply fs
        | e \<Rightarrow> e))"

definition plain_decision :: "guard_action \<Rightarrow> pytext option \<Rightarrow> finding \<Rightarrow> decision" where
  "plain_decision a t f = \<lparr>de_action = a, de_finding = Some f, de_transformed = t,
     de_rule_id = fi_rule_id f, de_suppress_risk = False\<rparr>"

definition provider_decisions ::
  "provider_binding \<Rightarrow> pytext \<Rightarrow> guard_context \<Rightarrow> document list option \<Rightarrow> decision list reply" where
  "provider_decisions b v ctx docs =
     (case provider_findings b v ctx docs of
        Reply fs \<Rightarrow>
          if pb_kind b = K_sensitive_data then
            (if fs = [] then Reply []
             else (case pv_redact (pb_provider b) v ctx of
                 Reply t \<Rightarrow> Reply (map (if t \<noteq> v then plain_decision (pb_action b) (Some t)
                                        else plain_decision BLOCK None) fs)
               | Timed_out \<Rightarrow> Timed_out
               | Raised \<Rightarrow> Raised))
          else Reply (map (plain_decision (pb_action b) None) fs)
      | Timed_out \<Rightarrow> Timed_out
      | Raised \<Rightarrow> Raised)"

definition invoke_provider ::
  "pytext \<Rightarrow> guard_context \<Rightarrow> document list option \<Rightarrow> provider_binding \<Rightarrow> async_outcome" where
  "invoke_provider v ctx docs b =
     (case provider_decisions b v ctx docs of
        Reply ds \<Rightarrow> outcome_of ds
      | Timed_out \<Rightarrow> failure_outcome (pb_id b) (kind_name (pb_kind b)) (pb_fail_mode b) ''timeout''
      | Raised \<Rightarrow> failure_outcome (pb_id b) (kind_name (pb_kind b)) (pb_fail_mode b) ''exception'')"

section \<open>The pipeline\<close>

definition merge_decision :: "guard_config \<Rightarrow> decision \<Rightarrow> evaluation_state \<Rightarrow> evaluation_state" where
  "merge_decision c d0 s =
     (let (handled, d) = policy_handling (gc_sensitive_data_mode c) d0;
          fs = gr_findings (es_result s);
          s1 = (case de_finding d of
                  None \<Rightarrow> s
                | Some f \<Rightarrow> s\<lparr>es_result := (es_result s)\<lparr>gr_findings := fs @ [f]\<rparr>,
                    es_handled := (if handled then insert (length fs) (es_handled s) else es_handled s)\<rparr>);
          s2 = (if de_action d \<noteq> TRANSFORM \<or> de_suppress_risk d
                then s1\<lparr>es_requested := insert (de_action d) (es_requested s1)\<rparr> else s1)
      in (case de_transformed d of
            Some t \<Rightarrow> if de_action d \<in> {REDACT, TRANSFORM} then s2\<lparr>es_current := t\<rparr> else s2
          | None \<Rightarrow> s2))"

definition merge_outcome :: "guard_config \<Rightarrow> async_outcome \<Rightarrow> evaluation_state \<Rightarrow> evaluation_state" where
  "merge_outcome c oc s =
     fold (merge_decision c) (ao_decisions oc)
       (s\<lparr>es_result := (es_result s)
          \<lparr>gr_rules_evaluated := gr_rules_evaluated (es_result s) + ao_checks oc\<rparr>\<rparr>)"

definition state_action :: "guard_config \<Rightarrow> evaluation_state \<Rightarrow> guard_action" where
  "state_action c s = determine_action
     (from_findings (gr_findings (es_result s)) (gc_block_at c) (gc_warn_at c))
     (gr_findings (es_result s)) (es_requested s) (es_handled s)"

definition finalize_state :: "guard_config \<Rightarrow> evaluation_state \<Rightarrow> guard_result" where
  "finalize_state c s =
     (es_result s)
       \<lparr>gr_score := from_findings (gr_findings (es_result s)) (gc_block_at c) (gc_warn_at c),
        gr_action := state_action c s,
        gr_transformed := (if es_current s \<noteq> gr_value (es_result s) then Some (es_current s) else None)\<rparr>"

datatype async_check = Rule_check bool async_binding | Provider_check provider_binding

fun run_check :: "pytext \<Rightarrow> guard_context \<Rightarrow> document list option \<Rightarrow> async_check \<Rightarrow> async_outcome" where
  "run_check v ctx docs (Rule_check allow b) = run_async_rule allow v ctx b"
| "run_check v ctx docs (Provider_check b) = invoke_provider v ctx docs b"

text \<open>The checks that may transform run one after the other; a blocked state ends the pipeline.\<close>

fun run_sequential ::
  "guard_config \<Rightarrow> guard_context \<Rightarrow> document list option \<Rightarrow> async_check list \<Rightarrow> evaluation_state \<Rightarrow>
   bool \<times> evaluation_state" where
  "run_sequential c ctx docs [] s = (False, s)"
| "run_sequential c ctx docs (x # xs) s =
     (let s' = merge_outcome c (run_check (es_current s) ctx docs x) s in
      if state_action c s' = BLOCK then (True, s') else run_sequential c ctx docs xs s')"

definition transform_checks :: "async_guard \<Rightarrow> guard_stage \<Rightarrow> async_check list" where
  "transform_checks ag st =
     map (Rule_check True) (filter (\<lambda>b. ab_enabled b \<and> st \<in> set (ab_stages b)
        \<and> ab_phase b \<in> {NORMALIZE, TRANSFORM_PHASE}) (ag_rules ag))
     @ map Provider_check (filter (\<lambda>b. pb_kind b = K_sensitive_data \<and> st \<in> set (pb_stages b)) (ag_providers ag))"

definition detector_checks :: "async_guard \<Rightarrow> guard_stage \<Rightarrow> async_check list" where
  "detector_checks ag st =
     map (Rule_check False) (filter (\<lambda>b. ab_enabled b \<and> st \<in> set (ab_stages b)
        \<and> ab_phase b \<notin> {NORMALIZE, TRANSFORM_PHASE}) (ag_rules ag))
     @ map Provider_check (filter (\<lambda>b. pb_kind b \<noteq> K_sensitive_data \<and> st \<in> set (pb_stages b)) (ag_providers ag))"

definition run_detectors ::
  "guard_config \<Rightarrow> guard_context \<Rightarrow> document list option \<Rightarrow> async_check list \<Rightarrow> evaluation_state \<Rightarrow>
   evaluation_state" where
  "run_detectors c ctx docs xs s =
     fold (merge_outcome c) (map (run_check (es_current s) ctx docs) xs) s"

definition async_pipeline_state ::
  "'p guard \<Rightarrow> async_guard \<Rightarrow> pytext \<Rightarrow> guard_stage \<Rightarrow> guard_context \<Rightarrow> 'p list \<Rightarrow> document list option \<Rightarrow>
   evaluation_state" where
  "async_pipeline_state g ag v st ctx pd docs =
     (let c = g_config g; s = evaluate_rules_state g v st ctx pd in
      if is_blocked (es_result s) then s
      else (let (stop, s') = run_sequential c ctx docs (transform_checks ag st) s in
            if stop then s' else run_detectors c ctx docs (detector_checks ag st) s'))"

definition evaluate_async_pipeline ::
  "'p guard \<Rightarrow> async_guard \<Rightarrow> pytext \<Rightarrow> guard_stage \<Rightarrow> guard_context \<Rightarrow> 'p list \<Rightarrow> document list option \<Rightarrow>
   guard_result" where
  "evaluate_async_pipeline g ag v st ctx pd docs =
     finalize_state (g_config g) (async_pipeline_state g ag v st ctx pd docs)"

section \<open>An async check never weakens the verdict\<close>

text \<open>The part of an evaluation state the decision table reads, as a state of the synchronous loop.\<close>

definition as_loop :: "evaluation_state \<Rightarrow> loop_state" where
  "as_loop s = \<lparr>ls_findings = gr_findings (es_result s), ls_transformed = None, ls_current = es_current s,
     ls_requested = es_requested s, ls_handled = es_handled s\<rparr>"

lemma state_action_verdict: "state_action c s = verdict c (as_loop s)"
  by (simp add: state_action_def verdict_def as_loop_def)

text \<open>Merging a decision is absorbing it, up to the transformation recorded for the sync result.\<close>

lemma as_loop_merge_decision:
  "as_loop (merge_decision c d s) =
     (absorb (fst (policy_handling (gc_sensitive_data_mode c) d))
        (snd (policy_handling (gc_sensitive_data_mode c) d)) (as_loop s))\<lparr>ls_transformed := None\<rparr>"
  by (auto simp: merge_decision_def absorb_def as_loop_def Let_def split_def split: option.splits)

lemma verdict_ignores_transformed [simp]:
  "verdict c (st\<lparr>ls_transformed := t\<rparr>) = verdict c st"
  "handled_ok (st\<lparr>ls_transformed := t\<rparr>) = handled_ok st"
  by (simp_all add: verdict_def handled_ok_def)

lemma state_action_merge_decision:
  "action_rank (state_action c s) \<le> action_rank (state_action c (merge_decision c d s))"
  by (simp add: state_action_verdict as_loop_merge_decision verdict_absorb_mono)

lemma state_action_count [simp]:
  "state_action c (s\<lparr>es_result := (es_result s)\<lparr>gr_rules_evaluated := n\<rparr>\<rparr>) = state_action c s"
  by (simp add: state_action_def)

lemma state_action_fold:
  "action_rank (state_action c s) \<le> action_rank (state_action c (fold (merge_decision c) ds s))"
  by (induction ds arbitrary: s) (auto intro: order_trans [OF state_action_merge_decision])

lemma state_action_merge_outcome:
  "action_rank (state_action c s) \<le> action_rank (state_action c (merge_outcome c oc s))"
  unfolding merge_outcome_def
  by (rule order_trans [OF _ state_action_fold]) simp

lemma state_action_merge_outcomes:
  "action_rank (state_action c s) \<le> action_rank (state_action c (fold (merge_outcome c) ocs s))"
  by (induction ocs arbitrary: s) (auto intro: order_trans [OF state_action_merge_outcome])

lemma state_action_sequential:
  "run_sequential c ctx docs xs s = (stop, s') \<Longrightarrow>
   action_rank (state_action c s) \<le> action_rank (state_action c s') \<and> (stop \<longrightarrow> state_action c s' = BLOCK)"
proof (induction xs arbitrary: s)
  case (Cons x xs)
  note m = state_action_merge_outcome [of c s "run_check (es_current s) ctx docs x"]
  show ?case
    using Cons.prems Cons.IH [of "merge_outcome c (run_check (es_current s) ctx docs x) s"] m
    by (auto simp: Let_def split: if_splits)
qed simp

lemma finalize_state_action [simp]: "gr_action (finalize_state c s) = state_action c s"
  by (simp add: finalize_state_def)

lemma sync_state_action:
  "gr_action (es_result (evaluate_rules_state g v st ctx pd)) =
   state_action (g_config g) (evaluate_rules_state g v st ctx pd)"
  by (simp add: evaluate_rules_state_def Let_def state_action_def)

section \<open>Which checks run\<close>

text \<open>The async checks a pipeline runs, each with the text it is given.\<close>

fun sequential_trace ::
  "guard_config \<Rightarrow> guard_context \<Rightarrow> document list option \<Rightarrow> async_check list \<Rightarrow> evaluation_state \<Rightarrow>
   (async_check \<times> pytext) list" where
  "sequential_trace c ctx docs [] s = []"
| "sequential_trace c ctx docs (x # xs) s =
     (x, es_current s) #
       (let s' = merge_outcome c (run_check (es_current s) ctx docs x) s in
        if state_action c s' = BLOCK then [] else sequential_trace c ctx docs xs s')"

definition async_trace ::
  "'p guard \<Rightarrow> async_guard \<Rightarrow> pytext \<Rightarrow> guard_stage \<Rightarrow> guard_context \<Rightarrow> 'p list \<Rightarrow> document list option \<Rightarrow>
   (async_check \<times> pytext) list" where
  "async_trace g ag v st ctx pd docs =
     (let c = g_config g; s = evaluate_rules_state g v st ctx pd in
      if is_blocked (es_result s) then []
      else sequential_trace c ctx docs (transform_checks ag st) s @
        (let (stop, s') = run_sequential c ctx docs (transform_checks ag st) s in
         if stop then [] else map (\<lambda>x. (x, es_current s')) (detector_checks ag st)))"

lemma sequential_trace_complete:
  "run_sequential c ctx docs xs s = (False, s') \<Longrightarrow> map fst (sequential_trace c ctx docs xs s) = xs"
  by (induction xs arbitrary: s) (auto simp: Let_def split: if_splits)

text \<open>The outcome of a check whose failure mode is CLOSED and that did not reply properly.\<close>

fun fails_closed :: "pytext \<Rightarrow> guard_context \<Rightarrow> document list option \<Rightarrow> async_check \<Rightarrow> bool" where
  "fails_closed v ctx docs (Rule_check allow b) \<longleftrightarrow> ab_fail_mode b = CLOSED \<and>
     (case async_decision (ab_rule_id b) (ab_rule b) v ctx of
        Reply d \<Rightarrow> \<not> allow \<and> de_action d \<in> {REDACT, TRANSFORM} | _ \<Rightarrow> True)"
| "fails_closed v ctx docs (Provider_check b) \<longleftrightarrow> pb_fail_mode b = CLOSED \<and>
     (case provider_decisions b v ctx docs of Reply ds \<Rightarrow> False | _ \<Rightarrow> True)"

lemma failure_blocks:
  "fm = CLOSED \<Longrightarrow> state_action c (merge_outcome c (failure_outcome i k fm e) s) = BLOCK"
  by (simp add: failure_outcome_def outcome_of_def merge_outcome_def Let_def state_action_verdict
      as_loop_merge_decision policy_handling_def apply_sensitive_data_mode_def mk_finding_def
      absorb_blocks_on_request)

lemma fails_closed_blocks:
  assumes "fails_closed v ctx docs x"
  shows "state_action c (merge_outcome c (run_check v ctx docs x) s) = BLOCK"
  using assms
  by (cases x) (auto simp: run_async_rule_def invoke_provider_def failure_blocks split: reply.splits)

lemma sequential_fails_closed:
  "(x, u) \<in> set (sequential_trace c ctx docs xs s) \<Longrightarrow> fails_closed u ctx docs x \<Longrightarrow>
   fst (run_sequential c ctx docs xs s)"
  by (induction xs arbitrary: s) (auto simp: Let_def fails_closed_blocks split: if_splits)

lemma blocked_stays_blocked:
  "state_action c s = BLOCK \<Longrightarrow> state_action c (fold (merge_outcome c) ocs s) = BLOCK"
  using state_action_merge_outcomes [of c s ocs] by simp

lemma detectors_fail_closed:
  assumes "x \<in> set xs" and "fails_closed (es_current s) ctx docs x"
  shows "state_action c (run_detectors c ctx docs xs s) = BLOCK"
proof -
  obtain ps qs where xs: "xs = ps @ x # qs" using assms(1) by (meson split_list)
  show ?thesis
    unfolding run_detectors_def xs
    by (simp add: fails_closed_blocks [OF assms(2)] blocked_stays_blocked)
qed

lemma pipeline_cases:
  obtains (sync) "is_blocked (es_result (evaluate_rules_state g v st ctx pd))"
      "async_pipeline_state g ag v st ctx pd docs = evaluate_rules_state g v st ctx pd"
      "async_trace g ag v st ctx pd docs = []"
    | (seq) s' where "run_sequential (g_config g) ctx docs (transform_checks ag st)
          (evaluate_rules_state g v st ctx pd) = (True, s')"
      "async_pipeline_state g ag v st ctx pd docs = s'"
      "async_trace g ag v st ctx pd docs = sequential_trace (g_config g) ctx docs
         (transform_checks ag st) (evaluate_rules_state g v st ctx pd)"
    | (full) s' where "run_sequential (g_config g) ctx docs (transform_checks ag st)
          (evaluate_rules_state g v st ctx pd) = (False, s')"
      "async_pipeline_state g ag v st ctx pd docs = run_detectors (g_config g) ctx docs (detector_checks ag st) s'"
      "async_trace g ag v st ctx pd docs = sequential_trace (g_config g) ctx docs
         (transform_checks ag st) (evaluate_rules_state g v st ctx pd)
         @ map (\<lambda>x. (x, es_current s')) (detector_checks ag st)"
proof (cases "is_blocked (es_result (evaluate_rules_state g v st ctx pd))")
  case True
  then show ?thesis using sync by (simp add: async_pipeline_state_def async_trace_def Let_def)
next
  case False
  obtain stop s' where r: "run_sequential (g_config g) ctx docs (transform_checks ag st)
      (evaluate_rules_state g v st ctx pd) = (stop, s')" by fastforce
  show ?thesis
  proof (cases stop)
    case True
    then show ?thesis using False r seq by (simp add: async_pipeline_state_def async_trace_def Let_def)
  next
    case 2: False
    then show ?thesis using False r full by (simp add: async_pipeline_state_def async_trace_def Let_def)
  qed
qed

text \<open>
  C6: async checks only add strictness. The verdict of the async pipeline is at least as strict as
  that of the synchronous rules on the same text; if it is not BLOCK, every async rule and
  provider bound to the stage has been consulted, transforming checks first, and none whose
  failure mode is CLOSED timed out, raised, or answered improperly.
\<close>

theorem async_checks_only_strengthen:
  "action_rank (gr_action (evaluate_rules g v st ctx pd))
     \<le> action_rank (gr_action (evaluate_async_pipeline g ag v st ctx pd docs)) \<and>
   (gr_action (evaluate_async_pipeline g ag v st ctx pd docs) = BLOCK \<or>
    map fst (async_trace g ag v st ctx pd docs) = transform_checks ag st @ detector_checks ag st \<and>
    \<not> (\<exists>(x, u) \<in> set (async_trace g ag v st ctx pd docs). fails_closed u ctx docs x))"
proof -
  let ?s = "evaluate_rules_state g v st ctx pd"
  have sync: "gr_action (evaluate_rules g v st ctx pd) = state_action (g_config g) ?s"
    by (simp add: evaluate_rules_def sync_state_action)
  show ?thesis
  proof (cases rule: pipeline_cases [of g v st ctx pd ag docs])
    case sync': sync
    then show ?thesis
      using sync sync_state_action [of g v st ctx pd]
      by (simp add: evaluate_async_pipeline_def is_blocked_def)
  next
    case (seq s')
    then show ?thesis using state_action_sequential [OF seq(1)] sync
      by (simp add: evaluate_async_pipeline_def)
  next
    case (full s')
    have mono: "action_rank (state_action (g_config g) ?s)
        \<le> action_rank (state_action (g_config g) (run_detectors (g_config g) ctx docs (detector_checks ag st) s'))"
      using state_action_sequential [OF full(1)] state_action_merge_outcomes
      unfolding run_detectors_def by (meson order_trans)
    have seq: "\<not> fails_closed u ctx docs x"
      if "(x, u) \<in> set (sequential_trace (g_config g) ctx docs (transform_checks ag st) ?s)" for x u
      using sequential_fails_closed [OF that] full(1) by auto
    have det: "state_action (g_config g) (run_detectors (g_config g) ctx docs (detector_checks ag st) s') = BLOCK"
      if "x \<in> set (detector_checks ag st)" "fails_closed (es_current s') ctx docs x" for x
      using detectors_fail_closed [OF that] .
    show ?thesis
      using mono seq det sync sequential_trace_complete [OF full(1)]
      by (auto simp: evaluate_async_pipeline_def full(2,3) comp_def)
  qed
qed

text \<open>
  The two override mechanisms agree. Applying a merged override to the decision of a protocol
  rule has the effect that configuring a \<open>BaseAsyncRule\<close> with the same controls has.
\<close>

theorem protocol_override_equivalent:
  "protocol_override (ru_id r) ov d =
   apply_runtime_config (configure (ov_action ov) (ov_severity ov) (ov_threshold ov) fm r) d"
  by (auto simp: protocol_override_def apply_runtime_config_def configure_def force_action_def Let_def
      split: option.splits)

end
