(* ===== verification/Guard_Api.thy ===== *)
theory Guard_Api
  imports Guard_Async
begin

text \<open>
  The public methods of \<open>Guard\<close> that decide what is released: \<open>check\<close> and \<open>protect\<close> with their async
  forms, documents and RAG envelopes, conversations, composed prompts, and memory writes. Observable
  effects are kept in a trail: the alert callbacks fired and the audit events emitted. Whether an
  evaluation misses its deadline, the identifiers and times drawn for audit events, and the answers
  of the approval provider are parameters.
\<close>

section \<open>The service and its trail\<close>

record 'p service =
  sv_guard :: "'p guard"
  sv_async :: async_guard
  sv_alerts :: "severity list"
  sv_timed_out :: "pytext \<Rightarrow> guard_stage \<Rightarrow> guard_context \<Rightarrow> bool"
  sv_draw :: "nat \<Rightarrow> ident \<times> datetime"

record trail =
  tr_audit :: "audit_event list"
  tr_alerts :: "(nat \<times> guard_result) list"

datatype api_error =
    Async_required guard_stage
  | Content_blocked guard_stage guard_action "finding list" int "nat option"
  | Approval_required guard_stage "finding list" "nat option"
  | Role_unknown nat string
  | Role_conflict string
  | Resource_limit
  | Invalid_input

definition fresh_context :: "ident \<Rightarrow> guard_context" where
  "fresh_context rid = \<lparr>cx_request_id = rid, cx_session_id = None, cx_user_id = None,
     cx_tenant_id = None, cx_stage = USER_INPUT, cx_trust_level = UNTRUSTED, cx_metadata = [],
     cx_tags = []\<rparr>"

definition make_context :: "ident \<Rightarrow> guard_stage \<Rightarrow> (string, pyval) dict \<Rightarrow> guard_context" where
  "make_context rid st md = (fresh_context rid)\<lparr>cx_stage := st, cx_metadata := md\<rparr>"

text \<open>The callbacks whose threshold some finding reaches, in registration order.\<close>

definition fire_alerts :: "severity list \<Rightarrow> guard_result \<Rightarrow> trail \<Rightarrow> trail" where
  "fire_alerts cbs r t = t\<lparr>tr_alerts := tr_alerts t @
     map (\<lambda>(i, _). (i, r)) (filter (\<lambda>(_, s). \<exists>f \<in> set (gr_findings r). s \<le> fi_severity f)
       (List.enumerate 0 cbs))\<rparr>"

definition emit_event :: "'p service \<Rightarrow> guard_result \<Rightarrow> (audit_event \<Rightarrow> audit_event) \<Rightarrow> trail \<Rightarrow> trail" where
  "emit_event sv r f t =
     (if gc_audit_enabled (g_config (sv_guard sv)) then
        (let (eid, ts) = sv_draw sv (length (tr_audit t)) in
         t\<lparr>tr_audit := tr_audit t @
             [f (audit_from_result eid ts (gc_audit_include_metadata (g_config (sv_guard sv))) r)]\<rparr>)
      else t)"

definition observe :: "'p service \<Rightarrow> guard_result \<Rightarrow> trail \<Rightarrow> trail" where
  "observe sv r t = emit_event sv r id (fire_alerts (sv_alerts sv) r t)"

section \<open>Checking and protecting\<close>

definition check_result :: "'p service \<Rightarrow> pytext \<Rightarrow> guard_stage \<Rightarrow> guard_context \<Rightarrow> 'p list \<Rightarrow> guard_result" where
  "check_result sv v st ctx pd = evaluate_with_timeout (sv_guard sv) (sv_timed_out sv v st ctx) v st ctx pd"

definition check ::
  "'p service \<Rightarrow> pytext \<Rightarrow> guard_stage \<Rightarrow> guard_context \<Rightarrow> 'p list \<Rightarrow> trail \<Rightarrow>
   (api_error + guard_result) \<times> trail" where
  "check sv v st ctx pd t =
     (if has_async_checks (sv_async sv) st then (Inl (Async_required st), t)
      else (let r = check_result sv v st ctx pd in (Inr r, observe sv r t)))"

definition acheck_result ::
  "'p service \<Rightarrow> pytext \<Rightarrow> guard_stage \<Rightarrow> guard_context \<Rightarrow> 'p list \<Rightarrow> document list option \<Rightarrow> guard_result" where
  "acheck_result sv v st ctx pd docs =
     (if has_async_checks (sv_async sv) st then
        (if sv_timed_out sv v st ctx then timeout_result (g_config (sv_guard sv)) v st ctx
         else evaluate_async_pipeline (sv_guard sv) (sv_async sv) v st ctx pd docs)
      else check_result sv v st ctx pd)"

definition acheck ::
  "'p service \<Rightarrow> pytext \<Rightarrow> guard_stage \<Rightarrow> guard_context \<Rightarrow> 'p list \<Rightarrow> document list option \<Rightarrow> trail \<Rightarrow>
   guard_result \<times> trail" where
  "acheck sv v st ctx pd docs t =
     (let r = acheck_result sv v st ctx pd docs in (r, observe sv r t))"

text \<open>What \<open>protect\<close> and \<open>aprotect\<close> do with a result.\<close>

definition release :: "guard_stage \<Rightarrow> guard_result \<Rightarrow> api_error + pytext" where
  "release st r =
     (if is_blocked r then Inl (Content_blocked st BLOCK (gr_findings r) (rs_value (gr_score r)) None)
      else if gr_action r = REQUIRE_APPROVAL then Inl (Approval_required st (gr_findings r) None)
      else Inr (output_value r))"

definition protect ::
  "'p service \<Rightarrow> pytext \<Rightarrow> guard_stage \<Rightarrow> guard_context \<Rightarrow> 'p list \<Rightarrow> trail \<Rightarrow> (api_error + pytext) \<times> trail" where
  "protect sv v st ctx pd t =
     (case check sv v st ctx pd t of
        (Inl e, t') \<Rightarrow> (Inl e, t')
      | (Inr r, t') \<Rightarrow> (release st r, t'))"

definition aprotect ::
  "'p service \<Rightarrow> pytext \<Rightarrow> guard_stage \<Rightarrow> guard_context \<Rightarrow> 'p list \<Rightarrow> document list option \<Rightarrow> trail \<Rightarrow>
   (api_error + pytext) \<times> trail" where
  "aprotect sv v st ctx pd docs t =
     (let (r, t') = acheck sv v st ctx pd docs t in (release st r, t'))"

text \<open>\<open>_enforce_decorator_result\<close>: \<open>None\<close> lets the decorated call proceed.\<close>

definition enforce_decorator :: "guard_stage \<Rightarrow> bool \<Rightarrow> guard_result \<Rightarrow> api_error option" where
  "enforce_decorator st raise_on_block r =
     (if gr_action r = REQUIRE_APPROVAL then Some (Approval_required st (gr_findings r) None)
      else if \<not> raise_on_block then None
      else if gr_action r \<in> {BLOCK, QUARANTINE, RETRY}
        then Some (Content_blocked st BLOCK (gr_findings r) (rs_value (gr_score r)) None)
      else None)"

text \<open>The output decorator on a function that returned a text.\<close>

definition guard_output ::
  "'p service \<Rightarrow> guard_stage \<Rightarrow> bool \<Rightarrow> guard_context \<Rightarrow> pytext \<Rightarrow> trail \<Rightarrow> (api_error + pytext) \<times> trail" where
  "guard_output sv st raise_on_block ctx ret t =
     (case check sv ret st ctx [] t of
        (Inl e, t') \<Rightarrow> (Inl e, t')
      | (Inr r, t') \<Rightarrow> (case enforce_decorator st raise_on_block r of
                         Some e \<Rightarrow> (Inl e, t') | None \<Rightarrow> (Inr (output_value r), t')))"

section \<open>Documents and RAG envelopes\<close>

definition opt_str :: "string option \<Rightarrow> pyval" where
  "opt_str so = (case so of Some s \<Rightarrow> PStr s | None \<Rightarrow> PNone)"

definition document_context :: "document \<Rightarrow> guard_stage \<Rightarrow> guard_context \<Rightarrow> guard_context" where
  "document_context d st base = base\<lparr>cx_stage := st, cx_trust_level := do_trust_level d,
     cx_metadata := dict_merge (dict_merge (do_metadata d) (cx_metadata base))
       [(''document_id'', PStr (do_id d)), (''source'', opt_str (do_source d)),
        (''source_url'', opt_str (do_source_url d)), (''document_metadata'', PDict (do_metadata d))]\<rparr>"

definition check_document ::
  "'p service \<Rightarrow> document \<Rightarrow> guard_stage \<Rightarrow> guard_context \<Rightarrow> trail \<Rightarrow> (api_error + guard_result) \<times> trail" where
  "check_document sv d st base t = check sv (do_content d) st (document_context d st base) [] t"

record provenance_label =
  pl_document_id :: ident
  pl_source :: "string option"
  pl_source_url :: "string option"
  pl_trust_level :: trust_level
  pl_integrity :: string

record rag_segment =
  sg_provenance :: provenance_label
  sg_content :: pytext

text \<open>\<open>_integrity_digest\<close> (canonical JSON under SHA-256) is a parameter.\<close>

type_synonym integrity_digest =
  "ident \<Rightarrow> pytext \<Rightarrow> string option \<Rightarrow> string option \<Rightarrow> trust_level \<Rightarrow> string"

definition segment_of :: "integrity_digest \<Rightarrow> document \<Rightarrow> rag_segment" where
  "segment_of dg d = \<lparr>sg_provenance =
       \<lparr>pl_document_id = do_id d, pl_source = do_source d, pl_source_url = do_source_url d,
        pl_trust_level = do_trust_level d,
        pl_integrity = dg (do_id d) (do_content d) (do_source d) (do_source_url d) (do_trust_level d)\<rparr>,
     sg_content = do_content d\<rparr>"

definition segment_valid :: "integrity_digest \<Rightarrow> rag_segment \<Rightarrow> bool" where
  "segment_valid dg s = (let p = sg_provenance s in
     pl_integrity p = dg (pl_document_id p) (sg_content s) (pl_source p) (pl_source_url p) (pl_trust_level p))"

text \<open>\<open>any(value and value.strip() for value in ...)\<close>: a source with a character other than white space.\<close>

definition nonblank :: "string option \<Rightarrow> bool" where
  "nonblank so = (case so of None \<Rightarrow> False
     | Some s \<Rightarrow> \<exists>c \<in> set s. c \<notin> {CHR '' '', CHR 0x09, CHR 0x0A, CHR 0x0B, CHR 0x0C, CHR 0x0D,
         CHR 0x1C, CHR 0x1D, CHR 0x1E, CHR 0x1F, CHR 0x85, CHR 0xA0})"

definition has_source :: "document \<Rightarrow> bool" where
  "has_source d \<longleftrightarrow> nonblank (do_source d) \<or> nonblank (do_source_url d)"

definition from_documents ::
  "integrity_digest \<Rightarrow> bool \<Rightarrow> document list \<Rightarrow> api_error + rag_segment list" where
  "from_documents dg require_provenance ds =
     (if ds = [] then Inl Invalid_input
      else if require_provenance \<and> (\<exists>d \<in> set ds. \<not> has_source d) then Inl Invalid_input
      else if \<exists>d \<in> set ds. do_id d = [] then Inl Invalid_input
      else if \<not> distinct (map do_id ds) then Inl Invalid_input
      else Inr (map (segment_of dg) ds))"

fun trust_order :: "trust_level \<Rightarrow> nat" where
  "trust_order UNTRUSTED = 0"
| "trust_order SEMI_TRUSTED = 1"
| "trust_order TRUSTED = 2"

text \<open>\<open>min\<close> with a key: the first of the least elements.\<close>

fun minimum_trust :: "trust_level \<Rightarrow> trust_level list \<Rightarrow> trust_level" where
  "minimum_trust t [] = t"
| "minimum_trust t (u # us) = minimum_trust (if trust_order u < trust_order t then u else t) us"

definition envelope_context :: "pyval \<Rightarrow> rag_segment list \<Rightarrow> guard_context \<Rightarrow> guard_context" where
  "envelope_context info segs base = base\<lparr>cx_stage := RAG_CONTEXT,
     cx_trust_level := (case map (pl_trust_level \<circ> sg_provenance) segs of
        t # ts \<Rightarrow> minimum_trust t ts | [] \<Rightarrow> UNTRUSTED),
     cx_metadata := dict_merge (cx_metadata base) [(''rag_context_envelope'', info)]\<rparr>"

text \<open>\<open>build_rag_context\<close>: every document is checked in turn; a blocked one aborts.\<close>

fun safe_documents ::
  "'p service \<Rightarrow> guard_context \<Rightarrow> document list \<Rightarrow> trail \<Rightarrow> (api_error + document list) \<times> trail" where
  "safe_documents sv base [] t = (Inr [], t)"
| "safe_documents sv base (d # ds) t =
     (case check_document sv d RAG_DOCUMENT base t of
        (Inl e, t') \<Rightarrow> (Inl e, t')
      | (Inr r, t') \<Rightarrow>
          if is_blocked r
          then (Inl (Content_blocked RAG_DOCUMENT BLOCK (gr_findings r) (rs_value (gr_score r)) None), t')
          else (case safe_documents sv base ds t' of
                  (Inl e, t'') \<Rightarrow> (Inl e, t'')
                | (Inr out, t'') \<Rightarrow> (Inr (d\<lparr>do_content := output_value r\<rparr> # out), t'')))"

definition build_rag_context ::
  "'p service \<Rightarrow> integrity_digest \<Rightarrow> bool \<Rightarrow> guard_context \<Rightarrow> document list \<Rightarrow> trail \<Rightarrow>
   (api_error + rag_segment list) \<times> trail" where
  "build_rag_context sv dg require_provenance base ds t =
     (case safe_documents sv base ds t of
        (Inl e, t') \<Rightarrow> (Inl e, t')
      | (Inr out, t') \<Rightarrow> (from_documents dg require_provenance out, t'))"

section \<open>Conversations\<close>

record message =
  me_role :: string
  me_content :: pytext
  me_name :: "string option"
  me_tool_call_id :: "string option"
  me_metadata :: "(string, pyval) dict"

definition message_role_stages :: "(string, guard_stage) dict" where
  "message_role_stages = [(''system'', SYSTEM_PROMPT), (''developer'', SYSTEM_PROMPT),
     (''user'', USER_INPUT), (''assistant'', LLM_RESPONSE), (''tool'', TOOL_RESPONSE)]"

definition safe_message_actions :: "guard_action set" where
  "safe_message_actions = {ALLOW, WARN, REDACT, TRANSFORM}"

definition message_stage :: "(string, guard_stage) dict \<Rightarrow> nat \<Rightarrow> string \<Rightarrow> api_error + guard_stage" where
  "message_stage role_stages i role =
     (let supplied = dict_get role_stages role in
      case dict_get message_role_stages role of
        Some built_in \<Rightarrow> if supplied \<noteq> None \<and> supplied \<noteq> Some built_in then Inl (Role_conflict role)
                         else Inr built_in
      | None \<Rightarrow> (case supplied of None \<Rightarrow> Inl (Role_unknown i role) | Some st \<Rightarrow> Inr st))"

definition message_context ::
  "message \<Rightarrow> nat \<Rightarrow> nat \<Rightarrow> guard_stage \<Rightarrow> guard_context \<Rightarrow> guard_context" where
  "message_context m i n st base = base\<lparr>cx_stage := st,
     cx_metadata := dict_merge (dict_merge (cx_metadata base) (me_metadata m))
       ([(''message_metadata'', PDict (me_metadata m)), (''message_count'', PInt (int n)),
         (''message_index'', PInt (int i)), (''message_role'', PStr (me_role m))]
        @ (case me_name m of Some x \<Rightarrow> [(''message_name'', PStr x)] | None \<Rightarrow> [])
        @ (case me_tool_call_id m of Some x \<Rightarrow> [(''tool_call_id'', PStr x)] | None \<Rightarrow> []))\<rparr>"

definition transformed_message :: "message \<Rightarrow> guard_result \<Rightarrow> message" where
  "transformed_message m r =
     (if output_value r = me_content m then m else m\<lparr>me_content := output_value r\<rparr>)"

definition check_message ::
  "'p service \<Rightarrow> (string, guard_stage) dict \<Rightarrow> guard_context \<Rightarrow> nat \<Rightarrow> nat \<Rightarrow> message \<Rightarrow> trail \<Rightarrow>
   (api_error + guard_stage \<times> guard_result) \<times> trail" where
  "check_message sv role_stages base n i m t =
     (case message_stage role_stages i (me_role m) of
        Inl e \<Rightarrow> (Inl e, t)
      | Inr st \<Rightarrow> (case check sv (me_content m) st (message_context m i n st base) [] t of
          (Inl e, t') \<Rightarrow> (Inl e, t') | (Inr r, t') \<Rightarrow> (Inr (st, r), t')))"

fun protect_from ::
  "'p service \<Rightarrow> (string, guard_stage) dict \<Rightarrow> guard_context \<Rightarrow> nat \<Rightarrow> nat \<Rightarrow> message list \<Rightarrow> trail \<Rightarrow>
   (api_error + message list) \<times> trail" where
  "protect_from sv role_stages base n i [] t = (Inr [], t)"
| "protect_from sv role_stages base n i (m # ms) t =
     (case check_message sv role_stages base n i m t of
        (Inl e, t') \<Rightarrow> (Inl e, t')
      | (Inr (st, r), t') \<Rightarrow>
          if gr_action r = REQUIRE_APPROVAL then (Inl (Approval_required st (gr_findings r) (Some i)), t')
          else if gr_action r \<notin> safe_message_actions
            then (Inl (Content_blocked st (gr_action r) (gr_findings r) (rs_value (gr_score r)) (Some i)), t')
          else (case protect_from sv role_stages base n (Suc i) ms t' of
                  (Inl e, t'') \<Rightarrow> (Inl e, t'')
                | (Inr out, t'') \<Rightarrow> (Inr (transformed_message m r # out), t'')))"

definition protect_messages where
  "protect_messages sv role_stages base ms t = protect_from sv role_stages base (length ms) 0 ms t"

fun filter_from ::
  "'p service \<Rightarrow> (string, guard_stage) dict \<Rightarrow> guard_context \<Rightarrow> nat \<Rightarrow> nat \<Rightarrow> message list \<Rightarrow> trail \<Rightarrow>
   (api_error + message list) \<times> trail" where
  "filter_from sv role_stages base n i [] t = (Inr [], t)"
| "filter_from sv role_stages base n i (m # ms) t =
     (case check_message sv role_stages base n i m t of
        (Inl e, t') \<Rightarrow> (Inl e, t')
      | (Inr (st, r), t') \<Rightarrow>
          (case filter_from sv role_stages base n (Suc i) ms t' of
             (Inl e, t'') \<Rightarrow> (Inl e, t'')
           | (Inr out, t'') \<Rightarrow>
               (Inr (if gr_action r \<in> safe_message_actions then transformed_message m r # out else out), t'')))"

definition filter_messages where
  "filter_messages sv role_stages base ms t = filter_from sv role_stages base (length ms) 0 ms t"

section \<open>Composed prompts\<close>

datatype prompt_source = S_SYSTEM | S_USER | S_RAG | S_TOOL | S_MEMORY | S_EXTERNAL | S_MULTIMODAL

record prompt_segment =
  ps_content :: pytext
  ps_source :: prompt_source
  ps_trust_level :: trust_level
  ps_segment_id :: ident
  ps_metadata :: "(string, pyval) dict"

fun prompt_source_stage :: "prompt_source \<Rightarrow> guard_stage" where
  "prompt_source_stage S_SYSTEM = SYSTEM_PROMPT"
| "prompt_source_stage S_USER = USER_INPUT"
| "prompt_source_stage S_RAG = RAG_DOCUMENT"
| "prompt_source_stage S_TOOL = TOOL_RESPONSE"
| "prompt_source_stage S_MEMORY = MEMORY_READ"
| "prompt_source_stage S_EXTERNAL = EXTERNAL_CONTENT"
| "prompt_source_stage S_MULTIMODAL = EXTERNAL_CONTENT"

fun source_value :: "prompt_source \<Rightarrow> string" where
  "source_value S_SYSTEM = ''system''"
| "source_value S_USER = ''user''"
| "source_value S_RAG = ''rag''"
| "source_value S_TOOL = ''tool''"
| "source_value S_MEMORY = ''memory''"
| "source_value S_EXTERNAL = ''external''"
| "source_value S_MULTIMODAL = ''multimodal''"

definition segment_stage :: "prompt_segment \<Rightarrow> guard_stage" where
  "segment_stage s =
     (if ps_source s = S_SYSTEM \<and> ps_trust_level s \<noteq> TRUSTED then EXTERNAL_CONTENT
      else prompt_source_stage (ps_source s))"

definition segment_context :: "ident \<Rightarrow> prompt_segment \<Rightarrow> guard_context" where
  "segment_context rid s = (fresh_context rid)\<lparr>cx_stage := segment_stage s, cx_trust_level := ps_trust_level s,
     cx_metadata := dict_merge (ps_metadata s)
       [(''prompt_segment_id'', PStr (ps_segment_id s)), (''prompt_source'', PStr (source_value (ps_source s)))]\<rparr>"

definition output_segment :: "prompt_segment \<times> guard_result \<Rightarrow> prompt_segment" where
  "output_segment sr = (fst sr)\<lparr>ps_content := output_value (snd sr)\<rparr>"

text \<open>
  \<open>CrossBoundaryInjectionRule.evaluate_segments\<close>: the detectors are a parameter, a list of the
  identifier and the evaluation of each. Whether a finding is made is all the caller uses besides
  the finding itself, which is built by \<open>_block\<close>.
\<close>

type_synonym boundary_scanner = "ident \<times> (pytext \<Rightarrow> guard_context \<Rightarrow> decision)"

definition scanner_blocks :: "boundary_scanner \<Rightarrow> guard_context \<Rightarrow> pytext \<Rightarrow> bool" where
  "scanner_blocks sc ctx v \<longleftrightarrow> de_action (snd sc v ctx) = BLOCK"

definition assembled_attack ::
  "guard_context \<Rightarrow> pytext \<Rightarrow> pytext \<Rightarrow> pytext \<Rightarrow> boundary_scanner \<Rightarrow> bool" where
  "assembled_attack ctx left right candidate sc \<longleftrightarrow>
     \<not> scanner_blocks sc ctx left \<and> \<not> scanner_blocks sc ctx right \<and> scanner_blocks sc ctx candidate"

definition tail_window :: "nat \<Rightarrow> pytext \<Rightarrow> pytext" where
  "tail_window k v = drop (length v - k) v"

definition evaluate_segments ::
  "boundary_scanner list \<Rightarrow> nat \<Rightarrow> (ident \<Rightarrow> string \<Rightarrow> finding) \<Rightarrow> prompt_segment \<Rightarrow> prompt_segment \<Rightarrow>
   guard_context \<Rightarrow> finding option" where
  "evaluate_segments scanners window mk left right ctx =
     (let l = tail_window window (ps_content left); r = take window (ps_content right) in
      case find (assembled_attack ctx l r (l @ [32] @ r)) scanners of
        Some sc \<Rightarrow> Some (mk (fst sc) ''space'')
      | None \<Rightarrow> map_option (\<lambda>sc. mk (fst sc) ''none'') (find (assembled_attack ctx l r (l @ r)) scanners))"

record boundary =
  bd_scanners :: "boundary_scanner list"
  bd_finding :: "prompt_segment \<Rightarrow> prompt_segment \<Rightarrow> ident \<Rightarrow> string \<Rightarrow> finding"

definition boundary_pair ::
  "boundary \<Rightarrow> nat \<Rightarrow> guard_context \<Rightarrow> prompt_segment \<Rightarrow> prompt_segment \<Rightarrow> finding option" where
  "boundary_pair bd window ctx left right =
     evaluate_segments (bd_scanners bd) window (bd_finding bd left right) left right ctx"

text \<open>The inner loop over the segments after \<open>left\<close>: the finding, and how many pairs were evaluated.\<close>

fun boundary_inner ::
  "boundary \<Rightarrow> nat \<Rightarrow> guard_context \<Rightarrow> prompt_segment \<Rightarrow> prompt_segment list \<Rightarrow> nat \<Rightarrow> finding option \<times> nat" where
  "boundary_inner bd window ctx left [] n = (None, n)"
| "boundary_inner bd window ctx left (right # rest) n =
     (if ps_trust_level left = TRUSTED \<and> ps_trust_level right = TRUSTED
      then boundary_inner bd window ctx left rest n
      else (case boundary_pair bd window ctx left right of
              Some f \<Rightarrow> (Some f, Suc n)
            | None \<Rightarrow> boundary_inner bd window ctx left rest (Suc n)))"

fun boundary_outer ::
  "boundary \<Rightarrow> nat \<Rightarrow> guard_context \<Rightarrow> prompt_segment list \<Rightarrow> nat \<Rightarrow> finding option \<times> nat" where
  "boundary_outer bd window ctx [] n = (None, n)"
| "boundary_outer bd window ctx (left # rest) n =
     (case boundary_inner bd window ctx left rest n of
        (Some f, n') \<Rightarrow> (Some f, n')
      | (None, n') \<Rightarrow> boundary_outer bd window ctx rest n')"

fun check_segments ::
  "'p service \<Rightarrow> (nat \<Rightarrow> ident) \<Rightarrow> prompt_segment list \<Rightarrow> trail \<Rightarrow>
   (api_error + (prompt_segment \<times> guard_result) list) \<times> trail" where
  "check_segments sv rids [] t = (Inr [], t)"
| "check_segments sv rids (s # ss) t =
     (case check sv (ps_content s) (segment_stage s) (segment_context (rids (length ss)) s) [] t of
        (Inl e, t') \<Rightarrow> (Inl e, t')
      | (Inr r, t') \<Rightarrow> (case check_segments sv rids ss t' of
          (Inl e, t'') \<Rightarrow> (Inl e, t'') | (Inr rs, t'') \<Rightarrow> (Inr ((s, r) # rs), t'')))"

definition prompt_scan_action :: "(prompt_segment \<times> guard_result) list \<Rightarrow> finding list \<Rightarrow> guard_action" where
  "prompt_scan_action rs bs =
     (if bs \<noteq> [] \<or> (\<exists>x \<in> set rs. is_blocked (snd x)) then BLOCK
      else if \<exists>x \<in> set rs. requires_approval (snd x) then REQUIRE_APPROVAL
      else if \<exists>x \<in> set rs. gr_action (snd x) = WARN then WARN
      else ALLOW)"

record prompt_scan =
  sn_action :: guard_action
  sn_segments :: "(prompt_segment \<times> guard_result) list"
  sn_boundary :: "finding list"

definition boundary_context :: "ident \<Rightarrow> nat \<Rightarrow> guard_context" where
  "boundary_context rid n =
     (fresh_context rid)\<lparr>cx_stage := LLM_REQUEST, cx_metadata := [(''prompt_segment_count'', PInt (int n))]\<rparr>"

definition boundary_result :: "guard_config \<Rightarrow> guard_context \<Rightarrow> nat \<Rightarrow> finding \<Rightarrow> guard_result" where
  "boundary_result c ctx n f =
     \<lparr>gr_action = BLOCK, gr_findings = [f], gr_score = from_findings [f] (gc_block_at c) (gc_warn_at c),
      gr_value = [], gr_transformed = None, gr_input_length = None, gr_stage = LLM_REQUEST,
      gr_context = Some ctx, gr_rules_evaluated = int n\<rparr>"

definition check_prompt_segments ::
  "'p service \<Rightarrow> boundary \<Rightarrow> (nat \<Rightarrow> ident) \<Rightarrow> prompt_segment list \<Rightarrow> trail \<Rightarrow>
   (api_error + prompt_scan) \<times> trail" where
  "check_prompt_segments sv bd rids ss t =
     (let c = g_config (sv_guard sv) in
      if ss = [] then (Inl Invalid_input, t)
      else if gc_max_prompt_segments c < int (length ss) then (Inl Resource_limit, t)
      else (case check_segments sv rids ss t of
          (Inl e, t') \<Rightarrow> (Inl e, t')
        | (Inr rs, t') \<Rightarrow>
            (let ctx = boundary_context (rids (length ss)) (length ss);
                 (fo, n) = boundary_outer bd (nat (gc_prompt_boundary_window c)) ctx (map output_segment rs) 0;
                 bs = (case fo of Some f \<Rightarrow> [f] | None \<Rightarrow> []);
                 t'' = (case fo of Some f \<Rightarrow> observe sv (boundary_result c ctx n f) t' | None \<Rightarrow> t')
             in (Inr \<lparr>sn_action = prompt_scan_action rs bs, sn_segments = rs, sn_boundary = bs\<rparr>, t''))))"

definition protect_prompt_segments ::
  "'p service \<Rightarrow> boundary \<Rightarrow> (nat \<Rightarrow> ident) \<Rightarrow> prompt_segment list \<Rightarrow> trail \<Rightarrow>
   (api_error + prompt_segment list) \<times> trail" where
  "protect_prompt_segments sv bd rids ss t =
     (case check_prompt_segments sv bd rids ss t of
        (Inl e, t') \<Rightarrow> (Inl e, t')
      | (Inr p, t') \<Rightarrow>
          if sn_action p = BLOCK
          then (Inl (Content_blocked LLM_REQUEST BLOCK
                  (concat (map (gr_findings \<circ> snd) (sn_segments p)) @ sn_boundary p) 0 None), t')
          else if sn_action p = REQUIRE_APPROVAL then (Inl (Approval_required LLM_REQUEST [] None), t')
          else (Inr (map output_segment (sn_segments p)), t'))"

section \<open>Memory writes\<close>

definition memory_write_context :: "ident \<Rightarrow> guard_context option \<Rightarrow> bool \<Rightarrow> guard_context" where
  "memory_write_context rid co persistent =
     (case co of
        None \<Rightarrow> make_context rid MEMORY_WRITE [(''persistent'', PBool persistent)]
      | Some c \<Rightarrow> c\<lparr>cx_stage := MEMORY_WRITE,
          cx_metadata := dict_merge (cx_metadata c) [(''persistent'', PBool persistent)]\<rparr>)"

datatype approval_answer = Answer bool | Approver_raised

definition write_classification :: "(pyval \<Rightarrow> string) \<Rightarrow> finding list \<Rightarrow> string" where
  "write_classification show_value fs =
     (case find (\<lambda>f. fi_rule_id f = ''MEM-001'') fs of
        None \<Rightarrow> ''unclassified''
      | Some f \<Rightarrow> (case dict_get (fi_metadata f) ''classification'' of
                     Some v \<Rightarrow> show_value v | None \<Rightarrow> ''unclassified''))"

definition emit_approval_audit ::
  "'p service \<Rightarrow> guard_result \<Rightarrow> guard_action \<Rightarrow> approval_outcome \<Rightarrow> trail \<Rightarrow> trail" where
  "emit_approval_audit sv r a oc t =
     emit_event sv (r\<lparr>gr_action := a\<rparr>) (\<lambda>e. e\<lparr>ae_memory_approval_outcome := Some oc\<rparr>) t"

text \<open>The approval provider, if there is one, answers on the value, the context and the reason.\<close>

definition authorize_memory_write ::
  "'p service \<Rightarrow> (pytext \<Rightarrow> guard_context \<Rightarrow> string \<Rightarrow> approval_answer) option \<Rightarrow> (pyval \<Rightarrow> string) \<Rightarrow>
   ident \<Rightarrow> guard_context option \<Rightarrow> bool \<Rightarrow> pytext \<Rightarrow> trail \<Rightarrow> (api_error + pytext) \<times> trail" where
  "authorize_memory_write sv approver show_value rid co persistent v t =
     (let ctx = memory_write_context rid co persistent;
          (r, t1) = acheck sv v MEMORY_WRITE ctx [] None t
      in if is_blocked r
         then (Inl (Content_blocked MEMORY_WRITE BLOCK (gr_findings r) (rs_value (gr_score r)) None), t1)
         else if gr_action r \<noteq> REQUIRE_APPROVAL then (Inr (output_value r), t1)
         else (case approver of
             None \<Rightarrow> (Inl (Approval_required MEMORY_WRITE (gr_findings r) None),
                       emit_approval_audit sv r BLOCK Missing_provider t1)
           | Some ask \<Rightarrow>
               (case ask (output_value r) ctx (''Persistent memory write classified as ''
                      @ write_classification show_value (gr_findings r)) of
                  Approver_raised \<Rightarrow> (Inl (Approval_required MEMORY_WRITE (gr_findings r) None),
                       emit_approval_audit sv r BLOCK Provider_error t1)
                | Answer False \<Rightarrow>
                    (Inl (Content_blocked MEMORY_WRITE BLOCK (gr_findings r) (rs_value (gr_score r)) None),
                       emit_approval_audit sv r BLOCK Denied t1)
                | Answer True \<Rightarrow> (Inr (output_value r), emit_approval_audit sv r ALLOW Approved t1))))"

end
