(* ===== verification/Guard_Release.thy ===== *)
theory Guard_Release
  imports Guard_Api
begin

text \<open>
  What the public methods of \<open>Guard\<close> release: conversations atomically, composed prompts without an
  attack assembled across segments, RAG context with authoritative provenance, memory writes only
  after approval; and where the entry points differ on quarantined content.
\<close>

section \<open>Conversations\<close>

lemma message_stage_Inr:
  "message_stage rs i role = Inr st \<Longrightarrow>
   dict_get message_role_stages role = None \<or> dict_get message_role_stages role = Some st"
  by (auto simp: message_stage_def Let_def split: option.splits if_splits)

lemma check_Inr: "check sv v st ctx pd t = (Inr r, t') \<Longrightarrow> r = check_result sv v st ctx pd"
  by (auto simp: check_def Let_def split: if_splits)

lemma check_message_Inr:
  assumes "check_message sv rs base n i m t = (Inr (st, r), t')"
  shows "message_stage rs i (me_role m) = Inr st"
    and "r = check_result sv (me_content m) st (message_context m i n st base) []"
  using assms by (auto simp: check_message_def dest: check_Inr split: sum.splits prod.splits)

lemma transformed_message_eq: "transformed_message m r = m\<lparr>me_content := output_value r\<rparr>"
  by (simp add: transformed_message_def)

text \<open>What \<open>protect_messages\<close> has established about a message it releases as \<open>m'\<close>.\<close>

definition message_released ::
  "'p service \<Rightarrow> (string, guard_stage) dict \<Rightarrow> guard_context \<Rightarrow> nat \<Rightarrow> nat \<Rightarrow> message \<Rightarrow> message \<Rightarrow> bool" where
  "message_released sv rs base n i m m' \<longleftrightarrow>
     (\<exists>st. message_stage rs i (me_role m) = Inr st \<and>
        dict_get message_role_stages (me_role m) \<in> {None, Some st} \<and>
        (let r = check_result sv (me_content m) st (message_context m i n st base) []
         in gr_action r \<in> safe_message_actions \<and> m' = m\<lparr>me_content := output_value r\<rparr>))"

lemma protect_from_Inr:
  "protect_from sv rs base n i ms t = (Inr out, t') \<Longrightarrow>
   length out = length ms \<and> filter_from sv rs base n i ms t = (Inr out, t') \<and>
   (\<forall>j < length ms. message_released sv rs base n (i + j) (ms ! j) (out ! j))"
proof (induction ms arbitrary: i t out)
  case (Cons m ms)
  obtain st r t1 where chk: "check_message sv rs base n i m t = (Inr (st, r), t1)"
    using Cons.prems by (auto split: prod.splits sum.splits)
  obtain out1 where rest: "protect_from sv rs base n (Suc i) ms t1 = (Inr out1, t')"
    and out: "out = transformed_message m r # out1" and safe: "gr_action r \<in> safe_message_actions"
    using Cons.prems chk by (auto split: if_splits prod.splits sum.splits)
  note IH = Cons.IH [OF rest]
  have first: "message_released sv rs base n i m (transformed_message m r)"
    using check_message_Inr [OF chk] safe message_stage_Inr
    by (auto simp: message_released_def Let_def transformed_message_eq)
  have "message_released sv rs base n (i + j) ((m # ms) ! j) (out ! j)" if "j < length (m # ms)" for j
    using first IH that by (cases j) (auto simp: out)
  then show ?case using IH chk out safe by simp
qed simp

text \<open>
  C38: a conversation is released atomically. When \<open>protect_messages\<close> returns, every message was
  checked at the stage of its role (a built-in role cannot be mapped to another stage) with its
  index and the caller's context, its verdict permits forwarding, and the output has the messages
  in order with exactly their content replaced by the safe value; \<open>filter_messages\<close> returns the same.
\<close>

theorem conversation_released_atomically:
  assumes "protect_messages sv rs base ms t = (Inr out, t')"
  shows "length out = length ms \<and> filter_messages sv rs base ms t = (Inr out, t') \<and>
    (\<forall>i < length ms. message_released sv rs base (length ms) i (ms ! i) (out ! i))"
  using protect_from_Inr [of sv rs base "length ms" 0 ms t out t'] assms
  by (simp add: protect_messages_def filter_messages_def)

section \<open>Memory writes\<close>

lemma acheck_fst: "acheck sv v st ctx pd docs t = (r, t') \<Longrightarrow>
    r = acheck_result sv v st ctx pd docs \<and> t' = observe sv r t"
  by (auto simp: acheck_def Let_def)

lemma emit_approval_audit_last:
  "gc_audit_enabled (g_config (sv_guard sv)) \<Longrightarrow>
   ae_action (last (tr_audit (emit_approval_audit sv r a oc t))) = a \<and>
   ae_memory_approval_outcome (last (tr_audit (emit_approval_audit sv r a oc t))) = Some oc"
  by (simp add: emit_approval_audit_def emit_event_def audit_from_result_def Let_def split_def)

lemma memory_write_context_persistent:
  "dict_get (cx_metadata (memory_write_context rid co p)) ''persistent'' = Some (PBool p)"
  "cx_stage (memory_write_context rid co p) = MEMORY_WRITE"
proof -
  have "dict_get (dict_merge m [(''persistent'', PBool p)]) ''persistent'' = Some (PBool p)" for m
    by (rule dict_get_merge_key) (simp_all add: dict_ok_def)
  then show "dict_get (cx_metadata (memory_write_context rid co p)) ''persistent'' = Some (PBool p)"
    by (simp add: memory_write_context_def make_context_def fresh_context_def split: option.splits)
qed (simp add: memory_write_context_def make_context_def fresh_context_def split: option.splits)

text \<open>
  Memory writes fail closed. A value is returned exactly when the verdict on it is neither
  BLOCK nor REQUIRE_APPROVAL, or approval is required and a provider is configured and answers
  yes for that very value under the authoritative write context; a missing, failing or refusing
  provider returns nothing. The value is the checked output value, and with auditing on the last
  event of an approval decision says ALLOW exactly when the write is authorized.
\<close>

theorem memory_write_fails_closed:
  "let ctx = memory_write_context rid co persistent;
       r = acheck_result sv v MEMORY_WRITE ctx [] None;
       reason = ''Persistent memory write classified as '' @ write_classification show_value (gr_findings r);
       (result, t') = authorize_memory_write sv approver show_value rid co persistent v t
   in (result = Inr w \<longleftrightarrow> w = output_value r \<and>
        (gr_action r \<notin> {BLOCK, REQUIRE_APPROVAL} \<or>
         gr_action r = REQUIRE_APPROVAL \<and> (\<exists>ask. approver = Some ask \<and> ask w ctx reason = Answer True)))
    \<and> dict_get (cx_metadata ctx) ''persistent'' = Some (PBool persistent)
    \<and> (gc_audit_enabled (g_config (sv_guard sv)) \<and> gr_action r = REQUIRE_APPROVAL \<longrightarrow>
       ae_action (last (tr_audit t')) = (if \<exists>w. result = Inr w then ALLOW else BLOCK))"
proof -
  define ctx where "ctx = memory_write_context rid co persistent"
  define r where "r = acheck_result sv v MEMORY_WRITE ctx [] None"
  define reason where "reason = ''Persistent memory write classified as '' @ write_classification show_value (gr_findings r)"
  let ?t1 = "observe sv r t"
  have res: "authorize_memory_write sv approver show_value rid co persistent v t =
     (if gr_action r = BLOCK then (Inl (Content_blocked MEMORY_WRITE BLOCK (gr_findings r) (rs_value (gr_score r)) None), ?t1)
      else if gr_action r \<noteq> REQUIRE_APPROVAL then (Inr (output_value r), ?t1)
      else (case approver of
          None \<Rightarrow> (Inl (Approval_required MEMORY_WRITE (gr_findings r) None), emit_approval_audit sv r BLOCK Missing_provider ?t1)
        | Some ask \<Rightarrow> (case ask (output_value r) ctx reason of
             Approver_raised \<Rightarrow> (Inl (Approval_required MEMORY_WRITE (gr_findings r) None), emit_approval_audit sv r BLOCK Provider_error ?t1)
           | Answer False \<Rightarrow> (Inl (Content_blocked MEMORY_WRITE BLOCK (gr_findings r) (rs_value (gr_score r)) None), emit_approval_audit sv r BLOCK Denied ?t1)
           | Answer True \<Rightarrow> (Inr (output_value r), emit_approval_audit sv r ALLOW Approved ?t1))))"
    unfolding authorize_memory_write_def acheck_def Let_def split_def fst_conv snd_conv is_blocked_def
      r_def reason_def ctx_def
    by (rule refl)
  have per: "dict_get (cx_metadata ctx) ''persistent'' = Some (PBool persistent)"
    unfolding ctx_def by (rule memory_write_context_persistent)
  show ?thesis
    using per unfolding Let_def res ctx_def [symmetric] r_def [symmetric] reason_def [symmetric]
    by (auto simp: emit_approval_audit_last split: option.splits approval_answer.splits bool.splits)
qed

section \<open>Composed prompts\<close>

lemma find_SomeD: "find P xs = Some x \<Longrightarrow> x \<in> set xs \<and> P x"
  by (auto simp: find_Some_iff)

lemma evaluate_segments_None:
  "evaluate_segments scs k mk left right ctx = None \<longleftrightarrow>
     (\<forall>sc \<in> set scs. \<forall>sep \<in> {[32], []}.
        \<not> assembled_attack ctx (tail_window k (ps_content left)) (take k (ps_content right))
            (tail_window k (ps_content left) @ sep @ take k (ps_content right)) sc)"
  by (auto simp: evaluate_segments_def Let_def find_None_iff dest: find_SomeD split: option.splits)

lemma boundary_inner_None:
  "fst (boundary_inner bd k ctx left rest n) = None \<Longrightarrow> right \<in> set rest \<Longrightarrow>
   \<not> (ps_trust_level left = TRUSTED \<and> ps_trust_level right = TRUSTED) \<Longrightarrow>
   boundary_pair bd k ctx left right = None"
  by (induction rest arbitrary: n) (auto split: option.splits if_splits)

lemma boundary_outer_None:
  "fst (boundary_outer bd k ctx ss n) = None \<Longrightarrow> i < j \<Longrightarrow> j < length ss \<Longrightarrow>
   \<not> (ps_trust_level (ss ! i) = TRUSTED \<and> ps_trust_level (ss ! j) = TRUSTED) \<Longrightarrow>
   boundary_pair bd k ctx (ss ! i) (ss ! j) = None"
proof (induction ss arbitrary: n i j)
  case (Cons s ss)
  obtain n' where inner: "boundary_inner bd k ctx s ss n = (None, n')"
    and rest: "fst (boundary_outer bd k ctx ss n') = None"
    using Cons.prems(1) by (auto split: prod.splits option.splits)
  obtain j' where j: "j = Suc j'" using Cons.prems(2) by (cases j) auto
  show ?case
  proof (cases i)
    case 0
    have "ss ! j' \<in> set ss" using Cons.prems(3) j by simp
    then show ?thesis using boundary_inner_None [of bd k ctx s ss n "ss ! j'"] inner Cons.prems(4) 0 j by simp
  next
    case (Suc i')
    then show ?thesis using Cons.IH [OF rest, of i' j'] Cons.prems(2-4) j by simp
  qed
qed simp

lemma check_segments_Inr:
  "check_segments sv rids ss t = (Inr rs, t') \<Longrightarrow>
   map fst rs = ss \<and>
   (\<forall>(s, r) \<in> set rs. \<exists>rid. r = check_result sv (ps_content s) (segment_stage s) (segment_context rid s) [])"
proof (induction ss arbitrary: t rs)
  case (Cons s ss)
  obtain r t1 rs1 where chk: "check sv (ps_content s) (segment_stage s) (segment_context (rids (length ss)) s) [] t = (Inr r, t1)"
    and rest: "check_segments sv rids ss t1 = (Inr rs1, t')" and rs: "rs = (s, r) # rs1"
    using Cons.prems by (auto split: prod.splits sum.splits)
  show ?case using Cons.IH [OF rest] check_Inr [OF chk] by (auto simp: rs)
qed simp

lemma output_segment_trust [simp]: "ps_trust_level (output_segment sr) = ps_trust_level (fst sr)"
  by (simp add: output_segment_def)

text \<open>
  No attack is assembled across segments. If a composed prompt is not blocked, every segment
  was checked at the stage of its source (a system segment that is not trusted counts as external
  content) and not blocked, and for every two segments that are not both trusted, in order, no
  boundary detector that passes the two window texts blocks their concatenation, with a space
  between them or without.
\<close>

theorem unblocked_prompt_has_no_boundary_attack:
  assumes "check_prompt_segments sv bd rids ss t = (Inr p, t')" and "sn_action p \<noteq> BLOCK"
    and "i < j" and "j < length ss"
    and "\<not> (ps_trust_level (ss ! i) = TRUSTED \<and> ps_trust_level (ss ! j) = TRUSTED)"
    and "sc \<in> set (bd_scanners bd)" and "sep \<in> {[32], []}"
    and "k = nat (gc_prompt_boundary_window (g_config (sv_guard sv)))"
    and "l = tail_window k (output_value (snd (sn_segments p ! i)))"
    and "u = take k (output_value (snd (sn_segments p ! j)))"
  shows "\<not> assembled_attack (boundary_context (rids (length ss)) (length ss)) l u (l @ sep @ u) sc
    \<and> map fst (sn_segments p) = ss
    \<and> (\<forall>(s, r) \<in> set (sn_segments p). gr_action r \<noteq> BLOCK \<and>
        (\<exists>rid. r = check_result sv (ps_content s) (segment_stage s) (segment_context rid s) []))"
proof -
  let ?ctx = "boundary_context (rids (length ss)) (length ss)"
  obtain rs t1 fo n where segs: "check_segments sv rids ss t = (Inr rs, t1)"
    and out: "boundary_outer bd k ?ctx (map output_segment rs) 0 = (fo, n)"
    and p: "p = \<lparr>sn_action = prompt_scan_action rs (case fo of Some f \<Rightarrow> [f] | None \<Rightarrow> []),
        sn_segments = rs, sn_boundary = (case fo of Some f \<Rightarrow> [f] | None \<Rightarrow> [])\<rparr>"
    using assms(1,8)
    by (auto simp: check_prompt_segments_def Let_def split: if_splits prod.splits sum.splits)
  note rs = check_segments_Inr [OF segs]
  have fo: "fo = None" and blk: "\<forall>x \<in> set rs. \<not> is_blocked (snd x)"
    using assms(2) by (auto simp: p prompt_scan_action_def split: option.splits if_splits)
  have len: "length rs = length ss" using rs by (metis length_map)
  have ij: "i < length rs" "j < length rs" using assms(3,4) len by simp_all
  have fst: "fst (rs ! i) = ss ! i" "fst (rs ! j) = ss ! j"
    using ij by (simp_all add: conjunct1 [OF rs, symmetric])
  have "boundary_pair bd k ?ctx (map output_segment rs ! i) (map output_segment rs ! j) = None"
    by (rule boundary_outer_None [where n = 0]) (use assms(3,5) out fo ij fst in simp_all)
  then have "\<not> assembled_attack ?ctx l u (l @ sep @ u) sc"
    using assms(6,7,9,10) ij
    unfolding boundary_pair_def evaluate_segments_None
    by (auto simp: p output_segment_def)
  then show ?thesis using rs blk by (auto simp: p is_blocked_def)
qed

section \<open>Documents and RAG envelopes\<close>

lemma document_context_authoritative:
  "dict_get (cx_metadata (document_context d st base)) ''document_id'' = Some (PStr (do_id d))"
  "dict_get (cx_metadata (document_context d st base)) ''source'' = Some (opt_str (do_source d))"
  "dict_get (cx_metadata (document_context d st base)) ''source_url'' = Some (opt_str (do_source_url d))"
  "cx_trust_level (document_context d st base) = do_trust_level d"
  by (auto simp: document_context_def dict_ok_def intro!: dict_get_merge_key)

lemma minimum_trust_le:
  "trust_order (minimum_trust t ts) \<le> trust_order t \<and>
   (\<forall>u \<in> set ts. trust_order (minimum_trust t ts) \<le> trust_order u)"
proof (induction ts arbitrary: t)
  case (Cons u us)
  show ?case using Cons [of "if trust_order u < trust_order t then u else t"] by auto
qed simp

lemma envelope_trust_le:
  "s \<in> set segs \<Longrightarrow>
   trust_order (cx_trust_level (envelope_context info segs base)) \<le> trust_order (pl_trust_level (sg_provenance s))"
  using minimum_trust_le by (cases segs) (auto simp: envelope_context_def)

lemma segment_of_valid [simp]: "segment_valid dg (segment_of dg d)"
  by (simp add: segment_valid_def segment_of_def)

text \<open>The document a RAG segment comes from, and the check its content passed.\<close>

definition rag_segment_from :: "'p service \<Rightarrow> guard_context \<Rightarrow> document \<Rightarrow> rag_segment \<Rightarrow> bool" where
  "rag_segment_from sv base d s \<longleftrightarrow>
     (let r = check_result sv (do_content d) RAG_DOCUMENT (document_context d RAG_DOCUMENT base) []
      in gr_action r \<noteq> BLOCK \<and> sg_content s = output_value r \<and>
         pl_document_id (sg_provenance s) = do_id d \<and> pl_source (sg_provenance s) = do_source d \<and>
         pl_source_url (sg_provenance s) = do_source_url d \<and>
         pl_trust_level (sg_provenance s) = do_trust_level d)"

lemma safe_documents_Inr:
  "safe_documents sv base ds t = (Inr out, t') \<Longrightarrow>
   list_all2 (\<lambda>d d'. \<exists>r. r = check_result sv (do_content d) RAG_DOCUMENT (document_context d RAG_DOCUMENT base) []
      \<and> gr_action r \<noteq> BLOCK \<and> d' = d\<lparr>do_content := output_value r\<rparr>) ds out"
proof (induction ds arbitrary: t out)
  case (Cons d ds)
  obtain r t1 out1 where chk: "check_document sv d RAG_DOCUMENT base t = (Inr r, t1)" and nb: "\<not> is_blocked r"
    and rest: "safe_documents sv base ds t1 = (Inr out1, t')" and out: "out = d\<lparr>do_content := output_value r\<rparr> # out1"
    using Cons.prems by (auto split: prod.splits sum.splits if_splits)
  show ?case
    using Cons.IH [OF rest] check_Inr [OF chk [unfolded check_document_def]] nb
    by (simp add: out is_blocked_def)
qed simp

text \<open>
  RAG context keeps its provenance. The envelope built from retrieved documents has one segment
  per document, in order, whose labels are the document's own (whatever the caller's metadata says),
  whose content is the checked output value of that document, and whose integrity digest covers
  both; identifiers are unique, a source is present when required, and the context of the whole
  envelope is trusted no more than its least trusted document.
\<close>

theorem rag_context_keeps_provenance:
  assumes "build_rag_context sv dg req base ds t = (Inr segs, t')"
  shows "list_all2 (rag_segment_from sv base) ds segs \<and> (\<forall>s \<in> set segs. segment_valid dg s) \<and>
    distinct (map (pl_document_id \<circ> sg_provenance) segs) \<and>
    (req \<longrightarrow> (\<forall>s \<in> set segs. nonblank (pl_source (sg_provenance s)) \<or> nonblank (pl_source_url (sg_provenance s)))) \<and>
    (\<forall>s \<in> set segs. trust_order (cx_trust_level (envelope_context info segs base))
        \<le> trust_order (pl_trust_level (sg_provenance s)))"
proof -
  obtain out where safe: "safe_documents sv base ds t = (Inr out, t')" and env: "from_documents dg req out = Inr segs"
    using assms by (auto simp: build_rag_context_def split: prod.splits sum.splits)
  have segs: "segs = map (segment_of dg) out" and dist: "distinct (map do_id out)"
    and src: "req \<longrightarrow> (\<forall>d \<in> set out. has_source d)"
    using env by (auto simp: from_documents_def split: if_splits)
  have "list_all2 (rag_segment_from sv base) ds segs"
    unfolding segs list_all2_map2
    by (rule list_all2_mono [OF safe_documents_Inr [OF safe]])
      (auto simp: rag_segment_from_def segment_of_def Let_def)
  moreover have "distinct (map (pl_document_id \<circ> sg_provenance) segs)"
    using dist by (simp add: segs segment_of_def comp_def)
  moreover have "req \<longrightarrow> (\<forall>s \<in> set segs. nonblank (pl_source (sg_provenance s)) \<or> nonblank (pl_source_url (sg_provenance s)))"
    using src by (auto simp: segs segment_of_def has_source_def)
  ultimately show ?thesis using envelope_trust_le [of _ segs info base] by (auto simp: segs)
qed

section \<open>Quarantined content\<close>

text \<open>
  The entry points disagree on QUARANTINE and RETRY. Content with such a verdict is returned by
  \<open>protect\<close>, and a composed prompt made of it is allowed, while the decorators and the conversation
  methods refuse it.
\<close>

theorem quarantined_content_released:
  assumes "\<not> has_async_checks (sv_async sv) st" and "r = check_result sv v st ctx pd"
    and "gr_action r \<in> {QUARANTINE, RETRY}"
  shows "fst (protect sv v st ctx pd t) = Inr (output_value r) \<and> prompt_scan_action [(s, r)] [] = ALLOW \<and>
    enforce_decorator st True r \<noteq> None \<and> gr_action r \<notin> safe_message_actions"
  using assms
  by (auto simp: protect_def check_def release_def is_blocked_def requires_approval_def Let_def
      prompt_scan_action_def enforce_decorator_def safe_message_actions_def)

section \<open>Witnesses\<close>

text \<open>A guard whose only rule asks for one action on every text.\<close>

definition acting_rule :: "guard_action \<Rightarrow> rule" where
  "acting_rule a = (quiet_rule ''RES-001'' RESOURCE)
     \<lparr>ru_evaluate := (\<lambda>v ctx. Inr ((allow_decision ''RES-001'')\<lparr>de_action := a\<rparr>))\<rparr>"

definition acting_service :: "guard_action \<Rightarrow> unit service" where
  "acting_service a = \<lparr>sv_guard = quiet_guard\<lparr>g_policy_rules := (\<lambda>p. if p = P_resource then [acting_rule a] else [])\<rparr>,
     sv_async = \<lparr>ag_rules = [], ag_providers = []\<rparr>, sv_alerts = [HIGH], sv_timed_out = (\<lambda>_ _ _. False),
     sv_draw = (\<lambda>n. (''e'', int n))\<rparr>"

lemma acting_service_simps [simp]:
  "\<not> has_async_checks (sv_async (acting_service a)) st"
  "g_config (sv_guard (acting_service a)) = demo_config"
  by (simp_all add: acting_service_def has_async_checks_def quiet_guard_def demo_guard_def)

lemma acting_check:
  assumes "a \<noteq> TRANSFORM"
  shows "check_result (acting_service a) v st ctx [] =
    \<lparr>gr_action = a, gr_findings = [], gr_score = from_findings [] 80 40, gr_value = v, gr_transformed = None,
     gr_input_length = Some (int (length v)), gr_stage = st, gr_context = Some ctx, gr_rules_evaluated = 1\<rparr>"
proof -
  have rules: "get_rules_for_stage (sv_guard (acting_service a)) st [] = [acting_rule a]"
    by (simp add: acting_service_def get_rules_for_stage_def stage_policies_def quiet_guard_def demo_guard_def)
  show ?thesis using assms rules
    by (cases a) (simp_all add: check_result_def evaluate_with_timeout_def evaluate_rules_def
        evaluate_rules_state_def acting_rule_def quiet_rule_def engine_defs demo_config_def
        determine_action_def from_findings_def should_block_def should_warn_def acting_service_def
        quiet_guard_def demo_guard_def Let_def)
qed

definition demo_trail :: trail where
  "demo_trail = \<lparr>tr_audit = [], tr_alerts = []\<rparr>"

definition demo_message :: message where
  "demo_message = \<lparr>me_role = ''user'', me_content = [104, 105], me_name = None, me_tool_call_id = None,
     me_metadata = []\<rparr>"

lemma demo_conversation:
  "\<exists>t. protect_messages (acting_service ALLOW) [] demo_context [demo_message] demo_trail = (Inr [demo_message], t)"
  by (simp add: protect_messages_def check_message_def message_stage_def message_role_stages_def
      demo_message_def check_def acting_check safe_message_actions_def transformed_message_def
      output_value_def Let_def)

theorem conversation_released_atomically_witness:
  "message_released (acting_service ALLOW) [] demo_context 1 0 demo_message demo_message"
proof -
  obtain t where "protect_messages (acting_service ALLOW) [] demo_context [demo_message] demo_trail
      = (Inr [demo_message], t)"
    using demo_conversation by blast
  from conversation_released_atomically [OF this] show ?thesis by simp
qed

lemma demo_approval:
  "gr_action (acheck_result (acting_service REQUIRE_APPROVAL) [5] MEMORY_WRITE ctx [] None) = REQUIRE_APPROVAL"
  by (simp add: acheck_result_def acting_check)

theorem memory_write_fails_closed_witness:
  "fst (authorize_memory_write (acting_service REQUIRE_APPROVAL) None (\<lambda>_. []) ''r'' None True [5] demo_trail)
     \<noteq> Inr [5]"
  using memory_write_fails_closed [of "''r''" None True "acting_service REQUIRE_APPROVAL" "[5]"
      "\<lambda>_. []" None demo_trail "[5]"]
  by (simp add: Let_def split_def demo_approval)

definition demo_segment :: "trust_level \<Rightarrow> pytext \<Rightarrow> prompt_segment" where
  "demo_segment trust v = \<lparr>ps_content = v, ps_source = S_USER, ps_trust_level = trust, ps_segment_id = ''s'',
     ps_metadata = []\<rparr>"

definition demo_boundary :: boundary where
  "demo_boundary = \<lparr>bd_scanners = [(''PI-001'', \<lambda>v ctx. (allow_decision ''PI-001'')
       \<lparr>de_action := (if v = [1, 2] then BLOCK else ALLOW)\<rparr>)],
     bd_finding = (\<lambda>l r i m. mk_finding ''PI-017'' ''Boundary'' PROMPT_INJECTION CRITICAL m)\<rparr>"

lemma demo_prompt:
  "\<exists>p t. check_prompt_segments (acting_service ALLOW) demo_boundary (\<lambda>_. ''r'')
     [demo_segment UNTRUSTED [1], demo_segment TRUSTED [3]] demo_trail = (Inr p, t)
     \<and> sn_action p \<noteq> BLOCK \<and> map (output_value \<circ> snd) (sn_segments p) = [[1], [3]]"
  by (simp add: check_prompt_segments_def Let_def demo_config_def check_def acting_check demo_segment_def
      boundary_pair_def evaluate_segments_def demo_boundary_def assembled_attack_def scanner_blocks_def
      tail_window_def output_segment_def output_value_def allow_decision_def prompt_scan_action_def
      is_blocked_def requires_approval_def)

theorem unblocked_prompt_has_no_boundary_attack_witness:
  "\<not> assembled_attack (boundary_context ''r'' 2) [1] [3] [1, 3] (hd (bd_scanners demo_boundary))"
proof -
  obtain p t where p: "check_prompt_segments (acting_service ALLOW) demo_boundary (\<lambda>_. ''r'')
      [demo_segment UNTRUSTED [1], demo_segment TRUSTED [3]] demo_trail = (Inr p, t)" "sn_action p \<noteq> BLOCK"
    and out: "map (output_value \<circ> snd) (sn_segments p) = [[1], [3]]"
    using demo_prompt by (elim exE conjE)
  have vals: "output_value (snd (sn_segments p ! 0)) = [1]" "output_value (snd (sn_segments p ! 1)) = [3]"
    using out by (auto simp: map_eq_Cons_conv)
  show ?thesis
    using unblocked_prompt_has_no_boundary_attack [OF p, of 0 1 "hd (bd_scanners demo_boundary)" "[]"
        "nat (gc_prompt_boundary_window (g_config (sv_guard (acting_service ALLOW))))" "[1]" "[3]"] vals
    by (simp add: demo_segment_def demo_boundary_def tail_window_def demo_config_def numeral_2_eq_2)
qed

definition demo_document :: document where
  "demo_document = \<lparr>do_id = ''d'', do_content = [1], do_source = Some ''kb'', do_source_url = None,
     do_trust_level = UNTRUSTED, do_metadata = []\<rparr>"

theorem rag_context_keeps_provenance_witness:
  "rag_segment_from (acting_service ALLOW) demo_context demo_document
     (segment_of (\<lambda>_ _ _ _ _. ''x'') demo_document)"
proof -
  have "\<exists>t. build_rag_context (acting_service ALLOW) (\<lambda>_ _ _ _ _. ''x'') True demo_context [demo_document] demo_trail
      = (Inr [segment_of (\<lambda>_ _ _ _ _. ''x'') demo_document], t)"
    by (simp add: build_rag_context_def check_document_def check_def acting_check is_blocked_def
        from_documents_def demo_document_def has_source_def nonblank_def output_value_def Let_def)
  then obtain t where "build_rag_context (acting_service ALLOW) (\<lambda>_ _ _ _ _. ''x'') True demo_context
      [demo_document] demo_trail = (Inr [segment_of (\<lambda>_ _ _ _ _. ''x'') demo_document], t)" by blast
  from rag_context_keeps_provenance [OF this] show ?thesis by simp
qed

theorem quarantined_content_released_witness:
  "fst (protect (acting_service QUARANTINE) [1] FINAL_OUTPUT demo_context [] demo_trail) = Inr [1]"
  using quarantined_content_released [of "acting_service QUARANTINE" FINAL_OUTPUT
      "check_result (acting_service QUARANTINE) [1] FINAL_OUTPUT demo_context []" "[1]" demo_context "[]"]
  by (simp add: acting_check output_value_def)

end
