(* ===== verification/Agent_Session.thy ===== *)
theory Agent_Session
  imports Guard_Release
begin

text \<open>
  \<open>agents/session.py\<close>: the counters and limits of an agent session and the two operations that
  consult the guard. The monotonic clock is an argument of every operation.
\<close>

section \<open>Session state\<close>

record session =
  as_session_id :: ident
  as_step_count :: nat
  as_tool_call_count :: nat
  as_recursion_depth :: nat
  as_start_time :: seconds
  as_max_steps :: int
  as_max_tool_calls :: int
  as_max_depth :: int
  as_max_duration :: seconds
  as_history :: "string list"

datatype session_limit = Step_limit | Tool_call_limit | Depth_limit | Duration_limit

definition new_agent_session :: "guard_context \<Rightarrow> int \<Rightarrow> int \<Rightarrow> int \<Rightarrow> seconds \<Rightarrow> seconds \<Rightarrow> session" where
  "new_agent_session ctx max_steps max_tool_calls max_depth max_duration now =
     \<lparr>as_session_id = (case cx_session_id ctx of Some s \<Rightarrow> if s = [] then cx_request_id ctx else s
        | None \<Rightarrow> cx_request_id ctx),
      as_step_count = 0, as_tool_call_count = 0, as_recursion_depth = 0, as_start_time = now,
      as_max_steps = max_steps, as_max_tool_calls = max_tool_calls, as_max_depth = max_depth,
      as_max_duration = max_duration, as_history = []\<rparr>"

definition check_limits :: "seconds \<Rightarrow> session \<Rightarrow> session_limit option" where
  "check_limits now s =
     (if as_max_steps s < int (as_step_count s) then Some Step_limit
      else if as_max_tool_calls s < int (as_tool_call_count s) then Some Tool_call_limit
      else if as_max_depth s < int (as_recursion_depth s) then Some Depth_limit
      else if as_max_duration s \<le> now - as_start_time s then Some Duration_limit
      else None)"

definition is_within_limits :: "seconds \<Rightarrow> session \<Rightarrow> bool" where
  "is_within_limits now s \<longleftrightarrow>
     int (as_step_count s) \<le> as_max_steps s \<and> int (as_tool_call_count s) \<le> as_max_tool_calls s
     \<and> int (as_recursion_depth s) \<le> as_max_depth s \<and> now - as_start_time s < as_max_duration s"

definition enter_recursion :: "session \<Rightarrow> session" where
  "enter_recursion s = s\<lparr>as_recursion_depth := as_recursion_depth s + 1\<rparr>"

definition exit_recursion :: "session \<Rightarrow> session" where
  "exit_recursion s = s\<lparr>as_recursion_depth := as_recursion_depth s - 1\<rparr>"

section \<open>Guarded operations\<close>

definition session_context :: "guard_context \<Rightarrow> session \<Rightarrow> guard_context" where
  "session_context base s = base\<lparr>cx_stage := AGENT_ACTION,
     cx_metadata := dict_merge (cx_metadata base)
       [(''agent_step_count'', PInt (int (as_step_count s))),
        (''agent_tool_call_count'', PInt (int (as_tool_call_count s))),
        (''agent_recursion_depth'', PInt (int (as_recursion_depth s)))]\<rparr>"

datatype session_error = Limit_exceeded session_limit guard_stage

definition agent_step ::
  "'p service \<Rightarrow> guard_context \<Rightarrow> seconds \<Rightarrow> pytext \<Rightarrow> session \<times> trail \<Rightarrow>
   (session_error + guard_result) \<times> session \<times> trail" where
  "agent_step sv base now content st =
     (let s = (fst st)\<lparr>as_step_count := as_step_count (fst st) + 1\<rparr> in
      case check_limits now s of
        Some l \<Rightarrow> (Inl (Limit_exceeded l AGENT_ACTION), s, snd st)
      | None \<Rightarrow> (let (r, t) = acheck sv content AGENT_ACTION (session_context base s) [] None (snd st)
                 in (Inr r, s, t)))"

record tool_call =
  tc_name :: string
  tc_arguments :: "(string \<times> pyval) list"

text \<open>The context of a tool call carries no user, tenant or tags.\<close>

definition tool_call_context :: "guard_context \<Rightarrow> ident \<Rightarrow> tool_call \<Rightarrow> session \<Rightarrow> guard_context" where
  "tool_call_context base rid c s = (fresh_context rid)
     \<lparr>cx_request_id := cx_request_id base, cx_session_id := cx_session_id base, cx_stage := TOOL_REQUEST,
      cx_trust_level := cx_trust_level base,
      cx_metadata := [(''tool_name'', PStr (tc_name c)), (''tool_args'', PDict (tc_arguments c)),
        (''agent_tool_call_count'', PInt (int (as_tool_call_count s)))]\<rparr>"

text \<open>The text checked is the tool's name, as code points.\<close>

definition text_of :: "string \<Rightarrow> pytext" where
  "text_of s = map of_char s"

definition validate_tool_call ::
  "'p service \<Rightarrow> guard_context \<Rightarrow> seconds \<Rightarrow> tool_call \<Rightarrow> session \<times> trail \<Rightarrow>
   (session_error + guard_result) \<times> session \<times> trail" where
  "validate_tool_call sv base now c st =
     (let s = (fst st)\<lparr>as_tool_call_count := as_tool_call_count (fst st) + 1,
                       as_history := as_history (fst st) @ [tc_name c]\<rparr> in
      case check_limits now s of
        Some l \<Rightarrow> (Inl (Limit_exceeded l TOOL_REQUEST), s, snd st)
      | None \<Rightarrow> (let (r, t) = acheck sv (text_of (tc_name c)) TOOL_REQUEST
                   (tool_call_context base (cx_request_id base) c s) [] None (snd st)
                 in (Inr r, s, t)))"

section \<open>Runs of a session\<close>

datatype session_op = Op_step pytext | Op_tool tool_call | Op_enter | Op_exit

text \<open>Whether the guard was consulted, i.e. the operation was within the limits.\<close>

fun session_step ::
  "'p service \<Rightarrow> guard_context \<Rightarrow> session \<times> trail \<Rightarrow> seconds \<times> session_op \<Rightarrow> bool \<times> session \<times> trail" where
  "session_step sv base st (now, Op_step v) = (let (x, st') = agent_step sv base now v st in (Sum_Type.isl x = False, st'))"
| "session_step sv base st (now, Op_tool c) = (let (x, st') = validate_tool_call sv base now c st in (Sum_Type.isl x = False, st'))"
| "session_step sv base st (now, Op_enter) = (False, enter_recursion (fst st), snd st)"
| "session_step sv base st (now, Op_exit) = (False, exit_recursion (fst st), snd st)"

fun session_run ::
  "'p service \<Rightarrow> guard_context \<Rightarrow> session \<times> trail \<Rightarrow> (seconds \<times> session_op) list \<Rightarrow>
   ((seconds \<times> session_op) list) \<times> session \<times> trail" where
  "session_run sv base st [] = ([], st)"
| "session_run sv base st (x # xs) =
     (let (ok, st1) = session_step sv base st x; (ys, st2) = session_run sv base st1 xs
      in (if ok then x # ys else ys, st2))"

lemma check_limits_None: "check_limits now s = None \<longleftrightarrow> is_within_limits now s"
  by (auto simp: check_limits_def is_within_limits_def)

definition same_limits :: "session \<Rightarrow> session \<Rightarrow> bool" where
  "same_limits s s' \<longleftrightarrow> as_max_steps s' = as_max_steps s \<and> as_max_tool_calls s' = as_max_tool_calls s \<and>
     as_max_depth s' = as_max_depth s \<and> as_max_duration s' = as_max_duration s \<and>
     as_start_time s' = as_start_time s"

fun is_step :: "seconds \<times> session_op \<Rightarrow> bool" where
  "is_step (now, Op_step v) \<longleftrightarrow> True" | "is_step _ \<longleftrightarrow> False"

fun is_tool :: "seconds \<times> session_op \<Rightarrow> bool" where
  "is_tool (now, Op_tool c) \<longleftrightarrow> True" | "is_tool _ \<longleftrightarrow> False"

lemma session_step_facts:
  assumes "session_step sv base st x = (ok, st')"
  shows "same_limits (fst st) (fst st')"
    and "as_step_count (fst st') = as_step_count (fst st) + (if is_step x then 1 else 0)"
    and "as_tool_call_count (fst st') = as_tool_call_count (fst st) + (if is_tool x then 1 else 0)"
    and "ok \<Longrightarrow> is_within_limits (fst x) (fst st')"
    and "ok \<Longrightarrow> is_step x \<or> is_tool x"
proof -
  obtain now op where x: "x = (now, op)" by (cases x)
  have "same_limits (fst st) (fst st') \<and>
    as_step_count (fst st') = as_step_count (fst st) + (if is_step x then 1 else 0) \<and>
    as_tool_call_count (fst st') = as_tool_call_count (fst st) + (if is_tool x then 1 else 0) \<and>
    (ok \<longrightarrow> is_within_limits (fst x) (fst st') \<and> (is_step x \<or> is_tool x))"
    using assms
    by (cases op) (auto simp: x agent_step_def validate_tool_call_def Let_def split_def same_limits_def
        enter_recursion_def exit_recursion_def check_limits_None split: option.splits)
  then show "same_limits (fst st) (fst st')"
    "as_step_count (fst st') = as_step_count (fst st) + (if is_step x then 1 else 0)"
    "as_tool_call_count (fst st') = as_tool_call_count (fst st) + (if is_tool x then 1 else 0)"
    "ok \<Longrightarrow> is_within_limits (fst x) (fst st')" "ok \<Longrightarrow> is_step x \<or> is_tool x" by simp_all
qed

lemma session_run_bound:
  assumes "\<And>st x ok st'. session_step sv base st x = (ok, st') \<Longrightarrow>
      cnt (fst st') = cnt (fst st) + (if P x then 1 else (0::nat)) \<and> bnd (fst st') = bnd (fst st)
      \<and> (ok \<and> P x \<longrightarrow> int (cnt (fst st')) \<le> bnd (fst st'))"
  shows "int (cnt (fst st) + length (filter P (fst (session_run sv base st xs))))
    \<le> max (int (cnt (fst st))) (bnd (fst st))"
proof (induction xs arbitrary: st)
  case (Cons x xs)
  obtain ok st1 where step: "session_step sv base st x = (ok, st1)" by (cases "session_step sv base st x")
  note a = assms [OF step]
  have IH: "int (cnt (fst st1) + length (filter P (fst (session_run sv base st1 xs))))
      \<le> max (int (cnt (fst st1))) (bnd (fst st1))" by (rule Cons.IH)
  show ?case
    using a IH step by (auto simp: Let_def split_def max_def split: if_splits)
qed simp

lemma session_run_within:
  "x \<in> set (fst (session_run sv base st xs)) \<Longrightarrow>
   fst x - as_start_time (fst st) < as_max_duration (fst st)"
proof (induction xs arbitrary: st)
  case (Cons y ys)
  obtain ok st1 where step: "session_step sv base st y = (ok, st1)" by (cases "session_step sv base st y")
  note f = session_step_facts [OF step]
  show ?case
    using Cons.IH [of st1] Cons.prems f step
    by (auto simp: Let_def split_def same_limits_def is_within_limits_def split: if_splits)
qed simp

text \<open>
  C39: session limits hold along every run. Of the steps and tool calls attempted in a fresh session,
  in any order and with any recursion, at most \<open>max_steps\<close> steps and \<open>max_tool_calls\<close> tool calls
  reach the guard, and each of them before the maximum duration has passed.
\<close>

theorem agent_session_bounded:
  fixes sv :: "'p service"
  assumes "s = new_agent_session ctx max_steps max_tools max_depth max_duration start"
    and "0 \<le> max_steps" and "0 \<le> max_tools"
  shows "int (length (filter is_step (fst (session_run sv base (s, t) xs)))) \<le> max_steps \<and>
    int (length (filter is_tool (fst (session_run sv base (s, t) xs)))) \<le> max_tools \<and>
    (\<forall>x \<in> set (fst (session_run sv base (s, t) xs)). fst x - start < max_duration)"
proof -
  have "int (as_step_count (fst (s, t)) + length (filter is_step (fst (session_run sv base (s, t) xs))))
      \<le> max (int (as_step_count (fst (s, t)))) (as_max_steps (fst (s, t)))"
    by (rule session_run_bound)
      (auto simp: same_limits_def is_within_limits_def dest: session_step_facts)
  moreover have "int (as_tool_call_count (fst (s, t)) + length (filter is_tool (fst (session_run sv base (s, t) xs))))
      \<le> max (int (as_tool_call_count (fst (s, t)))) (as_max_tool_calls (fst (s, t)))"
    by (rule session_run_bound)
      (auto simp: same_limits_def is_within_limits_def dest: session_step_facts)
  ultimately show ?thesis
    using assms session_run_within [of _ sv base "(s, t)" xs]
    by (auto simp: new_agent_session_def max_def split: if_splits)
qed

definition demo_session :: session where
  "demo_session = new_agent_session demo_context 1 0 0 10 0"

theorem agent_session_bounded_witness:
  "fst (session_run (acting_service ALLOW) demo_context (demo_session, demo_trail)
       [(0, Op_step [5]), (1, Op_step [6])]) = [(0, Op_step [5])] \<and>
   int (length (filter is_step (fst (session_run (acting_service ALLOW) demo_context
       (demo_session, demo_trail) [(0, Op_step [5]), (1, Op_step [6])])))) \<le> 1"
proof
  show "fst (session_run (acting_service ALLOW) demo_context (demo_session, demo_trail)
       [(0, Op_step [5]), (1, Op_step [6])]) = [(0, Op_step [5])]"
    by (simp add: demo_session_def new_agent_session_def agent_step_def check_limits_def Let_def split_def)
  show "int (length (filter is_step (fst (session_run (acting_service ALLOW) demo_context
       (demo_session, demo_trail) [(0, Op_step [5]), (1, Op_step [6])])))) \<le> 1"
    using agent_session_bounded [OF demo_session_def, of "acting_service ALLOW" demo_context demo_trail
        "[(0, Op_step [5]), (1, Op_step [6])]"] by simp
qed

end
