(* ===== verification/Worklist.thy ===== *)
theory Worklist
  imports Trustrail_Prelude
begin

text \<open>
  The breadth-first worklist loop shared by the lineage traces: a queue, the set of nodes already
  seen, and the nodes reached, in the order they are discovered. \<open>nodes\<close> are the nodes that exist;
  \<open>succs\<close> lists the successors of a node, which need not exist.
\<close>

section \<open>The loop\<close>

fun visit :: "'a list \<Rightarrow> 'a list \<Rightarrow> 'a list \<times> 'a list \<times> 'a list \<Rightarrow> 'a list \<times> 'a list \<times> 'a list" where
  "visit nodes [] st = st"
| "visit nodes (x # xs) (queue, seen, result) =
     (if x \<in> set seen \<or> x \<notin> set nodes then visit nodes xs (queue, seen, result)
      else visit nodes xs (queue @ [x], x # seen, result @ [x]))"

definition fresh_nodes :: "'a list \<Rightarrow> 'a list \<Rightarrow> 'a list \<Rightarrow> 'a list" where
  "fresh_nodes nodes xs seen = (let (queue, s, result) = visit nodes xs ([], seen, []) in result)"

lemma visit_split:
  "visit nodes xs (queue, seen, result) =
     (queue @ fresh_nodes nodes xs seen, rev (fresh_nodes nodes xs seen) @ seen,
      result @ fresh_nodes nodes xs seen)"
proof (induction xs arbitrary: queue seen result)
  case (Cons x xs)
  show ?case
  proof (cases "x \<in> set seen \<or> x \<notin> set nodes")
    case True
    then show ?thesis using Cons.IH [of queue seen result] by (auto simp: fresh_nodes_def)
  next
    case False
    have "fresh_nodes nodes (x # xs) seen = x # fresh_nodes nodes xs (x # seen)"
      using False Cons.IH [of "[x]" "x # seen" "[x]"] by (simp add: fresh_nodes_def)
    then show ?thesis using False Cons.IH [of "queue @ [x]" "x # seen" "result @ [x]"] by simp
  qed
qed (simp add: fresh_nodes_def)

lemma fresh_nodes_Nil [simp]: "fresh_nodes nodes [] seen = []"
  by (simp add: fresh_nodes_def)

lemma fresh_nodes_Cons:
  "fresh_nodes nodes (x # xs) seen =
     (if x \<in> set seen \<or> x \<notin> set nodes then fresh_nodes nodes xs seen
      else x # fresh_nodes nodes xs (x # seen))"
  by (simp add: fresh_nodes_def visit_split [of nodes xs "[x]" "x # seen" "[x]"])

lemma set_fresh_nodes: "set (fresh_nodes nodes xs seen) = set xs \<inter> set nodes - set seen"
  by (induction xs arbitrary: seen) (auto simp: fresh_nodes_Cons)

lemma distinct_fresh_nodes: "distinct (fresh_nodes nodes xs seen)"
  by (induction xs arbitrary: seen) (auto simp: fresh_nodes_Cons set_fresh_nodes)

text \<open>
  Every iteration removes one node from the queue and adds only nodes it then marks as seen, so the
  queue together with the unseen nodes shrinks.
\<close>

function bfs :: "('a \<Rightarrow> 'a list) \<Rightarrow> 'a list \<Rightarrow> 'a list \<Rightarrow> 'a list \<Rightarrow> 'a list \<Rightarrow> 'a list" where
  "bfs succs nodes [] seen result = result"
| "bfs succs nodes (x # queue) seen result =
     (let (queue', seen', result') = visit nodes (succs x) (queue, seen, result)
      in bfs succs nodes queue' seen' result')"
  by pat_completeness auto

lemma card_unseen:
  "card (set nodes - set (rev (fresh_nodes nodes xs seen) @ seen)) + length (fresh_nodes nodes xs seen)
     = card (set nodes - set seen)"
proof -
  let ?f = "set (fresh_nodes nodes xs seen)"
  have sub: "?f \<subseteq> set nodes - set seen" by (auto simp: set_fresh_nodes)
  have "set nodes - set (rev (fresh_nodes nodes xs seen) @ seen) = (set nodes - set seen) - ?f" by auto
  then have "card (set nodes - set (rev (fresh_nodes nodes xs seen) @ seen))
      = card (set nodes - set seen) - card ?f"
    using sub by (simp add: card_Diff_subset)
  moreover have "card ?f \<le> card (set nodes - set seen)" using sub by (simp add: card_mono)
  moreover have "card ?f = length (fresh_nodes nodes xs seen)"
    using distinct_fresh_nodes by (rule distinct_card)
  ultimately show ?thesis by simp
qed

lemma unseen_decreases:
  "length queue + (length (fresh_nodes nodes xs seen) +
     card (set nodes - (set (fresh_nodes nodes xs seen) \<union> set seen)))
   < Suc (length queue + card (set nodes - set seen))"
  using card_unseen [of nodes xs seen] by simp

termination bfs
  by (relation "measure (\<lambda>(succs, nodes, queue, seen, result). length queue + card (set nodes - set seen))")
    (auto simp: visit_split unseen_decreases add.assoc)

section \<open>The loop finds exactly the reachable nodes\<close>

definition edges :: "('a \<Rightarrow> 'a list) \<Rightarrow> 'a list \<Rightarrow> ('a \<times> 'a) set" where
  "edges succs nodes = {(x, y). y \<in> set (succs x) \<and> y \<in> set nodes}"

text \<open>
  The loop invariant: the reached nodes are the seen ones other than the origin, without repetition;
  everything seen is reachable; and the successors of a seen node that has left the queue are seen.
\<close>

definition bfs_inv :: "('a \<Rightarrow> 'a list) \<Rightarrow> 'a list \<Rightarrow> 'a \<Rightarrow> 'a list \<Rightarrow> 'a list \<Rightarrow> 'a list \<Rightarrow> bool" where
  "bfs_inv succs nodes origin queue seen result \<longleftrightarrow>
     origin \<in> set seen \<and> set queue \<subseteq> set seen \<and> distinct result \<and> set result = set seen - {origin} \<and>
     (\<forall>y \<in> set seen. (origin, y) \<in> (edges succs nodes)\<^sup>*) \<and>
     (\<forall>y \<in> set seen - set queue. edges succs nodes `` {y} \<subseteq> set seen)"

lemma bfs_inv_step:
  assumes "bfs_inv succs nodes origin (x # queue) seen result"
  shows "bfs_inv succs nodes origin (queue @ fresh_nodes nodes (succs x) seen)
    (rev (fresh_nodes nodes (succs x) seen) @ seen) (result @ fresh_nodes nodes (succs x) seen)"
proof -
  let ?f = "fresh_nodes nodes (succs x) seen" and ?E = "edges succs nodes"
  note f = set_fresh_nodes [of nodes "succs x" seen]
  from assms have origin: "origin \<in> set seen" and x: "x \<in> set seen" and q: "set queue \<subseteq> set seen"
    and res: "distinct result" "set result = set seen - {origin}"
    and reach: "\<And>y. y \<in> set seen \<Longrightarrow> (origin, y) \<in> ?E\<^sup>*"
    and closed: "\<And>y. y \<in> set seen \<Longrightarrow> y \<notin> set (x # queue) \<Longrightarrow> ?E `` {y} \<subseteq> set seen"
    by (auto simp: bfs_inv_def)
  have new: "(origin, y) \<in> ?E\<^sup>*" if "y \<in> set ?f" for y
  proof -
    have "(x, y) \<in> ?E" using that by (auto simp: f edges_def)
    with reach [OF x] show ?thesis by (rule rtrancl.rtrancl_into_rtrancl)
  qed
  have expanded: "?E `` {x} \<subseteq> set ?f \<union> set seen" by (auto simp: f edges_def)
  have "\<forall>y \<in> set (rev ?f @ seen) - set (queue @ ?f). ?E `` {y} \<subseteq> set (rev ?f @ seen)"
  proof
    fix y assume "y \<in> set (rev ?f @ seen) - set (queue @ ?f)"
    then have y: "y \<in> set seen" "y \<notin> set queue" by auto
    show "?E `` {y} \<subseteq> set (rev ?f @ seen)"
    proof (cases "y = x")
      case True
      then show ?thesis using expanded by auto
    next
      case False
      then show ?thesis using closed [OF y(1)] y(2) by auto
    qed
  qed
  moreover have "distinct (result @ ?f)" using res by (auto simp: f distinct_fresh_nodes)
  moreover have "set (result @ ?f) = set (rev ?f @ seen) - {origin}" using res origin by (auto simp: f)
  ultimately show ?thesis using origin q reach new unfolding bfs_inv_def by auto
qed

lemma bfs_invariant:
  "bfs_inv succs nodes origin queue seen result \<Longrightarrow>
   distinct (bfs succs nodes queue seen result) \<and>
   set (bfs succs nodes queue seen result) = (edges succs nodes)\<^sup>* `` {origin} - {origin}"
proof (induction succs nodes queue seen result rule: bfs.induct)
  case (1 succs nodes seen result)
  then have inv: "origin \<in> set seen" "distinct result" "set result = set seen - {origin}"
    "\<forall>y \<in> set seen. (origin, y) \<in> (edges succs nodes)\<^sup>*"
    "\<forall>y \<in> set seen. edges succs nodes `` {y} \<subseteq> set seen" by (simp_all add: bfs_inv_def)
  have "y \<in> set seen" if "(origin, y) \<in> (edges succs nodes)\<^sup>*" for y
    using that by induction (use inv in auto)
  with inv have "set seen = (edges succs nodes)\<^sup>* `` {origin}" by auto
  with inv show ?case by simp
next
  case (2 succs nodes x queue seen result)
  show ?case
    using "2.IH" [OF refl visit_split [symmetric] refl] bfs_inv_step [OF "2.prems"]
    by (simp add: visit_split)
qed

theorem bfs_reachable:
  "distinct (bfs succs nodes [origin] [origin] [])"
  "set (bfs succs nodes [origin] [origin] []) = (edges succs nodes)\<^sup>* `` {origin} - {origin}"
  using bfs_invariant [of succs nodes origin "[origin]" "[origin]" "[]"] by (simp_all add: bfs_inv_def)

declare bfs.simps [simp del]

text \<open>Only existing nodes are reached.\<close>

lemma bfs_nodes: "set (bfs succs nodes [origin] [origin] []) \<subseteq> set nodes"
proof -
  have "y = origin \<or> y \<in> set nodes" if "(origin, y) \<in> (edges succs nodes)\<^sup>*" for y
    using that by (cases rule: rtranclE) (auto simp: edges_def)
  then show ?thesis by (auto simp: bfs_reachable)
qed

end
