(* ===== verification/Memory_Records.thy ===== *)
theory Memory_Records
  imports Core_Models Worklist "HOL-Library.List_Lexorder" "HOL-Library.Char_ord"
begin

text \<open>
  \<open>models/memory.py\<close>: the metadata of persistent memories (provenance, dependencies, taint status and
  signals), the requests, approvals, leases and grants about them, and the validators of the records.
  A digest is a parameter: a hash function applied to the record with its own digest field emptied.
  The message text of findings is left out: each code and severity below is raised at one place with
  a fixed text.
\<close>

section \<open>Enumerations\<close>

datatype mem_content_kind =
    Kind_fact | Kind_summary | Kind_preference | Kind_profile | Kind_instruction | Kind_embedding
  | Kind_context

datatype mem_scope = Scope_user | Scope_tenant | Scope_global

datatype mem_source_kind = Src_user | Src_model | Src_tool | Src_import | Src_admin | Src_rebuilt

datatype mem_transformation =
    Tf_direct | Tf_summary | Tf_merge | Tf_embedding | Tf_migration | Tf_rebuild

datatype taint_status = Clean | Reviewed | Suspect | Tainted | Quarantined | Invalidated

datatype risk_signal =
    Instruction_bearing | Role_changing | Security_policy | Delayed_trigger | Split_entry | Cross_user
  | Shared_scope | Summary_laundering | Taint_inheritance | Provenance_dropped | Integrity_mismatch
  | Untrusted_source

datatype taint_code =
    Mc_request_integrity_invalid | Mc_record_integrity_invalid | Mc_content_integrity_invalid
  | Mc_memory_already_exists | Mc_memory_unknown | Mc_dependency_unknown | Mc_dependency_rebound
  | Mc_provenance_dropped | Mc_tenant_mismatch | Mc_purpose_mismatch | Mc_cross_user_write
  | Mc_shared_write_unauthorized | Mc_privileged_write_requires_approval | Mc_approval_invalid
  | Mc_approval_expired | Mc_approval_replayed | Mc_instruction_memory | Mc_role_change_memory
  | Mc_security_policy_memory | Mc_delayed_trigger_memory | Mc_split_entry_poisoning
  | Mc_summary_laundering | Mc_tainted_dependency | Mc_authorization_invalid
  | Mc_authorization_expired | Mc_authorization_replayed | Mc_retrieval_denied
  | Mc_memory_quarantined | Mc_memory_invalidated | Mc_revalidation_invalid
  | Mc_revalidation_rejected | Mc_rebuild_required | Mc_hook_failed

datatype mem_event_kind =
    Write_allowed | Write_denied | Write_committed | Write_abandoned | Retrieval_allowed
  | Retrieval_denied_event | Quarantined_event | Invalidated_event | Revalidated
  | Revalidation_denied | Rebuild_requested | Hook_failed

definition safe_status :: "taint_status set" where
  "safe_status = {Clean, Reviewed}"

lemma safe_status_simps [simp]:
  "s \<in> safe_status \<longleftrightarrow> s = Clean \<or> s = Reviewed"
  by (auto simp: safe_status_def)

section \<open>Records\<close>

record mem_provenance =
  mv_source_id :: ident
  mv_source_kind :: mem_source_kind
  mv_trust_level :: trust_level
  mv_writer_id :: ident
  mv_tenant_id :: ident
  mv_purpose_id :: ident
  mv_observed_at :: datetime

record mem_dependency =
  md_memory_id :: ident
  md_record_digest :: ident

record mem_record =
  mr_memory_id :: ident
  mr_version :: int
  mr_tenant_id :: ident
  mr_owner_user_id :: "ident option"
  mr_writer_id :: ident
  mr_purpose_id :: ident
  mr_content_kind :: mem_content_kind
  mr_scope :: mem_scope
  mr_transformation :: mem_transformation
  mr_provenance :: "mem_provenance list"
  mr_dependencies :: "mem_dependency list"
  mr_taint_status :: taint_status
  mr_taint_signals :: "risk_signal set"
  mr_approval_id :: "ident option"
  mr_content_digest :: ident
  mr_created_at :: datetime
  mr_expires_at :: "datetime option"
  mr_record_digest :: ident

type_synonym record_hash = "mem_record \<Rightarrow> ident"

text \<open>\<open>model_dump(exclude={"record_digest"})\<close>.\<close>

definition record_payload :: "mem_record \<Rightarrow> mem_record" where
  "record_payload r = r\<lparr>mr_record_digest := []\<rparr>"

definition record_integrity :: "record_hash \<Rightarrow> mem_record \<Rightarrow> bool" where
  "record_integrity h r \<longleftrightarrow> mr_record_digest r = h (record_payload r)"

definition matches_content :: "(pytext \<Rightarrow> ident) \<Rightarrow> mem_record \<Rightarrow> pytext \<Rightarrow> bool" where
  "matches_content hc r content \<longleftrightarrow> mr_content_digest r = hc content"

text \<open>The conditions of \<open>validate_record\<close>, in its order.\<close>

definition validate_record :: "record_hash \<Rightarrow> mem_record \<Rightarrow> bool" where
  "validate_record h r \<longleftrightarrow>
     \<not> (mr_scope r = Scope_user \<and> mr_owner_user_id r = None) \<and>
     \<not> (mr_scope r \<noteq> Scope_user \<and> mr_owner_user_id r \<noteq> None) \<and>
     (case mr_expires_at r of None \<Rightarrow> True | Some e \<Rightarrow> mr_created_at r < e) \<and>
     distinct (map mv_source_id (mr_provenance r)) \<and>
     distinct (map md_memory_id (mr_dependencies r)) \<and>
     mr_memory_id r \<notin> set (map md_memory_id (mr_dependencies r)) \<and>
     \<not> (mr_transformation r = Tf_direct \<and> mr_dependencies r \<noteq> []) \<and>
     \<not> (mr_transformation r \<noteq> Tf_direct \<and> mr_dependencies r = []) \<and>
     list_all (\<lambda>p. mv_tenant_id p = mr_tenant_id r) (mr_provenance r) \<and>
     list_all (\<lambda>p. mv_purpose_id p = mr_purpose_id r) (mr_provenance r) \<and>
     record_integrity h r"

text \<open>
  \<open>transition\<close>, here \<open>transition_record\<close>: the revised metadata under a new digest. \<open>revise\<close> is the record it computes;
  constructing it runs the validators, whose failure (a \<open>ValueError\<close>) is \<open>None\<close>.
\<close>

definition seal_record :: "record_hash \<Rightarrow> mem_record \<Rightarrow> mem_record" where
  "seal_record h r = r\<lparr>mr_record_digest := h (record_payload r)\<rparr>"

definition revise ::
  "record_hash \<Rightarrow> taint_status \<Rightarrow> risk_signal set \<Rightarrow> ident option \<Rightarrow> bool \<Rightarrow> int option \<Rightarrow> mem_record \<Rightarrow> mem_record" where
  "revise h status signals approval preserve version r = seal_record h
     (r\<lparr>mr_taint_status := status, mr_taint_signals := signals,
        mr_approval_id := (case approval of Some a \<Rightarrow> Some a
          | None \<Rightarrow> if preserve then mr_approval_id r else None),
        mr_version := (case version of Some v \<Rightarrow> v | None \<Rightarrow> mr_version r)\<rparr>)"

definition transition_record ::
  "record_hash \<Rightarrow> taint_status \<Rightarrow> risk_signal set \<Rightarrow> ident option \<Rightarrow> bool \<Rightarrow> int option \<Rightarrow> mem_record \<Rightarrow>
   mem_record option" where
  "transition_record h status signals approval preserve version r =
     (let r' = revise h status signals approval preserve version r
      in if validate_record h r' then Some r' else None)"

definition create_record :: "record_hash \<Rightarrow> (pytext \<Rightarrow> ident) \<Rightarrow> pytext \<Rightarrow> mem_record \<Rightarrow> mem_record option" where
  "create_record h hc content values =
     (let r = seal_record h (values\<lparr>mr_content_digest := hc content\<rparr>)
      in if validate_record h r then Some r else None)"

lemma seal_record_simps [simp]:
  "mr_memory_id (seal_record h r) = mr_memory_id r" "mr_tenant_id (seal_record h r) = mr_tenant_id r"
  "mr_owner_user_id (seal_record h r) = mr_owner_user_id r" "mr_scope (seal_record h r) = mr_scope r"
  "mr_purpose_id (seal_record h r) = mr_purpose_id r" "mr_provenance (seal_record h r) = mr_provenance r"
  "mr_dependencies (seal_record h r) = mr_dependencies r" "mr_version (seal_record h r) = mr_version r"
  "mr_taint_status (seal_record h r) = mr_taint_status r" "mr_approval_id (seal_record h r) = mr_approval_id r"
  "mr_taint_signals (seal_record h r) = mr_taint_signals r" "mr_expires_at (seal_record h r) = mr_expires_at r"
  "mr_content_digest (seal_record h r) = mr_content_digest r" "mr_created_at (seal_record h r) = mr_created_at r"
  "mr_transformation (seal_record h r) = mr_transformation r"
  "mr_record_digest (seal_record h r) = h (record_payload r)"
  "record_payload (seal_record h r) = record_payload r"
  by (simp_all add: seal_record_def record_payload_def)

lemma revise_simps [simp]:
  "mr_memory_id (revise h st sg a p v r) = mr_memory_id r" "mr_tenant_id (revise h st sg a p v r) = mr_tenant_id r"
  "mr_owner_user_id (revise h st sg a p v r) = mr_owner_user_id r" "mr_scope (revise h st sg a p v r) = mr_scope r"
  "mr_purpose_id (revise h st sg a p v r) = mr_purpose_id r" "mr_provenance (revise h st sg a p v r) = mr_provenance r"
  "mr_dependencies (revise h st sg a p v r) = mr_dependencies r"
  "mr_created_at (revise h st sg a p v r) = mr_created_at r"
  "mr_transformation (revise h st sg a p v r) = mr_transformation r"
  "mr_taint_status (revise h st sg a p v r) = st" "mr_taint_signals (revise h st sg a p v r) = sg"
  "mr_expires_at (revise h st sg a p v r) = mr_expires_at r"
  "mr_content_digest (revise h st sg a p v r) = mr_content_digest r"
  "record_integrity h (revise h st sg a p v r)"
  by (simp_all add: revise_def record_integrity_def)

text \<open>A revision of a valid record is valid: the manager's transitions of catalog records never raise.\<close>

lemma validate_revise: "validate_record h r \<Longrightarrow> validate_record h (revise h st sg a p v r)"
  by (cases "mr_expires_at r") (simp_all add: validate_record_def)

lemma transition_valid: "validate_record h r \<Longrightarrow> transition_record h st sg a p v r = Some (revise h st sg a p v r)"
  by (simp add: transition_record_def validate_revise)

lemma transition_SomeD:
  "transition_record h st sg a p v r = Some r' \<Longrightarrow> r' = revise h st sg a p v r \<and> validate_record h r'"
  by (simp add: transition_record_def Let_def split: if_splits)

section \<open>Requests, approvals, leases and grants\<close>

record mem_write_request =
  mq_request_id :: ident
  mq_actor_id :: ident
  mq_actor_user_id :: "ident option"
  mq_tenant_id :: ident
  mq_purpose_id :: ident
  mq_record :: mem_record
  mq_request_digest :: ident

record mem_write_approval =
  mw_approval_id :: ident
  mw_request_digest :: ident
  mw_tenant_id :: ident
  mw_approved_signals :: "risk_signal set"
  mw_approver_id :: ident
  mw_issued_at :: datetime
  mw_expires_at :: datetime

record mem_authorization =
  mz_authorization_id :: ident
  mz_request_digest :: ident
  mz_memory_id :: ident
  mz_record_digest :: ident
  mz_content_digest :: ident
  mz_tenant_id :: ident
  mz_purpose_id :: ident
  mz_issued_at :: datetime
  mz_expires_at :: datetime
  mz_authorization_digest :: ident

record mem_read_request =
  mo_request_id :: ident
  mo_reader_id :: ident
  mo_reader_user_id :: "ident option"
  mo_tenant_id :: ident
  mo_purpose_id :: ident
  mo_memory_ids :: "ident list"

record mem_grant =
  mk_grant_id :: ident
  mk_memory_id :: ident
  mk_record_digest :: ident
  mk_content_digest :: ident
  mk_tenant_id :: ident
  mk_reviewer_id :: ident
  mk_issued_at :: datetime
  mk_expires_at :: datetime

record mem_finding =
  mf_code :: taint_code
  mf_severity :: severity
  mf_signals :: "risk_signal set"

record mem_event =
  mn_event_id :: ident
  mn_sequence :: nat
  mn_kind :: mem_event_kind
  mn_memory_ids :: "ident list"
  mn_tenant_id :: ident
  mn_purpose_id :: ident
  mn_action :: guard_action
  mn_finding_codes :: "taint_code list"
  mn_occurred_at :: datetime

record rebuild_plan =
  mj_root_memory_id :: ident
  mj_affected_memory_ids :: "ident list"
  mj_authoritative_source_ids :: "ident list"
  mj_tenant_id :: ident
  mj_purpose_id :: ident
  mj_reason_code :: ident

record mem_decision =
  my_action :: guard_action
  my_findings :: "mem_finding list"
  my_authorization :: "mem_authorization option"
  my_record :: "mem_record option"
  my_records :: "mem_record list"
  my_rebuild_plan :: "rebuild_plan option"
  my_events :: "mem_event list"

definition mem_authorized :: "mem_decision \<Rightarrow> bool" where
  "mem_authorized d \<longleftrightarrow> my_action d = ALLOW"

record mem_policy =
  mt_trusted_writer_ids :: "ident set"
  mt_allowed_purpose_ids :: "ident set"
  mt_privileged_signals :: "risk_signal set"
  mt_non_overridable_signals :: "risk_signal set"
  mt_authorization_ttl_seconds :: int
  mt_max_recent_entries :: nat
  mt_max_history_chars :: nat
  mt_max_dependencies :: nat
  mt_max_provenance_sources :: nat

definition default_privileged :: "risk_signal set" where
  "default_privileged = {Instruction_bearing, Role_changing, Security_policy, Delayed_trigger,
     Shared_scope, Untrusted_source}"

definition default_non_overridable :: "risk_signal set" where
  "default_non_overridable = {Split_entry, Cross_user, Summary_laundering, Taint_inheritance,
     Provenance_dropped, Integrity_mismatch}"

definition mem_policy_ok :: "mem_policy \<Rightarrow> bool" where
  "mem_policy_ok p \<longleftrightarrow> mt_privileged_signals p \<inter> mt_non_overridable_signals p = {} \<and>
     1 \<le> mt_authorization_ttl_seconds p \<and> mt_authorization_ttl_seconds p \<le> 3600 \<and>
     1 \<le> mt_max_recent_entries p \<and> 100 \<le> mt_max_history_chars p \<and> mt_allowed_purpose_ids p \<noteq> {}"

text \<open>The identifier pattern \<open>[A-Za-z0-9][A-Za-z0-9._:/-]{0,255}\<close>.\<close>

definition ascii_alnum :: "char \<Rightarrow> bool" where
  "ascii_alnum c \<longleftrightarrow> (CHR ''A'' \<le> c \<and> c \<le> CHR ''Z'') \<or> (CHR ''a'' \<le> c \<and> c \<le> CHR ''z'') \<or> (CHR ''0'' \<le> c \<and> c \<le> CHR ''9'')"

definition identifier_char :: "char \<Rightarrow> bool" where
  "identifier_char c \<longleftrightarrow> ascii_alnum c \<or> c \<in> set ''._:/-''"

fun identifier_ok :: "ident \<Rightarrow> bool" where
  "identifier_ok [] \<longleftrightarrow> False"
| "identifier_ok (c # cs) \<longleftrightarrow> ascii_alnum c \<and> list_all identifier_char cs \<and> length cs \<le> 255"

section \<open>Lineage\<close>

type_synonym catalog = "(ident, mem_record) dict"

text \<open>
  \<open>_trace\<close>: the related memories of one memory, and the breadth-first search over them. The queue,
  the seen set and the result hold identifiers; the records are looked up at the end, the catalog
  not changing meanwhile.
\<close>

definition related :: "bool \<Rightarrow> catalog \<Rightarrow> ident \<Rightarrow> ident list" where
  "related descendants cat current =
     (if descendants then sort (map mr_memory_id
        (filter (\<lambda>r. \<exists>d \<in> set (mr_dependencies r). md_memory_id d = current) (map snd cat)))
      else (case dict_get cat current of None \<Rightarrow> []
        | Some r \<Rightarrow> sort (map md_memory_id (mr_dependencies r))))"

definition trace_ids :: "bool \<Rightarrow> catalog \<Rightarrow> ident \<Rightarrow> ident list" where
  "trace_ids descendants cat i =
     (if dict_get cat i = None then [] else bfs (related descendants cat) (map fst cat) [i] [i] [])"

definition trace :: "bool \<Rightarrow> catalog \<Rightarrow> ident \<Rightarrow> mem_record list" where
  "trace descendants cat i = List.map_filter (dict_get cat) (trace_ids descendants cat i)"

text \<open>Every entry of a well-formed catalog is stored under its own identifier.\<close>

definition catalog_ok :: "catalog \<Rightarrow> bool" where
  "catalog_ok cat \<longleftrightarrow> dict_ok cat \<and> (\<forall>(i, r) \<in> set cat. mr_memory_id r = i)"

text \<open>\<open>(i, j)\<close>: memory \<open>j\<close> is derived from memory \<open>i\<close>.\<close>

definition derives :: "catalog \<Rightarrow> (ident \<times> ident) set" where
  "derives cat = {(i, j). \<exists>r. dict_get cat j = Some r \<and> i \<in> md_memory_id ` set (mr_dependencies r) \<and> i \<in> dict_keys cat}"

lemma catalog_ok_get: "catalog_ok cat \<Longrightarrow> dict_get cat i = Some r \<Longrightarrow> mr_memory_id r = i"
  by (auto simp: catalog_ok_def dest: map_of_SomeD)

lemma catalog_ok_set: "catalog_ok cat \<Longrightarrow> mr_memory_id r = i \<Longrightarrow> catalog_ok (dict_set cat i r)"
  using dict_set_subset [of i r cat] by (auto simp: catalog_ok_def)

lemma dict_get_in_keys: "dict_get m k = Some v \<Longrightarrow> k \<in> dict_keys m"
  by (force dest: map_of_SomeD)

lemma dict_keys_get: "k \<in> dict_keys m \<longleftrightarrow> (\<exists>v. dict_get m k = Some v)"
  by (metis dict_get_in_keys map_of_eq_None_iff not_None_eq)

lemma descendant_edges:
  assumes "catalog_ok cat" and "i \<in> dict_keys cat"
  shows "(i, j) \<in> edges (related True cat) (map fst cat) \<longleftrightarrow> (i, j) \<in> derives cat"
proof -
  have "j \<in> set (related True cat i) \<and> j \<in> dict_keys cat \<longleftrightarrow>
      (\<exists>r. dict_get cat j = Some r \<and> i \<in> md_memory_id ` set (mr_dependencies r))"
  proof
    assume "j \<in> set (related True cat i) \<and> j \<in> dict_keys cat"
    then obtain k r d where r: "(k, r) \<in> set cat" "j = mr_memory_id r" "d \<in> set (mr_dependencies r)"
      "md_memory_id d = i" by (auto simp: related_def)
    then have "k = j" using assms(1) by (auto simp: catalog_ok_def)
    then have "dict_get cat j = Some r" using assms(1) r(1) by (simp add: catalog_ok_def dict_ok_def)
    with r show "\<exists>r. dict_get cat j = Some r \<and> i \<in> md_memory_id ` set (mr_dependencies r)" by auto
  next
    assume "\<exists>r. dict_get cat j = Some r \<and> i \<in> md_memory_id ` set (mr_dependencies r)"
    then obtain r d where r: "dict_get cat j = Some r" "d \<in> set (mr_dependencies r)" "md_memory_id d = i"
      by auto
    then have "mr_memory_id r = j" using catalog_ok_get [OF assms(1)] by simp
    moreover have "(j, r) \<in> set cat" using r(1) by (rule map_of_SomeD)
    ultimately show "j \<in> set (related True cat i) \<and> j \<in> dict_keys cat"
      using r by (force simp: related_def)
  qed
  then show ?thesis using assms(2) by (auto simp: edges_def derives_def)
qed

lemma ancestor_edges:
  "(j, i) \<in> edges (related False cat) (map fst cat) \<longleftrightarrow> (i, j) \<in> derives cat"
proof (cases "dict_get cat j")
  case (Some r)
  then show ?thesis by (auto simp: edges_def derives_def related_def)
qed (simp add: edges_def derives_def related_def)

text \<open>From a memory of the catalog, the search follows exactly the lineage relation.\<close>

lemma edges_from_catalog:
  assumes "i \<in> dict_keys cat"
    and "\<And>x y. x \<in> dict_keys cat \<Longrightarrow> (x, y) \<in> edges succs (map fst cat) \<longleftrightarrow> (x, y) \<in> R"
    and "\<And>x y. (x, y) \<in> R \<Longrightarrow> y \<in> dict_keys cat"
  shows "(edges succs (map fst cat))\<^sup>* `` {i} = R\<^sup>* `` {i}"
proof -
  have "(i, j) \<in> R\<^sup>* \<and> j \<in> dict_keys cat" if "(i, j) \<in> (edges succs (map fst cat))\<^sup>*" for j
    using that
  proof induction
    case (step y z)
    then have "(y, z) \<in> R" using assms(2) by blast
    with step.IH assms(3) show ?case by (meson rtrancl.rtrancl_into_rtrancl)
  qed (use assms(1) in simp)
  moreover have "(i, j) \<in> (edges succs (map fst cat))\<^sup>* \<and> j \<in> dict_keys cat" if "(i, j) \<in> R\<^sup>*" for j
    using that
  proof induction
    case (step y z)
    then have "(y, z) \<in> edges succs (map fst cat)" using assms(2) by blast
    with step assms(3) show ?case by (meson rtrancl.rtrancl_into_rtrancl)
  qed (use assms(1) in simp)
  ultimately show ?thesis by auto
qed

lemma derives_keys: "(i, j) \<in> derives cat \<Longrightarrow> i \<in> dict_keys cat \<and> j \<in> dict_keys cat"
  by (auto simp: derives_def dest: dict_get_in_keys)

lemma distinct_trace_ids: "distinct (trace_ids d cat i)"
  by (simp add: trace_ids_def bfs_reachable)

lemma trace_ids_keys: "set (trace_ids d cat i) \<subseteq> dict_keys cat"
  using bfs_nodes [of "related d cat" "map fst cat" i] by (simp add: trace_ids_def)

lemma trace_ids_descendants:
  assumes "catalog_ok cat" and "i \<in> dict_keys cat"
  shows "set (trace_ids True cat i) = (derives cat)\<^sup>* `` {i} - {i}"
proof -
  have "(edges (related True cat) (map fst cat))\<^sup>* `` {i} = (derives cat)\<^sup>* `` {i}"
    by (rule edges_from_catalog [OF assms(2)]) (auto simp: descendant_edges [OF assms(1)] dest: derives_keys)
  then show ?thesis using assms(2) by (simp add: trace_ids_def bfs_reachable map_of_eq_None_iff)
qed

lemma trace_ids_ancestors:
  assumes "i \<in> dict_keys cat"
  shows "set (trace_ids False cat i) = ((derives cat)\<inverse>)\<^sup>* `` {i} - {i}"
proof -
  have "(edges (related False cat) (map fst cat))\<^sup>* `` {i} = ((derives cat)\<inverse>)\<^sup>* `` {i}"
    by (rule edges_from_catalog [OF assms]) (auto simp: ancestor_edges dest: derives_keys)
  then show ?thesis using assms by (simp add: trace_ids_def bfs_reachable map_of_eq_None_iff)
qed

lemma trace_records:
  assumes "catalog_ok cat"
  shows "map mr_memory_id (trace d cat i) = trace_ids d cat i"
proof -
  have "map mr_memory_id (List.map_filter (dict_get cat) xs) = xs" if "set xs \<subseteq> dict_keys cat" for xs
    using that
  proof (induction xs)
    case (Cons x xs)
    then obtain r where r: "dict_get cat x = Some r" by (auto simp: dict_keys_get)
    with assms have "mr_memory_id r = x" by (rule catalog_ok_get)
    then show ?case using Cons r by (simp add: List.map_filter_simps)
  qed (simp add: List.map_filter_simps)
  then show ?thesis using trace_ids_keys [of d cat i] by (simp add: trace_def)
qed

end
