(* ===== verification/Memory_Taint.thy ===== *)
theory Memory_Taint
  imports Memory_Records
begin

text \<open>
  \<open>memory.py\<close>: \<open>MemoryTaintManager\<close>. Its state, the checks on a proposed write, the two-phase
  write (authorize, commit or abandon), retrieval, quarantine and invalidation with their rebuild
  plan, and revalidation. An operation runs under the manager's lock and is one function from the
  state to a decision and the next state; the events it publishes are part of the decision.
\<close>

section \<open>Parameters and state\<close>

text \<open>
  The digests, the text normalizer, the four content expressions and the compact split patterns,
  \<open>str.isalnum\<close>, and the application's verifiers and rebuild hook. A verifier that raises is
  \<open>None\<close>; a hook yields whether it completed.
\<close>

record mem_env =
  mx_hash_record :: record_hash
  mx_hash_request :: "mem_write_request \<Rightarrow> ident"
  mx_hash_authorization :: "mem_authorization \<Rightarrow> ident"
  mx_hash_event :: "mem_event \<Rightarrow> ident"
  mx_hash_content :: "pytext \<Rightarrow> ident"
  mx_normalize :: "pytext \<Rightarrow> pytext"
  mx_instruction :: "pytext \<Rightarrow> bool"
  mx_role_change :: "pytext \<Rightarrow> bool"
  mx_security_policy :: "pytext \<Rightarrow> bool"
  mx_delayed_trigger :: "pytext \<Rightarrow> bool"
  mx_isalnum :: "nat \<Rightarrow> bool"
  mx_split_patterns :: "(pytext \<Rightarrow> bool) list"
  mx_verify_approval :: "(mem_write_approval \<Rightarrow> bool option) option"
  mx_verify_revalidation :: "(mem_grant \<Rightarrow> bool option) option"
  mx_rebuild_hook :: "(rebuild_plan \<Rightarrow> bool) option"

record pending_write =
  pw_record :: mem_record
  pw_normalized_content :: pytext
  pw_authorization_digest :: ident

type_synonym history_key = "ident \<times> ident \<times> ident"

record mem_state =
  ml_catalog :: catalog
  ml_pending :: "(ident, pending_write) dict"
  ml_pending_memory_ids :: "ident set"
  ml_used_authorization_ids :: "ident set"
  ml_used_approval_ids :: "ident set"
  ml_used_revalidation_ids :: "ident set"
  ml_recent :: "(history_key, pytext list) dict"
  ml_event_sequence :: nat

definition empty_memory :: mem_state where
  "empty_memory = \<lparr>ml_catalog = [], ml_pending = [], ml_pending_memory_ids = {},
     ml_used_authorization_ids = {}, ml_used_approval_ids = {}, ml_used_revalidation_ids = {},
     ml_recent = [], ml_event_sequence = 0\<rparr>"

text \<open>\<open>records\<close>: the catalog in the order of the identifiers.\<close>

definition catalog_records :: "mem_state \<Rightarrow> mem_record list" where
  "catalog_records s = List.map_filter (dict_get (ml_catalog s)) (sort (map fst (ml_catalog s)))"

section \<open>Findings, signals, events\<close>

definition mem_find :: "taint_code \<Rightarrow> severity \<Rightarrow> risk_signal set \<Rightarrow> mem_finding" where
  "mem_find c s g = \<lparr>mf_code = c, mf_severity = s, mf_signals = g\<rparr>"

definition finding_if :: "bool \<Rightarrow> taint_code \<Rightarrow> severity \<Rightarrow> risk_signal set \<Rightarrow> mem_finding list" where
  "finding_if b c s g = (if b then [mem_find c s g] else [])"

lemma finding_if_simps [simp]:
  "finding_if b c s g = [] \<longleftrightarrow> \<not> b"
  "[] = finding_if b c s g \<longleftrightarrow> \<not> b"
  "f \<in> set (finding_if b c s g) \<longleftrightarrow> b \<and> f = mem_find c s g"
  "mf_code (mem_find c s g) = c" "mf_signals (mem_find c s g) = g"
  by (auto simp: finding_if_def mem_find_def)

fun dedup_from :: "taint_code set \<Rightarrow> mem_finding list \<Rightarrow> mem_finding list" where
  "dedup_from seen [] = []"
| "dedup_from seen (f # fs) =
     (if mf_code f \<in> seen then dedup_from seen fs else f # dedup_from (insert (mf_code f) seen) fs)"

definition mem_deduplicate :: "mem_finding list \<Rightarrow> mem_finding list" where
  "mem_deduplicate fs = dedup_from {} fs"

definition content_signals :: "mem_env \<Rightarrow> pytext \<Rightarrow> risk_signal set" where
  "content_signals e t =
     (if mx_instruction e t then {Instruction_bearing} else {}) \<union>
     (if mx_role_change e t then {Role_changing} else {}) \<union>
     (if mx_security_policy e t then {Security_policy} else {}) \<union>
     (if mx_delayed_trigger e t then {Delayed_trigger} else {})"

definition persistent_record_signals :: "mem_record \<Rightarrow> risk_signal set" where
  "persistent_record_signals r =
     (if \<exists>p \<in> set (mr_provenance r). mv_trust_level p = UNTRUSTED then {Untrusted_source} else {}) \<union>
     (if mr_scope r \<noteq> Scope_user then {Shared_scope} else {})"

definition has_split_payload :: "mem_env \<Rightarrow> pytext list \<Rightarrow> bool" where
  "has_split_payload e values =
     (let compact = filter (mx_isalnum e) (concat values)
      in \<exists>pattern \<in> set (mx_split_patterns e). pattern compact)"

definition signal_findings :: "risk_signal set \<Rightarrow> mem_finding list" where
  "signal_findings signals =
     finding_if (Instruction_bearing \<in> signals) Mc_instruction_memory HIGH {Instruction_bearing} @
     finding_if (Role_changing \<in> signals) Mc_role_change_memory HIGH {Role_changing} @
     finding_if (Security_policy \<in> signals) Mc_security_policy_memory HIGH {Security_policy} @
     finding_if (Delayed_trigger \<in> signals) Mc_delayed_trigger_memory HIGH {Delayed_trigger}"

definition safe_mem_identifier :: "ident \<Rightarrow> ident" where
  "safe_mem_identifier v =
     (let s = take 256 (map (\<lambda>c. if identifier_char c then c else CHR ''_'') v)
      in if s \<noteq> [] \<and> ascii_alnum (hd s) then s else ''invalid'')"

definition mem_event_of ::
  "mem_env \<Rightarrow> mem_event_kind \<Rightarrow> ident list \<Rightarrow> ident \<Rightarrow> ident \<Rightarrow> guard_action \<Rightarrow> mem_finding list \<Rightarrow> datetime \<Rightarrow>
   mem_state \<Rightarrow> mem_event \<times> mem_state" where
  "mem_event_of e kind ids tenant purpose action findings now s =
     (let s' = s\<lparr>ml_event_sequence := ml_event_sequence s + 1\<rparr>;
          ev = \<lparr>mn_event_id = [], mn_sequence = ml_event_sequence s', mn_kind = kind,
                mn_memory_ids = map safe_mem_identifier ids, mn_tenant_id = safe_mem_identifier tenant,
                mn_purpose_id = safe_mem_identifier purpose, mn_action = action,
                mn_finding_codes = map mf_code (mem_deduplicate findings), mn_occurred_at = now\<rparr>
      in (ev\<lparr>mn_event_id := mx_hash_event e ev\<rparr>, s'))"

section \<open>Split-entry history\<close>

definition scope_value :: "mem_scope \<Rightarrow> string" where
  "scope_value s = (case s of Scope_user \<Rightarrow> ''user'' | Scope_tenant \<Rightarrow> ''tenant'' | Scope_global \<Rightarrow> ''global'')"

definition history_key_of :: "mem_record \<Rightarrow> history_key" where
  "history_key_of r =
     (mr_tenant_id r,
      (case mr_owner_user_id r of Some u \<Rightarrow> if u = [] then ''scope:'' @ scope_value (mr_scope r) else u
       | None \<Rightarrow> ''scope:'' @ scope_value (mr_scope r)),
      mr_purpose_id r)"

text \<open>Looking a history up creates it.\<close>

definition mem_history :: "mem_record \<Rightarrow> mem_state \<Rightarrow> pytext list \<times> mem_state" where
  "mem_history r s =
     (case dict_get (ml_recent s) (history_key_of r) of
        Some h \<Rightarrow> (h, s)
      | None \<Rightarrow> ([], s\<lparr>ml_recent := dict_set (ml_recent s) (history_key_of r) []\<rparr>))"

definition tail_chars :: "nat \<Rightarrow> pytext \<Rightarrow> pytext" where
  "tail_chars n t = drop (length t - n) t"

definition append_history :: "mem_policy \<Rightarrow> mem_record \<Rightarrow> pytext \<Rightarrow> mem_state \<Rightarrow> mem_state" where
  "append_history p r normalized s =
     (let (h, s') = mem_history r s
      in s'\<lparr>ml_recent := dict_set (ml_recent s') (history_key_of r)
             (deque_append (mt_max_recent_entries p) h (tail_chars (mt_max_history_chars p) normalized))\<rparr>)"

definition replace_history :: "mem_policy \<Rightarrow> mem_record \<Rightarrow> pytext \<Rightarrow> mem_state \<Rightarrow> mem_state" where
  "replace_history p r normalized s =
     (let (h, s') = mem_history r s
      in s'\<lparr>ml_recent := dict_set (ml_recent s') (history_key_of r)
             [tail_chars (mt_max_history_chars p) normalized]\<rparr>)"

section \<open>Checks on a proposed write\<close>

definition mem_request_integrity :: "mem_env \<Rightarrow> mem_write_request \<Rightarrow> bool" where
  "mem_request_integrity e q \<longleftrightarrow> mq_request_digest q = mx_hash_request e (q\<lparr>mq_request_digest := []\<rparr>)"

definition write_findings ::
  "mem_env \<Rightarrow> mem_policy \<Rightarrow> mem_write_request \<Rightarrow> pytext \<Rightarrow> mem_finding list \<times> risk_signal set \<times> pytext" where
  "write_findings e p q content =
     (let r = mq_record q;
          normalized = mx_normalize e content;
          shared = mr_scope r \<noteq> Scope_user;
          trusted = mq_actor_id q \<in> mt_trusted_writer_ids p;
          foreign = \<not> shared \<and> mq_actor_user_id q \<noteq> mr_owner_user_id r \<and> \<not> trusted;
          signals = mr_taint_signals r
            \<union> (if mr_taint_status r \<notin> safe_status then {Taint_inheritance} else {})
            \<union> content_signals e normalized
            \<union> persistent_record_signals r
            \<union> (if foreign then {Cross_user} else {})
      in (finding_if (\<not> mem_request_integrity e q) Mc_request_integrity_invalid CRITICAL {Integrity_mismatch} @
          finding_if (\<not> record_integrity (mx_hash_record e) r) Mc_record_integrity_invalid CRITICAL {Integrity_mismatch} @
          finding_if (\<not> matches_content (mx_hash_content e) r content) Mc_content_integrity_invalid CRITICAL {Integrity_mismatch} @
          finding_if (mq_tenant_id q \<noteq> mr_tenant_id r \<or> mq_actor_id q \<noteq> mr_writer_id r) Mc_tenant_mismatch CRITICAL {} @
          finding_if (mq_purpose_id q \<noteq> mr_purpose_id r) Mc_purpose_mismatch CRITICAL {} @
          finding_if (mr_purpose_id r \<notin> mt_allowed_purpose_ids p) Mc_purpose_mismatch HIGH {} @
          finding_if (mt_max_dependencies p < length (mr_dependencies r)) Mc_dependency_unknown HIGH {} @
          finding_if (mt_max_provenance_sources p < length (mr_provenance r)) Mc_provenance_dropped HIGH {Provenance_dropped} @
          finding_if (shared \<and> \<not> trusted) Mc_shared_write_unauthorized CRITICAL {Shared_scope} @
          finding_if foreign Mc_cross_user_write CRITICAL {Cross_user} @
          signal_findings signals,
          signals, normalized))"

definition parents :: "catalog \<Rightarrow> mem_record \<Rightarrow> mem_record list" where
  "parents cat r = List.map_filter (\<lambda>d. dict_get cat (md_memory_id d)) (mr_dependencies r)"

definition audience_changed :: "mem_record \<Rightarrow> mem_record \<Rightarrow> bool" where
  "audience_changed r parent \<longleftrightarrow>
     mr_scope parent \<noteq> mr_scope r \<or> mr_owner_user_id parent \<noteq> mr_owner_user_id r"

definition dependency_findings :: "catalog \<Rightarrow> mem_record \<Rightarrow> mem_dependency \<Rightarrow> mem_finding list" where
  "dependency_findings cat r d =
     (case dict_get cat (md_memory_id d) of
        None \<Rightarrow> [mem_find Mc_dependency_unknown CRITICAL {}]
      | Some parent \<Rightarrow>
          finding_if (mr_record_digest parent \<noteq> md_record_digest d) Mc_dependency_rebound CRITICAL {} @
          finding_if (mr_tenant_id parent \<noteq> mr_tenant_id r) Mc_tenant_mismatch CRITICAL {} @
          finding_if (mr_purpose_id parent \<noteq> mr_purpose_id r) Mc_purpose_mismatch CRITICAL {} @
          finding_if (audience_changed r parent) Mc_cross_user_write CRITICAL {Cross_user})"

text \<open>The parents' provenance by source, with a flag for two parents disagreeing on a source.\<close>

definition merge_source ::
  "(ident, mem_provenance) dict \<times> bool \<Rightarrow> mem_provenance \<Rightarrow> (ident, mem_provenance) dict \<times> bool" where
  "merge_source acc x =
     (dict_set (fst acc) (mv_source_id x) x,
      snd acc \<or> (case dict_get (fst acc) (mv_source_id x) of Some y \<Rightarrow> y \<noteq> x | None \<Rightarrow> False))"

definition parent_provenance :: "mem_record list \<Rightarrow> (ident, mem_provenance) dict \<times> bool" where
  "parent_provenance ps = foldl merge_source ([], False) (concat (map mr_provenance ps))"

definition record_provenance :: "mem_record \<Rightarrow> (ident, mem_provenance) dict" where
  "record_provenance r = dict_merge [] (map (\<lambda>x. (mv_source_id x, x)) (mr_provenance r))"

definition provenance_changed :: "catalog \<Rightarrow> mem_record \<Rightarrow> bool" where
  "provenance_changed cat r =
     (let (pp, conflicting) = parent_provenance (parents cat r)
      in conflicting \<or> (\<exists>(i, x) \<in> set pp. dict_get (record_provenance r) i \<noteq> Some x))"

definition inherited_signals :: "catalog \<Rightarrow> mem_record \<Rightarrow> risk_signal set" where
  "inherited_signals cat r = \<Union> (set (map (\<lambda>x. mr_taint_signals x
      \<union> (if mr_taint_status x \<notin> safe_status then {Taint_inheritance} else {})) (parents cat r)))"

definition laundering_signal :: "mem_record \<Rightarrow> risk_signal" where
  "laundering_signal r =
     (if mr_transformation r = Tf_summary \<or> mr_transformation r = Tf_merge then Summary_laundering
      else Taint_inheritance)"

definition catalog_write_findings ::
  "mem_env \<Rightarrow> mem_write_request \<Rightarrow> risk_signal set \<Rightarrow> pytext \<Rightarrow> mem_state \<Rightarrow>
   mem_finding list \<times> risk_signal set \<times> mem_state" where
  "catalog_write_findings e q signals normalized s =
     (let r = mq_record q; cat = ml_catalog s;
          inherited = inherited_signals cat r;
          laundered = inherited \<noteq> {} \<and> \<not> inherited \<subseteq> mr_taint_signals r;
          changed = provenance_changed cat r;
          (history, s') = mem_history r s;
          split = history \<noteq> [] \<and> has_split_payload e (history @ [normalized])
      in (finding_if (mr_memory_id r \<in> dict_keys cat \<or> mr_memory_id r \<in> ml_pending_memory_ids s)
            Mc_memory_already_exists CRITICAL {} @
          concat (map (dependency_findings cat r) (mr_dependencies r)) @
          finding_if changed Mc_provenance_dropped CRITICAL {Provenance_dropped} @
          finding_if laundered (if laundering_signal r = Summary_laundering then Mc_summary_laundering
              else Mc_tainted_dependency) CRITICAL {laundering_signal r} @
          finding_if split Mc_split_entry_poisoning CRITICAL {Split_entry},
          signals
            \<union> (if list_ex (audience_changed r) (parents cat r) then {Cross_user} else {})
            \<union> (if changed then {Provenance_dropped} else {})
            \<union> (if laundered then {laundering_signal r} else inherited)
            \<union> (if split then {Split_entry} else {}),
          s'))"

text \<open>A verifier that is absent or raises does not authenticate.\<close>

definition verified :: "('a \<Rightarrow> bool option) option \<Rightarrow> 'a \<Rightarrow> bool" where
  "verified v x = (case v of None \<Rightarrow> False | Some f \<Rightarrow> f x = Some True)"

definition approval_findings ::
  "mem_env \<Rightarrow> mem_write_request \<Rightarrow> risk_signal set \<Rightarrow> mem_write_approval option \<Rightarrow> datetime \<Rightarrow> mem_state \<Rightarrow>
   mem_finding list" where
  "approval_findings e q signals approval now s =
     (case approval of
        None \<Rightarrow> [mem_find Mc_privileged_write_requires_approval HIGH signals]
      | Some a \<Rightarrow>
          if mw_request_digest a \<noteq> mq_request_digest q \<or> mw_tenant_id a \<noteq> mq_tenant_id q
             \<or> \<not> signals \<subseteq> mw_approved_signals a \<or> \<not> verified (mx_verify_approval e) a
          then [mem_find Mc_approval_invalid CRITICAL signals]
          else if mw_expires_at a < now \<or> now < mw_issued_at a
          then [mem_find Mc_approval_expired HIGH signals]
          else if mw_approval_id a \<in> ml_used_approval_ids s
          then [mem_find Mc_approval_replayed CRITICAL signals]
          else [])"

definition hard_codes :: "taint_code set" where
  "hard_codes = {Mc_request_integrity_invalid, Mc_record_integrity_invalid, Mc_content_integrity_invalid,
     Mc_memory_already_exists, Mc_dependency_unknown, Mc_dependency_rebound, Mc_tenant_mismatch,
     Mc_purpose_mismatch, Mc_cross_user_write, Mc_shared_write_unauthorized}"

section \<open>Authorizing a write\<close>

text \<open>All signals of a proposed write, with its findings and the state in which the history exists.\<close>

definition analyse_write ::
  "mem_env \<Rightarrow> mem_policy \<Rightarrow> mem_write_request \<Rightarrow> pytext \<Rightarrow> mem_state \<Rightarrow>
   mem_finding list \<times> risk_signal set \<times> pytext \<times> mem_state" where
  "analyse_write e p q content s =
     (let (f1, sg1, normalized) = write_findings e p q content;
          (f2, sg2, s') = catalog_write_findings e q sg1 normalized s;
          findings = f1 @ f2
      in (findings, sg2 \<union> \<Union> (set (map mf_signals findings)), normalized, s'))"

text \<open>
  The verdict on the analysed write: the action, all findings, the effective record and the next
  state. An \<open>ALLOW\<close> without an effective record is the \<open>ValueError\<close> of a record that the validators
  reject, which only the quarantine branch suppresses.
\<close>

definition write_verdict ::
  "mem_env \<Rightarrow> mem_policy \<Rightarrow> mem_write_request \<Rightarrow> mem_write_approval option \<Rightarrow> datetime \<Rightarrow>
   mem_finding list \<Rightarrow> risk_signal set \<Rightarrow> mem_state \<Rightarrow>
   guard_action \<times> mem_finding list \<times> mem_record option \<times> mem_state" where
  "write_verdict e p q approval now findings signals s =
     (let h = mx_hash_record e; r = mq_record q;
          privileged = signals \<inter> mt_privileged_signals p
      in if signals \<inter> mt_non_overridable_signals p \<noteq> {} \<or> (\<exists>f \<in> set findings. mf_code f \<in> hard_codes)
         then (QUARANTINE, findings, transition_record h Quarantined signals None False None r, s)
         else if privileged \<noteq> {}
         then (let af = approval_findings e q privileged approval now s in
               case approval of
                 Some a \<Rightarrow>
                   if af = [] then (ALLOW, findings, transition_record h Reviewed signals (Some (mw_approval_id a)) False None r,
                      s\<lparr>ml_used_approval_ids := insert (mw_approval_id a) (ml_used_approval_ids s)\<rparr>)
                   else (REQUIRE_APPROVAL, findings @ af, None, s)
               | None \<Rightarrow> (REQUIRE_APPROVAL, findings @ af, None, s))
         else (ALLOW, findings, transition_record h Clean signals None False None r, s))"

definition seal_authorization :: "mem_env \<Rightarrow> mem_authorization \<Rightarrow> mem_authorization" where
  "seal_authorization e a =
     a\<lparr>mz_authorization_digest := mx_hash_authorization e (a\<lparr>mz_authorization_digest := []\<rparr>)\<rparr>"

definition authorization_integrity :: "mem_env \<Rightarrow> mem_authorization \<Rightarrow> bool" where
  "authorization_integrity e a \<longleftrightarrow>
     mz_authorization_digest a = mx_hash_authorization e (a\<lparr>mz_authorization_digest := []\<rparr>)"

definition make_authorization ::
  "mem_env \<Rightarrow> mem_policy \<Rightarrow> mem_write_request \<Rightarrow> mem_record \<Rightarrow> ident \<Rightarrow> datetime \<Rightarrow> mem_authorization" where
  "make_authorization e p q r uid now = seal_authorization e
     \<lparr>mz_authorization_id = uid, mz_request_digest = mq_request_digest q, mz_memory_id = mr_memory_id r,
      mz_record_digest = mr_record_digest r, mz_content_digest = mr_content_digest r,
      mz_tenant_id = mr_tenant_id r, mz_purpose_id = mr_purpose_id r, mz_issued_at = now,
      mz_expires_at = now + td_seconds (mt_authorization_ttl_seconds p), mz_authorization_digest = []\<rparr>"

definition reserve_write :: "mem_authorization \<Rightarrow> mem_record \<Rightarrow> pytext \<Rightarrow> mem_state \<Rightarrow> mem_state" where
  "reserve_write a r normalized s =
     s\<lparr>ml_pending := dict_set (ml_pending s) (mz_authorization_id a)
         \<lparr>pw_record = r, pw_normalized_content = normalized,
          pw_authorization_digest = mz_authorization_digest a\<rparr>,
       ml_pending_memory_ids := insert (mr_memory_id r) (ml_pending_memory_ids s)\<rparr>"

text \<open>\<open>uid\<close> is the identifier drawn for the authorization; \<open>None\<close> is a raised \<open>ValueError\<close>.\<close>

definition authorize_write ::
  "mem_env \<Rightarrow> mem_policy \<Rightarrow> mem_write_request \<Rightarrow> pytext \<Rightarrow> mem_write_approval option \<Rightarrow> ident \<Rightarrow> datetime \<Rightarrow>
   mem_state \<Rightarrow> mem_decision option \<times> mem_state" where
  "authorize_write e p q content approval uid now s =
     (let r = mq_record q;
          (findings0, signals, normalized, s1) = analyse_write e p q content s;
          (action, findings, effective, s2) = write_verdict e p q approval now findings0 signals s1
      in if action = ALLOW \<and> effective = None then (None, s2)
         else let
          granted = (case effective of
              Some r' \<Rightarrow> if action = ALLOW then Some (r', make_authorization e p q r' uid now) else None
            | None \<Rightarrow> None);
          s3 = (case granted of Some (r', a) \<Rightarrow> reserve_write a r' normalized s2 | None \<Rightarrow> s2);
          (ev, s4) = mem_event_of e (if action = ALLOW then Write_allowed else Write_denied)
            [mr_memory_id r] (mr_tenant_id r) (mr_purpose_id r) action findings now s3
         in (Some \<lparr>my_action = action, my_findings = mem_deduplicate findings,
              my_authorization = map_option snd granted, my_record = effective, my_records = [],
              my_rebuild_plan = None, my_events = [ev]\<rparr>, s4))"

datatype mem_error = Memory_taint_error mem_decision | Memory_value_error

definition require_write ::
  "mem_env \<Rightarrow> mem_policy \<Rightarrow> mem_write_request \<Rightarrow> pytext \<Rightarrow> mem_write_approval option \<Rightarrow> ident \<Rightarrow> datetime \<Rightarrow>
   mem_state \<Rightarrow> (mem_error + mem_authorization) \<times> mem_state" where
  "require_write e p q content approval uid now s =
     (let (d, s') = authorize_write e p q content approval uid now s in
      (case d of None \<Rightarrow> Inl Memory_value_error
       | Some d \<Rightarrow> (case my_authorization d of
           Some a \<Rightarrow> if mem_authorized d then Inr a else Inl (Memory_taint_error d)
         | None \<Rightarrow> Inl (Memory_taint_error d)), s'))"

section \<open>Committing and abandoning a write\<close>

definition commit_findings ::
  "mem_env \<Rightarrow> mem_authorization \<Rightarrow> pytext \<Rightarrow> datetime \<Rightarrow> mem_state \<Rightarrow> mem_finding list" where
  "commit_findings e a stored now s =
     (let pending = dict_get (ml_pending s) (mz_authorization_id a)
      in finding_if (\<not> authorization_integrity e a) Mc_authorization_invalid CRITICAL {} @
         finding_if (mz_expires_at a < now) Mc_authorization_expired HIGH {} @
         finding_if (mz_authorization_id a \<in> ml_used_authorization_ids s) Mc_authorization_replayed CRITICAL {} @
         finding_if (case pending of None \<Rightarrow> True
             | Some w \<Rightarrow> pw_authorization_digest w \<noteq> mz_authorization_digest a
                 \<or> mr_record_digest (pw_record w) \<noteq> mz_record_digest a) Mc_authorization_invalid CRITICAL {} @
         finding_if (case pending of None \<Rightarrow> False
             | Some w \<Rightarrow> \<not> matches_content (mx_hash_content e) (pw_record w) stored)
           Mc_content_integrity_invalid CRITICAL {Integrity_mismatch})"

text \<open>Removing a reservation: the lease and the memory identifier are free, the lease is used up.\<close>

definition drop_pending :: "ident \<Rightarrow> ident \<Rightarrow> mem_state \<Rightarrow> mem_state" where
  "drop_pending aid mid s =
     s\<lparr>ml_pending := dict_del (ml_pending s) aid,
       ml_pending_memory_ids := ml_pending_memory_ids s - {mid},
       ml_used_authorization_ids := insert aid (ml_used_authorization_ids s)\<rparr>"

definition store_record :: "mem_record \<Rightarrow> mem_state \<Rightarrow> mem_state" where
  "store_record r s = s\<lparr>ml_catalog := dict_set (ml_catalog s) (mr_memory_id r) r\<rparr>"

definition simple_decision ::
  "guard_action \<Rightarrow> mem_finding list \<Rightarrow> mem_record option \<Rightarrow> mem_record list \<Rightarrow> mem_event list \<Rightarrow> mem_decision" where
  "simple_decision action findings r rs evs =
     \<lparr>my_action = action, my_findings = mem_deduplicate findings, my_authorization = None, my_record = r,
      my_records = rs, my_rebuild_plan = None, my_events = evs\<rparr>"

definition commit_write ::
  "mem_env \<Rightarrow> mem_policy \<Rightarrow> mem_authorization \<Rightarrow> pytext \<Rightarrow> datetime \<Rightarrow> mem_state \<Rightarrow> mem_decision \<times> mem_state" where
  "commit_write e p a stored now s =
     (let findings = commit_findings e a stored now s in
      case dict_get (ml_pending s) (mz_authorization_id a) of
        Some w \<Rightarrow>
          if findings = [] then
            let r = pw_record w;
                s1 = append_history p r (pw_normalized_content w)
                       (store_record r (drop_pending (mz_authorization_id a) (mr_memory_id r) s));
                (ev, s2) = mem_event_of e Write_committed [mr_memory_id r] (mr_tenant_id r)
                  (mr_purpose_id r) ALLOW [] now s1
            in (simple_decision ALLOW [] (Some r) [] [ev], s2)
          else
            let (ev, s2) = mem_event_of e Write_denied [mz_memory_id a] (mr_tenant_id (pw_record w))
                  (mr_purpose_id (pw_record w)) BLOCK findings now s
            in (simple_decision BLOCK findings None [] [ev], s2)
      | None \<Rightarrow>
          let (ev, s2) = mem_event_of e Write_denied [mz_memory_id a] (mz_tenant_id a)
                (mz_purpose_id a) BLOCK findings now s
          in (simple_decision BLOCK findings None [] [ev], s2))"

definition abandon_write ::
  "mem_env \<Rightarrow> mem_authorization \<Rightarrow> datetime \<Rightarrow> mem_state \<Rightarrow> mem_event option \<times> mem_state" where
  "abandon_write e a now s =
     (case dict_get (ml_pending s) (mz_authorization_id a) of
        Some w \<Rightarrow>
          if pw_authorization_digest w = mz_authorization_digest a then
            let r = pw_record w;
                (ev, s') = mem_event_of e Write_abandoned [mr_memory_id r] (mr_tenant_id r) (mr_purpose_id r)
                  BLOCK [] now (drop_pending (mz_authorization_id a) (mr_memory_id r) s)
            in (Some ev, s')
          else (None, s)
      | None \<Rightarrow> (None, s))"

section \<open>Transitions along the lineage\<close>

text \<open>
  \<open>_transition_affected\<close>: the memory and every transitive dependent get the status; the dependents
  also get the inherited signal. The identifiers come back in the order of the search.
\<close>

definition revise_entry ::
  "mem_env \<Rightarrow> taint_status \<Rightarrow> risk_signal set \<Rightarrow> catalog \<Rightarrow> mem_record \<Rightarrow> catalog" where
  "revise_entry e status extra cat r =
     dict_set cat (mr_memory_id r)
       (revise (mx_hash_record e) status (mr_taint_signals r \<union> extra) None True None r)"

definition transition_affected ::
  "mem_env \<Rightarrow> taint_status \<Rightarrow> risk_signal \<Rightarrow> ident \<Rightarrow> catalog \<Rightarrow> ident list \<times> catalog" where
  "transition_affected e status inherited i cat =
     (case dict_get cat i of
        None \<Rightarrow> ([], cat)
      | Some r \<Rightarrow>
          (let rs = trace True cat i
           in (mr_memory_id r # map mr_memory_id rs,
               foldl (revise_entry e status {inherited}) (revise_entry e status {} cat r) rs)))"

text \<open>The plan's validators bound its lists and check the reason code; \<open>None\<close> is their \<open>ValueError\<close>.\<close>

definition rebuild_plan_of :: "mem_record \<Rightarrow> ident list \<Rightarrow> ident \<Rightarrow> catalog \<Rightarrow> rebuild_plan option" where
  "rebuild_plan_of r affected reason cat =
     (let sources = sort (remdups (map mv_source_id (filter (\<lambda>x. mv_trust_level x = TRUSTED)
            (concat (map (\<lambda>i. case dict_get cat i of None \<Rightarrow> [] | Some x \<Rightarrow> mr_provenance x) affected)))))
      in if affected \<noteq> [] \<and> length affected \<le> 10000 \<and> length sources \<le> 10000 \<and> identifier_ok reason
         then Some \<lparr>mj_root_memory_id = mr_memory_id r, mj_affected_memory_ids = affected,
           mj_authoritative_source_ids = sources, mj_tenant_id = mr_tenant_id r,
           mj_purpose_id = mr_purpose_id r, mj_reason_code = reason\<rparr>
         else None)"

text \<open>
  A hook that raises is recorded by one more event. Only these events and the decision depend on
  it.
\<close>

definition request_rebuild :: "mem_env \<Rightarrow> rebuild_plan \<Rightarrow> datetime \<Rightarrow> mem_state \<Rightarrow> mem_event list \<times> mem_state" where
  "request_rebuild e plan now s =
     (case mx_rebuild_hook e of
        None \<Rightarrow> ([], s)
      | Some hook \<Rightarrow>
          if hook plan then ([], s)
          else (let (ev, s') = mem_event_of e Hook_failed (mj_affected_memory_ids plan) (mj_tenant_id plan)
                  (mj_purpose_id plan) BLOCK [mem_find Mc_hook_failed HIGH {}] now s
                in ([ev], s')))"

definition remediate ::
  "mem_env \<Rightarrow> taint_status \<Rightarrow> mem_event_kind \<Rightarrow> ident \<Rightarrow> ident \<Rightarrow> datetime \<Rightarrow> mem_state \<Rightarrow>
   mem_decision option \<times> mem_state" where
  "remediate e status kind i reason now s =
     (case dict_get (ml_catalog s) i of
        None \<Rightarrow> (Some (simple_decision BLOCK [mem_find Mc_memory_unknown CRITICAL {}] None [] []), s)
      | Some r \<Rightarrow>
          let (affected, cat) = transition_affected e status Taint_inheritance i (ml_catalog s);
              s1 = s\<lparr>ml_catalog := cat\<rparr>
          in case rebuild_plan_of r affected reason cat of
               None \<Rightarrow> (None, s1)
             | Some plan \<Rightarrow>
                 let (ev1, s2) = mem_event_of e kind affected (mr_tenant_id r) (mr_purpose_id r) QUARANTINE [] now s1;
                     (ev2, s3) = mem_event_of e Rebuild_requested affected (mr_tenant_id r) (mr_purpose_id r)
                       REQUIRE_APPROVAL [mem_find Mc_rebuild_required HIGH {}] now s2;
                     (evs, s4) = request_rebuild e plan now s3
                 in (Some \<lparr>my_action = QUARANTINE, my_findings = [], my_authorization = None,
                       my_record = None, my_records = [], my_rebuild_plan = Some plan,
                       my_events = [ev1, ev2] @ evs\<rparr>, s4))"

definition quarantine :: "mem_env \<Rightarrow> ident \<Rightarrow> ident \<Rightarrow> datetime \<Rightarrow> mem_state \<Rightarrow> mem_decision option \<times> mem_state" where
  "quarantine e = remediate e Quarantined Quarantined_event"

definition invalidate :: "mem_env \<Rightarrow> ident \<Rightarrow> ident \<Rightarrow> datetime \<Rightarrow> mem_state \<Rightarrow> mem_decision option \<times> mem_state" where
  "invalidate e = remediate e Invalidated Invalidated_event"

section \<open>Retrieval\<close>

definition unsafe_parent :: "catalog \<Rightarrow> mem_dependency \<Rightarrow> bool" where
  "unsafe_parent cat d =
     (case dict_get cat (md_memory_id d) of
        None \<Rightarrow> True
      | Some x \<Rightarrow> mr_record_digest x \<noteq> md_record_digest d \<or> mr_taint_status x \<notin> safe_status)"

definition read_record_findings ::
  "mem_env \<Rightarrow> mem_read_request \<Rightarrow> datetime \<Rightarrow> catalog \<Rightarrow> mem_record \<Rightarrow> mem_finding list" where
  "read_record_findings e q now cat r =
     finding_if (\<not> record_integrity (mx_hash_record e) r) Mc_record_integrity_invalid CRITICAL {Integrity_mismatch} @
     finding_if (mo_tenant_id q \<noteq> mr_tenant_id r) Mc_tenant_mismatch CRITICAL {} @
     finding_if (mo_purpose_id q \<noteq> mr_purpose_id r) Mc_purpose_mismatch HIGH {} @
     finding_if (mr_scope r = Scope_user \<and> mo_reader_user_id q \<noteq> mr_owner_user_id r) Mc_retrieval_denied CRITICAL {} @
     (if mr_taint_status r = Quarantined then [mem_find Mc_memory_quarantined CRITICAL {}]
      else if mr_taint_status r = Invalidated then [mem_find Mc_memory_invalidated CRITICAL {}]
      else finding_if (mr_taint_status r \<notin> safe_status) Mc_retrieval_denied HIGH {}) @
     finding_if (case mr_expires_at r of None \<Rightarrow> False | Some x \<Rightarrow> x < now) Mc_memory_invalidated HIGH {} @
     concat (map (\<lambda>d. finding_if (unsafe_parent cat d) Mc_tainted_dependency CRITICAL {Taint_inheritance})
       (mr_dependencies r))"

text \<open>What one requested memory contributes: findings, records, newly tainted memories and texts.\<close>

type_synonym read_part = "mem_finding list \<times> mem_record list \<times> ident list \<times> pytext list"

definition read_one ::
  "mem_env \<Rightarrow> mem_read_request \<Rightarrow> (ident \<Rightarrow> pytext option) \<Rightarrow> datetime \<Rightarrow> catalog \<Rightarrow> ident \<Rightarrow> read_part" where
  "read_one e q contents now cat i =
     (case dict_get cat i of
        None \<Rightarrow> ([mem_find Mc_memory_unknown CRITICAL {}], [], [], [])
      | Some r \<Rightarrow>
          let fs = read_record_findings e q now cat r;
              mismatch = (fs @ [mem_find Mc_content_integrity_invalid CRITICAL {Integrity_mismatch}], [r], [i], [])
          in (case contents i of
                None \<Rightarrow> mismatch
              | Some content \<Rightarrow>
                  if \<not> matches_content (mx_hash_content e) r content then mismatch
                  else let normalized = mx_normalize e content;
                           unexpected = content_signals e normalized - mr_taint_signals r
                       in (fs @ signal_findings unexpected, [r],
                           (if unexpected \<noteq> {} then [i] else []), [normalized])))"

fun read_all ::
  "mem_env \<Rightarrow> mem_read_request \<Rightarrow> (ident \<Rightarrow> pytext option) \<Rightarrow> datetime \<Rightarrow> catalog \<Rightarrow> ident list \<Rightarrow> read_part" where
  "read_all e q contents now cat [] = ([], [], [], [])"
| "read_all e q contents now cat (i # is) =
     (let (fs, rs, ts, ns) = read_one e q contents now cat i;
          (fs', rs', ts', ns') = read_all e q contents now cat is
      in (fs @ fs', rs @ rs', ts @ ts', ns @ ns'))"

definition taint_all :: "mem_env \<Rightarrow> ident list \<Rightarrow> catalog \<Rightarrow> catalog" where
  "taint_all e tainted cat =
     foldl (\<lambda>c i. snd (transition_affected e Quarantined Taint_inheritance i c)) cat (sort (remdups tainted))"

definition authorize_retrieval ::
  "mem_env \<Rightarrow> mem_read_request \<Rightarrow> (ident \<Rightarrow> pytext option) \<Rightarrow> datetime \<Rightarrow> mem_state \<Rightarrow> mem_decision \<times> mem_state" where
  "authorize_retrieval e q contents now s =
     (let (fs0, selected, tainted0, texts) = read_all e q contents now (ml_catalog s) (mo_memory_ids q);
          split = 1 < length texts \<and> has_split_payload e texts;
          fs = fs0 @ finding_if split Mc_split_entry_poisoning CRITICAL {Split_entry};
          tainted = tainted0 @ (if split then map mr_memory_id selected else []);
          s1 = s\<lparr>ml_catalog := taint_all e tainted (ml_catalog s)\<rparr>;
          action = (if fs = [] then ALLOW else BLOCK);
          (ev, s2) = mem_event_of e (if action = ALLOW then Retrieval_allowed else Retrieval_denied_event)
            (mo_memory_ids q) (mo_tenant_id q) (mo_purpose_id q) action fs now s1
      in (simple_decision action fs None (if action = ALLOW then selected else []) [ev], s2))"

definition require_retrieval ::
  "mem_env \<Rightarrow> mem_read_request \<Rightarrow> (ident \<Rightarrow> pytext option) \<Rightarrow> datetime \<Rightarrow> mem_state \<Rightarrow>
   (mem_error + mem_record list) \<times> mem_state" where
  "require_retrieval e q contents now s =
     (let (d, s') = authorize_retrieval e q contents now s
      in (if mem_authorized d then Inr (my_records d) else Inl (Memory_taint_error d), s'))"

section \<open>Revalidation\<close>

definition revalidation_findings ::
  "mem_env \<Rightarrow> mem_record \<Rightarrow> pytext \<Rightarrow> mem_grant \<Rightarrow> datetime \<Rightarrow> mem_state \<Rightarrow> mem_finding list" where
  "revalidation_findings e r content g now s = mem_deduplicate
     (finding_if (mr_taint_status r \<notin> {Suspect, Tainted, Quarantined}) Mc_revalidation_rejected HIGH {} @
      finding_if (mk_memory_id g \<noteq> mr_memory_id r \<or> mk_record_digest g \<noteq> mr_record_digest r
          \<or> mk_content_digest g \<noteq> mr_content_digest r \<or> mk_tenant_id g \<noteq> mr_tenant_id r
          \<or> \<not> matches_content (mx_hash_content e) r content \<or> \<not> verified (mx_verify_revalidation e) g)
        Mc_revalidation_invalid CRITICAL {} @
      finding_if (now < mk_issued_at g \<or> mk_expires_at g < now) Mc_revalidation_invalid HIGH {} @
      finding_if (mk_grant_id g \<in> ml_used_revalidation_ids s) Mc_revalidation_invalid CRITICAL {} @
      finding_if (content_signals e (mx_normalize e content) \<noteq> {}) Mc_revalidation_rejected CRITICAL {} @
      concat (map (\<lambda>d. finding_if (unsafe_parent (ml_catalog s) d) Mc_revalidation_rejected CRITICAL {})
        (mr_dependencies r)))"

definition revalidated :: "mem_env \<Rightarrow> mem_record \<Rightarrow> mem_record" where
  "revalidated e r =
     (let signals = persistent_record_signals r
      in revise (mx_hash_record e) (if signals \<noteq> {} then Reviewed else Clean) signals None True
           (Some (mr_version r + 1)) r)"

definition revalidate ::
  "mem_env \<Rightarrow> mem_policy \<Rightarrow> ident \<Rightarrow> pytext \<Rightarrow> mem_grant \<Rightarrow> datetime \<Rightarrow> mem_state \<Rightarrow> mem_decision \<times> mem_state" where
  "revalidate e p i content g now s =
     (case dict_get (ml_catalog s) i of
        None \<Rightarrow>
          let fs = [mem_find Mc_memory_unknown CRITICAL {}];
              (ev, s') = mem_event_of e Revalidation_denied [i] (mk_tenant_id g) ''unknown-purpose'' BLOCK fs now s
          in (simple_decision BLOCK fs None [] [ev], s')
      | Some r \<Rightarrow>
          let fs = revalidation_findings e r content g now s
          in if fs = [] then
               let r' = revalidated e r;
                   s1 = replace_history p r (mx_normalize e content)
                     (s\<lparr>ml_used_revalidation_ids := insert (mk_grant_id g) (ml_used_revalidation_ids s),
                        ml_catalog := dict_set (ml_catalog s) i r'\<rparr>);
                   (ev, s2) = mem_event_of e Revalidated [i] (mr_tenant_id r) (mr_purpose_id r) ALLOW [] now s1
               in (simple_decision ALLOW [] (Some r') [] [ev], s2)
             else
               let (ev, s1) = mem_event_of e Revalidation_denied [i] (mr_tenant_id r) (mr_purpose_id r) BLOCK fs now s
               in (simple_decision BLOCK fs None [] [ev], s1))"

section \<open>Audit buffer and runs\<close>

definition audit_emit :: "nat \<Rightarrow> mem_event list \<Rightarrow> mem_event list \<Rightarrow> mem_event list" where
  "audit_emit max_events buffer evs = deque_extend max_events buffer evs"

lemma audit_buffer_bounded: "length b \<le> n \<Longrightarrow> length (audit_emit n b evs) \<le> n"
  by (simp add: audit_emit_def length_deque_extend)

datatype mem_op =
    Op_authorize mem_write_request pytext "mem_write_approval option" ident
  | Op_commit mem_authorization pytext
  | Op_abandon mem_authorization
  | Op_retrieve mem_read_request "ident \<Rightarrow> pytext option"
  | Op_quarantine ident ident
  | Op_invalidate ident ident
  | Op_revalidate ident pytext mem_grant

fun mem_step :: "mem_env \<Rightarrow> mem_policy \<Rightarrow> mem_state \<Rightarrow> datetime \<times> mem_op \<Rightarrow> mem_state" where
  "mem_step e p s (now, Op_authorize q content approval uid) = snd (authorize_write e p q content approval uid now s)"
| "mem_step e p s (now, Op_commit a stored) = snd (commit_write e p a stored now s)"
| "mem_step e p s (now, Op_abandon a) = snd (abandon_write e a now s)"
| "mem_step e p s (now, Op_retrieve q contents) = snd (authorize_retrieval e q contents now s)"
| "mem_step e p s (now, Op_quarantine i reason) = snd (quarantine e i reason now s)"
| "mem_step e p s (now, Op_invalidate i reason) = snd (invalidate e i reason now s)"
| "mem_step e p s (now, Op_revalidate i content g) = snd (revalidate e p i content g now s)"

definition mem_run :: "mem_env \<Rightarrow> mem_policy \<Rightarrow> mem_state \<Rightarrow> (datetime \<times> mem_op) list \<Rightarrow> mem_state" where
  "mem_run e p s ops = foldl (mem_step e p) s ops"

end
