(* ===== verification/Memory_Invariant.thy ===== *)
theory Memory_Invariant
  imports Memory_Taint
begin

text \<open>
  Well-formed states of the memory taint manager and their preservation by every operation: what each
  operation changes of the catalog and the reservations, which fields of a record no operation
  changes, and the states reachable from an empty manager.
\<close>

section \<open>Events and histories touch neither catalog nor reservations\<close>

text \<open>The part of the state the properties are about.\<close>

definition mem_core :: "mem_state \<Rightarrow> catalog \<times> (ident, pending_write) dict \<times> ident set \<times> ident set \<times> ident set \<times> ident set" where
  "mem_core s = (ml_catalog s, ml_pending s, ml_pending_memory_ids s, ml_used_authorization_ids s,
     ml_used_approval_ids s, ml_used_revalidation_ids s)"

lemma core_eqD:
  assumes "mem_core s = mem_core s'"
  shows "ml_catalog s = ml_catalog s'" "ml_pending s = ml_pending s'"
    "ml_pending_memory_ids s = ml_pending_memory_ids s'"
    "ml_used_authorization_ids s = ml_used_authorization_ids s'"
    "ml_used_approval_ids s = ml_used_approval_ids s'"
    "ml_used_revalidation_ids s = ml_used_revalidation_ids s'"
  using assms by (simp_all add: mem_core_def)

lemma core_event [simp]: "mem_core (snd (mem_event_of e k ids t p a fs now s)) = mem_core s"
  by (simp add: mem_event_of_def mem_core_def Let_def)

lemma core_history [simp]: "mem_core (snd (mem_history r s)) = mem_core s"
  by (simp add: mem_history_def mem_core_def split: option.splits)

lemma core_append_history [simp]: "mem_core (append_history p r n s) = mem_core s"
  using core_history [of r s] by (simp add: append_history_def Let_def split_def mem_core_def)

lemma core_replace_history [simp]: "mem_core (replace_history p r n s) = mem_core s"
  using core_history [of r s] by (simp add: replace_history_def Let_def split_def mem_core_def)

lemmas catalog_unchanged [simp] =
  core_event [THEN core_eqD(1)] core_event [THEN core_eqD(2)] core_event [THEN core_eqD(3)]
  core_event [THEN core_eqD(4)] core_event [THEN core_eqD(5)] core_event [THEN core_eqD(6)]
  core_history [THEN core_eqD(1)] core_history [THEN core_eqD(2)] core_history [THEN core_eqD(3)]
  core_history [THEN core_eqD(4)] core_history [THEN core_eqD(5)] core_history [THEN core_eqD(6)]
  core_append_history [THEN core_eqD(1)] core_append_history [THEN core_eqD(2)]
  core_append_history [THEN core_eqD(3)] core_append_history [THEN core_eqD(4)]
  core_append_history [THEN core_eqD(5)] core_append_history [THEN core_eqD(6)]
  core_replace_history [THEN core_eqD(1)] core_replace_history [THEN core_eqD(2)]
  core_replace_history [THEN core_eqD(3)] core_replace_history [THEN core_eqD(4)]
  core_replace_history [THEN core_eqD(5)] core_replace_history [THEN core_eqD(6)]

lemma core_request_rebuild: "mem_core (snd (request_rebuild e plan now s)) = mem_core s"
  by (simp add: request_rebuild_def Let_def split_def split: option.splits)

section \<open>Transitions along the lineage\<close>

lemma foldl_revise_other:
  "j \<notin> mr_memory_id ` set rs \<Longrightarrow> dict_get (foldl (revise_entry e st ex) c rs) j = dict_get c j"
  by (induction rs arbitrary: c) (simp_all add: revise_entry_def)

lemma foldl_revise_get:
  assumes "distinct (map mr_memory_id rs)" and "r \<in> set rs"
  shows "dict_get (foldl (revise_entry e st ex) c rs) (mr_memory_id r)
    = Some (revise (mx_hash_record e) st (mr_taint_signals r \<union> ex) None True None r)"
  using assms
proof (induction rs arbitrary: c)
  case (Cons x xs)
  show ?case
  proof (cases "r = x")
    case True
    then have "mr_memory_id r \<notin> mr_memory_id ` set xs" using Cons.prems by auto
    then have "dict_get (foldl (revise_entry e st ex) (revise_entry e st ex c r) xs) (mr_memory_id r)
        = dict_get (revise_entry e st ex c r) (mr_memory_id r)" by (rule foldl_revise_other)
    also have "\<dots> = Some (revise (mx_hash_record e) st (mr_taint_signals r \<union> ex) None True None r)"
      by (simp add: revise_entry_def)
    finally show ?thesis by (simp add: True)
  next
    case False
    then show ?thesis using Cons by simp
  qed
qed simp

lemma catalog_ok_revise_entry: "catalog_ok c \<Longrightarrow> catalog_ok (revise_entry e st ex c r)"
  by (simp add: revise_entry_def catalog_ok_set)

lemma catalog_ok_foldl_revise: "catalog_ok c \<Longrightarrow> catalog_ok (foldl (revise_entry e st ex) c rs)"
  by (induction rs arbitrary: c) (simp_all add: catalog_ok_revise_entry)

lemma trace_mem_catalog:
  assumes "catalog_ok cat"
  shows "r \<in> set (trace d cat i) \<longleftrightarrow> mr_memory_id r \<in> set (trace_ids d cat i) \<and> dict_get cat (mr_memory_id r) = Some r"
proof
  assume "r \<in> set (trace d cat i)"
  then obtain j where j: "j \<in> set (trace_ids d cat i)" "dict_get cat j = Some r"
    by (auto simp: trace_def List.map_filter_def)
  then show "mr_memory_id r \<in> set (trace_ids d cat i) \<and> dict_get cat (mr_memory_id r) = Some r"
    using catalog_ok_get [OF assms j(2)] by simp
next
  assume "mr_memory_id r \<in> set (trace_ids d cat i) \<and> dict_get cat (mr_memory_id r) = Some r"
  then show "r \<in> set (trace d cat i)" by (force simp: trace_def List.map_filter_def)
qed

definition descendants :: "catalog \<Rightarrow> ident \<Rightarrow> ident set" where
  "descendants cat i = (derives cat)\<^sup>* `` {i}"

lemma trace_descendants:
  "catalog_ok cat \<Longrightarrow> dict_get cat i = Some r \<Longrightarrow> set (trace_ids True cat i) = descendants cat i - {i}"
  by (simp add: descendants_def trace_ids_descendants dict_get_in_keys)

definition affected_revision :: "mem_env \<Rightarrow> taint_status \<Rightarrow> risk_signal \<Rightarrow> ident \<Rightarrow> mem_record \<Rightarrow> mem_record" where
  "affected_revision e st sg i r =
     revise (mx_hash_record e) st (mr_taint_signals r \<union> (if mr_memory_id r = i then {} else {sg})) None True None r"

lemma transition_affected_spec:
  assumes ok: "catalog_ok cat" and r: "dict_get cat i = Some r"
    and t: "transition_affected e st sg i cat = (ids, cat')"
  shows "distinct ids" "set ids = descendants cat i" "catalog_ok cat'"
    and "dict_get cat' j = (if j \<in> descendants cat i then map_option (affected_revision e st sg i) (dict_get cat j)
           else dict_get cat j)"
proof -
  let ?rs = "trace True cat i" and ?c = "revise_entry e st {} cat r"
  have id: "mr_memory_id r = i" by (rule catalog_ok_get [OF ok r])
  have ids: "ids = i # trace_ids True cat i" and cat': "cat' = foldl (revise_entry e st {sg}) ?c ?rs"
    using t r id trace_records [OF ok, of True i] by (simp_all add: transition_affected_def Let_def)
  note d = trace_descendants [OF ok r]
  have self: "i \<in> descendants cat i" by (simp add: descendants_def)
  show "distinct ids" using d by (simp add: ids distinct_trace_ids)
  show "set ids = descendants cat i" using d self by (auto simp: ids)
  show "catalog_ok cat'" by (simp add: cat' catalog_ok_foldl_revise catalog_ok_revise_entry ok)
  have dist: "distinct (map mr_memory_id ?rs)" by (simp add: trace_records [OF ok] distinct_trace_ids)
  have mem: "mr_memory_id ` set ?rs = descendants cat i - {i}"
    using trace_records [OF ok, of True i] d by (metis set_map)
  show "dict_get cat' j = (if j \<in> descendants cat i then map_option (affected_revision e st sg i) (dict_get cat j)
      else dict_get cat j)"
  proof (cases "j \<in> descendants cat i - {i}")
    case True
    then obtain x where x: "x \<in> set ?rs" "mr_memory_id x = j" using mem by (metis imageE)
    then have "dict_get cat j = Some x" using trace_mem_catalog [OF ok] by blast
    moreover have "dict_get cat' j = Some (revise (mx_hash_record e) st (mr_taint_signals x \<union> {sg}) None True None x)"
      using foldl_revise_get [OF dist x(1)] x(2) by (simp add: cat')
    ultimately show ?thesis using True x(2) by (simp add: affected_revision_def)
  next
    case False
    then have "dict_get cat' j = dict_get ?c j" by (simp add: cat' mem foldl_revise_other)
    then show ?thesis using False r id self by (auto simp: revise_entry_def affected_revision_def)
  qed
qed

section \<open>What no operation changes\<close>

text \<open>Revisions change status, signals, approval and version of a record; the rest is frozen.\<close>

definition frozen :: "mem_record \<Rightarrow> mem_record" where
  "frozen r = r\<lparr>mr_taint_status := Clean, mr_taint_signals := {}, mr_approval_id := None, mr_version := 0,
     mr_record_digest := []\<rparr>"

lemma frozen_revise [simp]: "frozen (revise h st sg a p v r) = frozen r"
  by (simp add: frozen_def revise_def seal_record_def)

lemma frozen_eqD:
  assumes "frozen a = frozen b"
  shows "mr_memory_id a = mr_memory_id b" "mr_dependencies a = mr_dependencies b"
    "mr_content_digest a = mr_content_digest b" "mr_tenant_id a = mr_tenant_id b"
    "mr_owner_user_id a = mr_owner_user_id b" "mr_provenance a = mr_provenance b"
    "mr_purpose_id a = mr_purpose_id b" "mr_scope a = mr_scope b"
  using assms by (cases a, cases b, simp add: frozen_def)+

definition same_frozen :: "catalog \<Rightarrow> catalog \<Rightarrow> bool" where
  "same_frozen c c' \<longleftrightarrow> (\<forall>i. map_option frozen (dict_get c' i) = map_option frozen (dict_get c i))"

lemma same_frozen_refl [simp]: "same_frozen c c"
  by (simp add: same_frozen_def)

lemma same_frozen_trans: "same_frozen a b \<Longrightarrow> same_frozen b c \<Longrightarrow> same_frozen a c"
  by (simp add: same_frozen_def)

lemma same_frozen_get:
  assumes "same_frozen c c'" and "dict_get c i = Some r"
  shows "\<exists>r'. dict_get c' i = Some r' \<and> frozen r' = frozen r"
  using assms(1) [unfolded same_frozen_def, THEN spec, of i] assms(2) by auto

lemma same_frozen_get':
  assumes "same_frozen c c'" and "dict_get c' i = Some r'"
  shows "\<exists>r. dict_get c i = Some r \<and> frozen r' = frozen r"
  using assms(1) [unfolded same_frozen_def, THEN spec, of i] assms(2)
  by (cases "dict_get c i") simp_all

lemma same_frozen_keys: "same_frozen c c' \<Longrightarrow> dict_keys c' = dict_keys c"
  by (intro set_eqI) (metis dict_keys_get same_frozen_get same_frozen_get')

lemma same_frozen_derives: "same_frozen c c' \<Longrightarrow> derives c' = derives c"
proof -
  assume f: "same_frozen c c'"
  have "(i, j) \<in> derives c' \<longleftrightarrow> (i, j) \<in> derives c" for i j
  proof (cases "dict_get c j")
    case None
    then have "dict_get c' j = None" using same_frozen_get' [OF f, of j] by (cases "dict_get c' j") auto
    with None show ?thesis by (simp add: derives_def)
  next
    case (Some r)
    then obtain r' where r': "dict_get c' j = Some r'" "frozen r' = frozen r"
      using same_frozen_get [OF f] by blast
    show ?thesis using Some r'(1) frozen_eqD(2) [OF r'(2)] same_frozen_keys [OF f]
      by (simp add: derives_def)
  qed
  then show ?thesis by auto
qed

lemma same_frozen_affected:
  assumes "catalog_ok cat"
  shows "same_frozen cat (snd (transition_affected e st sg i cat)) \<and> catalog_ok (snd (transition_affected e st sg i cat))"
proof (cases "dict_get cat i")
  case (Some r)
  obtain ids cat' where t: "transition_affected e st sg i cat = (ids, cat')" by (cases "transition_affected e st sg i cat")
  note spec = transition_affected_spec [OF assms Some t]
  have "map_option frozen (dict_get cat' j) = map_option frozen (dict_get cat j)" for j
    by (simp add: spec(4) option.map_comp comp_def affected_revision_def)
  then show ?thesis using t spec(3) by (simp add: same_frozen_def)
qed (simp add: transition_affected_def assms)

lemma same_frozen_taint_all:
  assumes "catalog_ok cat"
  shows "same_frozen cat (taint_all e ts cat) \<and> catalog_ok (taint_all e ts cat)"
proof -
  have "same_frozen cat (foldl (\<lambda>c i. snd (transition_affected e Quarantined Taint_inheritance i c)) c xs) \<and>
      catalog_ok (foldl (\<lambda>c i. snd (transition_affected e Quarantined Taint_inheritance i c)) c xs)"
    if "same_frozen cat c" "catalog_ok c" for c xs
    using that
  proof (induction xs arbitrary: c)
    case (Cons x xs)
    let ?c = "snd (transition_affected e Quarantined Taint_inheritance x c)"
    have "same_frozen c ?c" "catalog_ok ?c" using same_frozen_affected [OF Cons.prems(2)] by auto
    then have "same_frozen cat ?c" using Cons.prems(1) same_frozen_trans by blast
    then show ?case using Cons.IH \<open>catalog_ok ?c\<close> by simp
  qed simp
  then show ?thesis using assms by (simp add: taint_all_def)
qed

lemma affected_valid:
  assumes "catalog_ok cat" and "\<forall>i r. dict_get cat i = Some r \<longrightarrow> validate_record (mx_hash_record e) r"
    and "dict_get (snd (transition_affected e st sg i cat)) j = Some r'"
  shows "validate_record (mx_hash_record e) r'"
proof (cases "dict_get cat i")
  case (Some r)
  obtain ids cat' where t: "transition_affected e st sg i cat = (ids, cat')" by (cases "transition_affected e st sg i cat")
  show ?thesis
    using transition_affected_spec(4) [OF assms(1) Some t, of j] assms(2,3) t
    by (auto simp: affected_revision_def validate_revise split: if_splits)
qed (use assms in \<open>simp add: transition_affected_def\<close>)

section \<open>Well-formed states\<close>

definition all_valid :: "mem_env \<Rightarrow> catalog \<Rightarrow> bool" where
  "all_valid e cat \<longleftrightarrow> (\<forall>i r. dict_get cat i = Some r \<longrightarrow> validate_record (mx_hash_record e) r)"

definition deps_within :: "mem_record \<Rightarrow> catalog \<Rightarrow> bool" where
  "deps_within r cat \<longleftrightarrow> md_memory_id ` set (mr_dependencies r) \<subseteq> dict_keys cat"

definition lineage_closed :: "catalog \<Rightarrow> bool" where
  "lineage_closed cat \<longleftrightarrow> (\<forall>i r. dict_get cat i = Some r \<longrightarrow> deps_within r cat)"

text \<open>A reservation holds a validated record that is not in the catalog, whose dependencies are.\<close>

definition pending_ok :: "mem_env \<Rightarrow> mem_state \<Rightarrow> ident \<times> pending_write \<Rightarrow> bool" where
  "pending_ok e s x \<longleftrightarrow>
     validate_record (mx_hash_record e) (pw_record (snd x)) \<and>
     mr_memory_id (pw_record (snd x)) \<notin> dict_keys (ml_catalog s) \<and>
     mr_memory_id (pw_record (snd x)) \<in> ml_pending_memory_ids s \<and>
     deps_within (pw_record (snd x)) (ml_catalog s) \<and>
     fst x \<notin> ml_used_authorization_ids s"

definition pending_memory_ids :: "mem_state \<Rightarrow> ident list" where
  "pending_memory_ids s = map (\<lambda>x. mr_memory_id (pw_record (snd x))) (ml_pending s)"

definition mem_inv :: "mem_env \<Rightarrow> mem_state \<Rightarrow> bool" where
  "mem_inv e s \<longleftrightarrow>
     catalog_ok (ml_catalog s) \<and> all_valid e (ml_catalog s) \<and> lineage_closed (ml_catalog s) \<and>
     acyclic (derives (ml_catalog s)) \<and>
     dict_ok (ml_pending s) \<and> list_all (pending_ok e s) (ml_pending s) \<and>
     distinct (pending_memory_ids s) \<and> ml_pending_memory_ids s = set (pending_memory_ids s)"

lemma mem_inv_empty: "mem_inv e empty_memory"
  by (simp add: mem_inv_def empty_memory_def catalog_ok_def all_valid_def lineage_closed_def
      pending_memory_ids_def derives_def acyclic_def)

lemma core_mem_inv:
  assumes "mem_core s = mem_core s'"
  shows "mem_inv e s = mem_inv e s'"
  using core_eqD [OF assms] by (simp add: mem_inv_def pending_ok_def [abs_def] pending_memory_ids_def)

text \<open>Revising records keeps a state well formed.\<close>

lemma mem_inv_revised:
  assumes "mem_inv e s" and "same_frozen (ml_catalog s) cat" and "catalog_ok cat" and "all_valid e cat"
  shows "mem_inv e (s\<lparr>ml_catalog := cat\<rparr>)"
proof -
  note keys = same_frozen_keys [OF assms(2)]
  have "lineage_closed cat"
    unfolding lineage_closed_def
  proof (intro allI impI)
    fix i r' assume "dict_get cat i = Some r'"
    then obtain r where r: "dict_get (ml_catalog s) i = Some r" "frozen r' = frozen r"
      using same_frozen_get' [OF assms(2)] by blast
    then have "deps_within r (ml_catalog s)" using assms(1) by (simp add: mem_inv_def lineage_closed_def)
    then show "deps_within r' cat" using frozen_eqD(2) [OF r(2)] by (simp add: deps_within_def keys)
  qed
  moreover have "pending_ok e (s\<lparr>ml_catalog := cat\<rparr>) x = pending_ok e s x" for x
    by (simp add: pending_ok_def deps_within_def keys)
  ultimately show ?thesis
    using assms same_frozen_derives [OF assms(2)]
    by (simp add: mem_inv_def list_all_iff pending_memory_ids_def)
qed

section \<open>Analysis of a proposed write\<close>

lemma dedup_from_Nil: "dedup_from seen fs = [] \<longleftrightarrow> (\<forall>f \<in> set fs. mf_code f \<in> seen)"
  by (induction fs arbitrary: seen) auto

lemma mem_deduplicate_Nil [simp]: "mem_deduplicate fs = [] \<longleftrightarrow> fs = []"
  by (cases fs) (auto simp: mem_deduplicate_def)

lemma analyse_write_core:
  assumes "analyse_write e p q content s = (fs, sg, n, s')"
  shows "mem_core s' = mem_core s"
  using assms core_history [of "mq_record q" s]
  by (auto simp: analyse_write_def catalog_write_findings_def Let_def split_def)

text \<open>A verdict of \<open>ALLOW\<close> rules out every hard finding and every non-overridable signal.\<close>

lemma verdict_allow:
  assumes "write_verdict e p q approval now fs sg s = (ALLOW, fs', eff, s')"
  shows "sg \<inter> mt_non_overridable_signals p = {}" "\<forall>f \<in> set fs. mf_code f \<notin> hard_codes"
    and "ml_catalog s' = ml_catalog s" "ml_pending s' = ml_pending s"
    "ml_pending_memory_ids s' = ml_pending_memory_ids s"
    "ml_used_authorization_ids s' = ml_used_authorization_ids s"
  using assms by (auto simp: write_verdict_def Let_def split: if_splits option.splits)

lemma verdict_record:
  assumes "write_verdict e p q approval now fs sg s = (action, fs', Some r, s')"
  shows "validate_record (mx_hash_record e) r" "frozen r = frozen (mq_record q)" "mr_taint_signals r = sg"
    "mr_memory_id r = mr_memory_id (mq_record q)"
proof -
  have "\<exists>st a. transition_record (mx_hash_record e) st sg a False None (mq_record q) = Some r"
    using assms by (auto simp: write_verdict_def Let_def split: if_splits option.splits)
  then obtain st a where "r = revise (mx_hash_record e) st sg a False None (mq_record q)"
    "validate_record (mx_hash_record e) r" using transition_SomeD by blast
  then show "validate_record (mx_hash_record e) r" "frozen r = frozen (mq_record q)" "mr_taint_signals r = sg"
    "mr_memory_id r = mr_memory_id (mq_record q)" by simp_all
qed

lemma verdict_other:
  assumes "write_verdict e p q approval now fs sg s = (action, fs', eff, s')"
  shows "s' = s \<or> (\<exists>a. action = ALLOW \<and> s' = s\<lparr>ml_used_approval_ids := insert a (ml_used_approval_ids s)\<rparr>)"
  using assms by (auto simp: write_verdict_def Let_def split: if_splits option.splits)

text \<open>What a write must satisfy for the analysis to raise no hard finding.\<close>

definition bound_parent :: "catalog \<Rightarrow> mem_record \<Rightarrow> mem_dependency \<Rightarrow> bool" where
  "bound_parent cat r d \<longleftrightarrow>
     (case dict_get cat (md_memory_id d) of
        None \<Rightarrow> False
      | Some x \<Rightarrow> mr_record_digest x = md_record_digest d \<and> mr_tenant_id x = mr_tenant_id r \<and>
          mr_purpose_id x = mr_purpose_id r \<and> mr_scope x = mr_scope r \<and>
          mr_owner_user_id x = mr_owner_user_id r)"

definition authorized_writer :: "mem_policy \<Rightarrow> mem_write_request \<Rightarrow> bool" where
  "authorized_writer p q \<longleftrightarrow>
     mq_actor_id q \<in> mt_trusted_writer_ids p \<or>
     (mr_scope (mq_record q) = Scope_user \<and> mq_actor_user_id q = mr_owner_user_id (mq_record q))"

definition write_admissible :: "mem_env \<Rightarrow> mem_policy \<Rightarrow> mem_write_request \<Rightarrow> pytext \<Rightarrow> mem_state \<Rightarrow> bool" where
  "write_admissible e p q content s \<longleftrightarrow>
     mem_request_integrity e q \<and> record_integrity (mx_hash_record e) (mq_record q) \<and>
     matches_content (mx_hash_content e) (mq_record q) content \<and>
     mq_tenant_id q = mr_tenant_id (mq_record q) \<and> mq_actor_id q = mr_writer_id (mq_record q) \<and>
     mq_purpose_id q = mr_purpose_id (mq_record q) \<and> mr_purpose_id (mq_record q) \<in> mt_allowed_purpose_ids p \<and>
     length (mr_dependencies (mq_record q)) \<le> mt_max_dependencies p \<and> authorized_writer p q \<and>
     mr_memory_id (mq_record q) \<notin> dict_keys (ml_catalog s) \<and>
     mr_memory_id (mq_record q) \<notin> ml_pending_memory_ids s \<and>
     (\<forall>d \<in> set (mr_dependencies (mq_record q)). bound_parent (ml_catalog s) (mq_record q) d)"

lemma ball_finding_if [simp]: "(\<forall>f \<in> set (finding_if b c s g). P f) \<longleftrightarrow> (b \<longrightarrow> P (mem_find c s g))"
  by auto

lemma ball_signal_findings: "\<forall>f \<in> set (signal_findings sg). mf_code f \<notin> hard_codes"
  by (simp add: signal_findings_def ball_Un hard_codes_def)

lemma ball_dependency_findings:
  "(\<forall>f \<in> set (dependency_findings cat r d). mf_code f \<notin> hard_codes) \<longleftrightarrow> bound_parent cat r d"
  by (auto simp: dependency_findings_def bound_parent_def audience_changed_def ball_Un hard_codes_def
      split: option.splits)

lemma write_findings_hard:
  assumes "write_findings e p q content = (fs, sg, n)"
  shows "(\<forall>f \<in> set fs. mf_code f \<notin> hard_codes) \<longleftrightarrow>
     mem_request_integrity e q \<and> record_integrity (mx_hash_record e) (mq_record q) \<and>
     matches_content (mx_hash_content e) (mq_record q) content \<and>
     mq_tenant_id q = mr_tenant_id (mq_record q) \<and> mq_actor_id q = mr_writer_id (mq_record q) \<and>
     mq_purpose_id q = mr_purpose_id (mq_record q) \<and> mr_purpose_id (mq_record q) \<in> mt_allowed_purpose_ids p \<and>
     length (mr_dependencies (mq_record q)) \<le> mt_max_dependencies p \<and> authorized_writer p q"
proof -
  have codes: "Mc_provenance_dropped \<notin> hard_codes" "Mc_request_integrity_invalid \<in> hard_codes"
    "Mc_record_integrity_invalid \<in> hard_codes" "Mc_content_integrity_invalid \<in> hard_codes"
    "Mc_tenant_mismatch \<in> hard_codes" "Mc_purpose_mismatch \<in> hard_codes" "Mc_dependency_unknown \<in> hard_codes"
    "Mc_shared_write_unauthorized \<in> hard_codes" "Mc_cross_user_write \<in> hard_codes"
    by (simp_all add: hard_codes_def)
  have "fst (write_findings e p q content) = fs" by (simp add: assms)
  then show ?thesis
    unfolding write_findings_def Let_def fst_conv
    by (auto simp: ball_Un codes ball_signal_findings authorized_writer_def linorder_not_less)
qed

lemma catalog_findings_hard:
  assumes "catalog_write_findings e q sg n s = (fs, sg', s')"
  shows "(\<forall>f \<in> set fs. mf_code f \<notin> hard_codes) \<longleftrightarrow>
     mr_memory_id (mq_record q) \<notin> dict_keys (ml_catalog s) \<and>
     mr_memory_id (mq_record q) \<notin> ml_pending_memory_ids s \<and>
     (\<forall>d \<in> set (mr_dependencies (mq_record q)). bound_parent (ml_catalog s) (mq_record q) d)"
proof -
  have codes: "Mc_provenance_dropped \<notin> hard_codes" "Mc_summary_laundering \<notin> hard_codes"
    "Mc_tainted_dependency \<notin> hard_codes" "Mc_split_entry_poisoning \<notin> hard_codes"
    "Mc_memory_already_exists \<in> hard_codes"
    "(if b then Mc_summary_laundering else Mc_tainted_dependency) \<notin> hard_codes" for b
    by (simp_all add: hard_codes_def)
  have fs: "fs = fst (catalog_write_findings e q sg n s)" by (simp add: assms)
  show ?thesis
    unfolding fs catalog_write_findings_def Let_def split_def fst_conv
    by (simp add: ball_Un codes ball_dependency_findings)
qed

lemma analyse_write_hard:
  assumes "analyse_write e p q content s = (fs, sg, n, s')"
  shows "(\<forall>f \<in> set fs. mf_code f \<notin> hard_codes) \<longleftrightarrow> write_admissible e p q content s"
proof -
  obtain f1 sg1 n1 where w: "write_findings e p q content = (f1, sg1, n1)"
    by (cases "write_findings e p q content")
  obtain f2 sg2 s2 where c: "catalog_write_findings e q sg1 n1 s = (f2, sg2, s2)"
    by (cases "catalog_write_findings e q sg1 n1 s")
  from assms w c have "fs = f1 @ f2" by (simp add: analyse_write_def)
  then show ?thesis
    by (simp add: ball_Un write_findings_hard [OF w] catalog_findings_hard [OF c] write_admissible_def)
qed

definition write_signals :: "mem_env \<Rightarrow> mem_policy \<Rightarrow> mem_write_request \<Rightarrow> pytext \<Rightarrow> mem_state \<Rightarrow> risk_signal set" where
  "write_signals e p q content s = fst (snd (analyse_write e p q content s))"

section \<open>The three outcomes of \<open>authorize_write\<close>\<close>

definition same_store :: "mem_state \<Rightarrow> mem_state \<Rightarrow> bool" where
  "same_store s s' \<longleftrightarrow> ml_catalog s' = ml_catalog s \<and> ml_pending s' = ml_pending s \<and>
     ml_pending_memory_ids s' = ml_pending_memory_ids s \<and>
     ml_used_authorization_ids s' = ml_used_authorization_ids s"

lemma core_same_store: "mem_core s' = mem_core s \<Longrightarrow> same_store s s'"
  by (simp add: mem_core_def same_store_def)

lemma same_store_inv: "same_store s s' \<Longrightarrow> mem_inv e s' = mem_inv e s"
  by (simp add: same_store_def mem_inv_def pending_ok_def [abs_def] pending_memory_ids_def)

lemma authorize_write_outcome:
  assumes "authorize_write e p q content approval uid now s = (res, s')"
  obtains (refused) "same_store s s'" "\<forall>d. res = Some d \<longrightarrow> my_action d \<noteq> ALLOW"
  | (reserved) d r n where "res = Some d" "my_action d = ALLOW" "my_record d = Some r"
      "my_authorization d = Some (make_authorization e p q r uid now)"
      "write_admissible e p q content s"
      "write_signals e p q content s \<inter> mt_non_overridable_signals p = {}"
      "validate_record (mx_hash_record e) r" "frozen r = frozen (mq_record q)"
      "mr_taint_signals r = write_signals e p q content s"
      "ml_catalog s' = ml_catalog s" "ml_used_authorization_ids s' = ml_used_authorization_ids s"
      "ml_pending s' = dict_set (ml_pending s) uid \<lparr>pw_record = r, pw_normalized_content = n,
         pw_authorization_digest = mz_authorization_digest (make_authorization e p q r uid now)\<rparr>"
      "ml_pending_memory_ids s' = insert (mr_memory_id r) (ml_pending_memory_ids s)"
proof -
  obtain fs sg n s1 where a: "analyse_write e p q content s = (fs, sg, n, s1)"
    by (cases "analyse_write e p q content s")
  obtain action fs' eff s2 where v: "write_verdict e p q approval now fs sg s1 = (action, fs', eff, s2)"
    by (cases "write_verdict e p q approval now fs sg s1")
  have s1: "same_store s s1" using analyse_write_core [OF a] by (rule core_same_store)
  have s2: "same_store s s2" using s1 verdict_other [OF v] by (auto simp: same_store_def)
  show thesis
  proof (cases "action = ALLOW \<and> eff \<noteq> None")
    case False
    then have "same_store s s' \<and> (\<forall>d. res = Some d \<longrightarrow> my_action d \<noteq> ALLOW)"
      using assms a v s2 by (auto simp: authorize_write_def Let_def split_def same_store_def split: if_splits option.splits)
    then show thesis using refused by blast
  next
    case True
    then obtain r where r: "eff = Some r" "action = ALLOW" by auto
    note v' = v [unfolded r]
    have uid: "mz_authorization_id (make_authorization e p q r uid now) = uid"
      by (simp add: make_authorization_def seal_authorization_def)
    show thesis
    proof (rule reserved)
      show "write_admissible e p q content s"
        using verdict_allow(2) [OF v'] analyse_write_hard [OF a] by simp
      show "write_signals e p q content s \<inter> mt_non_overridable_signals p = {}"
        using verdict_allow(1) [OF v'] a by (simp add: write_signals_def)
      show "mr_taint_signals r = write_signals e p q content s"
        using verdict_record(3) [OF v'] a by (simp add: write_signals_def)
      show "validate_record (mx_hash_record e) r" "frozen r = frozen (mq_record q)"
        using verdict_record [OF v'] by simp_all
    qed (use assms a v r s2 uid in \<open>auto simp: authorize_write_def reserve_write_def Let_def split_def same_store_def\<close>)
  qed
qed

section \<open>Every operation keeps a state well formed\<close>

lemma acyclic_new_sink:
  assumes "acyclic R" and "i \<notin> Domain R" and "i \<notin> A"
  shows "acyclic (R \<union> A \<times> {i})"
proof -
  have step: "(x, y) \<in> R\<^sup>+ \<or> y = i" if "(x, y) \<in> (R \<union> A \<times> {i})\<^sup>+" for x y
    using that
  proof induction
    case (step y z)
    then show ?case using assms(2,3) by (auto intro: trancl.trancl_into_trancl)
  qed auto
  have "(x, x) \<notin> (R \<union> A \<times> {i})\<^sup>+" for x
  proof
    assume c: "(x, x) \<in> (R \<union> A \<times> {i})\<^sup>+"
    with step assms(1) have "x = i" by (auto simp: acyclic_def)
    with c have "i \<in> Domain (R \<union> A \<times> {i})" by (metis Domain.DomainI tranclD)
    then show False using assms(2,3) by auto
  qed
  then show ?thesis by (simp add: acyclic_def)
qed

lemma derives_new:
  assumes "catalog_ok cat" and "mr_memory_id r \<notin> dict_keys cat" and "lineage_closed cat" and "deps_within r cat"
  shows "derives (dict_set cat (mr_memory_id r) r)
     = derives cat \<union> md_memory_id ` set (mr_dependencies r) \<times> {mr_memory_id r}"
proof -
  let ?i = "mr_memory_id r"
  have none: "dict_get cat ?i = None" using assms(2) by (simp add: map_of_eq_None_iff)
  have "(x, y) \<in> derives (dict_set cat ?i r) \<longleftrightarrow>
      (x, y) \<in> derives cat \<union> md_memory_id ` set (mr_dependencies r) \<times> {?i}" for x y
  proof (cases "y = ?i")
    case True
    then show ?thesis using assms(4) none by (auto simp: derives_def deps_within_def)
  next
    case False
    have "x \<noteq> ?i" if "dict_get cat y = Some z" "x \<in> md_memory_id ` set (mr_dependencies z)" for z
    proof -
      have "md_memory_id ` set (mr_dependencies z) \<subseteq> dict_keys cat"
        using that(1) assms(3) unfolding lineage_closed_def deps_within_def by blast
      then show ?thesis using that(2) assms(2) by blast
    qed
    then show ?thesis using False by (auto simp: derives_def)
  qed
  then show ?thesis by auto
qed

lemma dict_del_Cons_other: "dict_ok m \<Longrightarrow> set (dict_del m k) = {x \<in> set m. fst x \<noteq> k}"
  by (auto simp: AList.delete_eq)

lemma mem_inv_reserve:
  assumes inv: "mem_inv e s" and adm: "write_admissible e p q content s"
    and r: "validate_record (mx_hash_record e) r" "frozen r = frozen (mq_record q)"
    and fresh: "uid \<notin> dict_keys (ml_pending s)" "uid \<notin> ml_used_authorization_ids s"
    and s': "ml_catalog s' = ml_catalog s" "ml_used_authorization_ids s' = ml_used_authorization_ids s"
      "ml_pending s' = dict_set (ml_pending s) uid w" "pw_record w = r"
      "ml_pending_memory_ids s' = insert (mr_memory_id r) (ml_pending_memory_ids s)"
  shows "mem_inv e s'"
proof -
  note fz = frozen_eqD [OF r(2)]
  have pend: "ml_pending s' = ml_pending s @ [(uid, w)]"
    using s'(3) fresh(1) by (simp add: dict_set_fresh map_of_eq_None_iff)
  have new: "mr_memory_id r \<notin> dict_keys (ml_catalog s)" "mr_memory_id r \<notin> ml_pending_memory_ids s"
    using adm fz by (simp_all add: write_admissible_def)
  have "deps_within r (ml_catalog s)"
    using adm fz(2) by (auto simp: write_admissible_def deps_within_def bound_parent_def
        split: option.splits dest: dict_get_in_keys)
  then have "pending_ok e s' (uid, w)" using r(1) new fresh(2) s' by (simp add: pending_ok_def)
  moreover have "pending_ok e s' x" if "pending_ok e s x" for x
    using that s' by (simp add: pending_ok_def)
  moreover have "dict_ok (ml_pending s')" using inv s'(3) by (simp add: mem_inv_def)
  moreover have "set (ml_pending s') = insert (uid, w) (set (ml_pending s))" by (simp add: pend)
  moreover have "pending_memory_ids s' = pending_memory_ids s @ [mr_memory_id r]"
    using s'(4) by (simp add: pending_memory_ids_def pend)
  ultimately show ?thesis using inv s'(1,5) new by (auto simp: mem_inv_def list_all_iff)
qed

text \<open>Removing a reservation, after which its memory may enter the catalog.\<close>

lemma pending_other_id:
  assumes "mem_inv e s" and "(a, w) \<in> set (ml_pending s)" and "(b, v) \<in> set (ml_pending s)" and "a \<noteq> b"
  shows "mr_memory_id (pw_record v) \<noteq> mr_memory_id (pw_record w)"
proof
  assume eq: "mr_memory_id (pw_record v) = mr_memory_id (pw_record w)"
  have "distinct (map (\<lambda>x. mr_memory_id (pw_record (snd x))) (ml_pending s))"
    using assms(1) by (simp add: mem_inv_def pending_memory_ids_def)
  then have "inj_on (\<lambda>x. mr_memory_id (pw_record (snd x))) (set (ml_pending s))"
    by (simp add: distinct_map)
  then show False using inj_onD [OF _ _ assms(2,3)] eq assms(4) by fastforce
qed

lemma mem_inv_drop:
  assumes inv: "mem_inv e s" and w: "dict_get (ml_pending s) a = Some w"
  shows "mem_inv e (drop_pending a (mr_memory_id (pw_record w)) s)" (is "mem_inv e ?s")
proof -
  have aw: "(a, w) \<in> set (ml_pending s)" using w by (rule map_of_SomeD)
  have dok: "dict_ok (ml_pending s)" using inv by (simp add: mem_inv_def)
  have set: "set (ml_pending ?s) = {x \<in> set (ml_pending s). fst x \<noteq> a}"
    by (simp add: drop_pending_def dict_del_Cons_other [OF dok])
  have other: "mr_memory_id (pw_record (snd x)) \<noteq> mr_memory_id (pw_record w)" if "x \<in> set (ml_pending ?s)" for x
    using that pending_other_id [OF inv aw, of "fst x" "snd x"] by (auto simp: set)
  have "pending_ok e ?s x" if "x \<in> set (ml_pending ?s)" for x
  proof -
    have x: "x \<in> set (ml_pending s)" "fst x \<noteq> a" using that set by auto
    then have "pending_ok e s x" using inv by (simp add: mem_inv_def list_all_iff)
    then show ?thesis using x(2) other [OF that] by (simp add: pending_ok_def drop_pending_def)
  qed
  moreover have "distinct (pending_memory_ids ?s)"
  proof -
    have "distinct (pending_memory_ids s)" using inv by (simp add: mem_inv_def)
    then show ?thesis by (simp add: pending_memory_ids_def drop_pending_def AList.delete_eq distinct_map_filter)
  qed
  moreover have "ml_pending_memory_ids ?s = set (pending_memory_ids ?s)"
  proof -
    have "mr_memory_id (pw_record (snd x)) \<in> set (pending_memory_ids ?s)"
      if "x \<in> set (ml_pending s)" "mr_memory_id (pw_record (snd x)) \<noteq> mr_memory_id (pw_record w)" for x
    proof -
      have "dict_get (ml_pending s) (fst x) = Some (snd x)" using that(1) dok by (simp add: dict_ok_def)
      then have "fst x \<noteq> a" using that(2) w by auto
      then show ?thesis using that(1) by (auto simp: pending_memory_ids_def set)
    qed
    moreover have "set (pending_memory_ids ?s) \<subseteq> set (pending_memory_ids s) - {mr_memory_id (pw_record w)}"
      using other by (auto simp: pending_memory_ids_def set)
    moreover have "ml_pending_memory_ids s = set (pending_memory_ids s)" using inv by (simp add: mem_inv_def)
    ultimately show ?thesis by (auto simp: drop_pending_def pending_memory_ids_def)
  qed
  ultimately show ?thesis using inv dok by (simp add: mem_inv_def list_all_iff) (simp add: drop_pending_def dict_ok_simps)
qed

lemma mem_inv_store:
  assumes inv: "mem_inv e s" and r: "validate_record (mx_hash_record e) r" "deps_within r (ml_catalog s)"
    and new: "mr_memory_id r \<notin> dict_keys (ml_catalog s)" "mr_memory_id r \<notin> ml_pending_memory_ids s"
  shows "mem_inv e (store_record r s)"
proof -
  let ?i = "mr_memory_id r" and ?cat = "dict_set (ml_catalog s) (mr_memory_id r) r"
  have ok: "catalog_ok (ml_catalog s)" and closed: "lineage_closed (ml_catalog s)"
    and acyc: "acyclic (derives (ml_catalog s))" using inv by (simp_all add: mem_inv_def)
  have closed': "lineage_closed ?cat"
    using closed r(2) by (auto simp: lineage_closed_def deps_within_def)
  have "?i \<notin> Domain (derives (ml_catalog s))" using new(1) by (auto dest: derives_keys)
  moreover have "?i \<notin> md_memory_id ` set (mr_dependencies r)" using r(2) new(1) by (auto simp: deps_within_def)
  ultimately have "acyclic (derives ?cat)"
    by (simp add: derives_new [OF ok new(1) closed r(2)] acyclic_new_sink [OF acyc])
  moreover have "catalog_ok ?cat" using ok by (simp add: catalog_ok_set)
  moreover have "all_valid e ?cat" using inv r(1) by (simp add: mem_inv_def all_valid_def)
  moreover have "pending_ok e (store_record r s) x" if "pending_ok e s x" for x
    using that new(2) by (auto simp: pending_ok_def store_record_def deps_within_def)
  ultimately show ?thesis
    using inv closed' by (auto simp: mem_inv_def list_all_iff pending_memory_ids_def store_record_def)
qed

lemma commit_write_outcome:
  assumes "commit_write e p a stored now s = (d, s')"
  obtains (refused) "mem_core s' = mem_core s" "my_action d = BLOCK"
  | (stored) w where "dict_get (ml_pending s) (mz_authorization_id a) = Some w"
      "commit_findings e a stored now s = []" "my_action d = ALLOW" "my_record d = Some (pw_record w)"
      "mem_core s' = mem_core (store_record (pw_record w)
         (drop_pending (mz_authorization_id a) (mr_memory_id (pw_record w)) s))"
proof (cases "dict_get (ml_pending s) (mz_authorization_id a)")
  case None
  then show thesis using assms
    by (intro refused) (auto simp: commit_write_def simple_decision_def Let_def split_def)
next
  case (Some w)
  show thesis
  proof (cases "commit_findings e a stored now s = []")
    case True
    show thesis
      by (rule stored [OF Some True]) (use assms Some True in \<open>auto simp: commit_write_def simple_decision_def Let_def split_def\<close>)
  next
    case False
    then show thesis using assms Some
      by (intro refused) (auto simp: commit_write_def simple_decision_def Let_def split_def)
  qed
qed

lemma abandon_write_outcome:
  obtains (kept) "mem_core (snd (abandon_write e a now s)) = mem_core s"
  | (dropped) w where "dict_get (ml_pending s) (mz_authorization_id a) = Some w"
      "mem_core (snd (abandon_write e a now s)) = mem_core (drop_pending (mz_authorization_id a) (mr_memory_id (pw_record w)) s)"
proof (cases "dict_get (ml_pending s) (mz_authorization_id a)")
  case (Some w)
  then show thesis using kept dropped
    by (cases "pw_authorization_digest w = mz_authorization_digest a")
      (auto simp: abandon_write_def Let_def split_def)
qed (use kept in \<open>simp add: abandon_write_def\<close>)

text \<open>Remediation, retrieval and revalidation only revise records of the catalog.\<close>

lemma remediate_state:
  "mem_core (snd (remediate e st k i reason now s)) =
     mem_core (s\<lparr>ml_catalog := snd (transition_affected e st Taint_inheritance i (ml_catalog s))\<rparr>)"
proof (cases "dict_get (ml_catalog s) i")
  case None
  then show ?thesis by (simp add: remediate_def transition_affected_def mem_core_def)
next
  case (Some r)
  then show ?thesis
    by (simp add: remediate_def Let_def split_def core_request_rebuild split: option.splits)
qed

lemma retrieval_state:
  obtains ts where "mem_core (snd (authorize_retrieval e q contents now s)) = mem_core (s\<lparr>ml_catalog := taint_all e ts (ml_catalog s)\<rparr>)"
  by (simp add: authorize_retrieval_def Let_def split_def)

lemma revalidate_outcome:
  assumes "revalidate e p i content g now s = (d, s')"
  obtains (refused) "mem_core s' = mem_core s" "my_action d = BLOCK"
  | (revised) r where "dict_get (ml_catalog s) i = Some r" "revalidation_findings e r content g now s = []"
      "my_action d = ALLOW"
      "mem_core s' = mem_core (s\<lparr>ml_used_revalidation_ids := insert (mk_grant_id g) (ml_used_revalidation_ids s),
         ml_catalog := dict_set (ml_catalog s) i (revalidated e r)\<rparr>)"
proof (cases "dict_get (ml_catalog s) i")
  case None
  then show thesis using assms
    by (intro refused) (auto simp: revalidate_def simple_decision_def Let_def split_def)
next
  case (Some r)
  show thesis
  proof (cases "revalidation_findings e r content g now s = []")
    case True
    show thesis
      by (rule revised [OF Some True]) (use assms Some True in \<open>auto simp: revalidate_def simple_decision_def Let_def split_def\<close>)
  next
    case False
    then show thesis using assms Some
      by (intro refused) (auto simp: revalidate_def simple_decision_def Let_def split_def)
  qed
qed

text \<open>A drawn authorization identifier is not in use.\<close>

definition fresh_op :: "mem_state \<Rightarrow> datetime \<times> mem_op \<Rightarrow> bool" where
  "fresh_op s x = (case snd x of
     Op_authorize q content approval uid \<Rightarrow> uid \<notin> dict_keys (ml_pending s) \<and> uid \<notin> ml_used_authorization_ids s
   | _ \<Rightarrow> True)"

lemma mem_inv_affected:
  assumes "mem_inv e s"
  shows "mem_inv e (s\<lparr>ml_catalog := snd (transition_affected e st sg i (ml_catalog s))\<rparr>)"
proof -
  have ok: "catalog_ok (ml_catalog s)" and v: "all_valid e (ml_catalog s)" using assms by (simp_all add: mem_inv_def)
  have "all_valid e (snd (transition_affected e st sg i (ml_catalog s)))"
    unfolding all_valid_def using affected_valid [OF ok v [unfolded all_valid_def]] by blast
  then show ?thesis using mem_inv_revised [OF assms] same_frozen_affected [OF ok] by blast
qed

lemma all_valid_taint_all:
  assumes "catalog_ok cat" and "all_valid e cat"
  shows "all_valid e (taint_all e ts cat)"
proof -
  have "all_valid e (foldl (\<lambda>c i. snd (transition_affected e Quarantined Taint_inheritance i c)) c xs)"
    if "catalog_ok c" "all_valid e c" for c xs
    using that
  proof (induction xs arbitrary: c)
    case (Cons x xs)
    have "all_valid e (snd (transition_affected e Quarantined Taint_inheritance x c))"
      unfolding all_valid_def using affected_valid [OF Cons.prems(1) Cons.prems(2) [unfolded all_valid_def]] by blast
    moreover have "catalog_ok (snd (transition_affected e Quarantined Taint_inheritance x c))"
      using same_frozen_affected [OF Cons.prems(1)] by blast
    ultimately show ?case using Cons.IH by simp
  qed simp
  then show ?thesis using assms by (simp add: taint_all_def)
qed

lemma same_frozen_revalidated:
  "dict_get cat i = Some r \<Longrightarrow> same_frozen cat (dict_set cat i (revalidated e r))"
  by (simp add: same_frozen_def revalidated_def Let_def)

text \<open>What one step does to the catalog: nothing, a revision of records, or one new record.\<close>

lemma mem_step_catalog:
  assumes "mem_inv e s" and "fresh_op s x"
  obtains (revised) "same_frozen (ml_catalog s) (ml_catalog (mem_step e p s x))"
  | (stored) a w where "dict_get (ml_pending s) a = Some w"
      "ml_catalog (mem_step e p s x) = dict_set (ml_catalog s) (mr_memory_id (pw_record w)) (pw_record w)"
proof -
  have ok: "catalog_ok (ml_catalog s)" using assms(1) by (simp add: mem_inv_def)
  obtain now op where x: "x = (now, op)" by (cases x)
  show thesis
  proof (cases op)
    case (Op_authorize q content approval uid)
    obtain res s' where r: "authorize_write e p q content approval uid now s = (res, s')"
      by (cases "authorize_write e p q content approval uid now s")
    have "ml_catalog s' = ml_catalog s" using r by (cases rule: authorize_write_outcome) (auto simp: same_store_def)
    then show thesis using revised r x Op_authorize by simp
  next
    case (Op_commit a stored)
    obtain d s' where r: "commit_write e p a stored now s = (d, s')" by (cases "commit_write e p a stored now s")
    from r show thesis
    proof (cases rule: commit_write_outcome)
      case refused
      then show thesis using revised r x Op_commit core_eqD(1) [OF refused(1)] by simp
    next
      case (stored w)
      show thesis
        by (rule that(2) [OF stored(1)])
          (use core_eqD(1) [OF stored(5)] r x Op_commit in \<open>simp add: store_record_def drop_pending_def\<close>)
    qed
  next
    case (Op_abandon a)
    have "ml_catalog (snd (abandon_write e a now s)) = ml_catalog s"
      by (cases rule: abandon_write_outcome [of e a now s]) (auto dest!: core_eqD(1) simp: drop_pending_def)
    then show thesis using revised x Op_abandon by simp
  next
    case (Op_retrieve q contents)
    obtain ts where "mem_core (snd (authorize_retrieval e q contents now s)) = mem_core (s\<lparr>ml_catalog := taint_all e ts (ml_catalog s)\<rparr>)"
      by (rule retrieval_state)
    then have "ml_catalog (mem_step e p s x) = taint_all e ts (ml_catalog s)"
      using x Op_retrieve by (auto dest!: core_eqD(1))
    then show thesis using revised same_frozen_taint_all [OF ok] by simp
  next
    case (Op_quarantine i reason)
    then have "ml_catalog (mem_step e p s x) = snd (transition_affected e Quarantined Taint_inheritance i (ml_catalog s))"
      using core_eqD(1) [OF remediate_state] x by (simp add: quarantine_def)
    then show thesis using revised same_frozen_affected [OF ok] by simp
  next
    case (Op_invalidate i reason)
    then have "ml_catalog (mem_step e p s x) = snd (transition_affected e Invalidated Taint_inheritance i (ml_catalog s))"
      using core_eqD(1) [OF remediate_state] x by (simp add: invalidate_def)
    then show thesis using revised same_frozen_affected [OF ok] by simp
  next
    case (Op_revalidate i content g)
    obtain d s' where r: "revalidate e p i content g now s = (d, s')" by (cases "revalidate e p i content g now s")
    from r have "same_frozen (ml_catalog s) (ml_catalog s')"
    proof (cases rule: revalidate_outcome)
      case refused
      then show ?thesis using core_eqD(1) [OF refused(1)] by simp
    next
      case (revised r)
      then show ?thesis using core_eqD(1) [OF revised(4)] same_frozen_revalidated [OF revised(1)] by simp
    qed
    then show thesis using revised r x Op_revalidate by simp
  qed
qed

text \<open>Every step keeps a state well formed.\<close>

lemma mem_inv_step:
  assumes inv: "mem_inv e s" and fresh: "fresh_op s x"
  shows "mem_inv e (mem_step e p s x)"
proof -
  have ok: "catalog_ok (ml_catalog s)" and v: "all_valid e (ml_catalog s)" using inv by (simp_all add: mem_inv_def)
  obtain now op where x: "x = (now, op)" by (cases x)
  show ?thesis
  proof (cases op)
    case (Op_authorize q content approval uid)
    obtain res s' where r: "authorize_write e p q content approval uid now s = (res, s')"
      by (cases "authorize_write e p q content approval uid now s")
    from r have "mem_inv e s'"
    proof (cases rule: authorize_write_outcome)
      case refused
      then show ?thesis using inv by (simp add: same_store_inv)
    next
      case (reserved d r n)
      show ?thesis
        by (rule mem_inv_reserve [OF inv reserved(5,7,8) _ _ reserved(10,11,12) _ reserved(13)])
          (use fresh x Op_authorize in \<open>simp_all add: fresh_op_def\<close>)
    qed
    then show ?thesis using r x Op_authorize by simp
  next
    case (Op_commit a stored)
    obtain d s' where r: "commit_write e p a stored now s = (d, s')" by (cases "commit_write e p a stored now s")
    from r have "mem_inv e s'"
    proof (cases rule: commit_write_outcome)
      case refused
      then show ?thesis using inv core_mem_inv by blast
    next
      case (stored w)
      let ?s = "drop_pending (mz_authorization_id a) (mr_memory_id (pw_record w)) s"
      have "pending_ok e s (mz_authorization_id a, w)"
        using inv map_of_SomeD [OF stored(1)] by (auto simp: mem_inv_def list_all_iff)
      then have "mem_inv e (store_record (pw_record w) ?s)"
        by (intro mem_inv_store mem_inv_drop [OF inv stored(1)]) (simp_all add: pending_ok_def drop_pending_def)
      then show ?thesis using core_mem_inv [OF stored(5)] by simp
    qed
    then show ?thesis using r x Op_commit by simp
  next
    case (Op_abandon a)
    show ?thesis
    proof (cases rule: abandon_write_outcome [of e a now s])
      case kept
      then show ?thesis using inv core_mem_inv [OF kept] x Op_abandon by simp
    next
      case (dropped w)
      then show ?thesis using mem_inv_drop [OF inv dropped(1)] core_mem_inv [OF dropped(2)] x Op_abandon by simp
    qed
  next
    case (Op_retrieve q contents)
    obtain ts where ts: "mem_core (snd (authorize_retrieval e q contents now s)) = mem_core (s\<lparr>ml_catalog := taint_all e ts (ml_catalog s)\<rparr>)"
      by (rule retrieval_state)
    have "mem_inv e (s\<lparr>ml_catalog := taint_all e ts (ml_catalog s)\<rparr>)"
      using mem_inv_revised [OF inv] same_frozen_taint_all [OF ok] all_valid_taint_all [OF ok v] by blast
    then show ?thesis using core_mem_inv [OF ts] x Op_retrieve by simp
  next
    case (Op_quarantine i reason)
    then show ?thesis using mem_inv_affected [OF inv] core_mem_inv [OF remediate_state] x
      by (simp add: quarantine_def)
  next
    case (Op_invalidate i reason)
    then show ?thesis using mem_inv_affected [OF inv] core_mem_inv [OF remediate_state] x
      by (simp add: invalidate_def)
  next
    case (Op_revalidate i content g)
    obtain d s' where r: "revalidate e p i content g now s = (d, s')" by (cases "revalidate e p i content g now s")
    from r have "mem_inv e s'"
    proof (cases rule: revalidate_outcome)
      case refused
      then show ?thesis using inv core_mem_inv by blast
    next
      case (revised r)
      let ?cat = "dict_set (ml_catalog s) i (revalidated e r)"
      have "mr_memory_id (revalidated e r) = i"
        using catalog_ok_get [OF ok revised(1)] by (simp add: revalidated_def Let_def)
      then have "catalog_ok ?cat" by (rule catalog_ok_set [OF ok])
      moreover have "all_valid e ?cat"
        using v revised(1) by (auto simp: all_valid_def revalidated_def Let_def validate_revise)
      ultimately have "mem_inv e (s\<lparr>ml_catalog := ?cat\<rparr>)"
        using mem_inv_revised [OF inv] same_frozen_revalidated [OF revised(1)] by blast
      then have "mem_inv e (s\<lparr>ml_used_revalidation_ids := insert (mk_grant_id g) (ml_used_revalidation_ids s), ml_catalog := ?cat\<rparr>)"
        using same_store_inv [of "s\<lparr>ml_catalog := ?cat\<rparr>"
          "s\<lparr>ml_used_revalidation_ids := insert (mk_grant_id g) (ml_used_revalidation_ids s), ml_catalog := ?cat\<rparr>" e]
        by (simp add: same_store_def)
      then show ?thesis using core_mem_inv [OF revised(4)] by simp
    qed
    then show ?thesis using r x Op_revalidate by simp
  qed
qed

inductive mem_reachable :: "mem_env \<Rightarrow> mem_policy \<Rightarrow> mem_state \<Rightarrow> bool" for e p where
  mem_start: "mem_reachable e p empty_memory"
| mem_next: "mem_reachable e p s \<Longrightarrow> fresh_op s x \<Longrightarrow> mem_reachable e p (mem_step e p s x)"

theorem mem_reachable_inv: "mem_reachable e p s \<Longrightarrow> mem_inv e s"
  by (induction rule: mem_reachable.induct) (simp_all add: mem_inv_empty mem_inv_step)

section \<open>Runs\<close>

fun fresh_run :: "mem_env \<Rightarrow> mem_policy \<Rightarrow> mem_state \<Rightarrow> (datetime \<times> mem_op) list \<Rightarrow> bool" where
  "fresh_run e p s [] \<longleftrightarrow> True"
| "fresh_run e p s (x # xs) \<longleftrightarrow> fresh_op s x \<and> fresh_run e p (mem_step e p s x) xs"

lemma mem_run_simps [simp]:
  "mem_run e p s [] = s" "mem_run e p s (x # xs) = mem_run e p (mem_step e p s x) xs"
  by (simp_all add: mem_run_def)

lemma mem_inv_run: "mem_inv e s \<Longrightarrow> fresh_run e p s ops \<Longrightarrow> mem_inv e (mem_run e p s ops)"
  by (induction ops arbitrary: s) (simp_all add: mem_inv_step)

lemma mem_reachable_run: "fresh_run e p empty_memory ops \<Longrightarrow> mem_reachable e p (mem_run e p empty_memory ops)"
proof -
  have "mem_reachable e p s \<Longrightarrow> fresh_run e p s xs \<Longrightarrow> mem_reachable e p (mem_run e p s xs)" for s xs
    by (induction xs arbitrary: s) (simp_all add: mem_next)
  then show "fresh_run e p empty_memory ops \<Longrightarrow> mem_reachable e p (mem_run e p empty_memory ops)"
    using mem_start by blast
qed

end
