(* ===== verification/Memory_Demo.thy ===== *)
theory Memory_Demo
  imports Memory_Invariant
begin

text \<open>
  A small concrete manager on which the properties of the memory theories are instantiated: memory
  \<open>a\<close> is written directly, memory \<open>b\<close> is a summary of \<open>a\<close>. The digest of a record is its identifier
  tagged with its status.
\<close>

definition status_tag :: "taint_status \<Rightarrow> string" where
  "status_tag s = (case s of Clean \<Rightarrow> ''c'' | Reviewed \<Rightarrow> ''r'' | Suspect \<Rightarrow> ''s'' | Tainted \<Rightarrow> ''t''
     | Quarantined \<Rightarrow> ''q'' | Invalidated \<Rightarrow> ''i'')"

definition demo_env :: mem_env where
  "demo_env = \<lparr>mx_hash_record = (\<lambda>r. status_tag (mr_taint_status r) @ mr_memory_id r),
     mx_hash_request = mq_request_id, mx_hash_authorization = (\<lambda>a. ''z'' @ mz_record_digest a),
     mx_hash_event = (\<lambda>_. ''e''), mx_hash_content = (\<lambda>t. if t = [5] then ''five'' else ''other''),
     mx_normalize = (\<lambda>t. t), mx_instruction = (\<lambda>t. t = [66]), mx_role_change = (\<lambda>_. False),
     mx_security_policy = (\<lambda>_. False), mx_delayed_trigger = (\<lambda>_. False), mx_isalnum = (\<lambda>_. True),
     mx_split_patterns = [], mx_verify_approval = Some (\<lambda>_. Some True),
     mx_verify_revalidation = Some (\<lambda>_. Some True), mx_rebuild_hook = None\<rparr>"

definition mem_demo_policy :: mem_policy where
  "mem_demo_policy = \<lparr>mt_trusted_writer_ids = {''w''}, mt_allowed_purpose_ids = {''p''},
     mt_privileged_signals = default_privileged, mt_non_overridable_signals = default_non_overridable,
     mt_authorization_ttl_seconds = 60, mt_max_recent_entries = 20, mt_max_history_chars = 20000,
     mt_max_dependencies = 1000, mt_max_provenance_sources = 1000\<rparr>"

definition demo_provenance :: mem_provenance where
  "demo_provenance = \<lparr>mv_source_id = ''src'', mv_source_kind = Src_tool, mv_trust_level = TRUSTED,
     mv_writer_id = ''w'', mv_tenant_id = ''t'', mv_purpose_id = ''p'', mv_observed_at = 0\<rparr>"

definition demo_record :: "ident \<Rightarrow> mem_transformation \<Rightarrow> mem_dependency list \<Rightarrow> mem_record" where
  "demo_record i tf deps = seal_record (mx_hash_record demo_env)
     \<lparr>mr_memory_id = i, mr_version = 1, mr_tenant_id = ''t'', mr_owner_user_id = Some ''u'',
      mr_writer_id = ''w'', mr_purpose_id = ''p'', mr_content_kind = Kind_fact, mr_scope = Scope_user,
      mr_transformation = tf, mr_provenance = [demo_provenance], mr_dependencies = deps,
      mr_taint_status = Clean, mr_taint_signals = {}, mr_approval_id = None, mr_content_digest = ''five'',
      mr_created_at = 0, mr_expires_at = None, mr_record_digest = []\<rparr>"

definition mem_demo_request :: "mem_record \<Rightarrow> mem_write_request" where
  "mem_demo_request r = \<lparr>mq_request_id = ''q'', mq_actor_id = ''w'', mq_actor_user_id = Some ''u'',
     mq_tenant_id = ''t'', mq_purpose_id = ''p'', mq_record = r, mq_request_digest = ''q''\<rparr>"

definition demo_lease :: "mem_record \<Rightarrow> ident \<Rightarrow> mem_authorization" where
  "demo_lease r uid = make_authorization demo_env mem_demo_policy (mem_demo_request r) r uid 0"

definition rec_a :: mem_record where
  "rec_a = demo_record ''a'' Tf_direct []"

definition rec_b :: mem_record where
  "rec_b = demo_record ''b'' Tf_summary [\<lparr>md_memory_id = ''a'', md_record_digest = ''ca''\<rparr>]"

definition store_ops :: "mem_record \<Rightarrow> ident \<Rightarrow> (datetime \<times> mem_op) list" where
  "store_ops r uid = [(0, Op_authorize (mem_demo_request r) [5] None uid), (0, Op_commit (demo_lease r uid) [5])]"

definition demo_state :: mem_state where
  "demo_state = mem_run demo_env mem_demo_policy empty_memory (store_ops rec_a ''1'' @ store_ops rec_b ''2'')"

definition demo_read :: "ident list \<Rightarrow> mem_read_request" where
  "demo_read ids = \<lparr>mo_request_id = ''r'', mo_reader_id = ''x'', mo_reader_user_id = Some ''u'',
     mo_tenant_id = ''t'', mo_purpose_id = ''p'', mo_memory_ids = ids\<rparr>"

text \<open>Everything a concrete run unfolds.\<close>

lemmas mem_demo_defs =
  demo_env_def mem_demo_policy_def demo_provenance_def demo_record_def mem_demo_request_def demo_lease_def
  rec_a_def rec_b_def status_tag_def seal_record_def record_payload_def revise_def transition_record_def
  validate_record_def record_integrity_def matches_content_def analyse_write_def write_findings_def
  catalog_write_findings_def write_verdict_def finding_if_def content_signals_def
  persistent_record_signals_def signal_findings_def mem_request_integrity_def parents_def
  dependency_findings_def audience_changed_def merge_source_def parent_provenance_def
  record_provenance_def provenance_changed_def inherited_signals_def laundering_signal_def
  mem_history_def history_key_of_def has_split_payload_def approval_findings_def
  default_privileged_def default_non_overridable_def make_authorization_def seal_authorization_def
  reserve_write_def authorize_write_def mem_event_of_def safe_mem_identifier_def identifier_char_def
  ascii_alnum_def mem_deduplicate_def commit_findings_def authorization_integrity_def commit_write_def
  drop_pending_def store_record_def simple_decision_def append_history_def tail_chars_def
  deque_append_def td_seconds_def empty_memory_def List.map_filter_simps dict_merge_def Let_def

lemma demo_fresh: "fresh_run demo_env mem_demo_policy empty_memory (store_ops rec_a ''1'' @ store_ops rec_b ''2'')"
  by (simp add: store_ops_def fresh_op_def mem_demo_defs)

lemma demo_reachable: "mem_reachable demo_env mem_demo_policy demo_state"
  unfolding demo_state_def using demo_fresh by (rule mem_reachable_run)

lemma demo_catalog: "ml_catalog demo_state = [(''a'', rec_a), (''b'', rec_b)]"
  by (simp add: demo_state_def store_ops_def mem_demo_defs)

end
