(* ===== verification/Memory_Safety.thy ===== *)
theory Memory_Safety
  imports Memory_Demo
begin

text \<open>
  Properties of the memory taint manager: well-formed states, exact lineage traces, quarantine of the
  whole lineage, exact conditions for retrieval and reservation, single use of leases, approvals
  and grants, immutable content, and the refinement of a register of memory slots.
\<close>

section \<open>Frozen content\<close>

lemma mem_step_frozen:
  assumes "mem_inv e s" and "fresh_op s x" and "dict_get (ml_catalog s) i = Some r"
  shows "\<exists>r'. dict_get (ml_catalog (mem_step e p s x)) i = Some r' \<and> frozen r' = frozen r"
  using assms(1,2)
proof (cases rule: mem_step_catalog [where p = p])
  case revised
  then show ?thesis using assms(3) by (rule same_frozen_get)
next
  case (stored a w)
  then have "pending_ok e s (a, w)"
    using assms(1) map_of_SomeD [OF stored(1)] by (auto simp: mem_inv_def list_all_iff)
  then have "mr_memory_id (pw_record w) \<noteq> i" using dict_get_in_keys [OF assms(3)] by (auto simp: pending_ok_def)
  then show ?thesis using stored(2) assms(3) by simp
qed

section \<open>Unsafe memories stay unsafe until they are revalidated\<close>

definition unsafe_in :: "catalog \<Rightarrow> ident \<Rightarrow> bool" where
  "unsafe_in cat j \<longleftrightarrow> (\<exists>r. dict_get cat j = Some r \<and> mr_taint_status r \<notin> safe_status)"

lemma unsafe_affected:
  assumes "catalog_ok cat" and "unsafe_in cat j" and "st \<notin> safe_status"
  shows "unsafe_in (snd (transition_affected e st sg i cat)) j"
proof (cases "dict_get cat i")
  case (Some r)
  obtain ids cat' where t: "transition_affected e st sg i cat = (ids, cat')" by (cases "transition_affected e st sg i cat")
  have st: "mr_taint_status (affected_revision e st sg i x) = st" for x by (simp add: affected_revision_def)
  obtain x where x: "dict_get cat j = Some x" "mr_taint_status x \<notin> safe_status" using assms(2) by (auto simp: unsafe_in_def)
  then have "dict_get cat' j = Some (if j \<in> descendants cat i then affected_revision e st sg i x else x)"
    using transition_affected_spec(4) [OF assms(1) Some t, of j] by simp
  then show ?thesis using x(2) st assms(3) t by (simp add: unsafe_in_def)
qed (use assms in \<open>simp add: transition_affected_def\<close>)

lemma unsafe_taint_all:
  assumes "catalog_ok cat" and "unsafe_in cat j"
  shows "unsafe_in (taint_all e ts cat) j"
proof -
  have "unsafe_in (foldl (\<lambda>c i. snd (transition_affected e Quarantined Taint_inheritance i c)) c xs) j"
    if "catalog_ok c" "unsafe_in c j" for c xs
    using that
    by (induction xs arbitrary: c) (simp_all add: same_frozen_affected unsafe_affected)
  then show ?thesis using assms by (simp add: taint_all_def)
qed

definition revalidates :: "ident \<Rightarrow> datetime \<times> mem_op \<Rightarrow> bool" where
  "revalidates j x = (case snd x of Op_revalidate i content g \<Rightarrow> i = j | _ \<Rightarrow> False)"

lemma unsafe_step:
  assumes inv: "mem_inv e s" and fresh: "fresh_op s x" and u: "unsafe_in (ml_catalog s) j" and n: "\<not> revalidates j x"
  shows "unsafe_in (ml_catalog (mem_step e p s x)) j"
proof -
  have ok: "catalog_ok (ml_catalog s)" using inv by (simp add: mem_inv_def)
  obtain now op where x: "x = (now, op)" by (cases x)
  show ?thesis
  proof (cases op)
    case (Op_authorize q content approval uid)
    obtain res s' where r: "authorize_write e p q content approval uid now s = (res, s')"
      by (cases "authorize_write e p q content approval uid now s")
    have "ml_catalog s' = ml_catalog s" using r by (cases rule: authorize_write_outcome) (auto simp: same_store_def)
    then show ?thesis using u r x Op_authorize by simp
  next
    case (Op_commit a stored)
    obtain d s' where r: "commit_write e p a stored now s = (d, s')" by (cases "commit_write e p a stored now s")
    from r have "unsafe_in (ml_catalog s') j"
    proof (cases rule: commit_write_outcome)
      case refused
      then show ?thesis using u core_eqD(1) [OF refused(1)] by simp
    next
      case (stored w)
      have "pending_ok e s (mz_authorization_id a, w)"
        using inv map_of_SomeD [OF stored(1)] by (auto simp: mem_inv_def list_all_iff)
      moreover have "j \<in> dict_keys (ml_catalog s)"
        using u by (auto simp: unsafe_in_def simp del: image_iff dest!: dict_get_in_keys)
      ultimately have "j \<noteq> mr_memory_id (pw_record w)" unfolding pending_ok_def by (metis snd_conv)
      then show ?thesis using u core_eqD(1) [OF stored(5)]
        by (simp add: store_record_def drop_pending_def unsafe_in_def)
    qed
    then show ?thesis using r x Op_commit by simp
  next
    case (Op_abandon a)
    have "ml_catalog (snd (abandon_write e a now s)) = ml_catalog s"
      by (cases rule: abandon_write_outcome [of e a now s]) (auto dest!: core_eqD(1) simp: drop_pending_def)
    then show ?thesis using u x Op_abandon by simp
  next
    case (Op_retrieve q contents)
    obtain ts where "mem_core (snd (authorize_retrieval e q contents now s)) = mem_core (s\<lparr>ml_catalog := taint_all e ts (ml_catalog s)\<rparr>)"
      by (rule retrieval_state)
    then have "ml_catalog (mem_step e p s x) = taint_all e ts (ml_catalog s)"
      using x Op_retrieve by (auto dest!: core_eqD(1))
    then show ?thesis using unsafe_taint_all [OF ok u] by simp
  next
    case (Op_quarantine i reason)
    then show ?thesis using core_eqD(1) [OF remediate_state] x unsafe_affected [OF ok u] by (simp add: quarantine_def)
  next
    case (Op_invalidate i reason)
    then show ?thesis using core_eqD(1) [OF remediate_state] x unsafe_affected [OF ok u] by (simp add: invalidate_def)
  next
    case (Op_revalidate i content g)
    then have "i \<noteq> j" using n x by (simp add: revalidates_def)
    obtain d s' where r: "revalidate e p i content g now s = (d, s')" by (cases "revalidate e p i content g now s")
    from r have "unsafe_in (ml_catalog s') j"
    proof (cases rule: revalidate_outcome)
      case refused
      then show ?thesis using u core_eqD(1) [OF refused(1)] by simp
    next
      case (revised r)
      then show ?thesis using u core_eqD(1) [OF revised(4)] \<open>i \<noteq> j\<close> by (simp add: unsafe_in_def)
    qed
    then show ?thesis using r x Op_revalidate by simp
  qed
qed

lemma unsafe_run:
  "mem_inv e s \<Longrightarrow> fresh_run e p s ops \<Longrightarrow> unsafe_in (ml_catalog s) j \<Longrightarrow>
   list_all (\<lambda>x. \<not> revalidates j x) ops \<Longrightarrow> unsafe_in (ml_catalog (mem_run e p s ops)) j"
  by (induction ops arbitrary: s) (simp_all add: mem_inv_step unsafe_step)

section \<open>Retrieval\<close>

text \<open>The specification of one readable memory.\<close>

definition readable ::
  "mem_env \<Rightarrow> mem_read_request \<Rightarrow> (ident \<Rightarrow> pytext option) \<Rightarrow> datetime \<Rightarrow> catalog \<Rightarrow> ident \<Rightarrow> bool" where
  "readable e q contents now cat i \<longleftrightarrow>
     (case dict_get cat i of
        None \<Rightarrow> False
      | Some r \<Rightarrow>
          record_integrity (mx_hash_record e) r \<and> mr_tenant_id r = mo_tenant_id q \<and>
          mr_purpose_id r = mo_purpose_id q \<and>
          (mr_scope r = Scope_user \<longrightarrow> mr_owner_user_id r = mo_reader_user_id q) \<and>
          mr_taint_status r \<in> safe_status \<and>
          (case mr_expires_at r of None \<Rightarrow> True | Some x \<Rightarrow> now \<le> x) \<and>
          (\<forall>d \<in> set (mr_dependencies r). \<not> unsafe_parent cat d) \<and>
          (case contents i of
             None \<Rightarrow> False
           | Some c \<Rightarrow> matches_content (mx_hash_content e) r c \<and>
               content_signals e (mx_normalize e c) \<subseteq> mr_taint_signals r))"

lemma read_record_findings_Nil:
  "read_record_findings e q now cat r = [] \<longleftrightarrow>
     record_integrity (mx_hash_record e) r \<and> mo_tenant_id q = mr_tenant_id r \<and> mo_purpose_id q = mr_purpose_id r \<and>
     \<not> (mr_scope r = Scope_user \<and> mo_reader_user_id q \<noteq> mr_owner_user_id r) \<and>
     mr_taint_status r \<in> safe_status \<and>
     (case mr_expires_at r of None \<Rightarrow> True | Some x \<Rightarrow> now \<le> x) \<and>
     (\<forall>d \<in> set (mr_dependencies r). \<not> unsafe_parent cat d)"
  by (cases "mr_taint_status r"; cases "mr_expires_at r") (auto simp: read_record_findings_def)

lemma signal_findings_Nil: "sg \<subseteq> content_signals e t \<Longrightarrow> signal_findings sg = [] \<longleftrightarrow> sg = {}"
  by (auto simp: signal_findings_def content_signals_def split: if_splits)

lemma read_one_Nil:
  "fst (read_one e q contents now cat i) = [] \<longleftrightarrow> readable e q contents now cat i"
  by (auto simp: read_one_def readable_def Let_def read_record_findings_Nil
      signal_findings_Nil [OF Diff_subset] split: option.splits)

lemma read_one_ok:
  assumes "readable e q contents now cat i"
  shows "\<exists>r c. dict_get cat i = Some r \<and> contents i = Some c \<and>
    read_one e q contents now cat i = ([], [r], [], [mx_normalize e c])"
  using assms read_one_Nil [of e q contents now cat i]
  by (auto simp: readable_def read_one_def Let_def split: option.splits)

lemma read_all_Nil:
  "fst (read_all e q contents now cat is) = [] \<longleftrightarrow> (\<forall>i \<in> set is. readable e q contents now cat i)"
  by (induction "is") (auto simp: Let_def split_def read_one_Nil)

lemma read_all_ok:
  "\<forall>i \<in> set is. readable e q contents now cat i \<Longrightarrow>
   read_all e q contents now cat is =
     ([], map (\<lambda>i. the (dict_get cat i)) is, [], map (\<lambda>i. mx_normalize e (the (contents i))) is)"
proof (induction "is")
  case (Cons i js)
  then obtain r c where "dict_get cat i = Some r" "contents i = Some c"
    "read_one e q contents now cat i = ([], [r], [], [mx_normalize e c])" using read_one_ok by fastforce
  then show ?case using Cons by simp
qed simp

definition composes_payload :: "mem_env \<Rightarrow> mem_read_request \<Rightarrow> (ident \<Rightarrow> pytext option) \<Rightarrow> bool" where
  "composes_payload e q contents \<longleftrightarrow> 1 < length (mo_memory_ids q) \<and>
     has_split_payload e (map (\<lambda>i. mx_normalize e (the (contents i))) (mo_memory_ids q))"

lemma retrieval_action:
  "my_action (fst (authorize_retrieval e q contents now s)) = ALLOW \<longleftrightarrow>
     (\<forall>i \<in> set (mo_memory_ids q). readable e q contents now (ml_catalog s) i) \<and> \<not> composes_payload e q contents"
  (is "?l \<longleftrightarrow> ?all \<and> ?split")
proof -
  obtain fs rs ts ns where r: "read_all e q contents now (ml_catalog s) (mo_memory_ids q) = (fs, rs, ts, ns)"
    by (cases "read_all e q contents now (ml_catalog s) (mo_memory_ids q)")
  have "?l \<longleftrightarrow> fs = [] \<and> \<not> (1 < length ns \<and> has_split_payload e ns)"
    by (auto simp: authorize_retrieval_def simple_decision_def Let_def split_def r)
  moreover have "fs = [] \<longleftrightarrow> ?all" using read_all_Nil [of e q contents now "ml_catalog s" "mo_memory_ids q"] r by simp
  moreover have "ns = map (\<lambda>i. mx_normalize e (the (contents i))) (mo_memory_ids q)" if ?all
    using read_all_ok [OF that] r by simp
  ultimately show ?thesis by (auto simp: composes_payload_def)
qed

lemma taint_all_Nil [simp]: "taint_all e [] cat = cat"
  by (simp add: taint_all_def)

lemma retrieval_allowed:
  assumes "my_action (fst (authorize_retrieval e q contents now s)) = ALLOW"
  shows "map Some (my_records (fst (authorize_retrieval e q contents now s)))
      = map (dict_get (ml_catalog s)) (mo_memory_ids q)"
    and "ml_catalog (snd (authorize_retrieval e q contents now s)) = ml_catalog s"
proof -
  have all: "\<forall>i \<in> set (mo_memory_ids q). readable e q contents now (ml_catalog s) i"
    and split: "\<not> composes_payload e q contents" using assms retrieval_action by blast+
  have some: "dict_get (ml_catalog s) i \<noteq> None" if "i \<in> set (mo_memory_ids q)" for i
    using all that by (auto simp: readable_def split: option.splits)
  have "my_records (fst (authorize_retrieval e q contents now s)) = map (\<lambda>i. the (dict_get (ml_catalog s) i)) (mo_memory_ids q)"
    and c: "ml_catalog (snd (authorize_retrieval e q contents now s)) = ml_catalog s"
    using split by (auto simp: authorize_retrieval_def simple_decision_def Let_def split_def read_all_ok [OF all]
        composes_payload_def finding_if_def)
  then show "map Some (my_records (fst (authorize_retrieval e q contents now s)))
      = map (dict_get (ml_catalog s)) (mo_memory_ids q)" using some by auto
  show "ml_catalog (snd (authorize_retrieval e q contents now s)) = ml_catalog s" by (rule c)
qed

section \<open>Properties\<close>

text \<open>
  C37: every reachable manager state is well formed. Each catalog record is stored under its own
  identifier, passes its validators (its digest included) and depends only on catalog records, the
  lineage has no cycles, and a reservation holds a validated record whose memory is not in the
  catalog, is marked as reserved and is reserved once, under a lease that was never used.
\<close>

theorem memory_state_well_formed:
  assumes "mem_reachable e p s"
  shows "(\<forall>i r. dict_get (ml_catalog s) i = Some r \<longrightarrow>
      mr_memory_id r = i \<and> validate_record (mx_hash_record e) r \<and> deps_within r (ml_catalog s)) \<and>
    acyclic (derives (ml_catalog s)) \<and>
    (\<forall>a w. dict_get (ml_pending s) a = Some w \<longrightarrow>
      validate_record (mx_hash_record e) (pw_record w) \<and>
      mr_memory_id (pw_record w) \<notin> dict_keys (ml_catalog s) \<and>
      mr_memory_id (pw_record w) \<in> ml_pending_memory_ids s \<and> a \<notin> ml_used_authorization_ids s \<and>
      (\<forall>b v. dict_get (ml_pending s) b = Some v \<and> mr_memory_id (pw_record v) = mr_memory_id (pw_record w) \<longrightarrow> b = a))"
proof (intro conjI)
  have inv: "mem_inv e s" using assms by (rule mem_reachable_inv)
  show "\<forall>i r. dict_get (ml_catalog s) i = Some r \<longrightarrow>
      mr_memory_id r = i \<and> validate_record (mx_hash_record e) r \<and> deps_within r (ml_catalog s)"
    using inv catalog_ok_get by (auto simp: mem_inv_def all_valid_def lineage_closed_def)
  show "acyclic (derives (ml_catalog s))" using inv by (simp add: mem_inv_def)
  have ok: "pending_ok e s (a, w)" if "dict_get (ml_pending s) a = Some w" for a w
    using inv map_of_SomeD [OF that] by (auto simp: mem_inv_def list_all_iff)
  have "b = a" if "dict_get (ml_pending s) a = Some w" "dict_get (ml_pending s) b = Some v"
    "mr_memory_id (pw_record v) = mr_memory_id (pw_record w)" for a b v w
    using pending_other_id [OF inv map_of_SomeD [OF that(1)] map_of_SomeD [OF that(2)]] that(3) by blast
  with ok show "\<forall>a w. dict_get (ml_pending s) a = Some w \<longrightarrow>
      validate_record (mx_hash_record e) (pw_record w) \<and>
      mr_memory_id (pw_record w) \<notin> dict_keys (ml_catalog s) \<and>
      mr_memory_id (pw_record w) \<in> ml_pending_memory_ids s \<and> a \<notin> ml_used_authorization_ids s \<and>
      (\<forall>b v. dict_get (ml_pending s) b = Some v \<and> mr_memory_id (pw_record v) = mr_memory_id (pw_record w) \<longrightarrow> b = a)"
    by (auto simp: pending_ok_def)
qed

text \<open>
  The lineage traces are exact. In every reachable state, \<open>trace_dependents\<close> lists each memory
  that is transitively derived from the given one exactly once and \<open>trace_dependencies\<close> each one it is
  derived from, and the searches, which stop by construction, list nothing else.
\<close>

theorem lineage_trace_exact:
  assumes "mem_reachable e p s" and "dict_get (ml_catalog s) i = Some r"
  shows "distinct (map mr_memory_id (trace d (ml_catalog s) i)) \<and>
    set (map mr_memory_id (trace True (ml_catalog s) i)) = {j. (i, j) \<in> (derives (ml_catalog s))\<^sup>+} \<and>
    set (map mr_memory_id (trace False (ml_catalog s) i)) = {j. (j, i) \<in> (derives (ml_catalog s))\<^sup>+}"
proof -
  let ?R = "derives (ml_catalog s)"
  have inv: "mem_inv e s" using assms(1) by (rule mem_reachable_inv)
  then have ok: "catalog_ok (ml_catalog s)" and ac: "acyclic ?R" by (simp_all add: mem_inv_def)
  have i: "i \<in> dict_keys (ml_catalog s)" using assms(2) by (rule dict_get_in_keys)
  have strict: "S\<^sup>* `` {i} - {i} = {j. (i, j) \<in> S\<^sup>+}" if "acyclic S" for S
    using that by (auto simp: acyclic_def rtrancl_eq_or_trancl)
  have "set (trace_ids True (ml_catalog s) i) = {j. (i, j) \<in> ?R\<^sup>+}"
    using trace_ids_descendants [OF ok i] strict [OF ac] by simp
  moreover have "set (trace_ids False (ml_catalog s) i) = {j. (j, i) \<in> ?R\<^sup>+}"
    using trace_ids_ancestors [OF i] strict [of "?R\<inverse>"] ac by (simp add: trancl_converse)
  ultimately show ?thesis by (simp add: trace_records [OF ok] distinct_trace_ids del: set_map)
qed

text \<open>
  C4: quarantine covers the whole lineage. Quarantining a memory marks it and everything
  transitively derived from it as quarantined, keeps their content and their signals, leaves every
  other record untouched, and names exactly the marked memories in the rebuild plan. The records
  change even when the plan cannot be built.
\<close>

theorem quarantine_covers_lineage:
  assumes "mem_reachable e p s" and "dict_get (ml_catalog s) i = Some r"
    and "quarantine e i reason now s = (res, s')"
  shows "(\<forall>j x. dict_get (ml_catalog s) j = Some x \<longrightarrow>
      (\<exists>y. dict_get (ml_catalog s') j = Some y \<and> frozen y = frozen x \<and>
        (if (i, j) \<in> (derives (ml_catalog s))\<^sup>* then mr_taint_status y = Quarantined \<and> mr_taint_signals x \<subseteq> mr_taint_signals y
         else y = x))) \<and>
    (\<forall>d. res = Some d \<longrightarrow> my_action d = QUARANTINE \<and>
      (\<exists>plan. my_rebuild_plan d = Some plan \<and>
        set (mj_affected_memory_ids plan) = {j. (i, j) \<in> (derives (ml_catalog s))\<^sup>*}))"
proof (intro conjI)
  have ok: "catalog_ok (ml_catalog s)" using mem_reachable_inv [OF assms(1)] by (simp add: mem_inv_def)
  obtain ids cat where t: "transition_affected e Quarantined Taint_inheritance i (ml_catalog s) = (ids, cat)"
    by (cases "transition_affected e Quarantined Taint_inheritance i (ml_catalog s)")
  note spec = transition_affected_spec [OF ok assms(2) t]
  have cat: "ml_catalog s' = cat"
    using core_eqD(1) [OF remediate_state, of e Quarantined Quarantined_event i reason now s] assms(3) t
    by (simp add: quarantine_def)
  have d: "descendants (ml_catalog s) i = {j. (i, j) \<in> (derives (ml_catalog s))\<^sup>*}" by (auto simp: descendants_def)
  show "\<forall>j x. dict_get (ml_catalog s) j = Some x \<longrightarrow>
      (\<exists>y. dict_get (ml_catalog s') j = Some y \<and> frozen y = frozen x \<and>
        (if (i, j) \<in> (derives (ml_catalog s))\<^sup>* then mr_taint_status y = Quarantined \<and> mr_taint_signals x \<subseteq> mr_taint_signals y
         else y = x))"
    by (simp add: cat spec(4) d affected_revision_def subset_insertI)
  show "\<forall>d. res = Some d \<longrightarrow> my_action d = QUARANTINE \<and>
      (\<exists>plan. my_rebuild_plan d = Some plan \<and>
        set (mj_affected_memory_ids plan) = {j. (i, j) \<in> (derives (ml_catalog s))\<^sup>*})"
    using assms(2,3) t spec(2)
    by (auto simp: quarantine_def remediate_def Let_def split_def rebuild_plan_of_def d split: option.splits if_splits)
qed

text \<open>
  Quarantine is lasting. A memory that is not clean or reviewed stays so along every sequence of
  operations without a revalidation of that memory, and every retrieval that names it is refused
  as a whole.
\<close>

theorem unsafe_memory_never_retrieved:
  assumes "mem_reachable e p s" and "dict_get (ml_catalog s) j = Some r" and "mr_taint_status r \<notin> safe_status"
    and "fresh_run e p s ops" and "\<forall>x \<in> set ops. \<not> revalidates j x" and "j \<in> set (mo_memory_ids q)"
  shows "my_action (fst (authorize_retrieval e q contents now (mem_run e p s ops))) = BLOCK \<and>
    my_records (fst (authorize_retrieval e q contents now (mem_run e p s ops))) = []"
proof -
  let ?s = "mem_run e p s ops"
  have "unsafe_in (ml_catalog ?s) j"
    using unsafe_run [OF mem_reachable_inv [OF assms(1)] assms(4), of j] assms(2,3,5)
    by (auto simp: unsafe_in_def list_all_iff)
  then have "\<not> readable e q contents now (ml_catalog ?s) j" by (auto simp: unsafe_in_def readable_def)
  then have "my_action (fst (authorize_retrieval e q contents now ?s)) \<noteq> ALLOW"
    using assms(6) by (simp add: retrieval_action) blast
  then show ?thesis
    by (auto simp: authorize_retrieval_def simple_decision_def Let_def split_def split: if_splits)
qed

text \<open>
  Retrieval is atomic and exact. It is allowed if and only if every requested memory is in the
  catalog with an intact digest, belongs to the reader's tenant, purpose and (when user-scoped)
  user, is clean or reviewed, unexpired, rests on unchanged safe parents, and comes with exactly the
  stored bytes, which show no signal the record does not carry, and the texts together compose
  no split payload. An allowed retrieval returns the requested records in order and changes no record.
\<close>

theorem retrieval_exact:
  "(my_action (fst (authorize_retrieval e q contents now s)) = ALLOW \<longleftrightarrow>
     (\<forall>i \<in> set (mo_memory_ids q). readable e q contents now (ml_catalog s) i) \<and> \<not> composes_payload e q contents) \<and>
   (my_action (fst (authorize_retrieval e q contents now s)) = ALLOW \<longrightarrow>
     map Some (my_records (fst (authorize_retrieval e q contents now s))) = map (dict_get (ml_catalog s)) (mo_memory_ids q) \<and>
     ml_catalog (snd (authorize_retrieval e q contents now s)) = ml_catalog s)"
  using retrieval_action retrieval_allowed by blast

section \<open>The properties on a concrete manager\<close>

lemma demo_get [simp]:
  "dict_get (ml_catalog demo_state) ''a'' = Some rec_a" "dict_get (ml_catalog demo_state) ''b'' = Some rec_b"
  by (simp_all add: demo_catalog)

lemma demo_derives: "(''a'', ''b'') \<in> (derives (ml_catalog demo_state))\<^sup>*"
proof -
  have "(''a'', ''b'') \<in> derives (ml_catalog demo_state)"
    by (simp add: derives_def demo_catalog rec_b_def demo_record_def)
  then show ?thesis by (rule r_into_rtrancl)
qed

theorem memory_state_well_formed_witness:
  "acyclic (derives (ml_catalog demo_state)) \<and> deps_within rec_b (ml_catalog demo_state)"
  using memory_state_well_formed [OF demo_reachable] demo_get(2) by blast

theorem lineage_trace_exact_witness:
  "set (map mr_memory_id (trace True (ml_catalog demo_state) ''a'')) = {j. (''a'', j) \<in> (derives (ml_catalog demo_state))\<^sup>+}"
  using lineage_trace_exact [OF demo_reachable demo_get(1)] by blast

definition demo_quarantined :: mem_state where
  "demo_quarantined = snd (quarantine demo_env ''a'' ''incident'' 0 demo_state)"

theorem quarantine_covers_lineage_witness:
  "\<exists>y. dict_get (ml_catalog demo_quarantined) ''b'' = Some y \<and> mr_taint_status y = Quarantined"
proof -
  have "quarantine demo_env ''a'' ''incident'' 0 demo_state
      = (fst (quarantine demo_env ''a'' ''incident'' 0 demo_state), demo_quarantined)"
    by (simp add: demo_quarantined_def)
  from quarantine_covers_lineage [OF demo_reachable demo_get(1) this, THEN conjunct1,
    THEN spec, THEN spec, THEN mp, OF demo_get(2)]
  show ?thesis using demo_derives by auto
qed

lemma demo_quarantined_reachable: "mem_reachable demo_env mem_demo_policy demo_quarantined"
proof -
  have "mem_reachable demo_env mem_demo_policy (mem_step demo_env mem_demo_policy demo_state (0, Op_quarantine ''a'' ''incident''))"
    using demo_reachable by (rule mem_next) (simp add: fresh_op_def)
  then show ?thesis by (simp add: demo_quarantined_def)
qed

lemma demo_quarantined_b:
  "\<exists>y. dict_get (ml_catalog demo_quarantined) ''b'' = Some y \<and> mr_taint_status y \<notin> safe_status"
proof -
  have ok: "catalog_ok (ml_catalog demo_state)"
    using mem_reachable_inv [OF demo_reachable] by (simp add: mem_inv_def)
  obtain ids cat where t: "transition_affected demo_env Quarantined Taint_inheritance ''a'' (ml_catalog demo_state) = (ids, cat)"
    by (cases "transition_affected demo_env Quarantined Taint_inheritance ''a'' (ml_catalog demo_state)")
  have "ml_catalog demo_quarantined = cat"
    using core_eqD(1) [OF remediate_state, of demo_env Quarantined Quarantined_event "''a''" "''incident''" 0 demo_state] t
    by (simp add: demo_quarantined_def quarantine_def)
  then show ?thesis
    using transition_affected_spec(4) [OF ok demo_get(1) t, of "''b''"] demo_derives
    by (simp add: descendants_def affected_revision_def)
qed

theorem unsafe_memory_never_retrieved_witness:
  "my_action (fst (authorize_retrieval demo_env (demo_read [''a'', ''b'']) (\<lambda>_. Some [5]) 1
     (mem_run demo_env mem_demo_policy demo_quarantined [(0, Op_quarantine ''b'' ''again'')]))) = BLOCK"
proof -
  obtain y where y: "dict_get (ml_catalog demo_quarantined) ''b'' = Some y" "mr_taint_status y \<notin> safe_status"
    using demo_quarantined_b by blast
  show ?thesis
    using unsafe_memory_never_retrieved [OF demo_quarantined_reachable y,
        of "[(0, Op_quarantine ''b'' ''again'')]" "demo_read [''a'', ''b'']"]
    by (simp add: fresh_op_def revalidates_def demo_read_def)
qed

theorem retrieval_exact_witness:
  "my_action (fst (authorize_retrieval demo_env (demo_read [''a'', ''b'']) (\<lambda>_. Some [5]) 0 demo_state)) = ALLOW"
  using retrieval_exact [of demo_env "demo_read [''a'', ''b'']" "\<lambda>_. Some [5]" 0 demo_state]
  by (simp add: readable_def composes_payload_def demo_read_def unsafe_parent_def mem_demo_defs)

end
