(* ===== verification/Memory_Protocol.thy ===== *)
theory Memory_Protocol
  imports Memory_Safety
begin

text \<open>
  The write protocol of the memory taint manager: what a granted reservation guarantees, the single use
  of leases, approvals and grants along every run, the immutability of stored content, the refinement
  of a register of memory slots, and the effect of a failed read.
\<close>

section \<open>Granted reservations\<close>

lemma authorize_allow_verdict:
  assumes "authorize_write e p q content approval uid now s = (Some d, s')" and "my_action d = ALLOW"
  obtains fs sg n s1 fs' r s2 where "analyse_write e p q content s = (fs, sg, n, s1)"
    "write_verdict e p q approval now fs sg s1 = (ALLOW, fs', Some r, s2)" "my_record d = Some r"
    "ml_used_approval_ids s' = ml_used_approval_ids s2"
proof -
  obtain fs sg n s1 where a: "analyse_write e p q content s = (fs, sg, n, s1)"
    by (cases "analyse_write e p q content s")
  obtain action fs' eff s2 where v: "write_verdict e p q approval now fs sg s1 = (action, fs', eff, s2)"
    by (cases "write_verdict e p q approval now fs sg s1")
  have act: "action = ALLOW" and eff: "eff \<noteq> None"
    using assms a v by (auto simp: authorize_write_def Let_def split_def split: if_splits)
  then obtain r where r: "eff = Some r" by auto
  show thesis
    by (rule that [OF a, of fs' r s2])
      (use assms a v act r in \<open>auto simp: authorize_write_def Let_def split_def reserve_write_def\<close>)
qed

lemma verdict_approval:
  assumes "write_verdict e p q approval now fs sg s = (ALLOW, fs', Some r, s')"
  shows "if sg \<inter> mt_privileged_signals p = {}
    then mr_taint_status r = Clean \<and> mr_approval_id r = None \<and> s' = s
    else mr_taint_status r = Reviewed \<and>
      (\<exists>a. approval = Some a \<and> approval_findings e q (sg \<inter> mt_privileged_signals p) approval now s = [] \<and>
        mr_approval_id r = Some (mw_approval_id a) \<and>
        ml_used_approval_ids s' = insert (mw_approval_id a) (ml_used_approval_ids s))"
  using assms
  by (auto simp: write_verdict_def Let_def transition_record_def revise_def seal_record_def
      split: if_splits option.splits)

lemma approval_findings_Nil:
  "approval_findings e q sg (Some a) now s = [] \<longleftrightarrow>
     mw_request_digest a = mq_request_digest q \<and> mw_tenant_id a = mq_tenant_id q \<and>
     sg \<subseteq> mw_approved_signals a \<and> verified (mx_verify_approval e) a \<and>
     mw_issued_at a \<le> now \<and> now \<le> mw_expires_at a \<and> mw_approval_id a \<notin> ml_used_approval_ids s"
  by (auto simp: approval_findings_def)

text \<open>The approval a privileged write needs.\<close>

definition approved_by ::
  "mem_env \<Rightarrow> mem_write_request \<Rightarrow> risk_signal set \<Rightarrow> datetime \<Rightarrow> mem_write_approval \<Rightarrow> mem_state \<Rightarrow> mem_state \<Rightarrow> bool" where
  "approved_by e q sg now a s s' \<longleftrightarrow>
     mw_request_digest a = mq_request_digest q \<and> mw_tenant_id a = mq_tenant_id q \<and>
     sg \<subseteq> mw_approved_signals a \<and> verified (mx_verify_approval e) a \<and>
     mw_issued_at a \<le> now \<and> now \<le> mw_expires_at a \<and>
     mw_approval_id a \<notin> ml_used_approval_ids s \<and> mw_approval_id a \<in> ml_used_approval_ids s'"

lemma parent_scan_signals:
  assumes "analyse_write e p q content s = (fs, sg, n, s1)"
  shows "provenance_changed (ml_catalog s) (mq_record q) \<Longrightarrow> Provenance_dropped \<in> sg"
    and "inherited_signals (ml_catalog s) (mq_record q) \<subseteq> sg \<or> laundering_signal (mq_record q) \<in> sg"
  using assms by (auto simp: analyse_write_def catalog_write_findings_def Let_def split_def split: if_splits)

lemma parent_inherits:
  assumes "d \<in> set (mr_dependencies r)" and "dict_get cat (md_memory_id d) = Some x"
  shows "mr_taint_signals x \<subseteq> inherited_signals cat r"
    and "mr_taint_status x \<notin> safe_status \<Longrightarrow> Taint_inheritance \<in> inherited_signals cat r"
proof -
  have "x \<in> set (parents cat r)" using assms by (force simp: parents_def List.map_filter_def)
  then show "mr_taint_signals x \<subseteq> inherited_signals cat r"
    "mr_taint_status x \<notin> safe_status \<Longrightarrow> Taint_inheritance \<in> inherited_signals cat r"
    by (fastforce simp: inherited_signals_def)+
qed

text \<open>
  A reservation is granted only for a sound write. An allowed write has intact request, record
  and content digests, an authorized writer in its own tenant and an allowlisted purpose, a memory
  identifier neither stored nor reserved, and parents of the declared revision, tenant, purpose
  and audience. None of its signals is non-overridable. When the policy keeps the taint signals
  non-overridable, every parent is safe, the parents' provenance is carried over and their signals
  are inherited. The stored record is clean without privileged signals, and otherwise reviewed
  under a verified, unexpired, unused approval of all of them, which is then used up.
\<close>

theorem reservation_requires_sound_write:
  assumes "authorize_write e p q content approval uid now s = (Some d, s')" and "my_action d = ALLOW"
    and "{Taint_inheritance, Summary_laundering, Provenance_dropped} \<subseteq> mt_non_overridable_signals p"
  shows "write_admissible e p q content s \<and>
    write_signals e p q content s \<inter> mt_non_overridable_signals p = {} \<and>
    \<not> provenance_changed (ml_catalog s) (mq_record q) \<and>
    inherited_signals (ml_catalog s) (mq_record q) \<subseteq> write_signals e p q content s \<and>
    (\<forall>x \<in> set (mr_dependencies (mq_record q)). \<not> unsafe_parent (ml_catalog s) x) \<and>
    (\<exists>r. my_record d = Some r \<and> frozen r = frozen (mq_record q) \<and>
      mr_taint_signals r = write_signals e p q content s \<and>
      (let privileged = write_signals e p q content s \<inter> mt_privileged_signals p in
       if privileged = {} then mr_taint_status r = Clean \<and> mr_approval_id r = None
       else mr_taint_status r = Reviewed \<and>
         (\<exists>a. approval = Some a \<and> mr_approval_id r = Some (mw_approval_id a) \<and> approved_by e q privileged now a s s')))"
proof -
  obtain fs sg n s1 fs' r s2 where a: "analyse_write e p q content s = (fs, sg, n, s1)"
    and v: "write_verdict e p q approval now fs sg s1 = (ALLOW, fs', Some r, s2)"
    and r: "my_record d = Some r" and used: "ml_used_approval_ids s' = ml_used_approval_ids s2"
    using assms(1,2) by (rule authorize_allow_verdict)
  have sg: "write_signals e p q content s = sg" by (simp add: write_signals_def a)
  have s1: "ml_used_approval_ids s1 = ml_used_approval_ids s" using core_eqD(5) [OF analyse_write_core [OF a]] .
  have adm: "write_admissible e p q content s" using verdict_allow(2) [OF v] analyse_write_hard [OF a] by simp
  note hard = verdict_allow(1) [OF v] and rec = verdict_record [OF v]
  have "laundering_signal (mq_record q) \<notin> sg"
    using hard assms(3) by (auto simp: laundering_signal_def split: if_splits)
  then have inh: "inherited_signals (ml_catalog s) (mq_record q) \<subseteq> sg" using parent_scan_signals(2) [OF a] by blast
  have prov: "\<not> provenance_changed (ml_catalog s) (mq_record q)"
    using parent_scan_signals(1) [OF a] hard assms(3) by blast
  have safe: "\<not> unsafe_parent (ml_catalog s) x" if x: "x \<in> set (mr_dependencies (mq_record q))" for x
  proof -
    from adm x obtain y where y: "dict_get (ml_catalog s) (md_memory_id x) = Some y" "mr_record_digest y = md_record_digest x"
      by (auto simp: write_admissible_def bound_parent_def split: option.splits)
    have "mr_taint_status y \<in> safe_status" using parent_inherits(2) [OF x y(1)] inh hard assms(3) by blast
    with y show ?thesis by (simp add: unsafe_parent_def)
  qed
  have "let privileged = sg \<inter> mt_privileged_signals p in
       if privileged = {} then mr_taint_status r = Clean \<and> mr_approval_id r = None
       else mr_taint_status r = Reviewed \<and>
         (\<exists>a. approval = Some a \<and> mr_approval_id r = Some (mw_approval_id a) \<and> approved_by e q privileged now a s s')"
    using verdict_approval [OF v] used s1
    by (auto simp: Let_def approval_findings_Nil approved_by_def split: if_splits)
  then show ?thesis using adm hard prov inh safe r rec(2,3) by (simp add: sg)
qed

section \<open>Single use\<close>

text \<open>The one-time identifier an operation presents, and whether the operation used it.\<close>

datatype token = Lease_token ident | Approval_token ident | Grant_token ident

fun token_of :: "datetime \<times> mem_op \<Rightarrow> token" where
  "token_of (now, Op_commit a stored) = Lease_token (mz_authorization_id a)"
| "token_of (now, Op_authorize q content (Some a) uid) = Approval_token (mw_approval_id a)"
| "token_of (now, Op_revalidate i content g) = Grant_token (mk_grant_id g)"
| "token_of (now, _) = Lease_token []"

fun token_accepted :: "mem_env \<Rightarrow> mem_policy \<Rightarrow> mem_state \<Rightarrow> datetime \<times> mem_op \<Rightarrow> bool" where
  "token_accepted e p s (now, Op_commit a stored) \<longleftrightarrow> my_action (fst (commit_write e p a stored now s)) = ALLOW"
| "token_accepted e p s (now, Op_authorize q content (Some a) uid) \<longleftrightarrow>
     (case fst (authorize_write e p q content (Some a) uid now s) of
        None \<Rightarrow> False
      | Some d \<Rightarrow> my_action d = ALLOW \<and> (case my_record d of Some r \<Rightarrow> mr_approval_id r \<noteq> None | None \<Rightarrow> False))"
| "token_accepted e p s (now, Op_revalidate i content g) \<longleftrightarrow> my_action (fst (revalidate e p i content g now s)) = ALLOW"
| "token_accepted e p s _ \<longleftrightarrow> False"

definition mem_attempt :: "mem_env \<Rightarrow> mem_policy \<Rightarrow> mem_state \<Rightarrow> datetime \<times> mem_op \<Rightarrow> bool \<times> mem_state" where
  "mem_attempt e p s x = (token_accepted e p s x, mem_step e p s x)"

definition spent_tokens :: "mem_state \<Rightarrow> token set" where
  "spent_tokens s = Lease_token ` ml_used_authorization_ids s \<union> Approval_token ` ml_used_approval_ids s
     \<union> Grant_token ` ml_used_revalidation_ids s"

lemma spent_tokens_simps [simp]:
  "Lease_token i \<in> spent_tokens s \<longleftrightarrow> i \<in> ml_used_authorization_ids s"
  "Approval_token i \<in> spent_tokens s \<longleftrightarrow> i \<in> ml_used_approval_ids s"
  "Grant_token i \<in> spent_tokens s \<longleftrightarrow> i \<in> ml_used_revalidation_ids s"
  by (auto simp: spent_tokens_def)

lemma core_spent: "mem_core s = mem_core s' \<Longrightarrow> spent_tokens s = spent_tokens s'"
  by (simp add: spent_tokens_def mem_core_def)

lemma authorize_spent: "spent_tokens s \<subseteq> spent_tokens (snd (authorize_write e p q content approval uid now s))"
proof -
  obtain fs sg n s1 where a: "analyse_write e p q content s = (fs, sg, n, s1)"
    by (cases "analyse_write e p q content s")
  obtain action fs' eff s2 where v: "write_verdict e p q approval now fs sg s1 = (action, fs', eff, s2)"
    by (cases "write_verdict e p q approval now fs sg s1")
  have "spent_tokens s = spent_tokens s1" using core_spent [OF analyse_write_core [OF a]] by simp
  moreover have "spent_tokens s1 \<subseteq> spent_tokens s2" using verdict_other [OF v] by (auto simp: spent_tokens_def)
  moreover have "spent_tokens (snd (authorize_write e p q content approval uid now s)) = spent_tokens s2"
    by (auto simp: authorize_write_def a v Let_def split_def spent_tokens_def reserve_write_def split: option.splits)
  ultimately show ?thesis by simp
qed

lemma spent_step: "spent_tokens s \<subseteq> spent_tokens (mem_step e p s x)"
proof -
  obtain now op where x: "x = (now, op)" by (cases x)
  show ?thesis
  proof (cases op)
    case (Op_authorize q content approval uid)
    then show ?thesis using authorize_spent x by simp
  next
    case (Op_commit a stored)
    obtain d s' where r: "commit_write e p a stored now s = (d, s')" by (cases "commit_write e p a stored now s")
    from r have "spent_tokens s \<subseteq> spent_tokens s'"
    proof (cases rule: commit_write_outcome)
      case refused
      then show ?thesis using core_spent [OF refused(1)] by simp
    next
      case (stored w)
      then show ?thesis using core_spent [OF stored(5)] by (auto simp: spent_tokens_def store_record_def drop_pending_def)
    qed
    then show ?thesis using r x Op_commit by simp
  next
    case (Op_abandon a)
    show ?thesis
    proof (cases rule: abandon_write_outcome [of e a now s])
      case kept
      then show ?thesis using core_spent [OF kept] x Op_abandon by simp
    next
      case (dropped w)
      have "spent_tokens s \<subseteq> spent_tokens (drop_pending (mz_authorization_id a) (mr_memory_id (pw_record w)) s)"
        by (auto simp: spent_tokens_def drop_pending_def)
      then show ?thesis using core_spent [OF dropped(2)] x Op_abandon by simp
    qed
  next
    case (Op_retrieve q contents)
    obtain ts where "mem_core (snd (authorize_retrieval e q contents now s)) = mem_core (s\<lparr>ml_catalog := taint_all e ts (ml_catalog s)\<rparr>)"
      by (rule retrieval_state)
    from core_spent [OF this] show ?thesis using x Op_retrieve by (simp add: spent_tokens_def)
  next
    case (Op_quarantine i reason)
    then show ?thesis using core_spent [OF remediate_state] x by (simp add: quarantine_def spent_tokens_def)
  next
    case (Op_invalidate i reason)
    then show ?thesis using core_spent [OF remediate_state] x by (simp add: invalidate_def spent_tokens_def)
  next
    case (Op_revalidate i content g)
    obtain d s' where r: "revalidate e p i content g now s = (d, s')" by (cases "revalidate e p i content g now s")
    from r have "spent_tokens s \<subseteq> spent_tokens s'"
    proof (cases rule: revalidate_outcome)
      case refused
      then show ?thesis using core_spent [OF refused(1)] by simp
    next
      case (revised r)
      then show ?thesis using core_spent [OF revised(4)] by (auto simp: spent_tokens_def)
    qed
    then show ?thesis using r x Op_revalidate by simp
  qed
qed

lemma token_fresh_and_spent:
  assumes "token_accepted e p s x"
  shows "token_of x \<notin> spent_tokens s" "token_of x \<in> spent_tokens (mem_step e p s x)"
proof -
  obtain now op where x: "x = (now, op)" by (cases x)
  have "token_of x \<notin> spent_tokens s \<and> token_of x \<in> spent_tokens (mem_step e p s x)"
  proof (cases op)
    case (Op_authorize q content approval uid)
    then obtain a d r where a: "approval = Some a"
      and d: "fst (authorize_write e p q content (Some a) uid now s) = Some d" "my_action d = ALLOW"
      and r: "my_record d = Some r" "mr_approval_id r \<noteq> None"
      using assms x by (cases approval) (auto split: option.splits)
    obtain s' where s': "authorize_write e p q content (Some a) uid now s = (Some d, s')"
      using d(1) by (cases "authorize_write e p q content (Some a) uid now s") simp
    obtain fs sg n s1 fs' r' s2 where an: "analyse_write e p q content s = (fs, sg, n, s1)"
      and v: "write_verdict e p q (Some a) now fs sg s1 = (ALLOW, fs', Some r', s2)"
      and r': "my_record d = Some r'" and used: "ml_used_approval_ids s' = ml_used_approval_ids s2"
      using s' d(2) by (rule authorize_allow_verdict)
    have s1: "ml_used_approval_ids s1 = ml_used_approval_ids s" using core_eqD(5) [OF analyse_write_core [OF an]] .
    have "mw_approval_id a \<notin> ml_used_approval_ids s \<and> mw_approval_id a \<in> ml_used_approval_ids s'"
      using verdict_approval [OF v] r r' s1 used by (auto simp: approval_findings_Nil split: if_splits)
    then show ?thesis using x Op_authorize a s' by simp
  next
    case (Op_commit a stored)
    obtain d s' where r: "commit_write e p a stored now s = (d, s')" by (cases "commit_write e p a stored now s")
    from r have "mz_authorization_id a \<notin> ml_used_authorization_ids s \<and> mz_authorization_id a \<in> ml_used_authorization_ids s'"
    proof (cases rule: commit_write_outcome)
      case refused
      then show ?thesis using assms r x Op_commit by simp
    next
      case (stored w)
      then show ?thesis using core_eqD(4) [OF stored(5)]
        by (simp add: commit_findings_def Let_def store_record_def drop_pending_def)
    qed
    then show ?thesis using r x Op_commit by simp
  next
    case (Op_revalidate i content g)
    obtain d s' where r: "revalidate e p i content g now s = (d, s')" by (cases "revalidate e p i content g now s")
    from r have "mk_grant_id g \<notin> ml_used_revalidation_ids s \<and> mk_grant_id g \<in> ml_used_revalidation_ids s'"
    proof (cases rule: revalidate_outcome)
      case refused
      then show ?thesis using assms r x Op_revalidate by simp
    next
      case (revised r)
      then show ?thesis using core_eqD(6) [OF revised(4)] by (simp add: revalidation_findings_def)
    qed
    then show ?thesis using r x Op_revalidate by simp
  qed (use assms x in simp_all)
  then show "token_of x \<notin> spent_tokens s" "token_of x \<in> spent_tokens (mem_step e p s x)" by simp_all
qed

lemma all_admissible_trivial: "all_admissible (\<lambda>_ _. True) f s is"
  by (induction "is" arbitrary: s) simp_all

interpretation memory_tokens: single_use "mem_attempt e p" token_of spent_tokens "\<lambda>_ _. True" "\<lambda>_. True"
  for e p
  by unfold_locales (use token_fresh_and_spent spent_step in \<open>auto simp: mem_attempt_def\<close>)

text \<open>
  Leases, approvals and grants are single-use. Along every sequence of operations, of whatever
  kind and order, no write lease is committed twice, no approval lets two privileged writes through,
  and no grant revalidates twice.
\<close>

theorem memory_tokens_single_use:
  "distinct (map token_of (fst (run_attempts (mem_attempt e p) s ops)))"
  by (rule memory_tokens.accepted_at_most_once [OF TrueI all_admissible_trivial]) (rule surjective_pairing)

section \<open>Stored content is immutable\<close>

lemma mem_run_frozen:
  "mem_inv e s \<Longrightarrow> fresh_run e p s ops \<Longrightarrow> dict_get (ml_catalog s) i = Some r \<Longrightarrow>
   \<exists>r'. dict_get (ml_catalog (mem_run e p s ops)) i = Some r' \<and> frozen r' = frozen r"
proof (induction ops arbitrary: s r)
  case (Cons x xs)
  then obtain r1 where r1: "dict_get (ml_catalog (mem_step e p s x)) i = Some r1" "frozen r1 = frozen r"
    using mem_step_frozen [of e s x i r p] by auto
  from Cons.IH [OF mem_inv_step _ r1(1)] Cons.prems r1(2) show ?case by simp
qed simp

text \<open>
  Stored content is immutable. Once a memory is in the catalog it stays there along every run,
  with the same content digest, owner, audience, provenance and dependencies: no write overwrites it, and
  quarantine, invalidation and revalidation change only its status, signals, approval and version.
\<close>

theorem stored_memory_immutable:
  assumes "mem_reachable e p s" and "dict_get (ml_catalog s) i = Some r" and "fresh_run e p s ops"
  shows "\<exists>r'. dict_get (ml_catalog (mem_run e p s ops)) i = Some r' \<and> frozen r' = frozen r \<and>
    mr_content_digest r' = mr_content_digest r \<and> mr_dependencies r' = mr_dependencies r"
proof -
  obtain r' where r': "dict_get (ml_catalog (mem_run e p s ops)) i = Some r'" "frozen r' = frozen r"
    using mem_run_frozen [OF mem_reachable_inv [OF assms(1)] assms(3,2)] by blast
  then show ?thesis using frozen_eqD(2,3) [OF r'(2)] by blast
qed

section \<open>The register of memory slots\<close>

text \<open>
  The abstract contract of the two-phase write: a memory slot is free, leased under one lease for
  one content, or stored. A slot is leased only when free, stored only by its lease and with the
  leased content, and released only from a lease.
\<close>

datatype slot = Free | Leased ident ident | Stored ident

type_synonym slots = "ident \<Rightarrow> slot"

text \<open>The actions of the register, and what each of them does to it.\<close>

datatype slot_action = Idle | Lease ident ident ident | Store ident ident ident | Release ident

inductive slot_does :: "slot_action \<Rightarrow> slots \<Rightarrow> slots \<Rightarrow> bool" where
  slot_idle: "slot_does Idle m m"
| slot_lease: "m i = Free \<Longrightarrow> slot_does (Lease i a c) m (m(i := Leased a c))"
| slot_store: "m i = Leased a c \<Longrightarrow> slot_does (Store i a c) m (m(i := Stored c))"
| slot_release: "m i = Leased a c \<Longrightarrow> slot_does (Release a) m (m(i := Free))"

inductive_cases slot_doesE: "slot_does l m m'"

inductive_simps slot_does_simps: "slot_does Idle m m'" "slot_does (Lease i a c) m m'" "slot_does (Store i a c) m m'"
  "slot_does (Release a) m m'"

lemma stored_slot_final: "slot_does l m m' \<Longrightarrow> m i = Stored c \<Longrightarrow> m' i = Stored c"
  by (auto elim!: slot_doesE)

lemma stored_slots_final: "(\<lambda>m m'. \<exists>l. slot_does l m m')\<^sup>*\<^sup>* m m' \<Longrightarrow> m i = Stored c \<Longrightarrow> m' i = Stored c"
  by (induction rule: rtranclp_induct) (auto dest: stored_slot_final)

text \<open>
  The action that an operation of the manager stands for, read off its arguments and its answer: an
  allowed authorization leases the requested memory under the drawn identifier for the digest of the
  presented content, an allowed commit stores the digest of the presented content in the memory of the
  record it returns, an abandonment that answers with an event releases its lease. Every other operation and every
  refused one is idle.
\<close>

fun slot_action_of :: "mem_env \<Rightarrow> mem_policy \<Rightarrow> mem_state \<Rightarrow> datetime \<times> mem_op \<Rightarrow> slot_action" where
  "slot_action_of e p s (now, Op_authorize q content approval uid) =
     (case fst (authorize_write e p q content approval uid now s) of
        Some d \<Rightarrow> if my_action d = ALLOW then Lease (mr_memory_id (mq_record q)) uid (mx_hash_content e content) else Idle
      | None \<Rightarrow> Idle)"
| "slot_action_of e p s (now, Op_commit a stored) =
     (let d = fst (commit_write e p a stored now s) in
      case my_record d of
        Some r \<Rightarrow> if my_action d = ALLOW then Store (mr_memory_id r) (mz_authorization_id a) (mx_hash_content e stored) else Idle
      | None \<Rightarrow> Idle)"
| "slot_action_of e p s (now, Op_abandon a) =
     (case fst (abandon_write e a now s) of Some _ \<Rightarrow> Release (mz_authorization_id a) | None \<Rightarrow> Idle)"
| "slot_action_of e p s (now, _) = Idle"

text \<open>The abstraction of a manager state.\<close>

definition slots_of :: "mem_state \<Rightarrow> slots" where
  "slots_of s i =
     (case dict_get (ml_catalog s) i of
        Some r \<Rightarrow> Stored (mr_content_digest r)
      | None \<Rightarrow>
          (case find (\<lambda>x. mr_memory_id (pw_record (snd x)) = i) (ml_pending s) of
             Some x \<Rightarrow> Leased (fst x) (mr_content_digest (pw_record (snd x)))
           | None \<Rightarrow> Free))"

lemma find_unique:
  assumes "distinct (map f xs)" and "x \<in> set xs"
  shows "find (\<lambda>y. f y = f x) xs = Some x"
  using assms by (induction xs) auto

lemma slots_of_pending:
  assumes "mem_inv e s" and "x \<in> set (ml_pending s)"
  shows "slots_of s (mr_memory_id (pw_record (snd x))) = Leased (fst x) (mr_content_digest (pw_record (snd x)))"
proof -
  have "pending_ok e s x" using assms by (simp add: mem_inv_def list_all_iff)
  then have "dict_get (ml_catalog s) (mr_memory_id (pw_record (snd x))) = None"
    by (simp add: pending_ok_def map_of_eq_None_iff)
  moreover have "distinct (map (\<lambda>x. mr_memory_id (pw_record (snd x))) (ml_pending s))"
    using assms(1) by (simp add: mem_inv_def pending_memory_ids_def)
  then have "find (\<lambda>y. mr_memory_id (pw_record (snd y)) = mr_memory_id (pw_record (snd x))) (ml_pending s) = Some x"
    using find_unique [of "\<lambda>x. mr_memory_id (pw_record (snd x))", OF _ assms(2)] by simp
  ultimately show ?thesis by (simp add: slots_of_def)
qed

lemma slots_of_free:
  assumes "i \<notin> dict_keys (ml_catalog s)" and "i \<notin> set (pending_memory_ids s)"
  shows "slots_of s i = Free"
proof -
  have "find (\<lambda>x. mr_memory_id (pw_record (snd x)) = i) (ml_pending s) = None"
    using assms(2) unfolding find_None_iff pending_memory_ids_def by force
  moreover have "dict_get (ml_catalog s) i = None" using assms(1) by (simp add: map_of_eq_None_iff)
  ultimately show ?thesis by (simp add: slots_of_def)
qed

lemma same_store_slots: "same_store s s' \<Longrightarrow> slots_of s' = slots_of s"
  by (rule ext) (simp add: same_store_def slots_of_def cong: option.case_cong)

lemma revised_slots:
  assumes "same_frozen (ml_catalog s) cat"
  shows "slots_of (s\<lparr>ml_catalog := cat\<rparr>) = slots_of s"
proof
  fix i
  show "slots_of (s\<lparr>ml_catalog := cat\<rparr>) i = slots_of s i"
  proof (cases "dict_get (ml_catalog s) i")
    case None
    then have "dict_get cat i = None" using same_frozen_get' [OF assms, of i] by (cases "dict_get cat i") auto
    with None show ?thesis by (simp add: slots_of_def)
  next
    case (Some r)
    then obtain r' where "dict_get cat i = Some r'" "frozen r' = frozen r" using same_frozen_get [OF assms] by blast
    with Some show ?thesis using frozen_eqD(3) [of r' r] by (simp add: slots_of_def)
  qed
qed

text \<open>Dropping a reservation frees exactly its slot.\<close>

lemma dropped_slots:
  assumes "mem_inv e s" and "dict_get (ml_pending s) a = Some w"
  shows "slots_of (drop_pending a (mr_memory_id (pw_record w)) s) = (slots_of s)(mr_memory_id (pw_record w) := Free)"
    (is "slots_of ?s = _")
proof
  fix i
  have aw: "(a, w) \<in> set (ml_pending s)" using assms(2) by (rule map_of_SomeD)
  have inv': "mem_inv e ?s" using assms by (rule mem_inv_drop)
  have ok: "dict_ok (ml_pending s)" using assms(1) by (simp add: mem_inv_def)
  have set: "set (ml_pending ?s) = {x \<in> set (ml_pending s). fst x \<noteq> a}"
    by (simp add: drop_pending_def dict_del_Cons_other [OF ok])
  have other: "mr_memory_id (pw_record (snd x)) \<noteq> mr_memory_id (pw_record w)" if "x \<in> set (ml_pending ?s)" for x
    using that pending_other_id [OF assms(1) aw, of "fst x" "snd x"] by (auto simp: set)
  have pend: "pending_ok e s (a, w)" using assms(1) aw by (auto simp: mem_inv_def list_all_iff)
  have cat: "ml_catalog ?s = ml_catalog s" by (simp add: drop_pending_def)
  show "slots_of ?s i = ((slots_of s)(mr_memory_id (pw_record w) := Free)) i"
  proof (cases "i = mr_memory_id (pw_record w)")
    case True
    have "i \<notin> set (pending_memory_ids ?s)" using other True by (force simp: pending_memory_ids_def)
    moreover have "i \<notin> dict_keys (ml_catalog ?s)" using pend True by (simp add: pending_ok_def cat)
    ultimately show ?thesis using True by (simp add: slots_of_free)
  next
    case False
    show ?thesis
    proof (cases "\<exists>x \<in> set (ml_pending ?s). mr_memory_id (pw_record (snd x)) = i")
      case True
      then obtain x where x: "x \<in> set (ml_pending ?s)" "mr_memory_id (pw_record (snd x)) = i" by blast
      then have "x \<in> set (ml_pending s)" using set by auto
      from slots_of_pending [OF inv' x(1)] slots_of_pending [OF assms(1) this] x(2) False show ?thesis by simp
    next
      case none: False
      then have n': "\<not> (\<exists>x \<in> set (ml_pending s). mr_memory_id (pw_record (snd x)) = i)"
        using False set assms(2) ok aw
        by (auto simp: dict_ok_def) (metis (no_types, lifting) fst_conv map_of_is_SomeI option.inject snd_conv)
      have "find (\<lambda>x. mr_memory_id (pw_record (snd x)) = i) (ml_pending ?s) = None"
        "find (\<lambda>x. mr_memory_id (pw_record (snd x)) = i) (ml_pending s) = None"
        using none n' by (auto simp: find_None_iff)
      then show ?thesis using False by (simp add: slots_of_def cat cong: option.case_cong)
    qed
  qed
qed

lemma stored_slots:
  assumes "mr_memory_id r \<notin> dict_keys (ml_catalog s)"
  shows "slots_of (store_record r s) = (slots_of s)(mr_memory_id r := Stored (mr_content_digest r))"
  by (rule ext) (simp add: slots_of_def store_record_def cong: option.case_cong)

lemma abandon_write_answered:
  obtains (kept) "fst (abandon_write e a now s) = None" "mem_core (snd (abandon_write e a now s)) = mem_core s"
  | (dropped) w ev where "fst (abandon_write e a now s) = Some ev" "dict_get (ml_pending s) (mz_authorization_id a) = Some w"
      "mem_core (snd (abandon_write e a now s)) = mem_core (drop_pending (mz_authorization_id a) (mr_memory_id (pw_record w)) s)"
proof (cases "dict_get (ml_pending s) (mz_authorization_id a)")
  case (Some w)
  then show thesis using kept dropped
    by (cases "pw_authorization_digest w = mz_authorization_digest a")
      (auto simp: abandon_write_def Let_def split_def)
qed (use kept in \<open>simp add: abandon_write_def\<close>)

lemma find_append: "find P (xs @ ys) = (case find P xs of None \<Rightarrow> find P ys | Some z \<Rightarrow> Some z)"
  by (induction xs) auto

text \<open>Reserving a free slot leases it, and nothing else.\<close>

lemma leased_slots:
  assumes "i \<notin> dict_keys (ml_catalog s)" and "i \<notin> set (pending_memory_ids s)" and "mr_memory_id (pw_record w) = i"
    and "ml_catalog s' = ml_catalog s" and "ml_pending s' = ml_pending s @ [(uid, w)]"
  shows "slots_of s' = (slots_of s)(i := Leased uid (mr_content_digest (pw_record w)))"
proof
  fix k
  have "find (\<lambda>x. mr_memory_id (pw_record (snd x)) = i) (ml_pending s) = None"
    using assms(2) unfolding find_None_iff pending_memory_ids_def by force
  moreover have "dict_get (ml_catalog s) i = None" using assms(1) by (simp add: map_of_eq_None_iff)
  ultimately show "slots_of s' k = ((slots_of s)(i := Leased uid (mr_content_digest (pw_record w)))) k"
    using assms(3) by (auto simp: slots_of_def assms(4,5) find_append split: option.splits)
qed

lemma authorize_slots:
  assumes inv: "mem_inv e s" and fresh: "uid \<notin> dict_keys (ml_pending s)"
    and r: "authorize_write e p q content approval uid now s = (res, s')"
  shows "slot_does (slot_action_of e p s (now, Op_authorize q content approval uid)) (slots_of s) (slots_of s')"
  using r
proof (cases rule: authorize_write_outcome)
  case refused
  then have "slot_action_of e p s (now, Op_authorize q content approval uid) = Idle" using r by (simp split: option.split)
  then show ?thesis using slot_idle same_store_slots [OF refused(1)] by simp
next
  case (reserved d r' n)
  let ?i = "mr_memory_id r'"
  have same: "?i = mr_memory_id (mq_record q)" "mr_content_digest r' = mx_hash_content e content"
    using frozen_eqD(1,3) [OF reserved(8)] reserved(5) by (simp_all add: write_admissible_def matches_content_def)
  have act: "slot_action_of e p s (now, Op_authorize q content approval uid) = Lease ?i uid (mr_content_digest r')"
    using r reserved(1,2) same by simp
  have new: "?i \<notin> dict_keys (ml_catalog s)" "?i \<notin> set (pending_memory_ids s)"
    using reserved(5) frozen_eqD(1) [OF reserved(8)] inv by (auto simp: write_admissible_def mem_inv_def)
  have "slots_of s' = (slots_of s)(?i := Leased uid (mr_content_digest r'))"
    using leased_slots [OF new _ reserved(10), of "\<lparr>pw_record = r', pw_normalized_content = n,
       pw_authorization_digest = mz_authorization_digest (make_authorization e p q r' uid now)\<rparr>" uid] reserved(12) fresh
    by (simp add: dict_set_fresh map_of_eq_None_iff)
  then show ?thesis using slot_lease [of "slots_of s" ?i uid, OF slots_of_free [OF new]] act by simp
qed

lemma commit_slots:
  assumes inv: "mem_inv e s" and r: "commit_write e p a stored now s = (d, s')"
  shows "slot_does (slot_action_of e p s (now, Op_commit a stored)) (slots_of s) (slots_of s')"
  using r
proof (cases rule: commit_write_outcome)
  case refused
  then have "slot_action_of e p s (now, Op_commit a stored) = Idle" using r by (simp add: Let_def split: option.split)
  then show ?thesis using slot_idle same_store_slots [OF core_same_store [OF refused(1)]] by simp
next
  case leased: (stored w)
  let ?i = "mr_memory_id (pw_record w)"
  have "mr_content_digest (pw_record w) = mx_hash_content e stored"
    using leased(1,2) by (auto simp: commit_findings_def Let_def matches_content_def split: if_splits)
  then have act: "slot_action_of e p s (now, Op_commit a stored) = Store ?i (mz_authorization_id a) (mr_content_digest (pw_record w))"
    using r leased(3,4) by simp
  have aw: "(mz_authorization_id a, w) \<in> set (ml_pending s)" using leased(1) by (rule map_of_SomeD)
  have "pending_ok e s (mz_authorization_id a, w)" using inv aw by (auto simp: mem_inv_def list_all_iff)
  then have new: "?i \<notin> dict_keys (ml_catalog (drop_pending (mz_authorization_id a) ?i s))"
    by (simp add: pending_ok_def drop_pending_def)
  have "slots_of s' = slots_of (store_record (pw_record w) (drop_pending (mz_authorization_id a) ?i s))"
    using leased(5) core_same_store same_store_slots by blast
  also have "\<dots> = (slots_of s)(?i := Stored (mr_content_digest (pw_record w)))"
    by (simp add: stored_slots [OF new] dropped_slots [OF inv leased(1)])
  finally show ?thesis unfolding act using slot_store slots_of_pending [OF inv aw] by simp
qed

lemma abandon_slots:
  assumes inv: "mem_inv e s"
  shows "slot_does (slot_action_of e p s (now, Op_abandon a)) (slots_of s) (slots_of (snd (abandon_write e a now s)))"
proof (cases rule: abandon_write_answered [of e a now s])
  case kept
  then show ?thesis using slot_idle same_store_slots [OF core_same_store [OF kept(2)]] by simp
next
  case (dropped w ev)
  have aw: "(mz_authorization_id a, w) \<in> set (ml_pending s)" using dropped(2) by (rule map_of_SomeD)
  have "slots_of (snd (abandon_write e a now s)) = (slots_of s)(mr_memory_id (pw_record w) := Free)"
    using same_store_slots [OF core_same_store [OF dropped(3)]] dropped_slots [OF inv dropped(2)] by simp
  then show ?thesis using slot_release slots_of_pending [OF inv aw] dropped(1) by simp
qed

lemma revalidate_slots:
  assumes "revalidate e p i content g now s = (d, s')"
  shows "slots_of s' = slots_of s"
  using assms
proof (cases rule: revalidate_outcome)
  case refused
  then show ?thesis using same_store_slots [OF core_same_store [OF refused(1)]] by simp
next
  case (revised r)
  have "slots_of s' = slots_of (s\<lparr>ml_catalog := dict_set (ml_catalog s) i (revalidated e r)\<rparr>)"
    using core_eqD(1,2) [OF revised(4)] by (intro ext) (simp add: slots_of_def cong: option.case_cong)
  then show ?thesis using revised_slots [OF same_frozen_revalidated [OF revised(1)]] by simp
qed

text \<open>
  C5: the manager refines the register of memory slots. In every reachable state, every operation
  with a fresh lease identifier does to the register exactly the action it stands for by its
  arguments and its answer: an allowed authorization leases the requested, free slot for the presented content;
  an allowed commit turns the slot that is leased under its lease for the presented content into that stored content;
  an acknowledged abandonment frees the slot of its lease; and everything else, every refusal included, leaves
  the register as it is.
\<close>

theorem memory_refines_slots:
  assumes "mem_reachable e p s" and "fresh_op s x"
  shows "slot_does (slot_action_of e p s x) (slots_of s) (slots_of (mem_step e p s x))"
proof -
  have inv: "mem_inv e s" using assms(1) by (rule mem_reachable_inv)
  then have ok: "catalog_ok (ml_catalog s)" by (simp add: mem_inv_def)
  obtain now op where x: "x = (now, op)" by (cases x)
  show ?thesis
  proof (cases op)
    case (Op_authorize q content approval uid)
    have "uid \<notin> dict_keys (ml_pending s)" using assms(2) x Op_authorize by (simp add: fresh_op_def)
    from authorize_slots [OF inv this surjective_pairing] show ?thesis unfolding x Op_authorize mem_step.simps .
  next
    case (Op_commit a stored)
    from commit_slots [OF inv surjective_pairing] show ?thesis unfolding x Op_commit mem_step.simps .
  next
    case (Op_abandon a)
    from abandon_slots [OF inv] show ?thesis unfolding x Op_abandon mem_step.simps .
  next
    case (Op_retrieve q contents)
    obtain ts where ts: "mem_core (snd (authorize_retrieval e q contents now s)) = mem_core (s\<lparr>ml_catalog := taint_all e ts (ml_catalog s)\<rparr>)"
      by (rule retrieval_state)
    then show ?thesis using slot_idle same_store_slots [OF core_same_store [OF ts]]
        revised_slots same_frozen_taint_all [OF ok] x Op_retrieve by simp
  next
    case (Op_quarantine i reason)
    then show ?thesis using slot_idle same_store_slots [OF core_same_store [OF remediate_state]]
        revised_slots same_frozen_affected [OF ok] x by (simp add: quarantine_def)
  next
    case (Op_invalidate i reason)
    then show ?thesis using slot_idle same_store_slots [OF core_same_store [OF remediate_state]]
        revised_slots same_frozen_affected [OF ok] x by (simp add: invalidate_def)
  next
    case (Op_revalidate i content g)
    then show ?thesis using slot_idle revalidate_slots [OF surjective_pairing] x by simp
  qed
qed

section \<open>Failed reads\<close>

lemma quarantined_affected:
  assumes "catalog_ok cat" and "dict_get cat j = Some x" and "mr_taint_status x = Quarantined"
  shows "\<exists>y. dict_get (snd (transition_affected e Quarantined sg i cat)) j = Some y \<and> mr_taint_status y = Quarantined"
proof (cases "dict_get cat i")
  case (Some r)
  obtain ids cat' where t: "transition_affected e Quarantined sg i cat = (ids, cat')"
    by (cases "transition_affected e Quarantined sg i cat")
  show ?thesis using transition_affected_spec(4) [OF assms(1) Some t, of j] assms(2,3) t
    by (auto simp: affected_revision_def)
qed (use assms in \<open>simp add: transition_affected_def\<close>)

lemma taint_fold_quarantined:
  assumes "catalog_ok c" and "dict_get c j = Some x"
    and "mr_taint_status x = Quarantined \<or> (\<exists>i \<in> set xs. (i, j) \<in> (derives c)\<^sup>* \<and> dict_get c i \<noteq> None)"
  shows "\<exists>y. dict_get (foldl (\<lambda>c i. snd (transition_affected e Quarantined Taint_inheritance i c)) c xs) j = Some y
    \<and> mr_taint_status y = Quarantined"
  using assms
proof (induction xs arbitrary: c x)
  case (Cons k ks)
  let ?c = "snd (transition_affected e Quarantined Taint_inheritance k c)"
  have fz: "same_frozen c ?c" and ok: "catalog_ok ?c" using same_frozen_affected [OF Cons.prems(1)] by auto
  obtain y where y: "dict_get ?c j = Some y" using same_frozen_get [OF fz Cons.prems(2)] by blast
  have "mr_taint_status y = Quarantined \<or> (\<exists>i \<in> set ks. (i, j) \<in> (derives ?c)\<^sup>* \<and> dict_get ?c i \<noteq> None)"
  proof (cases "mr_taint_status x = Quarantined")
    case True
    then show ?thesis using quarantined_affected [OF Cons.prems(1,2)] y by fastforce
  next
    case False
    then obtain i where i: "i \<in> set (k # ks)" "(i, j) \<in> (derives c)\<^sup>*" "dict_get c i \<noteq> None"
      using Cons.prems(3) by blast
    show ?thesis
    proof (cases "i = k")
      case True
      obtain r where r: "dict_get c k = Some r" using i(3) True by auto
      obtain ids cat' where t: "transition_affected e Quarantined Taint_inheritance k c = (ids, cat')"
        by (cases "transition_affected e Quarantined Taint_inheritance k c")
      have "mr_taint_status y = Quarantined"
        using transition_affected_spec(4) [OF Cons.prems(1) r t, of j] i(2) True t y
        by (auto simp: descendants_def affected_revision_def)
      then show ?thesis ..
    next
      case False
      obtain r' where "dict_get ?c i = Some r'" using same_frozen_get [OF fz] i(3) by blast
      then show ?thesis using False i same_frozen_derives [OF fz] by auto
    qed
  qed
  then show ?case using Cons.IH [OF ok y] by simp
qed auto

lemma read_all_tainted:
  assumes "i \<in> set is" and "dict_get cat i = Some r"
    and "case contents i of None \<Rightarrow> True | Some c \<Rightarrow> \<not> matches_content (mx_hash_content e) r c"
  shows "i \<in> set (fst (snd (snd (read_all e q contents now cat is))))"
  using assms
  by (induction "is") (auto simp: Let_def split_def read_one_def split: option.splits)

text \<open>
  A read with missing or altered bytes quarantines the lineage. When any retrieval, by whatever
  reader, names a stored memory without supplying exactly its stored bytes, that memory and
  everything derived from it are quarantined, whatever their status was, and the retrieval is refused.
\<close>

theorem mismatched_read_quarantines:
  assumes "mem_reachable e p s" and "i \<in> set (mo_memory_ids q)" and "dict_get (ml_catalog s) i = Some r"
    and "case contents i of None \<Rightarrow> True | Some c \<Rightarrow> \<not> matches_content (mx_hash_content e) r c"
    and "(i, j) \<in> (derives (ml_catalog s))\<^sup>*"
  shows "my_action (fst (authorize_retrieval e q contents now s)) = BLOCK \<and>
    (\<exists>y. dict_get (ml_catalog (snd (authorize_retrieval e q contents now s))) j = Some y \<and> mr_taint_status y = Quarantined)"
proof -
  have ok: "catalog_ok (ml_catalog s)" using mem_reachable_inv [OF assms(1)] by (simp add: mem_inv_def)
  obtain x where x: "dict_get (ml_catalog s) j = Some x"
    using assms(5) assms(3) by (cases rule: rtranclE) (auto simp: derives_def)
  obtain fs rs ts ns where ra: "read_all e q contents now (ml_catalog s) (mo_memory_ids q) = (fs, rs, ts, ns)"
    by (cases "read_all e q contents now (ml_catalog s) (mo_memory_ids q)")
  have i: "i \<in> set ts"
    using read_all_tainted [where contents = contents and e = e and q = q and now = now, OF assms(2,3) assms(4)] ra by simp
  obtain us where us_def: "us = ts @ (if 1 < length ns \<and> has_split_payload e ns then map mr_memory_id rs else [])" by blast
  have us: "i \<in> set us" "ml_catalog (snd (authorize_retrieval e q contents now s)) = taint_all e us (ml_catalog s)"
    using i by (simp_all add: us_def authorize_retrieval_def Let_def split_def ra)
  have "\<exists>y. dict_get (taint_all e us (ml_catalog s)) j = Some y \<and> mr_taint_status y = Quarantined"
    unfolding taint_all_def by (rule taint_fold_quarantined [OF ok x]) (use us(1) assms(3,5) in auto)
  moreover have "\<not> readable e q contents now (ml_catalog s) i"
    using assms(3,4) by (auto simp: readable_def split: option.splits)
  then have "my_action (fst (authorize_retrieval e q contents now s)) \<noteq> ALLOW"
    using assms(2) by (simp add: retrieval_action) blast
  then have "my_action (fst (authorize_retrieval e q contents now s)) = BLOCK"
    by (auto simp: authorize_retrieval_def simple_decision_def Let_def split_def split: if_splits)
  ultimately show ?thesis using us(2) by simp
qed

section \<open>The properties on a concrete manager\<close>

lemma mem_demo_authorized:
  "\<exists>d s'. authorize_write demo_env mem_demo_policy (mem_demo_request rec_a) [5] None ''1'' 0 empty_memory = (Some d, s') \<and>
     my_action d = ALLOW"
  by (simp add: mem_demo_defs)

theorem reservation_requires_sound_write_witness:
  "write_admissible demo_env mem_demo_policy (mem_demo_request rec_a) [5] empty_memory"
proof -
  obtain d s' where "authorize_write demo_env mem_demo_policy (mem_demo_request rec_a) [5] None ''1'' 0 empty_memory = (Some d, s')"
    "my_action d = ALLOW" using mem_demo_authorized by (elim exE conjE)
  from reservation_requires_sound_write [OF this] show ?thesis
    by (simp add: mem_demo_policy_def default_non_overridable_def)
qed

theorem stored_memory_immutable_witness:
  "\<exists>r'. dict_get (ml_catalog (mem_run demo_env mem_demo_policy demo_state [(0, Op_quarantine ''a'' ''incident'')])) ''b'' = Some r'
     \<and> mr_content_digest r' = ''five''"
  using stored_memory_immutable [OF demo_reachable demo_get(2), of "[(0, Op_quarantine ''a'' ''incident'')]"]
  by (auto simp: fresh_op_def rec_b_def demo_record_def)

theorem memory_refines_slots_witness:
  "slot_does (Store ''a'' ''1'' ''five'') (slots_of (mem_run demo_env mem_demo_policy empty_memory (take 1 (store_ops rec_a ''1''))))
     (slots_of (mem_run demo_env mem_demo_policy empty_memory (store_ops rec_a ''1'')))"
proof -
  define s where "s = mem_run demo_env mem_demo_policy empty_memory [(0, Op_authorize (mem_demo_request rec_a) [5] None ''1'')]"
  have run: "mem_run demo_env mem_demo_policy empty_memory (take 1 (store_ops rec_a ''1'')) = s"
    "mem_run demo_env mem_demo_policy empty_memory (store_ops rec_a ''1'') =
       mem_step demo_env mem_demo_policy s (0, Op_commit (demo_lease rec_a ''1'') [5])"
    by (simp_all add: s_def store_ops_def mem_run_def)
  have reach: "mem_reachable demo_env mem_demo_policy s"
    unfolding s_def by (rule mem_reachable_run) (simp add: fresh_op_def mem_demo_defs)
  have "slot_action_of demo_env mem_demo_policy s (0, Op_commit (demo_lease rec_a ''1'') [5]) = Store ''a'' ''1'' ''five''"
    by (simp add: s_def mem_demo_defs mem_run_def)
  with memory_refines_slots [OF reach, of "(0, Op_commit (demo_lease rec_a ''1'') [5])"] show ?thesis
    unfolding run by (simp add: fresh_op_def)
qed

theorem mismatched_read_quarantines_witness:
  "\<exists>y. dict_get (ml_catalog (snd (authorize_retrieval demo_env (demo_read [''a'']) (\<lambda>_. None) 0 demo_state))) ''b'' = Some y
     \<and> mr_taint_status y = Quarantined"
  using mismatched_read_quarantines [OF demo_reachable _ demo_get(1) _ demo_derives, of "demo_read [''a'']" "\<lambda>_. None" 0]
  by (simp add: demo_read_def)

text \<open>
  Taint escapes through a pending write. A summary \<open>b\<close> of \<open>a\<close> is authorized, \<open>a\<close> is quarantined,
  and \<open>b\<close> is committed as clean, because committing does not look at the parents again. A memory \<open>c\<close>
  derived from \<open>b\<close> is then accepted and retrieved, although its ancestor \<open>a\<close> is quarantined.
\<close>

definition rec_c :: mem_record where
  "rec_c = demo_record ''c'' Tf_summary [\<lparr>md_memory_id = ''b'', md_record_digest = ''cb''\<rparr>]"

definition laundering_ops :: "(datetime \<times> mem_op) list" where
  "laundering_ops = store_ops rec_a ''1'' @
     [(0, Op_authorize (mem_demo_request rec_b) [5] None ''2''), (0, Op_quarantine ''a'' ''incident''),
      (0, Op_commit (demo_lease rec_b ''2'') [5])] @ store_ops rec_c ''3''"

lemmas trace_defs = transition_affected_def trace_def trace_ids_def bfs.simps related_def
  revise_entry_def quarantine_def remediate_def rebuild_plan_of_def request_rebuild_def

theorem pending_write_launders_taint:
  "fresh_run demo_env mem_demo_policy empty_memory laundering_ops \<and>
   (let s = mem_run demo_env mem_demo_policy empty_memory laundering_ops in
     map_option mr_taint_status (dict_get (ml_catalog s) ''a'') = Some Quarantined \<and>
     map_option mr_dependencies (dict_get (ml_catalog s) ''c'') = Some (mr_dependencies rec_c) \<and>
     map_option mr_dependencies (dict_get (ml_catalog s) ''b'') = Some (mr_dependencies rec_b) \<and>
     my_action (fst (authorize_retrieval demo_env (demo_read [''c'']) (\<lambda>_. Some [5]) 0 s)) = ALLOW)"
  by (simp add: laundering_ops_def store_ops_def fresh_op_def retrieval_action readable_def composes_payload_def
      demo_read_def unsafe_parent_def rec_c_def trace_defs mem_demo_defs)

end
