(* ===== verification/State_Backend.thy ===== *)
theory State_Backend
  imports Trustrail_Prelude
begin

text \<open>
  \<open>state/backends.py\<close>: the in-memory state backend (an LRU-ordered dictionary with expiry times)
  and the fixed-window rate limiter on top of any backend. The limiter only relies on the contract
  \<open>window_counter\<close> of \<open>increment_with_ttl\<close>; the memory backend is shown to provide it as long as
  no live entry has to be evicted.

  Each operation runs under the backend's lock, so it is one atomic step; it reads the clock once
  (the code may read it twice inside one step). Times are rationals.
\<close>

section \<open>Errors, validation and \<open>int(value)\<close>\<close>

datatype state_error = Ttl_not_positive | Not_an_int

definition validate_positive_ttl :: "seconds \<Rightarrow> state_error option" where
  "validate_positive_ttl ttl = (if ttl \<le> 0 then Some Ttl_not_positive else None)"

text \<open>
  Python's \<open>int(x)\<close> on the values a store can hold: numbers are truncated towards zero, a string
  is a signed decimal literal with optional surrounding blanks and single underscores between
  digits; anything else raises.
\<close>

definition is_digit :: "char \<Rightarrow> bool" where
  "is_digit c \<longleftrightarrow> of_char c \<ge> (48 :: nat) \<and> of_char c \<le> (57 :: nat)"

fun digits_value :: "int \<Rightarrow> bool \<Rightarrow> string \<Rightarrow> int option" where
  "digits_value acc prev [] = (if prev then Some acc else None)"
| "digits_value acc prev (c # cs) =
     (if is_digit c then digits_value (10 * acc + (of_char c - 48)) True cs
      else if c = CHR ''_'' \<and> prev then digits_value acc False cs
      else None)"

definition is_blank :: "char \<Rightarrow> bool" where
  "is_blank c \<longleftrightarrow> (of_char c :: nat) \<in> {9, 10, 11, 12, 13, 28, 29, 30, 31, 32, 133, 160}"

definition strip_blanks :: "string \<Rightarrow> string" where
  "strip_blanks s = rev (dropWhile is_blank (rev (dropWhile is_blank s)))"

definition int_of_literal :: "string \<Rightarrow> int option" where
  "int_of_literal s =
     (case strip_blanks s of
        [] \<Rightarrow> None
      | c # cs \<Rightarrow>
          if c = CHR ''-'' then map_option uminus (digits_value 0 False cs)
          else if c = CHR ''+'' then digits_value 0 False cs
          else digits_value 0 False (c # cs))"

fun py_int :: "pyval \<Rightarrow> int option" where
  "py_int (PInt n) = Some n"
| "py_int (PBool b) = Some (if b then 1 else 0)"
| "py_int (PFloat q) = Some (if q < 0 then - \<lfloor>- q\<rfloor> else \<lfloor>q\<rfloor>)"
| "py_int (PStr s) = int_of_literal s"
| "py_int _ = None"

section \<open>The memory backend\<close>

type_synonym entry = "pyval \<times> seconds option"

record memory_backend =
  mb_max_keys :: nat
  mb_store :: "(string, entry) dict"

definition memory_init :: "nat \<Rightarrow> memory_backend option" where
  "memory_init max_keys =
     (if max_keys = 0 then None else Some \<lparr>mb_max_keys = max_keys, mb_store = []\<rparr>)"

definition is_expired :: "seconds \<Rightarrow> seconds option \<Rightarrow> bool" where
  "is_expired now expires_at = (case expires_at of None \<Rightarrow> False | Some e \<Rightarrow> e \<le> now)"

text \<open>\<open>popitem(last=False)\<close> removes the least recently used entry, the first of the dictionary.\<close>

fun evict_if_needed :: "nat \<Rightarrow> (string, entry) dict \<Rightarrow> (string, entry) dict" where
  "evict_if_needed n [] = []"
| "evict_if_needed n (e # m) = (if n \<le> length (e # m) then evict_if_needed n m else e # m)"

definition mb_get :: "seconds \<Rightarrow> string \<Rightarrow> memory_backend \<Rightarrow> pyval option \<times> memory_backend" where
  "mb_get now k b =
     (case dict_get (mb_store b) k of
        None \<Rightarrow> (None, b)
      | Some (v, e) \<Rightarrow>
          if is_expired now e then (None, b\<lparr>mb_store := dict_del (mb_store b) k\<rparr>)
          else (Some v, b\<lparr>mb_store := move_to_end (mb_store b) k\<rparr>))"

definition mb_set ::
  "seconds \<Rightarrow> string \<Rightarrow> pyval \<Rightarrow> seconds option \<Rightarrow> memory_backend \<Rightarrow> state_error + memory_backend" where
  "mb_set now k v ttl b =
     (case Option.bind ttl validate_positive_ttl of
        Some err \<Rightarrow> Inl err
      | None \<Rightarrow>
          (let e = map_option (\<lambda>t. now + t) ttl;
               m = (if dict_get (mb_store b) k \<noteq> None then move_to_end (mb_store b) k
                    else evict_if_needed (mb_max_keys b) (mb_store b))
           in Inr (b\<lparr>mb_store := dict_set m k (v, e)\<rparr>)))"

definition mb_store_end :: "string \<Rightarrow> entry \<Rightarrow> (string, entry) dict \<Rightarrow> (string, entry) dict" where
  "mb_store_end k e m = move_to_end (dict_set m k e) k"

definition mb_increment ::
  "seconds \<Rightarrow> string \<Rightarrow> int \<Rightarrow> memory_backend \<Rightarrow> state_error + int \<times> memory_backend" where
  "mb_increment now k delta b =
     (case dict_get (mb_store b) k of
        None \<Rightarrow> Inr (delta, b\<lparr>mb_store := mb_store_end k (PInt delta, None) (mb_store b)\<rparr>)
      | Some (cur, e) \<Rightarrow>
          if is_expired now e
          then Inr (delta, b\<lparr>mb_store := mb_store_end k (PInt delta, None) (mb_store b)\<rparr>)
          else (case py_int cur of
                  None \<Rightarrow> Inl Not_an_int
                | Some n \<Rightarrow>
                    Inr (n + delta, b\<lparr>mb_store := mb_store_end k (PInt (n + delta), e) (mb_store b)\<rparr>)))"

definition mb_increment_with_ttl ::
  "seconds \<Rightarrow> string \<Rightarrow> int \<Rightarrow> seconds \<Rightarrow> memory_backend \<Rightarrow> state_error + int \<times> memory_backend" where
  "mb_increment_with_ttl now k delta ttl b =
     (case validate_positive_ttl ttl of
        Some err \<Rightarrow> Inl err
      | None \<Rightarrow>
          (case dict_get (mb_store b) k of
             None \<Rightarrow>
               Inr (delta, b\<lparr>mb_store := mb_store_end k (PInt delta, Some (now + ttl))
                                (evict_if_needed (mb_max_keys b) (mb_store b))\<rparr>)
           | Some (cur, e) \<Rightarrow>
               if is_expired now e
               then Inr (delta, b\<lparr>mb_store := mb_store_end k (PInt delta, Some (now + ttl)) (mb_store b)\<rparr>)
               else (case py_int cur of
                       None \<Rightarrow> Inl Not_an_int
                     | Some n \<Rightarrow>
                         Inr (n + delta,
                              b\<lparr>mb_store := mb_store_end k (PInt (n + delta), e) (mb_store b)\<rparr>))))"

definition mb_delete :: "string \<Rightarrow> memory_backend \<Rightarrow> memory_backend" where
  "mb_delete k b = b\<lparr>mb_store := dict_del (mb_store b) k\<rparr>"

definition mb_clear :: "memory_backend \<Rightarrow> memory_backend" where
  "mb_clear b = b\<lparr>mb_store := []\<rparr>"

definition mb_ok :: "memory_backend \<Rightarrow> bool" where
  "mb_ok b \<longleftrightarrow> dict_ok (mb_store b) \<and> 0 < mb_max_keys b"

section \<open>Eviction\<close>

lemma evict_is_drop: "0 < n \<Longrightarrow> evict_if_needed n m = drop (Suc (length m) - n) m"
proof (induction m)
  case (Cons e m)
  show ?case
  proof (cases "n \<le> length (e # m)")
    case True
    then have "Suc (length (e # m)) - n = Suc (Suc (length m) - n)" by simp
    then show ?thesis using Cons True by simp
  next
    case False
    then show ?thesis by simp
  qed
qed simp

lemma length_evict: "0 < n \<Longrightarrow> length (evict_if_needed n m) < n"
  by (simp add: evict_is_drop)

lemma evict_room: "length m < n \<Longrightarrow> evict_if_needed n m = m"
  by (cases m) simp_all

lemma dict_ok_evict [simp]: "dict_ok m \<Longrightarrow> dict_ok (evict_if_needed n m)"
proof (induction m)
  case (Cons e m)
  then have "dict_ok m" by (simp add: dict_ok_def)
  with Cons show ?case by simp
qed simp

lemma set_evict: "set (evict_if_needed n m) \<subseteq> set m"
  by (induction m) auto

lemma dict_get_evict_None: "dict_get m k = None \<Longrightarrow> dict_get (evict_if_needed n m) k = None"
  using set_evict [of n m] by (auto simp: map_of_eq_None_iff)

lemma dict_ok_store_end [simp]: "dict_ok m \<Longrightarrow> dict_ok (mb_store_end k e m)"
  by (simp add: mb_store_end_def dict_ok_move_to_end)

lemma length_store_end:
  "dict_ok m \<Longrightarrow> length (mb_store_end k e m) = (if dict_get m k = None then Suc (length m) else length m)"
  by (simp add: mb_store_end_def length_dict_set)

lemma dict_get_store_end: "dict_get (mb_store_end k e m) j = (if j = k then Some e else dict_get m j)"
  by (simp add: mb_store_end_def update_conv')

lemma mb_ok_init: "memory_init n = Some b \<Longrightarrow> mb_ok b \<and> length (mb_store b) \<le> mb_max_keys b"
  by (auto simp: memory_init_def mb_ok_def split: if_splits)

text \<open>What every operation keeps, and which ones keep the capacity.\<close>

lemma mb_get_keeps:
  assumes "mb_ok b"
  shows "mb_ok (snd (mb_get now k b))" "mb_max_keys (snd (mb_get now k b)) = mb_max_keys b"
    "length (mb_store (snd (mb_get now k b))) \<le> length (mb_store b)"
  using assms
  by (auto simp: mb_get_def mb_ok_def assoc.size_del_le dict_ok_move_to_end split: option.splits if_splits)

lemma mb_set_keeps:
  assumes "mb_ok b" and "mb_set now k v ttl b = Inr b'"
  shows "mb_ok b'" "mb_max_keys b' = mb_max_keys b"
    "length (mb_store b) \<le> mb_max_keys b \<Longrightarrow> length (mb_store b') \<le> mb_max_keys b'"
  using assms length_evict [of "mb_max_keys b" "mb_store b"]
  by (auto simp: mb_set_def mb_ok_def Let_def length_dict_set dict_ok_move_to_end
      split: option.splits if_splits)

lemma mb_increment_with_ttl_keeps:
  assumes "mb_ok b" and "mb_increment_with_ttl now k d ttl b = Inr (n, b')"
  shows "mb_ok b'" "mb_max_keys b' = mb_max_keys b"
    "length (mb_store b) \<le> mb_max_keys b \<Longrightarrow> length (mb_store b') \<le> mb_max_keys b'"
  using assms length_evict [of "mb_max_keys b" "mb_store b"]
  by (auto simp: mb_increment_with_ttl_def mb_ok_def length_store_end dict_get_evict_None
      split: option.splits if_splits)

lemma mb_increment_keeps:
  assumes "mb_ok b" and "mb_increment now k d b = Inr (n, b')"
  shows "mb_ok b'" "mb_max_keys b' = mb_max_keys b"
    "length (mb_store b') =
       (if dict_get (mb_store b) k = None then Suc (length (mb_store b)) else length (mb_store b))"
  using assms
  by (auto simp: mb_increment_def mb_ok_def length_store_end split: option.splits if_splits)

lemma mb_delete_keeps:
  "mb_ok b \<Longrightarrow> mb_ok (mb_delete k b)" "mb_max_keys (mb_delete k b) = mb_max_keys b"
  "mb_ok b \<Longrightarrow> length (mb_store (mb_delete k b)) \<le> length (mb_store b)"
  by (simp_all add: mb_ok_def mb_delete_def assoc.size_del_le)

section \<open>Sequences of operations\<close>

datatype backend_op =
    Op_get string
  | Op_set string pyval "seconds option"
  | Op_increment string int
  | Op_increment_with_ttl string int seconds
  | Op_delete string
  | Op_clear

text \<open>One operation at a time; an operation that raises leaves the store as it was.\<close>

fun mb_step :: "memory_backend \<Rightarrow> seconds \<times> backend_op \<Rightarrow> memory_backend" where
  "mb_step b (now, Op_get k) = snd (mb_get now k b)"
| "mb_step b (now, Op_set k v ttl) = (case mb_set now k v ttl b of Inl _ \<Rightarrow> b | Inr b' \<Rightarrow> b')"
| "mb_step b (now, Op_increment k d) = (case mb_increment now k d b of Inl _ \<Rightarrow> b | Inr (_, b') \<Rightarrow> b')"
| "mb_step b (now, Op_increment_with_ttl k d ttl) =
     (case mb_increment_with_ttl now k d ttl b of Inl _ \<Rightarrow> b | Inr (_, b') \<Rightarrow> b')"
| "mb_step b (now, Op_delete k) = mb_delete k b"
| "mb_step b (now, Op_clear) = mb_clear b"

fun is_increment :: "backend_op \<Rightarrow> bool" where
  "is_increment (Op_increment _ _) = True"
| "is_increment _ = False"

fun op_key :: "backend_op \<Rightarrow> string option" where
  "op_key (Op_get k) = Some k"
| "op_key (Op_set k _ _) = Some k"
| "op_key (Op_increment k _) = Some k"
| "op_key (Op_increment_with_ttl k _ _) = Some k"
| "op_key (Op_delete k) = Some k"
| "op_key Op_clear = None"

lemma mb_step_ok: "mb_ok b \<Longrightarrow> mb_ok (mb_step b l) \<and> mb_max_keys (mb_step b l) = mb_max_keys b"
proof (induction b l rule: mb_step.induct)
  case (1 b now k)
  then show ?case by (simp add: mb_get_keeps)
next
  case (2 b now k v ttl)
  then show ?case
    by (cases "mb_set now k v ttl b") (auto dest: mb_set_keeps(1,2) mb_set_keeps(3))
next
  case (3 b now k d)
  then show ?case
    by (cases "mb_increment now k d b") (auto dest: mb_increment_keeps)
next
  case (4 b now k d ttl)
  then show ?case
    by (cases "mb_increment_with_ttl now k d ttl b") (auto dest: mb_increment_with_ttl_keeps)
next
  case (5 b now k)
  then show ?case by (simp add: mb_delete_keeps)
next
  case (6 b now)
  then show ?case by (simp add: mb_clear_def mb_ok_def)
qed

lemma mb_step_capacity:
  assumes "mb_ok b" and "length (mb_store b) \<le> mb_max_keys b" and "\<not> is_increment (snd l)"
  shows "length (mb_store (mb_step b l)) \<le> mb_max_keys (mb_step b l)"
  using assms
proof (induction b l rule: mb_step.induct)
  case (1 b now k)
  then show ?case using mb_get_keeps(2,3) [of b now k] by simp
next
  case (2 b now k v ttl)
  then show ?case
    by (cases "mb_set now k v ttl b") (auto dest: mb_set_keeps(1,2) mb_set_keeps(3))
next
  case (4 b now k d ttl)
  then show ?case
    by (cases "mb_increment_with_ttl now k d ttl b") (auto dest: mb_increment_with_ttl_keeps)
next
  case (5 b now k)
  then show ?case using mb_delete_keeps(3) [of b k] by (simp add: mb_delete_keeps(2))
next
  case (6 b now)
  then show ?case by (simp add: mb_clear_def)
qed simp

interpretation backend_capacity: preserved mb_step
    "\<lambda>b. mb_ok b \<and> length (mb_store b) \<le> mb_max_keys b" "\<lambda>l. \<not> is_increment (snd l)"
  using mb_step_ok mb_step_capacity by unfold_locales blast

lemma mb_run_ok: "mb_ok b \<Longrightarrow> mb_ok (foldl mb_step b ls) \<and> mb_max_keys (foldl mb_step b ls) = mb_max_keys b"
  by (induction ls arbitrary: b) (simp_all add: mb_step_ok)

text \<open>
  Bounded capacity. A memory backend built with capacity \<open>n\<close> never holds more than \<open>n\<close> keys,
  along any sequence of operations at any times, as long as the plain \<open>increment\<close> is not used.
\<close>

theorem memory_backend_bounded:
  assumes "memory_init n = Some b" and "list_all (\<lambda>l. \<not> is_increment (snd l)) ops"
  shows "length (mb_store (foldl mb_step b ops)) \<le> n"
  using backend_capacity.run_inv [OF mb_ok_init [OF assms(1)] assms(2)]
    mb_run_ok [of b ops] mb_ok_init [OF assms(1)] assms(1)
  by (auto simp: memory_init_def split: if_splits)

text \<open>
  \<open>increment\<close> ignores the capacity. Incrementing any number of different fresh keys keeps them
  all, whatever \<open>max_keys\<close> says: the store then holds exactly as many keys as were incremented.
\<close>

theorem increment_ignores_capacity:
  assumes "memory_init n = Some b" and "distinct ks"
  shows "length (mb_store (foldl mb_step b (map (\<lambda>k. (t, Op_increment k 1)) ks))) = length ks"
proof -
  have "mb_ok c \<Longrightarrow> distinct ks \<Longrightarrow> \<forall>k \<in> set ks. dict_get (mb_store c) k = None \<Longrightarrow>
      length (mb_store (foldl mb_step c (map (\<lambda>k. (t, Op_increment k 1)) ks))) =
      length (mb_store c) + length ks" for c
  proof (induction ks arbitrary: c)
    case (Cons k ks)
    then obtain c' where step: "mb_increment t k 1 c = Inr (1, c')"
      and c': "mb_store c' = mb_store_end k (PInt 1, None) (mb_store c)"
      by (simp add: mb_increment_def)
    have "mb_ok c'" "length (mb_store c') = Suc (length (mb_store c))"
      using mb_increment_keeps [OF Cons.prems(1) step] Cons.prems(3) by simp_all
    moreover have "\<forall>j \<in> set ks. dict_get (mb_store c') j = None"
      using Cons.prems(2,3) by (auto simp: c' dict_get_store_end)
    ultimately show ?case using Cons.IH [of c'] Cons.prems(2) step by simp
  qed simp
  from this [of b] show ?thesis
    using assms mb_ok_init [OF assms(1)] by (auto simp: memory_init_def split: if_splits)
qed

section \<open>Least recently used\<close>

text \<open>At most \<open>n\<close> entries of the store are more recent than the entry \<open>e\<close> of key \<open>k\<close>.\<close>

definition recent :: "nat \<Rightarrow> string \<Rightarrow> entry \<Rightarrow> (string, entry) dict \<Rightarrow> bool" where
  "recent n k e m \<longleftrightarrow> (\<exists>xs ys. m = xs @ (k, e) # ys \<and> k \<notin> dict_keys xs \<and> length ys \<le> n)"

lemma recent_get: "recent n k e m \<Longrightarrow> dict_get m k = Some e"
proof -
  assume "recent n k e m"
  then obtain xs ys where m: "m = xs @ (k, e) # ys" and "k \<notin> dict_keys xs"
    by (auto simp: recent_def)
  then have "dict_get xs k = None" by (simp add: map_of_eq_None_iff)
  then show ?thesis by (simp add: m map_of_append map_add_def)
qed

lemma recent_mono: "recent n k e m \<Longrightarrow> n \<le> n' \<Longrightarrow> recent n' k e m"
  unfolding recent_def by force

lemma recent_del: "recent n k e m \<Longrightarrow> j \<noteq> k \<Longrightarrow> recent n k e (dict_del m j)"
  unfolding recent_def AList.delete_eq
  by (force intro: order_trans [OF length_filter_le])

lemma recent_append: "recent n k e m \<Longrightarrow> recent (Suc n) k e (m @ [p])"
  unfolding recent_def by force

lemma recent_evict:
  assumes "recent n k e m" and "Suc n < c"
  shows "recent n k e (evict_if_needed c m)"
proof -
  obtain xs ys where m: "m = xs @ (k, e) # ys" "k \<notin> dict_keys xs" "length ys \<le> n"
    using assms(1) by (auto simp: recent_def)
  have "evict_if_needed c m = drop (Suc (length m) - c) xs @ (k, e) # ys"
    using assms(2) m by (simp add: evict_is_drop)
  moreover have "k \<notin> dict_keys (drop (Suc (length m) - c) xs)"
    using m(2) by (auto dest: in_set_dropD)
  ultimately show ?thesis using m(3) unfolding recent_def by blast
qed

lemma dict_keys_del: "dict_keys (dict_del m k) = dict_keys m - {k}"
  by (induction m) auto

lemma store_end_alt: "mb_store_end k e m = dict_del m k @ [(k, e)]"
  by (simp add: mb_store_end_def move_to_end_def delete_update_same update_conv')

lemma move_then_set:
  "dict_get m k = Some w \<Longrightarrow> dict_set (move_to_end m k) k e = dict_del m k @ [(k, e)]"
proof -
  have "dict_set (xs @ [(k, w)]) k e = xs @ [(k, e)]" if "k \<notin> dict_keys xs" for xs
    using that by (induction xs) auto
  from this [of "dict_del m k"] show "dict_get m k = Some w \<Longrightarrow> ?thesis"
    by (simp add: move_to_end_def dict_keys_del)
qed

lemma set_fresh: "dict_get m k = None \<Longrightarrow> dict_set m k e = dict_del m k @ [(k, e)]"
  by (induction m) auto

lemma mb_set_store:
  "mb_set now k v ttl b = Inr b' \<Longrightarrow>
   mb_store b' = dict_del (if dict_get (mb_store b) k = None
     then evict_if_needed (mb_max_keys b) (mb_store b) else mb_store b) k
     @ [(k, v, map_option (\<lambda>t. now + t) ttl)]"
  by (auto simp: mb_set_def Let_def set_fresh dict_get_evict_None move_then_set split: option.splits)

text \<open>Writing another key lets at most one more entry overtake.\<close>

lemma recent_write:
  "recent n k e m \<Longrightarrow> j \<noteq> k \<Longrightarrow> recent (Suc n) k e (dict_del m j @ [(j, w)])"
  by (intro recent_append recent_del)

lemma mb_step_recent:
  assumes "recent n k e (mb_store b)" and "Suc n < mb_max_keys b"
    and "\<exists>j. op_key (snd l) = Some j \<and> j \<noteq> k"
  shows "recent (Suc n) k e (mb_store (mb_step b l))"
  using assms
proof (induction b l rule: mb_step.induct)
  case (1 b now j)
  then show ?case
    by (auto simp: mb_get_def move_to_end_def split: option.splits
        intro: recent_write recent_mono [OF recent_del] recent_mono)
next
  case (2 b now j v ttl)
  then show ?case
    by (auto simp: mb_set_store split: sum.splits
        intro: recent_write recent_evict recent_mono)
next
  case (3 b now j d)
  then show ?case
    by (auto simp: mb_increment_def store_end_alt split: sum.splits option.splits if_splits
        intro: recent_write recent_mono)
next
  case (4 b now j d ttl)
  then show ?case
    by (auto simp: mb_increment_with_ttl_def store_end_alt split: sum.splits option.splits if_splits
        intro: recent_write recent_evict recent_mono)
next
  case (5 b now j)
  then show ?case by (auto simp: mb_delete_def intro: recent_mono [OF recent_del])
qed simp

lemma mb_run_recent:
  "recent n k e (mb_store b) \<Longrightarrow> n + length ops < mb_max_keys b \<Longrightarrow> mb_ok b \<Longrightarrow>
   list_all (\<lambda>l. \<exists>j. op_key (snd l) = Some j \<and> j \<noteq> k) ops \<Longrightarrow>
   recent (n + length ops) k e (mb_store (foldl mb_step b ops))"
proof (induction ops arbitrary: b n)
  case (Cons l ops)
  have "recent (Suc n) k e (mb_store (mb_step b l))"
    using Cons.prems by (intro mb_step_recent) auto
  then show ?case using Cons.IH [of "Suc n" "mb_step b l"] Cons.prems mb_step_ok [of b l] by simp
qed simp

text \<open>
  Least-recently-used eviction. After \<open>set(k, v, ttl)\<close>, fewer than \<open>max_keys\<close> operations on
  other keys, whichever they are, cannot evict the entry: a \<open>get\<close> before its expiry returns \<open>v\<close>.
\<close>

theorem recently_set_entry_survives:
  assumes "mb_ok b" and "mb_set t k v (Some ttl) b = Inr b'"
    and "list_all (\<lambda>l. \<exists>j. op_key (snd l) = Some j \<and> j \<noteq> k) ops"
    and "length ops < mb_max_keys b" and "now < t + ttl"
  shows "fst (mb_get now k (foldl mb_step b' ops)) = Some v"
proof -
  have "recent 0 k (v, Some (t + ttl)) (mb_store b')"
    using assms(2)
    by (auto simp: mb_set_store recent_def dict_keys_del)
  with mb_run_recent [of 0] have "recent (length ops) k (v, Some (t + ttl)) (mb_store (foldl mb_step b' ops))"
    using assms mb_set_keeps [OF assms(1,2)] by fastforce
  from recent_get [OF this] show ?thesis
    using assms(5) by (simp add: mb_get_def is_expired_def)
qed

section \<open>The rate limiter\<close>

text \<open>
  The limiter over any \<open>increment_with_ttl\<close>: the count includes refused requests, and an error of
  the backend is passed on.
\<close>

record rate_limiter =
  rl_max_requests :: int
  rl_window :: seconds

definition limiter_init :: "int \<Rightarrow> seconds \<Rightarrow> rate_limiter option" where
  "limiter_init max_requests window =
     (if max_requests \<le> 0 \<or> validate_positive_ttl window \<noteq> None then None
      else Some \<lparr>rl_max_requests = max_requests, rl_window = window\<rparr>)"

type_synonym 's incr_op = "'s \<Rightarrow> seconds \<Rightarrow> string \<Rightarrow> int \<Rightarrow> seconds \<Rightarrow> state_error + int \<times> 's"

definition limiter_check ::
  "'s incr_op \<Rightarrow> rate_limiter \<Rightarrow> 's \<Rightarrow> seconds \<Rightarrow> string \<Rightarrow> state_error + bool \<times> 's" where
  "limiter_check incr l s now k =
     (case incr s now (''rl:'' @ k) 1 (rl_window l) of
        Inl e \<Rightarrow> Inl e
      | Inr (n, s') \<Rightarrow> Inr (n \<le> rl_max_requests l, s'))"

definition limiter_reset :: "string \<Rightarrow> memory_backend \<Rightarrow> memory_backend" where
  "limiter_reset k b = mb_delete (''rl:'' @ k) b"

text \<open>A sequence of requests, each a time and a key, and the answers given until one raises.\<close>

fun limiter_run ::
  "'s incr_op \<Rightarrow> rate_limiter \<Rightarrow> 's \<Rightarrow> (seconds \<times> string) list \<Rightarrow> (string \<times> bool) list" where
  "limiter_run incr l s [] = []"
| "limiter_run incr l s ((now, k) # rs) =
     (case limiter_check incr l s now k of
        Inl e \<Rightarrow> []
      | Inr (ok, s') \<Rightarrow> (k, ok) # limiter_run incr l s' rs)"

definition answers_for :: "string \<Rightarrow> (string \<times> bool) list \<Rightarrow> bool list" where
  "answers_for k as = map snd (filter (\<lambda>(j, _). j = k) as)"

definition requests_for :: "string \<Rightarrow> (seconds \<times> string) list \<Rightarrow> nat" where
  "requests_for k rs = length (filter (\<lambda>(_, j). j = k) rs)"

text \<open>
  What the limiter needs of \<open>increment_with_ttl\<close>. \<open>live s t k\<close> is the counter value and expiry the
  key has at time \<open>t\<close>; \<open>fits s K\<close> says that serving the keys \<open>K\<close> disturbs no other key.
\<close>

locale window_counter =
  fixes incr :: "'s incr_op"
    and live :: "'s \<Rightarrow> seconds \<Rightarrow> string \<Rightarrow> (int \<times> seconds) option"
    and fits :: "'s \<Rightarrow> string set \<Rightarrow> bool"
    and inv :: "'s \<Rightarrow> bool"
  assumes incr_value: "inv s \<Longrightarrow> 0 < ttl \<Longrightarrow>
      \<exists>s'. incr s t k d ttl = Inr ((case live s t k of None \<Rightarrow> d | Some (c, _) \<Rightarrow> c + d), s')"
    and live_incr: "inv s \<Longrightarrow> 0 < ttl \<Longrightarrow> incr s t k d ttl = Inr (n, s') \<Longrightarrow> t \<le> u \<Longrightarrow>
      live s' u k = (let e = (case live s t k of None \<Rightarrow> t + ttl | Some (_, e) \<Rightarrow> e)
                     in if u < e then Some (n, e) else None)"
    and live_other: "inv s \<Longrightarrow> incr s t k d ttl = Inr (n, s') \<Longrightarrow> fits s K \<Longrightarrow> k \<in> K \<Longrightarrow>
      j \<noteq> k \<Longrightarrow> live s' u j = live s u j"
    and fits_incr: "inv s \<Longrightarrow> incr s t k d ttl = Inr (n, s') \<Longrightarrow> fits s K \<Longrightarrow> k \<in> K \<Longrightarrow> fits s' K"
    and inv_incr: "inv s \<Longrightarrow> incr s t k d ttl = Inr (n, s') \<Longrightarrow> inv s'"
    and live_later: "inv s \<Longrightarrow> live s t k = Some (c, e) \<Longrightarrow> t \<le> u \<Longrightarrow>
      live s u k = (if u < e then Some (c, e) else None)"
    and live_None_later: "inv s \<Longrightarrow> live s t k = None \<Longrightarrow> t \<le> u \<Longrightarrow> live s u k = None"
begin

lemma check_value:
  assumes "inv s" and "0 < rl_window l"
  obtains s' where "incr s t (''rl:'' @ k) 1 (rl_window l) =
      Inr ((case live s t (''rl:'' @ k) of None \<Rightarrow> 1 | Some (c, _) \<Rightarrow> c + 1), s')"
    and "limiter_check incr l s t k =
      Inr ((case live s t (''rl:'' @ k) of None \<Rightarrow> 1 | Some (c, _) \<Rightarrow> c + 1) \<le> rl_max_requests l, s')"
    and "inv s'"
proof -
  obtain s' where s': "incr s t (''rl:'' @ k) 1 (rl_window l) =
      Inr ((case live s t (''rl:'' @ k) of None \<Rightarrow> 1 | Some (c, _) \<Rightarrow> c + 1), s')"
    using incr_value [OF assms] by blast
  with inv_incr [OF assms(1) s'] that show ?thesis by (simp add: limiter_check_def)
qed

text \<open>While the window of a key is open, its requests are counted whatever the others do.\<close>

lemma answers_in_window:
  "inv s \<Longrightarrow> 0 < rl_window l \<Longrightarrow> fits s K \<Longrightarrow> sorted (map fst rs) \<Longrightarrow>
   \<forall>(t, j) \<in> set rs. t0 \<le> t \<and> t < e \<and> ''rl:'' @ j \<in> K \<Longrightarrow>
   live s t0 (''rl:'' @ k) = Some (c, e) \<or>
     live s t0 (''rl:'' @ k) = None \<and> c = 0 \<and> e \<le> t0 + rl_window l \<Longrightarrow>
   answers_for k (limiter_run incr l s rs) =
     map (\<lambda>i. c + int i + 1 \<le> rl_max_requests l) [0..<requests_for k rs]"
proof (induction rs arbitrary: s t0 c e)
  case (Cons r rs)
  obtain t j where r: "r = (t, j)" by (cases r)
  obtain s' where s': "incr s t (''rl:'' @ j) 1 (rl_window l) =
      Inr ((case live s t (''rl:'' @ j) of None \<Rightarrow> 1 | Some (c, _) \<Rightarrow> c + 1), s')"
    and check: "limiter_check incr l s t j =
      Inr ((case live s t (''rl:'' @ j) of None \<Rightarrow> 1 | Some (c, _) \<Rightarrow> c + 1) \<le> rl_max_requests l, s')"
    and inv: "inv s'"
    using check_value [OF Cons.prems(1,2)] by metis
  have t: "t0 \<le> t" "t < e" "''rl:'' @ j \<in> K"
    and later: "\<forall>(u, j) \<in> set rs. t \<le> u \<and> u < e \<and> ''rl:'' @ j \<in> K" "sorted (map fst rs)"
    using Cons.prems(4,5) r by auto
  have now: "live s t (''rl:'' @ k) = Some (c, e) \<or>
      live s t (''rl:'' @ k) = None \<and> c = 0 \<and> e \<le> t + rl_window l"
    using Cons.prems(6) live_later [OF Cons.prems(1) _ t(1)] live_None_later [OF Cons.prems(1) _ t(1)] t
    by auto
  have fits: "fits s' K" using fits_incr [OF Cons.prems(1) s' Cons.prems(3) t(3)] .
  note IH = Cons.IH [OF inv Cons.prems(2) fits later(2)]
  show ?case
  proof (cases "j = k")
    case False
    then have "live s' t (''rl:'' @ k) = live s t (''rl:'' @ k)"
      using live_other [OF Cons.prems(1) s' Cons.prems(3) t(3)] by simp
    then show ?thesis
      using IH [OF later(1)] now False check r by (simp add: answers_for_def requests_for_def)
  next
    case True
    define e' where "e' = (case live s t (''rl:'' @ k) of None \<Rightarrow> t + rl_window l | Some (_, e) \<Rightarrow> e)"
    have e': "e \<le> e'" using now by (auto simp: e'_def)
    have n: "(case live s t (''rl:'' @ k) of None \<Rightarrow> 1 | Some (c, _) \<Rightarrow> c + 1) = c + 1"
      using now by auto
    have "live s' t (''rl:'' @ k) = Some (c + 1, e')"
      using live_incr [OF Cons.prems(1,2) s', of t] True e' t(2) n
      by (simp add: e'_def Let_def)
    moreover have "\<forall>(u, j) \<in> set rs. t \<le> u \<and> u < e' \<and> ''rl:'' @ j \<in> K"
      using later(1) e' by auto
    ultimately have "answers_for k (limiter_run incr l s' rs) =
        map (\<lambda>i. c + 1 + int i + 1 \<le> rl_max_requests l) [0..<requests_for k rs]"
      using IH by blast
    moreover have "requests_for k (r # rs) = Suc (requests_for k rs)"
      by (simp add: r True requests_for_def)
    ultimately show ?thesis
      using check True n by (simp add: r answers_for_def upt_conv_Cons map_Suc_upt [symmetric]
          del: upt_Suc)
  qed
qed (simp add: answers_for_def requests_for_def)

lemma answers_nonempty:
  assumes "inv s" and "0 < rl_window l"
  shows "answers_for k (limiter_run incr l s ((t, k) # rs)) \<noteq> []"
proof -
  obtain b s' where "limiter_check incr l s t k = Inr (b, s')"
    using check_value [OF assms] by metis
  then show ?thesis by (simp add: answers_for_def)
qed

text \<open>Refused requests never move the end of a window.\<close>

lemma window_end_fixed:
  "inv s \<Longrightarrow> 0 < rl_window l \<Longrightarrow> live s t0 (''rl:'' @ k) = Some (c, e) \<Longrightarrow>
   sorted (t0 # ts) \<Longrightarrow> \<forall>t \<in> set ts. t < e \<Longrightarrow> e \<le> u \<Longrightarrow> t0 \<le> u \<Longrightarrow> 1 \<le> rl_max_requests l \<Longrightarrow>
   last (answers_for k (limiter_run incr l s (map (\<lambda>t. (t, k)) ts @ [(u, k)])))"
proof (induction ts arbitrary: s t0 c)
  case Nil
  have "live s u (''rl:'' @ k) = None"
    using live_later [OF Nil(1,3), of u] Nil by simp
  moreover obtain s' where "limiter_check incr l s u k =
      Inr ((case live s u (''rl:'' @ k) of None \<Rightarrow> 1 | Some (c, _) \<Rightarrow> c + 1) \<le> rl_max_requests l, s')"
    using check_value [OF Nil(1,2)] by metis
  ultimately show ?case using Nil by (simp add: answers_for_def)
next
  case (Cons t ts)
  have t: "t0 \<le> t" "t < e" "t \<le> u" using Cons.prems by auto
  have now: "live s t (''rl:'' @ k) = Some (c, e)"
    using live_later [OF Cons.prems(1,3) t(1)] t(2) by simp
  obtain s' where s': "incr s t (''rl:'' @ k) 1 (rl_window l) =
      Inr ((case live s t (''rl:'' @ k) of None \<Rightarrow> 1 | Some (c, _) \<Rightarrow> c + 1), s')"
    and check: "limiter_check incr l s t k =
      Inr ((case live s t (''rl:'' @ k) of None \<Rightarrow> 1 | Some (c, _) \<Rightarrow> c + 1) \<le> rl_max_requests l, s')"
    and inv: "inv s'"
    using check_value [OF Cons.prems(1,2)] by metis
  have "live s' t (''rl:'' @ k) = Some (c + 1, e)"
    using live_incr [OF Cons.prems(1,2) s', of t] now t(2) by (simp add: Let_def)
  then have "last (answers_for k (limiter_run incr l s' (map (\<lambda>t. (t, k)) ts @ [(u, k)])))"
    using Cons.IH [OF inv Cons.prems(2)] Cons.prems t(3) by simp
  moreover have "answers_for k (limiter_run incr l s' (map (\<lambda>t. (t, k)) ts @ [(u, k)])) \<noteq> []"
    by (cases ts) (simp_all add: answers_nonempty [OF inv Cons.prems(2)] del: limiter_run.simps)
  ultimately show ?case using check by (simp add: answers_for_def)
qed

end

section \<open>The memory backend provides the contract\<close>

definition memory_live :: "memory_backend \<Rightarrow> seconds \<Rightarrow> string \<Rightarrow> (int \<times> seconds) option" where
  "memory_live b t k =
     (case dict_get (mb_store b) k of
        Some (PInt c, Some e) \<Rightarrow> if t < e then Some (c, e) else None
      | _ \<Rightarrow> None)"

definition memory_fits :: "memory_backend \<Rightarrow> string set \<Rightarrow> bool" where
  "memory_fits b K \<longleftrightarrow> finite K \<and> card (dict_keys (mb_store b) \<union> K) \<le> mb_max_keys b"

text \<open>A backend dedicated to counters: every entry is an integer with an expiry.\<close>

definition counter_store :: "memory_backend \<Rightarrow> bool" where
  "counter_store b \<longleftrightarrow> mb_ok b \<and> (\<forall>(k, v, e) \<in> set (mb_store b). (\<exists>c. v = PInt c) \<and> e \<noteq> None)"

lemma counter_store_get:
  "counter_store b \<Longrightarrow> dict_get (mb_store b) k = Some (v, e) \<Longrightarrow> \<exists>c x. v = PInt c \<and> e = Some x"
  by (fastforce simp: counter_store_def dest: map_of_SomeD)

lemma memory_incr:
  assumes "counter_store b" and "0 < ttl"
  shows "mb_increment_with_ttl t k d ttl b =
    Inr ((case memory_live b t k of None \<Rightarrow> d | Some (c, _) \<Rightarrow> c + d),
      b\<lparr>mb_store := mb_store_end k
        (PInt (case memory_live b t k of None \<Rightarrow> d | Some (c, _) \<Rightarrow> c + d),
         Some (case memory_live b t k of None \<Rightarrow> t + ttl | Some (_, e) \<Rightarrow> e))
        (if dict_get (mb_store b) k = None then evict_if_needed (mb_max_keys b) (mb_store b)
         else mb_store b)\<rparr>)"
proof (cases "dict_get (mb_store b) k")
  case None
  then show ?thesis using assms(2)
    by (simp add: mb_increment_with_ttl_def validate_positive_ttl_def memory_live_def)
next
  case (Some p)
  obtain v e where p: "p = (v, e)" by (cases p)
  with counter_store_get [OF assms(1)] Some obtain c x where "v = PInt c" "e = Some x" by blast
  with Some p assms(2) show ?thesis
    by (auto simp: mb_increment_with_ttl_def validate_positive_ttl_def memory_live_def is_expired_def)
qed

lemma memory_fits_room:
  assumes "mb_ok b" and "memory_fits b K" and "k \<in> K" and "dict_get (mb_store b) k = None"
  shows "evict_if_needed (mb_max_keys b) (mb_store b) = mb_store b"
proof -
  have "length (mb_store b) = card (dict_keys (mb_store b))"
    using assms(1) by (metis mb_ok_def dict_ok_def distinct_card length_map set_map)
  then have "Suc (length (mb_store b)) = card (insert k (dict_keys (mb_store b)))"
    using assms(4) by (simp add: map_of_eq_None_iff)
  also have "\<dots> \<le> card (dict_keys (mb_store b) \<union> K)"
    using assms(2,3) by (intro card_mono) (auto simp: memory_fits_def)
  also have "\<dots> \<le> mb_max_keys b" using assms(2) by (simp add: memory_fits_def)
  finally show ?thesis by (intro evict_room) simp
qed

lemma dict_keys_store_end: "dict_keys (mb_store_end k e m) = insert k (dict_keys m)"
  by (auto simp: store_end_alt dict_keys_del image_Un)

interpretation memory_counter: window_counter
    "\<lambda>b t k d ttl. mb_increment_with_ttl t k d ttl b" memory_live memory_fits counter_store
proof (unfold_locales, goal_cases)
  case (1 s ttl t k d)
  then show ?case by (simp add: memory_incr)
next
  case (2 s ttl t k d n s' u)
  then show ?case
    by (auto simp: memory_incr memory_live_def dict_get_store_end Let_def)
next
  case (3 s t k d ttl n s' K j u)
  have "0 < ttl" using 3(2) by (auto simp: mb_increment_with_ttl_def validate_positive_ttl_def
      split: if_splits)
  moreover have "dict_get (mb_store s) k = None \<Longrightarrow>
      evict_if_needed (mb_max_keys s) (mb_store s) = mb_store s"
    using memory_fits_room [OF _ 3(3,4)] 3(1) by (simp add: counter_store_def)
  ultimately show ?case using 3
    by (auto simp: memory_incr memory_live_def dict_get_store_end)
next
  case (4 s t k d ttl n s' K)
  have "0 < ttl" using 4(2) by (auto simp: mb_increment_with_ttl_def validate_positive_ttl_def
      split: if_splits)
  moreover have "dict_get (mb_store s) k = None \<Longrightarrow>
      evict_if_needed (mb_max_keys s) (mb_store s) = mb_store s"
    using memory_fits_room [OF _ 4(3,4)] 4(1) by (simp add: counter_store_def)
  ultimately show ?case using 4
    by (auto simp: memory_incr memory_fits_def dict_keys_store_end insert_absorb)
next
  case (5 s t k d ttl n s')
  have "0 < ttl" using 5(2) by (auto simp: mb_increment_with_ttl_def validate_positive_ttl_def
      split: if_splits)
  moreover have "mb_ok s'" using mb_increment_with_ttl_keeps(1) [OF _ 5(2)] 5(1)
    by (simp add: counter_store_def)
  moreover have "set (mb_store s') \<subseteq> insert (k, PInt n,
      Some (case memory_live s t k of None \<Rightarrow> t + ttl | Some (_, e) \<Rightarrow> e)) (set (mb_store s))"
    using 5 \<open>0 < ttl\<close> set_evict [of "mb_max_keys s" "mb_store s"]
    by (auto simp: memory_incr store_end_alt AList.delete_eq split: if_splits)
  ultimately show ?case using 5(1) unfolding counter_store_def by blast
next
  case (6 s t k c e u)
  then show ?case by (auto simp: memory_live_def split: option.splits pyval.splits if_splits)
next
  case (7 s t k u)
  then show ?case by (auto simp: memory_live_def split: option.splits pyval.splits if_splits)
qed

abbreviation memory_incr_op :: "memory_backend incr_op" where
  "memory_incr_op \<equiv> \<lambda>b t k d ttl. mb_increment_with_ttl t k d ttl b"

lemma limiter_init_Some:
  "limiter_init m w = Some l \<Longrightarrow> rl_max_requests l = m \<and> rl_window l = w \<and> 0 < w \<and> 1 \<le> m"
  by (auto simp: limiter_init_def validate_positive_ttl_def split: if_splits)

lemma counter_store_init: "memory_init n = Some b \<Longrightarrow> counter_store b \<and> mb_store b = [] \<and> mb_max_keys b = n"
  by (auto simp: memory_init_def counter_store_def mb_ok_def split: if_splits)

text \<open>
  The limit is exact. During one window length on a fresh backend that has room for the keys
  used, and however the requests of different keys interleave, each key is granted precisely its
  first \<open>max_requests\<close> requests and refused all others.
\<close>

theorem limiter_grants_first_requests:
  assumes "memory_init n = Some b" and "limiter_init m w = Some l"
    and "sorted (map fst rs)" and "\<forall>(t, j) \<in> set rs. t0 \<le> t \<and> t < t0 + w"
    and "card (snd ` set rs) \<le> n"
  shows "answers_for k (limiter_run memory_incr_op l b rs) =
    map (\<lambda>i. int i < m) [0..<requests_for k rs]"
proof -
  let ?K = "(@) ''rl:'' ` snd ` set rs"
  note l = limiter_init_Some [OF assms(2)] and b = counter_store_init [OF assms(1)]
  have "card ?K \<le> n" using assms(5) card_image_le [of "snd ` set rs" "(@) ''rl:''"] by simp
  then have "memory_fits b ?K" using b by (simp add: memory_fits_def)
  moreover have "\<forall>(t, j) \<in> set rs. t0 \<le> t \<and> t < t0 + w \<and> ''rl:'' @ j \<in> ?K"
    using assms(4) by force
  moreover have "memory_live b t0 (''rl:'' @ k) = None" using b by (simp add: memory_live_def)
  ultimately have "answers_for k (limiter_run memory_incr_op l b rs) =
      map (\<lambda>i. 0 + int i + 1 \<le> rl_max_requests l) [0..<requests_for k rs]"
    using b l assms(3) by (intro memory_counter.answers_in_window) auto
  then show ?thesis using l by (auto simp: add1_zle_eq add.commute)
qed

theorem limiter_grants_first_requests_witness:
  "answers_for ''a'' (limiter_run memory_incr_op \<lparr>rl_max_requests = 1, rl_window = 60\<rparr>
     \<lparr>mb_max_keys = 2, mb_store = []\<rparr> [(0, ''a''), (1, ''b''), (2, ''b''), (3, ''a''), (59, ''a'')]) =
   [True, False, False]"
  by (subst limiter_grants_first_requests [where n = 2 and m = 1 and w = 60 and ?t0.0 = 0])
    (simp_all add: memory_init_def limiter_init_def validate_positive_ttl_def requests_for_def
       upt_rec insert_commute)

text \<open>
  Refused requests neither reset nor extend a window. When a key's first request comes at
  \<open>t0\<close>, any number of further requests within the window, granted or refused, leave the first
  request at or after \<open>t0 + window\<close> granted.
\<close>

theorem limiter_window_not_extended:
  assumes "memory_init n = Some b" and "limiter_init m w = Some l"
    and "sorted (t0 # ts)" and "\<forall>t \<in> set ts. t < t0 + w" and "t0 + w \<le> u"
  shows "last (answers_for k
    (limiter_run memory_incr_op l b ((t0, k) # map (\<lambda>t. (t, k)) ts @ [(u, k)])))"
proof -
  note l = limiter_init_Some [OF assms(2)] and b = counter_store_init [OF assms(1)]
  have live: "memory_live b t0 (''rl:'' @ k) = None" using b by (simp add: memory_live_def)
  obtain s' where s': "memory_incr_op b t0 (''rl:'' @ k) 1 (rl_window l) = Inr (1, s')"
    and check: "limiter_check memory_incr_op l b t0 k = Inr (1 \<le> rl_max_requests l, s')"
    and inv: "counter_store s'"
    using memory_counter.check_value [of b l t0 k] b l live by auto
  have "memory_live s' t0 (''rl:'' @ k) = Some (1, t0 + w)"
    using memory_counter.live_incr [OF _ _ s', of t0] b l live by (simp add: Let_def)
  from memory_counter.window_end_fixed [OF inv _ this]
  have "last (answers_for k (limiter_run memory_incr_op l s' (map (\<lambda>t. (t, k)) ts @ [(u, k)])))"
    using l assms(3-5) by simp
  moreover have "answers_for k (limiter_run memory_incr_op l s' (map (\<lambda>t. (t, k)) ts @ [(u, k)])) \<noteq> []"
    using memory_counter.answers_nonempty [OF inv, of l] l
    by (cases ts) (simp_all del: limiter_run.simps)
  ultimately show ?thesis using check by (simp add: answers_for_def)
qed

theorem limiter_window_not_extended_witness:
  "last (answers_for ''a'' (limiter_run memory_incr_op \<lparr>rl_max_requests = 1, rl_window = 60\<rparr>
     \<lparr>mb_max_keys = 2, mb_store = []\<rparr> ((0, ''a'') # map (\<lambda>t. (t, ''a'')) [58, 59] @ [(60, ''a'')])))"
  by (rule limiter_window_not_extended [where n = 2 and m = 1 and w = 60])
    (simp_all add: memory_init_def limiter_init_def validate_positive_ttl_def)

section \<open>Witnesses\<close>

definition demo_backend :: memory_backend where
  "demo_backend = \<lparr>mb_max_keys = 2, mb_store = []\<rparr>"

theorem memory_backend_bounded_witness:
  "length (mb_store (foldl mb_step demo_backend
     [(0, Op_set ''a'' (PInt 1) None), (1, Op_set ''b'' (PInt 1) None),
      (2, Op_increment_with_ttl ''c'' 1 60)])) \<le> 2"
  by (rule memory_backend_bounded) (simp_all add: memory_init_def demo_backend_def)

theorem increment_ignores_capacity_witness:
  "length (mb_store (foldl mb_step demo_backend
     (map (\<lambda>k. (0, Op_increment k 1)) [''a'', ''b'', ''c'', ''d'']))) = 4"
  by (subst increment_ignores_capacity [where n = 2])
    (simp_all add: memory_init_def demo_backend_def)

theorem recently_set_entry_survives_witness:
  "fst (mb_get 5 ''a'' (foldl mb_step \<lparr>mb_max_keys = 2, mb_store = [(''a'', PInt 7, Some 60)]\<rparr>
     [(1, Op_set ''b'' (PInt 1) None)])) = Some (PInt 7)"
  by (rule recently_set_entry_survives [where b = demo_backend and t = 0 and ttl = 60])
    (simp_all add: demo_backend_def mb_ok_def mb_set_def validate_positive_ttl_def)

end
