(* ===== verification/Resource_Nesting.thy ===== *)
theory Resource_Nesting
  imports Core_Models
begin

text \<open>
  The nesting measure \<open>measure_structured_nesting\<close> of \<open>resource.py\<close>: its JSON scanner, which skips
  quoted strings, and its XML tag counter, whose two regular expressions are matched by hand. The
  scanner is proved exact against a printer of structured values.
\<close>

section \<open>Nesting of structured text\<close>

text \<open>
  The scanner for JSON-like text: depth, greatest depth, inside a string, after a backslash.
  Characters are code points: 34 is the quote, 92 the backslash, 123/91 open and 125/93 close.
\<close>

record json_scan =
  js_depth :: nat
  js_max :: nat
  js_in_string :: bool
  js_escaped :: bool

definition json_step :: "json_scan \<Rightarrow> nat \<Rightarrow> json_scan" where
  "json_step s c =
     (if js_in_string s then
        (if js_escaped s then s\<lparr>js_escaped := False\<rparr>
         else if c = 92 then s\<lparr>js_escaped := True\<rparr>
         else if c = 34 then s\<lparr>js_in_string := False\<rparr>
         else s)
      else if c = 34 then s\<lparr>js_in_string := True\<rparr>
      else if c = 123 \<or> c = 91 then
        s\<lparr>js_depth := Suc (js_depth s), js_max := max (js_max s) (Suc (js_depth s))\<rparr>
      else if c = 125 \<or> c = 93 then s\<lparr>js_depth := js_depth s - 1\<rparr>
      else s)"

definition json_start :: json_scan where
  "json_start = \<lparr>js_depth = 0, js_max = 0, js_in_string = False, js_escaped = False\<rparr>"

definition json_nesting :: "pytext \<Rightarrow> nat" where
  "json_nesting t = js_max (foldl json_step json_start t)"

text \<open>
  The two tag patterns, each as a function from a suffix of the text to what follows the match at
  its head: a name character, at most 255 characters other than angle brackets, and \<open>>\<close>; an
  opening tag must not end in \<open>/>\<close>. Both runs are delimited by \<open>>\<close>, so there is nothing to
  backtrack.
\<close>

definition tag_name_start :: "nat \<Rightarrow> bool" where
  "tag_name_start c \<longleftrightarrow> (65 \<le> c \<and> c \<le> 90) \<or> (97 \<le> c \<and> c \<le> 122) \<or> c = 95 \<or> c = 58"

definition tag_body :: "pytext \<Rightarrow> (pytext \<times> pytext) option" where
  "tag_body t =
     (let run = takeWhile (\<lambda>c. c \<noteq> 60 \<and> c \<noteq> 62) t; rest = dropWhile (\<lambda>c. c \<noteq> 60 \<and> c \<noteq> 62) t
      in if length run \<le> 255 \<and> rest \<noteq> [] \<and> hd rest = 62 then Some (run, tl rest) else None)"

fun match_open_tag :: "pytext \<Rightarrow> pytext option" where
  "match_open_tag (x # c # t) =
     (if x = 60 \<and> tag_name_start c then
        (case tag_body t of
           Some (run, rest) \<Rightarrow> if last (c # run) \<noteq> 47 then Some rest else None
         | None \<Rightarrow> None)
      else None)"
| "match_open_tag _ = None"

fun match_close_tag :: "pytext \<Rightarrow> pytext option" where
  "match_close_tag (x # y # c # t) =
     (if x = 60 \<and> y = 47 \<and> tag_name_start c then map_option snd (tag_body t) else None)"
| "match_close_tag _ = None"

text \<open>\<open>re.search\<close>: the offset of the first match and what follows it.\<close>

fun search_tag :: "(pytext \<Rightarrow> pytext option) \<Rightarrow> pytext \<Rightarrow> (nat \<times> pytext) option" where
  "search_tag m [] = None"
| "search_tag m (c # t) =
     (case m (c # t) of
        Some rest \<Rightarrow> Some (0, rest)
      | None \<Rightarrow> map_option (\<lambda>(i, rest). (Suc i, rest)) (search_tag m t))"

lemma tag_body_shorter: "tag_body t = Some (run, rest) \<Longrightarrow> length rest < length t"
proof -
  assume a: "tag_body t = Some (run, rest)"
  let ?d = "dropWhile (\<lambda>c. c \<noteq> 60 \<and> c \<noteq> 62) t"
  from a have "?d \<noteq> []" "rest = tl ?d" by (auto simp: tag_body_def Let_def split: if_splits)
  moreover have "length ?d \<le> length t" by (rule length_dropWhile_le)
  ultimately show ?thesis by (cases ?d) simp_all
qed

lemma match_open_shorter: "match_open_tag t = Some rest \<Longrightarrow> length rest < length t"
  by (induction t rule: match_open_tag.induct)
    (auto split: if_splits option.splits dest!: tag_body_shorter)

lemma match_close_shorter: "match_close_tag t = Some rest \<Longrightarrow> length rest < length t"
  by (induction t rule: match_close_tag.induct)
    (auto split: if_splits dest!: tag_body_shorter)

lemma search_shorter:
  assumes "\<And>u r. m u = Some r \<Longrightarrow> length r < length u" and "search_tag m t = Some (i, rest)"
  shows "length rest < length t"
  using assms(2)
proof (induction t arbitrary: i)
  case (Cons c t)
  then show ?case using assms(1) by (fastforce split: option.splits)
qed simp

lemma search_tag_shorter:
  "Some (i, rest) = search_tag match_open_tag t \<Longrightarrow> length rest < length t"
  "Some (i, rest) = search_tag match_close_tag t \<Longrightarrow> length rest < length t"
  using search_shorter [of match_open_tag t i rest] search_shorter [of match_close_tag t i rest]
  by (auto dest: match_open_shorter match_close_shorter)

function xml_loop :: "nat \<Rightarrow> nat \<Rightarrow> pytext \<Rightarrow> nat" where
  "xml_loop depth mx t =
     (case (search_tag match_open_tag t, search_tag match_close_tag t) of
        (Some (i, rest), None) \<Rightarrow> xml_loop (Suc depth) (max mx (Suc depth)) rest
      | (Some (i, rest), Some (j, rest')) \<Rightarrow>
          if i < j then xml_loop (Suc depth) (max mx (Suc depth)) rest
          else xml_loop (depth - 1) mx rest'
      | (None, Some (j, rest')) \<Rightarrow> xml_loop (depth - 1) mx rest'
      | (None, None) \<Rightarrow> mx)"
  by pat_completeness auto

termination
  by (relation "measure (\<lambda>(_, _, t). length t)")
    (auto intro: search_tag_shorter)

declare xml_loop.simps [simp del]

definition measure_structured_nesting :: "pytext \<Rightarrow> nat" where
  "measure_structured_nesting t = max (json_nesting t) (xml_loop 0 0 t)"

subsection \<open>The measure of a printed structure is its depth\<close>

text \<open>
  Structured values: bare tokens (numbers, keywords: no quote, bracket or brace), strings with
  escapes, arrays and objects. Printing separates members with a comma and keys with a colon.
\<close>

datatype jtree =
    JBare pytext
  | JString pytext
  | JArray "jtree list"
  | JObject "(pytext \<times> jtree) list"

fun bare_ok :: "nat \<Rightarrow> bool" where
  "bare_ok c \<longleftrightarrow> c \<notin> {34, 91, 93, 123, 125}"

fun escape_string :: "pytext \<Rightarrow> pytext" where
  "escape_string [] = []"
| "escape_string (c # t) = (if c = 34 \<or> c = 92 then [92, c] else [c]) @ escape_string t"

definition quoted :: "pytext \<Rightarrow> pytext" where
  "quoted t = 34 # escape_string t @ [34]"

fun print_tree :: "jtree \<Rightarrow> pytext" where
  "print_tree (JBare t) = t"
| "print_tree (JString t) = quoted t"
| "print_tree (JArray vs) = 91 # concat (map (\<lambda>v. print_tree v @ [44]) vs) @ [93]"
| "print_tree (JObject kvs) =
     123 # concat (map (\<lambda>(k, v). quoted k @ [58] @ print_tree v @ [44]) kvs) @ [125]"

fun tree_ok :: "jtree \<Rightarrow> bool" where
  "tree_ok (JBare t) = list_all bare_ok t"
| "tree_ok (JString t) = True"
| "tree_ok (JArray vs) = list_all tree_ok vs"
| "tree_ok (JObject kvs) = list_all (\<lambda>(k, v). tree_ok v) kvs"

fun tree_depth :: "jtree \<Rightarrow> nat" where
  "tree_depth (JBare t) = 0"
| "tree_depth (JString t) = 0"
| "tree_depth (JArray vs) = Suc (fold max (map tree_depth vs) 0)"
| "tree_depth (JObject kvs) = Suc (fold max (map (\<lambda>(k, v). tree_depth v) kvs) 0)"

abbreviation at_depth :: "nat \<Rightarrow> nat \<Rightarrow> json_scan" where
  "at_depth d m \<equiv> \<lparr>js_depth = d, js_max = m, js_in_string = False, js_escaped = False\<rparr>"

lemma scan_bare: "list_all bare_ok t \<Longrightarrow> foldl json_step (at_depth d m) t = at_depth d m"
  by (induction t) (auto simp: json_step_def)

lemma scan_escaped:
  "foldl json_step (s\<lparr>js_in_string := True, js_escaped := False\<rparr>) (escape_string t) =
   s\<lparr>js_in_string := True, js_escaped := False\<rparr>"
  by (induction t) (simp_all add: json_step_def)

lemma scan_quoted: "foldl json_step (at_depth d m) (quoted t) = at_depth d m"
  using scan_escaped [of "at_depth d m" t] by (simp add: quoted_def json_step_def)

lemma fold_max: "fold max ns (m :: nat) = max m (fold max ns 0)"
proof (induction ns arbitrary: m)
  case (Cons n ns)
  show ?case using Cons [of "max n m"] Cons [of "max n 0"] by simp
qed simp

lemma scan_char:
  "json_step (at_depth d m) 44 = at_depth d m" "json_step (at_depth d m) 58 = at_depth d m"
  "json_step (at_depth d m) 91 = at_depth (Suc d) (max m (Suc d))"
  "json_step (at_depth d m) 123 = at_depth (Suc d) (max m (Suc d))"
  "json_step (at_depth (Suc d) m) 93 = at_depth d m"
  "json_step (at_depth (Suc d) m) 125 = at_depth d m"
  by (simp_all add: json_step_def)

lemma scan_members:
  assumes "\<And>x m. x \<in> set xs \<Longrightarrow> d \<le> m \<Longrightarrow>
      foldl json_step (at_depth d m) (pr x) = at_depth d (max m (d + f x))"
    and "d \<le> m"
  shows "foldl json_step (at_depth d m) (concat (map (\<lambda>x. pr x @ [44]) xs)) =
    at_depth d (max m (d + fold max (map f xs) 0))"
  using assms
proof (induction xs arbitrary: m)
  case (Cons x xs)
  have "foldl json_step (at_depth d m) (concat (map (\<lambda>x. pr x @ [44]) (x # xs))) =
      foldl json_step (at_depth d (max m (d + f x))) (concat (map (\<lambda>x. pr x @ [44]) xs))"
    using Cons.prems(1) [of x m] Cons.prems(2) by (simp add: scan_char)
  also have "\<dots> = at_depth d (max (max m (d + f x)) (d + fold max (map f xs) 0))"
    using Cons.prems by (intro Cons.IH) auto
  also have "\<dots> = at_depth d (max m (d + fold max (map f (x # xs)) 0))"
    using fold_max [of "map f xs" "f x"] by simp
  finally show ?case .
qed simp

lemma scan_tree:
  "tree_ok v \<Longrightarrow> d \<le> m \<Longrightarrow> foldl json_step (at_depth d m) (print_tree v) = at_depth d (max m (d + tree_depth v))"
proof (induction v arbitrary: d m)
  case (JBare t)
  then show ?case by (simp add: scan_bare)
next
  case (JString t)
  then show ?case by (simp add: scan_quoted)
next
  case (JArray vs)
  have "foldl json_step (at_depth (Suc d) (max m (Suc d))) (concat (map (\<lambda>v. print_tree v @ [44]) vs)) =
      at_depth (Suc d) (max (max m (Suc d)) (Suc d + fold max (map tree_depth vs) 0))"
    using JArray by (intro scan_members) (auto simp: list_all_iff)
  then show ?case by (simp add: scan_char max_def)
next
  case (JObject kvs)
  have "foldl json_step (at_depth (Suc d) (max m (Suc d)))
        (concat (map (\<lambda>p. (case p of (k, v) \<Rightarrow> quoted k @ [58] @ print_tree v) @ [44]) kvs)) =
      at_depth (Suc d) (max (max m (Suc d)) (Suc d + fold max (map (\<lambda>(k, v). tree_depth v) kvs) 0))"
  proof (intro scan_members)
    fix p m' assume "p \<in> set kvs" and "Suc d \<le> m'"
    moreover obtain k v where "p = (k, v)" by (cases p)
    ultimately show "foldl json_step (at_depth (Suc d) m') (case p of (k, v) \<Rightarrow> quoted k @ [58] @ print_tree v) =
        at_depth (Suc d) (max m' (Suc d + (case p of (k, v) \<Rightarrow> tree_depth v)))"
      using JObject.IH [of p v "Suc d" m'] JObject.prems(1)
      by (auto simp: scan_quoted scan_char list_all_iff)
  qed simp
  moreover have "(\<lambda>(k, v). quoted k @ [58] @ print_tree v @ [44]) =
      (\<lambda>p. (case p of (k, v) \<Rightarrow> quoted k @ [58] @ print_tree v) @ [44])"
    by (simp add: fun_eq_iff)
  ultimately show ?case by (simp add: scan_char max_def)
qed

text \<open>
  The nesting limit cannot be evaded by quoting. For every printed structure, whatever
  brackets, quotes and backslashes its strings contain, the JSON scan measures exactly the
  nesting depth, so the overall measure is at least that depth.
\<close>

theorem nesting_measure_exact:
  assumes "tree_ok v"
  shows "json_nesting (print_tree v) = tree_depth v \<and> tree_depth v \<le> measure_structured_nesting (print_tree v)"
  using scan_tree [OF assms, of 0 0]
  by (simp add: json_nesting_def json_start_def measure_structured_nesting_def)

theorem nesting_measure_exact_witness:
  "json_nesting (print_tree (JArray [JString [93, 34, 92], JObject [([91], JArray [])], JBare [49]])) = 3"
  using nesting_measure_exact [of "JArray [JString [93, 34, 92], JObject [([91], JArray [])], JBare [49]]"]
  by simp

end
