(* ===== verification/Resource_Ledger.thy ===== *)
theory Resource_Ledger
  imports Resource_Nesting
begin

text \<open>
  The atomic resource ledger \<open>ResourceBudgetManager\<close> of \<open>resource.py\<close> with the models of
  \<open>models/resource.py\<close>: leases, concurrency counters, rolling request windows, session budgets and
  the replay table. Every operation runs under one lock and is one step of the model; the monotonic
  clock reading and the drawn lease identifier are arguments. Finding messages and the reported
  observed/limit numbers are reporting only; a finding is its code.
\<close>

section \<open>Policy, requests and results\<close>

datatype operation_kind = MODEL_OP | TOOL_OP

datatype limit_code =
    INPUT_CHARS_EXCEEDED | INPUT_BYTES_EXCEEDED | INPUT_TOKENS_EXCEEDED
  | OUTPUT_CHARS_EXCEEDED | OUTPUT_BYTES_EXCEEDED | OUTPUT_TOKENS_EXCEEDED
  | NESTING_DEPTH_EXCEEDED | COMPRESSED_BYTES_EXCEEDED | DECOMPRESSED_BYTES_EXCEEDED
  | DECOMPRESSION_RATIO_EXCEEDED | INVALID_COMPRESSED_PAYLOAD | CONCATENATED_COMPRESSED_STREAM
  | PRINCIPAL_CONCURRENCY_EXCEEDED | TENANT_CONCURRENCY_EXCEEDED | PRINCIPAL_RATE_EXCEEDED
  | TENANT_RATE_EXCEEDED | RETRY_LIMIT_EXCEEDED | TOOL_LOOP_LIMIT_EXCEEDED
  | SESSION_DURATION_EXCEEDED | SESSION_TOKEN_BUDGET_EXCEEDED | RESERVATION_REPLAYED
  | TRACKING_CAPACITY_EXCEEDED | LEASE_UNKNOWN | LEASE_EXPIRED

record budget_policy =
  bp_max_input_chars :: nat
  bp_max_input_bytes :: nat
  bp_max_input_tokens :: nat
  bp_max_output_chars :: nat
  bp_max_output_bytes :: nat
  bp_max_output_tokens :: nat
  bp_max_nesting_depth :: nat
  bp_max_compressed_bytes :: nat
  bp_max_decompressed_bytes :: nat
  bp_max_decompression_ratio :: rat
  bp_max_concurrent_per_principal :: nat
  bp_max_concurrent_per_tenant :: nat
  bp_max_retries_per_operation :: nat
  bp_max_tool_actions_per_session :: nat
  bp_max_session_duration :: seconds
  bp_max_session_tokens :: nat
  bp_request_window :: seconds
  bp_max_requests_per_principal_window :: nat
  bp_max_requests_per_tenant_window :: nat
  bp_lease_timeout :: seconds
  bp_max_tracked_sessions :: nat
  bp_max_tracked_reservations :: nat

record resource_identity =
  ri_principal_id :: ident
  ri_tenant_id :: ident
  ri_session_id :: ident
  ri_request_id :: ident
  ri_operation_id :: ident

record reservation_request =
  rr_reservation_id :: ident
  rr_identity :: resource_identity
  rr_kind :: operation_kind
  rr_input_text :: pytext
  rr_input_tokens :: nat
  rr_requested_output_tokens :: nat

record completion_request =
  cr_lease_id :: ident
  cr_output_text :: pytext
  cr_output_tokens :: nat

record resource_lease =
  rl_lease_id :: ident
  rl_reservation_id :: ident
  rl_request_id :: ident
  rl_session_id :: ident
  rl_reserved_tokens :: nat
  rl_requested_output_tokens :: nat
  rl_timeout :: seconds

record usage_signal =
  us_session_tokens_reserved :: nat
  us_session_tool_actions :: nat
  us_principal_window_requests :: nat
  us_tenant_window_requests :: nat
  us_principal_active :: nat
  us_tenant_active :: nat

record budget_result =
  br_request_id :: ident
  br_action :: guard_action
  br_findings :: "limit_code list"
  br_signal :: "usage_signal option"
  br_lease :: "resource_lease option"
  br_approved_output :: "pytext option"

definition budget_blocked :: "ident \<Rightarrow> limit_code list \<Rightarrow> budget_result" where
  "budget_blocked rid fs = \<lparr>br_request_id = rid, br_action = BLOCK, br_findings = fs,
     br_signal = None, br_lease = None, br_approved_output = None\<rparr>"

section \<open>The ledger\<close>

type_synonym principal_key = "ident \<times> ident"

record session_state =
  ss_first_seen :: seconds
  ss_tokens_reserved :: nat
  ss_tool_actions :: nat
  ss_operation_attempts :: "(ident, nat) dict"

record lease_state =
  le_lease :: resource_lease
  le_principal_id :: ident
  le_tenant_id :: ident
  le_expires_at :: seconds

record ledger =
  ld_sessions :: "(ident \<times> ident, session_state) dict"
  ld_principal_windows :: "(principal_key, seconds list) dict"
  ld_tenant_windows :: "(ident, seconds list) dict"
  ld_principal_active :: "(principal_key, nat) dict"
  ld_tenant_active :: "(ident, nat) dict"
  ld_leases :: "(ident, lease_state) dict"
  ld_seen :: "(ident, seconds) dict"

definition empty_ledger :: ledger where
  "empty_ledger = \<lparr>ld_sessions = [], ld_principal_windows = [], ld_tenant_windows = [],
     ld_principal_active = [], ld_tenant_active = [], ld_leases = [], ld_seen = []\<rparr>"

definition new_session :: "seconds \<Rightarrow> session_state" where
  "new_session now = \<lparr>ss_first_seen = now, ss_tokens_reserved = 0, ss_tool_actions = 0,
     ss_operation_attempts = []\<rparr>"

definition request_findings :: "budget_policy \<Rightarrow> reservation_request \<Rightarrow> limit_code list" where
  "request_findings p r =
     (let t = rr_input_text r in
      map snd (filter fst
        [(bp_max_input_chars p < length t, INPUT_CHARS_EXCEEDED),
         (bp_max_input_bytes p < utf8_len t, INPUT_BYTES_EXCEEDED),
         (bp_max_input_tokens p < rr_input_tokens r, INPUT_TOKENS_EXCEEDED),
         (bp_max_output_tokens p < rr_requested_output_tokens r, OUTPUT_TOKENS_EXCEEDED),
         (bp_max_nesting_depth p < measure_structured_nesting t, NESTING_DEPTH_EXCEEDED)]))"

definition output_findings ::
  "budget_policy \<Rightarrow> completion_request \<Rightarrow> resource_lease \<Rightarrow> limit_code list" where
  "output_findings p c l =
     map snd (filter fst
       [(bp_max_output_chars p < length (cr_output_text c), OUTPUT_CHARS_EXCEEDED),
        (bp_max_output_bytes p < utf8_len (cr_output_text c), OUTPUT_BYTES_EXCEEDED),
        (min (bp_max_output_tokens p) (rl_requested_output_tokens l) < cr_output_tokens c,
         OUTPUT_TOKENS_EXCEEDED)])"

text \<open>\<open>max(0, count - 1)\<close>, with an entry that reaches zero removed.\<close>

definition release_count :: "('k, nat) dict \<Rightarrow> 'k \<Rightarrow> ('k, nat) dict" where
  "release_count m k =
     (let n = dict_get_default m k 0 - 1 in if n \<noteq> 0 then dict_set m k n else dict_del m k)"

definition release_lease :: "ident \<Rightarrow> ledger \<Rightarrow> bool \<times> ledger" where
  "release_lease lid s =
     (case dict_get (ld_leases s) lid of
        None \<Rightarrow> (False, s)
      | Some st \<Rightarrow>
          (True, s\<lparr>ld_leases := dict_del (ld_leases s) lid,
             ld_principal_active :=
               release_count (ld_principal_active s) (le_tenant_id st, le_principal_id st),
             ld_tenant_active := release_count (ld_tenant_active s) (le_tenant_id st)\<rparr>))"

definition release_expired :: "seconds \<Rightarrow> ident \<times> lease_state \<Rightarrow> ledger \<Rightarrow> ledger" where
  "release_expired now e s =
     (if le_expires_at (snd e) \<le> now then snd (release_lease (fst e) s) else s)"

text \<open>\<open>while window and window[0] <= cutoff: window.popleft()\<close>\<close>

definition purge_window :: "seconds \<Rightarrow> seconds list \<Rightarrow> seconds list" where
  "purge_window cutoff w = popleft_while (\<lambda>t. t \<le> cutoff) w"

definition purge_windows :: "('k, seconds list) dict \<Rightarrow> seconds \<Rightarrow> ('k, seconds list) dict" where
  "purge_windows ws cutoff =
     filter (\<lambda>(k, w). w \<noteq> []) (map (\<lambda>(k, w). (k, purge_window cutoff w)) ws)"

definition ledger_window ::
  "budget_policy \<Rightarrow> ('k, seconds list) dict \<Rightarrow> 'k \<Rightarrow> seconds \<Rightarrow> seconds list" where
  "ledger_window p ws k now = purge_window (now - bp_request_window p) (dict_get_default ws k [])"

definition session_retained ::
  "budget_policy \<Rightarrow> seconds \<Rightarrow> (ident, lease_state) dict \<Rightarrow> (ident \<times> ident) \<times> session_state \<Rightarrow> bool" where
  "session_retained p now leases e \<longleftrightarrow>
     fst e \<in> (\<lambda>(_, st). (le_tenant_id st, rl_session_id (le_lease st))) ` set leases \<or>
     now - ss_first_seen (snd e) < bp_max_session_duration p + bp_lease_timeout p"

definition purge_expired :: "budget_policy \<Rightarrow> seconds \<Rightarrow> ledger \<Rightarrow> ledger" where
  "purge_expired p now s =
     (let s1 = fold (release_expired now) (ld_leases s) s;
          cutoff = now - bp_request_window p
      in s1\<lparr>ld_seen := popleft_while (\<lambda>(_, e). e \<le> now) (ld_seen s1),
            ld_principal_windows := purge_windows (ld_principal_windows s1) cutoff,
            ld_tenant_windows := purge_windows (ld_tenant_windows s1) cutoff,
            ld_sessions := filter (session_retained p now (ld_leases s1)) (ld_sessions s1)\<rparr>)"

section \<open>Reserving\<close>

text \<open>The findings against the state, in the order of the code.\<close>

definition state_findings ::
  "budget_policy \<Rightarrow> seconds \<Rightarrow> reservation_request \<Rightarrow> session_state \<Rightarrow>
   seconds list \<Rightarrow> seconds list \<Rightarrow> nat \<Rightarrow> nat \<Rightarrow> nat \<Rightarrow> limit_code list" where
  "state_findings p now r sess pw tw pa ta nseen =
     (let reserved = rr_input_tokens r + rr_requested_output_tokens r;
          attempts = dict_get_default (ss_operation_attempts sess) (ri_operation_id (rr_identity r)) 0;
          tools = ss_tool_actions sess + (if rr_kind r = TOOL_OP then 1 else 0)
      in map snd (filter fst
        [(bp_max_session_duration p \<le> now - ss_first_seen sess, SESSION_DURATION_EXCEEDED),
         (bp_max_session_tokens p < ss_tokens_reserved sess + reserved, SESSION_TOKEN_BUDGET_EXCEEDED),
         (bp_max_retries_per_operation p < attempts, RETRY_LIMIT_EXCEEDED),
         (bp_max_tool_actions_per_session p < tools, TOOL_LOOP_LIMIT_EXCEEDED),
         (bp_max_requests_per_principal_window p \<le> length pw, PRINCIPAL_RATE_EXCEEDED),
         (bp_max_requests_per_tenant_window p \<le> length tw, TENANT_RATE_EXCEEDED),
         (bp_max_concurrent_per_principal p \<le> pa, PRINCIPAL_CONCURRENCY_EXCEEDED),
         (bp_max_concurrent_per_tenant p \<le> ta, TENANT_CONCURRENCY_EXCEEDED),
         (bp_max_tracked_reservations p \<le> nseen, TRACKING_CAPACITY_EXCEEDED)]))"

definition session_key :: "reservation_request \<Rightarrow> ident \<times> ident" where
  "session_key r = (ri_tenant_id (rr_identity r), ri_session_id (rr_identity r))"

definition principal_key_of :: "reservation_request \<Rightarrow> principal_key" where
  "principal_key_of r = (ri_tenant_id (rr_identity r), ri_principal_id (rr_identity r))"

definition make_lease :: "budget_policy \<Rightarrow> ident \<Rightarrow> reservation_request \<Rightarrow> resource_lease" where
  "make_lease p lid r =
     \<lparr>rl_lease_id = lid, rl_reservation_id = rr_reservation_id r,
      rl_request_id = ri_request_id (rr_identity r), rl_session_id = ri_session_id (rr_identity r),
      rl_reserved_tokens = rr_input_tokens r + rr_requested_output_tokens r,
      rl_requested_output_tokens = rr_requested_output_tokens r, rl_timeout = bp_lease_timeout p\<rparr>"

text \<open>The commit part of \<open>reserve\<close>, after every check passed.\<close>

definition charge_session :: "reservation_request \<Rightarrow> session_state \<Rightarrow> session_state" where
  "charge_session r sess =
     (let op = ri_operation_id (rr_identity r) in
      sess\<lparr>ss_tokens_reserved :=
             ss_tokens_reserved sess + (rr_input_tokens r + rr_requested_output_tokens r),
           ss_tool_actions := ss_tool_actions sess + (if rr_kind r = TOOL_OP then 1 else 0),
           ss_operation_attempts := dict_set (ss_operation_attempts sess) op
             (dict_get_default (ss_operation_attempts sess) op 0 + 1)\<rparr>)"

definition grant ::
  "budget_policy \<Rightarrow> seconds \<Rightarrow> ident \<Rightarrow> reservation_request \<Rightarrow> session_state \<Rightarrow> ledger \<Rightarrow>
   budget_result \<times> ledger" where
  "grant p now lid r sess s =
     (let pk = principal_key_of r; tk = ri_tenant_id (rr_identity r);
          pw = dict_get_default (ld_principal_windows s) pk [] @ [now];
          tw = dict_get_default (ld_tenant_windows s) tk [] @ [now];
          pa = dict_get_default (ld_principal_active s) pk 0;
          ta = dict_get_default (ld_tenant_active s) tk 0;
          sess' = charge_session r sess;
          lease = make_lease p lid r
      in (\<lparr>br_request_id = ri_request_id (rr_identity r), br_action = ALLOW, br_findings = [],
           br_signal = Some
             \<lparr>us_session_tokens_reserved = ss_tokens_reserved sess',
              us_session_tool_actions = ss_tool_actions sess',
              us_principal_window_requests = length pw, us_tenant_window_requests = length tw,
              us_principal_active = pa + 1, us_tenant_active = ta + 1\<rparr>,
           br_lease = Some lease, br_approved_output = None\<rparr>,
          s\<lparr>ld_sessions := dict_set (ld_sessions s) (session_key r) sess',
            ld_principal_windows := dict_set (ld_principal_windows s) pk pw,
            ld_tenant_windows := dict_set (ld_tenant_windows s) tk tw,
            ld_principal_active := dict_set (ld_principal_active s) pk (pa + 1),
            ld_tenant_active := dict_set (ld_tenant_active s) tk (ta + 1),
            ld_seen := dict_set (ld_seen s) (rr_reservation_id r) (now + bp_max_session_duration p),
            ld_leases := dict_set (ld_leases s) lid
              \<lparr>le_lease = lease, le_principal_id = ri_principal_id (rr_identity r),
               le_tenant_id = tk, le_expires_at = now + bp_lease_timeout p\<rparr>\<rparr>))"

text \<open>\<open>_window\<close> on both window tables: \<open>setdefault\<close> leaves the purged window in the table.\<close>

definition touch_windows ::
  "budget_policy \<Rightarrow> seconds \<Rightarrow> reservation_request \<Rightarrow> ledger \<Rightarrow> ledger" where
  "touch_windows p now r s =
     (let pk = principal_key_of r; tk = ri_tenant_id (rr_identity r) in
      s\<lparr>ld_principal_windows := dict_set (ld_principal_windows s) pk
           (ledger_window p (ld_principal_windows s) pk now),
        ld_tenant_windows := dict_set (ld_tenant_windows s) tk
           (ledger_window p (ld_tenant_windows s) tk now)\<rparr>)"

definition reserve ::
  "budget_policy \<Rightarrow> seconds \<Rightarrow> ident \<Rightarrow> reservation_request \<Rightarrow> ledger \<Rightarrow> budget_result \<times> ledger" where
  "reserve p now lid r s =
     (let rid = ri_request_id (rr_identity r); fs = request_findings p r in
      if fs \<noteq> [] then (budget_blocked rid fs, s)
      else
        (let s1 = purge_expired p now s in
         if dict_get (ld_seen s1) (rr_reservation_id r) \<noteq> None
         then (budget_blocked rid [RESERVATION_REPLAYED], s1)
         else if dict_get (ld_sessions s1) (session_key r) = None \<and>
                 bp_max_tracked_sessions p \<le> length (ld_sessions s1)
         then (budget_blocked rid [TRACKING_CAPACITY_EXCEEDED], s1)
         else
           (let sess = dict_get_default (ld_sessions s1) (session_key r) (new_session now);
                s2 = touch_windows p now r s1;
                pk = principal_key_of r; tk = ri_tenant_id (rr_identity r);
                sf = state_findings p now r sess
                       (dict_get_default (ld_principal_windows s2) pk [])
                       (dict_get_default (ld_tenant_windows s2) tk [])
                       (dict_get_default (ld_principal_active s2) pk 0)
                       (dict_get_default (ld_tenant_active s2) tk 0)
                       (length (ld_seen s2))
            in if sf \<noteq> [] then (budget_blocked rid sf, s2) else grant p now lid r sess s2)))"

section \<open>Completing and cancelling\<close>

definition complete ::
  "budget_policy \<Rightarrow> seconds \<Rightarrow> completion_request \<Rightarrow> ledger \<Rightarrow> budget_result \<times> ledger" where
  "complete p now c s =
     (case dict_get (ld_leases s) (cr_lease_id c) of
        None \<Rightarrow> (budget_blocked (cr_lease_id c) [LEASE_UNKNOWN], s)
      | Some st \<Rightarrow>
          (let s' = snd (release_lease (cr_lease_id c) s); rid = rl_request_id (le_lease st) in
           if le_expires_at st \<le> now then (budget_blocked rid [LEASE_EXPIRED], s')
           else
             (let fs = output_findings p c (le_lease st) in
              if fs \<noteq> [] then (budget_blocked rid fs, s')
              else (\<lparr>br_request_id = rid, br_action = ALLOW, br_findings = [], br_signal = None,
                     br_lease = None, br_approved_output = Some (cr_output_text c)\<rparr>, s'))))"

definition cancel :: "ident \<Rightarrow> ledger \<Rightarrow> bool \<times> ledger" where
  "cancel lid s = release_lease lid s"

text \<open>The raising variants: \<open>Inl\<close> is the result carried by \<open>ResourceBudgetError\<close>.\<close>

definition require_reservation ::
  "budget_policy \<Rightarrow> seconds \<Rightarrow> ident \<Rightarrow> reservation_request \<Rightarrow> ledger \<Rightarrow>
   (budget_result + resource_lease) \<times> ledger" where
  "require_reservation p now lid r s =
     (let (res, s') = reserve p now lid r s in
      (case br_lease res of
         Some l \<Rightarrow> (if br_action res = ALLOW then Inr l else Inl res, s')
       | None \<Rightarrow> (Inl res, s')))"

definition require_completion ::
  "budget_policy \<Rightarrow> seconds \<Rightarrow> completion_request \<Rightarrow> ledger \<Rightarrow> (budget_result + pytext) \<times> ledger" where
  "require_completion p now c s =
     (let (res, s') = complete p now c s in
      (case br_approved_output res of
         Some t \<Rightarrow> (if br_action res = ALLOW then Inr t else Inl res, s')
       | None \<Rightarrow> (Inl res, s')))"

section \<open>The shape of a step\<close>

lemma grant_action [simp]: "br_action (fst (grant p now lid r sess s)) = ALLOW"
  by (simp add: grant_def Let_def)

lemma budget_blocked_simps [simp]:
  "br_action (budget_blocked rid fs) = BLOCK" "br_lease (budget_blocked rid fs) = None"
  "br_approved_output (budget_blocked rid fs) = None" "br_findings (budget_blocked rid fs) = fs"
  by (simp_all add: budget_blocked_def)

lemma reserve_cases:
  assumes "reserve p now lid r s = (res, s')"
  obtains (refused_input) "br_action res = BLOCK" "s' = s" "request_findings p r \<noteq> []"
  | (refused_early) "br_action res = BLOCK" "s' = purge_expired p now s"
  | (refused_state) "br_action res = BLOCK" "s' = touch_windows p now r (purge_expired p now s)"
  | (granted) s2 sess where "s2 = touch_windows p now r (purge_expired p now s)"
      "sess = dict_get_default (ld_sessions (purge_expired p now s)) (session_key r) (new_session now)"
      "br_action res = ALLOW" "(res, s') = grant p now lid r sess s2"
      "request_findings p r = []"
      "dict_get (ld_seen (purge_expired p now s)) (rr_reservation_id r) = None"
      "dict_get (ld_sessions (purge_expired p now s)) (session_key r) \<noteq> None \<or>
         length (ld_sessions (purge_expired p now s)) < bp_max_tracked_sessions p"
      "state_findings p now r sess
         (dict_get_default (ld_principal_windows s2) (principal_key_of r) [])
         (dict_get_default (ld_tenant_windows s2) (ri_tenant_id (rr_identity r)) [])
         (dict_get_default (ld_principal_active s2) (principal_key_of r) 0)
         (dict_get_default (ld_tenant_active s2) (ri_tenant_id (rr_identity r)) 0)
         (length (ld_seen s2)) = []"
proof -
  let ?s1 = "purge_expired p now s" and ?s2 = "touch_windows p now r (purge_expired p now s)"
  let ?sess = "dict_get_default (ld_sessions ?s1) (session_key r) (new_session now)"
  have a: "br_action (fst (grant p now lid r ?sess ?s2)) = ALLOW" by simp
  note d = assms [unfolded reserve_def Let_def]
  show ?thesis
  proof (cases "request_findings p r = []")
    case False
    then show ?thesis using d by (intro refused_input) auto
  next
    case True
    note d = d [unfolded True, simplified]
    show ?thesis
    proof (cases "dict_get (ld_seen ?s1) (rr_reservation_id r) = None \<and>
        (dict_get (ld_sessions ?s1) (session_key r) \<noteq> None \<or>
         length (ld_sessions ?s1) < bp_max_tracked_sessions p)")
      case False
      then show ?thesis using d by (intro refused_early) (auto split: if_splits)
    next
      case ok: True
      show ?thesis
      proof (cases "state_findings p now r ?sess
          (dict_get_default (ld_principal_windows ?s2) (principal_key_of r) [])
          (dict_get_default (ld_tenant_windows ?s2) (ri_tenant_id (rr_identity r)) [])
          (dict_get_default (ld_principal_active ?s2) (principal_key_of r) 0)
          (dict_get_default (ld_tenant_active ?s2) (ri_tenant_id (rr_identity r)) 0)
          (length (ld_seen ?s2)) = []")
        case False
        then show ?thesis using d ok by (intro refused_state) (auto split: if_splits)
      next
        case sf: True
        then have g: "(res, s') = grant p now lid r ?sess ?s2" using d ok by (auto split: if_splits)
        with a have "br_action res = ALLOW" by (metis fst_conv)
        show ?thesis by (rule granted [OF refl refl \<open>br_action res = ALLOW\<close> g True _ _ sf])
          (use ok in simp_all)
      qed
    qed
  qed
qed

section \<open>The concurrency counters count the leases\<close>

text \<open>The number of active leases with a property.\<close>

definition held :: "(lease_state \<Rightarrow> bool) \<Rightarrow> ledger \<Rightarrow> nat" where
  "held P s = length (filter (\<lambda>e. P (snd e)) (ld_leases s))"

definition lease_principal :: "lease_state \<Rightarrow> principal_key" where
  "lease_principal st = (le_tenant_id st, le_principal_id st)"

abbreviation by_principal :: "principal_key \<Rightarrow> lease_state \<Rightarrow> bool" where
  "by_principal pk \<equiv> \<lambda>st. lease_principal st = pk"

abbreviation by_tenant :: "ident \<Rightarrow> lease_state \<Rightarrow> bool" where
  "by_tenant tk \<equiv> \<lambda>st. le_tenant_id st = tk"

definition counters_ok :: "ledger \<Rightarrow> bool" where
  "counters_ok s \<longleftrightarrow> dict_ok (ld_leases s) \<and>
     (\<forall>pk. dict_get_default (ld_principal_active s) pk 0 = held (by_principal pk) s) \<and>
     (\<forall>tk. dict_get_default (ld_tenant_active s) tk 0 = held (by_tenant tk) s)"

lemma release_count_get:
  "dict_get_default (release_count m k) j 0 =
     (if j = k then dict_get_default m k 0 - 1 else dict_get_default m j 0)"
  by (auto simp: release_count_def Let_def)

lemma release_lease_None: "dict_get (ld_leases s) lid = None \<Longrightarrow> release_lease lid s = (False, s)"
  by (simp add: release_lease_def)

lemma held_release:
  assumes "dict_ok (ld_leases s)" and "dict_get (ld_leases s) lid = Some st"
  shows "held P (snd (release_lease lid s)) = held P s - (if P st then 1 else 0)"
  using length_filter_dict_del [OF assms, of "\<lambda>e. P (snd e)"] assms(2)
  by (simp add: held_def release_lease_def)

lemma counters_ok_release: "counters_ok s \<Longrightarrow> counters_ok (snd (release_lease lid s))"
proof (cases "dict_get (ld_leases s) lid")
  case (Some st)
  assume c: "counters_ok s"
  have h: "held P (snd (release_lease lid s)) = held P s - (if P st then 1 else 0)" for P
    using held_release [OF _ Some] c by (simp add: counters_ok_def)
  show ?thesis using c unfolding counters_ok_def h
    by (simp add: release_lease_def Some release_count_get lease_principal_def [symmetric]
        del: split_paired_All)
qed (simp add: release_lease_None)

lemma held_release_le: "dict_ok (ld_leases s) \<Longrightarrow> held P (snd (release_lease lid s)) \<le> held P s"
  by (cases "dict_get (ld_leases s) lid") (simp_all add: release_lease_None held_release)

text \<open>What releasing never changes.\<close>

lemma release_lease_simps [simp]:
  "ld_sessions (snd (release_lease lid s)) = ld_sessions s"
  "ld_seen (snd (release_lease lid s)) = ld_seen s"
  "ld_principal_windows (snd (release_lease lid s)) = ld_principal_windows s"
  "ld_tenant_windows (snd (release_lease lid s)) = ld_tenant_windows s"
  "ld_leases (snd (release_lease lid s)) = dict_del (ld_leases s) lid"
  by (auto simp: release_lease_def dict_del_absent split: option.splits)

lemma release_expired_fold:
  assumes "\<And>s lid. I s \<Longrightarrow> I (snd (release_lease lid s))" and "I s"
  shows "I (fold (release_expired now) es s)"
  using assms(2)
  by (induction es arbitrary: s) (simp_all add: release_expired_def assms(1))

lemma release_expired_fold_simps [simp]:
  "ld_sessions (fold (release_expired now) es s) = ld_sessions s"
  "ld_seen (fold (release_expired now) es s) = ld_seen s"
  "ld_principal_windows (fold (release_expired now) es s) = ld_principal_windows s"
  "ld_tenant_windows (fold (release_expired now) es s) = ld_tenant_windows s"
  by (induction es arbitrary: s) (simp_all add: release_expired_def)

lemma counters_ok_cong:
  "ld_leases s' = ld_leases s \<Longrightarrow> ld_principal_active s' = ld_principal_active s \<Longrightarrow>
   ld_tenant_active s' = ld_tenant_active s \<Longrightarrow> counters_ok s' = counters_ok s"
  by (simp add: counters_ok_def held_def)

lemma counters_ok_purge: "counters_ok s \<Longrightarrow> counters_ok (purge_expired p now s)"
proof -
  assume "counters_ok s"
  then have "counters_ok (fold (release_expired now) (ld_leases s) s)"
    by (rule release_expired_fold [rotated]) (rule counters_ok_release)
  then show ?thesis by (subst counters_ok_cong) (simp_all add: purge_expired_def Let_def)
qed

lemma touch_windows_simps [simp]:
  "ld_sessions (touch_windows p now r s) = ld_sessions s"
  "ld_seen (touch_windows p now r s) = ld_seen s"
  "ld_leases (touch_windows p now r s) = ld_leases s"
  "ld_principal_active (touch_windows p now r s) = ld_principal_active s"
  "ld_tenant_active (touch_windows p now r s) = ld_tenant_active s"
  by (simp_all add: touch_windows_def Let_def)

lemma counters_ok_touch: "counters_ok s \<Longrightarrow> counters_ok (touch_windows p now r s)"
  by (simp add: counters_ok_def held_def)

lemma held_grant:
  assumes "dict_get (ld_leases s) lid = None"
  shows "held (by_principal pk) (snd (grant p now lid r sess s)) =
      held (by_principal pk) s + (if principal_key_of r = pk then 1 else 0)"
    and "held (by_tenant tk) (snd (grant p now lid r sess s)) =
      held (by_tenant tk) s + (if ri_tenant_id (rr_identity r) = tk then 1 else 0)"
  by (auto simp: held_def grant_def Let_def principal_key_of_def lease_principal_def
      length_filter_dict_set_fresh [OF assms])

lemma counters_ok_grant:
  assumes "counters_ok s" and "dict_get (ld_leases s) lid = None"
  shows "counters_ok (snd (grant p now lid r sess s))"
  using assms(1) unfolding counters_ok_def held_grant [OF assms(2)]
  by (simp add: grant_def Let_def del: split_paired_All)

lemma purge_leases_None: "dict_get (ld_leases s) lid = None \<Longrightarrow> dict_get (ld_leases (purge_expired p now s)) lid = None"
proof -
  assume "dict_get (ld_leases s) lid = None"
  then have "dict_get (ld_leases (fold (release_expired now) (ld_leases s) s)) lid = None"
    by (rule release_expired_fold [rotated]) simp
  then show ?thesis by (simp add: purge_expired_def Let_def)
qed

section \<open>The limits hold in every reachable state\<close>

definition session_ok :: "budget_policy \<Rightarrow> session_state \<Rightarrow> bool" where
  "session_ok p ss \<longleftrightarrow> ss_tokens_reserved ss \<le> bp_max_session_tokens p \<and>
     ss_tool_actions ss \<le> bp_max_tool_actions_per_session p \<and>
     (\<forall>op. dict_get_default (ss_operation_attempts ss) op 0 \<le> bp_max_retries_per_operation p + 1)"

definition concurrency_ok :: "budget_policy \<Rightarrow> ledger \<Rightarrow> bool" where
  "concurrency_ok p s \<longleftrightarrow>
     (\<forall>pk. held (by_principal pk) s \<le> bp_max_concurrent_per_principal p) \<and>
     (\<forall>tk. held (by_tenant tk) s \<le> bp_max_concurrent_per_tenant p)"

definition sessions_ok :: "budget_policy \<Rightarrow> ledger \<Rightarrow> bool" where
  "sessions_ok p s \<longleftrightarrow> (\<forall>e \<in> set (ld_sessions s). session_ok p (snd e)) \<and>
     length (ld_sessions s) \<le> bp_max_tracked_sessions p"

definition seen_ok :: "budget_policy \<Rightarrow> ledger \<Rightarrow> bool" where
  "seen_ok p s \<longleftrightarrow> length (ld_seen s) \<le> bp_max_tracked_reservations p"

definition ledger_ok :: "budget_policy \<Rightarrow> ledger \<Rightarrow> bool" where
  "ledger_ok p s \<longleftrightarrow> counters_ok s \<and> concurrency_ok p s \<and> sessions_ok p s \<and> seen_ok p s"

inductive ledger_reach :: "budget_policy \<Rightarrow> ledger \<Rightarrow> bool" for p where
  start: "ledger_reach p empty_ledger"
| reserve: "ledger_reach p s \<Longrightarrow> dict_get (ld_leases s) lid = None \<Longrightarrow>
    ledger_reach p (snd (reserve p now lid r s))"
| complete: "ledger_reach p s \<Longrightarrow> ledger_reach p (snd (complete p now c s))"
| cancel: "ledger_reach p s \<Longrightarrow> ledger_reach p (snd (cancel lid s))"

lemma concurrency_ok_release:
  "dict_ok (ld_leases s) \<Longrightarrow> concurrency_ok p s \<Longrightarrow> concurrency_ok p (snd (release_lease lid s))"
  unfolding concurrency_ok_def by (meson held_release_le order_trans)

lemma ledger_ok_release: "ledger_ok p s \<Longrightarrow> ledger_ok p (snd (release_lease lid s))"
  by (simp add: ledger_ok_def counters_ok_release concurrency_ok_release sessions_ok_def seen_ok_def
      counters_ok_def [THEN iffD1, THEN conjunct1])

lemma purge_fields [simp]:
  "ld_sessions (purge_expired p now s) = filter (session_retained p now
     (ld_leases (fold (release_expired now) (ld_leases s) s))) (ld_sessions s)"
  "ld_seen (purge_expired p now s) = popleft_while (\<lambda>(_, e). e \<le> now) (ld_seen s)"
  "ld_principal_windows (purge_expired p now s) =
     purge_windows (ld_principal_windows s) (now - bp_request_window p)"
  "ld_tenant_windows (purge_expired p now s) =
     purge_windows (ld_tenant_windows s) (now - bp_request_window p)"
  "ld_leases (purge_expired p now s) = ld_leases (fold (release_expired now) (ld_leases s) s)"
  by (simp_all add: purge_expired_def Let_def)

lemma ledger_ok_purge: "ledger_ok p s \<Longrightarrow> ledger_ok p (purge_expired p now s)"
proof -
  assume ok: "ledger_ok p s"
  have "ledger_ok p (fold (release_expired now) (ld_leases s) s)"
    by (rule release_expired_fold [where I = "ledger_ok p"]) (simp_all add: ledger_ok_release ok)
  then have "concurrency_ok p (purge_expired p now s)"
    by (simp add: ledger_ok_def concurrency_ok_def held_def)
  moreover have "sessions_ok p (purge_expired p now s)" "seen_ok p (purge_expired p now s)"
    using ok by (auto simp: ledger_ok_def sessions_ok_def seen_ok_def
        intro: order_trans [OF length_filter_le] order_trans [OF length_popleft_while])
  ultimately show ?thesis using ok by (simp add: ledger_ok_def counters_ok_purge)
qed

lemma ledger_ok_touch: "ledger_ok p s \<Longrightarrow> ledger_ok p (touch_windows p now r s)"
  by (simp add: ledger_ok_def counters_ok_touch concurrency_ok_def sessions_ok_def seen_ok_def held_def)

lemma state_findings_Nil:
  "state_findings p now r ss pw tw pa ta n = [] \<longleftrightarrow>
     now - ss_first_seen ss < bp_max_session_duration p \<and>
     ss_tokens_reserved ss + (rr_input_tokens r + rr_requested_output_tokens r) \<le> bp_max_session_tokens p \<and>
     dict_get_default (ss_operation_attempts ss) (ri_operation_id (rr_identity r)) 0
       \<le> bp_max_retries_per_operation p \<and>
     ss_tool_actions ss + (if rr_kind r = TOOL_OP then 1 else 0) \<le> bp_max_tool_actions_per_session p \<and>
     length pw < bp_max_requests_per_principal_window p \<and>
     length tw < bp_max_requests_per_tenant_window p \<and>
     pa < bp_max_concurrent_per_principal p \<and> ta < bp_max_concurrent_per_tenant p \<and>
     n < bp_max_tracked_reservations p"
  by (auto simp: state_findings_def Let_def map_snd_filter_fst_Nil)

lemma session_ok_charge:
  assumes "session_ok p ss" and "state_findings p now r ss pw tw pa ta n = []"
  shows "session_ok p (charge_session r ss)"
  using assms by (auto simp: session_ok_def state_findings_Nil charge_session_def Let_def)

lemma grant_fields:
  "ld_sessions (snd (grant p now lid r ss s)) =
     dict_set (ld_sessions s) (session_key r) (charge_session r ss)"
  "ld_seen (snd (grant p now lid r ss s)) =
     dict_set (ld_seen s) (rr_reservation_id r) (now + bp_max_session_duration p)"
  "ld_principal_windows (snd (grant p now lid r ss s)) =
     dict_set (ld_principal_windows s) (principal_key_of r)
       (dict_get_default (ld_principal_windows s) (principal_key_of r) [] @ [now])"
  "ld_tenant_windows (snd (grant p now lid r ss s)) =
     dict_set (ld_tenant_windows s) (ri_tenant_id (rr_identity r))
       (dict_get_default (ld_tenant_windows s) (ri_tenant_id (rr_identity r)) [] @ [now])"
  by (simp_all add: grant_def Let_def)

lemma new_session_ok [simp]: "session_ok p (new_session now)"
  by (simp add: session_ok_def new_session_def)

lemma dict_get_default_in:
  "(\<And>e. e \<in> set m \<Longrightarrow> P (snd e)) \<Longrightarrow> P d \<Longrightarrow> P (dict_get_default m k d)"
  by (auto simp: dict_get_default_def split: option.splits dest!: map_of_SomeD)

lemma ledger_ok_grant:
  assumes "ledger_ok p s" and "dict_get (ld_leases s) lid = None"
    and "ss = dict_get_default (ld_sessions s) (session_key r) (new_session now)"
    and "dict_get (ld_sessions s) (session_key r) \<noteq> None \<or> length (ld_sessions s) < bp_max_tracked_sessions p"
    and "state_findings p now r ss pw tw
      (dict_get_default (ld_principal_active s) (principal_key_of r) 0)
      (dict_get_default (ld_tenant_active s) (ri_tenant_id (rr_identity r)) 0) (length (ld_seen s)) = []"
  shows "ledger_ok p (snd (grant p now lid r ss s))"
proof -
  note ok = assms(1) [unfolded ledger_ok_def]
  note sf = assms(5) [unfolded state_findings_Nil]
  have "session_ok p ss"
    unfolding assms(3) using ok
    by (intro dict_get_default_in [where P = "session_ok p"]) (auto simp: sessions_ok_def)
  then have "session_ok p (charge_session r ss)" using session_ok_charge assms(5) by blast
  then have "sessions_ok p (snd (grant p now lid r ss s))"
    using ok assms(4) dict_set_subset [of "session_key r" "charge_session r ss" "ld_sessions s"]
    by (auto simp: sessions_ok_def grant_fields length_dict_set)
  moreover have "seen_ok p (snd (grant p now lid r ss s))"
    using ok sf by (auto simp: seen_ok_def grant_fields length_dict_set)
  moreover have "concurrency_ok p (snd (grant p now lid r ss s))"
    using ok sf unfolding concurrency_ok_def held_grant [OF assms(2)]
    by (auto simp: counters_ok_def simp del: split_paired_All)
  ultimately show ?thesis using ok assms(2) by (simp add: ledger_ok_def counters_ok_grant)
qed

lemma ledger_ok_reserve:
  assumes "ledger_ok p s" and "dict_get (ld_leases s) lid = None"
  shows "ledger_ok p (snd (reserve p now lid r s))"
proof (rule reserve_cases [of p now lid r s "fst (reserve p now lid r s)" "snd (reserve p now lid r s)"])
  fix s2 sess
  assume s2: "s2 = touch_windows p now r (purge_expired p now s)"
    and sess: "sess = dict_get_default (ld_sessions (purge_expired p now s)) (session_key r) (new_session now)"
    and g: "(fst (reserve p now lid r s), snd (reserve p now lid r s)) = grant p now lid r sess s2"
    and room: "dict_get (ld_sessions (purge_expired p now s)) (session_key r) \<noteq> None \<or>
         length (ld_sessions (purge_expired p now s)) < bp_max_tracked_sessions p"
    and sf: "state_findings p now r sess
         (dict_get_default (ld_principal_windows s2) (principal_key_of r) [])
         (dict_get_default (ld_tenant_windows s2) (ri_tenant_id (rr_identity r)) [])
         (dict_get_default (ld_principal_active s2) (principal_key_of r) 0)
         (dict_get_default (ld_tenant_active s2) (ri_tenant_id (rr_identity r)) 0)
         (length (ld_seen s2)) = []"
  have "ledger_ok p (snd (grant p now lid r sess s2))"
  proof (rule ledger_ok_grant [OF _ _ _ _ sf])
    show "ledger_ok p s2" using assms(1) by (simp add: s2 ledger_ok_touch ledger_ok_purge)
    show "dict_get (ld_leases s2) lid = None"
      using purge_leases_None [OF assms(2)] by (simp add: s2)
  qed (use sess room in \<open>simp_all add: s2\<close>)
  then show ?thesis using g by (metis snd_conv)
qed (use assms in \<open>simp_all add: ledger_ok_purge ledger_ok_touch\<close>)

lemma complete_state:
  "snd (complete p now c s) =
     (if dict_get (ld_leases s) (cr_lease_id c) = None then s else snd (release_lease (cr_lease_id c) s))"
  by (auto simp: complete_def Let_def split: option.splits)

lemma ledger_ok_reach: "ledger_reach p s \<Longrightarrow> ledger_ok p s"
proof (induction rule: ledger_reach.induct)
  case start
  show ?case
    by (simp add: ledger_ok_def empty_ledger_def counters_ok_def concurrency_ok_def sessions_ok_def
        seen_ok_def held_def)
qed (simp_all add: ledger_ok_reserve complete_state cancel_def ledger_ok_release)

text \<open>
  C29: the ledger never over-admits. In every state reachable by reservations, completions and
  cancellations at any clock readings: the leases active for a principal and for a tenant stay
  within their concurrency limits; every tracked session stays within its token, tool-action and
  per-operation retry budgets; and both tracking tables stay within their capacities.
\<close>

theorem ledger_limits:
  assumes "ledger_reach p s"
  shows "(\<forall>pk. held (by_principal pk) s \<le> bp_max_concurrent_per_principal p) \<and>
    (\<forall>tk. held (by_tenant tk) s \<le> bp_max_concurrent_per_tenant p) \<and>
    (\<forall>e \<in> set (ld_sessions s). session_ok p (snd e)) \<and>
    length (ld_sessions s) \<le> bp_max_tracked_sessions p \<and>
    length (ld_seen s) \<le> bp_max_tracked_reservations p"
  using ledger_ok_reach [OF assms]
  by (simp add: ledger_ok_def concurrency_ok_def sessions_ok_def seen_ok_def)

section \<open>Rolling windows\<close>

text \<open>
  A history of the ledger under a clock that does not run backwards: the state, the last clock
  reading, and the reservations granted so far, each with its time.
\<close>

inductive ledger_history ::
  "budget_policy \<Rightarrow> ledger \<Rightarrow> seconds \<Rightarrow> (seconds \<times> reservation_request) list \<Rightarrow> bool" for p where
  start: "ledger_history p empty_ledger t []"
| reserve: "ledger_history p s t h \<Longrightarrow> t \<le> now \<Longrightarrow> reserve p now lid r s = (res, s') \<Longrightarrow>
    ledger_history p s' now (if br_action res = ALLOW then h @ [(now, r)] else h)"
| complete: "ledger_history p s t h \<Longrightarrow> t \<le> now \<Longrightarrow>
    ledger_history p (snd (complete p now c s)) now h"
| cancel: "ledger_history p s t h \<Longrightarrow> ledger_history p (snd (cancel lid s)) t h"

definition grant_times :: "('k \<Rightarrow> bool) \<Rightarrow> (reservation_request \<Rightarrow> 'k) \<Rightarrow>
    (seconds \<times> reservation_request) list \<Rightarrow> seconds list" where
  "grant_times P f h = map fst (filter (\<lambda>(_, r). P (f r)) h)"

lemma grant_times_snoc [simp]:
  "grant_times P f (h @ [(now, r)]) = grant_times P f h @ (if P (f r) then [now] else [])"
  by (simp add: grant_times_def)

text \<open>The window holds the end of the granted times; what precedes it is older than the cutoff.\<close>

definition window_tail :: "seconds \<Rightarrow> seconds list \<Rightarrow> seconds list \<Rightarrow> bool" where
  "window_tail cutoff ts w \<longleftrightarrow> (\<exists>old. ts = old @ w \<and> (\<forall>t \<in> set old. t \<le> cutoff))"

lemma window_tail_mono: "window_tail c ts w \<Longrightarrow> c \<le> c' \<Longrightarrow> window_tail c' ts w"
  unfolding window_tail_def by force

lemma window_tail_purge: "window_tail c ts w \<Longrightarrow> window_tail c ts (purge_window c w)"
proof -
  assume "window_tail c ts w"
  then obtain old where old: "ts = old @ w" "\<forall>t \<in> set old. t \<le> c" by (auto simp: window_tail_def)
  have "ts = (old @ takeWhile (\<lambda>t. t \<le> c) w) @ purge_window c w"
    by (simp add: old purge_window_def)
  moreover have "\<forall>t \<in> set (old @ takeWhile (\<lambda>t. t \<le> c) w). t \<le> c"
    using old by (auto dest: set_takeWhileD)
  ultimately show ?thesis unfolding window_tail_def by blast
qed

lemma window_tail_snoc: "window_tail c ts w \<Longrightarrow> window_tail c (ts @ [t]) (w @ [t])"
  by (auto simp: window_tail_def)

definition rolling_ok :: "seconds \<Rightarrow> nat \<Rightarrow> seconds list \<Rightarrow> bool" where
  "rolling_ok width n ts \<longleftrightarrow> (\<forall>a. length (filter (\<lambda>t. a < t \<and> t \<le> a + width) ts) \<le> n)"

lemma rolling_step:
  assumes "rolling_ok width n ts" and "window_tail (now - width) ts w" and "length w < n"
  shows "rolling_ok width n (ts @ [now])"
  unfolding rolling_ok_def
proof
  fix a
  let ?in = "\<lambda>t. a < t \<and> t \<le> a + width"
  show "length (filter ?in (ts @ [now])) \<le> n"
  proof (cases "?in now")
    case False
    then show ?thesis using assms(1) by (auto simp: rolling_ok_def)
  next
    case True
    obtain old where old: "ts = old @ w" "\<forall>t \<in> set old. t \<le> now - width"
      using assms(2) by (auto simp: window_tail_def)
    have "filter ?in old = []" using old(2) True by (force simp: filter_empty_conv)
    then have "length (filter ?in ts) \<le> length w" by (simp add: old(1))
    then show ?thesis using assms(3) by simp
  qed
qed

lemma purge_windows_get:
  "dict_ok ws \<Longrightarrow> dict_get_default (purge_windows ws c) k [] = purge_window c (dict_get_default ws k [])"
proof (induction ws)
  case (Cons e ws)
  obtain j w where e: "e = (j, w)" by (cases e)
  have "j \<notin> dict_keys ws" "dict_ok ws" using Cons.prems by (auto simp: dict_ok_def e)
  moreover have "j \<notin> dict_keys (purge_windows ws c)"
    using calculation(1) by (force simp: purge_windows_def)
  then have "dict_get (purge_windows ws c) j = None" by (simp add: map_of_eq_None_iff)
  ultimately show ?case using Cons.IH
    by (auto simp: e purge_windows_def dict_get_default_def split: option.splits)
qed (simp add: purge_windows_def purge_window_def dict_get_default_def)

lemma dict_ok_purge_windows [simp]: "dict_ok ws \<Longrightarrow> dict_ok (purge_windows ws c)"
proof -
  assume "dict_ok ws"
  then have "dict_ok (map (\<lambda>(k, w). (k, purge_window c w)) ws)"
    by (simp add: dict_ok_def comp_def split_def)
  then show ?thesis unfolding purge_windows_def by (rule dict_ok_filter)
qed

text \<open>The invariant of one window table, for the key function it is indexed by.\<close>

definition table_ok ::
  "seconds \<Rightarrow> nat \<Rightarrow> seconds \<Rightarrow> ('k, seconds list) dict \<Rightarrow> (reservation_request \<Rightarrow> 'k) \<Rightarrow>
   (seconds \<times> reservation_request) list \<Rightarrow> bool" where
  "table_ok width n now ws f h \<longleftrightarrow> dict_ok ws \<and>
     (\<forall>k. window_tail (now - width) (grant_times ((=) k) f h) (dict_get_default ws k []) \<and>
          rolling_ok width n (grant_times ((=) k) f h))"

lemma table_ok_later: "table_ok width n t ws f h \<Longrightarrow> t \<le> now \<Longrightarrow> table_ok width n now ws f h"
  unfolding table_ok_def by (auto intro: window_tail_mono)

lemma table_ok_purge:
  "table_ok width n now ws f h \<Longrightarrow> table_ok width n now (purge_windows ws (now - width)) f h"
  by (auto simp: table_ok_def purge_windows_get intro: window_tail_purge)

lemma table_ok_touch:
  "table_ok width n now ws f h \<Longrightarrow>
   table_ok width n now (dict_set ws k (purge_window (now - width) (dict_get_default ws k []))) f h"
  by (auto simp: table_ok_def intro: window_tail_purge)

lemma table_ok_grant:
  assumes "table_ok width n now ws f h" and "length (dict_get_default ws (f r) []) < n"
  shows "table_ok width n now (dict_set ws (f r) (dict_get_default ws (f r) [] @ [now])) f (h @ [(now, r)])"
  using assms by (auto simp: table_ok_def intro: window_tail_snoc rolling_step)

definition tables_ok ::
  "budget_policy \<Rightarrow> ledger \<Rightarrow> seconds \<Rightarrow> (seconds \<times> reservation_request) list \<Rightarrow> bool" where
  "tables_ok p s now h \<longleftrightarrow>
     table_ok (bp_request_window p) (bp_max_requests_per_principal_window p) now
       (ld_principal_windows s) principal_key_of h \<and>
     table_ok (bp_request_window p) (bp_max_requests_per_tenant_window p) now
       (ld_tenant_windows s) (\<lambda>r. ri_tenant_id (rr_identity r)) h"

lemma tables_ok_purge: "tables_ok p s now h \<Longrightarrow> tables_ok p (purge_expired p now s) now h"
  by (simp add: tables_ok_def table_ok_purge)

lemma tables_ok_touch: "tables_ok p s now h \<Longrightarrow> tables_ok p (touch_windows p now r s) now h"
  by (simp add: tables_ok_def touch_windows_def Let_def ledger_window_def table_ok_touch)

lemma tables_ok_reserve:
  assumes "tables_ok p s now h" and "reserve p now lid r s = (res, s')"
  shows "tables_ok p s' now (if br_action res = ALLOW then h @ [(now, r)] else h)"
  using assms(2)
proof (cases rule: reserve_cases)
  case refused_input
  then show ?thesis using assms(1) by simp
next
  case refused_early
  then show ?thesis using tables_ok_purge [OF assms(1)] by simp
next
  case refused_state
  then show ?thesis using tables_ok_touch [OF tables_ok_purge [OF assms(1)]] by simp
next
  case (granted s2 sess)
  have "tables_ok p s2 now h"
    unfolding granted(1) by (rule tables_ok_touch [OF tables_ok_purge [OF assms(1)]])
  moreover have "s' = snd (grant p now lid r sess s2)" using granted(4) by (metis snd_conv)
  ultimately show ?thesis using granted(3) granted(8) [unfolded state_findings_Nil]
      table_ok_grant [where f = principal_key_of and r = r and h = h]
      table_ok_grant [where f = "\<lambda>r. ri_tenant_id (rr_identity r)" and r = r and h = h]
    by (simp add: tables_ok_def grant_fields)
qed

lemma tables_ok_cong:
  "ld_principal_windows s' = ld_principal_windows s \<Longrightarrow> ld_tenant_windows s' = ld_tenant_windows s \<Longrightarrow>
   tables_ok p s' = tables_ok p s"
  by (simp add: tables_ok_def fun_eq_iff)

lemma tables_ok_history: "ledger_history p s t h \<Longrightarrow> tables_ok p s t h"
proof (induction rule: ledger_history.induct)
  case (start t)
  show ?case
    by (simp add: tables_ok_def table_ok_def empty_ledger_def window_tail_def rolling_ok_def grant_times_def)
next
  case (reserve s t h now lid r res s')
  then show ?case
    by (intro tables_ok_reserve) (auto simp: tables_ok_def intro: table_ok_later)
next
  case (complete s t h now c)
  then show ?case
    by (subst tables_ok_cong [of _ s]) (auto simp: complete_state tables_ok_def intro: table_ok_later)
next
  case (cancel s t h lid)
  then show ?case
    by (subst tables_ok_cong [of _ s]) (simp_all add: cancel_def)
qed

lemma grants_in_interval:
  "length (filter (\<lambda>(u, r). f r = k \<and> a < u \<and> u \<le> a + w) h) =
   length (filter (\<lambda>u. a < u \<and> u \<le> a + w) (grant_times ((=) k) f h))"
  by (induction h) (auto simp: grant_times_def)

text \<open>
  The request windows roll. Along every history with a clock that does not run backwards, no
  half-open interval of the window length, wherever it starts, contains more than the allowed
  number of granted reservations of one principal, or of one tenant; completions, cancellations
  and changing session identifiers do not help.
\<close>

theorem rolling_window_limits:
  assumes "ledger_history p s t h"
  shows "length (filter (\<lambda>(u, r). principal_key_of r = pk \<and> a < u \<and> u \<le> a + bp_request_window p) h)
      \<le> bp_max_requests_per_principal_window p \<and>
    length (filter (\<lambda>(u, r). ri_tenant_id (rr_identity r) = tk \<and> a < u \<and> u \<le> a + bp_request_window p) h)
      \<le> bp_max_requests_per_tenant_window p"
  unfolding grants_in_interval using tables_ok_history [OF assms]
  by (simp add: tables_ok_def table_ok_def rolling_ok_def del: split_paired_All)

section \<open>Replays, refusals and leases\<close>

lemma dict_get_popleft:
  "dict_get m k = Some v \<Longrightarrow> \<not> P (k, v) \<Longrightarrow> dict_ok m \<Longrightarrow> dict_get (popleft_while P m) k = Some v"
  by (induction m) (auto simp: dict_ok_def split: if_splits)

lemma popleft_while_twice: "popleft_while P (popleft_while P xs) = popleft_while P xs"
  by (induction xs) simp_all

lemma dict_ok_popleft: "dict_ok m \<Longrightarrow> dict_ok (popleft_while P m)"
  by (induction m) (auto simp: dict_ok_def)

definition replay_ok ::
  "budget_policy \<Rightarrow> ledger \<Rightarrow> seconds \<Rightarrow> (seconds \<times> reservation_request) list \<Rightarrow> bool" where
  "replay_ok p s t h \<longleftrightarrow> dict_ok (ld_seen s) \<and>
     (\<forall>u r. (u, r) \<in> set h \<longrightarrow> t < u + bp_max_session_duration p \<longrightarrow>
        (\<exists>e. dict_get (ld_seen s) (rr_reservation_id r) = Some e \<and> u + bp_max_session_duration p \<le> e)) \<and>
     sorted_wrt (\<lambda>(u, r) (u', r'). rr_reservation_id r = rr_reservation_id r' \<longrightarrow>
        u + bp_max_session_duration p \<le> u') h"

lemma replay_ok_later: "replay_ok p s t h \<Longrightarrow> t \<le> now \<Longrightarrow> replay_ok p s now h"
  by (fastforce simp: replay_ok_def)

lemma replay_ok_cong: "ld_seen s' = ld_seen s \<Longrightarrow> replay_ok p s' = replay_ok p s"
  by (simp add: replay_ok_def fun_eq_iff)

lemma replay_ok_purge:
  assumes "replay_ok p s now h"
  shows "replay_ok p (purge_expired p now s) now h"
proof -
  have "\<exists>e. dict_get (popleft_while (\<lambda>(_, e). e \<le> now) (ld_seen s)) (rr_reservation_id r) = Some e \<and>
      u + bp_max_session_duration p \<le> e"
    if "(u, r) \<in> set h" "now < u + bp_max_session_duration p" for u r
  proof -
    note hyps = that
    obtain e where e: "dict_get (ld_seen s) (rr_reservation_id r) = Some e"
      "u + bp_max_session_duration p \<le> e" "dict_ok (ld_seen s)"
      using assms hyps by (auto simp: replay_ok_def)
    then have "dict_get (popleft_while (\<lambda>(_, e). e \<le> now) (ld_seen s)) (rr_reservation_id r) = Some e"
      using hyps(2) by (intro dict_get_popleft) auto
    with e(2) show ?thesis by blast
  qed
  then show ?thesis using assms by (auto simp: replay_ok_def dict_ok_popleft)
qed

lemma replay_ok_grant:
  assumes "replay_ok p s now h" and "dict_get (ld_seen s) (rr_reservation_id r) = None"
  shows "replay_ok p (snd (grant p now lid r ss s)) now (h @ [(now, r)])"
proof -
  have "u + bp_max_session_duration p \<le> now"
    if "(u, r') \<in> set h" "rr_reservation_id r' = rr_reservation_id r" for u r'
  proof (rule ccontr)
    assume "\<not> u + bp_max_session_duration p \<le> now"
    then have "dict_get (ld_seen s) (rr_reservation_id r') \<noteq> None"
      using assms(1) that(1) by (fastforce simp: replay_ok_def)
    then show False using assms(2) that(2) by simp
  qed
  note old = this
  show ?thesis using assms by (auto simp: replay_ok_def grant_fields sorted_wrt_append dest: old)
qed

lemma replay_ok_history: "ledger_history p s t h \<Longrightarrow> replay_ok p s t h"
proof (induction rule: ledger_history.induct)
  case (start t)
  show ?case by (simp add: replay_ok_def empty_ledger_def)
next
  case (reserve s t h now lid r res s')
  have now: "replay_ok p s now h" using reserve replay_ok_later by blast
  note purged = replay_ok_purge [OF now]
  show ?case using reserve(3)
  proof (cases rule: reserve_cases)
    case refused_state
    have "replay_ok p s' = replay_ok p (purge_expired p now s)"
      unfolding refused_state(2) by (rule replay_ok_cong) simp
    then show ?thesis using refused_state purged by simp
  next
    case (granted s2 sess)
    have "replay_ok p s2 = replay_ok p (purge_expired p now s)"
      unfolding granted(1) by (rule replay_ok_cong) simp
    then have "replay_ok p (snd (grant p now lid r sess s2)) now (h @ [(now, r)])"
      using purged granted(1,6) by (intro replay_ok_grant) simp_all
    moreover have "s' = snd (grant p now lid r sess s2)" using granted(4) by (metis snd_conv)
    ultimately show ?thesis using granted(3) by simp
  qed (use now purged in simp_all)
next
  case (complete s t h now c)
  have "replay_ok p (snd (complete p now c s)) = replay_ok p s"
    by (rule replay_ok_cong) (simp add: complete_state)
  then show ?case using complete replay_ok_later by simp
next
  case (cancel s t h lid)
  have "replay_ok p (snd (cancel lid s)) = replay_ok p s"
    by (rule replay_ok_cong) (simp add: cancel_def)
  then show ?case using cancel by simp
qed

text \<open>
  Reservation identifiers are replay-resistant. Two grants of one reservation identifier in a
  history are at least one full session duration apart, although the table that remembers them is
  bounded and purged.
\<close>

theorem reservation_replay_refused:
  assumes "ledger_history p s t h" and "i < j" and "j < length h"
    and "rr_reservation_id (snd (h ! i)) = rr_reservation_id (snd (h ! j))"
  shows "fst (h ! i) + bp_max_session_duration p \<le> fst (h ! j)"
  using replay_ok_history [OF assms(1)] assms(2-)
  by (auto simp: replay_ok_def sorted_wrt_iff_nth_less split_def)

text \<open>
  A refused reservation consumes nothing. Sessions, leases, concurrency counters, the replay
  table and the content of every request window are those of the ledger, at most with expired
  entries purged: the request leaves no charge behind on any of the refusing paths.
\<close>

theorem refused_reservation_free:
  assumes "br_action (fst (reserve p now lid r s)) = BLOCK"
  shows "\<exists>s1 \<in> {s, purge_expired p now s}.
    ld_sessions (snd (reserve p now lid r s)) = ld_sessions s1 \<and>
    ld_leases (snd (reserve p now lid r s)) = ld_leases s1 \<and>
    ld_principal_active (snd (reserve p now lid r s)) = ld_principal_active s1 \<and>
    ld_tenant_active (snd (reserve p now lid r s)) = ld_tenant_active s1 \<and>
    ld_seen (snd (reserve p now lid r s)) = ld_seen s1 \<and>
    (\<forall>k. ledger_window p (ld_principal_windows (snd (reserve p now lid r s))) k now =
         ledger_window p (ld_principal_windows s1) k now) \<and>
    (\<forall>k. ledger_window p (ld_tenant_windows (snd (reserve p now lid r s))) k now =
         ledger_window p (ld_tenant_windows s1) k now)"
proof (rule reserve_cases [of p now lid r s "fst (reserve p now lid r s)" "snd (reserve p now lid r s)"])
  assume "snd (reserve p now lid r s) = touch_windows p now r (purge_expired p now s)"
  then show ?thesis
    by (auto simp: touch_windows_def Let_def ledger_window_def purge_window_def popleft_while_twice
        simp del: purge_fields intro!: bexI [of _ "purge_expired p now s"])
qed (use assms in \<open>auto simp del: purge_fields\<close>)

text \<open>
  Leases as single-use keys: operations with a ghost set of the lease identifiers drawn so far.
\<close>

datatype lease_op =
    L_reserve seconds ident reservation_request
  | L_complete seconds completion_request
  | L_cancel ident

fun lease_attempt :: "budget_policy \<Rightarrow> ledger \<times> ident set \<Rightarrow> lease_op \<Rightarrow> bool \<times> ledger \<times> ident set" where
  "lease_attempt p (s, drawn) (L_reserve now lid r) =
     (False, snd (reserve p now lid r s), insert lid drawn)"
| "lease_attempt p (s, drawn) (L_complete now c) =
     (br_action (fst (complete p now c s)) = ALLOW, snd (complete p now c s), drawn)"
| "lease_attempt p (s, drawn) (L_cancel lid) = (False, snd (cancel lid s), drawn)"

fun lease_op_key :: "lease_op \<Rightarrow> ident" where
  "lease_op_key (L_reserve now lid r) = lid"
| "lease_op_key (L_complete now c) = cr_lease_id c"
| "lease_op_key (L_cancel lid) = lid"

fun lease_admissible :: "ledger \<times> ident set \<Rightarrow> lease_op \<Rightarrow> bool" where
  "lease_admissible (s, drawn) (L_reserve now lid r) \<longleftrightarrow> lid \<notin> drawn"
| "lease_admissible _ _ \<longleftrightarrow> True"

definition spent_leases :: "ledger \<times> ident set \<Rightarrow> ident set" where
  "spent_leases sd = {lid \<in> snd sd. dict_get (ld_leases (fst sd)) lid = None}"

definition leases_drawn :: "ledger \<times> ident set \<Rightarrow> bool" where
  "leases_drawn sd \<longleftrightarrow> dict_keys (ld_leases (fst sd)) \<subseteq> snd sd"

lemma reserve_leases:
  assumes "dict_get (ld_leases (snd (reserve p now lid r s))) l \<noteq> None"
  shows "l = lid \<or> dict_get (ld_leases s) l \<noteq> None"
proof (rule reserve_cases [of p now lid r s "fst (reserve p now lid r s)" "snd (reserve p now lid r s)"])
  fix s2 sess
  assume "s2 = touch_windows p now r (purge_expired p now s)"
    and "(fst (reserve p now lid r s), snd (reserve p now lid r s)) = grant p now lid r sess s2"
  then show ?thesis using assms purge_leases_None [of s l p now]
    by (cases "dict_get (ld_leases s) l") (auto simp: grant_def Let_def split: if_splits)
qed (use assms purge_leases_None [of s l p now] in \<open>cases "dict_get (ld_leases s) l"; simp\<close>)+

lemma reserve_leases_None:
  "dict_get (ld_leases s) l = None \<Longrightarrow> l \<noteq> lid \<Longrightarrow>
   dict_get (ld_leases (snd (reserve p now lid r s))) l = None"
  using reserve_leases [of p now lid r s l] by blast

interpretation lease_use: single_use "lease_attempt p" lease_op_key spent_leases lease_admissible
    leases_drawn for p
proof (unfold_locales, goal_cases)
  case (1 s i s')
  then show ?case
    by (cases s; cases i) (auto simp: spent_leases_def complete_def split: option.splits)
next
  case (2 s i s')
  then show ?case
    by (cases s; cases i)
      (auto simp: spent_leases_def leases_drawn_def complete_def Let_def split: option.splits
        dest!: map_of_SomeD intro: rev_image_eqI)
next
  case (3 s i ok s')
  obtain l d where s: "s = (l, d)" by (cases s)
  show ?case using 3
  proof (cases i)
    case (L_reserve now lid r)
    then show ?thesis using 3
      by (auto simp: s spent_leases_def intro!: reserve_leases_None)
  qed (auto simp: s spent_leases_def complete_state cancel_def)
next
  case (4 s i ok s')
  obtain l d where s: "s = (l, d)" by (cases s)
  show ?case using 4
  proof (cases i)
    case (L_reserve now lid r)
    then show ?thesis using 4 reserve_leases [of p now lid r l]
      by (fastforce simp: s leases_drawn_def map_of_eq_None_iff)
  qed (use dict_del_subset in \<open>fastforce simp: s leases_drawn_def complete_state cancel_def split: if_splits\<close>)+
qed

text \<open>
  A lease is redeemed at most once. However reservations (with freshly drawn lease
  identifiers), completions and cancellations interleave, the successful completions carry
  pairwise different lease identifiers.
\<close>

theorem lease_completed_at_most_once:
  assumes "all_admissible lease_admissible (lease_attempt p) (empty_ledger, {}) ops"
  shows "distinct (map lease_op_key (fst (run_attempts (lease_attempt p) (empty_ledger, {}) ops)))"
  using lease_use.accepted_at_most_once [OF _ assms, of "fst (run_attempts (lease_attempt p) (empty_ledger, {}) ops)"
      "snd (run_attempts (lease_attempt p) (empty_ledger, {}) ops)"]
  by (simp add: leases_drawn_def empty_ledger_def)

text \<open>
  What a completion releases is bounded. Output is approved only for an active, unexpired
  lease; it is the output of the request unchanged, within the character and byte limits and
  within the smaller of the policy's and the reservation's token limits. In every case the lease
  is gone afterwards.
\<close>

theorem completion_bounds:
  "(br_approved_output (fst (complete p now c s)) = Some t \<longrightarrow>
     t = cr_output_text c \<and> length t \<le> bp_max_output_chars p \<and> utf8_len t \<le> bp_max_output_bytes p \<and>
     (\<exists>st. dict_get (ld_leases s) (cr_lease_id c) = Some st \<and> now < le_expires_at st \<and>
       cr_output_tokens c \<le> min (bp_max_output_tokens p) (rl_requested_output_tokens (le_lease st)))) \<and>
   dict_get (ld_leases (snd (complete p now c s))) (cr_lease_id c) = None"
  by (auto simp: complete_def Let_def output_findings_def split: option.splits if_splits)

section \<open>Witnesses\<close>

definition demo_policy :: budget_policy where
  "demo_policy = \<lparr>bp_max_input_chars = 100, bp_max_input_bytes = 400, bp_max_input_tokens = 50,
     bp_max_output_chars = 100, bp_max_output_bytes = 400, bp_max_output_tokens = 50,
     bp_max_nesting_depth = 3, bp_max_compressed_bytes = 100, bp_max_decompressed_bytes = 1000,
     bp_max_decompression_ratio = 10, bp_max_concurrent_per_principal = 1,
     bp_max_concurrent_per_tenant = 2, bp_max_retries_per_operation = 0,
     bp_max_tool_actions_per_session = 1, bp_max_session_duration = 300,
     bp_max_session_tokens = 60, bp_request_window = 60,
     bp_max_requests_per_principal_window = 2, bp_max_requests_per_tenant_window = 3,
     bp_lease_timeout = 30, bp_max_tracked_sessions = 5, bp_max_tracked_reservations = 5\<rparr>"

definition demo_request :: "ident \<Rightarrow> reservation_request" where
  "demo_request rid = \<lparr>rr_reservation_id = rid,
     rr_identity = \<lparr>ri_principal_id = ''alice'', ri_tenant_id = ''acme'', ri_session_id = ''s'',
       ri_request_id = ''q'', ri_operation_id = ''op''\<rparr>,
     rr_kind = MODEL_OP, rr_input_text = [], rr_input_tokens = 10, rr_requested_output_tokens = 20\<rparr>"

lemmas ledger_eval = reserve_def request_findings_def purge_expired_def empty_ledger_def
  grant_def touch_windows_def state_findings_def ledger_window_def purge_windows_def
  purge_window_def charge_session_def make_lease_def session_key_def principal_key_of_def
  new_session_def dict_get_default_def budget_blocked_def demo_policy_def demo_request_def
  measure_structured_nesting_def json_nesting_def json_start_def Let_def

lemma xml_loop_Nil [simp]: "xml_loop d m [] = m"
  by (subst xml_loop.simps) simp

definition demo_ledger :: ledger where
  "demo_ledger = snd (reserve demo_policy 0 ''l1'' (demo_request ''r1'') empty_ledger)"

lemma demo_ledger_eq: "demo_ledger =
  \<lparr>ld_sessions = [((''acme'', ''s''), \<lparr>ss_first_seen = 0, ss_tokens_reserved = 30,
      ss_tool_actions = 0, ss_operation_attempts = [(''op'', 1)]\<rparr>)],
   ld_principal_windows = [((''acme'', ''alice''), [0])], ld_tenant_windows = [(''acme'', [0])],
   ld_principal_active = [((''acme'', ''alice''), 1)], ld_tenant_active = [(''acme'', 1)],
   ld_leases = [(''l1'', \<lparr>le_lease = make_lease demo_policy ''l1'' (demo_request ''r1''),
      le_principal_id = ''alice'', le_tenant_id = ''acme'', le_expires_at = 30\<rparr>)],
   ld_seen = [(''r1'', 300)]\<rparr>"
  by (simp add: demo_ledger_def ledger_eval)

lemma demo_granted: "br_action (fst (reserve demo_policy 0 ''l1'' (demo_request ''r1'') empty_ledger)) = ALLOW"
  by (simp add: ledger_eval)

lemma demo_history: "ledger_history demo_policy demo_ledger 0 [(0, demo_request ''r1'')]"
  using ledger_history.reserve [OF ledger_history.start [of demo_policy 0], of 0 "''l1''" "demo_request ''r1''"
      "fst (reserve demo_policy 0 ''l1'' (demo_request ''r1'') empty_ledger)" demo_ledger] demo_granted
  by (simp add: demo_ledger_def)

theorem ledger_limits_witness:
  "held (by_principal (''acme'', ''alice'')) demo_ledger \<le> 1"
proof -
  have "ledger_reach demo_policy demo_ledger"
    unfolding demo_ledger_def by (rule ledger_reach.reserve [OF ledger_reach.start])
      (simp add: empty_ledger_def)
  from ledger_limits [OF this] show ?thesis by (simp add: demo_policy_def)
qed

theorem rolling_window_limits_witness:
  "length (filter (\<lambda>(u, r). principal_key_of r = (''acme'', ''alice'') \<and> - 1 < u \<and>
     u \<le> - 1 + bp_request_window demo_policy) [(0, demo_request ''r1'')])
   \<le> bp_max_requests_per_principal_window demo_policy"
  using rolling_window_limits [OF demo_history, of "(''acme'', ''alice'')" "- 1" "''acme''"] by blast

lemma demo_replay:
  "reserve demo_policy 10 ''l2'' (demo_request ''r1'') demo_ledger =
     (budget_blocked ''q'' [RESERVATION_REPLAYED], demo_ledger)"
  by (simp add: demo_ledger_eq ledger_eval release_expired_def session_retained_def)

lemma demo_purge: "purge_expired demo_policy 10 demo_ledger = demo_ledger"
  by (simp add: demo_ledger_eq ledger_eval release_expired_def session_retained_def)

theorem refused_reservation_free_witness:
  "ld_seen (snd (reserve demo_policy 10 ''l2'' (demo_request ''r1'') demo_ledger)) = [(''r1'', 300)]"
proof -
  have "br_action (fst (reserve demo_policy 10 ''l2'' (demo_request ''r1'') demo_ledger)) = BLOCK"
    by (simp add: demo_replay)
  from refused_reservation_free [OF this]
  have "ld_seen (snd (reserve demo_policy 10 ''l2'' (demo_request ''r1'') demo_ledger)) = ld_seen demo_ledger"
    unfolding demo_purge by blast
  then show ?thesis by (simp add: demo_ledger_eq)
qed

theorem lease_completed_at_most_once_witness:
  "distinct (map lease_op_key (fst (run_attempts (lease_attempt demo_policy) (empty_ledger, {})
     [L_reserve 0 ''l1'' (demo_request ''r1''),
      L_complete 1 \<lparr>cr_lease_id = ''l1'', cr_output_text = [104], cr_output_tokens = 1\<rparr>,
      L_complete 2 \<lparr>cr_lease_id = ''l1'', cr_output_text = [104], cr_output_tokens = 1\<rparr>])))"
  by (rule lease_completed_at_most_once) simp

theorem completion_bounds_witness:
  "length [104 :: nat] \<le> bp_max_output_chars demo_policy"
proof -
  let ?c = "\<lparr>cr_lease_id = ''l1'', cr_output_text = [104], cr_output_tokens = 1\<rparr>"
  have "br_approved_output (fst (complete demo_policy 1 ?c demo_ledger)) = Some [104]"
    by (simp add: demo_ledger_eq ledger_eval complete_def output_findings_def utf8_size_def)
  with completion_bounds [of demo_policy 1 ?c demo_ledger "[104]"] show ?thesis by blast
qed

theorem reservation_replay_refused_witness:
  "fst ([(0, demo_request ''r1''), (400, demo_request ''r1'')] ! 0) + bp_max_session_duration demo_policy
   \<le> fst ([(0, demo_request ''r1''), (400, demo_request ''r1'')] ! 1)"
proof -
  let ?res = "reserve demo_policy 400 ''l2'' (demo_request ''r1'') demo_ledger"
  have "br_action (fst ?res) = ALLOW"
    by (simp add: demo_ledger_eq ledger_eval release_expired_def release_lease_def release_count_def
        session_retained_def)
  then have "ledger_history demo_policy (snd ?res) 400 [(0, demo_request ''r1''), (400, demo_request ''r1'')]"
    using ledger_history.reserve [OF demo_history, of 400 "''l2''" "demo_request ''r1''" "fst ?res" "snd ?res"]
    by simp
  from reservation_replay_refused [OF this, of 0 1] show ?thesis by simp
qed

end
