(* ===== verification/Resource_Decompress.thy ===== *)
theory Resource_Decompress
  imports Resource_Ledger "HOL-Library.Word"
begin

text \<open>
  \<open>BoundedDecompressor\<close> of \<open>resource.py\<close>: incremental decoding within byte and ratio caps. The zlib
  decoder object is a C extension and a parameter of the model (\<open>zlib\<close>): its state, one bounded
  \<open>decompress\<close> call, \<open>flush\<close>, and the two attributes read afterwards. The only documented fact built
  into its type is that \<open>unconsumed_tail\<close> is the part of the input not consumed by the last call.
\<close>

section \<open>Requests, results and the decoder\<close>

datatype compression_format = GZIP | ZLIB

type_synonym byte = "8 word"

record compressed_request =
  cq_request_id :: ident
  cq_format :: compression_format
  cq_payload :: "byte list"

record decompression_result =
  dr_request_id :: ident
  dr_action :: guard_action
  dr_findings :: "limit_code list"
  dr_compressed_bytes :: nat
  dr_decompressed_bytes :: nat
  dr_expansion_ratio :: rat
  dr_payload :: "byte list option"

text \<open>\<open>None\<close> is \<open>zlib.error\<close>; \<open>decompress\<close> returns the output and the number of consumed bytes.\<close>

record 'z zlib =
  zl_start :: "compression_format \<Rightarrow> 'z"
  zl_decompress :: "'z \<Rightarrow> byte list \<Rightarrow> nat \<Rightarrow> (byte list \<times> nat \<times> 'z) option"
  zl_flush :: "'z \<Rightarrow> nat \<Rightarrow> (byte list \<times> 'z) option"
  zl_eof :: "'z \<Rightarrow> bool"
  zl_unused_data :: "'z \<Rightarrow> byte list"

definition expansion_ratio :: "nat \<Rightarrow> nat \<Rightarrow> rat" where
  "expansion_ratio decompressed compressed = of_nat decompressed / of_nat (max 1 compressed)"

definition decompress_blocked :: "compressed_request \<Rightarrow> limit_code \<Rightarrow> nat \<Rightarrow> decompression_result" where
  "decompress_blocked q code n =
     \<lparr>dr_request_id = cq_request_id q, dr_action = BLOCK, dr_findings = [code],
      dr_compressed_bytes = length (cq_payload q), dr_decompressed_bytes = n,
      dr_expansion_ratio = expansion_ratio n (length (cq_payload q)), dr_payload = None\<rparr>"

definition too_large :: "compressed_request \<Rightarrow> byte list \<Rightarrow> decompression_result" where
  "too_large q out = decompress_blocked q DECOMPRESSED_BYTES_EXCEEDED (length out)"

definition ratio_exceeded :: "compressed_request \<Rightarrow> byte list \<Rightarrow> decompression_result" where
  "ratio_exceeded q out = decompress_blocked q DECOMPRESSION_RATIO_EXCEEDED (length out)"

section \<open>The decoding loop\<close>

text \<open>
  The last ratio test of the code repeats the one after \<open>flush\<close> on the same output and is not
  repeated here.
\<close>

text \<open>The loop either stops with a result, fails in the decoder, or goes on with more output.\<close>

datatype 'z inflating =
    Stopped decompression_result
  | Zlib_error
  | Going "byte list" 'z

definition ratio_too_high :: "budget_policy \<Rightarrow> compressed_request \<Rightarrow> byte list \<Rightarrow> bool" where
  "ratio_too_high p q out \<longleftrightarrow>
     bp_max_decompression_ratio p < expansion_ratio (length out) (length (cq_payload q))"

text \<open>\<open>while pending\<close>: a call that consumes nothing of a non-empty rest leaves the loop.\<close>

function inflate_pending ::
  "'z zlib \<Rightarrow> budget_policy \<Rightarrow> compressed_request \<Rightarrow> byte list \<Rightarrow> 'z \<Rightarrow> byte list \<Rightarrow> 'z inflating" where
  "inflate_pending zl p q out z pending =
     (if pending = [] then Going out z
      else if bp_max_decompressed_bytes p < length out then Stopped (too_large q out)
      else (case zl_decompress zl z pending (bp_max_decompressed_bytes p + 1 - length out) of
          None \<Rightarrow> Zlib_error
        | Some (new, consumed, z') \<Rightarrow>
            (let out' = out @ new in
             if bp_max_decompressed_bytes p < length out' then Stopped (too_large q out')
             else if ratio_too_high p q out' then Stopped (ratio_exceeded q out')
             else if consumed = 0 then Going out' z'
             else inflate_pending zl p q out' z' (drop consumed pending))))"
  by pat_completeness auto

termination
  by (relation "measure (\<lambda>(_, _, _, _, _, pending). length pending)") auto

declare inflate_pending.simps [simp del]

definition chunk_bytes :: nat where
  "chunk_bytes = 64 * 1024"

function inflate_chunks ::
  "'z zlib \<Rightarrow> budget_policy \<Rightarrow> compressed_request \<Rightarrow> byte list \<Rightarrow> 'z \<Rightarrow> byte list \<Rightarrow> 'z inflating" where
  "inflate_chunks zl p q out z payload =
     (if payload = [] then Going out z
      else (case inflate_pending zl p q out z (take chunk_bytes payload) of
          Going out' z' \<Rightarrow> inflate_chunks zl p q out' z' (drop chunk_bytes payload)
        | stop \<Rightarrow> stop))"
  by pat_completeness auto

termination
  by (relation "measure (\<lambda>(_, _, _, _, _, payload). length payload)") (auto simp: chunk_bytes_def)

declare inflate_chunks.simps [simp del]

definition decompress ::
  "'z zlib \<Rightarrow> budget_policy \<Rightarrow> compressed_request \<Rightarrow> decompression_result" where
  "decompress zl p q =
     (if bp_max_compressed_bytes p < length (cq_payload q)
      then decompress_blocked q COMPRESSED_BYTES_EXCEEDED 0
      else (case inflate_chunks zl p q [] (zl_start zl (cq_format q)) (cq_payload q) of
          Stopped r \<Rightarrow> r
        | Zlib_error \<Rightarrow> decompress_blocked q INVALID_COMPRESSED_PAYLOAD 0
        | Going out z \<Rightarrow>
            if bp_max_decompressed_bytes p < length out then too_large q out
            else (case zl_flush zl z (bp_max_decompressed_bytes p + 1 - length out) of
                None \<Rightarrow> decompress_blocked q INVALID_COMPRESSED_PAYLOAD 0
              | Some (new, z') \<Rightarrow>
                  (let out' = out @ new in
                   if bp_max_decompressed_bytes p < length out' then too_large q out'
                   else if ratio_too_high p q out' then ratio_exceeded q out'
                   else if \<not> zl_eof zl z' then decompress_blocked q INVALID_COMPRESSED_PAYLOAD 0
                   else if zl_unused_data zl z' \<noteq> []
                     then decompress_blocked q CONCATENATED_COMPRESSED_STREAM 0
                   else
                     \<lparr>dr_request_id = cq_request_id q, dr_action = ALLOW, dr_findings = [],
                      dr_compressed_bytes = length (cq_payload q),
                      dr_decompressed_bytes = length out',
                      dr_expansion_ratio = expansion_ratio (length out') (length (cq_payload q)),
                      dr_payload = Some out'\<rparr>))))"

definition require_decompressed ::
  "'z zlib \<Rightarrow> budget_policy \<Rightarrow> compressed_request \<Rightarrow> decompression_result + byte list" where
  "require_decompressed zl p q =
     (let r = decompress zl p q in
      case dr_payload r of
        Some out \<Rightarrow> if dr_action r = ALLOW then Inr out else Inl r
      | None \<Rightarrow> Inl r)"

section \<open>What is released\<close>

lemma blocked_payload [simp]:
  "dr_payload (decompress_blocked q c n) = None" "dr_payload (too_large q out) = None"
  "dr_payload (ratio_exceeded q out) = None"
  by (simp_all add: decompress_blocked_def too_large_def ratio_exceeded_def)

lemma inflate_pending_stopped:
  "inflate_pending zl p q out z pending = Stopped r \<Longrightarrow> dr_payload r = None"
proof (induction zl p q out z pending rule: inflate_pending.induct)
  case (1 zl p q out z pending)
  from "1.prems" show ?case
    by (subst (asm) inflate_pending.simps)
      (auto simp: Let_def split: if_splits option.splits prod.splits dest: "1.IH")
qed

lemma inflate_chunks_stopped:
  "inflate_chunks zl p q out z payload = Stopped r \<Longrightarrow> dr_payload r = None"
proof (induction zl p q out z payload rule: inflate_chunks.induct)
  case (1 zl p q out z payload)
  from "1.prems" show ?case
    by (subst (asm) inflate_chunks.simps)
      (auto split: if_splits inflating.splits dest: "1.IH" inflate_pending_stopped)
qed

text \<open>
  Only bounded payloads are released. Whatever the decoder does, bytes come out of
  \<open>require\<close> only if the compressed input, the output and the expansion ratio are all within the
  policy, and only for a complete single stream: the decoder's final state has reached the end of
  the stream and left no trailing data.
\<close>

theorem released_payload_bounded:
  assumes "require_decompressed zl p q = Inr out"
  shows "length (cq_payload q) \<le> bp_max_compressed_bytes p \<and>
    length out \<le> bp_max_decompressed_bytes p \<and>
    of_nat (length out) \<le> bp_max_decompression_ratio p * of_nat (max 1 (length (cq_payload q))) \<and>
    (\<exists>z. zl_eof zl z \<and> zl_unused_data zl z = [])"
proof -
  from assms have out: "dr_payload (decompress zl p q) = Some out"
    by (auto simp: require_decompressed_def Let_def split: option.splits if_splits)
  then obtain u z new z' where
    small: "length (cq_payload q) \<le> bp_max_compressed_bytes p" and
    "inflate_chunks zl p q [] (zl_start zl (cq_format q)) (cq_payload q) = Going u z" and
    fin: "out = u @ new" "length out \<le> bp_max_decompressed_bytes p" "\<not> ratio_too_high p q out"
      "zl_eof zl z'" "zl_unused_data zl z' = []"
    by (auto simp: decompress_def Let_def not_less split: if_splits inflating.splits option.splits
        prod.splits dest: inflate_chunks_stopped)
  have "expansion_ratio (length out) (length (cq_payload q)) \<le> bp_max_decompression_ratio p"
    using fin(3) by (simp add: ratio_too_high_def not_less)
  then have "of_nat (length out) \<le> bp_max_decompression_ratio p * of_nat (max 1 (length (cq_payload q)))"
    by (cases "cq_payload q") (simp_all add: expansion_ratio_def divide_le_eq max_def split: if_splits)
  with small fin show ?thesis by blast
qed

text \<open>Witness: a decoder for stored blocks, which copies its input.\<close>

definition copy_zlib :: "nat zlib" where
  "copy_zlib = \<lparr>zl_start = (\<lambda>_. 0), zl_decompress = (\<lambda>z bs n. Some (take n bs, n, z)),
     zl_flush = (\<lambda>z _. Some ([], z)), zl_eof = (\<lambda>_. True), zl_unused_data = (\<lambda>_. [])\<rparr>"

theorem released_payload_bounded_witness:
  "length [1, 2 :: byte] \<le> bp_max_decompressed_bytes demo_policy"
proof -
  have "require_decompressed copy_zlib demo_policy
      \<lparr>cq_request_id = ''q'', cq_format = GZIP, cq_payload = [1, 2]\<rparr> = Inr [1, 2]"
    by (simp add: require_decompressed_def decompress_def inflate_chunks.simps inflate_pending.simps
        copy_zlib_def demo_policy_def ratio_too_high_def expansion_ratio_def chunk_bytes_def)
  from released_payload_bounded [OF this] show ?thesis by blast
qed

end
