(* ===== verification/Failure_Containment.thy ===== *)
theory Failure_Containment
  imports Core_Models
begin

text \<open>
  \<open>failure_containment.py\<close> and \<open>models/failure_containment.py\<close>: admission of dependency attempts,
  circuit breakers per tenant and dependency, fallbacks, idempotency reservations, outcome reports,
  audit events and hooks. \<open>authorize\<close> and \<open>record_outcome\<close> hold one lock around every state
  change and are single steps of the model.

  SHA-256 digests over canonical JSON are the functions of the record \<open>digests\<close>; the outcome
  verifier, the hooks (does a callback raise on an event?) and the drawn permit identifiers are
  arguments. A finding is represented by its code: severity, message and signal are reporting.
  Costs and latencies are rationals, \<open>datetime\<close>s count microseconds.
\<close>

section \<open>Declarations\<close>

datatype dependency_health = HEALTHY | DEGRADED | UNAVAILABLE

datatype criticality = CRIT_LOW | CRIT_MEDIUM | CRIT_HIGH | CRIT_CRITICAL

datatype circuit_state = CS_CLOSED | CS_OPEN | CS_HALF_OPEN

datatype containment_code =
    REQUEST_INTEGRITY_INVALID | DEPENDENCY_UNKNOWN | TENANT_NOT_ALLOWED | DEPENDENCY_UNAVAILABLE
  | FAILURE_DOMAIN_OPEN | CIRCUIT_OPEN | HALF_OPEN_PROBE_ACTIVE | FALLBACK_REQUIRED
  | FALLBACK_NOT_REQUIRED | FALLBACK_UNKNOWN | FALLBACK_NOT_ALLOWED | FALLBACK_INTEGRITY_INVALID
  | FALLBACK_UNAVAILABLE | RETRY_LIMIT_EXCEEDED | RETRY_SEQUENCE_INVALID | RECURSION_LIMIT_EXCEEDED
  | COST_LIMIT_EXCEEDED | ABNORMAL_TOOL_CALL_LIMIT_EXCEEDED | DUPLICATE_ATTEMPT
  | IDEMPOTENCY_KEY_REQUIRED | DUPLICATE_SIDE_EFFECT | PERMIT_INVALID | PERMIT_EXPIRED
  | PERMIT_REPLAYED | REPORT_INTEGRITY_INVALID | REPORT_UNVERIFIABLE | REPORT_MISMATCH
  | REPORT_REPLAYED | DEPENDENCY_ERROR | ERROR_RATE_THRESHOLD_EXCEEDED
  | LATENCY_THRESHOLD_EXCEEDED | COST_THRESHOLD_EXCEEDED | TOOL_CALL_THRESHOLD_EXCEEDED
  | HOOK_FAILED

datatype containment_event_kind =
    EK_ADMISSION_ALLOWED | EK_ADMISSION_BLOCKED | EK_OUTCOME_RECORDED | EK_CIRCUIT_OPENED
  | EK_CIRCUIT_HALF_OPENED | EK_CIRCUIT_CLOSED | EK_DEGRADED_MODE_ENTERED
  | EK_CANCELLATION_REQUESTED | EK_COMPENSATION_REQUESTED | EK_RECOVERY_REQUESTED | EK_HOOK_FAILED

record breaker_policy =
  bk_window_size :: nat
  bk_minimum_samples :: nat
  bk_error_rate_threshold :: rat
  bk_average_latency_threshold :: rat
  bk_cumulative_cost_threshold :: rat
  bk_abnormal_tool_call_threshold :: nat
  bk_open_seconds :: int

record failure_domain =
  fd_id :: ident
  fd_max_open :: nat

record dependency =
  dp_id :: ident
  dp_domain_id :: ident
  dp_criticality :: criticality
  dp_health :: dependency_health
  dp_allowed_tenants :: "ident list"
  dp_allowed_fallbacks :: "ident list"
  dp_breaker :: breaker_policy

record fallback_declaration =
  fb_id :: ident
  fb_primary_id :: ident
  fb_target_id :: ident
  fb_artifact_digest :: string
  fb_allowed_tenants :: "ident list"

record containment_policy =
  cp_dependencies :: "dependency list"
  cp_domains :: "failure_domain list"
  cp_fallbacks :: "fallback_declaration list"
  cp_max_retries :: nat
  cp_max_recursion :: nat
  cp_max_cost :: rat
  cp_max_abnormal_calls :: nat
  cp_permit_ttl :: int

definition find_dependency :: "containment_policy \<Rightarrow> ident \<Rightarrow> dependency option" where
  "find_dependency p i = find (\<lambda>d. dp_id d = i) (cp_dependencies p)"

definition find_domain :: "containment_policy \<Rightarrow> ident \<Rightarrow> failure_domain option" where
  "find_domain p i = find (\<lambda>d. fd_id d = i) (cp_domains p)"

definition find_fallback :: "containment_policy \<Rightarrow> ident \<Rightarrow> fallback_declaration option" where
  "find_fallback p i = find (\<lambda>f. fb_id f = i) (cp_fallbacks p)"

text \<open>\<open>validate_samples\<close> and \<open>validate_inventory\<close>: a policy object satisfies them.\<close>

definition breaker_valid :: "breaker_policy \<Rightarrow> bool" where
  "breaker_valid b \<longleftrightarrow> 1 \<le> bk_window_size b \<and> 1 \<le> bk_minimum_samples b \<and>
     bk_minimum_samples b \<le> bk_window_size b \<and> 1 \<le> bk_open_seconds b"

definition fallback_valid :: "containment_policy \<Rightarrow> fallback_declaration \<Rightarrow> bool" where
  "fallback_valid p f =
     (case (find_dependency p (fb_primary_id f), find_dependency p (fb_target_id f)) of
        (Some primary, Some target) \<Rightarrow>
          fb_id f \<in> set (dp_allowed_fallbacks primary) \<and> dp_domain_id primary \<noteq> dp_domain_id target
      | _ \<Rightarrow> False)"

definition policy_valid :: "containment_policy \<Rightarrow> bool" where
  "policy_valid p \<longleftrightarrow>
     distinct (map dp_id (cp_dependencies p)) \<and> distinct (map fd_id (cp_domains p)) \<and>
     distinct (map fb_id (cp_fallbacks p)) \<and>
     (\<forall>d \<in> set (cp_dependencies p).
        dp_domain_id d \<in> fd_id ` set (cp_domains p) \<and>
        set (dp_allowed_fallbacks d) \<subseteq> fb_id ` set (cp_fallbacks p) \<and>
        breaker_valid (dp_breaker d)) \<and>
     (\<forall>f \<in> set (cp_fallbacks p). fallback_valid p f)"

section \<open>Requests, permits, reports, events\<close>

record fallback_selection =
  fs_fallback_id :: ident
  fs_artifact_digest :: string

record containment_request =
  cq_id :: ident
  cq_attempt_id :: ident
  cq_operation_id :: ident
  cq_dependency_id :: ident
  cq_tenant_id :: ident
  cq_retry_count :: nat
  cq_recursion_depth :: nat
  cq_expected_cost :: rat
  cq_abnormal_calls :: nat
  cq_side_effecting :: bool
  cq_idempotency_key :: "ident option"
  cq_fallback :: "fallback_selection option"
  cq_digest :: string

record permit =
  pm_id :: ident
  pm_request_digest :: string
  pm_operation_id :: ident
  pm_attempt_id :: ident
  pm_tenant_id :: ident
  pm_primary_id :: ident
  pm_selected_id :: ident
  pm_domain_id :: ident
  pm_fallback_id :: "ident option"
  pm_idempotency_key :: "ident option"
  pm_issued_at :: datetime
  pm_expires_at :: datetime
  pm_digest :: string

record outcome_report =
  op_report_id :: ident
  op_permit_id :: ident
  op_permit_digest :: string
  op_success :: bool
  op_latency :: rat
  op_cost :: rat
  op_abnormal_calls :: nat
  op_side_effect_committed :: bool
  op_completed_at :: datetime
  op_digest :: string

record containment_event =
  ce_event_id :: string
  ce_sequence :: nat
  ce_kind :: containment_event_kind
  ce_tenant_id :: ident
  ce_operation_id :: ident
  ce_dependency_id :: ident
  ce_domain_id :: ident
  ce_action :: guard_action
  ce_circuit_state :: circuit_state
  ce_codes :: "containment_code list"
  ce_occurred_at :: datetime

text \<open>Digests of all fields but the digest itself, which is blanked first.\<close>

record digests =
  dg_request :: "containment_request \<Rightarrow> string"
  dg_permit :: "permit \<Rightarrow> string"
  dg_report :: "outcome_report \<Rightarrow> string"
  dg_event :: "containment_event \<Rightarrow> string"

definition request_integrity :: "digests \<Rightarrow> containment_request \<Rightarrow> bool" where
  "request_integrity dg q \<longleftrightarrow> cq_digest q = dg_request dg (q\<lparr>cq_digest := []\<rparr>)"

definition permit_integrity :: "digests \<Rightarrow> permit \<Rightarrow> bool" where
  "permit_integrity dg m \<longleftrightarrow> pm_digest m = dg_permit dg (m\<lparr>pm_digest := []\<rparr>)"

definition report_integrity :: "digests \<Rightarrow> outcome_report \<Rightarrow> bool" where
  "report_integrity dg r \<longleftrightarrow> op_digest r = dg_report dg (r\<lparr>op_digest := []\<rparr>)"

record containment_result =
  cr_action :: guard_action
  cr_findings :: "containment_code list"
  cr_permit :: "permit option"
  cr_events :: "containment_event list"

section \<open>The manager's state\<close>

record sample =
  sm_success :: bool
  sm_latency :: rat
  sm_cost :: rat
  sm_abnormal_calls :: nat

record circuit =
  ct_samples :: "sample list"
  ct_state :: circuit_state
  ct_opened_at :: "datetime option"
  ct_probe_active :: bool

record active_permit =
  ap_digest :: string
  ap_expected_cost :: rat
  ap_side_effecting :: bool
  ap_recursion_depth :: nat
  ap_retry_count :: nat

record manager =
  mg_circuits :: "(ident \<times> ident, circuit) dict"
  mg_active_permits :: "(ident, active_permit) dict"
  mg_used_reports :: "ident set"
  mg_seen_attempts :: "(ident \<times> ident) set"
  mg_operation_attempts :: "(ident \<times> ident, nat) dict"
  mg_active_side_effects :: "(ident \<times> ident) set"
  mg_committed_side_effects :: "(ident \<times> ident) set"
  mg_event_sequence :: nat

definition init_manager :: manager where
  "init_manager = \<lparr>mg_circuits = [], mg_active_permits = [], mg_used_reports = {},
     mg_seen_attempts = {}, mg_operation_attempts = [], mg_active_side_effects = {},
     mg_committed_side_effects = {}, mg_event_sequence = 0\<rparr>"

definition new_circuit :: circuit where
  "new_circuit = \<lparr>ct_samples = [], ct_state = CS_CLOSED, ct_opened_at = None, ct_probe_active = False\<rparr>"

text \<open>\<open>_circuit\<close> creates the runtime on first access and returns the stored object.\<close>

definition circuit_of :: "manager \<Rightarrow> ident \<Rightarrow> ident \<Rightarrow> circuit" where
  "circuit_of m tenant dep = dict_get_default (mg_circuits m) (tenant, dep) new_circuit"

definition touch_circuit :: "manager \<Rightarrow> ident \<Rightarrow> ident \<Rightarrow> manager" where
  "touch_circuit m tenant dep =
     (if dict_get (mg_circuits m) (tenant, dep) = None
      then m\<lparr>mg_circuits := dict_set (mg_circuits m) (tenant, dep) new_circuit\<rparr> else m)"

definition put_circuit :: "manager \<Rightarrow> ident \<Rightarrow> ident \<Rightarrow> circuit \<Rightarrow> manager" where
  "put_circuit m tenant dep c = m\<lparr>mg_circuits := dict_set (mg_circuits m) (tenant, dep) c\<rparr>"

section \<open>Events\<close>

definition is_alnum :: "char \<Rightarrow> bool" where
  "is_alnum c \<longleftrightarrow> (let n = of_char c :: nat in
     (48 \<le> n \<and> n \<le> 57) \<or> (65 \<le> n \<and> n \<le> 90) \<or> (97 \<le> n \<and> n \<le> 122))"

fun safe_identifier_chars :: "string \<Rightarrow> bool" where
  "safe_identifier_chars [] = False"
| "safe_identifier_chars (c # cs) \<longleftrightarrow>
     is_alnum c \<and> list_all (\<lambda>d. is_alnum d \<or> d \<in> set ''._:/-'') cs \<and> length cs \<le> 255"

definition safe_identifier :: "string \<Rightarrow> string \<Rightarrow> string" where
  "safe_identifier v fallback = (if safe_identifier_chars v then v else fallback)"

definition deduplicate :: "containment_code list \<Rightarrow> containment_code list" where
  "deduplicate fs = rev (remdups (rev fs))"

definition seal_event :: "digests \<Rightarrow> containment_event \<Rightarrow> containment_event" where
  "seal_event dg e = e\<lparr>ce_event_id := dg_event dg (e\<lparr>ce_event_id := []\<rparr>)\<rparr>"

text \<open>\<open>_event\<close> for a tenant, an operation and a dependency with its domain.\<close>

definition make_event ::
  "digests \<Rightarrow> containment_event_kind \<Rightarrow> ident \<Rightarrow> ident \<Rightarrow> ident \<Rightarrow> ident \<Rightarrow> guard_action \<Rightarrow>
   containment_code list \<Rightarrow> datetime \<Rightarrow> manager \<Rightarrow> containment_event \<times> manager" where
  "make_event dg kind tenant operation dep domain action fs now m =
     (let m1 = touch_circuit m tenant dep;
          n = mg_event_sequence m + 1
      in (seal_event dg
            \<lparr>ce_event_id = [], ce_sequence = n, ce_kind = kind,
             ce_tenant_id = safe_identifier tenant ''invalid-tenant'',
             ce_operation_id = safe_identifier operation ''invalid-operation'',
             ce_dependency_id = safe_identifier dep ''invalid-dependency'',
             ce_domain_id = safe_identifier domain ''invalid-domain'',
             ce_action = action, ce_circuit_state = ct_state (circuit_of m1 tenant dep),
             ce_codes = deduplicate fs, ce_occurred_at = now\<rparr>,
          m1\<lparr>mg_event_sequence := n\<rparr>))"

section \<open>Admission checks\<close>

definition static_findings ::
  "digests \<Rightarrow> containment_policy \<Rightarrow> containment_request \<Rightarrow> containment_code list" where
  "static_findings dg p q =
     map snd (filter fst
       [(\<not> request_integrity dg q, REQUEST_INTEGRITY_INVALID),
        (find_dependency p (cq_dependency_id q) = None, DEPENDENCY_UNKNOWN),
        (cp_max_retries p < cq_retry_count q, RETRY_LIMIT_EXCEEDED),
        (cp_max_recursion p < cq_recursion_depth q, RECURSION_LIMIT_EXCEEDED),
        (cp_max_cost p < cq_expected_cost q, COST_LIMIT_EXCEEDED),
        (cp_max_abnormal_calls p < cq_abnormal_calls q, ABNORMAL_TOOL_CALL_LIMIT_EXCEEDED)])"

definition tenant_findings :: "dependency \<Rightarrow> ident \<Rightarrow> containment_code list" where
  "tenant_findings d tenant =
     (if dp_allowed_tenants d \<noteq> [] \<and> tenant \<notin> set (dp_allowed_tenants d)
      then [TENANT_NOT_ALLOWED] else [])"

definition side_effect_findings :: "containment_request \<Rightarrow> manager \<Rightarrow> containment_code list" where
  "side_effect_findings q m =
     (if \<not> cq_side_effecting q then []
      else (case cq_idempotency_key q of
          None \<Rightarrow> [IDEMPOTENCY_KEY_REQUIRED]
        | Some k \<Rightarrow>
            if (cq_tenant_id q, k) \<in> mg_active_side_effects m \<or>
               (cq_tenant_id q, k) \<in> mg_committed_side_effects m
            then [DUPLICATE_SIDE_EFFECT] else []))"

definition mutable_findings ::
  "containment_policy \<Rightarrow> containment_request \<Rightarrow> manager \<Rightarrow> containment_code list" where
  "mutable_findings p q m =
     (let attempts = dict_get_default (mg_operation_attempts m) (cq_tenant_id q, cq_operation_id q) 0
      in map snd (filter fst
           [((cq_tenant_id q, cq_attempt_id q) \<in> mg_seen_attempts m, DUPLICATE_ATTEMPT),
            (cp_max_retries p < attempts, RETRY_LIMIT_EXCEEDED),
            (cq_retry_count q \<noteq> attempts, RETRY_SEQUENCE_INVALID)])
         @ side_effect_findings q m)"

text \<open>
  \<open>_advance_half_open\<close> on a circuit that exists: an open circuit becomes half-open once
  \<open>open_seconds\<close> have passed, with the probe flag cleared and an event.
\<close>

definition due_half_open :: "dependency \<Rightarrow> circuit \<Rightarrow> datetime \<Rightarrow> bool" where
  "due_half_open d c now \<longleftrightarrow> ct_state c = CS_OPEN \<and>
     (case ct_opened_at c of None \<Rightarrow> False
      | Some t \<Rightarrow> t + td_seconds (bk_open_seconds (dp_breaker d)) \<le> now)"

definition advance_half_open ::
  "digests \<Rightarrow> ident \<Rightarrow> dependency \<Rightarrow> datetime \<Rightarrow> manager \<times> containment_event list \<Rightarrow>
   manager \<times> containment_event list" where
  "advance_half_open dg tenant d now me =
     (let m = touch_circuit (fst me) tenant (dp_id d); c = circuit_of m tenant (dp_id d) in
      if due_half_open d c now then
        (let m1 = put_circuit m tenant (dp_id d)
                    (c\<lparr>ct_state := CS_HALF_OPEN, ct_probe_active := False\<rparr>);
             (e, m2) = make_event dg EK_CIRCUIT_HALF_OPENED tenant ''circuit-recovery'' (dp_id d)
                         (dp_domain_id d) WARN [] now m1
         in (m2, snd me @ [e]))
      else (m, snd me))"

definition domain_dependencies :: "containment_policy \<Rightarrow> dependency \<Rightarrow> dependency list" where
  "domain_dependencies p d = filter (\<lambda>e. dp_domain_id e = dp_domain_id d) (cp_dependencies p)"

definition dependency_unavailable ::
  "digests \<Rightarrow> containment_policy \<Rightarrow> ident \<Rightarrow> dependency \<Rightarrow> datetime \<Rightarrow>
   manager \<times> containment_event list \<Rightarrow> bool \<times> manager \<times> containment_event list" where
  "dependency_unavailable dg p tenant d now me =
     (if dp_health d \<noteq> HEALTHY then (True, me)
      else
        (let me1 = advance_half_open dg tenant d now me;
             c = circuit_of (fst me1) tenant (dp_id d)
         in if ct_state c = CS_OPEN then (True, me1)
            else if ct_state c = CS_HALF_OPEN then (ct_probe_active c, me1)
            else
              (let ds = domain_dependencies p d;
                   me2 = fold (\<lambda>e. advance_half_open dg tenant e now) ds me1;
                   n = length (filter (\<lambda>e. ct_state (circuit_of (fst me2) tenant (dp_id e)) \<in>
                         {CS_OPEN, CS_HALF_OPEN}) ds)
               in (case find_domain p (dp_domain_id d) of
                     Some fd \<Rightarrow> fd_max_open fd \<le> n
                   | None \<Rightarrow> False, me2))))"

text \<open>
  The branches for an undeclared domain or fallback target cannot be taken under a valid policy.
\<close>

definition select_fallback ::
  "digests \<Rightarrow> containment_policy \<Rightarrow> containment_request \<Rightarrow> dependency \<Rightarrow> datetime \<Rightarrow>
   manager \<times> containment_event list \<Rightarrow>
   fallback_declaration option \<times> containment_code list \<times> manager \<times> containment_event list" where
  "select_fallback dg p q d now me =
     (case cq_fallback q of
        None \<Rightarrow> (None, [FALLBACK_REQUIRED], me)
      | Some sel \<Rightarrow>
          (case find_fallback p (fs_fallback_id sel) of
             None \<Rightarrow> (None, [FALLBACK_UNKNOWN], me)
           | Some f \<Rightarrow>
               (case find_dependency p (fb_target_id f) of
                  None \<Rightarrow> (None, [FALLBACK_UNKNOWN], me)
                | Some target \<Rightarrow>
                    (let (unavailable, me') = dependency_unavailable dg p (cq_tenant_id q) target now me
                     in (Some f,
                         map snd (filter fst
                           [(fb_primary_id f \<noteq> dp_id d \<or> fb_id f \<notin> set (dp_allowed_fallbacks d),
                             FALLBACK_NOT_ALLOWED),
                            (fb_artifact_digest f \<noteq> fs_artifact_digest sel, FALLBACK_INTEGRITY_INVALID),
                            (fb_allowed_tenants f \<noteq> [] \<and> cq_tenant_id q \<notin> set (fb_allowed_tenants f),
                             TENANT_NOT_ALLOWED)])
                         @ tenant_findings target (cq_tenant_id q)
                         @ (if unavailable then [FALLBACK_UNAVAILABLE] else []),
                         me')))))"

section \<open>Authorizing an attempt\<close>

definition make_permit ::
  "digests \<Rightarrow> containment_policy \<Rightarrow> ident \<Rightarrow> containment_request \<Rightarrow> dependency \<Rightarrow> dependency \<Rightarrow>
   fallback_declaration option \<Rightarrow> datetime \<Rightarrow> permit" where
  "make_permit dg p pid q primary selected fb now =
     (let m = \<lparr>pm_id = pid, pm_request_digest = cq_digest q, pm_operation_id = cq_operation_id q,
            pm_attempt_id = cq_attempt_id q, pm_tenant_id = cq_tenant_id q,
            pm_primary_id = dp_id primary, pm_selected_id = dp_id selected,
            pm_domain_id = dp_domain_id selected, pm_fallback_id = map_option fb_id fb,
            pm_idempotency_key = cq_idempotency_key q, pm_issued_at = now,
            pm_expires_at = now + td_seconds (cp_permit_ttl p), pm_digest = []\<rparr>
      in m\<lparr>pm_digest := dg_permit dg m\<rparr>)"

definition issue_permit ::
  "digests \<Rightarrow> containment_policy \<Rightarrow> ident \<Rightarrow> containment_request \<Rightarrow> dependency \<Rightarrow> dependency \<Rightarrow>
   fallback_declaration option \<Rightarrow> datetime \<Rightarrow> manager \<Rightarrow> permit \<times> manager" where
  "issue_permit dg p pid q primary selected fb now m =
     (let t = cq_tenant_id q;
          m1 = touch_circuit m t (dp_id selected);
          c = circuit_of m1 t (dp_id selected);
          m2 = (if ct_state c = CS_HALF_OPEN
                then put_circuit m1 t (dp_id selected) (c\<lparr>ct_probe_active := True\<rparr>) else m1);
          pm = make_permit dg p pid q primary selected fb now;
          key = (t, cq_operation_id q)
      in (pm,
          m2\<lparr>mg_active_permits := dict_set (mg_active_permits m2) pid
               \<lparr>ap_digest = pm_digest pm, ap_expected_cost = cq_expected_cost q,
                ap_side_effecting = cq_side_effecting q, ap_recursion_depth = cq_recursion_depth q,
                ap_retry_count = cq_retry_count q\<rparr>,
             mg_seen_attempts := insert (t, cq_attempt_id q) (mg_seen_attempts m2),
             mg_operation_attempts := dict_set (mg_operation_attempts m2) key
               (dict_get_default (mg_operation_attempts m2) key 0 + 1),
             mg_active_side_effects :=
               (case cq_idempotency_key q of
                  Some k \<Rightarrow> if cq_side_effecting q then insert (t, k) (mg_active_side_effects m2)
                            else mg_active_side_effects m2
                | None \<Rightarrow> mg_active_side_effects m2)\<rparr>))"

record dispatch =
  ds_degraded :: "containment_event list"
  ds_cancellation :: "containment_event list"
  ds_compensation :: "containment_event list"
  ds_recovery :: "containment_event list"

definition no_dispatch :: dispatch where
  "no_dispatch = \<lparr>ds_degraded = [], ds_cancellation = [], ds_compensation = [], ds_recovery = []\<rparr>"

datatype hook_kind = ENTER_DEGRADED_MODE | CANCEL | COMPENSATE | RECOVER

text \<open>\<open>_invoke_hook\<close>: a raising callback only adds a \<open>HOOK_FAILED\<close> event.\<close>

definition invoke_hook ::
  "digests \<Rightarrow> (hook_kind \<Rightarrow> containment_event \<Rightarrow> bool) \<Rightarrow> hook_kind \<Rightarrow> containment_event \<Rightarrow>
   manager \<times> containment_event list \<Rightarrow> manager \<times> containment_event list" where
  "invoke_hook dg raises k e me =
     (if raises k e then
        (let n = mg_event_sequence (fst me) + 1;
             failed = seal_event dg (e\<lparr>ce_sequence := n, ce_kind := EK_HOOK_FAILED, ce_action := BLOCK,
                        ce_codes := [HOOK_FAILED]\<rparr>)
         in ((fst me)\<lparr>mg_event_sequence := n\<rparr>, snd me @ [failed]))
      else me)"

definition publish ::
  "digests \<Rightarrow> (hook_kind \<Rightarrow> containment_event \<Rightarrow> bool) \<Rightarrow> dispatch \<Rightarrow>
   manager \<times> containment_event list \<Rightarrow> manager \<times> containment_event list" where
  "publish dg raises ds me =
     fold (invoke_hook dg raises RECOVER) (ds_recovery ds)
      (fold (invoke_hook dg raises COMPENSATE) (ds_compensation ds)
       (fold (invoke_hook dg raises CANCEL) (ds_cancellation ds)
        (fold (invoke_hook dg raises ENTER_DEGRADED_MODE) (ds_degraded ds) me)))"

text \<open>The selection part of \<open>authorize\<close> under the lock: fallback, findings and state.\<close>

definition admission ::
  "digests \<Rightarrow> containment_policy \<Rightarrow> containment_request \<Rightarrow> dependency \<Rightarrow> datetime \<Rightarrow> manager \<Rightarrow>
   fallback_declaration option \<times> containment_code list \<times> manager \<times> containment_event list" where
  "admission dg p q d now m =
     (let mf = mutable_findings p q m;
          (unavailable, me) = dependency_unavailable dg p (cq_tenant_id q) d now (m, [])
      in if unavailable then
           (let (fb, ff, me') = select_fallback dg p q d now me in (fb, ff @ mf, me'))
         else (None, (if cq_fallback q \<noteq> None then [FALLBACK_NOT_REQUIRED] else []) @ mf, me))"

definition selected_dependency ::
  "containment_policy \<Rightarrow> dependency \<Rightarrow> fallback_declaration option \<Rightarrow> dependency" where
  "selected_dependency p d fb =
     (case fb of None \<Rightarrow> d
      | Some f \<Rightarrow> (case find_dependency p (fb_target_id f) of Some t \<Rightarrow> t | None \<Rightarrow> d))"

definition blocked_admission ::
  "digests \<Rightarrow> containment_request \<Rightarrow> ident \<Rightarrow> ident \<Rightarrow> containment_code list \<Rightarrow> datetime \<Rightarrow>
   manager \<times> containment_event list \<Rightarrow> containment_result \<times> manager" where
  "blocked_admission dg q dep domain fs now me =
     (let (e, m') = make_event dg EK_ADMISSION_BLOCKED (cq_tenant_id q) (cq_operation_id q) dep domain
                      BLOCK fs now (fst me)
      in (\<lparr>cr_action = BLOCK, cr_findings = deduplicate fs, cr_permit = None,
           cr_events = snd me @ [e]\<rparr>, m'))"

definition authorize ::
  "digests \<Rightarrow> (hook_kind \<Rightarrow> containment_event \<Rightarrow> bool) \<Rightarrow> containment_policy \<Rightarrow> ident \<Rightarrow>
   containment_request \<Rightarrow> datetime \<Rightarrow> manager \<Rightarrow> containment_result \<times> manager" where
  "authorize dg raises p pid q now m =
     (case find_dependency p (cq_dependency_id q) of
        None \<Rightarrow>
          blocked_admission dg q (safe_identifier (cq_dependency_id q) ''unknown-dependency'')
            ''unknown-domain'' (static_findings dg p q) now (m, [])
      | Some d \<Rightarrow>
          (let fs0 = static_findings dg p q @ tenant_findings d (cq_tenant_id q) in
           if fs0 \<noteq> [] then blocked_admission dg q (dp_id d) (dp_domain_id d) fs0 now (m, [])
           else
             (let (fb, fs, me) = admission dg p q d now m in
              if fs \<noteq> [] then blocked_admission dg q (dp_id d) (dp_domain_id d) fs now me
              else
                (let sel = selected_dependency p d fb;
                     (pm, m1) = issue_permit dg p pid q d sel fb now (fst me);
                     (e1, m2) = make_event dg EK_ADMISSION_ALLOWED (cq_tenant_id q) (cq_operation_id q)
                                  (dp_id sel) (dp_domain_id sel) ALLOW [] now m1;
                     (evs, ds, m3) =
                       (case fb of
                          None \<Rightarrow> (snd me @ [e1], no_dispatch, m2)
                        | Some f \<Rightarrow>
                            (let (e2, m3) = make_event dg EK_DEGRADED_MODE_ENTERED (cq_tenant_id q)
                                   (cq_operation_id q) (dp_id d) (dp_domain_id d) WARN [] now m2
                             in (snd me @ [e1, e2], no_dispatch\<lparr>ds_degraded := [e2]\<rparr>, m3)));
                     (m4, evs') = publish dg raises ds (m3, evs)
                 in (\<lparr>cr_action = ALLOW, cr_findings = [], cr_permit = Some pm, cr_events = evs'\<rparr>,
                     m4)))))"

definition require_permit ::
  "digests \<Rightarrow> (hook_kind \<Rightarrow> containment_event \<Rightarrow> bool) \<Rightarrow> containment_policy \<Rightarrow> ident \<Rightarrow>
   containment_request \<Rightarrow> datetime \<Rightarrow> manager \<Rightarrow> (containment_result + permit) \<times> manager" where
  "require_permit dg raises p pid q now m =
     (let (r, m') = authorize dg raises p pid q now m in
      (case cr_permit r of
         Some pm \<Rightarrow> (if cr_action r = ALLOW then Inr pm else Inl r, m')
       | None \<Rightarrow> (Inl r, m')))"

section \<open>Recording an outcome\<close>

text \<open>The verifier is absent or its answer, \<open>False\<close> when it raises.\<close>

definition verify_outcome :: "(outcome_report \<Rightarrow> bool) option \<Rightarrow> outcome_report \<Rightarrow> bool" where
  "verify_outcome verifier r = (case verifier of None \<Rightarrow> False | Some v \<Rightarrow> v r)"

definition report_findings ::
  "digests \<Rightarrow> (outcome_report \<Rightarrow> bool) option \<Rightarrow> containment_policy \<Rightarrow> permit \<Rightarrow> outcome_report \<Rightarrow>
   datetime \<Rightarrow> manager \<Rightarrow> containment_code list" where
  "report_findings dg verifier p pm r now m =
     map snd (filter fst
       [(\<not> permit_integrity dg pm, PERMIT_INVALID),
        (\<not> report_integrity dg r, REPORT_INTEGRITY_INVALID),
        (\<not> verify_outcome verifier r, REPORT_UNVERIFIABLE),
        (op_permit_id r \<noteq> pm_id pm \<or> op_permit_digest r \<noteq> pm_digest pm, REPORT_MISMATCH),
        (pm_expires_at pm < now, PERMIT_EXPIRED),
        (op_completed_at r < pm_issued_at pm \<or> now < op_completed_at r, REPORT_MISMATCH),
        (find_dependency p (pm_selected_id pm) = None, DEPENDENCY_UNKNOWN),
        (dict_get (mg_active_permits m) (pm_id pm) = None, PERMIT_REPLAYED),
        (case dict_get (mg_active_permits m) (pm_id pm) of
           None \<Rightarrow> False | Some a \<Rightarrow> ap_digest a \<noteq> pm_digest pm, PERMIT_INVALID),
        (op_report_id r \<in> mg_used_reports m, REPORT_REPLAYED)])"

definition error_rate :: "sample list \<Rightarrow> rat" where
  "error_rate ss = (if ss = [] then 0
     else of_nat (length (filter (\<lambda>s. \<not> sm_success s) ss)) / of_nat (length ss))"

definition average_latency :: "sample list \<Rightarrow> rat" where
  "average_latency ss = (if ss = [] then 0 else sum_list (map sm_latency ss) / of_nat (length ss))"

definition outcome_findings ::
  "containment_policy \<Rightarrow> outcome_report \<Rightarrow> breaker_policy \<Rightarrow> sample list \<Rightarrow> containment_code list" where
  "outcome_findings p r b ss =
     map snd (filter fst
       [(\<not> op_success r, DEPENDENCY_ERROR),
        (cp_max_cost p < op_cost r, COST_LIMIT_EXCEEDED),
        (bk_minimum_samples b \<le> length ss \<and> bk_error_rate_threshold b \<le> error_rate ss,
         ERROR_RATE_THRESHOLD_EXCEEDED),
        (bk_minimum_samples b \<le> length ss \<and> bk_average_latency_threshold b \<le> average_latency ss,
         LATENCY_THRESHOLD_EXCEEDED),
        (bk_cumulative_cost_threshold b \<le> sum_list (map sm_cost ss), COST_THRESHOLD_EXCEEDED),
        (bk_abnormal_tool_call_threshold b \<le> sum_list (map sm_abnormal_calls ss),
         TOOL_CALL_THRESHOLD_EXCEEDED)])"

definition threshold_codes :: "containment_code list" where
  "threshold_codes = [ERROR_RATE_THRESHOLD_EXCEEDED, LATENCY_THRESHOLD_EXCEEDED,
     COST_THRESHOLD_EXCEEDED, TOOL_CALL_THRESHOLD_EXCEEDED]"

definition threshold_crossed :: "containment_code list \<Rightarrow> bool" where
  "threshold_crossed fs \<longleftrightarrow> (\<exists>f \<in> set fs. f \<in> set threshold_codes)"

definition report_sample :: "outcome_report \<Rightarrow> sample" where
  "report_sample r = \<lparr>sm_success = op_success r, sm_latency = op_latency r, sm_cost = op_cost r,
     sm_abnormal_calls = op_abnormal_calls r\<rparr>"

text \<open>\<open>_finish_side_effect\<close>, together with the consumption of permit and report identifier.\<close>

definition consume_report :: "permit \<Rightarrow> outcome_report \<Rightarrow> manager \<Rightarrow> manager" where
  "consume_report pm r m =
     (let m1 = m\<lparr>mg_active_permits := dict_del (mg_active_permits m) (pm_id pm),
                 mg_used_reports := insert (op_report_id r) (mg_used_reports m)\<rparr>
      in (case pm_idempotency_key pm of
            None \<Rightarrow> m1
          | Some k \<Rightarrow>
              m1\<lparr>mg_active_side_effects := mg_active_side_effects m1 - {(pm_tenant_id pm, k)},
                 mg_committed_side_effects :=
                   (if op_side_effect_committed r
                    then insert (pm_tenant_id pm, k) (mg_committed_side_effects m1)
                    else mg_committed_side_effects m1)\<rparr>))"

text \<open>The breaker transition: the next circuit, and whether it closed or opened.\<close>

datatype transition = STAYS | CLOSES | OPENS

definition circuit_transition ::
  "containment_policy \<Rightarrow> outcome_report \<Rightarrow> dependency \<Rightarrow> datetime \<Rightarrow> circuit \<Rightarrow>
   containment_code list \<times> transition \<times> circuit" where
  "circuit_transition p r d now c =
     (let c1 = c\<lparr>ct_probe_active := False,
                 ct_samples := deque_append (bk_window_size (dp_breaker d)) (ct_samples c) (report_sample r)\<rparr>;
          fs = outcome_findings p r (dp_breaker d) (ct_samples c1)
      in if ct_state c = CS_HALF_OPEN \<and> op_success r \<and> \<not> threshold_crossed fs
         then (fs, CLOSES, c1\<lparr>ct_state := CS_CLOSED, ct_opened_at := None, ct_samples := []\<rparr>)
         else if threshold_crossed fs \<or> ct_state c = CS_HALF_OPEN \<and> \<not> op_success r
         then (fs, OPENS, c1\<lparr>ct_state := CS_OPEN, ct_opened_at := Some now\<rparr>)
         else (fs, STAYS, c1))"

text \<open>
  \<open>_request_from_permit\<close>: the tenant and operation identifiers the events of an outcome carry. The
  emitted identifiers are sanitised again by the event itself.
\<close>

definition permit_tenant :: "permit \<Rightarrow> ident" where
  "permit_tenant pm = safe_identifier (pm_tenant_id pm) ''invalid-tenant''"

definition permit_operation :: "permit \<Rightarrow> ident" where
  "permit_operation pm = safe_identifier (pm_operation_id pm) ''invalid-operation''"

text \<open>One more event of an outcome, for the permit's tenant and operation.\<close>

definition outcome_event ::
  "digests \<Rightarrow> permit \<Rightarrow> dependency \<Rightarrow> datetime \<Rightarrow> containment_event_kind \<Rightarrow> guard_action \<Rightarrow>
   containment_code list \<Rightarrow> manager \<Rightarrow> containment_event \<times> manager" where
  "outcome_event dg pm d now kind action fs m =
     make_event dg kind (permit_tenant pm) (permit_operation pm) (dp_id d) (dp_domain_id d) action fs now m"

definition closing_events ::
  "digests \<Rightarrow> permit \<Rightarrow> dependency \<Rightarrow> datetime \<Rightarrow> manager \<Rightarrow>
   containment_event list \<times> dispatch \<times> manager" where
  "closing_events dg pm d now m =
     (let (e1, m1) = outcome_event dg pm d now EK_CIRCUIT_CLOSED ALLOW [] m;
          (e2, m2) = outcome_event dg pm d now EK_RECOVERY_REQUESTED ALLOW [] m1
      in ([e1, e2], no_dispatch\<lparr>ds_recovery := [e2]\<rparr>, m2))"

definition opening_events ::
  "digests \<Rightarrow> permit \<Rightarrow> outcome_report \<Rightarrow> dependency \<Rightarrow> datetime \<Rightarrow> containment_code list \<Rightarrow> manager \<Rightarrow>
   containment_event list \<times> dispatch \<times> manager" where
  "opening_events dg pm r d now fs m =
     (let (e1, m1) = outcome_event dg pm d now EK_CIRCUIT_OPENED BLOCK fs m;
          (e2, m2) = outcome_event dg pm d now EK_DEGRADED_MODE_ENTERED WARN fs m1;
          ds = no_dispatch\<lparr>ds_degraded := [e2]\<rparr>;
          (es3, ds3, m3) =
            (if dp_criticality d \<in> {CRIT_HIGH, CRIT_CRITICAL} then
               (let (e, m') = outcome_event dg pm d now EK_CANCELLATION_REQUESTED BLOCK fs m2
                in ([e], ds\<lparr>ds_cancellation := [e]\<rparr>, m'))
             else ([], ds, m2));
          (es4, ds4, m4) =
            (if op_side_effect_committed r \<and> \<not> op_success r then
               (let (e, m') = outcome_event dg pm d now EK_COMPENSATION_REQUESTED BLOCK fs m3
                in ([e], ds3\<lparr>ds_compensation := [e]\<rparr>, m'))
             else ([], ds3, m3))
      in ([e1, e2] @ es3 @ es4, ds4, m4))"

definition record_outcome ::
  "digests \<Rightarrow> (outcome_report \<Rightarrow> bool) option \<Rightarrow> (hook_kind \<Rightarrow> containment_event \<Rightarrow> bool) \<Rightarrow>
   containment_policy \<Rightarrow> permit \<Rightarrow> outcome_report \<Rightarrow> datetime \<Rightarrow> manager \<Rightarrow>
   containment_result \<times> manager" where
  "record_outcome dg verifier raises p pm r now m =
     (let pre = report_findings dg verifier p pm r now m in
      case find_dependency p (pm_selected_id pm) of
        Some d \<Rightarrow>
          if pre \<noteq> [] then
            (let (e, m') = outcome_event dg pm d now EK_OUTCOME_RECORDED BLOCK pre m
             in (\<lparr>cr_action = BLOCK, cr_findings = deduplicate pre, cr_permit = None, cr_events = [e]\<rparr>, m'))
          else
            (let m1 = touch_circuit (consume_report pm r m) (pm_tenant_id pm) (dp_id d);
                 (fs, tr, c') = circuit_transition p r d now (circuit_of m1 (pm_tenant_id pm) (dp_id d));
                 m2 = put_circuit m1 (pm_tenant_id pm) (dp_id d) c';
                 (evs, ds, m3) = (case tr of
                     CLOSES \<Rightarrow> closing_events dg pm d now m2
                   | OPENS \<Rightarrow> opening_events dg pm r d now fs m2
                   | STAYS \<Rightarrow> ([], no_dispatch, m2));
                 act = (if op_success r \<and> fs = [] then ALLOW else BLOCK);
                 (e, m4) = outcome_event dg pm d now EK_OUTCOME_RECORDED act fs m3;
                 (m5, evs') = publish dg raises ds (m4, evs @ [e])
             in (\<lparr>cr_action = act, cr_findings = deduplicate fs, cr_permit = None, cr_events = evs'\<rparr>, m5))
      | None \<Rightarrow>
          (let (e, m') = make_event dg EK_OUTCOME_RECORDED (permit_tenant pm) (permit_operation pm)
                 (safe_identifier (pm_selected_id pm) ''unknown-dependency'') ''unknown-domain'' BLOCK pre now m
           in (\<lparr>cr_action = BLOCK, cr_findings = deduplicate pre, cr_permit = None, cr_events = [e]\<rparr>, m')))"

section \<open>Snapshots\<close>

record circuit_snapshot =
  sn_tenant_id :: ident
  sn_dependency_id :: ident
  sn_domain_id :: ident
  sn_health :: dependency_health
  sn_state :: circuit_state
  sn_sample_count :: nat
  sn_error_rate :: rat
  sn_average_latency :: rat
  sn_cumulative_cost :: rat
  sn_abnormal_calls :: nat

text \<open>\<open>None\<close> is the \<open>KeyError\<close> of an undeclared dependency.\<close>

definition snapshot ::
  "containment_policy \<Rightarrow> ident \<Rightarrow> ident \<Rightarrow> manager \<Rightarrow> (circuit_snapshot \<times> manager) option" where
  "snapshot p tenant dep m =
     (case find_dependency p dep of
        None \<Rightarrow> None
      | Some d \<Rightarrow>
          (let m' = touch_circuit m tenant dep; c = circuit_of m' tenant dep; ss = ct_samples c in
           Some (\<lparr>sn_tenant_id = tenant, sn_dependency_id = dep, sn_domain_id = dp_domain_id d,
                  sn_health = dp_health d, sn_state = ct_state c, sn_sample_count = length ss,
                  sn_error_rate = error_rate ss, sn_average_latency = average_latency ss,
                  sn_cumulative_cost = sum_list (map sm_cost ss),
                  sn_abnormal_calls = sum_list (map sm_abnormal_calls ss)\<rparr>, m')))"

end
