(* ===== verification/Failure_Properties.thy ===== *)
theory Failure_Properties
  imports Failure_Containment
begin

text \<open>
  Correctness of the failure-containment manager: what a permit guarantees, that attempts, reports
  and committed side effects are single-use, retry bounds, the numbering of events, and two
  behaviours of the half-open state.
\<close>

section \<open>What the circuit bookkeeping leaves alone\<close>

text \<open>Everything of the manager but the circuits and the event counter.\<close>

definition core :: "manager \<Rightarrow>
    (ident, active_permit) dict \<times> ident set \<times> (ident \<times> ident) set \<times>
    (ident \<times> ident, nat) dict \<times> (ident \<times> ident) set \<times> (ident \<times> ident) set" where
  "core m = (mg_active_permits m, mg_used_reports m, mg_seen_attempts m, mg_operation_attempts m,
     mg_active_side_effects m, mg_committed_side_effects m)"

lemma coreD:
  assumes "core m = core m'"
  shows "mg_active_permits m = mg_active_permits m'" "mg_used_reports m = mg_used_reports m'"
    "mg_seen_attempts m = mg_seen_attempts m'" "mg_operation_attempts m = mg_operation_attempts m'"
    "mg_active_side_effects m = mg_active_side_effects m'"
    "mg_committed_side_effects m = mg_committed_side_effects m'"
  using assms by (simp_all add: core_def)

lemma circuit_of_touch [simp]: "circuit_of (touch_circuit m t d) u e = circuit_of m u e"
  by (auto simp: circuit_of_def touch_circuit_def dict_get_default_def)

lemma circuit_of_put [simp]:
  "circuit_of (put_circuit m t d c) u e = (if (u, e) = (t, d) then c else circuit_of m u e)"
  by (auto simp: circuit_of_def put_circuit_def)

lemma core_simps [simp]:
  "core (touch_circuit m t d) = core m" "core (put_circuit m t d c) = core m"
  "core (m\<lparr>mg_event_sequence := n\<rparr>) = core m"
  by (simp_all add: core_def touch_circuit_def put_circuit_def)

lemma make_event_simps [simp]:
  "core (snd (make_event dg k t op d dm a fs now m)) = core m"
  "circuit_of (snd (make_event dg k t op d dm a fs now m)) u e = circuit_of m u e"
  "mg_event_sequence (snd (make_event dg k t op d dm a fs now m)) = Suc (mg_event_sequence m)"
  "ce_sequence (fst (make_event dg k t op d dm a fs now m)) = Suc (mg_event_sequence m)"
  by (simp_all add: make_event_def Let_def seal_event_def core_def touch_circuit_def circuit_of_def
      dict_get_default_def)

lemma advance_simps [simp]:
  "core (fst (advance_half_open dg t d now me)) = core (fst me)"
  by (simp add: advance_half_open_def Let_def split_def)

text \<open>The effect on a circuit: only a due open circuit changes, to half-open without a probe.\<close>

definition half_opened :: "circuit \<Rightarrow> circuit" where
  "half_opened c = c\<lparr>ct_state := CS_HALF_OPEN, ct_probe_active := False\<rparr>"

lemma circuit_of_advance:
  "circuit_of (fst (advance_half_open dg t d now me)) u e =
     (if (u, e) = (t, dp_id d) \<and> due_half_open d (circuit_of (fst me) u e) now
      then half_opened (circuit_of (fst me) u e) else circuit_of (fst me) u e)"
  by (auto simp: advance_half_open_def Let_def split_def half_opened_def)

lemma core_advance_fold [simp]:
  "core (fst (fold (\<lambda>e. advance_half_open dg t e now) ds me)) = core (fst me)"
  by (induction ds arbitrary: me) simp_all

lemma core_unavailable [simp]:
  "core (fst (snd (dependency_unavailable dg p t d now me))) = core (fst me)"
  by (simp add: dependency_unavailable_def Let_def)

lemma core_select_fallback [simp]:
  "core (fst (snd (snd (select_fallback dg p q d now me)))) = core (fst me)"
  by (simp add: select_fallback_def Let_def split_def split: option.split)

lemma core_admission [simp]: "core (fst (snd (snd (admission dg p q d now m)))) = core m"
  by (simp add: admission_def Let_def split_def)

lemma core_invoke_hook [simp]: "core (fst (invoke_hook dg raises k e me)) = core (fst me)"
  by (simp add: invoke_hook_def Let_def)

lemma circuit_of_invoke_hook [simp]:
  "circuit_of (fst (invoke_hook dg raises k e me)) u d = circuit_of (fst me) u d"
  by (simp add: invoke_hook_def Let_def circuit_of_def)

lemma invoke_hooks_simps [simp]:
  "core (fst (fold (invoke_hook dg raises k) es me)) = core (fst me)"
  "circuit_of (fst (fold (invoke_hook dg raises k) es me)) u d = circuit_of (fst me) u d"
  by (induction es arbitrary: me) simp_all

lemma publish_simps [simp]:
  "core (fst (publish dg raises ds me)) = core (fst me)"
  "circuit_of (fst (publish dg raises ds me)) u d = circuit_of (fst me) u d"
  by (simp_all add: publish_def)

section \<open>The shape of authorize\<close>

lemma blocked_admission_simps [simp]:
  "cr_action (fst (blocked_admission dg q dep dm fs now me)) = BLOCK"
  "cr_permit (fst (blocked_admission dg q dep dm fs now me)) = None"
  "core (snd (blocked_admission dg q dep dm fs now me)) = core (fst me)"
  "circuit_of (snd (blocked_admission dg q dep dm fs now me)) u e = circuit_of (fst me) u e"
  by (simp_all add: blocked_admission_def split_def Let_def)

lemma authorize_cases:
  assumes "authorize dg raises p pid q now m = (res, m')"
  obtains (unknown) "cr_action res = BLOCK" "cr_permit res = None" "core m' = core m"
      "\<And>u e. circuit_of m' u e = circuit_of m u e"
  | (refused) d where "find_dependency p (cq_dependency_id q) = Some d"
      "cr_action res = BLOCK" "cr_permit res = None" "core m' = core m"
      "\<And>u e. circuit_of m' u e = circuit_of m u e \<or>
         circuit_of m' u e = circuit_of (fst (snd (snd (admission dg p q d now m)))) u e"
  | (permitted) d fb me pm m1 where "find_dependency p (cq_dependency_id q) = Some d"
      "static_findings dg p q = []" "tenant_findings d (cq_tenant_id q) = []"
      "admission dg p q d now m = (fb, [], me)"
      "issue_permit dg p pid q d (selected_dependency p d fb) fb now (fst me) = (pm, m1)"
      "cr_action res = ALLOW" "cr_permit res = Some pm" "core m' = core m1"
      "\<And>u e. circuit_of m' u e = circuit_of m1 u e"
proof (cases "find_dependency p (cq_dependency_id q)")
  case None
  with assms have "(res, m') = blocked_admission dg q (safe_identifier (cq_dependency_id q) ''unknown-dependency'')
            ''unknown-domain'' (static_findings dg p q) now (m, [])"
    by (simp add: authorize_def)
  then have "res = fst (blocked_admission dg q (safe_identifier (cq_dependency_id q) ''unknown-dependency'')
            ''unknown-domain'' (static_findings dg p q) now (m, []))"
    "m' = snd (blocked_admission dg q (safe_identifier (cq_dependency_id q) ''unknown-dependency'')
            ''unknown-domain'' (static_findings dg p q) now (m, []))" by (metis fst_conv snd_conv)+
  with unknown show ?thesis by simp
next
  case (Some d)
  obtain fb fs me where adm: "admission dg p q d now m = (fb, fs, me)" by (cases "admission dg p q d now m")
  have core_me: "core (fst me) = core m" using core_admission [of dg p q d now m] by (simp add: adm)
  consider (early) "static_findings dg p q @ tenant_findings d (cq_tenant_id q) \<noteq> []"
    | (late) "static_findings dg p q @ tenant_findings d (cq_tenant_id q) = []" "fs \<noteq> []"
    | (ok) "static_findings dg p q = []" "tenant_findings d (cq_tenant_id q) = []" "fs = []"
    by auto
  then show ?thesis
  proof cases
    case early
    let ?b = "blocked_admission dg q (dp_id d) (dp_domain_id d)
      (static_findings dg p q @ tenant_findings d (cq_tenant_id q)) now (m, [])"
    have "(res, m') = ?b" using assms Some early by (simp add: authorize_def)
    then have "res = fst ?b" "m' = snd ?b" by (metis fst_conv snd_conv)+
    then show ?thesis using refused [OF Some] by simp
  next
    case late
    let ?b = "blocked_admission dg q (dp_id d) (dp_domain_id d) fs now me"
    have "(res, m') = ?b" using assms Some late by (simp add: authorize_def adm)
    then have "res = fst ?b" "m' = snd ?b" by (metis fst_conv snd_conv)+
    then show ?thesis using refused [OF Some] core_me by (simp add: adm)
  next
    case ok
    obtain pm m1 where issue:
      "issue_permit dg p pid q d (selected_dependency p d fb) fb now (fst me) = (pm, m1)"
      by (cases "issue_permit dg p pid q d (selected_dependency p d fb) fb now (fst me)")
    have "cr_action res = ALLOW" "cr_permit res = Some pm" "core m' = core m1"
      "circuit_of m' u e = circuit_of m1 u e" for u e
      using assms Some ok adm issue
      by (auto simp: authorize_def Let_def split_def split: option.splits)
    then show ?thesis using permitted [OF Some ok(1,2) adm [unfolded ok(3)] issue] by blast
  qed
qed

section \<open>Runs of the manager\<close>

datatype containment_op =
    Op_authorize ident containment_request datetime
  | Op_outcome permit outcome_report datetime

text \<open>
  The parameters of a manager: digests, verifier, hooks and policy. An operation is accepted when
  it authorizes an attempt, or consumes a report.
\<close>

record environment =
  en_digests :: digests
  en_verifier :: "(outcome_report \<Rightarrow> bool) option"
  en_hooks :: "hook_kind \<Rightarrow> containment_event \<Rightarrow> bool"
  en_policy :: containment_policy

fun containment_attempt :: "environment \<Rightarrow> manager \<Rightarrow> containment_op \<Rightarrow> bool \<times> manager" where
  "containment_attempt E m (Op_authorize pid q now) =
     (let (r, m') = authorize (en_digests E) (en_hooks E) (en_policy E) pid q now m
      in (cr_action r = ALLOW, m'))"
| "containment_attempt E m (Op_outcome pm r now) =
     (report_findings (en_digests E) (en_verifier E) (en_policy E) pm r now m = [],
      snd (record_outcome (en_digests E) (en_verifier E) (en_hooks E) (en_policy E) pm r now m))"

abbreviation containment_step :: "environment \<Rightarrow> manager \<Rightarrow> containment_op \<Rightarrow> manager" where
  "containment_step E m op \<equiv> snd (containment_attempt E m op)"

lemma report_findings_Nil:
  "report_findings dg verifier p pm r now m = [] \<longleftrightarrow>
     permit_integrity dg pm \<and> report_integrity dg r \<and> verify_outcome verifier r \<and>
     op_permit_id r = pm_id pm \<and> op_permit_digest r = pm_digest pm \<and> now \<le> pm_expires_at pm \<and>
     pm_issued_at pm \<le> op_completed_at r \<and> op_completed_at r \<le> now \<and>
     find_dependency p (pm_selected_id pm) \<noteq> None \<and>
     (\<exists>a. dict_get (mg_active_permits m) (pm_id pm) = Some a \<and> ap_digest a = pm_digest pm) \<and>
     op_report_id r \<notin> mg_used_reports m"
  by (auto simp: report_findings_def filter_empty_conv not_less split: option.splits)

lemma outcome_event_simps [simp]:
  "core (snd (outcome_event dg pm d now k a fs m)) = core m"
  "circuit_of (snd (outcome_event dg pm d now k a fs m)) u e = circuit_of m u e"
  by (simp_all add: outcome_event_def)

lemma closing_events_simps [simp]:
  "core (snd (snd (closing_events dg pm d now m))) = core m"
  "circuit_of (snd (snd (closing_events dg pm d now m))) u e = circuit_of m u e"
  by (simp_all add: closing_events_def Let_def split_def)

lemma opening_events_simps [simp]:
  "core (snd (snd (opening_events dg pm r d now fs m))) = core m"
  "circuit_of (snd (snd (opening_events dg pm r d now fs m))) u e = circuit_of m u e"
  by (simp_all add: opening_events_def Let_def split_def)

lemma circuit_of_consume [simp]: "circuit_of (consume_report pm r m) u e = circuit_of m u e"
  by (auto simp: consume_report_def Let_def circuit_of_def split: option.split)

lemma record_rejected:
  assumes "report_findings dg verifier p pm r now m \<noteq> []"
  shows "core (snd (record_outcome dg verifier raises p pm r now m)) = core m"
    and "circuit_of (snd (record_outcome dg verifier raises p pm r now m)) u e = circuit_of m u e"
    and "cr_action (fst (record_outcome dg verifier raises p pm r now m)) = BLOCK"
  using assms by (simp_all add: record_outcome_def Let_def split_def split: option.split)

lemma record_accepted:
  assumes "report_findings dg verifier p pm r now m = []"
    and "find_dependency p (pm_selected_id pm) = Some d"
  shows "core (snd (record_outcome dg verifier raises p pm r now m)) = core (consume_report pm r m)"
    and "circuit_of (snd (record_outcome dg verifier raises p pm r now m)) u e =
      (if (u, e) = (pm_tenant_id pm, dp_id d)
       then snd (snd (circuit_transition p r d now (circuit_of m u e))) else circuit_of m u e)"
  using assms
  by (simp_all add: record_outcome_def Let_def split_def split: transition.split)

lemma core_record:
  "core (snd (record_outcome dg verifier raises p pm r now m)) =
     (if report_findings dg verifier p pm r now m = [] then core (consume_report pm r m) else core m)"
proof (cases "report_findings dg verifier p pm r now m = []")
  case True
  then obtain d where "find_dependency p (pm_selected_id pm) = Some d"
    by (auto simp: report_findings_Nil)
  with True show ?thesis by (simp add: record_accepted)
qed (simp add: record_rejected)

text \<open>The effect of issuing a permit on the core.\<close>

lemma issue_permit_core:
  assumes "issue_permit dg p pid q d sel fb now m = (pm, m1)"
  shows "mg_seen_attempts m1 = insert (cq_tenant_id q, cq_attempt_id q) (mg_seen_attempts m)"
    and "mg_operation_attempts m1 = dict_set (mg_operation_attempts m) (cq_tenant_id q, cq_operation_id q)
      (dict_get_default (mg_operation_attempts m) (cq_tenant_id q, cq_operation_id q) 0 + 1)"
    and "mg_used_reports m1 = mg_used_reports m"
    and "mg_committed_side_effects m1 = mg_committed_side_effects m"
    and "mg_active_side_effects m \<subseteq> mg_active_side_effects m1"
    and "cq_side_effecting q \<Longrightarrow> cq_idempotency_key q = Some k \<Longrightarrow>
      (cq_tenant_id q, k) \<in> mg_active_side_effects m1"
    and "pm = make_permit dg p pid q d sel fb now"
proof -
  let ?t = "cq_tenant_id q" and ?m1 = "touch_circuit m (cq_tenant_id q) (dp_id sel)"
  define m2 where "m2 = (if ct_state (circuit_of ?m1 ?t (dp_id sel)) = CS_HALF_OPEN
      then put_circuit ?m1 ?t (dp_id sel) (circuit_of ?m1 ?t (dp_id sel)\<lparr>ct_probe_active := True\<rparr>) else ?m1)"
  have "core m2 = core m" by (simp add: m2_def)
  note c = coreD [OF this]
  note i = assms [unfolded issue_permit_def Let_def, folded m2_def]
  show "mg_seen_attempts m1 = insert (cq_tenant_id q, cq_attempt_id q) (mg_seen_attempts m)"
    "mg_operation_attempts m1 = dict_set (mg_operation_attempts m) (cq_tenant_id q, cq_operation_id q)
      (dict_get_default (mg_operation_attempts m) (cq_tenant_id q, cq_operation_id q) 0 + 1)"
    "mg_used_reports m1 = mg_used_reports m"
    "mg_committed_side_effects m1 = mg_committed_side_effects m"
    "mg_active_side_effects m \<subseteq> mg_active_side_effects m1"
    "cq_side_effecting q \<Longrightarrow> cq_idempotency_key q = Some k \<Longrightarrow>
      (cq_tenant_id q, k) \<in> mg_active_side_effects m1"
    "pm = make_permit dg p pid q d sel fb now"
    using i c by (auto split: option.splits)
qed

lemma admission_findings:
  assumes "admission dg p q d now m = (fb, fs, me)"
  shows "set (mutable_findings p q m) \<subseteq> set fs"
  using assms by (auto simp: admission_def Let_def split_def split: if_splits)

lemma mutable_findings_Nil:
  "mutable_findings p q m = [] \<longleftrightarrow>
     (cq_tenant_id q, cq_attempt_id q) \<notin> mg_seen_attempts m \<and>
     dict_get_default (mg_operation_attempts m) (cq_tenant_id q, cq_operation_id q) 0 \<le> cp_max_retries p \<and>
     cq_retry_count q = dict_get_default (mg_operation_attempts m) (cq_tenant_id q, cq_operation_id q) 0 \<and>
     (cq_side_effecting q \<longrightarrow> (\<exists>k. cq_idempotency_key q = Some k \<and>
        (cq_tenant_id q, k) \<notin> mg_active_side_effects m \<and>
        (cq_tenant_id q, k) \<notin> mg_committed_side_effects m))"
  by (auto simp: mutable_findings_def side_effect_findings_def Let_def filter_empty_conv not_less
      split: option.splits)

lemma authorized_core:
  assumes "authorize dg raises p pid q now m = (res, m')" and "cr_action res = ALLOW"
  obtains d fb m0 pm m1 where "mutable_findings p q m = []"
    "issue_permit dg p pid q d (selected_dependency p d fb) fb now m0 = (pm, m1)"
    "core m' = core m1" "core m0 = core m" "cr_permit res = Some pm"
  using assms(1)
proof (cases rule: authorize_cases)
  case (permitted d fb me pm m1)
  have mf: "mutable_findings p q m = []" using admission_findings [OF permitted(4)] by simp
  have "core (fst me) = core m" using core_admission [of dg p q d now m] by (simp add: permitted(4))
  with that [OF mf permitted(5) permitted(8)] permitted(7) show ?thesis by simp
qed (use assms(2) in simp_all)

lemma refused_core:
  "authorize dg raises p pid q now m = (res, m') \<Longrightarrow> cr_action res \<noteq> ALLOW \<Longrightarrow> core m' = core m"
  by (erule authorize_cases) simp_all

section \<open>Attempts and reports are single-use\<close>

fun op_attempt_key :: "containment_op \<Rightarrow> ident \<times> ident" where
  "op_attempt_key (Op_authorize pid q now) = (cq_tenant_id q, cq_attempt_id q)"
| "op_attempt_key (Op_outcome pm r now) = ([], [])"

text \<open>Acceptance restricted to one kind of operation.\<close>

definition authorize_attempt :: "environment \<Rightarrow> manager \<Rightarrow> containment_op \<Rightarrow> bool \<times> manager" where
  "authorize_attempt E m op =
     ((case op of Op_authorize _ _ _ \<Rightarrow> fst (containment_attempt E m op) | Op_outcome _ _ _ \<Rightarrow> False),
      containment_step E m op)"

definition report_attempt :: "environment \<Rightarrow> manager \<Rightarrow> containment_op \<Rightarrow> bool \<times> manager" where
  "report_attempt E m op =
     ((case op of Op_authorize _ _ _ \<Rightarrow> False | Op_outcome _ _ _ \<Rightarrow> fst (containment_attempt E m op)),
      containment_step E m op)"

fun op_report_key :: "containment_op \<Rightarrow> ident" where
  "op_report_key (Op_authorize pid q now) = []"
| "op_report_key (Op_outcome pm r now) = op_report_id r"

lemma consume_report_core:
  "mg_used_reports (consume_report pm r m) = insert (op_report_id r) (mg_used_reports m)"
  "mg_seen_attempts (consume_report pm r m) = mg_seen_attempts m"
  "mg_operation_attempts (consume_report pm r m) = mg_operation_attempts m"
  "mg_committed_side_effects m \<subseteq> mg_committed_side_effects (consume_report pm r m)"
  by (auto simp: consume_report_def Let_def split: option.split)

text \<open>How one operation changes the sets that only grow.\<close>

lemma step_grows:
  "mg_seen_attempts m \<subseteq> mg_seen_attempts (containment_step E m op)"
  "mg_used_reports m \<subseteq> mg_used_reports (containment_step E m op)"
  "mg_committed_side_effects m \<subseteq> mg_committed_side_effects (containment_step E m op)"
proof -
  have "mg_seen_attempts m \<subseteq> mg_seen_attempts (containment_step E m op) \<and>
    mg_used_reports m \<subseteq> mg_used_reports (containment_step E m op) \<and>
    mg_committed_side_effects m \<subseteq> mg_committed_side_effects (containment_step E m op)"
  proof (cases op)
    case (Op_authorize pid q now)
    obtain res m' where a: "authorize (en_digests E) (en_hooks E) (en_policy E) pid q now m = (res, m')"
      by (cases "authorize (en_digests E) (en_hooks E) (en_policy E) pid q now m")
    show ?thesis
    proof (cases "cr_action res = ALLOW")
      case True
      from authorized_core [OF a True] obtain d fb m0 pm m1 where
        i: "issue_permit (en_digests E) (en_policy E) pid q d (selected_dependency (en_policy E) d fb) fb now m0 = (pm, m1)"
        and c: "core m' = core m1" "core m0 = core m" by metis
      then show ?thesis using issue_permit_core(1,3,4) [OF i] coreD [OF c(1)] coreD [OF c(2)]
        by (auto simp: Op_authorize a)
    next
      case False
      then show ?thesis using coreD [OF refused_core [OF a False]] by (simp add: Op_authorize a)
    qed
  next
    case (Op_outcome pm r now)
    have "core (containment_step E m op) = core (consume_report pm r m) \<or> core (containment_step E m op) = core m"
      by (simp add: Op_outcome core_record)
    then show ?thesis
    proof
      assume "core (containment_step E m op) = core (consume_report pm r m)"
      from coreD [OF this] show ?thesis using consume_report_core [where pm = pm and r = r and m = m] by auto
    next
      assume "core (containment_step E m op) = core m"
      from coreD [OF this] show ?thesis by simp
    qed
  qed
  then show "mg_seen_attempts m \<subseteq> mg_seen_attempts (containment_step E m op)"
    "mg_used_reports m \<subseteq> mg_used_reports (containment_step E m op)"
    "mg_committed_side_effects m \<subseteq> mg_committed_side_effects (containment_step E m op)" by blast+
qed

lemma authorize_accepts:
  assumes "authorize_attempt E m op = (True, m')"
  shows "op_attempt_key op \<notin> mg_seen_attempts m" and "op_attempt_key op \<in> mg_seen_attempts m'"
proof -
  obtain pid q now res where op: "op = Op_authorize pid q now"
    and a: "authorize (en_digests E) (en_hooks E) (en_policy E) pid q now m = (res, m')"
    and ok: "cr_action res = ALLOW"
    using assms by (auto simp: authorize_attempt_def Let_def split: containment_op.splits prod.splits)
  from authorized_core [OF a ok] obtain d fb m0 pm m1 where
    mf: "mutable_findings (en_policy E) q m = []"
    and i: "issue_permit (en_digests E) (en_policy E) pid q d (selected_dependency (en_policy E) d fb) fb now m0 = (pm, m1)"
    and c: "core m' = core m1" "core m0 = core m" by metis
  show "op_attempt_key op \<notin> mg_seen_attempts m" using mf by (simp add: op mutable_findings_Nil)
  show "op_attempt_key op \<in> mg_seen_attempts m'"
    using issue_permit_core(1) [OF i] coreD [OF c(1)] by (simp add: op)
qed

lemma report_accepts:
  assumes "report_attempt E m op = (True, m')"
  shows "op_report_key op \<notin> mg_used_reports m" and "op_report_key op \<in> mg_used_reports m'"
proof -
  obtain pm r now where op: "op = Op_outcome pm r now"
    and ok: "report_findings (en_digests E) (en_verifier E) (en_policy E) pm r now m = []"
    and m': "m' = snd (record_outcome (en_digests E) (en_verifier E) (en_hooks E) (en_policy E) pm r now m)"
    using assms by (auto simp: report_attempt_def split: containment_op.splits)
  show "op_report_key op \<notin> mg_used_reports m" using ok by (simp add: op report_findings_Nil)
  have "core m' = core (consume_report pm r m)" using ok by (simp add: m' core_record)
  from coreD(2) [OF this] show "op_report_key op \<in> mg_used_reports m'"
    by (simp add: op consume_report_core)
qed

interpretation attempt_use: single_use "authorize_attempt E" op_attempt_key mg_seen_attempts
    "\<lambda>_ _. True" "\<lambda>_. True" for E
  by unfold_locales
    (use authorize_accepts step_grows(1) in \<open>auto simp: authorize_attempt_def\<close>)

interpretation report_use: single_use "report_attempt E" op_report_key mg_used_reports
    "\<lambda>_ _. True" "\<lambda>_. True" for E
  by unfold_locales
    (use report_accepts step_grows(2) in \<open>auto simp: report_attempt_def\<close>)

text \<open>
  Attempts and reports are single-use. Along any sequence of authorizations and outcome
  reports, whatever the digests, verifier, hooks and policy are, the authorized attempts carry
  pairwise different (tenant, attempt) identifiers, and the consumed reports pairwise different
  report identifiers.
\<close>

theorem attempts_and_reports_single_use:
  "distinct (map op_attempt_key (fst (run_attempts (authorize_attempt E) m ops))) \<and>
   distinct (map op_report_key (fst (run_attempts (report_attempt E) m ops)))"
  using attempt_use.accepted_at_most_once [OF TrueI all_admissible_True surjective_pairing]
    report_use.accepted_at_most_once [OF TrueI all_admissible_True surjective_pairing]
  by blast

section \<open>Retries and side effects along runs\<close>

text \<open>The authorized requests of a run, in order.\<close>

definition authorized :: "environment \<Rightarrow> manager \<Rightarrow> containment_op list \<Rightarrow> containment_op list" where
  "authorized E m ops = fst (run_attempts (authorize_attempt E) m ops)"

lemma authorized_Cons:
  "authorized E m (op # ops) =
     (if fst (authorize_attempt E m op) then [op] else []) @ authorized E (containment_step E m op) ops"
  by (simp add: authorized_def authorize_attempt_def split_def Let_def)

lemma authorize_accepted:
  assumes "fst (authorize_attempt E m op)"
  obtains pid q now where "op = Op_authorize pid q now" "mutable_findings (en_policy E) q m = []"
    "mg_operation_attempts (containment_step E m op) =
       dict_set (mg_operation_attempts m) (cq_tenant_id q, cq_operation_id q)
         (dict_get_default (mg_operation_attempts m) (cq_tenant_id q, cq_operation_id q) 0 + 1)"
proof -
  obtain pid q now res m' where op: "op = Op_authorize pid q now"
    and a: "authorize (en_digests E) (en_hooks E) (en_policy E) pid q now m = (res, m')"
    and ok: "cr_action res = ALLOW"
    using assms by (auto simp: authorize_attempt_def Let_def split: containment_op.splits prod.splits)
  from authorized_core [OF a ok] obtain d fb m0 pm m1 where
    mf: "mutable_findings (en_policy E) q m = []"
    and i: "issue_permit (en_digests E) (en_policy E) pid q d (selected_dependency (en_policy E) d fb) fb now m0 = (pm, m1)"
    and c: "core m' = core m1" "core m0 = core m" by metis
  from that [OF op mf] issue_permit_core(2) [OF i] coreD(4) [OF c(1)] coreD(4) [OF c(2)]
  show ?thesis by (simp add: op a)
qed

lemma attempts_refused_step:
  assumes "\<not> fst (authorize_attempt E m op)"
  shows "mg_operation_attempts (containment_step E m op) = mg_operation_attempts m"
proof (cases op)
  case (Op_authorize pid q now)
  obtain res m' where a: "authorize (en_digests E) (en_hooks E) (en_policy E) pid q now m = (res, m')"
    by (cases "authorize (en_digests E) (en_hooks E) (en_policy E) pid q now m")
  with assms have "cr_action res \<noteq> ALLOW" by (simp add: authorize_attempt_def Op_authorize)
  from coreD(4) [OF refused_core [OF a this]] show ?thesis by (simp add: Op_authorize a)
next
  case (Op_outcome pm r now)
  have "core (containment_step E m op) = core (consume_report pm r m) \<or> core (containment_step E m op) = core m"
    by (simp add: Op_outcome core_record)
  then show ?thesis by (auto dest: coreD(4) simp: consume_report_core)
qed

definition uses_operation :: "ident \<times> ident \<Rightarrow> containment_op \<Rightarrow> bool" where
  "uses_operation key op = (case op of
     Op_authorize _ q _ \<Rightarrow> (cq_tenant_id q, cq_operation_id q) = key | Op_outcome _ _ _ \<Rightarrow> False)"

lemma authorized_count:
  "dict_get_default (mg_operation_attempts m) key 0 + length (filter (uses_operation key) (authorized E m ops))
     \<le> max (dict_get_default (mg_operation_attempts m) key 0) (cp_max_retries (en_policy E) + 1)"
proof (induction ops arbitrary: m)
  case (Cons op ops)
  show ?case
  proof (cases "fst (authorize_attempt E m op)")
    case False
    then show ?thesis using Cons [of "containment_step E m op"]
      by (simp add: authorized_Cons attempts_refused_step)
  next
    case True
    then obtain pid q now where op: "op = Op_authorize pid q now"
      and mf: "mutable_findings (en_policy E) q m = []"
      and at: "mg_operation_attempts (containment_step E m op) =
       dict_set (mg_operation_attempts m) (cq_tenant_id q, cq_operation_id q)
         (dict_get_default (mg_operation_attempts m) (cq_tenant_id q, cq_operation_id q) 0 + 1)"
      by (rule authorize_accepted)
    show ?thesis using Cons [of "containment_step E m op"] True mf unfolding at
      by (auto simp: authorized_Cons op uses_operation_def mutable_findings_Nil max_def split: if_splits)
  qed
qed (simp add: authorized_def)

text \<open>
  Retries are bounded by authoritative state. Starting from a fresh manager, any sequence of
  authorizations and reports authorizes at most \<open>max_retries_per_operation + 1\<close> attempts of one
  tenant's operation, whatever retry counts the callers claim.
\<close>

theorem retries_bounded:
  "length (filter (uses_operation (tenant, operation)) (authorized E init_manager ops))
     \<le> cp_max_retries (en_policy E) + 1"
  using authorized_count [of init_manager "(tenant, operation)" E ops] by (simp add: init_manager_def)

definition uses_side_effect :: "ident \<times> ident \<Rightarrow> containment_op \<Rightarrow> bool" where
  "uses_side_effect key op = (case op of
     Op_authorize _ q _ \<Rightarrow> cq_side_effecting q \<and> (\<exists>k. cq_idempotency_key q = Some k \<and> (cq_tenant_id q, k) = key)
   | Op_outcome _ _ _ \<Rightarrow> False)"

lemma committed_never_authorized:
  "key \<in> mg_committed_side_effects m \<Longrightarrow> filter (uses_side_effect key) (authorized E m ops) = []"
proof (induction ops arbitrary: m)
  case (Cons op ops)
  have later: "key \<in> mg_committed_side_effects (containment_step E m op)"
    using Cons.prems step_grows(3) by blast
  have "\<not> uses_side_effect key op" if ok: "fst (authorize_attempt E m op)"
  proof -
    obtain pid q now where "op = Op_authorize pid q now" "mutable_findings (en_policy E) q m = []"
      using ok by (rule authorize_accepted)
    then show ?thesis using Cons.prems by (auto simp: uses_side_effect_def mutable_findings_Nil)
  qed
  then show ?case using Cons.IH [OF later] by (simp add: authorized_Cons)
qed (simp add: authorized_def)

lemma consume_report_commits:
  "pm_idempotency_key pm = Some k \<Longrightarrow> op_side_effect_committed r \<Longrightarrow>
   (pm_tenant_id pm, k) \<in> mg_committed_side_effects (consume_report pm r m)"
  by (simp add: consume_report_def Let_def)

text \<open>
  C30: a committed side effect is never dispatched again. Once a report that the side effect of a
  permit was committed has been accepted, whether it reports success or failure, no side-effecting
  attempt with the same tenant and idempotency key is authorized in any continuation.
\<close>

theorem committed_side_effect_final:
  assumes "report_findings (en_digests E) (en_verifier E) (en_policy E) pm r now m = []"
    and "pm_idempotency_key pm = Some k" and "op_side_effect_committed r"
  shows "filter (uses_side_effect (pm_tenant_id pm, k))
    (authorized E (containment_step E m (Op_outcome pm r now)) ops) = []"
proof (rule committed_never_authorized)
  have "core (containment_step E m (Op_outcome pm r now)) = core (consume_report pm r m)"
    using assms(1) by (simp add: core_record)
  from coreD [OF this]
  show "(pm_tenant_id pm, k) \<in> mg_committed_side_effects (containment_step E m (Op_outcome pm r now))"
    using consume_report_commits [OF assms(2,3)] by simp
qed

section \<open>Circuits\<close>

text \<open>
  Between two states circuits may only have advanced: an open circuit whose time has come turned
  half-open.
\<close>

definition advanced :: "containment_policy \<Rightarrow> datetime \<Rightarrow> manager \<Rightarrow> manager \<Rightarrow> bool" where
  "advanced p now m m' \<longleftrightarrow> (\<forall>u e. circuit_of m' u e = circuit_of m u e \<or>
     circuit_of m' u e = half_opened (circuit_of m u e) \<and>
     (\<exists>d \<in> set (cp_dependencies p). dp_id d = e \<and> due_half_open d (circuit_of m u e) now))"

lemma advanced_refl [simp]: "advanced p now m m"
  by (simp add: advanced_def)

lemma due_half_opened [simp]: "\<not> due_half_open d (half_opened c) now"
  by (simp add: due_half_open_def half_opened_def)

lemma advanced_trans: "advanced p now m m' \<Longrightarrow> advanced p now m' m'' \<Longrightarrow> advanced p now m m''"
  unfolding advanced_def by (metis due_half_opened)

lemma advanced_step:
  "d \<in> set (cp_dependencies p) \<Longrightarrow> advanced p now (fst me) (fst (advance_half_open dg t d now me))"
  by (auto simp: advanced_def circuit_of_advance)

lemma advanced_fold:
  "set ds \<subseteq> set (cp_dependencies p) \<Longrightarrow>
   advanced p now (fst me) (fst (fold (\<lambda>e. advance_half_open dg t e now) ds me))"
proof (induction ds arbitrary: me)
  case (Cons d ds)
  then have "advanced p now (fst me) (fst (advance_half_open dg t d now me))"
    by (intro advanced_step) simp
  moreover have "advanced p now (fst (advance_half_open dg t d now me)) (fst (fold (\<lambda>e. advance_half_open dg t e now) ds (advance_half_open dg t d now me)))"
    using Cons by simp
  ultimately show ?case by (simp add: advanced_trans)
qed simp

lemma advanced_unavailable:
  "d \<in> set (cp_dependencies p) \<Longrightarrow>
   advanced p now (fst me) (fst (snd (dependency_unavailable dg p t d now me)))"
proof -
  assume d: "d \<in> set (cp_dependencies p)"
  have a: "advanced p now (fst me) (fst (advance_half_open dg t d now me))"
    by (rule advanced_step [OF d])
  moreover have "advanced p now (fst (advance_half_open dg t d now me))
      (fst (fold (\<lambda>e. advance_half_open dg t e now) (domain_dependencies p d) (advance_half_open dg t d now me)))"
    by (rule advanced_fold) (auto simp: domain_dependencies_def)
  ultimately have "advanced p now (fst me)
      (fst (fold (\<lambda>e. advance_half_open dg t e now) (domain_dependencies p d) (advance_half_open dg t d now me)))"
    by (rule advanced_trans)
  with a show ?thesis by (auto simp: dependency_unavailable_def Let_def split: option.split)
qed

lemma find_dependency_Some:
  "find_dependency p i = Some d \<Longrightarrow> d \<in> set (cp_dependencies p) \<and> dp_id d = i"
  by (auto simp: find_dependency_def find_Some_iff)

lemma find_dependency_unique:
  "policy_valid p \<Longrightarrow> d \<in> set (cp_dependencies p) \<Longrightarrow> e \<in> set (cp_dependencies p) \<Longrightarrow> dp_id d = dp_id e \<Longrightarrow> d = e"
  by (auto simp: policy_valid_def dest: inj_onD [OF distinct_map [THEN iffD1, THEN conjunct2]])

lemma advanced_admission:
  assumes "find_dependency p (cq_dependency_id q) = Some d"
  shows "advanced p now m (fst (snd (snd (admission dg p q d now m))))"
proof -
  have d: "d \<in> set (cp_dependencies p)" using find_dependency_Some [OF assms] by simp
  note first = advanced_unavailable [OF d, of now "(m, [])" dg "cq_tenant_id q"]
  obtain b me where u: "dependency_unavailable dg p (cq_tenant_id q) d now (m, []) = (b, me)"
    by (cases "dependency_unavailable dg p (cq_tenant_id q) d now (m, [])")
  have "advanced p now (fst me) (fst (snd (snd (select_fallback dg p q d now me))))"
    using advanced_unavailable [of _ p now me dg "cq_tenant_id q"]
    by (auto simp: select_fallback_def split_def Let_def dest!: find_dependency_Some split: option.splits)
  with first u show ?thesis
    by (auto simp: admission_def split_def Let_def intro: advanced_trans)
qed

lemma static_findings_Nil:
  "static_findings dg p q = [] \<longleftrightarrow>
     request_integrity dg q \<and> find_dependency p (cq_dependency_id q) \<noteq> None \<and>
     cq_retry_count q \<le> cp_max_retries p \<and> cq_recursion_depth q \<le> cp_max_recursion p \<and>
     cq_expected_cost q \<le> cp_max_cost p \<and> cq_abnormal_calls q \<le> cp_max_abnormal_calls p"
  unfolding static_findings_def map_snd_filter_fst_Nil by (auto simp: not_less)

text \<open>A circuit that may be dispatched to: not open, or due for its probe; and no probe running.\<close>

definition circuit_ready :: "dependency \<Rightarrow> datetime \<Rightarrow> circuit \<Rightarrow> bool" where
  "circuit_ready d now c \<longleftrightarrow> (ct_state c = CS_OPEN \<longrightarrow> due_half_open d c now) \<and>
     (ct_state c = CS_HALF_OPEN \<longrightarrow> \<not> ct_probe_active c)"

lemma available_ready:
  assumes "dependency_unavailable dg p t d now me = (False, me')"
  shows "dp_health d = HEALTHY" and "circuit_ready d now (circuit_of (fst me) t (dp_id d))"
  using assms
  by (auto simp: dependency_unavailable_def Let_def circuit_ready_def circuit_of_advance half_opened_def
      due_half_open_def split: if_splits)

lemma ready_advanced:
  assumes "policy_valid p" and "d \<in> set (cp_dependencies p)" and "advanced p now m m'"
    and "circuit_ready d now (circuit_of m' u (dp_id d))"
  shows "circuit_ready d now (circuit_of m u (dp_id d))"
proof -
  consider "circuit_of m' u (dp_id d) = circuit_of m u (dp_id d)"
    | e where "e \<in> set (cp_dependencies p)" "dp_id e = dp_id d" "due_half_open e (circuit_of m u (dp_id d)) now"
    using assms(3) by (auto simp: advanced_def)
  then show ?thesis
  proof cases
    case 2
    with find_dependency_unique [OF assms(1) 2(1) assms(2)] show ?thesis
      by (auto simp: circuit_ready_def due_half_open_def)
  qed (use assms(4) in simp)
qed

text \<open>What an admission without findings found out, about the primary and about a fallback.\<close>

lemma admission_primary:
  assumes "admission dg p q d now m = (None, [], me)"
  shows "dependency_unavailable dg p (cq_tenant_id q) d now (m, []) = (False, me)" and "cq_fallback q = None"
  using assms
  by (auto simp: admission_def split_def Let_def select_fallback_def prod_eq_iff split: if_splits option.splits)

lemma admission_fallback:
  assumes "admission dg p q d now m = (Some f, [], me)"
  obtains sel target me1 where
    "dependency_unavailable dg p (cq_tenant_id q) d now (m, []) = (True, me1)"
    "cq_fallback q = Some sel" "find_fallback p (fs_fallback_id sel) = Some f"
    "find_dependency p (fb_target_id f) = Some target"
    "dependency_unavailable dg p (cq_tenant_id q) target now me1 = (False, me)"
    "fb_primary_id f = dp_id d" "fb_id f \<in> set (dp_allowed_fallbacks d)"
    "fb_artifact_digest f = fs_artifact_digest sel"
    "fb_allowed_tenants f = [] \<or> cq_tenant_id q \<in> set (fb_allowed_tenants f)"
    "tenant_findings target (cq_tenant_id q) = []"
proof -
  obtain b me1 where u: "dependency_unavailable dg p (cq_tenant_id q) d now (m, []) = (b, me1)"
    by (cases "dependency_unavailable dg p (cq_tenant_id q) d now (m, [])")
  with assms have b: "b" by (auto simp: admission_def Let_def split: if_splits)
  obtain ff where s: "select_fallback dg p q d now me1 = (Some f, ff, me)" "ff = []"
    using assms u b by (auto simp: admission_def Let_def split_def prod_eq_iff)
  then obtain sel where sel: "cq_fallback q = Some sel" "find_fallback p (fs_fallback_id sel) = Some f"
    by (auto simp: select_fallback_def Let_def split_def split: option.splits)
  then obtain target where target: "find_dependency p (fb_target_id f) = Some target"
    using s by (auto simp: select_fallback_def split: option.splits)
  show ?thesis
    by (rule that [OF u [unfolded eqTrueI [OF b]] sel target])
      (use s sel target in \<open>auto simp: select_fallback_def Let_def split_def prod_eq_iff filter_empty_conv
         split: if_splits\<close>)
qed

lemma authorize_permit:
  assumes "authorize dg raises p pid q now m = (res, m')" and "cr_permit res = Some pm"
  obtains d fb me m1 where "find_dependency p (cq_dependency_id q) = Some d"
    "static_findings dg p q = []" "tenant_findings d (cq_tenant_id q) = []"
    "admission dg p q d now m = (fb, [], me)"
    "issue_permit dg p pid q d (selected_dependency p d fb) fb now (fst me) = (pm, m1)"
    "\<And>u e. circuit_of m' u e = circuit_of m1 u e"
  using assms(1)
proof (cases rule: authorize_cases)
  case (permitted d fb me pm' m1)
  with assms(2) that [OF permitted(1-4)] show ?thesis by simp
qed (use assms(2) in simp_all)

lemma make_permit_simps [simp]:
  "pm_selected_id (make_permit dg p pid q d sel fb now) = dp_id sel"
  "pm_fallback_id (make_permit dg p pid q d sel fb now) = map_option fb_id fb"
  "pm_tenant_id (make_permit dg p pid q d sel fb now) = cq_tenant_id q"
  by (simp_all add: make_permit_def Let_def)

text \<open>The dependency a permit selects was available in the state the request found.\<close>

lemma permit_selected:
  assumes "policy_valid p" and "authorize dg raises p pid q now m = (res, m')" and "cr_permit res = Some pm"
  obtains sel where "find_dependency p (pm_selected_id pm) = Some sel" "dp_health sel = HEALTHY"
    "tenant_findings sel (cq_tenant_id q) = []"
    "circuit_ready sel now (circuit_of m (cq_tenant_id q) (pm_selected_id pm))"
proof -
  from authorize_permit [OF assms(2,3)] obtain d fb me m1 where
    d: "find_dependency p (cq_dependency_id q) = Some d" and tf: "tenant_findings d (cq_tenant_id q) = []"
    and adm: "admission dg p q d now m = (fb, [], me)"
    and i: "issue_permit dg p pid q d (selected_dependency p d fb) fb now (fst me) = (pm, m1)" by metis
  note pm = issue_permit_core(7) [OF i]
  have din: "d \<in> set (cp_dependencies p)" "dp_id d = cq_dependency_id q" using find_dependency_Some [OF d] by auto
  show ?thesis
  proof (cases fb)
    case None
    then have "dependency_unavailable dg p (cq_tenant_id q) d now (m, []) = (False, me)"
      using admission_primary adm by blast
    from available_ready [OF this] show ?thesis
      using that [of d] d din(2) tf by (simp add: pm None selected_dependency_def)
  next
    case (Some f)
    from admission_fallback [OF adm [unfolded Some]] obtain sel target me1 where
      u: "dependency_unavailable dg p (cq_tenant_id q) d now (m, []) = (True, me1)"
      and target: "find_dependency p (fb_target_id f) = Some target"
      and a: "dependency_unavailable dg p (cq_tenant_id q) target now me1 = (False, me)"
      and tt: "tenant_findings target (cq_tenant_id q) = []" by metis
    have tin: "target \<in> set (cp_dependencies p)" "dp_id target = fb_target_id f"
      using find_dependency_Some [OF target] by auto
    have "advanced p now m (fst me1)"
      using advanced_unavailable [OF din(1), of now "(m, [])" dg "cq_tenant_id q"] by (simp add: u)
    with available_ready [OF a] ready_advanced [OF assms(1) tin(1)]
    have "circuit_ready target now (circuit_of m (cq_tenant_id q) (dp_id target))" by blast
    then show ?thesis
      using that [of target] target tin(2) tt available_ready(1) [OF a]
      by (simp add: pm Some selected_dependency_def)
  qed
qed

text \<open>
  Complete admission control. When a permit is issued, the request is integral, its retry
  count, recursion depth, expected cost and anomaly count are within policy, the tenant may use
  the dependency it asked for and the one selected, and the selected dependency is declared
  healthy with a circuit that is not open (or whose \<open>open_seconds\<close> have passed) and has no probe
  in flight.
\<close>

theorem permit_guarantees:
  assumes "policy_valid p" and "authorize dg raises p pid q now m = (res, m')" and "cr_permit res = Some pm"
  shows "request_integrity dg q \<and> cq_retry_count q \<le> cp_max_retries p \<and>
    cq_recursion_depth q \<le> cp_max_recursion p \<and> cq_expected_cost q \<le> cp_max_cost p \<and>
    cq_abnormal_calls q \<le> cp_max_abnormal_calls p \<and>
    (\<exists>primary. find_dependency p (cq_dependency_id q) = Some primary \<and>
       tenant_findings primary (cq_tenant_id q) = []) \<and>
    (\<exists>sel. find_dependency p (pm_selected_id pm) = Some sel \<and> dp_health sel = HEALTHY \<and>
       tenant_findings sel (cq_tenant_id q) = [] \<and>
       circuit_ready sel now (circuit_of m (cq_tenant_id q) (pm_selected_id pm)))"
proof -
  from authorize_permit [OF assms(2,3)] obtain d where
    "find_dependency p (cq_dependency_id q) = Some d" "static_findings dg p q = []"
    "tenant_findings d (cq_tenant_id q) = []" by metis
  moreover from permit_selected [OF assms] obtain sel where
    "find_dependency p (pm_selected_id pm) = Some sel" "dp_health sel = HEALTHY"
    "tenant_findings sel (cq_tenant_id q) = []"
    "circuit_ready sel now (circuit_of m (cq_tenant_id q) (pm_selected_id pm))" .
  ultimately show ?thesis by (simp add: static_findings_Nil)
qed

text \<open>
  Fallbacks only in degraded mode. A permit without a fallback selects the requested
  dependency. A permit for a fallback is issued only while the primary is unavailable, and only for
  a declared fallback that the primary allowlists, that belongs to this primary, is allowed for the
  tenant and matches the pinned artifact digest; it selects the declared target, in a different
  failure domain.
\<close>

theorem fallback_guarantees:
  assumes "policy_valid p" and "authorize dg raises p pid q now m = (res, m')" and "cr_permit res = Some pm"
  shows "case pm_fallback_id pm of
      None \<Rightarrow> pm_selected_id pm = cq_dependency_id q \<and> cq_fallback q = None
    | Some i \<Rightarrow> \<exists>sel f primary target.
        cq_fallback q = Some sel \<and> find_fallback p (fs_fallback_id sel) = Some f \<and> fb_id f = i \<and>
        find_dependency p (cq_dependency_id q) = Some primary \<and>
        find_dependency p (pm_selected_id pm) = Some target \<and>
        fst (dependency_unavailable dg p (cq_tenant_id q) primary now (m, [])) \<and>
        fb_primary_id f = cq_dependency_id q \<and> i \<in> set (dp_allowed_fallbacks primary) \<and>
        fb_artifact_digest f = fs_artifact_digest sel \<and>
        (fb_allowed_tenants f = [] \<or> cq_tenant_id q \<in> set (fb_allowed_tenants f)) \<and>
        pm_selected_id pm = fb_target_id f \<and> dp_domain_id primary \<noteq> dp_domain_id target"
proof -
  from authorize_permit [OF assms(2,3)] obtain d fb me m1 where
    d: "find_dependency p (cq_dependency_id q) = Some d"
    and adm: "admission dg p q d now m = (fb, [], me)"
    and i: "issue_permit dg p pid q d (selected_dependency p d fb) fb now (fst me) = (pm, m1)" by metis
  note pm = issue_permit_core(7) [OF i]
  have din: "dp_id d = cq_dependency_id q" using find_dependency_Some [OF d] by simp
  show ?thesis
  proof (cases fb)
    case None
    then show ?thesis using admission_primary(2) adm din by (simp add: pm selected_dependency_def)
  next
    case (Some f)
    from admission_fallback [OF adm [unfolded Some]] obtain sel target me1 where
      u: "dependency_unavailable dg p (cq_tenant_id q) d now (m, []) = (True, me1)"
      and sel: "cq_fallback q = Some sel" "find_fallback p (fs_fallback_id sel) = Some f"
      and target: "find_dependency p (fb_target_id f) = Some target"
      and ok: "fb_primary_id f = dp_id d" "fb_id f \<in> set (dp_allowed_fallbacks d)"
        "fb_artifact_digest f = fs_artifact_digest sel"
        "fb_allowed_tenants f = [] \<or> cq_tenant_id q \<in> set (fb_allowed_tenants f)" by metis
    have tid: "dp_id target = fb_target_id f" using find_dependency_Some [OF target] by simp
    have "f \<in> set (cp_fallbacks p)" using sel(2) by (auto simp: find_fallback_def find_Some_iff)
    then have "fallback_valid p f" using assms(1) by (simp add: policy_valid_def)
    then have "dp_domain_id d \<noteq> dp_domain_id target"
      using d target ok(1) din by (simp add: fallback_valid_def)
    then show ?thesis using u sel target ok d din tid
      by (simp add: pm Some selected_dependency_def)
  qed
qed

section \<open>The half-open state\<close>

lemma issue_permit_circuit:
  assumes "issue_permit dg p pid q d sel fb now m = (pm, m1)"
  shows "circuit_of m1 u e =
    (if (u, e) = (cq_tenant_id q, dp_id sel) \<and> ct_state (circuit_of m u e) = CS_HALF_OPEN
     then (circuit_of m u e)\<lparr>ct_probe_active := True\<rparr> else circuit_of m u e)"
proof -
  let ?t = "cq_tenant_id q" and ?m1 = "touch_circuit m (cq_tenant_id q) (dp_id sel)"
  define m2 where "m2 = (if ct_state (circuit_of ?m1 ?t (dp_id sel)) = CS_HALF_OPEN
      then put_circuit ?m1 ?t (dp_id sel) (circuit_of ?m1 ?t (dp_id sel)\<lparr>ct_probe_active := True\<rparr>) else ?m1)"
  have "mg_circuits m1 = mg_circuits m2"
    using assms [unfolded issue_permit_def Let_def, folded m2_def] by auto
  then have "circuit_of m1 u e = circuit_of m2 u e" by (simp add: circuit_of_def)
  then show ?thesis by (auto simp: m2_def)
qed

text \<open>A half-open circuit with a running probe is left alone by every authorization.\<close>

lemma authorize_keeps_probe:
  assumes "authorize dg raises p pid q now m = (res, m')"
    and "ct_state (circuit_of m u e) = CS_HALF_OPEN" and "ct_probe_active (circuit_of m u e)"
  shows "circuit_of m' u e = circuit_of m u e"
proof -
  have keep: "circuit_of ma u e = circuit_of m u e" if "advanced p now m ma" for ma
  proof -
    have "\<not> due_half_open d (circuit_of m u e) now" for d
      using assms(2) by (simp add: due_half_open_def)
    then show ?thesis using that by (auto simp: advanced_def)
  qed
  have probe: "(circuit_of m u e)\<lparr>ct_probe_active := True\<rparr> = circuit_of m u e"
    using assms(3) by simp
  show ?thesis using assms(1)
  proof (cases rule: authorize_cases)
    case (refused d)
    then show ?thesis using keep [OF advanced_admission [OF refused(1)]] by metis
  next
    case (permitted d fb me pm m1)
    have "circuit_of (fst me) u e = circuit_of m u e"
      using keep [OF advanced_admission [OF permitted(1), of now m dg]] by (simp add: permitted(4))
    then show ?thesis
      unfolding permitted(9) issue_permit_circuit [OF permitted(5)] using probe by auto
  qed simp
qed

text \<open>The reports that concern a dependency of a tenant: those on any permit for it, the probe's or another.\<close>

fun reports_on :: "ident \<times> ident \<Rightarrow> containment_op \<Rightarrow> bool" where
  "reports_on key (Op_authorize pid q now) = False"
| "reports_on key (Op_outcome pm r now) = ((pm_tenant_id pm, pm_selected_id pm) = key)"

definition probing :: "ident \<times> ident \<Rightarrow> circuit \<Rightarrow> manager \<Rightarrow> bool" where
  "probing key c m \<longleftrightarrow> circuit_of m (fst key) (snd key) = c \<and>
     ct_state c = CS_HALF_OPEN \<and> ct_probe_active c"

text \<open>Only an accepted report on the dependency touches a circuit whose probe is out.\<close>

lemma probing_step:
  assumes "containment_attempt E m op = (ok, m')" and "probing key c m" and "ok \<longrightarrow> \<not> reports_on key op"
  shows "probing key c m'"
proof (cases op)
  case (Op_authorize pid q now)
  obtain res m1 where a: "authorize (en_digests E) (en_hooks E) (en_policy E) pid q now m = (res, m1)"
    by (cases "authorize (en_digests E) (en_hooks E) (en_policy E) pid q now m")
  from authorize_keeps_probe [OF a] assms(1,2) show ?thesis by (simp add: probing_def Op_authorize a)
next
  case (Op_outcome pm r now)
  have m': "m' = snd (record_outcome (en_digests E) (en_verifier E) (en_hooks E) (en_policy E) pm r now m)"
    using assms(1) by (simp add: Op_outcome)
  show ?thesis
  proof (cases "report_findings (en_digests E) (en_verifier E) (en_policy E) pm r now m = []")
    case False
    then show ?thesis using assms(2) by (simp add: probing_def m' record_rejected)
  next
    case True
    then obtain d where d: "find_dependency (en_policy E) (pm_selected_id pm) = Some d"
      by (auto simp: report_findings_Nil)
    have "(pm_tenant_id pm, dp_id d) \<noteq> key"
      using assms(1,3) True find_dependency_Some [OF d] by (auto simp: Op_outcome)
    then show ?thesis using assms(2) record_accepted(2) [OF True d]
      by (cases key) (auto simp: probing_def m')
  qed
qed

lemma probing_run:
  assumes "run_attempts (containment_attempt E) m ops = (acc, m')" and "probing key c m"
    and "\<forall>op \<in> set acc. \<not> reports_on key op"
  shows "probing key c m'"
  using assms
proof (induction ops arbitrary: m acc)
  case (Cons op ops)
  obtain ok m1 where st: "containment_attempt E m op = (ok, m1)" by (cases "containment_attempt E m op")
  obtain acc1 u where run: "run_attempts (containment_attempt E) m1 ops = (acc1, u)"
    by (cases "run_attempts (containment_attempt E) m1 ops")
  have eq: "u = m'" "acc = (if ok then op # acc1 else acc1)" using Cons.prems(1) st run by auto
  have "probing key c m1" by (rule probing_step [OF st Cons.prems(2)]) (use Cons.prems(3) eq(2) in auto)
  then show ?case using Cons.IH [of m1 acc1] run eq Cons.prems(3) by (auto split: if_splits)
qed simp

text \<open>
  C40: a circuit whose probe is out is freed only by an accepted report. Let a circuit be half-open with its probe in flight.
  Along every sequence of authorizations and reports, at any times, in which no report on a permit of
  that tenant for that dependency, the probe's or an older one, is accepted, the circuit stays as it is and no permit for the
  dependency is issued to the tenant: no timeout and no other operation clears the probe. And in the end still no report is
  accepted after its permit has expired, so the report of a lost probe cannot arrive late. (An older permit that has not expired can
  still close the circuit: \<open>half_open_success_closes\<close>.)
\<close>

theorem lost_probe_wedges_circuit:
  assumes "policy_valid (en_policy E)" and "probing (tenant, dep) c m"
    and "run_attempts (containment_attempt E) m ops = (acc, m')"
    and "\<forall>op \<in> set acc. \<not> reports_on (tenant, dep) op"
  shows "circuit_of m' tenant dep = c \<and>
    (\<forall>pid q now pm. cq_tenant_id q = tenant \<longrightarrow>
       cr_permit (fst (authorize (en_digests E) (en_hooks E) (en_policy E) pid q now m')) = Some pm \<longrightarrow>
       pm_selected_id pm \<noteq> dep) \<and>
    (\<forall>pm r now. pm_expires_at pm < now \<longrightarrow> \<not> fst (containment_attempt E m' (Op_outcome pm r now)))"
proof -
  have p: "probing (tenant, dep) c m'" by (rule probing_run [OF assms(3,2,4)])
  have "pm_selected_id pm \<noteq> dep"
    if "cq_tenant_id q = tenant"
      "cr_permit (fst (authorize (en_digests E) (en_hooks E) (en_policy E) pid q now m')) = Some pm"
    for pid q now pm
  proof
    assume "pm_selected_id pm = dep"
    moreover from permit_selected [OF assms(1) surjective_pairing that(2)] obtain sel where
      "circuit_ready sel now (circuit_of m' (cq_tenant_id q) (pm_selected_id pm))" by blast
    ultimately show False using p that(1) by (simp add: probing_def circuit_ready_def)
  qed
  moreover have "\<not> fst (containment_attempt E m' (Op_outcome pm r now))" if "pm_expires_at pm < now" for pm r now
    using that by (simp add: report_findings_Nil)
  ultimately show ?thesis using p by (auto simp: probing_def)
qed

text \<open>
  Any accepted success closes a half-open circuit. While a circuit is half-open, an accepted
  successful report that crosses no threshold closes and clears it, whichever active permit the
  report belongs to: nothing ties it to the probe, whose permit may still be in flight.
\<close>

theorem half_open_success_closes:
  assumes "report_findings dg verifier p pm r now m = []"
    and "find_dependency p (pm_selected_id pm) = Some d"
    and "ct_state (circuit_of m (pm_tenant_id pm) (dp_id d)) = CS_HALF_OPEN" and "op_success r"
    and "\<not> threshold_crossed (outcome_findings p r (dp_breaker d)
      (deque_append (bk_window_size (dp_breaker d))
        (ct_samples (circuit_of m (pm_tenant_id pm) (dp_id d))) (report_sample r)))"
  shows "circuit_of (snd (record_outcome dg verifier raises p pm r now m)) (pm_tenant_id pm) (dp_id d) =
    new_circuit \<and>
    mg_active_permits (snd (record_outcome dg verifier raises p pm r now m)) =
      dict_del (mg_active_permits m) (pm_id pm)"
  using assms record_accepted(2) [OF assms(1,2)] coreD(1) [OF record_accepted(1) [OF assms(1,2)]]
  by (simp add: circuit_transition_def Let_def new_circuit_def consume_report_def split: option.split)

section \<open>Events are numbered\<close>

text \<open>The events of a state change carry the numbers between the two counters, in order.\<close>

definition numbered :: "manager \<Rightarrow> containment_event list \<Rightarrow> manager \<Rightarrow> bool" where
  "numbered m es m' \<longleftrightarrow> mg_event_sequence m \<le> mg_event_sequence m' \<and>
     map ce_sequence es = [Suc (mg_event_sequence m)..<Suc (mg_event_sequence m')]"

abbreviation numbered_pair :: "manager \<Rightarrow> manager \<times> containment_event list \<Rightarrow> bool" where
  "numbered_pair m me \<equiv> numbered m (snd me) (fst me)"

lemma numbered_Nil [simp]: "numbered m [] m"
  by (simp add: numbered_def)

lemma numbered_append: "numbered m es m1 \<Longrightarrow> numbered m1 es' m2 \<Longrightarrow> numbered m (es @ es') m2"
proof -
  assume a: "numbered m es m1" and b: "numbered m1 es' m2"
  define k where "k = mg_event_sequence m2 - mg_event_sequence m1"
  have "mg_event_sequence m2 = mg_event_sequence m1 + k" using b by (simp add: numbered_def k_def)
  then show ?thesis using a b
    upt_add_eq_append [of "Suc (mg_event_sequence m)" "Suc (mg_event_sequence m1)" k]
    by (simp add: numbered_def del: upt_Suc)
qed

lemma numbered_quiet: "numbered m es m1 \<Longrightarrow> mg_event_sequence m2 = mg_event_sequence m1 \<Longrightarrow> numbered m es m2"
  by (simp add: numbered_def)

lemma sequence_simps [simp]:
  "mg_event_sequence (touch_circuit m t d) = mg_event_sequence m"
  "mg_event_sequence (put_circuit m t d c) = mg_event_sequence m"
  "mg_event_sequence (consume_report pm r m) = mg_event_sequence m"
  by (simp_all add: touch_circuit_def put_circuit_def consume_report_def Let_def split: option.split)

lemma numbered_event:
  "numbered m es m1 \<Longrightarrow> numbered m (es @ [fst (make_event dg k t op d dm a fs now m1)])
     (snd (make_event dg k t op d dm a fs now m1))"
  by (rule numbered_append [where ?m1.0 = m1]) (simp_all add: numbered_def)

lemma numbered_advance:
  "numbered_pair m me \<Longrightarrow> numbered_pair m (advance_half_open dg t d now me)"
  by (auto simp: advance_half_open_def Let_def split_def intro!: numbered_event intro: numbered_quiet)

lemma numbered_advance_fold:
  "numbered_pair m me \<Longrightarrow> numbered_pair m (fold (\<lambda>e. advance_half_open dg t e now) ds me)"
  by (induction ds arbitrary: me) (simp_all add: numbered_advance)

lemma numbered_unavailable:
  "numbered_pair m me \<Longrightarrow> numbered_pair m (snd (dependency_unavailable dg p t d now me))"
  by (simp add: dependency_unavailable_def Let_def numbered_advance numbered_advance_fold)

lemma numbered_select:
  "numbered_pair m me \<Longrightarrow> numbered_pair m (snd (snd (select_fallback dg p q d now me)))"
  by (simp add: select_fallback_def split_def Let_def numbered_unavailable split: option.split)

lemma numbered_admission: "numbered_pair m (snd (snd (admission dg p q d now m)))"
  by (simp add: admission_def split_def Let_def numbered_unavailable numbered_select)

lemma numbered_invoke: "numbered_pair m me \<Longrightarrow> numbered_pair m (invoke_hook dg raises k e me)"
proof -
  assume n: "numbered_pair m me"
  let ?n = "Suc (mg_event_sequence (fst me))"
  have "numbered (fst me) [seal_event dg (e\<lparr>ce_sequence := ?n, ce_kind := EK_HOOK_FAILED,
      ce_action := BLOCK, ce_codes := [HOOK_FAILED]\<rparr>)] ((fst me)\<lparr>mg_event_sequence := ?n\<rparr>)"
    by (simp add: numbered_def seal_event_def)
  from numbered_append [OF n this] n show ?thesis by (simp add: invoke_hook_def Let_def)
qed

lemma numbered_publish: "numbered_pair m me \<Longrightarrow> numbered_pair m (publish dg raises ds me)"
proof -
  have fold: "numbered_pair m (fold (invoke_hook dg raises k) es me)" if "numbered_pair m me" for k es me
    using that by (induction es arbitrary: me) (simp_all add: numbered_invoke)
  assume "numbered_pair m me"
  then show ?thesis by (simp add: publish_def fold)
qed

lemma sequence_issue:
  "issue_permit dg p pid q d sel fb now m = (pm, m1) \<Longrightarrow> mg_event_sequence m1 = mg_event_sequence m"
  by (auto simp: issue_permit_def Let_def)

lemma numbered_blocked:
  "numbered_pair m me \<Longrightarrow> numbered m (cr_events (fst (blocked_admission dg q dep dm fs now me)))
     (snd (blocked_admission dg q dep dm fs now me))"
  by (simp add: blocked_admission_def split_def Let_def numbered_event)

lemma numbered_authorize:
  "numbered m (cr_events (fst (authorize dg raises p pid q now m))) (snd (authorize dg raises p pid q now m))"
proof (cases "find_dependency p (cq_dependency_id q)")
  case None
  then show ?thesis by (simp add: authorize_def numbered_blocked)
next
  case (Some d)
  obtain fb fs me where adm: "admission dg p q d now m = (fb, fs, me)" by (cases "admission dg p q d now m")
  obtain pm m1 where issue:
    "issue_permit dg p pid q d (selected_dependency p d fb) fb now (fst me) = (pm, m1)"
    by (cases "issue_permit dg p pid q d (selected_dependency p d fb) fb now (fst me)")
  have me: "numbered m (snd me) (fst me)" using numbered_admission [of m dg p q d now] by (simp add: adm)
  then have m1: "numbered m (snd me) m1" using sequence_issue [OF issue] by (rule numbered_quiet)
  show ?thesis
  proof (cases "static_findings dg p q @ tenant_findings d (cq_tenant_id q) = [] \<and> fs = []")
    case False
    then show ?thesis using Some adm me by (auto simp: authorize_def numbered_blocked)
  next
    case True
    let ?e1 = "make_event dg EK_ADMISSION_ALLOWED (cq_tenant_id q) (cq_operation_id q)
      (dp_id (selected_dependency p d fb)) (dp_domain_id (selected_dependency p d fb)) ALLOW [] now m1"
    let ?e2 = "make_event dg EK_DEGRADED_MODE_ENTERED (cq_tenant_id q) (cq_operation_id q) (dp_id d)
      (dp_domain_id d) WARN [] now (snd ?e1)"
    have "numbered m ((snd me @ [fst ?e1]) @ [fst ?e2]) (snd ?e2)" "numbered m (snd me @ [fst ?e1]) (snd ?e1)"
      by (intro numbered_event m1)+
    then show ?thesis using True Some adm issue
      by (cases fb) (auto simp: authorize_def Let_def split_def intro!: numbered_publish)
  qed
qed

lemma numbered_outcome_event:
  "numbered m es m1 \<Longrightarrow> numbered m (es @ [fst (outcome_event dg pm d now k a fs m1)])
     (snd (outcome_event dg pm d now k a fs m1))"
  unfolding outcome_event_def by (rule numbered_event)

lemma numbered_closing:
  "numbered m (fst (closing_events dg pm d now m)) (snd (snd (closing_events dg pm d now m)))"
  using numbered_outcome_event [OF numbered_outcome_event [OF numbered_Nil]]
  by (simp add: closing_events_def Let_def split_def)

lemma numbered_opening:
  "numbered m (fst (opening_events dg pm r d now fs m)) (snd (snd (opening_events dg pm r d now fs m)))"
proof -
  let ?e1 = "outcome_event dg pm d now EK_CIRCUIT_OPENED BLOCK fs m"
  let ?e2 = "outcome_event dg pm d now EK_DEGRADED_MODE_ENTERED WARN fs (snd ?e1)"
  have two: "numbered m [fst ?e1, fst ?e2] (snd ?e2)"
    using numbered_outcome_event [OF numbered_outcome_event [OF numbered_Nil]] by simp
  note three = numbered_outcome_event [OF two]
  note four = numbered_outcome_event [OF three]
  show ?thesis using two three four
    by (simp add: opening_events_def Let_def split_def)
qed

lemma numbered_record:
  "numbered m (cr_events (fst (record_outcome dg verifier raises p pm r now m)))
     (snd (record_outcome dg verifier raises p pm r now m))"
proof (cases "find_dependency p (pm_selected_id pm)")
  case None
  then show ?thesis using numbered_event [OF numbered_Nil] by (simp add: record_outcome_def Let_def split_def)
next
  case (Some d)
  show ?thesis
  proof (cases "report_findings dg verifier p pm r now m = []")
    case False
    then show ?thesis using Some numbered_outcome_event [OF numbered_Nil]
      by (simp add: record_outcome_def Let_def split_def)
  next
    case True
    let ?m1 = "touch_circuit (consume_report pm r m) (pm_tenant_id pm) (dp_id d)"
    obtain fs tr c' where tr: "circuit_transition p r d now (circuit_of ?m1 (pm_tenant_id pm) (dp_id d)) = (fs, tr, c')"
      by (cases "circuit_transition p r d now (circuit_of ?m1 (pm_tenant_id pm) (dp_id d))")
    let ?m2 = "put_circuit ?m1 (pm_tenant_id pm) (dp_id d) c'"
    have quiet: "numbered m es m' \<longleftrightarrow> numbered ?m2 es m'" for es m' by (simp add: numbered_def)
    show ?thesis using Some True tr numbered_closing [of ?m2] numbered_opening [of ?m2]
      by (cases tr)
        (auto simp: record_outcome_def Let_def split_def quiet
          intro!: numbered_publish numbered_outcome_event
            numbered_outcome_event [OF numbered_Nil, simplified])
  qed
qed

text \<open>
  The audit trail has no gaps. The events of an authorization, and of an outcome report, are
  numbered consecutively from the manager's counter on, in the order they happened, through every
  branch and including the events of failing hooks; the counter ends at the last of them.
\<close>

theorem containment_events_consecutive:
  "map ce_sequence (cr_events (fst (authorize dg raises p pid q now m))) =
     [Suc (mg_event_sequence m)..<Suc (mg_event_sequence (snd (authorize dg raises p pid q now m)))] \<and>
   map ce_sequence (cr_events (fst (record_outcome dg verifier raises p pm r now m))) =
     [Suc (mg_event_sequence m)..<Suc (mg_event_sequence (snd (record_outcome dg verifier raises p pm r now m)))]"
  using numbered_authorize numbered_record unfolding numbered_def by blast

section \<open>Witnesses\<close>

text \<open>A policy with a primary and a backup in two domains, and a constant digest.\<close>

definition demo_breaker :: breaker_policy where
  "demo_breaker = \<lparr>bk_window_size = 4, bk_minimum_samples = 2, bk_error_rate_threshold = 1 / 2,
     bk_average_latency_threshold = 1000, bk_cumulative_cost_threshold = 100,
     bk_abnormal_tool_call_threshold = 5, bk_open_seconds = 30\<rparr>"

definition demo_primary :: dependency where
  "demo_primary = \<lparr>dp_id = ''primary'', dp_domain_id = ''a'', dp_criticality = CRIT_HIGH,
     dp_health = HEALTHY, dp_allowed_tenants = [''acme''], dp_allowed_fallbacks = [''fb''],
     dp_breaker = demo_breaker\<rparr>"

definition demo_backup :: dependency where
  "demo_backup = \<lparr>dp_id = ''backup'', dp_domain_id = ''b'', dp_criticality = CRIT_LOW,
     dp_health = HEALTHY, dp_allowed_tenants = [], dp_allowed_fallbacks = [],
     dp_breaker = demo_breaker\<rparr>"

definition demo_containment :: containment_policy where
  "demo_containment = \<lparr>cp_dependencies = [demo_primary, demo_backup],
     cp_domains = [\<lparr>fd_id = ''a'', fd_max_open = 1\<rparr>, \<lparr>fd_id = ''b'', fd_max_open = 1\<rparr>],
     cp_fallbacks = [\<lparr>fb_id = ''fb'', fb_primary_id = ''primary'', fb_target_id = ''backup'',
       fb_artifact_digest = ''d'', fb_allowed_tenants = []\<rparr>],
     cp_max_retries = 1, cp_max_recursion = 2, cp_max_cost = 10, cp_max_abnormal_calls = 0,
     cp_permit_ttl = 60\<rparr>"

definition demo_digests :: digests where
  "demo_digests = \<lparr>dg_request = (\<lambda>_. ''d''), dg_permit = (\<lambda>_. ''d''), dg_report = (\<lambda>_. ''d''),
     dg_event = (\<lambda>_. ''d'')\<rparr>"

definition demo_environment :: environment where
  "demo_environment = \<lparr>en_digests = demo_digests, en_verifier = Some (\<lambda>_. True),
     en_hooks = (\<lambda>_ _. False), en_policy = demo_containment\<rparr>"

definition demo_attempt :: containment_request where
  "demo_attempt = \<lparr>cq_id = ''q'', cq_attempt_id = ''a1'', cq_operation_id = ''op'',
     cq_dependency_id = ''primary'', cq_tenant_id = ''acme'', cq_retry_count = 0,
     cq_recursion_depth = 0, cq_expected_cost = 1, cq_abnormal_calls = 0, cq_side_effecting = True,
     cq_idempotency_key = Some ''k'', cq_fallback = None, cq_digest = ''d''\<rparr>"

lemma demo_containment_valid: "policy_valid demo_containment"
  by (simp add: policy_valid_def demo_containment_def demo_primary_def demo_backup_def
      breaker_valid_def demo_breaker_def fallback_valid_def find_dependency_def)

lemmas containment_eval = authorize_def static_findings_def request_integrity_def tenant_findings_def
  admission_def mutable_findings_def side_effect_findings_def dependency_unavailable_def
  advance_half_open_def due_half_open_def touch_circuit_def circuit_of_def new_circuit_def
  put_circuit_def dict_get_default_def domain_dependencies_def find_domain_def find_fallback_def
  find_dependency_def selected_dependency_def issue_permit_def make_permit_def make_event_def
  seal_event_def safe_identifier_def publish_def no_dispatch_def deduplicate_def init_manager_def
  select_fallback_def

lemmas demo_containment_defs = demo_containment_def demo_primary_def demo_backup_def
  demo_breaker_def demo_digests_def demo_environment_def demo_attempt_def

definition demo_permit :: permit where
  "demo_permit = make_permit demo_digests demo_containment ''p1'' demo_attempt demo_primary demo_primary None 0"

lemma demo_authorized:
  "cr_permit (fst (authorize demo_digests (\<lambda>_ _. False) demo_containment ''p1'' demo_attempt 0 init_manager)) =
     Some demo_permit"
  by (simp add: containment_eval demo_containment_defs demo_permit_def Let_def)

theorem permit_guarantees_witness:
  "cq_retry_count demo_attempt \<le> cp_max_retries demo_containment"
  using permit_guarantees [OF demo_containment_valid surjective_pairing demo_authorized] by blast

text \<open>With the primary's circuit open, the fallback is selected.\<close>

definition open_manager :: manager where
  "open_manager = init_manager\<lparr>mg_circuits := [((''acme'', ''primary''),
     \<lparr>ct_samples = [], ct_state = CS_OPEN, ct_opened_at = Some 0, ct_probe_active = False\<rparr>)]\<rparr>"

definition demo_fallback_attempt :: containment_request where
  "demo_fallback_attempt = demo_attempt
     \<lparr>cq_fallback := Some \<lparr>fs_fallback_id = ''fb'', fs_artifact_digest = ''d''\<rparr>\<rparr>"

definition demo_fallback :: fallback_declaration where
  "demo_fallback = \<lparr>fb_id = ''fb'', fb_primary_id = ''primary'', fb_target_id = ''backup'',
     fb_artifact_digest = ''d'', fb_allowed_tenants = []\<rparr>"

lemma authorize_permit_eq:
  assumes "find_dependency p (cq_dependency_id q) = Some d" and "static_findings dg p q = []"
    and "tenant_findings d (cq_tenant_id q) = []" and "admission dg p q d now m = (fb, [], me)"
  shows "cr_permit (fst (authorize dg raises p pid q now m)) =
    Some (make_permit dg p pid q d (selected_dependency p d fb) fb now)"
  using assms by (simp add: authorize_def Let_def split_def issue_permit_def split: option.split)

lemma demo_primary_open:
  "dependency_unavailable demo_digests demo_containment ''acme'' demo_primary 1 (open_manager, []) =
     (True, open_manager, [])"
  by (simp add: dependency_unavailable_def advance_half_open_def due_half_open_def touch_circuit_def
      circuit_of_def dict_get_default_def open_manager_def demo_primary_def demo_breaker_def
      td_seconds_def Let_def)

lemma demo_backup_available:
  "fst (dependency_unavailable demo_digests demo_containment ''acme'' demo_backup 1 (open_manager, [])) = False"
  by (simp add: dependency_unavailable_def advance_half_open_def due_half_open_def
      circuit_of_def dict_get_default_def open_manager_def touch_circuit_def init_manager_def
      new_circuit_def demo_containment_def demo_backup_def demo_primary_def domain_dependencies_def
      find_domain_def Let_def)

lemma demo_fallback_admission:
  "\<exists>me. admission demo_digests demo_containment demo_fallback_attempt demo_primary 1 open_manager =
     (Some demo_fallback, [], me)"
proof -
  obtain me where me: "dependency_unavailable demo_digests demo_containment ''acme'' demo_backup 1
      (open_manager, []) = (False, me)"
    using demo_backup_available by (cases "dependency_unavailable demo_digests demo_containment ''acme'' demo_backup 1 (open_manager, [])") (simp only: fst_conv)
  have t: "cq_tenant_id demo_fallback_attempt = ''acme''"
    by (simp add: demo_fallback_attempt_def demo_attempt_def)
  have "find_fallback demo_containment ''fb'' = Some demo_fallback"
    "find_dependency demo_containment ''backup'' = Some demo_backup"
    by (simp_all add: find_fallback_def find_dependency_def demo_containment_def demo_fallback_def
        demo_primary_def demo_backup_def)
  then show ?thesis using me demo_primary_open
    by (simp add: admission_def select_fallback_def t mutable_findings_def side_effect_findings_def
        demo_fallback_attempt_def demo_attempt_def demo_fallback_def demo_primary_def demo_backup_def
        tenant_findings_def dict_get_default_def open_manager_def init_manager_def)
qed

theorem fallback_guarantees_witness:
  "\<exists>target. find_dependency demo_containment ''backup'' = Some target \<and>
     dp_domain_id demo_primary \<noteq> dp_domain_id target"
proof -
  have "cr_permit (fst (authorize demo_digests (\<lambda>_ _. False) demo_containment ''p1'' demo_fallback_attempt
      1 open_manager)) =
    Some (make_permit demo_digests demo_containment ''p1'' demo_fallback_attempt demo_primary
      (selected_dependency demo_containment demo_primary (Some demo_fallback)) (Some demo_fallback) 1)"
    using demo_fallback_admission
    by (auto intro!: authorize_permit_eq simp: static_findings_def request_integrity_def
        tenant_findings_def demo_fallback_attempt_def demo_containment_defs find_dependency_def)
  from fallback_guarantees [OF demo_containment_valid surjective_pairing this] show ?thesis
    by (auto simp: demo_fallback_attempt_def demo_attempt_def find_dependency_def demo_containment_def
        demo_primary_def demo_backup_def demo_fallback_def selected_dependency_def)
qed

text \<open>A half-open circuit with a running probe, and an older permit that is still active.\<close>

definition probing_circuit :: circuit where
  "probing_circuit = \<lparr>ct_samples = [], ct_state = CS_HALF_OPEN, ct_opened_at = Some 0,
     ct_probe_active = True\<rparr>"

definition probing_manager :: manager where
  "probing_manager = init_manager\<lparr>mg_circuits := [((''acme'', ''primary''), probing_circuit)],
     mg_active_permits :=
       [(''p1'', \<lparr>ap_digest = ''d'', ap_expected_cost = 1, ap_side_effecting = True,
          ap_recursion_depth = 0, ap_retry_count = 0\<rparr>),
        (''probe'', \<lparr>ap_digest = ''e'', ap_expected_cost = 1, ap_side_effecting = False,
          ap_recursion_depth = 0, ap_retry_count = 0\<rparr>)]\<rparr>"

definition demo_report :: outcome_report where
  "demo_report = \<lparr>op_report_id = ''r'', op_permit_id = ''p1'', op_permit_digest = ''d'',
     op_success = True, op_latency = 1, op_cost = 1, op_abnormal_calls = 0,
     op_side_effect_committed = True, op_completed_at = 5, op_digest = ''d''\<rparr>"

lemma demo_report_accepted:
  "report_findings demo_digests (Some (\<lambda>_. True)) demo_containment demo_permit
     (demo_report\<lparr>op_side_effect_committed := b\<rparr>) 6 probing_manager = []"
  by (simp add: report_findings_Nil permit_integrity_def report_integrity_def verify_outcome_def
      demo_permit_def make_permit_def demo_report_def demo_containment_defs find_dependency_def
      probing_manager_def init_manager_def td_seconds_def Let_def)

theorem committed_side_effect_final_witness:
  "filter (uses_side_effect (''acme'', ''k''))
     (authorized demo_environment
       (containment_step demo_environment probing_manager
         (Op_outcome demo_permit (demo_report\<lparr>op_side_effect_committed := True\<rparr>) 6))
       [Op_authorize ''p2'' demo_attempt 7]) = []"
proof -
  have "pm_idempotency_key demo_permit = Some ''k''" "pm_tenant_id demo_permit = ''acme''"
    by (simp_all add: demo_permit_def make_permit_def demo_attempt_def Let_def)
  then show ?thesis
    using committed_side_effect_final [of demo_environment demo_permit
        "demo_report\<lparr>op_side_effect_committed := True\<rparr>" 6 probing_manager "''k''"
        "[Op_authorize ''p2'' demo_attempt 7]"] demo_report_accepted [of True]
    by (simp add: demo_environment_def)
qed

theorem lost_probe_wedges_circuit_witness:
  "circuit_of (snd (run_attempts (containment_attempt demo_environment) probing_manager
     [Op_outcome demo_permit demo_report 999999999999, Op_authorize ''p9'' demo_attempt 999999999999])) ''acme'' ''primary'' =
   probing_circuit"
proof -
  let ?ops = "[Op_outcome demo_permit demo_report 999999999999, Op_authorize ''p9'' demo_attempt 999999999999]"
  have late: "\<not> fst (containment_attempt demo_environment m (Op_outcome demo_permit demo_report 999999999999))" for m
    by (simp add: report_findings_Nil demo_permit_def make_permit_def demo_attempt_def demo_containment_def td_seconds_def Let_def)
  have "\<forall>op \<in> set (fst (run_attempts (containment_attempt demo_environment) probing_manager ?ops)).
      \<not> reports_on (''acme'', ''primary'') op"
    using late by (simp add: split_def Let_def del: containment_attempt.simps)
  moreover have "policy_valid (en_policy demo_environment)"
    using demo_containment_valid by (simp add: demo_environment_def)
  moreover have "probing (''acme'', ''primary'') probing_circuit probing_manager"
    by (simp add: probing_def probing_manager_def probing_circuit_def circuit_of_def dict_get_default_def)
  ultimately show ?thesis
    using lost_probe_wedges_circuit [OF _ _ surjective_pairing, of demo_environment] by blast
qed

theorem half_open_success_closes_witness:
  "circuit_of (snd (record_outcome demo_digests (Some (\<lambda>_. True)) (\<lambda>_ _. False) demo_containment
     demo_permit demo_report 6 probing_manager)) ''acme'' ''primary'' = new_circuit \<and>
   dict_get (mg_active_permits (snd (record_outcome demo_digests (Some (\<lambda>_. True)) (\<lambda>_ _. False)
     demo_containment demo_permit demo_report 6 probing_manager))) ''probe'' \<noteq> None"
proof -
  have pm: "pm_tenant_id demo_permit = ''acme''" "dp_id demo_primary = ''primary''"
    "pm_id demo_permit = ''p1''"
    by (simp_all add: demo_permit_def make_permit_def demo_attempt_def demo_primary_def Let_def)
  have "report_findings demo_digests (Some (\<lambda>_. True)) demo_containment demo_permit demo_report 6 probing_manager = []"
    using demo_report_accepted [of "op_side_effect_committed demo_report"] by simp
  moreover have "find_dependency demo_containment (pm_selected_id demo_permit) = Some demo_primary"
    by (simp add: demo_permit_def find_dependency_def demo_containment_def demo_primary_def)
  moreover have "circuit_of probing_manager ''acme'' ''primary'' = probing_circuit"
    by (simp add: circuit_of_def probing_manager_def dict_get_default_def)
  moreover have "\<not> threshold_crossed (outcome_findings demo_containment demo_report (dp_breaker demo_primary)
      (deque_append (bk_window_size (dp_breaker demo_primary)) (ct_samples probing_circuit)
        (report_sample demo_report)))"
    by (simp add: threshold_crossed_def threshold_codes_def outcome_findings_def demo_report_def
        demo_primary_def demo_breaker_def demo_containment_def probing_circuit_def report_sample_def
        deque_append_def)
  ultimately have closed: "circuit_of (snd (record_outcome demo_digests (Some (\<lambda>_. True)) (\<lambda>_ _. False)
      demo_containment demo_permit demo_report 6 probing_manager)) ''acme'' ''primary'' = new_circuit \<and>
    mg_active_permits (snd (record_outcome demo_digests (Some (\<lambda>_. True)) (\<lambda>_ _. False)
      demo_containment demo_permit demo_report 6 probing_manager)) =
      dict_del (mg_active_permits probing_manager) ''p1''"
    using half_open_success_closes [of demo_digests "Some (\<lambda>_. True)" demo_containment demo_permit
        demo_report 6 probing_manager demo_primary "\<lambda>_ _. False"]
    by (simp add: pm probing_circuit_def demo_report_def)
  then show ?thesis by (simp add: probing_manager_def)
qed

end
