(* ===== verification/Mcp_Messages.thy ===== *)
theory Mcp_Messages
  imports Core_Models
begin

text \<open>
  \<open>mcp_messages.py\<close> and \<open>models/mcp_messages.py\<close>: Ed25519-signed MCP envelopes, their verification
  against authenticated expectations, and the in-memory replay store. The cryptographic functions
  and the canonical serialisation are the fields of the record \<open>crypto\<close>; the pydantic patterns of
  identifiers are not modelled. Audit references are digests and stay symbolic.
\<close>

section \<open>Envelopes, keys and contexts\<close>

datatype message_type = REQUEST | RESPONSE

datatype verification_code =
    VERIFIED | UNSIGNED_MESSAGE | KEY_NOT_TRUSTED | KEY_NOT_ACTIVE | SENDER_MISMATCH
  | RECIPIENT_MISMATCH | USER_MISMATCH | AGENT_MISMATCH | SESSION_MISMATCH
  | TOOL_DEFINITION_MISMATCH | MESSAGE_TYPE_MISMATCH | MESSAGE_NOT_YET_VALID | MESSAGE_EXPIRED
  | MESSAGE_TOO_OLD | TTL_EXCEEDED | ENVELOPE_TOO_LARGE | SIGNATURE_INVALID | REPLAY_DETECTED
  | REPLAY_STORE_FULL | REPLAY_STORE_ERROR

datatype claim_status = STORED | REPLAYED | FULL

record 'p envelope =
  en_key_id :: string
  en_message_type :: message_type
  en_sender_id :: ident
  en_recipient_id :: ident
  en_user_id :: ident
  en_agent_id :: ident
  en_session_id :: ident
  en_tool_digest :: string
  en_issued_at :: datetime
  en_expires_at :: datetime
  en_nonce :: string
  en_payload :: 'p
  en_signature :: "string option"

record trusted_key =
  tk_sender_id :: ident
  tk_public_key :: string
  tk_active_from :: "datetime option"
  tk_expires_at :: "datetime option"
  tk_revoked :: bool

record verification_context =
  vc_message_type :: message_type
  vc_sender_id :: ident
  vc_recipient_id :: ident
  vc_user_id :: ident
  vc_agent_id :: ident
  vc_session_id :: ident
  vc_tool_digest :: string

record signing_policy =
  sp_default_ttl :: int
  sp_max_ttl :: int
  sp_max_age :: int
  sp_clock_skew :: int
  sp_max_bytes :: nat

definition signing_policy_valid :: "signing_policy \<Rightarrow> bool" where
  "signing_policy_valid p \<longleftrightarrow> 1 \<le> sp_default_ttl p \<and> sp_default_ttl p \<le> sp_max_ttl p \<and>
     1 \<le> sp_max_age p \<and> 0 \<le> sp_clock_skew p"

text \<open>
  Signing and verifying a byte string, the public key of a private key, the fingerprint of a public
  key, the signed bytes of an envelope (every field but the signature), the replay identifier of a
  key and nonce, and the content-free reference of an audited value.
\<close>

record ('p, 'k) crypto =
  cy_sign :: "'k \<Rightarrow> string \<Rightarrow> string"
  cy_verify :: "string \<Rightarrow> string \<Rightarrow> string \<Rightarrow> bool"
  cy_public :: "'k \<Rightarrow> string"
  cy_fingerprint :: "string \<Rightarrow> string"
  cy_signing_bytes :: "'p envelope \<Rightarrow> string"
  cy_replay_id :: "string \<Rightarrow> string \<Rightarrow> string"
  cy_reference :: "string \<Rightarrow> string"

definition signing_bytes :: "('p, 'k) crypto \<Rightarrow> 'p envelope \<Rightarrow> string" where
  "signing_bytes cy e = cy_signing_bytes cy (e\<lparr>en_signature := None\<rparr>)"

definition key_id :: "('p, 'k) crypto \<Rightarrow> trusted_key \<Rightarrow> string" where
  "key_id cy k = cy_fingerprint cy (tk_public_key k)"

section \<open>The replay store\<close>

record replay_store =
  rp_max_entries :: nat
  rp_entries :: "(string, datetime) dict"

datatype claim_outcome = Claimed claim_status | Claim_error

definition claim ::
  "string \<Rightarrow> datetime \<Rightarrow> datetime \<Rightarrow> replay_store \<Rightarrow> claim_outcome \<times> replay_store" where
  "claim rid expires_at now s =
     (if expires_at \<le> now then (Claim_error, s)
      else
        (let m = filter (\<lambda>(_, x). \<not> x \<le> now) (rp_entries s); s' = s\<lparr>rp_entries := m\<rparr> in
         if dict_get m rid \<noteq> None then (Claimed REPLAYED, s')
         else if rp_max_entries s \<le> length m then (Claimed FULL, s')
         else (Claimed STORED, s\<lparr>rp_entries := dict_set m rid expires_at\<rparr>)))"

section \<open>Signing\<close>

record signer_args =
  sg_message_type :: message_type
  sg_recipient_id :: ident
  sg_user_id :: ident
  sg_agent_id :: ident
  sg_session_id :: ident
  sg_tool_digest :: string

definition sign ::
  "('p, 'k) crypto \<Rightarrow> 'k \<Rightarrow> ident \<Rightarrow> signing_policy \<Rightarrow> 'p \<Rightarrow> signer_args \<Rightarrow> datetime \<Rightarrow> int option \<Rightarrow>
   string \<Rightarrow> 'p envelope option" where
  "sign cy sk sender p payload a now ttl_opt nonce =
     (let ttl = (case ttl_opt of None \<Rightarrow> sp_default_ttl p | Some t \<Rightarrow> t) in
      if ttl < 1 \<or> sp_max_ttl p < ttl then None
      else
        (let e = \<lparr>en_key_id = cy_fingerprint cy (cy_public cy sk), en_message_type = sg_message_type a,
               en_sender_id = sender, en_recipient_id = sg_recipient_id a, en_user_id = sg_user_id a,
               en_agent_id = sg_agent_id a, en_session_id = sg_session_id a,
               en_tool_digest = sg_tool_digest a, en_issued_at = now,
               en_expires_at = now + td_seconds ttl, en_nonce = nonce, en_payload = payload,
               en_signature = None\<rparr>
         in if sp_max_bytes p < length (signing_bytes cy e) then None
            else Some (e\<lparr>en_signature := Some (cy_sign cy sk (signing_bytes cy e))\<rparr>)))"

section \<open>Verification\<close>

text \<open>\<open>None\<close> when two keys have one fingerprint or there is no key: the constructor raises.\<close>

definition trust_store :: "('p, 'k) crypto \<Rightarrow> trusted_key list \<Rightarrow> (string, trusted_key) dict option" where
  "trust_store cy ks =
     (if ks = [] \<or> \<not> distinct (map (key_id cy) ks) then None
      else Some (map (\<lambda>k. (key_id cy k, k)) ks))"

definition key_active :: "trusted_key \<Rightarrow> datetime \<Rightarrow> datetime \<Rightarrow> bool" where
  "key_active k issued now \<longleftrightarrow> \<not> tk_revoked k \<and>
     (case tk_active_from k of None \<Rightarrow> True | Some t \<Rightarrow> t \<le> now \<and> t \<le> issued) \<and>
     (case tk_expires_at k of None \<Rightarrow> True | Some t \<Rightarrow> now < t \<and> issued < t)"

text \<open>The bindings, in the order they are checked.\<close>

definition binding_checks ::
  "trusted_key \<Rightarrow> 'p envelope \<Rightarrow> verification_context \<Rightarrow> (bool \<times> verification_code) list" where
  "binding_checks k e c =
     [(tk_sender_id k = en_sender_id e \<and> en_sender_id e = vc_sender_id c, SENDER_MISMATCH),
      (en_recipient_id e = vc_recipient_id c, RECIPIENT_MISMATCH),
      (en_user_id e = vc_user_id c, USER_MISMATCH),
      (en_agent_id e = vc_agent_id c, AGENT_MISMATCH),
      (en_session_id e = vc_session_id c, SESSION_MISMATCH),
      (en_tool_digest e = vc_tool_digest c, TOOL_DEFINITION_MISMATCH),
      (en_message_type e = vc_message_type c, MESSAGE_TYPE_MISMATCH)]"

definition freshness_checks ::
  "('p, 'k) crypto \<Rightarrow> signing_policy \<Rightarrow> trusted_key \<Rightarrow> 'p envelope \<Rightarrow> datetime \<Rightarrow> (bool \<times> verification_code) list" where
  "freshness_checks cy p k e now =
     [(\<not> now + td_seconds (sp_clock_skew p) < en_issued_at e, MESSAGE_NOT_YET_VALID),
      (\<not> en_issued_at e < now - td_seconds (sp_max_age p), MESSAGE_TOO_OLD),
      (\<not> en_expires_at e \<le> now - td_seconds (sp_clock_skew p), MESSAGE_EXPIRED),
      (\<not> td_seconds (sp_max_ttl p) < en_expires_at e - en_issued_at e, TTL_EXCEEDED),
      (\<not> sp_max_bytes p < length (signing_bytes cy e), ENVELOPE_TOO_LARGE),
      (case en_signature e of Some s \<Rightarrow> cy_verify cy (tk_public_key k) s (signing_bytes cy e)
       | None \<Rightarrow> False, SIGNATURE_INVALID)]"

text \<open>The first failing check, if any.\<close>

definition first_failure :: "(bool \<times> verification_code) list \<Rightarrow> verification_code option" where
  "first_failure cs = map_option snd (find (\<lambda>(ok, _). \<not> ok) cs)"

definition replay_until :: "signing_policy \<Rightarrow> 'p envelope \<Rightarrow> datetime" where
  "replay_until p e =
     max (en_expires_at e) (en_issued_at e + td_seconds (sp_max_age p)) + td_seconds (sp_clock_skew p)"

text \<open>The outcome code of \<open>verify\<close> and the store afterwards; only \<open>VERIFIED\<close> allows.\<close>

definition verify_code ::
  "('p, 'k) crypto \<Rightarrow> (string, trusted_key) dict \<Rightarrow> signing_policy \<Rightarrow> 'p envelope option \<Rightarrow>
   verification_context \<Rightarrow> datetime \<Rightarrow> replay_store \<Rightarrow> verification_code \<times> replay_store" where
  "verify_code cy keys p eo c now s =
     (case eo of
        None \<Rightarrow> (UNSIGNED_MESSAGE, s)
      | Some e \<Rightarrow>
          if en_signature e = None then (UNSIGNED_MESSAGE, s)
          else (case dict_get keys (en_key_id e) of
              None \<Rightarrow> (KEY_NOT_TRUSTED, s)
            | Some k \<Rightarrow>
                if \<not> key_active k (en_issued_at e) now then (KEY_NOT_ACTIVE, s)
                else (case first_failure (binding_checks k e c @ freshness_checks cy p k e now) of
                    Some code \<Rightarrow> (code, s)
                  | None \<Rightarrow>
                      (case claim (cy_replay_id cy (en_key_id e) (en_nonce e)) (replay_until p e) now s of
                         (Claim_error, s') \<Rightarrow> (REPLAY_STORE_ERROR, s')
                       | (Claimed REPLAYED, s') \<Rightarrow> (REPLAY_DETECTED, s')
                       | (Claimed FULL, s') \<Rightarrow> (REPLAY_STORE_FULL, s')
                       | (Claimed STORED, s') \<Rightarrow> (VERIFIED, s')))))"

record message_audit =
  ma_occurred_at :: datetime
  ma_action :: guard_action
  ma_code :: verification_code
  ma_message_type :: "message_type option"
  ma_message_ref :: "string option"
  ma_key_ref :: "string option"
  ma_sender_ref :: "string option"
  ma_recipient_ref :: "string option"
  ma_user_ref :: "string option"
  ma_agent_ref :: "string option"
  ma_session_ref :: "string option"
  ma_tool_ref :: "string option"
  ma_nonce_ref :: "string option"

record verification_result =
  vr_action :: guard_action
  vr_findings :: "verification_code list"
  vr_audit :: message_audit

definition verification_outcome ::
  "('p, 'k) crypto \<Rightarrow> 'p envelope option \<Rightarrow> verification_code \<Rightarrow> datetime \<Rightarrow> verification_result" where
  "verification_outcome cy eo code now =
     (let act = (if code = VERIFIED then ALLOW else BLOCK); ref = (\<lambda>f. map_option (\<lambda>e. cy_reference cy (f e)) eo)
      in \<lparr>vr_action = act, vr_findings = (if code = VERIFIED then [] else [code]),
          vr_audit =
            \<lparr>ma_occurred_at = now, ma_action = act, ma_code = code,
             ma_message_type = map_option en_message_type eo,
             ma_message_ref = map_option (cy_reference cy) (Option.bind eo en_signature),
             ma_key_ref = ref en_key_id, ma_sender_ref = ref en_sender_id,
             ma_recipient_ref = ref en_recipient_id, ma_user_ref = ref en_user_id,
             ma_agent_ref = ref en_agent_id, ma_session_ref = ref en_session_id,
             ma_tool_ref = ref en_tool_digest, ma_nonce_ref = ref en_nonce\<rparr>\<rparr>)"

definition verify ::
  "('p, 'k) crypto \<Rightarrow> (string, trusted_key) dict \<Rightarrow> signing_policy \<Rightarrow> 'p envelope option \<Rightarrow>
   verification_context \<Rightarrow> datetime \<Rightarrow> replay_store \<Rightarrow> verification_result \<times> replay_store" where
  "verify cy keys p eo c now s =
     (let (code, s') = verify_code cy keys p eo c now s in (verification_outcome cy eo code now, s'))"

definition require_verified ::
  "('p, 'k) crypto \<Rightarrow> (string, trusted_key) dict \<Rightarrow> signing_policy \<Rightarrow> 'p envelope option \<Rightarrow>
   verification_context \<Rightarrow> datetime \<Rightarrow> replay_store \<Rightarrow> (verification_result + 'p) \<times> replay_store" where
  "require_verified cy keys p eo c now s =
     (let (r, s') = verify cy keys p eo c now s in
      (case eo of
         Some e \<Rightarrow> (if vr_action r = ALLOW then Inr (en_payload e) else Inl r, s')
       | None \<Rightarrow> (Inl r, s')))"

section \<open>What a verified message guarantees\<close>

lemma first_failure_None: "first_failure cs = None \<longleftrightarrow> (\<forall>(ok, code) \<in> set cs. ok)"
  by (auto simp: first_failure_def find_None_iff)

lemma first_failure_VERIFIED:
  "first_failure (binding_checks k e c @ freshness_checks cy p k e now) \<noteq> Some VERIFIED"
  by (auto simp: first_failure_def find_Some_iff binding_checks_def freshness_checks_def
      dest: nth_mem)

lemma verify_code_VERIFIED:
  assumes "verify_code cy keys p eo c now s = (VERIFIED, s')"
  obtains e k where "eo = Some e" "en_signature e \<noteq> None" "dict_get keys (en_key_id e) = Some k"
    "key_active k (en_issued_at e) now"
    "first_failure (binding_checks k e c @ freshness_checks cy p k e now) = None"
    "claim (cy_replay_id cy (en_key_id e) (en_nonce e)) (replay_until p e) now s = (Claimed STORED, s')"
  using assms
  by (auto simp: verify_code_def first_failure_VERIFIED split: option.splits if_splits prod.splits claim_outcome.splits
      claim_status.splits)

lemma claim_stored:
  assumes "claim rid x now s = (Claimed STORED, s')"
  shows "dict_get (rp_entries s') rid = Some x" and "dict_get (rp_entries s) rid = Some y \<Longrightarrow> y \<le> now"
proof -
  have none: "dict_get (filter (\<lambda>(_, x). \<not> x \<le> now) (rp_entries s)) rid = None"
    and s': "s' = s\<lparr>rp_entries := dict_set (filter (\<lambda>(_, x). \<not> x \<le> now) (rp_entries s)) rid x\<rparr>"
    using assms by (auto simp: claim_def Let_def split: if_splits)
  show "dict_get (rp_entries s') rid = Some x" by (simp add: s')
  assume "dict_get (rp_entries s) rid = Some y"
  then have "(rid, y) \<in> set (rp_entries s)" by (rule map_of_SomeD)
  then show "y \<le> now" using none by (force simp: map_of_eq_None_iff)
qed

text \<open>
  C7: a payload is released only for an authentic, fresh and correctly addressed message. When
  \<open>require_verified\<close> returns a payload, it is the envelope's, whose signature over all other
  fields verifies under a key of the trust store that is bound to the authenticated sender, not revoked and
  active both now and when the message was issued, whose recipient,
  user, agent, session, tool definition and direction are the expected ones, whose lifetime and age
  are within policy, whose size is bounded, and whose key and nonce are claimed in the replay store, where no
  claim of them was still in force.
\<close>

theorem verified_message_authentic:
  assumes "require_verified cy keys p eo c now s = (Inr payload, s')"
  shows "\<exists>e k sig. eo = Some e \<and> payload = en_payload e \<and> en_signature e = Some sig \<and>
    dict_get keys (en_key_id e) = Some k \<and> \<not> tk_revoked k \<and>
    (\<forall>t. tk_active_from k = Some t \<longrightarrow> t \<le> now \<and> t \<le> en_issued_at e) \<and>
    (\<forall>t. tk_expires_at k = Some t \<longrightarrow> now < t \<and> en_issued_at e < t) \<and>
    cy_verify cy (tk_public_key k) sig (cy_signing_bytes cy (e\<lparr>en_signature := None\<rparr>)) \<and>
    tk_sender_id k = vc_sender_id c \<and> en_sender_id e = vc_sender_id c \<and>
    en_recipient_id e = vc_recipient_id c \<and> en_user_id e = vc_user_id c \<and>
    en_agent_id e = vc_agent_id c \<and> en_session_id e = vc_session_id c \<and>
    en_tool_digest e = vc_tool_digest c \<and> en_message_type e = vc_message_type c \<and>
    en_issued_at e \<le> now + td_seconds (sp_clock_skew p) \<and>
    now \<le> en_issued_at e + td_seconds (sp_max_age p) \<and>
    now < en_expires_at e + td_seconds (sp_clock_skew p) \<and>
    en_expires_at e \<le> en_issued_at e + td_seconds (sp_max_ttl p) \<and>
    length (cy_signing_bytes cy (e\<lparr>en_signature := None\<rparr>)) \<le> sp_max_bytes p \<and>
    dict_get (rp_entries s') (cy_replay_id cy (en_key_id e) (en_nonce e)) = Some (replay_until p e) \<and>
    (\<forall>y. dict_get (rp_entries s) (cy_replay_id cy (en_key_id e) (en_nonce e)) = Some y \<longrightarrow> y \<le> now)"
proof -
  have vc: "verify_code cy keys p eo c now s = (VERIFIED, s')"
    and pay: "\<exists>e. eo = Some e \<and> payload = en_payload e"
    using assms by (auto simp: require_verified_def verify_def verification_outcome_def Let_def
        split: option.splits if_splits prod.splits)
  from vc obtain e k where e: "eo = Some e" "en_signature e \<noteq> None" "dict_get keys (en_key_id e) = Some k"
    and k: "key_active k (en_issued_at e) now"
    and f: "first_failure (binding_checks k e c @ freshness_checks cy p k e now) = None"
    and cl: "claim (cy_replay_id cy (en_key_id e) (en_nonce e)) (replay_until p e) now s = (Claimed STORED, s')"
    by (rule verify_code_VERIFIED)
  from e(2) obtain sig where sig: "en_signature e = Some sig" by blast
  have "\<not> tk_revoked k \<and> (\<forall>t. tk_active_from k = Some t \<longrightarrow> t \<le> now \<and> t \<le> en_issued_at e) \<and>
    (\<forall>t. tk_expires_at k = Some t \<longrightarrow> now < t \<and> en_issued_at e < t)"
    using k by (simp add: key_active_def split: option.splits)
  moreover have "payload = en_payload e" using pay e(1) by simp
  ultimately show ?thesis
    using f e(1,3) sig claim_stored [OF cl]
    by (intro exI [of _ e] exI [of _ k] exI [of _ sig])
      (simp add: signing_bytes_def first_failure_None binding_checks_def freshness_checks_def not_less algebra_simps)
qed

section \<open>Replays\<close>

text \<open>A verifier with its store and the last clock reading; an input is an envelope with its context and time.\<close>

type_synonym 'p delivery = "'p envelope \<times> verification_context \<times> datetime"

definition deliver ::
  "('p, 'k) crypto \<Rightarrow> (string, trusted_key) dict \<Rightarrow> signing_policy \<Rightarrow> replay_store \<times> datetime \<Rightarrow> 'p delivery \<Rightarrow>
   bool \<times> replay_store \<times> datetime" where
  "deliver cy keys p st d =
     (let (code, s') = verify_code cy keys p (Some (fst d)) (fst (snd d)) (snd (snd d)) (fst st)
      in (code = VERIFIED, s', snd (snd d)))"

definition clock_forward :: "replay_store \<times> datetime \<Rightarrow> 'p delivery \<Rightarrow> bool" where
  "clock_forward st d \<longleftrightarrow> snd st \<le> snd (snd d)"

text \<open>Envelopes that cannot be accepted any more: expired, or claimed until after their window.\<close>

definition unacceptable ::
  "('p, 'k) crypto \<Rightarrow> signing_policy \<Rightarrow> replay_store \<times> datetime \<Rightarrow> 'p envelope set" where
  "unacceptable cy p st = {e. en_expires_at e + td_seconds (sp_clock_skew p) \<le> snd st \<or>
     (\<exists>x. dict_get (rp_entries (fst st)) (cy_replay_id cy (en_key_id e) (en_nonce e)) = Some x \<and>
          replay_until p e \<le> x)}"

lemma replay_until_covers: "en_expires_at e + td_seconds (sp_clock_skew p) \<le> replay_until p e"
  by (simp add: replay_until_def)

lemma claim_entries:
  assumes "dict_ok (rp_entries s)" and "claim rid x now s = (r, s')"
  shows "dict_ok (rp_entries s')"
    and "dict_get (rp_entries s) k = Some y \<Longrightarrow> now < y \<Longrightarrow> dict_get (rp_entries s') k = Some y"
    and "r = Claimed STORED \<Longrightarrow> dict_get (rp_entries s') rid = Some x \<and>
      (\<forall>y. dict_get (rp_entries s) rid = Some y \<longrightarrow> y \<le> now)"
  using assms
  by (auto simp: claim_def Let_def dict_get_filter not_le split: if_splits option.splits
      intro!: dict_ok_simps dict_ok_filter)

lemma verify_code_store:
  assumes "verify_code cy keys p (Some e) c now s = (code, s')"
  shows "s' = s \<or> (\<exists>r rid x. claim rid x now s = (r, s'))"
  using assms
  by (auto simp: verify_code_def split: option.splits if_splits prod.splits claim_outcome.splits
      claim_status.splits)

interpretation message_use: single_use "deliver cy keys p" fst "unacceptable cy p" clock_forward
    "\<lambda>st. dict_ok (rp_entries (fst st))" for cy keys p
proof (unfold_locales, goal_cases)
  case (1 st d st')
  obtain e c now where d: "d = (e, c, now)" by (cases d)
  obtain s t where st: "st = (s, t)" by (cases st)
  have v: "verify_code cy keys p (Some e) c now s = (VERIFIED, fst st')" and t: "t \<le> now"
    using 1 by (auto simp: d st deliver_def clock_forward_def split: prod.splits)
  from verify_code_VERIFIED [OF v] obtain k where
    f: "first_failure (binding_checks k e c @ freshness_checks cy p k e now) = None"
    and cl: "claim (cy_replay_id cy (en_key_id e) (en_nonce e)) (replay_until p e) now s = (Claimed STORED, fst st')"
    by (metis option.inject)
  have fresh: "now < en_expires_at e + td_seconds (sp_clock_skew p)"
    using f by (auto simp: first_failure_None freshness_checks_def)
  have "\<not> replay_until p e \<le> x"
    if "dict_get (rp_entries s) (cy_replay_id cy (en_key_id e) (en_nonce e)) = Some x" for x
    using claim_entries(3) [OF _ cl] 1(1) that fresh replay_until_covers [of e p] by (force simp: st)
  then show ?case using fresh t by (auto simp: d st unacceptable_def)
next
  case (2 st d st')
  obtain e c now where d: "d = (e, c, now)" by (cases d)
  obtain s t where st: "st = (s, t)" by (cases st)
  have v: "verify_code cy keys p (Some e) c now s = (VERIFIED, fst st')"
    using 2 by (auto simp: d st deliver_def split: prod.splits)
  from verify_code_VERIFIED [OF v] have
    "claim (cy_replay_id cy (en_key_id e) (en_nonce e)) (replay_until p e) now s = (Claimed STORED, fst st')"
    by (metis option.inject)
  from claim_entries(3) [OF _ this] 2(1) show ?case by (auto simp: d st unacceptable_def)
next
  case (3 st d ok st')
  obtain e c now where d: "d = (e, c, now)" by (cases d)
  obtain s t where st: "st = (s, t)" by (cases st)
  obtain code where v: "verify_code cy keys p (Some e) c now s = (code, fst st')" and t: "t \<le> now"
    and now: "snd st' = now"
    using 3 by (auto simp: d st deliver_def clock_forward_def split: prod.splits)
  show ?case
  proof
    fix e' assume "e' \<in> unacceptable cy p st"
    then consider "en_expires_at e' + td_seconds (sp_clock_skew p) \<le> t"
      | x where "dict_get (rp_entries s) (cy_replay_id cy (en_key_id e') (en_nonce e')) = Some x"
        "replay_until p e' \<le> x" by (auto simp: unacceptable_def st)
    then show "e' \<in> unacceptable cy p st'"
    proof cases
      case 1
      then show ?thesis using t now by (simp add: unacceptable_def)
    next
      case (2 x)
      show ?thesis
      proof (cases "now < x")
        case True
        have "dict_get (rp_entries (fst st')) (cy_replay_id cy (en_key_id e') (en_nonce e')) = Some x"
          using verify_code_store [OF v] claim_entries(2) [of s _ _ now _ "fst st'"] 3(1) 2(1) True
          by (auto simp: st)
        then show ?thesis using 2(2) by (auto simp: unacceptable_def)
      next
        case False
        then have "en_expires_at e' + td_seconds (sp_clock_skew p) \<le> now"
          using 2(2) replay_until_covers [of e' p] by simp
        then show ?thesis using now by (simp add: unacceptable_def)
      qed
    qed
  qed
next
  case (4 st d ok st')
  obtain e c now where d: "d = (e, c, now)" by (cases d)
  obtain s t where st: "st = (s, t)" by (cases st)
  obtain code where v: "verify_code cy keys p (Some e) c now s = (code, fst st')"
    using 4 by (auto simp: d st deliver_def split: prod.splits)
  then show ?case using verify_code_store [OF v] claim_entries(1) [of s] 4(1) by (auto simp: st)
qed

text \<open>
  No message is accepted twice. Along any sequence of deliveries with a clock that does not run
  backwards, starting from an empty store of any capacity, the accepted envelopes are pairwise
  different, although the store forgets claims: a claim outlives every moment at which its envelope
  could still pass the freshness checks.
\<close>

theorem message_accepted_at_most_once:
  assumes "rp_entries s = []"
    and "all_admissible clock_forward (deliver cy keys p) (s, t0) ds"
  shows "distinct (map fst (fst (run_attempts (deliver cy keys p) (s, t0) ds)))"
  using message_use.accepted_at_most_once [OF _ assms(2) surjective_pairing] assms(1) by simp

section \<open>Round trip\<close>

text \<open>
  What the signer signs, the verifier releases. If signatures made with a private key verify
  under its public key, then a signed message, received within its lifetime and age by a verifier
  that trusts the sender's key and expects exactly this message, whose replay store has room and
  has not seen the nonce, is verified and yields the signed payload.
\<close>

theorem signed_message_verifies:
  assumes "\<And>m. cy_verify cy (cy_public cy sk) (cy_sign cy sk m) m"
    and "signing_policy_valid p"
    and "sign cy sk sender p payload a issued ttl nonce = Some e"
    and "dict_get keys (cy_fingerprint cy (cy_public cy sk)) = Some k"
    and "tk_public_key k = cy_public cy sk" and "tk_sender_id k = sender"
    and "key_active k issued now"
    and "c = \<lparr>vc_message_type = sg_message_type a, vc_sender_id = sender,
      vc_recipient_id = sg_recipient_id a, vc_user_id = sg_user_id a, vc_agent_id = sg_agent_id a,
      vc_session_id = sg_session_id a, vc_tool_digest = sg_tool_digest a\<rparr>"
    and "issued \<le> now" and "now < en_expires_at e" and "now \<le> issued + td_seconds (sp_max_age p)"
    and "dict_ok (rp_entries s)" and "length (rp_entries s) < rp_max_entries s"
    and "dict_get (rp_entries s) (cy_replay_id cy (en_key_id e) nonce) = None"
  shows "fst (require_verified cy keys p (Some e) c now s) = Inr payload"
proof -
  define ttl' where "ttl' = (case ttl of None \<Rightarrow> sp_default_ttl p | Some t \<Rightarrow> t)"
  define u where "u = \<lparr>en_key_id = cy_fingerprint cy (cy_public cy sk), en_message_type = sg_message_type a,
    en_sender_id = sender, en_recipient_id = sg_recipient_id a, en_user_id = sg_user_id a,
    en_agent_id = sg_agent_id a, en_session_id = sg_session_id a, en_tool_digest = sg_tool_digest a,
    en_issued_at = issued, en_expires_at = issued + td_seconds ttl', en_nonce = nonce,
    en_payload = payload, en_signature = None\<rparr>"
  have ttl: "1 \<le> ttl'" "ttl' \<le> sp_max_ttl p" and size: "length (signing_bytes cy u) \<le> sp_max_bytes p"
    and e: "e = u\<lparr>en_signature := Some (cy_sign cy sk (signing_bytes cy u))\<rparr>"
    using assms(3) unfolding sign_def Let_def ttl'_def [symmetric] u_def [symmetric]
    by (auto split: if_splits)
  have bytes: "signing_bytes cy e = signing_bytes cy u" by (simp add: e signing_bytes_def)
  have skew: "0 \<le> td_seconds (sp_clock_skew p)" using assms(2) by (simp add: signing_policy_valid_def)
  have fields: "en_message_type e = sg_message_type a" "en_sender_id e = sender"
    "en_recipient_id e = sg_recipient_id a" "en_user_id e = sg_user_id a" "en_agent_id e = sg_agent_id a"
    "en_session_id e = sg_session_id a" "en_tool_digest e = sg_tool_digest a"
    "en_issued_at e = issued" "en_expires_at e = issued + td_seconds ttl'"
    "en_signature e = Some (cy_sign cy sk (signing_bytes cy u))"
    by (simp_all add: e u_def)
  have sig: "cy_verify cy (tk_public_key k) (cy_sign cy sk (signing_bytes cy u)) (signing_bytes cy u)"
    using assms(1,5) by simp
  have "\<forall>(ok, code) \<in> set (binding_checks k e c). ok"
    using assms(6,8) by (simp add: binding_checks_def fields)
  moreover have "\<forall>(ok, code) \<in> set (freshness_checks cy p k e now). ok"
    using assms(9-11) ttl size skew sig by (auto simp: freshness_checks_def bytes fields td_seconds_def)
  ultimately have checks: "first_failure (binding_checks k e c @ freshness_checks cy p k e now) = None"
    unfolding first_failure_None by auto
  have active: "key_active k (en_issued_at e) now" using assms(7) by (simp add: e u_def)
  have "now < replay_until p e"
    using assms(10) skew replay_until_covers [of e p] by linarith
  moreover have "length (filter (\<lambda>(_, x). \<not> x \<le> now) (rp_entries s)) < rp_max_entries s"
    by (rule le_less_trans [OF length_filter_le assms(13)])
  moreover have "dict_get (filter (\<lambda>(_, x). \<not> x \<le> now) (rp_entries s)) (cy_replay_id cy (en_key_id e) nonce) = None"
    using assms(12,14) by (simp add: dict_get_filter)
  ultimately have "fst (claim (cy_replay_id cy (en_key_id e) nonce) (replay_until p e) now s) = Claimed STORED"
    by (simp add: claim_def Let_def)
  then obtain s' where "claim (cy_replay_id cy (en_key_id e) (en_nonce e)) (replay_until p e) now s = (Claimed STORED, s')"
    by (cases "claim (cy_replay_id cy (en_key_id e) nonce) (replay_until p e) now s") (simp add: e u_def)
  then have "verify_code cy keys p (Some e) c now s = (VERIFIED, s')"
    using assms(4) checks active by (simp add: verify_code_def e u_def)
  then show ?thesis
    by (simp add: require_verified_def verify_def verification_outcome_def Let_def e u_def)
qed

section \<open>Witnesses\<close>

text \<open>A toy signature scheme: the signature is the key in front of the message.\<close>

definition demo_crypto :: "(string, string) crypto" where
  "demo_crypto = \<lparr>cy_sign = (\<lambda>k m. k @ m), cy_verify = (\<lambda>pk s m. s = pk @ m), cy_public = (\<lambda>k. k),
     cy_fingerprint = (\<lambda>pk. pk), cy_signing_bytes = en_payload, cy_replay_id = (\<lambda>k n. k @ n),
     cy_reference = (\<lambda>s. s)\<rparr>"

definition demo_signing_policy :: signing_policy where
  "demo_signing_policy = \<lparr>sp_default_ttl = 60, sp_max_ttl = 300, sp_max_age = 300, sp_clock_skew = 30,
     sp_max_bytes = 1000\<rparr>"

definition demo_key :: trusted_key where
  "demo_key = \<lparr>tk_sender_id = ''client'', tk_public_key = ''K'', tk_active_from = Some 0,
     tk_expires_at = Some 1000, tk_revoked = False\<rparr>"

definition demo_expected :: verification_context where
  "demo_expected = \<lparr>vc_message_type = REQUEST, vc_sender_id = ''client'', vc_recipient_id = ''server'',
     vc_user_id = ''u'', vc_agent_id = ''a'', vc_session_id = ''s'', vc_tool_digest = ''t''\<rparr>"

definition demo_envelope :: "string envelope" where
  "demo_envelope = \<lparr>en_key_id = ''K'', en_message_type = REQUEST, en_sender_id = ''client'',
     en_recipient_id = ''server'', en_user_id = ''u'', en_agent_id = ''a'', en_session_id = ''s'',
     en_tool_digest = ''t'', en_issued_at = 0, en_expires_at = 60000000, en_nonce = ''n'',
     en_payload = ''hello'', en_signature = Some ''Khello''\<rparr>"

lemma demo_signed:
  "sign demo_crypto ''K'' ''client'' demo_signing_policy ''hello''
     \<lparr>sg_message_type = REQUEST, sg_recipient_id = ''server'', sg_user_id = ''u'', sg_agent_id = ''a'',
      sg_session_id = ''s'', sg_tool_digest = ''t''\<rparr> 0 None ''n'' = Some demo_envelope"
  by (simp add: sign_def demo_crypto_def demo_signing_policy_def demo_envelope_def signing_bytes_def
      td_seconds_def Let_def)

lemma demo_released:
  "fst (require_verified demo_crypto [(''K'', demo_key)] demo_signing_policy (Some demo_envelope)
     demo_expected 5 \<lparr>rp_max_entries = 2, rp_entries = []\<rparr>) = Inr ''hello''"
  by (simp add: require_verified_def verify_def verification_outcome_def verify_code_def claim_def
      key_active_def first_failure_def binding_checks_def freshness_checks_def demo_crypto_def
      signing_bytes_def demo_envelope_def demo_expected_def demo_signing_policy_def demo_key_def
      td_seconds_def replay_until_def Let_def)

theorem signed_message_verifies_witness:
  "fst (require_verified demo_crypto [(''K'', demo_key)] demo_signing_policy (Some demo_envelope)
     demo_expected 5 \<lparr>rp_max_entries = 2, rp_entries = []\<rparr>) = Inr ''hello''"
  by (rule signed_message_verifies [OF _ _ demo_signed, where k = demo_key])
    (simp_all add: demo_crypto_def demo_signing_policy_def signing_policy_valid_def demo_key_def
       key_active_def demo_expected_def demo_envelope_def td_seconds_def)

theorem verified_message_authentic_witness:
  "cy_verify demo_crypto (tk_public_key demo_key) ''Khello'' (signing_bytes demo_crypto demo_envelope) \<and>
     tk_active_from demo_key = Some 0 \<and> 0 \<le> en_issued_at demo_envelope"
proof -
  from demo_released obtain s' where "require_verified demo_crypto [(''K'', demo_key)] demo_signing_policy
      (Some demo_envelope) demo_expected 5 \<lparr>rp_max_entries = 2, rp_entries = []\<rparr> = (Inr ''hello'', s')"
    by (metis prod.collapse)
  from verified_message_authentic [OF this] show ?thesis by (auto simp: demo_envelope_def demo_key_def signing_bytes_def split: if_splits)
qed

theorem message_accepted_at_most_once_witness:
  "distinct (map fst (fst (run_attempts (deliver demo_crypto [(''K'', demo_key)] demo_signing_policy)
     (\<lparr>rp_max_entries = 2, rp_entries = []\<rparr>, 0)
     [(demo_envelope, demo_expected, 5), (demo_envelope, demo_expected, 7)])))"
  by (rule message_accepted_at_most_once) (simp_all add: clock_forward_def deliver_def split_def Let_def)

end
