(* ===== verification/Stream_Scanner.thy ===== *)
theory Stream_Scanner
  imports Guard_Verdicts "HOL-Library.Sublist"
begin

text \<open>
  \<open>streaming/scanner.py\<close>: the chunk scanner with its bounded look-behind buffer. \<open>process_chunk\<close> is
  modelled with its two rule loops (normalisation, then detection on look-behind plus chunk), its
  early returns as halting steps, and its terminal state. A finding object's identity is its
  position in the scanner's list of findings.
\<close>

section \<open>Scanner, state and results\<close>

record scanner =
  sc_rules :: "rule list"
  sc_context :: guard_context
  sc_buffer_size :: nat
  sc_chunk_overlap :: nat
  sc_mode :: sensitive_data_mode
  sc_fail_mode :: fail_mode
  sc_block_at :: int
  sc_warn_at :: int

record stream_state =
  ss_buffer :: pytext
  ss_total_chars :: int
  ss_total_bytes :: int
  ss_chunk_count :: int
  ss_rules_evaluated :: int
  ss_findings :: "finding list"
  ss_blocked :: bool
  ss_terminal :: "guard_action option"
  ss_requires_approval :: bool
  ss_redacted :: bool
  ss_transformed :: bool
  ss_warned :: bool
  ss_handled :: "nat set"

definition reset_stream :: stream_state where
  "reset_stream = \<lparr>ss_buffer = [], ss_total_chars = 0, ss_total_bytes = 0, ss_chunk_count = 0,
     ss_rules_evaluated = 0, ss_findings = [], ss_blocked = False, ss_terminal = None,
     ss_requires_approval = False, ss_redacted = False, ss_transformed = False, ss_warned = False,
     ss_handled = {}\<rparr>"

record stream_result =
  sr_chunk :: pytext
  sr_findings :: "finding list"
  sr_action :: guard_action
  sr_safe_chunk :: pytext

definition is_terminal :: "stream_result \<Rightarrow> bool" where
  "is_terminal r \<longleftrightarrow> sr_action r \<in> {BLOCK, QUARANTINE, RETRY, REQUIRE_APPROVAL}"

text \<open>The local variables of \<open>process_chunk\<close>.\<close>

record chunk_state =
  ck_safe :: pytext
  ck_new :: "finding list"
  ck_redacted :: bool
  ck_transformed :: bool
  ck_warned :: bool

definition start_chunk :: "pytext \<Rightarrow> chunk_state" where
  "start_chunk chunk = \<lparr>ck_safe = chunk, ck_new = [], ck_redacted = False, ck_transformed = False,
     ck_warned = False\<rparr>"

text \<open>Python's \<open>text[-k:]\<close>, which is the whole text for \<open>k = 0\<close>.\<close>

definition last_chars :: "nat \<Rightarrow> pytext \<Rightarrow> pytext" where
  "last_chars k t = (if k = 0 then t else drop (length t - k) t)"

definition scanner_sensitive_mode :: "sensitive_data_mode \<Rightarrow> decision \<Rightarrow> bool \<times> decision" where
  "scanner_sensitive_mode mode d =
     (case de_finding d of
        None \<Rightarrow> (False, d)
      | Some f \<Rightarrow>
          if fi_category f \<notin> {SENSITIVE_DATA, SECRET} then (False, d)
          else if mode = SDM_DEFAULT then (False, d)
          else if mode = SDM_BLOCK then (False, d\<lparr>de_action := BLOCK\<rparr>)
          else if mode = SDM_REDACT then
            (let d' = d\<lparr>de_action := (if de_transformed d \<noteq> None then REDACT else BLOCK)\<rparr>
             in (de_action d' = REDACT, d'))
          else (True, d\<lparr>de_action := ALLOW, de_transformed := None\<rparr>))"

definition scanner_handling :: "sensitive_data_mode \<Rightarrow> decision \<Rightarrow> bool \<times> decision" where
  "scanner_handling mode d = (if de_suppress_risk d then (True, d) else scanner_sensitive_mode mode d)"

section \<open>The rule loops\<close>

datatype chunk_step =
    Halt guard_action stream_state chunk_state
  | Go stream_state chunk_state

text \<open>Setting the terminal action and committing the new findings.\<close>

definition halt :: "guard_action \<Rightarrow> stream_state \<Rightarrow> chunk_state \<Rightarrow> chunk_step" where
  "halt a st ck = Halt a
     (st\<lparr>ss_blocked := (a = BLOCK), ss_terminal := Some a, ss_findings := ss_findings st @ ck_new ck\<rparr>) ck"

definition count_rule :: "stream_state \<Rightarrow> stream_state" where
  "count_rule st = st\<lparr>ss_rules_evaluated := ss_rules_evaluated st + 1\<rparr>"

definition add_finding :: "bool \<Rightarrow> decision \<Rightarrow> stream_state \<times> chunk_state \<Rightarrow> stream_state \<times> chunk_state" where
  "add_finding handled d sk =
     (case de_finding d of
        None \<Rightarrow> sk
      | Some f \<Rightarrow>
          ((if handled
            then (fst sk)\<lparr>ss_handled :=
                   insert (length (ss_findings (fst sk)) + length (ck_new (snd sk))) (ss_handled (fst sk))\<rparr>
            else fst sk),
           (snd sk)\<lparr>ck_new := ck_new (snd sk) @ [f]\<rparr>))"

definition rule_raised ::
  "scanner \<Rightarrow> rule \<Rightarrow> string \<Rightarrow> stream_state \<Rightarrow> chunk_state \<Rightarrow> chunk_step" where
  "rule_raised sc r e st ck =
     (if effective_fail_mode (sc_fail_mode sc) r = CLOSED
      then halt BLOCK st (ck\<lparr>ck_new := ck_new ck @ [rule_failure_finding r e]\<rparr>)
      else Go st ck)"

definition chunk_args :: "stream_state \<Rightarrow> chunk_state \<Rightarrow> stream_args" where
  "chunk_args st ck = \<lparr>sa_chunk = ck_safe ck, sa_chunk_index = ss_chunk_count st,
     sa_total_chars = ss_total_chars st, sa_total_bytes = ss_total_bytes st\<rparr>"

definition normalize_rule :: "scanner \<Rightarrow> rule \<Rightarrow> stream_state \<Rightarrow> chunk_state \<Rightarrow> chunk_step" where
  "normalize_rule sc r st0 ck0 =
     (let st = count_rule st0 in
      case timed_evaluate_stream r (ck_safe ck0) (sc_context sc) (chunk_args st ck0) of
        Inl e \<Rightarrow> rule_raised sc r e st ck0
      | Inr d \<Rightarrow>
          (let (st1, ck1) = add_finding (de_suppress_risk d) d (st, ck0);
               replaces = de_action d \<in> {REDACT, TRANSFORM} \<and> de_transformed d \<noteq> None;
               marks = replaces \<and> de_action d = TRANSFORM \<and> de_suppress_risk d;
               ck2 = (if replaces then ck1\<lparr>ck_safe := the (de_transformed d)\<rparr> else ck1);
               ck3 = (if marks then ck2\<lparr>ck_transformed := True\<rparr> else ck2);
               st2 = (if marks then st1\<lparr>ss_transformed := True\<rparr> else st1)
           in if de_action d \<in> {BLOCK, QUARANTINE, RETRY} then halt (de_action d) st2 ck3
              else if de_action d = REQUIRE_APPROVAL
                then Go (st2\<lparr>ss_requires_approval := True\<rparr>) ck3
              else Go st2 ck3))"

definition detect_rule ::
  "scanner \<Rightarrow> pytext \<Rightarrow> rule \<Rightarrow> stream_state \<Rightarrow> chunk_state \<Rightarrow> chunk_step" where
  "detect_rule sc lookbehind r st0 ck0 =
     (let st = count_rule st0 in
      case timed_evaluate_stream r (lookbehind @ ck_safe ck0) (sc_context sc) (chunk_args st ck0) of
        Inl e \<Rightarrow> rule_raised sc r e st ck0
      | Inr d0 \<Rightarrow>
          (let (handled, d) = scanner_handling (sc_mode sc) d0;
               (st1, ck1) = add_finding handled d (st, ck0)
           in if de_action d \<in> {BLOCK, QUARANTINE, RETRY} then halt (de_action d) st1 ck1
              else
                (case (if de_action d \<in> {REDACT, TRANSFORM} then de_transformed d else None) of
                   Some t \<Rightarrow>
                     if \<not> prefix lookbehind t then halt BLOCK st1 ck1
                     else if de_action d = TRANSFORM \<and> de_suppress_risk d
                       then Go (st1\<lparr>ss_transformed := True\<rparr>)
                              (ck1\<lparr>ck_safe := drop (length lookbehind) t, ck_transformed := True\<rparr>)
                     else Go (st1\<lparr>ss_redacted := True\<rparr>)
                            (ck1\<lparr>ck_safe := drop (length lookbehind) t, ck_redacted := True\<rparr>)
                 | None \<Rightarrow>
                     if de_action d = WARN
                       then Go (st1\<lparr>ss_warned := True\<rparr>) (ck1\<lparr>ck_warned := True\<rparr>)
                     else if de_action d = REQUIRE_APPROVAL
                       then Go (st1\<lparr>ss_requires_approval := True\<rparr>) ck1
                     else Go st1 ck1)))"

fun rule_loop ::
  "(rule \<Rightarrow> stream_state \<Rightarrow> chunk_state \<Rightarrow> chunk_step) \<Rightarrow> rule list \<Rightarrow> stream_state \<Rightarrow> chunk_state \<Rightarrow> chunk_step" where
  "rule_loop f [] st ck = Go st ck"
| "rule_loop f (r # rs) st ck =
     (if \<not> ru_enabled r then rule_loop f rs st ck
      else (case f r st ck of Halt a st' ck' \<Rightarrow> Halt a st' ck' | Go st' ck' \<Rightarrow> rule_loop f rs st' ck'))"

definition normalize_rules :: "scanner \<Rightarrow> rule list" where
  "normalize_rules sc = filter (\<lambda>r. ru_phase r = NORMALIZE) (sc_rules sc)"

definition detection_rules :: "scanner \<Rightarrow> rule list" where
  "detection_rules sc = filter (\<lambda>r. ru_phase r \<noteq> NORMALIZE) (sc_rules sc)"

definition stream_score :: "scanner \<Rightarrow> stream_state \<Rightarrow> risk_score" where
  "stream_score sc st =
     from_findings (unhandled (ss_handled st) (ss_findings st)) (sc_block_at sc) (sc_warn_at sc)"

definition halted_result :: "pytext \<Rightarrow> guard_action \<Rightarrow> chunk_state \<Rightarrow> stream_result" where
  "halted_result chunk a ck =
     \<lparr>sr_chunk = chunk, sr_findings = ck_new ck, sr_action = a, sr_safe_chunk = []\<rparr>"

text \<open>After both loops: score, buffer, approval and the action of the chunk.\<close>

definition finish_chunk ::
  "scanner \<Rightarrow> pytext \<Rightarrow> stream_state \<Rightarrow> chunk_state \<Rightarrow> stream_result \<times> stream_state" where
  "finish_chunk sc chunk st0 ck =
     (let st = st0\<lparr>ss_findings := ss_findings st0 @ ck_new ck\<rparr>; score = stream_score sc st in
      if should_block score
      then (halted_result chunk BLOCK ck, st\<lparr>ss_blocked := True, ss_terminal := Some BLOCK\<rparr>)
      else
        (let st' = st\<lparr>ss_buffer := deque_extend (sc_buffer_size sc) (ss_buffer st) (ck_safe ck)\<rparr> in
         if ss_requires_approval st'
         then (halted_result chunk REQUIRE_APPROVAL ck, st'\<lparr>ss_terminal := Some REQUIRE_APPROVAL\<rparr>)
         else
           (\<lparr>sr_chunk = chunk, sr_findings = ck_new ck,
             sr_action = (if ck_warned ck \<or> should_warn score then WARN
                          else if ck_redacted ck then REDACT
                          else if ck_transformed ck then TRANSFORM else ALLOW),
             sr_safe_chunk = ck_safe ck\<rparr>, st')))"

definition process_chunk :: "scanner \<Rightarrow> pytext \<Rightarrow> stream_state \<Rightarrow> stream_result \<times> stream_state" where
  "process_chunk sc chunk st0 =
     (case ss_terminal st0 of
        Some a \<Rightarrow> (\<lparr>sr_chunk = chunk, sr_findings = ss_findings st0, sr_action = a, sr_safe_chunk = []\<rparr>, st0)
      | None \<Rightarrow>
          (let st = st0\<lparr>ss_chunk_count := ss_chunk_count st0 + 1,
                 ss_total_chars := ss_total_chars st0 + int (length chunk),
                 ss_total_bytes := ss_total_bytes st0 + int (utf8_len chunk)\<rparr>
           in case rule_loop (normalize_rule sc) (normalize_rules sc) st (start_chunk chunk) of
                Halt a st' ck \<Rightarrow> (halted_result chunk a ck, st')
              | Go st1 ck1 \<Rightarrow>
                  (let lookbehind = last_chars (sc_chunk_overlap sc) (ss_buffer st1) in
                   case rule_loop (detect_rule sc lookbehind) (detection_rules sc) st1 ck1 of
                     Halt a st' ck \<Rightarrow> (halted_result chunk a ck, st')
                   | Go st2 ck2 \<Rightarrow> finish_chunk sc chunk st2 ck2)))"

text \<open>\<open>scan\<close>: the results yielded for a stream of chunks; a terminal result ends it.\<close>

fun scan :: "scanner \<Rightarrow> stream_state \<Rightarrow> pytext list \<Rightarrow> stream_result list \<times> stream_state" where
  "scan sc st [] = ([], st)"
| "scan sc st (c # cs) =
     (let (r, st') = process_chunk sc c st in
      if is_terminal r then ([r], st')
      else (let (rs, st'') = scan sc st' cs in (r # rs, st'')))"

definition finalize :: "scanner \<Rightarrow> stream_state \<Rightarrow> guard_result" where
  "finalize sc st =
     \<lparr>gr_action =
        (case ss_terminal st of
           Some a \<Rightarrow> a
         | None \<Rightarrow>
             if ss_requires_approval st then REQUIRE_APPROVAL
             else if ss_warned st \<or> should_warn (stream_score sc st) then WARN
             else if ss_redacted st then REDACT
             else if ss_transformed st then TRANSFORM else ALLOW),
      gr_findings = ss_findings st,
      gr_score = from_findings (ss_findings st) (sc_block_at sc) (sc_warn_at sc),
      gr_value = ss_buffer st, gr_transformed = None, gr_input_length = Some (ss_total_chars st),
      gr_stage = cx_stage (sc_context sc), gr_context = Some (sc_context sc),
      gr_rules_evaluated = ss_rules_evaluated st\<rparr>"

text \<open>The results of feeding chunk after chunk, terminal or not, and the text they emit.\<close>

fun feed :: "scanner \<Rightarrow> stream_state \<Rightarrow> pytext list \<Rightarrow> stream_result list \<times> stream_state" where
  "feed sc st [] = ([], st)"
| "feed sc st (c # cs) =
     (let (r, st1) = process_chunk sc c st; (rs, st2) = feed sc st1 cs in (r # rs, st2))"

definition emitted :: "stream_result list \<Rightarrow> pytext" where
  "emitted rs = concat (map sr_safe_chunk rs)"

section \<open>What one rule and one loop do\<close>

named_theorems scan_steps

lemma add_finding_facts [scan_steps]:
  "ss_buffer (fst (add_finding h d sk)) = ss_buffer (fst sk)"
  "ss_terminal (fst (add_finding h d sk)) = ss_terminal (fst sk)"
  "ss_rules_evaluated (fst (add_finding h d sk)) = ss_rules_evaluated (fst sk)"
  "ck_safe (snd (add_finding h d sk)) = ck_safe (snd sk)"
  by (simp_all add: add_finding_def split: option.splits)

definition stopping :: "guard_action set" where
  "stopping = {BLOCK, QUARANTINE, RETRY}"

lemma rule_raised_Go [scan_steps]:
  "rule_raised sc r e st ck = Go st' ck' \<longleftrightarrow>
     effective_fail_mode (sc_fail_mode sc) r \<noteq> CLOSED \<and> st' = st \<and> ck' = ck"
  by (auto simp: rule_raised_def halt_def)

lemma rule_raised_Halt:
  "rule_raised sc r e st ck = Halt a st' ck' \<Longrightarrow>
     a = BLOCK \<and> ss_terminal st' = Some a \<and> ss_buffer st' = ss_buffer st"
  by (auto simp: rule_raised_def halt_def split: if_splits)

definition steady :: "stream_state \<Rightarrow> stream_state \<Rightarrow> bool" where
  "steady st st' \<longleftrightarrow> ss_buffer st' = ss_buffer st \<and> ss_terminal st' = ss_terminal st
     \<and> ss_rules_evaluated st' = ss_rules_evaluated st + 1"

lemma normalize_rule_Go: "normalize_rule sc r st ck = Go st' ck' \<Longrightarrow> steady st st'"
  by (auto simp: normalize_rule_def Let_def split_def steady_def count_rule_def scan_steps halt_def
      split: sum.splits if_splits)

lemma normalize_rule_Halt:
  "normalize_rule sc r st ck = Halt a st' ck' \<Longrightarrow>
     a \<in> stopping \<and> ss_terminal st' = Some a \<and> ss_buffer st' = ss_buffer st"
  by (auto simp: normalize_rule_def Let_def split_def stopping_def count_rule_def scan_steps halt_def
      dest: rule_raised_Halt split: sum.splits if_splits)

lemma detect_rule_Go: "detect_rule sc l r st ck = Go st' ck' \<Longrightarrow> steady st st'"
  by (auto simp: detect_rule_def Let_def split_def steady_def count_rule_def scan_steps halt_def
      split: sum.splits if_splits option.splits)

lemma detect_rule_Halt:
  "detect_rule sc l r st ck = Halt a st' ck' \<Longrightarrow>
     a \<in> stopping \<and> ss_terminal st' = Some a \<and> ss_buffer st' = ss_buffer st"
  by (auto simp: detect_rule_def Let_def split_def stopping_def count_rule_def scan_steps halt_def
      dest: rule_raised_Halt split: sum.splits if_splits option.splits)

lemma rule_loop_Go:
  assumes "\<And>r st ck st' ck'. f r st ck = Go st' ck' \<Longrightarrow> steady st st'"
  shows "rule_loop f rs st ck = Go st' ck' \<Longrightarrow> ss_buffer st' = ss_buffer st
    \<and> ss_terminal st' = ss_terminal st
    \<and> ss_rules_evaluated st' = ss_rules_evaluated st + int (length (filter ru_enabled rs))"
proof (induction rs arbitrary: st ck)
  case (Cons r rs)
  show ?case
  proof (cases "ru_enabled r")
    case True
    then obtain st1 ck1 where "f r st ck = Go st1 ck1" "rule_loop f rs st1 ck1 = Go st' ck'"
      using Cons.prems by (auto split: chunk_step.splits)
    then show ?thesis using Cons.IH [of st1 ck1] assms [of r st ck st1 ck1] True
      by (simp add: steady_def)
  qed (use Cons in simp)
qed simp

lemma rule_loop_Halt:
  assumes "\<And>r st ck st' ck'. f r st ck = Go st' ck' \<Longrightarrow> steady st st'"
    and "\<And>r st ck a st' ck'. f r st ck = Halt a st' ck' \<Longrightarrow>
      a \<in> stopping \<and> ss_terminal st' = Some a \<and> ss_buffer st' = ss_buffer st"
  shows "rule_loop f rs st ck = Halt a st' ck' \<Longrightarrow>
    a \<in> stopping \<and> ss_terminal st' = Some a \<and> ss_buffer st' = ss_buffer st"
proof (induction rs arbitrary: st ck)
  case (Cons r rs)
  show ?case
  proof (cases "ru_enabled r")
    case True
    show ?thesis
    proof (cases "f r st ck")
      case (Halt b st1 ck1)
      then show ?thesis using Cons.prems True assms(2) [OF Halt] by auto
    next
      case (Go st1 ck1)
      then show ?thesis using Cons.prems True Cons.IH [of st1 ck1] assms(1) [OF Go]
        by (simp add: steady_def)
    qed
  qed (use Cons in simp)
qed simp

lemma normalize_loop_Go:
  assumes "rule_loop (normalize_rule sc) rs st ck = Go st' ck'"
  shows "ss_buffer st' = ss_buffer st \<and> ss_terminal st' = ss_terminal st
    \<and> ss_rules_evaluated st' = ss_rules_evaluated st + int (length (filter ru_enabled rs))"
  by (rule rule_loop_Go [OF _ assms]) (rule normalize_rule_Go)

lemma detect_loop_Go:
  assumes "rule_loop (detect_rule sc l) rs st ck = Go st' ck'"
  shows "ss_buffer st' = ss_buffer st \<and> ss_terminal st' = ss_terminal st
    \<and> ss_rules_evaluated st' = ss_rules_evaluated st + int (length (filter ru_enabled rs))"
  by (rule rule_loop_Go [OF _ assms]) (rule detect_rule_Go)

lemma normalize_loop_Halt:
  assumes "rule_loop (normalize_rule sc) rs st ck = Halt a st' ck'"
  shows "a \<in> stopping \<and> ss_terminal st' = Some a \<and> ss_buffer st' = ss_buffer st"
  by (rule rule_loop_Halt [OF _ _ assms]) (auto dest: normalize_rule_Go normalize_rule_Halt)

lemma detect_loop_Halt:
  assumes "rule_loop (detect_rule sc l) rs st ck = Halt a st' ck'"
  shows "a \<in> stopping \<and> ss_terminal st' = Some a \<and> ss_buffer st' = ss_buffer st"
  by (rule rule_loop_Halt [OF _ _ assms]) (auto dest: detect_rule_Go detect_rule_Halt)

lemma rule_loop_append:
  "rule_loop f (xs @ ys) st ck =
     (case rule_loop f xs st ck of Halt a st' ck' \<Rightarrow> Halt a st' ck' | Go st' ck' \<Rightarrow> rule_loop f ys st' ck')"
  by (induction xs arbitrary: st ck) (auto split: chunk_step.splits)

section \<open>One chunk\<close>

definition start_state :: "pytext \<Rightarrow> stream_state \<Rightarrow> stream_state" where
  "start_state chunk st = st\<lparr>ss_chunk_count := ss_chunk_count st + 1,
     ss_total_chars := ss_total_chars st + int (length chunk),
     ss_total_bytes := ss_total_bytes st + int (utf8_len chunk)\<rparr>"

lemma process_chunk_terminal:
  "ss_terminal st = Some a \<Longrightarrow> process_chunk sc c st =
     (\<lparr>sr_chunk = c, sr_findings = ss_findings st, sr_action = a, sr_safe_chunk = []\<rparr>, st)"
  by (simp add: process_chunk_def)

text \<open>A chunk that is stopped emits nothing and makes its action the terminal one.\<close>

lemma process_chunk_stops:
  assumes "ss_terminal st = None" and "process_chunk sc c st = (r, st')" and "is_terminal r"
  shows "sr_safe_chunk r = [] \<and> ss_terminal st' = Some (sr_action r)
    \<and> (sr_action r \<noteq> REQUIRE_APPROVAL \<longrightarrow> ss_buffer st' = ss_buffer st)"
proof (cases "rule_loop (normalize_rule sc) (normalize_rules sc) (start_state c st) (start_chunk c)")
  case (Halt a st1 ck1)
  then show ?thesis
    using assms normalize_loop_Halt [OF Halt]
    by (auto simp: process_chunk_def Let_def start_state_def halted_result_def)
next
  case (Go st1 ck1)
  have buf: "ss_buffer st1 = ss_buffer st" using normalize_loop_Go [OF Go] by (simp add: start_state_def)
  let ?loop = "rule_loop (detect_rule sc (last_chars (sc_chunk_overlap sc) (ss_buffer st)))
    (detection_rules sc) st1 ck1"
  have run: "process_chunk sc c st = (case ?loop of Halt a st' ck \<Rightarrow> (halted_result c a ck, st')
      | Go st2 ck2 \<Rightarrow> finish_chunk sc c st2 ck2)"
    using assms(1) Go by (simp add: process_chunk_def Let_def start_state_def buf)
  show ?thesis
  proof (cases ?loop)
    case (Halt a st2 ck2)
    then show ?thesis using assms(2) run buf detect_loop_Halt [OF Halt]
      by (auto simp: halted_result_def)
  next
    case (Go st2 ck2)
    have "finish_chunk sc c st2 ck2 = (r, st')" using assms(2) run Go by simp
    then show ?thesis using assms(3) buf detect_loop_Go [OF Go]
      by (auto simp: finish_chunk_def Let_def halted_result_def is_terminal_def split: if_splits)
  qed
qed

lemma enabled_rules_split:
  "length (filter ru_enabled (normalize_rules sc)) + length (filter ru_enabled (detection_rules sc))
     = length (filter ru_enabled (sc_rules sc))"
proof -
  have "length (filter ru_enabled (filter (\<lambda>r. ru_phase r = NORMALIZE) rs))
      + length (filter ru_enabled (filter (\<lambda>r. ru_phase r \<noteq> NORMALIZE) rs))
      = length (filter ru_enabled rs)" for rs
    by (induction rs) auto
  then show ?thesis by (simp only: normalize_rules_def detection_rules_def)
qed

text \<open>A chunk that is released has passed both loops, and its text goes into the buffer.\<close>

lemma process_chunk_released:
  assumes "ss_terminal st = None" and "process_chunk sc c st = (r, st')" and "\<not> is_terminal r"
  obtains st1 ck1 st2 ck2 where
    "rule_loop (normalize_rule sc) (normalize_rules sc) (start_state c st) (start_chunk c) = Go st1 ck1"
    and "rule_loop (detect_rule sc (last_chars (sc_chunk_overlap sc) (ss_buffer st)))
           (detection_rules sc) st1 ck1 = Go st2 ck2"
    and "sr_safe_chunk r = ck_safe ck2" and "sr_findings r = ck_new ck2"
    and "st' = st2\<lparr>ss_findings := ss_findings st2 @ ck_new ck2,
           ss_buffer := deque_extend (sc_buffer_size sc) (ss_buffer st) (ck_safe ck2)\<rparr>"
    and "ss_terminal st' = None" and "\<not> should_block (stream_score sc st')"
    and "ss_rules_evaluated st' = ss_rules_evaluated st + int (length (filter ru_enabled (sc_rules sc)))"
    and "\<not> ss_requires_approval st'"
proof (cases "rule_loop (normalize_rule sc) (normalize_rules sc) (start_state c st) (start_chunk c)")
  case (Halt a st1 ck1)
  have "is_terminal r"
    using assms(1,2) Halt normalize_loop_Halt [OF Halt]
    by (auto simp: process_chunk_def Let_def start_state_def halted_result_def is_terminal_def stopping_def)
  then show ?thesis using assms(3) by simp
next
  case (Go st1 ck1)
  note norm = Go normalize_loop_Go [OF Go]
  have buf: "ss_buffer st1 = ss_buffer st" "ss_terminal st1 = None"
    using norm(2) assms(1) by (simp_all add: start_state_def)
  let ?loop = "rule_loop (detect_rule sc (last_chars (sc_chunk_overlap sc) (ss_buffer st)))
    (detection_rules sc) st1 ck1"
  have run: "process_chunk sc c st = (case ?loop of Halt a st' ck \<Rightarrow> (halted_result c a ck, st')
      | Go st2 ck2 \<Rightarrow> finish_chunk sc c st2 ck2)"
    using assms(1) norm(1) by (simp add: process_chunk_def Let_def start_state_def buf)
  show ?thesis
  proof (cases ?loop)
    case (Halt a st2 ck2)
    have "is_terminal r"
      using assms(2) run Halt detect_loop_Halt [OF Halt]
      by (auto simp: halted_result_def is_terminal_def stopping_def)
    then show ?thesis using assms(3) by simp
  next
    case (Go st2 ck2)
    note det = detect_loop_Go [OF Go]
    have fin: "finish_chunk sc c st2 ck2 = (r, st')" using assms(2) run Go by simp
    show ?thesis
      by (rule that [OF norm(1) Go])
        (use fin assms(3) det norm(2) buf enabled_rules_split [of sc] in \<open>auto simp: finish_chunk_def Let_def halted_result_def is_terminal_def
           start_state_def stream_score_def split: if_splits\<close>)
  qed
qed

end
