(* ===== verification/Stream_Properties.thy ===== *)
theory Stream_Properties
  imports Stream_Scanner
begin

text \<open>
  What \<open>StreamScanner\<close> promises over a whole stream: a stopped stream stays stopped, the look-behind
  buffer is the tail of what was emitted, a released chunk passed every enabled rule, and a pattern
  a rule stops on is never emitted, however the stream is cut into chunks.
\<close>

section \<open>Whole streams\<close>

lemma feed_ConsE:
  assumes "feed sc st (c # cs) = (rs, st')"
  obtains r st1 rs1 where "process_chunk sc c st = (r, st1)" "feed sc st1 cs = (rs1, st')" "rs = r # rs1"
proof -
  obtain r st1 where step: "process_chunk sc c st = (r, st1)" by (cases "process_chunk sc c st")
  obtain rs1 st2 where "feed sc st1 cs = (rs1, st2)" by (cases "feed sc st1 cs")
  then show ?thesis using that assms step by (simp add: Let_def)
qed

lemma feed_terminal:
  "ss_terminal st = Some a \<Longrightarrow> a \<in> {BLOCK, QUARANTINE, RETRY, REQUIRE_APPROVAL} \<Longrightarrow>
   feed sc st cs = (rs, st') \<Longrightarrow>
   st' = st \<and> (\<forall>r \<in> set rs. is_terminal r \<and> sr_safe_chunk r = [] \<and> sr_action r = a)"
proof (induction cs arbitrary: rs)
  case (Cons c cs)
  obtain rs1 st1 where rest: "feed sc st cs = (rs1, st1)" by (cases "feed sc st cs")
  have out: "rs = \<lparr>sr_chunk = c, sr_findings = ss_findings st, sr_action = a, sr_safe_chunk = []\<rparr> # rs1"
    and st1: "st1 = st'"
    using Cons.prems(1,3) rest by (simp_all add: process_chunk_terminal)
  have "st' = st \<and> (\<forall>r \<in> set rs1. is_terminal r \<and> sr_safe_chunk r = [] \<and> sr_action r = a)"
    by (rule Cons.IH [OF Cons.prems(1,2) rest [unfolded st1]])
  then show ?case using Cons.prems(2) by (simp add: is_terminal_def out)
qed simp

lemma terminal_action:
  "is_terminal r \<Longrightarrow> sr_action r \<in> {BLOCK, QUARANTINE, RETRY, REQUIRE_APPROVAL}"
  by (simp add: is_terminal_def)

lemma feed_shape:
  "ss_terminal st = None \<Longrightarrow> feed sc st cs = (rs, st') \<Longrightarrow>
   (ss_terminal st' = None \<and> (\<forall>r \<in> set rs. \<not> is_terminal r) \<and> fst (scan sc st cs) = rs) \<or>
   (\<exists>xs y ys. rs = xs @ y # ys \<and> (\<forall>r \<in> set xs. \<not> is_terminal r)
      \<and> (\<forall>r \<in> set (y # ys). is_terminal r \<and> sr_safe_chunk r = [] \<and> ss_terminal st' = Some (sr_action r))
      \<and> fst (scan sc st cs) = xs @ [y])"
proof (induction cs arbitrary: st rs)
  case (Cons c cs)
  obtain r st1 rs1 where step: "process_chunk sc c st = (r, st1)"
    and rest: "feed sc st1 cs = (rs1, st')" and rs: "rs = r # rs1"
    by (rule feed_ConsE [OF Cons.prems(2)])
  show ?case
  proof (cases "is_terminal r")
    case True
    note stop = process_chunk_stops [OF Cons.prems(1) step True]
    have "st' = st1 \<and> (\<forall>x \<in> set rs1. is_terminal x \<and> sr_safe_chunk x = [] \<and> sr_action x = sr_action r)"
      using stop by (intro feed_terminal [OF _ terminal_action [OF True] rest]) simp
    then have "rs = [] @ r # rs1 \<and> (\<forall>x \<in> set []. \<not> is_terminal x)
      \<and> (\<forall>x \<in> set (r # rs1). is_terminal x \<and> sr_safe_chunk x = [] \<and> ss_terminal st' = Some (sr_action x))
      \<and> fst (scan sc st (c # cs)) = [] @ [r]"
      using stop True rs step by auto
    then show ?thesis by blast
  next
    case False
    have "ss_terminal st1 = None" by (rule process_chunk_released [OF Cons.prems(1) step False])
    from Cons.IH [OF this rest] show ?thesis
    proof
      assume "ss_terminal st' = None \<and> (\<forall>r \<in> set rs1. \<not> is_terminal r) \<and> fst (scan sc st1 cs) = rs1"
      then show ?thesis using rs step False by (simp add: Let_def split_def)
    next
      assume "\<exists>xs y ys. rs1 = xs @ y # ys \<and> (\<forall>r \<in> set xs. \<not> is_terminal r)
        \<and> (\<forall>r \<in> set (y # ys). is_terminal r \<and> sr_safe_chunk r = [] \<and> ss_terminal st' = Some (sr_action r))
        \<and> fst (scan sc st1 cs) = xs @ [y]"
      then obtain xs y ys where "rs1 = xs @ y # ys" "\<forall>r \<in> set xs. \<not> is_terminal r"
        "\<forall>r \<in> set (y # ys). is_terminal r \<and> sr_safe_chunk r = [] \<and> ss_terminal st' = Some (sr_action r)"
        "fst (scan sc st1 cs) = xs @ [y]" by blast
      then have "rs = (r # xs) @ y # ys \<and> (\<forall>x \<in> set (r # xs). \<not> is_terminal x)
        \<and> (\<forall>x \<in> set (y # ys). is_terminal x \<and> sr_safe_chunk x = [] \<and> ss_terminal st' = Some (sr_action x))
        \<and> fst (scan sc st (c # cs)) = (r # xs) @ [y]"
        using rs step False by (auto simp: Let_def split_def)
      then show ?thesis by blast
    qed
  qed
qed simp

lemma feed_append:
  "feed sc st (cs @ ds) = (let (rs, st1) = feed sc st cs; (qs, st2) = feed sc st1 ds in (rs @ qs, st2))"
  by (induction cs arbitrary: st) (auto simp: Let_def split_def)

lemma emitted_simps [simp]:
  "emitted [] = []" "emitted (r # rs) = sr_safe_chunk r @ emitted rs"
  "emitted (rs @ qs) = emitted rs @ emitted qs"
  by (simp_all add: emitted_def)

text \<open>The buffer is the tail of the emitted text, until a chunk is held for approval.\<close>

definition tail_of :: "nat \<Rightarrow> pytext \<Rightarrow> pytext" where
  "tail_of n t = drop (length t - n) t"

lemma feed_buffer:
  "ss_terminal st = None \<Longrightarrow> ss_buffer st = tail_of (sc_buffer_size sc) e \<Longrightarrow>
   feed sc st cs = (rs, st') \<Longrightarrow> ss_terminal st' \<noteq> Some REQUIRE_APPROVAL \<Longrightarrow>
   ss_buffer st' = tail_of (sc_buffer_size sc) (e @ emitted rs)"
proof (induction cs arbitrary: st rs e)
  case (Cons c cs)
  obtain r st1 rs1 where step: "process_chunk sc c st = (r, st1)"
    and rest: "feed sc st1 cs = (rs1, st')" and rs: "rs = r # rs1"
    by (rule feed_ConsE [OF Cons.prems(3)])
  show ?case
  proof (cases "is_terminal r")
    case True
    note stop = process_chunk_stops [OF Cons.prems(1) step True]
    have *: "st' = st1 \<and> (\<forall>x \<in> set rs1. is_terminal x \<and> sr_safe_chunk x = [] \<and> sr_action x = sr_action r)"
      using stop by (intro feed_terminal [OF _ terminal_action [OF True] rest]) simp
    then have "emitted rs1 = []" by (auto simp: emitted_def)
    then show ?thesis using * stop Cons.prems(2,4) rs by auto
  next
    case False
    from process_chunk_released [OF Cons.prems(1) step False]
    have "ss_terminal st1 = None"
      and "ss_buffer st1 = deque_extend (sc_buffer_size sc) (ss_buffer st) (sr_safe_chunk r)"
      by (metis, metis stream_state.ext_inject stream_state.surjective stream_state.update_convs(1,6))
    then have "ss_buffer st1 = tail_of (sc_buffer_size sc) (e @ sr_safe_chunk r)"
      using Cons.prems(2) deque_extend_tail [of "sc_buffer_size sc" e] by (simp add: tail_of_def)
    from Cons.IH [OF \<open>ss_terminal st1 = None\<close> this rest Cons.prems(4)] show ?thesis
      using rs by simp
  qed
qed simp

text \<open>
  A stream stops for good. Whatever chunks are fed to a fresh scanner, the results are a run of
  released chunks followed, if a chunk was stopped, by results that all carry the same terminal
  action and emit nothing; \<open>scan\<close> yields exactly the results up to the first terminal one.
\<close>

theorem stopped_stream_stays_stopped:
  assumes "feed sc reset_stream cs = (rs, st)"
  shows "\<exists>xs ys. rs = xs @ ys \<and> (\<forall>r \<in> set xs. \<not> is_terminal r)
    \<and> (\<forall>r \<in> set ys. is_terminal r \<and> sr_safe_chunk r = [] \<and> ss_terminal st = Some (sr_action r))
    \<and> (ss_terminal st = None \<longleftrightarrow> ys = []) \<and> fst (scan sc reset_stream cs) = xs @ take 1 ys"
proof -
  have "ss_terminal reset_stream = None" by (simp add: reset_stream_def)
  from feed_shape [OF this assms] show ?thesis
  proof
    assume "ss_terminal st = None \<and> (\<forall>r \<in> set rs. \<not> is_terminal r) \<and> fst (scan sc reset_stream cs) = rs"
    then show ?thesis by - (rule exI [of _ rs], rule exI [of _ "[]"], simp)
  next
    assume "\<exists>xs y ys. rs = xs @ y # ys \<and> (\<forall>r \<in> set xs. \<not> is_terminal r)
      \<and> (\<forall>r \<in> set (y # ys). is_terminal r \<and> sr_safe_chunk r = [] \<and> ss_terminal st = Some (sr_action r))
      \<and> fst (scan sc reset_stream cs) = xs @ [y]"
    then obtain xs y ys where "rs = xs @ y # ys" "\<forall>r \<in> set xs. \<not> is_terminal r"
      "\<forall>r \<in> set (y # ys). is_terminal r \<and> sr_safe_chunk r = [] \<and> ss_terminal st = Some (sr_action r)"
      "fst (scan sc reset_stream cs) = xs @ [y]" by blast
    then show ?thesis by - (rule exI [of _ xs], rule exI [of _ "y # ys"], auto)
  qed
qed

text \<open>
  The look-behind buffer. Unless a chunk is being held for approval, the buffer of a scanner
  fed any chunks is the last \<open>buffer_size\<close> characters of the emitted text: it never exceeds its
  bound, and text of a blocked chunk is never retained.
\<close>

theorem buffer_is_tail_of_emitted:
  assumes "feed sc reset_stream cs = (rs, st)" and "ss_terminal st \<noteq> Some REQUIRE_APPROVAL"
  shows "ss_buffer st = drop (length (emitted rs) - sc_buffer_size sc) (emitted rs)
    \<and> length (ss_buffer st) \<le> sc_buffer_size sc"
  using feed_buffer [OF _ _ assms, where e = "[]"] by (simp add: reset_stream_def tail_of_def)

text \<open>
  Complete mediation of a stream. A chunk that is released has had every enabled rule run on
  it, its accumulated unhandled findings score below the block threshold, nothing is waiting for
  approval, and the emitted text is the one retained for the next look-behind.
\<close>

theorem released_chunk_fully_scanned:
  assumes "ss_terminal st = None" and "process_chunk sc c st = (r, st')" and "\<not> is_terminal r"
  shows "ss_rules_evaluated st' = ss_rules_evaluated st + int (length (filter ru_enabled (sc_rules sc)))
    \<and> \<not> should_block (stream_score sc st') \<and> \<not> ss_requires_approval st'
    \<and> ss_buffer st' = deque_extend (sc_buffer_size sc) (ss_buffer st) (sr_safe_chunk r)"
  by (rule process_chunk_released [OF assms]) simp

section \<open>A stopped pattern is never emitted\<close>

text \<open>The rule stops the stream on this text, whatever the counters.\<close>

definition stops_on :: "scanner \<Rightarrow> rule \<Rightarrow> pytext \<Rightarrow> bool" where
  "stops_on sc r t \<longleftrightarrow> (\<forall>a. case timed_evaluate_stream r t (sc_context sc) a of
       Inl e \<Rightarrow> effective_fail_mode (sc_fail_mode sc) r = CLOSED
     | Inr d \<Rightarrow> de_action (snd (scanner_handling (sc_mode sc) d)) \<in> stopping)"

text \<open>The rule never rewrites a text.\<close>

definition keeps_text :: "scanner \<Rightarrow> rule \<Rightarrow> bool" where
  "keeps_text sc r \<longleftrightarrow>
     (\<forall>t a d. timed_evaluate_stream r t (sc_context sc) a = Inr d \<longrightarrow> de_transformed d = None)"

lemma scanner_handling_transformed:
  "de_transformed d = None \<Longrightarrow> de_transformed (snd (scanner_handling m d)) = None"
  by (simp add: scanner_handling_def scanner_sensitive_mode_def Let_def split: option.splits)

lemma detect_rule_keeps_text:
  assumes "keeps_text sc r" and "detect_rule sc l r st ck = Go st' ck'"
  shows "ck_safe ck' = ck_safe ck"
proof (cases "timed_evaluate_stream r (l @ ck_safe ck) (sc_context sc) (chunk_args (count_rule st) ck)")
  case (Inl e)
  then show ?thesis using assms(2) by (simp add: detect_rule_def Let_def scan_steps)
next
  case (Inr d)
  have "de_transformed (snd (scanner_handling (sc_mode sc) d)) = None"
    using assms(1) Inr unfolding keeps_text_def by (blast intro: scanner_handling_transformed)
  then show ?thesis using assms(2) Inr
    by (auto simp: detect_rule_def Let_def split_def scan_steps halt_def split: if_splits)
qed

lemma detect_rule_not_stopped:
  "detect_rule sc l r st ck = Go st' ck' \<Longrightarrow> \<not> stops_on sc r (l @ ck_safe ck)"
  unfolding stops_on_def
  by (auto simp: detect_rule_def Let_def split_def scan_steps stopping_def halt_def
      intro!: exI [of _ "chunk_args (count_rule st) ck"] split: sum.splits if_splits)

lemma keeps_text_loop:
  "\<forall>r \<in> set rs. keeps_text sc r \<Longrightarrow> rule_loop (detect_rule sc l) rs st ck = Go st' ck' \<Longrightarrow>
   ck_safe ck' = ck_safe ck"
  by (induction rs arbitrary: st ck)
    (auto dest: detect_rule_keeps_text split: if_splits chunk_step.splits)

lemma loop_checks_final_text:
  assumes "rule_loop (detect_rule sc l) (ps @ r # qs) st ck = Go st' ck'"
    and "ru_enabled r" and "\<forall>q \<in> set (r # qs). keeps_text sc q"
  shows "\<not> stops_on sc r (l @ ck_safe ck')"
proof -
  obtain st1 ck1 where "rule_loop (detect_rule sc l) (r # qs) st1 ck1 = Go st' ck'"
    using assms(1) by (auto simp: rule_loop_append simp del: rule_loop.simps split: chunk_step.splits)
  then obtain st2 ck2 where step: "detect_rule sc l r st1 ck1 = Go st2 ck2"
    and rest: "rule_loop (detect_rule sc l) qs st2 ck2 = Go st' ck'"
    using assms(2) by (auto split: chunk_step.splits)
  have "ck_safe ck' = ck_safe ck1"
    using keeps_text_loop [OF _ rest] detect_rule_keeps_text [OF _ step] assms(3) by simp
  then show ?thesis using detect_rule_not_stopped [OF step] by simp
qed

text \<open>A window of \<open>length w - 1\<close> characters is enough to see an occurrence that crosses a cut.\<close>

lemma sublist_across_cut:
  assumes "sublist w (p @ l @ c)" and "\<not> sublist w (p @ l)" and "p \<noteq> [] \<longrightarrow> length w \<le> length l + 1"
  shows "sublist w (l @ c)"
proof (cases "p = []")
  case False
  obtain a b where ab: "p @ l @ c = a @ w @ b" using assms(1) by (auto simp: sublist_def)
  show ?thesis
  proof (cases "length p \<le> length a")
    case True
    then have "l @ c = drop (length p) a @ w @ b"
      using arg_cong [OF ab, of "drop (length p)"] by simp
    then show ?thesis by (auto simp: sublist_def)
  next
    case 2: False
    have "length (a @ w) \<le> length (p @ l)" using 2 False assms(3) by simp
    moreover have "prefix (a @ w) (p @ l @ c)" "prefix (p @ l) (p @ l @ c)"
      by (simp add: ab, simp)
    ultimately have "prefix (a @ w) (p @ l)" using prefix_length_prefix by blast
    then obtain u where "p @ l = (a @ w) @ u" by (auto simp: prefix_def)
    then have "sublist w (p @ l)" by (metis append_assoc sublist_appendI)
    then show ?thesis using assms(2) by simp
  qed
qed (use assms(1) in simp)

lemma last_chars_tail:
  assumes "k \<le> n" "k = 0 \<longrightarrow> length w \<le> 1"
  shows "\<exists>p. e = p @ last_chars k (tail_of n e)
    \<and> (p \<noteq> [] \<longrightarrow> k \<le> length (last_chars k (tail_of n e)))"
proof (cases "k = 0")
  case True
  then show ?thesis
    by (intro exI [of _ "take (length e - n) e"]) (simp add: last_chars_def tail_of_def)
next
  case False
  have "length (tail_of n e) - k + (length e - n) = length e - k" using assms(1) by (auto simp: tail_of_def)
  then have "last_chars k (tail_of n e) = drop (length e - k) e"
    using False by (simp add: last_chars_def tail_of_def)
  then show ?thesis
    by (intro exI [of _ "take (length e - k) e"]) auto
qed

text \<open>
  C3: a stopped pattern is never emitted. Let a rule stop the stream on every text that contains
  \<open>w\<close> (by BLOCK, QUARANTINE or RETRY, or by raising while fail-closed), and let it and the rules
  after it not rewrite texts. If \<open>w\<close> is no longer than the look-behind overlap plus one, and the
  buffer holds the overlap, then \<open>w\<close> does not occur in the text emitted for a stream, however the
  stream is cut into chunks.
\<close>

theorem stopped_pattern_never_emitted:
  assumes "detection_rules sc = ps @ r # qs" and "ru_enabled r"
    and "\<forall>q \<in> set (r # qs). keeps_text sc q"
    and "\<forall>t. sublist w t \<longrightarrow> stops_on sc r t"
    and "w \<noteq> []" and "length w \<le> sc_chunk_overlap sc + 1" and "sc_chunk_overlap sc \<le> sc_buffer_size sc"
  shows "\<not> sublist w (emitted (fst (feed sc reset_stream cs)))"
proof -
  have "ss_terminal st = None \<Longrightarrow> ss_buffer st = tail_of (sc_buffer_size sc) e \<Longrightarrow> \<not> sublist w e \<Longrightarrow>
      \<not> sublist w (e @ emitted (fst (feed sc st cs)))" for st e
  proof (induction cs arbitrary: st e)
    case (Cons c cs)
    obtain x st1 where step: "process_chunk sc c st = (x, st1)" by (cases "process_chunk sc c st")
    have run: "emitted (fst (feed sc st (c # cs))) = sr_safe_chunk x @ emitted (fst (feed sc st1 cs))"
      using step by (simp add: Let_def split_def)
    show ?case
    proof (cases "is_terminal x")
      case True
      note stop = process_chunk_stops [OF Cons.prems(1) step True]
      obtain rs st' where rest: "feed sc st1 cs = (rs, st')" by (cases "feed sc st1 cs")
      have "\<forall>y \<in> set rs. sr_safe_chunk y = []"
        using stop feed_terminal [OF _ terminal_action [OF True] rest] by simp
      then have "emitted rs = []" by (simp add: emitted_def)
      then show ?thesis using run rest stop Cons.prems(3) by simp
    next
      case False
      let ?l = "last_chars (sc_chunk_overlap sc) (ss_buffer st)"
      obtain st0 ck0 st2 ck2 where loop: "rule_loop (detect_rule sc ?l) (detection_rules sc) st0 ck0 = Go st2 ck2"
        and safe: "sr_safe_chunk x = ck_safe ck2" and none: "ss_terminal st1 = None"
        and buf: "ss_buffer st1 = deque_extend (sc_buffer_size sc) (ss_buffer st) (ck_safe ck2)"
        by (rule process_chunk_released [OF Cons.prems(1) step False]) simp
      have "\<not> stops_on sc r (?l @ ck_safe ck2)"
        using loop_checks_final_text [OF loop [unfolded assms(1)] assms(2,3)] .
      then have "\<not> sublist w (?l @ sr_safe_chunk x)" using assms(4) safe by auto
      moreover obtain p where "e = p @ ?l" "p \<noteq> [] \<longrightarrow> sc_chunk_overlap sc \<le> length ?l"
        using last_chars_tail [OF assms(7), of w e] assms(6) Cons.prems(2) by auto
      ultimately have clean: "\<not> sublist w (e @ sr_safe_chunk x)"
        using sublist_across_cut [of w p ?l "sr_safe_chunk x"] Cons.prems(3) assms(6)
        by (metis append.assoc le_diff_conv add_le_mono1 order_trans)
      have "ss_buffer st1 = tail_of (sc_buffer_size sc) (e @ sr_safe_chunk x)"
        using buf safe Cons.prems(2) deque_extend_tail [of "sc_buffer_size sc" e] by (simp add: tail_of_def)
      from Cons.IH [OF none this clean] show ?thesis using run by simp
    qed
  qed simp
  from this [of reset_stream "[]"] show ?thesis
    using assms(5) by (simp add: reset_stream_def tail_of_def)
qed

section \<open>Witnesses\<close>

text \<open>A scanner that blocks the two-character text \<open>[13, 37]\<close>, with an overlap of one character.\<close>

fun has_pattern :: "pytext \<Rightarrow> bool" where
  "has_pattern (x # y # t) \<longleftrightarrow> x = 13 \<and> y = 37 \<or> has_pattern (y # t)"
| "has_pattern _ \<longleftrightarrow> False"

lemma has_pattern_sublist: "has_pattern (a @ 13 # 37 # b)"
proof (induction a)
  case (Cons x a)
  then show ?case by (cases a) simp_all
qed simp

definition blocking_rule :: rule where
  "blocking_rule = (quiet_rule ''PAT-001'' SENSITIVE_DATA)
     \<lparr>ru_evaluate_stream := (\<lambda>v ctx a. Inr (if has_pattern v
        then (allow_decision ''PAT-001'')\<lparr>de_action := BLOCK\<rparr> else allow_decision ''PAT-001''))\<rparr>"

definition demo_scanner :: scanner where
  "demo_scanner = \<lparr>sc_rules = [blocking_rule], sc_context = demo_context, sc_buffer_size = 3,
     sc_chunk_overlap = 1, sc_mode = SDM_DEFAULT, sc_fail_mode = CLOSED, sc_block_at = 80, sc_warn_at = 40\<rparr>"

lemma demo_feed:
  "feed demo_scanner reset_stream [[7, 13], [37], [8]] =
     ([\<lparr>sr_chunk = [7, 13], sr_findings = [], sr_action = ALLOW, sr_safe_chunk = [7, 13]\<rparr>,
       \<lparr>sr_chunk = [37], sr_findings = [], sr_action = BLOCK, sr_safe_chunk = []\<rparr>,
       \<lparr>sr_chunk = [8], sr_findings = [], sr_action = BLOCK, sr_safe_chunk = []\<rparr>],
      snd (feed demo_scanner reset_stream [[7, 13], [37], [8]]))"
  "ss_terminal (snd (feed demo_scanner reset_stream [[7, 13], [37], [8]])) = Some BLOCK"
  "ss_buffer (snd (feed demo_scanner reset_stream [[7, 13], [37], [8]])) = [7, 13]"
  by code_simp+

lemma demo_chunk:
  "process_chunk demo_scanner [7] reset_stream =
     (\<lparr>sr_chunk = [7], sr_findings = [], sr_action = ALLOW, sr_safe_chunk = [7]\<rparr>,
      snd (process_chunk demo_scanner [7] reset_stream))"
  by code_simp

theorem stopped_stream_stays_stopped_witness:
  "map sr_action (fst (scan demo_scanner reset_stream [[7, 13], [37], [8]])) = [ALLOW, BLOCK]"
  using stopped_stream_stays_stopped [OF demo_feed(1)]
  by (auto simp: Cons_eq_append_conv append_eq_Cons_conv is_terminal_def simp del: feed.simps scan.simps)

theorem buffer_is_tail_of_emitted_witness:
  "ss_buffer (snd (feed demo_scanner reset_stream [[7, 13], [37], [8]])) = [7, 13]"
proof -
  have "sc_buffer_size demo_scanner = 3" by (simp add: demo_scanner_def)
  then show ?thesis using buffer_is_tail_of_emitted [OF demo_feed(1)]
    by (simp add: demo_feed(2) del: feed.simps)
qed

theorem released_chunk_fully_scanned_witness:
  "ss_rules_evaluated (snd (process_chunk demo_scanner [7] reset_stream)) = 1"
  using released_chunk_fully_scanned [OF _ demo_chunk]
  by (simp add: reset_stream_def is_terminal_def demo_scanner_def blocking_rule_def quiet_rule_def)

theorem stopped_pattern_never_emitted_witness:
  "\<not> sublist [13, 37] (emitted (fst (feed demo_scanner reset_stream [[7, 13], [37], [8]])))"
proof (rule stopped_pattern_never_emitted [where ps = "[]" and qs = "[]" and r = blocking_rule])
  show "\<forall>t. sublist [13, 37] t \<longrightarrow> stops_on demo_scanner blocking_rule t"
  proof (intro allI impI)
    fix t :: pytext
    assume "sublist [13, 37] t"
    then obtain a b where "t = a @ [13, 37] @ b" by (auto simp: sublist_def)
    then have "has_pattern t" by (simp add: has_pattern_sublist)
    then show "stops_on demo_scanner blocking_rule t"
      by (simp add: stops_on_def blocking_rule_def quiet_rule_def timed_evaluate_stream_def
          allow_decision_def scanner_handling_def scanner_sensitive_mode_def stopping_def)
  qed
qed (simp_all add: keeps_text_def demo_scanner_def blocking_rule_def quiet_rule_def
    detection_rules_def timed_evaluate_stream_def allow_decision_def)

end
