(* ===== verification/Workflow_Records.thy ===== *)
theory Workflow_Records
  imports Core_Models "HOL-Library.List_Lexorder" "HOL-Library.Char_ord"
begin

text \<open>
  \<open>models/workflow_integrity.py\<close>: the entries of an execution chain, checkpoints, keys, policies,
  contexts and decisions, with their validators and digests. SHA-256, Ed25519 and the canonical JSON of
  the signed payloads are the fields of the record \<open>wf_crypto\<close>. The patterns of identifiers and digests
  are not modelled; a checkpoint's collections are lists.
\<close>

section \<open>Enumerations\<close>

datatype wf_event_kind =
    Plan_accepted | Action_authorized | Action_started | Action_completed | Action_failed
  | Action_cancelled | Approval_requested | Approval_resolved | Checkpoint_created

datatype pending_status = Pending_authorized | Pending_in_progress | Awaiting_approval

datatype wf_phase = Sign_entry | Sign_checkpoint | Verify_resume | Revoke_phase

datatype resume_claim =
    Resume_claimed | Resume_was_replayed | Resume_rollback | Resume_out_of_order | Resume_collision
  | Resume_full

datatype wf_code =
    Resume_allowed | Checkpoint_unsigned | Checkpoint_signature_invalid | Checkpoint_key_unknown
  | Checkpoint_key_inactive | Checkpoint_not_yet_valid | Checkpoint_expired | Checkpoint_too_old
  | Checkpoint_ttl_exceeded | Checkpoint_context_mismatch | Checkpoint_chain_mismatch
  | Prior_state_mismatch | Execution_entry_unsigned | Execution_signature_invalid
  | Execution_key_unknown | Execution_key_inactive | Execution_context_mismatch
  | Execution_insertion | Execution_deletion | Execution_reordered | Execution_time_invalid
  | Budget_invalid | Wf_policy_mismatch | Pending_action_invalid | Pending_approval_expired
  | Authorization_denied | Authorization_unavailable | Workflow_revoked | Revocation_unavailable
  | Resume_replayed | Rollback_detected | Resume_state_unavailable

section \<open>Records and their validators\<close>

record wf_budget =
  wb_budget_id :: ident
  wb_limit :: nat
  wb_consumed :: nat
  wb_reserved :: nat

definition wf_budget_ok :: "wf_budget \<Rightarrow> bool" where
  "wf_budget_ok b \<longleftrightarrow> wb_limit b < 2 ^ 63 \<and> wb_consumed b + wb_reserved b \<le> wb_limit b"

record wf_policy_version =
  wv_policy_id :: ident
  wv_version :: nat
  wv_policy_digest :: string

definition wf_policy_version_ok :: "wf_policy_version \<Rightarrow> bool" where
  "wf_policy_version_ok v \<longleftrightarrow> 1 \<le> wv_version v \<and> wv_version v < 2 ^ 31"

record pending_action =
  pa_action_id :: ident
  pa_action_digest :: string
  pa_authorization_digest :: string
  pa_status :: pending_status
  pa_created_at :: datetime
  pa_expires_at :: datetime

definition pending_action_ok :: "pending_action \<Rightarrow> bool" where
  "pending_action_ok a \<longleftrightarrow> pa_created_at a < pa_expires_at a"

record pending_approval =
  pp_approval_id :: ident
  pp_action_id :: ident
  pp_action_digest :: string
  pp_request_digest :: string
  pp_requested_at :: datetime
  pp_expires_at :: datetime

definition pending_approval_ok :: "pending_approval \<Rightarrow> bool" where
  "pending_approval_ok a \<longleftrightarrow> pp_requested_at a < pp_expires_at a"

record wf_entry =
  we_chain_id :: ident
  we_sequence :: nat
  we_entry_id :: ident
  we_event_kind :: wf_event_kind
  we_key_id :: string
  we_authority_id :: ident
  we_workflow_id :: ident
  we_tenant_id :: ident
  we_agent_id :: ident
  we_session_id :: ident
  we_goal_digest :: string
  we_plan_digest :: string
  we_action_digest :: "string option"
  we_authorization_digest :: "string option"
  we_outcome_digest :: "string option"
  we_prior_digest :: "string option"
  we_occurred_at :: datetime
  we_signature :: "string option"

definition action_events :: "wf_event_kind list" where
  "action_events = [Action_authorized, Action_started, Action_completed, Action_failed,
     Action_cancelled, Approval_requested, Approval_resolved]"

definition validate_link :: "wf_entry \<Rightarrow> bool" where
  "validate_link e \<longleftrightarrow> we_sequence e < 2 ^ 63 \<and>
     \<not> (we_sequence e = 0 \<and> we_prior_digest e \<noteq> None) \<and>
     \<not> (0 < we_sequence e \<and> we_prior_digest e = None) \<and>
     \<not> (we_event_kind e \<in> set action_events \<and> we_action_digest e = None) \<and>
     \<not> (we_event_kind e = Action_authorized \<and> we_authorization_digest e = None)"

record checkpoint =
  ck_checkpoint_id :: ident
  ck_sequence :: nat
  ck_key_id :: string
  ck_authority_id :: ident
  ck_workflow_id :: ident
  ck_tenant_id :: ident
  ck_agent_id :: ident
  ck_session_id :: ident
  ck_goal_digest :: string
  ck_plan_digest :: string
  ck_budgets :: "wf_budget list"
  ck_policy_versions :: "wf_policy_version list"
  ck_pending_actions :: "pending_action list"
  ck_pending_approvals :: "pending_approval list"
  ck_resume_authorization_digest :: string
  ck_chain_id :: ident
  ck_chain_length :: nat
  ck_chain_head :: string
  ck_prior_digest :: "string option"
  ck_issued_at :: datetime
  ck_expires_at :: datetime
  ck_signature :: "string option"

text \<open>SHA-256 in hex, Ed25519 signatures in hex, and the canonical JSON of what is signed.\<close>

record 'k wf_crypto =
  wc_sha256 :: "string \<Rightarrow> string"
  wc_sign :: "'k \<Rightarrow> string \<Rightarrow> string"
  wc_verify :: "string \<Rightarrow> string \<Rightarrow> string \<Rightarrow> bool"
  wc_public :: "'k \<Rightarrow> string"
  wc_entry_json :: "wf_entry \<Rightarrow> string"
  wc_checkpoint_json :: "checkpoint \<Rightarrow> string"

definition empty_chain_digest :: "'k wf_crypto \<Rightarrow> string" where
  "empty_chain_digest cy = wc_sha256 cy ''trustrail:workflow-chain:empty:v1''"

definition workflow_reference :: "'k wf_crypto \<Rightarrow> string \<Rightarrow> string" where
  "workflow_reference cy v = ''sha256:'' @ wc_sha256 cy v"

definition entry_bytes :: "'k wf_crypto \<Rightarrow> wf_entry \<Rightarrow> string" where
  "entry_bytes cy e = wc_entry_json cy (e\<lparr>we_signature := None\<rparr>)"

definition signature_text :: "string option \<Rightarrow> string" where
  "signature_text s = (case s of None \<Rightarrow> ''unsigned'' | Some t \<Rightarrow> if t = [] then ''unsigned'' else t)"

definition entry_digest :: "'k wf_crypto \<Rightarrow> wf_entry \<Rightarrow> string" where
  "entry_digest cy e = wc_sha256 cy (entry_bytes cy e @ signature_text (we_signature e))"

definition checkpoint_bytes :: "'k wf_crypto \<Rightarrow> checkpoint \<Rightarrow> string" where
  "checkpoint_bytes cy c = wc_checkpoint_json cy (c\<lparr>ck_signature := None\<rparr>)"

definition checkpoint_digest :: "'k wf_crypto \<Rightarrow> checkpoint \<Rightarrow> string" where
  "checkpoint_digest cy c = wc_sha256 cy (checkpoint_bytes cy c @ signature_text (ck_signature c))"

definition approval_bound :: "(ident, pending_action) dict \<Rightarrow> pending_approval \<Rightarrow> bool" where
  "approval_bound actions p = (case dict_get actions (pp_action_id p) of
     None \<Rightarrow> False
   | Some a \<Rightarrow> pa_action_digest a = pp_action_digest p \<and> pa_status a = Awaiting_approval)"

definition unique_sorted :: "ident list \<Rightarrow> bool" where
  "unique_sorted ids \<longleftrightarrow> distinct ids \<and> ids = sort ids"

definition validate_checkpoint :: "'k wf_crypto \<Rightarrow> checkpoint \<Rightarrow> bool" where
  "validate_checkpoint cy c \<longleftrightarrow>
     ck_sequence c < 2 ^ 63 \<and> ck_policy_versions c \<noteq> [] \<and> ck_chain_length c \<le> 10000000 \<and>
     ck_issued_at c < ck_expires_at c \<and>
     \<not> (ck_sequence c = 0 \<and> ck_prior_digest c \<noteq> None) \<and>
     \<not> (0 < ck_sequence c \<and> ck_prior_digest c = None) \<and>
     unique_sorted (map wb_budget_id (ck_budgets c)) \<and>
     unique_sorted (map wv_policy_id (ck_policy_versions c)) \<and>
     unique_sorted (map pa_action_id (ck_pending_actions c)) \<and>
     unique_sorted (map pp_approval_id (ck_pending_approvals c)) \<and>
     list_all (approval_bound (map (\<lambda>a. (pa_action_id a, a)) (ck_pending_actions c))) (ck_pending_approvals c) \<and>
     (ck_chain_length c = 0 \<longrightarrow> ck_chain_head c = empty_chain_digest cy)"

record persisted_state =
  ps_checkpoint :: checkpoint
  ps_chain :: "wf_entry list"

record wf_key =
  wk_authority_id :: ident
  wk_public_key :: string
  wk_active_from :: "datetime option"
  wk_expires_at :: "datetime option"
  wk_revoked :: bool

definition wf_key_ok :: "wf_key \<Rightarrow> bool" where
  "wf_key_ok k \<longleftrightarrow> (case (wk_active_from k, wk_expires_at k) of
     (Some a, Some x) \<Rightarrow> a < x | _ \<Rightarrow> True)"

definition wf_key_id :: "'k wf_crypto \<Rightarrow> wf_key \<Rightarrow> string" where
  "wf_key_id cy k = workflow_reference cy (wk_public_key k)"

record wf_policy =
  wp_trusted_authorities :: "ident list"
  wp_max_ttl :: int
  wp_max_age :: int
  wp_clock_skew :: int
  wp_max_chain :: nat
  wp_max_actions :: nat
  wp_max_approvals :: nat
  wp_permit_ttl :: int

definition wf_policy_ok :: "wf_policy \<Rightarrow> bool" where
  "wf_policy_ok p \<longleftrightarrow> wp_trusted_authorities p \<noteq> [] \<and> 1 \<le> wp_max_ttl p \<and> wp_max_ttl p \<le> 86400 \<and>
     1 \<le> wp_max_age p \<and> wp_max_age p \<le> 86400 \<and> 0 \<le> wp_clock_skew p \<and> wp_clock_skew p \<le> 300 \<and>
     1 \<le> wp_max_chain p \<and> wp_max_chain p \<le> 10000000 \<and> wp_max_actions p \<le> 100000 \<and>
     wp_max_approvals p \<le> 100000 \<and> 1 \<le> wp_permit_ttl p \<and> wp_permit_ttl p \<le> 900"

record resume_context =
  rx_workflow_id :: ident
  rx_tenant_id :: ident
  rx_agent_id :: ident
  rx_session_id :: ident
  rx_goal_digest :: string
  rx_plan_digest :: string
  rx_policy_versions :: "wf_policy_version list"
  rx_resume_authorization_digest :: string
  rx_sequence :: nat
  rx_checkpoint_digest :: string
  rx_prior_digest :: "string option"
  rx_chain_id :: ident
  rx_chain_length :: nat
  rx_chain_head :: string
  rx_budget_limits :: "(ident, nat) dict"

definition resume_context_ok :: "resume_context \<Rightarrow> bool" where
  "resume_context_ok x \<longleftrightarrow> rx_policy_versions x \<noteq> [] \<and>
     unique_sorted (map wv_policy_id (rx_policy_versions x)) \<and> dict_ok (rx_budget_limits x)"

record wf_finding =
  wf_code_of :: wf_code
  wf_severity :: severity
  wf_message :: string

record resume_permit =
  rt_resume_id :: ident
  rt_checkpoint_digest :: string
  rt_sequence :: nat
  rt_chain_head :: string
  rt_chain_length :: nat
  rt_workflow_id :: ident
  rt_tenant_id :: ident
  rt_agent_id :: ident
  rt_session_id :: ident
  rt_goal_digest :: string
  rt_plan_digest :: string
  rt_authorization_digest :: string
  rt_issued_at :: datetime
  rt_expires_at :: datetime

record wf_decision =
  wd_action :: guard_action
  wd_authorization :: "resume_permit option"
  wd_findings :: "wf_finding list"

definition resume_authorized :: "wf_decision \<Rightarrow> bool" where
  "resume_authorized d \<longleftrightarrow> wd_action d = ALLOW \<and> wd_authorization d \<noteq> None"

record wf_audit =
  wa_event_id :: ident
  wa_occurred_at :: datetime
  wa_phase :: wf_phase
  wa_code :: wf_code
  wa_action :: guard_action
  wa_workflow_ref :: string
  wa_tenant_ref :: string
  wa_agent_ref :: string
  wa_session_ref :: string
  wa_checkpoint_ref :: string
  wa_sequence :: nat
  wa_chain_length :: nat

end
