(* ===== verification/Workflow_Integrity.thy ===== *)
theory Workflow_Integrity
  imports Workflow_Records
begin

text \<open>
  \<open>workflow_integrity.py\<close>: the atomic resume store, the revocation list, the exact-digest authorizer, the
  bounded audit sink, the signer of entries and checkpoints, and the verifier that authorizes one
  resume. The authorizer and the revocation provider of a verifier are functions that may raise
  (\<open>None\<close>); its store and sink are the in-memory ones, a sink being optional.
\<close>

section \<open>The resume store\<close>

record resume_store =
  rs_max_workflows :: nat
  rs_max_claims :: nat
  rs_workflows :: "(string, nat \<times> string \<times> string \<times> datetime) dict"
  rs_claims :: "(string, datetime) dict"

text \<open>\<open>None\<close> where the constructor raises.\<close>

definition new_resume_store :: "int \<Rightarrow> int \<Rightarrow> resume_store option" where
  "new_resume_store w c =
     (if w < 1 \<or> c < 1 then None
      else Some \<lparr>rs_max_workflows = nat w, rs_max_claims = nat c, rs_workflows = [], rs_claims = []\<rparr>)"

definition purge_resume :: "datetime \<Rightarrow> resume_store \<Rightarrow> resume_store" where
  "purge_resume now s = s\<lparr>rs_claims := filter (\<lambda>(_, x). now < x) (rs_claims s),
     rs_workflows := filter (\<lambda>(_, _, _, _, x). now < x) (rs_workflows s)\<rparr>"

text \<open>How the claim relates to the latest claim of the same workflow; \<open>None\<close> when it may proceed.\<close>

definition sequence_status :: "(nat \<times> string \<times> string \<times> datetime) option \<Rightarrow> nat \<Rightarrow> string \<Rightarrow> string \<Rightarrow>
   resume_claim option" where
  "sequence_status existing n digest head =
     (case existing of
        None \<Rightarrow> None
      | Some (m, d, h, _) \<Rightarrow>
          if n < m then Some Resume_rollback
          else if n = m then
            Some (if digest = d \<and> head = h then Resume_was_replayed else Resume_collision)
          else if n \<noteq> m + 1 then Some Resume_out_of_order
          else None)"

text \<open>\<open>Inl ()\<close> where \<open>claim_resume\<close> raises.\<close>

definition claim_resume ::
  "string \<Rightarrow> nat \<Rightarrow> string \<Rightarrow> string \<Rightarrow> datetime \<Rightarrow> datetime \<Rightarrow> resume_store \<Rightarrow>
   (unit + resume_claim) \<times> resume_store" where
  "claim_resume wref n digest head expires_at now s0 =
     (if expires_at \<le> now then (Inl (), s0)
      else
        (let s = purge_resume now s0; existing = dict_get (rs_workflows s) wref in
         if dict_get (rs_claims s) digest \<noteq> None then (Inr Resume_was_replayed, s)
         else (case sequence_status existing n digest head of
             Some r \<Rightarrow> (Inr r, s)
           | None \<Rightarrow>
               if rs_max_claims s \<le> length (rs_claims s) then (Inr Resume_full, s)
               else if existing = None \<and> rs_max_workflows s \<le> length (rs_workflows s) then (Inr Resume_full, s)
               else (Inr Resume_claimed,
                 s\<lparr>rs_claims := dict_set (rs_claims s) digest expires_at,
                   rs_workflows := dict_set (rs_workflows s) wref (n, digest, head, expires_at)\<rparr>))))"

section \<open>Revocations, authorizations and the audit sink\<close>

record revocation_list =
  rv_workflow_refs :: "string set"
  rv_checkpoint_digests :: "string set"

definition revoke_workflow :: "'k wf_crypto \<Rightarrow> ident \<Rightarrow> revocation_list \<Rightarrow> revocation_list" where
  "revoke_workflow cy w r = r\<lparr>rv_workflow_refs := insert (workflow_reference cy w) (rv_workflow_refs r)\<rparr>"

definition revoke_checkpoint :: "string \<Rightarrow> revocation_list \<Rightarrow> revocation_list" where
  "revoke_checkpoint d r = r\<lparr>rv_checkpoint_digests := insert d (rv_checkpoint_digests r)\<rparr>"

definition is_revoked :: "'k wf_crypto \<Rightarrow> revocation_list \<Rightarrow> ident \<Rightarrow> string \<Rightarrow> datetime \<Rightarrow> bool" where
  "is_revoked cy r w d now \<longleftrightarrow>
     workflow_reference cy w \<in> rv_workflow_refs r \<or> d \<in> rv_checkpoint_digests r"

definition static_authorize ::
  "'k wf_crypto \<Rightarrow> (string \<times> string) set \<Rightarrow> resume_context \<Rightarrow> checkpoint \<Rightarrow> datetime \<Rightarrow> bool" where
  "static_authorize cy accepted x c now \<longleftrightarrow>
     (checkpoint_digest cy c, rx_resume_authorization_digest x) \<in> accepted"

record wf_sink =
  wk_max_events :: nat
  wk_events :: "wf_audit list"

definition wf_sink_emit :: "wf_audit \<Rightarrow> wf_sink \<Rightarrow> wf_sink" where
  "wf_sink_emit e s = s\<lparr>wk_events := deque_append (wk_max_events s) (wk_events s) e\<rparr>"

section \<open>The signer\<close>

record entry_args =
  ea_chain_id :: ident
  ea_entry_id :: ident
  ea_event_kind :: wf_event_kind
  ea_workflow_id :: ident
  ea_tenant_id :: ident
  ea_agent_id :: ident
  ea_session_id :: ident
  ea_goal_digest :: string
  ea_plan_digest :: string
  ea_occurred_at :: datetime
  ea_action_digest :: "string option"
  ea_authorization_digest :: "string option"
  ea_outcome_digest :: "string option"

definition entry_context :: "wf_entry \<Rightarrow> ident list" where
  "entry_context e = [we_chain_id e, we_workflow_id e, we_tenant_id e, we_agent_id e, we_session_id e,
     we_goal_digest e, we_plan_digest e]"

definition args_context :: "entry_args \<Rightarrow> ident list" where
  "args_context a = [ea_chain_id a, ea_workflow_id a, ea_tenant_id a, ea_agent_id a, ea_session_id a,
     ea_goal_digest a, ea_plan_digest a]"

definition signer_key_id :: "'k wf_crypto \<Rightarrow> 'k \<Rightarrow> string" where
  "signer_key_id cy sk = workflow_reference cy (wc_public cy sk)"

definition unsigned_entry :: "'k wf_crypto \<Rightarrow> 'k \<Rightarrow> ident \<Rightarrow> entry_args \<Rightarrow> wf_entry option \<Rightarrow> wf_entry" where
  "unsigned_entry cy sk auth a prior =
     \<lparr>we_chain_id = ea_chain_id a,
      we_sequence = (case prior of None \<Rightarrow> 0 | Some e \<Rightarrow> we_sequence e + 1),
      we_entry_id = ea_entry_id a, we_event_kind = ea_event_kind a, we_key_id = signer_key_id cy sk,
      we_authority_id = auth, we_workflow_id = ea_workflow_id a, we_tenant_id = ea_tenant_id a,
      we_agent_id = ea_agent_id a, we_session_id = ea_session_id a, we_goal_digest = ea_goal_digest a,
      we_plan_digest = ea_plan_digest a, we_action_digest = ea_action_digest a,
      we_authorization_digest = ea_authorization_digest a, we_outcome_digest = ea_outcome_digest a,
      we_prior_digest = map_option (entry_digest cy) prior, we_occurred_at = ea_occurred_at a,
      we_signature = None\<rparr>"

text \<open>\<open>None\<close> where \<open>sign_entry\<close> or the validator of the entry raises.\<close>

definition sign_entry :: "'k wf_crypto \<Rightarrow> 'k \<Rightarrow> ident \<Rightarrow> entry_args \<Rightarrow> wf_entry option \<Rightarrow> wf_entry option" where
  "sign_entry cy sk auth a prior =
     (if (case prior of None \<Rightarrow> False
          | Some e \<Rightarrow> entry_context e \<noteq> args_context a \<or> ea_occurred_at a < we_occurred_at e) then None
      else
        (let u = unsigned_entry cy sk auth a prior in
         if \<not> validate_link u then None
         else Some (u\<lparr>we_signature := Some (wc_sign cy sk (entry_bytes cy u))\<rparr>)))"

record checkpoint_args =
  ca_checkpoint_id :: ident
  ca_workflow_id :: ident
  ca_tenant_id :: ident
  ca_agent_id :: ident
  ca_session_id :: ident
  ca_goal_digest :: string
  ca_plan_digest :: string
  ca_budgets :: "wf_budget list"
  ca_policy_versions :: "wf_policy_version list"
  ca_pending_actions :: "pending_action list"
  ca_pending_approvals :: "pending_approval list"
  ca_resume_authorization_digest :: string
  ca_chain_id :: ident
  ca_issued_at :: datetime
  ca_expires_at :: datetime

definition chain_head :: "'k wf_crypto \<Rightarrow> wf_entry list \<Rightarrow> string" where
  "chain_head cy es = (if es = [] then empty_chain_digest cy else entry_digest cy (last es))"

definition unsigned_checkpoint ::
  "'k wf_crypto \<Rightarrow> 'k \<Rightarrow> ident \<Rightarrow> checkpoint_args \<Rightarrow> wf_entry list \<Rightarrow> checkpoint option \<Rightarrow> checkpoint" where
  "unsigned_checkpoint cy sk auth a es prior =
     \<lparr>ck_checkpoint_id = ca_checkpoint_id a,
      ck_sequence = (case prior of None \<Rightarrow> 0 | Some c \<Rightarrow> ck_sequence c + 1),
      ck_key_id = signer_key_id cy sk, ck_authority_id = auth, ck_workflow_id = ca_workflow_id a,
      ck_tenant_id = ca_tenant_id a, ck_agent_id = ca_agent_id a, ck_session_id = ca_session_id a,
      ck_goal_digest = ca_goal_digest a, ck_plan_digest = ca_plan_digest a,
      ck_budgets = sort_key wb_budget_id (ca_budgets a),
      ck_policy_versions = sort_key wv_policy_id (ca_policy_versions a),
      ck_pending_actions = sort_key pa_action_id (ca_pending_actions a),
      ck_pending_approvals = sort_key pp_approval_id (ca_pending_approvals a),
      ck_resume_authorization_digest = ca_resume_authorization_digest a, ck_chain_id = ca_chain_id a,
      ck_chain_length = length es, ck_chain_head = chain_head cy es,
      ck_prior_digest = map_option (checkpoint_digest cy) prior,
      ck_issued_at = ca_issued_at a, ck_expires_at = ca_expires_at a, ck_signature = None\<rparr>"

definition sign_checkpoint ::
  "'k wf_crypto \<Rightarrow> 'k \<Rightarrow> ident \<Rightarrow> checkpoint_args \<Rightarrow> wf_entry list \<Rightarrow> checkpoint option \<Rightarrow> checkpoint option" where
  "sign_checkpoint cy sk auth a es prior =
     (if (case prior of None \<Rightarrow> False
          | Some c \<Rightarrow> [ck_workflow_id c, ck_tenant_id c, ck_agent_id c, ck_session_id c, ck_chain_id c] \<noteq>
              [ca_workflow_id a, ca_tenant_id a, ca_agent_id a, ca_session_id a, ca_chain_id a]) then None
      else
        (let u = unsigned_checkpoint cy sk auth a es prior in
         if \<not> validate_checkpoint cy u then None
         else Some (u\<lparr>ck_signature := Some (wc_sign cy sk (checkpoint_bytes cy u))\<rparr>)))"

section \<open>The verifier\<close>

record 'k wf_verifier =
  vf_crypto :: "'k wf_crypto"
  vf_policy :: wf_policy
  vf_keys :: "(string, wf_key) dict"
  vf_authorize :: "resume_context \<Rightarrow> checkpoint \<Rightarrow> datetime \<Rightarrow> bool option"
  vf_revoked :: "ident \<Rightarrow> string \<Rightarrow> datetime \<Rightarrow> bool option"

definition wf_key_table :: "'k wf_crypto \<Rightarrow> wf_key list \<Rightarrow> (string, wf_key) dict" where
  "wf_key_table cy ks = foldl (\<lambda>m k. dict_set m (wf_key_id cy k) k) [] ks"

definition wf_find :: "wf_code \<Rightarrow> string \<Rightarrow> wf_finding" where
  "wf_find c m = \<lparr>wf_code_of = c, wf_severity = CRITICAL, wf_message = m\<rparr>"

text \<open>A finding when a check applies.\<close>

definition wf_when :: "bool \<Rightarrow> wf_code \<Rightarrow> string \<Rightarrow> wf_finding list" where
  "wf_when b c m = (if b then [wf_find c m] else [])"

lemma wf_when_Nil [simp]: "wf_when b c m = [] \<longleftrightarrow> \<not> b"
  by (simp add: wf_when_def)

definition signature_findings ::
  "'k wf_verifier \<Rightarrow> string \<Rightarrow> ident \<Rightarrow> string option \<Rightarrow> string \<Rightarrow> datetime \<Rightarrow> bool \<Rightarrow> wf_finding list" where
  "signature_findings v kid auth sig bytes at_time is_checkpoint =
     (case sig of
        None \<Rightarrow> [wf_find (if is_checkpoint then Checkpoint_unsigned else Execution_entry_unsigned)
                   ''Persistent state is unsigned'']
      | Some s \<Rightarrow>
          (case dict_get (vf_keys v) kid of
             None \<Rightarrow> [wf_find (if is_checkpoint then Checkpoint_key_unknown else Execution_key_unknown)
                        ''Signing key is not trusted'']
           | Some k \<Rightarrow>
               if wk_authority_id k \<noteq> auth \<or> auth \<notin> set (wp_trusted_authorities (vf_policy v)) then
                 [wf_find (if is_checkpoint then Checkpoint_key_unknown else Execution_key_unknown)
                    ''Signing key is not trusted'']
               else if wk_revoked k \<or>
                 (case wk_active_from k of None \<Rightarrow> False | Some t \<Rightarrow> at_time < t) \<or>
                 (case wk_expires_at k of None \<Rightarrow> False | Some t \<Rightarrow> t \<le> at_time) then
                 [wf_find (if is_checkpoint then Checkpoint_key_inactive else Execution_key_inactive)
                    ''Signing key was not active'']
               else wf_when (\<not> wc_verify (vf_crypto v) (wk_public_key k) s bytes)
                 (if is_checkpoint then Checkpoint_signature_invalid else Execution_signature_invalid)
                 ''Persistent state signature is invalid''))"

definition checkpoint_findings :: "'k wf_verifier \<Rightarrow> checkpoint \<Rightarrow> datetime \<Rightarrow> wf_finding list" where
  "checkpoint_findings v c now =
     (let p = vf_policy v; skew = td_seconds (wp_clock_skew p) in
      signature_findings v (ck_key_id c) (ck_authority_id c) (ck_signature c)
        (checkpoint_bytes (vf_crypto v) c) (ck_issued_at c) True @
      wf_when (now + skew < ck_issued_at c) Checkpoint_not_yet_valid
        ''Checkpoint issuance time is in the future'' @
      wf_when (ck_expires_at c \<le> now) Checkpoint_expired ''Checkpoint has expired'' @
      wf_when (td_seconds (wp_max_age p) + skew < now - ck_issued_at c) Checkpoint_too_old
        ''Checkpoint exceeds the maximum resume age'' @
      wf_when (td_seconds (wp_max_ttl p) < ck_expires_at c - ck_issued_at c) Checkpoint_ttl_exceeded
        ''Checkpoint lifetime exceeds policy'')"

definition checkpoint_identity :: "checkpoint \<Rightarrow> string list" where
  "checkpoint_identity c = [ck_workflow_id c, ck_tenant_id c, ck_agent_id c, ck_session_id c,
     ck_goal_digest c, ck_plan_digest c, ck_resume_authorization_digest c]"

definition context_identity :: "resume_context \<Rightarrow> string list" where
  "context_identity x = [rx_workflow_id x, rx_tenant_id x, rx_agent_id x, rx_session_id x,
     rx_goal_digest x, rx_plan_digest x, rx_resume_authorization_digest x]"

definition context_findings :: "'k wf_verifier \<Rightarrow> checkpoint \<Rightarrow> resume_context \<Rightarrow> wf_finding list" where
  "context_findings v c x =
     wf_when (checkpoint_identity c \<noteq> context_identity x) Checkpoint_context_mismatch
       ''Checkpoint does not match trusted workflow context'' @
     wf_when (ck_policy_versions c \<noteq> rx_policy_versions x) Wf_policy_mismatch
       ''Persisted policy revisions are not current'' @
     wf_when (ck_sequence c \<noteq> rx_sequence x \<or> checkpoint_digest (vf_crypto v) c \<noteq> rx_checkpoint_digest x)
       Rollback_detected ''Checkpoint does not match the trusted continuity anchor'' @
     wf_when (ck_prior_digest c \<noteq> rx_prior_digest x) Prior_state_mismatch
       ''Checkpoint predecessor does not match trusted state'' @
     wf_when (ck_chain_id c \<noteq> rx_chain_id x \<or> ck_chain_length c \<noteq> rx_chain_length x \<or>
        ck_chain_head c \<noteq> rx_chain_head x) Checkpoint_chain_mismatch
       ''Execution chain does not match the trusted continuity anchor''"

text \<open>One iteration of the loop over the chain, and the loop itself.\<close>

definition expected_entry_context :: "checkpoint \<Rightarrow> ident list" where
  "expected_entry_context c = [ck_chain_id c, ck_workflow_id c, ck_tenant_id c, ck_agent_id c,
     ck_session_id c, ck_goal_digest c, ck_plan_digest c]"

definition entry_findings ::
  "'k wf_verifier \<Rightarrow> checkpoint \<Rightarrow> datetime \<Rightarrow> ident set \<Rightarrow> wf_entry option \<Rightarrow> nat \<Rightarrow> wf_entry \<Rightarrow> wf_finding list" where
  "entry_findings v c now seen prev i e =
     (let skew = td_seconds (wp_clock_skew (vf_policy v)) in
      wf_when (we_entry_id e \<in> seen) Execution_insertion ''Execution chain contains a duplicate entry'' @
      wf_when (we_sequence e \<noteq> i) Execution_reordered ''Execution entry sequence is not contiguous'' @
      wf_when (we_prior_digest e \<noteq> map_option (entry_digest (vf_crypto v)) prev) Execution_reordered
        ''Execution entry predecessor digest is invalid'' @
      wf_when (entry_context e \<noteq> expected_entry_context c) Execution_context_mismatch
        ''Execution entry does not match checkpoint context'' @
      signature_findings v (we_key_id e) (we_authority_id e) (we_signature e)
        (entry_bytes (vf_crypto v) e) (we_occurred_at e) False @
      wf_when (ck_issued_at c + skew < we_occurred_at e \<or>
          (case prev of None \<Rightarrow> False | Some q \<Rightarrow> we_occurred_at e < we_occurred_at q) \<or>
          now + skew < we_occurred_at e)
        Execution_time_invalid ''Execution entry time is inconsistent'')"

fun entries_findings ::
  "'k wf_verifier \<Rightarrow> checkpoint \<Rightarrow> datetime \<Rightarrow> ident set \<Rightarrow> wf_entry option \<Rightarrow> nat \<Rightarrow> wf_entry list \<Rightarrow>
   wf_finding list" where
  "entries_findings v c now seen prev i [] = []"
| "entries_findings v c now seen prev i (e # es) =
     entry_findings v c now seen prev i e @
     entries_findings v c now (insert (we_entry_id e) seen) (Some e) (Suc i) es"

definition chain_findings :: "'k wf_verifier \<Rightarrow> persisted_state \<Rightarrow> datetime \<Rightarrow> wf_finding list" where
  "chain_findings v s now =
     (let c = ps_checkpoint s; es = ps_chain s in
      wf_when (wp_max_chain (vf_policy v) < length es) Execution_insertion
        ''Execution chain exceeds policy capacity'' @
      (if length es < ck_chain_length c then
         [wf_find Execution_deletion ''Execution chain is missing signed entries'']
       else wf_when (ck_chain_length c < length es) Execution_insertion
         ''Execution chain contains uncommitted entries'') @
      entries_findings v c now {} None 0 es @
      wf_when (chain_head (vf_crypto v) es \<noteq> ck_chain_head c) Checkpoint_chain_mismatch
        ''Execution chain head does not match checkpoint'')"

text \<open>Equality of two dictionaries, whatever the order of their items.\<close>

definition dict_eq :: "('k, 'v) dict \<Rightarrow> ('k, 'v) dict \<Rightarrow> bool" where
  "dict_eq a b \<longleftrightarrow> list_all (\<lambda>(k, _). dict_get a k = dict_get b k) (a @ b)"

definition pending_findings :: "'k wf_verifier \<Rightarrow> checkpoint \<Rightarrow> resume_context \<Rightarrow> datetime \<Rightarrow> wf_finding list" where
  "pending_findings v c x now =
     wf_when (wp_max_actions (vf_policy v) < length (ck_pending_actions c)) Pending_action_invalid
       ''Pending action count exceeds policy'' @
     wf_when (wp_max_approvals (vf_policy v) < length (ck_pending_approvals c)) Pending_action_invalid
       ''Pending approval count exceeds policy'' @
     wf_when (list_ex (\<lambda>a. pa_expires_at a \<le> now) (ck_pending_actions c)) Pending_action_invalid
       ''A pending action is expired'' @
     wf_when (list_ex (\<lambda>a. pp_expires_at a \<le> now) (ck_pending_approvals c)) Pending_approval_expired
       ''A pending approval is expired'' @
     wf_when (\<not> dict_eq (foldl (\<lambda>m b. dict_set m (wb_budget_id b) (wb_limit b)) [] (ck_budgets c))
         (rx_budget_limits x)) Budget_invalid
       ''Persisted budget limits do not match trusted policy''"

definition revocation_findings :: "'k wf_verifier \<Rightarrow> checkpoint \<Rightarrow> datetime \<Rightarrow> wf_finding list" where
  "revocation_findings v c now =
     (case vf_revoked v (ck_workflow_id c) (checkpoint_digest (vf_crypto v) c) now of
        None \<Rightarrow> [wf_find Revocation_unavailable ''Workflow revocation state is unavailable'']
      | Some r \<Rightarrow> wf_when r Workflow_revoked ''Workflow or checkpoint has been revoked'')"

definition resume_findings ::
  "'k wf_verifier \<Rightarrow> persisted_state \<Rightarrow> resume_context \<Rightarrow> datetime \<Rightarrow> wf_finding list" where
  "resume_findings v s x now =
     (let c = ps_checkpoint s in
      checkpoint_findings v c now @ context_findings v c x @ chain_findings v s now @
      pending_findings v c x now @ revocation_findings v c now)"

record wf_runtime =
  rn_store :: resume_store
  rn_sink :: "wf_sink option"

definition wf_emit ::
  "'k wf_verifier \<Rightarrow> checkpoint \<Rightarrow> wf_code \<Rightarrow> guard_action \<Rightarrow> datetime \<Rightarrow> ident \<Rightarrow> wf_runtime \<Rightarrow> wf_runtime" where
  "wf_emit v c code act now uid r =
     (let ref = workflow_reference (vf_crypto v) in
      r\<lparr>rn_sink := map_option (wf_sink_emit
        \<lparr>wa_event_id = uid, wa_occurred_at = now, wa_phase = Verify_resume, wa_code = code,
         wa_action = act, wa_workflow_ref = ref (ck_workflow_id c), wa_tenant_ref = ref (ck_tenant_id c),
         wa_agent_ref = ref (ck_agent_id c), wa_session_ref = ref (ck_session_id c),
         wa_checkpoint_ref = ref (checkpoint_digest (vf_crypto v) c), wa_sequence = ck_sequence c,
         wa_chain_length = ck_chain_length c\<rparr>) (rn_sink r)\<rparr>)"

text \<open>The findings of a refusal, each code and message once, in their first order.\<close>

definition resume_blocked ::
  "'k wf_verifier \<Rightarrow> checkpoint \<Rightarrow> wf_finding list \<Rightarrow> datetime \<Rightarrow> ident \<Rightarrow> wf_runtime \<Rightarrow> wf_decision \<times> wf_runtime" where
  "resume_blocked v c fs now uid r =
     (let norm = map (\<lambda>(code, m). wf_find code m) (first_occurrences (map (\<lambda>f. (wf_code_of f, wf_message f)) fs))
      in (\<lparr>wd_action = BLOCK, wd_authorization = None, wd_findings = norm\<rparr>,
          wf_emit v c (wf_code_of (hd norm)) BLOCK now uid r))"

definition claim_code :: "resume_claim \<Rightarrow> wf_code" where
  "claim_code r = (case r of
     Resume_was_replayed \<Rightarrow> Resume_replayed
   | Resume_rollback \<Rightarrow> Rollback_detected
   | Resume_out_of_order \<Rightarrow> Rollback_detected
   | Resume_collision \<Rightarrow> Rollback_detected
   | _ \<Rightarrow> Resume_state_unavailable)"

definition make_resume_permit :: "'k wf_verifier \<Rightarrow> checkpoint \<Rightarrow> datetime \<Rightarrow> ident \<Rightarrow> resume_permit" where
  "make_resume_permit v c now uid =
     \<lparr>rt_resume_id = ''workflow-resume-'' @ uid, rt_checkpoint_digest = checkpoint_digest (vf_crypto v) c,
      rt_sequence = ck_sequence c, rt_chain_head = ck_chain_head c, rt_chain_length = ck_chain_length c,
      rt_workflow_id = ck_workflow_id c, rt_tenant_id = ck_tenant_id c, rt_agent_id = ck_agent_id c,
      rt_session_id = ck_session_id c, rt_goal_digest = ck_goal_digest c, rt_plan_digest = ck_plan_digest c,
      rt_authorization_digest = ck_resume_authorization_digest c, rt_issued_at = now,
      rt_expires_at = min (ck_expires_at c) (now + td_seconds (wp_permit_ttl (vf_policy v)))\<rparr>"

text \<open>The identifiers drawn for the permit and for the audit event are \<open>pid\<close> and \<open>uid\<close>.\<close>

definition verify_resume ::
  "'k wf_verifier \<Rightarrow> persisted_state \<Rightarrow> resume_context \<Rightarrow> datetime \<Rightarrow> ident \<Rightarrow> ident \<Rightarrow> wf_runtime \<Rightarrow>
   wf_decision \<times> wf_runtime" where
  "verify_resume v s x now pid uid r =
     (let c = ps_checkpoint s; fs = resume_findings v s x now in
      if fs \<noteq> [] then resume_blocked v c fs now uid r
      else (case vf_authorize v x c now of
          None \<Rightarrow> resume_blocked v c [wf_find Authorization_unavailable
                     ''Resume authorization service is unavailable''] now uid r
        | Some False \<Rightarrow> resume_blocked v c [wf_find Authorization_denied
                     ''Current authority denied workflow resume''] now uid r
        | Some True \<Rightarrow>
            (let (cl, st) = claim_resume (workflow_reference (vf_crypto v) (ck_workflow_id c)) (ck_sequence c)
                   (checkpoint_digest (vf_crypto v) c) (ck_chain_head c) (ck_expires_at c) now (rn_store r);
                 status = (case cl of Inl _ \<Rightarrow> Resume_full | Inr q \<Rightarrow> q);
                 r' = r\<lparr>rn_store := st\<rparr> in
             if status \<noteq> Resume_claimed then
               resume_blocked v c [wf_find (claim_code status)
                 ''Atomic resume state rejected the checkpoint''] now uid r'
             else (\<lparr>wd_action = ALLOW, wd_authorization = Some (make_resume_permit v c now pid), wd_findings = []\<rparr>,
                   wf_emit v c Resume_allowed ALLOW now uid r'))))"

text \<open>\<open>Inl\<close> carries the decision of the raised error.\<close>

definition require_resume ::
  "'k wf_verifier \<Rightarrow> persisted_state \<Rightarrow> resume_context \<Rightarrow> datetime \<Rightarrow> ident \<Rightarrow> ident \<Rightarrow> wf_runtime \<Rightarrow>
   (wf_decision + resume_permit) \<times> wf_runtime" where
  "require_resume v s x now pid uid r =
     (let (d, r') = verify_resume v s x now pid uid r in
      (case wd_authorization d of
         Some t \<Rightarrow> (if resume_authorized d then Inr t else Inl d, r')
       | None \<Rightarrow> (Inl d, r')))"

end
