(* ===== verification/Workflow_Properties.thy ===== *)
theory Workflow_Properties
  imports Workflow_Integrity
begin

text \<open>
  What an authorized workflow resume guarantees: authentic checkpoint and chain, agreement with the
  trusted anchor, at most one resume per checkpoint, contiguous sequence numbers while a claim is
  live, and acceptance of what the signer produced.
\<close>

section \<open>Branches of the verifier\<close>

lemma distinct_first_occurrences: "distinct (first_occurrences xs)"
  by (induction xs rule: first_occurrences.induct) auto

lemma wf_emit_store [simp]: "rn_store (wf_emit v c code act now uid r) = rn_store r"
  by (simp add: wf_emit_def Let_def)

lemma resume_blocked_simps [simp]:
  "wd_action (fst (resume_blocked v c fs now uid r)) = BLOCK"
  "wd_authorization (fst (resume_blocked v c fs now uid r)) = None"
  "rn_store (snd (resume_blocked v c fs now uid r)) = rn_store r"
  by (simp_all add: resume_blocked_def Let_def)

abbreviation claim_for ::
  "'k wf_verifier \<Rightarrow> checkpoint \<Rightarrow> datetime \<Rightarrow> resume_store \<Rightarrow> (unit + resume_claim) \<times> resume_store" where
  "claim_for v c now s \<equiv> claim_resume (workflow_reference (vf_crypto v) (ck_workflow_id c)) (ck_sequence c)
     (checkpoint_digest (vf_crypto v) c) (ck_chain_head c) (ck_expires_at c) now s"

lemma verify_resume_cases:
  obtains (findings) fs where "fs \<noteq> []" "resume_findings v s x now = fs"
      "verify_resume v s x now pid uid r = resume_blocked v (ps_checkpoint s) fs now uid r"
  | (denied) f where "resume_findings v s x now = []" "vf_authorize v x (ps_checkpoint s) now \<noteq> Some True"
      "verify_resume v s x now pid uid r = resume_blocked v (ps_checkpoint s) [f] now uid r"
  | (rejected) f cl st where "resume_findings v s x now = []" "vf_authorize v x (ps_checkpoint s) now = Some True"
      "claim_for v (ps_checkpoint s) now (rn_store r) = (cl, st)" "cl \<noteq> Inr Resume_claimed"
      "verify_resume v s x now pid uid r = resume_blocked v (ps_checkpoint s) [f] now uid (r\<lparr>rn_store := st\<rparr>)"
  | (allowed) st where "resume_findings v s x now = []" "vf_authorize v x (ps_checkpoint s) now = Some True"
      "claim_for v (ps_checkpoint s) now (rn_store r) = (Inr Resume_claimed, st)"
      "verify_resume v s x now pid uid r =
        (\<lparr>wd_action = ALLOW, wd_authorization = Some (make_resume_permit v (ps_checkpoint s) now pid), wd_findings = []\<rparr>,
         wf_emit v (ps_checkpoint s) Resume_allowed ALLOW now uid (r\<lparr>rn_store := st\<rparr>))"
proof -
  let ?c = "ps_checkpoint s"
  obtain cl st where cl: "claim_for v ?c now (rn_store r) = (cl, st)" by (cases "claim_for v ?c now (rn_store r)")
  show thesis
  proof (cases "resume_findings v s x now = []")
    case False
    then show ?thesis using findings by (simp add: verify_resume_def Let_def)
  next
    case none: True
    show ?thesis
    proof (cases "vf_authorize v x ?c now")
      case None
      then show ?thesis using denied none by (simp add: verify_resume_def Let_def)
    next
      case (Some b)
      show ?thesis
      proof (cases b)
        case False
        then show ?thesis using denied none Some by (simp add: verify_resume_def Let_def)
      next
        case True
        show ?thesis
        proof (cases "cl = Inr Resume_claimed")
          case cl': True
          show ?thesis
            by (rule allowed [of st]) (use none Some True cl cl' in \<open>simp_all add: verify_resume_def Let_def\<close>)
        next
          case False
          then have "(case cl of Inl _ \<Rightarrow> Resume_full | Inr q \<Rightarrow> q) \<noteq> Resume_claimed"
            by (auto split: sum.splits)
          then show ?thesis using rejected none Some True cl False by (simp add: verify_resume_def Let_def)
        qed
      qed
    qed
  qed
qed

lemma require_resume_Inr:
  assumes "require_resume v s x now pid uid r = (Inr t, r')"
  shows "resume_findings v s x now = [] \<and> vf_authorize v x (ps_checkpoint s) now = Some True \<and>
    claim_for v (ps_checkpoint s) now (rn_store r) = (Inr Resume_claimed, rn_store r') \<and>
    t = make_resume_permit v (ps_checkpoint s) now pid"
proof (rule verify_resume_cases [of v s x now pid uid r])
qed (use assms in \<open>auto simp: require_resume_def resume_blocked_def Let_def resume_authorized_def
       split: option.splits if_splits\<close>)

section \<open>Chains\<close>

text \<open>Every entry commits to its predecessor.\<close>

fun linked :: "'k wf_crypto \<Rightarrow> wf_entry option \<Rightarrow> wf_entry list \<Rightarrow> bool" where
  "linked cy prev [] = True"
| "linked cy prev (e # es) = (we_prior_digest e = map_option (entry_digest cy) prev \<and> linked cy (Some e) es)"

text \<open>A chain built by successive calls of \<open>sign_entry\<close>, each with its signer and its arguments.\<close>

fun sign_chain ::
  "'k wf_crypto \<Rightarrow> wf_entry option \<Rightarrow> ('k \<times> ident \<times> entry_args) list \<Rightarrow> wf_entry list option" where
  "sign_chain cy prior [] = Some []"
| "sign_chain cy prior ((sk, auth, a) # xs) =
     (case sign_entry cy sk auth a prior of
        None \<Rightarrow> None
      | Some e \<Rightarrow> map_option (Cons e) (sign_chain cy (Some e) xs))"

lemma sign_entry_SomeD:
  assumes "sign_entry cy sk auth a prior = Some e"
  shows "e = (unsigned_entry cy sk auth a prior)\<lparr>we_signature :=
      Some (wc_sign cy sk (entry_bytes cy (unsigned_entry cy sk auth a prior)))\<rparr>"
    and "prior = Some q \<Longrightarrow> entry_context q = args_context a \<and> we_occurred_at q \<le> ea_occurred_at a"
    and "validate_link (unsigned_entry cy sk auth a prior)"
  using assms by (auto simp: sign_entry_def Let_def split: if_splits)

lemma sign_chain_linked: "sign_chain cy prior as = Some es \<Longrightarrow> linked cy prior es"
proof (induction "as" arbitrary: prior es)
  case (Cons y ys)
  obtain sk auth a where y: "y = (sk, auth, a)" by (cases y)
  from Cons.prems y obtain e es' where e: "sign_entry cy sk auth a prior = Some e"
    and es: "sign_chain cy (Some e) ys = Some es'" "es = e # es'"
    by (auto split: option.splits)
  from sign_entry_SomeD(1) [OF e] have "we_prior_digest e = map_option (entry_digest cy) prior"
    by (simp add: unsigned_entry_def)
  then show ?case using Cons.IH [OF es(1)] es(2) by simp
qed simp

lemma linked_snoc:
  "linked cy prev (es @ [e]) \<longleftrightarrow> linked cy prev es \<and>
     we_prior_digest e = map_option (entry_digest cy) (if es = [] then prev else Some (last es))"
  by (induction es arbitrary: prev) auto

text \<open>Two linked chains of one length with one head digest are equal, when the digest separates their entries.\<close>

lemma linked_unique:
  "linked cy None es \<Longrightarrow> linked cy None fs \<Longrightarrow> length es = length fs \<Longrightarrow> chain_head cy es = chain_head cy fs \<Longrightarrow>
   inj_on (entry_digest cy) (set es \<union> set fs) \<Longrightarrow> es = fs"
proof (induction es arbitrary: fs rule: rev_induct)
  case (snoc e es)
  from snoc.prems(3) obtain f fs' where fs: "fs = fs' @ [f]" by (cases fs rule: rev_cases) auto
  have "entry_digest cy e = entry_digest cy f" using snoc.prems(4) fs by (simp add: chain_head_def)
  then have ef: "e = f" by (rule inj_onD [OF snoc.prems(5)]) (simp_all add: fs)
  have len: "length es = length fs'" using snoc.prems(3) fs by simp
  have "chain_head cy es = chain_head cy fs'"
  proof (cases "es = []")
    case False
    then have "fs' \<noteq> []" using len by auto
    have "we_prior_digest e = Some (entry_digest cy (last es))"
      using snoc.prems(1) False by (simp add: linked_snoc)
    moreover have "we_prior_digest f = Some (entry_digest cy (last fs'))"
      using snoc.prems(2) \<open>fs' \<noteq> []\<close> unfolding fs by (simp add: linked_snoc)
    ultimately show ?thesis using False \<open>fs' \<noteq> []\<close> ef by (simp add: chain_head_def)
  qed (use len in simp)
  moreover have "inj_on (entry_digest cy) (set es \<union> set fs')"
    by (rule inj_on_subset [OF snoc.prems(5)]) (auto simp: fs)
  ultimately show ?case
    using snoc.IH [of fs'] snoc.prems(1,2) fs ef len by (simp add: linked_snoc)
qed simp

lemma entries_findings_linked:
  "entries_findings v c now seen prev i es = [] \<Longrightarrow> linked (vf_crypto v) prev es"
  by (induction es arbitrary: seen prev i) (auto simp: entry_findings_def Let_def)

text \<open>What the verifier establishes for each entry of the chain.\<close>

definition entry_authentic :: "'k wf_verifier \<Rightarrow> checkpoint \<Rightarrow> datetime \<Rightarrow> wf_entry \<Rightarrow> bool" where
  "entry_authentic v c now e \<longleftrightarrow> entry_context e = expected_entry_context c \<and>
     we_occurred_at e \<le> min (ck_issued_at c) now + td_seconds (wp_clock_skew (vf_policy v)) \<and>
     (\<exists>k sig. we_signature e = Some sig \<and> dict_get (vf_keys v) (we_key_id e) = Some k \<and>
        wk_authority_id k = we_authority_id e \<and>
        we_authority_id e \<in> set (wp_trusted_authorities (vf_policy v)) \<and> \<not> wk_revoked k \<and>
        wc_verify (vf_crypto v) (wk_public_key k) sig (entry_bytes (vf_crypto v) e))"

lemma signature_findings_Nil:
  "signature_findings v kid auth sig bytes t b = [] \<longleftrightarrow>
     (\<exists>s k. sig = Some s \<and> dict_get (vf_keys v) kid = Some k \<and> wk_authority_id k = auth \<and>
        auth \<in> set (wp_trusted_authorities (vf_policy v)) \<and> \<not> wk_revoked k \<and>
        (\<forall>u. wk_active_from k = Some u \<longrightarrow> u \<le> t) \<and> (\<forall>u. wk_expires_at k = Some u \<longrightarrow> t < u) \<and>
        wc_verify (vf_crypto v) (wk_public_key k) s bytes)"
  by (auto simp: signature_findings_def not_less not_le split: option.splits)

lemma entry_findings_authentic:
  assumes "entry_findings v c now seen prev i e = []"
  shows "entry_authentic v c now e"
proof -
  from assms have "signature_findings v (we_key_id e) (we_authority_id e) (we_signature e)
      (entry_bytes (vf_crypto v) e) (we_occurred_at e) False = []"
    and "entry_context e = expected_entry_context c"
    and "we_occurred_at e \<le> min (ck_issued_at c) now + td_seconds (wp_clock_skew (vf_policy v))"
    by (auto simp: entry_findings_def Let_def not_less)
  then show ?thesis unfolding entry_authentic_def signature_findings_Nil by blast
qed

lemma entries_findings_authentic:
  "entries_findings v c now seen prev i es = [] \<Longrightarrow> \<forall>e \<in> set es. entry_authentic v c now e"
  by (induction es arbitrary: seen prev i) (auto dest: entry_findings_authentic)

lemma entries_findings_order:
  "entries_findings v c now seen prev i es = [] \<Longrightarrow>
   map we_sequence es = [i..<i + length es] \<and> distinct (map we_entry_id es) \<and>
   we_entry_id ` set es \<inter> seen = {} \<and> sorted (map we_occurred_at es) \<and>
   (\<forall>q e. prev = Some q \<longrightarrow> e \<in> set es \<longrightarrow> we_occurred_at q \<le> we_occurred_at e)"
proof (induction es arbitrary: seen prev i)
  case (Cons e es)
  then have h: "entry_findings v c now seen prev i e = []"
    and t: "entries_findings v c now (insert (we_entry_id e) seen) (Some e) (Suc i) es = []" by auto
  from h have "we_entry_id e \<notin> seen" "we_sequence e = i"
    "\<forall>q. prev = Some q \<longrightarrow> we_occurred_at q \<le> we_occurred_at e"
    by (auto simp: entry_findings_def Let_def)
  moreover have "[i..<i + length (e # es)] = i # [Suc i..<Suc i + length es]"
    using upt_conv_Cons [of i "i + length (e # es)"] by simp
  ultimately show ?case using Cons.IH [OF t] by (auto simp del: upt_Suc)
qed simp

lemma resume_findings_NilD:
  assumes "resume_findings v s x now = []"
  shows "checkpoint_findings v (ps_checkpoint s) now = []" "context_findings v (ps_checkpoint s) x = []"
    "chain_findings v s now = []" "pending_findings v (ps_checkpoint s) x now = []"
    "revocation_findings v (ps_checkpoint s) now = []"
  using assms by (simp_all add: resume_findings_def Let_def)

lemma chain_findings_NilD:
  assumes "chain_findings v s now = []"
  shows "length (ps_chain s) = ck_chain_length (ps_checkpoint s)"
    "length (ps_chain s) \<le> wp_max_chain (vf_policy v)"
    "entries_findings v (ps_checkpoint s) now {} None 0 (ps_chain s) = []"
    "chain_head (vf_crypto v) (ps_chain s) = ck_chain_head (ps_checkpoint s)"
  using assms by (simp_all add: chain_findings_def Let_def not_less split: if_splits)

section \<open>Authenticity\<close>

text \<open>
  C8: a resume is authorized only for authentic, current and unrevoked state. When
  \<open>require_resume\<close> returns a permit, the checkpoint's signature verifies under a trusted, unrevoked key of
  its authority; its identities, goal, plan, policies, sequence, digest and predecessor are the
  trusted ones; every chain entry is signed by a trusted authority in the checkpoint's context, entries
  are numbered from 0 without gaps, have distinct identifiers and ascending times; the workflow is not
  revoked and the current authority agrees; the permit starts now and ends with the checkpoint or after
  the permit lifetime.
\<close>

theorem authorized_resume_authentic:
  assumes "require_resume v s x now pid uid r = (Inr t, r')"
  shows "\<exists>k sig. ck_signature (ps_checkpoint s) = Some sig \<and>
    dict_get (vf_keys v) (ck_key_id (ps_checkpoint s)) = Some k \<and> \<not> wk_revoked k \<and>
    wk_authority_id k = ck_authority_id (ps_checkpoint s) \<and>
    ck_authority_id (ps_checkpoint s) \<in> set (wp_trusted_authorities (vf_policy v)) \<and>
    wc_verify (vf_crypto v) (wk_public_key k) sig (checkpoint_bytes (vf_crypto v) (ps_checkpoint s)) \<and>
    checkpoint_identity (ps_checkpoint s) = context_identity x \<and>
    ck_policy_versions (ps_checkpoint s) = rx_policy_versions x \<and>
    ck_sequence (ps_checkpoint s) = rx_sequence x \<and>
    checkpoint_digest (vf_crypto v) (ps_checkpoint s) = rx_checkpoint_digest x \<and>
    ck_prior_digest (ps_checkpoint s) = rx_prior_digest x \<and>
    (\<forall>e \<in> set (ps_chain s). entry_authentic v (ps_checkpoint s) now e) \<and>
    map we_sequence (ps_chain s) = [0..<ck_chain_length (ps_checkpoint s)] \<and>
    distinct (map we_entry_id (ps_chain s)) \<and> sorted (map we_occurred_at (ps_chain s)) \<and>
    vf_revoked v (ck_workflow_id (ps_checkpoint s)) (rx_checkpoint_digest x) now = Some False \<and>
    vf_authorize v x (ps_checkpoint s) now = Some True \<and>
    rt_checkpoint_digest t = rx_checkpoint_digest x \<and> rt_issued_at t = now \<and>
    now < ck_expires_at (ps_checkpoint s) \<and>
    rt_expires_at t = min (ck_expires_at (ps_checkpoint s)) (now + td_seconds (wp_permit_ttl (vf_policy v)))"
proof -
  let ?c = "ps_checkpoint s"
  note a = require_resume_Inr [OF assms]
  then have none: "resume_findings v s x now = []" by simp
  note f = resume_findings_NilD [OF none]
  note ch = chain_findings_NilD [OF f(3)]
  have sig: "signature_findings v (ck_key_id ?c) (ck_authority_id ?c) (ck_signature ?c)
      (checkpoint_bytes (vf_crypto v) ?c) (ck_issued_at ?c) True = []" and unexpired: "now < ck_expires_at ?c"
    using f(1) by (simp_all add: checkpoint_findings_def Let_def not_le)
  have cx: "checkpoint_identity ?c = context_identity x" "ck_policy_versions ?c = rx_policy_versions x"
    "ck_sequence ?c = rx_sequence x" "checkpoint_digest (vf_crypto v) ?c = rx_checkpoint_digest x"
    "ck_prior_digest ?c = rx_prior_digest x"
    using f(2) by (simp_all add: context_findings_def)
  have rev: "vf_revoked v (ck_workflow_id ?c) (rx_checkpoint_digest x) now = Some False"
    using f(5) cx(4) by (simp add: revocation_findings_def split: option.splits)
  have "rt_checkpoint_digest t = rx_checkpoint_digest x" "rt_issued_at t = now"
    "rt_expires_at t = min (ck_expires_at ?c) (now + td_seconds (wp_permit_ttl (vf_policy v)))"
    using a cx(4) by (simp_all add: make_resume_permit_def)
  moreover from sig obtain sg k where "ck_signature ?c = Some sg" "dict_get (vf_keys v) (ck_key_id ?c) = Some k"
    "wk_authority_id k = ck_authority_id ?c" "ck_authority_id ?c \<in> set (wp_trusted_authorities (vf_policy v))"
    "\<not> wk_revoked k" "wc_verify (vf_crypto v) (wk_public_key k) sg (checkpoint_bytes (vf_crypto v) ?c)"
    unfolding signature_findings_Nil by blast
  ultimately show ?thesis
    using unexpired cx rev a entries_findings_authentic [OF ch(3)] entries_findings_order [OF ch(3)] ch(1)
    by simp
qed

text \<open>
  The resumed history is the anchored one. If the trusted anchor holds the length and head
  digest of a chain that signers built entry by entry, and the digest does not collide on the entries
  involved, then a state that is authorized to resume carries exactly that chain: nothing was inserted,
  deleted, reordered or replaced.
\<close>

theorem resumed_chain_is_anchored:
  assumes "require_resume v s x now pid uid r = (Inr t, r')"
    and "sign_chain (vf_crypto v) None as = Some es"
    and "rx_chain_length x = length es" and "rx_chain_head x = chain_head (vf_crypto v) es"
    and "inj_on (entry_digest (vf_crypto v)) (set (ps_chain s) \<union> set es)"
  shows "ps_chain s = es"
proof -
  have none: "resume_findings v s x now = []" using require_resume_Inr [OF assms(1)] by simp
  note f = resume_findings_NilD [OF none]
  note ch = chain_findings_NilD [OF f(3)]
  have "ck_chain_length (ps_checkpoint s) = length es"
    "ck_chain_head (ps_checkpoint s) = chain_head (vf_crypto v) es"
    using f(2) assms(3,4) by (simp_all add: context_findings_def)
  then show ?thesis
    using linked_unique [OF entries_findings_linked [OF ch(3)] sign_chain_linked [OF assms(2)] _ _ assms(5)] ch
    by simp
qed

section \<open>The store\<close>

definition resume_store_ok :: "resume_store \<Rightarrow> bool" where
  "resume_store_ok s \<longleftrightarrow> dict_ok (rs_claims s) \<and> dict_ok (rs_workflows s) \<and>
     length (rs_claims s) \<le> rs_max_claims s \<and> length (rs_workflows s) \<le> rs_max_workflows s"

lemma new_resume_store_ok: "new_resume_store w c = Some s \<Longrightarrow> resume_store_ok s"
  by (auto simp: new_resume_store_def resume_store_ok_def split: if_splits)

lemma purge_resume_gets:
  assumes "resume_store_ok s"
  shows "dict_get (rs_claims (purge_resume now s)) d =
      (case dict_get (rs_claims s) d of None \<Rightarrow> None | Some x \<Rightarrow> if now < x then Some x else None)"
    and "dict_get (rs_workflows (purge_resume now s)) w =
      (case dict_get (rs_workflows s) w of None \<Rightarrow> None
       | Some y \<Rightarrow> if now < snd (snd (snd y)) then Some y else None)"
  using assms by (auto simp: purge_resume_def resume_store_ok_def dict_get_filter split: option.splits prod.splits)

lemma purge_resume_ok: "resume_store_ok s \<Longrightarrow> resume_store_ok (purge_resume now s)"
  by (auto simp: purge_resume_def resume_store_ok_def
      intro: dict_ok_filter le_trans [OF length_filter_le])

lemma claim_resume_ok:
  assumes "resume_store_ok s" and "claim_resume w n d h x now s = (cl, s')"
  shows "resume_store_ok s'"
  using assms purge_resume_ok [OF assms(1), of now]
  by (auto simp: claim_resume_def resume_store_ok_def length_dict_set Let_def
      split: if_splits option.splits)

lemma sequence_status_not_claimed [simp]: "sequence_status e n d h \<noteq> Some Resume_claimed"
  by (auto simp: sequence_status_def split: option.splits)

lemma claim_resume_claimed:
  assumes "resume_store_ok s" and "claim_resume w n d h x now s = (Inr Resume_claimed, s')"
  shows "now < x" and "\<And>y. dict_get (rs_claims s) d = Some y \<Longrightarrow> y \<le> now"
    and "\<And>m e g y. dict_get (rs_workflows s) w = Some (m, e, g, y) \<Longrightarrow> now < y \<Longrightarrow> n = m + 1"
    and "dict_get (rs_claims s') d = Some x" and "dict_get (rs_workflows s') w = Some (n, d, h, x)"
proof -
  note pg = purge_resume_gets [OF assms(1), of now]
  show "now < x" "dict_get (rs_claims s') d = Some x" "dict_get (rs_workflows s') w = Some (n, d, h, x)"
    using assms(2) by (auto simp: claim_resume_def Let_def split: if_splits option.splits)
  show "y \<le> now" if "dict_get (rs_claims s) d = Some y" for y
    using assms(2) that pg(1) [of d] by (auto simp: claim_resume_def Let_def split: if_splits option.splits)
  show "n = m + 1" if "dict_get (rs_workflows s) w = Some (m, e, g, y)" "now < y" for m e g y
    using assms(2) that pg(2) [of w]
    by (auto simp: claim_resume_def Let_def sequence_status_def split: if_splits option.splits)
qed

lemma claim_resume_keeps:
  assumes "resume_store_ok s" and "claim_resume w n d h x now s = (cl, s')"
    and "dict_get (rs_claims s) d' = Some y" and "now < y"
  shows "dict_get (rs_claims s') d' = Some y"
  using assms(2-) purge_resume_gets(1) [OF assms(1), of now]
  by (auto simp: claim_resume_def Let_def split: if_splits option.splits)

section \<open>One resume per checkpoint\<close>

text \<open>A verifier with its store and the last clock reading; an attempt is a state with its context and time.\<close>

type_synonym resume_attempt = "persisted_state \<times> resume_context \<times> datetime"

definition try_resume ::
  "'k wf_verifier \<Rightarrow> wf_runtime \<times> datetime \<Rightarrow> resume_attempt \<Rightarrow> bool \<times> wf_runtime \<times> datetime" where
  "try_resume v st i =
     (case i of (s, x, now) \<Rightarrow>
        (let (d, r') = verify_resume v s x now ''permit'' ''event'' (fst st) in (resume_authorized d, r', now)))"

definition resume_clock :: "wf_runtime \<times> datetime \<Rightarrow> resume_attempt \<Rightarrow> bool" where
  "resume_clock st i \<longleftrightarrow> snd st \<le> snd (snd i)"

text \<open>Checkpoints that cannot resume any more: expired, or claimed until they expire.\<close>

definition used_checkpoints :: "'k wf_verifier \<Rightarrow> wf_runtime \<times> datetime \<Rightarrow> checkpoint set" where
  "used_checkpoints v st = {c. ck_expires_at c \<le> snd st \<or>
     (\<exists>y. dict_get (rs_claims (rn_store (fst st))) (checkpoint_digest (vf_crypto v) c) = Some y \<and>
          ck_expires_at c \<le> y)}"

lemma verify_resume_store:
  assumes "verify_resume v s x now pid uid r = (d, r')"
  obtains "rn_store r' = rn_store r" "\<not> resume_authorized d"
  | cl where "claim_for v (ps_checkpoint s) now (rn_store r) = (cl, rn_store r')"
      "resume_authorized d \<longleftrightarrow> cl = Inr Resume_claimed"
proof (cases rule: verify_resume_cases [of v s x now pid uid r])
  case (findings fs)
  show ?thesis
    by (rule that(1)) (use findings assms in \<open>auto simp: resume_blocked_def resume_authorized_def Let_def\<close>)
next
  case (denied f)
  show ?thesis
    by (rule that(1)) (use denied assms in \<open>auto simp: resume_blocked_def resume_authorized_def Let_def\<close>)
next
  case (rejected f cl st)
  show ?thesis
    by (rule that(2) [of cl]) (use rejected assms in \<open>auto simp: resume_blocked_def resume_authorized_def Let_def\<close>)
next
  case (allowed st)
  show ?thesis
    by (rule that(2) [of "Inr Resume_claimed"]) (use allowed assms in \<open>auto simp: resume_authorized_def\<close>)
qed

lemma try_resume_cases:
  assumes "try_resume v (r, t) (s, x, now) = (ok, st')" and "resume_store_ok (rn_store r)"
  obtains (kept) "rn_store (fst st') = rn_store r" "\<not> ok" "snd st' = now"
  | (claim) cl where "claim_for v (ps_checkpoint s) now (rn_store r) = (cl, rn_store (fst st'))"
      "ok \<longleftrightarrow> cl = Inr Resume_claimed" "snd st' = now"
proof -
  obtain d r' where v: "verify_resume v s x now ''permit'' ''event'' r = (d, r')"
    by (cases "verify_resume v s x now ''permit'' ''event'' r")
  have st: "st' = (r', now)" "ok = resume_authorized d"
    using assms(1) by (auto simp: try_resume_def v)
  show thesis
    by (rule verify_resume_store [OF v]) (use that st in auto)
qed

interpretation resume_use: single_use "try_resume v" "\<lambda>i. ps_checkpoint (fst i)" "used_checkpoints v"
    resume_clock "\<lambda>st. resume_store_ok (rn_store (fst st))" for v
proof (unfold_locales, goal_cases)
  case (1 st i st')
  obtain r t where st: "st = (r, t)" by (cases st)
  obtain s x now where i: "i = (s, x, now)" by (cases i)
  from 1 st i have tr: "try_resume v (r, t) (s, x, now) = (True, st')" "resume_store_ok (rn_store r)" by auto
  show ?case
  proof (cases rule: try_resume_cases [OF tr])
    case (2 cl)
    then have "claim_for v (ps_checkpoint s) now (rn_store r) = (Inr Resume_claimed, rn_store (fst st'))" by simp
    from claim_resume_claimed(1,2) [OF tr(2) this] show ?thesis
      using 1(2) by (force simp: st i used_checkpoints_def resume_clock_def)
  qed simp
next
  case (2 st i st')
  obtain r t where st: "st = (r, t)" by (cases st)
  obtain s x now where i: "i = (s, x, now)" by (cases i)
  from 2 st i have tr: "try_resume v (r, t) (s, x, now) = (True, st')" "resume_store_ok (rn_store r)" by auto
  show ?case
  proof (cases rule: try_resume_cases [OF tr])
    case (2 cl)
    then have "claim_for v (ps_checkpoint s) now (rn_store r) = (Inr Resume_claimed, rn_store (fst st'))" by simp
    from claim_resume_claimed(4) [OF tr(2) this] show ?thesis by (simp add: i used_checkpoints_def)
  qed simp
next
  case (3 st i ok st')
  obtain r t where st: "st = (r, t)" by (cases st)
  obtain s x now where i: "i = (s, x, now)" by (cases i)
  from 3 st i have tr: "try_resume v (r, t) (s, x, now) = (ok, st')" "resume_store_ok (rn_store r)" by auto
  have now: "t \<le> now" using 3(2) st i by (simp add: resume_clock_def)
  show ?case
  proof (cases rule: try_resume_cases [OF tr])
    case 1
    then show ?thesis using now by (auto simp: used_checkpoints_def st)
  next
    case (2 cl)
    note keep = claim_resume_keeps [OF tr(2) 2(1)]
    show ?thesis
    proof
      fix c assume "c \<in> used_checkpoints v st"
      then consider "ck_expires_at c \<le> t"
        | y where "dict_get (rs_claims (rn_store r)) (checkpoint_digest (vf_crypto v) c) = Some y" "ck_expires_at c \<le> y"
        by (auto simp: used_checkpoints_def st)
      then show "c \<in> used_checkpoints v st'"
        by cases (use keep 2(3) now in \<open>fastforce simp: used_checkpoints_def\<close>)+
    qed
  qed
next
  case (4 st i ok st')
  obtain r t where st: "st = (r, t)" by (cases st)
  obtain s x now where i: "i = (s, x, now)" by (cases i)
  from 4 st i have tr: "try_resume v (r, t) (s, x, now) = (ok, st')" "resume_store_ok (rn_store r)" by auto
  show ?case
    by (cases rule: try_resume_cases [OF tr]) (use tr(2) claim_resume_ok [OF tr(2)] in auto)
qed

text \<open>
  A checkpoint resumes a workflow at most once. Along any sequence of attempts with a clock that
  does not run backwards, on a new store of any capacity, the checkpoints that were authorized are
  pairwise different, although the store forgets claims when they expire.
\<close>

theorem checkpoint_resumed_at_most_once:
  assumes "new_resume_store w c = Some (rn_store r)"
    and "all_admissible resume_clock (try_resume v) (r, t0) is"
  shows "distinct (map (\<lambda>i. ps_checkpoint (fst i)) (fst (run_attempts (try_resume v) (r, t0) is)))"
  using resume_use.accepted_at_most_once [OF _ assms(2) surjective_pairing] new_resume_store_ok [OF assms(1)] by simp

text \<open>
  Sequence numbers advance by exactly one while the latest claim of the workflow is live: an
  authorized checkpoint is the successor of the checkpoint claimed last, so an older or skipped one is
  refused, and it becomes the latest one.
\<close>

theorem resume_is_successor:
  assumes "require_resume v s x now pid uid r = (Inr t, r')" and "resume_store_ok (rn_store r)"
  shows "(case dict_get (rs_workflows (rn_store r)) (workflow_reference (vf_crypto v) (rt_workflow_id t)) of
      Some (m, _, _, until) \<Rightarrow> until \<le> now \<or> rt_sequence t = m + 1
    | None \<Rightarrow> True) \<and>
    dict_get (rs_workflows (rn_store r')) (workflow_reference (vf_crypto v) (rt_workflow_id t)) =
      Some (rt_sequence t, rt_checkpoint_digest t, rt_chain_head t, ck_expires_at (ps_checkpoint s))"
proof -
  from require_resume_Inr [OF assms(1)] have
    cl: "claim_for v (ps_checkpoint s) now (rn_store r) = (Inr Resume_claimed, rn_store r')"
    and t: "t = make_resume_permit v (ps_checkpoint s) now pid" by auto
  note c = claim_resume_claimed [OF assms(2) cl]
  have tf: "rt_workflow_id t = ck_workflow_id (ps_checkpoint s)" "rt_sequence t = ck_sequence (ps_checkpoint s)"
    "rt_checkpoint_digest t = checkpoint_digest (vf_crypto v) (ps_checkpoint s)"
    "rt_chain_head t = ck_chain_head (ps_checkpoint s)"
    by (simp_all add: t make_resume_permit_def)
  have "until \<le> now \<or> ck_sequence (ps_checkpoint s) = m + 1"
    if "dict_get (rs_workflows (rn_store r)) (workflow_reference (vf_crypto v) (ck_workflow_id (ps_checkpoint s))) =
      Some (m, e, g, until)" for m e g until
    using c(3) [OF that] by (cases "now < until") auto
  then show ?thesis using c(5) unfolding tf by (auto split: option.splits)
qed

text \<open>
  The store forgets a workflow's position when the latest claimed checkpoint expires: from then on it
  accepts any sequence number for it, older ones included, that has no live claim of its own.
\<close>

theorem resume_store_forgets_sequence:
  assumes "resume_store_ok s" and "dict_get (rs_workflows s) w = Some (m, d, h, until)" and "until \<le> now"
    and "now < x" and "dict_get (rs_claims s) d' = None"
    and "length (rs_claims s) < rs_max_claims s" and "length (rs_workflows s) < rs_max_workflows s"
  shows "fst (claim_resume w n d' h' x now s) = Inr Resume_claimed"
proof -
  note pg = purge_resume_gets [OF assms(1), of now]
  have "length (rs_claims (purge_resume now s)) < rs_max_claims (purge_resume now s)"
    "length (rs_workflows (purge_resume now s)) < rs_max_workflows (purge_resume now s)"
    using assms(6,7) by (auto simp: purge_resume_def intro: le_less_trans [OF length_filter_le])
  then show ?thesis
    using assms(2-5) pg(1) [of d'] pg(2) [of w]
    by (simp add: claim_resume_def Let_def sequence_status_def)
qed

section \<open>Round trip\<close>

text \<open>The verifier trusts a signer for what it signed at a time.\<close>

definition signer_trusted :: "'k wf_verifier \<Rightarrow> 'k \<Rightarrow> ident \<Rightarrow> datetime \<Rightarrow> bool" where
  "signer_trusted v sk auth t \<longleftrightarrow>
     (case dict_get (vf_keys v) (signer_key_id (vf_crypto v) sk) of
        None \<Rightarrow> False
      | Some k \<Rightarrow> wk_public_key k = wc_public (vf_crypto v) sk \<and> wk_authority_id k = auth \<and>
          auth \<in> set (wp_trusted_authorities (vf_policy v)) \<and> \<not> wk_revoked k \<and>
          (case wk_active_from k of None \<Rightarrow> True | Some u \<Rightarrow> u \<le> t) \<and>
          (case wk_expires_at k of None \<Rightarrow> True | Some u \<Rightarrow> t < u))"

text \<open>The context of a trusted anchor that expects exactly this checkpoint.\<close>

definition budget_limits :: "checkpoint \<Rightarrow> (ident, nat) dict" where
  "budget_limits c = foldl (\<lambda>m b. dict_set m (wb_budget_id b) (wb_limit b)) [] (ck_budgets c)"

definition anchor_of :: "'k wf_crypto \<Rightarrow> checkpoint \<Rightarrow> resume_context" where
  "anchor_of cy c = \<lparr>rx_workflow_id = ck_workflow_id c, rx_tenant_id = ck_tenant_id c,
     rx_agent_id = ck_agent_id c, rx_session_id = ck_session_id c, rx_goal_digest = ck_goal_digest c,
     rx_plan_digest = ck_plan_digest c, rx_policy_versions = ck_policy_versions c,
     rx_resume_authorization_digest = ck_resume_authorization_digest c, rx_sequence = ck_sequence c,
     rx_checkpoint_digest = checkpoint_digest cy c, rx_prior_digest = ck_prior_digest c,
     rx_chain_id = ck_chain_id c, rx_chain_length = ck_chain_length c, rx_chain_head = ck_chain_head c,
     rx_budget_limits = budget_limits c\<rparr>"

lemma dict_eq_refl [simp]: "dict_eq m m"
  by (simp add: dict_eq_def list_all_iff split_def)

lemma context_findings_anchor: "context_findings v c (anchor_of (vf_crypto v) c) = []"
  by (simp add: context_findings_def anchor_of_def checkpoint_identity_def context_identity_def)

lemma signer_trusted_findings:
  assumes "signer_trusted v sk auth t"
    and "\<And>m. wc_verify (vf_crypto v) (wc_public (vf_crypto v) sk) (wc_sign (vf_crypto v) sk m) m"
  shows "signature_findings v (signer_key_id (vf_crypto v) sk) auth (Some (wc_sign (vf_crypto v) sk m)) m t b = []"
  using assms by (auto simp: signature_findings_Nil signer_trusted_def split: option.splits)

text \<open>Signers are trusted, entries belong to the checkpoint's context and precede it.\<close>

definition entry_admissible :: "'k wf_verifier \<Rightarrow> checkpoint \<Rightarrow> datetime \<Rightarrow> 'k \<times> ident \<times> entry_args \<Rightarrow> bool" where
  "entry_admissible v c now = (\<lambda>(sk, auth, a).
     signer_trusted v sk auth (ea_occurred_at a) \<and> args_context a = expected_entry_context c \<and>
     ea_occurred_at a \<le> ck_issued_at c \<and> ea_occurred_at a \<le> now)"

lemma sign_chain_findings:
  assumes verify: "\<And>sk m. wc_verify (vf_crypto v) (wc_public (vf_crypto v) sk) (wc_sign (vf_crypto v) sk m) m"
    and skew: "0 \<le> wp_clock_skew (vf_policy v)"
  shows "sign_chain (vf_crypto v) prior as = Some es \<Longrightarrow> list_all (entry_admissible v c now) as \<Longrightarrow>
    distinct (map (\<lambda>(_, _, a). ea_entry_id a) as) \<Longrightarrow> (\<lambda>(_, _, a). ea_entry_id a) ` set as \<inter> seen = {} \<Longrightarrow>
    i = (case prior of None \<Rightarrow> 0 | Some q \<Rightarrow> we_sequence q + 1) \<Longrightarrow>
    entries_findings v c now seen prior i es = []"
proof (induction "as" arbitrary: prior es seen i)
  case (Cons y ys)
  let ?cy = "vf_crypto v"
  obtain sk auth a where y: "y = (sk, auth, a)" by (cases y)
  from Cons.prems(1) y obtain e es' where e: "sign_entry ?cy sk auth a prior = Some e"
    and es': "sign_chain ?cy (Some e) ys = Some es'" and es: "es = e # es'"
    by (auto split: option.splits)
  let ?u = "unsigned_entry ?cy sk auth a prior"
  note d = sign_entry_SomeD [OF e]
  have bytes: "entry_bytes ?cy e = entry_bytes ?cy ?u" by (simp add: d(1) entry_bytes_def unsigned_entry_def)
  have fields: "we_entry_id e = ea_entry_id a" "we_sequence e = i" "we_occurred_at e = ea_occurred_at a"
    "we_prior_digest e = map_option (entry_digest ?cy) prior" "entry_context e = args_context a"
    "we_key_id e = signer_key_id ?cy sk" "we_authority_id e = auth"
    "we_signature e = Some (wc_sign ?cy sk (entry_bytes ?cy ?u))"
    using Cons.prems(5) by (simp_all add: d(1) unsigned_entry_def entry_context_def args_context_def)
  have adm: "signer_trusted v sk auth (ea_occurred_at a)" "args_context a = expected_entry_context c"
    "ea_occurred_at a \<le> ck_issued_at c" "ea_occurred_at a \<le> now"
    using Cons.prems(2) y by (auto simp: entry_admissible_def)
  have "entry_findings v c now seen prior i e = []"
    using Cons.prems(4) y adm skew d(2) signer_trusted_findings [OF adm(1) verify, of "entry_bytes ?cy ?u" False]
    by (auto simp: entry_findings_def Let_def fields bytes not_less wf_when_def td_seconds_def split: option.splits)
  moreover have "entries_findings v c now (insert (we_entry_id e) seen) (Some e) (Suc i) es' = []"
    by (rule Cons.IH [OF es']) (use Cons.prems(2-4) y fields in auto)
  ultimately show ?case by (simp add: es)
qed simp

lemma sign_chain_length: "sign_chain cy prior as = Some es \<Longrightarrow> length es = length as"
  by (induction "as" arbitrary: prior es) (auto split: option.splits)

lemma sign_checkpoint_SomeD:
  assumes "sign_checkpoint cy sk auth a es prior = Some c"
  shows "c = (unsigned_checkpoint cy sk auth a es prior)\<lparr>ck_signature :=
      Some (wc_sign cy sk (checkpoint_bytes cy (unsigned_checkpoint cy sk auth a es prior)))\<rparr>"
    and "validate_checkpoint cy (unsigned_checkpoint cy sk auth a es prior)"
  using assms by (auto simp: sign_checkpoint_def Let_def split: if_splits)

text \<open>
  What trusted signers persisted can be resumed. If signatures verify under their public keys, a
  chain built with \<open>sign_entry\<close> and a checkpoint over it built with \<open>sign_checkpoint\<close>, presented within the
  checkpoint's lifetime and age to a verifier that trusts the signers, expects this checkpoint, and
  whose store has room and no claim for it, yields the permit for that checkpoint.
\<close>

theorem signed_workflow_resumes:
  assumes "\<And>sk m. wc_verify (vf_crypto v) (wc_public (vf_crypto v) sk) (wc_sign (vf_crypto v) sk m) m"
    and "wf_policy_ok (vf_policy v)"
    and "sign_chain (vf_crypto v) None as = Some es"
    and "sign_checkpoint (vf_crypto v) sk auth a es prior = Some c"
    and "list_all (entry_admissible v c now) as" and "distinct (map (\<lambda>(_, _, a). ea_entry_id a) as)"
    and "length as \<le> wp_max_chain (vf_policy v)" and "signer_trusted v sk auth (ca_issued_at a)"
    and "ck_issued_at c \<le> now" and "now < ck_expires_at c"
    and "now \<le> ck_issued_at c + td_seconds (wp_max_age (vf_policy v))"
    and "ck_expires_at c \<le> ck_issued_at c + td_seconds (wp_max_ttl (vf_policy v))"
    and "length (ck_pending_actions c) \<le> wp_max_actions (vf_policy v)"
    and "length (ck_pending_approvals c) \<le> wp_max_approvals (vf_policy v)"
    and "list_all (\<lambda>a. now < pa_expires_at a) (ck_pending_actions c)"
    and "list_all (\<lambda>a. now < pp_expires_at a) (ck_pending_approvals c)"
    and "vf_revoked v (ck_workflow_id c) (checkpoint_digest (vf_crypto v) c) now = Some False"
    and "vf_authorize v (anchor_of (vf_crypto v) c) c now = Some True"
    and "new_resume_store w q = Some (rn_store r)"
  shows "fst (require_resume v \<lparr>ps_checkpoint = c, ps_chain = es\<rparr> (anchor_of (vf_crypto v) c) now pid uid r) =
    Inr (make_resume_permit v c now pid)"
proof -
  let ?cy = "vf_crypto v" and ?s = "\<lparr>ps_checkpoint = c, ps_chain = es\<rparr>"
  let ?x = "anchor_of ?cy c" and ?u = "unsigned_checkpoint ?cy sk auth a es prior"
  note d = sign_checkpoint_SomeD [OF assms(4)]
  have skew: "0 \<le> wp_clock_skew (vf_policy v)" using assms(2) by (simp add: wf_policy_ok_def)
  have bytes: "checkpoint_bytes ?cy c = checkpoint_bytes ?cy ?u"
    by (simp add: d(1) checkpoint_bytes_def unsigned_checkpoint_def)
  have fields: "ck_key_id c = signer_key_id ?cy sk" "ck_authority_id c = auth" "ck_issued_at c = ca_issued_at a"
    "ck_signature c = Some (wc_sign ?cy sk (checkpoint_bytes ?cy ?u))" "ck_chain_length c = length es"
    "ck_chain_head c = chain_head ?cy es"
    by (simp_all add: d(1) unsigned_checkpoint_def)
  have "checkpoint_findings v c now = []"
    using signer_trusted_findings [OF assms(8) assms(1), of "checkpoint_bytes ?cy ?u" True] assms(9-12) skew
    by (simp add: checkpoint_findings_def Let_def fields bytes td_seconds_def)
  moreover have "chain_findings v ?s now = []"
    using sign_chain_findings [OF assms(1) skew assms(3,5,6), of "{}"] assms(7) sign_chain_length [OF assms(3)]
    by (simp add: chain_findings_def Let_def fields)
  moreover have "pending_findings v c ?x now = []"
    using assms(13-16) dict_eq_refl [of "budget_limits c"]
    by (simp add: pending_findings_def anchor_of_def budget_limits_def list_all_iff list_ex_iff not_le)
  moreover have "revocation_findings v c now = []"
    using assms(17) by (simp add: revocation_findings_def)
  ultimately have none: "resume_findings v ?s ?x now = []"
    by (simp add: resume_findings_def Let_def context_findings_anchor)
  obtain st where "claim_for v c now (rn_store r) = (Inr Resume_claimed, st)"
    using assms(10,19) that
    by (auto simp: claim_resume_def purge_resume_def sequence_status_def new_resume_store_def Let_def
        split: if_splits dest!: sym [of _ "rn_store r"])
  then show ?thesis
    using none assms(18)
    by (simp add: require_resume_def verify_resume_def Let_def resume_authorized_def)
qed

section \<open>Witnesses\<close>

text \<open>A toy scheme: digests are the text itself, a signature is the key in front of the message.\<close>

definition demo_wf_crypto :: "string wf_crypto" where
  "demo_wf_crypto = \<lparr>wc_sha256 = (\<lambda>s. s), wc_sign = (\<lambda>k m. k @ m), wc_verify = (\<lambda>pk s m. s = pk @ m),
     wc_public = (\<lambda>k. k), wc_entry_json = we_entry_id, wc_checkpoint_json = ck_checkpoint_id\<rparr>"

definition demo_wf_policy :: wf_policy where
  "demo_wf_policy = \<lparr>wp_trusted_authorities = [''ops''], wp_max_ttl = 3600, wp_max_age = 900,
     wp_clock_skew = 30, wp_max_chain = 10, wp_max_actions = 10, wp_max_approvals = 10, wp_permit_ttl = 60\<rparr>"

definition demo_wf_verifier :: "string wf_verifier" where
  "demo_wf_verifier = \<lparr>vf_crypto = demo_wf_crypto, vf_policy = demo_wf_policy,
     vf_keys = wf_key_table demo_wf_crypto [\<lparr>wk_authority_id = ''ops'', wk_public_key = ''K'',
       wk_active_from = None, wk_expires_at = None, wk_revoked = False\<rparr>],
     vf_authorize = (\<lambda>x c now. Some True), vf_revoked = (\<lambda>w d now. Some False)\<rparr>"

definition demo_entry_args :: "ident \<Rightarrow> datetime \<Rightarrow> entry_args" where
  "demo_entry_args i t = \<lparr>ea_chain_id = ''c'', ea_entry_id = i, ea_event_kind = Plan_accepted,
     ea_workflow_id = ''w'', ea_tenant_id = ''t'', ea_agent_id = ''a'', ea_session_id = ''s'',
     ea_goal_digest = ''g'', ea_plan_digest = ''p'', ea_occurred_at = t, ea_action_digest = None,
     ea_authorization_digest = None, ea_outcome_digest = None\<rparr>"

definition demo_wf_history :: "(string \<times> ident \<times> entry_args) list" where
  "demo_wf_history = [(''K'', ''ops'', demo_entry_args ''e1'' 1), (''K'', ''ops'', demo_entry_args ''e2'' 2)]"

definition demo_chain :: "wf_entry list" where
  "demo_chain = the (sign_chain demo_wf_crypto None demo_wf_history)"

definition demo_checkpoint_args :: checkpoint_args where
  "demo_checkpoint_args = \<lparr>ca_checkpoint_id = ''k1'', ca_workflow_id = ''w'', ca_tenant_id = ''t'',
     ca_agent_id = ''a'', ca_session_id = ''s'', ca_goal_digest = ''g'', ca_plan_digest = ''p'',
     ca_budgets = [\<lparr>wb_budget_id = ''b'', wb_limit = 5, wb_consumed = 1, wb_reserved = 1\<rparr>],
     ca_policy_versions = [\<lparr>wv_policy_id = ''q'', wv_version = 1, wv_policy_digest = ''d''\<rparr>],
     ca_pending_actions = [], ca_pending_approvals = [], ca_resume_authorization_digest = ''z'',
     ca_chain_id = ''c'', ca_issued_at = 3, ca_expires_at = 1000\<rparr>"

definition demo_checkpoint :: checkpoint where
  "demo_checkpoint = the (sign_checkpoint demo_wf_crypto ''K'' ''ops'' demo_checkpoint_args demo_chain None)"

definition demo_runtime :: wf_runtime where
  "demo_runtime = \<lparr>rn_store = \<lparr>rs_max_workflows = 4, rs_max_claims = 4, rs_workflows = [], rs_claims = []\<rparr>,
     rn_sink = None\<rparr>"

lemmas demo_wf_simps = demo_wf_crypto_def demo_wf_policy_def demo_wf_verifier_def demo_entry_args_def
  demo_wf_history_def demo_checkpoint_args_def demo_runtime_def wf_key_table_def wf_key_id_def
  workflow_reference_def signer_key_id_def entry_bytes_def entry_digest_def signature_text_def

lemma demo_chain_signed: "sign_chain demo_wf_crypto None demo_wf_history = Some demo_chain"
  by (simp add: demo_chain_def demo_wf_simps sign_entry_def unsigned_entry_def validate_link_def
      action_events_def entry_context_def args_context_def)

lemma demo_chain_facts:
  "length demo_chain = 2" "chain_head demo_wf_crypto demo_chain = ''e2Ke2''"
  "inj_on (entry_digest demo_wf_crypto) (set demo_chain)"
  by (simp_all add: demo_chain_def chain_head_def demo_wf_simps sign_entry_def unsigned_entry_def
      validate_link_def action_events_def entry_context_def args_context_def)

lemma demo_checkpoint_signed:
  "sign_checkpoint demo_wf_crypto ''K'' ''ops'' demo_checkpoint_args demo_chain None = Some demo_checkpoint"
  by (simp add: demo_checkpoint_def sign_checkpoint_def unsigned_checkpoint_def validate_checkpoint_def
      unique_sorted_def demo_checkpoint_args_def demo_chain_facts)

lemma demo_checkpoint_fields:
  "ck_issued_at demo_checkpoint = 3" "ck_expires_at demo_checkpoint = 1000"
  "ck_pending_actions demo_checkpoint = []" "ck_pending_approvals demo_checkpoint = []"
  "expected_entry_context demo_checkpoint = [''c'', ''w'', ''t'', ''a'', ''s'', ''g'', ''p'']"
  "ck_chain_length demo_checkpoint = 2" "ck_chain_head demo_checkpoint = ''e2Ke2''"
  "ck_key_id demo_checkpoint = ''sha256:K''" "ck_authority_id demo_checkpoint = ''ops''"
  "ck_checkpoint_id demo_checkpoint = ''k1''"
  "ck_sequence demo_checkpoint = 0" "ck_workflow_id demo_checkpoint = ''w''"
  by (simp_all add: sign_checkpoint_SomeD(1) [OF demo_checkpoint_signed] unsigned_checkpoint_def
      demo_checkpoint_args_def expected_entry_context_def demo_chain_facts signer_key_id_def workflow_reference_def
      demo_wf_crypto_def [THEN arg_cong [of _ _ wc_sha256]] demo_wf_crypto_def [THEN arg_cong [of _ _ wc_public]])

lemma demo_checkpoint_signature:
  "ck_signature demo_checkpoint = Some ''Kk1''" "checkpoint_bytes demo_wf_crypto demo_checkpoint = ''k1''"
proof -
  show "checkpoint_bytes demo_wf_crypto demo_checkpoint = ''k1''"
    by (simp add: checkpoint_bytes_def demo_wf_crypto_def demo_checkpoint_fields)
  then show "ck_signature demo_checkpoint = Some ''Kk1''"
    by (simp add: sign_checkpoint_SomeD(1) [OF demo_checkpoint_signed] checkpoint_bytes_def demo_wf_crypto_def
        unsigned_checkpoint_def demo_checkpoint_args_def)
qed

abbreviation demo_wf_state :: persisted_state where
  "demo_wf_state \<equiv> \<lparr>ps_checkpoint = demo_checkpoint, ps_chain = demo_chain\<rparr>"

theorem signed_workflow_resumes_witness:
  "fst (require_resume demo_wf_verifier demo_wf_state (anchor_of demo_wf_crypto demo_checkpoint) 10 ''p'' ''u''
     demo_runtime) = Inr (make_resume_permit demo_wf_verifier demo_checkpoint 10 ''p'')"
proof -
  have v: "vf_crypto demo_wf_verifier = demo_wf_crypto" by (simp add: demo_wf_verifier_def)
  show ?thesis
    by (rule signed_workflow_resumes [where v = demo_wf_verifier and w = 4 and q = 4, unfolded v,
          OF _ _ demo_chain_signed demo_checkpoint_signed])
      (simp_all add: demo_checkpoint_fields demo_wf_simps wf_policy_ok_def entry_admissible_def
        signer_trusted_def args_context_def td_seconds_def new_resume_store_def)
qed

lemma demo_no_findings:
  "resume_findings demo_wf_verifier demo_wf_state (anchor_of demo_wf_crypto demo_checkpoint) 10 = []"
proof -
  have v: "vf_crypto demo_wf_verifier = demo_wf_crypto" "vf_policy demo_wf_verifier = demo_wf_policy"
    by (simp_all add: demo_wf_verifier_def)
  have skew: "0 \<le> wp_clock_skew (vf_policy demo_wf_verifier)" by (simp add: v demo_wf_policy_def)
  have "entries_findings demo_wf_verifier demo_checkpoint 10 {} None 0 demo_chain = []"
    by (rule sign_chain_findings [OF _ skew demo_chain_signed [folded v(1)]])
      (simp_all add: demo_wf_simps demo_checkpoint_fields entry_admissible_def signer_trusted_def args_context_def)
  then show ?thesis
    using context_findings_anchor [of demo_wf_verifier demo_checkpoint]
    by (simp add: resume_findings_def checkpoint_findings_def chain_findings_def pending_findings_def
        revocation_findings_def signature_findings_def demo_checkpoint_fields demo_checkpoint_signature
        demo_chain_facts v Let_def
        anchor_of_def budget_limits_def)
      (simp add: demo_wf_simps td_seconds_def demo_checkpoint_fields
        demo_checkpoint_signature [unfolded demo_wf_crypto_def])
qed

lemma demo_resumed:
  obtains r' where "require_resume demo_wf_verifier demo_wf_state (anchor_of demo_wf_crypto demo_checkpoint) 10 ''p'' ''u''
     demo_runtime = (Inr (make_resume_permit demo_wf_verifier demo_checkpoint 10 ''p''), r')"
proof -
  have "vf_authorize demo_wf_verifier x c now = Some True" for x c now by (simp add: demo_wf_verifier_def)
  then show thesis
    using demo_no_findings that
    by (simp add: require_resume_def verify_resume_def Let_def resume_authorized_def claim_resume_def
        purge_resume_def sequence_status_def demo_runtime_def demo_checkpoint_fields)
qed

lemma demo_runtime_ok: "resume_store_ok (rn_store demo_runtime)"
  by (simp add: demo_runtime_def resume_store_ok_def)

theorem authorized_resume_authentic_witness:
  "\<exists>t :: resume_permit. rt_checkpoint_digest t = checkpoint_digest demo_wf_crypto demo_checkpoint \<and> rt_issued_at t = 10 \<and>
     10 < ck_expires_at demo_checkpoint"
proof -
  obtain r' where "require_resume demo_wf_verifier demo_wf_state (anchor_of demo_wf_crypto demo_checkpoint) 10
      ''p'' ''u'' demo_runtime = (Inr (make_resume_permit demo_wf_verifier demo_checkpoint 10 ''p''), r')"
    by (rule demo_resumed)
  from authorized_resume_authentic [OF this] show ?thesis
    by - (rule exI [of _ "make_resume_permit demo_wf_verifier demo_checkpoint 10 ''p''"],
        simp add: anchor_of_def, blast)
qed

theorem resumed_chain_is_anchored_witness: "ps_chain demo_wf_state = demo_chain"
proof -
  have v: "vf_crypto demo_wf_verifier = demo_wf_crypto" by (simp add: demo_wf_verifier_def)
  obtain r' where "require_resume demo_wf_verifier demo_wf_state (anchor_of demo_wf_crypto demo_checkpoint) 10
      ''p'' ''u'' demo_runtime = (Inr (make_resume_permit demo_wf_verifier demo_checkpoint 10 ''p''), r')"
    by (rule demo_resumed)
  from resumed_chain_is_anchored [OF this, unfolded v, OF demo_chain_signed] show ?thesis
    using demo_chain_facts by (simp add: anchor_of_def demo_checkpoint_fields)
qed

theorem resume_is_successor_witness:
  "\<exists>(t :: resume_permit) (r' :: wf_runtime). dict_get (rs_workflows (rn_store r')) (workflow_reference demo_wf_crypto ''w'') =
     Some (0, rt_checkpoint_digest t, ''e2Ke2'', 1000)"
proof -
  obtain r' where "require_resume demo_wf_verifier demo_wf_state (anchor_of demo_wf_crypto demo_checkpoint) 10
      ''p'' ''u'' demo_runtime = (Inr (make_resume_permit demo_wf_verifier demo_checkpoint 10 ''p''), r')"
    by (rule demo_resumed)
  from resume_is_successor [OF this demo_runtime_ok] show ?thesis
    by - (rule exI [of _ "make_resume_permit demo_wf_verifier demo_checkpoint 10 ''p''"], rule exI [of _ r'],
        simp add: make_resume_permit_def demo_checkpoint_fields demo_wf_verifier_def)
qed

theorem checkpoint_resumed_at_most_once_witness:
  "distinct (map (\<lambda>i. ps_checkpoint (fst i)) (fst (run_attempts (try_resume demo_wf_verifier) (demo_runtime, 0)
     [(demo_wf_state, anchor_of demo_wf_crypto demo_checkpoint, 10), (demo_wf_state, anchor_of demo_wf_crypto demo_checkpoint, 12)])))"
  by (rule checkpoint_resumed_at_most_once [of 4 4])
    (simp_all add: new_resume_store_def demo_runtime_def resume_clock_def try_resume_def split_def Let_def)

theorem resume_store_forgets_sequence_witness:
  "fst (claim_resume ''w'' 3 ''d3'' ''h3'' 200 100 \<lparr>rs_max_workflows = 4, rs_max_claims = 4,
     rs_workflows = [(''w'', 5, ''d5'', ''h5'', 100)], rs_claims = [(''d5'', 100)]\<rparr>) = Inr Resume_claimed"
  by (rule resume_store_forgets_sequence [of _ _ 5 "''d5''" "''h5''" 100])
    (simp_all add: resume_store_ok_def dict_ok_def)

end
