(* ===== verification/Delegated_Identity.thy ===== *)
theory Delegated_Identity
  imports Core_Models
begin

text \<open>
  \<open>delegated_identity.py\<close> and \<open>models/delegated_identity.py\<close>: agent identities, integrity-bound
  capabilities, their delegation chains, step-up and just-in-time grants, and the authorizer with its
  revocations and used grants. Digests are the fields of the record \<open>di_hash\<close>, external verifiers and the
  shared revocation state are functions that may raise (\<open>None\<close>). \<open>authorize\<close> reads its state once without
  and once with the lock held; both halves are definitions of their own, so that other operations can
  come between them. Identifier patterns are not modelled.
\<close>

section \<open>Identities, capabilities and chains\<close>

datatype identity_kind = Id_human | Id_service | Id_agent | Id_sub_agent

record agent_identity =
  ag_identity_id :: ident
  ag_kind :: identity_kind
  ag_tenant_id :: ident

record capability =
  dc_capability_id :: ident
  dc_issuer :: agent_identity
  dc_subject :: agent_identity
  dc_scopes :: "ident set"
  dc_delegatable :: "ident set"
  dc_audiences :: "ident set"
  dc_purpose_id :: ident
  dc_issued_at :: datetime
  dc_not_before :: datetime
  dc_expires_at :: datetime
  dc_depth :: nat
  dc_max_depth :: nat
  dc_parent_id :: "ident option"
  dc_parent_digest :: "string option"
  dc_digest :: string

type_synonym delegation_chain = "capability list"

text \<open>
  SHA-256 over the canonical JSON of: the fields of a capability but its digest, a list of digests,
  and the fields of an access request.
\<close>

type_synonym request_fields = "ident \<times> string \<times> ident \<times> agent_identity \<times> ident \<times> ident set \<times> ident"

record di_hash =
  dh_capability :: "capability \<Rightarrow> string"
  dh_digests :: "string list \<Rightarrow> string"
  dh_request :: "request_fields \<Rightarrow> string"

definition capability_digest :: "di_hash \<Rightarrow> capability \<Rightarrow> string" where
  "capability_digest h c = dh_capability h (c\<lparr>dc_digest := []\<rparr>)"

definition capability_integrity :: "di_hash \<Rightarrow> capability \<Rightarrow> bool" where
  "capability_integrity h c \<longleftrightarrow> dc_digest c = capability_digest h c"

definition validate_capability :: "di_hash \<Rightarrow> capability \<Rightarrow> bool" where
  "validate_capability h c \<longleftrightarrow>
     dc_scopes c \<noteq> {} \<and> dc_audiences c \<noteq> {} \<and> dc_max_depth c \<le> 100 \<and>
     ag_tenant_id (dc_issuer c) = ag_tenant_id (dc_subject c) \<and> dc_delegatable c \<subseteq> dc_scopes c \<and>
     \<not> dc_not_before c < dc_issued_at c \<and> \<not> dc_expires_at c \<le> dc_not_before c \<and>
     \<not> dc_max_depth c < dc_depth c \<and>
     \<not> (dc_depth c = 0 \<and> (dc_parent_id c \<noteq> None \<or> dc_parent_digest c \<noteq> None)) \<and>
     \<not> (0 < dc_depth c \<and> (dc_parent_id c = None \<or> dc_parent_digest c = None)) \<and>
     capability_integrity h c"

record capability_args =
  ga_capability_id :: ident
  ga_issuer :: agent_identity
  ga_subject :: agent_identity
  ga_scopes :: "ident set"
  ga_audiences :: "ident set"
  ga_purpose_id :: ident
  ga_issued_at :: datetime
  ga_not_before :: datetime
  ga_expires_at :: datetime
  ga_depth :: nat
  ga_max_depth :: nat
  ga_delegatable :: "ident set"

text \<open>\<open>None\<close> where the validator of the new capability raises.\<close>

definition create_capability :: "di_hash \<Rightarrow> capability_args \<Rightarrow> capability option \<Rightarrow> capability option" where
  "create_capability h a parent =
     (let c = \<lparr>dc_capability_id = ga_capability_id a, dc_issuer = ga_issuer a, dc_subject = ga_subject a,
            dc_scopes = ga_scopes a, dc_delegatable = ga_delegatable a, dc_audiences = ga_audiences a,
            dc_purpose_id = ga_purpose_id a, dc_issued_at = ga_issued_at a,
            dc_not_before = ga_not_before a, dc_expires_at = ga_expires_at a, dc_depth = ga_depth a,
            dc_max_depth = ga_max_depth a, dc_parent_id = map_option dc_capability_id parent,
            dc_parent_digest = map_option dc_digest parent, dc_digest = []\<rparr>;
          c' = c\<lparr>dc_digest := capability_digest h c\<rparr>
      in if validate_capability h c' then Some c' else None)"

text \<open>The validator of a chain, over the capabilities from depth \<open>i\<close> on.\<close>

definition narrows :: "capability \<Rightarrow> capability \<Rightarrow> bool" where
  "narrows p c \<longleftrightarrow> dc_parent_id c = Some (dc_capability_id p) \<and> dc_parent_digest c = Some (dc_digest p) \<and>
     dc_issuer c = dc_subject p \<and> ag_tenant_id (dc_subject c) = ag_tenant_id (dc_subject p) \<and>
     dc_scopes c \<subseteq> dc_delegatable p \<and> dc_audiences c \<subseteq> dc_audiences p \<and>
     dc_purpose_id c = dc_purpose_id p \<and> \<not> dc_issued_at c < dc_issued_at p \<and>
     \<not> dc_not_before c < dc_not_before p \<and> \<not> dc_expires_at p < dc_expires_at c \<and>
     \<not> dc_max_depth p < dc_max_depth c"

fun links_valid :: "nat \<Rightarrow> capability option \<Rightarrow> delegation_chain \<Rightarrow> bool" where
  "links_valid i prev [] = True"
| "links_valid i prev (c # cs) =
     (dc_depth c = i \<and> (case prev of None \<Rightarrow> True | Some p \<Rightarrow> narrows p c) \<and> links_valid (Suc i) (Some c) cs)"

definition validate_chain :: "delegation_chain \<Rightarrow> bool" where
  "validate_chain cs \<longleftrightarrow> cs \<noteq> [] \<and> length cs \<le> 101 \<and> links_valid 0 None cs"

definition chain_leaf :: "delegation_chain \<Rightarrow> capability" where
  "chain_leaf cs = last cs"

definition chain_initiator :: "delegation_chain \<Rightarrow> agent_identity" where
  "chain_initiator cs = dc_issuer (hd cs)"

definition chain_digest :: "di_hash \<Rightarrow> delegation_chain \<Rightarrow> string" where
  "chain_digest h cs = dh_digests h (map dc_digest cs)"

section \<open>Grants, requests and results\<close>

datatype grant_kind = Step_up | Just_in_time

record access_grant =
  dg_grant_id :: ident
  dg_kind :: grant_kind
  dg_request_digest :: string
  dg_subject_id :: ident
  dg_tenant_id :: ident
  dg_approved_scopes :: "ident set"
  dg_assurance :: nat
  dg_issued_at :: datetime
  dg_expires_at :: datetime

definition access_grant_ok :: "access_grant \<Rightarrow> bool" where
  "access_grant_ok g \<longleftrightarrow> dg_approved_scopes g \<noteq> {} \<and> dg_assurance g \<le> 4 \<and> dg_issued_at g < dg_expires_at g"

record access_policy =
  dp_trusted_roots :: "ident set"
  dp_allowed_audiences :: "ident set"
  dp_max_lifetime :: int
  dp_max_grant_lifetime :: int
  dp_max_depth :: nat
  dp_authorization_ttl :: int
  dp_step_up_scopes :: "ident set"
  dp_jit_scopes :: "ident set"
  dp_min_assurance :: nat

record access_request =
  dr_presenter :: agent_identity
  dr_chain :: delegation_chain
  dr_audience :: ident
  dr_purpose_id :: ident
  dr_scopes :: "ident set"
  dr_tenant_id :: ident
  dr_operation_id :: ident
  dr_grants :: "access_grant list"

definition access_request_ok :: "access_request \<Rightarrow> bool" where
  "access_request_ok r \<longleftrightarrow> validate_chain (dr_chain r) \<and> dr_scopes r \<noteq> {} \<and> length (dr_grants r) \<le> 2 \<and>
     distinct (map dg_grant_id (dr_grants r)) \<and> distinct (map dg_kind (dr_grants r))"

definition access_request_digest :: "di_hash \<Rightarrow> access_request \<Rightarrow> string" where
  "access_request_digest h r = dh_request h (dr_audience r, chain_digest h (dr_chain r), dr_operation_id r,
     dr_presenter r, dr_purpose_id r, dr_scopes r, dr_tenant_id r)"

datatype access_code =
    Di_chain_integrity_invalid | Di_chain_link_invalid | Di_root_issuer_untrusted | Di_capability_invalid
  | Di_capability_not_yet_valid | Di_capability_expired | Di_capability_lifetime_exceeded
  | Di_capability_revoked | Di_capability_status_unavailable | Di_depth_exceeded
  | Di_presenter_mismatch | Di_tenant_mismatch | Di_audience_denied | Di_purpose_mismatch
  | Di_scope_denied | Di_privilege_amplification | Di_step_up_required | Di_jit_required
  | Di_grant_invalid | Di_grant_expired | Di_grant_replayed

record access_finding =
  df_code :: access_code
  df_severity :: severity
  df_message :: string

definition di_find :: "access_code \<Rightarrow> severity \<Rightarrow> string \<Rightarrow> access_finding" where
  "di_find c s m = \<lparr>df_code = c, df_severity = s, df_message = m\<rparr>"

text \<open>A finding when a check applies.\<close>

definition di_when :: "bool \<Rightarrow> access_code \<Rightarrow> severity \<Rightarrow> string \<Rightarrow> access_finding list" where
  "di_when b c s m = (if b then [di_find c s m] else [])"

lemma di_when_Nil [simp]: "di_when b c s m = [] \<longleftrightarrow> \<not> b"
  by (simp add: di_when_def)

record access_authorization =
  da_authorization_id :: ident
  da_request_digest :: string
  da_chain_digest :: string
  da_capability_id :: ident
  da_actor_id :: ident
  da_initiator_id :: ident
  da_tenant_id :: ident
  da_audience :: ident
  da_purpose_id :: ident
  da_operation_id :: ident
  da_scopes :: "ident set"
  da_expires_at :: datetime

record access_result =
  ds_action :: guard_action
  ds_findings :: "access_finding list"
  ds_authorization :: "access_authorization option"

definition access_authorized :: "access_result \<Rightarrow> bool" where
  "access_authorized r \<longleftrightarrow> ds_action r = ALLOW \<and> ds_authorization r \<noteq> None"

record revocation =
  rk_capability_id :: ident
  rk_revoked_by :: ident
  rk_reason_code :: ident
  rk_revoked_at :: datetime

record tool_principal =
  tp_actor_id :: ident
  tp_subject_id :: ident
  tp_tenant_id :: ident
  tp_scopes :: "ident set"

section \<open>The authorizer\<close>

text \<open>A verifier or provider that is not configured is the outer \<open>None\<close>.\<close>

record di_env =
  de_hash :: di_hash
  de_policy :: access_policy
  de_verify_capability :: "(capability \<Rightarrow> bool option) option"
  de_verify_grant :: "(access_grant \<Rightarrow> bool option) option"
  de_external :: "(ident \<Rightarrow> datetime \<Rightarrow> bool option) option"

record di_state =
  dt_revocations :: "(ident, revocation) dict"
  dt_used_grants :: "ident set"

definition new_authorizer :: di_state where
  "new_authorizer = \<lparr>dt_revocations = [], dt_used_grants = {}\<rparr>"

definition revoke_capability :: "ident \<Rightarrow> ident \<Rightarrow> ident \<Rightarrow> datetime \<Rightarrow> di_state \<Rightarrow> revocation \<times> di_state" where
  "revoke_capability cid who reason now s =
     (let r = \<lparr>rk_capability_id = cid, rk_revoked_by = who, rk_reason_code = reason, rk_revoked_at = now\<rparr> in
      (case dict_get (dt_revocations s) cid of
         Some e \<Rightarrow> if rk_revoked_at e \<le> rk_revoked_at r then (e, s)
                   else (r, s\<lparr>dt_revocations := dict_set (dt_revocations s) cid r\<rparr>)
       | None \<Rightarrow> (r, s\<lparr>dt_revocations := dict_set (dt_revocations s) cid r\<rparr>)))"

text \<open>An optional verifier: absent, raising and refusing are all a refusal.\<close>

definition verified_by :: "('a \<Rightarrow> bool option) option \<Rightarrow> 'a \<Rightarrow> bool" where
  "verified_by f x \<longleftrightarrow> (case f of None \<Rightarrow> False | Some g \<Rightarrow> g x = Some True)"

definition link_findings :: "capability \<Rightarrow> capability \<Rightarrow> access_finding list" where
  "link_findings p c =
     di_when (dc_parent_id c \<noteq> Some (dc_capability_id p) \<or> dc_parent_digest c \<noteq> Some (dc_digest p) \<or>
         dc_issuer c \<noteq> dc_subject p \<or> ag_tenant_id (dc_subject c) \<noteq> ag_tenant_id (dc_subject p) \<or>
         \<not> dc_audiences c \<subseteq> dc_audiences p \<or> dc_purpose_id c \<noteq> dc_purpose_id p \<or>
         dc_issued_at c < dc_issued_at p \<or> dc_not_before c < dc_not_before p \<or>
         dc_expires_at p < dc_expires_at c \<or> dc_max_depth p < dc_max_depth c)
       Di_chain_link_invalid CRITICAL ''Delegated capability is not an exact narrowing of its parent'' @
     di_when (\<not> dc_scopes c \<subseteq> dc_delegatable p) Di_privilege_amplification CRITICAL
       ''Delegated scopes exceed the parent's delegatable privileges''"

definition capability_findings :: "di_env \<Rightarrow> datetime \<Rightarrow> nat \<Rightarrow> capability \<Rightarrow> access_finding list" where
  "capability_findings e now i c =
     (let p = de_policy e in
      di_when (\<not> capability_integrity (de_hash e) c) Di_chain_integrity_invalid CRITICAL
        ''Capability integrity does not match its security fields'' @
      di_when (dc_depth c \<noteq> i) Di_chain_link_invalid CRITICAL ''Delegation depths are not contiguous'' @
      di_when (dp_max_depth p < dc_depth c \<or> dp_max_depth p < dc_max_depth c) Di_depth_exceeded CRITICAL
        ''Capability exceeds the policy delegation depth'' @
      di_when (td_seconds (dp_max_lifetime p) < dc_expires_at c - dc_issued_at c)
        Di_capability_lifetime_exceeded HIGH ''Capability lifetime exceeds policy'' @
      di_when (now < dc_not_before c) Di_capability_not_yet_valid HIGH ''Capability is not valid yet'' @
      di_when (dc_expires_at c \<le> now) Di_capability_expired HIGH ''Capability has expired'' @
      di_when (\<not> verified_by (de_verify_capability e) c) Di_capability_invalid CRITICAL
        ''Capability authenticity could not be verified'')"

fun capabilities_findings ::
  "di_env \<Rightarrow> datetime \<Rightarrow> nat \<Rightarrow> capability option \<Rightarrow> delegation_chain \<Rightarrow> access_finding list" where
  "capabilities_findings e now i prev [] = []"
| "capabilities_findings e now i prev (c # cs) =
     capability_findings e now i c @ (case prev of None \<Rightarrow> [] | Some p \<Rightarrow> link_findings p c) @
     capabilities_findings e now (Suc i) (Some c) cs"

definition revoked_at :: "di_state \<Rightarrow> ident \<Rightarrow> datetime \<Rightarrow> bool" where
  "revoked_at s cid now \<longleftrightarrow>
     (case dict_get (dt_revocations s) cid of None \<Rightarrow> False | Some r \<Rightarrow> rk_revoked_at r \<le> now)"

definition local_revocation_findings :: "delegation_chain \<Rightarrow> datetime \<Rightarrow> di_state \<Rightarrow> access_finding list" where
  "local_revocation_findings cs now s =
     take 1 (map (\<lambda>c. di_find Di_capability_revoked CRITICAL ''Delegation chain contains a revoked capability'')
       (filter (\<lambda>c. revoked_at s (dc_capability_id c) now) cs))"

definition delegation_findings :: "di_env \<Rightarrow> delegation_chain \<Rightarrow> datetime \<Rightarrow> di_state \<Rightarrow> access_finding list" where
  "delegation_findings e cs now s =
     (case cs of
        [] \<Rightarrow> [di_find Di_chain_integrity_invalid CRITICAL ''Delegation chain must contain a root capability'']
      | c0 # _ \<Rightarrow>
          di_when (ag_identity_id (dc_issuer c0) \<notin> dp_trusted_roots (de_policy e) \<or>
              ag_kind (dc_issuer c0) \<notin> {Id_human, Id_service}) Di_root_issuer_untrusted CRITICAL
            ''Root capability issuer is not trusted by policy'' @
          capabilities_findings e now 0 None cs @ local_revocation_findings cs now s)"

definition access_request_findings :: "di_env \<Rightarrow> access_request \<Rightarrow> access_finding list" where
  "access_request_findings e r =
     (let leaf = chain_leaf (dr_chain r) in
      di_when (dr_presenter r \<noteq> dc_subject leaf) Di_presenter_mismatch CRITICAL
        ''Capability was forwarded to or presented by another identity'' @
      di_when (dr_tenant_id r \<noteq> ag_tenant_id (dc_subject leaf) \<or>
          list_ex (\<lambda>c. ag_tenant_id (dc_issuer c) \<noteq> dr_tenant_id r \<or> ag_tenant_id (dc_subject c) \<noteq> dr_tenant_id r)
            (dr_chain r)) Di_tenant_mismatch CRITICAL ''Delegated access crosses a tenant boundary'' @
      di_when (dr_audience r \<notin> dp_allowed_audiences (de_policy e) \<or> dr_audience r \<notin> dc_audiences leaf)
        Di_audience_denied CRITICAL ''Capability audience does not match the target service or tool'' @
      di_when (dr_purpose_id r \<noteq> dc_purpose_id leaf) Di_purpose_mismatch CRITICAL
        ''Capability purpose does not match the proposed operation'' @
      di_when (\<not> dr_scopes r \<subseteq> dc_scopes leaf) Di_scope_denied CRITICAL
        ''Requested privileges exceed the leaf capability'')"

text \<open>\<open>any(provider.is_revoked(...))\<close>: stops at the first revoked capability, \<open>None\<close> where it raises.\<close>

fun any_revoked :: "(ident \<Rightarrow> datetime \<Rightarrow> bool option) \<Rightarrow> datetime \<Rightarrow> delegation_chain \<Rightarrow> bool option" where
  "any_revoked f now [] = Some False"
| "any_revoked f now (c # cs) =
     (case f (dc_capability_id c) now of
        None \<Rightarrow> None
      | Some True \<Rightarrow> Some True
      | Some False \<Rightarrow> any_revoked f now cs)"

definition external_revocation_findings :: "di_env \<Rightarrow> delegation_chain \<Rightarrow> datetime \<Rightarrow> access_finding list" where
  "external_revocation_findings e cs now =
     (case de_external e of
        None \<Rightarrow> []
      | Some f \<Rightarrow>
          (case any_revoked f now cs of
             None \<Rightarrow> [di_find Di_capability_status_unavailable CRITICAL
                       ''Shared capability revocation status is unavailable'']
           | Some b \<Rightarrow> di_when b Di_capability_revoked CRITICAL
                       ''Delegation chain contains a revoked capability''))"

definition validate_grant ::
  "di_env \<Rightarrow> access_request \<Rightarrow> access_grant \<Rightarrow> ident set \<Rightarrow> datetime \<Rightarrow> di_state \<Rightarrow> access_finding list" where
  "validate_grant e r g required now s =
     di_when ((dg_request_digest g \<noteq> access_request_digest (de_hash e) r \<or>
         dg_subject_id g \<noteq> ag_identity_id (dr_presenter r) \<or> dg_tenant_id g \<noteq> dr_tenant_id r \<or>
         dg_approved_scopes g \<noteq> required \<or> now < dg_issued_at g \<or>
         td_seconds (dp_max_grant_lifetime (de_policy e)) < dg_expires_at g - dg_issued_at g \<or>
         (dg_kind g = Step_up \<and> dg_assurance g < dp_min_assurance (de_policy e))) \<or>
         \<not> verified_by (de_verify_grant e) g) Di_grant_invalid CRITICAL
       ''Privilege grant is not valid for this exact request'' @
     di_when (dg_expires_at g \<le> now) Di_grant_expired HIGH ''Privilege grant has expired'' @
     di_when (dg_grant_id g \<in> dt_used_grants s) Di_grant_replayed CRITICAL
       ''Privilege grant has already been consumed''"

text \<open>One kind of grant: the last supplied one of the kind counts.\<close>

definition grant_of_kind :: "access_request \<Rightarrow> grant_kind \<Rightarrow> access_grant option" where
  "grant_of_kind r k = find (\<lambda>g. dg_kind g = k) (rev (dr_grants r))"

definition kind_findings ::
  "di_env \<Rightarrow> access_request \<Rightarrow> datetime \<Rightarrow> di_state \<Rightarrow> grant_kind \<Rightarrow> ident set \<Rightarrow> access_code \<Rightarrow> access_finding list" where
  "kind_findings e r now s k scopes required_code =
     (case grant_of_kind r k of
        None \<Rightarrow> di_when (scopes \<noteq> {}) required_code HIGH ''An out-of-band privilege elevation is required''
      | Some g \<Rightarrow>
          if scopes = {} then [di_find Di_grant_invalid HIGH
            ''Privilege grant was supplied for an operation that does not require it'']
          else validate_grant e r g scopes now s)"

definition grant_findings :: "di_env \<Rightarrow> access_request \<Rightarrow> datetime \<Rightarrow> di_state \<Rightarrow> access_finding list" where
  "grant_findings e r now s =
     kind_findings e r now s Step_up (dr_scopes r \<inter> dp_step_up_scopes (de_policy e)) Di_step_up_required @
     kind_findings e r now s Just_in_time (dr_scopes r \<inter> dp_jit_scopes (de_policy e)) Di_jit_required"

text \<open>What \<open>authorize\<close> checks before it takes the lock.\<close>

definition access_checks :: "di_env \<Rightarrow> access_request \<Rightarrow> datetime \<Rightarrow> di_state \<Rightarrow> access_finding list" where
  "access_checks e r now s =
     (if dr_chain r = [] then delegation_findings e (dr_chain r) now s
      else delegation_findings e (dr_chain r) now s @ access_request_findings e r @
        external_revocation_findings e (dr_chain r) now @ grant_findings e r now s)"

definition access_blocked :: "access_finding list \<Rightarrow> access_result" where
  "access_blocked fs = \<lparr>ds_action = BLOCK, ds_findings = fs, ds_authorization = None\<rparr>"

definition refuse_access :: "access_request \<Rightarrow> access_finding list \<Rightarrow> access_result" where
  "refuse_access r fs =
     (if dr_chain r \<noteq> [] \<and> list_all (\<lambda>f. df_code f \<in> {Di_step_up_required, Di_jit_required}) fs
      then \<lparr>ds_action = REQUIRE_APPROVAL, ds_findings = fs, ds_authorization = None\<rparr>
      else access_blocked fs)"

definition mutable_access_findings :: "access_request \<Rightarrow> datetime \<Rightarrow> di_state \<Rightarrow> access_finding list" where
  "mutable_access_findings r now s =
     local_revocation_findings (dr_chain r) now s @
     map (\<lambda>g. di_find Di_grant_replayed CRITICAL ''Privilege grant has already been consumed'')
       (filter (\<lambda>g. dg_grant_id g \<in> dt_used_grants s) (dr_grants r))"

definition make_access :: "di_env \<Rightarrow> access_request \<Rightarrow> datetime \<Rightarrow> ident \<Rightarrow> access_authorization" where
  "make_access e r now uid =
     (let leaf = chain_leaf (dr_chain r) in
      \<lparr>da_authorization_id = uid, da_request_digest = access_request_digest (de_hash e) r,
       da_chain_digest = chain_digest (de_hash e) (dr_chain r), da_capability_id = dc_capability_id leaf,
       da_actor_id = ag_identity_id (dc_subject leaf),
       da_initiator_id = ag_identity_id (chain_initiator (dr_chain r)), da_tenant_id = dr_tenant_id r,
       da_audience = dr_audience r, da_purpose_id = dr_purpose_id r, da_operation_id = dr_operation_id r,
       da_scopes = dr_scopes r,
       da_expires_at = foldl min (dc_expires_at leaf)
         ((now + td_seconds (dp_authorization_ttl (de_policy e))) # map dg_expires_at (dr_grants r))\<rparr>)"

text \<open>What happens under the lock: the last checks, and the grants become used.\<close>

definition access_commit :: "di_env \<Rightarrow> access_request \<Rightarrow> datetime \<Rightarrow> ident \<Rightarrow> di_state \<Rightarrow> access_result \<times> di_state" where
  "access_commit e r now uid s =
     (let fs = mutable_access_findings r now s in
      if fs \<noteq> [] then (access_blocked fs, s)
      else (\<lparr>ds_action = ALLOW, ds_findings = [], ds_authorization = Some (make_access e r now uid)\<rparr>,
            s\<lparr>dt_used_grants := dt_used_grants s \<union> set (map dg_grant_id (dr_grants r))\<rparr>))"

definition authorize_access :: "di_env \<Rightarrow> access_request \<Rightarrow> datetime \<Rightarrow> ident \<Rightarrow> di_state \<Rightarrow> access_result \<times> di_state" where
  "authorize_access e r now uid s =
     (let fs = access_checks e r now s in
      if fs \<noteq> [] then (refuse_access r fs, s) else access_commit e r now uid s)"

definition require_access ::
  "di_env \<Rightarrow> access_request \<Rightarrow> datetime \<Rightarrow> ident \<Rightarrow> di_state \<Rightarrow> (access_result + access_authorization) \<times> di_state" where
  "require_access e r now uid s =
     (let (d, s') = authorize_access e r now uid s in
      (case ds_authorization d of
         Some a \<Rightarrow> (if access_authorized d then Inr a else Inl d, s')
       | None \<Rightarrow> (Inl d, s')))"

definition to_tool_principal :: "access_authorization \<Rightarrow> datetime \<Rightarrow> tool_principal option" where
  "to_tool_principal a now =
     (if da_expires_at a \<le> now then None
      else Some \<lparr>tp_actor_id = da_actor_id a, tp_subject_id = da_initiator_id a, tp_tenant_id = da_tenant_id a,
        tp_scopes = da_scopes a\<rparr>)"

text \<open>The verifiers for tests and examples.\<close>

definition static_capability_verifier :: "(ident \<times> string) set \<Rightarrow> capability \<Rightarrow> bool" where
  "static_capability_verifier valid c \<longleftrightarrow> (dc_capability_id c, dc_digest c) \<in> valid"

definition static_grant_verifier :: "ident set \<Rightarrow> access_grant \<Rightarrow> bool" where
  "static_grant_verifier valid g \<longleftrightarrow> dg_grant_id g \<in> valid"

end
