(* ===== verification/Inter_Agent.thy ===== *)
theory Inter_Agent
  imports Delegated_Identity
begin

text \<open>
  \<open>inter_agent.py\<close> and \<open>models/inter_agent.py\<close>: signed messages between agents with their
  transformation evidence, the replay and ordering store, the signer, and the verifier, which asks the
  delegated-identity authorizer about every recipient. Ed25519, SHA-256 and the canonical JSON forms are
  the fields of the record \<open>ia_crypto\<close>; the canonical form of a payload or an envelope may not exist
  (\<open>None\<close>). Message texts and identifier patterns are left out.
\<close>

section \<open>Messages\<close>

datatype ia_message_type = Task_request | Task_result | Observation | Status_message | Cancellation

record transformation =
  tf_transformation_id :: ident
  tf_hop_index :: nat
  tf_transformer :: agent_identity
  tf_key_id :: string
  tf_operation_id :: ident
  tf_input_digest :: string
  tf_output_digest :: string
  tf_occurred_at :: datetime
  tf_signature :: "string option"

record 'p ia_envelope =
  ie_message_id :: ident
  ie_message_type :: ia_message_type
  ie_key_id :: string
  ie_sender :: agent_identity
  ie_recipient_ids :: "ident list"
  ie_tenant_id :: ident
  ie_session_id :: ident
  ie_goal_digest :: string
  ie_task_id :: ident
  ie_purpose_id :: ident
  ie_scope :: ident
  ie_chain_digest :: string
  ie_sequence :: nat
  ie_issued_at :: datetime
  ie_expires_at :: datetime
  ie_nonce :: string
  ie_source_digest :: string
  ie_payload_digest :: string
  ie_payload :: 'p
  ie_transformations :: "transformation list"
  ie_signature :: "string option"

record ('p, 'k) ia_crypto =
  ic_sha256 :: "string \<Rightarrow> string"
  ic_sign :: "'k \<Rightarrow> string \<Rightarrow> string"
  ic_verify :: "string \<Rightarrow> string \<Rightarrow> string \<Rightarrow> bool"
  ic_public :: "'k \<Rightarrow> string"
  ic_payload_json :: "'p \<Rightarrow> string option"
  ic_envelope_json :: "'p ia_envelope \<Rightarrow> string option"
  ic_transformation_json :: "transformation \<Rightarrow> string"
  ic_fields_json :: "(string \<times> string) list \<Rightarrow> string"

definition content_reference :: "('p, 'k) ia_crypto \<Rightarrow> string \<Rightarrow> string" where
  "content_reference cy s = ''sha256:'' @ ic_sha256 cy s"

definition payload_digest :: "('p, 'k) ia_crypto \<Rightarrow> 'p \<Rightarrow> string option" where
  "payload_digest cy p = map_option (ic_sha256 cy) (ic_payload_json cy p)"

definition envelope_bytes :: "('p, 'k) ia_crypto \<Rightarrow> 'p ia_envelope \<Rightarrow> string option" where
  "envelope_bytes cy e = ic_envelope_json cy (e\<lparr>ie_signature := None\<rparr>)"

definition transformation_bytes :: "('p, 'k) ia_crypto \<Rightarrow> transformation \<Rightarrow> string" where
  "transformation_bytes cy f = ic_transformation_json cy (f\<lparr>tf_signature := None\<rparr>)"

text \<open>The loop of the envelope's validator over its transformations, from hop \<open>i\<close> on.\<close>

fun transformations_linked :: "datetime \<Rightarrow> nat \<Rightarrow> string \<Rightarrow> transformation list \<Rightarrow> bool" where
  "transformations_linked issued i d [] = True"
| "transformations_linked issued i d (f # fs) =
     (tf_hop_index f = i \<and> \<not> issued < tf_occurred_at f \<and> tf_input_digest f = d \<and>
      transformations_linked issued (Suc i) (tf_output_digest f) fs)"

definition validate_envelope :: "('p, 'k) ia_crypto \<Rightarrow> 'p ia_envelope \<Rightarrow> bool" where
  "validate_envelope cy e \<longleftrightarrow>
     ie_recipient_ids e \<noteq> [] \<and> length (ie_recipient_ids e) \<le> 100 \<and> distinct (ie_recipient_ids e) \<and>
     length (ie_transformations e) \<le> 100 \<and>
     ag_tenant_id (ie_sender e) = ie_tenant_id e \<and> ie_issued_at e < ie_expires_at e \<and>
     payload_digest cy (ie_payload e) = Some (ie_payload_digest e) \<and>
     (if ie_transformations e = [] then ie_source_digest e = ie_payload_digest e
      else transformations_linked (ie_issued_at e) 0 (ie_source_digest e) (ie_transformations e) \<and>
        tf_output_digest (last (ie_transformations e)) = ie_payload_digest e)"

record ia_key =
  ik_identity :: agent_identity
  ik_public_key :: string
  ik_active_from :: "datetime option"
  ik_expires_at :: "datetime option"
  ik_revoked :: bool

definition ia_key_id :: "('p, 'k) ia_crypto \<Rightarrow> ia_key \<Rightarrow> string" where
  "ia_key_id cy k = content_reference cy (ik_public_key k)"

record ia_route =
  ir_sender_id :: ident
  ir_recipient_id :: ident
  ir_scopes :: "ident set"
  ir_message_types :: "ia_message_type set"

record ia_policy =
  ip_routes :: "ia_route list"
  ip_transformers :: "ident set"
  ip_default_ttl :: int
  ip_max_ttl :: int
  ip_max_age :: int
  ip_clock_skew :: int
  ip_max_payload :: nat
  ip_max_envelope :: nat
  ip_max_fanout :: nat
  ip_max_transformations :: nat

text \<open>No two routes grant the same authority: routes with one sender and recipient share no scope and type.\<close>

definition ia_policy_ok :: "ia_policy \<Rightarrow> bool" where
  "ia_policy_ok p \<longleftrightarrow> ip_routes p \<noteq> [] \<and> 1 \<le> ip_default_ttl p \<and> ip_default_ttl p \<le> ip_max_ttl p \<and>
     1 \<le> ip_max_age p \<and> 0 \<le> ip_clock_skew p \<and> 1 \<le> ip_max_payload p \<and> 1024 \<le> ip_max_envelope p \<and>
     1 \<le> ip_max_fanout p \<and>
     sorted_wrt (\<lambda>a b. ir_sender_id a = ir_sender_id b \<longrightarrow> ir_recipient_id a = ir_recipient_id b \<longrightarrow>
       ir_scopes a \<inter> ir_scopes b = {} \<or> ir_message_types a \<inter> ir_message_types b = {}) (ip_routes p)"

record ia_context =
  ix_sender_id :: ident
  ix_recipient :: agent_identity
  ix_tenant_id :: ident
  ix_session_id :: ident
  ix_goal_digest :: string
  ix_task_id :: ident
  ix_purpose_id :: ident
  ix_chain :: delegation_chain

definition ia_context_ok :: "ia_context \<Rightarrow> bool" where
  "ia_context_ok x \<longleftrightarrow> ag_tenant_id (ix_recipient x) = ix_tenant_id x \<and> validate_chain (ix_chain x)"

datatype ia_claim = Ia_stored | Ia_replayed | Ia_out_of_order | Ia_full

datatype ia_code =
    Ia_verified | Ia_unsigned_message | Ia_unknown_agent | Ia_key_not_active | Ia_identity_mismatch
  | Ia_tenant_mismatch | Ia_recipient_mismatch | Ia_session_mismatch | Ia_goal_mismatch
  | Ia_task_mismatch | Ia_purpose_mismatch | Ia_route_denied | Ia_fanout_denied
  | Ia_delegation_mismatch | Ia_delegation_denied | Ia_not_yet_valid | Ia_expired | Ia_too_old
  | Ia_ttl_exceeded | Ia_payload_too_large | Ia_envelope_too_large | Ia_payload_digest_mismatch
  | Ia_signature_invalid | Ia_transformation_chain_invalid | Ia_transformer_not_trusted
  | Ia_transformation_signature_invalid | Ia_replay_detected | Ia_order_violated
  | Ia_store_full | Ia_store_error

record ia_audit =
  ia_occurred_at :: datetime
  ia_action :: guard_action
  ia_code_of :: ia_code
  ia_message_type_of :: "ia_message_type option"
  ia_sequence :: "nat option"
  ia_message_ref :: "string option"
  ia_sender_ref :: "string option"
  ia_recipient_ref :: string
  ia_tenant_ref :: string
  ia_session_ref :: string
  ia_goal_ref :: string
  ia_task_ref :: string
  ia_payload_ref :: "string option"
  ia_delegation_ref :: "string option"
  ia_transformation_count :: nat

record ia_result =
  io_action :: guard_action
  io_findings :: "ia_code list"
  io_audit :: ia_audit

definition ia_is_verified :: "ia_result \<Rightarrow> bool" where
  "ia_is_verified r \<longleftrightarrow> io_action r = ALLOW \<and> io_findings r = []"

section \<open>The replay and ordering store\<close>

record ia_store =
  it_max_replays :: nat
  it_max_streams :: nat
  it_replays :: "(string, datetime) dict"
  it_streams :: "(string, nat \<times> datetime) dict"

text \<open>\<open>None\<close> where the constructor raises.\<close>

definition new_ia_store :: "int \<Rightarrow> int \<Rightarrow> ia_store option" where
  "new_ia_store a b = (if a < 1 \<or> b < 1 then None
     else Some \<lparr>it_max_replays = nat a, it_max_streams = nat b, it_replays = [], it_streams = []\<rparr>)"

definition purge_ia_store :: "datetime \<Rightarrow> ia_store \<Rightarrow> ia_store" where
  "purge_ia_store now s = s\<lparr>it_replays := filter (\<lambda>(_, x). now < x) (it_replays s),
     it_streams := filter (\<lambda>(_, _, x). now < x) (it_streams s)\<rparr>"

text \<open>\<open>Inl ()\<close> where \<open>claim\<close> raises.\<close>

definition ia_claim_state ::
  "string \<Rightarrow> string \<Rightarrow> nat \<Rightarrow> datetime \<Rightarrow> datetime \<Rightarrow> ia_store \<Rightarrow> (unit + ia_claim) \<times> ia_store" where
  "ia_claim_state sid rid n expires_at now s0 =
     (if expires_at \<le> now then (Inl (), s0)
      else
        (let s = purge_ia_store now s0; stream = dict_get (it_streams s) sid in
         if dict_get (it_replays s) rid \<noteq> None then (Inr Ia_replayed, s)
         else if n \<noteq> (case stream of None \<Rightarrow> 0 | Some (m, _) \<Rightarrow> m) then (Inr Ia_out_of_order, s)
         else if it_max_replays s \<le> length (it_replays s) then (Inr Ia_full, s)
         else if stream = None \<and> it_max_streams s \<le> length (it_streams s) then (Inr Ia_full, s)
         else (Inr Ia_stored,
           s\<lparr>it_replays := dict_set (it_replays s) rid expires_at,
             it_streams := dict_set (it_streams s) sid
               (n + 1, case stream of None \<Rightarrow> expires_at | Some (_, x) \<Rightarrow> max x expires_at)\<rparr>)))"

definition clear_ia_store :: "ia_store \<Rightarrow> ia_store" where
  "clear_ia_store s = s\<lparr>it_replays := [], it_streams := []\<rparr>"

section \<open>Signing\<close>

definition attest_transformation ::
  "('p, 'k) ia_crypto \<Rightarrow> 'k \<Rightarrow> agent_identity \<Rightarrow> 'p \<Rightarrow> 'p \<Rightarrow> ident \<Rightarrow> nat \<Rightarrow> datetime \<Rightarrow> ident \<Rightarrow>
   transformation option" where
  "attest_transformation cy sk who a b operation hop now uid =
     (case (payload_digest cy a, payload_digest cy b) of
        (Some d, Some d') \<Rightarrow>
          (let u = \<lparr>tf_transformation_id = uid, tf_hop_index = hop, tf_transformer = who,
                 tf_key_id = content_reference cy (ic_public cy sk), tf_operation_id = operation,
                 tf_input_digest = d, tf_output_digest = d', tf_occurred_at = now, tf_signature = None\<rparr>
           in if 10000 < hop then None
              else Some (u\<lparr>tf_signature := Some (ic_sign cy sk (transformation_bytes cy u))\<rparr>))
      | _ \<Rightarrow> None)"

record ia_args =
  ij_message_type :: ia_message_type
  ij_recipient_ids :: "ident list"
  ij_session_id :: ident
  ij_goal_digest :: string
  ij_task_id :: ident
  ij_purpose_id :: ident
  ij_scope :: ident
  ij_chain :: delegation_chain
  ij_sequence :: nat
  ij_transformations :: "transformation list"
  ij_source_digest :: "string option"
  ij_ttl :: "int option"
  ij_nonce :: string
  ij_message_id :: ident

definition unsigned_message ::
  "('p, 'k) ia_crypto \<Rightarrow> di_hash \<Rightarrow> 'k \<Rightarrow> agent_identity \<Rightarrow> 'p \<Rightarrow> string \<Rightarrow> int \<Rightarrow> ia_args \<Rightarrow> datetime \<Rightarrow> 'p ia_envelope" where
  "unsigned_message cy h sk who payload digest ttl a now =
     \<lparr>ie_message_id = ij_message_id a, ie_message_type = ij_message_type a,
      ie_key_id = content_reference cy (ic_public cy sk), ie_sender = who,
      ie_recipient_ids = ij_recipient_ids a, ie_tenant_id = ag_tenant_id who,
      ie_session_id = ij_session_id a, ie_goal_digest = ij_goal_digest a, ie_task_id = ij_task_id a,
      ie_purpose_id = ij_purpose_id a, ie_scope = ij_scope a, ie_chain_digest = chain_digest h (ij_chain a),
      ie_sequence = ij_sequence a, ie_issued_at = now, ie_expires_at = now + td_seconds ttl,
      ie_nonce = ij_nonce a,
      ie_source_digest = (case ij_source_digest a of
          Some d \<Rightarrow> d
        | None \<Rightarrow> if ij_transformations a = [] then digest else tf_input_digest (hd (ij_transformations a))),
      ie_payload_digest = digest, ie_payload = payload, ie_transformations = ij_transformations a,
      ie_signature = None\<rparr>"

text \<open>\<open>None\<close> wherever \<open>sign\<close> raises.\<close>

definition sign_message ::
  "('p, 'k) ia_crypto \<Rightarrow> di_hash \<Rightarrow> ia_policy \<Rightarrow> 'k \<Rightarrow> agent_identity \<Rightarrow> 'p \<Rightarrow> ia_args \<Rightarrow> datetime \<Rightarrow>
   'p ia_envelope option" where
  "sign_message cy h p sk who payload a now =
     (let ttl = (case ij_ttl a of None \<Rightarrow> ip_default_ttl p | Some t \<Rightarrow> t) in
      if ttl < 1 \<or> ip_max_ttl p < ttl then None
      else (case ic_payload_json cy payload of
          None \<Rightarrow> None
        | Some bytes \<Rightarrow>
            if ip_max_payload p < length bytes then None
            else if ip_max_fanout p < length (ij_recipient_ids a) then None
            else if ip_max_transformations p < length (ij_transformations a) then None
            else
              (let u = unsigned_message cy h sk who payload (ic_sha256 cy bytes) ttl a now in
               if \<not> validate_envelope cy u then None
               else (case envelope_bytes cy u of
                   None \<Rightarrow> None
                 | Some b \<Rightarrow> if ip_max_envelope p < length b then None
                             else Some (u\<lparr>ie_signature := Some (ic_sign cy sk b)\<rparr>)))))"

section \<open>The verifier\<close>

text \<open>\<open>None\<close> when there is no key or two keys have one fingerprint: the constructor raises.\<close>

definition ia_key_table :: "('p, 'k) ia_crypto \<Rightarrow> ia_key list \<Rightarrow> (string, ia_key) dict option" where
  "ia_key_table cy ks =
     (if ks = [] \<or> \<not> distinct (map (ia_key_id cy) ks) then None
      else Some (map (\<lambda>k. (ia_key_id cy k, k)) ks))"

record ('p, 'k) ia_verifier =
  iv_crypto :: "('p, 'k) ia_crypto"
  iv_keys :: "(string, ia_key) dict"
  iv_policy :: ia_policy
  iv_authority :: di_env

definition ia_key_active :: "ia_key \<Rightarrow> datetime \<Rightarrow> datetime \<Rightarrow> bool" where
  "ia_key_active k now signed \<longleftrightarrow> \<not> (ik_revoked k \<or>
     (case ik_active_from k of None \<Rightarrow> False | Some t \<Rightarrow> now < t \<or> signed < t) \<or>
     (case ik_expires_at k of None \<Rightarrow> False | Some t \<Rightarrow> t \<le> now \<or> t \<le> signed))"

definition route_allowed :: "ia_policy \<Rightarrow> 'p ia_envelope \<Rightarrow> ident \<Rightarrow> bool" where
  "route_allowed p e rid = list_ex (\<lambda>r. ir_sender_id r = ag_identity_id (ie_sender e) \<and> ir_recipient_id r = rid \<and>
     ie_scope e \<in> ir_scopes r \<and> ie_message_type e \<in> ir_message_types r) (ip_routes p)"

text \<open>The loop over the transformations; \<open>Inr\<close> is the digest the last one produces.\<close>

fun verify_hops ::
  "('p, 'k) ia_verifier \<Rightarrow> 'p ia_envelope \<Rightarrow> ident set \<Rightarrow> datetime \<Rightarrow> nat \<Rightarrow> string \<Rightarrow> transformation list \<Rightarrow>
   ia_code + string" where
  "verify_hops v e allowed now i d [] = Inr d"
| "verify_hops v e allowed now i d (f # fs) =
     (if tf_hop_index f \<noteq> i \<or> tf_input_digest f \<noteq> d \<or> ie_issued_at e < tf_occurred_at f \<or>
        ag_tenant_id (tf_transformer f) \<noteq> ie_tenant_id e then Inl Ia_transformation_chain_invalid
      else if ag_identity_id (tf_transformer f) \<notin> allowed then Inl Ia_transformer_not_trusted
      else (case dict_get (iv_keys v) (tf_key_id f) of
          None \<Rightarrow> Inl Ia_transformer_not_trusted
        | Some k \<Rightarrow>
            if ik_identity k \<noteq> tf_transformer f then Inl Ia_transformer_not_trusted
            else if \<not> ia_key_active k now (tf_occurred_at f) then Inl Ia_key_not_active
            else (case tf_signature f of
                None \<Rightarrow> Inl Ia_transformation_signature_invalid
              | Some s \<Rightarrow>
                  if \<not> ic_verify (iv_crypto v) (ik_public_key k) s (transformation_bytes (iv_crypto v) f)
                  then Inl Ia_transformation_signature_invalid
                  else verify_hops v e allowed now (Suc i) (tf_output_digest f) fs)))"

definition allowed_transformers :: "ia_policy \<Rightarrow> delegation_chain \<Rightarrow> ident set" where
  "allowed_transformers p cs =
     set (concat (map (\<lambda>c. [ag_identity_id (dc_issuer c), ag_identity_id (dc_subject c)]) cs)) \<union> ip_transformers p"

definition verify_transformations ::
  "('p, 'k) ia_verifier \<Rightarrow> 'p ia_envelope \<Rightarrow> ia_context \<Rightarrow> datetime \<Rightarrow> ia_code option" where
  "verify_transformations v e x now =
     (let fs = ie_transformations e; p = iv_policy v in
      if ip_max_transformations p < length fs then Some Ia_transformation_chain_invalid
      else if fs = [] then
        (if ie_source_digest e \<noteq> ie_payload_digest e then Some Ia_transformation_chain_invalid else None)
      else (case verify_hops v e (allowed_transformers p (ix_chain x)) now 0 (ie_source_digest e) fs of
          Inl code \<Rightarrow> Some code
        | Inr d \<Rightarrow> if d \<noteq> ie_payload_digest e then Some Ia_transformation_chain_invalid else None))"

text \<open>The bindings, routes and time window, in the order they are checked; the first failing one decides.\<close>

definition ia_binding_checks ::
  "('p, 'k) ia_verifier \<Rightarrow> ia_key \<Rightarrow> 'p ia_envelope \<Rightarrow> ia_context \<Rightarrow> datetime \<Rightarrow> (bool \<times> ia_code) list" where
  "ia_binding_checks v k e x now =
     (let p = iv_policy v; skew = td_seconds (ip_clock_skew p) in
      [(ik_identity k = ie_sender e \<and> ag_identity_id (ie_sender e) = ix_sender_id x, Ia_identity_mismatch),
       (ie_tenant_id e = ag_tenant_id (ie_sender e) \<and> ag_tenant_id (ie_sender e) = ix_tenant_id x \<and>
          ix_tenant_id x = ag_tenant_id (ix_recipient x), Ia_tenant_mismatch),
       (ag_identity_id (ix_recipient x) \<in> set (ie_recipient_ids e), Ia_recipient_mismatch),
       (ie_session_id e = ix_session_id x, Ia_session_mismatch),
       (ie_goal_digest e = ix_goal_digest x, Ia_goal_mismatch),
       (ie_task_id e = ix_task_id x, Ia_task_mismatch),
       (ie_purpose_id e = ix_purpose_id x, Ia_purpose_mismatch),
       (\<not> ip_max_fanout p < length (ie_recipient_ids e), Ia_fanout_denied),
       (list_all (route_allowed p e) (ie_recipient_ids e),
          if 1 < length (ie_recipient_ids e) then Ia_fanout_denied else Ia_route_denied),
       (\<not> td_seconds (ip_max_ttl p) < ie_expires_at e - ie_issued_at e, Ia_ttl_exceeded),
       (\<not> now + skew < ie_issued_at e, Ia_not_yet_valid),
       (\<not> ie_expires_at e \<le> now - skew, Ia_expired),
       (\<not> td_seconds (ip_max_age p) + skew < now - ie_issued_at e, Ia_too_old)])"

text \<open>The checks of the content against the digests, sizes and signature.\<close>

definition ia_content_code :: "('p, 'k) ia_verifier \<Rightarrow> ia_key \<Rightarrow> 'p ia_envelope \<Rightarrow> string \<Rightarrow> ia_code option" where
  "ia_content_code v k e sig =
     (let cy = iv_crypto v; p = iv_policy v in
      (case (ic_payload_json cy (ie_payload e), envelope_bytes cy e) of
         (Some pb, Some eb) \<Rightarrow>
           if ip_max_payload p < length pb then Some Ia_payload_too_large
           else if ip_max_envelope p < length eb then Some Ia_envelope_too_large
           else if ic_sha256 cy pb \<noteq> ie_payload_digest e then Some Ia_payload_digest_mismatch
           else if \<not> ic_verify cy (ik_public_key k) sig eb then Some Ia_signature_invalid
           else None
       | _ \<Rightarrow> Some Ia_payload_digest_mismatch))"

definition message_access :: "'p ia_envelope \<Rightarrow> ia_context \<Rightarrow> ident \<Rightarrow> access_request" where
  "message_access e x rid = \<lparr>dr_presenter = ie_sender e, dr_chain = ix_chain x, dr_audience = rid,
     dr_purpose_id = ie_purpose_id e, dr_scopes = {ie_scope e}, dr_tenant_id = ie_tenant_id e,
     dr_operation_id = ie_message_id e, dr_grants = []\<rparr>"

text \<open>The loop that authorizes every recipient; it stops at the first refusal.\<close>

fun authorize_recipients ::
  "di_env \<Rightarrow> 'p ia_envelope \<Rightarrow> ia_context \<Rightarrow> datetime \<Rightarrow> ident list \<Rightarrow> di_state \<Rightarrow> bool \<times> di_state" where
  "authorize_recipients a e x now [] s = (True, s)"
| "authorize_recipients a e x now (rid # rids) s =
     (let (r, s') = authorize_access a (message_access e x rid) now ''authorization'' s in
      if \<not> access_authorized r then (False, s') else authorize_recipients a e x now rids s')"

definition stream_id :: "('p, 'k) ia_crypto \<Rightarrow> 'p ia_envelope \<Rightarrow> ia_context \<Rightarrow> string" where
  "stream_id cy e x = content_reference cy (ic_fields_json cy
     [(''recipient_id'', ag_identity_id (ix_recipient x)), (''sender_id'', ag_identity_id (ie_sender e)),
      (''session_id'', ie_session_id e), (''task_id'', ie_task_id e), (''tenant_id'', ie_tenant_id e)])"

definition message_replay_id :: "('p, 'k) ia_crypto \<Rightarrow> 'p ia_envelope \<Rightarrow> ident \<Rightarrow> string" where
  "message_replay_id cy e rid = content_reference cy (ic_fields_json cy
     [(''key_id'', ie_key_id e), (''message_id'', ie_message_id e), (''nonce'', ie_nonce e), (''recipient_id'', rid)])"

record ia_runtime =
  iu_store :: ia_store
  iu_authority :: di_state

definition ia_claim_code :: "unit + ia_claim \<Rightarrow> ia_code" where
  "ia_claim_code c = (case c of
     Inl _ \<Rightarrow> Ia_store_error
   | Inr Ia_replayed \<Rightarrow> Ia_replay_detected
   | Inr Ia_out_of_order \<Rightarrow> Ia_order_violated
   | Inr Ia_full \<Rightarrow> Ia_store_full
   | Inr Ia_stored \<Rightarrow> Ia_verified)"

definition ia_claim_for ::
  "('p, 'k) ia_verifier \<Rightarrow> 'p ia_envelope \<Rightarrow> ia_context \<Rightarrow> datetime \<Rightarrow> ia_store \<Rightarrow> (unit + ia_claim) \<times> ia_store" where
  "ia_claim_for v e x now s =
     ia_claim_state (stream_id (iv_crypto v) e x) (message_replay_id (iv_crypto v) e (ag_identity_id (ix_recipient x)))
       (ie_sequence e) (ie_expires_at e + td_seconds (ip_clock_skew (iv_policy v))) now s"

text \<open>The checks of a signed message that read no mutable state: the first code that applies.\<close>

definition ia_static_code :: "('p, 'k) ia_verifier \<Rightarrow> 'p ia_envelope \<Rightarrow> ia_context \<Rightarrow> datetime \<Rightarrow> string \<Rightarrow> ia_code option" where
  "ia_static_code v e x now sig =
     (case dict_get (iv_keys v) (ie_key_id e) of
        None \<Rightarrow> Some Ia_unknown_agent
      | Some k \<Rightarrow>
          if \<not> ia_key_active k now (ie_issued_at e) then Some Ia_key_not_active
          else (case find (\<lambda>(ok, _). \<not> ok) (ia_binding_checks v k e x now) of
              Some (_, code) \<Rightarrow> Some code
            | None \<Rightarrow>
                (case ia_content_code v k e sig of
                   Some code \<Rightarrow> Some code
                 | None \<Rightarrow>
                     (case verify_transformations v e x now of
                        Some code \<Rightarrow> Some code
                      | None \<Rightarrow>
                          if ie_chain_digest e \<noteq> chain_digest (de_hash (iv_authority v)) (ix_chain x) \<or>
                             dc_subject (chain_leaf (ix_chain x)) \<noteq> ie_sender e then Some Ia_delegation_mismatch
                          else None))))"

definition ia_verify_code ::
  "('p, 'k) ia_verifier \<Rightarrow> 'p ia_envelope option \<Rightarrow> ia_context \<Rightarrow> datetime \<Rightarrow> ia_runtime \<Rightarrow> ia_code \<times> ia_runtime" where
  "ia_verify_code v eo x now r =
     (case eo of
        None \<Rightarrow> (Ia_unsigned_message, r)
      | Some e \<Rightarrow>
          (case ie_signature e of
             None \<Rightarrow> (Ia_unsigned_message, r)
           | Some sig \<Rightarrow>
               (case ia_static_code v e x now sig of
                  Some code \<Rightarrow> (code, r)
                | None \<Rightarrow>
                    (let (ok, a) = authorize_recipients (iv_authority v) e x now (ie_recipient_ids e) (iu_authority r);
                         r1 = r\<lparr>iu_authority := a\<rparr> in
                     if \<not> ok then (Ia_delegation_denied, r1)
                     else (let (c, st) = ia_claim_for v e x now (iu_store r1) in
                           (ia_claim_code c, r1\<lparr>iu_store := st\<rparr>))))))"

definition ia_result_of ::
  "('p, 'k) ia_crypto \<Rightarrow> 'p ia_envelope option \<Rightarrow> ia_context \<Rightarrow> ia_code \<Rightarrow> datetime \<Rightarrow> ia_result" where
  "ia_result_of cy eo x code now =
     (let act = (if code = Ia_verified then ALLOW else BLOCK); ref = content_reference cy in
      \<lparr>io_action = act, io_findings = (if code = Ia_verified then [] else [code]),
       io_audit = \<lparr>ia_occurred_at = now, ia_action = act, ia_code_of = code,
         ia_message_type_of = map_option ie_message_type eo, ia_sequence = map_option ie_sequence eo,
         ia_message_ref = map_option (\<lambda>e. ref (ie_message_id e)) eo,
         ia_sender_ref = map_option (\<lambda>e. ref (ag_identity_id (ie_sender e))) eo,
         ia_recipient_ref = ref (ag_identity_id (ix_recipient x)), ia_tenant_ref = ref (ix_tenant_id x),
         ia_session_ref = ref (ix_session_id x), ia_goal_ref = ref (ix_goal_digest x),
         ia_task_ref = ref (ix_task_id x),
         ia_payload_ref = map_option (\<lambda>e. ''sha256:'' @ ie_payload_digest e) eo,
         ia_delegation_ref = map_option (\<lambda>e. ''sha256:'' @ ie_chain_digest e) eo,
         ia_transformation_count = (case eo of None \<Rightarrow> 0 | Some e \<Rightarrow> length (ie_transformations e))\<rparr>\<rparr>)"

definition ia_verify ::
  "('p, 'k) ia_verifier \<Rightarrow> 'p ia_envelope option \<Rightarrow> ia_context \<Rightarrow> datetime \<Rightarrow> ia_runtime \<Rightarrow> ia_result \<times> ia_runtime" where
  "ia_verify v eo x now r =
     (let (code, r') = ia_verify_code v eo x now r in (ia_result_of (iv_crypto v) eo x code now, r'))"

definition ia_require ::
  "('p, 'k) ia_verifier \<Rightarrow> 'p ia_envelope option \<Rightarrow> ia_context \<Rightarrow> datetime \<Rightarrow> ia_runtime \<Rightarrow>
   (ia_result + 'p ia_envelope) \<times> ia_runtime" where
  "ia_require v eo x now r =
     (let (d, r') = ia_verify v eo x now r in
      (case eo of
         Some e \<Rightarrow> (if ia_is_verified d then Inr e else Inl d, r')
       | None \<Rightarrow> (Inl d, r')))"

end
