(* ===== verification/Delegated_Properties.thy ===== *)
theory Delegated_Properties
  imports Delegated_Identity
begin

text \<open>
  What delegated authority guarantees: scopes, audience, purpose, tenant and lifetime only narrow along
  a chain, elevated scopes need verified grants, grants are single-use and revocations permanent however
  concurrent calls interleave, and the chain validator agrees with the authorizer's link checks.
\<close>

section \<open>Chains\<close>

lemma link_findings_narrows: "link_findings p c = [] \<longleftrightarrow> narrows p c"
  by (auto simp: link_findings_def narrows_def)

text \<open>
  C36: the chain validator and the authorizer agree on links. A non-empty chain of at most 101
  capabilities passes the validator of \<open>DelegationChain\<close> exactly if the capabilities have the depths 0, 1,
  2, \<open>\<dots>\<close> and the authorizer finds nothing wrong between any capability and its predecessor.
\<close>

lemma links_valid_iff:
  "links_valid i prev cs \<longleftrightarrow>
     map dc_depth cs = [i..<i + length cs] \<and>
     (\<forall>p. prev = Some p \<longrightarrow> cs \<noteq> [] \<longrightarrow> narrows p (hd cs)) \<and>
     successively narrows cs"
proof (induction cs arbitrary: i prev)
  case (Cons c cs)
  have u: "[i..<i + length (c # cs)] = i # [Suc i..<Suc i + length cs]"
    using upt_conv_Cons [of i "i + length (c # cs)"] by simp
  show ?case
    unfolding u using Cons.IH [of "Suc i" "Some c"]
    by (auto simp: successively_Cons simp del: upt_Suc split: option.splits)
qed simp

theorem chain_validator_exact:
  "validate_chain cs \<longleftrightarrow> cs \<noteq> [] \<and> length cs \<le> 101 \<and> map dc_depth cs = [0..<length cs] \<and>
     successively (\<lambda>p c. link_findings p c = []) cs"
  unfolding validate_chain_def links_valid_iff link_findings_narrows by (auto simp: eta_contract_eq)

lemma successively_leaf:
  assumes "successively R cs" and "\<And>x y. R x y \<Longrightarrow> Q y \<Longrightarrow> Q x" and "cs \<noteq> []" and "Q (last cs)"
  shows "\<forall>c \<in> set cs. Q c"
  using assms
proof (induction cs)
  case (Cons c cs)
  show ?case
  proof (cases "cs = []")
    case False
    have "\<forall>c \<in> set cs. Q c"
      by (rule Cons.IH [OF _ Cons.prems(2) False]) (use Cons.prems(1,4) False in \<open>simp_all add: successively_Cons\<close>)
    moreover have "R c (hd cs)" using Cons.prems(1) False by (simp add: successively_Cons)
    ultimately show ?thesis using Cons.prems(2) [of c "hd cs"] False by simp
  qed (use Cons.prems in simp)
qed simp

lemma successively_narrows_parent:
  assumes "successively narrows cs" and "cs \<noteq> []" and "X \<subseteq> dc_scopes (last cs)"
  shows "list_all (validate_capability h) cs \<Longrightarrow> \<forall>c \<in> set cs. X \<subseteq> dc_scopes c"
    and "\<forall>c \<in> set cs. dc_audiences (last cs) \<subseteq> dc_audiences c \<and> dc_purpose_id c = dc_purpose_id (last cs) \<and>
      dc_expires_at (last cs) \<le> dc_expires_at c"
proof -
  show "\<forall>c \<in> set cs. dc_audiences (last cs) \<subseteq> dc_audiences c \<and> dc_purpose_id c = dc_purpose_id (last cs) \<and>
      dc_expires_at (last cs) \<le> dc_expires_at c"
    by (rule successively_leaf [OF assms(1) _ assms(2)]) (auto simp: narrows_def)
  assume v: "list_all (validate_capability h) cs"
  have "successively (\<lambda>p c. narrows p c \<and> validate_capability h p) cs"
    using assms(1) v by (induction cs) (auto simp: successively_Cons)
  from successively_leaf [OF this _ assms(2), of "\<lambda>c. X \<subseteq> dc_scopes c"] assms(3)
  show "\<forall>c \<in> set cs. X \<subseteq> dc_scopes c" by (force simp: narrows_def validate_capability_def)
qed

section \<open>Branches of the authorizer\<close>

lemma capabilities_findings_Nil:
  "capabilities_findings e now i prev cs = [] \<longleftrightarrow>
     (\<forall>j < length cs. capability_findings e now (i + j) (cs ! j) = []) \<and>
     (\<forall>p. prev = Some p \<longrightarrow> cs \<noteq> [] \<longrightarrow> narrows p (hd cs)) \<and> successively narrows cs"
proof (induction cs arbitrary: i prev)
  case (Cons c cs)
  show ?case
    using Cons.IH [of "Suc i" "Some c"]
    by (auto simp: successively_Cons link_findings_narrows All_less_Suc2 split: option.splits)
qed simp

lemma local_revocation_findings_Nil:
  "local_revocation_findings cs now s = [] \<longleftrightarrow> (\<forall>c \<in> set cs. \<not> revoked_at s (dc_capability_id c) now)"
  by (auto simp: local_revocation_findings_def filter_empty_conv)

lemma access_checks_NilD:
  assumes "access_checks e r now s = []"
  shows "dr_chain r \<noteq> []" "delegation_findings e (dr_chain r) now s = []" "access_request_findings e r = []"
    "external_revocation_findings e (dr_chain r) now = []" "grant_findings e r now s = []"
  using assms by (auto simp: access_checks_def delegation_findings_def split: if_splits)

text \<open>What a clean chain is made of.\<close>

lemma delegation_findings_NilD:
  assumes "delegation_findings e cs now s = []"
  shows "cs \<noteq> []" "ag_identity_id (chain_initiator cs) \<in> dp_trusted_roots (de_policy e)"
    "ag_kind (chain_initiator cs) \<in> {Id_human, Id_service}" "successively narrows cs"
    "\<And>c. c \<in> set cs \<Longrightarrow> capability_integrity (de_hash e) c \<and> dc_not_before c \<le> now \<and> now < dc_expires_at c \<and>
       verified_by (de_verify_capability e) c \<and> \<not> revoked_at s (dc_capability_id c) now"
proof -
  from assms obtain c0 cs' where cs: "cs = c0 # cs'" by (cases cs) (auto simp: delegation_findings_def)
  show "cs \<noteq> []" by (simp add: cs)
  show "ag_identity_id (chain_initiator cs) \<in> dp_trusted_roots (de_policy e)"
    "ag_kind (chain_initiator cs) \<in> {Id_human, Id_service}"
    using assms unfolding cs delegation_findings_def chain_initiator_def by simp_all
  have caps: "capabilities_findings e now 0 None cs = []" and rev: "local_revocation_findings cs now s = []"
    using assms unfolding cs delegation_findings_def by simp_all
  then show "successively narrows cs" by (simp add: capabilities_findings_Nil)
  show "capability_integrity (de_hash e) c \<and> dc_not_before c \<le> now \<and> now < dc_expires_at c \<and>
       verified_by (de_verify_capability e) c \<and> \<not> revoked_at s (dc_capability_id c) now" if "c \<in> set cs" for c
  proof -
    from that obtain j where "j < length cs" "c = cs ! j" by (auto simp: in_set_conv_nth)
    then have "capability_findings e now (0 + j) c = []" using caps unfolding capabilities_findings_Nil by blast
    then show ?thesis
      using rev that by (auto simp: capability_findings_def Let_def local_revocation_findings_Nil)
  qed
qed

lemma require_access_Inr:
  assumes "require_access e r now uid s = (Inr a, s')"
  shows "access_checks e r now s = [] \<and> mutable_access_findings r now s = [] \<and> a = make_access e r now uid \<and>
    s' = s\<lparr>dt_used_grants := dt_used_grants s \<union> set (map dg_grant_id (dr_grants r))\<rparr>"
  using assms
  by (auto simp: require_access_def authorize_access_def access_commit_def refuse_access_def access_blocked_def
      access_authorized_def Let_def split: if_splits option.splits)

lemma foldl_min_le_start: "foldl min x ys \<le> (x :: int)"
  by (induction ys arbitrary: x) (auto intro: order_trans [OF _ min.cobounded1])

lemma foldl_min_le: "y \<in> set ys \<Longrightarrow> foldl min x ys \<le> (y :: int)"
proof (induction ys arbitrary: x)
  case (Cons z ys)
  show ?case
  proof (cases "y = z")
    case True
    then show ?thesis using foldl_min_le_start [of "min x z" ys] by simp
  qed (use Cons in simp)
qed simp

text \<open>What passed checks say of the chain: everything narrows from the root to the leaf.\<close>

lemma access_checks_narrow:
  assumes "access_checks e r now s = []" and "list_all (validate_capability (de_hash e)) (dr_chain r)"
  shows "ag_identity_id (chain_initiator (dr_chain r)) \<in> dp_trusted_roots (de_policy e)"
    "ag_kind (chain_initiator (dr_chain r)) \<in> {Id_human, Id_service}"
    "dr_presenter r = dc_subject (chain_leaf (dr_chain r))" "dr_audience r \<in> dp_allowed_audiences (de_policy e)"
    "c \<in> set (dr_chain r) \<Longrightarrow> verified_by (de_verify_capability e) c \<and> \<not> revoked_at s (dc_capability_id c) now \<and>
       dc_not_before c \<le> now \<and> now < dc_expires_at c \<and>
       ag_tenant_id (dc_issuer c) = dr_tenant_id r \<and> ag_tenant_id (dc_subject c) = dr_tenant_id r \<and>
       dc_purpose_id c = dr_purpose_id r \<and> dr_scopes r \<subseteq> dc_scopes c \<and> dr_audience r \<in> dc_audiences c \<and>
       dc_expires_at (chain_leaf (dr_chain r)) \<le> dc_expires_at c"
proof -
  note ch = access_checks_NilD [OF assms(1)]
  note d = delegation_findings_NilD [OF ch(2)]
  let ?leaf = "chain_leaf (dr_chain r)"
  show "ag_identity_id (chain_initiator (dr_chain r)) \<in> dp_trusted_roots (de_policy e)"
    "ag_kind (chain_initiator (dr_chain r)) \<in> {Id_human, Id_service}" by (fact d)+
  have rq: "dr_presenter r = dc_subject ?leaf" "dr_audience r \<in> dp_allowed_audiences (de_policy e)"
    "dr_audience r \<in> dc_audiences ?leaf" "dr_purpose_id r = dc_purpose_id ?leaf" "dr_scopes r \<subseteq> dc_scopes ?leaf"
    "\<And>c. c \<in> set (dr_chain r) \<Longrightarrow> ag_tenant_id (dc_issuer c) = dr_tenant_id r \<and> ag_tenant_id (dc_subject c) = dr_tenant_id r"
    using ch(3) by (auto simp: access_request_findings_def Let_def list_ex_iff)
  show "dr_presenter r = dc_subject ?leaf" "dr_audience r \<in> dp_allowed_audiences (de_policy e)" by (fact rq)+
  have "\<forall>c \<in> set (dr_chain r). dr_scopes r \<subseteq> dc_scopes c"
    by (rule successively_narrows_parent(1) [OF d(4) d(1) _ assms(2)]) (use rq(5) in \<open>simp add: chain_leaf_def\<close>)
  moreover have "\<forall>c \<in> set (dr_chain r). dr_audience r \<in> dc_audiences c \<and> dc_purpose_id c = dr_purpose_id r \<and>
      dc_expires_at ?leaf \<le> dc_expires_at c"
    using successively_narrows_parent(2) [OF d(4) d(1) subset_refl] rq(3,4)
    by (fastforce simp: chain_leaf_def)
  moreover assume "c \<in> set (dr_chain r)"
  ultimately show "verified_by (de_verify_capability e) c \<and> \<not> revoked_at s (dc_capability_id c) now \<and>
       dc_not_before c \<le> now \<and> now < dc_expires_at c \<and>
       ag_tenant_id (dc_issuer c) = dr_tenant_id r \<and> ag_tenant_id (dc_subject c) = dr_tenant_id r \<and>
       dc_purpose_id c = dr_purpose_id r \<and> dr_scopes r \<subseteq> dc_scopes c \<and> dr_audience r \<in> dc_audiences c \<and>
       dc_expires_at ?leaf \<le> dc_expires_at c"
    using d(5) rq(6) by simp
qed

text \<open>
  C9: delegated authority never grows. When access is authorized, the chain starts at a trusted human
  or service, ends at the presenter, and every capability in it is authentic, unrevoked, valid now and of
  the request's tenant and purpose; the authorized scopes and audience are within those of
  every capability on the chain; and the authorization expires no later than any of them.
\<close>

theorem delegated_access_never_amplified:
  assumes "require_access e r now uid s = (Inr a, s')"
    and "list_all (validate_capability (de_hash e)) (dr_chain r)"
  shows "ag_identity_id (chain_initiator (dr_chain r)) \<in> dp_trusted_roots (de_policy e) \<and>
    ag_kind (chain_initiator (dr_chain r)) \<in> {Id_human, Id_service} \<and>
    dr_presenter r = dc_subject (chain_leaf (dr_chain r)) \<and> da_actor_id a = ag_identity_id (dr_presenter r) \<and>
    da_audience a \<in> dp_allowed_audiences (de_policy e) \<and>
    (\<forall>c \<in> set (dr_chain r). verified_by (de_verify_capability e) c \<and> \<not> revoked_at s (dc_capability_id c) now \<and>
       dc_not_before c \<le> now \<and> now < dc_expires_at c \<and>
       ag_tenant_id (dc_issuer c) = da_tenant_id a \<and> ag_tenant_id (dc_subject c) = da_tenant_id a \<and>
       dc_purpose_id c = da_purpose_id a \<and> da_scopes a \<subseteq> dc_scopes c \<and> da_audience a \<in> dc_audiences c \<and>
       da_expires_at a \<le> dc_expires_at c)"
proof -
  note i = require_access_Inr [OF assms(1)]
  then have a: "a = make_access e r now uid" and none: "access_checks e r now s = []" by simp_all
  note n = access_checks_narrow [OF none assms(2)]
  have "da_scopes a = dr_scopes r" "da_audience a = dr_audience r" "da_tenant_id a = dr_tenant_id r"
    "da_purpose_id a = dr_purpose_id r" "da_actor_id a = ag_identity_id (dr_presenter r)"
    "da_expires_at a \<le> dc_expires_at (chain_leaf (dr_chain r))"
    using n(3) by (simp_all add: a make_access_def Let_def order_trans [OF foldl_min_le_start min.cobounded1])
  then show ?thesis using n(1-4) n(5) by (auto intro: order_trans)
qed

lemma authorize_access_no_grants:
  "dr_grants r = [] \<Longrightarrow> snd (authorize_access e r now uid s) = s"
  by (simp add: authorize_access_def access_commit_def Let_def)

lemma access_authorized_checks:
  "access_authorized (fst (authorize_access e r now uid s)) \<Longrightarrow> access_checks e r now s = []"
  by (auto simp: authorize_access_def refuse_access_def access_blocked_def access_authorized_def Let_def
      split: if_splits)

section \<open>Grants\<close>

lemma grant_of_kind_mem: "grant_of_kind r k = Some g \<Longrightarrow> g \<in> set (dr_grants r) \<and> dg_kind g = k"
  by (auto simp: grant_of_kind_def find_Some_iff) (metis length_rev nth_mem set_rev)

lemma grant_of_kind_unique:
  assumes "distinct (map dg_kind (dr_grants r))" and "g \<in> set (dr_grants r)"
  shows "grant_of_kind r (dg_kind g) = Some g"
proof (cases "grant_of_kind r (dg_kind g)")
  case None
  then show ?thesis using assms(2) by (auto simp: grant_of_kind_def find_None_iff)
next
  case (Some g')
  from grant_of_kind_mem [OF this] assms show ?thesis
    using Some by (auto simp: distinct_map dest: inj_onD)
qed

definition required_scopes :: "access_policy \<Rightarrow> grant_kind \<Rightarrow> ident set" where
  "required_scopes p k = (case k of Step_up \<Rightarrow> dp_step_up_scopes p | Just_in_time \<Rightarrow> dp_jit_scopes p)"

lemma grant_findings_Nil:
  "grant_findings e r now s = [] \<longleftrightarrow>
     (\<forall>k. case grant_of_kind r k of
        None \<Rightarrow> dr_scopes r \<inter> required_scopes (de_policy e) k = {}
      | Some g \<Rightarrow> dr_scopes r \<inter> required_scopes (de_policy e) k \<noteq> {} \<and>
          validate_grant e r g (dr_scopes r \<inter> required_scopes (de_policy e) k) now s = [])"
proof -
  have all: "(\<forall>k. Q k) \<longleftrightarrow> Q Step_up \<and> Q Just_in_time" for Q by (metis grant_kind.exhaust)
  show ?thesis
    unfolding all
    by (simp add: grant_findings_def kind_findings_def required_scopes_def split: option.split)
qed

text \<open>
  Scopes that need elevation are used only with a fresh, verified grant. When access is authorized
  and the request contains scopes for which the policy demands a step-up (or just-in-time) grant, it
  carries a grant of that kind for exactly those scopes, bound to this very request, presenter and
  tenant, authentic, issued and unexpired, short-lived, of sufficient assurance, not used before
  and used from now on, and the authorization expires with it.
\<close>

theorem elevated_scopes_need_fresh_grant:
  assumes "require_access e r now uid s = (Inr a, s')"
    and "da_scopes a \<inter> required_scopes (de_policy e) k \<noteq> {}"
  shows "\<exists>g \<in> set (dr_grants r). dg_kind g = k \<and>
    dg_approved_scopes g = da_scopes a \<inter> required_scopes (de_policy e) k \<and>
    dg_request_digest g = da_request_digest a \<and> dg_subject_id g = da_actor_id a \<and>
    dg_tenant_id g = da_tenant_id a \<and> verified_by (de_verify_grant e) g \<and>
    dg_issued_at g \<le> now \<and> now < dg_expires_at g \<and>
    dg_expires_at g \<le> dg_issued_at g + td_seconds (dp_max_grant_lifetime (de_policy e)) \<and>
    (k = Step_up \<longrightarrow> dp_min_assurance (de_policy e) \<le> dg_assurance g) \<and>
    dg_grant_id g \<notin> dt_used_grants s \<and> dg_grant_id g \<in> dt_used_grants s' \<and>
    da_expires_at a \<le> dg_expires_at g"
proof -
  note i = require_access_Inr [OF assms(1)]
  then have a: "a = make_access e r now uid" and none: "access_checks e r now s = []"
    and s': "dt_used_grants s' = dt_used_grants s \<union> set (map dg_grant_id (dr_grants r))" by simp_all
  note ch = access_checks_NilD [OF none]
  let ?K = "dr_scopes r \<inter> required_scopes (de_policy e) k"
  have af: "da_scopes a = dr_scopes r" "da_request_digest a = access_request_digest (de_hash e) r"
    "da_actor_id a = ag_identity_id (dr_presenter r)" "da_tenant_id a = dr_tenant_id r"
    using ch(3) by (simp_all add: a make_access_def access_request_findings_def Let_def)
  have K: "?K \<noteq> {}" using assms(2) af(1) by simp
  from ch(5) [unfolded grant_findings_Nil, rule_format, of k] K obtain g where
    g: "grant_of_kind r k = Some g" and ok: "validate_grant e r g ?K now s = []"
    by (cases "grant_of_kind r k") auto
  note gm = grant_of_kind_mem [OF g]
  have "da_expires_at a \<le> dg_expires_at g"
    unfolding a make_access_def Let_def
    by (simp del: foldl_Cons) (rule foldl_min_le, use gm in simp)
  moreover have "dg_grant_id g \<in> dt_used_grants s'" using gm s' by simp
  moreover have "dg_approved_scopes g = ?K" "dg_request_digest g = access_request_digest (de_hash e) r"
    "dg_subject_id g = ag_identity_id (dr_presenter r)" "dg_tenant_id g = dr_tenant_id r"
    "verified_by (de_verify_grant e) g" "dg_issued_at g \<le> now" "now < dg_expires_at g"
    "dg_expires_at g \<le> dg_issued_at g + td_seconds (dp_max_grant_lifetime (de_policy e))"
    "k = Step_up \<longrightarrow> dp_min_assurance (de_policy e) \<le> dg_assurance g" "dg_grant_id g \<notin> dt_used_grants s"
    using ok gm by (auto simp: validate_grant_def not_less)
  ultimately show ?thesis using gm unfolding af by blast
qed

text \<open>
  Without other calls in between, the checks under the lock find nothing new.
\<close>

theorem authorize_access_exact:
  assumes "access_request_ok r"
  shows "access_authorized (fst (authorize_access e r now uid s)) \<longleftrightarrow> access_checks e r now s = []"
proof (cases "access_checks e r now s = []")
  case True
  note ch = access_checks_NilD [OF True]
  have "dg_grant_id g \<notin> dt_used_grants s" if "g \<in> set (dr_grants r)" for g
    using ch(5) [unfolded grant_findings_Nil, rule_format, of "dg_kind g"] assms
      grant_of_kind_unique [OF _ that] by (simp add: access_request_ok_def validate_grant_def)
  moreover have "local_revocation_findings (dr_chain r) now s = []"
    using delegation_findings_NilD(5) [OF ch(2)] by (simp add: local_revocation_findings_Nil)
  ultimately have "mutable_access_findings r now s = []"
    by (auto simp: mutable_access_findings_def filter_empty_conv)
  then show ?thesis using True
    by (simp add: authorize_access_def access_commit_def access_authorized_def Let_def)
qed (simp add: authorize_access_def refuse_access_def access_blocked_def access_authorized_def Let_def)

section \<open>Concurrent calls\<close>

text \<open>
  Calls of \<open>authorize\<close> that run concurrently: the checks of one call, its locked commit, and revocations
  come in any order. The world holds the calls that passed their checks and, in order, the requests
  that were authorized, each with the time its call started.
\<close>

record di_world =
  dw_state :: di_state
  dw_inflight :: "(access_request \<times> datetime) set"
  dw_log :: "(access_request \<times> datetime) list"

inductive di_step :: "di_env \<Rightarrow> di_world \<Rightarrow> di_world \<Rightarrow> bool" for e where
  Check: "access_request_ok r \<Longrightarrow> access_checks e r now (dw_state w) = [] \<Longrightarrow>
    di_step e w (w\<lparr>dw_inflight := insert (r, now) (dw_inflight w)\<rparr>)"
| Commit: "(r, now) \<in> dw_inflight w \<Longrightarrow> access_commit e r now uid (dw_state w) = (d, s) \<Longrightarrow>
    di_step e w (w\<lparr>dw_state := s, dw_log := dw_log w @ (if access_authorized d then [(r, now)] else [])\<rparr>)"
| Revoke: "revoke_capability cid who reason now (dw_state w) = (v, s) \<Longrightarrow> di_step e w (w\<lparr>dw_state := s\<rparr>)"

definition di_start :: di_world where
  "di_start = \<lparr>dw_state = new_authorizer, dw_inflight = {}, dw_log = []\<rparr>"

definition log_grants :: "(access_request \<times> datetime) list \<Rightarrow> ident list" where
  "log_grants l = concat (map (\<lambda>(r, _). map dg_grant_id (dr_grants r)) l)"

definition di_world_ok :: "di_world \<Rightarrow> bool" where
  "di_world_ok w \<longleftrightarrow> distinct (log_grants (dw_log w)) \<and> set (log_grants (dw_log w)) \<subseteq> dt_used_grants (dw_state w) \<and>
     (\<forall>(r, t) \<in> dw_inflight w. access_request_ok r)"

lemma log_grants_simps [simp]:
  "log_grants [] = []" "log_grants ((r, now) # l) = map dg_grant_id (dr_grants r) @ log_grants l"
  "log_grants (l @ l') = log_grants l @ log_grants l'"
  by (simp_all add: log_grants_def)

lemma di_start_ok: "di_world_ok di_start"
  by (simp add: di_start_def di_world_ok_def)

lemma access_commit_cases:
  assumes "access_commit e r now uid s = (d, s')"
  obtains (refused) "s' = s" "\<not> access_authorized d"
  | (granted) "access_authorized d" "mutable_access_findings r now s = []"
      "s' = s\<lparr>dt_used_grants := dt_used_grants s \<union> set (map dg_grant_id (dr_grants r))\<rparr>"
  using assms by (auto simp: access_commit_def access_blocked_def access_authorized_def Let_def split: if_splits)

lemma revoke_capability_used:
  "revoke_capability cid who reason now s = (v, s') \<Longrightarrow> dt_used_grants s' = dt_used_grants s"
  by (auto simp: revoke_capability_def Let_def split: option.splits if_splits)

lemma di_step_ok: "di_step e w w' \<Longrightarrow> di_world_ok w \<Longrightarrow> di_world_ok w'"
proof (induction rule: di_step.induct)
  case (Commit r now w uid d s)
  from Commit(2) show ?case
  proof (cases rule: access_commit_cases)
    case granted
    then have "set (map dg_grant_id (dr_grants r)) \<inter> dt_used_grants (dw_state w) = {}"
      by (auto simp: mutable_access_findings_def filter_empty_conv)
    moreover have "distinct (map dg_grant_id (dr_grants r))"
      using Commit(1,3) by (auto simp: di_world_ok_def access_request_ok_def)
    ultimately show ?thesis using granted(1,3) Commit(3) by (auto simp: di_world_ok_def)
  qed (use Commit(3) in \<open>simp add: di_world_ok_def\<close>)
qed (auto simp: di_world_ok_def revoke_capability_used)

text \<open>
  C10: a grant elevates at most one operation. However concurrent authorizations and revocations
  interleave, the grants carried by all requests authorized so far are pairwise different.
\<close>

theorem grants_single_use_concurrently:
  assumes "(di_step e)\<^sup>*\<^sup>* di_start w"
  shows "distinct (log_grants (dw_log w))"
proof -
  have "di_world_ok w"
    using assms by (induction rule: rtranclp_induct) (auto simp: di_start_ok intro: di_step_ok)
  then show ?thesis by (simp add: di_world_ok_def)
qed

lemma revoke_capability_keeps:
  "revoke_capability cid who reason now s = (v, s') \<Longrightarrow> revoked_at s c t \<Longrightarrow> revoked_at s' c t"
  by (auto simp: revoke_capability_def revoked_at_def Let_def split: option.splits if_splits)

lemma di_step_revoked: "di_step e w w' \<Longrightarrow> revoked_at (dw_state w) c t \<Longrightarrow> revoked_at (dw_state w') c t"
proof (induction rule: di_step.induct)
  case (Commit r now w uid d s)
  from Commit(2) show ?case
    by (cases rule: access_commit_cases) (use Commit(3) in \<open>simp_all add: revoked_at_def\<close>)
qed (auto simp: revoke_capability_keeps)

text \<open>
  Revocation is permanent. Once a capability is revoked with effect from a time, no request that
  starts at that time or later and whose chain contains the capability is authorized any more, not even
  one that had already passed its checks.
\<close>

theorem revocation_permanent:
  assumes "(di_step e)\<^sup>*\<^sup>* w w'" and "revoked_at (dw_state w) cid t"
  shows "\<exists>added. dw_log w' = dw_log w @ added \<and>
    (\<forall>(r, now) \<in> set added. t \<le> now \<longrightarrow> cid \<notin> dc_capability_id ` set (dr_chain r))"
proof -
  have "revoked_at (dw_state w') cid t \<and> (\<exists>added. dw_log w' = dw_log w @ added \<and>
    (\<forall>(r, now) \<in> set added. t \<le> now \<longrightarrow> cid \<notin> dc_capability_id ` set (dr_chain r)))"
    using assms(1)
  proof (induction rule: rtranclp_induct)
    case (step w1 w2)
    then obtain added where
      rev: "revoked_at (dw_state w1) cid t" and log: "dw_log w1 = dw_log w @ added"
      and ok: "\<forall>(r, now) \<in> set added. t \<le> now \<longrightarrow> cid \<notin> dc_capability_id ` set (dr_chain r)" by blast
    have "\<exists>new. dw_log w2 = dw_log w1 @ new \<and>
      (\<forall>(r, now) \<in> set new. t \<le> now \<longrightarrow> cid \<notin> dc_capability_id ` set (dr_chain r))"
      using step(2)
    proof (cases rule: di_step.cases)
      case (Commit r now uid d s)
      from Commit(3) show ?thesis
      proof (cases rule: access_commit_cases)
        case granted
        then have "\<forall>c \<in> set (dr_chain r). \<not> revoked_at (dw_state w1) (dc_capability_id c) now"
          by (simp add: mutable_access_findings_def local_revocation_findings_Nil)
        moreover have "revoked_at (dw_state w1) cid now" if "t \<le> now"
          using rev that by (auto simp: revoked_at_def split: option.splits)
        ultimately show ?thesis using granted Commit(1) by auto
      qed (use Commit(1) in simp)
    qed auto
    then show ?case using di_step_revoked [OF step(2) rev] log ok by fastforce
  qed (use assms(2) in simp)
  then show ?thesis by blast
qed

section \<open>Witnesses\<close>

definition demo_user :: agent_identity where
  "demo_user = \<lparr>ag_identity_id = ''alice'', ag_kind = Id_human, ag_tenant_id = ''t''\<rparr>"

definition demo_agent :: agent_identity where
  "demo_agent = \<lparr>ag_identity_id = ''bot'', ag_kind = Id_agent, ag_tenant_id = ''t''\<rparr>"

definition demo_helper :: agent_identity where
  "demo_helper = \<lparr>ag_identity_id = ''sub'', ag_kind = Id_sub_agent, ag_tenant_id = ''t''\<rparr>"

definition demo_capability_args :: "ident \<Rightarrow> agent_identity \<Rightarrow> agent_identity \<Rightarrow> nat \<Rightarrow> capability_args" where
  "demo_capability_args i a b d = \<lparr>ga_capability_id = i, ga_issuer = a, ga_subject = b,
     ga_scopes = {''read'', ''pay''}, ga_audiences = {''crm''}, ga_purpose_id = ''p'', ga_issued_at = 0,
     ga_not_before = 0, ga_expires_at = 1000, ga_depth = d, ga_max_depth = 2,
     ga_delegatable = {''read'', ''pay''}\<rparr>"

definition demo_di_hash :: di_hash where
  "demo_di_hash = \<lparr>dh_capability = dc_capability_id, dh_digests = concat, dh_request = (\<lambda>x. fst x)\<rparr>"

definition demo_root_capability :: capability where
  "demo_root_capability = the (create_capability demo_di_hash (demo_capability_args ''c0'' demo_user demo_agent 0) None)"

definition demo_leaf_capability :: capability where
  "demo_leaf_capability = the (create_capability demo_di_hash (demo_capability_args ''c1'' demo_agent demo_helper 1)
     (Some demo_root_capability))"

definition demo_di_env :: di_env where
  "demo_di_env = \<lparr>de_hash = demo_di_hash,
     de_policy = \<lparr>dp_trusted_roots = {''alice''}, dp_allowed_audiences = {''crm''}, dp_max_lifetime = 900,
       dp_max_grant_lifetime = 300, dp_max_depth = 3, dp_authorization_ttl = 60, dp_step_up_scopes = {''pay''},
       dp_jit_scopes = {}, dp_min_assurance = 2\<rparr>,
     de_verify_capability = Some (\<lambda>c. Some (static_capability_verifier {(''c0'', ''c0''), (''c1'', ''c1'')} c)),
     de_verify_grant = Some (\<lambda>g. Some (static_grant_verifier {''g''} g)), de_external = None\<rparr>"

definition demo_step_up :: access_grant where
  "demo_step_up = \<lparr>dg_grant_id = ''g'', dg_kind = Step_up, dg_request_digest = ''crm'', dg_subject_id = ''sub'',
     dg_tenant_id = ''t'', dg_approved_scopes = {''pay''}, dg_assurance = 2, dg_issued_at = 1, dg_expires_at = 500\<rparr>"

definition demo_access :: access_request where
  "demo_access = \<lparr>dr_presenter = demo_helper, dr_chain = [demo_root_capability, demo_leaf_capability],
     dr_audience = ''crm'', dr_purpose_id = ''p'', dr_scopes = {''pay''}, dr_tenant_id = ''t'',
     dr_operation_id = ''op'', dr_grants = [demo_step_up]\<rparr>"

lemmas demo_di_simps = demo_user_def demo_agent_def demo_helper_def demo_capability_args_def demo_di_hash_def
  demo_di_env_def demo_step_up_def static_capability_verifier_def static_grant_verifier_def verified_by_def

lemma demo_capabilities_valid:
  "validate_capability demo_di_hash demo_root_capability" "validate_capability demo_di_hash demo_leaf_capability"
  by (simp_all add: demo_root_capability_def demo_leaf_capability_def create_capability_def demo_di_simps
      validate_capability_def capability_integrity_def capability_digest_def Let_def)

lemma demo_chain_valid: "successively narrows [demo_root_capability, demo_leaf_capability]"
  by (simp add: demo_root_capability_def demo_leaf_capability_def create_capability_def demo_di_simps narrows_def
      validate_capability_def capability_integrity_def capability_digest_def Let_def)

lemma demo_capability_fields:
  "dc_capability_id demo_root_capability = ''c0''" "dc_digest demo_root_capability = ''c0''"
  "dc_capability_id demo_leaf_capability = ''c1''" "dc_digest demo_leaf_capability = ''c1''"
  "dc_issuer demo_root_capability = demo_user" "dc_subject demo_leaf_capability = demo_helper"
  "dc_subject demo_root_capability = demo_agent" "dc_issuer demo_leaf_capability = demo_agent"
  "dc_depth demo_root_capability = 0" "dc_max_depth demo_root_capability = 2"
  "dc_depth demo_leaf_capability = 1" "dc_max_depth demo_leaf_capability = 2"
  "dc_issued_at demo_root_capability = 0" "dc_expires_at demo_root_capability = 1000"
  "dc_issued_at demo_leaf_capability = 0" "dc_expires_at demo_leaf_capability = 1000"
  "dc_not_before demo_root_capability = 0" "dc_not_before demo_leaf_capability = 0"
  "dc_audiences demo_leaf_capability = {''crm''}" "dc_purpose_id demo_leaf_capability = ''p''"
  "dc_scopes demo_leaf_capability = {''read'', ''pay''}"
  by (simp_all add: demo_root_capability_def demo_leaf_capability_def create_capability_def demo_di_simps
      validate_capability_def capability_integrity_def capability_digest_def Let_def)

lemma demo_access_checks: "access_checks demo_di_env demo_access 10 new_authorizer = []"
proof -
  have h: "de_hash demo_di_env = demo_di_hash" by (simp add: demo_di_env_def)
  have "capabilities_findings demo_di_env 10 0 None [demo_root_capability, demo_leaf_capability] = []"
    using demo_chain_valid demo_capabilities_valid
    by (simp add: link_findings_narrows capability_findings_def validate_capability_def Let_def h demo_capability_fields)
      (simp add: demo_di_simps td_seconds_def demo_capability_fields)
  then have "delegation_findings demo_di_env (dr_chain demo_access) 10 new_authorizer = []"
    by (simp add: delegation_findings_def demo_access_def demo_capability_fields local_revocation_findings_def
        revoked_at_def new_authorizer_def del: capabilities_findings.simps)
      (simp add: demo_di_simps)
  moreover have "access_request_findings demo_di_env demo_access = []"
    by (simp add: access_request_findings_def demo_access_def chain_leaf_def demo_capability_fields demo_di_simps)
  moreover have "grant_findings demo_di_env demo_access 10 new_authorizer = []"
    by (simp add: grant_findings_def kind_findings_def grant_of_kind_def validate_grant_def demo_access_def demo_di_simps
        access_request_digest_def new_authorizer_def td_seconds_def)
  moreover have "de_external demo_di_env = None" "dr_chain demo_access \<noteq> []"
    by (simp_all add: demo_di_env_def demo_access_def)
  ultimately show ?thesis by (simp add: access_checks_def external_revocation_findings_def)
qed

lemma demo_access_required:
  obtains s' where "require_access demo_di_env demo_access 10 ''u'' new_authorizer =
    (Inr (make_access demo_di_env demo_access 10 ''u''), s')"
proof -
  have "mutable_access_findings demo_access 10 new_authorizer = []"
    by (simp add: mutable_access_findings_def local_revocation_findings_def revoked_at_def new_authorizer_def)
  then show thesis
    using that demo_access_checks
    by (simp add: require_access_def authorize_access_def access_commit_def access_authorized_def Let_def)
qed

lemma demo_access_ok: "access_request_ok demo_access"
  using demo_chain_valid
  by (simp add: access_request_ok_def demo_access_def validate_chain_def demo_capability_fields)

theorem delegated_access_never_amplified_witness:
  "da_scopes (make_access demo_di_env demo_access 10 ''u'') \<subseteq> dc_scopes demo_root_capability"
proof -
  obtain s' where "require_access demo_di_env demo_access 10 ''u'' new_authorizer =
    (Inr (make_access demo_di_env demo_access 10 ''u''), s')" by (rule demo_access_required)
  from delegated_access_never_amplified [OF this] demo_capabilities_valid show ?thesis
    by (simp add: demo_access_def demo_di_env_def)
qed

theorem elevated_scopes_need_fresh_grant_witness:
  "\<exists>g \<in> set (dr_grants demo_access). dg_kind g = Step_up \<and> 10 < dg_expires_at g"
proof -
  obtain s' where "require_access demo_di_env demo_access 10 ''u'' new_authorizer =
    (Inr (make_access demo_di_env demo_access 10 ''u''), s')" by (rule demo_access_required)
  from elevated_scopes_need_fresh_grant [OF this, of Step_up] show ?thesis
    by (auto simp: make_access_def Let_def demo_access_def demo_di_env_def required_scopes_def)
qed

theorem authorize_access_exact_witness:
  "access_authorized (fst (authorize_access demo_di_env demo_access 10 ''u'' new_authorizer))"
  using authorize_access_exact [OF demo_access_ok] demo_access_checks by blast

text \<open>Two calls of \<open>authorize\<close> with one grant pass their checks together; only one is authorized.\<close>

lemma demo_inflight:
  "(di_step demo_di_env)\<^sup>*\<^sup>* di_start (di_start\<lparr>dw_inflight := {(demo_access, 10)}\<rparr>)"
  using Check [OF demo_access_ok, of demo_di_env 10 di_start] demo_access_checks
  by (auto simp: di_start_def)

lemma demo_both_committed:
  "(di_step demo_di_env)\<^sup>*\<^sup>* di_start
     (di_start\<lparr>dw_inflight := {(demo_access, 10)}, dw_log := [(demo_access, 10)],
        dw_state := new_authorizer\<lparr>dt_used_grants := {''g''}\<rparr>\<rparr>)"
proof -
  let ?w = "di_start\<lparr>dw_inflight := {(demo_access, 10)}\<rparr>"
  have "access_commit demo_di_env demo_access 10 ''u'' (dw_state ?w) =
    (\<lparr>ds_action = ALLOW, ds_findings = [], ds_authorization = Some (make_access demo_di_env demo_access 10 ''u'')\<rparr>,
     new_authorizer\<lparr>dt_used_grants := {''g''}\<rparr>)"
    by (simp add: access_commit_def mutable_access_findings_def local_revocation_findings_def revoked_at_def
        new_authorizer_def di_start_def demo_access_def demo_step_up_def)
  from Commit [OF _ this] have "di_step demo_di_env ?w
    (?w\<lparr>dw_log := [(demo_access, 10)], dw_state := new_authorizer\<lparr>dt_used_grants := {''g''}\<rparr>\<rparr>)"
    by (simp add: access_authorized_def di_start_def)
  with demo_inflight show ?thesis by (auto intro: rtranclp.rtrancl_into_rtrancl)
qed

theorem grants_single_use_concurrently_witness: "distinct (log_grants [(demo_access, 10)])"
  using grants_single_use_concurrently [OF demo_both_committed] by simp

theorem revocation_permanent_witness:
  "\<exists>added. [] = [] @ added \<and>
     (\<forall>(r, now) \<in> set added. 5 \<le> now \<longrightarrow> ''c0'' \<notin> dc_capability_id ` set (dr_chain r))"
proof -
  let ?s = "snd (revoke_capability ''c0'' ''admin'' ''leak'' 5 new_authorizer)"
  let ?w = "di_start\<lparr>dw_state := ?s\<rparr>"
  have "(di_step demo_di_env)\<^sup>*\<^sup>* ?w ?w" by simp
  moreover have "revoked_at (dw_state ?w) ''c0'' 5"
    by (simp add: revoke_capability_def new_authorizer_def revoked_at_def di_start_def Let_def)
  ultimately show ?thesis
    using revocation_permanent [of demo_di_env ?w ?w "''c0''" 5] by (simp add: di_start_def)
qed

end
