(* ===== verification/Inter_Agent_Properties.thy ===== *)
theory Inter_Agent_Properties
  imports Inter_Agent Delegated_Properties
begin

text \<open>
  What a verified inter-agent message guarantees: authenticity and addressing, delegated authority for
  every recipient, an unbroken signed lineage of its payload, at most one acceptance per recipient,
  consecutive sequence numbers on a live stream; and signed messages are accepted.
\<close>

section \<open>Branches of the verifier\<close>

lemma authorize_recipients_True:
  "authorize_recipients a e x now rids s = (ok, s') \<Longrightarrow> s' = s \<and>
     (ok \<longleftrightarrow> (\<forall>rid \<in> set rids. access_authorized (fst (authorize_access a (message_access e x rid) now ''authorization'' s))))"
proof (induction rids arbitrary: s)
  case (Cons rid rids)
  obtain d t where st: "authorize_access a (message_access e x rid) now ''authorization'' s = (d, t)"
    by (cases "authorize_access a (message_access e x rid) now ''authorization'' s")
  have "t = s" using authorize_access_no_grants [of "message_access e x rid" a now "''authorization''" s] st
    by (simp add: message_access_def)
  then show ?case using Cons st by (auto split: if_splits)
qed simp

lemma ia_binding_not_verified [simp]:
  "find (\<lambda>(ok, _). \<not> ok) (ia_binding_checks v k e x now) \<noteq> Some (b, Ia_verified)"
  by (auto simp: ia_binding_checks_def Let_def find_Some_iff nth_Cons' split: if_splits)

lemma ia_content_not_verified [simp]: "ia_content_code v k e sig \<noteq> Some Ia_verified"
  by (auto simp: ia_content_code_def Let_def split: option.splits)

lemma verify_hops_not_verified [simp]: "verify_hops v e al now i d fs \<noteq> Inl Ia_verified"
  by (induction v e al now i d fs rule: verify_hops.induct) (auto split: option.splits)

lemma verify_transformations_not_verified [simp]: "verify_transformations v e x now \<noteq> Some Ia_verified"
  by (auto simp: verify_transformations_def Let_def split: sum.splits)

lemma ia_static_not_verified [simp]: "ia_static_code v e x now sig \<noteq> Some Ia_verified"
  by (auto simp: ia_static_code_def split: option.splits)

lemma ia_claim_code_verified [simp]: "ia_claim_code c = Ia_verified \<longleftrightarrow> c = Inr Ia_stored"
  by (auto simp: ia_claim_code_def split: sum.splits ia_claim.splits)

lemma ia_verify_code_cases:
  assumes "ia_verify_code v eo x now r = (code, r')"
  obtains (refused) "code \<noteq> Ia_verified" "r' = r"
  | (claim) e sig c where "eo = Some e" "ie_signature e = Some sig" "ia_static_code v e x now sig = None"
      "\<forall>rid \<in> set (ie_recipient_ids e).
         access_authorized (fst (authorize_access (iv_authority v) (message_access e x rid) now ''authorization'' (iu_authority r)))"
      "ia_claim_for v e x now (iu_store r) = (c, iu_store r')" "iu_authority r' = iu_authority r"
      "code = Ia_verified \<longleftrightarrow> c = Inr Ia_stored"
proof (cases eo)
  case (Some e)
  show ?thesis
  proof (cases "ie_signature e")
    case sig: (Some sig)
    show ?thesis
    proof (cases "ia_static_code v e x now sig")
      case None
      obtain ok a where au: "authorize_recipients (iv_authority v) e x now (ie_recipient_ids e) (iu_authority r) = (ok, a)"
        by (cases "authorize_recipients (iv_authority v) e x now (ie_recipient_ids e) (iu_authority r)")
      note t = authorize_recipients_True [OF au]
      then have [simp]: "r\<lparr>iu_authority := a\<rparr> = r" by simp
      obtain c st where cl: "ia_claim_for v e x now (iu_store r) = (c, st)"
        by (cases "ia_claim_for v e x now (iu_store r)")
      show ?thesis
      proof (cases ok)
        case True
        then show ?thesis
          using claim [of e sig c] assms Some sig None au cl t by (simp add: ia_verify_code_def) auto
      next
        case False
        then show ?thesis using refused assms Some sig None au t by (simp add: ia_verify_code_def)
      qed
    next
      case code: (Some c)
      have "c \<noteq> Ia_verified" using code ia_static_not_verified [of v e x now sig] by metis
      then show ?thesis using refused assms Some sig code by (auto simp: ia_verify_code_def)
    qed
  qed (use refused assms Some in \<open>auto simp: ia_verify_code_def\<close>)
qed (use refused assms in \<open>auto simp: ia_verify_code_def\<close>)

lemma ia_require_Inr:
  assumes "ia_require v eo x now r = (Inr e, r')"
  shows "eo = Some e \<and> ia_verify_code v eo x now r = (Ia_verified, r')"
  using assms
  by (auto simp: ia_require_def ia_verify_def ia_is_verified_def ia_result_of_def Let_def
      split: option.splits if_splits prod.splits)

lemma ia_required:
  assumes "ia_require v eo x now r = (Inr e, r')"
  obtains sig where "eo = Some e" "ie_signature e = Some sig" "ia_static_code v e x now sig = None"
    "\<forall>rid \<in> set (ie_recipient_ids e). access_checks (iv_authority v) (message_access e x rid) now (iu_authority r) = []"
    "ia_claim_for v e x now (iu_store r) = (Inr Ia_stored, iu_store r')"
proof -
  note i = ia_require_Inr [OF assms]
  from conjunct2 [OF i] show thesis
  proof (cases rule: ia_verify_code_cases)
    case (claim e' sig c)
    have "e' = e" using i claim(1) by simp
    show thesis
      by (rule that [of sig]) (use claim \<open>e' = e\<close> i access_authorized_checks in auto)
  qed simp
qed

lemma ia_static_None:
  assumes "ia_static_code v e x now sig = None"
  obtains k where "dict_get (iv_keys v) (ie_key_id e) = Some k" "ia_key_active k now (ie_issued_at e)"
    "\<forall>(ok, code) \<in> set (ia_binding_checks v k e x now). ok" "ia_content_code v k e sig = None"
    "verify_transformations v e x now = None"
    "ie_chain_digest e = chain_digest (de_hash (iv_authority v)) (ix_chain x)"
    "dc_subject (chain_leaf (ix_chain x)) = ie_sender e"
  using assms by (auto simp: ia_static_code_def find_None_iff split: option.splits if_splits)

lemma ia_content_None:
  assumes "ia_content_code v k e sig = None"
  obtains pb eb where "ic_payload_json (iv_crypto v) (ie_payload e) = Some pb" "envelope_bytes (iv_crypto v) e = Some eb"
    "length pb \<le> ip_max_payload (iv_policy v)" "length eb \<le> ip_max_envelope (iv_policy v)"
    "ic_sha256 (iv_crypto v) pb = ie_payload_digest e" "ic_verify (iv_crypto v) (ik_public_key k) sig eb"
  using assms by (auto simp: ia_content_code_def Let_def split: option.splits if_splits)

section \<open>Authenticity and authority\<close>

text \<open>
  A received message is authentic and meant for this receiver. When \<open>require\<close> returns an envelope, its
  signature over all other fields verifies under an unrevoked key registered for exactly its
  sender, who is the authenticated peer; tenant, session, goal, task, purpose and audience are
  the receiver's; sender and every recipient are on an allowed route for its scope and type; its payload has the
  stated digest; and it is within its lifetime, age and size limits.
\<close>

theorem agent_message_authentic:
  assumes "ia_require v eo x now r = (Inr e, r')"
  shows "\<exists>k sig bytes. eo = Some e \<and> ie_signature e = Some sig \<and> dict_get (iv_keys v) (ie_key_id e) = Some k \<and>
    \<not> ik_revoked k \<and> ik_identity k = ie_sender e \<and> envelope_bytes (iv_crypto v) e = Some bytes \<and>
    ic_verify (iv_crypto v) (ik_public_key k) sig bytes \<and> length bytes \<le> ip_max_envelope (iv_policy v) \<and>
    ag_identity_id (ie_sender e) = ix_sender_id x \<and> ie_tenant_id e = ix_tenant_id x \<and>
    ag_identity_id (ix_recipient x) \<in> set (ie_recipient_ids e) \<and> ie_session_id e = ix_session_id x \<and>
    ie_goal_digest e = ix_goal_digest x \<and> ie_task_id e = ix_task_id x \<and> ie_purpose_id e = ix_purpose_id x \<and>
    (\<forall>rid \<in> set (ie_recipient_ids e). route_allowed (iv_policy v) e rid) \<and>
    payload_digest (iv_crypto v) (ie_payload e) = Some (ie_payload_digest e) \<and>
    ie_issued_at e \<le> now + td_seconds (ip_clock_skew (iv_policy v)) \<and>
    now < ie_expires_at e + td_seconds (ip_clock_skew (iv_policy v)) \<and>
    now \<le> ie_issued_at e + td_seconds (ip_max_age (iv_policy v)) + td_seconds (ip_clock_skew (iv_policy v)) \<and>
    ie_expires_at e \<le> ie_issued_at e + td_seconds (ip_max_ttl (iv_policy v))"
proof -
  obtain sig where s: "eo = Some e" "ie_signature e = Some sig" "ia_static_code v e x now sig = None"
    by (rule ia_required [OF assms], blast)
  from s(3) obtain k where k: "dict_get (iv_keys v) (ie_key_id e) = Some k" "ia_key_active k now (ie_issued_at e)"
    and b: "\<forall>(ok, code) \<in> set (ia_binding_checks v k e x now). ok"
    and c: "ia_content_code v k e sig = None" by (rule ia_static_None, blast)
  from c obtain pb eb where co: "ic_payload_json (iv_crypto v) (ie_payload e) = Some pb"
    "envelope_bytes (iv_crypto v) e = Some eb" "length eb \<le> ip_max_envelope (iv_policy v)"
    "ic_sha256 (iv_crypto v) pb = ie_payload_digest e" "ic_verify (iv_crypto v) (ik_public_key k) sig eb"
    by (rule ia_content_None)
  have bc: "ik_identity k = ie_sender e" "ag_identity_id (ie_sender e) = ix_sender_id x" "ie_tenant_id e = ix_tenant_id x"
    "ag_identity_id (ix_recipient x) \<in> set (ie_recipient_ids e)" "ie_session_id e = ix_session_id x"
    "ie_goal_digest e = ix_goal_digest x" "ie_task_id e = ix_task_id x" "ie_purpose_id e = ix_purpose_id x"
    "\<forall>rid \<in> set (ie_recipient_ids e). route_allowed (iv_policy v) e rid"
    "ie_issued_at e \<le> now + td_seconds (ip_clock_skew (iv_policy v))"
    "now < ie_expires_at e + td_seconds (ip_clock_skew (iv_policy v))"
    "now \<le> ie_issued_at e + td_seconds (ip_max_age (iv_policy v)) + td_seconds (ip_clock_skew (iv_policy v))"
    "ie_expires_at e \<le> ie_issued_at e + td_seconds (ip_max_ttl (iv_policy v))"
    using b by (force simp: ia_binding_checks_def Let_def list_all_iff)+
  show ?thesis
    by (rule exI [of _ k], rule exI [of _ sig], rule exI [of _ eb])
      (use s k co bc in \<open>simp add: payload_digest_def ia_key_active_def\<close>)
qed

lemma any_revoked_False: "any_revoked f now cs = Some False \<longleftrightarrow> (\<forall>c \<in> set cs. f (dc_capability_id c) now = Some False)"
  by (induction cs) (auto split: option.splits bool.splits)

lemma external_revocation_NilD:
  "external_revocation_findings a cs now = [] \<Longrightarrow> de_external a = Some f \<Longrightarrow> c \<in> set cs \<Longrightarrow>
   f (dc_capability_id c) now = Some False"
  using any_revoked_False [of f now cs]
  by (auto simp: external_revocation_findings_def di_when_def split: option.splits if_splits)

text \<open>
  C11: no message exceeds its sender's delegated authority. When \<open>require\<close> returns an envelope, it is bound
  to the presented delegation chain, which starts at a human or service that the policy trusts as a root and ends at
  the sender. For every recipient and every capability on the chain, the capability contains the message's scope and the
  recipient as audience, has the message's purpose and tenant, is authentic, neither revoked in the authorizer nor
  reported revoked by the shared revocation service where there is one, and is valid now.
\<close>

theorem agent_message_within_authority:
  assumes "ia_require v eo x now r = (Inr e, r')"
    and "list_all (validate_capability (de_hash (iv_authority v))) (ix_chain x)"
  shows "ie_chain_digest e = chain_digest (de_hash (iv_authority v)) (ix_chain x) \<and>
    ag_identity_id (chain_initiator (ix_chain x)) \<in> dp_trusted_roots (de_policy (iv_authority v)) \<and>
    ag_kind (chain_initiator (ix_chain x)) \<in> {Id_human, Id_service} \<and>
    dc_subject (chain_leaf (ix_chain x)) = ie_sender e \<and> ie_recipient_ids e \<noteq> [] \<and>
    (\<forall>c \<in> set (ix_chain x). \<forall>f. de_external (iv_authority v) = Some f \<longrightarrow> f (dc_capability_id c) now = Some False) \<and>
    (\<forall>rid \<in> set (ie_recipient_ids e). rid \<in> dp_allowed_audiences (de_policy (iv_authority v)) \<and>
       (\<forall>c \<in> set (ix_chain x). ie_scope e \<in> dc_scopes c \<and> rid \<in> dc_audiences c \<and>
          dc_purpose_id c = ie_purpose_id e \<and> ag_tenant_id (dc_issuer c) = ie_tenant_id e \<and>
          ag_tenant_id (dc_subject c) = ie_tenant_id e \<and> verified_by (de_verify_capability (iv_authority v)) c \<and>
          \<not> revoked_at (iu_authority r) (dc_capability_id c) now \<and> dc_not_before c \<le> now \<and> now < dc_expires_at c))"
proof -
  obtain sig where s: "eo = Some e" "ie_signature e = Some sig" "ia_static_code v e x now sig = None"
    and ac: "\<forall>rid \<in> set (ie_recipient_ids e).
      access_checks (iv_authority v) (message_access e x rid) now (iu_authority r) = []"
    by (rule ia_required [OF assms(1)], blast)
  from s(3) obtain k where d: "ie_chain_digest e = chain_digest (de_hash (iv_authority v)) (ix_chain x)"
      "dc_subject (chain_leaf (ix_chain x)) = ie_sender e"
    and b: "\<forall>(ok, code) \<in> set (ia_binding_checks v k e x now). ok" by (rule ia_static_None)
  have me: "ag_identity_id (ix_recipient x) \<in> set (ie_recipient_ids e)"
    using b by (force simp: ia_binding_checks_def Let_def)
  note rc = ac [THEN bspec, OF me]
  have start: "ag_identity_id (chain_initiator (ix_chain x)) \<in> dp_trusted_roots (de_policy (iv_authority v))"
    "ag_kind (chain_initiator (ix_chain x)) \<in> {Id_human, Id_service}"
    using access_checks_narrow(1,2) [OF rc] assms(2) by (simp_all add: message_access_def)
  have ext: "f (dc_capability_id c) now = Some False"
    if "c \<in> set (ix_chain x)" "de_external (iv_authority v) = Some f" for c f
    using external_revocation_NilD [OF access_checks_NilD(4) [OF rc] that(2)] that(1) by (simp add: message_access_def)
  have all: "rid \<in> dp_allowed_audiences (de_policy (iv_authority v)) \<and>
       (\<forall>c \<in> set (ix_chain x). ie_scope e \<in> dc_scopes c \<and> rid \<in> dc_audiences c \<and>
          dc_purpose_id c = ie_purpose_id e \<and> ag_tenant_id (dc_issuer c) = ie_tenant_id e \<and>
          ag_tenant_id (dc_subject c) = ie_tenant_id e \<and> verified_by (de_verify_capability (iv_authority v)) c \<and>
          \<not> revoked_at (iu_authority r) (dc_capability_id c) now \<and> dc_not_before c \<le> now \<and> now < dc_expires_at c)"
    if "rid \<in> set (ie_recipient_ids e)" for rid
    using access_checks_narrow(4,5) [OF ac [THEN bspec, OF that]] assms(2) by (simp add: message_access_def)
  show ?thesis
    by (intro conjI ballI allI impI) (use d start me ext all in \<open>auto\<close>)
qed

text \<open>
  A transformation is attested: signed over all its other fields, under a key registered for exactly the identity that made it, unrevoked and
  within its period both now and when the transformation was made; the identity is of the tenant and allowed to.
\<close>

definition hop_attested :: "('p, 'k) ia_verifier \<Rightarrow> ident set \<Rightarrow> ident \<Rightarrow> datetime \<Rightarrow> transformation \<Rightarrow> bool" where
  "hop_attested v allowed tenant now f \<longleftrightarrow>
     ag_tenant_id (tf_transformer f) = tenant \<and> ag_identity_id (tf_transformer f) \<in> allowed \<and>
     (\<exists>k sig. dict_get (iv_keys v) (tf_key_id f) = Some k \<and> ik_identity k = tf_transformer f \<and>
        \<not> ik_revoked k \<and> (\<forall>t. ik_active_from k = Some t \<longrightarrow> t \<le> now \<and> t \<le> tf_occurred_at f) \<and>
        (\<forall>t. ik_expires_at k = Some t \<longrightarrow> now < t \<and> tf_occurred_at f < t) \<and> tf_signature f = Some sig \<and>
        ic_verify (iv_crypto v) (ik_public_key k) sig (ic_transformation_json (iv_crypto v) (f\<lparr>tf_signature := None\<rparr>)))"

lemma ia_key_active_iff:
  "ia_key_active k now signed \<longleftrightarrow> \<not> ik_revoked k \<and>
     (\<forall>t. ik_active_from k = Some t \<longrightarrow> t \<le> now \<and> t \<le> signed) \<and>
     (\<forall>t. ik_expires_at k = Some t \<longrightarrow> now < t \<and> signed < t)"
  by (auto simp: ia_key_active_def not_less not_le split: option.splits)

lemma verify_hops_Inr:
  "verify_hops v e al now i d fs = Inr d' \<longleftrightarrow>
     transformations_linked (ie_issued_at e) i d fs \<and> (\<forall>f \<in> set fs. hop_attested v al (ie_tenant_id e) now f) \<and>
     d' = (if fs = [] then d else tf_output_digest (last fs))"
proof (induction v e al now i d fs rule: verify_hops.induct)
  case (2 v e al now i d f fs)
  show ?case
    using 2 by (auto simp: hop_attested_def ia_key_active_iff transformation_bytes_def split: option.splits)
qed auto

lemma transformations_linked_nth:
  assumes "transformations_linked issued i d fs" and "j < length fs"
  shows "tf_hop_index (fs ! j) = i + j \<and> tf_occurred_at (fs ! j) \<le> issued \<and>
    tf_input_digest (fs ! j) = (d # map tf_output_digest fs) ! j"
  using assms
proof (induction issued i d fs arbitrary: j rule: transformations_linked.induct)
  case (2 issued i d f fs)
  then show ?case by (cases j) auto
qed simp

text \<open>
  C12: the payload of a received message has an unbroken attested history. The digests of the states lead from the
  stated source through the output of each transformation to the digest of the payload that was received: every
  transformation takes in the digest before it, is numbered by its place, is no later than the
  message, and is signed under a key registered for exactly the identity that made it, unrevoked and active both now and
  then; that identity belongs to the message's tenant and is on the delegation chain or a trusted transformer.
\<close>

theorem agent_message_lineage:
  assumes "ia_require v eo x now r = (Inr e, r')"
  shows "\<exists>bytes. ic_payload_json (iv_crypto v) (ie_payload e) = Some bytes \<and>
    ic_sha256 (iv_crypto v) bytes = ie_payload_digest e \<and>
    last (ie_source_digest e # map tf_output_digest (ie_transformations e)) = ic_sha256 (iv_crypto v) bytes \<and>
    (\<forall>j < length (ie_transformations e). let f = ie_transformations e ! j in
       tf_hop_index f = j \<and> tf_occurred_at f \<le> ie_issued_at e \<and>
       tf_input_digest f = (ie_source_digest e # map tf_output_digest (ie_transformations e)) ! j \<and>
       hop_attested v ((\<Union>c \<in> set (ix_chain x). {ag_identity_id (dc_issuer c), ag_identity_id (dc_subject c)}) \<union>
         ip_transformers (iv_policy v)) (ie_tenant_id e) now f) \<and>
    length (ie_transformations e) \<le> ip_max_transformations (iv_policy v)"
proof -
  obtain sig where s: "ia_static_code v e x now sig = None"
    by (rule ia_required [OF assms], blast)
  from s obtain k where c: "ia_content_code v k e sig = None" and t: "verify_transformations v e x now = None"
    by (rule ia_static_None)
  from c obtain bytes where b: "ic_payload_json (iv_crypto v) (ie_payload e) = Some bytes"
    "ic_sha256 (iv_crypto v) bytes = ie_payload_digest e" by (rule ia_content_None)
  have l: "transformations_linked (ie_issued_at e) 0 (ie_source_digest e) (ie_transformations e)"
    and a: "\<forall>f \<in> set (ie_transformations e).
       hop_attested v (allowed_transformers (iv_policy v) (ix_chain x)) (ie_tenant_id e) now f"
    and d: "last (ie_source_digest e # map tf_output_digest (ie_transformations e)) = ie_payload_digest e"
    and n: "length (ie_transformations e) \<le> ip_max_transformations (iv_policy v)"
    using t by (auto simp: verify_transformations_def Let_def verify_hops_Inr last_map split: if_splits sum.splits)
  have al: "allowed_transformers (iv_policy v) (ix_chain x) =
      (\<Union>c \<in> set (ix_chain x). {ag_identity_id (dc_issuer c), ag_identity_id (dc_subject c)}) \<union> ip_transformers (iv_policy v)"
    by (auto simp: allowed_transformers_def)
  show ?thesis
    by (rule exI [of _ bytes]) (use b d n a [unfolded al] transformations_linked_nth [OF l] in \<open>simp add: Let_def\<close>)
qed

section \<open>Replay and order\<close>

definition ia_store_ok :: "ia_store \<Rightarrow> bool" where
  "ia_store_ok s \<longleftrightarrow> dict_ok (it_replays s) \<and> dict_ok (it_streams s) \<and>
     length (it_replays s) \<le> it_max_replays s \<and> length (it_streams s) \<le> it_max_streams s"

lemma new_ia_store_ok: "new_ia_store a b = Some s \<Longrightarrow> ia_store_ok s"
  by (auto simp: new_ia_store_def ia_store_ok_def split: if_splits)

lemma purge_ia_store_gets:
  assumes "ia_store_ok s"
  shows "dict_get (it_replays (purge_ia_store now s)) d =
      (case dict_get (it_replays s) d of None \<Rightarrow> None | Some x \<Rightarrow> if now < x then Some x else None)"
    and "dict_get (it_streams (purge_ia_store now s)) w =
      (case dict_get (it_streams s) w of None \<Rightarrow> None | Some y \<Rightarrow> if now < snd y then Some y else None)"
  using assms by (auto simp: purge_ia_store_def ia_store_ok_def dict_get_filter split: option.splits prod.splits)

lemma purge_ia_store_ok: "ia_store_ok s \<Longrightarrow> ia_store_ok (purge_ia_store now s)"
  by (auto simp: purge_ia_store_def ia_store_ok_def intro: dict_ok_filter le_trans [OF length_filter_le])

lemma ia_claim_ok:
  assumes "ia_store_ok s" and "ia_claim_state sid rid n x now s = (c, s')"
  shows "ia_store_ok s'"
  using assms purge_ia_store_ok [OF assms(1), of now]
  by (auto simp: ia_claim_state_def ia_store_ok_def length_dict_set Let_def split: if_splits)

lemma ia_claim_stored:
  assumes "ia_store_ok s" and "ia_claim_state sid rid n x now s = (Inr Ia_stored, s')"
  shows "now < x" "\<And>y. dict_get (it_replays s) rid = Some y \<Longrightarrow> y \<le> now"
    "dict_get (it_replays s') rid = Some x"
    "n = (case dict_get (it_streams s) sid of Some (m, u) \<Rightarrow> if now < u then m else 0 | None \<Rightarrow> 0)"
    "\<exists>u. dict_get (it_streams s') sid = Some (n + 1, u) \<and> x \<le> u"
proof -
  note pg = purge_ia_store_gets [OF assms(1), of now]
  show "now < x" "dict_get (it_replays s') rid = Some x" "\<exists>u. dict_get (it_streams s') sid = Some (n + 1, u) \<and> x \<le> u"
    using assms(2) by (auto simp: ia_claim_state_def Let_def split: if_splits option.splits prod.splits)
  show "y \<le> now" if "dict_get (it_replays s) rid = Some y" for y
    using assms(2) that pg(1) [of rid] by (auto simp: ia_claim_state_def Let_def split: if_splits)
  show "n = (case dict_get (it_streams s) sid of Some (m, u) \<Rightarrow> if now < u then m else 0 | None \<Rightarrow> 0)"
    using assms(2) pg(2) [of sid]
    by (auto simp: ia_claim_state_def Let_def split: if_splits option.splits prod.splits)
qed

lemma ia_claim_keeps:
  assumes "ia_store_ok s" and "ia_claim_state sid rid n x now s = (c, s')"
    and "dict_get (it_replays s) d = Some y" and "now < y"
  shows "dict_get (it_replays s') d = Some y"
  using assms(2-) purge_ia_store_gets(1) [OF assms(1), of now]
  by (auto simp: ia_claim_state_def Let_def split: if_splits)

text \<open>A verifier with its state and the last clock reading; a delivery is a message with its context and time.\<close>

type_synonym 'p ia_delivery = "'p ia_envelope \<times> ia_context \<times> datetime"

definition ia_deliver ::
  "('p, 'k) ia_verifier \<Rightarrow> ia_runtime \<times> datetime \<Rightarrow> 'p ia_delivery \<Rightarrow> bool \<times> ia_runtime \<times> datetime" where
  "ia_deliver v st i =
     (case i of (e, x, now) \<Rightarrow>
        (let (code, r') = ia_verify_code v (Some e) x now (fst st) in (code = Ia_verified, r', now)))"

definition ia_clock :: "ia_runtime \<times> datetime \<Rightarrow> 'p ia_delivery \<Rightarrow> bool" where
  "ia_clock st i \<longleftrightarrow> snd st \<le> snd (snd i)"

definition ia_key_of :: "'p ia_delivery \<Rightarrow> 'p ia_envelope \<times> ident" where
  "ia_key_of i = (fst i, ag_identity_id (ix_recipient (fst (snd i))))"

text \<open>Messages a recipient cannot receive any more: expired, or claimed until they expire.\<close>

definition ia_spent :: "('p, 'k) ia_verifier \<Rightarrow> ia_runtime \<times> datetime \<Rightarrow> ('p ia_envelope \<times> ident) set" where
  "ia_spent v st = {(e, rid). ie_expires_at e + td_seconds (ip_clock_skew (iv_policy v)) \<le> snd st \<or>
     (\<exists>y. dict_get (it_replays (iu_store (fst st))) (message_replay_id (iv_crypto v) e rid) = Some y \<and>
          ie_expires_at e + td_seconds (ip_clock_skew (iv_policy v)) \<le> y)}"

lemma ia_deliver_cases:
  assumes "ia_deliver v (r, t) (e, x, now) = (ok, st')"
  obtains (kept) "fst st' = r" "\<not> ok" "snd st' = now"
  | (claim) c where "ia_claim_for v e x now (iu_store r) = (c, iu_store (fst st'))" "ok \<longleftrightarrow> c = Inr Ia_stored"
      "snd st' = now"
proof -
  obtain code r' where c: "ia_verify_code v (Some e) x now r = (code, r')"
    by (cases "ia_verify_code v (Some e) x now r")
  have st: "st' = (r', now)" "ok = (code = Ia_verified)" using assms by (auto simp: ia_deliver_def c)
  from c show thesis
    by (cases rule: ia_verify_code_cases) (use kept claim st in auto)
qed

interpretation ia_use: single_use "ia_deliver v" ia_key_of "ia_spent v" ia_clock "\<lambda>st. ia_store_ok (iu_store (fst st))" for v
proof (unfold_locales, goal_cases)
  case (1 st i st')
  obtain r t where st: "st = (r, t)" by (cases st)
  obtain e x now where i: "i = (e, x, now)" by (cases i)
  have "ia_deliver v (r, t) (e, x, now) = (True, st')" using 1(3) st i by simp
  then show ?case
  proof (cases rule: ia_deliver_cases)
    case (claim c)
    have ok: "ia_store_ok (iu_store r)" using 1(1) st by simp
    from claim have "ia_claim_for v e x now (iu_store r) = (Inr Ia_stored, iu_store (fst st'))" by simp
    note s = ia_claim_stored(1,2) [OF ok this [unfolded ia_claim_for_def]]
    then show ?thesis using 1(2) by (force simp: st i ia_spent_def ia_clock_def ia_key_of_def)
  qed simp
next
  case (2 st i st')
  obtain r t where st: "st = (r, t)" by (cases st)
  obtain e x now where i: "i = (e, x, now)" by (cases i)
  have "ia_deliver v (r, t) (e, x, now) = (True, st')" using 2(3) st i by simp
  then show ?case
  proof (cases rule: ia_deliver_cases)
    case (claim c)
    have ok: "ia_store_ok (iu_store r)" using 2(1) st by simp
    from claim have "ia_claim_for v e x now (iu_store r) = (Inr Ia_stored, iu_store (fst st'))" by simp
    note s = ia_claim_stored(3) [OF ok this [unfolded ia_claim_for_def]]
    then show ?thesis by (simp add: i ia_spent_def ia_key_of_def)
  qed simp
next
  case (3 st i ok st')
  obtain r t where st: "st = (r, t)" by (cases st)
  obtain e x now where i: "i = (e, x, now)" by (cases i)
  have now: "t \<le> now" using 3(2) st i by (simp add: ia_clock_def)
  have "ia_deliver v (r, t) (e, x, now) = (ok, st')" using 3(3) st i by simp
  then show ?case
  proof (cases rule: ia_deliver_cases)
    case kept
    then show ?thesis using now by (auto simp: ia_spent_def st)
  next
    case (claim c)
    have "ia_store_ok (iu_store r)" using 3(1) st by simp
    note keep = ia_claim_keeps [OF this claim(1) [unfolded ia_claim_for_def]]
    show ?thesis
    proof
      fix q assume q: "q \<in> ia_spent v st"
      obtain f rid where f: "q = (f, rid)" by (cases q)
      from q f consider "ie_expires_at f + td_seconds (ip_clock_skew (iv_policy v)) \<le> t"
        | y where "dict_get (it_replays (iu_store r)) (message_replay_id (iv_crypto v) f rid) = Some y"
          "ie_expires_at f + td_seconds (ip_clock_skew (iv_policy v)) \<le> y"
        by (auto simp: ia_spent_def st)
      then show "q \<in> ia_spent v st'"
        by cases (use keep claim(3) now f in \<open>fastforce simp: ia_spent_def\<close>)+
    qed
  qed
next
  case (4 st i ok st')
  obtain r t where st: "st = (r, t)" by (cases st)
  obtain e x now where i: "i = (e, x, now)" by (cases i)
  have "ia_deliver v (r, t) (e, x, now) = (ok, st')" using 4(3) st i by simp
  then show ?case
    by (cases rule: ia_deliver_cases) (use 4(1) st ia_claim_ok in \<open>auto simp: ia_claim_for_def\<close>)
qed

text \<open>
  No recipient accepts a message twice. Along any sequence of deliveries with a clock that does not run
  backwards, on a new store of any capacity, the accepted pairs of message and recipient are pairwise
  different, although claims are forgotten when they expire.
\<close>

theorem agent_message_accepted_at_most_once:
  assumes "new_ia_store a b = Some (iu_store r)"
    and "all_admissible ia_clock (ia_deliver v) (r, t0) ds"
  shows "distinct (map ia_key_of (fst (run_attempts (ia_deliver v) (r, t0) ds)))"
  using ia_use.accepted_at_most_once [OF _ assms(2) surjective_pairing] new_ia_store_ok [OF assms(1)] by simp

text \<open>
  Messages of a live stream are accepted in order without gaps. An accepted message carries exactly the
  next sequence number of its stream, 0 on a stream without live entry, and afterwards the stream
  expects the following number at least until the message cannot be accepted any more.
\<close>

theorem agent_messages_in_order:
  assumes "ia_require v eo x now r = (Inr e, r')" and "ia_store_ok (iu_store r)"
  shows "ie_sequence e = (case dict_get (it_streams (iu_store r)) (stream_id (iv_crypto v) e x) of
        Some (m, until) \<Rightarrow> if now < until then m else 0
      | None \<Rightarrow> 0) \<and>
    (\<exists>until. dict_get (it_streams (iu_store r')) (stream_id (iv_crypto v) e x) = Some (ie_sequence e + 1, until) \<and>
       ie_expires_at e + td_seconds (ip_clock_skew (iv_policy v)) \<le> until)"
proof -
  obtain sig where "ia_claim_for v e x now (iu_store r) = (Inr Ia_stored, iu_store r')"
    by (rule ia_required [OF assms(1)], blast)
  from ia_claim_stored(4,5) [OF assms(2) this [unfolded ia_claim_for_def]] show ?thesis by simp
qed

text \<open>
  An idle stream starts again: once every message accepted on it has expired, the store expects
  sequence 0, so the sender's next number is refused as out of order.
\<close>

theorem idle_stream_restarts:
  assumes "ia_store_ok s" and "dict_get (it_streams s) sid = Some (m, until)" and "until \<le> now"
    and "0 < m" and "now < x" and "dict_get (it_replays s) rid = None"
    and "length (it_replays s) < it_max_replays s" and "length (it_streams s) < it_max_streams s"
  shows "fst (ia_claim_state sid rid m x now s) = Inr Ia_out_of_order \<and>
    fst (ia_claim_state sid rid 0 x now s) = Inr Ia_stored"
proof -
  note pg = purge_ia_store_gets [OF assms(1), of now]
  have "length (it_replays (purge_ia_store now s)) < it_max_replays (purge_ia_store now s)"
    "length (it_streams (purge_ia_store now s)) < it_max_streams (purge_ia_store now s)"
    using assms(7,8) by (auto simp: purge_ia_store_def intro: le_less_trans [OF length_filter_le])
  then show ?thesis using assms(2-6) pg(1) [of rid] pg(2) [of sid] by (simp add: ia_claim_state_def Let_def)
qed

section \<open>Round trip\<close>

definition expected_context :: "'p ia_envelope \<Rightarrow> agent_identity \<Rightarrow> delegation_chain \<Rightarrow> ia_context" where
  "expected_context e rcpt cs = \<lparr>ix_sender_id = ag_identity_id (ie_sender e), ix_recipient = rcpt,
     ix_tenant_id = ie_tenant_id e, ix_session_id = ie_session_id e, ix_goal_digest = ie_goal_digest e,
     ix_task_id = ie_task_id e, ix_purpose_id = ie_purpose_id e, ix_chain = cs\<rparr>"

lemma sign_message_Some:
  assumes "sign_message cy h p sk who payload a now = Some e"
  obtains ttl bytes u b where "1 \<le> ttl" "ttl \<le> ip_max_ttl p" "ic_payload_json cy payload = Some bytes"
    "length bytes \<le> ip_max_payload p" "length (ij_recipient_ids a) \<le> ip_max_fanout p"
    "length (ij_transformations a) \<le> ip_max_transformations p"
    "u = unsigned_message cy h sk who payload (ic_sha256 cy bytes) ttl a now" "validate_envelope cy u"
    "envelope_bytes cy u = Some b" "length b \<le> ip_max_envelope p"
    "e = u\<lparr>ie_signature := Some (ic_sign cy sk b)\<rparr>"
  using assms by (auto simp: sign_message_def Let_def not_less split: if_splits option.splits)

text \<open>
  What an authorized agent signs, the receiver accepts. If signatures verify under their public keys,
  then a message made by \<open>sign\<close> whose transformations are attested is returned by \<open>require\<close> to a
  recipient it names, within its lifetime and age, on routes the policy allows, provided the sender's
  key is registered and active, its delegation chain ends at the sender and authorizes every
  recipient, and the message opens a stream on a new store.
\<close>

theorem signed_agent_message_accepted:
  assumes "\<And>m. ic_verify (iv_crypto v) (ic_public (iv_crypto v) sk) (ic_sign (iv_crypto v) sk m) m"
    and "ia_policy_ok (iv_policy v)"
    and "sign_message (iv_crypto v) (de_hash (iv_authority v)) (iv_policy v) sk who payload a issued = Some e"
    and "dict_get (iv_keys v) (content_reference (iv_crypto v) (ic_public (iv_crypto v) sk)) = Some k"
    and "ik_public_key k = ic_public (iv_crypto v) sk" and "ik_identity k = who" and "ia_key_active k now issued"
    and "issued \<le> now" and "now < ie_expires_at e" and "now \<le> issued + td_seconds (ip_max_age (iv_policy v))"
    and "ag_identity_id rcpt \<in> set (ij_recipient_ids a)" and "ag_tenant_id rcpt = ag_tenant_id who"
    and "list_all (route_allowed (iv_policy v) e) (ij_recipient_ids a)"
    and "list_all (hop_attested v (allowed_transformers (iv_policy v) (ij_chain a)) (ag_tenant_id who) now)
      (ij_transformations a)"
    and "dc_subject (chain_leaf (ij_chain a)) = who"
    and "list_all (\<lambda>rid. access_authorized (fst (authorize_access (iv_authority v)
      (message_access e (expected_context e rcpt (ij_chain a)) rid) now ''authorization'' (iu_authority r)))) (ij_recipient_ids a)"
    and "ij_sequence a = 0" and "new_ia_store m n = Some (iu_store r)"
  shows "fst (ia_require v (Some e) (expected_context e rcpt (ij_chain a)) now r) = Inr e"
proof -
  let ?cy = "iv_crypto v" and ?p = "iv_policy v" and ?x = "expected_context e rcpt (ij_chain a)"
  obtain ttl bytes u b where s: "1 \<le> ttl" "ttl \<le> ip_max_ttl ?p" "ic_payload_json ?cy payload = Some bytes"
    "length bytes \<le> ip_max_payload ?p" "length (ij_recipient_ids a) \<le> ip_max_fanout ?p"
    "length (ij_transformations a) \<le> ip_max_transformations ?p"
    and u: "u = unsigned_message ?cy (de_hash (iv_authority v)) sk who payload (ic_sha256 ?cy bytes) ttl a issued"
    and va: "validate_envelope ?cy u" and b: "envelope_bytes ?cy u = Some b" "length b \<le> ip_max_envelope ?p"
    and e: "e = u\<lparr>ie_signature := Some (ic_sign ?cy sk b)\<rparr>"
    by (rule sign_message_Some [OF assms(3)])
  have eb: "envelope_bytes ?cy e = Some b" using b(1) by (simp add: e u envelope_bytes_def unsigned_message_def)
  have f: "ie_key_id e = content_reference ?cy (ic_public ?cy sk)" "ie_sender e = who" "ie_payload e = payload"
    "ie_recipient_ids e = ij_recipient_ids a" "ie_tenant_id e = ag_tenant_id who" "ie_issued_at e = issued"
    "ie_expires_at e = issued + td_seconds ttl" "ie_payload_digest e = ic_sha256 ?cy bytes"
    "ie_transformations e = ij_transformations a" "ie_signature e = Some (ic_sign ?cy sk b)"
    "ie_chain_digest e = chain_digest (de_hash (iv_authority v)) (ij_chain a)" "ie_sequence e = 0"
    "ie_source_digest e = ie_source_digest u" "ix_chain ?x = ij_chain a"
    using assms(17) by (simp_all add: e u unsigned_message_def expected_context_def)
  have skew: "0 \<le> ip_clock_skew ?p" using assms(2) by (simp add: ia_policy_ok_def)
  have "find (\<lambda>(ok, _). \<not> ok) (ia_binding_checks v k e ?x now) = None"
    using assms(6,8-13) s skew by (simp add: ia_binding_checks_def Let_def f expected_context_def td_seconds_def find_None_iff)
  moreover have "ia_content_code v k e (ic_sign ?cy sk b) = None"
    using s b eb assms(1,5) by (simp add: ia_content_code_def Let_def f)
  moreover have "verify_transformations v e ?x now = None"
  proof (cases "ij_transformations a = []")
    case True
    then show ?thesis using va s by (simp add: verify_transformations_def f validate_envelope_def u unsigned_message_def)
  next
    case False
    have "transformations_linked issued 0 (ie_source_digest u) (ij_transformations a)"
      "tf_output_digest (last (ij_transformations a)) = ic_sha256 ?cy bytes"
      using va False by (simp_all add: validate_envelope_def u unsigned_message_def)
    then have "verify_hops v e (allowed_transformers ?p (ij_chain a)) now 0 (ie_source_digest e) (ij_transformations a) =
        Inr (ic_sha256 ?cy bytes)"
      using assms(14) False by (simp add: verify_hops_Inr f list_all_iff)
    then show ?thesis using s False by (simp add: verify_transformations_def f)
  qed
  ultimately have st: "ia_static_code v e ?x now (ic_sign ?cy sk b) = None"
    using assms(4,7,15) by (simp add: ia_static_code_def f)
  obtain ok au where ra: "authorize_recipients (iv_authority v) e ?x now (ie_recipient_ids e) (iu_authority r) = (ok, au)"
    by (cases "authorize_recipients (iv_authority v) e ?x now (ie_recipient_ids e) (iu_authority r)")
  have ok: ok and au: "au = iu_authority r"
    using authorize_recipients_True [OF ra] assms(16) by (simp_all add: f list_all_iff)
  have "now < ie_expires_at e + td_seconds (ip_clock_skew ?p)" using assms(9) skew by (simp add: td_seconds_def)
  then obtain s' where "ia_claim_for v e ?x now (iu_store r) = (Inr Ia_stored, s')"
    using assms(18) by (auto simp: ia_claim_for_def ia_claim_state_def purge_ia_store_def new_ia_store_def Let_def f
        split: if_splits dest!: sym [of _ "iu_store r"])
  then have "fst (ia_verify_code v (Some e) ?x now r) = Ia_verified"
    using st ra ok au by (simp add: ia_verify_code_def f)
  then show ?thesis
    by (simp add: ia_require_def ia_verify_def ia_is_verified_def ia_result_of_def Let_def split_def)
qed

section \<open>Witnesses\<close>

text \<open>A toy scheme: digests are the text itself, a signature is the key in front of the message.\<close>

definition demo_ia_crypto :: "(string, string) ia_crypto" where
  "demo_ia_crypto = \<lparr>ic_sha256 = (\<lambda>s. s), ic_sign = (\<lambda>k m. k @ m), ic_verify = (\<lambda>pk s m. s = pk @ m),
     ic_public = (\<lambda>k. k), ic_payload_json = Some, ic_envelope_json = (\<lambda>e. Some (ie_payload e)),
     ic_transformation_json = tf_transformation_id, ic_fields_json = (\<lambda>fs. concat (map snd fs))\<rparr>"

definition demo_ia_policy :: ia_policy where
  "demo_ia_policy = \<lparr>ip_routes = [\<lparr>ir_sender_id = ''sub'', ir_recipient_id = ''crm'', ir_scopes = {''read''},
       ir_message_types = {Task_request}\<rparr>], ip_transformers = {}, ip_default_ttl = 60, ip_max_ttl = 300,
     ip_max_age = 300, ip_clock_skew = 30, ip_max_payload = 100, ip_max_envelope = 2000, ip_max_fanout = 1,
     ip_max_transformations = 4\<rparr>"

definition demo_ia_key :: ia_key where
  "demo_ia_key = \<lparr>ik_identity = demo_helper, ik_public_key = ''K'', ik_active_from = None, ik_expires_at = None,
     ik_revoked = False\<rparr>"

definition demo_ia_verifier :: "(string, string) ia_verifier" where
  "demo_ia_verifier = \<lparr>iv_crypto = demo_ia_crypto, iv_keys = the (ia_key_table demo_ia_crypto [demo_ia_key]),
     iv_policy = demo_ia_policy, iv_authority = demo_di_env\<rparr>"

definition demo_recipient :: agent_identity where
  "demo_recipient = \<lparr>ag_identity_id = ''crm'', ag_kind = Id_agent, ag_tenant_id = ''t''\<rparr>"

definition demo_ia_args :: ia_args where
  "demo_ia_args = \<lparr>ij_message_type = Task_request, ij_recipient_ids = [''crm''], ij_session_id = ''s'',
     ij_goal_digest = ''g'', ij_task_id = ''k'', ij_purpose_id = ''p'', ij_scope = ''read'',
     ij_chain = [demo_root_capability, demo_leaf_capability], ij_sequence = 0, ij_transformations = [],
     ij_source_digest = None, ij_ttl = None, ij_nonce = ''n'', ij_message_id = ''m''\<rparr>"

definition demo_ia_message :: "string ia_envelope" where
  "demo_ia_message = the (sign_message demo_ia_crypto demo_di_hash demo_ia_policy ''K'' demo_helper ''hi'' demo_ia_args 5)"

definition demo_ia_runtime :: ia_runtime where
  "demo_ia_runtime = \<lparr>iu_store = \<lparr>it_max_replays = 4, it_max_streams = 4, it_replays = [], it_streams = []\<rparr>,
     iu_authority = new_authorizer\<rparr>"

abbreviation demo_ia_context :: ia_context where
  "demo_ia_context \<equiv> expected_context demo_ia_message demo_recipient (ij_chain demo_ia_args)"

lemma demo_ia_message_signed:
  "sign_message demo_ia_crypto demo_di_hash demo_ia_policy ''K'' demo_helper ''hi'' demo_ia_args 5 = Some demo_ia_message"
  by (simp add: demo_ia_message_def sign_message_def unsigned_message_def validate_envelope_def payload_digest_def
      envelope_bytes_def demo_ia_crypto_def demo_ia_policy_def demo_ia_args_def demo_helper_def td_seconds_def Let_def)

lemma demo_ia_message_fields:
  "ie_sender demo_ia_message = demo_helper" "ie_expires_at demo_ia_message = 60000005" "ie_scope demo_ia_message = ''read''"
  "ie_message_type demo_ia_message = Task_request" "ie_purpose_id demo_ia_message = ''p''" "ie_tenant_id demo_ia_message = ''t''"
  "ie_key_id demo_ia_message = ''sha256:K''" "ie_payload demo_ia_message = ''hi''"
  "ie_signature demo_ia_message = Some ''Khi''" "ie_issued_at demo_ia_message = 5" "ie_recipient_ids demo_ia_message = [''crm'']"
  "ie_payload_digest demo_ia_message = ''hi''" "ie_source_digest demo_ia_message = ''hi''" "ie_transformations demo_ia_message = []"
  "ie_chain_digest demo_ia_message = ''c0c1''" "ie_sequence demo_ia_message = 0"
  by (simp_all add: demo_ia_message_def sign_message_def unsigned_message_def validate_envelope_def payload_digest_def
      envelope_bytes_def demo_ia_crypto_def demo_ia_policy_def demo_ia_args_def demo_helper_def td_seconds_def Let_def
      content_reference_def chain_digest_def demo_capability_fields demo_di_hash_def)

lemma demo_message_access: "access_checks demo_di_env (message_access demo_ia_message demo_ia_context ''crm'') 10 new_authorizer = []"
proof -
  have "delegation_findings demo_di_env [demo_root_capability, demo_leaf_capability] 10 new_authorizer = []"
    using access_checks_NilD(2) [OF demo_access_checks] by (simp add: demo_access_def)
  moreover have "access_request_findings demo_di_env (message_access demo_ia_message demo_ia_context ''crm'') = []"
    by (simp add: access_request_findings_def message_access_def expected_context_def demo_ia_message_fields demo_ia_args_def
        chain_leaf_def demo_capability_fields)
      (simp add: demo_di_simps)
  moreover have "grant_findings demo_di_env (message_access demo_ia_message demo_ia_context ''crm'') 10 new_authorizer = []"
    by (simp add: grant_findings_def kind_findings_def grant_of_kind_def message_access_def demo_ia_message_fields demo_di_simps)
  moreover have "de_external demo_di_env = None" by (simp add: demo_di_env_def)
  ultimately show ?thesis
    by (simp add: access_checks_def external_revocation_findings_def message_access_def expected_context_def demo_ia_args_def)
qed

lemma demo_message_authorized:
  "access_authorized (fst (authorize_access demo_di_env (message_access demo_ia_message demo_ia_context ''crm'') 10 u new_authorizer))"
  using demo_message_access
  by (simp add: authorize_access_def access_commit_def mutable_access_findings_def local_revocation_findings_def
      revoked_at_def new_authorizer_def message_access_def access_authorized_def Let_def)

lemma demo_ia_verifier_fields:
  "iv_crypto demo_ia_verifier = demo_ia_crypto" "iv_policy demo_ia_verifier = demo_ia_policy"
  "iv_authority demo_ia_verifier = demo_di_env" "iv_keys demo_ia_verifier = [(''sha256:K'', demo_ia_key)]"
  by (simp_all add: demo_ia_verifier_def ia_key_table_def ia_key_id_def content_reference_def demo_ia_key_def demo_ia_crypto_def)

theorem signed_agent_message_accepted_witness:
  "fst (ia_require demo_ia_verifier (Some demo_ia_message) demo_ia_context 10 demo_ia_runtime) = Inr demo_ia_message"
proof (rule signed_agent_message_accepted
    [where k = demo_ia_key and issued = 5 and sk = "''K''" and who = demo_helper and m = 4 and n = 4 and payload = "''hi''"])
  show "sign_message (iv_crypto demo_ia_verifier) (de_hash (iv_authority demo_ia_verifier)) (iv_policy demo_ia_verifier)
      ''K'' demo_helper ''hi'' demo_ia_args 5 = Some demo_ia_message"
    using demo_ia_message_signed by (simp add: demo_ia_verifier_fields demo_di_env_def)
qed (use demo_message_authorized in \<open>simp_all add: demo_ia_verifier_fields demo_ia_crypto_def demo_ia_policy_def
      ia_policy_ok_def content_reference_def demo_ia_key_def ia_key_active_def demo_ia_message_fields td_seconds_def
      demo_ia_args_def demo_recipient_def demo_helper_def route_allowed_def chain_leaf_def demo_capability_fields
      demo_ia_runtime_def new_ia_store_def\<close>)

lemma demo_received:
  obtains r' where "ia_require demo_ia_verifier (Some demo_ia_message) demo_ia_context 10 demo_ia_runtime = (Inr demo_ia_message, r')"
proof -
  have "envelope_bytes demo_ia_crypto demo_ia_message = Some ''hi''"
    by (simp add: envelope_bytes_def demo_ia_crypto_def demo_ia_message_fields)
  then have content: "ia_content_code demo_ia_verifier demo_ia_key demo_ia_message ''Khi'' = None"
    by (simp add: ia_content_code_def Let_def demo_ia_verifier_fields demo_ia_message_fields demo_ia_policy_def)
      (simp add: demo_ia_crypto_def demo_ia_message_fields demo_ia_key_def)
  have bind: "find (\<lambda>(ok, _). \<not> ok) (ia_binding_checks demo_ia_verifier demo_ia_key demo_ia_message demo_ia_context 10) = None"
    by (simp add: ia_binding_checks_def Let_def demo_ia_verifier_fields demo_ia_message_fields demo_ia_key_def
        demo_ia_policy_def expected_context_def demo_recipient_def demo_helper_def route_allowed_def td_seconds_def)
  have "verify_transformations demo_ia_verifier demo_ia_message demo_ia_context 10 = None"
    by (simp add: verify_transformations_def demo_ia_message_fields)
  then have "ia_static_code demo_ia_verifier demo_ia_message demo_ia_context 10 ''Khi'' = None"
    using content bind
    by (simp add: ia_static_code_def ia_key_active_def demo_ia_verifier_fields demo_ia_message_fields)
      (simp add: demo_ia_key_def expected_context_def demo_ia_args_def chain_leaf_def demo_capability_fields
        chain_digest_def demo_di_env_def demo_di_hash_def)
  moreover have "authorize_recipients demo_di_env demo_ia_message demo_ia_context 10 [''crm''] new_authorizer = (True, new_authorizer)"
    using demo_message_authorized authorize_access_no_grants [of "message_access demo_ia_message demo_ia_context ''crm''"]
    by (simp add: split_def Let_def message_access_def)
  ultimately have "fst (ia_verify_code demo_ia_verifier (Some demo_ia_message) demo_ia_context 10 demo_ia_runtime) = Ia_verified"
    by (simp add: ia_verify_code_def demo_ia_message_fields demo_ia_verifier_fields demo_ia_runtime_def ia_claim_for_def
        ia_claim_state_def purge_ia_store_def Let_def demo_ia_policy_def td_seconds_def)
  then have "fst (ia_require demo_ia_verifier (Some demo_ia_message) demo_ia_context 10 demo_ia_runtime) = Inr demo_ia_message"
    by (simp add: ia_require_def ia_verify_def ia_is_verified_def ia_result_of_def Let_def split_def)
  then show thesis using that
    by (cases "ia_require demo_ia_verifier (Some demo_ia_message) demo_ia_context 10 demo_ia_runtime") simp
qed

lemma demo_ia_runtime_ok: "ia_store_ok (iu_store demo_ia_runtime)"
  by (simp add: demo_ia_runtime_def ia_store_ok_def)

theorem agent_message_authentic_witness:
  "ag_identity_id (ie_sender demo_ia_message) = ix_sender_id demo_ia_context \<and> ie_tenant_id demo_ia_message = ix_tenant_id demo_ia_context"
proof -
  obtain r' where "ia_require demo_ia_verifier (Some demo_ia_message) demo_ia_context 10 demo_ia_runtime = (Inr demo_ia_message, r')"
    by (rule demo_received)
  from agent_message_authentic [OF this] show ?thesis by blast
qed

theorem agent_message_within_authority_witness:
  "ie_scope demo_ia_message \<in> dc_scopes demo_root_capability \<and> ''crm'' \<in> dc_audiences demo_root_capability \<and>
   ag_kind (chain_initiator (ix_chain demo_ia_context)) \<in> {Id_human, Id_service}"
proof -
  obtain r' where "ia_require demo_ia_verifier (Some demo_ia_message) demo_ia_context 10 demo_ia_runtime = (Inr demo_ia_message, r')"
    by (rule demo_received)
  from agent_message_within_authority [OF this] demo_capabilities_valid show ?thesis
    by (simp add: demo_ia_verifier_fields demo_di_env_def expected_context_def demo_ia_args_def demo_ia_message_fields)
qed

theorem agent_message_lineage_witness:
  "\<exists>bytes. ic_payload_json demo_ia_crypto (ie_payload demo_ia_message) = Some bytes \<and>
    ie_source_digest demo_ia_message = ic_sha256 demo_ia_crypto bytes"
proof -
  obtain r' where "ia_require demo_ia_verifier (Some demo_ia_message) demo_ia_context 10 demo_ia_runtime = (Inr demo_ia_message, r')"
    by (rule demo_received)
  from agent_message_lineage [OF this] show ?thesis by (auto simp: demo_ia_message_fields demo_ia_verifier_fields)
qed

theorem agent_messages_in_order_witness:
  "\<exists>r'. fst (the (dict_get (it_streams (iu_store (r' :: ia_runtime))) (stream_id demo_ia_crypto demo_ia_message demo_ia_context))) = 1"
proof -
  obtain r' where "ia_require demo_ia_verifier (Some demo_ia_message) demo_ia_context 10 demo_ia_runtime = (Inr demo_ia_message, r')"
    by (rule demo_received)
  from agent_messages_in_order [OF this demo_ia_runtime_ok] show ?thesis
    by (intro exI [of _ r']) (auto simp: demo_ia_verifier_fields demo_ia_message_fields)
qed

theorem agent_message_accepted_at_most_once_witness:
  "distinct (map ia_key_of (fst (run_attempts (ia_deliver demo_ia_verifier) (demo_ia_runtime, 0)
     [(demo_ia_message, demo_ia_context, 10), (demo_ia_message, demo_ia_context, 12)])))"
  by (rule agent_message_accepted_at_most_once [of 4 4])
    (simp_all add: new_ia_store_def demo_ia_runtime_def ia_clock_def ia_deliver_def split_def Let_def)

theorem idle_stream_restarts_witness:
  "fst (ia_claim_state ''s'' ''r'' 5 200 100 \<lparr>it_max_replays = 4, it_max_streams = 4,
     it_replays = [], it_streams = [(''s'', 5, 100)]\<rparr>) = Inr Ia_out_of_order"
  using idle_stream_restarts [of "\<lparr>it_max_replays = 4, it_max_streams = 4, it_replays = [], it_streams = [(''s'', 5, 100)]\<rparr>"
      "''s''" 5 100 100 200 "''r''"]
  by (simp add: ia_store_ok_def dict_ok_def)

end
