(* ===== verification/Credential_Broker.thy ===== *)
theory Credential_Broker
  imports Core_Models
begin

text \<open>
  The broker half of \<open>credentials.py\<close> with \<open>models/credentials.py\<close>: opaque references, execution-bound
  capabilities, the capability store, credential material, the test vault, and \<open>CredentialBroker\<close>. Digests
  are the fields of the record \<open>cred_hash\<close>; the execution verifier and the vault are functions that may
  raise (\<open>None\<close>) and are passed to every operation, since they change outside the broker. Identifier
  patterns of the models and message texts are left out.
\<close>

section \<open>References, executions and capabilities\<close>

datatype cred_phase = Cred_issue | Cred_resolve | Cred_revoke | Cred_rotate | Cred_inspect

datatype cred_surface =
    Surface_prompt | Surface_model_output | Surface_tool_schema | Surface_tool_arguments
  | Surface_approval | Surface_memory | Surface_telemetry | Surface_exception
  | Surface_serialization | Surface_stream | Surface_connector_error

datatype cap_state =
    Cap_stored | Cap_consumed | Cap_replayed | Cap_revoked | Cap_expired | Cap_missing | Cap_collision

datatype cred_code =
    Cred_allowed | Reference_unknown | Reference_revoked | Broker_mismatch | Scope_mismatch
  | Execution_invalid | Execution_expired | Capability_invalid | Capability_expired
  | Capability_replayed | Capability_revoked | Cred_state_unavailable | Vault_unavailable
  | Version_changed | Raw_credential | Credential_object | Suspicious_field | Inspection_limit
  | Unsupported_value

record cred_ref =
  cr_broker_id :: ident
  cr_reference_id :: ident

record cred_scope =
  cs_tenant_id :: ident
  cs_tool_name :: string
  cs_resource_id :: string
  cs_operation :: ident

record cred_binding =
  cn_reference :: cred_ref
  cn_scope :: cred_scope
  cn_version :: ident
  cn_max_ttl :: int
  cn_active :: bool

record cred_policy =
  cl_broker_id :: ident
  cl_version :: nat
  cl_bindings :: "cred_binding list"

definition cred_policy_ok :: "cred_policy \<Rightarrow> bool" where
  "cred_policy_ok p \<longleftrightarrow> 1 \<le> cl_version p \<and> cl_bindings p \<noteq> [] \<and>
     list_all (\<lambda>b. 1 \<le> cn_max_ttl b \<and> cn_max_ttl b \<le> 900) (cl_bindings p) \<and>
     distinct (map (\<lambda>b. cr_reference_id (cn_reference b)) (cl_bindings p)) \<and>
     list_all (\<lambda>b. cr_broker_id (cn_reference b) = cl_broker_id p) (cl_bindings p)"

definition binding_for :: "cred_policy \<Rightarrow> cred_ref \<Rightarrow> cred_binding option" where
  "binding_for p r = find (\<lambda>b. cn_reference b = r) (cl_bindings p)"

record cred_execution =
  ce_execution_id :: ident
  ce_authorization_id :: ident
  ce_request_digest :: string
  ce_scope :: cred_scope
  ce_issued_at :: datetime
  ce_expires_at :: datetime
  ce_digest :: string

record cred_capability =
  cc_capability_id :: ident
  cc_broker_id :: ident
  cc_reference :: cred_ref
  cc_scope :: cred_scope
  cc_execution_digest :: string
  cc_version :: ident
  cc_policy_digest :: string
  cc_issued_at :: datetime
  cc_expires_at :: datetime
  cc_one_time :: bool
  cc_digest :: string

record cred_hash =
  hc_reference :: "cred_ref \<Rightarrow> string"
  hc_execution :: "cred_execution \<Rightarrow> string"
  hc_capability :: "cred_capability \<Rightarrow> string"
  hc_policy :: "cred_policy \<Rightarrow> string"
  hc_text :: "string \<Rightarrow> string"

definition execution_integrity :: "cred_hash \<Rightarrow> cred_execution \<Rightarrow> bool" where
  "execution_integrity h e \<longleftrightarrow> ce_digest e = hc_execution h (e\<lparr>ce_digest := []\<rparr>)"

definition validate_execution :: "cred_hash \<Rightarrow> cred_execution \<Rightarrow> bool" where
  "validate_execution h e \<longleftrightarrow> ce_issued_at e < ce_expires_at e \<and> execution_integrity h e"

definition create_execution :: "cred_hash \<Rightarrow> cred_execution \<Rightarrow> cred_execution option" where
  "create_execution h e =
     (let e' = e\<lparr>ce_digest := hc_execution h (e\<lparr>ce_digest := []\<rparr>)\<rparr>
      in if validate_execution h e' then Some e' else None)"

definition cred_integrity :: "cred_hash \<Rightarrow> cred_capability \<Rightarrow> bool" where
  "cred_integrity h c \<longleftrightarrow> cc_digest c = hc_capability h (c\<lparr>cc_digest := []\<rparr>)"

definition validate_cred :: "cred_hash \<Rightarrow> cred_capability \<Rightarrow> bool" where
  "validate_cred h c \<longleftrightarrow> cc_issued_at c < cc_expires_at c \<and> cred_integrity h c"

definition seal_cred :: "cred_hash \<Rightarrow> cred_capability \<Rightarrow> cred_capability" where
  "seal_cred h c = c\<lparr>cc_digest := hc_capability h (c\<lparr>cc_digest := []\<rparr>)\<rparr>"

definition create_cred :: "cred_hash \<Rightarrow> cred_capability \<Rightarrow> cred_capability option" where
  "create_cred h c = (let c' = seal_cred h c in if validate_cred h c' then Some c' else None)"

record cred_decision =
  cd_action :: guard_action
  cd_capability :: "cred_capability option"
  cd_findings :: "cred_code list"

record cred_audit =
  cv_event_id :: ident
  cv_occurred_at :: datetime
  cv_phase :: cred_phase
  cv_code :: cred_code
  cv_reference_ref :: "string option"
  cv_execution_ref :: "string option"
  cv_capability_ref :: "string option"
  cv_surface :: "cred_surface option"

section \<open>Credential material and the test vault\<close>

record material =
  mt_buffer :: "nat list"
  mt_closed :: bool

definition new_material :: "nat list \<Rightarrow> material option" where
  "new_material raw = (if raw = [] then None else Some \<lparr>mt_buffer = raw, mt_closed = False\<rparr>)"

definition reveal :: "material \<Rightarrow> nat list option" where
  "reveal m = (if mt_closed m then None else Some (mt_buffer m))"

definition close_material :: "material \<Rightarrow> material" where
  "close_material m = (if mt_closed m then m
     else m\<lparr>mt_buffer := replicate (length (mt_buffer m)) 0, mt_closed := True\<rparr>)"

type_synonym static_vault = "(ident, ident \<times> nat list) dict"

definition static_version :: "static_vault \<Rightarrow> cred_ref \<Rightarrow> ident option" where
  "static_version v r = map_option fst (dict_get v (cr_reference_id r))"

definition static_resolve :: "static_vault \<Rightarrow> cred_ref \<Rightarrow> (ident \<times> material) option" where
  "static_resolve v r = (case dict_get v (cr_reference_id r) of
     None \<Rightarrow> None
   | Some (ver, raw) \<Rightarrow> map_option (Pair ver) (new_material raw))"

definition static_rotate :: "cred_ref \<Rightarrow> ident \<Rightarrow> nat list \<Rightarrow> static_vault \<Rightarrow> static_vault" where
  "static_rotate r ver raw v = dict_set v (cr_reference_id r) (ver, raw)"

section \<open>The capability store\<close>

record cap_store =
  ct_max :: nat
  ct_items :: "(ident, string \<times> string \<times> datetime \<times> cap_state) dict"

definition new_cap_store :: "int \<Rightarrow> cap_store option" where
  "new_cap_store n = (if n < 1 then None else Some \<lparr>ct_max = nat n, ct_items = []\<rparr>)"

definition register_cap :: "cred_hash \<Rightarrow> cred_capability \<Rightarrow> cap_store \<Rightarrow> cap_state \<times> cap_store" where
  "register_cap h c s =
     (case dict_get (ct_items s) (cc_capability_id c) of
        Some (d, _) \<Rightarrow> (if d = cc_digest c then Cap_replayed else Cap_collision, s)
      | None \<Rightarrow>
          if ct_max s \<le> length (ct_items s) then (Cap_collision, s)
          else (Cap_stored, s\<lparr>ct_items := dict_set (ct_items s) (cc_capability_id c)
            (cc_digest c, hc_reference h (cc_reference c), cc_expires_at c, Cap_stored)\<rparr>))"

definition consume_cap :: "ident \<Rightarrow> string \<Rightarrow> datetime \<Rightarrow> cap_store \<Rightarrow> cap_state \<times> cap_store" where
  "consume_cap i digest now s =
     (case dict_get (ct_items s) i of
        None \<Rightarrow> (Cap_missing, s)
      | Some (d, rd, x, st) \<Rightarrow>
          if d \<noteq> digest then (Cap_missing, s)
          else if st = Cap_revoked then (st, s)
          else if st = Cap_consumed then (Cap_replayed, s)
          else if x \<le> now then (Cap_expired, s\<lparr>ct_items := dict_set (ct_items s) i (d, rd, x, Cap_expired)\<rparr>)
          else (Cap_consumed, s\<lparr>ct_items := dict_set (ct_items s) i (d, rd, x, Cap_consumed)\<rparr>))"

definition revoke_item :: "string \<Rightarrow> string \<times> string \<times> datetime \<times> cap_state \<Rightarrow> string \<times> string \<times> datetime \<times> cap_state" where
  "revoke_item rd it = (case it of (d, r, x, st) \<Rightarrow> (d, r, x, if r = rd \<and> st = Cap_stored then Cap_revoked else st))"

definition revoke_reference :: "string \<Rightarrow> cap_store \<Rightarrow> nat \<times> cap_store" where
  "revoke_reference rd s =
     (length (filter (\<lambda>(_, _, r, _, st). r = rd \<and> st = Cap_stored) (ct_items s)),
      s\<lparr>ct_items := map (\<lambda>(i, it). (i, revoke_item rd it)) (ct_items s)\<rparr>)"

section \<open>The broker\<close>

record 'm cred_world =
  wv_verify :: "cred_execution \<Rightarrow> bool option"
  wv_version_of :: "cred_ref \<Rightarrow> ident option"
  wv_resolve :: "cred_ref \<Rightarrow> (ident \<times> 'm) option"

record cred_broker =
  bk_policy :: cred_policy
  bk_hash :: cred_hash
  bk_versions :: "(string, ident) dict"
  bk_revoked :: "string set"
  bk_store :: cap_store
  bk_sink :: "(nat \<times> cred_audit list) option"

definition new_broker :: "cred_policy \<Rightarrow> cred_hash \<Rightarrow> cap_store \<Rightarrow> (nat \<times> cred_audit list) option \<Rightarrow> cred_broker" where
  "new_broker p h s k = \<lparr>bk_policy = p, bk_hash = h,
     bk_versions = foldl (\<lambda>m b. dict_set m (hc_reference h (cn_reference b)) (cn_version b)) [] (cl_bindings p),
     bk_revoked = {}, bk_store = s, bk_sink = k\<rparr>"

definition static_verify :: "string set \<Rightarrow> cred_execution \<Rightarrow> bool" where
  "static_verify accepted e \<longleftrightarrow> ce_digest e \<in> accepted"

definition cred_emit ::
  "cred_phase \<Rightarrow> cred_code \<Rightarrow> cred_ref option \<Rightarrow> cred_execution option \<Rightarrow> cred_capability option \<Rightarrow> datetime \<Rightarrow> ident \<Rightarrow>
   cred_broker \<Rightarrow> cred_broker" where
  "cred_emit ph code r e c now uid b =
     (let ref = hc_text (bk_hash b) in
      b\<lparr>bk_sink := map_option (\<lambda>(n, evs). (n, deque_append n evs
        \<lparr>cv_event_id = uid, cv_occurred_at = now, cv_phase = ph, cv_code = code,
         cv_reference_ref = map_option (\<lambda>x. ref (cr_reference_id x)) r,
         cv_execution_ref = map_option (\<lambda>x. ref (ce_digest x)) e,
         cv_capability_ref = map_option (\<lambda>x. ref (cc_digest x)) c, cv_surface = None\<rparr>)) (bk_sink b)\<rparr>)"

definition cred_blocked ::
  "cred_code list \<Rightarrow> cred_phase \<Rightarrow> cred_ref \<Rightarrow> cred_execution \<Rightarrow> cred_capability option \<Rightarrow> datetime \<Rightarrow> ident \<Rightarrow>
   cred_broker \<Rightarrow> cred_decision \<times> cred_broker" where
  "cred_blocked fs ph r e c now uid b =
     (\<lparr>cd_action = BLOCK, cd_capability = None, cd_findings = fs\<rparr>,
      cred_emit ph (case fs of [] \<Rightarrow> Capability_invalid | f # _ \<Rightarrow> f) (Some r) (Some e) c now uid b)"

definition execution_current :: "cred_execution \<Rightarrow> datetime \<Rightarrow> bool" where
  "execution_current e now \<longleftrightarrow> \<not> (now < ce_issued_at e \<or> ce_expires_at e \<le> now)"

definition binding_findings ::
  "cred_broker \<Rightarrow> cred_ref \<Rightarrow> cred_execution \<Rightarrow> datetime \<Rightarrow> cred_binding option \<times> cred_code list" where
  "binding_findings b r e now =
     (let bd = binding_for (bk_policy b) r;
          fs = (if cr_broker_id r \<noteq> cl_broker_id (bk_policy b) then [Broker_mismatch] else []) in
      (case bd of
         None \<Rightarrow> (None, fs @ [Reference_unknown])
       | Some g \<Rightarrow>
           if \<not> cn_active g then (Some g, fs @ [Reference_unknown])
           else (Some g, fs @
             (if ce_scope e \<noteq> cn_scope g then [Scope_mismatch] else []) @
             (if \<not> execution_integrity (bk_hash b) e then [Execution_invalid] else []) @
             (if \<not> execution_current e now then [Execution_expired] else []))))"

text \<open>The capability that \<open>issue\<close> creates; \<open>ttl\<close> is the effective lifetime.\<close>

definition issued_cred ::
  "cred_broker \<Rightarrow> cred_ref \<Rightarrow> cred_execution \<Rightarrow> cred_binding \<Rightarrow> ident \<Rightarrow> int \<Rightarrow> datetime \<Rightarrow> ident \<Rightarrow> cred_capability" where
  "issued_cred b r e g version ttl now uid = seal_cred (bk_hash b)
     \<lparr>cc_capability_id = ''credential-capability-'' @ uid, cc_broker_id = cl_broker_id (bk_policy b),
      cc_reference = r, cc_scope = cn_scope g, cc_execution_digest = ce_digest e, cc_version = version,
      cc_policy_digest = hc_policy (bk_hash b) (bk_policy b), cc_issued_at = now,
      cc_expires_at = min (now + td_seconds ttl) (ce_expires_at e), cc_one_time = True, cc_digest = []\<rparr>"

text \<open>\<open>ttl_seconds or maximum\<close>: a lifetime of 0 counts as absent.\<close>

definition requested_ttl :: "int option \<Rightarrow> cred_binding \<Rightarrow> int" where
  "requested_ttl ttl g = (case ttl of None \<Rightarrow> cn_max_ttl g | Some t \<Rightarrow> if t = 0 then cn_max_ttl g else t)"

definition issue_cred ::
  "'m cred_world \<Rightarrow> cred_ref \<Rightarrow> cred_execution \<Rightarrow> int option \<Rightarrow> datetime \<Rightarrow> ident \<Rightarrow> cred_broker \<Rightarrow>
   cred_decision \<times> cred_broker" where
  "issue_cred w r e ttl now uid b =
     (let (bd, fs) = binding_findings b r e now in
      (case bd of
         None \<Rightarrow> cred_blocked fs Cred_issue r e None now uid b
       | Some g \<Rightarrow>
           if fs \<noteq> [] then cred_blocked fs Cred_issue r e None now uid b
           else if wv_verify w e \<noteq> Some True then cred_blocked [Execution_invalid] Cred_issue r e None now uid b
           else if requested_ttl ttl g < 1 \<or> cn_max_ttl g < requested_ttl ttl g
             then cred_blocked [Capability_invalid] Cred_issue r e None now uid b
           else (case dict_get (bk_versions b) (hc_reference (bk_hash b) r) of
               None \<Rightarrow> cred_blocked [Reference_revoked] Cred_issue r e None now uid b
             | Some version \<Rightarrow>
                 if hc_reference (bk_hash b) r \<in> bk_revoked b
                   then cred_blocked [Reference_revoked] Cred_issue r e None now uid b
                 else (case wv_version_of w r of
                     None \<Rightarrow> cred_blocked [Vault_unavailable] Cred_issue r e None now uid b
                   | Some vv \<Rightarrow>
                       if vv \<noteq> version then cred_blocked [Version_changed] Cred_issue r e None now uid b
                       else
                         (let c = issued_cred b r e g version (requested_ttl ttl g) now uid;
                              (st, s') = register_cap (bk_hash b) c (bk_store b) in
                          if st \<noteq> Cap_stored
                            then cred_blocked [Cred_state_unavailable] Cred_issue r e None now uid (b\<lparr>bk_store := s'\<rparr>)
                          else (\<lparr>cd_action = ALLOW, cd_capability = Some c, cd_findings = []\<rparr>,
                                cred_emit Cred_issue Cred_allowed (Some r) (Some e) (Some c) now uid
                                  (b\<lparr>bk_store := s'\<rparr>)))))))"

definition require_cred ::
  "'m cred_world \<Rightarrow> cred_ref \<Rightarrow> cred_execution \<Rightarrow> int option \<Rightarrow> datetime \<Rightarrow> ident \<Rightarrow> cred_broker \<Rightarrow>
   (cred_decision + cred_capability) \<times> cred_broker" where
  "require_cred w r e ttl now uid b =
     (let (d, b') = issue_cred w r e ttl now uid b in
      (case cd_capability d of
         Some c \<Rightarrow> (if cd_action d = ALLOW then Inr c else Inl d, b')
       | None \<Rightarrow> (Inl d, b')))"

definition resolution_findings :: "cred_broker \<Rightarrow> cred_capability \<Rightarrow> cred_execution \<Rightarrow> datetime \<Rightarrow> cred_code list" where
  "resolution_findings b c e now =
     (let p = bk_policy b; h = bk_hash b; rd = hc_reference h (cc_reference c) in
      (if \<not> cred_integrity h c \<or> cc_policy_digest c \<noteq> hc_policy h p \<or> cc_broker_id c \<noteq> cl_broker_id p \<or>
          cr_broker_id (cc_reference c) \<noteq> cl_broker_id p then [Capability_invalid] else []) @
      (if cc_execution_digest c \<noteq> ce_digest e then [Execution_invalid] else []) @
      (if cc_scope c \<noteq> ce_scope e then [Scope_mismatch] else []) @
      (if now < cc_issued_at c \<or> cc_expires_at c \<le> now then [Capability_expired] else []) @
      (if \<not> execution_current e now then [Execution_expired] else []) @
      (if rd \<in> bk_revoked b then [Reference_revoked]
       else if dict_get (bk_versions b) rd \<noteq> Some (cc_version c) then [Version_changed] else []))"

definition consume_code :: "cap_state \<Rightarrow> cred_code" where
  "consume_code st = (case st of
     Cap_replayed \<Rightarrow> Capability_replayed
   | Cap_revoked \<Rightarrow> Capability_revoked
   | Cap_expired \<Rightarrow> Capability_expired
   | _ \<Rightarrow> Cred_state_unavailable)"

text \<open>\<open>Inl\<close> carries the decision of the raised error. A material of another version is closed and dropped.\<close>

definition resolve_cred ::
  "'m cred_world \<Rightarrow> cred_capability \<Rightarrow> cred_execution \<Rightarrow> datetime \<Rightarrow> ident \<Rightarrow> cred_broker \<Rightarrow>
   (cred_decision + 'm) \<times> cred_broker" where
  "resolve_cred w c e now uid b =
     (let r = cc_reference c;
          refuse = (\<lambda>fs b'. let (d, b'') = cred_blocked fs Cred_resolve r e (Some c) now uid b' in (Inl d, b''));
          fs = resolution_findings b c e now in
      if fs \<noteq> [] then refuse fs b
      else if wv_verify w e \<noteq> Some True then refuse [Execution_invalid] b
      else
        (let (st, s') = consume_cap (cc_capability_id c) (cc_digest c) now (bk_store b); b1 = b\<lparr>bk_store := s'\<rparr> in
         if st \<noteq> Cap_consumed then refuse [consume_code st] b1
         else (case wv_resolve w r of
             None \<Rightarrow> refuse [Vault_unavailable] b1
           | Some (version, m) \<Rightarrow>
               if version \<noteq> cc_version c then refuse [Version_changed] b1
               else (Inr m, cred_emit Cred_resolve Cred_allowed (Some r) (Some e) (Some c) now uid b1))))"

definition revoke_cred :: "cred_ref \<Rightarrow> datetime \<Rightarrow> ident \<Rightarrow> cred_broker \<Rightarrow> nat \<times> cred_broker" where
  "revoke_cred r now uid b =
     (let rd = hc_reference (bk_hash b) r; (n, s') = revoke_reference rd (bk_store b) in
      (n, cred_emit Cred_revoke Reference_revoked (Some r) None None now uid
        (b\<lparr>bk_revoked := insert rd (bk_revoked b), bk_store := s'\<rparr>)))"

text \<open>\<open>rotate\<close> raises (\<open>None\<close>) for an unknown reference and for a version that is not an opaque identifier.\<close>

definition ident_alnum :: "char \<Rightarrow> bool" where
  "ident_alnum c \<longleftrightarrow> (let n = of_char c :: nat in 48 \<le> n \<and> n \<le> 57 \<or> 65 \<le> n \<and> n \<le> 90 \<or> 97 \<le> n \<and> n \<le> 122)"

definition opaque_identifier :: "string \<Rightarrow> bool" where
  "opaque_identifier s = (case s of [] \<Rightarrow> False
     | c # cs \<Rightarrow> ident_alnum c \<and> length cs \<le> 255 \<and> list_all (\<lambda>c. ident_alnum c \<or> c \<in> set ''._:/@-'') cs)"

definition rotate_cred :: "cred_ref \<Rightarrow> ident \<Rightarrow> datetime \<Rightarrow> ident \<Rightarrow> cred_broker \<Rightarrow> (nat \<times> cred_broker) option" where
  "rotate_cred r version now uid b =
     (if binding_for (bk_policy b) r = None \<or> \<not> opaque_identifier version then None
      else
        (let rd = hc_reference (bk_hash b) r; (n, s') = revoke_reference rd (bk_store b) in
         Some (n, cred_emit Cred_rotate Cred_allowed (Some r) None None now uid
           (b\<lparr>bk_versions := dict_set (bk_versions b) rd version, bk_revoked := bk_revoked b - {rd}, bk_store := s'\<rparr>))))"

end
