(* ===== verification/Credential_Properties.thy ===== *)
theory Credential_Properties
  imports Credential_Broker
begin

text \<open>
  What the credential broker guarantees: material is released only for the exact, authenticated, current
  execution a capability was issued for; a capability releases material at most once and never after its
  reference was revoked or rotated; issued capabilities are confined to the policy's binding.
\<close>

section \<open>Branches\<close>

lemma cred_emit_simps [simp]:
  "bk_policy (cred_emit ph code r e c now uid b) = bk_policy b"
  "bk_hash (cred_emit ph code r e c now uid b) = bk_hash b"
  "bk_versions (cred_emit ph code r e c now uid b) = bk_versions b"
  "bk_revoked (cred_emit ph code r e c now uid b) = bk_revoked b"
  "bk_store (cred_emit ph code r e c now uid b) = bk_store b"
  by (simp_all add: cred_emit_def Let_def)

lemma cred_blocked_simps [simp]:
  "cd_action (fst (cred_blocked fs ph r e c now uid b)) = BLOCK"
  "cd_capability (fst (cred_blocked fs ph r e c now uid b)) = None"
  "bk_policy (snd (cred_blocked fs ph r e c now uid b)) = bk_policy b"
  "bk_hash (snd (cred_blocked fs ph r e c now uid b)) = bk_hash b"
  "bk_store (snd (cred_blocked fs ph r e c now uid b)) = bk_store b"
  by (simp_all add: cred_blocked_def)

text \<open>Either the request is refused and no capability is registered, or everything about it holds.\<close>

definition issue_granted ::
  "'m cred_world \<Rightarrow> cred_ref \<Rightarrow> cred_execution \<Rightarrow> int option \<Rightarrow> datetime \<Rightarrow> cred_broker \<Rightarrow> cred_binding \<Rightarrow> ident \<Rightarrow> bool" where
  "issue_granted w r e ttl now b g version \<longleftrightarrow>
     binding_findings b r e now = (Some g, []) \<and> wv_verify w e = Some True \<and>
     1 \<le> requested_ttl ttl g \<and> requested_ttl ttl g \<le> cn_max_ttl g \<and>
     dict_get (bk_versions b) (hc_reference (bk_hash b) r) = Some version \<and>
     hc_reference (bk_hash b) r \<notin> bk_revoked b \<and> wv_version_of w r = Some version"

lemma issue_cred_cases:
  obtains (refused) fs where "issue_cred w r e ttl now uid b = cred_blocked fs Cred_issue r e None now uid b"
  | (full) g version s' st where "issue_granted w r e ttl now b g version"
      "register_cap (bk_hash b) (issued_cred b r e g version (requested_ttl ttl g) now uid) (bk_store b) = (st, s')"
      "st \<noteq> Cap_stored"
      "issue_cred w r e ttl now uid b =
        cred_blocked [Cred_state_unavailable] Cred_issue r e None now uid (b\<lparr>bk_store := s'\<rparr>)"
  | (issued) g version c s' where "issue_granted w r e ttl now b g version"
      "c = issued_cred b r e g version (requested_ttl ttl g) now uid"
      "register_cap (bk_hash b) c (bk_store b) = (Cap_stored, s')"
      "issue_cred w r e ttl now uid b = (\<lparr>cd_action = ALLOW, cd_capability = Some c, cd_findings = []\<rparr>,
        cred_emit Cred_issue Cred_allowed (Some r) (Some e) (Some c) now uid (b\<lparr>bk_store := s'\<rparr>))"
proof (cases "\<exists>g version. issue_granted w r e ttl now b g version")
  case True
  then obtain g version where gr: "issue_granted w r e ttl now b g version" by blast
  define c where "c = issued_cred b r e g version (requested_ttl ttl g) now uid"
  obtain st s' where reg: "register_cap (bk_hash b) c (bk_store b) = (st, s')"
    by (cases "register_cap (bk_hash b) c (bk_store b)")
  have ic: "issue_cred w r e ttl now uid b =
      (if st \<noteq> Cap_stored then cred_blocked [Cred_state_unavailable] Cred_issue r e None now uid (b\<lparr>bk_store := s'\<rparr>)
       else (\<lparr>cd_action = ALLOW, cd_capability = Some c, cd_findings = []\<rparr>,
        cred_emit Cred_issue Cred_allowed (Some r) (Some e) (Some c) now uid (b\<lparr>bk_store := s'\<rparr>)))"
    using gr reg by (simp add: issue_granted_def issue_cred_def Let_def c_def not_less)
  show ?thesis
    by (cases "st = Cap_stored") (use ic gr reg issued full c_def in auto)
next
  case False
  obtain bd fs where bf: "binding_findings b r e now = (bd, fs)" by (cases "binding_findings b r e now")
  show ?thesis
  proof (cases bd)
    case None
    then show ?thesis using refused bf by (simp add: issue_cred_def)
  next
    case (Some g)
    show ?thesis
    proof (cases "fs = [] \<and> wv_verify w e = Some True \<and> \<not> (requested_ttl ttl g < 1 \<or> cn_max_ttl g < requested_ttl ttl g)")
      case True
      have ic: "issue_cred w r e ttl now uid b =
        (case dict_get (bk_versions b) (hc_reference (bk_hash b) r) of
           None \<Rightarrow> cred_blocked [Reference_revoked] Cred_issue r e None now uid b
         | Some version \<Rightarrow> if hc_reference (bk_hash b) r \<in> bk_revoked b
             then cred_blocked [Reference_revoked] Cred_issue r e None now uid b
             else if wv_version_of w r = None then cred_blocked [Vault_unavailable] Cred_issue r e None now uid b
             else cred_blocked [Version_changed] Cred_issue r e None now uid b)"
        using False True bf Some
        by (auto simp: issue_cred_def issue_granted_def not_less split: option.split)
      show ?thesis
        by (cases "dict_get (bk_versions b) (hc_reference (bk_hash b) r)")
          (use ic refused in \<open>auto split: if_splits\<close>)
    next
      case no: False
      then have "issue_cred w r e ttl now uid b =
        (if fs \<noteq> [] then cred_blocked fs Cred_issue r e None now uid b
         else if wv_verify w e \<noteq> Some True then cred_blocked [Execution_invalid] Cred_issue r e None now uid b
         else cred_blocked [Capability_invalid] Cred_issue r e None now uid b)"
        using bf Some by (simp add: issue_cred_def)
      then show ?thesis using refused by (auto split: if_splits)
    qed
  qed
qed

lemma require_cred_Inr:
  assumes "require_cred w r e ttl now uid b = (Inr c, b')"
  obtains g version s' where "issue_granted w r e ttl now b g version"
    "c = issued_cred b r e g version (requested_ttl ttl g) now uid"
    "register_cap (bk_hash b) c (bk_store b) = (Cap_stored, s')"
    "b' = cred_emit Cred_issue Cred_allowed (Some r) (Some e) (Some c) now uid (b\<lparr>bk_store := s'\<rparr>)"
proof (cases rule: issue_cred_cases [of w r e ttl now uid b])
  case (issued g version c' s')
  then show ?thesis using assms that by (auto simp: require_cred_def)
qed (use assms in \<open>auto simp: require_cred_def cred_blocked_def\<close>)

lemma resolve_cred_cases:
  assumes "resolve_cred w c e now uid b = (d, b')"
  obtains (early) f where "d = Inl f" "bk_store b' = bk_store b"
  | (late) f st where "d = Inl f" "consume_cap (cc_capability_id c) (cc_digest c) now (bk_store b) = (st, bk_store b')"
  | (resolved) m where "d = Inr m" "resolution_findings b c e now = []" "wv_verify w e = Some True"
      "consume_cap (cc_capability_id c) (cc_digest c) now (bk_store b) = (Cap_consumed, bk_store b')"
      "wv_resolve w (cc_reference c) = Some (cc_version c, m)"
proof -
  obtain st s' where cn: "consume_cap (cc_capability_id c) (cc_digest c) now (bk_store b) = (st, s')"
    by (cases "consume_cap (cc_capability_id c) (cc_digest c) now (bk_store b)")
  show thesis
  proof (cases "resolution_findings b c e now = [] \<and> wv_verify w e = Some True")
    case False
    then show ?thesis using assms early by (auto simp: resolve_cred_def cred_blocked_def Let_def split: if_splits)
  next
    case True
    then show ?thesis
      using assms cn late [of _ st] resolved
      by (auto simp: resolve_cred_def cred_blocked_def Let_def split: if_splits option.splits)
  qed
qed

lemma resolution_findings_Nil:
  "resolution_findings b c e now = [] \<longleftrightarrow>
     cred_integrity (bk_hash b) c \<and> cc_policy_digest c = hc_policy (bk_hash b) (bk_policy b) \<and>
     cc_broker_id c = cl_broker_id (bk_policy b) \<and> cr_broker_id (cc_reference c) = cl_broker_id (bk_policy b) \<and>
     cc_execution_digest c = ce_digest e \<and> cc_scope c = ce_scope e \<and>
     cc_issued_at c \<le> now \<and> now < cc_expires_at c \<and> ce_issued_at e \<le> now \<and> now < ce_expires_at e \<and>
     hc_reference (bk_hash b) (cc_reference c) \<notin> bk_revoked b \<and>
     dict_get (bk_versions b) (hc_reference (bk_hash b) (cc_reference c)) = Some (cc_version c)"
  by (auto simp: resolution_findings_def Let_def execution_current_def not_less not_le)

lemma consume_cap_consumed:
  "consume_cap i d now s = (Cap_consumed, s') \<longleftrightarrow>
     (\<exists>rd x st. dict_get (ct_items s) i = Some (d, rd, x, st) \<and> st \<noteq> Cap_revoked \<and> st \<noteq> Cap_consumed \<and> now < x \<and>
        s' = s\<lparr>ct_items := dict_set (ct_items s) i (d, rd, x, Cap_consumed)\<rparr>)"
  by (auto simp: consume_cap_def not_le split: option.splits prod.splits)

section \<open>Release of material\<close>

text \<open>
  C13: a secret is released only for the exact execution it was authorized for. When \<open>resolve\<close> returns
  material, the vault returned it for the capability's reference under the version that capability,
  broker and vault agree on; the execution record was authenticated, is current and is the one named in the
  capability, with the same scope; the capability is intact, unexpired and of this policy and
  broker; its reference is not revoked; and the store held it unconsumed and unrevoked and now has it consumed.
\<close>

theorem credential_released_for_exact_execution:
  assumes "resolve_cred w c e now uid b = (Inr m, b')"
  shows "wv_resolve w (cc_reference c) = Some (cc_version c, m) \<and> wv_verify w e = Some True \<and>
    cc_execution_digest c = ce_digest e \<and> cc_scope c = ce_scope e \<and>
    ce_issued_at e \<le> now \<and> now < ce_expires_at e \<and> cc_issued_at c \<le> now \<and> now < cc_expires_at c \<and>
    cred_integrity (bk_hash b) c \<and> cc_policy_digest c = hc_policy (bk_hash b) (bk_policy b) \<and>
    cc_broker_id c = cl_broker_id (bk_policy b) \<and>
    hc_reference (bk_hash b) (cc_reference c) \<notin> bk_revoked b \<and>
    dict_get (bk_versions b) (hc_reference (bk_hash b) (cc_reference c)) = Some (cc_version c) \<and>
    (\<exists>rd x st. dict_get (ct_items (bk_store b)) (cc_capability_id c) = Some (cc_digest c, rd, x, st) \<and>
       st \<notin> {Cap_revoked, Cap_consumed} \<and> now < x \<and>
       dict_get (ct_items (bk_store b')) (cc_capability_id c) = Some (cc_digest c, rd, x, Cap_consumed))"
  using assms
proof (cases rule: resolve_cred_cases)
  case (resolved m')
  then show ?thesis
    by (auto simp: resolution_findings_Nil consume_cap_consumed)
qed auto

text \<open>
  A capability is confined to its binding. When a capability is issued, its reference has an active
  binding of the policy whose scope is the execution's and the capability's, the execution was
  authenticated and is current, the version is the current one in broker and vault, and it expires no
  later than the execution and no later than the binding's maximum lifetime from now.
\<close>

theorem issued_credential_confined:
  assumes "require_cred w r e ttl now uid b = (Inr c, b')"
  shows "\<exists>g. binding_for (bk_policy b) r = Some g \<and> cn_active g \<and> cc_reference c = r \<and>
    cc_scope c = cn_scope g \<and> ce_scope e = cn_scope g \<and> cc_execution_digest c = ce_digest e \<and>
    wv_verify w e = Some True \<and> ce_issued_at e \<le> now \<and> now < ce_expires_at e \<and>
    wv_version_of w r = Some (cc_version c) \<and>
    dict_get (bk_versions b) (hc_reference (bk_hash b) r) = Some (cc_version c) \<and>
    hc_reference (bk_hash b) r \<notin> bk_revoked b \<and> cc_issued_at c = now \<and> now < cc_expires_at c \<and>
    cc_expires_at c \<le> ce_expires_at e \<and> cc_expires_at c \<le> now + td_seconds (cn_max_ttl g)"
proof -
  from assms obtain g version s' where gr: "issue_granted w r e ttl now b g version"
    and c: "c = issued_cred b r e g version (requested_ttl ttl g) now uid" by (rule require_cred_Inr)
  from gr have "binding_for (bk_policy b) r = Some g" "cn_active g" "ce_scope e = cn_scope g" "execution_current e now"
    by (auto simp: issue_granted_def binding_findings_def Let_def split: option.splits if_splits)
  then show ?thesis
    using gr by (auto simp: c issue_granted_def issued_cred_def seal_cred_def execution_current_def td_seconds_def)
qed

section \<open>Single use and revocation\<close>

text \<open>The operations of a broker, in any order, with any state of verifier and vault at each of them.\<close>

datatype cred_op =
    Op_issue cred_ref cred_execution "int option" datetime ident
  | Op_resolve cred_capability cred_execution datetime ident
  | Op_revoke cred_ref datetime ident
  | Op_rotate cred_ref ident datetime ident

fun cred_apply :: "cred_broker \<Rightarrow> 'm cred_world \<times> cred_op \<Rightarrow> bool \<times> cred_broker" where
  "cred_apply b (w, Op_issue r e ttl now uid) = (False, snd (issue_cred w r e ttl now uid b))"
| "cred_apply b (w, Op_resolve c e now uid) =
     (let (d, b') = resolve_cred w c e now uid b in ((case d of Inl _ \<Rightarrow> False | Inr _ \<Rightarrow> True), b'))"
| "cred_apply b (w, Op_revoke r now uid) = (False, snd (revoke_cred r now uid b))"
| "cred_apply b (w, Op_rotate r v now uid) =
     (False, case rotate_cred r v now uid b of None \<Rightarrow> b | Some (_, b') \<Rightarrow> b')"

fun resolved_id :: "'m cred_world \<times> cred_op \<Rightarrow> ident option" where
  "resolved_id (w, Op_resolve c e now uid) = Some (cc_capability_id c)"
| "resolved_id (w, _) = None"

text \<open>Capabilities that can never be resolved again: consumed or revoked in the store.\<close>

definition dead_caps :: "cred_broker \<Rightarrow> ident option set" where
  "dead_caps b = {Some i |i d rd x st. dict_get (ct_items (bk_store b)) i = Some (d, rd, x, st) \<and>
     st \<in> {Cap_consumed, Cap_revoked}}"

lemma revoke_reference_get:
  "dict_get (ct_items (snd (revoke_reference rd s))) i = map_option (revoke_item rd) (dict_get (ct_items s) i)"
  by (simp add: revoke_reference_def map_of_map)

lemma register_cap_get:
  "register_cap h c s = (st, s') \<Longrightarrow> dict_get (ct_items s) i = Some it \<Longrightarrow> dict_get (ct_items s') i = Some it"
  by (auto simp: register_cap_def split: option.splits prod.splits if_splits)

lemma consume_cap_dead:
  "consume_cap j d now s = (st, s') \<Longrightarrow> dict_get (ct_items s) i = Some (a, rd, x, q) \<Longrightarrow> q \<in> {Cap_consumed, Cap_revoked} \<Longrightarrow>
   dict_get (ct_items s') i = Some (a, rd, x, q)"
  by (auto simp: consume_cap_def split: option.splits prod.splits if_splits)

lemma issue_cred_store:
  "bk_store (snd (issue_cred w r e ttl now uid b)) = bk_store b \<or>
   (\<exists>c st. register_cap (bk_hash b) c (bk_store b) = (st, bk_store (snd (issue_cred w r e ttl now uid b))))"
  by (cases rule: issue_cred_cases [of w r e ttl now uid b]) auto

lemma resolve_cred_store:
  assumes "resolve_cred w c e now uid b = (d, b')"
  shows "bk_store b' = bk_store b \<or>
    (\<exists>st. consume_cap (cc_capability_id c) (cc_digest c) now (bk_store b) = (st, bk_store b'))"
  using assms by (cases rule: resolve_cred_cases) auto

lemma revoke_cred_store: "bk_store (snd (revoke_cred r now uid b)) = snd (revoke_reference (hc_reference (bk_hash b) r) (bk_store b))"
  by (simp add: revoke_cred_def Let_def split_def)

lemma rotate_cred_store:
  "rotate_cred r v now uid b = Some (n, b') \<Longrightarrow> bk_store b' = snd (revoke_reference (hc_reference (bk_hash b) r) (bk_store b))"
  by (auto simp: rotate_cred_def Let_def split_def split: if_splits)

lemma revoke_item_dead: "revoke_item rd (d, r, x, st) = (d, r, x, st') \<Longrightarrow> st \<in> {Cap_consumed, Cap_revoked} \<Longrightarrow> st' = st"
  by (auto simp: revoke_item_def split: if_splits)

lemma cred_apply_dead:
  assumes "cred_apply b p = (ok, b')" and "dict_get (ct_items (bk_store b)) i = Some (d, rd, x, st)"
    and "st \<in> {Cap_consumed, Cap_revoked}"
  shows "dict_get (ct_items (bk_store b')) i = Some (d, rd, x, st)"
proof -
  obtain w q where p: "p = (w, q)" by (cases p)
  have rev: "dict_get (ct_items (snd (revoke_reference k (bk_store b)))) i = Some (d, rd, x, st)" for k
    using assms(2,3) by (auto simp: revoke_reference_get revoke_item_def)
  show ?thesis
  proof (cases q)
    case (Op_issue r e ttl now uid)
    then show ?thesis
      using assms p issue_cred_store [of w r e ttl now uid b] register_cap_get [OF _ assms(2)] by auto
  next
    case (Op_resolve c e now uid)
    then obtain d' where "resolve_cred w c e now uid b = (d', b')"
      using assms(1) p by (cases "resolve_cred w c e now uid b") auto
    from resolve_cred_store [OF this] show ?thesis using consume_cap_dead [OF _ assms(2,3)] assms(2) by auto
  next
    case (Op_revoke r now uid)
    then show ?thesis using assms(1) p rev revoke_cred_store [of r now uid b] by auto
  next
    case (Op_rotate r v now uid)
    then show ?thesis
      using assms(1,2) p rev rotate_cred_store [of r v now uid b] by (auto split: option.splits)
  qed
qed

interpretation cred_use: single_use cred_apply resolved_id dead_caps "\<lambda>_ _. True" "\<lambda>_. True"
proof (unfold_locales, goal_cases)
  case (1 b p b')
  obtain w q where p: "p = (w, q)" by (cases p)
  with 1(3) obtain c e now uid m where q: "q = Op_resolve c e now uid"
    and r: "resolve_cred w c e now uid b = (Inr m, b')"
    by (cases q) (auto split: sum.splits prod.splits)
  from r show ?case
    by (cases rule: resolve_cred_cases) (auto simp: p q dead_caps_def consume_cap_consumed)
next
  case (2 b p b')
  obtain w q where p: "p = (w, q)" by (cases p)
  with 2(3) obtain c e now uid m where q: "q = Op_resolve c e now uid"
    and r: "resolve_cred w c e now uid b = (Inr m, b')"
    by (cases q) (auto split: sum.splits prod.splits)
  from r show ?case
    by (cases rule: resolve_cred_cases) (auto simp: p q dead_caps_def consume_cap_consumed)
next
  case (3 b p ok b')
  then show ?case using cred_apply_dead [OF 3(3)] by (fastforce simp: dead_caps_def)
qed simp

text \<open>
  A capability releases a secret at most once. Along any sequence of issues, resolutions, revocations and
  rotations, whatever the clocks, the verifier and the vault do in between, the capabilities
  whose resolution returned material are pairwise different.
\<close>

theorem credential_resolved_at_most_once:
  "distinct (map resolved_id (fst (run_attempts cred_apply b ops)))"
  by (rule cred_use.accepted_at_most_once [OF TrueI all_admissible_True surjective_pairing])

text \<open>
  C15: revocation and rotation end every outstanding capability for good. If a reference is revoked, or rotated
  to any version, then no capability for it that was in store unused is ever resolved by any
  later sequence of operations, even if the reference is rotated again.
\<close>

theorem revoked_credential_never_resolves:
  assumes "dict_get (ct_items (bk_store b)) i = Some (d, hc_reference (bk_hash b) r, x, Cap_stored)"
    and "b' = snd (revoke_cred r now uid b) \<or> (\<exists>n v. rotate_cred r v now uid b = Some (n, b'))"
  shows "Some i \<notin> resolved_id ` set (fst (run_attempts cred_apply b' ops))"
proof -
  have "dict_get (ct_items (bk_store b')) i = Some (d, hc_reference (bk_hash b) r, x, Cap_revoked)"
    using assms revoke_cred_store [of r now uid b] rotate_cred_store [of r _ now uid b]
    by (auto simp: revoke_reference_get revoke_item_def)
  then have "Some i \<in> dead_caps b'" by (auto simp: dead_caps_def)
  then show ?thesis
    using cred_use.accepted_not_spent [OF TrueI all_admissible_True surjective_pairing, of _ b' ops] by auto
qed

section \<open>Round trip and capacity\<close>

text \<open>The operations that leave a capability in store as it is: those that neither present it nor end its reference.\<close>

fun leaves_capability :: "cred_hash \<Rightarrow> cred_capability \<Rightarrow> 'm cred_world \<times> cred_op \<Rightarrow> bool" where
  "leaves_capability h c (w, Op_issue r e ttl now uid) = True"
| "leaves_capability h c (w, Op_resolve c' e now uid) = (cc_capability_id c' \<noteq> cc_capability_id c)"
| "leaves_capability h c (w, Op_revoke r now uid) = (hc_reference h r \<noteq> hc_reference h (cc_reference c))"
| "leaves_capability h c (w, Op_rotate r v now uid) = (hc_reference h r \<noteq> hc_reference h (cc_reference c))"

text \<open>A capability is outstanding: in store, unused, its reference not revoked and at its version.\<close>

definition outstanding :: "cred_policy \<Rightarrow> cred_hash \<Rightarrow> cred_capability \<Rightarrow> cred_broker \<Rightarrow> bool" where
  "outstanding p h c b \<longleftrightarrow> bk_policy b = p \<and> bk_hash b = h \<and> hc_reference h (cc_reference c) \<notin> bk_revoked b \<and>
     dict_get (bk_versions b) (hc_reference h (cc_reference c)) = Some (cc_version c) \<and>
     dict_get (ct_items (bk_store b)) (cc_capability_id c) =
       Some (cc_digest c, hc_reference h (cc_reference c), cc_expires_at c, Cap_stored)"

lemma cred_blocked_rest [simp]:
  "bk_versions (snd (cred_blocked fs ph r e c now uid b)) = bk_versions b"
  "bk_revoked (snd (cred_blocked fs ph r e c now uid b)) = bk_revoked b"
  by (simp_all add: cred_blocked_def)

lemma issue_cred_rest:
  "bk_policy (snd (issue_cred w r e ttl now uid b)) = bk_policy b \<and> bk_hash (snd (issue_cred w r e ttl now uid b)) = bk_hash b \<and>
   bk_versions (snd (issue_cred w r e ttl now uid b)) = bk_versions b \<and> bk_revoked (snd (issue_cred w r e ttl now uid b)) = bk_revoked b"
  by (cases rule: issue_cred_cases [of w r e ttl now uid b]) auto

lemma resolve_cred_rest:
  "bk_policy (snd (resolve_cred w c e now uid b)) = bk_policy b \<and> bk_hash (snd (resolve_cred w c e now uid b)) = bk_hash b \<and>
   bk_versions (snd (resolve_cred w c e now uid b)) = bk_versions b \<and> bk_revoked (snd (resolve_cred w c e now uid b)) = bk_revoked b"
  by (auto simp: resolve_cred_def Let_def split_def split: option.split)

lemma consume_cap_other: "consume_cap j d now s = (st, s') \<Longrightarrow> i \<noteq> j \<Longrightarrow> dict_get (ct_items s') i = dict_get (ct_items s) i"
  by (auto simp: consume_cap_def split: option.splits prod.splits if_splits)

lemma outstanding_step:
  assumes "outstanding p h c b" and "leaves_capability h c q"
  shows "outstanding p h c (snd (cred_apply b q))"
proof -
  obtain w op where q: "q = (w, op)" by (cases q)
  have item: "dict_get (ct_items (bk_store b)) (cc_capability_id c) =
      Some (cc_digest c, hc_reference h (cc_reference c), cc_expires_at c, Cap_stored)"
    using assms(1) by (simp add: outstanding_def)
  have keep: "dict_get (ct_items (snd (revoke_reference (hc_reference h r) (bk_store b)))) (cc_capability_id c) =
      Some (cc_digest c, hc_reference h (cc_reference c), cc_expires_at c, Cap_stored)"
    if "hc_reference h r \<noteq> hc_reference h (cc_reference c)" for r
    using that by (simp add: revoke_reference_get item revoke_item_def)
  show ?thesis
  proof (cases op)
    case (Op_issue r e ttl now uid)
    then show ?thesis
      using assms(1) q issue_cred_rest [of w r e ttl now uid b] issue_cred_store [of w r e ttl now uid b]
        register_cap_get [OF _ item] by (auto simp: outstanding_def)
  next
    case (Op_resolve c' e now uid)
    obtain d b' where r: "resolve_cred w c' e now uid b = (d, b')" by (cases "resolve_cred w c' e now uid b")
    have "dict_get (ct_items (bk_store b')) (cc_capability_id c) = dict_get (ct_items (bk_store b)) (cc_capability_id c)"
      using resolve_cred_store [OF r] consume_cap_other [of "cc_capability_id c'"] assms(2) q Op_resolve by fastforce
    then show ?thesis
      using assms(1) q Op_resolve r resolve_cred_rest [of w c' e now uid b] by (simp add: outstanding_def)
  next
    case (Op_revoke r now uid)
    then show ?thesis
      using assms q keep [of r] by (simp add: outstanding_def revoke_cred_def Let_def split_def)
  next
    case (Op_rotate r v now uid)
    then show ?thesis
      using assms q keep [of r] by (auto simp: outstanding_def rotate_cred_def Let_def split_def split: option.splits if_splits)
  qed
qed

lemma outstanding_run:
  assumes "run_attempts cred_apply b ops = (acc, b')" and "outstanding p h c b" and "list_all (leaves_capability h c) ops"
  shows "outstanding p h c b'"
  using assms
proof (induction ops arbitrary: b acc)
  case (Cons q ops)
  obtain ok t where st: "cred_apply b q = (ok, t)" by (cases "cred_apply b q")
  obtain acc' u where run: "run_attempts cred_apply t ops = (acc', u)" by (cases "run_attempts cred_apply t ops")
  have "u = b'" using Cons.prems(1) st run by simp
  moreover have "outstanding p h c t" using outstanding_step [OF Cons.prems(2), of q] Cons.prems(3) st by simp
  ultimately show ?case using Cons.IH run Cons.prems(3) by simp
qed simp

text \<open>
  C35: an issued capability works when it is first presented. Let a capability be issued, and let
  any operations follow that neither present this capability nor revoke or rotate its reference, whatever else they issue,
  resolve, revoke and rotate. If it has not expired then, the execution it was issued for is still authenticated, and
  the vault holds the version it was issued for, then resolving it returns the vault's material.
\<close>

theorem issued_credential_resolves:
  assumes "require_cred w r e ttl now uid b = (Inr c, b1)"
    and "run_attempts cred_apply b1 ops = (acc, b')" and "list_all (leaves_capability (bk_hash b) c) ops"
    and "cr_broker_id r = cl_broker_id (bk_policy b)"
    and "now \<le> now'" and "now' < cc_expires_at c" and "wv_verify w' e = Some True"
    and "wv_resolve w' r = Some (cc_version c, m)"
  shows "fst (resolve_cred w' c e now' uid' b') = Inr m"
proof -
  from assms(1) obtain g version s' where gr: "issue_granted w r e ttl now b g version"
    and c: "c = issued_cred b r e g version (requested_ttl ttl g) now uid"
    and reg: "register_cap (bk_hash b) c (bk_store b) = (Cap_stored, s')"
    and b1: "b1 = cred_emit Cred_issue Cred_allowed (Some r) (Some e) (Some c) now uid (b\<lparr>bk_store := s'\<rparr>)"
    by (rule require_cred_Inr)
  have cf: "cc_reference c = r" "cc_version c = version" "cc_policy_digest c = hc_policy (bk_hash b) (bk_policy b)"
    "cc_broker_id c = cl_broker_id (bk_policy b)" "cc_execution_digest c = ce_digest e" "cc_scope c = cn_scope g"
    "cc_issued_at c = now" "cc_expires_at c \<le> ce_expires_at e" "cred_integrity (bk_hash b) c"
    by (simp_all add: c issued_cred_def seal_cred_def cred_integrity_def)
  have ex: "ce_scope e = cn_scope g" "ce_issued_at e \<le> now"
    using gr by (auto simp: issue_granted_def binding_findings_def execution_current_def Let_def split: option.splits if_splits)
  have "dict_get (ct_items s') (cc_capability_id c) = Some (cc_digest c, hc_reference (bk_hash b) r, cc_expires_at c, Cap_stored)"
    using reg by (auto simp: register_cap_def cf split: option.splits prod.splits if_splits)
  then have "outstanding (bk_policy b) (bk_hash b) c b1"
    using gr by (simp add: outstanding_def b1 cf(1,2) issue_granted_def)
  from outstanding_run [OF assms(2) this assms(3)]
  have out: "bk_policy b' = bk_policy b" "bk_hash b' = bk_hash b" "hc_reference (bk_hash b) r \<notin> bk_revoked b'"
    "dict_get (bk_versions b') (hc_reference (bk_hash b) r) = Some version"
    "dict_get (ct_items (bk_store b')) (cc_capability_id c) =
       Some (cc_digest c, hc_reference (bk_hash b) r, cc_expires_at c, Cap_stored)"
    by (simp_all add: outstanding_def cf(1,2))
  have "resolution_findings b' c e now' = []"
    using assms(4-6) ex cf(8) by (simp add: resolution_findings_Nil out cf(1-7,9))
  moreover have "fst (consume_cap (cc_capability_id c) (cc_digest c) now' (bk_store b')) = Cap_consumed"
    using out(5) assms(6) by (simp add: consume_cap_def)
  ultimately show ?thesis
    using assms(7,8) by (simp add: resolve_cred_def Let_def split_def cf(1))
qed

lemma cred_apply_items:
  assumes "cred_apply b p = (ok, b')"
  shows "ct_max (bk_store b') = ct_max (bk_store b) \<and>
    length (ct_items (bk_store b)) \<le> length (ct_items (bk_store b'))"
proof -
  obtain w q where p: "p = (w, q)" by (cases p)
  have rev: "ct_max (snd (revoke_reference k s)) = ct_max s
    \<and> length (ct_items s) \<le> length (ct_items (snd (revoke_reference k s)))" for k s
    by (simp add: revoke_reference_def)
  have reg: "ct_max s' = ct_max s \<and> length (ct_items s) \<le> length (ct_items s')"
    if "register_cap h c s = (st, s')" for h c st s s'
    using that by (auto simp: register_cap_def length_dict_set split: option.splits if_splits)
  have con: "ct_max s' = ct_max s \<and> length (ct_items s) \<le> length (ct_items s')"
    if "consume_cap i d t s = (st, s')" for i d t st s s'
    using that by (auto simp: consume_cap_def length_dict_set split: option.splits if_splits)
  show ?thesis
  proof (cases q)
    case (Op_issue r e ttl now uid)
    then show ?thesis using assms p issue_cred_store [of w r e ttl now uid b] reg by auto
  next
    case (Op_resolve c e now uid)
    then obtain d' where "resolve_cred w c e now uid b = (d', b')"
      using assms p by (cases "resolve_cred w c e now uid b") auto
    from resolve_cred_store [OF this] con show ?thesis by auto
  next
    case (Op_revoke r now uid)
    then show ?thesis using assms p rev revoke_cred_store [of r now uid b] by auto
  next
    case (Op_rotate r v now uid)
    then show ?thesis using assms p rev rotate_cred_store [of r v now uid b] by (auto split: option.splits)
  qed
qed

text \<open>
  The capability store never forgets: consumed, revoked and expired capabilities keep their place. Once it is
  full, no later sequence of operations lets a capability be issued again.
\<close>

theorem full_capability_store_refuses_forever:
  assumes "ct_max (bk_store b) \<le> length (ct_items (bk_store b))"
    and "run_attempts cred_apply b ops = (acc, b')"
  shows "\<not> (\<exists>c b''. require_cred w r e ttl now uid b' = (Inr c, b''))"
proof
  have "ct_max (bk_store b') \<le> length (ct_items (bk_store b'))"
    using assms
  proof (induction ops arbitrary: b acc)
    case (Cons p ops)
    obtain ok t where st: "cred_apply b p = (ok, t)" by (cases "cred_apply b p")
    obtain acc' u where run: "run_attempts cred_apply t ops = (acc', u)" by (cases "run_attempts cred_apply t ops")
    have "u = b'" using Cons.prems(2) st run by simp
    moreover have "ct_max (bk_store t) \<le> length (ct_items (bk_store t))"
      using cred_apply_items [OF st] Cons.prems(1) by simp
    ultimately show ?case using Cons.IH run by blast
  qed simp
  moreover assume "\<exists>c b''. require_cred w r e ttl now uid b' = (Inr c, b'')"
  then obtain c b'' where "require_cred w r e ttl now uid b' = (Inr c, b'')" by blast
  then obtain s' where "register_cap (bk_hash b') c (bk_store b') = (Cap_stored, s')" by (rule require_cred_Inr, blast)
  ultimately show False by (auto simp: register_cap_def split: option.splits if_splits)
qed

section \<open>Witnesses\<close>

definition demo_cred_hash :: cred_hash where
  "demo_cred_hash = \<lparr>hc_reference = cr_reference_id, hc_execution = ce_execution_id, hc_capability = cc_capability_id,
     hc_policy = cl_broker_id, hc_text = (\<lambda>s. s)\<rparr>"

definition demo_cred_ref :: cred_ref where
  "demo_cred_ref = \<lparr>cr_broker_id = ''b'', cr_reference_id = ''r''\<rparr>"

definition demo_cred_scope :: cred_scope where
  "demo_cred_scope = \<lparr>cs_tenant_id = ''t'', cs_tool_name = ''mail'', cs_resource_id = ''inbox'', cs_operation = ''read''\<rparr>"

definition demo_cred_execution :: cred_execution where
  "demo_cred_execution = \<lparr>ce_execution_id = ''e'', ce_authorization_id = ''a'', ce_request_digest = ''q'',
     ce_scope = demo_cred_scope, ce_issued_at = 0, ce_expires_at = 100000000, ce_digest = ''e''\<rparr>"

definition demo_broker :: cred_broker where
  "demo_broker = new_broker \<lparr>cl_broker_id = ''b'', cl_version = 1, cl_bindings = [\<lparr>cn_reference = demo_cred_ref,
       cn_scope = demo_cred_scope, cn_version = ''v1'', cn_max_ttl = 60, cn_active = True\<rparr>]\<rparr>
     demo_cred_hash \<lparr>ct_max = 1, ct_items = []\<rparr> None"

definition demo_cred_world :: "nat cred_world" where
  "demo_cred_world = \<lparr>wv_verify = (\<lambda>e. Some (static_verify {''e''} e)), wv_version_of = (\<lambda>r. Some ''v1''),
     wv_resolve = (\<lambda>r. Some (''v1'', 42))\<rparr>"

definition demo_cred :: cred_capability where
  "demo_cred = \<lparr>cc_capability_id = ''credential-capability-u'', cc_broker_id = ''b'', cc_reference = demo_cred_ref,
     cc_scope = demo_cred_scope, cc_execution_digest = ''e'', cc_version = ''v1'', cc_policy_digest = ''b'',
     cc_issued_at = 5, cc_expires_at = 60000005, cc_one_time = True, cc_digest = ''credential-capability-u''\<rparr>"

definition demo_issued_broker :: cred_broker where
  "demo_issued_broker = snd (require_cred demo_cred_world demo_cred_ref demo_cred_execution None 5 ''u'' demo_broker)"

lemmas demo_cred_simps = demo_cred_hash_def demo_cred_ref_def demo_cred_scope_def demo_cred_execution_def demo_broker_def
  demo_cred_world_def demo_cred_def new_broker_def static_verify_def

lemma demo_cred_issued:
  "require_cred demo_cred_world demo_cred_ref demo_cred_execution None 5 ''u'' demo_broker = (Inr demo_cred, demo_issued_broker)"
proof -
  have "fst (require_cred demo_cred_world demo_cred_ref demo_cred_execution None 5 ''u'' demo_broker) = Inr demo_cred"
    by (simp add: require_cred_def issue_cred_def binding_findings_def binding_for_def demo_cred_simps execution_integrity_def
        execution_current_def requested_ttl_def issued_cred_def seal_cred_def register_cap_def td_seconds_def Let_def)
  then show ?thesis by (simp add: demo_issued_broker_def prod_eq_iff)
qed

theorem issued_credential_confined_witness: "\<exists>g. binding_for (bk_policy demo_broker) demo_cred_ref = Some g \<and> cn_active g"
  using issued_credential_confined [OF demo_cred_issued] by blast

theorem issued_credential_resolves_witness:
  "fst (resolve_cred demo_cred_world demo_cred demo_cred_execution 10 ''x''
     (snd (run_attempts cred_apply demo_issued_broker [(demo_cred_world, Op_revoke \<lparr>cr_broker_id = ''b'', cr_reference_id = ''other''\<rparr> 7 ''z'')]))) = Inr 42"
  by (rule issued_credential_resolves [OF demo_cred_issued surjective_pairing]) (simp_all add: demo_cred_simps)

lemma demo_issued_fields:
  "bk_policy demo_issued_broker = bk_policy demo_broker" "bk_hash demo_issued_broker = demo_cred_hash"
  "bk_versions demo_issued_broker = [(''r'', ''v1'')]" "bk_revoked demo_issued_broker = {}"
  "bk_store demo_issued_broker = \<lparr>ct_max = 1,
     ct_items = [(''credential-capability-u'', ''credential-capability-u'', ''r'', 60000005, Cap_stored)]\<rparr>"
  by (simp_all add: demo_issued_broker_def require_cred_def issue_cred_def binding_findings_def binding_for_def demo_cred_simps
      execution_integrity_def execution_current_def requested_ttl_def issued_cred_def seal_cred_def register_cap_def
      td_seconds_def Let_def)

lemma demo_cred_resolved:
  obtains b' where "resolve_cred demo_cred_world demo_cred demo_cred_execution 10 ''x'' demo_issued_broker = (Inr 42, b')"
proof -
  have "resolution_findings demo_issued_broker demo_cred demo_cred_execution 10 = []"
    by (simp add: resolution_findings_Nil demo_issued_fields demo_cred_simps cred_integrity_def)
  then show thesis
    using that by (simp add: resolve_cred_def consume_cap_def demo_issued_fields demo_cred_simps Let_def)
qed

theorem credential_released_for_exact_execution_witness:
  "cc_scope demo_cred = ce_scope demo_cred_execution \<and> cc_execution_digest demo_cred = ce_digest demo_cred_execution"
proof -
  obtain b' where "resolve_cred demo_cred_world demo_cred demo_cred_execution 10 ''x'' demo_issued_broker = (Inr 42, b')"
    by (rule demo_cred_resolved)
  from credential_released_for_exact_execution [OF this] show ?thesis by blast
qed

theorem revoked_credential_never_resolves_witness:
  "Some ''credential-capability-u'' \<notin> resolved_id ` set (fst (run_attempts cred_apply
     (snd (revoke_cred demo_cred_ref 7 ''x'' demo_issued_broker))
     [(demo_cred_world, Op_resolve demo_cred demo_cred_execution 10 ''y'')]))"
  by (rule revoked_credential_never_resolves
      [where b = demo_issued_broker and r = demo_cred_ref and d = "''credential-capability-u''" and x = 60000005])
    (auto simp: demo_issued_fields demo_cred_simps)

theorem full_capability_store_refuses_forever_witness:
  "\<not> (\<exists>c b''. require_cred demo_cred_world demo_cred_ref demo_cred_execution None 5 ''z'' demo_issued_broker = (Inr c, b''))"
  by (rule full_capability_store_refuses_forever [of demo_issued_broker "[]"]) (simp_all add: demo_issued_fields)

end
