(* ===== verification/Text_Codec.thy ===== *)
theory Text_Codec
  imports Trustrail_Prelude
begin

text \<open>
  The text and byte conversions of the Python standard library that the credential boundary uses:
  \<open>str.encode()\<close>, \<open>bytes.decode()\<close> with and without \<open>errors="ignore"\<close>, \<open>bytes.hex()\<close> and
  \<open>base64.b64encode\<close>. A byte string is the list of its byte values. The lemmas show that decoding
  inverts encoding, that a decoder always makes progress, and that the decoders agree on valid input.
\<close>

type_synonym pybytes = "nat list"

definition ident_text :: "string \<Rightarrow> pytext" where
  "ident_text s = map of_char s"

section \<open>UTF-8\<close>

definition is_scalar :: "nat \<Rightarrow> bool" where
  "is_scalar c \<longleftrightarrow> c < 55296 \<or> 57344 \<le> c \<and> c < 1114112"

definition utf8_char :: "nat \<Rightarrow> pybytes" where
  "utf8_char c =
     (if c < 128 then [c]
      else if c < 2048 then [192 + c div 64, 128 + c mod 64]
      else if c < 65536 then [224 + c div 4096, 128 + c div 64 mod 64, 128 + c mod 64]
      else [240 + c div 262144, 128 + c div 4096 mod 64, 128 + c div 64 mod 64, 128 + c mod 64])"

text \<open>\<open>str.encode()\<close> raises on a lone surrogate.\<close>

definition utf8_encode :: "pytext \<Rightarrow> pybytes option" where
  "utf8_encode t = (if list_all is_scalar t then Some (concat (map utf8_char t)) else None)"

definition utf8_need :: "nat \<Rightarrow> nat option" where
  "utf8_need b =
     (if b < 128 then Some 0 else if 194 \<le> b \<and> b < 224 then Some 1
      else if 224 \<le> b \<and> b < 240 then Some 2 else if 240 \<le> b \<and> b < 245 then Some 3 else None)"

definition is_cont :: "nat \<Rightarrow> bool" where
  "is_cont b \<longleftrightarrow> 128 \<le> b \<and> b < 192"

definition second_ok :: "nat \<Rightarrow> nat \<Rightarrow> bool" where
  "second_ok b x \<longleftrightarrow> is_cont x \<and> (b = 224 \<longrightarrow> 160 \<le> x) \<and> (b = 237 \<longrightarrow> x < 160) \<and>
     (b = 240 \<longrightarrow> 144 \<le> x) \<and> (b = 244 \<longrightarrow> x < 144)"

definition lead_bits :: "nat \<Rightarrow> nat" where
  "lead_bits b = (if b < 128 then b else if b < 224 then b - 192 else if b < 240 then b - 224 else b - 240)"

text \<open>
  One decoding step after the lead byte \<open>b\<close>: the code point if the sequence is complete, and the number of
  bytes of the rest that belong to it (of an ill-formed sequence, its maximal valid prefix).
\<close>

definition utf8_step :: "nat \<Rightarrow> pybytes \<Rightarrow> nat option \<times> nat" where
  "utf8_step b bs =
     (case utf8_need b of
        None \<Rightarrow> (None, 0)
      | Some n \<Rightarrow>
          let k = (case take n bs of [] \<Rightarrow> 0
                   | x # xs \<Rightarrow> if second_ok b x then Suc (length (takeWhile is_cont xs)) else 0) in
          if k = n then (Some (foldl (\<lambda>a x. a * 64 + (x - 128)) (lead_bits b) (take n bs)), n) else (None, k))"

function utf8_decode_ignore :: "pybytes \<Rightarrow> pytext" where
  "utf8_decode_ignore [] = []"
| "utf8_decode_ignore (b # bs) =
     (case utf8_step b bs of
        (Some c, n) \<Rightarrow> c # utf8_decode_ignore (drop n bs)
      | (None, n) \<Rightarrow> utf8_decode_ignore (drop n bs))"
  by pat_completeness auto
termination by (relation "measure length") auto

function utf8_decode :: "pybytes \<Rightarrow> pytext option" where
  "utf8_decode [] = Some []"
| "utf8_decode (b # bs) =
     (case utf8_step b bs of
        (Some c, n) \<Rightarrow> map_option ((#) c) (utf8_decode (drop n bs))
      | (None, _) \<Rightarrow> None)"
  by pat_completeness auto
termination by (relation "measure length") auto

lemma div64_digits: "c div 64 * 64 + c mod 64 = (c :: nat)"
  by simp

lemma div4096_digits: "c div 4096 * 4096 + c div 64 mod 64 * 64 + c mod 64 = (c :: nat)"
proof -
  have q: "c div 4096 = c div 64 div 64" using div_mult2_eq [of c 64 64] by simp
  have "x * 4096 + y * 64 = (x * 64 + y) * 64" for x y :: nat by simp
  then show ?thesis by (simp only: q div64_digits)
qed

lemma div262144_digits:
  "c div 262144 * 262144 + c div 4096 mod 64 * 4096 + c div 64 mod 64 * 64 + c mod 64 = (c :: nat)"
proof -
  have q: "c div 262144 = c div 64 div 4096" "c div 4096 = c div 64 div 64"
    using div_mult2_eq [of c 64 4096] div_mult2_eq [of c 64 64] by simp_all
  have "w * 262144 + x * 4096 + y * 64 = (w * 4096 + x * 64 + y) * 64" for w x y :: nat by simp
  then show ?thesis by (simp only: q div4096_digits div64_digits)
qed

lemma utf8_step_char:
  assumes "is_scalar c"
  obtains b cs where "utf8_char c = b # cs" "\<forall>rest. utf8_step b (cs @ rest) = (Some c, length cs)"
proof -
  have lt: "c < 1114112" and sur: "c < 55296 \<or> 57344 \<le> c" using assms by (auto simp: is_scalar_def)
  consider "c < 128" | "128 \<le> c" "c < 2048" | "2048 \<le> c" "c < 65536" | "65536 \<le> c" by linarith
  then show thesis
  proof cases
    case 1
    then show thesis by (intro that [of c "[]"]) (simp_all add: utf8_char_def utf8_step_def utf8_need_def lead_bits_def)
  next
    case 2
    then have b: "2 \<le> c div 64" "c div 64 < 32" by auto
    show thesis
      by (rule that [of "192 + c div 64" "[128 + c mod 64]"])
        (use 2 b in \<open>auto simp: utf8_char_def utf8_step_def utf8_need_def lead_bits_def second_ok_def is_cont_def\<close>)
  next
    case 3
    define x y z where xyz: "x = c div 4096" "y = c div 64 mod 64" "z = c mod 64"
    have c: "c = x * 4096 + y * 64 + z" and b: "x < 16" "y < 64" "z < 64"
      using 3 div4096_digits [of c] by (auto simp: xyz)
    have s: "second_ok (224 + x) (128 + y)"
      using 3 sur b unfolding c second_ok_def is_cont_def by auto
    have e: "utf8_char c = [224 + x, 128 + y, 128 + z]" using 3 by (simp add: utf8_char_def xyz)
    have "utf8_step (224 + x) ([128 + y, 128 + z] @ rest) = (Some c, 2)" for rest
      using b s by (simp add: utf8_step_def utf8_need_def lead_bits_def is_cont_def c)
    then show thesis by (intro that [OF e]) simp
  next
    case 4
    define w x y z where wxyz: "w = c div 262144" "x = c div 4096 mod 64" "y = c div 64 mod 64" "z = c mod 64"
    have c: "c = w * 262144 + x * 4096 + y * 64 + z" and b: "w < 5" "x < 64" "y < 64" "z < 64"
      using lt div262144_digits [of c] by (auto simp: wxyz)
    have s: "second_ok (240 + w) (128 + x)"
      using 4 lt b unfolding c second_ok_def is_cont_def by auto
    have e: "utf8_char c = [240 + w, 128 + x, 128 + y, 128 + z]" using 4 by (simp add: utf8_char_def wxyz)
    have "utf8_step (240 + w) ([128 + x, 128 + y, 128 + z] @ rest) = (Some c, 3)" for rest
      using b s by (simp add: utf8_step_def utf8_need_def lead_bits_def is_cont_def c)
    then show thesis by (intro that [OF e]) simp
  qed
qed

lemma decode_utf8_char:
  assumes "is_scalar c"
  shows "utf8_decode (utf8_char c @ bs) = map_option ((#) c) (utf8_decode bs)"
    and "utf8_decode_ignore (utf8_char c @ bs) = c # utf8_decode_ignore bs"
proof -
  obtain b cs where c: "utf8_char c = b # cs" "\<forall>rest. utf8_step b (cs @ rest) = (Some c, length cs)"
    by (rule utf8_step_char [OF assms])
  show "utf8_decode (utf8_char c @ bs) = map_option ((#) c) (utf8_decode bs)"
    "utf8_decode_ignore (utf8_char c @ bs) = c # utf8_decode_ignore bs"
    by (simp_all add: c)
qed

text \<open>Decoding inverts encoding.\<close>

lemma utf8_roundtrip:
  assumes "utf8_encode t = Some bs"
  shows "utf8_decode bs = Some t" and "utf8_decode_ignore bs = t"
proof -
  have bs: "bs = concat (map utf8_char t)" and sc: "list_all is_scalar t"
    using assms by (auto simp: utf8_encode_def split: if_splits)
  show "utf8_decode bs = Some t" "utf8_decode_ignore bs = t"
    unfolding bs using sc by (induction t) (simp_all add: decode_utf8_char)
qed

lemma utf8_encode_append:
  "utf8_encode (s @ t) = (case (utf8_encode s, utf8_encode t) of (Some x, Some y) \<Rightarrow> Some (x @ y) | _ \<Rightarrow> None)"
  by (simp add: utf8_encode_def)

lemma utf8_encode_length: "utf8_encode t = Some bs \<Longrightarrow> length bs = utf8_len t"
proof -
  have "is_scalar c \<Longrightarrow> length (utf8_char c) = utf8_size c" for c by (simp add: utf8_char_def utf8_size_def)
  moreover assume "utf8_encode t = Some bs"
  ultimately show ?thesis
    by (auto simp: utf8_encode_def utf8_len_def length_concat list_all_iff intro!: arg_cong [of _ _ sum_list] split: if_splits)
qed

text \<open>The two decoders agree where the strict one succeeds.\<close>

lemma utf8_decode_ignore_strict: "utf8_decode bs = Some t \<Longrightarrow> utf8_decode_ignore bs = t"
proof (induction bs arbitrary: t rule: utf8_decode.induct)
  case (2 b bs)
  then show ?case by (auto split: prod.splits option.splits)
qed simp

section \<open>Hexadecimal and base64\<close>

definition hex_digit :: "nat \<Rightarrow> nat" where
  "hex_digit n = (if n < 10 then 48 + n else 87 + n)"

definition hex_text :: "pybytes \<Rightarrow> pytext" where
  "hex_text bs = concat (map (\<lambda>b. [hex_digit (b div 16), hex_digit (b mod 16)]) bs)"

definition b64_digit :: "nat \<Rightarrow> nat" where
  "b64_digit n = (if n < 26 then 65 + n else if n < 52 then 71 + n else if n < 62 then n - 4
     else if n = 62 then 43 else 47)"

fun b64_encode :: "pybytes \<Rightarrow> pybytes" where
  "b64_encode [] = []"
| "b64_encode [a] = [b64_digit (a div 4), b64_digit (a mod 4 * 16), 61, 61]"
| "b64_encode [a, b] = [b64_digit (a div 4), b64_digit (a mod 4 * 16 + b div 16), b64_digit (b mod 16 * 4), 61]"
| "b64_encode (a # b # c # r) =
     [b64_digit (a div 4), b64_digit (a mod 4 * 16 + b div 16), b64_digit (b mod 16 * 4 + c div 64), b64_digit (c mod 64)]
     @ b64_encode r"

text \<open>Both encodings are ASCII, so their text and their bytes are the same list.\<close>

lemma hex_text_ascii: "list_all (\<lambda>b. b < 256) bs \<Longrightarrow> list_all (\<lambda>c. c < 128) (hex_text bs)"
  by (induction bs) (auto simp: hex_text_def hex_digit_def)

lemma b64_ascii: "list_all (\<lambda>b. b < 256) bs \<Longrightarrow> list_all (\<lambda>c. c < 128) (b64_encode bs)"
proof -
  have d: "n < 64 \<Longrightarrow> b64_digit n < 128" for n by (auto simp: b64_digit_def)
  have q: "a < 256 \<Longrightarrow> a div 4 < 64 \<and> a mod 4 * 16 + b div 16 < 64 \<and> a mod 4 * 16 < 64" if "b < 256" for a b :: nat
    using that by (auto simp: less_mult_imp_div_less)
  show "list_all (\<lambda>b. b < 256) bs \<Longrightarrow> list_all (\<lambda>c. c < 128) (b64_encode bs)"
    by (induction bs rule: b64_encode.induct) (auto intro!: d simp: less_mult_imp_div_less)
qed

lemma utf8_encode_ascii: "list_all (\<lambda>c. c < 128) t \<Longrightarrow> utf8_encode t = Some t"
proof -
  have "c < 128 \<Longrightarrow> is_scalar c \<and> utf8_char c = [c]" for c by (simp add: utf8_char_def is_scalar_def)
  then have "list_all (\<lambda>c. c < 128) t \<Longrightarrow> list_all is_scalar t \<and> concat (map utf8_char t) = t" for t
    by (induction t) auto
  then show "list_all (\<lambda>c. c < 128) t \<Longrightarrow> utf8_encode t = Some t" by (simp add: utf8_encode_def)
qed

end
