(* ===== verification/Credential_Boundary.thy ===== *)
theory Credential_Boundary
  imports Credential_Broker Text_Codec "HOL-Library.Sublist"
begin

text \<open>
  \<open>CredentialBoundaryGuard\<close> of \<open>credentials.py\<close>: the recursive inspection of a payload at a
  model-visible boundary. A Python object graph is a heap, a function from object identities to nodes, so
  that sharing and cycles are represented; a value is a leaf or a reference to an object. A node's class is the first
  branch of \<open>_scan\<close> that accepts it. The regular expressions for key names and raw credentials are the
  fields \<open>bg_key\<close> and \<open>bg_raw\<close>.
\<close>

section \<open>Values and configuration\<close>

datatype py_value =
    Py_scalar
  | Py_reference cred_ref
  | Py_material
  | Py_text pytext
  | Py_bytes pybytes
  | Py_object nat

datatype py_node =
    Node_model nat
  | Node_exception nat nat
  | Node_mapping "(py_value \<times> py_value) list"
  | Node_dataclass "(pytext \<times> py_value) list"
  | Node_items "py_value list"
  | Node_other

type_synonym py_heap = "nat \<Rightarrow> py_node"
type_synonym boundary_finding = "cred_code \<times> string"

record cred_boundary =
  bg_reference_ids :: "pytext set"
  bg_reference_pairs :: "(pytext \<times> pytext) set"
  bg_variants :: "(pytext + pybytes) list"
  bg_max_depth :: int
  bg_max_nodes :: int
  bg_max_stream_bytes :: int
  bg_key :: "pytext \<Rightarrow> bool"
  bg_raw :: "(pytext \<Rightarrow> bool) list"
  bg_sink :: "(nat \<times> cred_audit list) option"

record boundary_decision =
  bn_action :: guard_action
  bn_surface :: cred_surface
  bn_findings :: "boundary_finding list"

definition is_safe_boundary :: "boundary_decision \<Rightarrow> bool" where
  "is_safe_boundary d \<longleftrightarrow> bn_action d = ALLOW"

text \<open>
  \<open>_build_canary_variants\<close>: every canary as bytes, hexadecimal and base64, and, if it decodes, the same as
  text. \<open>None\<close> is the exception for an empty canary or an unencodable text.
\<close>

definition raw_chunk :: "pytext + pybytes \<Rightarrow> pybytes option" where
  "raw_chunk v = (case v of Inl t \<Rightarrow> utf8_encode t | Inr b \<Rightarrow> Some b)"

definition canary_variants :: "pybytes \<Rightarrow> (pytext + pybytes) list" where
  "canary_variants raw = [Inr raw, Inr (hex_text raw), Inr (b64_encode raw)] @
     (case utf8_decode raw of None \<Rightarrow> [] | Some t \<Rightarrow> [Inl t, Inl (hex_text raw), Inl (b64_encode raw)])"

fun build_canary_variants :: "(pytext + pybytes) list \<Rightarrow> (pytext + pybytes) list option" where
  "build_canary_variants [] = Some []"
| "build_canary_variants (v # vs) =
     (case raw_chunk v of
        None \<Rightarrow> None
      | Some raw \<Rightarrow> if raw = [] then None else map_option ((@) (canary_variants raw)) (build_canary_variants vs))"

definition new_boundary ::
  "cred_ref list \<Rightarrow> (pytext + pybytes) list \<Rightarrow> int \<Rightarrow> int \<Rightarrow> int \<Rightarrow> (pytext \<Rightarrow> bool) \<Rightarrow> (pytext \<Rightarrow> bool) list \<Rightarrow>
   (nat \<times> cred_audit list) option \<Rightarrow> cred_boundary option" where
  "new_boundary refs canaries max_depth max_nodes max_stream key raw sink =
     (if max_depth < 1 \<or> max_nodes < 1 \<or> max_stream < 1 then None
      else map_option (\<lambda>vs.
        \<lparr>bg_reference_ids = set (map (\<lambda>r. ident_text (cr_reference_id r)) refs),
         bg_reference_pairs = set (map (\<lambda>r. (ident_text (cr_broker_id r), ident_text (cr_reference_id r))) refs),
         bg_variants = vs, bg_max_depth = max_depth, bg_max_nodes = max_nodes, bg_max_stream_bytes = max_stream,
         bg_key = key, bg_raw = raw, bg_sink = sink\<rparr>) (build_canary_variants canaries))"

section \<open>Inspection of a payload\<close>

definition text_findings :: "cred_boundary \<Rightarrow> pytext \<Rightarrow> bool \<Rightarrow> boundary_finding list" where
  "text_findings g t susp =
     (if t \<in> bg_reference_ids g then []
      else (if susp then [(Suspicious_field, ''Raw value in credential-bearing field'')] else []) @
           (if list_ex (\<lambda>v. case v of Inl c \<Rightarrow> sublist c t | Inr _ \<Rightarrow> False) (bg_variants g)
            then [(Raw_credential, ''Credential leak canary detected'')] else []) @
           (if list_ex (\<lambda>p. p t) (bg_raw g) then [(Raw_credential, ''Raw credential pattern detected'')] else []))"

definition bytes_findings :: "cred_boundary \<Rightarrow> pybytes \<Rightarrow> bool \<Rightarrow> boundary_finding list" where
  "bytes_findings g b susp =
     (if susp then [(Suspicious_field, ''Raw bytes in credential-bearing field'')] else []) @
     (if list_ex (\<lambda>v. case v of Inl _ \<Rightarrow> False | Inr c \<Rightarrow> sublist c b) (bg_variants g)
      then [(Raw_credential, ''Credential leak canary detected'')] else []) @
     text_findings g (utf8_decode_ignore b) False"

fun mapping_get :: "(py_value \<times> py_value) list \<Rightarrow> pytext \<Rightarrow> py_value option" where
  "mapping_get [] k = None"
| "mapping_get ((k', v) # kvs) k = (if k' = Py_text k then Some v else mapping_get kvs k)"

definition serialized_reference :: "cred_boundary \<Rightarrow> py_node \<Rightarrow> bool" where
  "serialized_reference g n =
     (case n of
        Node_mapping kvs \<Rightarrow>
          (let bk = ident_text ''broker_id''; rk = ident_text ''reference_id'' in
           if fst ` set kvs \<noteq> {Py_text bk, Py_text rk} then False
           else (case (mapping_get kvs bk, mapping_get kvs rk) of
               (Some (Py_text b), Some (Py_text r)) \<Rightarrow> (b, r) \<in> bg_reference_pairs g
             | _ \<Rightarrow> False))
      | _ \<Rightarrow> False)"

text \<open>
  The values that \<open>_scan\<close> visits below an object, each with the \<open>suspicious\<close> flag it is visited with;
  \<open>None\<close> for an unsupported object.
\<close>

definition key_text :: "py_value \<Rightarrow> pytext" where
  "key_text k = (case k of Py_text t \<Rightarrow> t | _ \<Rightarrow> [])"

definition scan_children :: "cred_boundary \<Rightarrow> py_node \<Rightarrow> bool \<Rightarrow> (bool \<times> py_value) list option" where
  "scan_children g n susp =
     (case n of
        Node_model d \<Rightarrow> Some [(susp, Py_object d)]
      | Node_exception args d \<Rightarrow> Some [(False, Py_object args), (False, Py_object d)]
      | Node_mapping kvs \<Rightarrow>
          Some (concat (map (\<lambda>(k, v). [(False, k), (susp \<or> bg_key g (key_text k), v)]) kvs))
      | Node_dataclass fs \<Rightarrow> Some (map (\<lambda>(f, v). (susp \<or> bg_key g f, v)) fs)
      | Node_items vs \<Rightarrow> Some (map (Pair susp) vs)
      | Node_other \<Rightarrow> None)"

record scan_state =
  sn_findings :: "boundary_finding list"
  sn_seen :: "nat set"
  sn_count :: int

definition scan_add :: "boundary_finding list \<Rightarrow> scan_state \<Rightarrow> scan_state" where
  "scan_add fs s = s\<lparr>sn_findings := sn_findings s @ fs\<rparr>"

function scan_value :: "cred_boundary \<Rightarrow> py_heap \<Rightarrow> int \<Rightarrow> bool \<Rightarrow> py_value \<Rightarrow> scan_state \<Rightarrow> scan_state" where
  "scan_value g h depth susp v s =
     (let s = s\<lparr>sn_count := sn_count s + 1\<rparr> in
      if bg_max_depth g < depth \<or> bg_max_nodes g < sn_count s
        then scan_add [(Inspection_limit, ''Credential inspection limit exceeded'')] s
      else (case v of
          Py_scalar \<Rightarrow> s
        | Py_reference _ \<Rightarrow> s
        | Py_material \<Rightarrow>
            scan_add [(Credential_object, ''Credential material crossed a model-visible boundary'')] s
        | Py_text t \<Rightarrow> scan_add (text_findings g t susp) s
        | Py_bytes b \<Rightarrow> scan_add (bytes_findings g b susp) s
        | Py_object a \<Rightarrow>
            if susp \<and> serialized_reference g (h a) then s
            else if a \<in> sn_seen s then s
            else (let s = s\<lparr>sn_seen := insert a (sn_seen s)\<rparr> in
              case scan_children g (h a) susp of
                None \<Rightarrow> scan_add [(Unsupported_value, ''Unsupported value at credential boundary'')] s
              | Some cs \<Rightarrow> fold (\<lambda>(sp, c) t. scan_value g h (depth + 1) sp c t) cs s)))"
  by pat_completeness auto
termination by (relation "measure (\<lambda>(g, h, depth, susp, v, s). nat (bg_max_depth g + 1 - depth))") auto

declare scan_value.simps [simp del]

definition start_scan :: scan_state where
  "start_scan = \<lparr>sn_findings = [], sn_seen = {}, sn_count = 0\<rparr>"

definition emit_boundary :: "cred_surface \<Rightarrow> cred_code \<Rightarrow> datetime \<Rightarrow> ident \<Rightarrow> cred_boundary \<Rightarrow> cred_boundary" where
  "emit_boundary sf code now uid g = g\<lparr>bg_sink := map_option (\<lambda>(n, evs). (n, deque_append n evs
     \<lparr>cv_event_id = uid, cv_occurred_at = now, cv_phase = Cred_inspect, cv_code = code, cv_reference_ref = None,
      cv_execution_ref = None, cv_capability_ref = None, cv_surface = Some sf\<rparr>)) (bg_sink g)\<rparr>"

definition inspect_value ::
  "py_heap \<Rightarrow> py_value \<Rightarrow> cred_surface \<Rightarrow> datetime \<Rightarrow> ident \<Rightarrow> cred_boundary \<Rightarrow> boundary_decision \<times> cred_boundary" where
  "inspect_value h v sf now uid g =
     (let fs = first_occurrences (sn_findings (scan_value g h 0 False v start_scan)) in
      (\<lparr>bn_action = (if fs \<noteq> [] then BLOCK else ALLOW), bn_surface = sf, bn_findings = fs\<rparr>,
       emit_boundary sf (case fs of [] \<Rightarrow> Cred_allowed | f # _ \<Rightarrow> fst f) now uid g))"

definition require_safe ::
  "py_heap \<Rightarrow> py_value \<Rightarrow> cred_surface \<Rightarrow> datetime \<Rightarrow> ident \<Rightarrow> cred_boundary \<Rightarrow> (boundary_decision + unit) \<times> cred_boundary" where
  "require_safe h v sf now uid g =
     (let (d, g') = inspect_value h v sf now uid g in
      (if is_safe_boundary d then Inr () else Inl d, g'))"

section \<open>Inspection of a stream\<close>

datatype stream_read = Stream_raises | Stream_limit | Stream_all pybytes

fun read_stream :: "int \<Rightarrow> pybytes \<Rightarrow> (pytext + pybytes) list \<Rightarrow> stream_read" where
  "read_stream m acc [] = Stream_all acc"
| "read_stream m acc (c # cs) =
     (case raw_chunk c of
        None \<Rightarrow> Stream_raises
      | Some raw \<Rightarrow> if m < int (length acc) + int (length raw) then Stream_limit else read_stream m (acc @ raw) cs)"

definition stream_limit_decision :: boundary_decision where
  "stream_limit_decision = \<lparr>bn_action = BLOCK, bn_surface = Surface_stream,
     bn_findings = [(Inspection_limit, ''Credential stream inspection limit exceeded'')]\<rparr>"

definition inspect_stream ::
  "(pytext + pybytes) list \<Rightarrow> datetime \<Rightarrow> ident \<Rightarrow> cred_boundary \<Rightarrow> (boundary_decision \<times> cred_boundary) option" where
  "inspect_stream cs now uid g =
     (case read_stream (bg_max_stream_bytes g) [] cs of
        Stream_raises \<Rightarrow> None
      | Stream_limit \<Rightarrow> Some (stream_limit_decision, emit_boundary Surface_stream Inspection_limit now uid g)
      | Stream_all bs \<Rightarrow> Some (inspect_value (\<lambda>_. Node_other) (Py_bytes bs) Surface_stream now uid g))"

section \<open>The scan on values\<close>

lemma scan_add_simps [simp]:
  "sn_findings (scan_add fs s) = sn_findings s @ fs" "sn_seen (scan_add fs s) = sn_seen s" "sn_count (scan_add fs s) = sn_count s"
  by (simp_all add: scan_add_def)

text \<open>What \<open>scan_value\<close> does on each kind of value that it visits within the limits.\<close>

definition within_limits :: "cred_boundary \<Rightarrow> int \<Rightarrow> scan_state \<Rightarrow> bool" where
  "within_limits g depth s \<longleftrightarrow> depth \<le> bg_max_depth g \<and> sn_count s < bg_max_nodes g"

definition leaf_findings :: "cred_boundary \<Rightarrow> bool \<Rightarrow> py_value \<Rightarrow> boundary_finding list" where
  "leaf_findings g susp v = (case v of
     Py_material \<Rightarrow> [(Credential_object, ''Credential material crossed a model-visible boundary'')]
   | Py_text t \<Rightarrow> text_findings g t susp
   | Py_bytes b \<Rightarrow> bytes_findings g b susp
   | _ \<Rightarrow> [])"

definition skips :: "cred_boundary \<Rightarrow> py_heap \<Rightarrow> bool \<Rightarrow> nat set \<Rightarrow> nat \<Rightarrow> bool" where
  "skips g h susp S a \<longleftrightarrow> susp \<and> serialized_reference g (h a) \<or> a \<in> S"

lemma scan_limit:
  "\<not> within_limits g d s \<Longrightarrow> scan_value g h d f v s =
     scan_add [(Inspection_limit, ''Credential inspection limit exceeded'')] (s\<lparr>sn_count := sn_count s + 1\<rparr>)"
  by (subst scan_value.simps) (auto simp: within_limits_def)

lemma scan_leaf:
  "within_limits g d s \<Longrightarrow> \<forall>a. v \<noteq> Py_object a \<Longrightarrow>
   scan_value g h d f v s = scan_add (leaf_findings g f v) (s\<lparr>sn_count := sn_count s + 1\<rparr>)"
  by (subst scan_value.simps) (auto simp: within_limits_def leaf_findings_def scan_add_def split: py_value.splits)

lemma scan_skip:
  "within_limits g d s \<Longrightarrow> skips g h f (sn_seen s) a \<Longrightarrow>
   scan_value g h d f (Py_object a) s = s\<lparr>sn_count := sn_count s + 1\<rparr>"
  by (subst scan_value.simps) (auto simp: within_limits_def skips_def Let_def)

lemma scan_unsupported:
  "within_limits g d s \<Longrightarrow> \<not> skips g h f (sn_seen s) a \<Longrightarrow> scan_children g (h a) f = None \<Longrightarrow>
   scan_value g h d f (Py_object a) s = scan_add [(Unsupported_value, ''Unsupported value at credential boundary'')]
     (s\<lparr>sn_count := sn_count s + 1, sn_seen := insert a (sn_seen s)\<rparr>)"
  by (subst scan_value.simps) (auto simp: within_limits_def skips_def Let_def)

lemma scan_node:
  "within_limits g d s \<Longrightarrow> \<not> skips g h f (sn_seen s) a \<Longrightarrow> scan_children g (h a) f = Some cs \<Longrightarrow>
   scan_value g h d f (Py_object a) s = fold (\<lambda>(sp, c). scan_value g h (d + 1) sp c) cs
     (s\<lparr>sn_count := sn_count s + 1, sn_seen := insert a (sn_seen s)\<rparr>)"
  by (subst scan_value.simps) (auto simp: within_limits_def skips_def Let_def)

text \<open>
  Induction over a run of the scan, with the loop over the children unrolled: a relation between the state before
  and after that holds in every case holds of the scan.
\<close>

lemma scan_value_cases:
  assumes step: "\<And>d f v s. \<not> within_limits g d s \<Longrightarrow> R f v s
      (scan_add [(Inspection_limit, ''Credential inspection limit exceeded'')] (s\<lparr>sn_count := sn_count s + 1\<rparr>))"
    and leaf: "\<And>f v s. \<forall>a. v \<noteq> Py_object a \<Longrightarrow> R f v s (scan_add (leaf_findings g f v) (s\<lparr>sn_count := sn_count s + 1\<rparr>))"
    and skip: "\<And>f a s. skips g h f (sn_seen s) a \<Longrightarrow> R f (Py_object a) s (s\<lparr>sn_count := sn_count s + 1\<rparr>)"
    and other: "\<And>f a s. \<not> skips g h f (sn_seen s) a \<Longrightarrow> scan_children g (h a) f = None \<Longrightarrow> R f (Py_object a) s
      (scan_add [(Unsupported_value, ''Unsupported value at credential boundary'')]
        (s\<lparr>sn_count := sn_count s + 1, sn_seen := insert a (sn_seen s)\<rparr>))"
    and Nil: "\<And>s. Q [] s s"
    and Cons: "\<And>f c cs s t u. R f c s t \<Longrightarrow> Q cs t u \<Longrightarrow> Q ((f, c) # cs) s u"
    and node: "\<And>f a s cs t. \<not> skips g h f (sn_seen s) a \<Longrightarrow> scan_children g (h a) f = Some cs \<Longrightarrow>
      Q cs (s\<lparr>sn_count := sn_count s + 1, sn_seen := insert a (sn_seen s)\<rparr>) t \<Longrightarrow> R f (Py_object a) s t"
  shows "R f v s (scan_value g h d f v s)"
proof (induction "nat (bg_max_depth g + 1 - d)" arbitrary: d f v s rule: less_induct)
  case less
  have loop: "Q cs t (fold (\<lambda>(sp, c). scan_value g h (d + 1) sp c) cs t)" if "d \<le> bg_max_depth g" for cs t
  proof (induction cs arbitrary: t)
    case (Cons p cs)
    obtain sp c where p: "p = (sp, c)" by (cases p)
    have "R sp c t (scan_value g h (d + 1) sp c t)" using that by (intro less) simp
    from assms(6) [OF this Cons.IH] show ?case by (simp add: p)
  qed (simp add: Nil)
  show ?case
  proof (cases "within_limits g d s")
    case False
    then show ?thesis using step by (simp add: scan_limit)
  next
    case lim: True
    show ?thesis
    proof (cases "\<exists>a. v = Py_object a")
      case False
      then show ?thesis using lim leaf by (simp add: scan_leaf)
    next
      case True
      then obtain a where v: "v = Py_object a" by blast
      show ?thesis
      proof (cases "skips g h f (sn_seen s) a")
        case True
        then show ?thesis using lim skip by (simp add: scan_skip v)
      next
        case False
        then show ?thesis using lim other node [OF False _ loop]
          by (cases "scan_children g (h a) f") (simp_all add: scan_unsupported scan_node v within_limits_def)
      qed
    qed
  qed
qed

end
