(* ===== verification/Boundary_Properties.thy ===== *)
theory Boundary_Properties
  imports Credential_Boundary
begin

text \<open>
  Properties of the credential boundary: a payload that is allowed contains no raw credential in
  anything reachable from it, a value in a credential-bearing field is found unless its container is shared, the
  scan ends on every object graph, and a stream is judged by its concatenation.
\<close>

section \<open>What an inspection without findings has seen\<close>

definition handled :: "cred_boundary \<Rightarrow> py_heap \<Rightarrow> nat set \<Rightarrow> bool \<Rightarrow> py_value \<Rightarrow> bool" where
  "handled g h S f v \<longleftrightarrow> (case v of Py_object a \<Rightarrow> skips g h f S a | _ \<Rightarrow> leaf_findings g f v = [])"

definition expanded :: "cred_boundary \<Rightarrow> py_heap \<Rightarrow> nat set \<Rightarrow> bool \<Rightarrow> nat \<Rightarrow> bool" where
  "expanded g h S f a \<longleftrightarrow> (\<exists>cs. scan_children g (h a) f = Some cs \<and> (\<forall>f' c. (f', c) \<in> set cs \<longrightarrow> handled g h S f' c))"

text \<open>The values below a value, each with the flag of the path that leads to it.\<close>

inductive reaches :: "cred_boundary \<Rightarrow> py_heap \<Rightarrow> bool \<Rightarrow> py_value \<Rightarrow> bool \<Rightarrow> py_value \<Rightarrow> bool" for g h f v where
  Here: "reaches g h f v f v"
| Below: "reaches g h f v f' (Py_object a) \<Longrightarrow> scan_children g (h a) f' = Some cs \<Longrightarrow> (f'', c) \<in> set cs \<Longrightarrow>
    reaches g h f v f'' c"

lemma reaches_trans: "reaches g h f' w f'' x \<Longrightarrow> reaches g h f v f' w \<Longrightarrow> reaches g h f v f'' x"
  by (induction rule: reaches.induct) (auto intro: reaches.Below)

lemma reaches_child:
  "scan_children g (h a) f = Some cs \<Longrightarrow> (f', c) \<in> set cs \<Longrightarrow> reaches g h f' c f'' x \<Longrightarrow>
   reaches g h f (Py_object a) f'' x"
  by (rule reaches_trans) (auto intro: reaches.intros)

lemma handled_mono: "handled g h S f v \<Longrightarrow> S \<subseteq> T \<Longrightarrow> handled g h T f v"
  by (auto simp: handled_def skips_def split: py_value.splits)

lemma expanded_mono: "expanded g h S f a \<Longrightarrow> S \<subseteq> T \<Longrightarrow> expanded g h T f a"
  unfolding expanded_def by (fastforce intro: handled_mono)

definition scanned :: "cred_boundary \<Rightarrow> py_heap \<Rightarrow> (bool \<times> py_value) list \<Rightarrow> scan_state \<Rightarrow> scan_state \<Rightarrow> bool" where
  "scanned g h cs s t \<longleftrightarrow> (sn_findings t = [] \<longrightarrow> sn_findings s = [] \<and> sn_seen s \<subseteq> sn_seen t \<and>
     (\<forall>f c. (f, c) \<in> set cs \<longrightarrow> handled g h (sn_seen t) f c) \<and>
     (\<forall>a\<in>sn_seen t - sn_seen s. \<exists>f c f'. (f, c) \<in> set cs \<and> reaches g h f c f' (Py_object a) \<and> expanded g h (sn_seen t) f' a))"

lemma scanned_append:
  assumes "scanned g h cs s t" and "scanned g h ds t u"
  shows "scanned g h (cs @ ds) s u"
  unfolding scanned_def
proof (intro impI)
  assume u: "sn_findings u = []"
  have 2: "sn_findings t = []" "sn_seen t \<subseteq> sn_seen u" "\<forall>f c. (f, c) \<in> set ds \<longrightarrow> handled g h (sn_seen u) f c"
    and b2: "\<forall>a\<in>sn_seen u - sn_seen t. \<exists>f c f'. (f, c) \<in> set ds \<and> reaches g h f c f' (Py_object a) \<and> expanded g h (sn_seen u) f' a"
    using assms(2) u unfolding scanned_def by blast+
  have 1: "sn_findings s = []" "sn_seen s \<subseteq> sn_seen t" "\<forall>f c. (f, c) \<in> set cs \<longrightarrow> handled g h (sn_seen t) f c"
    and a2: "\<forall>a\<in>sn_seen t - sn_seen s. \<exists>f c f'. (f, c) \<in> set cs \<and> reaches g h f c f' (Py_object a) \<and> expanded g h (sn_seen t) f' a"
    using assms(1) 2(1) unfolding scanned_def by blast+
  have "\<exists>f c f'. (f, c) \<in> set (cs @ ds) \<and> reaches g h f c f' (Py_object a) \<and> expanded g h (sn_seen u) f' a"
    if d: "a \<in> sn_seen u - sn_seen s" for a
  proof (cases "a \<in> sn_seen t")
    case True
    then obtain f c f' where "(f, c) \<in> set cs" "reaches g h f c f' (Py_object a)" "expanded g h (sn_seen t) f' a"
      using a2 d by blast
    then show ?thesis using expanded_mono [OF _ 2(2)] by fastforce
  next
    case False
    then obtain f c f' where "(f, c) \<in> set ds" "reaches g h f c f' (Py_object a)" "expanded g h (sn_seen u) f' a"
      using b2 d by blast
    then show ?thesis by fastforce
  qed
  moreover have "\<forall>f c. (f, c) \<in> set (cs @ ds) \<longrightarrow> handled g h (sn_seen u) f c"
    using 1(3) 2(2,3) by (auto intro: handled_mono)
  ultimately show "sn_findings s = [] \<and> sn_seen s \<subseteq> sn_seen u \<and> (\<forall>f c. (f, c) \<in> set (cs @ ds) \<longrightarrow> handled g h (sn_seen u) f c) \<and>
      (\<forall>a\<in>sn_seen u - sn_seen s. \<exists>f c f'. (f, c) \<in> set (cs @ ds) \<and> reaches g h f c f' (Py_object a) \<and> expanded g h (sn_seen u) f' a)"
    using 1(1,2) 2(2) by blast
qed

lemma scanned_single:
  "scanned g h [(f, v)] s t \<longleftrightarrow> (sn_findings t = [] \<longrightarrow> sn_findings s = [] \<and> sn_seen s \<subseteq> sn_seen t \<and>
     handled g h (sn_seen t) f v \<and>
     (\<forall>a\<in>sn_seen t - sn_seen s. \<exists>f'. reaches g h f v f' (Py_object a) \<and> expanded g h (sn_seen t) f' a))"
  unfolding scanned_def set_simps singleton_iff prod.inject by blast

lemma scan_value_scanned: "scanned g h [(f, v)] s (scan_value g h d f v s)"
proof (rule scan_value_cases [where R = "\<lambda>f v. scanned g h [(f, v)]" and Q = "scanned g h"])
  fix f v s
  assume "\<forall>a. v \<noteq> Py_object a"
  then show "scanned g h [(f, v)] s (scan_add (leaf_findings g f v) (s\<lparr>sn_count := sn_count s + 1\<rparr>))"
    by (auto simp: scanned_def handled_def split: py_value.splits)
next
  fix f c cs s t u
  assume "scanned g h [(f, c)] s t" and "scanned g h cs t u"
  then show "scanned g h ((f, c) # cs) s u" using scanned_append [of g h "[(f, c)]"] by simp
next
  fix f a s cs t
  assume cs: "scan_children g (h a) f = Some cs"
    and sc: "scanned g h cs (s\<lparr>sn_count := sn_count s + 1, sn_seen := insert a (sn_seen s)\<rparr>) t"
  show "scanned g h [(f, Py_object a)] s t"
    unfolding scanned_single
  proof (intro impI)
    assume "sn_findings t = []"
    then have 1: "sn_findings s = []" "insert a (sn_seen s) \<subseteq> sn_seen t" "\<forall>f c. (f, c) \<in> set cs \<longrightarrow> handled g h (sn_seen t) f c"
      and 2: "\<forall>x\<in>sn_seen t - insert a (sn_seen s). \<exists>f c f'. (f, c) \<in> set cs \<and> reaches g h f c f' (Py_object x) \<and> expanded g h (sn_seen t) f' x"
      using sc by (simp_all add: scanned_def)
    have "\<exists>f'. reaches g h f (Py_object a) f' (Py_object x) \<and> expanded g h (sn_seen t) f' x" if d: "x \<in> sn_seen t - sn_seen s" for x
    proof (cases "x = a")
      case True
      moreover have "expanded g h (sn_seen t) f a" using cs 1(3) by (auto simp: expanded_def)
      ultimately show ?thesis by (blast intro: reaches.Here)
    next
      case False
      then obtain f1 c f' where "(f1, c) \<in> set cs" "reaches g h f1 c f' (Py_object x)" "expanded g h (sn_seen t) f' x"
        using 2 d by blast
      then show ?thesis using reaches_child [where h = h and a = a, OF cs] by blast
    qed
    moreover have "handled g h (sn_seen t) f (Py_object a)" using 1(2) by (simp add: handled_def skips_def)
    ultimately show "sn_findings s = [] \<and> sn_seen s \<subseteq> sn_seen t \<and> handled g h (sn_seen t) f (Py_object a) \<and>
      (\<forall>x\<in>sn_seen t - sn_seen s. \<exists>f'. reaches g h f (Py_object a) f' (Py_object x) \<and> expanded g h (sn_seen t) f' x)"
      using 1(1,2) by blast
  qed
qed (auto simp: scanned_single scanned_def [of _ _ "[]"] handled_def)

text \<open>So an allowed payload has a set of visited objects that is closed under their children.\<close>

lemma allowed_closed:
  assumes "bn_action (fst (inspect_value h v sf now uid g)) = ALLOW"
  obtains S where "handled g h S False v"
    "\<forall>a\<in>S. \<exists>f. reaches g h False v f (Py_object a) \<and> expanded g h S f a"
proof -
  let ?t = "scan_value g h 0 False v start_scan"
  have "sn_findings ?t = []" using assms by (auto simp: inspect_value_def Let_def split: if_splits)
  then show thesis
    using that [of "sn_seen ?t"] scan_value_scanned [of g h False v start_scan 0] by (simp add: scanned_single start_scan_def)
qed

section \<open>Allowed payloads\<close>

text \<open>
  The objects of a payload, whatever the flags. A mapping in a credential-bearing field that is the serialised form
  of a configured reference is exempt: its two texts are the identifiers of that reference.
\<close>

definition node_values :: "py_node \<Rightarrow> py_value set" where
  "node_values n = (case n of
     Node_model d \<Rightarrow> {Py_object d}
   | Node_exception args d \<Rightarrow> {Py_object args, Py_object d}
   | Node_mapping kvs \<Rightarrow> fst ` set kvs \<union> snd ` set kvs
   | Node_dataclass fs \<Rightarrow> snd ` set fs
   | Node_items vs \<Rightarrow> set vs
   | Node_other \<Rightarrow> {})"

inductive part_of :: "py_heap \<Rightarrow> py_value \<Rightarrow> py_value \<Rightarrow> bool" for h v where
  Root: "part_of h v v"
| Part: "part_of h v (Py_object a) \<Longrightarrow> w \<in> node_values (h a) \<Longrightarrow> part_of h v w"

lemma scan_children_values: "scan_children g n f = Some cs \<Longrightarrow> snd ` set cs = node_values n"
  by (force simp: scan_children_def node_values_def split: py_node.splits)

lemma mapping_get_in: "mapping_get kvs k = Some v \<Longrightarrow> (Py_text k, v) \<in> set kvs"
  by (induction kvs) (auto split: if_splits)

definition reference_text :: "cred_boundary \<Rightarrow> py_value \<Rightarrow> bool" where
  "reference_text g v \<longleftrightarrow> (\<exists>t. v = Py_text t \<and> (t \<in> {ident_text ''broker_id'', ident_text ''reference_id''} \<or>
     (\<exists>b r. (b, r) \<in> bg_reference_pairs g \<and> t \<in> {b, r})))"

text \<open>The dictionary of a Python mapping has no duplicate keys.\<close>

definition heap_ok :: "py_heap \<Rightarrow> bool" where
  "heap_ok h \<longleftrightarrow> (\<forall>a kvs. h a = Node_mapping kvs \<longrightarrow> distinct (map fst kvs))"

lemma serialized_referenceE:
  assumes "serialized_reference g n"
  obtains kvs b r where "n = Node_mapping kvs" "fst ` set kvs = {Py_text (ident_text ''broker_id''), Py_text (ident_text ''reference_id'')}"
    "mapping_get kvs (ident_text ''broker_id'') = Some (Py_text b)" "mapping_get kvs (ident_text ''reference_id'') = Some (Py_text r)"
    "(b, r) \<in> bg_reference_pairs g"
proof -
  obtain kvs where n: "n = Node_mapping kvs" using assms by (cases n) (simp_all add: serialized_reference_def)
  have ks: "fst ` set kvs = {Py_text (ident_text ''broker_id''), Py_text (ident_text ''reference_id'')}"
    using assms by (simp add: n serialized_reference_def Let_def split: if_splits)
  obtain x where x: "mapping_get kvs (ident_text ''broker_id'') = Some x"
    using assms ks by (cases "mapping_get kvs (ident_text ''broker_id'')") (simp_all add: n serialized_reference_def)
  obtain b where b: "x = Py_text b" using assms ks x by (cases x) (simp_all add: n serialized_reference_def)
  obtain y where y: "mapping_get kvs (ident_text ''reference_id'') = Some y"
    using assms ks x b by (cases "mapping_get kvs (ident_text ''reference_id'')") (simp_all add: n serialized_reference_def)
  obtain r where r: "y = Py_text r" using assms ks x b y by (cases y) (simp_all add: n serialized_reference_def)
  show thesis using that [OF n ks] x y assms ks by (simp add: n b r serialized_reference_def)
qed

lemma serialized_reference_values:
  assumes "serialized_reference g n" and "w \<in> node_values n" and "\<forall>kvs. n = Node_mapping kvs \<longrightarrow> distinct (map fst kvs)"
  shows "reference_text g w"
proof -
  let ?bk = "ident_text ''broker_id''" and ?rk = "ident_text ''reference_id''"
  obtain kvs b r where n: "n = Node_mapping kvs" and ks: "fst ` set kvs = {Py_text ?bk, Py_text ?rk}"
    and b: "mapping_get kvs ?bk = Some (Py_text b)" and r: "mapping_get kvs ?rk = Some (Py_text r)"
    and br: "(b, r) \<in> bg_reference_pairs g"
    by (rule serialized_referenceE [OF assms(1)])
  have d: "distinct (map fst kvs)" using assms(3) n by blast
  have uni: "v = v'" if "(k, v) \<in> set kvs" "(k, v') \<in> set kvs" for k v v'
    using that d by (metis eq_key_imp_eq_value)
  have "w \<in> fst ` set kvs \<or> (\<exists>k. (k, w) \<in> set kvs)" using assms(2) by (auto simp: n node_values_def)
  then show ?thesis
  proof
    assume "w \<in> fst ` set kvs"
    then show ?thesis using ks by (auto simp: reference_text_def)
  next
    assume "\<exists>k. (k, w) \<in> set kvs"
    then obtain k where k: "(k, w) \<in> set kvs" by blast
    then have "k \<in> fst ` set kvs" by force
    then have "k = Py_text ?bk \<or> k = Py_text ?rk" by (simp add: ks)
    then have "w = Py_text b \<or> w = Py_text r"
      using uni k mapping_get_in [OF b] mapping_get_in [OF r] by blast
    then show ?thesis using br by (auto simp: reference_text_def)
  qed
qed

lemma allowed_parts:
  assumes "bn_action (fst (inspect_value h v sf now uid g)) = ALLOW" and "heap_ok h" and "part_of h v w"
  shows "(\<exists>S f. handled g h S f w) \<or> reference_text g w"
proof -
  obtain S where S: "handled g h S False v" "\<forall>a\<in>S. \<exists>f. reaches g h False v f (Py_object a) \<and> expanded g h S f a"
    by (rule allowed_closed [OF assms(1)])
  have "(\<exists>f. handled g h S f w) \<or> reference_text g w"
    using assms(3)
  proof induction
    case (Part a w)
    have "skips g h f S a" if "handled g h S f (Py_object a)" for f using that by (simp add: handled_def)
    moreover have "\<not> reference_text g (Py_object a)" by (simp add: reference_text_def)
    ultimately obtain f where "skips g h f S a" using Part.IH by blast
    then consider "serialized_reference g (h a)" | "a \<in> S" by (auto simp: skips_def)
    then show ?case
    proof cases
      case 1
      then show ?thesis using serialized_reference_values [OF _ Part.hyps(2)] assms(2) by (auto simp: heap_ok_def)
    next
      case 2
      then obtain f' cs where cs: "scan_children g (h a) f' = Some cs" "\<forall>f c. (f, c) \<in> set cs \<longrightarrow> handled g h S f c"
        using S(2) by (auto simp: expanded_def)
      from Part.hyps(2) have "w \<in> snd ` set cs" by (simp add: scan_children_values [OF cs(1)])
      then show ?thesis using cs(2) by (metis imageE prod.collapse)
    qed
  qed (use S(1) in blast)
  then show ?thesis by blast
qed

text \<open>What an admitted text or byte string is free of.\<close>

definition free_of_credentials :: "cred_boundary \<Rightarrow> pytext \<Rightarrow> bool" where
  "free_of_credentials g t \<longleftrightarrow> t \<in> bg_reference_ids g \<or>
     (\<forall>c. Inl c \<in> set (bg_variants g) \<longrightarrow> \<not> sublist c t) \<and> (\<forall>p\<in>set (bg_raw g). \<not> p t)"

lemma ex_Inl_iff: "(\<exists>v\<in>A. case v of Inl c \<Rightarrow> P c | Inr _ \<Rightarrow> False) \<longleftrightarrow> (\<exists>c. Inl c \<in> A \<and> P c)"
  by (metis sum.case(1) sum.case(2) sum.exhaust)

lemma ex_Inr_iff: "(\<exists>v\<in>A. case v of Inl _ \<Rightarrow> False | Inr c \<Rightarrow> P c) \<longleftrightarrow> (\<exists>c. Inr c \<in> A \<and> P c)"
  by (metis sum.case(1) sum.case(2) sum.exhaust)

lemma text_findings_Nil: "text_findings g t f = [] \<longleftrightarrow> free_of_credentials g t \<and> (f \<longrightarrow> t \<in> bg_reference_ids g)"
  by (auto simp: text_findings_def free_of_credentials_def list_ex_iff ex_Inl_iff)

lemma bytes_findings_Nil:
  "bytes_findings g b f = [] \<longleftrightarrow> \<not> f \<and> (\<forall>c. Inr c \<in> set (bg_variants g) \<longrightarrow> \<not> sublist c b) \<and> free_of_credentials g (utf8_decode_ignore b)"
  by (auto simp: bytes_findings_def text_findings_Nil list_ex_iff ex_Inr_iff)

text \<open>
  C14: a payload that passes the boundary discloses no known credential. Whatever containers
  its values are nested in, and however these share objects or form cycles, no value below it is
  credential material, and no text or byte string below it contains a leak canary or matches a raw
  credential pattern, unless the text is an identifier of a configured reference.
\<close>

theorem allowed_payload_discloses_nothing:
  assumes "bn_action (fst (inspect_value h v sf now uid g)) = ALLOW" and "heap_ok h" and "part_of h v w"
  shows "case w of
      Py_material \<Rightarrow> False
    | Py_text t \<Rightarrow> free_of_credentials g t \<or> reference_text g w
    | Py_bytes b \<Rightarrow> (\<forall>c. Inr c \<in> set (bg_variants g) \<longrightarrow> \<not> sublist c b) \<and> free_of_credentials g (utf8_decode_ignore b)
    | _ \<Rightarrow> True"
proof -
  from allowed_parts [OF assms] show ?thesis
  proof
    assume "\<exists>S f. handled g h S f w"
    then show ?thesis
      by (auto simp: handled_def leaf_findings_def text_findings_Nil bytes_findings_Nil split: py_value.splits)
  next
    assume r: "reference_text g w"
    then obtain t where "w = Py_text t" by (auto simp: reference_text_def)
    then show ?thesis using r by simp
  qed
qed

text \<open>
  A value in a credential-bearing field is rejected. If no object is shared between a
  credential-bearing position and another one, then no text other than a reference identifier and no byte
  string stands at or below a field whose name announces a credential in an allowed payload.
\<close>

theorem credential_fields_hold_references_only:
  assumes "bn_action (fst (inspect_value h v sf now uid g)) = ALLOW" and "heap_ok h"
    and unshared: "\<forall>a. \<not> (reaches g h False v True (Py_object a) \<and> reaches g h False v False (Py_object a))"
    and "reaches g h False v True w"
  shows "case w of Py_text t \<Rightarrow> t \<in> bg_reference_ids g \<or> reference_text g w | Py_bytes b \<Rightarrow> False | _ \<Rightarrow> True"
proof -
  obtain S where S: "handled g h S False v" "\<forall>a\<in>S. \<exists>f. reaches g h False v f (Py_object a) \<and> expanded g h S f a"
    by (rule allowed_closed [OF assms(1)])
  have "handled g h S f w \<or> reference_text g w" if "reaches g h False v f w" for f w
    using that
  proof induction
    case (Below f' a cs f'' c)
    have "skips g h f' S a" using Below.IH by (simp add: handled_def reference_text_def)
    then consider "serialized_reference g (h a)" | "a \<in> S" by (auto simp: skips_def)
    then show ?case
    proof cases
      case 1
      moreover have "c \<in> node_values (h a)" using Below.hyps(3) by (force simp flip: scan_children_values [OF Below.hyps(2)])
      ultimately show ?thesis using serialized_reference_values assms(2) by (auto simp: heap_ok_def)
    next
      case 2
      then obtain f1 where f1: "reaches g h False v f1 (Py_object a)" "expanded g h S f1 a" using S(2) by blast
      then have "f1 = f'" using unshared Below.hyps(1) by (cases f1; cases f') auto
      then show ?thesis using f1(2) Below.hyps(2,3) by (auto simp: expanded_def)
    qed
  qed (use S(1) in blast)
  from this [OF assms(4)] show ?thesis
    by (auto simp: reference_text_def handled_def leaf_findings_def text_findings_Nil bytes_findings_Nil split: py_value.splits)
qed

section \<open>The scan ends\<close>

definition child_count :: "py_node \<Rightarrow> nat" where
  "child_count n = (case n of
     Node_model d \<Rightarrow> 1 | Node_exception _ _ \<Rightarrow> 2 | Node_mapping kvs \<Rightarrow> 2 * length kvs
   | Node_dataclass fs \<Rightarrow> length fs | Node_items vs \<Rightarrow> length vs | Node_other \<Rightarrow> 0)"

lemma scan_children_count: "scan_children g n f = Some cs \<Longrightarrow> length cs = child_count n"
proof -
  have "length (concat (map (\<lambda>(k, v). [(False, k), (f \<or> bg_key g (key_text k), v)]) kvs)) = 2 * length kvs" for kvs
    by (induction kvs) auto
  then show "scan_children g n f = Some cs \<Longrightarrow> length cs = child_count n"
    by (auto simp: scan_children_def child_count_def split: py_node.splits)
qed

definition objects :: "py_value set \<Rightarrow> nat set" where
  "objects V = {a. Py_object a \<in> V}"

definition visits :: "py_heap \<Rightarrow> nat set \<Rightarrow> (bool \<times> py_value) list \<Rightarrow> scan_state \<Rightarrow> scan_state \<Rightarrow> bool" where
  "visits h A cs s t \<longleftrightarrow> (objects (snd ` set cs) \<subseteq> A \<longrightarrow> sn_seen s \<subseteq> A \<longrightarrow> sn_seen s \<subseteq> sn_seen t \<and> sn_seen t \<subseteq> A \<and>
     sn_count t \<le> sn_count s + int (length cs) + int (\<Sum>a\<in>sn_seen t - sn_seen s. child_count (h a)))"

lemma visits_append:
  assumes "finite A" and "visits h A cs s t" and "visits h A ds t u"
  shows "visits h A (cs @ ds) s u"
  unfolding visits_def
proof (intro impI)
  assume ob: "objects (snd ` set (cs @ ds)) \<subseteq> A" and s: "sn_seen s \<subseteq> A"
  have "objects (snd ` set cs) \<subseteq> A" "objects (snd ` set ds) \<subseteq> A" using ob by (auto simp: objects_def)
  then have 1: "sn_seen s \<subseteq> sn_seen t" "sn_seen t \<subseteq> A"
      "sn_count t \<le> sn_count s + int (length cs) + int (\<Sum>a\<in>sn_seen t - sn_seen s. child_count (h a))"
    and 2: "sn_seen t \<subseteq> sn_seen u" "sn_seen u \<subseteq> A"
      "sn_count u \<le> sn_count t + int (length ds) + int (\<Sum>a\<in>sn_seen u - sn_seen t. child_count (h a))"
    using assms(2,3) s by (simp_all add: visits_def)
  have "sn_seen u - sn_seen s = (sn_seen t - sn_seen s) \<union> (sn_seen u - sn_seen t)" using 1(1) 2(1) by blast
  moreover have "finite (sn_seen t - sn_seen s)" "finite (sn_seen u - sn_seen t)"
    using finite_subset [OF _ assms(1)] 1(2) 2(2) by blast+
  moreover have disj: "(sn_seen t - sn_seen s) \<inter> (sn_seen u - sn_seen t) = {}" by blast
  ultimately have "(\<Sum>a\<in>sn_seen u - sn_seen s. child_count (h a)) =
      (\<Sum>a\<in>sn_seen t - sn_seen s. child_count (h a)) + (\<Sum>a\<in>sn_seen u - sn_seen t. child_count (h a))"
    by (simp add: disj sum.union_disjoint)
  then show "sn_seen s \<subseteq> sn_seen u \<and> sn_seen u \<subseteq> A \<and>
      sn_count u \<le> sn_count s + int (length (cs @ ds)) + int (\<Sum>a\<in>sn_seen u - sn_seen s. child_count (h a))"
    using 1 2 by auto
qed

lemma scan_value_visits:
  assumes "finite A" and closed: "\<forall>a\<in>A. objects (node_values (h a)) \<subseteq> A"
  shows "visits h A [(f, v)] s (scan_value g h d f v s)"
proof (rule scan_value_cases [where R = "\<lambda>f v. visits h A [(f, v)]" and Q = "visits h A"])
  fix f c cs s t u
  assume "visits h A [(f, c)] s t" and "visits h A cs t u"
  then show "visits h A ((f, c) # cs) s u" using visits_append [OF assms(1), of h "[(f, c)]"] by simp
next
  fix f a s cs t
  assume skip: "\<not> skips g h f (sn_seen s) a" and cs: "scan_children g (h a) f = Some cs"
    and v: "visits h A cs (s\<lparr>sn_count := sn_count s + 1, sn_seen := insert a (sn_seen s)\<rparr>) t"
  show "visits h A [(f, Py_object a)] s t"
    unfolding visits_def
  proof (intro impI)
    assume "objects (snd ` set [(f, Py_object a)]) \<subseteq> A" and s: "sn_seen s \<subseteq> A"
    then have a: "a \<in> A" by (simp add: objects_def)
    then have "objects (snd ` set cs) \<subseteq> A" using closed by (simp add: scan_children_values [OF cs])
    then have t: "insert a (sn_seen s) \<subseteq> sn_seen t" "sn_seen t \<subseteq> A"
      "sn_count t \<le> sn_count s + 1 + int (length cs) + int (\<Sum>x\<in>sn_seen t - insert a (sn_seen s). child_count (h x))"
      using v a s by (simp_all add: visits_def)
    define D where "D = sn_seen t - insert a (sn_seen s)"
    have "finite D" using finite_subset [OF t(2) assms(1)] by (simp add: D_def)
    moreover have D: "sn_seen t - sn_seen s = insert a D" using t(1) skip by (auto simp: skips_def D_def)
    moreover have "a \<notin> D" by (simp add: D_def)
    ultimately have "(\<Sum>x\<in>sn_seen t - sn_seen s. child_count (h x)) = child_count (h a) + (\<Sum>x\<in>D. child_count (h x))"
      by simp
    then show "sn_seen s \<subseteq> sn_seen t \<and> sn_seen t \<subseteq> A \<and>
        sn_count t \<le> sn_count s + int (length [(f, Py_object a)]) + int (\<Sum>x\<in>sn_seen t - sn_seen s. child_count (h x))"
      using t scan_children_count [OF cs] by (simp flip: D_def)
  qed
next
  fix f a and s :: scan_state
  assume "\<not> skips g h f (sn_seen s) a"
  then have "insert a (sn_seen s) - sn_seen s = {a}" by (auto simp: skips_def)
  then show "visits h A [(f, Py_object a)] s (scan_add [(Unsupported_value, ''Unsupported value at credential boundary'')]
      (s\<lparr>sn_count := sn_count s + 1, sn_seen := insert a (sn_seen s)\<rparr>))"
    by (auto simp: visits_def objects_def)
qed (auto simp: visits_def objects_def)

text \<open>
  C31: the scan ends on every object graph, cyclic ones included: it calls itself at most
  once for the payload and once for every child of every object of the graph, whatever the depth and node limits.
\<close>

theorem scan_visits_bounded:
  assumes "finite A" and "\<forall>a\<in>A. objects (node_values (h a)) \<subseteq> A" and "objects {v} \<subseteq> A"
  shows "sn_count (scan_value g h 0 False v start_scan) \<le> 1 + int (\<Sum>a\<in>A. child_count (h a))"
proof -
  let ?t = "scan_value g h 0 False v start_scan"
  have "sn_seen ?t \<subseteq> A" "sn_count ?t \<le> 1 + int (\<Sum>a\<in>sn_seen ?t. child_count (h a))"
    using scan_value_visits [OF assms(1,2), of False v start_scan g 0] assms(3)
    by (simp_all add: visits_def start_scan_def objects_def)
  moreover have "(\<Sum>a\<in>sn_seen ?t. child_count (h a)) \<le> (\<Sum>a\<in>A. child_count (h a))"
    using assms(1) calculation(1) by (intro sum_mono2) auto
  ultimately show ?thesis by linarith
qed

section \<open>Streams\<close>

lemma read_stream_all:
  assumes "those (map raw_chunk cs) = Some bss" and "int (length acc) \<le> m"
  shows "read_stream m acc cs =
    (if m < int (length acc) + int (length (concat bss)) then Stream_limit else Stream_all (acc @ concat bss))"
  using assms
proof (induction cs arbitrary: acc bss)
  case (Cons c cs)
  then obtain r rs where r: "raw_chunk c = Some r" "those (map raw_chunk cs) = Some rs" "bss = r # rs"
    by (auto split: option.splits)
  show ?case
  proof (cases "m < int (length acc) + int (length r)")
    case False
    then show ?thesis using r Cons.IH [OF r(2), of "acc @ r"] by simp
  qed (simp add: r)
qed simp

text \<open>
  C32: the inspection of a stream depends on its concatenation only. However the same bytes are cut
  into chunks, the decision and the audit event are those of inspecting the concatenated bytes, or those of
  the size limit if there are more bytes than the guard inspects.
\<close>

theorem stream_judged_by_concatenation:
  assumes "those (map raw_chunk cs) = Some bss" and "0 \<le> bg_max_stream_bytes g"
  shows "inspect_stream cs now uid g = Some
    (if bg_max_stream_bytes g < int (length (concat bss))
     then (stream_limit_decision, emit_boundary Surface_stream Inspection_limit now uid g)
     else inspect_value (\<lambda>_. Node_other) (Py_bytes (concat bss)) Surface_stream now uid g)"
  using read_stream_all [OF assms(1), of "[]"] assms(2) by (simp add: inspect_stream_def)

lemma build_canary_variants_in:
  "build_canary_variants cs = Some vs \<Longrightarrow> c \<in> set cs \<Longrightarrow> raw_chunk c = Some r \<Longrightarrow> set (canary_variants r) \<subseteq> set vs"
  by (induction cs arbitrary: vs) (auto split: option.splits if_splits)

lemma bytes_with_canary_found:
  assumes "Inr c \<in> set (bg_variants g)" and "sublist c b" and "1 \<le> bg_max_depth g" and "1 \<le> bg_max_nodes g"
  shows "bn_action (fst (inspect_value h (Py_bytes b) sf now uid g)) = BLOCK"
proof -
  have "bytes_findings g b False \<noteq> []" using assms(1,2) by (auto simp: bytes_findings_Nil)
  moreover have "within_limits g 0 start_scan" using assms(3,4) by (simp add: within_limits_def start_scan_def)
  ultimately show ?thesis by (simp add: inspect_value_def Let_def scan_leaf leaf_findings_def start_scan_def)
qed

text \<open>
  A leak canary cannot cross in a stream. If the canary, its hexadecimal form or its base64 form
  occurs in the concatenated stream, wherever the chunks are cut, the stream is blocked.
\<close>

theorem canary_in_stream_blocked:
  assumes "new_boundary refs canaries md mn ms key raw sink = Some g" and "c \<in> set canaries" and "raw_chunk c = Some r"
    and "those (map raw_chunk cs) = Some bss"
    and "sublist r (concat bss) \<or> sublist (hex_text r) (concat bss) \<or> sublist (b64_encode r) (concat bss)"
  shows "\<exists>d g'. inspect_stream cs now uid g = Some (d, g') \<and> bn_action d = BLOCK"
proof -
  obtain vs where g: "build_canary_variants canaries = Some vs" "bg_variants g = vs" "1 \<le> bg_max_depth g"
      "1 \<le> bg_max_nodes g" "1 \<le> bg_max_stream_bytes g"
    using assms(1) by (auto simp: new_boundary_def split: if_splits)
  have "Inr r \<in> set vs" "Inr (hex_text r) \<in> set vs" "Inr (b64_encode r) \<in> set vs"
    using build_canary_variants_in [OF g(1) assms(2,3)] by (auto simp: canary_variants_def)
  then have "bn_action (fst (inspect_value h (Py_bytes (concat bss)) sf now uid g)) = BLOCK" for h sf
    using assms(5) bytes_with_canary_found [OF _ _ g(3,4)] g(2) by blast
  then show ?thesis
    using g(5) read_stream_all [OF assms(4), of "[]" "bg_max_stream_bytes g"]
    by (auto simp: inspect_stream_def stream_limit_decision_def intro: prod.exhaust_sel)
qed

section \<open>Shared containers\<close>

text \<open>
  The scan remembers the objects it has visited, not the flag it visited them with. So a list of secrets that is
  first met in an ordinary field is not looked at again in a credential-bearing field of the same
  payload, which alone would be rejected.
\<close>

theorem shared_container_hides_credential_field:
  assumes "2 \<le> bg_max_depth g" and "6 \<le> bg_max_nodes g" and "bg_key g pw" and "\<not> bg_key g plain"
    and "free_of_credentials g pw" and "free_of_credentials g plain" and "free_of_credentials g secret"
    and "secret \<notin> bg_reference_ids g" and "heap 0 = Node_mapping [(Py_text plain, Py_object 2), (Py_text pw, Py_object 2)]"
    and "heap 1 = Node_mapping [(Py_text pw, Py_object 2)]" and "heap 2 = Node_items [Py_text secret]"
  shows "bn_action (fst (inspect_value heap (Py_object 0) sf now uid g)) = ALLOW \<and>
    bn_action (fst (inspect_value heap (Py_object 1) sf now uid g)) = BLOCK"
  using assms
  by (auto simp: inspect_value_def Let_def start_scan_def within_limits_def scan_node scan_leaf scan_skip skips_def serialized_reference_def
      scan_children_def key_text_def leaf_findings_def text_findings_Nil scan_add_def)

section \<open>Witnesses\<close>

definition demo_credential_guard :: cred_boundary where
  "demo_credential_guard = \<lparr>bg_reference_ids = {[114]}, bg_reference_pairs = {([98], [114])},
     bg_variants = [Inr [99, 100], Inr [54, 51, 54, 52], Inr [89, 50, 81, 61], Inl [99, 100], Inl [54, 51, 54, 52], Inl [89, 50, 81, 61]],
     bg_max_depth = 32, bg_max_nodes = 100, bg_max_stream_bytes = 8, bg_key = (\<lambda>k. k = [112]), bg_raw = [], bg_sink = None\<rparr>"

text \<open>A list that contains itself, a text and a mapping with a reference identifier in a credential field.\<close>

definition demo_heap :: py_heap where
  "demo_heap a = (if a = 0 then Node_items [Py_object 0, Py_text [120], Py_object 1]
     else if a = 1 then Node_mapping [(Py_text [112], Py_text [114])] else Node_other)"

lemma demo_scan:
  "scan_value demo_credential_guard demo_heap 0 False (Py_object 0) start_scan = \<lparr>sn_findings = [], sn_seen = {0, 1}, sn_count = 6\<rparr>"
  by (simp add: start_scan_def within_limits_def scan_node scan_leaf scan_skip skips_def serialized_reference_def
      scan_children_def key_text_def leaf_findings_def text_findings_Nil free_of_credentials_def scan_add_def
      demo_credential_guard_def demo_heap_def text_findings_def insert_commute sublist_Cons_right)

lemma demo_allowed: "bn_action (fst (inspect_value demo_heap (Py_object 0) sf now uid demo_credential_guard)) = ALLOW"
  by (simp add: inspect_value_def Let_def demo_scan)

lemma demo_heap_ok: "heap_ok demo_heap"
  by (simp add: heap_ok_def demo_heap_def)

lemma demo_part: "part_of demo_heap (Py_object 0) (Py_text [120])"
  by (rule part_of.Part [OF part_of.Root]) (simp add: demo_heap_def node_values_def)

theorem allowed_payload_discloses_nothing_witness:
  "free_of_credentials demo_credential_guard [120] \<or> reference_text demo_credential_guard (Py_text [120])"
  using allowed_payload_discloses_nothing [OF demo_allowed demo_heap_ok demo_part] by simp

lemma demo_reaches_object: "reaches demo_credential_guard demo_heap f v f' w \<Longrightarrow> f = False \<Longrightarrow> v = Py_object 0 \<Longrightarrow>
    (\<exists>a. w = Py_object a) \<Longrightarrow> \<not> f'"
  by (induction rule: reaches.induct)
    (auto simp: scan_children_def demo_heap_def demo_credential_guard_def key_text_def split: if_splits)

lemma demo_reaches: "reaches demo_credential_guard demo_heap False (Py_object 0) True (Py_text [114])"
proof -
  have "reaches demo_credential_guard demo_heap False (Py_object 0) False (Py_object 1)"
    by (rule reaches.Below [OF reaches.Here]) (auto simp: scan_children_def demo_heap_def)
  then show ?thesis
    by (rule reaches.Below) (auto simp: scan_children_def demo_heap_def demo_credential_guard_def key_text_def)
qed

theorem credential_fields_hold_references_only_witness:
  "[114] \<in> bg_reference_ids demo_credential_guard \<or> reference_text demo_credential_guard (Py_text [114])"
proof -
  have "\<forall>a. \<not> (reaches demo_credential_guard demo_heap False (Py_object 0) True (Py_object a) \<and>
      reaches demo_credential_guard demo_heap False (Py_object 0) False (Py_object a))"
    using demo_reaches_object by blast
  from credential_fields_hold_references_only [OF demo_allowed demo_heap_ok this demo_reaches] show ?thesis by simp
qed

theorem scan_visits_bounded_witness:
  "sn_count (scan_value demo_credential_guard demo_heap 0 False (Py_object 0) start_scan) \<le> 1 + (3 + 2)"
  using scan_visits_bounded [of "{0, 1}" demo_heap "Py_object 0" demo_credential_guard]
  by (simp add: demo_heap_def node_values_def objects_def child_count_def subset_iff)

definition demo_chunks :: "(pytext + pybytes) list" where
  "demo_chunks = [Inl [97, 99], Inr [100]]"

lemma demo_chunks_raw: "those (map raw_chunk demo_chunks) = Some [[97, 99], [100]]"
  by (simp add: demo_chunks_def raw_chunk_def utf8_encode_def utf8_char_def is_scalar_def)

theorem stream_judged_by_concatenation_witness:
  "inspect_stream demo_chunks 0 ''u'' demo_credential_guard =
     Some (inspect_value (\<lambda>_. Node_other) (Py_bytes [97, 99, 100]) Surface_stream 0 ''u'' demo_credential_guard)"
  using stream_judged_by_concatenation [OF demo_chunks_raw, of demo_credential_guard 0 "''u''"] by (simp add: demo_credential_guard_def)

lemma demo_credential_guard_new:
  "new_boundary [\<lparr>cr_broker_id = ''b'', cr_reference_id = ''r''\<rparr>] [Inl [99, 100]] 32 100 8 (\<lambda>k. k = [112]) [] None = Some demo_credential_guard"
proof -
  have e: "raw_chunk (Inl [99, 100]) = Some [99, 100]"
    by (simp add: raw_chunk_def utf8_encode_def utf8_char_def is_scalar_def)
  have "utf8_decode [99, 100] = Some [99, 100]"
    by (rule utf8_roundtrip(1)) (simp add: utf8_encode_def utf8_char_def is_scalar_def)
  then have "canary_variants [99, 100] = bg_variants demo_credential_guard"
    by (simp add: canary_variants_def demo_credential_guard_def hex_text_def hex_digit_def b64_digit_def)
  then show ?thesis by (simp add: new_boundary_def e ident_text_def demo_credential_guard_def)
qed

theorem canary_in_stream_blocked_witness:
  "\<exists>d g'. inspect_stream demo_chunks 0 ''u'' demo_credential_guard = Some (d, g') \<and> bn_action d = BLOCK"
  by (rule canary_in_stream_blocked [OF demo_credential_guard_new, of "Inl [99, 100]" "[99, 100]", OF _ _ demo_chunks_raw])
    (simp_all add: raw_chunk_def utf8_encode_def utf8_char_def is_scalar_def sublist_Cons_right)

theorem shared_container_hides_credential_field_witness:
  "\<exists>heap. bn_action (fst (inspect_value heap (Py_object 0) Surface_memory 0 ''u'' demo_credential_guard)) = ALLOW \<and>
    bn_action (fst (inspect_value heap (Py_object 1) Surface_memory 0 ''u'' demo_credential_guard)) = BLOCK"
proof -
  define heap where "heap a = (if a = 0 then Node_mapping [(Py_text [110], Py_object 2), (Py_text [112], Py_object 2)]
      else if a = 1 then Node_mapping [(Py_text [112], Py_object 2)] else Node_items [Py_text [115]])" for a :: nat
  have f: "free_of_credentials demo_credential_guard [c]" for c
    by (simp add: free_of_credentials_def demo_credential_guard_def sublist_Cons_right)
  show ?thesis
    by (rule exI [of _ heap], rule shared_container_hides_credential_field [where pw = "[112]" and plain = "[110]" and secret = "[115]"])
      (simp_all add: heap_def f, simp_all add: demo_credential_guard_def)
qed

end
