(* ===== verification/High_Impact.thy ===== *)
theory High_Impact
  imports Core_Models Text_Codec "HOL-Library.Monad_Syntax"
begin

text \<open>
  \<open>high_impact_approval.py\<close> with \<open>models/high_impact_approval.py\<close>: the approval policy, proposed plans,
  the complete preview that is shown to an approver, the fatigue and nonce store, and \<open>HighImpactApprovalGate\<close>.
  Unicode normalisation, JSON text, SHA-256 and the policy digest are the fields of \<open>hi_lib\<close>; the
  approval service is a function that may raise. Numbers are finite. Identifier patterns and display-text
  validation of the models are left out. An outer \<open>option\<close> is \<open>None\<close> where an exception escapes.
\<close>

section \<open>Policies\<close>

datatype impact = Impact_low | Impact_medium | Impact_high | Impact_critical

datatype reversibility = Reversible | Compensatable | Irreversible

datatype impact_category =
    Cat_destructive | Cat_financial | Cat_administrative | Cat_external_visibility
  | Cat_data_disclosure | Cat_code_execution | Cat_other

datatype param_class =
    Class_standard | Class_recipient | Class_amount | Class_permission_scope | Class_command
  | Class_diff | Class_external_visibility | Class_data_disclosure

datatype param_kind = Kind_string | Kind_integer | Kind_number | Kind_boolean | Kind_array | Kind_object

datatype hi_operation = Hi_preview | Hi_authorize

datatype hi_code =
    Hi_verified | Hi_not_required | Hi_required | Hi_unknown_action | Hi_hidden_parameter
  | Hi_parameter_missing | Hi_type_mismatch | Hi_actor_context_mismatch | Hi_too_large
  | Hi_fatigue | Hi_service_unavailable | Hi_invalid | Hi_expired | Hi_not_yet_valid
  | Hi_ttl_exceeded | Hi_approver_denied | Hi_preview_mismatch | Hi_plan_mismatch
  | Hi_policy_mismatch | Hi_actor_mismatch | Hi_context_mismatch | Hi_replayed | Hi_store_full
  | Hi_store_error

datatype hi_status = Prompt_stored | Prompt_fatigue | Nonce_replayed | Store_full

record param_policy =
  pp_name :: ident
  pp_display_name :: string
  pp_kind :: param_kind
  pp_class :: param_class
  pp_required :: bool

record action_policy =
  ap_action_id :: ident
  ap_display_name :: string
  ap_categories :: "impact_category set"
  ap_impact :: impact
  ap_reversibility :: reversibility
  ap_parameters :: "param_policy list"
  ap_side_effects :: "string list"
  ap_external_visibility :: bool
  ap_disclosure :: "string list"
  ap_requires_approval :: bool

definition action_policy_ok :: "action_policy \<Rightarrow> bool" where
  "action_policy_ok a \<longleftrightarrow> distinct (map pp_name (ap_parameters a)) \<and> distinct (ap_side_effects a) \<and>
     distinct (ap_disclosure a) \<and> ap_categories a \<noteq> {}"

record hi_policy =
  hp_policy_id :: ident
  hp_version :: ident
  hp_actions :: "action_policy list"
  hp_approvers :: "ident set"
  hp_max_plan_actions :: nat
  hp_max_parameters :: nat
  hp_max_preview_bytes :: nat
  hp_max_ttl :: int
  hp_clock_skew :: int
  hp_prompt_window :: int
  hp_max_prompts :: nat
  hp_max_repeated :: nat
  hp_chain_count :: nat

definition hi_policy_ok :: "hi_policy \<Rightarrow> bool" where
  "hi_policy_ok p \<longleftrightarrow> hp_actions p \<noteq> [] \<and> list_all action_policy_ok (hp_actions p) \<and>
     1 \<le> hp_max_ttl p \<and> 0 \<le> hp_clock_skew p \<and> 1 \<le> hp_prompt_window p \<and> 1 \<le> hp_max_prompts p \<and>
     1 \<le> hp_max_repeated p \<and> 2 \<le> hp_chain_count p \<and>
     distinct (map ap_action_id (hp_actions p)) \<and> hp_chain_count p \<le> hp_max_plan_actions p \<and>
     list_all (\<lambda>a. length (ap_parameters a) \<le> hp_max_parameters p) (hp_actions p)"

section \<open>Plans and canonical JSON\<close>

record approval_actor =
  aa_actor_id :: ident
  aa_subject_id :: ident
  aa_tenant_id :: ident

record approval_context =
  ax_tenant_id :: ident
  ax_session_id :: ident
  ax_goal_digest :: string
  ax_task_id :: ident
  ax_chain_id :: ident
  ax_environment :: ident

record proposed_action =
  pc_instance_id :: ident
  pc_action_id :: ident
  pc_parameters :: "(string, pyval) dict"

record hi_plan =
  hx_plan_id :: ident
  hx_actor :: approval_actor
  hx_context :: approval_context
  hx_actions :: "proposed_action list"

definition hi_plan_ok :: "hi_plan \<Rightarrow> bool" where
  "hi_plan_ok p \<longleftrightarrow> hx_actions p \<noteq> [] \<and> distinct (map pc_instance_id (hx_actions p)) \<and>
     aa_tenant_id (hx_actor p) = ax_tenant_id (hx_context p)"

record hi_lib =
  hl_nfc :: "string \<Rightarrow> string"
  hl_dumps :: "pyval \<Rightarrow> string"
  hl_loads :: "string \<Rightarrow> pyval"
  hl_dumps_ascii :: "pyval \<Rightarrow> string"
  hl_sha256 :: "string \<Rightarrow> string"
  hl_policy :: "hi_policy \<Rightarrow> string"

fun normalize_json :: "(string \<Rightarrow> string) \<Rightarrow> pyval \<Rightarrow> pyval option" where
  "normalize_json nfc (PStr s) = Some (PStr (nfc s))"
| "normalize_json nfc (PList xs) = map_option PList (those (map (normalize_json nfc) xs))"
| "normalize_json nfc (PDict kvs) =
     (if distinct (map (\<lambda>(k, _). nfc k) kvs)
      then map_option PDict (those (map (\<lambda>(k, v). map_option (Pair (nfc k)) (normalize_json nfc v)) kvs))
      else None)"
| "normalize_json nfc v = Some v"

definition canonical_json :: "hi_lib \<Rightarrow> pyval \<Rightarrow> string option" where
  "canonical_json L v = map_option (hl_dumps L) (normalize_json (hl_nfc L) v)"

definition hi_reference :: "hi_lib \<Rightarrow> string \<Rightarrow> string" where
  "hi_reference L s = ''sha256:'' @ hl_sha256 L s"

definition context_value :: "approval_context \<Rightarrow> pyval" where
  "context_value c = PDict [(''tenant_id'', PStr (ax_tenant_id c)), (''session_id'', PStr (ax_session_id c)),
     (''goal_digest'', PStr (ax_goal_digest c)), (''task_id'', PStr (ax_task_id c)),
     (''chain_id'', PStr (ax_chain_id c)), (''environment'', PStr (ax_environment c))]"

definition action_value :: "proposed_action \<Rightarrow> pyval" where
  "action_value a = PDict [(''action_instance_id'', PStr (pc_instance_id a)), (''action_id'', PStr (pc_action_id a)),
     (''parameters'', PDict (pc_parameters a))]"

definition plan_value :: "hi_plan \<Rightarrow> pyval" where
  "plan_value p = PDict [(''plan_id'', PStr (hx_plan_id p)),
     (''actor'', PDict [(''actor_id'', PStr (aa_actor_id (hx_actor p))), (''subject_id'', PStr (aa_subject_id (hx_actor p))),
       (''tenant_id'', PStr (aa_tenant_id (hx_actor p)))]),
     (''context'', context_value (hx_context p)), (''actions'', PList (map action_value (hx_actions p)))]"

definition context_digest :: "hi_lib \<Rightarrow> approval_context \<Rightarrow> string option" where
  "context_digest L c = map_option (hl_sha256 L) (canonical_json L (context_value c))"

definition plan_canonical :: "hi_lib \<Rightarrow> hi_plan \<Rightarrow> string option" where
  "plan_canonical L p = canonical_json L (plan_value p)"

definition hi_plan_digest :: "hi_lib \<Rightarrow> hi_plan \<Rightarrow> string option" where
  "hi_plan_digest L p = map_option (hl_sha256 L) (plan_canonical L p)"

section \<open>Findings, grants and results\<close>

record hi_finding =
  hf_code :: hi_code
  hf_severity :: severity
  hf_message :: string

definition hi_find :: "hi_code \<Rightarrow> string \<Rightarrow> hi_finding" where
  "hi_find c m = \<lparr>hf_code = c, hf_severity = CRITICAL, hf_message = m\<rparr>"

record action_preview =
  av_instance_id :: ident
  av_action_id :: ident
  av_display_name :: string
  av_categories :: "impact_category list"
  av_impact :: impact
  av_reversibility :: reversibility
  av_parameter_digest :: string
  av_requires_approval :: bool

record plan_preview =
  pv_plan_id :: ident
  pv_policy_id :: ident
  pv_policy_version :: ident
  pv_policy_digest :: string
  pv_plan_digest :: string
  pv_actor_id :: ident
  pv_tenant_id :: ident
  pv_context_digest :: string
  pv_impact :: impact
  pv_escalated :: bool
  pv_approval_required :: bool
  pv_actions :: "action_preview list"
  pv_text :: string
  pv_preview_digest :: string

definition preview_ok :: "hi_lib \<Rightarrow> plan_preview \<Rightarrow> bool" where
  "preview_ok L v \<longleftrightarrow> pv_preview_digest v = hl_sha256 L (pv_text v)"

record approval_grant =
  gg_approval_id :: ident
  gg_nonce :: string
  gg_preview_digest :: string
  gg_plan_digest :: string
  gg_actor_id :: ident
  gg_tenant_id :: ident
  gg_policy_id :: ident
  gg_policy_version :: ident
  gg_policy_digest :: string
  gg_context_digest :: string
  gg_approver_id :: ident
  gg_issued_at :: datetime
  gg_expires_at :: datetime

record hi_authorization =
  ha_authorization_id :: ident
  ha_approval_id :: "ident option"
  ha_plan_digest :: string
  ha_preview_digest :: string
  ha_policy_digest :: string
  ha_context_digest :: string
  ha_expires_at :: datetime
  ha_plan_json :: string

record hi_audit =
  hv_occurred_at :: datetime
  hv_operation :: hi_operation
  hv_action :: guard_action
  hv_code :: hi_code
  hv_plan_ref :: string
  hv_actor_ref :: string
  hv_tenant_ref :: string
  hv_session_ref :: string
  hv_policy_ref :: string
  hv_preview_ref :: "string option"
  hv_approval_ref :: "string option"
  hv_action_count :: nat
  hv_impact :: "impact option"
  hv_escalated :: bool

record hi_result =
  hr_action :: guard_action
  hr_findings :: "hi_finding list"
  hr_preview :: "plan_preview option"
  hr_authorization :: "hi_authorization option"
  hr_audit :: hi_audit

definition hi_is_authorized :: "hi_result \<Rightarrow> bool" where
  "hi_is_authorized r \<longleftrightarrow> hr_action r = ALLOW \<and> hr_authorization r \<noteq> None"

definition hi_requires_approval :: "hi_result \<Rightarrow> bool" where
  "hi_requires_approval r \<longleftrightarrow> hr_action r = REQUIRE_APPROVAL \<and> hr_preview r \<noteq> None"

section \<open>The complete preview\<close>

fun impact_rank :: "impact \<Rightarrow> nat" where
  "impact_rank Impact_low = 0"
| "impact_rank Impact_medium = 1"
| "impact_rank Impact_high = 2"
| "impact_rank Impact_critical = 3"

definition impact_by_rank :: "nat \<Rightarrow> impact" where
  "impact_by_rank n = (if n = 0 then Impact_low else if n = 1 then Impact_medium
     else if n = 2 then Impact_high else Impact_critical)"

fun impact_upper :: "impact \<Rightarrow> string" where
  "impact_upper Impact_low = ''LOW''"
| "impact_upper Impact_medium = ''MEDIUM''"
| "impact_upper Impact_high = ''HIGH''"
| "impact_upper Impact_critical = ''CRITICAL''"

fun reversibility_upper :: "reversibility \<Rightarrow> string" where
  "reversibility_upper Reversible = ''REVERSIBLE''"
| "reversibility_upper Compensatable = ''COMPENSATABLE''"
| "reversibility_upper Irreversible = ''IRREVERSIBLE''"

fun category_value :: "impact_category \<Rightarrow> string" where
  "category_value Cat_destructive = ''destructive''"
| "category_value Cat_financial = ''financial''"
| "category_value Cat_administrative = ''administrative''"
| "category_value Cat_external_visibility = ''external_visibility''"
| "category_value Cat_data_disclosure = ''data_disclosure''"
| "category_value Cat_code_execution = ''code_execution''"
| "category_value Cat_other = ''other''"

text \<open>\<open>sorted(categories, key=value)\<close>: the categories in the alphabetical order of their values.\<close>

definition sorted_categories :: "impact_category set \<Rightarrow> impact_category list" where
  "sorted_categories C = filter (\<lambda>c. c \<in> C) [Cat_administrative, Cat_code_execution, Cat_data_disclosure,
     Cat_destructive, Cat_external_visibility, Cat_financial, Cat_other]"

fun highlight_title :: "param_class \<Rightarrow> string" where
  "highlight_title Class_recipient = ''RECIPIENT''"
| "highlight_title Class_amount = ''AMOUNT''"
| "highlight_title Class_permission_scope = ''PERMISSION SCOPE''"
| "highlight_title Class_command = ''COMMAND''"
| "highlight_title Class_diff = ''DIFF''"
| "highlight_title Class_external_visibility = ''EXTERNAL VISIBILITY''"
| "highlight_title Class_data_disclosure = ''DATA DISCLOSURE''"
| "highlight_title Class_standard = ''PARAMETER''"

fun decimal :: "nat \<Rightarrow> string" where
  "decimal n = (if n < 10 then [] else decimal (n div 10)) @ [char_of (48 + n mod 10)]"

declare decimal.simps [simp del]

definition yes_no :: "bool \<Rightarrow> string" where
  "yes_no b = (if b then ''YES'' else ''NO'')"

fun str_join :: "string \<Rightarrow> string list \<Rightarrow> string" where
  "str_join d [] = []"
| "str_join d [s] = s"
| "str_join d (s # t # ts) = s @ d @ str_join d (t # ts)"

definition render_value :: "hi_lib \<Rightarrow> pyval \<Rightarrow> string option" where
  "render_value L v = map_option (\<lambda>c. hl_dumps_ascii L (hl_loads L c)) (canonical_json L v)"

definition param_line :: "param_policy \<Rightarrow> string \<Rightarrow> string" where
  "param_line q rendered = ''    ['' @ highlight_title (pp_class q) @ ''] '' @ pp_display_name q @ '' ('' @ pp_name q @ ''): '' @ rendered"

definition render_param :: "hi_lib \<Rightarrow> proposed_action \<Rightarrow> param_policy \<Rightarrow> string option" where
  "render_param L a q = (case dict_get (pc_parameters a) (pp_name q) of
     None \<Rightarrow> Some (param_line q ''[NOT PROVIDED]'')
   | Some v \<Rightarrow> map_option (param_line q) (render_value L v))"

definition render_action :: "hi_lib \<Rightarrow> nat \<Rightarrow> proposed_action \<Rightarrow> action_policy \<Rightarrow> string list option" where
  "render_action L i a p = do {
     ps \<leftarrow> those (map (render_param L a) (ap_parameters p));
     Some ([''ACTION '' @ decimal i,
       ''  Instance ID: '' @ pc_instance_id a,
       ''  Action: '' @ ap_display_name p @ '' ('' @ ap_action_id p @ '')'',
       ''  Categories: '' @ str_join '', '' (map category_value (sorted_categories (ap_categories p))),
       ''  Impact: '' @ impact_upper (ap_impact p),
       ''  Reversibility: '' @ reversibility_upper (ap_reversibility p),
       ''  External visibility: '' @ yes_no (ap_external_visibility p),
       ''  Data disclosure categories: '' @ (if ap_disclosure p \<noteq> [] then str_join '', '' (ap_disclosure p) else ''NONE''),
       ''  Side effects:''] @
       (if ap_side_effects p \<noteq> [] then map (\<lambda>e. ''    - '' @ e) (ap_side_effects p) else [''    - NONE DECLARED'']) @
       [''  Complete parameters:''] @ ps @
       (if ap_parameters p = [] then [''    [PARAMETER] NONE''] else []))
   }"

definition matches_kind :: "pyval \<Rightarrow> param_kind \<Rightarrow> bool" where
  "matches_kind v k = (case k of
     Kind_string \<Rightarrow> (case v of PStr _ \<Rightarrow> True | _ \<Rightarrow> False)
   | Kind_integer \<Rightarrow> (case v of PInt _ \<Rightarrow> True | _ \<Rightarrow> False)
   | Kind_number \<Rightarrow> (case v of PInt _ \<Rightarrow> True | PFloat _ \<Rightarrow> True | _ \<Rightarrow> False)
   | Kind_boolean \<Rightarrow> (case v of PBool _ \<Rightarrow> True | _ \<Rightarrow> False)
   | Kind_array \<Rightarrow> (case v of PList _ \<Rightarrow> True | _ \<Rightarrow> False)
   | Kind_object \<Rightarrow> (case v of PDict _ \<Rightarrow> True | _ \<Rightarrow> False))"

definition parameter_finding :: "hi_policy \<Rightarrow> proposed_action \<Rightarrow> action_policy \<Rightarrow> hi_finding option" where
  "parameter_finding pol a p =
     (let declared = map (\<lambda>q. (pp_name q, q)) (ap_parameters p); given = pc_parameters a in
      if \<exists>n\<in>dict_keys given. n \<notin> set (map pp_name (ap_parameters p))
        then Some (hi_find Hi_hidden_parameter ''Action contains a field absent from the complete preview schema'')
      else if list_ex (\<lambda>q. pp_required q \<and> dict_get given (pp_name q) = None) (ap_parameters p)
        then Some (hi_find Hi_parameter_missing ''Action omits a required preview field'')
      else if hp_max_parameters pol < length given
        then Some (hi_find Hi_too_large ''Action exceeds the configured complete-parameter limit'')
      else if list_ex (\<lambda>(n, v). case dict_get declared n of None \<Rightarrow> True | Some q \<Rightarrow> \<not> matches_kind v (pp_kind q)) given
        then Some (hi_find Hi_type_mismatch ''Action parameter does not match its trusted preview type'')
      else None)"

definition overall_impact :: "hi_policy \<Rightarrow> impact list \<Rightarrow> (impact \<times> bool) option" where
  "overall_impact pol is =
     (if is = [] then None
      else
        (let base = Max (set (map impact_rank is)); escalated = hp_chain_count pol \<le> length is \<and> base < 3 in
         Some (impact_by_rank (if escalated then base + 1 else base), escalated)))"

definition action_table :: "hi_policy \<Rightarrow> (ident, action_policy) dict" where
  "action_table pol = foldl (\<lambda>m a. dict_set m (ap_action_id a) a) [] (hp_actions pol)"

text \<open>The loop over the actions: previews, lines, impacts and whether approval is required so far.\<close>

type_synonym preview_acc = "action_preview list \<times> string list \<times> impact list \<times> bool"

fun preview_actions ::
  "hi_lib \<Rightarrow> hi_policy \<Rightarrow> nat \<Rightarrow> proposed_action list \<Rightarrow> preview_acc \<Rightarrow> (hi_finding + preview_acc) option" where
  "preview_actions L pol i [] acc = Some (Inr acc)"
| "preview_actions L pol i (a # as) (vs, ls, is, req) =
     (case dict_get (action_table pol) (pc_action_id a) of
        None \<Rightarrow> Some (Inl (hi_find Hi_unknown_action ''Plan contains an action absent from trusted approval policy''))
      | Some p \<Rightarrow>
          (case parameter_finding pol a p of
             Some f \<Rightarrow> Some (Inl f)
           | None \<Rightarrow>
               (case canonical_json L (PDict (pc_parameters a)) of
                  None \<Rightarrow> Some (Inl (hi_find Hi_type_mismatch ''Action parameters cannot be canonicalized safely''))
                | Some pj \<Rightarrow> do {
                    lines \<leftarrow> render_action L i a p;
                    preview_actions L pol (i + 1) as
                      (vs @ [\<lparr>av_instance_id = pc_instance_id a, av_action_id = pc_action_id a,
                         av_display_name = ap_display_name p, av_categories = sorted_categories (ap_categories p),
                         av_impact = ap_impact p, av_reversibility = ap_reversibility p,
                         av_parameter_digest = hl_sha256 L pj, av_requires_approval = ap_requires_approval p\<rparr>],
                       ls @ lines, is @ [ap_impact p], req \<or> ap_requires_approval p)
                  })))"

definition preview_header :: "hi_lib \<Rightarrow> hi_policy \<Rightarrow> hi_plan \<Rightarrow> string \<Rightarrow> impact \<Rightarrow> bool \<Rightarrow> string list" where
  "preview_header L pol plan digest imp escalated =
     (let c = hx_context plan in
      [''=== COMPLETE HIGH-IMPACT ACTION APPROVAL ==='',
       ''Policy: '' @ hp_policy_id pol @ ''@'' @ hp_version pol,
       ''Policy digest: '' @ hl_policy L pol,
       ''Plan ID: '' @ hx_plan_id plan,
       ''Plan digest: '' @ digest,
       ''Actor: '' @ aa_actor_id (hx_actor plan),
       ''Represented subject: '' @ aa_subject_id (hx_actor plan),
       ''Tenant: '' @ aa_tenant_id (hx_actor plan),
       ''Session: '' @ ax_session_id c,
       ''Goal digest: '' @ ax_goal_digest c,
       ''Task: '' @ ax_task_id c,
       ''Chain: '' @ ax_chain_id c,
       ''Environment: '' @ ax_environment c,
       ''Overall impact: '' @ impact_upper imp,
       ''Chain impact escalated: '' @ yes_no escalated,
       ''Action count: '' @ decimal (length (hx_actions plan)),
       ''--- ACTIONS (FULL, ORDERED, NOT TRUNCATED) ---''])"

definition preview_footer :: "string list" where
  "preview_footer = [''--- END OF COMPLETE PLAN ---'',
     ''Approval authorizes this exact preview once; any change requires a new approval.'']"

definition complete_preview :: "hi_lib \<Rightarrow> hi_policy \<Rightarrow> hi_plan \<Rightarrow> preview_acc \<Rightarrow> (hi_finding + plan_preview) option" where
  "complete_preview L pol plan acc =
     (let (vs, ls, is, req) = acc in do {
        (imp, escalated) \<leftarrow> overall_impact pol is;
        digest \<leftarrow> hi_plan_digest L plan;
        ctx \<leftarrow> context_digest L (hx_context plan);
        let content = str_join [CHR 0x0A] (preview_header L pol plan digest imp escalated @ ls @ preview_footer);
        Some (if hp_max_preview_bytes pol < utf8_len (ident_text content)
          then Inl (hi_find Hi_too_large ''Complete approval preview exceeds the byte limit and cannot be truncated'')
          else Inr \<lparr>pv_plan_id = hx_plan_id plan, pv_policy_id = hp_policy_id pol, pv_policy_version = hp_version pol,
            pv_policy_digest = hl_policy L pol, pv_plan_digest = digest, pv_actor_id = aa_actor_id (hx_actor plan),
            pv_tenant_id = aa_tenant_id (hx_actor plan), pv_context_digest = ctx, pv_impact = imp,
            pv_escalated = escalated, pv_approval_required = req, pv_actions = vs, pv_text = content,
            pv_preview_digest = hl_sha256 L content\<rparr>)
      })"

definition build_preview :: "hi_lib \<Rightarrow> hi_policy \<Rightarrow> hi_plan \<Rightarrow> (hi_finding + plan_preview) option" where
  "build_preview L pol plan =
     (if aa_tenant_id (hx_actor plan) \<noteq> ax_tenant_id (hx_context plan)
        then Some (Inl (hi_find Hi_actor_context_mismatch ''Approval actor and execution context belong to different tenants''))
      else if hp_max_plan_actions pol < length (hx_actions plan)
        then Some (Inl (hi_find Hi_too_large ''Complete plan exceeds the configured action limit and cannot be truncated''))
      else do {
        r \<leftarrow> preview_actions L pol 1 (hx_actions plan) ([], [], [], False);
        (case r of Inl f \<Rightarrow> Some (Inl f) | Inr acc \<Rightarrow> complete_preview L pol plan acc)
      })"

end
