(* ===== verification/High_Impact_Gate.thy ===== *)
theory High_Impact_Gate
  imports High_Impact
begin

text \<open>
  The fatigue and nonce store and \<open>HighImpactApprovalGate\<close> of \<open>high_impact_approval.py\<close>. An
  outer \<open>option\<close> is \<open>None\<close> where an exception escapes an operation; the only such exceptions
  are those of the preview's JSON text.
\<close>

section \<open>Fatigue and nonce store\<close>

record hi_store =
  hs_max_keys :: nat
  hs_max_nonces :: nat
  hs_prompts :: "(string, (datetime \<times> string) list) dict"
  hs_approvals :: "(string, datetime) dict"

definition new_hi_store :: "int \<Rightarrow> int \<Rightarrow> hi_store option" where
  "new_hi_store keys nonces = (if keys < 1 \<or> nonces < 1 then None
     else Some \<lparr>hs_max_keys = nat keys, hs_max_nonces = nat nonces, hs_prompts = [], hs_approvals = []\<rparr>)"

definition purge_prompts :: "datetime \<Rightarrow> (string, (datetime \<times> string) list) dict \<Rightarrow> (string, (datetime \<times> string) list) dict" where
  "purge_prompts cutoff ps =
     filter (\<lambda>(_, es). es \<noteq> []) (map (\<lambda>(k, es). (k, dropWhile (\<lambda>e. fst e \<le> cutoff) es)) ps)"

definition record_prompt :: "string \<Rightarrow> string \<Rightarrow> datetime \<Rightarrow> int \<Rightarrow> nat \<Rightarrow> nat \<Rightarrow> hi_store \<Rightarrow> hi_status \<times> hi_store" where
  "record_prompt key digest now window max_prompts max_repeated s =
     (let ps = purge_prompts (now - td_seconds window) (hs_prompts s) in
      if dict_get ps key = None \<and> hs_max_keys s \<le> length ps then (Store_full, s\<lparr>hs_prompts := ps\<rparr>)
      else
        (let es = dict_get_default ps key []; repeated = length (filter (\<lambda>e. snd e = digest) es) in
         if max_prompts \<le> length es \<or> max_repeated \<le> repeated
           then (Prompt_fatigue, s\<lparr>hs_prompts := dict_set ps key es\<rparr>)
         else (Prompt_stored, s\<lparr>hs_prompts := dict_set ps key (es @ [(now, digest)])\<rparr>)))"

text \<open>\<open>None\<close> is the \<open>ValueError\<close> for an expiry that is not in the future.\<close>

definition claim_approval :: "string \<Rightarrow> datetime \<Rightarrow> datetime \<Rightarrow> hi_store \<Rightarrow> hi_status option \<times> hi_store" where
  "claim_approval key expires now s =
     (if expires \<le> now then (None, s)
      else
        (let s = s\<lparr>hs_approvals := filter (\<lambda>(_, x). now < x) (hs_approvals s)\<rparr> in
         if dict_get (hs_approvals s) key \<noteq> None then (Some Nonce_replayed, s)
         else if hs_max_nonces s \<le> length (hs_approvals s) then (Some Store_full, s)
         else (Some Prompt_stored, s\<lparr>hs_approvals := dict_set (hs_approvals s) key expires\<rparr>)))"

definition clear_hi_store :: "hi_store \<Rightarrow> hi_store" where
  "clear_hi_store s = s\<lparr>hs_prompts := [], hs_approvals := []\<rparr>"

section \<open>The gate\<close>

record hi_gate =
  hg_lib :: hi_lib
  hg_policy :: hi_policy
  hg_verifier :: "(approval_grant \<Rightarrow> bool option) option"

record hi_runtime =
  hm_store :: hi_store
  hm_sink :: "(nat \<times> hi_audit list) option"

definition static_approval_verify :: "ident set \<Rightarrow> approval_grant \<Rightarrow> bool option" where
  "static_approval_verify ids g = Some (gg_approval_id g \<in> ids)"

definition hi_result_of ::
  "hi_gate \<Rightarrow> hi_plan \<Rightarrow> plan_preview option \<Rightarrow> hi_operation \<Rightarrow> guard_action \<Rightarrow> hi_code \<Rightarrow> datetime \<Rightarrow>
   hi_finding option \<Rightarrow> hi_authorization option \<Rightarrow> approval_grant option \<Rightarrow> hi_runtime \<Rightarrow> hi_result \<times> hi_runtime" where
  "hi_result_of G plan v operation action code now finding auth grant r =
     (let ref = hi_reference (hg_lib G);
          event = \<lparr>hv_occurred_at = now, hv_operation = operation, hv_action = action, hv_code = code,
            hv_plan_ref = ref (hx_plan_id plan), hv_actor_ref = ref (aa_actor_id (hx_actor plan)),
            hv_tenant_ref = ref (aa_tenant_id (hx_actor plan)), hv_session_ref = ref (ax_session_id (hx_context plan)),
            hv_policy_ref = ''sha256:'' @ hl_policy (hg_lib G) (hg_policy G),
            hv_preview_ref = map_option (\<lambda>v. ''sha256:'' @ pv_preview_digest v) v,
            hv_approval_ref = map_option (\<lambda>g. ref (gg_approval_id g)) grant,
            hv_action_count = length (hx_actions plan), hv_impact = map_option pv_impact v,
            hv_escalated = (case v of None \<Rightarrow> False | Some v \<Rightarrow> pv_escalated v)\<rparr> in
      (\<lparr>hr_action = action, hr_findings = (case finding of None \<Rightarrow> [] | Some f \<Rightarrow> [f]), hr_preview = v,
        hr_authorization = auth, hr_audit = event\<rparr>,
       r\<lparr>hm_sink := map_option (\<lambda>(n, evs). (n, deque_append n evs event)) (hm_sink r)\<rparr>))"

definition hi_blocked ::
  "hi_gate \<Rightarrow> hi_plan \<Rightarrow> hi_operation \<Rightarrow> datetime \<Rightarrow> hi_finding \<Rightarrow> plan_preview option \<Rightarrow> approval_grant option \<Rightarrow>
   hi_runtime \<Rightarrow> hi_result \<times> hi_runtime" where
  "hi_blocked G plan operation now f v g r = hi_result_of G plan v operation BLOCK (hf_code f) now (Some f) None g r"

definition authorization_of ::
  "hi_gate \<Rightarrow> string \<Rightarrow> plan_preview \<Rightarrow> approval_grant option \<Rightarrow> datetime \<Rightarrow> ident \<Rightarrow> hi_authorization" where
  "authorization_of G json v g expires uid =
     \<lparr>ha_authorization_id = uid, ha_approval_id = map_option gg_approval_id g, ha_plan_digest = hl_sha256 (hg_lib G) json,
      ha_preview_digest = pv_preview_digest v, ha_policy_digest = hl_policy (hg_lib G) (hg_policy G),
      ha_context_digest = pv_context_digest v, ha_expires_at = expires, ha_plan_json = json\<rparr>"

definition fatigue_value :: "hi_plan \<Rightarrow> pyval" where
  "fatigue_value plan = PDict [(''actor_id'', PStr (aa_actor_id (hx_actor plan))),
     (''session_id'', PStr (ax_session_id (hx_context plan))), (''tenant_id'', PStr (aa_tenant_id (hx_actor plan)))]"

definition fatigue_key :: "hi_lib \<Rightarrow> hi_plan \<Rightarrow> string option" where
  "fatigue_key L plan = map_option (hi_reference L) (canonical_json L (fatigue_value plan))"

definition prepare :: "hi_gate \<Rightarrow> hi_plan \<Rightarrow> datetime \<Rightarrow> ident \<Rightarrow> hi_runtime \<Rightarrow> (hi_result \<times> hi_runtime) option" where
  "prepare G plan now uid r = do {
     b \<leftarrow> build_preview (hg_lib G) (hg_policy G) plan;
     (case b of
        Inl f \<Rightarrow> Some (hi_blocked G plan Hi_preview now f None None r)
      | Inr v \<Rightarrow>
          let pol = hg_policy G in
          if \<not> pv_approval_required v then do {
            json \<leftarrow> plan_canonical (hg_lib G) plan;
            Some (hi_result_of G plan (Some v) Hi_preview ALLOW Hi_not_required now None
              (Some (authorization_of G json v None (now + td_seconds (hp_max_ttl pol)) uid)) None r)
          }
          else do {
            key \<leftarrow> fatigue_key (hg_lib G) plan;
            (let (st, s') = record_prompt key (pv_preview_digest v) now (hp_prompt_window pol) (hp_max_prompts pol)
                   (hp_max_repeated pol) (hm_store r);
                 r' = r\<lparr>hm_store := s'\<rparr> in
             Some (if st = Prompt_fatigue then hi_blocked G plan Hi_preview now
                 (hi_find Hi_fatigue ''Approval prompt rate or repetition limit was exceeded'') (Some v) None r'
               else if st = Store_full then hi_blocked G plan Hi_preview now
                 (hi_find Hi_store_full ''Approval prompt state is at capacity'') (Some v) None r'
               else hi_result_of G plan (Some v) Hi_preview REQUIRE_APPROVAL Hi_required now
                 (Some \<lparr>hf_code = Hi_required, hf_severity = HIGH,
                    hf_message = ''Complete high-impact plan requires exact independent approval''\<rparr>) None None r'))
          })
   }"

definition binding_failure ::
  "hi_gate \<Rightarrow> hi_plan \<Rightarrow> string \<Rightarrow> plan_preview \<Rightarrow> approval_grant \<Rightarrow> datetime \<Rightarrow> hi_finding option" where
  "binding_failure G plan digest v g now =
     (let pol = hg_policy G in
      if gg_preview_digest g \<noteq> pv_preview_digest v
        then Some (hi_find Hi_preview_mismatch ''Approval does not bind the exact complete preview'')
      else if gg_plan_digest g \<noteq> digest
        then Some (hi_find Hi_plan_mismatch ''Approval does not bind the exact proposed plan'')
      else if gg_policy_id g \<noteq> hp_policy_id pol \<or> gg_policy_version g \<noteq> hp_version pol \<or>
          gg_policy_digest g \<noteq> hl_policy (hg_lib G) pol
        then Some (hi_find Hi_policy_mismatch ''Approval was issued under a different policy or policy version'')
      else if gg_actor_id g \<noteq> aa_actor_id (hx_actor plan) \<or> gg_tenant_id g \<noteq> aa_tenant_id (hx_actor plan)
        then Some (hi_find Hi_actor_mismatch ''Approval actor or tenant binding does not match the plan'')
      else if gg_context_digest g \<noteq> pv_context_digest v
        then Some (hi_find Hi_context_mismatch ''Approval is bound to a different execution context'')
      else if gg_approver_id g \<notin> hp_approvers pol
        then Some (hi_find Hi_approver_denied ''Approval issuer is not allowed by policy'')
      else if now + td_seconds (hp_clock_skew pol) < gg_issued_at g
        then Some (hi_find Hi_not_yet_valid ''Approval issuance time is in the future'')
      else if gg_expires_at g \<le> now
        then Some (hi_find Hi_expired ''Approval acceptance window has expired'')
      else if td_seconds (hp_max_ttl pol) < gg_expires_at g - gg_issued_at g
        then Some (hi_find Hi_ttl_exceeded ''Approval lifetime exceeds the configured maximum'')
      else None)"

definition nonce_value :: "approval_grant \<Rightarrow> pyval" where
  "nonce_value g = PDict [(''nonce'', PStr (gg_nonce g)), (''tenant_id'', PStr (gg_tenant_id g))]"

definition nonce_key :: "hi_lib \<Rightarrow> approval_grant \<Rightarrow> string option" where
  "nonce_key L g = map_option (hi_reference L) (canonical_json L (nonce_value g))"

definition claim_finding :: "hi_status option \<Rightarrow> hi_finding option" where
  "claim_finding st = (case st of
     None \<Rightarrow> Some (hi_find Hi_store_error ''Approval replay state is unavailable'')
   | Some Nonce_replayed \<Rightarrow> Some (hi_find Hi_replayed ''Approval nonce has already been consumed'')
   | Some Store_full \<Rightarrow> Some (hi_find Hi_store_full ''Approval replay state is at capacity'')
   | Some _ \<Rightarrow> None)"

text \<open>The part of \<open>authorize\<close> that examines a grant: bindings, authenticity, then the nonce.\<close>

definition use_grant ::
  "hi_gate \<Rightarrow> hi_plan \<Rightarrow> plan_preview \<Rightarrow> string \<Rightarrow> approval_grant \<Rightarrow> datetime \<Rightarrow> ident \<Rightarrow> hi_runtime \<Rightarrow>
   (hi_result \<times> hi_runtime) option" where
  "use_grant G plan v json g now uid r =
     (let blocked = (\<lambda>f r. hi_blocked G plan Hi_authorize now f (Some v) (Some g) r) in
      (case binding_failure G plan (hl_sha256 (hg_lib G) json) v g now of
         Some f \<Rightarrow> Some (blocked f r)
       | None \<Rightarrow>
           (case hg_verifier G of
              None \<Rightarrow> Some (blocked (hi_find Hi_service_unavailable ''No authenticated approval verifier is configured'') r)
            | Some verify \<Rightarrow>
                (case verify g of
                   None \<Rightarrow> Some (blocked (hi_find Hi_service_unavailable ''Authenticated approval service is unavailable'') r)
                 | Some authentic \<Rightarrow>
                     if \<not> authentic then Some (blocked (hi_find Hi_invalid ''Approval grant is not authentic'') r)
                     else do {
                       key \<leftarrow> nonce_key (hg_lib G) g;
                       (let (st, s') = claim_approval key (gg_expires_at g + td_seconds (hp_clock_skew (hg_policy G))) now
                              (hm_store r);
                            r' = r\<lparr>hm_store := s'\<rparr> in
                        Some (case claim_finding st of
                            Some f \<Rightarrow> blocked f r'
                          | None \<Rightarrow> hi_result_of G plan (Some v) Hi_authorize ALLOW Hi_verified now None
                              (Some (authorization_of G json v (Some g) (gg_expires_at g) uid)) (Some g) r'))
                     }))))"

definition hi_authorize ::
  "hi_gate \<Rightarrow> hi_plan \<Rightarrow> approval_grant option \<Rightarrow> datetime \<Rightarrow> ident \<Rightarrow> hi_runtime \<Rightarrow> (hi_result \<times> hi_runtime) option" where
  "hi_authorize G plan grant now uid r = do {
     b \<leftarrow> build_preview (hg_lib G) (hg_policy G) plan;
     (case b of
        Inl f \<Rightarrow> Some (hi_blocked G plan Hi_authorize now f None None r)
      | Inr v \<Rightarrow> do {
          json \<leftarrow> plan_canonical (hg_lib G) plan;
          (if \<not> pv_approval_required v then
             Some (hi_result_of G plan (Some v) Hi_authorize ALLOW Hi_not_required now None
               (Some (authorization_of G json v None (now + td_seconds (hp_max_ttl (hg_policy G))) uid)) None r)
           else (case grant of
               None \<Rightarrow> Some (hi_result_of G plan (Some v) Hi_authorize REQUIRE_APPROVAL Hi_required now
                 (Some \<lparr>hf_code = Hi_required, hf_severity = HIGH,
                    hf_message = ''Exact approval is required before this plan can execute''\<rparr>) None None r)
             | Some g \<Rightarrow> use_grant G plan v json g now uid r))
        })
   }"

text \<open>\<open>require\<close>: \<open>Inl\<close> carries the result of the raised error.\<close>

definition hi_require ::
  "hi_gate \<Rightarrow> hi_plan \<Rightarrow> approval_grant option \<Rightarrow> datetime \<Rightarrow> ident \<Rightarrow> hi_runtime \<Rightarrow>
   ((hi_result + hi_authorization) \<times> hi_runtime) option" where
  "hi_require G plan grant now uid r = do {
     (res, r') \<leftarrow> hi_authorize G plan grant now uid r;
     Some (case hr_authorization res of
         Some a \<Rightarrow> (if hi_is_authorized res then Inr a else Inl res, r')
       | None \<Rightarrow> (Inl res, r'))
   }"

end
