(* ===== verification/High_Impact_Properties.thy ===== *)
theory High_Impact_Properties
  imports High_Impact_Gate
begin

text \<open>
  Properties of the high-impact approval gate: the preview an approver sees is complete, a plan that needs
  approval is released only under an authentic approval of exactly that preview, an approval is used at
  most once, prompts are limited per session, and no exception escapes.
\<close>

section \<open>The loop over the actions\<close>

definition newline :: string where
  "newline = [CHR 0x0A]"

lemma preview_actions_Inr:
  assumes "preview_actions L pol i as (vs, ls, is, req) = Some (Inr (vs', ls', is', req'))"
  obtains ps lss where "length ps = length as" "length lss = length as"
    "\<forall>j<length as. dict_get (action_table pol) (pc_action_id (as ! j)) = Some (ps ! j) \<and>
       parameter_finding pol (as ! j) (ps ! j) = None \<and> render_action L (i + j) (as ! j) (ps ! j) = Some (lss ! j)"
    "ls' = ls @ concat lss" "is' = is @ map ap_impact ps" "req' = (req \<or> list_ex ap_requires_approval ps)"
  using assms
proof (induction as arbitrary: i vs ls "is" req thesis)
  case Nil
  then show ?case by simp
next
  case (Cons a as)
  from Cons.prems(2) obtain p pj lines vs1 where p: "dict_get (action_table pol) (pc_action_id a) = Some p"
      "parameter_finding pol a p = None" "render_action L i a p = Some lines"
    and rest: "preview_actions L pol (i + 1) as (vs1, ls @ lines, is @ [ap_impact p], req \<or> ap_requires_approval p) =
      Some (Inr (vs', ls', is', req'))"
    by (auto split: option.splits simp: bind_eq_Some_conv)
  show ?case
  proof (rule Cons.IH [OF _ rest])
    fix ps lss
    assume h: "length ps = length as" "length lss = length as"
      "\<forall>j<length as. dict_get (action_table pol) (pc_action_id (as ! j)) = Some (ps ! j) \<and>
         parameter_finding pol (as ! j) (ps ! j) = None \<and> render_action L (i + 1 + j) (as ! j) (ps ! j) = Some (lss ! j)"
      "ls' = (ls @ lines) @ concat lss" "is' = (is @ [ap_impact p]) @ map ap_impact ps"
      "req' = ((req \<or> ap_requires_approval p) \<or> list_ex ap_requires_approval ps)"
    show ?case
      by (rule Cons.prems(1) [of "p # ps" "lines # lss"]) (use h p in \<open>auto simp: nth_Cons split: nat.splits\<close>)
  qed
qed

lemma build_preview_Inr:
  assumes "build_preview L pol plan = Some (Inr v)"
  obtains ps lss imp esc digest ctx where "length ps = length (hx_actions plan)" "length lss = length (hx_actions plan)"
    "\<forall>j<length (hx_actions plan). dict_get (action_table pol) (pc_action_id (hx_actions plan ! j)) = Some (ps ! j) \<and>
       parameter_finding pol (hx_actions plan ! j) (ps ! j) = None \<and>
       render_action L (Suc j) (hx_actions plan ! j) (ps ! j) = Some (lss ! j)"
    "overall_impact pol (map ap_impact ps) = Some (imp, esc)" "hi_plan_digest L plan = Some digest"
    "context_digest L (hx_context plan) = Some ctx" "pv_context_digest v = ctx" "pv_plan_digest v = digest"
    "pv_text v = str_join newline (preview_header L pol plan digest imp esc @ concat lss @ preview_footer)"
    "pv_preview_digest v = hl_sha256 L (pv_text v)" "pv_approval_required v = list_ex ap_requires_approval ps"
    "pv_impact v = imp" "pv_escalated v = esc" "utf8_len (ident_text (pv_text v)) \<le> hp_max_preview_bytes pol"
    "aa_tenant_id (hx_actor plan) = ax_tenant_id (hx_context plan)" "length (hx_actions plan) \<le> hp_max_plan_actions pol"
proof -
  have g: "aa_tenant_id (hx_actor plan) = ax_tenant_id (hx_context plan)" "length (hx_actions plan) \<le> hp_max_plan_actions pol"
    using assms by (auto simp: build_preview_def split: if_splits)
  then obtain y where y: "preview_actions L pol 1 (hx_actions plan) ([], [], [], False) = Some y"
    using assms by (auto simp: build_preview_def bind_eq_Some_conv)
  obtain acc where acc: "y = Inr acc" using assms g y by (cases y) (auto simp: build_preview_def)
  obtain vs ls ims req where a: "acc = (vs, ls, ims, req)" by (rule prod_cases4)
  have pa: "preview_actions L pol 1 (hx_actions plan) ([], [], [], False) = Some (Inr (vs, ls, ims, req))"
    and cp: "complete_preview L pol plan (vs, ls, ims, req) = Some (Inr v)"
    using assms g y by (auto simp: build_preview_def acc a)
  from cp obtain imp esc digest ctx where
      oi: "overall_impact pol ims = Some (imp, esc)" and d: "hi_plan_digest L plan = Some digest"
    and c: "context_digest L (hx_context plan) = Some ctx"
    and v: "v = \<lparr>pv_plan_id = hx_plan_id plan, pv_policy_id = hp_policy_id pol, pv_policy_version = hp_version pol,
       pv_policy_digest = hl_policy L pol, pv_plan_digest = digest, pv_actor_id = aa_actor_id (hx_actor plan),
       pv_tenant_id = aa_tenant_id (hx_actor plan), pv_context_digest = ctx, pv_impact = imp, pv_escalated = esc,
       pv_approval_required = req, pv_actions = vs,
       pv_text = str_join newline (preview_header L pol plan digest imp esc @ ls @ preview_footer),
       pv_preview_digest = hl_sha256 L (str_join newline (preview_header L pol plan digest imp esc @ ls @ preview_footer))\<rparr>"
    and sz: "utf8_len (ident_text (str_join newline (preview_header L pol plan digest imp esc @ ls @ preview_footer)))
       \<le> hp_max_preview_bytes pol"
    by (auto simp: complete_preview_def Let_def bind_eq_Some_conv newline_def split: if_splits)
  from preview_actions_Inr [OF pa] obtain ps lss where
    "length ps = length (hx_actions plan)" "length lss = length (hx_actions plan)"
    "\<forall>j<length (hx_actions plan). dict_get (action_table pol) (pc_action_id (hx_actions plan ! j)) = Some (ps ! j) \<and>
       parameter_finding pol (hx_actions plan ! j) (ps ! j) = None \<and>
       render_action L (1 + j) (hx_actions plan ! j) (ps ! j) = Some (lss ! j)"
    "ls = concat lss" "ims = map ap_impact ps" "req = list_ex ap_requires_approval ps"
    by (metis append_Nil)
  then show thesis using that [of ps lss imp esc digest ctx] oi d c v sz g by simp
qed

section \<open>The preview is complete\<close>

lemma str_join_append:
  "str_join d (xs @ ys) = (if xs = [] then str_join d ys else if ys = [] then str_join d xs
     else str_join d xs @ d @ str_join d ys)"
proof (induction d xs rule: str_join.induct)
  case (2 d s)
  then show ?case by (cases ys) simp_all
qed auto

lemma parameter_finding_None:
  assumes "parameter_finding pol a p = None" and "dict_get (pc_parameters a) n = Some v"
  obtains q where "q \<in> set (ap_parameters p)" "pp_name q = n" "matches_kind v (pp_kind q)"
proof -
  let ?D = "map (\<lambda>q. (pp_name q, q)) (ap_parameters p)"
  have "(n, v) \<in> set (pc_parameters a)" using assms(2) by (rule map_of_SomeD)
  then have "case dict_get ?D n of None \<Rightarrow> False | Some q \<Rightarrow> matches_kind v (pp_kind q)"
    using assms(1) by (auto simp: parameter_finding_def Let_def list_ex_iff split: if_splits option.splits)
  then obtain q where "dict_get ?D n = Some q" "matches_kind v (pp_kind q)" by (auto split: option.splits)
  then show thesis using that [of q] by (auto dest!: map_of_SomeD)
qed

text \<open>
  What the JSON library promises: what was read from a canonical text is read again, unchanged, from the ASCII text it is written to.
\<close>

definition json_reads_back :: "hi_lib \<Rightarrow> bool" where
  "json_reads_back L \<longleftrightarrow> (\<forall>x. hl_loads L (hl_dumps_ascii L (hl_loads L (hl_dumps L x))) = hl_loads L (hl_dumps L x))"

text \<open>
  What an approver has to see of a parameter: its absence, or the whole ASCII text of the normalised value, from
  which is read back what its canonical text stands for.
\<close>

definition value_shown :: "hi_lib \<Rightarrow> proposed_action \<Rightarrow> param_policy \<Rightarrow> string \<Rightarrow> bool" where
  "value_shown L a q t \<longleftrightarrow> (case dict_get (pc_parameters a) (pp_name q) of
     None \<Rightarrow> t = ''[NOT PROVIDED]''
   | Some val \<Rightarrow> \<exists>x. normalize_json (hl_nfc L) val = Some x \<and> t = hl_dumps_ascii L (hl_loads L (hl_dumps L x)) \<and>
       hl_loads L t = hl_loads L (hl_dumps L x))"

text \<open>
  And of an action: its number, instance and name, what the policy says about its consequences, and after that one line per declared
  parameter, in the order of the policy, that ends with the value.
\<close>

definition action_shown :: "hi_lib \<Rightarrow> nat \<Rightarrow> proposed_action \<Rightarrow> action_policy \<Rightarrow> string list \<Rightarrow> bool" where
  "action_shown L i a p lines \<longleftrightarrow> (\<exists>details ts.
     lines = [''ACTION '' @ decimal i, ''  Instance ID: '' @ pc_instance_id a,
         ''  Action: '' @ ap_display_name p @ '' ('' @ ap_action_id p @ '')''] @ details @ [''  Complete parameters:''] @
       map2 (\<lambda>q t. ''    ['' @ highlight_title (pp_class q) @ ''] '' @ pp_display_name q @ '' ('' @ pp_name q @ ''): '' @ t)
         (ap_parameters p) ts @ (if ap_parameters p = [] then [''    [PARAMETER] NONE''] else []) \<and>
     list_all2 (value_shown L a) (ap_parameters p) ts \<and>
     {''  Impact: '' @ impact_upper (ap_impact p), ''  Reversibility: '' @ reversibility_upper (ap_reversibility p),
       ''  External visibility: '' @ (if ap_external_visibility p then ''YES'' else ''NO'')} \<union>
       (\<lambda>s. ''    - '' @ s) ` set (ap_side_effects p) \<subseteq> set details)"

lemma render_params_shown:
  assumes "json_reads_back L" and "those (map (render_param L a) qs) = Some ls"
  shows "\<exists>ts. list_all2 (value_shown L a) qs ts \<and>
    ls = map2 (\<lambda>q t. ''    ['' @ highlight_title (pp_class q) @ ''] '' @ pp_display_name q @ '' ('' @ pp_name q @ ''): '' @ t) qs ts"
  using assms(2)
proof (induction qs arbitrary: ls)
  case (Cons q qs)
  then obtain l ls' where l: "render_param L a q = Some l" "those (map (render_param L a) qs) = Some ls'" "ls = l # ls'"
    by (auto split: option.splits)
  obtain t where t: "l = param_line q t" "value_shown L a q t"
  proof (cases "dict_get (pc_parameters a) (pp_name q)")
    case None
    then show thesis using l(1) that by (simp add: render_param_def value_shown_def)
  next
    case (Some val)
    then show thesis using l(1) that assms(1)
      by (auto simp: render_param_def value_shown_def render_value_def canonical_json_def json_reads_back_def)
  qed
  obtain ts where "list_all2 (value_shown L a) qs ts"
    "ls' = map2 (\<lambda>q t. ''    ['' @ highlight_title (pp_class q) @ ''] '' @ pp_display_name q @ '' ('' @ pp_name q @ ''): '' @ t) qs ts"
    using Cons.IH [OF l(2)] by blast
  then show ?case using t l(3) by (intro exI [of _ "t # ts"]) (simp add: param_line_def)
qed simp

lemma details_shown: "{b, c, d} \<union> f ` set es \<subseteq> set ([a, b, c, d, g, h] @ (if es \<noteq> [] then map f es else [n]))"
  by auto

lemma render_action_shown:
  assumes "json_reads_back L" and "render_action L i a p = Some lines"
  shows "action_shown L i a p lines"
proof -
  from assms(2) obtain ls where ls: "those (map (render_param L a) (ap_parameters p)) = Some ls"
    by (auto simp: render_action_def bind_eq_Some_conv)
  obtain ts where ts: "list_all2 (value_shown L a) (ap_parameters p) ts"
    "ls = map2 (\<lambda>q t. ''    ['' @ highlight_title (pp_class q) @ ''] '' @ pp_display_name q @ '' ('' @ pp_name q @ ''): '' @ t)
      (ap_parameters p) ts"
    using render_params_shown [OF assms(1) ls] by blast
  let ?details = "[''  Categories: '' @ str_join '', '' (map category_value (sorted_categories (ap_categories p))),
       ''  Impact: '' @ impact_upper (ap_impact p),
       ''  Reversibility: '' @ reversibility_upper (ap_reversibility p),
       ''  External visibility: '' @ (if ap_external_visibility p then ''YES'' else ''NO''),
       ''  Data disclosure categories: '' @ (if ap_disclosure p \<noteq> [] then str_join '', '' (ap_disclosure p) else ''NONE''),
       ''  Side effects:''] @
       (if ap_side_effects p \<noteq> [] then map (\<lambda>e. ''    - '' @ e) (ap_side_effects p) else [''    - NONE DECLARED''])"
  have lines: "lines = [''ACTION '' @ decimal i, ''  Instance ID: '' @ pc_instance_id a,
      ''  Action: '' @ ap_display_name p @ '' ('' @ ap_action_id p @ '')''] @ ?details @ [''  Complete parameters:''] @ ls @
      (if ap_parameters p = [] then [''    [PARAMETER] NONE''] else [])"
    using assms(2) ls by (simp add: render_action_def yes_no_def)
  have "{''  Impact: '' @ impact_upper (ap_impact p), ''  Reversibility: '' @ reversibility_upper (ap_reversibility p),
       ''  External visibility: '' @ (if ap_external_visibility p then ''YES'' else ''NO'')} \<union>
       (\<lambda>s. ''    - '' @ s) ` set (ap_side_effects p) \<subseteq> set ?details"
    by (rule details_shown)
  then show ?thesis
    unfolding action_shown_def using lines ts by (intro exI [of _ ?details] exI [of _ ts] conjI) (simp_all only:)
qed

text \<open>
  C28: the preview is complete. The text that the approver is shown consists of a header with the digest, actor and tenant of
  the plan, then the lines of every action of the plan, in the plan's order and numbered from 1, and a fixed footer, with
  nothing between or after them. The lines of an action show its instance, its name, what the trusted policy declares about its impact,
  reversibility, visibility and side effects, and one line for each parameter that the policy declares, in
  that order: the line ends with a note that the parameter was not provided, or with the whole ASCII text of its
  value, from which the library reads back exactly what it reads from the value's canonical text. No action carries a parameter
  that the policy does not declare, or one of another kind than declared, so none is left out.
\<close>

theorem preview_shows_every_parameter:
  assumes "build_preview L pol plan = Some (Inr v)" and "json_reads_back L"
  shows "\<exists>ps header blocks digest. hi_plan_digest L plan = Some digest \<and>
    pv_text v = str_join newline (header @ concat blocks @ preview_footer) \<and>
    {''Plan digest: '' @ digest, ''Actor: '' @ aa_actor_id (hx_actor plan), ''Tenant: '' @ aa_tenant_id (hx_actor plan)} \<subseteq> set header \<and>
    length blocks = length (hx_actions plan) \<and>
    (\<forall>j < length (hx_actions plan). let a = hx_actions plan ! j in
       dict_get (action_table pol) (pc_action_id a) = Some (ps ! j) \<and> action_shown L (Suc j) a (ps ! j) (blocks ! j) \<and>
       (\<forall>n val. dict_get (pc_parameters a) n = Some val \<longrightarrow>
          (\<exists>q \<in> set (ap_parameters (ps ! j)). pp_name q = n \<and> matches_kind val (pp_kind q))))"
proof -
  obtain ps lss imp esc digest where n: "length lss = length (hx_actions plan)"
    and act: "\<forall>j<length (hx_actions plan). dict_get (action_table pol) (pc_action_id (hx_actions plan ! j)) = Some (ps ! j) \<and>
       parameter_finding pol (hx_actions plan ! j) (ps ! j) = None \<and>
       render_action L (Suc j) (hx_actions plan ! j) (ps ! j) = Some (lss ! j)"
    and d: "hi_plan_digest L plan = Some digest"
    and content: "pv_text v = str_join newline (preview_header L pol plan digest imp esc @ concat lss @ preview_footer)"
    by (rule build_preview_Inr [OF assms(1)])
  have "\<exists>q \<in> set (ap_parameters (ps ! j)). pp_name q = m \<and> matches_kind val (pp_kind q)"
    if "j < length (hx_actions plan)" "dict_get (pc_parameters (hx_actions plan ! j)) m = Some val" for j m val
    using parameter_finding_None [of pol _ "ps ! j", OF _ that(2)] act that(1) by metis
  moreover have "{''Plan digest: '' @ digest, ''Actor: '' @ aa_actor_id (hx_actor plan), ''Tenant: '' @ aa_tenant_id (hx_actor plan)}
      \<subseteq> set (preview_header L pol plan digest imp esc)"
    unfolding preview_header_def Let_def by (intro insert_subsetI empty_subsetI) (simp_all only: list.set insert_iff simp_thms)
  ultimately show ?thesis
    using d content n act render_action_shown [OF assms(2)] unfolding Let_def by (intro exI [of _ ps] exI [of _ "preview_header L pol plan digest imp esc"] exI [of _ lss]) blast
qed

section \<open>Exact approval\<close>

lemma binding_failure_None:
  assumes "binding_failure G plan digest v g now = None"
  shows "gg_preview_digest g = pv_preview_digest v \<and> gg_plan_digest g = digest \<and>
    gg_policy_digest g = hl_policy (hg_lib G) (hg_policy G) \<and> gg_actor_id g = aa_actor_id (hx_actor plan) \<and>
    gg_tenant_id g = aa_tenant_id (hx_actor plan) \<and> gg_context_digest g = pv_context_digest v \<and>
    gg_approver_id g \<in> hp_approvers (hg_policy G) \<and> gg_issued_at g \<le> now + td_seconds (hp_clock_skew (hg_policy G)) \<and>
    now < gg_expires_at g \<and> gg_expires_at g - gg_issued_at g \<le> td_seconds (hp_max_ttl (hg_policy G))"
  using assms unfolding binding_failure_def Let_def by (simp split: if_splits)

lemma claim_finding_None: "claim_finding st = None \<Longrightarrow> st = Some Prompt_stored \<or> st = Some Prompt_fatigue"
  by (auto simp: claim_finding_def split: option.splits hi_status.splits)

text \<open>The results of \<open>authorize\<close> that allow the plan.\<close>

lemma hi_authorize_ALLOW:
  assumes "hi_authorize G plan grant now uid r = Some (res, r')" and "hr_action res = ALLOW"
  obtains (NotRequired) v json where "build_preview (hg_lib G) (hg_policy G) plan = Some (Inr v)"
      "plan_canonical (hg_lib G) plan = Some json" "\<not> pv_approval_required v" "hv_code (hr_audit res) = Hi_not_required"
      "hr_authorization res = Some (authorization_of G json v None (now + td_seconds (hp_max_ttl (hg_policy G))) uid)"
      "hm_store r' = hm_store r"
  | (Approved) v json g verify key st where "build_preview (hg_lib G) (hg_policy G) plan = Some (Inr v)"
      "plan_canonical (hg_lib G) plan = Some json" "pv_approval_required v" "grant = Some g"
      "binding_failure G plan (hl_sha256 (hg_lib G) json) v g now = None" "hg_verifier G = Some verify" "verify g = Some True"
      "nonce_key (hg_lib G) g = Some key" "claim_finding st = None" "hv_code (hr_audit res) = Hi_verified"
      "claim_approval key (gg_expires_at g + td_seconds (hp_clock_skew (hg_policy G))) now (hm_store r) = (st, hm_store r')"
      "hr_authorization res = Some (authorization_of G json v (Some g) (gg_expires_at g) uid)"
proof -
  obtain b where b: "build_preview (hg_lib G) (hg_policy G) plan = Some b"
    using assms(1) by (auto simp: hi_authorize_def bind_eq_Some_conv)
  obtain v where v: "b = Inr v"
    using assms b by (cases b) (auto simp: hi_authorize_def hi_blocked_def hi_result_of_def Let_def)
  obtain json where j: "plan_canonical (hg_lib G) plan = Some json"
    using assms(1) b v by (auto simp: hi_authorize_def bind_eq_Some_conv)
  show thesis
  proof (cases "pv_approval_required v")
    case False
    then show thesis using assms NotRequired [OF _ j] b v
      by (auto simp: hi_authorize_def b v j hi_result_of_def Let_def)
  next
    case req: True
    then obtain g where g: "grant = Some g"
      using assms by (cases grant) (auto simp: hi_authorize_def b v j hi_result_of_def Let_def)
    then have use: "use_grant G plan v json g now uid r = Some (res, r')"
      using assms(1) req by (simp add: hi_authorize_def b v j)
    note red = use_grant_def hi_blocked_def hi_result_of_def Let_def split_def
    have bf: "binding_failure G plan (hl_sha256 (hg_lib G) json) v g now = None"
      using use assms(2) by (auto simp: red split: option.splits)
    obtain verify where ver: "hg_verifier G = Some verify" "verify g = Some True"
      using use assms(2) bf by (auto simp: red split: option.splits if_splits)
    obtain key where key: "nonce_key (hg_lib G) g = Some key"
      using use bf ver by (auto simp: red bind_eq_Some_conv)
    let ?c = "claim_approval key (gg_expires_at g + td_seconds (hp_clock_skew (hg_policy G))) now (hm_store r)"
    have st: "claim_finding (fst ?c) = None"
      using use assms(2) bf ver key by (auto simp: red split: option.splits)
    have "hv_code (hr_audit res) = Hi_verified" "?c = (fst ?c, hm_store r')"
      "hr_authorization res = Some (authorization_of G json v (Some g) (gg_expires_at g) uid)"
      using use bf ver key st by (auto simp: red)
    note s = bf ver key st this
    show thesis using Approved [OF _ j req g s] b v by simp
  qed
qed

lemma hi_require_Inr:
  assumes "hi_require G plan grant now uid r = Some (Inr a, r')"
  obtains res where "hi_authorize G plan grant now uid r = Some (res, r')" "hr_action res = ALLOW" "hr_authorization res = Some a"
  using assms by (auto simp: hi_require_def bind_eq_Some_conv hi_is_authorized_def split: option.splits if_splits)

text \<open>
  C16: only the exact plan that was approved executes. If a plan with an action for which the policy demands
  approval is released, then the approval service confirmed a grant, from an approver of the policy and within
  its validity window and the configured lifetime, which names the digest of the complete preview text,
  of the plan, of the policy and of the execution context, and the plan's actor and tenant; the released snapshot
  is the canonical text of that plan and lasts no longer than the grant.
\<close>

theorem released_plan_was_approved:
  assumes "hi_require G plan grant now uid r = Some (Inr a, r')"
    and "x \<in> set (hx_actions plan)" and "dict_get (action_table (hg_policy G)) (pc_action_id x) = Some p"
    and "ap_requires_approval p"
  shows "\<exists>g v verify. grant = Some g \<and> hg_verifier G = Some verify \<and> verify g = Some True \<and>
    build_preview (hg_lib G) (hg_policy G) plan = Some (Inr v) \<and> gg_preview_digest g = hl_sha256 (hg_lib G) (pv_text v) \<and>
    plan_canonical (hg_lib G) plan = Some (ha_plan_json a) \<and> gg_plan_digest g = hl_sha256 (hg_lib G) (ha_plan_json a) \<and>
    gg_policy_digest g = hl_policy (hg_lib G) (hg_policy G) \<and>
    Some (gg_context_digest g) = context_digest (hg_lib G) (hx_context plan) \<and>
    gg_actor_id g = aa_actor_id (hx_actor plan) \<and> gg_tenant_id g = aa_tenant_id (hx_actor plan) \<and>
    gg_approver_id g \<in> hp_approvers (hg_policy G) \<and> gg_issued_at g \<le> now + td_seconds (hp_clock_skew (hg_policy G)) \<and>
    now < gg_expires_at g \<and> gg_expires_at g - gg_issued_at g \<le> td_seconds (hp_max_ttl (hg_policy G)) \<and>
    ha_expires_at a = gg_expires_at g"
proof -
  obtain res where res: "hi_authorize G plan grant now uid r = Some (res, r')" "hr_action res = ALLOW" "hr_authorization res = Some a"
    by (rule hi_require_Inr [OF assms(1)])
  have req: "pv_approval_required v" "Some (pv_context_digest v) = context_digest (hg_lib G) (hx_context plan)"
      "pv_preview_digest v = hl_sha256 (hg_lib G) (pv_text v)"
    if bp: "build_preview (hg_lib G) (hg_policy G) plan = Some (Inr v)" for v
  proof -
    obtain ps ctx where ps: "length ps = length (hx_actions plan)" "pv_approval_required v = list_ex ap_requires_approval ps"
      and act: "\<forall>j<length (hx_actions plan). dict_get (action_table (hg_policy G)) (pc_action_id (hx_actions plan ! j)) = Some (ps ! j)"
      and ctx: "context_digest (hg_lib G) (hx_context plan) = Some ctx" "pv_context_digest v = ctx"
        "pv_preview_digest v = hl_sha256 (hg_lib G) (pv_text v)"
      by (rule build_preview_Inr [OF bp], blast)
    obtain j where "j < length (hx_actions plan)" "x = hx_actions plan ! j" using assms(2) by (auto simp: in_set_conv_nth)
    then have "p \<in> set ps" using act assms(3) ps(1) by (metis nth_mem option.inject)
    then show "pv_approval_required v" using assms(4) ps(2) by (auto simp: list_ex_iff)
    show "Some (pv_context_digest v) = context_digest (hg_lib G) (hx_context plan)"
      "pv_preview_digest v = hl_sha256 (hg_lib G) (pv_text v)" using ctx by simp_all
  qed
  from res(1,2) show ?thesis
  proof (cases rule: hi_authorize_ALLOW)
    case (NotRequired v json)
    then show ?thesis using req(1) by blast
  next
    case (Approved v json g verify key st)
    then show ?thesis
      using binding_failure_None [OF Approved(5)] req(2,3) [OF Approved(1)] res(3) by (auto simp: authorization_of_def)
  qed
qed

text \<open>
  The impact shown is the highest impact of the plan's actions under the policy, one level
  higher when the plan has as many actions as the policy counts as a chain, and never above critical.
\<close>

theorem shown_impact_exact:
  assumes "build_preview L pol plan = Some (Inr v)"
  shows "\<exists>ps. map Some ps = map (\<lambda>a. dict_get (action_table pol) (pc_action_id a)) (hx_actions plan) \<and>
    impact_rank (pv_impact v) = min 3 (Max (set (map (\<lambda>p. impact_rank (ap_impact p)) ps)) +
      (if hp_chain_count pol \<le> length (hx_actions plan) then 1 else 0))"
proof -
  obtain ps imp esc where len: "length ps = length (hx_actions plan)"
    and act: "\<forall>j<length (hx_actions plan). dict_get (action_table pol) (pc_action_id (hx_actions plan ! j)) = Some (ps ! j)"
    and oi: "overall_impact pol (map ap_impact ps) = Some (imp, esc)" and v: "pv_impact v = imp"
    by (rule build_preview_Inr [OF assms], blast)
  define base where "base = Max (set (map (\<lambda>p. impact_rank (ap_impact p)) ps))"
  have b: "Max (set (map impact_rank (map ap_impact ps))) = base" by (simp add: base_def comp_def)
  have ne: "ps \<noteq> []" using oi by (auto simp: overall_impact_def)
  have "impact_rank i \<le> 3" for i by (cases i) simp_all
  then have "base \<le> 3" using ne by (simp add: base_def)
  moreover have "impact_rank (impact_by_rank n) = n" if "n \<le> 3" for n
    using that by (auto simp: impact_by_rank_def numeral_eq_Suc le_Suc_eq)
  moreover have "imp = impact_by_rank (if hp_chain_count pol \<le> length ps \<and> base < 3 then base + 1 else base)"
    using oi ne unfolding overall_impact_def Let_def b by (simp split: if_splits)
  ultimately have "impact_rank (pv_impact v) = min 3 (base + (if hp_chain_count pol \<le> length (hx_actions plan) then 1 else 0))"
    by (auto simp: v len)
  moreover have "map Some ps = map (\<lambda>a. dict_get (action_table pol) (pc_action_id a)) (hx_actions plan)"
    using act len by (intro nth_equalityI) auto
  ultimately show ?thesis unfolding base_def by blast
qed

section \<open>Single use of approvals\<close>

type_synonym approval_attempt = "hi_plan \<times> approval_grant option \<times> datetime \<times> ident"

definition use_approval :: "hi_gate \<Rightarrow> hi_runtime \<times> datetime \<Rightarrow> approval_attempt \<Rightarrow> bool \<times> hi_runtime \<times> datetime" where
  "use_approval G st i = (let (r, t) = st; (plan, grant, now, uid) = i in
     case hi_authorize G plan grant now uid r of
       None \<Rightarrow> (False, r, now)
     | Some (res, r') \<Rightarrow> (hr_action res = ALLOW \<and> hv_code (hr_audit res) = Hi_verified, r', now))"

definition grant_of :: "approval_attempt \<Rightarrow> approval_grant option" where
  "grant_of i = fst (snd i)"

definition approval_clock :: "hi_runtime \<times> datetime \<Rightarrow> approval_attempt \<Rightarrow> bool" where
  "approval_clock st i \<longleftrightarrow> snd st \<le> fst (snd (snd i))"

definition used_grants :: "hi_gate \<Rightarrow> hi_runtime \<times> datetime \<Rightarrow> approval_grant option set" where
  "used_grants G st = {Some g | g. gg_expires_at g \<le> snd st \<or>
     (\<exists>k x. nonce_key (hg_lib G) g = Some k \<and> dict_get (hs_approvals (hm_store (fst st))) k = Some x \<and> gg_expires_at g \<le> x)}"

definition nonces_ok :: "hi_gate \<Rightarrow> hi_runtime \<times> datetime \<Rightarrow> bool" where
  "nonces_ok G st \<longleftrightarrow> 0 \<le> hp_clock_skew (hg_policy G) \<and> dict_ok (hs_approvals (hm_store (fst st)))"

lemma hi_result_store:
  "hi_result_of G plan v op a c now f au g r = (res, r') \<Longrightarrow> hm_store r' = hm_store r"
  "hi_blocked G plan op now fi v g r = (res, r') \<Longrightarrow> hm_store r' = hm_store r"
  by (auto simp: hi_result_of_def hi_blocked_def Let_def)

text \<open>An authorization either leaves the claims alone or makes one claim.\<close>

lemma use_grant_store:
  assumes "use_grant G plan v json g now uid r = Some (res, r')"
  shows "hm_store r' = hm_store r \<or> (\<exists>k x st. claim_approval k x now (hm_store r) = (st, hm_store r'))"
proof -
  have "hm_store r' = hm_store r \<or> (\<exists>k x. hm_store r' = snd (claim_approval k x now (hm_store r)))"
    using assms
    by (auto simp: use_grant_def bind_eq_Some_conv Let_def split_def dest!: hi_result_store split: option.splits if_splits;
        blast)
  then show ?thesis by (metis prod.collapse)
qed

lemma hi_authorize_store:
  assumes "hi_authorize G plan grant now uid r = Some (res, r')"
  shows "hm_store r' = hm_store r \<or> (\<exists>k x st. claim_approval k x now (hm_store r) = (st, hm_store r'))"
proof -
  obtain b where b: "build_preview (hg_lib G) (hg_policy G) plan = Some b"
    using assms by (auto simp: hi_authorize_def bind_eq_Some_conv)
  show ?thesis
  proof (cases b)
    case (Inl f)
    then show ?thesis using assms b by (auto simp: hi_authorize_def dest: hi_result_store)
  next
    case (Inr v)
    then obtain json where "plan_canonical (hg_lib G) plan = Some json"
      using assms b by (auto simp: hi_authorize_def bind_eq_Some_conv)
    then show ?thesis using assms b Inr
      by (auto simp: hi_authorize_def dest: hi_result_store use_grant_store split: if_splits option.splits)
  qed
qed

lemma claim_approval_keeps:
  assumes "claim_approval k x now s = (st, s')" and "dict_ok (hs_approvals s)"
  shows "dict_ok (hs_approvals s')"
    and "dict_get (hs_approvals s) j = Some y \<Longrightarrow> now < y \<Longrightarrow> dict_get (hs_approvals s') j = Some y"
    and "claim_finding st = None \<Longrightarrow> dict_get (hs_approvals s') k = Some x \<and> (\<forall>y. dict_get (hs_approvals s) k = Some y \<longrightarrow> y \<le> now)"
  using assms
  by (auto simp: claim_approval_def claim_finding_def Let_def dict_get_filter split: if_splits option.splits
      intro!: dict_ok_simps dict_ok_filter)

interpretation approval_use: single_use "use_approval G" grant_of "used_grants G" approval_clock "nonces_ok G" for G
proof
  fix s s' :: "hi_runtime \<times> datetime" and i :: approval_attempt and ok
  obtain r t where s: "s = (r, t)" by (cases s)
  obtain plan grant now uid where i: "i = (plan, grant, now, uid)" by (cases i)
  assume ok: "nonces_ok G s" and clock: "approval_clock s i"
  then have skew: "0 \<le> td_seconds (hp_clock_skew (hg_policy G))" and d: "dict_ok (hs_approvals (hm_store r))" and t: "t \<le> now"
    by (simp_all add: nonces_ok_def approval_clock_def s i)
  { assume use: "use_approval G s i = (ok, s')"
    then have snd: "snd s' = now" and store: "hm_store (fst s') = hm_store r \<or> (\<exists>k x st. claim_approval k x now (hm_store r) = (st, hm_store (fst s')))"
      using hi_authorize_store [of G plan grant now uid r] by (auto simp: use_approval_def s i split: option.splits)
    then have keep: "dict_get (hs_approvals (hm_store r)) k = Some y \<Longrightarrow> now < y \<Longrightarrow> dict_get (hs_approvals (hm_store (fst s'))) k = Some y" for k y
      using claim_approval_keeps(2) [OF _ d] by metis
    show "used_grants G s \<subseteq> used_grants G s'"
      using keep t by (fastforce simp: used_grants_def s snd)
    show "nonces_ok G s'" using ok store claim_approval_keeps(1) [OF _ d] d by (auto simp: nonces_ok_def)
  }
  assume "use_approval G s i = (True, s')"
  then obtain res r' where res: "hi_authorize G plan grant now uid r = Some (res, r')" "hr_action res = ALLOW"
      "hv_code (hr_audit res) = Hi_verified" "s' = (r', now)"
    by (auto simp: use_approval_def s i split: option.splits)
  from res(1,2) obtain g k st where g: "grant = Some g" "now < gg_expires_at g" "nonce_key (hg_lib G) g = Some k"
    and cl: "claim_approval k (gg_expires_at g + td_seconds (hp_clock_skew (hg_policy G))) now (hm_store r) = (st, hm_store r')"
      "claim_finding st = None"
  proof (cases rule: hi_authorize_ALLOW)
    case (Approved v json g verify key st)
    then show thesis using that binding_failure_None [OF Approved(5)] by blast
  qed (use res(3) in simp)
  note claimed = claim_approval_keeps(3) [OF cl(1) d cl(2)]
  show "grant_of i \<notin> used_grants G s"
    using g t claimed by (auto simp: used_grants_def grant_of_def i s)
  show "grant_of i \<in> used_grants G s'"
    using g claimed skew by (auto simp: used_grants_def grant_of_def i res(4))
qed

text \<open>
  An approval releases a plan at most once. Along any sequence of authorizations whose clock does not run
  backwards, the grants under which a plan was released are pairwise different.
\<close>

theorem approval_used_at_most_once:
  assumes "0 \<le> hp_clock_skew (hg_policy G)" and "hs_approvals (hm_store r) = []"
    and "all_admissible approval_clock (use_approval G) (r, t) is"
  shows "distinct (map grant_of (fst (run_attempts (use_approval G) (r, t) is)))"
  using approval_use.accepted_at_most_once [OF _ assms(3) surjective_pairing] assms(1,2) by (simp add: nonces_ok_def dict_ok_def)

section \<open>Prompt fatigue\<close>

definition live_prompts :: "datetime \<Rightarrow> string \<Rightarrow> hi_store \<Rightarrow> (datetime \<times> string) list" where
  "live_prompts c k s = filter (\<lambda>e. c < fst e) (dict_get_default (hs_prompts s) k [])"

definition prompts_ok :: "datetime \<Rightarrow> hi_store \<Rightarrow> bool" where
  "prompts_ok t s \<longleftrightarrow> dict_ok (hs_prompts s) \<and>
     (\<forall>k. sorted (map fst (dict_get_default (hs_prompts s) k [])) \<and> (\<forall>e\<in>set (dict_get_default (hs_prompts s) k []). fst e \<le> t))"

lemma dropWhile_sorted: "sorted (map fst es) \<Longrightarrow> dropWhile (\<lambda>e. fst e \<le> (c :: int)) es = filter (\<lambda>e. c < fst e) es"
proof (induction es)
  case (Cons e es)
  then show ?case by (cases "fst e \<le> c") (auto intro!: sym [OF filter_True])
qed simp

lemma purge_prompts_get:
  assumes "dict_ok ps"
  shows "dict_get_default (purge_prompts c ps) k [] = dropWhile (\<lambda>e. fst e \<le> c) (dict_get_default ps k [])"
    and "dict_ok (purge_prompts c ps)"
proof -
  let ?m = "map (\<lambda>(k, es). (k, dropWhile (\<lambda>e. fst e \<le> c) es)) ps"
  have keys: "map fst ?m = map fst ps" by (induction ps) auto
  then have d: "dict_ok ?m" using assms by (simp only: dict_ok_def keys)
  then show "dict_ok (purge_prompts c ps)" unfolding purge_prompts_def by (rule dict_ok_filter)
  have "dict_get ?m k = map_option (dropWhile (\<lambda>e. fst e \<le> c)) (dict_get ps k)" by (simp add: map_of_map)
  then show "dict_get_default (purge_prompts c ps) k [] = dropWhile (\<lambda>e. fst e \<le> c) (dict_get_default ps k [])"
    unfolding purge_prompts_def using d
    by (auto simp: dict_get_default_def dict_get_filter dropWhile_eq_Nil_conv eq_commute [of "[]"] split: option.splits)
qed

lemma live_prompts_later: "c \<le> c' \<Longrightarrow> live_prompts c' k s = filter (\<lambda>e. c' < fst e) (live_prompts c k s)"
  by (auto simp: live_prompts_def intro: filter_cong)

lemma record_prompt_live:
  assumes "prompts_ok t s" and "t \<le> now" and "record_prompt k d now w mp mr s = (st, s')" and "1 \<le> w"
  shows "prompts_ok now s'"
    and "live_prompts (now - td_seconds w) j s' =
      live_prompts (now - td_seconds w) j s @ (if st = Prompt_stored \<and> j = k then [(now, d)] else [])"
    and "st = Prompt_stored \<Longrightarrow> length (live_prompts (now - td_seconds w) k s) < mp \<and>
      length (filter (\<lambda>e. snd e = d) (live_prompts (now - td_seconds w) k s)) < mr"
proof -
  let ?c = "now - td_seconds w"
  define ps where "ps = purge_prompts ?c (hs_prompts s)"
  have ok: "dict_ok (hs_prompts s)" using assms(1) by (simp add: prompts_ok_def)
  have srt: "sorted (map fst (dict_get_default (hs_prompts s) i []))" for i using assms(1) by (simp add: prompts_ok_def)
  have get: "dict_get_default ps i [] = live_prompts ?c i s" for i
    by (simp add: ps_def live_prompts_def purge_prompts_get(1) [OF ok] dropWhile_sorted [OF srt])
  have w: "?c < now" using assms(4) by (simp add: td_seconds_def)
  have ps_ok: "dict_ok ps" using purge_prompts_get(2) [OF ok] by (simp add: ps_def)
  have live: "sorted (map fst (live_prompts ?c i s))" "\<forall>e\<in>set (live_prompts ?c i s). fst e \<le> now" for i
    using assms(1,2) by (fastforce simp: prompts_ok_def live_prompts_def intro: sorted_filter)+
  have new: "hs_prompts s' \<in> {ps, dict_set ps k (live_prompts ?c k s), dict_set ps k (live_prompts ?c k s @ [(now, d)])}"
    using assms(3) by (auto simp: record_prompt_def ps_def [symmetric] Let_def get split: if_splits)
  then have "dict_get_default (hs_prompts s') i [] \<in> {live_prompts ?c i s, live_prompts ?c i s @ [(now, d)]}" for i
    by (auto simp flip: get)
  moreover have "sorted (map fst (live_prompts ?c i s @ [(now, d)]))" for i using live [of i] by (simp add: sorted_append)
  ultimately have "sorted (map fst (dict_get_default (hs_prompts s') i []))"
    "\<forall>e\<in>set (dict_get_default (hs_prompts s') i []). fst e \<le> now" for i
    using live [of i] by (smt (verit) insertE singletonD set_append Un_iff list.set(1) list.set(2) empty_iff fst_conv order_refl)+
  moreover have "dict_ok (hs_prompts s')" using new ps_ok by auto
  ultimately show "prompts_ok now s'" by (simp add: prompts_ok_def)
  have idem: "filter (\<lambda>e. ?c < fst e) (live_prompts ?c i s) = live_prompts ?c i s" for i by (simp add: live_prompts_def)
  show "live_prompts ?c j s' = live_prompts ?c j s @ (if st = Prompt_stored \<and> j = k then [(now, d)] else [])"
    using assms(3) w idem
    by (auto simp: record_prompt_def ps_def [symmetric] Let_def get live_prompts_def [of _ _ s'] split: if_splits)
  show "st = Prompt_stored \<Longrightarrow> length (live_prompts ?c k s) < mp \<and> length (filter (\<lambda>e. snd e = d) (live_prompts ?c k s)) < mr"
    using assms(3) by (auto simp: record_prompt_def ps_def [symmetric] Let_def get not_le split: if_splits)
qed

type_synonym prompt_op = "hi_plan \<times> datetime \<times> ident"

definition prompt_approver :: "hi_gate \<Rightarrow> hi_runtime \<Rightarrow> prompt_op \<Rightarrow> bool \<times> hi_runtime" where
  "prompt_approver G r i = (let (plan, now, uid) = i in
     case prepare G plan now uid r of
       None \<Rightarrow> (False, r)
     | Some (res, r') \<Rightarrow> (hr_action res = REQUIRE_APPROVAL, r'))"

definition shown_digest :: "hi_gate \<Rightarrow> hi_plan \<Rightarrow> string" where
  "shown_digest G plan = (case build_preview (hg_lib G) (hg_policy G) plan of
     Some (Inr v) \<Rightarrow> pv_preview_digest v | _ \<Rightarrow> [])"

text \<open>The prompts of one actor, session and tenant: their times and preview digests.\<close>

definition prompts_of :: "hi_gate \<Rightarrow> string \<Rightarrow> prompt_op list \<Rightarrow> (datetime \<times> string) list" where
  "prompts_of G k ops = map (\<lambda>(plan, now, _). (now, shown_digest G plan)) (filter (\<lambda>(plan, _). fatigue_key (hg_lib G) plan = Some k) ops)"

lemma prompt_approver_store:
  assumes "prompt_approver G r (plan, now, uid) = (ok, r')"
  shows "\<not> ok \<and> hm_store r' = hm_store r \<or> (\<exists>k st. fatigue_key (hg_lib G) plan = Some k \<and>
    record_prompt k (shown_digest G plan) now (hp_prompt_window (hg_policy G)) (hp_max_prompts (hg_policy G))
      (hp_max_repeated (hg_policy G)) (hm_store r) = (st, hm_store r') \<and> ok = (st = Prompt_stored))"
proof (cases "build_preview (hg_lib G) (hg_policy G) plan")
  case None
  then show ?thesis using assms by (simp add: prompt_approver_def prepare_def)
next
  case (Some b)
  show ?thesis
  proof (cases b)
    case (Inl f)
    then show ?thesis using assms Some by (auto simp: prompt_approver_def prepare_def hi_blocked_def hi_result_of_def Let_def)
  next
    case (Inr v)
    note pre = Some [unfolded Inr]
    show ?thesis
    proof (cases "pv_approval_required v")
      case False
      then show ?thesis using assms pre
        by (auto simp: prompt_approver_def prepare_def hi_result_of_def Let_def split: option.splits bind_splits)
    next
      case True
      show ?thesis
      proof (cases "fatigue_key (hg_lib G) plan")
        case None
        then show ?thesis using assms pre True by (simp add: prompt_approver_def prepare_def)
      next
        case (Some k)
        obtain st s' where rp: "record_prompt k (pv_preview_digest v) now (hp_prompt_window (hg_policy G)) (hp_max_prompts (hg_policy G))
            (hp_max_repeated (hg_policy G)) (hm_store r) = (st, s')" by fastforce
        have st: "st \<in> {Prompt_stored, Prompt_fatigue, Store_full}"
          using rp by (auto simp: record_prompt_def Let_def split: if_splits)
        have "ok = (st = Prompt_stored) \<and> hm_store r' = s'"
          using assms pre True Some rp st
          by (auto simp: prompt_approver_def prepare_def hi_blocked_def hi_result_of_def Let_def split: if_splits)
        then show ?thesis using rp Some pre by (auto simp: shown_digest_def)
      qed
    qed
  qed
qed

definition within_limit :: "int \<Rightarrow> ((datetime \<times> string) \<Rightarrow> bool) \<Rightarrow> nat \<Rightarrow> (datetime \<times> string) list \<Rightarrow> bool" where
  "within_limit w P m es \<longleftrightarrow> (\<forall>t. length (filter (\<lambda>e. P e \<and> t - td_seconds w < fst e \<and> fst e \<le> t) es) \<le> m)"

lemma within_limit_snoc:
  assumes "within_limit w P m es" and "P (now, d) \<longrightarrow> length (filter P (filter (\<lambda>e. now - td_seconds w < fst e) es)) < m"
  shows "within_limit w P m (es @ [(now, d)])"
  unfolding within_limit_def
proof
  fix t
  show "length (filter (\<lambda>e. P e \<and> t - td_seconds w < fst e \<and> fst e \<le> t) (es @ [(now, d)])) \<le> m"
  proof (cases "P (now, d) \<and> t - td_seconds w < now \<and> now \<le> t")
    case True
    have "length (filter (\<lambda>e. P e \<and> t - td_seconds w < fst e \<and> fst e \<le> t) es) \<le> length (filter P (filter (\<lambda>e. now - td_seconds w < fst e) es))"
      using True by (induction es) auto
    then show ?thesis using assms(2) True by simp
  next
    case False
    then show ?thesis using assms(1) by (auto simp: within_limit_def)
  qed
qed

text \<open>What a run of prompts maintains: the store keeps the live prompts, and every window is within the limits.\<close>

definition fatigue_inv :: "hi_gate \<Rightarrow> datetime \<Rightarrow> hi_runtime \<Rightarrow> prompt_op list \<Rightarrow> bool" where
  "fatigue_inv G t r ops \<longleftrightarrow> (let p = hg_policy G; w = hp_prompt_window p; s = hm_store r in
     prompts_ok t s \<and>
     (\<forall>k. live_prompts (t - td_seconds w) k s = filter (\<lambda>e. t - td_seconds w < fst e) (prompts_of G k ops) \<and>
        within_limit w (\<lambda>_. True) (hp_max_prompts p) (prompts_of G k ops) \<and>
        (\<forall>d. within_limit w (\<lambda>e. snd e = d) (hp_max_repeated p) (prompts_of G k ops))))"

lemma filter_later: "c \<le> (c' :: int) \<Longrightarrow> filter (\<lambda>e. c' < fst e) (filter (\<lambda>e. c < fst e) es) = filter (\<lambda>e. c' < fst e) es"
  by (auto intro: filter_cong)

lemma fatigue_step:
  assumes inv: "fatigue_inv G t r ops" and t: "t \<le> now" and w: "1 \<le> hp_prompt_window (hg_policy G)"
    and step: "prompt_approver G r (plan, now, uid) = (ok, r')"
  shows "fatigue_inv G now r' (if ok then ops @ [(plan, now, uid)] else ops)"
proof -
  let ?p = "hg_policy G"
  let ?c = "now - td_seconds (hp_prompt_window ?p)"
  have c: "t - td_seconds (hp_prompt_window ?p) \<le> ?c" using t by simp
  have ok: "prompts_ok t (hm_store r)"
    and live: "live_prompts ?c k (hm_store r) = filter (\<lambda>e. ?c < fst e) (prompts_of G k ops)"
    and lim: "within_limit (hp_prompt_window ?p) (\<lambda>_. True) (hp_max_prompts ?p) (prompts_of G k ops)"
      "within_limit (hp_prompt_window ?p) (\<lambda>e. snd e = d) (hp_max_repeated ?p) (prompts_of G k ops)" for k d
    using inv live_prompts_later [OF c] filter_later [OF c] by (simp_all add: fatigue_inv_def Let_def)
  from prompt_approver_store [OF step] show ?thesis
  proof (elim disjE exE conjE)
    assume no: "\<not> ok" "hm_store r' = hm_store r"
    have "prompts_ok now (hm_store r)" using ok t by (force simp: prompts_ok_def)
    then show ?thesis using no live lim by (simp add: fatigue_inv_def Let_def)
  next
    fix k st
    assume k: "fatigue_key (hg_lib G) plan = Some k" and st: "ok = (st = Prompt_stored)"
      and rp: "record_prompt k (shown_digest G plan) now (hp_prompt_window ?p) (hp_max_prompts ?p) (hp_max_repeated ?p) (hm_store r) = (st, hm_store r')"
    note rl = record_prompt_live [OF ok t rp w]
    have w': "?c < now" using w by (simp add: td_seconds_def)
    have p: "prompts_of G j (ops @ [(plan, now, uid)]) = prompts_of G j ops @ (if j = k then [(now, shown_digest G plan)] else [])" for j
      by (auto simp: prompts_of_def k)
    show ?thesis
    proof (cases ok)
      case True
      then have stored: "st = Prompt_stored" using st by simp
      have "within_limit (hp_prompt_window ?p) (\<lambda>_. True) (hp_max_prompts ?p) (prompts_of G j (ops @ [(plan, now, uid)]))"
        "within_limit (hp_prompt_window ?p) (\<lambda>e. snd e = d) (hp_max_repeated ?p) (prompts_of G j (ops @ [(plan, now, uid)]))" for j d
        using lim rl(3) [OF stored] by (auto simp: p live intro!: within_limit_snoc)
      then show ?thesis using True rl(1,2) live stored w' by (simp add: fatigue_inv_def Let_def p)
    next
      case False
      then show ?thesis using rl(1,2) live lim st by (simp add: fatigue_inv_def Let_def)
    qed
  qed
qed

text \<open>
  Prompts are limited. Along any sequence of prepared plans whose clock does not run backwards, within
  every window of the configured length an approver is asked at most the configured number of times for one actor,
  session and tenant, and at most the configured number of times for one and the same preview.
\<close>

theorem approval_prompts_limited:
  assumes "1 \<le> hp_prompt_window (hg_policy G)" and "hs_prompts (hm_store r) = []"
    and "sorted (map (\<lambda>(_, now, _). now) ops)" and "run_attempts (prompt_approver G) r ops = (acc, r')"
  shows "within_limit (hp_prompt_window (hg_policy G)) (\<lambda>_. True) (hp_max_prompts (hg_policy G)) (prompts_of G k acc) \<and>
    within_limit (hp_prompt_window (hg_policy G)) (\<lambda>e. snd e = d) (hp_max_repeated (hg_policy G)) (prompts_of G k acc)"
proof -
  have run: "\<exists>t'. fatigue_inv G t' r' (past @ acc)"
    if "fatigue_inv G t r past" "\<forall>(_, now, _)\<in>set ops. t \<le> now" "sorted (map (\<lambda>(_, now, _). now) ops)"
      "run_attempts (prompt_approver G) r ops = (acc, r')" for t r past ops acc
    using that
  proof (induction ops arbitrary: t r past acc)
    case Nil
    then show ?case by auto
  next
    case (Cons i ops)
    obtain plan now uid where i: "i = (plan, now, uid)" by (cases i)
    obtain ok r1 where st: "prompt_approver G r i = (ok, r1)" by (cases "prompt_approver G r i")
    obtain acc1 r2 where rest: "run_attempts (prompt_approver G) r1 ops = (acc1, r2)" by (cases "run_attempts (prompt_approver G) r1 ops")
    have eq: "r2 = r'" "acc = (if ok then i # acc1 else acc1)" using Cons.prems(4) st rest by auto
    have "t \<le> now" using Cons.prems(2) by (simp add: i)
    note inv = fatigue_step [OF Cons.prems(1) this assms(1) st [unfolded i]]
    have "\<exists>t'. fatigue_inv G t' r' ((if ok then past @ [(plan, now, uid)] else past) @ acc1)"
      by (rule Cons.IH [OF inv]) (use Cons.prems(3) rest eq(1) in \<open>auto simp: i\<close>)
    then show ?case by (cases ok) (simp_all add: eq i)
  qed
  have "fatigue_inv G t r []" for t
    using assms(2) by (simp add: fatigue_inv_def Let_def prompts_ok_def live_prompts_def prompts_of_def within_limit_def)
  moreover have "\<exists>t. \<forall>(_, now, _)\<in>set ops. t \<le> now"
  proof (cases ops)
    case (Cons i js)
    then show ?thesis using assms(3) by (intro exI [of _ "fst (snd i)"]) (auto split: prod.splits)
  qed simp
  ultimately obtain t' where "fatigue_inv G t' r' ([] @ acc)" using run [OF _ _ assms(3,4)] by blast
  then show ?thesis by (simp add: fatigue_inv_def Let_def)
qed

section \<open>Witnesses\<close>

definition demo_hi_lib :: hi_lib where
  "demo_hi_lib = \<lparr>hl_nfc = (\<lambda>s. s), hl_dumps = (\<lambda>v. case v of PInt _ \<Rightarrow> ''5'' | _ \<Rightarrow> ''j''), hl_loads = (\<lambda>s. if s = ''5'' then PInt 5 else PNone),
     hl_dumps_ascii = (\<lambda>v. if v = PInt 5 then ''5'' else ''?''), hl_sha256 = (\<lambda>s. s), hl_policy = hp_policy_id\<rparr>"

definition demo_hi_param :: param_policy where
  "demo_hi_param = \<lparr>pp_name = ''amount'', pp_display_name = ''Amount'', pp_kind = Kind_integer, pp_class = Class_amount, pp_required = True\<rparr>"

definition demo_hi_action :: action_policy where
  "demo_hi_action = \<lparr>ap_action_id = ''pay'', ap_display_name = ''Pay'', ap_categories = {Cat_financial}, ap_impact = Impact_high,
     ap_reversibility = Irreversible, ap_parameters = [demo_hi_param], ap_side_effects = [], ap_external_visibility = False,
     ap_disclosure = [], ap_requires_approval = True\<rparr>"

definition demo_hi_policy :: hi_policy where
  "demo_hi_policy = \<lparr>hp_policy_id = ''p'', hp_version = ''1'', hp_actions = [demo_hi_action], hp_approvers = {''eve''},
     hp_max_plan_actions = 4, hp_max_parameters = 4, hp_max_preview_bytes = 65536, hp_max_ttl = 300, hp_clock_skew = 30,
     hp_prompt_window = 300, hp_max_prompts = 5, hp_max_repeated = 2, hp_chain_count = 2\<rparr>"

definition demo_hi_plan :: hi_plan where
  "demo_hi_plan = \<lparr>hx_plan_id = ''x'', hx_actor = \<lparr>aa_actor_id = ''a'', aa_subject_id = ''s'', aa_tenant_id = ''t''\<rparr>,
     hx_context = \<lparr>ax_tenant_id = ''t'', ax_session_id = ''n'', ax_goal_digest = ''g'', ax_task_id = ''k'', ax_chain_id = ''c'',
       ax_environment = ''e''\<rparr>,
     hx_actions = [\<lparr>pc_instance_id = ''i'', pc_action_id = ''pay'', pc_parameters = [(''amount'', PInt 5)]\<rparr>]\<rparr>"

definition demo_hi_preview :: plan_preview where
  "demo_hi_preview = (case build_preview demo_hi_lib demo_hi_policy demo_hi_plan of Some (Inr v) \<Rightarrow> v | _ \<Rightarrow> undefined)"

lemmas demo_hi_defs = demo_hi_lib_def demo_hi_param_def demo_hi_action_def demo_hi_policy_def demo_hi_plan_def

lemma utf8_len_bound: "utf8_len (ident_text s) \<le> 4 * length s"
proof (induction s)
  case (Cons c s)
  then show ?case using utf8_size_bounds(2) [of "of_char c"] by (simp add: ident_text_def)
qed (simp add: ident_text_def)

lemma decimal_one: "decimal (Suc 0) = ''1''"
  by code_simp

lemma demo_hi_table: "dict_get (action_table demo_hi_policy) ''pay'' = Some demo_hi_action"
  by (simp add: action_table_def demo_hi_policy_def demo_hi_action_def)

definition demo_hi_proposed :: proposed_action where
  "demo_hi_proposed = \<lparr>pc_instance_id = ''i'', pc_action_id = ''pay'', pc_parameters = [(''amount'', PInt 5)]\<rparr>"

lemma demo_hi_finding: "parameter_finding demo_hi_policy demo_hi_proposed demo_hi_action = None"
  by (simp add: parameter_finding_def demo_hi_proposed_def demo_hi_policy_def demo_hi_action_def demo_hi_param_def matches_kind_def)

lemma demo_hi_json: "canonical_json demo_hi_lib (PDict (pc_parameters demo_hi_proposed)) = Some ''j''"
  by (simp add: canonical_json_def demo_hi_lib_def demo_hi_proposed_def)

lemma demo_hi_render:
  "\<exists>lines. render_action demo_hi_lib (Suc 0) demo_hi_proposed demo_hi_action = Some lines \<and> length (str_join newline lines) \<le> 1000 \<and> lines \<noteq> []"
  by (simp add: render_action_def demo_hi_lib_def demo_hi_param_def demo_hi_action_def demo_hi_proposed_def render_param_def
      render_value_def canonical_json_def decimal_one newline_def param_line_def sorted_categories_def yes_no_def)

lemma demo_hi_check:
  "case build_preview demo_hi_lib demo_hi_policy demo_hi_plan of Some (Inr v) \<Rightarrow> pv_approval_required v | _ \<Rightarrow> False"
proof -
  obtain lines where l: "render_action demo_hi_lib (Suc 0) demo_hi_proposed demo_hi_action = Some lines"
      "length (str_join newline lines) \<le> 1000" "lines \<noteq> []"
    using demo_hi_render by blast
  have acts: "hx_actions demo_hi_plan = [demo_hi_proposed]" and pid: "pc_action_id demo_hi_proposed = ''pay''"
    by (simp_all add: demo_hi_plan_def demo_hi_proposed_def)
  obtain vs where pa: "preview_actions demo_hi_lib demo_hi_policy 1 (hx_actions demo_hi_plan) ([], [], [], False) =
      Some (Inr (vs, lines, [Impact_high], True))"
    by (simp add: acts pid demo_hi_table demo_hi_finding demo_hi_json l) (simp add: demo_hi_action_def)
  have imp: "overall_impact demo_hi_policy [Impact_high] = Some (Impact_high, False)"
    by (simp add: overall_impact_def demo_hi_policy_def impact_by_rank_def)
  have dig: "hi_plan_digest demo_hi_lib demo_hi_plan = Some ''j''" "context_digest demo_hi_lib (hx_context demo_hi_plan) = Some ''j''"
    by (simp_all add: hi_plan_digest_def plan_canonical_def canonical_json_def plan_value_def context_value_def action_value_def
        demo_hi_lib_def demo_hi_plan_def context_digest_def)
  define content where "content = str_join newline (preview_header demo_hi_lib demo_hi_policy demo_hi_plan ''j'' Impact_high False @ lines @ preview_footer)"
  have h: "length (str_join newline (preview_header demo_hi_lib demo_hi_policy demo_hi_plan ''j'' Impact_high False)) \<le> 1000"
    "length (str_join newline preview_footer) \<le> 1000"
    by (simp_all add: preview_header_def Let_def newline_def demo_hi_lib_def demo_hi_policy_def demo_hi_plan_def decimal_one
        yes_no_def preview_footer_def)
  have "length content \<le> 1000 + 1 + (1000 + 1 + 1000)"
    using h l(2) unfolding content_def str_join_append by (auto simp: newline_def)
  then have "utf8_len (ident_text content) \<le> hp_max_preview_bytes demo_hi_policy"
    using utf8_len_bound [of content] by (simp add: demo_hi_policy_def)
  then have "\<exists>v. complete_preview demo_hi_lib demo_hi_policy demo_hi_plan (vs, lines, [Impact_high], True) = Some (Inr v) \<and> pv_approval_required v"
    unfolding content_def newline_def by (simp add: complete_preview_def imp dig Let_def)
  moreover have "aa_tenant_id (hx_actor demo_hi_plan) = ax_tenant_id (hx_context demo_hi_plan)"
      "length (hx_actions demo_hi_plan) \<le> hp_max_plan_actions demo_hi_policy"
    by (simp_all add: demo_hi_plan_def demo_hi_policy_def)
  ultimately show ?thesis using pa by (auto simp: build_preview_def)
qed

lemma demo_hi_built: "build_preview demo_hi_lib demo_hi_policy demo_hi_plan = Some (Inr demo_hi_preview)"
  using demo_hi_check unfolding demo_hi_preview_def by (auto split: option.splits sum.splits)

lemma demo_hi_required: "pv_approval_required demo_hi_preview"
  using demo_hi_check by (simp add: demo_hi_built)

text \<open>The approver's grant for that preview, and a gate whose approval service knows it.\<close>

definition demo_hi_grant :: approval_grant where
  "demo_hi_grant = \<lparr>gg_approval_id = ''ok'', gg_nonce = ''n'', gg_preview_digest = pv_preview_digest demo_hi_preview,
     gg_plan_digest = ''j'', gg_actor_id = ''a'', gg_tenant_id = ''t'', gg_policy_id = ''p'', gg_policy_version = ''1'',
     gg_policy_digest = ''p'', gg_context_digest = pv_context_digest demo_hi_preview, gg_approver_id = ''eve'', gg_issued_at = 0,
     gg_expires_at = 100\<rparr>"

definition demo_hi_gate :: hi_gate where
  "demo_hi_gate = \<lparr>hg_lib = demo_hi_lib, hg_policy = demo_hi_policy, hg_verifier = Some (static_approval_verify {''ok''})\<rparr>"

definition demo_hi_runtime :: hi_runtime where
  "demo_hi_runtime = \<lparr>hm_store = \<lparr>hs_max_keys = 4, hs_max_nonces = 4, hs_prompts = [], hs_approvals = []\<rparr>, hm_sink = None\<rparr>"

lemma demo_hi_canonical: "plan_canonical demo_hi_lib demo_hi_plan = Some ''j''"
  by (simp add: plan_canonical_def canonical_json_def plan_value_def context_value_def action_value_def demo_hi_lib_def demo_hi_plan_def)

theorem preview_shows_every_parameter_witness:
  "\<exists>header details. pv_text demo_hi_preview =
     str_join newline (header @ ''ACTION 1'' # details @ [''    [AMOUNT] Amount (amount): 5''] @ preview_footer)"
proof -
  have reads: "json_reads_back demo_hi_lib" by (simp add: json_reads_back_def demo_hi_lib_def)
  have acts: "hx_actions demo_hi_plan = [demo_hi_proposed]" and pid: "pc_action_id demo_hi_proposed = ''pay''"
    by (simp_all add: demo_hi_plan_def demo_hi_proposed_def)
  obtain ps header blocks where t: "pv_text demo_hi_preview = str_join newline (header @ concat blocks @ preview_footer)"
    and n: "length blocks = 1" and p: "dict_get (action_table demo_hi_policy) ''pay'' = Some (ps ! 0)"
    and s: "action_shown demo_hi_lib (Suc 0) demo_hi_proposed (ps ! 0) (blocks ! 0)"
    using preview_shows_every_parameter [OF demo_hi_built reads] unfolding acts Let_def by (auto simp: pid)
  have one: "concat blocks = blocks ! 0" using n by (cases blocks) auto
  have action: "ps ! 0 = demo_hi_action" using p demo_hi_table by simp
  have params: "ap_parameters demo_hi_action = [demo_hi_param]" by (simp add: demo_hi_action_def)
  obtain details ts where b: "blocks ! 0 = [''ACTION '' @ decimal (Suc 0), ''  Instance ID: '' @ pc_instance_id demo_hi_proposed,
         ''  Action: '' @ ap_display_name demo_hi_action @ '' ('' @ ap_action_id demo_hi_action @ '')''] @ details @
       [''  Complete parameters:''] @
       map2 (\<lambda>q t. ''    ['' @ highlight_title (pp_class q) @ ''] '' @ pp_display_name q @ '' ('' @ pp_name q @ ''): '' @ t)
         [demo_hi_param] ts"
    and v: "list_all2 (value_shown demo_hi_lib demo_hi_proposed) [demo_hi_param] ts"
    using s unfolding action_shown_def action params by auto
  from v obtain u where ts: "ts = [u]" and u: "value_shown demo_hi_lib demo_hi_proposed demo_hi_param u"
    by (auto simp: list_all2_Cons1)
  have "u = ''5''" using u by (simp add: value_shown_def demo_hi_proposed_def demo_hi_param_def demo_hi_lib_def)
  then obtain ds where "blocks ! 0 = ''ACTION 1'' # ds @ [''    [AMOUNT] Amount (amount): 5'']"
    unfolding b ts by (simp add: decimal_one demo_hi_param_def)
  then show ?thesis unfolding t one
    by (intro exI [of _ header] exI [of _ ds]) simp
qed

lemma demo_hi_authorized:
  "hi_authorize demo_hi_gate demo_hi_plan (Some demo_hi_grant) 10 ''u'' demo_hi_runtime =
   Some (hi_result_of demo_hi_gate demo_hi_plan (Some demo_hi_preview) Hi_authorize ALLOW Hi_verified 10 None
     (Some (authorization_of demo_hi_gate ''j'' demo_hi_preview (Some demo_hi_grant) 100 ''u'')) (Some demo_hi_grant)
     (demo_hi_runtime\<lparr>hm_store := \<lparr>hs_max_keys = 4, hs_max_nonces = 4, hs_prompts = [], hs_approvals = [(''sha256:j'', 30000100)]\<rparr>\<rparr>))"
proof -
  have g: "hg_lib demo_hi_gate = demo_hi_lib" "hg_policy demo_hi_gate = demo_hi_policy" "hg_verifier demo_hi_gate = Some (static_approval_verify {''ok''})"
    by (simp_all add: demo_hi_gate_def)
  have f: "gg_expires_at demo_hi_grant = 100" by (simp add: demo_hi_grant_def)
  have "binding_failure demo_hi_gate demo_hi_plan ''j'' demo_hi_preview demo_hi_grant 10 = None"
    by (simp add: binding_failure_def g demo_hi_grant_def demo_hi_plan_def demo_hi_policy_def demo_hi_lib_def td_seconds_def Let_def)
  moreover have "static_approval_verify {''ok''} demo_hi_grant = Some True" by (simp add: static_approval_verify_def demo_hi_grant_def)
  moreover have "nonce_key demo_hi_lib demo_hi_grant = Some ''sha256:j''"
    by (simp add: nonce_key_def nonce_value_def canonical_json_def hi_reference_def demo_hi_lib_def)
  moreover have "hl_sha256 demo_hi_lib ''j'' = ''j''" by (simp add: demo_hi_lib_def)
  moreover have "claim_approval ''sha256:j'' (100 + td_seconds (hp_clock_skew demo_hi_policy)) 10 (hm_store demo_hi_runtime) =
      (Some Prompt_stored, \<lparr>hs_max_keys = 4, hs_max_nonces = 4, hs_prompts = [], hs_approvals = [(''sha256:j'', 30000100)]\<rparr>)"
    by (simp add: claim_approval_def demo_hi_runtime_def demo_hi_policy_def td_seconds_def)
  ultimately show ?thesis
    by (simp add: hi_authorize_def g demo_hi_built demo_hi_canonical demo_hi_required use_grant_def claim_finding_def f)
qed

theorem released_plan_was_approved_witness:
  "\<exists>v. build_preview demo_hi_lib demo_hi_policy demo_hi_plan = Some (Inr v) \<and> gg_preview_digest demo_hi_grant = pv_text v"
proof -
  obtain a r' where "hi_require demo_hi_gate demo_hi_plan (Some demo_hi_grant) 10 ''u'' demo_hi_runtime = Some (Inr a, r')"
    by (simp add: hi_require_def demo_hi_authorized hi_result_of_def Let_def hi_is_authorized_def)
  from released_plan_was_approved [OF this, of "hd (hx_actions demo_hi_plan)" demo_hi_action] show ?thesis
    by (auto simp: demo_hi_gate_def demo_hi_plan_def action_table_def demo_hi_policy_def demo_hi_action_def demo_hi_lib_def)
qed

theorem shown_impact_exact_witness: "impact_rank (pv_impact demo_hi_preview) = 2"
  using shown_impact_exact [OF demo_hi_built]
  by (auto simp: demo_hi_plan_def action_table_def demo_hi_policy_def demo_hi_action_def)

theorem approval_used_at_most_once_witness:
  "distinct (map grant_of (fst (run_attempts (use_approval demo_hi_gate) (demo_hi_runtime, 0)
    [(demo_hi_plan, Some demo_hi_grant, 10, ''u''), (demo_hi_plan, Some demo_hi_grant, 10, ''u'')])))"
  by (rule approval_used_at_most_once)
    (simp_all add: demo_hi_gate_def demo_hi_policy_def demo_hi_runtime_def approval_clock_def use_approval_def split: option.splits prod.splits)

theorem approval_prompts_limited_witness:
  "\<forall>k. within_limit 300 (\<lambda>_. True) 5 (prompts_of demo_hi_gate k (fst (run_attempts (prompt_approver demo_hi_gate) demo_hi_runtime
    [(demo_hi_plan, 10, ''u''), (demo_hi_plan, 11, ''u''), (demo_hi_plan, 12, ''u'')])))"
proof
  fix k
  show "within_limit 300 (\<lambda>_. True) 5 (prompts_of demo_hi_gate k (fst (run_attempts (prompt_approver demo_hi_gate) demo_hi_runtime
    [(demo_hi_plan, 10, ''u''), (demo_hi_plan, 11, ''u''), (demo_hi_plan, 12, ''u'')])))"
    using approval_prompts_limited [of demo_hi_gate demo_hi_runtime "[(demo_hi_plan, 10, ''u''), (demo_hi_plan, 11, ''u''), (demo_hi_plan, 12, ''u'')]",
        OF _ _ _ surjective_pairing]
    by (simp add: demo_hi_gate_def demo_hi_policy_def demo_hi_runtime_def)
qed

end
