(* ===== verification/High_Impact_Totality.thy ===== *)
theory High_Impact_Totality
  imports High_Impact_Properties
begin

text \<open>
  No exception escapes the high-impact gate: parameters that cannot be serialised are refused with a
  finding before any digest of the plan is computed.
\<close>

section \<open>Canonical JSON exists\<close>

lemma those_not_None: "(\<forall>x\<in>set xs. x \<noteq> None) \<Longrightarrow> those xs \<noteq> None"
  by (induction xs) auto

lemma those_None_in: "those xs \<noteq> None \<Longrightarrow> x \<in> set xs \<Longrightarrow> x \<noteq> None"
  by (induction xs) (auto split: option.splits)

text \<open>Unicode normalisation leaves ASCII alone.\<close>

definition nfc_ascii :: "hi_lib \<Rightarrow> bool" where
  "nfc_ascii L \<longleftrightarrow> (\<forall>s. list_all (\<lambda>c. of_char c < (128 :: nat)) s \<longrightarrow> hl_nfc L s = s)"

lemma normalize_dict:
  assumes "\<forall>k\<in>fst ` set kvs. nfc k = k" and "distinct (map fst kvs)" and "\<forall>v\<in>snd ` set kvs. normalize_json nfc v \<noteq> None"
  shows "normalize_json nfc (PDict kvs) \<noteq> None"
proof -
  have "map (\<lambda>(k, _). nfc k) kvs = map fst kvs" using assms(1) by (auto simp: map_eq_conv)
  then have "distinct (map (\<lambda>(k, _). nfc k) kvs)" using assms(2) by metis
  moreover have "those (map (\<lambda>(k, v). map_option (Pair (nfc k)) (normalize_json nfc v)) kvs) \<noteq> None"
    using assms(3) by (intro those_not_None) auto
  ultimately show ?thesis by simp
qed

lemma normalize_dict_value:
  assumes "normalize_json nfc (PDict kvs) \<noteq> None" and "dict_get kvs n = Some v"
  shows "normalize_json nfc v \<noteq> None"
proof -
  have "(n, v) \<in> set kvs" using assms(2) by (rule map_of_SomeD)
  then have "map_option (Pair (nfc n)) (normalize_json nfc v) \<in> set (map (\<lambda>(k, v). map_option (Pair (nfc k)) (normalize_json nfc v)) kvs)"
    by force
  moreover have "those (map (\<lambda>(k, v). map_option (Pair (nfc k)) (normalize_json nfc v)) kvs) \<noteq> None"
    using assms(1) by (auto split: if_splits)
  ultimately have "map_option (Pair (nfc n)) (normalize_json nfc v) \<noteq> None" by (metis those_None_in)
  then show ?thesis by simp
qed

lemma canonical_json_None: "canonical_json L v = None \<longleftrightarrow> normalize_json (hl_nfc L) v = None"
  by (simp add: canonical_json_def)

lemma context_json:
  assumes "nfc_ascii L"
  shows "normalize_json (hl_nfc L) (context_value c) \<noteq> None"
  unfolding context_value_def using assms by (intro normalize_dict) (auto simp: nfc_ascii_def)

lemma fatigue_json: "nfc_ascii L \<Longrightarrow> fatigue_key L plan \<noteq> None"
  unfolding fatigue_key_def fatigue_value_def
  by (auto simp: canonical_json_None simp del: normalize_json.simps intro!: normalize_dict) (auto simp: nfc_ascii_def)

lemma nonce_json: "nfc_ascii L \<Longrightarrow> nonce_key L g \<noteq> None"
  unfolding nonce_key_def nonce_value_def
  by (auto simp: canonical_json_None simp del: normalize_json.simps intro!: normalize_dict) (auto simp: nfc_ascii_def)

lemma plan_json:
  assumes "nfc_ascii L" and "\<forall>a\<in>set (hx_actions plan). canonical_json L (PDict (pc_parameters a)) \<noteq> None"
  shows "plan_canonical L plan \<noteq> None"
proof -
  have a: "normalize_json (hl_nfc L) (action_value a) \<noteq> None" if "a \<in> set (hx_actions plan)" for a
    unfolding action_value_def using assms(1) bspec [OF assms(2) that]
    by (intro normalize_dict) (auto simp: nfc_ascii_def canonical_json_None simp del: normalize_json.simps(3))
  have "normalize_json (hl_nfc L) (PList (map action_value (hx_actions plan))) \<noteq> None"
    using those_not_None [of "map (normalize_json (hl_nfc L)) (map action_value (hx_actions plan))"] a by auto
  moreover have "normalize_json (hl_nfc L) (PDict [(''actor_id'', PStr (aa_actor_id (hx_actor plan))),
      (''subject_id'', PStr (aa_subject_id (hx_actor plan))), (''tenant_id'', PStr (aa_tenant_id (hx_actor plan)))]) \<noteq> None"
    using assms(1) by (intro normalize_dict) (auto simp: nfc_ascii_def)
  moreover note context_json [OF assms(1), of "hx_context plan"]
  ultimately have "normalize_json (hl_nfc L) (plan_value plan) \<noteq> None"
    unfolding plan_value_def using assms(1)
    by (intro normalize_dict) (auto simp: nfc_ascii_def simp del: normalize_json.simps(2,3))
  then show ?thesis by (simp add: plan_canonical_def canonical_json_None)
qed

section \<open>No exception escapes\<close>

lemma render_action_total:
  assumes "canonical_json L (PDict (pc_parameters a)) \<noteq> None"
  shows "render_action L i a p \<noteq> None"
proof -
  have "canonical_json L v \<noteq> None" if "dict_get (pc_parameters a) n = Some v" for n v
    using normalize_dict_value [OF _ that] assms unfolding canonical_json_None by blast
  then have "render_param L a q \<noteq> None" for q
    by (cases "dict_get (pc_parameters a) (pp_name q)") (simp_all add: render_param_def render_value_def)
  then have "those (map (render_param L a) (ap_parameters p)) \<noteq> None" by (intro those_not_None) auto
  then show ?thesis by (auto simp: render_action_def)
qed

lemma preview_actions_total: "preview_actions L pol i as acc \<noteq> None"
proof (induction as arbitrary: i acc)
  case (Cons a as)
  obtain vs ls ims req where acc: "acc = (vs, ls, ims, req)" by (rule prod_cases4)
  show ?case
  proof (cases "dict_get (action_table pol) (pc_action_id a)")
    case p: (Some p)
    show ?thesis
    proof (cases "parameter_finding pol a p = None \<and> canonical_json L (PDict (pc_parameters a)) \<noteq> None")
      case True
      then obtain lines where "render_action L i a p = Some lines" using render_action_total by blast
      then show ?thesis using True p Cons.IH by (auto simp: acc)
    qed (use p in \<open>auto simp: acc split: option.splits\<close>)
  qed (simp add: acc)
qed simp

lemma preview_actions_json:
  "preview_actions L pol i as acc = Some (Inr acc') \<Longrightarrow> a \<in> set as \<Longrightarrow> canonical_json L (PDict (pc_parameters a)) \<noteq> None"
proof (induction as arbitrary: i acc)
  case (Cons b as)
  obtain vs ls ims req where acc: "acc = (vs, ls, ims, req)" by (rule prod_cases4)
  show ?case using Cons by (fastforce simp: acc bind_eq_Some_conv split: option.splits)
qed simp

lemma build_preview_total:
  assumes "nfc_ascii L" and "hx_actions plan \<noteq> []"
  shows "build_preview L pol plan \<noteq> None"
    and "build_preview L pol plan = Some (Inr v) \<Longrightarrow> plan_canonical L plan \<noteq> None"
proof -
  obtain y where y: "preview_actions L pol 1 (hx_actions plan) ([], [], [], False) = Some y"
    using preview_actions_total by blast
  have json: "plan_canonical L plan \<noteq> None" if "y = Inr acc" for acc
    using plan_json [OF assms(1)] preview_actions_json y that by blast
  have "complete_preview L pol plan acc \<noteq> None" if acc: "y = Inr acc" for acc
  proof -
    obtain vs ls ims req where a: "acc = (vs, ls, ims, req)" by (rule prod_cases4)
    obtain ps :: "action_policy list" where "length ps = length (hx_actions plan)" "ims = [] @ map ap_impact ps"
      by (rule preview_actions_Inr [OF y [unfolded acc a]], blast)
    then have "ims \<noteq> []" using assms(2) by auto
    then obtain imp esc where "overall_impact pol ims = Some (imp, esc)" by (simp add: overall_impact_def Let_def)
    moreover obtain d where "hi_plan_digest L plan = Some d" using json [OF acc] by (auto simp: hi_plan_digest_def)
    moreover obtain c where "context_digest L (hx_context plan) = Some c"
      using context_json [OF assms(1), of "hx_context plan"] by (auto simp: context_digest_def canonical_json_def)
    ultimately show ?thesis
      by (simp only: complete_preview_def a Let_def prod.case Option.bind.bind_lunit option.distinct not_False_eq_True)
  qed
  then show "build_preview L pol plan \<noteq> None" using y by (auto simp: build_preview_def split: sum.splits)
  show "plan_canonical L plan \<noteq> None" if "build_preview L pol plan = Some (Inr v)"
    using that y json by (cases y) (auto simp: build_preview_def split: if_splits)
qed

text \<open>
  C33: the gate always answers. Whatever parameters a plan carries, serialisable or not, preparing and authorizing it
  return a result; no exception of the canonical JSON escapes.
\<close>

theorem gate_never_raises:
  assumes "nfc_ascii (hg_lib G)" and "hx_actions plan \<noteq> []"
  shows "prepare G plan now uid r \<noteq> None \<and> hi_authorize G plan grant now uid r \<noteq> None"
proof -
  obtain b where b: "build_preview (hg_lib G) (hg_policy G) plan = Some b"
    using build_preview_total(1) [OF assms] by blast
  show ?thesis
  proof (cases b)
    case (Inl f)
    then show ?thesis using b by (simp add: prepare_def hi_authorize_def)
  next
    case (Inr v)
    obtain json where j: "plan_canonical (hg_lib G) plan = Some json"
      using build_preview_total(2) [OF assms] b Inr by blast
    obtain k where k: "fatigue_key (hg_lib G) plan = Some k" using fatigue_json [OF assms(1)] by blast
    have "use_grant G plan v json g now uid r \<noteq> None" for g
      using nonce_json [OF assms(1), of g] by (auto simp: use_grant_def Let_def split_def split: option.splits)
    then show ?thesis using b Inr j k
      by (auto simp: prepare_def hi_authorize_def Let_def split_def split: option.splits)
  qed
qed

section \<open>Witness\<close>

theorem gate_never_raises_witness:
  "prepare demo_hi_gate demo_hi_plan 10 ''u'' demo_hi_runtime \<noteq> None"
  using gate_never_raises [of demo_hi_gate demo_hi_plan 10 "''u''" demo_hi_runtime]
  by (simp add: demo_hi_gate_def nfc_ascii_def demo_hi_lib_def demo_hi_plan_def)

end
