(* ===== verification/Tenant_Isolation.thy ===== *)
theory Tenant_Isolation
  imports Core_Models
begin

text \<open>
  \<open>tenant_isolation.py\<close> with \<open>models/tenant_isolation.py\<close>: signed tenant contexts, domain-separated storage
  keys and ownership bindings, deployment attestations, the claim store and \<open>TenantIsolationGuard\<close>. Ed25519,
  HMAC, digests and canonical JSON are the fields of \<open>tenant_crypto\<close>. Identifier patterns of the models are
  left out.
\<close>

section \<open>Contexts, rules and keys\<close>

datatype state_kind =
    Prompt_cache | Response_cache | Semantic_cache | Kv_cache | Embedding | Memory_state | Adapter
  | Session_state | Budget_state | Audit_state

datatype state_operation = Op_read | Op_write | Op_cache_hit | Op_adapter_use | Op_restore

datatype isolation_level = Isolation_logical | Isolation_process | Isolation_hardware

datatype tenant_code =
    Tn_allowed | Tn_context_missing | Tn_context_unsigned | Tn_context_key_unknown
  | Tn_context_issuer_mismatch | Tn_context_signature_invalid | Tn_context_expired
  | Tn_state_kind_denied | Tn_operation_denied | Tn_state_key_invalid | Tn_state_key_collision
  | Tn_binding_missing | Tn_binding_invalid | Tn_state_tenant_mismatch | Tn_state_kind_mismatch
  | Tn_cache_hit_cross_tenant | Tn_batch_cross_tenant | Tn_adapter_cross_tenant | Tn_restore_cross_tenant
  | Tn_retention_denied | Tn_attestation_required | Tn_attestation_unsigned | Tn_attestation_key_unknown
  | Tn_attestation_issuer_mismatch | Tn_attestation_signature_invalid | Tn_attestation_expired
  | Tn_attestation_scope_mismatch | Tn_attestation_level_insufficient

fun kind_value :: "state_kind \<Rightarrow> string" where
  "kind_value Prompt_cache = ''prompt_cache''"
| "kind_value Response_cache = ''response_cache''"
| "kind_value Semantic_cache = ''semantic_cache''"
| "kind_value Kv_cache = ''kv_cache''"
| "kind_value Embedding = ''embedding''"
| "kind_value Memory_state = ''memory''"
| "kind_value Adapter = ''adapter''"
| "kind_value Session_state = ''session''"
| "kind_value Budget_state = ''budget''"
| "kind_value Audit_state = ''audit''"

definition all_state_kinds :: "state_kind list" where
  "all_state_kinds = [Prompt_cache, Response_cache, Semantic_cache, Kv_cache, Embedding, Memory_state, Adapter,
     Session_state, Budget_state, Audit_state]"

record tenant_context =
  tx_context_id :: ident
  tx_issuer_id :: ident
  tx_key_id :: string
  tx_tenant_id :: ident
  tx_principal_id :: ident
  tx_session_id :: ident
  tx_allowed_kinds :: "state_kind set"
  tx_issued_at :: datetime
  tx_expires_at :: datetime
  tx_nonce :: ident
  tx_signature :: "string option"

record context_key =
  tk_issuer :: ident
  tk_public :: string
  tk_tenants :: "ident set"
  tk_from :: "datetime option"
  tk_until :: "datetime option"
  tk_is_revoked :: bool

record state_rule =
  sl_kind :: state_kind
  sl_operations :: "state_operation set"
  sl_max_ttl :: int
  sl_level :: isolation_level
  sl_dedicated :: bool

definition state_rule_ok :: "state_rule \<Rightarrow> bool" where
  "state_rule_ok s \<longleftrightarrow> sl_operations s \<noteq> {} \<and> 1 \<le> sl_max_ttl s \<and> sl_max_ttl s \<le> 31536000 \<and>
     \<not> (sl_dedicated s \<and> sl_level s = Isolation_logical)"

record tenant_policy =
  tp_policy_id :: ident
  tp_version :: int
  tp_rules :: "state_rule list"

definition tenant_policy_ok :: "tenant_policy \<Rightarrow> bool" where
  "tenant_policy_ok p \<longleftrightarrow> 1 \<le> tp_version p \<and> list_all state_rule_ok (tp_rules p) \<and> distinct (map sl_kind (tp_rules p)) \<and>
     set (map sl_kind (tp_rules p)) = set all_state_kinds"

definition rule_for :: "tenant_policy \<Rightarrow> state_kind \<Rightarrow> state_rule option" where
  "rule_for p k = find (\<lambda>s. sl_kind s = k) (tp_rules p)"

text \<open>\<open>strict\<close>; \<open>None\<close> where it raises.\<close>

definition strict_rule :: "state_kind set \<Rightarrow> state_kind set \<Rightarrow> state_kind set \<Rightarrow> int \<Rightarrow> state_kind \<Rightarrow> state_rule" where
  "strict_rule proc hw dedicated ttl k =
     \<lparr>sl_kind = k,
      sl_operations = {Op_read, Op_write, Op_restore} \<union>
        (if k \<in> {Prompt_cache, Response_cache, Semantic_cache, Kv_cache} then {Op_cache_hit} else {}) \<union>
        (if k = Adapter then {Op_adapter_use} else {}),
      sl_max_ttl = ttl,
      sl_level = (if k \<in> proc then Isolation_process else if k \<in> hw then Isolation_hardware else Isolation_logical),
      sl_dedicated = (k \<in> dedicated)\<rparr>"

definition strict_policy ::
  "ident \<Rightarrow> int \<Rightarrow> state_kind set \<Rightarrow> state_kind set \<Rightarrow> state_kind set \<Rightarrow> int \<Rightarrow> tenant_policy option" where
  "strict_policy pid version proc hw dedicated ttl =
     (if proc \<inter> hw \<noteq> {} then None
      else if \<not> dedicated \<subseteq> proc \<union> hw then None
      else
        (let p = \<lparr>tp_policy_id = pid, tp_version = version,
               tp_rules = map (strict_rule proc hw dedicated ttl) all_state_kinds\<rparr>
         in if tenant_policy_ok p then Some p else None))"

record state_key =
  sk_storage_key :: string
  sk_namespace_ref :: string
  sk_tenant_ref :: string
  sk_kind :: state_kind
  sk_partition_ref :: string
  sk_artifact_ref :: string
  sk_context_digest :: string

record state_binding =
  sb_storage_key :: string
  sb_owner_digest :: string
  sb_tenant_ref :: string
  sb_kind :: state_kind
  sb_artifact_ref :: string
  sb_context_digest :: string
  sb_created_at :: datetime
  sb_expires_at :: datetime
  sb_tag :: string

record attestation =
  at_attestation_id :: ident
  at_issuer_id :: ident
  at_key_id :: string
  at_deployment_ref :: string
  at_level :: isolation_level
  at_kinds :: "state_kind set"
  at_dedicated :: "string option"
  at_measurement :: string
  at_issued_at :: datetime
  at_expires_at :: datetime
  at_signature :: "string option"

record attestation_key =
  ak_issuer :: ident
  ak_public :: string
  ak_deployments :: "string set"
  ak_from :: "datetime option"
  ak_until :: "datetime option"
  ak_is_revoked :: bool

text \<open>The ownership fields of a key: namespace, tenant, kind, partition and artifact.\<close>

type_synonym key_fields = "string \<times> string \<times> state_kind \<times> string \<times> string"

record 'k tenant_crypto =
  tc_sign :: "'k \<Rightarrow> string \<Rightarrow> string"
  tc_verify :: "string \<Rightarrow> string \<Rightarrow> string \<Rightarrow> bool"
  tc_public :: "'k \<Rightarrow> string"
  tc_context_json :: "tenant_context \<Rightarrow> string"
  tc_attestation_json :: "attestation \<Rightarrow> string"
  tc_key_json :: "key_fields \<Rightarrow> string"
  tc_binding_json :: "state_binding \<Rightarrow> string"
  tc_reference :: "string \<Rightarrow> string"
  tc_context_digest :: "tenant_context \<Rightarrow> string"
  tc_attestation_digest :: "attestation \<Rightarrow> string"
  tc_owner_digest :: "key_fields \<Rightarrow> string"
  tc_access_digest :: "ident \<times> string \<times> string \<times> state_operation \<Rightarrow> string"
  tc_batch_digest :: "ident \<times> string \<times> state_kind \<times> string list \<Rightarrow> string"
  tc_mac :: "string \<Rightarrow> string \<Rightarrow> string \<Rightarrow> string"

record tenant_finding =
  tf_code :: tenant_code
  tf_severity :: severity
  tf_message :: string

definition tn_find :: "tenant_code \<Rightarrow> string \<Rightarrow> tenant_finding" where
  "tn_find c m = \<lparr>tf_code = c, tf_severity = CRITICAL, tf_message = m\<rparr>"

definition tn_find_high :: "tenant_code \<Rightarrow> string \<Rightarrow> tenant_finding" where
  "tn_find_high c m = \<lparr>tf_code = c, tf_severity = HIGH, tf_message = m\<rparr>"

section \<open>Signing and verifying tenant contexts\<close>

definition context_bytes :: "'k tenant_crypto \<Rightarrow> tenant_context \<Rightarrow> string" where
  "context_bytes C c = tc_context_json C (c\<lparr>tx_signature := None\<rparr>)"

definition context_ok :: "tenant_context \<Rightarrow> bool" where
  "context_ok c \<longleftrightarrow> tx_issued_at c < tx_expires_at c \<and> tx_allowed_kinds c \<noteq> {}"

definition context_key_id :: "'k tenant_crypto \<Rightarrow> context_key \<Rightarrow> string" where
  "context_key_id C k = tc_reference C (tk_public k)"

text \<open>A signer is its private key with the issuer and tenants of its trusted key; \<open>None\<close> where \<open>issue\<close> raises.\<close>

definition signer_key :: "'k tenant_crypto \<Rightarrow> 'k \<Rightarrow> ident \<Rightarrow> ident set \<Rightarrow> context_key" where
  "signer_key C sk issuer tenants = \<lparr>tk_issuer = issuer, tk_public = tc_public C sk, tk_tenants = tenants,
     tk_from = None, tk_until = None, tk_is_revoked = False\<rparr>"

definition issue_context ::
  "'k tenant_crypto \<Rightarrow> 'k \<Rightarrow> ident \<Rightarrow> ident set \<Rightarrow> ident \<Rightarrow> ident \<Rightarrow> ident \<Rightarrow> ident \<Rightarrow> state_kind set \<Rightarrow> datetime \<Rightarrow> datetime \<Rightarrow>
   ident \<Rightarrow> tenant_context option" where
  "issue_context C sk issuer tenants cid tenant who session kinds issued expires nonce =
     (let key = signer_key C sk issuer tenants;
          u = \<lparr>tx_context_id = cid, tx_issuer_id = issuer, tx_key_id = context_key_id C key, tx_tenant_id = tenant,
            tx_principal_id = who, tx_session_id = session, tx_allowed_kinds = kinds, tx_issued_at = issued,
            tx_expires_at = expires, tx_nonce = nonce, tx_signature = None\<rparr> in
      if tenant \<notin> tk_tenants key then None
      else if \<not> context_ok u then None
      else Some (u\<lparr>tx_signature := Some (tc_sign C sk (context_bytes C u))\<rparr>))"

definition new_context_keys :: "'k tenant_crypto \<Rightarrow> context_key list \<Rightarrow> (string, context_key) dict option" where
  "new_context_keys C ks = (if \<not> distinct (map (context_key_id C) ks) then None
     else Some (map (\<lambda>k. (context_key_id C k, k)) ks))"

definition tenant_context_findings ::
  "'k tenant_crypto \<Rightarrow> (string, context_key) dict \<Rightarrow> tenant_context \<Rightarrow> datetime \<Rightarrow> tenant_finding list" where
  "tenant_context_findings C keys c now =
     (case tx_signature c of
        None \<Rightarrow> [tn_find Tn_context_unsigned ''Tenant context is unsigned'']
      | Some s \<Rightarrow>
          (case dict_get keys (tx_key_id c) of
             None \<Rightarrow> [tn_find Tn_context_key_unknown ''Tenant context issuer key is unavailable'']
           | Some k \<Rightarrow>
               if tk_is_revoked k then [tn_find Tn_context_key_unknown ''Tenant context issuer key is unavailable'']
               else if tk_issuer k \<noteq> tx_issuer_id c \<or> tx_tenant_id c \<notin> tk_tenants k
                 then [tn_find Tn_context_issuer_mismatch ''Context issuer is not authorized for the tenant'']
               else if (case tk_from k of None \<Rightarrow> False | Some f \<Rightarrow> now < f)
                 then [tn_find Tn_context_key_unknown ''Tenant context issuer key is not active'']
               else if (case tk_until k of None \<Rightarrow> False | Some u \<Rightarrow> u \<le> now)
                 then [tn_find Tn_context_key_unknown ''Tenant context issuer key has expired'']
               else if now < tx_issued_at c \<or> tx_expires_at c \<le> now
                 then [tn_find_high Tn_context_expired ''Tenant context is outside its usable lifetime'']
               else if \<not> tc_verify C (tk_public k) s (context_bytes C c)
                 then [tn_find Tn_context_signature_invalid ''Tenant context signature is invalid'']
               else []))"

section \<open>Storage keys and bindings\<close>

record key_builder =
  kb_secret :: string
  kb_namespace :: string
  kb_namespace_ref :: string

definition mac_reference :: "'k tenant_crypto \<Rightarrow> string \<Rightarrow> string \<Rightarrow> string \<Rightarrow> string" where
  "mac_reference C secret domain v = ''hmac-sha256:'' @ tc_mac C secret domain v"

definition new_key_builder :: "'k tenant_crypto \<Rightarrow> string \<Rightarrow> string \<Rightarrow> key_builder option" where
  "new_key_builder C secret ns = (if length secret < 32 \<or> ns = [] \<or> 256 < length ns then None
     else Some \<lparr>kb_secret = secret, kb_namespace = ns, kb_namespace_ref = mac_reference C secret ''namespace'' ns\<rparr>)"

definition tenant_reference :: "'k tenant_crypto \<Rightarrow> key_builder \<Rightarrow> ident \<Rightarrow> string" where
  "tenant_reference C b tenant = mac_reference C (kb_secret b) ''tenant'' tenant"

definition key_fields_of :: "'k tenant_crypto \<Rightarrow> key_builder \<Rightarrow> ident \<Rightarrow> state_kind \<Rightarrow> string \<Rightarrow> string \<Rightarrow> key_fields" where
  "key_fields_of C b tenant kind artifact part =
     (kb_namespace_ref b, tenant_reference C b tenant, kind, mac_reference C (kb_secret b) ''partition'' part,
      mac_reference C (kb_secret b) ''artifact'' artifact)"

definition build_key ::
  "'k tenant_crypto \<Rightarrow> key_builder \<Rightarrow> tenant_context \<Rightarrow> state_kind \<Rightarrow> string \<Rightarrow> string \<Rightarrow> state_key" where
  "build_key C b c kind artifact part =
     (let fs = key_fields_of C b (tx_tenant_id c) kind artifact part in
      case fs of (ns, t, _, p, a) \<Rightarrow>
        \<lparr>sk_storage_key = ''trustrail:v1:'' @ kind_value kind @ '':'' @ tc_mac C (kb_secret b) ''storage-key'' (tc_key_json C fs),
         sk_namespace_ref = ns, sk_tenant_ref = t, sk_kind = kind, sk_partition_ref = p, sk_artifact_ref = a,
         sk_context_digest = tc_context_digest C c\<rparr>)"

definition owner_digest :: "'k tenant_crypto \<Rightarrow> state_key \<Rightarrow> string" where
  "owner_digest C k = tc_owner_digest C (sk_namespace_ref k, sk_tenant_ref k, sk_kind k, sk_partition_ref k, sk_artifact_ref k)"

definition binding_mac :: "'k tenant_crypto \<Rightarrow> key_builder \<Rightarrow> state_binding \<Rightarrow> string" where
  "binding_mac C b x = tc_mac C (kb_secret b) ''state-binding'' (tc_binding_json C (x\<lparr>sb_tag := []\<rparr>))"

definition bind_key :: "'k tenant_crypto \<Rightarrow> key_builder \<Rightarrow> state_key \<Rightarrow> datetime \<Rightarrow> datetime \<Rightarrow> state_binding" where
  "bind_key C b k created expires =
     (let u = \<lparr>sb_storage_key = sk_storage_key k, sb_owner_digest = owner_digest C k, sb_tenant_ref = sk_tenant_ref k,
            sb_kind = sk_kind k, sb_artifact_ref = sk_artifact_ref k, sb_context_digest = sk_context_digest k,
            sb_created_at = created, sb_expires_at = expires, sb_tag = []\<rparr>
      in u\<lparr>sb_tag := binding_mac C b u\<rparr>)"

definition verify_binding :: "'k tenant_crypto \<Rightarrow> key_builder \<Rightarrow> state_binding \<Rightarrow> bool" where
  "verify_binding C b x \<longleftrightarrow> binding_mac C b x = sb_tag x"

definition same_state_key :: "state_key \<Rightarrow> state_key \<Rightarrow> bool" where
  "same_state_key a e \<longleftrightarrow> sk_storage_key a = sk_storage_key e \<and> sk_namespace_ref a = sk_namespace_ref e \<and>
     sk_tenant_ref a = sk_tenant_ref e \<and> sk_kind a = sk_kind e \<and> sk_partition_ref a = sk_partition_ref e \<and>
     sk_artifact_ref a = sk_artifact_ref e"

section \<open>Deployment attestations\<close>

fun isolation_rank :: "isolation_level \<Rightarrow> nat" where
  "isolation_rank Isolation_logical = 0"
| "isolation_rank Isolation_process = 1"
| "isolation_rank Isolation_hardware = 2"

definition attestation_bytes :: "'k tenant_crypto \<Rightarrow> attestation \<Rightarrow> string" where
  "attestation_bytes C a = tc_attestation_json C (a\<lparr>at_signature := None\<rparr>)"

definition attestation_ok :: "attestation \<Rightarrow> bool" where
  "attestation_ok a \<longleftrightarrow> at_issued_at a < at_expires_at a \<and> at_kinds a \<noteq> {}"

definition attestation_key_id :: "'k tenant_crypto \<Rightarrow> attestation_key \<Rightarrow> string" where
  "attestation_key_id C k = tc_reference C (ak_public k)"

definition attestor_key :: "'k tenant_crypto \<Rightarrow> 'k \<Rightarrow> ident \<Rightarrow> string set \<Rightarrow> attestation_key" where
  "attestor_key C sk issuer deployments = \<lparr>ak_issuer = issuer, ak_public = tc_public C sk,
     ak_deployments = tc_reference C ` deployments, ak_from = None, ak_until = None, ak_is_revoked = False\<rparr>"

definition issue_attestation ::
  "'k tenant_crypto \<Rightarrow> 'k \<Rightarrow> ident \<Rightarrow> string set \<Rightarrow> ident \<Rightarrow> string \<Rightarrow> isolation_level \<Rightarrow> state_kind set \<Rightarrow> string \<Rightarrow> datetime \<Rightarrow>
   datetime \<Rightarrow> string option \<Rightarrow> attestation option" where
  "issue_attestation C sk issuer deployments aid deployment level kinds measurement issued expires dedicated =
     (let key = attestor_key C sk issuer deployments; ref = tc_reference C deployment;
          u = \<lparr>at_attestation_id = aid, at_issuer_id = issuer, at_key_id = attestation_key_id C key, at_deployment_ref = ref,
            at_level = level, at_kinds = kinds, at_dedicated = dedicated, at_measurement = measurement,
            at_issued_at = issued, at_expires_at = expires, at_signature = None\<rparr> in
      if ref \<notin> ak_deployments key then None
      else if \<not> attestation_ok u then None
      else Some (u\<lparr>at_signature := Some (tc_sign C sk (attestation_bytes C u))\<rparr>))"

definition new_attestation_keys :: "'k tenant_crypto \<Rightarrow> attestation_key list \<Rightarrow> (string, attestation_key) dict option" where
  "new_attestation_keys C ks = (if \<not> distinct (map (attestation_key_id C) ks) then None
     else Some (map (\<lambda>k. (attestation_key_id C k, k)) ks))"

definition attestation_claim_findings ::
  "'k tenant_crypto \<Rightarrow> (string, attestation_key) dict \<Rightarrow> attestation \<Rightarrow> string \<Rightarrow> state_kind \<Rightarrow> isolation_level \<Rightarrow> string option \<Rightarrow>
   datetime \<Rightarrow> tenant_finding list" where
  "attestation_claim_findings C keys a deployment kind level tenant_ref now =
     (case at_signature a of
        None \<Rightarrow> [tn_find Tn_attestation_unsigned ''Deployment isolation attestation is unsigned'']
      | Some s \<Rightarrow>
          (case dict_get keys (at_key_id a) of
             None \<Rightarrow> [tn_find Tn_attestation_key_unknown ''Deployment attestation key is unavailable'']
           | Some k \<Rightarrow>
               if ak_is_revoked k then [tn_find Tn_attestation_key_unknown ''Deployment attestation key is unavailable'']
               else if ak_issuer k \<noteq> at_issuer_id a \<or> at_deployment_ref a \<notin> ak_deployments k
                 then [tn_find Tn_attestation_issuer_mismatch ''Attestor is not authorized for the claimed deployment'']
               else if (case ak_from k of None \<Rightarrow> False | Some f \<Rightarrow> now < f)
                 then [tn_find Tn_attestation_key_unknown ''Deployment attestation key is not active'']
               else if (case ak_until k of None \<Rightarrow> False | Some u \<Rightarrow> u \<le> now)
                 then [tn_find Tn_attestation_key_unknown ''Deployment attestation key has expired'']
               else if now < at_issued_at a \<or> at_expires_at a \<le> now
                 then [tn_find_high Tn_attestation_expired ''Deployment isolation attestation is outside its usable lifetime'']
               else if \<not> tc_verify C (ak_public k) s (attestation_bytes C a)
                 then [tn_find Tn_attestation_signature_invalid ''Deployment isolation attestation signature is invalid'']
               else if at_deployment_ref a \<noteq> tc_reference C deployment \<or> kind \<notin> at_kinds a \<or>
                   (tenant_ref \<noteq> None \<and> at_dedicated a \<noteq> tenant_ref)
                 then [tn_find Tn_attestation_scope_mismatch ''Deployment attestation does not cover the requested tenant state'']
               else if isolation_rank (at_level a) < isolation_rank level
                 then [tn_find_high Tn_attestation_level_insufficient ''Claimed deployment isolation is weaker than policy requires'']
               else []))"

end
