(* ===== verification/Tenant_Guard.thy ===== *)
theory Tenant_Guard
  imports Tenant_Isolation
begin

text \<open>
  The claim store and \<open>TenantIsolationGuard\<close> of \<open>tenant_isolation.py\<close>: mediation of every state operation and
  of inference batches.
\<close>

section \<open>Requests, permits and decisions\<close>

record state_request =
  sq_request_id :: ident
  sq_context :: "tenant_context option"
  sq_kind :: state_kind
  sq_operation :: state_operation
  sq_artifact_id :: string
  sq_partition_id :: string
  sq_state_key :: "state_key option"
  sq_binding :: "state_binding option"
  sq_expires_at :: "datetime option"
  sq_deployment_id :: "string option"
  sq_attestation :: "attestation option"

record batch_request =
  bq_request_id :: ident
  bq_contexts :: "tenant_context list"
  bq_kind :: state_kind
  bq_deployment_id :: "string option"
  bq_attestation :: "attestation option"

record access_permit =
  ac_permit_id :: string
  ac_context_digest :: string
  ac_tenant_ref :: string
  ac_kind :: state_kind
  ac_operation :: state_operation
  ac_storage_key :: string
  ac_binding :: "state_binding option"

record batch_permit =
  bp_permit_id :: string
  bp_tenant_ref :: string
  bp_kind :: state_kind
  bp_context_digests :: "string list"

record attestation_evidence =
  ev_digest :: string
  ev_deployment_ref :: string
  ev_level :: isolation_level

record tenant_audit =
  ta_occurred_at :: datetime
  ta_action :: guard_action
  ta_code :: tenant_code
  ta_request_ref :: string
  ta_tenant_ref :: "string option"
  ta_kind :: state_kind
  ta_operation :: "state_operation option"
  ta_key_ref :: "string option"
  ta_attestation_ref :: "string option"

record tenant_decision =
  td_action :: guard_action
  td_findings :: "tenant_finding list"
  td_access :: "access_permit option"
  td_batch :: "batch_permit option"
  td_evidence :: "attestation_evidence option"
  td_audit :: tenant_audit

definition td_is_allowed :: "tenant_decision \<Rightarrow> bool" where
  "td_is_allowed d \<longleftrightarrow> td_action d = ALLOW"

section \<open>The guard's state\<close>

record 'k tenant_guard =
  gt_crypto :: "'k tenant_crypto"
  gt_policy :: tenant_policy
  gt_builder :: key_builder
  gt_context_keys :: "(string, context_key) dict"
  gt_attestation_keys :: "(string, attestation_key) dict"

record tenant_runtime =
  rt_owners :: "(string, string) dict"
  rt_sink :: "(nat \<times> tenant_audit list) option"

definition claim_key :: "string \<Rightarrow> string \<Rightarrow> (string, string) dict \<Rightarrow> bool \<times> (string, string) dict" where
  "claim_key key who owners =
     (case dict_get owners key of
        Some w \<Rightarrow> if w \<noteq> who then (False, owners) else (True, dict_set owners key who)
      | None \<Rightarrow> (True, dict_set owners key who))"

definition tenant_publish :: "tenant_audit \<Rightarrow> tenant_runtime \<Rightarrow> tenant_runtime" where
  "tenant_publish e r = r\<lparr>rt_sink := map_option (\<lambda>(n, evs). (n, deque_append n evs e)) (rt_sink r)\<rparr>"

text \<open>\<open>_deduplicate\<close> keeps the first finding of every code.\<close>

fun dedup_codes :: "tenant_finding list \<Rightarrow> tenant_finding list" where
  "dedup_codes [] = []"
| "dedup_codes (f # fs) = f # dedup_codes (filter (\<lambda>g. tf_code g \<noteq> tf_code f) fs)"

definition is_attestation_code :: "tenant_code \<Rightarrow> bool" where
  "is_attestation_code c \<longleftrightarrow> c \<in> {Tn_attestation_required, Tn_attestation_unsigned, Tn_attestation_key_unknown,
     Tn_attestation_issuer_mismatch, Tn_attestation_signature_invalid, Tn_attestation_expired,
     Tn_attestation_scope_mismatch, Tn_attestation_level_insufficient}"

definition evidence_of :: "'k tenant_crypto \<Rightarrow> attestation option \<Rightarrow> tenant_finding list \<Rightarrow> attestation_evidence option" where
  "evidence_of C a fs =
     (case a of
        None \<Rightarrow> None
      | Some a \<Rightarrow> if list_ex (\<lambda>f. is_attestation_code (tf_code f)) fs then None
          else Some \<lparr>ev_digest = tc_attestation_digest C a, ev_deployment_ref = at_deployment_ref a, ev_level = at_level a\<rparr>)"

definition mismatch_finding :: "state_operation \<Rightarrow> tenant_finding" where
  "mismatch_finding op = (case op of
     Op_cache_hit \<Rightarrow> tn_find Tn_cache_hit_cross_tenant ''Cache hit belongs to a different tenant''
   | Op_adapter_use \<Rightarrow> tn_find Tn_adapter_cross_tenant ''Adapter belongs to a different tenant''
   | Op_restore \<Rightarrow> tn_find Tn_restore_cross_tenant ''Restored state belongs to a different tenant''
   | _ \<Rightarrow> tn_find Tn_state_tenant_mismatch ''Stored state belongs to a different tenant'')"

definition retention_findings :: "state_request \<Rightarrow> int \<Rightarrow> datetime \<Rightarrow> tenant_finding list" where
  "retention_findings q ttl now =
     (case sq_expires_at q of
        None \<Rightarrow> [tn_find_high Tn_retention_denied ''State lifetime must be positive and bounded by isolation policy'']
      | Some x \<Rightarrow> if x \<le> now \<or> td_seconds ttl < x - now
          then [tn_find_high Tn_retention_denied ''State lifetime must be positive and bounded by isolation policy'']
          else [])"

definition observed_findings :: "'k tenant_guard \<Rightarrow> state_request \<Rightarrow> state_key \<Rightarrow> datetime \<Rightarrow> tenant_finding list" where
  "observed_findings G q key now =
     (case sq_binding q of
        None \<Rightarrow> [tn_find Tn_binding_missing ''Stored tenant ownership metadata is required'']
      | Some b \<Rightarrow>
          (if \<not> verify_binding (gt_crypto G) (gt_builder G) b \<or> sb_expires_at b \<le> now
             then [tn_find Tn_binding_invalid ''Stored tenant ownership metadata is invalid or expired''] else []) @
          (if sb_tenant_ref b \<noteq> sk_tenant_ref key then [mismatch_finding (sq_operation q)] else []) @
          (if sb_kind b \<noteq> sq_kind q
             then [tn_find Tn_state_kind_mismatch ''Stored value belongs to a different state category''] else []) @
          (if sb_storage_key b \<noteq> sk_storage_key key \<or> sb_owner_digest b \<noteq> owner_digest (gt_crypto G) key \<or>
              sb_artifact_ref b \<noteq> sk_artifact_ref key
             then [tn_find Tn_binding_invalid ''Stored ownership metadata does not match the requested state key''] else []))"

definition attestation_findings ::
  "'k tenant_guard \<Rightarrow> state_rule \<Rightarrow> state_kind \<Rightarrow> tenant_context \<Rightarrow> string option \<Rightarrow> attestation option \<Rightarrow> datetime \<Rightarrow>
   tenant_finding list" where
  "attestation_findings G s kind c deployment a now =
     (case a of
        None \<Rightarrow> if sl_level s \<noteq> Isolation_logical
          then [tn_find_high Tn_attestation_required ''Policy requires a deployment isolation attestation''] else []
      | Some a \<Rightarrow>
          (case deployment of
             None \<Rightarrow> [tn_find Tn_attestation_scope_mismatch ''An attestation requires an exact deployment identifier'']
           | Some d \<Rightarrow> attestation_claim_findings (gt_crypto G) (gt_attestation_keys G) a d kind (sl_level s)
               (if sl_dedicated s then Some (tenant_reference (gt_crypto G) (gt_builder G) (tx_tenant_id c)) else None) now))"

section \<open>State operations\<close>

definition expected_key :: "'k tenant_guard \<Rightarrow> tenant_context \<Rightarrow> state_request \<Rightarrow> state_key" where
  "expected_key G c q = build_key (gt_crypto G) (gt_builder G) c (sq_kind q) (sq_artifact_id q) (sq_partition_id q)"

text \<open>The findings before the key is claimed; \<open>None\<close> where \<open>rule_for\<close> raises.\<close>

definition state_findings_of ::
  "'k tenant_guard \<Rightarrow> tenant_context \<Rightarrow> state_request \<Rightarrow> datetime \<Rightarrow> (tenant_finding list \<times> attestation_evidence option) option" where
  "state_findings_of G c q now =
     (let C = gt_crypto G; key = expected_key G c q in
      case rule_for (gt_policy G) (sq_kind q) of
        None \<Rightarrow> None
      | Some s \<Rightarrow>
          let fs = tenant_context_findings C (gt_context_keys G) c now @
               (if sq_kind q \<notin> tx_allowed_kinds c
                  then [tn_find_high Tn_state_kind_denied ''Tenant context does not authorize this state category''] else []) @
               (if sq_operation q \<notin> sl_operations s
                  then [tn_find_high Tn_operation_denied ''Isolation policy does not authorize this state operation''] else []) @
               (case sq_state_key q of
                  None \<Rightarrow> [tn_find Tn_state_key_invalid ''State key is not bound to the authenticated tenant and artifact'']
                | Some k \<Rightarrow> if \<not> same_state_key k key
                    then [tn_find Tn_state_key_invalid ''State key is not bound to the authenticated tenant and artifact'']
                    else []) @
               attestation_findings G s (sq_kind q) c (sq_deployment_id q) (sq_attestation q) now in
          Some (fs @ (if sq_operation q = Op_write then retention_findings q (sl_max_ttl s) now else observed_findings G q key now),
                evidence_of C (sq_attestation q) fs))"

definition state_decision ::
  "'k tenant_guard \<Rightarrow> state_request \<Rightarrow> access_permit option \<Rightarrow> tenant_finding list \<Rightarrow> attestation_evidence option \<Rightarrow>
   datetime \<Rightarrow> tenant_runtime \<Rightarrow> tenant_decision \<times> tenant_runtime" where
  "state_decision G q permit fs evidence now r =
     (let C = gt_crypto G; action = (if permit \<noteq> None then ALLOW else BLOCK);
          audit = \<lparr>ta_occurred_at = now, ta_action = action,
            ta_code = (if permit \<noteq> None then Tn_allowed else tf_code (hd fs)), ta_request_ref = tc_reference C (sq_request_id q),
            ta_tenant_ref = (case permit of Some p \<Rightarrow> Some (ac_tenant_ref p)
              | None \<Rightarrow> map_option (\<lambda>c. tenant_reference C (gt_builder G) (tx_tenant_id c)) (sq_context q)),
            ta_kind = sq_kind q, ta_operation = Some (sq_operation q),
            ta_key_ref = map_option (\<lambda>k. tc_reference C (sk_storage_key k)) (sq_state_key q),
            ta_attestation_ref = map_option (\<lambda>a. tc_reference C (tc_attestation_digest C a)) (sq_attestation q)\<rparr> in
      (\<lparr>td_action = action, td_findings = dedup_codes fs, td_access = permit, td_batch = None, td_evidence = evidence,
        td_audit = audit\<rparr>, tenant_publish audit r))"

definition access_permit_of :: "'k tenant_guard \<Rightarrow> tenant_context \<Rightarrow> state_request \<Rightarrow> state_binding option \<Rightarrow> access_permit" where
  "access_permit_of G c q b =
     (let C = gt_crypto G; key = expected_key G c q; digest = tc_context_digest C c in
      \<lparr>ac_permit_id = tc_access_digest C (sq_request_id q, digest, sk_storage_key key, sq_operation q),
       ac_context_digest = digest, ac_tenant_ref = sk_tenant_ref key, ac_kind = sq_kind q, ac_operation = sq_operation q,
       ac_storage_key = sk_storage_key key, ac_binding = b\<rparr>)"

definition authorize_state ::
  "'k tenant_guard \<Rightarrow> state_request \<Rightarrow> datetime \<Rightarrow> tenant_runtime \<Rightarrow> (tenant_decision \<times> tenant_runtime) option" where
  "authorize_state G q now r =
     (case sq_context q of
        None \<Rightarrow> Some (state_decision G q None
          [tn_find Tn_context_missing ''Tenant-owned state requires a trusted tenant context''] None now r)
      | Some c \<Rightarrow>
          (case state_findings_of G c q now of
             None \<Rightarrow> None
           | Some (fs, evidence) \<Rightarrow>
               if fs \<noteq> [] then Some (state_decision G q None fs evidence now r)
               else if sq_operation q \<noteq> Op_write
                 then Some (state_decision G q (Some (access_permit_of G c q None)) [] evidence now r)
               else
                 (let key = expected_key G c q;
                      (ok, owners) = claim_key (sk_storage_key key) (owner_digest (gt_crypto G) key) (rt_owners r) in
                  if \<not> ok then Some (state_decision G q None
                    [tn_find Tn_state_key_collision ''State key is already claimed by different ownership metadata''] evidence now r)
                  else (case sq_expires_at q of
                      None \<Rightarrow> None
                    | Some x \<Rightarrow> Some (state_decision G q
                        (Some (access_permit_of G c q (Some (bind_key (gt_crypto G) (gt_builder G) key now x))))
                        [] evidence now (r\<lparr>rt_owners := owners\<rparr>))))))"

definition require_state ::
  "'k tenant_guard \<Rightarrow> state_request \<Rightarrow> datetime \<Rightarrow> tenant_runtime \<Rightarrow> ((tenant_decision + access_permit) \<times> tenant_runtime) option" where
  "require_state G q now r = map_option (\<lambda>(d, r').
     (case td_access d of Some p \<Rightarrow> (if td_is_allowed d then Inr p else Inl d) | None \<Rightarrow> Inl d, r')) (authorize_state G q now r)"

section \<open>Batches\<close>

definition batch_findings ::
  "'k tenant_guard \<Rightarrow> batch_request \<Rightarrow> datetime \<Rightarrow> tenant_finding list option" where
  "batch_findings G q now =
     (case (bq_contexts q, rule_for (gt_policy G) (bq_kind q)) of
        (c # _, Some s) \<Rightarrow> Some (
          concat (map (\<lambda>c. tenant_context_findings (gt_crypto G) (gt_context_keys G) c now @
            (if bq_kind q \<notin> tx_allowed_kinds c
               then [tn_find_high Tn_state_kind_denied ''A batch context does not authorize the requested state category'']
               else [])) (bq_contexts q)) @
          (if card (tx_tenant_id ` set (bq_contexts q)) \<noteq> 1
             then [tn_find Tn_batch_cross_tenant ''Inference batch combines more than one tenant''] else []) @
          attestation_findings G s (bq_kind q) c (bq_deployment_id q) (bq_attestation q) now)
      | _ \<Rightarrow> None)"

definition authorize_batch ::
  "'k tenant_guard \<Rightarrow> batch_request \<Rightarrow> datetime \<Rightarrow> tenant_runtime \<Rightarrow> (tenant_decision \<times> tenant_runtime) option" where
  "authorize_batch G q now r =
     (case batch_findings G q now of
        None \<Rightarrow> None
      | Some fs \<Rightarrow>
          (let C = gt_crypto G; tenant_ref = tenant_reference C (gt_builder G) (tx_tenant_id (hd (bq_contexts q)));
               digests = map (tc_context_digest C) (bq_contexts q);
               permit = (if fs \<noteq> [] then None else Some
                 \<lparr>bp_permit_id = tc_batch_digest C (bq_request_id q, tenant_ref, bq_kind q, digests),
                  bp_tenant_ref = tenant_ref, bp_kind = bq_kind q, bp_context_digests = digests\<rparr>);
               action = (if permit \<noteq> None then ALLOW else BLOCK);
               audit = \<lparr>ta_occurred_at = now, ta_action = action,
                 ta_code = (if permit \<noteq> None then Tn_allowed else tf_code (hd fs)), ta_request_ref = tc_reference C (bq_request_id q),
                 ta_tenant_ref = (if card (tx_tenant_id ` set (bq_contexts q)) = 1 then Some tenant_ref else None),
                 ta_kind = bq_kind q, ta_operation = None, ta_key_ref = None,
                 ta_attestation_ref = map_option (\<lambda>a. tc_reference C (tc_attestation_digest C a)) (bq_attestation q)\<rparr> in
           Some (\<lparr>td_action = action, td_findings = dedup_codes fs, td_access = None, td_batch = permit,
               td_evidence = evidence_of C (bq_attestation q) fs, td_audit = audit\<rparr>, tenant_publish audit r)))"

definition require_batch ::
  "'k tenant_guard \<Rightarrow> batch_request \<Rightarrow> datetime \<Rightarrow> tenant_runtime \<Rightarrow> ((tenant_decision + batch_permit) \<times> tenant_runtime) option" where
  "require_batch G q now r = map_option (\<lambda>(d, r').
     (case td_batch d of Some p \<Rightarrow> (if td_is_allowed d then Inr p else Inl d) | None \<Rightarrow> Inl d, r')) (authorize_batch G q now r)"

end
