(* ===== verification/Tenant_Properties.thy ===== *)
theory Tenant_Properties
  imports Tenant_Guard
begin

text \<open>
  Properties of the tenant guard: what an allowed operation or batch implies, that the keys of different owners
  differ and stay with their owner, that a value is read back only by the tenant it was written for, and that
  what is written can be read.
\<close>

section \<open>Allowed operations\<close>

lemma tenant_context_findings_Nil:
  assumes "tenant_context_findings C keys c now = []"
  obtains s k where "tx_signature c = Some s" "dict_get keys (tx_key_id c) = Some k" "\<not> tk_is_revoked k"
    "tk_issuer k = tx_issuer_id c" "tx_tenant_id c \<in> tk_tenants k" "tx_issued_at c \<le> now" "now < tx_expires_at c"
    "\<forall>f. tk_from k = Some f \<longrightarrow> f \<le> now" "\<forall>u. tk_until k = Some u \<longrightarrow> now < u"
    "tc_verify C (tk_public k) s (context_bytes C c)"
  using assms by (auto simp: tenant_context_findings_def split: option.splits if_splits)

lemma attestation_claim_findings_Nil:
  assumes "attestation_claim_findings C keys a deployment kind level tenant_ref now = []"
  obtains s k where "at_signature a = Some s" "dict_get keys (at_key_id a) = Some k" "\<not> ak_is_revoked k"
    "\<forall>f. ak_from k = Some f \<longrightarrow> f \<le> now" "\<forall>u. ak_until k = Some u \<longrightarrow> now < u"
    "ak_issuer k = at_issuer_id a" "at_deployment_ref a \<in> ak_deployments k" "at_issued_at a \<le> now" "now < at_expires_at a"
    "tc_verify C (ak_public k) s (attestation_bytes C a)" "at_deployment_ref a = tc_reference C deployment"
    "kind \<in> at_kinds a" "tenant_ref \<noteq> None \<longrightarrow> at_dedicated a = tenant_ref" "isolation_rank level \<le> isolation_rank (at_level a)"
  using assms by (auto simp: attestation_claim_findings_def split: option.splits if_splits)

lemma state_decision_simps [simp]:
  "td_access (fst (state_decision G q p fs e now r)) = p"
  "td_action (fst (state_decision G q p fs e now r)) = (if p \<noteq> None then ALLOW else BLOCK)"
  "td_findings (fst (state_decision G q p fs e now r)) = dedup_codes fs"
  "rt_owners (snd (state_decision G q p fs e now r)) = rt_owners r"
  by (simp_all add: state_decision_def tenant_publish_def Let_def)

text \<open>The two ways in which a state operation is allowed.\<close>

lemma authorize_state_ALLOW:
  assumes "authorize_state G q now r = Some (d, r')" and "td_action d = ALLOW"
  obtains (Use) c evidence where "sq_context q = Some c" "state_findings_of G c q now = Some ([], evidence)"
      "sq_operation q \<noteq> Op_write" "td_access d = Some (access_permit_of G c q None)" "rt_owners r' = rt_owners r"
  | (Write) c evidence x owners where "sq_context q = Some c" "state_findings_of G c q now = Some ([], evidence)"
      "sq_operation q = Op_write" "sq_expires_at q = Some x"
      "claim_key (sk_storage_key (expected_key G c q)) (owner_digest (gt_crypto G) (expected_key G c q)) (rt_owners r) = (True, owners)"
      "rt_owners r' = owners"
      "td_access d = Some (access_permit_of G c q (Some (bind_key (gt_crypto G) (gt_builder G) (expected_key G c q) now x)))"
proof -
  obtain c where c: "sq_context q = Some c"
    using assms by (cases "sq_context q") (auto simp: authorize_state_def state_decision_def Let_def)
  obtain fs evidence where f: "state_findings_of G c q now = Some (fs, evidence)"
    using assms(1) by (auto simp: authorize_state_def c split: option.splits)
  have nil: "fs = []" using assms by (auto simp: authorize_state_def c f state_decision_def Let_def split: if_splits)
  show thesis
  proof (cases "sq_operation q = Op_write")
    case False
    then have "(d, r') = state_decision G q (Some (access_permit_of G c q None)) [] evidence now r"
      using assms(1) by (simp add: authorize_state_def c f nil)
    then have "td_access d = Some (access_permit_of G c q None)" "rt_owners r' = rt_owners r"
      by (metis fst_conv state_decision_simps(1), metis snd_conv state_decision_simps(4))
    then show thesis using Use c f nil False by blast
  next
    case True
    obtain ok owners where cl: "claim_key (sk_storage_key (expected_key G c q)) (owner_digest (gt_crypto G) (expected_key G c q)) (rt_owners r) = (ok, owners)"
      by fastforce
    have ok: ok using assms by (auto simp: authorize_state_def c f nil True cl state_decision_def Let_def split: if_splits)
    obtain x where x: "sq_expires_at q = Some x"
      using assms(1) ok by (auto simp: authorize_state_def c f nil True cl Let_def split: option.splits)
    have "(d, r') = state_decision G q
        (Some (access_permit_of G c q (Some (bind_key (gt_crypto G) (gt_builder G) (expected_key G c q) now x)))) [] evidence now (r\<lparr>rt_owners := owners\<rparr>)"
      using assms(1) by (simp add: authorize_state_def c f nil True cl ok x Let_def)
    then have "td_access d = Some (access_permit_of G c q (Some (bind_key (gt_crypto G) (gt_builder G) (expected_key G c q) now x)))"
        "rt_owners r' = owners"
      by (metis fst_conv state_decision_simps(1), metis snd_conv state_decision_simps(4) tenant_runtime.select_convs(1) tenant_runtime.surjective tenant_runtime.update_convs(1))
    then show thesis using Write c f nil True x cl ok by simp
  qed
qed

lemma state_findings_of_Nil:
  assumes "state_findings_of G c q now = Some ([], evidence)"
  obtains s k where "rule_for (gt_policy G) (sq_kind q) = Some s" "tenant_context_findings (gt_crypto G) (gt_context_keys G) c now = []"
    "sq_kind q \<in> tx_allowed_kinds c" "sq_operation q \<in> sl_operations s" "sq_state_key q = Some k" "same_state_key k (expected_key G c q)"
    "attestation_findings G s (sq_kind q) c (sq_deployment_id q) (sq_attestation q) now = []"
    "sq_operation q = Op_write \<longrightarrow> retention_findings q (sl_max_ttl s) now = []"
    "sq_operation q \<noteq> Op_write \<longrightarrow> observed_findings G q (expected_key G c q) now = []"
proof -
  obtain s where s: "rule_for (gt_policy G) (sq_kind q) = Some s"
    using assms by (auto simp: state_findings_of_def Let_def split: option.splits)
  obtain k where "sq_state_key q = Some k" using assms s by (cases "sq_state_key q") (auto simp: state_findings_of_def Let_def)
  then show thesis using assms s that by (auto simp: state_findings_of_def Let_def split: if_splits)
qed

lemma same_state_key_eq: "same_state_key a e \<Longrightarrow> a\<lparr>sk_context_digest := x\<rparr> = e\<lparr>sk_context_digest := x\<rparr>"
  by (cases a, cases e) (simp add: same_state_key_def)

text \<open>
  An attestation is verified for a deployment, a kind of state and a level: it is signed, over all other fields, under a
  registered key that is unrevoked and active and whose issuer may speak for the deployment; it is within its lifetime, is about
  this deployment and this kind, and claims at least the level, for the given tenant alone if one is given.
\<close>

definition attestation_verified ::
  "'k tenant_crypto \<Rightarrow> (string, attestation_key) dict \<Rightarrow> attestation \<Rightarrow> string \<Rightarrow> state_kind \<Rightarrow> isolation_level \<Rightarrow> string option \<Rightarrow>
   datetime \<Rightarrow> bool" where
  "attestation_verified C keys a dep kind level dedicated now \<longleftrightarrow> (\<exists>k sg.
     at_signature a = Some sg \<and> dict_get keys (at_key_id a) = Some k \<and> \<not> ak_is_revoked k \<and>
     (\<forall>f. ak_from k = Some f \<longrightarrow> f \<le> now) \<and> (\<forall>u. ak_until k = Some u \<longrightarrow> now < u) \<and>
     ak_issuer k = at_issuer_id a \<and> at_deployment_ref a \<in> ak_deployments k \<and>
     tc_verify C (ak_public k) sg (tc_attestation_json C (a\<lparr>at_signature := None\<rparr>)) \<and>
     at_issued_at a \<le> now \<and> now < at_expires_at a \<and>
     at_deployment_ref a = tc_reference C dep \<and> kind \<in> at_kinds a \<and>
     isolation_rank level \<le> isolation_rank (at_level a) \<and> (dedicated \<noteq> None \<longrightarrow> at_dedicated a = dedicated))"

lemma attestation_claim_verified:
  "attestation_claim_findings C keys a dep kind level dedicated now = [] \<Longrightarrow>
   attestation_verified C keys a dep kind level dedicated now"
  by (erule attestation_claim_findings_Nil) (auto simp: attestation_verified_def attestation_bytes_def)

text \<open>
  C18: tenant state is touched only under verified authority. If an operation is allowed, its context was signed, over all
  its other fields, under a registered key that is unrevoked and within its period of validity and whose issuer may speak for that
  tenant; the context is current and grants the kind of state; the policy
  allows the operation; the key presented is, apart from the digest of the context, the one derived from the context's tenant and
  the requested kind, artifact and partition; and if the policy demands process or hardware isolation, the request names its deployment and carries an attestation that is
  verified for it: signed under an unrevoked, active key registered for an issuer that may speak for this deployment,
  within its lifetime, about this deployment and kind of state, and claiming at least the demanded level, for
  this tenant alone when it must be dedicated.
\<close>

theorem allowed_state_is_authorized:
  assumes "authorize_state G q now r = Some (d, r')" and "td_action d = ALLOW"
  shows "\<exists>c s k key sg. sq_context q = Some c \<and> tx_signature c = Some sg \<and>
    dict_get (gt_context_keys G) (tx_key_id c) = Some k \<and> \<not> tk_is_revoked k \<and>
    (\<forall>f. tk_from k = Some f \<longrightarrow> f \<le> now) \<and> (\<forall>u. tk_until k = Some u \<longrightarrow> now < u) \<and> tk_issuer k = tx_issuer_id c \<and>
    tx_tenant_id c \<in> tk_tenants k \<and>
    tc_verify (gt_crypto G) (tk_public k) sg (tc_context_json (gt_crypto G) (c\<lparr>tx_signature := None\<rparr>)) \<and>
    tx_issued_at c \<le> now \<and> now < tx_expires_at c \<and> sq_kind q \<in> tx_allowed_kinds c \<and>
    rule_for (gt_policy G) (sq_kind q) = Some s \<and> sq_operation q \<in> sl_operations s \<and>
    sq_state_key q = Some key \<and> key\<lparr>sk_context_digest := []\<rparr> =
      (build_key (gt_crypto G) (gt_builder G) c (sq_kind q) (sq_artifact_id q) (sq_partition_id q))\<lparr>sk_context_digest := []\<rparr> \<and>
    (sl_level s \<noteq> Isolation_logical \<longrightarrow> (\<exists>a dep. sq_attestation q = Some a \<and> sq_deployment_id q = Some dep \<and>
       attestation_verified (gt_crypto G) (gt_attestation_keys G) a dep (sq_kind q) (sl_level s)
         (if sl_dedicated s then Some (tenant_reference (gt_crypto G) (gt_builder G) (tx_tenant_id c)) else None) now))"
proof -
  obtain c evidence where c: "sq_context q = Some c" "state_findings_of G c q now = Some ([], evidence)"
    by (rule authorize_state_ALLOW [OF assms]) blast+
  obtain s key where s: "rule_for (gt_policy G) (sq_kind q) = Some s" "sq_kind q \<in> tx_allowed_kinds c" "sq_operation q \<in> sl_operations s"
      "sq_state_key q = Some key" "same_state_key key (expected_key G c q)"
    and cf: "tenant_context_findings (gt_crypto G) (gt_context_keys G) c now = []"
    and af: "attestation_findings G s (sq_kind q) c (sq_deployment_id q) (sq_attestation q) now = []"
    by (rule state_findings_of_Nil [OF c(2)]) blast
  have level: "\<exists>a dep. sq_attestation q = Some a \<and> sq_deployment_id q = Some dep \<and>
       attestation_verified (gt_crypto G) (gt_attestation_keys G) a dep (sq_kind q) (sl_level s)
         (if sl_dedicated s then Some (tenant_reference (gt_crypto G) (gt_builder G) (tx_tenant_id c)) else None) now"
    if lvl: "sl_level s \<noteq> Isolation_logical"
  proof -
    obtain a where a: "sq_attestation q = Some a" using af lvl by (cases "sq_attestation q") (auto simp: attestation_findings_def)
    obtain dep where d: "sq_deployment_id q = Some dep" using af a by (cases "sq_deployment_id q") (auto simp: attestation_findings_def)
    have "attestation_claim_findings (gt_crypto G) (gt_attestation_keys G) a dep (sq_kind q) (sl_level s)
        (if sl_dedicated s then Some (tenant_reference (gt_crypto G) (gt_builder G) (tx_tenant_id c)) else None) now = []"
      using af by (simp add: attestation_findings_def a d)
    from attestation_claim_verified [OF this] show ?thesis using a d by blast
  qed
  note key = same_state_key_eq [OF s(5), unfolded expected_key_def]
  show ?thesis
    by (rule tenant_context_findings_Nil [OF cf, unfolded context_bytes_def]) (use c(1) s(1-4) key level in blast)
qed

section \<open>Ownership of keys\<close>

text \<open>The assumption on the keyed hash: no two inputs in the same domain have the same value.\<close>

definition collision_free :: "'k tenant_crypto \<Rightarrow> string \<Rightarrow> bool" where
  "collision_free C secret \<longleftrightarrow> inj (tc_mac C secret ''tenant'') \<and> inj (tc_mac C secret ''partition'') \<and>
     inj (tc_mac C secret ''artifact'') \<and> inj (tc_mac C secret ''storage-key'') \<and> inj (tc_key_json C)"

lemma build_key_simps:
  "sk_kind (build_key C b c kind a p) = kind"
  "sk_tenant_ref (build_key C b c kind a p) = tenant_reference C b (tx_tenant_id c)"
  "sk_artifact_ref (build_key C b c kind a p) = mac_reference C (kb_secret b) ''artifact'' a"
  "sk_partition_ref (build_key C b c kind a p) = mac_reference C (kb_secret b) ''partition'' p"
  "sk_storage_key (build_key C b c kind a p) =
     ''trustrail:v1:'' @ kind_value kind @ '':'' @ tc_mac C (kb_secret b) ''storage-key'' (tc_key_json C (key_fields_of C b (tx_tenant_id c) kind a p))"
  by (simp_all add: build_key_def key_fields_of_def Let_def)

lemma kind_value_prefix: "kind_value k @ '':'' @ x = kind_value k' @ '':'' @ y \<Longrightarrow> k = k' \<and> x = y"
  by (cases k; cases k') simp_all

text \<open>
  A storage key names one owner. Two storage keys are equal only if tenant, kind of state, partition and
  artifact are equal: no other tenant's and no other kind's state can stand under the same key.
\<close>

theorem storage_keys_separate_owners:
  assumes "collision_free C (kb_secret b)"
    and "sk_storage_key (build_key C b c kind a p) = sk_storage_key (build_key C b c' kind' a' p')"
  shows "tx_tenant_id c = tx_tenant_id c' \<and> kind = kind' \<and> a = a' \<and> p = p'"
proof -
  have "kind = kind' \<and> tc_mac C (kb_secret b) ''storage-key'' (tc_key_json C (key_fields_of C b (tx_tenant_id c) kind a p)) =
      tc_mac C (kb_secret b) ''storage-key'' (tc_key_json C (key_fields_of C b (tx_tenant_id c') kind' a' p'))"
    using assms(2) by (intro kind_value_prefix) (simp add: build_key_simps)
  moreover have "inj (tc_mac C (kb_secret b) ''storage-key'')" "inj (tc_key_json C)" "inj (tc_mac C (kb_secret b) ''tenant'')"
      "inj (tc_mac C (kb_secret b) ''partition'')" "inj (tc_mac C (kb_secret b) ''artifact'')"
    using assms(1) by (simp_all add: collision_free_def)
  note inj = this
  ultimately have "key_fields_of C b (tx_tenant_id c) kind a p = key_fields_of C b (tx_tenant_id c') kind' a' p'"
    by (metis injD)
  then have "tc_mac C (kb_secret b) ''tenant'' (tx_tenant_id c) = tc_mac C (kb_secret b) ''tenant'' (tx_tenant_id c')"
    "tc_mac C (kb_secret b) ''partition'' p = tc_mac C (kb_secret b) ''partition'' p'"
    "tc_mac C (kb_secret b) ''artifact'' a = tc_mac C (kb_secret b) ''artifact'' a'" "kind = kind'"
    by (simp_all add: key_fields_of_def tenant_reference_def mac_reference_def)
  then show ?thesis using inj(3-5) by (blast dest: injD)
qed

text \<open>
  C17: no tenant reads another tenant's state. If a read, cache hit, adapter use or restore is allowed and the
  ownership binding found beside the value was issued by the guard, as its integrity tag vouches, then it was issued
  for an authorized write of the same tenant to the same kind, partition and artifact, and has not expired.
\<close>

theorem tenant_reads_own_state:
  assumes "collision_free (gt_crypto G) (kb_secret (gt_builder G))"
    and "authorize_state G q now r = Some (d, r')" and "td_action d = ALLOW" and "sq_operation q \<noteq> Op_write"
    and "sq_binding q = Some b"
    and "verify_binding (gt_crypto G) (gt_builder G) b \<longrightarrow> authorize_state G w before s = Some (e, s') \<and>
      td_access e = Some p \<and> ac_binding p = Some b"
  shows "\<exists>c c'. sq_context q = Some c \<and> sq_context w = Some c' \<and> tx_tenant_id c = tx_tenant_id c' \<and> sq_operation w = Op_write \<and>
    sq_kind q = sq_kind w \<and> sq_artifact_id q = sq_artifact_id w \<and> sq_partition_id q = sq_partition_id w \<and>
    sq_expires_at w = Some (sb_expires_at b) \<and> now < sb_expires_at b"
proof -
  obtain c evidence where c: "sq_context q = Some c" "state_findings_of G c q now = Some ([], evidence)"
    by (rule authorize_state_ALLOW [OF assms(2,3)]) blast+
  have of: "observed_findings G q (expected_key G c q) now = []"
    by (rule state_findings_of_Nil [OF c(2)]) (use assms(4) in blast)
  have b: "verify_binding (gt_crypto G) (gt_builder G) b" "now < sb_expires_at b" "sb_storage_key b = sk_storage_key (expected_key G c q)"
    using of assms(5) by (auto simp: observed_findings_def split: if_splits)
  then have e: "authorize_state G w before s = Some (e, s')" "td_access e = Some p" "ac_binding p = Some b" using assms(6) by blast+
  have "td_action e = ALLOW"
    using e(1,2) by (auto simp: authorize_state_def state_decision_def Let_def split: option.splits if_splits prod.splits)
  from e(1) this show ?thesis
  proof (cases rule: authorize_state_ALLOW)
    case (Use c' evidence')
    then show ?thesis using e(2,3) by (simp add: access_permit_of_def Let_def)
  next
    case (Write c' evidence' x owners)
    have bx: "b = bind_key (gt_crypto G) (gt_builder G) (expected_key G c' w) before x"
      using Write(7) e(2,3) by (simp add: access_permit_of_def Let_def)
    then have "sk_storage_key (expected_key G c q) = sk_storage_key (expected_key G c' w)"
      using b(3) by (simp add: bind_key_def Let_def)
    then have "tx_tenant_id c = tx_tenant_id c' \<and> sq_kind q = sq_kind w \<and> sq_artifact_id q = sq_artifact_id w \<and> sq_partition_id q = sq_partition_id w"
      unfolding expected_key_def by (rule storage_keys_separate_owners [OF assms(1)])
    moreover have "sb_expires_at b = x" by (simp add: bx bind_key_def Let_def)
    ultimately show ?thesis using c(1) Write b(2) by auto
  qed
qed

text \<open>The owner of a claimed key never changes.\<close>

lemma claim_key_keeps:
  "claim_key k w owners = (ok, owners') \<Longrightarrow> dict_get owners k' = Some o' \<Longrightarrow> dict_get owners' k' = Some o'"
  by (auto simp: claim_key_def split: option.splits if_splits)

lemma claim_key_True: "claim_key k w owners = (True, owners') \<Longrightarrow> dict_get owners' k = Some w"
  by (auto simp: claim_key_def split: option.splits if_splits)

definition state_step :: "'k tenant_guard \<Rightarrow> tenant_runtime \<Rightarrow> state_request \<times> datetime \<Rightarrow> bool \<times> tenant_runtime" where
  "state_step G r i = (case authorize_state G (fst i) (snd i) r of
     None \<Rightarrow> (False, r) | Some (d, r') \<Rightarrow> (td_action d = ALLOW \<and> sq_operation (fst i) = Op_write, r'))"

lemma authorize_state_owners:
  assumes "authorize_state G q now r = Some (d, r')" and "dict_get (rt_owners r) k = Some w"
  shows "dict_get (rt_owners r') k = Some w"
proof (cases "td_action d = ALLOW")
  case True
  with assms(1) show ?thesis
    by (cases rule: authorize_state_ALLOW) (use assms(2) claim_key_keeps in auto)
next
  case False
  have "rt_owners r' = rt_owners r"
    using assms(1) False by (auto simp: authorize_state_def state_decision_def tenant_publish_def Let_def split: option.splits if_splits prod.splits)
  then show ?thesis using assms(2) by simp
qed

text \<open>
  A claimed key stays with its owner. After an allowed write, whatever operations follow, an allowed write under
  the same storage key has the same ownership digest.
\<close>

theorem claimed_key_keeps_owner:
  assumes "authorize_state G q now r = Some (d, r1)" and "td_action d = ALLOW" and "sq_operation q = Op_write"
    and "sq_context q = Some c" and "run_attempts (state_step G) r1 ops = (acc, r2)"
    and "authorize_state G w later r2 = Some (e, r3)" and "td_action e = ALLOW" and "sq_operation w = Op_write"
    and "sq_context w = Some c'" and "sk_storage_key (expected_key G c' w) = sk_storage_key (expected_key G c q)"
  shows "owner_digest (gt_crypto G) (expected_key G c' w) = owner_digest (gt_crypto G) (expected_key G c q)"
proof -
  let ?k = "sk_storage_key (expected_key G c q)" and ?o = "owner_digest (gt_crypto G) (expected_key G c q)"
  have "dict_get (rt_owners r1) ?k = Some ?o"
    using assms(1,2)
  proof (cases rule: authorize_state_ALLOW)
    case (Write c0 evidence x owners)
    then show ?thesis using claim_key_True assms(4) by auto
  qed (use assms(3) in simp)
  then have "dict_get (rt_owners r2) ?k = Some ?o"
    using assms(5)
  proof (induction ops arbitrary: r1 acc)
    case (Cons i ops)
    obtain ok t where st: "state_step G r1 i = (ok, t)" by (cases "state_step G r1 i")
    obtain acc' u where run: "run_attempts (state_step G) t ops = (acc', u)" by (cases "run_attempts (state_step G) t ops")
    have "dict_get (rt_owners t) ?k = Some ?o"
      using st Cons.prems(1) by (auto simp: state_step_def split: option.splits dest: authorize_state_owners)
    moreover have "u = r2" using Cons.prems(2) st run by simp
    ultimately show ?case using Cons.IH run by blast
  qed simp
  with assms(6,7) show ?thesis
  proof (cases rule: authorize_state_ALLOW)
    case (Write c0 evidence x owners)
    then have c0: "c0 = c'" using assms(9) by simp
    show ?thesis
      using Write(5) \<open>dict_get (rt_owners r2) ?k = Some ?o\<close> assms(10) unfolding c0
      by (auto simp: claim_key_def split: if_splits)
  qed (use assms(8) in simp)
qed

section \<open>Batches\<close>

text \<open>
  A batch serves one tenant. If a batch is allowed, every context in it names the same tenant, is verified
  and current, and grants the kind of state of the batch.
\<close>

theorem allowed_batch_single_tenant:
  assumes "authorize_batch G q now r = Some (d, r')" and "td_action d = ALLOW" and "c \<in> set (bq_contexts q)"
  shows "tx_tenant_id c = tx_tenant_id (hd (bq_contexts q)) \<and> bq_kind q \<in> tx_allowed_kinds c \<and>
    tx_issued_at c \<le> now \<and> now < tx_expires_at c \<and>
    (\<exists>k sg. dict_get (gt_context_keys G) (tx_key_id c) = Some k \<and> \<not> tk_is_revoked k \<and> tx_tenant_id c \<in> tk_tenants k \<and>
       tx_signature c = Some sg \<and> tc_verify (gt_crypto G) (tk_public k) sg (context_bytes (gt_crypto G) c))"
proof -
  obtain fs where fs: "batch_findings G q now = Some fs" using assms(1) by (auto simp: authorize_batch_def split: option.splits)
  then have "fs = []" using assms(1,2) by (auto simp: authorize_batch_def Let_def split: if_splits)
  with fs have nil: "batch_findings G q now = Some []" by simp
  obtain c0 cs s where q: "bq_contexts q = c0 # cs" "rule_for (gt_policy G) (bq_kind q) = Some s"
    using nil by (auto simp: batch_findings_def split: list.splits option.splits)
  have one: "card (tx_tenant_id ` set (bq_contexts q)) = 1"
    using nil q by (auto simp: batch_findings_def split: if_splits)
  have "\<forall>c\<in>set (bq_contexts q). tenant_context_findings (gt_crypto G) (gt_context_keys G) c now = [] \<and> bq_kind q \<in> tx_allowed_kinds c"
    using nil q by (auto simp: batch_findings_def split: if_splits)
  then have cf: "tenant_context_findings (gt_crypto G) (gt_context_keys G) c now = []" "bq_kind q \<in> tx_allowed_kinds c"
    using assms(3) by blast+
  obtain t where "tx_tenant_id ` set (bq_contexts q) = {t}" using one by (rule card_1_singletonE)
  then have "tx_tenant_id c = t" "tx_tenant_id c0 = t" using assms(3) q(1) by auto
  moreover obtain sg k where "tx_signature c = Some sg" "dict_get (gt_context_keys G) (tx_key_id c) = Some k"
      "\<not> tk_is_revoked k" "tx_tenant_id c \<in> tk_tenants k" "tx_issued_at c \<le> now" "now < tx_expires_at c"
      "tc_verify (gt_crypto G) (tk_public k) sg (context_bytes (gt_crypto G) c)"
    by (rule tenant_context_findings_Nil [OF cf(1)])
  ultimately show ?thesis using q(1) cf(2) by simp
qed

section \<open>Round trips and the strict policy\<close>

lemma verify_bind_key: "verify_binding C b (bind_key C b k created expires)"
  by (simp add: verify_binding_def bind_key_def binding_mac_def Let_def)

text \<open>
  A tenant reads back what it wrote. If a write is allowed and returned an ownership binding, then until the
  binding expires a read, restore, cache hit or adapter use of the same kind, partition and artifact under any
  verified context of that tenant, with its own key and that binding, is allowed when the policy allows the operation.
\<close>

theorem written_state_readable:
  assumes "authorize_state G w before s = Some (e, s')" and "td_access e = Some p" and "ac_binding p = Some b"
    and "sq_context w = Some c" and "sq_context q = Some c'" and "tx_tenant_id c' = tx_tenant_id c"
    and "sq_kind q = sq_kind w" and "sq_artifact_id q = sq_artifact_id w" and "sq_partition_id q = sq_partition_id w"
    and "tenant_context_findings (gt_crypto G) (gt_context_keys G) c' now = []" and "sq_kind q \<in> tx_allowed_kinds c'"
    and "rule_for (gt_policy G) (sq_kind q) = Some sl" and "sq_operation q \<in> sl_operations sl" and "sq_operation q \<noteq> Op_write"
    and "sq_state_key q = Some (expected_key G c' q)" and "sq_binding q = Some b" and "now < sb_expires_at b"
    and "attestation_findings G sl (sq_kind q) c' (sq_deployment_id q) (sq_attestation q) now = []"
  shows "\<exists>d r'. authorize_state G q now r = Some (d, r') \<and> td_action d = ALLOW"
proof -
  have "td_action e = ALLOW"
    using assms(1,2) by (auto simp: authorize_state_def state_decision_def Let_def split: option.splits if_splits prod.splits)
  from assms(1) this obtain x where b: "b = bind_key (gt_crypto G) (gt_builder G) (expected_key G c w) before x"
  proof (cases rule: authorize_state_ALLOW)
    case (Write c0 evidence x owners)
    then show thesis using assms(2-4) by (intro that [of x]) (simp add: access_permit_of_def Let_def)
  qed (use assms(2,3) in \<open>simp add: access_permit_of_def Let_def\<close>)
  have k: "sk_storage_key (expected_key G c w) = sk_storage_key (expected_key G c' q)"
    "owner_digest (gt_crypto G) (expected_key G c w) = owner_digest (gt_crypto G) (expected_key G c' q)"
    "sk_tenant_ref (expected_key G c w) = sk_tenant_ref (expected_key G c' q)"
    "sk_artifact_ref (expected_key G c w) = sk_artifact_ref (expected_key G c' q)" "sk_kind (expected_key G c w) = sq_kind q"
    by (simp_all add: expected_key_def build_key_def key_fields_of_def Let_def owner_digest_def assms(6-9))
  have v: "verify_binding (gt_crypto G) (gt_builder G) b" by (simp only: b verify_bind_key)
  have f: "sb_storage_key b = sk_storage_key (expected_key G c w)" "sb_owner_digest b = owner_digest (gt_crypto G) (expected_key G c w)"
    "sb_tenant_ref b = sk_tenant_ref (expected_key G c w)" "sb_artifact_ref b = sk_artifact_ref (expected_key G c w)"
    "sb_kind b = sk_kind (expected_key G c w)"
    by (simp_all add: b bind_key_def Let_def)
  have "observed_findings G q (expected_key G c' q) now = []"
    using assms(16,17) v f by (simp add: observed_findings_def k)
  moreover have "same_state_key k k" for k by (simp add: same_state_key_def)
  ultimately obtain evidence where "state_findings_of G c' q now = Some ([], evidence)"
    using assms(10-15,18) by (auto simp: state_findings_of_def Let_def)
  then show ?thesis
    using assms(5,14) by (cases "state_decision G q (Some (access_permit_of G c' q None)) [] evidence now r")
      (auto simp: authorize_state_def state_decision_def Let_def)
qed

text \<open>
  What the signer issues, the verifier accepts: under a signature scheme that verifies its own signatures, a
  context issued for a tenant has no findings between its two times, for a verifier that trusts the signer's key.
\<close>

theorem issued_context_verifies:
  assumes "\<And>m. tc_verify C (tc_public C sk) (tc_sign C sk m) m"
    and "issue_context C sk issuer tenants cid tenant who session kinds issued expires nonce = Some c"
    and "new_context_keys C [signer_key C sk issuer tenants] = Some keys" and "issued \<le> now" and "now < expires"
  shows "tenant_context_findings C keys c now = []"
  using assms
  by (auto simp: issue_context_def tenant_context_findings_def new_context_keys_def signer_key_def context_key_id_def
      context_bytes_def Let_def split: if_splits)

text \<open>
  The strict policy is complete. When \<open>strict\<close> returns a policy, it is valid, has one rule for every
  kind of state, and gives every kind the isolation level and dedication asked for; adapters can be used and caches hit
  only where they are such.
\<close>

theorem strict_policy_complete:
  assumes "strict_policy pid version proc hw dedicated ttl = Some p"
  shows "tenant_policy_ok p \<and> (\<forall>k. rule_for p k = Some (strict_rule proc hw dedicated ttl k)) \<and>
    (\<forall>k. k \<in> dedicated \<longrightarrow> sl_level (strict_rule proc hw dedicated ttl k) \<noteq> Isolation_logical)"
proof -
  have p: "p = \<lparr>tp_policy_id = pid, tp_version = version, tp_rules = map (strict_rule proc hw dedicated ttl) all_state_kinds\<rparr>"
      "tenant_policy_ok p" "dedicated \<subseteq> proc \<union> hw"
    using assms by (auto simp: strict_policy_def Let_def split: if_splits)
  have kind: "sl_kind (strict_rule proc hw dedicated ttl k) = k" for k by (simp add: strict_rule_def)
  have "rule_for p k = Some (strict_rule proc hw dedicated ttl k)" for k
    by (cases k) (simp_all add: rule_for_def p(1) all_state_kinds_def kind)
  moreover have "k \<in> dedicated \<longrightarrow> sl_level (strict_rule proc hw dedicated ttl k) \<noteq> Isolation_logical" for k
    using p(3) by (auto simp: strict_rule_def)
  ultimately show ?thesis using p(2) by blast
qed

section \<open>Witnesses\<close>

text \<open>A length-prefixed text, so that concatenations can be taken apart again.\<close>

definition prefixed :: "string \<Rightarrow> string" where
  "prefixed s = replicate (length s) (CHR ''1'') @ CHR ''0'' # s"

lemma prefixed_inj: "prefixed s @ x = prefixed t @ y \<Longrightarrow> s = t \<and> x = y"
proof -
  have len: "replicate m (CHR ''1'') @ CHR ''0'' # u = replicate n (CHR ''1'') @ CHR ''0'' # v \<Longrightarrow> m = n \<and> u = v" for m n u v
  proof (induction m arbitrary: n)
    case 0
    then show ?case by (cases n) auto
  next
    case (Suc m)
    then show ?case by (cases n) auto
  qed
  assume "prefixed s @ x = prefixed t @ y"
  then have "length s = length t \<and> s @ x = t @ y" by (intro len) (simp add: prefixed_def)
  then show "s = t \<and> x = y" by (metis append_eq_append_conv)
qed

definition demo_tenant_crypto :: "string tenant_crypto" where
  "demo_tenant_crypto = \<lparr>tc_sign = (\<lambda>k m. k @ m), tc_verify = (\<lambda>pk s m. s = pk @ m), tc_public = (\<lambda>k. k),
     tc_context_json = tx_context_id, tc_attestation_json = at_attestation_id,
     tc_key_json = (\<lambda>(n, t, k, p, a). prefixed n @ prefixed t @ kind_value k @ '':'' @ prefixed p @ a),
     tc_binding_json = sb_storage_key, tc_reference = (\<lambda>s. s), tc_context_digest = tx_context_id,
     tc_attestation_digest = at_attestation_id, tc_owner_digest = (\<lambda>(n, t, k, p, a). t), tc_access_digest = (\<lambda>(r, _). r),
     tc_batch_digest = (\<lambda>(r, _). r), tc_mac = (\<lambda>s d v. d @ v)\<rparr>"

lemma demo_collision_free: "collision_free demo_tenant_crypto s"
proof -
  have "inj (tc_key_json demo_tenant_crypto)"
  proof (rule injI)
    fix f g assume eq: "tc_key_json demo_tenant_crypto f = tc_key_json demo_tenant_crypto g"
    obtain n t k p a where f: "f = (n, t, k, p, a)" by (rule prod_cases5)
    obtain n' t' k' p' a' where g: "g = (n', t', k', p', a')" by (rule prod_cases5)
    have "n = n' \<and> prefixed t @ kind_value k @ '':'' @ prefixed p @ a = prefixed t' @ kind_value k' @ '':'' @ prefixed p' @ a'"
      using eq by (intro prefixed_inj) (simp add: f g demo_tenant_crypto_def)
    moreover from this have "t = t' \<and> kind_value k @ '':'' @ prefixed p @ a = kind_value k' @ '':'' @ prefixed p' @ a'"
      by (intro prefixed_inj) simp
    moreover from this have "k = k' \<and> prefixed p @ a = prefixed p' @ a'" by (intro kind_value_prefix) simp
    moreover from this have "p = p' \<and> a = a'" by (intro prefixed_inj) simp
    ultimately show "f = g" by (simp add: f g)
  qed
  moreover have "inj (\<lambda>v. d @ v)" for d :: string by (rule injI) simp
  ultimately show ?thesis by (simp add: collision_free_def) (simp add: demo_tenant_crypto_def)
qed

definition demo_tenant_policy :: tenant_policy where
  "demo_tenant_policy = \<lparr>tp_policy_id = ''p'', tp_version = 1, tp_rules = map (strict_rule {} {} {} 60) all_state_kinds\<rparr>"

definition demo_tenant_key :: context_key where
  "demo_tenant_key = signer_key demo_tenant_crypto ''k'' ''iss'' {''acme'', ''other''}"

definition demo_tenant_guard :: "string tenant_guard" where
  "demo_tenant_guard = \<lparr>gt_crypto = demo_tenant_crypto, gt_policy = demo_tenant_policy,
     gt_builder = \<lparr>kb_secret = ''s'', kb_namespace = ''n'', kb_namespace_ref = ''n''\<rparr>,
     gt_context_keys = [(''k'', demo_tenant_key)], gt_attestation_keys = []\<rparr>"

definition demo_tenant_context :: tenant_context where
  "demo_tenant_context = \<lparr>tx_context_id = ''c'', tx_issuer_id = ''iss'', tx_key_id = ''k'', tx_tenant_id = ''acme'',
     tx_principal_id = ''u'', tx_session_id = ''z'', tx_allowed_kinds = {Memory_state}, tx_issued_at = 0, tx_expires_at = 90,
     tx_nonce = ''n'', tx_signature = Some ''kc''\<rparr>"

definition demo_state_request :: "state_operation \<Rightarrow> state_binding option \<Rightarrow> state_request" where
  "demo_state_request op b = \<lparr>sq_request_id = ''r'', sq_context = Some demo_tenant_context, sq_kind = Memory_state, sq_operation = op,
     sq_artifact_id = ''a'', sq_partition_id = ''d'',
     sq_state_key = Some (build_key demo_tenant_crypto (gt_builder demo_tenant_guard) demo_tenant_context Memory_state ''a'' ''d''),
     sq_binding = b, sq_expires_at = Some 50, sq_deployment_id = None, sq_attestation = None\<rparr>"

definition demo_tenant_runtime :: tenant_runtime where
  "demo_tenant_runtime = \<lparr>rt_owners = [], rt_sink = None\<rparr>"

lemmas demo_tenant_defs = demo_tenant_guard_def demo_tenant_policy_def demo_tenant_context_def

lemma demo_context_verified:
  "t \<in> {0..<90} \<Longrightarrow> tenant_context_findings (gt_crypto demo_tenant_guard) (gt_context_keys demo_tenant_guard) demo_tenant_context t = []"
  by (simp add: tenant_context_findings_def demo_tenant_guard_def demo_tenant_context_def demo_tenant_key_def signer_key_def
      demo_tenant_crypto_def context_bytes_def)

lemma demo_tenant_rule: "rule_for (gt_policy demo_tenant_guard) k = Some (strict_rule {} {} {} 60 k)"
proof -
  have "sl_kind (strict_rule {} {} {} 60 k) = k" for k by (simp add: strict_rule_def)
  then show ?thesis by (cases k) (simp_all add: rule_for_def demo_tenant_guard_def demo_tenant_policy_def all_state_kinds_def)
qed

lemma demo_expected_key:
  "expected_key demo_tenant_guard demo_tenant_context (demo_state_request op b) =
   build_key demo_tenant_crypto (gt_builder demo_tenant_guard) demo_tenant_context Memory_state ''a'' ''d''"
  by (simp add: expected_key_def demo_state_request_def demo_tenant_guard_def)

lemma demo_request_simps [simp]:
  "sq_context (demo_state_request op b) = Some demo_tenant_context" "sq_kind (demo_state_request op b) = Memory_state"
  "sq_operation (demo_state_request op b) = op" "sq_binding (demo_state_request op b) = b"
  "sq_expires_at (demo_state_request op b) = Some 50" "sq_attestation (demo_state_request op b) = None"
  "sq_deployment_id (demo_state_request op b) = None" "sq_artifact_id (demo_state_request op b) = ''a''"
  "sq_partition_id (demo_state_request op b) = ''d''"
  "sq_state_key (demo_state_request op b) = Some (expected_key demo_tenant_guard demo_tenant_context (demo_state_request op b))"
  by (simp_all add: demo_expected_key) (simp_all add: demo_state_request_def)

definition demo_binding :: state_binding where
  "demo_binding = bind_key (gt_crypto demo_tenant_guard) (gt_builder demo_tenant_guard)
     (expected_key demo_tenant_guard demo_tenant_context (demo_state_request Op_write None)) 10 50"

lemma demo_write:
  obtains d r where "authorize_state demo_tenant_guard (demo_state_request Op_write None) 10 demo_tenant_runtime = Some (d, r)"
    "td_action d = ALLOW" "td_access d = Some (access_permit_of demo_tenant_guard demo_tenant_context (demo_state_request Op_write None) (Some demo_binding))"
proof -
  let ?q = "demo_state_request Op_write None"
  have "tenant_context_findings (gt_crypto demo_tenant_guard) (gt_context_keys demo_tenant_guard) demo_tenant_context 10 = []"
    by (rule demo_context_verified) simp
  then have "state_findings_of demo_tenant_guard demo_tenant_context ?q 10 = Some ([], None)"
    by (simp add: state_findings_of_def demo_tenant_rule strict_rule_def same_state_key_def attestation_findings_def
        retention_findings_def td_seconds_def evidence_of_def Let_def) (simp add: demo_tenant_context_def)
  then have "authorize_state demo_tenant_guard ?q 10 demo_tenant_runtime = Some (state_decision demo_tenant_guard ?q
      (Some (access_permit_of demo_tenant_guard demo_tenant_context ?q (Some demo_binding))) [] None 10
      (demo_tenant_runtime\<lparr>rt_owners := [(sk_storage_key (expected_key demo_tenant_guard demo_tenant_context ?q),
         owner_digest (gt_crypto demo_tenant_guard) (expected_key demo_tenant_guard demo_tenant_context ?q))]\<rparr>))"
    by (simp add: authorize_state_def claim_key_def demo_binding_def demo_tenant_runtime_def Let_def)
  then show thesis
    by (intro that) (auto simp: state_decision_def Let_def)
qed

theorem written_state_readable_witness:
  "\<exists>d r'. authorize_state demo_tenant_guard (demo_state_request Op_read (Some demo_binding)) 20 demo_tenant_runtime = Some (d, r') \<and> td_action d = ALLOW"
proof -
  obtain d r where w: "authorize_state demo_tenant_guard (demo_state_request Op_write None) 10 demo_tenant_runtime = Some (d, r)"
    "td_access d = Some (access_permit_of demo_tenant_guard demo_tenant_context (demo_state_request Op_write None) (Some demo_binding))"
    by (rule demo_write)
  show ?thesis
    by (rule written_state_readable [OF w, where b = demo_binding and c = demo_tenant_context and c' = demo_tenant_context
        and sl = "strict_rule {} {} {} 60 Memory_state"])
      (simp_all add: access_permit_of_def Let_def demo_tenant_rule strict_rule_def attestation_findings_def demo_context_verified,
       simp_all add: demo_tenant_context_def demo_binding_def bind_key_def Let_def)
qed

theorem allowed_state_is_authorized_witness:
  "tx_tenant_id demo_tenant_context \<in> tk_tenants demo_tenant_key \<and>
   tc_verify demo_tenant_crypto (tk_public demo_tenant_key) ''kc'' (context_bytes demo_tenant_crypto demo_tenant_context)"
proof -
  obtain d r where w: "authorize_state demo_tenant_guard (demo_state_request Op_write None) 10 demo_tenant_runtime = Some (d, r)"
      "td_action d = ALLOW" by (rule demo_write)
  from allowed_state_is_authorized [OF w] show ?thesis
    by (auto simp: demo_tenant_guard_def demo_tenant_context_def context_bytes_def)
qed

theorem storage_keys_separate_owners_witness:
  "sk_storage_key (build_key demo_tenant_crypto b demo_tenant_context Memory_state ''a'' ''d'') \<noteq>
   sk_storage_key (build_key demo_tenant_crypto b (demo_tenant_context\<lparr>tx_tenant_id := ''other''\<rparr>) Memory_state ''a'' ''d'')"
  using storage_keys_separate_owners [OF demo_collision_free, of b demo_tenant_context Memory_state "''a''" "''d''"
      "demo_tenant_context\<lparr>tx_tenant_id := ''other''\<rparr>" Memory_state "''a''" "''d''"]
  by (auto simp: demo_tenant_context_def)

text \<open>A read request in another partition differs in its key, so only the request with the binding's own key is allowed.\<close>

lemma demo_tenant_read:
  obtains d r where "authorize_state demo_tenant_guard (demo_state_request Op_read (Some demo_binding)) 20 demo_tenant_runtime = Some (d, r)"
    "td_action d = ALLOW"
proof -
  let ?q = "demo_state_request Op_read (Some demo_binding)"
  have "tenant_context_findings (gt_crypto demo_tenant_guard) (gt_context_keys demo_tenant_guard) demo_tenant_context 20 = []"
    by (rule demo_context_verified) simp
  moreover have "observed_findings demo_tenant_guard ?q (expected_key demo_tenant_guard demo_tenant_context ?q) 20 = []"
  proof -
    have v: "verify_binding (gt_crypto demo_tenant_guard) (gt_builder demo_tenant_guard) demo_binding"
      by (simp only: demo_binding_def verify_bind_key)
    have "sb_storage_key demo_binding = sk_storage_key (expected_key demo_tenant_guard demo_tenant_context ?q)"
      "sb_owner_digest demo_binding = owner_digest (gt_crypto demo_tenant_guard) (expected_key demo_tenant_guard demo_tenant_context ?q)"
      "sb_tenant_ref demo_binding = sk_tenant_ref (expected_key demo_tenant_guard demo_tenant_context ?q)"
      "sb_artifact_ref demo_binding = sk_artifact_ref (expected_key demo_tenant_guard demo_tenant_context ?q)"
      "sb_kind demo_binding = Memory_state" "sb_expires_at demo_binding = 50"
      by (simp_all add: demo_binding_def bind_key_def Let_def demo_expected_key build_key_simps)
    then show ?thesis using v by (simp add: observed_findings_def)
  qed
  ultimately have "state_findings_of demo_tenant_guard demo_tenant_context ?q 20 = Some ([], None)"
    by (simp add: state_findings_of_def demo_tenant_rule strict_rule_def same_state_key_def attestation_findings_def evidence_of_def Let_def)
      (simp add: demo_tenant_context_def)
  then have "authorize_state demo_tenant_guard ?q 20 demo_tenant_runtime = Some (state_decision demo_tenant_guard ?q
      (Some (access_permit_of demo_tenant_guard demo_tenant_context ?q None)) [] None 20 demo_tenant_runtime)"
    by (simp add: authorize_state_def)
  then show thesis by (intro that) (auto simp: state_decision_def Let_def)
qed

theorem tenant_reads_own_state_witness: "20 < sb_expires_at demo_binding"
proof -
  obtain d r where rd: "authorize_state demo_tenant_guard (demo_state_request Op_read (Some demo_binding)) 20 demo_tenant_runtime = Some (d, r)"
      "td_action d = ALLOW" by (rule demo_tenant_read)
  obtain e s where w: "authorize_state demo_tenant_guard (demo_state_request Op_write None) 10 demo_tenant_runtime = Some (e, s)"
      "td_access e = Some (access_permit_of demo_tenant_guard demo_tenant_context (demo_state_request Op_write None) (Some demo_binding))"
    by (rule demo_write)
  have cf: "collision_free (gt_crypto demo_tenant_guard) (kb_secret (gt_builder demo_tenant_guard))"
    using demo_collision_free by (simp add: demo_tenant_guard_def)
  show ?thesis
    using tenant_reads_own_state [OF cf rd, where b = demo_binding and w = "demo_state_request Op_write None" and before = 10
        and s = demo_tenant_runtime and e = e and s' = s
        and p = "access_permit_of demo_tenant_guard demo_tenant_context (demo_state_request Op_write None) (Some demo_binding)"] w
    by (auto simp: access_permit_of_def Let_def)
qed

text \<open>Another session of the same tenant writes the same artifact again.\<close>

definition demo_other_context :: tenant_context where
  "demo_other_context = demo_tenant_context\<lparr>tx_session_id := ''y''\<rparr>"

definition demo_other_request :: state_request where
  "demo_other_request = (demo_state_request Op_write None)\<lparr>sq_context := Some demo_other_context\<rparr>"

lemma demo_other_simps [simp]:
  "sq_context demo_other_request = Some demo_other_context" "sq_kind demo_other_request = Memory_state"
  "sq_operation demo_other_request = Op_write" "sq_expires_at demo_other_request = Some 50" "sq_attestation demo_other_request = None"
  "sq_deployment_id demo_other_request = None" "tx_allowed_kinds demo_other_context = {Memory_state}"
  "tx_tenant_id demo_other_context = tx_tenant_id demo_tenant_context"
  "sq_state_key demo_other_request = Some (expected_key demo_tenant_guard demo_tenant_context (demo_state_request Op_write None))"
  by (simp_all add: demo_other_request_def demo_other_context_def) (simp add: demo_tenant_context_def)

lemma demo_other_key:
  "sk_storage_key (expected_key demo_tenant_guard demo_other_context demo_other_request) =
   sk_storage_key (expected_key demo_tenant_guard demo_tenant_context (demo_state_request Op_write None))"
  "same_state_key (expected_key demo_tenant_guard demo_tenant_context (demo_state_request Op_write None))
     (expected_key demo_tenant_guard demo_other_context demo_other_request)"
  "owner_digest (gt_crypto demo_tenant_guard) (expected_key demo_tenant_guard demo_other_context demo_other_request) =
   owner_digest (gt_crypto demo_tenant_guard) (expected_key demo_tenant_guard demo_tenant_context (demo_state_request Op_write None))"
  by (simp_all add: expected_key_def build_key_def key_fields_of_def Let_def same_state_key_def owner_digest_def)
    (simp_all add: demo_other_request_def)

theorem claimed_key_keeps_owner_witness:
  "\<exists>d r1 e r3. authorize_state demo_tenant_guard (demo_state_request Op_write None) 10 demo_tenant_runtime = Some (d, r1) \<and>
    authorize_state demo_tenant_guard demo_other_request 12 r1 = Some (e, r3) \<and> td_action e = ALLOW \<and>
    owner_digest (gt_crypto demo_tenant_guard) (expected_key demo_tenant_guard demo_other_context demo_other_request) =
    owner_digest (gt_crypto demo_tenant_guard) (expected_key demo_tenant_guard demo_tenant_context (demo_state_request Op_write None))"
proof -
  let ?q = "demo_state_request Op_write None" and ?k = "expected_key demo_tenant_guard demo_tenant_context (demo_state_request Op_write None)"
  obtain d r where w: "authorize_state demo_tenant_guard ?q 10 demo_tenant_runtime = Some (d, r)" "td_action d = ALLOW" by (rule demo_write)
  from w have own: "dict_get (rt_owners r) (sk_storage_key ?k) = Some (owner_digest (gt_crypto demo_tenant_guard) ?k)"
  proof (cases rule: authorize_state_ALLOW)
    case (Write c evidence x owners)
    then show ?thesis using claim_key_True by auto
  qed simp
  have "tenant_context_findings (gt_crypto demo_tenant_guard) (gt_context_keys demo_tenant_guard) demo_other_context 12 = []"
    by (simp add: tenant_context_findings_def demo_tenant_guard_def demo_other_context_def demo_tenant_context_def demo_tenant_key_def
        signer_key_def demo_tenant_crypto_def context_bytes_def)
  then have "state_findings_of demo_tenant_guard demo_other_context demo_other_request 12 = Some ([], None)"
    by (simp add: state_findings_of_def demo_tenant_rule strict_rule_def demo_other_key attestation_findings_def
        retention_findings_def td_seconds_def evidence_of_def Let_def)
  then have "\<exists>e r3. authorize_state demo_tenant_guard demo_other_request 12 r = Some (e, r3) \<and> td_action e = ALLOW"
    using own by (simp add: authorize_state_def claim_key_def demo_other_key state_decision_def Let_def)
  then obtain e r3 where e: "authorize_state demo_tenant_guard demo_other_request 12 r = Some (e, r3)" "td_action e = ALLOW" by blast
  have "owner_digest (gt_crypto demo_tenant_guard) (expected_key demo_tenant_guard demo_other_context demo_other_request) =
      owner_digest (gt_crypto demo_tenant_guard) ?k"
    by (rule claimed_key_keeps_owner [OF w, where ops = "[]" and acc = "[]", OF _ _ _ e]) (simp_all add: demo_other_key)
  then show ?thesis using w(1) e by blast
qed

definition demo_batch :: batch_request where
  "demo_batch = \<lparr>bq_request_id = ''r'', bq_contexts = [demo_tenant_context, demo_tenant_context], bq_kind = Memory_state,
     bq_deployment_id = None, bq_attestation = None\<rparr>"

theorem allowed_batch_single_tenant_witness: "Memory_state \<in> tx_allowed_kinds demo_tenant_context"
proof -
  have cf: "tenant_context_findings (gt_crypto demo_tenant_guard) (gt_context_keys demo_tenant_guard) demo_tenant_context 10 = []"
    by (rule demo_context_verified) simp
  have "batch_findings demo_tenant_guard demo_batch 10 = Some []"
    by (simp add: batch_findings_def demo_batch_def demo_tenant_rule cf attestation_findings_def strict_rule_def)
      (simp add: demo_tenant_context_def)
  then have "\<exists>d r'. authorize_batch demo_tenant_guard demo_batch 10 demo_tenant_runtime = Some (d, r') \<and> td_action d = ALLOW"
    by (simp add: authorize_batch_def Let_def)
  then obtain d r' where b: "authorize_batch demo_tenant_guard demo_batch 10 demo_tenant_runtime = Some (d, r')" "td_action d = ALLOW" by blast
  show ?thesis using allowed_batch_single_tenant [OF b, of demo_tenant_context] by (simp add: demo_batch_def)
qed

theorem issued_context_verifies_witness:
  "\<exists>c. issue_context demo_tenant_crypto ''k'' ''iss'' {''acme''} ''c'' ''acme'' ''u'' ''z'' {Memory_state} 0 90 ''n'' = Some c \<and>
    tenant_context_findings demo_tenant_crypto [(''k'', signer_key demo_tenant_crypto ''k'' ''iss'' {''acme''})] c 10 = []"
proof -
  obtain c where c: "issue_context demo_tenant_crypto ''k'' ''iss'' {''acme''} ''c'' ''acme'' ''u'' ''z'' {Memory_state} 0 90 ''n'' = Some c"
    by (simp add: issue_context_def signer_key_def context_ok_def Let_def)
  have "tenant_context_findings demo_tenant_crypto [(''k'', signer_key demo_tenant_crypto ''k'' ''iss'' {''acme''})] c 10 = []"
    by (rule issued_context_verifies [OF _ c]) (simp_all add: demo_tenant_crypto_def new_context_keys_def context_key_id_def signer_key_def)
  then show ?thesis using c by blast
qed

theorem strict_policy_complete_witness:
  "\<exists>p. strict_policy ''p'' 1 {Kv_cache} {} {Kv_cache} 60 = Some p \<and> tenant_policy_ok p"
proof -
  define rs where "rs = map (strict_rule {Kv_cache} {} {Kv_cache} 60) all_state_kinds"
  have "list_all state_rule_ok rs" by (simp add: rs_def all_state_kinds_def strict_rule_def state_rule_ok_def)
  moreover have "map sl_kind rs = all_state_kinds" by (simp add: rs_def all_state_kinds_def strict_rule_def)
  moreover have "distinct all_state_kinds" by (simp add: all_state_kinds_def)
  ultimately have "tenant_policy_ok \<lparr>tp_policy_id = ''p'', tp_version = 1, tp_rules = rs\<rparr>"
    unfolding tenant_policy_ok_def by simp
  then obtain p where p: "strict_policy ''p'' 1 {Kv_cache} {} {Kv_cache} 60 = Some p"
    by (simp add: strict_policy_def Let_def rs_def)
  then show ?thesis using strict_policy_complete [OF p] by blast
qed

end
