(* ===== verification/Data_Lifecycle.thy ===== *)
theory Data_Lifecycle
  imports Core_Models "HOL-Library.List_Lexorder" "HOL-Library.Char_ord"
begin

text \<open>
  \<open>models/data_lifecycle.py\<close> and the first half of \<open>data_lifecycle.py\<close>: the lifecycle obligations of an artifact
  (classification, purposes, residencies, retention, consent, legal holds, data subjects), the catalog of
  \<open>DataLifecycleManager\<close>, and its operations that register, derive and authorize the use of artifacts. SHA-256
  over canonical JSON is a parameter per kind of value. An operation that raises is \<open>None\<close>. Identifier
  patterns are left out. A frozenset that the code only tests is a set; one that it iterates is the list of its elements
  in iteration order.
\<close>

section \<open>Enumerations\<close>

datatype artifact_kind =
    Art_prompt | Art_output | Art_retrieved_document | Art_chunk | Art_embedding | Art_cache | Art_trace | Art_log
  | Art_memory | Art_training_dataset | Art_fine_tuning_dataset | Art_model_artifact | Art_derived_artifact

datatype data_class = Class_public | Class_internal | Class_confidential | Class_restricted

datatype training_consent = Consent_granted | Consent_denied | Consent_withdrawn | Consent_not_applicable

datatype data_use_kind = Use_inference | Use_retrieval | Use_embedding | Use_cache | Use_log | Use_memory | Use_training | Use_export

datatype deletion_state = Del_active | Del_tombstoned | Del_verified | Del_failed

datatype deletion_reason = Reason_retention_expired | Reason_subject_request | Reason_consent_withdrawn | Reason_administrative

datatype deletion_capability = Delcap_hard_delete | Delcap_crypto_erasure | Delcap_tombstone_only | Delcap_unknown

datatype lifecycle_operation = Lop_register | Lop_derive | Lop_use | Lop_plan_deletion | Lop_execute_deletion

datatype lifecycle_code =
    Dl_allowed | Dl_policy_invalid | Dl_duplicate_artifact | Dl_artifact_unknown | Dl_record_integrity_invalid | Dl_source_unknown
  | Dl_source_changed | Dl_source_not_active | Dl_tenant_mismatch | Dl_purpose_denied | Dl_residency_denied | Dl_retention_expired
  | Dl_retention_extension | Dl_training_consent_denied | Dl_classification_downgrade | Dl_purpose_downgrade
  | Dl_residency_downgrade | Dl_retention_downgrade | Dl_consent_downgrade | Dl_legal_hold_dropped | Dl_subject_lineage_dropped
  | Dl_derivation_depth_exceeded | Dl_resource_limit_exceeded | Dl_deletion_scope_missing | Dl_deletion_target_unknown
  | Dl_deletion_plan_invalid | Dl_deletion_plan_expired | Dl_deletion_plan_stale | Dl_legal_hold_active | Dl_connector_missing
  | Dl_tombstone_failed | Dl_deletion_failed | Dl_verification_failed | Dl_external_guarantee_limited

fun class_rank :: "data_class \<Rightarrow> nat" where
  "class_rank Class_public = 0" | "class_rank Class_internal = 1" | "class_rank Class_confidential = 2" | "class_rank Class_restricted = 3"

fun consent_rank :: "training_consent \<Rightarrow> nat" where
  "consent_rank Consent_granted = 0" | "consent_rank Consent_denied = 1"
| "consent_rank Consent_not_applicable = 1" | "consent_rank Consent_withdrawn = 2"

section \<open>Records\<close>

record lifecycle_metadata =
  lf_class :: data_class
  lf_purposes :: "ident set"
  lf_residencies :: "ident set"
  lf_retention_until :: datetime
  lf_consent :: training_consent
  lf_holds :: "ident set"
  lf_subjects :: "string set"

record storage_location =
  lo_connector_id :: ident
  lo_external_id :: string
  lo_external_ref :: string
  lo_residency :: ident
  lo_capability :: deletion_capability
  lo_backup_until :: "datetime option"

record data_source =
  so_artifact_id :: ident
  so_record_digest :: string

record data_record =
  lr_artifact_id :: ident
  lr_version :: nat
  lr_kind :: artifact_kind
  lr_tenant_id :: ident
  lr_lifecycle :: lifecycle_metadata
  lr_locations :: "storage_location list"
  lr_sources :: "data_source list"
  lr_depth :: nat
  lr_content_digest :: string
  lr_created_at :: datetime
  lr_state :: deletion_state
  lr_tombstone_id :: "ident option"
  lr_digest :: string

record retention_rule =
  re_class :: data_class
  re_max_seconds :: int

record lifecycle_policy =
  lp_purposes :: "ident set"
  lp_residencies :: "ident set"
  lp_rules :: "retention_rule list"
  lp_training_classes :: "data_class set"
  lp_deletion_scope :: ident
  lp_plan_ttl :: int
  lp_max_artifacts :: nat
  lp_max_sources :: nat
  lp_max_depth :: nat
  lp_max_actions :: nat

definition default_retention_rules :: "retention_rule list" where
  "default_retention_rules =
     [\<lparr>re_class = Class_public, re_max_seconds = 365 * 86400\<rparr>, \<lparr>re_class = Class_internal, re_max_seconds = 180 * 86400\<rparr>,
      \<lparr>re_class = Class_confidential, re_max_seconds = 90 * 86400\<rparr>, \<lparr>re_class = Class_restricted, re_max_seconds = 30 * 86400\<rparr>]"

definition lifecycle_policy_ok :: "lifecycle_policy \<Rightarrow> bool" where
  "lifecycle_policy_ok p \<longleftrightarrow> distinct (map re_class (lp_rules p)) \<and>
     set (map re_class (lp_rules p)) = {Class_public, Class_internal, Class_confidential, Class_restricted}"

record lifecycle_principal =
  li_principal_id :: ident
  li_tenant_id :: ident
  li_scopes :: "ident set"

record derivation_request =
  dv_request_id :: ident
  dv_artifact_id :: ident
  dv_kind :: artifact_kind
  dv_tenant_id :: ident
  dv_sources :: "data_source list"
  dv_lifecycle :: lifecycle_metadata
  dv_locations :: "storage_location list"
  dv_content_digest :: string
  dv_created_at :: datetime

record use_request =
  uq_request_id :: ident
  uq_artifact_id :: ident
  uq_expected_digest :: string
  uq_principal :: lifecycle_principal
  uq_purpose_id :: ident
  uq_residency :: ident
  uq_kind :: data_use_kind
  uq_retention_until :: "datetime option"

record data_use_permit =
  au_authorization_id :: string
  au_request_digest :: string
  au_artifact_id :: ident
  au_record_digest :: string
  au_kind :: data_use_kind
  au_purpose_id :: ident
  au_residency :: ident

record deletion_request =
  dq_request_id :: ident
  dq_tenant_id :: ident
  dq_principal :: lifecycle_principal
  dq_reason :: deletion_reason
  dq_artifact_ids :: "ident list"
  dq_subjects :: "string set"
  dq_cascade :: bool

definition deletion_request_ok :: "deletion_request \<Rightarrow> bool" where
  "deletion_request_ok q \<longleftrightarrow> (dq_artifact_ids q \<noteq> [] \<or> dq_subjects q \<noteq> {}) \<and>
     li_tenant_id (dq_principal q) = dq_tenant_id q"

record deletion_action =
  dx_artifact_id :: ident
  dx_expected_digest :: string
  dx_connector_id :: ident
  dx_external_id :: string
  dx_external_ref :: string
  dx_capability :: deletion_capability
  dx_backup_until :: "datetime option"

record deletion_plan =
  dl_plan_id :: ident
  dl_request :: deletion_request
  dl_actions :: "deletion_action list"
  dl_held :: "ident list"
  dl_selected_digests :: "string list"
  dl_created_at :: datetime
  dl_expires_at :: datetime
  dl_digest :: string

record deletion_tombstone =
  tb_tombstone_id :: ident
  tb_artifact_id :: ident
  tb_prior_digest :: string
  tb_plan_digest :: string
  tb_created_at :: datetime

record deletion_receipt =
  rz_artifact_id :: ident
  rz_connector_id :: ident
  rz_external_ref :: string
  rz_tombstone_id :: ident
  rz_plan_digest :: string
  rz_receipt_ref :: string
  rz_deleted :: bool
  rz_occurred_at :: datetime

record deletion_verification =
  vn_artifact_id :: ident
  vn_connector_id :: ident
  vn_external_ref :: string
  vn_tombstone_id :: ident
  vn_plan_digest :: string
  vn_receipt_ref :: string
  vn_evidence_ref :: string
  vn_verified :: bool
  vn_verified_at :: datetime

record lifecycle_finding =
  lk_code :: lifecycle_code
  lk_severity :: severity
  lk_message :: string
  lk_artifact_ref :: "string option"
  lk_related :: "string list"

record lifecycle_audit =
  la_occurred_at :: datetime
  la_operation :: lifecycle_operation
  la_action :: guard_action
  la_codes :: "lifecycle_code list"
  la_request_ref :: "string option"
  la_artifact_refs :: "string list"
  la_principal_ref :: "string option"
  la_tenant_ref :: "string option"
  la_purpose_ref :: "string option"
  la_action_count :: nat
  la_held_count :: nat

record lifecycle_decision =
  lj_action :: guard_action
  lj_findings :: "lifecycle_finding list"
  lj_record :: "data_record option"
  lj_permit :: "data_use_permit option"
  lj_audit :: lifecycle_audit

record deletion_plan_result =
  lq_action :: guard_action
  lq_findings :: "lifecycle_finding list"
  lq_plan :: "deletion_plan option"
  lq_audit :: lifecycle_audit

record deletion_result =
  lv_action :: guard_action
  lv_findings :: "lifecycle_finding list"
  lv_tombstones :: "deletion_tombstone list"
  lv_receipts :: "deletion_receipt list"
  lv_verifications :: "deletion_verification list"
  lv_audit :: lifecycle_audit

definition lj_is_allowed :: "lifecycle_decision \<Rightarrow> bool" where
  "lj_is_allowed d \<longleftrightarrow> lj_action d = ALLOW"

definition lq_is_planned :: "deletion_plan_result \<Rightarrow> bool" where
  "lq_is_planned d \<longleftrightarrow> lq_action d = ALLOW \<and> lq_plan d \<noteq> None"

definition lv_is_complete :: "deletion_result \<Rightarrow> bool" where
  "lv_is_complete d \<longleftrightarrow> lv_action d = ALLOW \<and> lv_findings d = []"

text \<open>The digests, one per kind of value hashed.\<close>

record lifecycle_hash =
  ly_reference :: "string \<Rightarrow> string"
  ly_record :: "data_record \<Rightarrow> string"
  ly_plan :: "deletion_plan \<Rightarrow> string"
  ly_derivation :: "derivation_request \<Rightarrow> string"
  ly_use :: "use_request \<Rightarrow> string"
  ly_deletion :: "deletion_request \<Rightarrow> string"
  ly_authorization :: "string \<Rightarrow> string \<Rightarrow> string"
  ly_tombstone :: "string \<Rightarrow> ident \<Rightarrow> string"

section \<open>Integrity of records\<close>

definition create_location ::
  "lifecycle_hash \<Rightarrow> ident \<Rightarrow> string \<Rightarrow> ident \<Rightarrow> deletion_capability \<Rightarrow> datetime option \<Rightarrow> storage_location" where
  "create_location h connector external residency capability backup = \<lparr>lo_connector_id = connector, lo_external_id = external,
     lo_external_ref = ly_reference h external, lo_residency = residency, lo_capability = capability, lo_backup_until = backup\<rparr>"

definition location_ok :: "lifecycle_hash \<Rightarrow> storage_location \<Rightarrow> bool" where
  "location_ok h l \<longleftrightarrow> lo_external_ref l = ly_reference h (lo_external_id l)"

text \<open>\<open>external_id\<close> is excluded from serialisation, so the digest does not see it.\<close>

definition lifecycle_payload :: "data_record \<Rightarrow> data_record" where
  "lifecycle_payload r = r\<lparr>lr_digest := [], lr_locations := map (\<lambda>l. l\<lparr>lo_external_id := []\<rparr>) (lr_locations r)\<rparr>"

definition lifecycle_integrity :: "lifecycle_hash \<Rightarrow> data_record \<Rightarrow> bool" where
  "lifecycle_integrity h r \<longleftrightarrow> lr_digest r = ly_record h (lifecycle_payload r)"

definition lifecycle_record_ok :: "lifecycle_hash \<Rightarrow> data_record \<Rightarrow> bool" where
  "lifecycle_record_ok h r \<longleftrightarrow>
     distinct (map (\<lambda>l. (lo_connector_id l, lo_external_ref l)) (lr_locations r)) \<and>
     (\<forall>l\<in>set (lr_locations r). lo_residency l \<in> lf_residencies (lr_lifecycle r)) \<and>
     distinct (map so_artifact_id (lr_sources r)) \<and>
     (\<forall>s\<in>set (lr_sources r). so_artifact_id s \<noteq> lr_artifact_id r) \<and>
     (lr_sources r \<noteq> [] \<longleftrightarrow> 0 < lr_depth r) \<and>
     lr_created_at r < lf_retention_until (lr_lifecycle r) \<and>
     (lr_state r = Del_active \<longleftrightarrow> lr_tombstone_id r = None) \<and>
     1 \<le> lr_version r \<and> 1 \<le> length (lr_locations r) \<and> length (lr_locations r) \<le> 1000 \<and>
     length (lr_sources r) \<le> 1000 \<and> lr_depth r \<le> 1000 \<and> lifecycle_integrity h r"

definition seal_lifecycle :: "lifecycle_hash \<Rightarrow> data_record \<Rightarrow> data_record" where
  "seal_lifecycle h r = r\<lparr>lr_digest := ly_record h (lifecycle_payload r)\<rparr>"

text \<open>\<open>DataLifecycleRecord.create\<close>: the sealed record, or \<open>None\<close> where its validator raises.\<close>

definition create_lifecycle :: "lifecycle_hash \<Rightarrow> data_record \<Rightarrow> data_record option" where
  "create_lifecycle h r = (let s = seal_lifecycle h r in if lifecycle_record_ok h s then Some s else None)"

definition with_deletion_state :: "lifecycle_hash \<Rightarrow> deletion_state \<Rightarrow> ident \<Rightarrow> data_record \<Rightarrow> data_record option" where
  "with_deletion_state h st tombstone r =
     create_lifecycle h (r\<lparr>lr_version := lr_version r + 1, lr_state := st, lr_tombstone_id := Some tombstone\<rparr>)"

section \<open>The manager\<close>

record lifecycle_state =
  lw_records :: "(ident, data_record) dict"
  lw_sink :: "(nat \<times> lifecycle_audit list) option"

definition lk_find :: "lifecycle_hash \<Rightarrow> lifecycle_code \<Rightarrow> string \<Rightarrow> ident option \<Rightarrow> string list \<Rightarrow> lifecycle_finding" where
  "lk_find h c msg artifact related = \<lparr>lk_code = c, lk_severity = HIGH, lk_message = msg,
     lk_artifact_ref = map_option (ly_reference h) artifact, lk_related = sort (remdups related)\<rparr>"

text \<open>\<open>_deduplicate\<close> keeps the first finding of every code, artifact and related references.\<close>

fun dedup_lifecycle :: "lifecycle_finding list \<Rightarrow> lifecycle_finding list" where
  "dedup_lifecycle [] = []"
| "dedup_lifecycle (f # fs) = f # dedup_lifecycle (filter (\<lambda>g. (lk_code g, lk_artifact_ref g, lk_related g) \<noteq>
     (lk_code f, lk_artifact_ref f, lk_related f)) fs)"

definition lifecycle_event ::
  "lifecycle_hash \<Rightarrow> guard_action \<Rightarrow> lifecycle_operation \<Rightarrow> lifecycle_finding list \<Rightarrow> datetime \<Rightarrow> string option \<Rightarrow> ident list \<Rightarrow>
   ident option \<Rightarrow> ident option \<Rightarrow> ident option \<Rightarrow> nat \<Rightarrow> nat \<Rightarrow> lifecycle_state \<Rightarrow> lifecycle_audit \<times> lifecycle_state" where
  "lifecycle_event h action oper fs now request artifacts principal_id tenant purpose actions held s =
     (let e = \<lparr>la_occurred_at = now, la_operation = oper, la_action = action,
        la_codes = (if fs = [] then [Dl_allowed] else map lk_code fs), la_request_ref = map_option (ly_reference h) request,
        la_artifact_refs = map (ly_reference h) (sort (remdups artifacts)), la_principal_ref = map_option (ly_reference h) principal_id,
        la_tenant_ref = map_option (ly_reference h) tenant, la_purpose_ref = map_option (ly_reference h) purpose,
        la_action_count = actions, la_held_count = held\<rparr> in
      (e, s\<lparr>lw_sink := map_option (\<lambda>(n, es). (n, deque_append n es e)) (lw_sink s)\<rparr>))"

definition lifecycle_decide ::
  "lifecycle_hash \<Rightarrow> guard_action \<Rightarrow> lifecycle_operation \<Rightarrow> lifecycle_finding list \<Rightarrow> datetime \<Rightarrow> string option \<Rightarrow> ident list \<Rightarrow>
   ident option \<Rightarrow> ident option \<Rightarrow> ident option \<Rightarrow> data_record option \<Rightarrow> data_use_permit option \<Rightarrow> lifecycle_state \<Rightarrow>
   lifecycle_decision \<times> lifecycle_state" where
  "lifecycle_decide h action oper fs now request artifacts principal_id tenant purpose rec permit s =
     (let (e, s') = lifecycle_event h action oper fs now request artifacts principal_id tenant purpose 0 0 s in
      (\<lparr>lj_action = action, lj_findings = fs, lj_record = rec, lj_permit = permit, lj_audit = e\<rparr>, s'))"

section \<open>Registration\<close>

text \<open>\<open>None\<close> where \<open>next\<close> finds no retention rule for the classification.\<close>

definition record_findings :: "lifecycle_hash \<Rightarrow> lifecycle_policy \<Rightarrow> data_record \<Rightarrow> lifecycle_finding list option" where
  "record_findings h p r =
     (let l = lr_lifecycle r; a = Some (lr_artifact_id r) in
      case List.find (\<lambda>x. re_class x = lf_class l) (lp_rules p) of
        None \<Rightarrow> None
      | Some rule \<Rightarrow> Some (
          (if \<not> lifecycle_integrity h r
             then [lk_find h Dl_record_integrity_invalid ''Lifecycle record failed integrity validation'' a []] else []) @
          (if lr_state r \<noteq> Del_active
             then [lk_find h Dl_source_not_active ''Only active artifacts can enter the lifecycle catalog'' a []] else []) @
          (if \<not> lf_purposes l \<subseteq> lp_purposes p
             then [lk_find h Dl_purpose_denied ''Artifact declares a purpose outside lifecycle policy'' a []] else []) @
          (if \<not> lf_residencies l \<subseteq> lp_residencies p
             then [lk_find h Dl_residency_denied ''Artifact declares a residency outside lifecycle policy'' a []] else []) @
          (if td_seconds (re_max_seconds rule) < lf_retention_until l - lr_created_at r
             then [lk_find h Dl_retention_extension ''Artifact retention exceeds its classification maximum'' a []] else []) @
          (if lf_consent l = Consent_granted \<and> lf_class l \<notin> lp_training_classes p
             then [lk_find h Dl_training_consent_denied ''Classification policy forbids training even with consent'' a []] else [])))"

definition register_artifact ::
  "lifecycle_hash \<Rightarrow> lifecycle_policy \<Rightarrow> data_record \<Rightarrow> datetime \<Rightarrow> lifecycle_state \<Rightarrow> (lifecycle_decision \<times> lifecycle_state) option" where
  "register_artifact h p r now s =
     (let a = lr_artifact_id r in
      case record_findings h p r of
        None \<Rightarrow> None
      | Some rf \<Rightarrow>
          (let fs = rf @
             (if lr_sources r \<noteq> []
                then [lk_find h Dl_source_unknown ''Source registration accepts only original artifacts'' (Some a) []] else []) @
             (if dict_get (lw_records s) a \<noteq> None
                then [lk_find h Dl_duplicate_artifact ''Artifact identity is already registered'' (Some a) []] else []) @
             (if lp_max_artifacts p \<le> length (lw_records s)
                then [lk_find h Dl_resource_limit_exceeded ''Lifecycle catalog reached its configured artifact limit'' (Some a) []]
                else []) in
           if fs \<noteq> [] then Some (lifecycle_decide h BLOCK Lop_register fs now None [a] None None None None None s)
           else Some (lifecycle_decide h ALLOW Lop_register [] now None [a] None None None (Some r) None
             (s\<lparr>lw_records := dict_set (lw_records s) a r\<rparr>))))"

definition require_registration ::
  "lifecycle_hash \<Rightarrow> lifecycle_policy \<Rightarrow> data_record \<Rightarrow> datetime \<Rightarrow> lifecycle_state \<Rightarrow>
   ((lifecycle_decision + data_record) \<times> lifecycle_state) option" where
  "require_registration h p r now s = map_option (\<lambda>(d, s').
     (case lj_record d of Some x \<Rightarrow> (if lj_is_allowed d then Inr x else Inl d) | None \<Rightarrow> Inl d, s')) (register_artifact h p r now s)"

section \<open>Derivation\<close>

text \<open>The checks that a derived artifact keeps every restriction of its sources, which are not empty.\<close>

definition propagation_findings :: "lifecycle_hash \<Rightarrow> lifecycle_metadata \<Rightarrow> data_record list \<Rightarrow> ident \<Rightarrow> lifecycle_finding list" where
  "propagation_findings h l srcs artifact =
     (let ms = map lr_lifecycle srcs; a = Some artifact;
          max_class = foldl max (class_rank (lf_class (hd ms))) (map (\<lambda>m. class_rank (lf_class m)) (List.tl ms));
          purposes = foldl (\<inter>) (lf_purposes (hd ms)) (map lf_purposes (List.tl ms));
          residencies = foldl (\<inter>) (lf_residencies (hd ms)) (map lf_residencies (List.tl ms));
          earliest = foldl min (lf_retention_until (hd ms)) (map lf_retention_until (List.tl ms));
          consent = foldl max (consent_rank (lf_consent (hd ms))) (map (\<lambda>m. consent_rank (lf_consent m)) (List.tl ms));
          holds = foldl (\<union>) {} (map lf_holds ms);
          subjects = foldl (\<union>) {} (map lf_subjects ms) in
      (if class_rank (lf_class l) < max_class
         then [lk_find h Dl_classification_downgrade ''Derived artifact lowers a source classification'' a []] else []) @
      (if \<not> lf_purposes l \<subseteq> purposes
         then [lk_find h Dl_purpose_downgrade ''Derived artifact broadens the common source purposes'' a []] else []) @
      (if \<not> lf_residencies l \<subseteq> residencies
         then [lk_find h Dl_residency_downgrade ''Derived artifact broadens the common source residencies'' a []] else []) @
      (if earliest < lf_retention_until l
         then [lk_find h Dl_retention_downgrade ''Derived artifact extends a source retention deadline'' a []] else []) @
      (if consent_rank (lf_consent l) < consent
         then [lk_find h Dl_consent_downgrade ''Derived artifact weakens a source training-consent restriction'' a []] else []) @
      (if \<not> holds \<subseteq> lf_holds l
         then [lk_find h Dl_legal_hold_dropped ''Derived artifact drops a source legal hold'' a []] else []) @
      (if \<not> subjects \<subseteq> lf_subjects l
         then [lk_find h Dl_subject_lineage_dropped ''Derived artifact drops data-subject deletion lineage'' a []] else []))"

text \<open>The loop over the sources: its findings and the sources that exist.\<close>

definition source_check :: "lifecycle_hash \<Rightarrow> derivation_request \<Rightarrow> data_source \<Rightarrow> data_record \<Rightarrow> lifecycle_finding list" where
  "source_check h q ref r =
     (let a = Some (lr_artifact_id r) in
      (if lr_digest r \<noteq> so_record_digest ref
         then [lk_find h Dl_source_changed ''Derivation source version no longer matches'' a []] else []) @
      (if \<not> lifecycle_integrity h r
         then [lk_find h Dl_record_integrity_invalid ''Derivation source failed lifecycle integrity validation'' a []] else []) @
      (if lr_state r \<noteq> Del_active
         then [lk_find h Dl_source_not_active ''Tombstoned or deleted data cannot produce a derived artifact'' a []] else []) @
      (if lr_tenant_id r \<noteq> dv_tenant_id q
         then [lk_find h Dl_tenant_mismatch ''Derived artifacts cannot cross tenant boundaries'' a []] else []))"

fun derivation_sources ::
  "lifecycle_hash \<Rightarrow> derivation_request \<Rightarrow> (ident, data_record) dict \<Rightarrow> data_source list \<Rightarrow> lifecycle_finding list \<times> data_record list" where
  "derivation_sources h q rs [] = ([], [])"
| "derivation_sources h q rs (x # xs) =
     (let (fs, srcs) = derivation_sources h q rs xs in
      case dict_get rs (so_artifact_id x) of
        None \<Rightarrow> (lk_find h Dl_source_unknown ''Derivation references an unknown source artifact'' (Some (so_artifact_id x)) [] # fs, srcs)
      | Some r \<Rightarrow> (source_check h q x r @ fs, r # srcs))"

definition derived_candidate :: "lifecycle_hash \<Rightarrow> derivation_request \<Rightarrow> nat \<Rightarrow> data_record option" where
  "derived_candidate h q depth = create_lifecycle h
     \<lparr>lr_artifact_id = dv_artifact_id q, lr_version = 1, lr_kind = dv_kind q, lr_tenant_id = dv_tenant_id q,
      lr_lifecycle = dv_lifecycle q, lr_locations = dv_locations q, lr_sources = dv_sources q, lr_depth = depth,
      lr_content_digest = dv_content_digest q, lr_created_at = dv_created_at q, lr_state = Del_active,
      lr_tombstone_id = None, lr_digest = []\<rparr>"

definition derivation_depth :: "data_record list \<Rightarrow> nat" where
  "derivation_depth srcs = (case srcs of [] \<Rightarrow> 1 | r # rs \<Rightarrow> foldl max (lr_depth r) (map lr_depth rs) + 1)"

definition derivation_findings ::
  "lifecycle_hash \<Rightarrow> lifecycle_policy \<Rightarrow> derivation_request \<Rightarrow> lifecycle_state \<Rightarrow> (lifecycle_finding list \<times> data_record option) option" where
  "derivation_findings h p q s =
     (let a = Some (dv_artifact_id q); (sfs, srcs) = derivation_sources h q (lw_records s) (dv_sources q);
          depth = derivation_depth srcs; candidate = derived_candidate h q depth;
          fs = (if dict_get (lw_records s) (dv_artifact_id q) \<noteq> None
                  then [lk_find h Dl_duplicate_artifact ''Derived artifact identity is already registered'' a []] else []) @
               (if lp_max_artifacts p \<le> length (lw_records s)
                  then [lk_find h Dl_resource_limit_exceeded ''Lifecycle catalog reached its configured artifact limit'' a []] else []) @
               (if lp_max_sources p < length (dv_sources q)
                  then [lk_find h Dl_resource_limit_exceeded ''Derivation contains too many source artifacts'' a []] else []) @
               sfs @ (if srcs \<noteq> [] then propagation_findings h (dv_lifecycle q) srcs (dv_artifact_id q) else []) @
               (if lp_max_depth p < depth
                  then [lk_find h Dl_derivation_depth_exceeded ''Derived artifact exceeds the configured lineage depth'' a []] else []) in
      case candidate of
        None \<Rightarrow> Some (dedup_lifecycle (fs @ [lk_find h Dl_policy_invalid ''Derived lifecycle record is structurally invalid'' a []]), None)
      | Some c \<Rightarrow> map_option (\<lambda>rf. (dedup_lifecycle (fs @ rf), Some c)) (record_findings h p c))"

definition derive_artifact ::
  "lifecycle_hash \<Rightarrow> lifecycle_policy \<Rightarrow> derivation_request \<Rightarrow> datetime \<Rightarrow> lifecycle_state \<Rightarrow> (lifecycle_decision \<times> lifecycle_state) option" where
  "derive_artifact h p q now s =
     (case derivation_findings h p q s of
        None \<Rightarrow> None
      | Some (fs, candidate) \<Rightarrow>
          (let ids = dv_artifact_id q # map lr_artifact_id (snd (derivation_sources h q (lw_records s) (dv_sources q)));
               digest = Some (ly_derivation h q) in
           case (fs, candidate) of
             ([], Some c) \<Rightarrow> Some (lifecycle_decide h ALLOW Lop_derive [] now digest ids None (Some (dv_tenant_id q)) None (Some c) None
               (s\<lparr>lw_records := dict_set (lw_records s) (lr_artifact_id c) c\<rparr>))
           | _ \<Rightarrow> Some (lifecycle_decide h BLOCK Lop_derive fs now digest ids None (Some (dv_tenant_id q)) None None None s)))"

definition require_derivation ::
  "lifecycle_hash \<Rightarrow> lifecycle_policy \<Rightarrow> derivation_request \<Rightarrow> datetime \<Rightarrow> lifecycle_state \<Rightarrow>
   ((lifecycle_decision + data_record) \<times> lifecycle_state) option" where
  "require_derivation h p q now s = map_option (\<lambda>(d, s').
     (case lj_record d of Some x \<Rightarrow> (if lj_is_allowed d then Inr x else Inl d) | None \<Rightarrow> Inl d, s')) (derive_artifact h p q now s)"

section \<open>Use\<close>

definition use_findings :: "lifecycle_hash \<Rightarrow> lifecycle_policy \<Rightarrow> use_request \<Rightarrow> datetime \<Rightarrow> data_record \<Rightarrow> lifecycle_finding list" where
  "use_findings h p q now r =
     (let l = lr_lifecycle r; a = Some (lr_artifact_id r) in
      (if lr_digest r \<noteq> uq_expected_digest q
         then [lk_find h Dl_source_changed ''Requested lifecycle record version no longer matches'' a []] else []) @
      (if \<not> lifecycle_integrity h r
         then [lk_find h Dl_record_integrity_invalid ''Lifecycle record failed integrity validation'' a []] else []) @
      (if lr_state r \<noteq> Del_active
         then [lk_find h Dl_source_not_active ''Tombstoned or deleted artifacts cannot be used'' a []] else []) @
      (if lr_tenant_id r \<noteq> li_tenant_id (uq_principal q)
         then [lk_find h Dl_tenant_mismatch ''Artifact and authenticated principal tenants differ'' a []] else []) @
      (if uq_purpose_id q \<notin> lf_purposes l \<or> uq_purpose_id q \<notin> lp_purposes p
         then [lk_find h Dl_purpose_denied ''Requested processing purpose is not allowed'' a []] else []) @
      (if uq_residency q \<notin> lf_residencies l \<or> uq_residency q \<notin> lp_residencies p
         then [lk_find h Dl_residency_denied ''Destination residency is not allowed'' a []] else []) @
      (if lf_retention_until l \<le> now
         then [lk_find h Dl_retention_expired ''Artifact retention deadline has passed'' a []] else []) @
      (if (case uq_retention_until q of None \<Rightarrow> False | Some x \<Rightarrow> lf_retention_until l < x)
         then [lk_find h Dl_retention_extension ''Requested operation would extend artifact retention'' a []] else []) @
      (if uq_kind q = Use_training \<and> (lf_consent l \<noteq> Consent_granted \<or> lf_class l \<notin> lp_training_classes p)
         then [lk_find h Dl_training_consent_denied ''Artifact is not eligible for training use'' a []] else []))"

definition authorize_use ::
  "lifecycle_hash \<Rightarrow> lifecycle_policy \<Rightarrow> use_request \<Rightarrow> datetime \<Rightarrow> lifecycle_state \<Rightarrow> lifecycle_decision \<times> lifecycle_state" where
  "authorize_use h p q now s =
     (let rec = dict_get (lw_records s) (uq_artifact_id q); digest = ly_use h q;
          fs = dedup_lifecycle (case rec of
             None \<Rightarrow> [lk_find h Dl_artifact_unknown ''Lifecycle-governed artifact is unknown'' (Some (uq_artifact_id q)) []]
           | Some r \<Rightarrow> use_findings h p q now r);
          decide = (\<lambda>action fs permit. lifecycle_decide h action Lop_use fs now (Some digest) [uq_artifact_id q]
            (Some (li_principal_id (uq_principal q))) (Some (li_tenant_id (uq_principal q))) (Some (uq_purpose_id q)) None permit s) in
      case (fs, rec) of
        ([], Some r) \<Rightarrow> decide ALLOW [] (Some
          \<lparr>au_authorization_id = ly_authorization h (lr_digest r) digest, au_request_digest = digest,
           au_artifact_id = lr_artifact_id r, au_record_digest = lr_digest r, au_kind = uq_kind q,
           au_purpose_id = uq_purpose_id q, au_residency = uq_residency q\<rparr>)
      | _ \<Rightarrow> decide BLOCK fs None)"

definition require_use ::
  "lifecycle_hash \<Rightarrow> lifecycle_policy \<Rightarrow> use_request \<Rightarrow> datetime \<Rightarrow> lifecycle_state \<Rightarrow>
   (lifecycle_decision + data_use_permit) \<times> lifecycle_state" where
  "require_use h p q now s = (case authorize_use h p q now s of (d, s') \<Rightarrow>
     (case lj_permit d of Some x \<Rightarrow> (if lj_is_allowed d then Inr x else Inl d) | None \<Rightarrow> Inl d, s'))"

end
