(* ===== verification/Data_Deletion.thy ===== *)
theory Data_Deletion
  imports Data_Lifecycle
begin

text \<open>
  \<open>data_lifecycle.py\<close>, deletion: \<open>plan_deletion\<close> selects the targets, everything derived from them and their copies;
  \<open>execute_deletion\<close> marks the records under the lock (\<open>begin_deletion\<close>), drives the connectors without it
  (\<open>run_deletions\<close>) and settles the records under the lock again (\<open>finish_deletion\<close>), so that other operations may
  come between. A connector is arbitrary code over a world \<open>'w\<close>: it may raise or return anything.
\<close>

section \<open>Selection\<close>

text \<open>\<open>set.add\<close> on a set kept as a list without duplicates, and \<open>sorted\<close> of it.\<close>

definition set_add :: "ident \<Rightarrow> ident list \<Rightarrow> ident list" where
  "set_add x xs = (if x \<in> set xs then xs else xs @ [x])"

definition record_values :: "lifecycle_state \<Rightarrow> data_record list" where
  "record_values s = map snd (lw_records s)"

fun select_targets ::
  "lifecycle_hash \<Rightarrow> deletion_request \<Rightarrow> (ident, data_record) dict \<Rightarrow> ident list \<Rightarrow> ident list \<Rightarrow> lifecycle_finding list \<times> ident list" where
  "select_targets h q rs [] sel = ([], sel)"
| "select_targets h q rs (a # as) sel =
     (case dict_get rs a of
        Some r \<Rightarrow> if lr_tenant_id r = dq_tenant_id q then select_targets h q rs as (set_add a sel)
          else (case select_targets h q rs as sel of (fs, sel') \<Rightarrow>
            (lk_find h Dl_deletion_target_unknown ''Deletion target is unknown in the requested tenant'' (Some a) [] # fs, sel'))
      | None \<Rightarrow> (case select_targets h q rs as sel of (fs, sel') \<Rightarrow>
            (lk_find h Dl_deletion_target_unknown ''Deletion target is unknown in the requested tenant'' (Some a) [] # fs, sel')))"

fun select_subjects :: "deletion_request \<Rightarrow> data_record list \<Rightarrow> ident list \<Rightarrow> ident list" where
  "select_subjects q [] sel = sel"
| "select_subjects q (r # rs) sel = select_subjects q rs
     (if lr_tenant_id r = dq_tenant_id q \<and> lf_subjects (lr_lifecycle r) \<inter> dq_subjects q \<noteq> {}
      then set_add (lr_artifact_id r) sel else sel)"

text \<open>One round of the cascade over the catalog, and the rounds until one changes nothing.\<close>

fun cascade_pass :: "ident \<Rightarrow> data_record list \<Rightarrow> ident list \<Rightarrow> bool \<times> ident list" where
  "cascade_pass tenant [] sel = (False, sel)"
| "cascade_pass tenant (r # rs) sel =
     (if lr_tenant_id r \<noteq> tenant then cascade_pass tenant rs sel
      else if lr_artifact_id r \<in> set sel then cascade_pass tenant rs sel
      else if \<exists>x\<in>set (lr_sources r). so_artifact_id x \<in> set sel
        then (True, snd (cascade_pass tenant rs (sel @ [lr_artifact_id r])))
      else cascade_pass tenant rs sel)"

lemma cascade_pass_mono: "set sel \<subseteq> set (snd (cascade_pass tenant rs sel))"
proof (induction rs arbitrary: sel)
  case (Cons r rs)
  then show ?case by simp (metis Un_insert_right append_Nil2 insert_subset list.simps(15) set_append)
qed simp

lemma cascade_pass_subset: "set (snd (cascade_pass tenant rs sel)) \<subseteq> set sel \<union> lr_artifact_id ` set rs"
proof (induction rs arbitrary: sel)
  case (Cons r rs)
  show ?case using Cons [of sel] Cons [of "sel @ [lr_artifact_id r]"] by auto
qed simp

lemma cascade_pass_changed:
  "fst (cascade_pass tenant rs sel) \<Longrightarrow> \<exists>r\<in>set rs. lr_artifact_id r \<notin> set sel \<and> lr_artifact_id r \<in> set (snd (cascade_pass tenant rs sel))"
proof (induction rs arbitrary: sel)
  case (Cons r rs)
  show ?case
  proof (cases "lr_tenant_id r = tenant \<and> lr_artifact_id r \<notin> set sel \<and> (\<exists>x\<in>set (lr_sources r). so_artifact_id x \<in> set sel)")
    case True
    then show ?thesis using cascade_pass_mono [of "sel @ [lr_artifact_id r]" tenant rs] by auto
  next
    case False
    then have "cascade_pass tenant (r # rs) sel = cascade_pass tenant rs sel" by auto
    then show ?thesis using Cons by auto
  qed
qed simp

function cascade_closure :: "ident \<Rightarrow> data_record list \<Rightarrow> ident list \<Rightarrow> ident list" where
  "cascade_closure tenant rs sel =
     (case cascade_pass tenant rs sel of (changed, sel') \<Rightarrow> if changed then cascade_closure tenant rs sel' else sel')"
  by pat_completeness auto

text \<open>Every round but the last selects a further artifact of the catalog.\<close>

termination
proof (relation "measure (\<lambda>(tenant, rs, sel). card (lr_artifact_id ` set rs - set sel))", goal_cases)
  case (2 tenant rs sel changed sel')
  then have "cascade_pass tenant rs sel = (True, sel')" by simp
  then have ch: "fst (cascade_pass tenant rs sel)" and sel': "sel' = snd (cascade_pass tenant rs sel)" by simp_all
  obtain r where r: "r \<in> set rs" "lr_artifact_id r \<notin> set sel" "lr_artifact_id r \<in> set sel'"
    using cascade_pass_changed [OF ch] sel' by blast
  have "lr_artifact_id ` set rs - set sel' \<subset> lr_artifact_id ` set rs - set sel"
    using r cascade_pass_mono [of sel tenant rs] sel' by blast
  then show ?case by (simp add: psubset_card_mono)
qed simp

declare cascade_closure.simps [simp del]

definition deletion_selection :: "lifecycle_hash \<Rightarrow> deletion_request \<Rightarrow> lifecycle_state \<Rightarrow> lifecycle_finding list \<times> ident list" where
  "deletion_selection h q s =
     (let (fs, sel) = select_targets h q (lw_records s) (dq_artifact_ids q) [];
          sel = select_subjects q (record_values s) sel;
          sel = (if dq_cascade q then cascade_closure (dq_tenant_id q) (record_values s) sel else sel) in
      (fs @ (if sel = [] then [lk_find h Dl_deletion_target_unknown ''Deletion criteria did not resolve to an artifact'' None []] else []),
       sel))"

section \<open>Plans\<close>

definition deletion_action_ok :: "lifecycle_hash \<Rightarrow> deletion_action \<Rightarrow> bool" where
  "deletion_action_ok h a \<longleftrightarrow> dx_external_ref a = ly_reference h (dx_external_id a)"

text \<open>The action for one copy; \<open>None\<close> where its validator raises.\<close>

definition deletion_action_of :: "lifecycle_hash \<Rightarrow> data_record \<Rightarrow> storage_location \<Rightarrow> deletion_action option" where
  "deletion_action_of h r l =
     (let a = \<lparr>dx_artifact_id = lr_artifact_id r, dx_expected_digest = lr_digest r, dx_connector_id = lo_connector_id l,
        dx_external_id = lo_external_id l, dx_external_ref = lo_external_ref l, dx_capability = lo_capability l,
        dx_backup_until = lo_backup_until l\<rparr> in
      if deletion_action_ok h a then Some a else None)"

definition limited_guarantee :: "deletion_action \<Rightarrow> datetime \<Rightarrow> bool" where
  "limited_guarantee a now \<longleftrightarrow> dx_capability a \<notin> {Delcap_hard_delete, Delcap_crypto_erasure} \<or>
     (case dx_backup_until a of None \<Rightarrow> False | Some t \<Rightarrow> now < t)"

definition plan_payload :: "deletion_plan \<Rightarrow> deletion_plan" where
  "plan_payload p = p\<lparr>dl_digest := [], dl_actions := map (\<lambda>a. a\<lparr>dx_external_id := []\<rparr>) (dl_actions p)\<rparr>"

definition plan_integrity :: "lifecycle_hash \<Rightarrow> deletion_plan \<Rightarrow> bool" where
  "plan_integrity h p \<longleftrightarrow> dl_digest p = ly_plan h (plan_payload p)"

definition deletion_plan_ok :: "lifecycle_hash \<Rightarrow> deletion_plan \<Rightarrow> bool" where
  "deletion_plan_ok h p \<longleftrightarrow> dl_created_at p < dl_expires_at p \<and> sort (remdups (dl_held p)) = dl_held p \<and>
     sort (remdups (dl_selected_digests p)) = dl_selected_digests p \<and> plan_integrity h p \<and> length (dl_actions p) \<le> 1000000"

definition create_deletion_plan :: "lifecycle_hash \<Rightarrow> deletion_plan \<Rightarrow> deletion_plan option" where
  "create_deletion_plan h p =
     (let q = p\<lparr>dl_digest := ly_plan h (plan_payload p)\<rparr> in if deletion_plan_ok h q then Some q else None)"

definition is_blocking_code :: "lifecycle_code \<Rightarrow> bool" where
  "is_blocking_code c \<longleftrightarrow> c \<in> {Dl_deletion_scope_missing, Dl_deletion_target_unknown, Dl_policy_invalid}"

text \<open>The loop over the pending records: actions, held artifacts and findings.\<close>

fun plan_actions ::
  "lifecycle_hash \<Rightarrow> datetime \<Rightarrow> data_record list \<Rightarrow> (deletion_action list \<times> ident list \<times> lifecycle_finding list) option" where
  "plan_actions h now [] = Some ([], [], [])"
| "plan_actions h now (r # rs) =
     (if lf_holds (lr_lifecycle r) \<noteq> {} then
        (case plan_actions h now rs of None \<Rightarrow> None
         | Some (as, held, fs) \<Rightarrow> Some (as, lr_artifact_id r # held,
             lk_find h Dl_legal_hold_active ''Legal hold prevents deletion of the selected artifact'' (Some (lr_artifact_id r)) [] # fs))
      else
        (case (those (map (deletion_action_of h r) (lr_locations r)), plan_actions h now rs) of
           (Some bs, Some (as, held, fs)) \<Rightarrow> Some (bs @ as, held,
             map (\<lambda>b. lk_find h Dl_external_guarantee_limited ''External store cannot currently prove complete deletion''
               (Some (lr_artifact_id r)) [dx_external_ref b]) (filter (\<lambda>b. limited_guarantee b now) bs) @ fs)
         | _ \<Rightarrow> None))"

definition plan_result ::
  "lifecycle_hash \<Rightarrow> guard_action \<Rightarrow> lifecycle_finding list \<Rightarrow> datetime \<Rightarrow> deletion_request \<Rightarrow> ident list \<Rightarrow> deletion_plan option \<Rightarrow>
   lifecycle_state \<Rightarrow> deletion_plan_result \<times> lifecycle_state" where
  "plan_result h action fs now q ids plan s =
     (let (e, s') = lifecycle_event h action Lop_plan_deletion fs now (Some (ly_deletion h q)) ids
        (Some (li_principal_id (dq_principal q))) (Some (dq_tenant_id q)) None
        (case plan of Some p \<Rightarrow> length (dl_actions p) | None \<Rightarrow> 0) (case plan of Some p \<Rightarrow> length (dl_held p) | None \<Rightarrow> 0) s in
      (\<lparr>lq_action = action, lq_findings = fs, lq_plan = plan, lq_audit = e\<rparr>, s'))"

definition plan_deletion ::
  "lifecycle_hash \<Rightarrow> lifecycle_policy \<Rightarrow> deletion_request \<Rightarrow> datetime \<Rightarrow> lifecycle_state \<Rightarrow> (deletion_plan_result \<times> lifecycle_state) option" where
  "plan_deletion h p q now s =
     (let (sfs, sel) = deletion_selection h q s;
          records = List.map_filter (dict_get (lw_records s)) (sort sel);
          fs = (if lp_deletion_scope p \<notin> li_scopes (dq_principal q)
                  then [lk_find h Dl_deletion_scope_missing ''Authenticated principal lacks the deletion scope'' None []] else []) @ sfs @
               (if dq_reason q = Reason_retention_expired \<and> (\<exists>r\<in>set records. now < lf_retention_until (lr_lifecycle r))
                  then [lk_find h Dl_policy_invalid ''Retention-expiry deletion includes an unexpired artifact'' None []] else []);
          pending = filter (\<lambda>r. lr_state r \<noteq> Del_verified) records in
      if list_ex (\<lambda>f. is_blocking_code (lk_code f)) fs then Some (plan_result h BLOCK fs now q sel None s)
      else (case plan_actions h now pending of
          None \<Rightarrow> None
        | Some (actions, held, pfs) \<Rightarrow>
            if lp_max_actions p < length actions
            then Some (plan_result h BLOCK
              (fs @ pfs @ [lk_find h Dl_resource_limit_exceeded ''Deletion plan exceeds its configured action limit'' None []]) now q sel None s)
            else (case create_deletion_plan h
                \<lparr>dl_plan_id = dq_request_id q, dl_request = q, dl_actions = actions, dl_held = sort held,
                 dl_selected_digests = sort (map lr_digest pending), dl_created_at = now,
                 dl_expires_at = now + td_seconds (lp_plan_ttl p), dl_digest = []\<rparr> of
              None \<Rightarrow> None
            | Some plan \<Rightarrow> Some (plan_result h ALLOW (dedup_lifecycle (fs @ pfs)) now q sel (Some plan) s))))"

definition require_deletion_plan ::
  "lifecycle_hash \<Rightarrow> lifecycle_policy \<Rightarrow> deletion_request \<Rightarrow> datetime \<Rightarrow> lifecycle_state \<Rightarrow>
   ((deletion_plan_result + deletion_plan) \<times> lifecycle_state) option" where
  "require_deletion_plan h p q now s = map_option (\<lambda>(d, s').
     (case lq_plan d of Some x \<Rightarrow> (if lq_is_planned d then Inr x else Inl d) | None \<Rightarrow> Inl d, s')) (plan_deletion h p q now s)"

section \<open>Execution\<close>

text \<open>
  A connector over a world: each call yields \<open>None\<close> where it raises or returns something else than the protocol's
  value (for \<open>tombstone\<close>: whether it returned).
\<close>

record 'w deletion_connector =
  cw_tombstone :: "deletion_action \<Rightarrow> deletion_tombstone \<Rightarrow> 'w \<Rightarrow> bool \<times> 'w"
  cw_delete :: "deletion_action \<Rightarrow> deletion_tombstone \<Rightarrow> 'w \<Rightarrow> deletion_receipt option \<times> 'w"
  cw_verify :: "deletion_action \<Rightarrow> deletion_tombstone \<Rightarrow> deletion_receipt \<Rightarrow> 'w \<Rightarrow> deletion_verification option \<times> 'w"

definition new_connectors :: "(ident \<times> 'w deletion_connector) list \<Rightarrow> (ident, 'w deletion_connector) dict option" where
  "new_connectors cs = (if distinct (map fst cs) then Some cs else None)"

definition valid_receipt :: "deletion_action \<Rightarrow> deletion_tombstone \<Rightarrow> deletion_receipt \<Rightarrow> bool" where
  "valid_receipt a t r \<longleftrightarrow> rz_deleted r \<and> rz_artifact_id r = dx_artifact_id a \<and> rz_connector_id r = dx_connector_id a \<and>
     rz_external_ref r = dx_external_ref a \<and> rz_tombstone_id r = tb_tombstone_id t \<and> rz_plan_digest r = tb_plan_digest t \<and>
     tb_created_at t \<le> rz_occurred_at r"

definition valid_verification ::
  "deletion_action \<Rightarrow> deletion_tombstone \<Rightarrow> deletion_receipt \<Rightarrow> deletion_verification \<Rightarrow> bool" where
  "valid_verification a t r v \<longleftrightarrow> vn_verified v \<and> vn_artifact_id v = dx_artifact_id a \<and> vn_connector_id v = dx_connector_id a \<and>
     vn_external_ref v = dx_external_ref a \<and> vn_tombstone_id v = tb_tombstone_id t \<and> vn_plan_digest v = tb_plan_digest t \<and>
     vn_receipt_ref v = rz_receipt_ref r \<and> rz_occurred_at r \<le> vn_verified_at v"

definition execution_findings :: "lifecycle_hash \<Rightarrow> lifecycle_policy \<Rightarrow> deletion_plan \<Rightarrow> datetime \<Rightarrow> lifecycle_state \<Rightarrow> lifecycle_finding list" where
  "execution_findings h p plan now s =
     (if \<not> plan_integrity h plan
        then [lk_find h Dl_deletion_plan_invalid ''Deletion plan failed integrity validation'' None []] else []) @
     (if dl_expires_at plan \<le> now then [lk_find h Dl_deletion_plan_expired ''Deletion plan has expired'' None []] else []) @
     (if lp_deletion_scope p \<notin> li_scopes (dq_principal (dl_request plan))
        then [lk_find h Dl_deletion_scope_missing ''Deletion plan no longer carries the required scope'' None []] else []) @
     (if \<not> set (dl_selected_digests plan) \<subseteq> lr_digest ` set (record_values s)
        then [lk_find h Dl_deletion_plan_stale ''One or more selected lifecycle records changed after planning'' None []] else []) @
     concat (map (\<lambda>a. if (case dict_get (lw_records s) (dx_artifact_id a) of
             None \<Rightarrow> True
           | Some r \<Rightarrow> lr_digest r \<noteq> dx_expected_digest a \<or> lr_state r = Del_verified \<or> lf_holds (lr_lifecycle r) \<noteq> {})
         then [lk_find h Dl_deletion_plan_stale ''Deletion action no longer matches an outstanding, unheld record''
           (Some (dx_artifact_id a)) []] else []) (dl_actions plan))"

definition tombstone_of :: "lifecycle_hash \<Rightarrow> deletion_plan \<Rightarrow> datetime \<Rightarrow> data_record \<Rightarrow> ident \<Rightarrow> deletion_tombstone" where
  "tombstone_of h plan now r a = \<lparr>tb_tombstone_id = ''tombstone-'' @ take 32 (ly_tombstone h (dl_digest plan) a), tb_artifact_id = a,
     tb_prior_digest = lr_digest r, tb_plan_digest = dl_digest plan, tb_created_at = now\<rparr>"

definition plan_artifacts :: "deletion_plan \<Rightarrow> ident list" where
  "plan_artifacts plan = first_occurrences (map dx_artifact_id (dl_actions plan))"

text \<open>Under the lock: every artifact of the plan is tombstoned. \<open>None\<close> where a record cannot be built.\<close>

fun tombstone_all ::
  "lifecycle_hash \<Rightarrow> deletion_plan \<Rightarrow> datetime \<Rightarrow> ident list \<Rightarrow> (ident, data_record) dict \<Rightarrow>
   ((ident, deletion_tombstone) dict \<times> (ident, data_record) dict) option" where
  "tombstone_all h plan now [] rs = Some ([], rs)"
| "tombstone_all h plan now (a # as) rs =
     (case dict_get rs a of None \<Rightarrow> None
      | Some r \<Rightarrow>
          (let t = tombstone_of h plan now r a in
           case with_deletion_state h Del_tombstoned (tb_tombstone_id t) r of
             None \<Rightarrow> None
           | Some r' \<Rightarrow> (case tombstone_all h plan now as (dict_set rs a r') of
               None \<Rightarrow> None | Some (ts, rs') \<Rightarrow> Some ((a, t) # ts, rs'))))"

definition begin_deletion ::
  "lifecycle_hash \<Rightarrow> lifecycle_policy \<Rightarrow> deletion_plan \<Rightarrow> datetime \<Rightarrow> lifecycle_state \<Rightarrow>
   (lifecycle_finding list \<times> (ident, deletion_tombstone) dict \<times> lifecycle_state) option" where
  "begin_deletion h p plan now s =
     (let fs = execution_findings h p plan now s in
      if fs \<noteq> [] then Some (fs, [], s)
      else (case tombstone_all h plan now (plan_artifacts plan) (lw_records s) of
          None \<Rightarrow> None | Some (ts, rs) \<Rightarrow> Some ([], ts, s\<lparr>lw_records := rs\<rparr>)))"

text \<open>What the connectors did: findings, receipts, verifications, failed and limited artifacts.\<close>

record deletion_outcome =
  do_findings :: "lifecycle_finding list"
  do_receipts :: "deletion_receipt list"
  do_verifications :: "deletion_verification list"
  do_failed :: "ident set"
  do_limited :: "ident set"

definition no_outcome :: deletion_outcome where
  "no_outcome = \<lparr>do_findings = [], do_receipts = [], do_verifications = [], do_failed = {}, do_limited = {}\<rparr>"

definition fail_action :: "lifecycle_hash \<Rightarrow> deletion_action \<Rightarrow> lifecycle_code \<Rightarrow> string \<Rightarrow> deletion_outcome \<Rightarrow> deletion_outcome" where
  "fail_action h a c msg x = x\<lparr>do_findings := do_findings x @ [lk_find h c msg (Some (dx_artifact_id a)) [dx_external_ref a]],
     do_failed := insert (dx_artifact_id a) (do_failed x)\<rparr>"

definition run_deletion ::
  "lifecycle_hash \<Rightarrow> (ident, 'w deletion_connector) dict \<Rightarrow> datetime \<Rightarrow> deletion_action \<Rightarrow> deletion_tombstone \<Rightarrow>
   deletion_outcome \<Rightarrow> 'w \<Rightarrow> deletion_outcome \<times> 'w" where
  "run_deletion h cs now a t x w =
     (case dict_get cs (dx_connector_id a) of
        None \<Rightarrow> (fail_action h a Dl_connector_missing ''No deletion connector is configured for an external copy'' x, w)
      | Some c \<Rightarrow>
          (case cw_tombstone c a t w of (applied, w) \<Rightarrow>
             if \<not> applied then (fail_action h a Dl_tombstone_failed ''External connector failed to apply the tombstone'' x, w)
             else (case cw_delete c a t w of (receipt, w) \<Rightarrow>
               (case receipt of
                  Some r \<Rightarrow> if valid_receipt a t r
                    then (let x = x\<lparr>do_receipts := do_receipts x @ [r]\<rparr> in
                      (case cw_verify c a t r w of (verification, w) \<Rightarrow>
                        (case verification of
                           Some v \<Rightarrow> if valid_verification a t r v
                             then (let x = x\<lparr>do_verifications := do_verifications x @ [v]\<rparr> in
                               if limited_guarantee a now
                               then (x\<lparr>do_limited := insert (dx_artifact_id a) (do_limited x),
                                   do_findings := do_findings x @ [lk_find h Dl_external_guarantee_limited
                                     ''External retention or connector capability limits deletion assurance''
                                     (Some (dx_artifact_id a)) [dx_external_ref a]]\<rparr>, w)
                               else (x, w))
                             else (fail_action h a Dl_verification_failed ''External deletion could not be independently verified'' x, w)
                         | None \<Rightarrow> (fail_action h a Dl_verification_failed ''External deletion could not be independently verified'' x, w))))
                    else (fail_action h a Dl_deletion_failed ''External connector did not acknowledge deletion'' x, w)
                | None \<Rightarrow> (fail_action h a Dl_deletion_failed ''External connector did not acknowledge deletion'' x, w)))))"

text \<open>The loop over the actions; every artifact has its tombstone (\<open>tombstones[...]\<close> raises otherwise).\<close>

fun run_deletions ::
  "lifecycle_hash \<Rightarrow> (ident, 'w deletion_connector) dict \<Rightarrow> datetime \<Rightarrow> (ident, deletion_tombstone) dict \<Rightarrow> deletion_action list \<Rightarrow>
   deletion_outcome \<Rightarrow> 'w \<Rightarrow> (deletion_outcome \<times> 'w) option" where
  "run_deletions h cs now ts [] x w = Some (x, w)"
| "run_deletions h cs now ts (a # as) x w =
     (case dict_get ts (dx_artifact_id a) of None \<Rightarrow> None
      | Some t \<Rightarrow> (case run_deletion h cs now a t x w of (x, w) \<Rightarrow> run_deletions h cs now ts as x w))"

text \<open>\<open>record.tombstone_id or tombstones[artifact_id].tombstone_id\<close>\<close>

definition settled_tombstone :: "(ident, deletion_tombstone) dict \<Rightarrow> ident \<Rightarrow> data_record \<Rightarrow> ident option" where
  "settled_tombstone ts a r = (case lr_tombstone_id r of
     Some t \<Rightarrow> if t \<noteq> [] then Some t else map_option tb_tombstone_id (dict_get ts a)
   | None \<Rightarrow> map_option tb_tombstone_id (dict_get ts a))"

fun settle_all ::
  "lifecycle_hash \<Rightarrow> (ident, deletion_tombstone) dict \<Rightarrow> ident set \<Rightarrow> ident set \<Rightarrow> ident list \<Rightarrow> (ident, data_record) dict \<Rightarrow>
   (ident, data_record) dict option" where
  "settle_all h ts failed limited [] rs = Some rs"
| "settle_all h ts failed limited (a # as) rs =
     (case dict_get rs a of None \<Rightarrow> None
      | Some r \<Rightarrow>
          if a \<in> failed \<or> a \<notin> limited
          then (case settled_tombstone ts a r of None \<Rightarrow> None
            | Some t \<Rightarrow> (case with_deletion_state h (if a \<in> failed then Del_failed else Del_verified) t r of None \<Rightarrow> None
                | Some r' \<Rightarrow> settle_all h ts failed limited as (dict_set rs a r')))
          else settle_all h ts failed limited as rs)"

definition finish_deletion ::
  "lifecycle_hash \<Rightarrow> deletion_plan \<Rightarrow> (ident, deletion_tombstone) dict \<Rightarrow> deletion_outcome \<Rightarrow> lifecycle_state \<Rightarrow> lifecycle_state option" where
  "finish_deletion h plan ts x s = map_option (\<lambda>rs. s\<lparr>lw_records := rs\<rparr>)
     (settle_all h ts (do_failed x) (do_limited x) (plan_artifacts plan) (lw_records s))"

definition held_findings :: "lifecycle_hash \<Rightarrow> deletion_plan \<Rightarrow> lifecycle_finding list" where
  "held_findings h plan = map (\<lambda>a. lk_find h Dl_legal_hold_active ''Legal hold keeps the selected artifact active'' (Some a) []) (dl_held plan)"

definition deletion_result_of ::
  "lifecycle_hash \<Rightarrow> guard_action \<Rightarrow> lifecycle_finding list \<Rightarrow> datetime \<Rightarrow> deletion_plan \<Rightarrow> deletion_tombstone list \<Rightarrow>
   deletion_receipt list \<Rightarrow> deletion_verification list \<Rightarrow> lifecycle_state \<Rightarrow> deletion_result \<times> lifecycle_state" where
  "deletion_result_of h action fs now plan ts receipts verifications s =
     (let (e, s') = lifecycle_event h action Lop_execute_deletion fs now (Some (ly_deletion h (dl_request plan)))
        (map dx_artifact_id (dl_actions plan) @ dl_held plan) (Some (li_principal_id (dq_principal (dl_request plan))))
        (Some (dq_tenant_id (dl_request plan))) None (length (dl_actions plan)) (length (dl_held plan)) s in
      (\<lparr>lv_action = action, lv_findings = fs, lv_tombstones = ts, lv_receipts = receipts, lv_verifications = verifications,
        lv_audit = e\<rparr>, s'))"

definition execute_deletion ::
  "lifecycle_hash \<Rightarrow> lifecycle_policy \<Rightarrow> (ident, 'w deletion_connector) dict \<Rightarrow> deletion_plan \<Rightarrow> datetime \<Rightarrow> lifecycle_state \<Rightarrow> 'w \<Rightarrow>
   (deletion_result \<times> lifecycle_state \<times> 'w) option" where
  "execute_deletion h p cs plan now s w =
     (case begin_deletion h p plan now s of
        None \<Rightarrow> None
      | Some (fs, ts, s) \<Rightarrow>
          if fs \<noteq> [] then (case deletion_result_of h BLOCK (dedup_lifecycle fs) now plan [] [] [] s of (d, s) \<Rightarrow> Some (d, s, w))
          else (case run_deletions h cs now ts (dl_actions plan) no_outcome w of
              None \<Rightarrow> None
            | Some (x, w) \<Rightarrow>
                (let fs = dedup_lifecycle (do_findings x @ held_findings h plan) in
                 case finish_deletion h plan ts x s of
                   None \<Rightarrow> None
                 | Some s \<Rightarrow>
                     (case deletion_result_of h (if fs \<noteq> [] then BLOCK else ALLOW) fs now plan (map snd ts)
                         (do_receipts x) (do_verifications x) s of (d, s) \<Rightarrow> Some (d, s, w)))))"

end
