(* ===== verification/Data_Properties.thy ===== *)
theory Data_Properties
  imports Data_Lineage
begin

text \<open>
  The properties of the data lifecycle: lineage, permanence of deletion, legal holds, exact authorization of uses,
  the reach of the deletion cascade and what a complete deletion means, with a small concrete catalog.
\<close>

section \<open>The invariant\<close>

lemma begin_step_cases:
  obtains (Idle) "lifecycle_step h p y (Lf_begin plan now) = y"
  | (Begun) ts s where "begin_deletion h p plan now (lt_state y) = Some ([], ts, s)"
      "lifecycle_step h p y (Lf_begin plan now) = y\<lparr>lt_state := s, lt_flights := lt_flights y @ [(plan, ts)]\<rparr>"
proof (cases "begin_deletion h p plan now (lt_state y)")
  case (Some x)
  obtain fs ts s where x: "x = (fs, ts, s)" by (cases x)
  show thesis
  proof (cases "fs = []")
    case True
    then show thesis using Some x by (intro Begun [of ts s]) simp_all
  qed (use Idle Some x in simp)
qed (use Idle in simp)

lemma lifecycle_step_inv:
  assumes "lifecycle_inv h y" and "lifecycle_admissible h e"
  shows "lifecycle_inv h (lifecycle_step h p y e)"
proof -
  have valid: "catalog_valid h (catalog_of y)" and lin: "lineage_kept (catalog_of y)" and fl: "flights_ok y"
    using assms(1) by (simp_all add: lifecycle_inv_def)
  have same: "lifecycle_inv h (y\<lparr>lt_state := s\<rparr>)" if "lw_records s = catalog_of y" for s
    using assms(1) that by (simp add: lifecycle_inv_def flights_ok_def)
  have advance: "lifecycle_inv h (y\<lparr>lt_state := s, lt_flights := fs\<rparr>)"
    if "catalog_advanced A (catalog_of y) (lw_records s)" "catalog_valid h (lw_records s)" "flights_ok (y\<lparr>lt_state := s, lt_flights := fs\<rparr>)" for A s fs
    using that lineage_kept_advanced [OF lin that(1)] by (simp add: lifecycle_inv_def)
  have fresh: "lifecycle_inv h (y\<lparr>lt_state := s\<rparr>)"
    if "lw_records s = dict_set (catalog_of y) a r" "dict_get (catalog_of y) a = None" "lr_artifact_id r = a" "lifecycle_record_ok h r"
      "\<forall>x\<in>set (lr_sources r). \<exists>t. dict_get (catalog_of y) (so_artifact_id x) = Some t \<and> lr_tenant_id t = lr_tenant_id r \<and>
        obligations_kept (lr_lifecycle t) (lr_lifecycle r)" for s a r
    using catalog_valid_set [OF valid that(4,3)] lineage_kept_fresh [OF lin that(2,5)] flights_ok_fresh [OF fl that(2,1)] that(1)
    by (simp add: lifecycle_inv_def)
  show ?thesis
  proof (cases e)
    case (Lf_register r now)
    show ?thesis
    proof (cases "register_artifact h p r now (lt_state y)")
      case (Some ds)
      obtain d s where ds: "ds = (d, s)" by (cases ds)
      from Some ds have "register_artifact h p r now (lt_state y) = Some (d, s)" by simp
      then show ?thesis
      proof (cases rule: register_artifact_cases)
        case Registered
        then show ?thesis using fresh assms(2) Lf_register Some ds by simp
      qed (use same Lf_register Some ds in simp)
    qed (use assms(1) Lf_register in simp)
  next
    case (Lf_derive q now)
    show ?thesis
    proof (cases "derive_artifact h p q now (lt_state y)")
      case (Some ds)
      obtain d s where ds: "ds = (d, s)" by (cases ds)
      from Some ds have "derive_artifact h p q now (lt_state y) = Some (d, s)" by simp
      then show ?thesis
      proof (cases rule: derive_artifact_cases)
        case (Derived c)
        note c = derived_candidate_Some [OF Derived(4)]
        have "lifecycle_inv h (y\<lparr>lt_state := s\<rparr>)"
          by (rule fresh [OF Derived(2,3) c(1,6)]) (use Derived(5) c in fastforce)
        then show ?thesis using Lf_derive Some ds by simp
      qed (use same Lf_derive Some ds in simp)
    qed (use assms(1) Lf_derive in simp)
  next
    case (Lf_use q now)
    then show ?thesis using same by simp
  next
    case (Lf_plan q now)
    show ?thesis
    proof (cases "plan_deletion h p q now (lt_state y)")
      case (Some ds)
      then show ?thesis using same Lf_plan plan_deletion_records by (cases ds) auto
    qed (use assms(1) Lf_plan in simp)
  next
    case (Lf_begin plan now)
    show ?thesis
    proof (cases rule: begin_step_cases [of h p y plan now])
      case (Begun ts s)
      note bs = begin_deletion_Some [OF Begun(1) valid]
      have "flights_ok (y\<lparr>lt_state := s, lt_flights := lt_flights y\<rparr>)" by (rule flights_ok_advanced [OF fl bs(2)]) simp
      moreover have "lf_holds (lr_lifecycle r') = {}" if a: "a \<in> set (plan_artifacts plan)" and r': "dict_get (lw_records s) a = Some r'" for a r'
      proof -
        obtain r where r: "dict_get (catalog_of y) a = Some r" "same_artifact r r'" using catalog_advanced_back [OF bs(2) r'] by blast
        then show ?thesis using execution_findings_Nil [OF bs(1) a] by (auto simp: same_artifact_def)
      qed
      ultimately have "flights_ok (y\<lparr>lt_state := s, lt_flights := lt_flights y @ [(plan, ts)]\<rparr>)"
        using bs(4) by (auto simp: flights_ok_def)
      then show ?thesis using advance [OF bs(2,3)] Lf_begin Begun(2) by simp
    qed (use assms(1) Lf_begin in simp)
  next
    case (Lf_finish i x)
    show ?thesis
    proof (cases "length (lt_flights y) \<le> i")
      case False
      obtain plan ts where f: "lt_flights y ! i = (plan, ts)" by (cases "lt_flights y ! i")
      then have "(plan, ts) \<in> set (lt_flights y)" using False by (metis not_le nth_mem)
      then have "settleable ts (plan_artifacts plan) (catalog_of y)" using flights_okD(1) [OF fl] by blast
      then obtain s where s: "finish_deletion h plan ts x (lt_state y) = Some s"
          "catalog_advanced (set (plan_artifacts plan)) (catalog_of y) (lw_records s)" "catalog_valid h (lw_records s)"
        using finish_deletion_Some [OF valid] by blast
      have "flights_ok (y\<lparr>lt_state := s, lt_flights := take i (lt_flights y) @ drop (Suc i) (lt_flights y)\<rparr>)"
        by (rule flights_ok_advanced [OF fl s(2)]) (auto dest: in_set_takeD in_set_dropD)
      then show ?thesis using advance [OF s(2,3)] Lf_finish False f s(1) by simp
    qed (use assms(1) Lf_finish in simp)
  qed
qed

interpretation lifecycle_run: preserved "lifecycle_step h p" "lifecycle_inv h" "lifecycle_admissible h" for h p
  by unfold_locales (rule lifecycle_step_inv)

lemma lifecycle_init_inv: "lifecycle_inv h (lifecycle_init sink)"
  by (simp add: lifecycle_inv_def lifecycle_init_def catalog_valid_def lineage_kept_def flights_ok_def)

section \<open>Lineage\<close>

definition derived_directly :: "(ident, data_record) dict \<Rightarrow> ident \<Rightarrow> ident \<Rightarrow> bool" where
  "derived_directly rs a b \<longleftrightarrow> (\<exists>r. dict_get rs b = Some r \<and> a \<in> so_artifact_id ` set (lr_sources r))"

lemma lineage_kept_ancestors:
  assumes "lineage_kept rs" and "(derived_directly rs)\<^sup>+\<^sup>+ a b" and "dict_get rs b = Some r"
  shows "\<exists>t. dict_get rs a = Some t \<and> lr_tenant_id t = lr_tenant_id r \<and> obligations_kept (lr_lifecycle t) (lr_lifecycle r)"
  using assms(2,3)
proof (induction arbitrary: r rule: tranclp_induct)
  case (base b)
  then show ?case using lineage_keptD [OF assms(1)] by (auto simp: derived_directly_def)
next
  case (step b c)
  then obtain u where "dict_get rs b = Some u" "lr_tenant_id u = lr_tenant_id r" "obligations_kept (lr_lifecycle u) (lr_lifecycle r)"
    using lineage_keptD [OF assms(1)] by (fastforce simp: derived_directly_def)
  then show ?case using step.IH by (metis obligations_kept_trans)
qed

text \<open>
  C20: derivation never loses an obligation. Along every interleaving of registrations, derivations, uses and
  deletions, an artifact derived in any number of steps from another belongs to the same tenant, is classified at least
  as high, allows no further purpose or residency, is not kept longer, has no weaker consent, and carries every legal hold and
  every data subject of its ancestor.
\<close>

theorem derived_obligations_preserved:
  assumes "list_all (lifecycle_admissible h) es" and "y = foldl (lifecycle_step h p) (lifecycle_init sink) es"
    and "(derived_directly (catalog_of y))\<^sup>+\<^sup>+ a b" and "dict_get (catalog_of y) b = Some r"
  shows "\<exists>t. dict_get (catalog_of y) a = Some t \<and> lr_tenant_id t = lr_tenant_id r \<and> obligations_kept (lr_lifecycle t) (lr_lifecycle r)"
proof -
  have "lifecycle_inv h y" unfolding assms(2) by (rule lifecycle_run.run_inv [OF lifecycle_init_inv assms(1)])
  then show ?thesis using lineage_kept_ancestors assms(3,4) by (simp add: lifecycle_inv_def)
qed

section \<open>Tombstoned artifacts and legal holds\<close>

text \<open>What a step does to one record of the catalog.\<close>

lemma lifecycle_step_record:
  assumes "lifecycle_inv h y" and "dict_get (catalog_of y) a = Some r"
  shows "\<exists>r'. dict_get (catalog_of (lifecycle_step h p y e)) a = Some r' \<and> same_artifact r r' \<and>
    (lr_state r \<noteq> Del_active \<longrightarrow> lr_state r' \<noteq> Del_active) \<and> (lf_holds (lr_lifecycle r) \<noteq> {} \<longrightarrow> r' = r)"
proof -
  have valid: "catalog_valid h (catalog_of y)" and fl: "flights_ok y" using assms(1) by (simp_all add: lifecycle_inv_def)
  have fresh: ?thesis if "catalog_of (lifecycle_step h p y e) = dict_set (catalog_of y) b t" "dict_get (catalog_of y) b = None" for b t
    using that assms(2) by auto
  have same: ?thesis if "catalog_of (lifecycle_step h p y e) = catalog_of y" using that assms(2) by auto
  have advance: ?thesis
    if "catalog_advanced A (catalog_of y) (catalog_of (lifecycle_step h p y e))" "a \<in> A \<longrightarrow> lf_holds (lr_lifecycle r) = {}" for A
    using catalog_advanced_get [OF that(1) assms(2)] that(2) by blast
  show ?thesis
  proof (cases e)
    case (Lf_register t now)
    show ?thesis
    proof (cases "register_artifact h p t now (lt_state y)")
      case (Some ds)
      obtain d s where ds: "ds = (d, s)" by (cases ds)
      from Some ds have "register_artifact h p t now (lt_state y) = Some (d, s)" by simp
      then show ?thesis by (cases rule: register_artifact_cases) (use same fresh Lf_register Some ds in auto)
    qed (use same Lf_register in simp)
  next
    case (Lf_derive q now)
    show ?thesis
    proof (cases "derive_artifact h p q now (lt_state y)")
      case (Some ds)
      obtain d s where ds: "ds = (d, s)" by (cases ds)
      from Some ds have "derive_artifact h p q now (lt_state y) = Some (d, s)" by simp
      then show ?thesis by (cases rule: derive_artifact_cases) (use same fresh Lf_derive Some ds in auto)
    qed (use same Lf_derive in simp)
  next
    case (Lf_plan q now)
    then show ?thesis using same plan_deletion_records by (auto split: option.split prod.split)
  next
    case (Lf_begin plan now)
    show ?thesis
    proof (cases rule: begin_step_cases [of h p y plan now])
      case (Begun ts s)
      note bs = begin_deletion_Some [OF Begun(1) valid]
      have "a \<in> set (plan_artifacts plan) \<longrightarrow> lf_holds (lr_lifecycle r) = {}"
        using execution_findings_Nil [OF bs(1)] assms(2) by fastforce
      then show ?thesis using advance bs(2) Lf_begin Begun(2) by simp
    qed (use same Lf_begin in simp)
  next
    case (Lf_finish i x)
    show ?thesis
    proof (cases "length (lt_flights y) \<le> i")
      case False
      obtain plan ts where f: "lt_flights y ! i = (plan, ts)" by (cases "lt_flights y ! i")
      then have mem: "(plan, ts) \<in> set (lt_flights y)" using False by (metis not_le nth_mem)
      then obtain s where s: "finish_deletion h plan ts x (lt_state y) = Some s"
          "catalog_advanced (set (plan_artifacts plan)) (catalog_of y) (lw_records s)"
        using finish_deletion_Some [OF valid] flights_okD(1) [OF fl] by blast
      have "a \<in> set (plan_artifacts plan) \<longrightarrow> lf_holds (lr_lifecycle r) = {}" using flights_okD(2) [OF fl mem] assms(2) by blast
      then show ?thesis using advance s Lf_finish False f by simp
    qed (use same Lf_finish in simp)
  qed (use same in simp)
qed

lemma lifecycle_run_record:
  assumes "lifecycle_inv h y" and "list_all (lifecycle_admissible h) es" and "dict_get (catalog_of y) a = Some r"
  shows "\<exists>r'. dict_get (catalog_of (foldl (lifecycle_step h p) y es)) a = Some r' \<and> same_artifact r r' \<and>
    (lr_state r \<noteq> Del_active \<longrightarrow> lr_state r' \<noteq> Del_active) \<and> (lf_holds (lr_lifecycle r) \<noteq> {} \<longrightarrow> r' = r)"
  using assms
proof (induction es arbitrary: y r)
  case (Cons e es)
  obtain r1 where r1: "dict_get (catalog_of (lifecycle_step h p y e)) a = Some r1" "same_artifact r r1"
      "lr_state r \<noteq> Del_active \<longrightarrow> lr_state r1 \<noteq> Del_active" "lf_holds (lr_lifecycle r) \<noteq> {} \<longrightarrow> r1 = r"
    using lifecycle_step_record [OF Cons.prems(1,3)] by blast
  have "lifecycle_inv h (lifecycle_step h p y e)" using lifecycle_step_inv Cons.prems(1,2) by simp
  then obtain r2 where r2: "dict_get (catalog_of (foldl (lifecycle_step h p) (lifecycle_step h p y e) es)) a = Some r2" "same_artifact r1 r2"
      "lr_state r1 \<noteq> Del_active \<longrightarrow> lr_state r2 \<noteq> Del_active" "lf_holds (lr_lifecycle r1) \<noteq> {} \<longrightarrow> r2 = r1"
    using Cons.IH [OF _ _ r1(1)] Cons.prems(2) by auto
  have "lr_lifecycle r1 = lr_lifecycle r" using r1(2) by (simp add: same_artifact_def)
  then have "lf_holds (lr_lifecycle r) \<noteq> {} \<longrightarrow> r2 = r" using r1(4) r2(4) by simp
  then show ?case using r2(1,3) r1(3) same_artifact_trans [OF r1(2) r2(2)] by simp
qed auto

lemma authorize_use_inactive:
  "dict_get (lw_records s) (uq_artifact_id q) = Some r \<Longrightarrow> lr_state r \<noteq> Del_active \<Longrightarrow> lj_action (fst (authorize_use h p q now s)) = BLOCK"
  by (simp add: authorize_use_def use_findings_def Let_def split: list.split)

text \<open>
  C21: deletion is final for every reader. Once a deletion has tombstoned an artifact, no later use of it is allowed and
  nothing is derived from it, whatever operations come between and whatever the connectors report.
\<close>

theorem tombstoned_never_used:
  assumes "list_all (lifecycle_admissible h) (es @ es')" and "y = foldl (lifecycle_step h p) (lifecycle_init sink) es"
    and "begin_deletion h p plan now (lt_state y) = Some ([], ts, s)" and "a \<in> set (plan_artifacts plan)"
    and "z = foldl (lifecycle_step h p) (lifecycle_step h p y (Lf_begin plan now)) es'"
  shows "(uq_artifact_id q = a \<longrightarrow> lj_action (fst (authorize_use h p q later (lt_state z))) = BLOCK) \<and>
    (a \<in> so_artifact_id ` set (dv_sources v) \<longrightarrow> (\<forall>d s'. derive_artifact h p v later (lt_state z) = Some (d, s') \<longrightarrow> lj_action d = BLOCK))"
proof -
  have inv: "lifecycle_inv h y" unfolding assms(2) by (rule lifecycle_run.run_inv [OF lifecycle_init_inv]) (use assms(1) in simp)
  have inv1: "lifecycle_inv h (lifecycle_step h p y (Lf_begin plan now))" by (rule lifecycle_step_inv [OF inv]) simp
  have valid: "catalog_valid h (catalog_of y)" using inv by (simp add: lifecycle_inv_def)
  obtain r where r: "dict_get (lw_records s) a = Some r" "lr_state r \<noteq> Del_active"
    using begin_deletion_Some(4) [OF assms(3) valid] assms(4) by (auto simp: settleable_def)
  have "catalog_of (lifecycle_step h p y (Lf_begin plan now)) = lw_records s" using assms(3) by simp
  then obtain r' where r': "dict_get (catalog_of z) a = Some r'" "lr_state r' \<noteq> Del_active"
    using lifecycle_run_record [OF inv1, of es' a r p] assms(1,5) r by auto
  have "lj_action d = BLOCK" if "a \<in> so_artifact_id ` set (dv_sources v)" "derive_artifact h p v later (lt_state z) = Some (d, s')" for d s'
    using that(2) by (cases rule: derive_artifact_cases) (use that(1) r' in fastforce)+
  then show ?thesis using authorize_use_inactive r' by blast
qed

text \<open>
  A legal hold protects an artifact. As long as the catalog exists, the record of an artifact under legal hold stays exactly as
  it is: no deletion, planned or forged, tombstones, deletes or alters it.
\<close>

theorem held_artifact_untouched:
  assumes "list_all (lifecycle_admissible h) (es @ es')" and "y = foldl (lifecycle_step h p) (lifecycle_init sink) es"
    and "dict_get (catalog_of y) a = Some r" and "lf_holds (lr_lifecycle r) \<noteq> {}"
  shows "dict_get (catalog_of (foldl (lifecycle_step h p) y es')) a = Some r"
proof -
  have "lifecycle_inv h y" unfolding assms(2) by (rule lifecycle_run.run_inv [OF lifecycle_init_inv]) (use assms(1) in simp)
  then show ?thesis using lifecycle_run_record [of h y es' a r p] assms(1,3,4) by auto
qed

section \<open>Uses\<close>

text \<open>
  The use of an artifact is allowed exactly when the catalog has it active and unaltered in the version the caller names, it belongs to
  the principal's tenant, its own obligations and the policy both allow the purpose and the destination, its retention has not run
  out and is not extended, and a training use has consent and an eligible classification.
\<close>

theorem use_allowed_exactly:
  "lj_action (fst (authorize_use h p q now s)) = ALLOW \<longleftrightarrow>
   (\<exists>r. dict_get (lw_records s) (uq_artifact_id q) = Some r \<and> lr_digest r = uq_expected_digest q \<and> lifecycle_integrity h r \<and>
      lr_state r = Del_active \<and> lr_tenant_id r = li_tenant_id (uq_principal q) \<and>
      uq_purpose_id q \<in> lf_purposes (lr_lifecycle r) \<inter> lp_purposes p \<and>
      uq_residency q \<in> lf_residencies (lr_lifecycle r) \<inter> lp_residencies p \<and> now < lf_retention_until (lr_lifecycle r) \<and>
      (\<forall>t. uq_retention_until q = Some t \<longrightarrow> t \<le> lf_retention_until (lr_lifecycle r)) \<and>
      (uq_kind q = Use_training \<longrightarrow> lf_consent (lr_lifecycle r) = Consent_granted \<and> lf_class (lr_lifecycle r) \<in> lp_training_classes p))"
proof (cases "dict_get (lw_records s) (uq_artifact_id q)")
  case (Some r)
  have "lj_action (fst (authorize_use h p q now s)) = ALLOW \<longleftrightarrow> use_findings h p q now r = []"
    using Some by (auto simp: authorize_use_def Let_def split: list.splits)
  also have "\<dots> \<longleftrightarrow> lr_digest r = uq_expected_digest q \<and> lifecycle_integrity h r \<and>
      lr_state r = Del_active \<and> lr_tenant_id r = li_tenant_id (uq_principal q) \<and>
      uq_purpose_id q \<in> lf_purposes (lr_lifecycle r) \<inter> lp_purposes p \<and>
      uq_residency q \<in> lf_residencies (lr_lifecycle r) \<inter> lp_residencies p \<and> now < lf_retention_until (lr_lifecycle r) \<and>
      (\<forall>t. uq_retention_until q = Some t \<longrightarrow> t \<le> lf_retention_until (lr_lifecycle r)) \<and>
      (uq_kind q = Use_training \<longrightarrow> lf_consent (lr_lifecycle r) = Consent_granted \<and> lf_class (lr_lifecycle r) \<in> lp_training_classes p)"
    unfolding use_findings_def Let_def append_is_Nil_conv guard_Nil by (auto split: option.splits)
  finally show ?thesis using Some by simp
qed (simp add: authorize_use_def Let_def)

section \<open>The reach of the cascade\<close>

definition tenant_edge :: "ident \<Rightarrow> data_record list \<Rightarrow> ident \<Rightarrow> ident \<Rightarrow> bool" where
  "tenant_edge tenant rs a b \<longleftrightarrow> (\<exists>r\<in>set rs. lr_artifact_id r = b \<and> lr_tenant_id r = tenant \<and> a \<in> so_artifact_id ` set (lr_sources r))"

lemma cascade_pass_sound:
  assumes "b \<in> set (snd (cascade_pass tenant rs sel))" and "set rs \<subseteq> set all"
  shows "\<exists>a\<in>set sel. (tenant_edge tenant all)\<^sup>*\<^sup>* a b"
  using assms
proof (induction rs arbitrary: sel)
  case (Cons r rs)
  show ?case
  proof (cases "lr_tenant_id r = tenant \<and> lr_artifact_id r \<notin> set sel \<and> (\<exists>x\<in>set (lr_sources r). so_artifact_id x \<in> set sel)")
    case True
    then have "b \<in> set (snd (cascade_pass tenant rs (sel @ [lr_artifact_id r])))" using Cons.prems(1) by simp
    then obtain a where a: "a \<in> set (sel @ [lr_artifact_id r])" "(tenant_edge tenant all)\<^sup>*\<^sup>* a b"
      using Cons.IH [of "sel @ [lr_artifact_id r]"] Cons.prems(2) by auto
    obtain x where x: "x \<in> set (lr_sources r)" "so_artifact_id x \<in> set sel" using True by blast
    have "tenant_edge tenant all (so_artifact_id x) (lr_artifact_id r)"
      using x(1) True Cons.prems(2) by (auto simp: tenant_edge_def)
    show ?thesis
    proof (cases "a = lr_artifact_id r")
      case eq: True
      then have "(tenant_edge tenant all)\<^sup>*\<^sup>* (so_artifact_id x) b"
        using \<open>tenant_edge tenant all (so_artifact_id x) (lr_artifact_id r)\<close> a(2) by (simp add: converse_rtranclp_into_rtranclp)
      then show ?thesis using x(2) by blast
    next
      case False
      then show ?thesis using a by auto
    qed
  next
    case False
    then have "cascade_pass tenant (r # rs) sel = cascade_pass tenant rs sel" by auto
    then have "b \<in> set (snd (cascade_pass tenant rs sel))" using Cons.prems(1) by simp
    then show ?thesis using Cons.IH Cons.prems(2) by simp
  qed
qed auto

lemma cascade_pass_stable:
  assumes "\<not> fst (cascade_pass tenant rs sel)"
  shows "snd (cascade_pass tenant rs sel) = sel \<and>
    (\<forall>r\<in>set rs. lr_tenant_id r = tenant \<longrightarrow> (\<exists>x\<in>set (lr_sources r). so_artifact_id x \<in> set sel) \<longrightarrow> lr_artifact_id r \<in> set sel)"
  using assms by (induction rs) (auto split: if_splits)

text \<open>The rounds of the cascade select the descendants of a selected artifact in the tenant.\<close>

lemma cascade_reach:
  "set (cascade_closure tenant rs sel) = {b. \<exists>a\<in>set sel. (tenant_edge tenant rs)\<^sup>*\<^sup>* a b}"
proof (induction tenant rs sel rule: cascade_closure.induct)
  case (1 tenant rs sel)
  obtain changed sel' where p: "cascade_pass tenant rs sel = (changed, sel')" by (cases "cascade_pass tenant rs sel")
  show ?case
  proof (cases changed)
    case True
    have "set (cascade_closure tenant rs sel) = {b. \<exists>a\<in>set sel'. (tenant_edge tenant rs)\<^sup>*\<^sup>* a b}"
      using 1 [OF p [symmetric] True] p True by (simp add: cascade_closure.simps [of tenant rs sel])
    moreover have "set sel \<subseteq> set sel'" using cascade_pass_mono [of sel tenant rs] p by simp
    moreover have "\<exists>a\<in>set sel. (tenant_edge tenant rs)\<^sup>*\<^sup>* a b" if "b \<in> set sel'" for b
      using cascade_pass_sound [of b tenant rs sel rs] that p by simp
    ultimately show ?thesis by (auto intro: rtranclp_trans) (metis rtranclp_trans)
  next
    case False
    have closed: "b \<in> set sel" if "a \<in> set sel" "tenant_edge tenant rs a b" for a b
      using cascade_pass_stable [of tenant rs sel] p False that by (auto simp: tenant_edge_def)
    have "b \<in> set sel" if "(tenant_edge tenant rs)\<^sup>*\<^sup>* a b" "a \<in> set sel" for a b
      using that by (induction rule: rtranclp_induct) (auto intro: closed)
    moreover have "cascade_closure tenant rs sel = sel"
      using cascade_pass_stable [of tenant rs sel] p False by (simp add: cascade_closure.simps [of tenant rs sel])
    ultimately show ?thesis by auto
  qed
qed

text \<open>
  C34: the deletion cascade reaches exactly the descendants. From any selection, the repeated rounds of \<open>plan_deletion\<close> select the artifacts
  of the tenant derived from a selected one in any number of steps, and nothing else.
\<close>

theorem cascade_selects_descendants:
  "set (cascade_closure tenant rs sel) = {b. \<exists>a\<in>set sel. (tenant_edge tenant rs)\<^sup>*\<^sup>* a b}"
  by (rule cascade_reach)

section \<open>Executing a plan\<close>

lemma run_deletions_total:
  "\<forall>a\<in>set as. dict_get ts (dx_artifact_id a) \<noteq> None \<Longrightarrow> run_deletions h cs now ts as x w \<noteq> None"
  by (induction as arbitrary: x w) (auto split: prod.split)

lemma execute_deletion_total:
  assumes "lifecycle_inv h y"
  shows "execute_deletion h p cs plan now (lt_state y) w \<noteq> None"
proof -
  have valid: "catalog_valid h (catalog_of y)" using assms by (simp add: lifecycle_inv_def)
  obtain fs ts s where b: "begin_deletion h p plan now (lt_state y) = Some (fs, ts, s)"
    using begin_deletion_total [OF valid, of p plan now] by (cases "begin_deletion h p plan now (lt_state y)") auto
  show ?thesis
  proof (cases "fs = []")
    case True
    note bs = begin_deletion_Some [OF b [unfolded True] valid]
    have "\<forall>a\<in>set (dl_actions plan). dict_get ts (dx_artifact_id a) \<noteq> None"
      using bs(4) by (auto simp: settleable_def plan_artifacts_def)
    then obtain x w' where r: "run_deletions h cs now ts (dl_actions plan) no_outcome w = Some (x, w')"
      using run_deletions_total [of "dl_actions plan" ts h cs now no_outcome w] by auto
    obtain s' where "finish_deletion h plan ts x s = Some s'" using finish_deletion_Some [OF bs(3,4)] by blast
    then show ?thesis using b True r by (simp add: execute_deletion_def Let_def split: prod.split)
  next
    case False
    then show ?thesis using b by (simp add: execute_deletion_def split: prod.split)
  qed
qed

text \<open>
  Executing a deletion never raises. In every reachable state, any plan, genuine, stale or forged, and any connectors, raising ones
  included, lead to a result: the records can always be tombstoned and settled.
\<close>

theorem deletion_never_raises:
  assumes "list_all (lifecycle_admissible h) es" and "y = foldl (lifecycle_step h p) (lifecycle_init sink) es"
  shows "\<exists>d s w'. execute_deletion h p cs plan now (lt_state y) w = Some (d, s, w')"
proof -
  have "lifecycle_inv h y" unfolding assms(2) by (rule lifecycle_run.run_inv [OF lifecycle_init_inv assms(1)])
  then show ?thesis using execute_deletion_total [of h y p cs plan now w] by auto
qed

section \<open>Complete deletions\<close>

definition copy_deleted :: "deletion_result \<Rightarrow> data_record \<Rightarrow> storage_location \<Rightarrow> bool" where
  "copy_deleted d r l \<longleftrightarrow> lo_capability l \<in> {Delcap_hard_delete, Delcap_crypto_erasure} \<and>
     (\<exists>z\<in>set (lv_receipts d). \<exists>v\<in>set (lv_verifications d). rz_deleted z \<and> vn_verified v \<and>
        rz_artifact_id z = lr_artifact_id r \<and> vn_artifact_id v = lr_artifact_id r \<and>
        rz_connector_id z = lo_connector_id l \<and> vn_connector_id v = lo_connector_id l \<and>
        rz_external_ref z = lo_external_ref l \<and> vn_external_ref v = lo_external_ref l \<and> vn_receipt_ref v = rz_receipt_ref z)"

lemma run_deletion_success:
  assumes "run_deletion h cs now a t x w = (x', w')" and "do_findings x' = []"
  shows "do_findings x = [] \<and> do_failed x' = do_failed x \<and> do_limited x' = do_limited x \<and> \<not> limited_guarantee a now \<and>
    set (do_receipts x) \<subseteq> set (do_receipts x') \<and> set (do_verifications x) \<subseteq> set (do_verifications x') \<and>
    (\<exists>z\<in>set (do_receipts x'). \<exists>v\<in>set (do_verifications x'). valid_receipt a t z \<and> valid_verification a t z v)"
  using assms by (auto simp: run_deletion_def fail_action_def Let_def split: option.splits prod.splits if_splits)

lemma run_deletions_success:
  assumes "run_deletions h cs now ts as x w = Some (x', w')" and "do_findings x' = []"
  shows "do_findings x = [] \<and> do_failed x' = do_failed x \<and> do_limited x' = do_limited x \<and>
    set (do_receipts x) \<subseteq> set (do_receipts x') \<and> set (do_verifications x) \<subseteq> set (do_verifications x') \<and>
    (\<forall>a\<in>set as. \<not> limited_guarantee a now \<and>
      (\<exists>t. \<exists>z\<in>set (do_receipts x'). \<exists>v\<in>set (do_verifications x'). valid_receipt a t z \<and> valid_verification a t z v))"
  using assms
proof (induction as arbitrary: x w)
  case (Cons a as)
  obtain t x1 w1 where t: "dict_get ts (dx_artifact_id a) = Some t" "run_deletion h cs now a t x w = (x1, w1)"
      "run_deletions h cs now ts as x1 w1 = Some (x', w')"
    using Cons.prems(1) by (auto split: option.splits prod.splits)
  note IH = Cons.IH [OF t(3) Cons.prems(2)]
  then have "do_findings x1 = []" by simp
  note one = run_deletion_success [OF t(2) this]
  have "\<exists>t. \<exists>z\<in>set (do_receipts x'). \<exists>v\<in>set (do_verifications x'). valid_receipt a t z \<and> valid_verification a t z v"
    using one IH by blast
  then show ?case using one IH by auto
qed simp

lemma settle_all_verified:
  assumes "settle_all h ts failed limited as rs = Some rs'" and "a \<in> set as" and "a \<notin> failed" and "a \<notin> limited"
  shows "\<exists>r. dict_get rs' a = Some r \<and> lr_state r = Del_verified"
proof -
  have keep: "\<exists>r. dict_get rs' a = Some r \<and> lr_state r = Del_verified"
    if "settle_all h ts failed limited bs rs = Some rs'" "dict_get rs a = Some r" "lr_state r = Del_verified" for bs rs r
    using that
  proof (induction bs arbitrary: rs r)
    case (Cons b bs)
    show ?case
    proof (cases "\<exists>u. settle_all h ts failed limited (b # bs) rs = settle_all h ts failed limited bs (dict_set rs b u) \<and>
        (b = a \<longrightarrow> lr_state u = Del_verified)")
      case True
      then obtain u where u: "settle_all h ts failed limited bs (dict_set rs b u) = Some rs'" "b = a \<longrightarrow> lr_state u = Del_verified"
        using Cons.prems(1) by metis
      show ?thesis
        by (rule Cons.IH [OF u(1), of "if b = a then u else r"]) (use u(2) Cons.prems(2,3) in auto)
    next
      case False
      obtain v where v: "dict_get rs b = Some v" using Cons.prems(1) by (auto split: option.splits)
      have "b \<notin> failed \<and> b \<in> limited"
      proof (rule ccontr)
        assume n: "\<not> (b \<notin> failed \<and> b \<in> limited)"
        then obtain t u where t: "settled_tombstone ts b v = Some t"
            "with_deletion_state h (if b \<in> failed then Del_failed else Del_verified) t v = Some u"
          using Cons.prems(1) v by (auto split: option.splits)
        have "settle_all h ts failed limited (b # bs) rs = settle_all h ts failed limited bs (dict_set rs b u)" using n v t by auto
        moreover have "b = a \<longrightarrow> lr_state u = Del_verified" using with_deletion_state_Some(2) [OF t(2)] assms(3) by simp
        ultimately show False using False by blast
      qed
      then show ?thesis using Cons.IH [OF _ Cons.prems(2,3)] Cons.prems(1) v by auto
    qed
  qed auto
  show ?thesis
    using assms(1,2)
  proof (induction as arbitrary: rs)
    case (Cons b bs)
    show ?case
    proof (cases "b = a")
      case True
      then obtain r t r' where "dict_get rs a = Some r" "with_deletion_state h Del_verified t r = Some r'"
          "settle_all h ts failed limited bs (dict_set rs a r') = Some rs'"
        using Cons.prems(1) assms(3,4) by (auto split: option.splits)
      then show ?thesis using keep [of bs "dict_set rs a r'" r'] with_deletion_state_Some(2) by auto
    next
      case False
      then show ?thesis using Cons by (auto split: option.splits if_splits)
    qed
  qed simp
qed

lemma those_Some_set: "those xs = Some ys \<Longrightarrow> Some y \<in> set xs \<Longrightarrow> y \<in> set ys"
  by (induction xs arbitrary: ys) (auto split: option.splits)

lemma those_Some_length: "those xs = Some ys \<Longrightarrow> x \<in> set xs \<Longrightarrow> \<exists>y. x = Some y"
  by (induction xs arbitrary: ys) (auto split: option.splits)

lemma deletion_action_of_Some:
  "deletion_action_of h r l = Some a \<Longrightarrow> dx_artifact_id a = lr_artifact_id r \<and> dx_connector_id a = lo_connector_id l \<and>
    dx_external_ref a = lo_external_ref l \<and> dx_capability a = lo_capability l"
  by (auto simp: deletion_action_of_def Let_def split: if_splits)

text \<open>A plan without held artifacts has an action for every copy of every pending record.\<close>

lemma plan_actions_cover:
  assumes "plan_actions h now rs = Some (as, [], fs)" and "r \<in> set rs" and "l \<in> set (lr_locations r)"
  shows "lf_holds (lr_lifecycle r) = {} \<and> (\<exists>a\<in>set as. dx_artifact_id a = lr_artifact_id r \<and> dx_connector_id a = lo_connector_id l \<and>
    dx_external_ref a = lo_external_ref l \<and> dx_capability a = lo_capability l)"
  using assms
proof (induction rs arbitrary: as fs)
  case (Cons u rs)
  obtain bs as' fs' where u: "lf_holds (lr_lifecycle u) = {}" "those (map (deletion_action_of h u) (lr_locations u)) = Some bs"
      "plan_actions h now rs = Some (as', [], fs')" "as = bs @ as'"
    using Cons.prems(1) by (auto split: if_splits option.splits)
  show ?case
  proof (cases "r = u")
    case True
    then have m: "deletion_action_of h u l \<in> set (map (deletion_action_of h u) (lr_locations u))" using Cons.prems(3) by simp
    then obtain a where a: "deletion_action_of h u l = Some a" using those_Some_length [OF u(2)] by blast
    then have "a \<in> set bs" using those_Some_set [OF u(2)] m by simp
    then have "a \<in> set as" using u(4) by simp
    then show ?thesis using deletion_action_of_Some [OF a] True u(1) by blast
  next
    case False
    then show ?thesis using Cons.IH [OF u(3)] Cons.prems(2,3) u(4) by auto
  qed
qed simp

lemma plan_actions_artifacts:
  "plan_actions h now rs = Some (as, held, fs) \<Longrightarrow> dx_artifact_id ` set as \<subseteq> lr_artifact_id ` set rs"
proof (induction rs arbitrary: as held fs)
  case (Cons u rs)
  have one: "dx_artifact_id a = lr_artifact_id u" if "those (map (deletion_action_of h u) ls) = Some bs" "a \<in> set bs" for ls bs a
    using that by (induction ls arbitrary: bs) (auto split: option.splits dest: deletion_action_of_Some)
  show ?case
  proof (cases "lf_holds (lr_lifecycle u) = {}")
    case True
    then obtain bs as' fs' where b: "those (map (deletion_action_of h u) (lr_locations u)) = Some bs"
        "plan_actions h now rs = Some (as', held, fs')" "as = bs @ as'"
      using Cons.prems by (auto split: option.splits)
    then show ?thesis using Cons.IH [OF b(2)] one [OF b(1)] by auto
  next
    case False
    then obtain held' fs' where "plan_actions h now rs = Some (as, held', fs')" using Cons.prems by (auto split: option.splits)
    then show ?thesis using Cons.IH by auto
  qed
qed simp

lemma plan_deletion_plan:
  assumes "plan_deletion h p q now s = Some (res, s1)" and "lq_plan res = Some plan"
  shows "\<exists>held fs. plan_actions h now (filter (\<lambda>r. lr_state r \<noteq> Del_verified)
      (List.map_filter (dict_get (lw_records s)) (sort (snd (deletion_selection h q s))))) = Some (dl_actions plan, held, fs) \<and>
    dl_held plan = sort held"
proof -
  have blocked: "lq_plan res = None" if "plan_result h action fs now q ids None s = (res, s1)" for action fs ids
    using that by (metis fst_conv plan_result_simps(3))
  have planned: "plan' = plan" if "plan_result h action fs now q ids (Some plan') s = (res, s1)" for action fs ids plan'
    using that assms(2) by (metis fst_conv option.inject plan_result_simps(3))
  obtain sfs sel where sel: "deletion_selection h q s = (sfs, sel)" by (cases "deletion_selection h q s")
  show ?thesis
    using assms unfolding plan_deletion_def Let_def sel
    by (auto split: if_splits option.splits prod.splits dest!: blocked planned simp: create_deletion_plan_def Let_def)
qed

lemma execute_deletion_complete:
  assumes "execute_deletion h p cs plan now s w = Some (d, s2, w')" and "lv_is_complete d"
  shows "\<exists>ts s1 x. begin_deletion h p plan now s = Some ([], ts, s1) \<and> run_deletions h cs now ts (dl_actions plan) no_outcome w = Some (x, w') \<and>
    do_findings x = [] \<and> dl_held plan = [] \<and> settle_all h ts (do_failed x) (do_limited x) (plan_artifacts plan) (lw_records s1) = Some (lw_records s2) \<and>
    lv_receipts d = do_receipts x \<and> lv_verifications d = do_verifications x"
proof -
  have eq: "lv_action d = action \<and> lv_findings d = fs \<and> lv_receipts d = rz \<and> lv_verifications d = vn \<and> lw_records s2 = lw_records t"
    if "deletion_result_of h action fs now plan tss rz vn t = (d, s2)" for action fs tss rz vn t
    using that deletion_result_of_simps by (metis fst_conv snd_conv)
  obtain fs ts s1 where b: "begin_deletion h p plan now s = Some (fs, ts, s1)"
    using assms(1) by (auto simp: execute_deletion_def split: option.splits)
  have fs: "fs = []" using assms b by (auto simp: execute_deletion_def lv_is_complete_def split: prod.splits if_splits dest!: eq)
  obtain x u where r: "run_deletions h cs now ts (dl_actions plan) no_outcome w = Some (x, u)"
    using assms(1) b fs by (auto simp: execute_deletion_def split: option.splits)
  obtain t where t: "finish_deletion h plan ts x s1 = Some t"
    using assms(1) b fs r by (auto simp: execute_deletion_def Let_def split: option.splits)
  have res: "deletion_result_of h (if dedup_lifecycle (do_findings x @ held_findings h plan) \<noteq> [] then BLOCK else ALLOW)
      (dedup_lifecycle (do_findings x @ held_findings h plan)) now plan (map snd ts) (do_receipts x) (do_verifications x) t = (d, s2)" "u = w'"
    using assms(1) b fs r t by (auto simp: execute_deletion_def Let_def split: prod.splits if_splits)
  note d = eq [OF res(1)]
  have "dedup_lifecycle (do_findings x @ held_findings h plan) = lv_findings d" using d by simp
  also have "\<dots> = []" using assms(2) by (simp add: lv_is_complete_def)
  finally have "do_findings x = [] \<and> held_findings h plan = []" by simp
  moreover have "settle_all h ts (do_failed x) (do_limited x) (plan_artifacts plan) (lw_records s1) = Some (lw_records s2)"
    using t d by (auto simp: finish_deletion_def)
  ultimately show ?thesis using b fs r res(2) d by (auto simp: held_findings_def)
qed

lemma set_select_subjects:
  "set (select_subjects q rs sel) = set sel \<union> lr_artifact_id ` {r \<in> set rs. lr_tenant_id r = dq_tenant_id q \<and> lf_subjects (lr_lifecycle r) \<inter> dq_subjects q \<noteq> {}}"
proof (induction rs arbitrary: sel)
  case (Cons r rs)
  show ?case unfolding select_subjects.simps Cons.IH by (auto simp: set_add_def)
qed simp

lemma selection_covers_lineage:
  assumes "lifecycle_inv h y" and "dq_cascade q" and "dict_get (catalog_of y) a = Some r" and "lr_tenant_id r = dq_tenant_id q"
    and "lf_subjects (lr_lifecycle r) \<inter> dq_subjects q \<noteq> {}" and "(derived_directly (catalog_of y))\<^sup>*\<^sup>* a b"
  shows "b \<in> set (snd (deletion_selection h q (lt_state y))) \<and> dict_get (catalog_of y) b \<noteq> None"
proof -
  have valid: "catalog_valid h (catalog_of y)" and lin: "lineage_kept (catalog_of y)" using assms(1) by (simp_all add: lifecycle_inv_def)
  let ?vs = "record_values (lt_state y)" and ?t = "dq_tenant_id q"
  have vals: "u \<in> set ?vs" if "dict_get (catalog_of y) c = Some u" for c u
    using map_of_SomeD [OF that] by (force simp: record_values_def)
  obtain fs sel0 where sel0: "select_targets h q (catalog_of y) (dq_artifact_ids q) [] = (fs, sel0)" by fastforce
  let ?sel = "select_subjects q ?vs sel0"
  have "lr_artifact_id r = a" using valid assms(3) by (simp add: catalog_valid_def)
  then have a: "a \<in> set ?sel" unfolding set_select_subjects using vals [OF assms(3)] assms(4,5) by blast
  have "(tenant_edge ?t ?vs)\<^sup>*\<^sup>* a b \<and> (\<exists>u. dict_get (catalog_of y) b = Some u \<and> lr_tenant_id u = ?t)"
    using assms(6)
  proof (induction rule: rtranclp_induct)
    case (step b c)
    then obtain u x v where u: "dict_get (catalog_of y) c = Some u" "x \<in> set (lr_sources u)" "so_artifact_id x = b"
        "dict_get (catalog_of y) b = Some v" "lr_tenant_id v = ?t"
      by (auto simp: derived_directly_def)
    then have "lr_tenant_id u = ?t" using lineage_keptD [OF lin u(1,2)] by auto
    moreover have "lr_artifact_id u = c" using valid u(1) by (simp add: catalog_valid_def)
    ultimately have "tenant_edge ?t ?vs b c" using vals [OF u(1)] u(2,3) unfolding tenant_edge_def by blast
    with step.IH u(1) \<open>lr_tenant_id u = ?t\<close> show ?case by auto
  qed (use assms(3,4) in simp)
  moreover have "snd (deletion_selection h q (lt_state y)) = cascade_closure ?t ?vs ?sel"
    using assms(2) sel0 by (simp add: deletion_selection_def Let_def)
  ultimately show ?thesis using a cascade_reach [of ?t ?vs ?sel] by auto
qed

text \<open>What an execution that reports itself complete did with the artifacts and the copies of its plan.\<close>

lemma complete_execution:
  assumes "execute_deletion h p cs plan later s w = Some (d, s2, w')" and "lv_is_complete d" and valid: "catalog_valid h (lw_records s)"
  shows "dl_held plan = []"
    and "a \<in> set (plan_artifacts plan) \<Longrightarrow> \<exists>r'. dict_get (lw_records s2) a = Some r' \<and> lr_state r' = Del_verified"
    and "a \<notin> set (plan_artifacts plan) \<Longrightarrow> dict_get (lw_records s) a = Some r \<Longrightarrow> dict_get (lw_records s2) a = Some r"
    and "c \<in> set (dl_actions plan) \<Longrightarrow> \<exists>tb z v. \<not> limited_guarantee c later \<and> z \<in> set (lv_receipts d) \<and>
      v \<in> set (lv_verifications d) \<and> valid_receipt c tb z \<and> valid_verification c tb z v"
proof -
  obtain ts s1 x where ex: "begin_deletion h p plan later s = Some ([], ts, s1)"
      "run_deletions h cs later ts (dl_actions plan) no_outcome w = Some (x, w')" "do_findings x = []" "dl_held plan = []"
      "settle_all h ts (do_failed x) (do_limited x) (plan_artifacts plan) (lw_records s1) = Some (lw_records s2)"
      "lv_receipts d = do_receipts x" "lv_verifications d = do_verifications x"
    using execute_deletion_complete [OF assms(1,2)] by blast
  note bs = begin_deletion_Some [OF ex(1) valid] and ok = run_deletions_success [OF ex(2,3)]
  show "dl_held plan = []" by (fact ex)
  have none: "do_failed x = {}" "do_limited x = {}" using ok by (simp_all add: no_outcome_def)
  show "\<exists>r'. dict_get (lw_records s2) a = Some r' \<and> lr_state r' = Del_verified" if "a \<in> set (plan_artifacts plan)"
    using settle_all_verified [OF ex(5) that] none by simp
  show "dict_get (lw_records s2) a = Some r" if a: "a \<notin> set (plan_artifacts plan)" and r: "dict_get (lw_records s) a = Some r"
  proof -
    have "dict_get (lw_records s1) a = Some r" using catalog_advanced_get [OF bs(2) r] a by blast
    moreover obtain rs' where "settle_all h ts (do_failed x) (do_limited x) (plan_artifacts plan) (lw_records s1) = Some rs'"
        "catalog_advanced (set (plan_artifacts plan)) (lw_records s1) rs'"
      using settle_all_Some [OF bs(3,4)] by blast
    ultimately show ?thesis using ex(5) a catalog_advanced_get [of "set (plan_artifacts plan)" "lw_records s1" rs' a r] by auto
  qed
  show "\<exists>tb z v. \<not> limited_guarantee c later \<and> z \<in> set (lv_receipts d) \<and>
      v \<in> set (lv_verifications d) \<and> valid_receipt c tb z \<and> valid_verification c tb z v" if "c \<in> set (dl_actions plan)"
    using ok that ex(6,7) by metis
qed

text \<open>
  C19: a complete deletion erases the lineage that its plan saw. Let a cascading deletion be planned for a data subject, and let its plan be
  executed, in one go, after any further operations on the same catalog (none, registrations, derivations, other deletions). If the
  execution reports itself complete, then every artifact of the tenant that was about that person when the deletion was planned, and
  every artifact that had been derived from one by then, in any number of steps, is recorded as no longer usable; and unless it had been
  verified as deleted before the plan was made, it is recorded as verifiably deleted and each of the copies that it had then was
  acknowledged and independently verified as deleted by a store with a strong deletion guarantee. The
  cascade has to be requested, and what is derived after the planning is outside the plan: \<open>late_descendant_survives\<close> shows an output
  that is derived between planning and execution and survives.
\<close>

theorem complete_deletion_erases_lineage:
  assumes "list_all (lifecycle_admissible h) (es @ es')" and "y = foldl (lifecycle_step h p) (lifecycle_init sink) es"
    and "plan_deletion h p q now (lt_state y) = Some (res, s1)" and "lq_plan res = Some plan" and "dq_cascade q"
    and "z = foldl (lifecycle_step h p) y es'"
    and "execute_deletion h p cs plan later (lt_state z) w = Some (d, s2, w')" and "lv_is_complete d"
    and "dict_get (catalog_of y) a = Some r" and "lr_tenant_id r = dq_tenant_id q"
    and "lf_subjects (lr_lifecycle r) \<inter> dq_subjects q \<noteq> {}" and "(derived_directly (catalog_of y))\<^sup>*\<^sup>* a b"
  shows "\<exists>t t'. dict_get (catalog_of y) b = Some t \<and> dict_get (lw_records s2) b = Some t' \<and> lr_state t' \<noteq> Del_active \<and>
    (lr_state t \<noteq> Del_verified \<longrightarrow> lr_state t' = Del_verified \<and> (\<forall>l\<in>set (lr_locations t). copy_deleted d t l))"
proof -
  have adm: "list_all (lifecycle_admissible h) es" "list_all (lifecycle_admissible h) es'" using assms(1) by simp_all
  have inv: "lifecycle_inv h y" unfolding assms(2) by (rule lifecycle_run.run_inv [OF lifecycle_init_inv adm(1)])
  then have valid: "catalog_valid h (catalog_of y)" by (simp add: lifecycle_inv_def)
  have "lifecycle_inv h z" unfolding assms(6) by (rule lifecycle_run.run_inv [OF inv adm(2)])
  then have "catalog_valid h (catalog_of z)" by (simp add: lifecycle_inv_def)
  note ex = complete_execution [OF assms(7,8) this]
  let ?recs = "List.map_filter (dict_get (catalog_of y)) (sort (snd (deletion_selection h q (lt_state y))))"
  let ?pending = "filter (\<lambda>r. lr_state r \<noteq> Del_verified) ?recs"
  obtain fs where pl: "plan_actions h now ?pending = Some (dl_actions plan, [], fs)"
    using plan_deletion_plan [OF assms(3,4)] ex(1) by (metis length_0_conv length_sort)
  obtain t where t: "dict_get (catalog_of y) b = Some t" and sel: "b \<in> set (snd (deletion_selection h q (lt_state y)))"
    using selection_covers_lineage [OF inv assms(5,9-12)] by blast
  have mem: "t \<in> set ?recs" using sel t by (force simp: List.map_filter_def)
  have tid: "lr_artifact_id t = b" using valid t by (simp add: catalog_valid_def)
  have cover: "\<exists>c. c \<in> set (dl_actions plan) \<and> dx_artifact_id c = b \<and> dx_connector_id c = lo_connector_id l \<and>
      dx_external_ref c = lo_external_ref l \<and> dx_capability c = lo_capability l"
    if "lr_state t \<noteq> Del_verified" "l \<in> set (lr_locations t)" for l
  proof -
    have "t \<in> set ?pending" using mem that(1) by simp
    then show ?thesis using plan_actions_cover [OF pl _ that(2)] tid by blast
  qed
  show ?thesis
  proof (cases "lr_state t = Del_verified")
    case True
    obtain u where "dict_get (catalog_of z) b = Some u" "lr_state u \<noteq> Del_active"
      using lifecycle_run_record [OF inv adm(2) t, of p] True unfolding assms(6) by auto
    then have "\<exists>t'. dict_get (lw_records s2) b = Some t' \<and> lr_state t' \<noteq> Del_active"
      using ex(2,3) by (metis deletion_state.distinct)
    then show ?thesis using t True by blast
  next
    case False
    have "1 \<le> length (lr_locations t)" using valid t by (simp add: catalog_valid_def lifecycle_record_ok_def)
    then obtain l where "l \<in> set (lr_locations t)" by (cases "lr_locations t") auto
    then have "b \<in> set (plan_artifacts plan)" using cover [OF False] by (auto simp: plan_artifacts_def)
    then obtain t' where t': "dict_get (lw_records s2) b = Some t'" "lr_state t' = Del_verified" using ex(2) by blast
    have "copy_deleted d t l" if "l \<in> set (lr_locations t)" for l
      using cover [OF False that] ex(4) tid
      unfolding copy_deleted_def limited_guarantee_def valid_receipt_def valid_verification_def by metis
    then show ?thesis using t t' by auto
  qed
qed

section \<open>A concrete catalog\<close>

text \<open>A prompt about Alice, an output derived from it, and a store that deletes and verifies.\<close>

definition demo_lifecycle_hash :: lifecycle_hash where
  "demo_lifecycle_hash = \<lparr>ly_reference = (\<lambda>x. CHR ''#'' # x),
     ly_record = (\<lambda>r. (if lr_state r = Del_active then CHR ''a'' else CHR ''z'') # lr_artifact_id r),
     ly_plan = (\<lambda>_. ''p''), ly_derivation = (\<lambda>_. ''d''), ly_use = (\<lambda>_. ''u''), ly_deletion = (\<lambda>_. ''q''),
     ly_authorization = (\<lambda>a b. a @ b), ly_tombstone = (\<lambda>a b. a @ b)\<rparr>"

definition demo_lifecycle_policy :: lifecycle_policy where
  "demo_lifecycle_policy = \<lparr>lp_purposes = {''support''}, lp_residencies = {''eu''}, lp_rules = default_retention_rules,
     lp_training_classes = {}, lp_deletion_scope = ''del'', lp_plan_ttl = 300, lp_max_artifacts = 10, lp_max_sources = 10,
     lp_max_depth = 5, lp_max_actions = 10\<rparr>"

definition demo_metadata :: "ident set \<Rightarrow> lifecycle_metadata" where
  "demo_metadata holds = \<lparr>lf_class = Class_internal, lf_purposes = {''support''}, lf_residencies = {''eu''},
     lf_retention_until = td_seconds 1000, lf_consent = Consent_denied, lf_holds = holds, lf_subjects = {''alice''}\<rparr>"

definition demo_location :: "string \<Rightarrow> storage_location" where
  "demo_location x = \<lparr>lo_connector_id = ''store'', lo_external_id = x, lo_external_ref = CHR ''#'' # x, lo_residency = ''eu'',
     lo_capability = Delcap_hard_delete, lo_backup_until = None\<rparr>"

definition demo_prompt_record :: "ident set \<Rightarrow> data_record" where
  "demo_prompt_record holds = \<lparr>lr_artifact_id = ''in'', lr_version = 1, lr_kind = Art_prompt, lr_tenant_id = ''t'', lr_lifecycle = demo_metadata holds,
     lr_locations = [demo_location ''x''], lr_sources = [], lr_depth = 0, lr_content_digest = ''c'', lr_created_at = 0,
     lr_state = Del_active, lr_tombstone_id = None, lr_digest = ''ain''\<rparr>"

definition demo_derivation :: "ident \<Rightarrow> derivation_request" where
  "demo_derivation a = \<lparr>dv_request_id = ''d'', dv_artifact_id = a, dv_kind = Art_output, dv_tenant_id = ''t'',
     dv_sources = [\<lparr>so_artifact_id = ''in'', so_record_digest = ''ain''\<rparr>], dv_lifecycle = demo_metadata {},
     dv_locations = [demo_location ''y''], dv_content_digest = ''c'', dv_created_at = td_seconds 1\<rparr>"

definition demo_output :: "ident \<Rightarrow> data_record" where
  "demo_output a = \<lparr>lr_artifact_id = a, lr_version = 1, lr_kind = Art_output, lr_tenant_id = ''t'', lr_lifecycle = demo_metadata {},
     lr_locations = [demo_location ''y''], lr_sources = [\<lparr>so_artifact_id = ''in'', so_record_digest = ''ain''\<rparr>], lr_depth = 1,
     lr_content_digest = ''c'', lr_created_at = td_seconds 1, lr_state = Del_active, lr_tombstone_id = None, lr_digest = CHR ''a'' # a\<rparr>"

lemmas demo_lifecycle_defs = demo_lifecycle_hash_def demo_lifecycle_policy_def demo_metadata_def demo_location_def demo_prompt_record_def
  demo_derivation_def demo_output_def default_retention_rules_def

lemma demo_prompt_ok: "lifecycle_record_ok demo_lifecycle_hash (demo_prompt_record holds)"
  by (simp add: lifecycle_record_ok_def lifecycle_integrity_def lifecycle_payload_def demo_lifecycle_defs)

abbreviation demo_start :: lifecycle_system where
  "demo_start \<equiv> lifecycle_init None"

lemma demo_registered:
  "lifecycle_step demo_lifecycle_hash demo_lifecycle_policy demo_start (Lf_register (demo_prompt_record holds) 0) =
     \<lparr>lt_state = \<lparr>lw_records = [(''in'', demo_prompt_record holds)], lw_sink = None\<rparr>, lt_flights = []\<rparr>"
proof -
  have "record_findings demo_lifecycle_hash demo_lifecycle_policy (demo_prompt_record holds) = Some []"
    by (simp add: record_findings_def lifecycle_integrity_def lifecycle_payload_def demo_lifecycle_defs td_seconds_def)
  then show ?thesis
    by (simp add: register_artifact_def lifecycle_decide_def lifecycle_event_def lifecycle_init_def Let_def)
      (simp add: demo_lifecycle_defs)
qed

lemma demo_candidate: "derived_candidate demo_lifecycle_hash (demo_derivation a) 1 = (if a = ''in'' then None else Some (demo_output a))"
  by (simp add: derived_candidate_def create_lifecycle_def seal_lifecycle_def lifecycle_record_ok_def lifecycle_integrity_def
      lifecycle_payload_def demo_lifecycle_defs td_seconds_def)

lemma demo_derived:
  assumes "a \<noteq> ''in''" and "dict_get rs ''in'' = Some (demo_prompt_record {})" and "dict_get rs a = None" and "length rs < 10"
  shows "lifecycle_step demo_lifecycle_hash demo_lifecycle_policy \<lparr>lt_state = \<lparr>lw_records = rs, lw_sink = None\<rparr>, lt_flights = fl\<rparr>
     (Lf_derive (demo_derivation a) (td_seconds 1)) = \<lparr>lt_state = \<lparr>lw_records = dict_set rs a (demo_output a), lw_sink = None\<rparr>, lt_flights = fl\<rparr>"
proof -
  let ?h = demo_lifecycle_hash and ?p = demo_lifecycle_policy and ?q = "demo_derivation a"
  have ds: "derivation_sources ?h ?q rs (dv_sources ?q) = ([], [demo_prompt_record {}])"
    using assms(2) by (simp add: demo_derivation_def source_check_def lifecycle_integrity_def lifecycle_payload_def demo_prompt_record_def
      demo_lifecycle_hash_def)
  have depth: "derivation_depth [demo_prompt_record {}] = 1" by (simp add: derivation_depth_def demo_prompt_record_def)
  have pf: "propagation_findings ?h (demo_metadata {}) [demo_prompt_record {}] a = []"
    by (simp add: propagation_findings_def demo_prompt_record_def demo_metadata_def)
  have rf: "record_findings ?h ?p (demo_output a) = Some []"
    by (simp add: record_findings_def lifecycle_integrity_def lifecycle_payload_def demo_lifecycle_defs td_seconds_def)
  have q: "dv_artifact_id ?q = a" "length (dv_sources ?q) = 1" "dv_lifecycle ?q = demo_metadata {}" "dv_tenant_id ?q = ''t''"
    by (simp_all add: demo_derivation_def)
  have p: "lp_max_artifacts ?p = 10" "lp_max_sources ?p = 10" "lp_max_depth ?p = 5" by (simp_all add: demo_lifecycle_policy_def)
  have "derivation_findings ?h ?p ?q \<lparr>lw_records = rs, lw_sink = None\<rparr> = Some ([], Some (demo_output a))"
    using assms unfolding derivation_findings_def Let_def
    by (simp add: ds depth pf q p demo_candidate [unfolded One_nat_def] rf)
  then show ?thesis
    by (simp add: derive_artifact_def Let_def ds lifecycle_decide_def lifecycle_event_def) (simp add: demo_output_def)
qed

definition demo_erasure_request :: deletion_request where
  "demo_erasure_request = \<lparr>dq_request_id = ''plan'', dq_tenant_id = ''t'', dq_principal = \<lparr>li_principal_id = ''op'', li_tenant_id = ''t'', li_scopes = {''del''}\<rparr>,
     dq_reason = Reason_subject_request, dq_artifact_ids = [], dq_subjects = {''alice''}, dq_cascade = True\<rparr>"

definition demo_deletion_action :: "data_record \<Rightarrow> string \<Rightarrow> deletion_action" where
  "demo_deletion_action r x = \<lparr>dx_artifact_id = lr_artifact_id r, dx_expected_digest = lr_digest r, dx_connector_id = ''store'',
     dx_external_id = x, dx_external_ref = CHR ''#'' # x, dx_capability = Delcap_hard_delete, dx_backup_until = None\<rparr>"

definition demo_plan :: deletion_plan where
  "demo_plan = \<lparr>dl_plan_id = ''plan'', dl_request = demo_erasure_request,
     dl_actions = [demo_deletion_action (demo_prompt_record {}) ''x'', demo_deletion_action (demo_output ''out'') ''y''], dl_held = [],
     dl_selected_digests = [''ain'', ''aout''], dl_created_at = td_seconds 2, dl_expires_at = td_seconds 302, dl_digest = ''p''\<rparr>"

definition demo_data_catalog :: lifecycle_state where
  "demo_data_catalog = \<lparr>lw_records = [(''in'', demo_prompt_record {}), (''out'', demo_output ''out'')], lw_sink = None\<rparr>"

definition demo_lifecycle_ops :: "lifecycle_op list" where
  "demo_lifecycle_ops = [Lf_register (demo_prompt_record {}) 0, Lf_derive (demo_derivation ''out'') (td_seconds 1)]"

lemma demo_lifecycle_run:
  "foldl (lifecycle_step demo_lifecycle_hash demo_lifecycle_policy) demo_start demo_lifecycle_ops =
     \<lparr>lt_state = demo_data_catalog, lt_flights = []\<rparr>"
  by (simp add: demo_lifecycle_ops_def demo_registered demo_derived demo_data_catalog_def del: lifecycle_step.simps)

lemma demo_lifecycle_admissible: "list_all (lifecycle_admissible demo_lifecycle_hash) demo_lifecycle_ops"
  by (simp add: demo_lifecycle_ops_def demo_prompt_ok)

lemma demo_edge: "derived_directly (lw_records demo_data_catalog) ''in'' ''out''"
  by (simp add: derived_directly_def demo_data_catalog_def demo_output_def)

theorem derived_obligations_preserved_witness:
  "\<exists>t. dict_get (lw_records demo_data_catalog) ''in'' = Some t \<and> lr_tenant_id t = lr_tenant_id (demo_output ''out'') \<and>
    obligations_kept (lr_lifecycle t) (lr_lifecycle (demo_output ''out''))"
  using derived_obligations_preserved [OF demo_lifecycle_admissible refl, where p = demo_lifecycle_policy and sink = None
      and a = "''in''" and b = "''out''" and r = "demo_output ''out''"] demo_edge
  by (simp add: demo_lifecycle_run tranclp.r_into_trancl) (simp add: demo_data_catalog_def)

lemma demo_sorted: "sort [''in'', ''out''] = [''in'', ''out'']" "sort [''ain'', ''aout''] = [''ain'', ''aout'']"
  by code_simp+

lemma demo_selection: "deletion_selection demo_lifecycle_hash demo_erasure_request demo_data_catalog = ([], [''in'', ''out''])"
  by (simp add: deletion_selection_def demo_erasure_request_def record_values_def demo_data_catalog_def demo_prompt_record_def demo_output_def demo_metadata_def
      set_add_def cascade_closure.simps)

lemma demo_plan_actions:
  "plan_actions demo_lifecycle_hash now [demo_prompt_record {}, demo_output ''out''] = Some (dl_actions demo_plan, [], [])"
  by (simp add: demo_plan_def demo_deletion_action_def deletion_action_of_def deletion_action_ok_def limited_guarantee_def Let_def
      demo_prompt_record_def demo_output_def demo_metadata_def demo_location_def demo_lifecycle_hash_def)

lemma demo_plan_ok: "deletion_plan_ok demo_lifecycle_hash demo_plan"
  by (simp add: deletion_plan_ok_def demo_plan_def plan_integrity_def demo_lifecycle_hash_def td_seconds_def demo_sorted)

lemma demo_planned:
  "\<exists>res. plan_deletion demo_lifecycle_hash demo_lifecycle_policy demo_erasure_request (td_seconds 2) demo_data_catalog = Some (res, demo_data_catalog) \<and>
    lq_plan res = Some demo_plan"
proof -
  let ?h = demo_lifecycle_hash and ?p = demo_lifecycle_policy
  have recs: "List.map_filter (dict_get (lw_records demo_data_catalog)) [''in'', ''out''] = [demo_prompt_record {}, demo_output ''out'']"
    by (simp add: demo_data_catalog_def List.map_filter_def)
  have states: "filter (\<lambda>r. lr_state r \<noteq> Del_verified) [demo_prompt_record {}, demo_output ''out''] = [demo_prompt_record {}, demo_output ''out'']"
    by (simp add: demo_prompt_record_def demo_output_def)
  have digests: "map lr_digest [demo_prompt_record {}, demo_output ''out''] = [''ain'', ''aout'']" by (simp add: demo_prompt_record_def demo_output_def)
  have scope: "lp_deletion_scope ?p \<in> li_scopes (dq_principal demo_erasure_request)" "dq_reason demo_erasure_request \<noteq> Reason_retention_expired"
    "dq_request_id demo_erasure_request = ''plan''" "lp_plan_ttl ?p = 300" "length (dl_actions demo_plan) \<le> lp_max_actions ?p"
    by (simp_all add: demo_erasure_request_def demo_lifecycle_policy_def demo_plan_def)
  have plan: "create_deletion_plan ?h \<lparr>dl_plan_id = ''plan'', dl_request = demo_erasure_request, dl_actions = dl_actions demo_plan, dl_held = [],
      dl_selected_digests = [''ain'', ''aout''], dl_created_at = td_seconds 2, dl_expires_at = td_seconds 2 + td_seconds 300, dl_digest = []\<rparr> =
      Some demo_plan"
    using demo_plan_ok by (simp add: create_deletion_plan_def Let_def demo_plan_def demo_lifecycle_hash_def td_seconds_def)
  have "plan_deletion ?h ?p demo_erasure_request (td_seconds 2) demo_data_catalog =
      Some (plan_result ?h ALLOW [] (td_seconds 2) demo_erasure_request [''in'', ''out''] (Some demo_plan) demo_data_catalog)"
    unfolding plan_deletion_def Let_def demo_selection prod.case demo_sorted recs states demo_plan_actions option.case digests
    using scope by (simp add: plan del: map_map list.map)
  moreover have "snd (plan_result ?h ALLOW [] (td_seconds 2) demo_erasure_request [''in'', ''out''] (Some demo_plan) demo_data_catalog) = demo_data_catalog"
    by (simp add: plan_result_def lifecycle_event_def Let_def demo_data_catalog_def)
  ultimately show ?thesis by (metis plan_result_simps(3) prod.collapse)
qed

text \<open>The store acknowledges and verifies every deletion at the time of the tombstone.\<close>

definition demo_store_connector :: "unit deletion_connector" where
  "demo_store_connector = \<lparr>cw_tombstone = (\<lambda>a t w. (True, w)),
     cw_delete = (\<lambda>a t w. (Some \<lparr>rz_artifact_id = dx_artifact_id a, rz_connector_id = dx_connector_id a, rz_external_ref = dx_external_ref a,
       rz_tombstone_id = tb_tombstone_id t, rz_plan_digest = tb_plan_digest t, rz_receipt_ref = ''r'', rz_deleted = True,
       rz_occurred_at = tb_created_at t\<rparr>, w)),
     cw_verify = (\<lambda>a t r w. (Some \<lparr>vn_artifact_id = dx_artifact_id a, vn_connector_id = dx_connector_id a, vn_external_ref = dx_external_ref a,
       vn_tombstone_id = tb_tombstone_id t, vn_plan_digest = tb_plan_digest t, vn_receipt_ref = rz_receipt_ref r, vn_evidence_ref = ''e'',
       vn_verified = True, vn_verified_at = rz_occurred_at r\<rparr>, w))\<rparr>"

lemma demo_run_deletion:
  assumes "dx_connector_id a = ''store''" and "\<not> limited_guarantee a now"
  shows "do_findings (fst (run_deletion h [(''store'', demo_store_connector)] now a t x w)) = do_findings x"
  using assms by (simp add: run_deletion_def demo_store_connector_def valid_receipt_def valid_verification_def)

lemma demo_run_deletions:
  assumes "run_deletions h [(''store'', demo_store_connector)] now ts as x w = Some (x', w')"
    and "\<forall>a\<in>set as. dx_connector_id a = ''store'' \<and> \<not> limited_guarantee a now"
  shows "do_findings x' = do_findings x"
  using assms
proof (induction as arbitrary: x w)
  case (Cons a as)
  then obtain t x1 w1 where "run_deletion h [(''store'', demo_store_connector)] now a t x w = (x1, w1)"
      "run_deletions h [(''store'', demo_store_connector)] now ts as x1 w1 = Some (x', w')"
    by (auto split: option.splits prod.splits)
  then show ?case using Cons.IH [of x1 w1] Cons.prems(2) demo_run_deletion [of a now h t x w] by simp
qed simp

text \<open>Deleting in a catalog that holds at least the two artifacts of the plan.\<close>

lemma demo_execution_findings:
  assumes "dict_get (lw_records s) ''in'' = Some (demo_prompt_record {})" and "dict_get (lw_records s) ''out'' = Some (demo_output ''out'')"
  shows "execution_findings demo_lifecycle_hash demo_lifecycle_policy demo_plan (td_seconds 3) s = []"
proof -
  have "{''ain'', ''aout''} \<subseteq> lr_digest ` set (record_values s)"
    using map_of_SomeD [OF assms(1)] map_of_SomeD [OF assms(2)] by (force simp: record_values_def demo_prompt_record_def demo_output_def)
  moreover have "plan_integrity demo_lifecycle_hash demo_plan" using demo_plan_ok by (simp add: deletion_plan_ok_def)
  ultimately show ?thesis
    using assms by (simp add: execution_findings_def demo_plan_def demo_erasure_request_def demo_lifecycle_policy_def demo_deletion_action_def td_seconds_def)
      (simp add: demo_prompt_record_def demo_output_def demo_metadata_def)
qed

lemma demo_artifacts: "plan_artifacts demo_plan = [''in'', ''out'']"
  by (simp add: plan_artifacts_def demo_plan_def demo_deletion_action_def demo_prompt_record_def demo_output_def)

lemma demo_begun:
  assumes "catalog_valid demo_lifecycle_hash (lw_records s)"
    and "dict_get (lw_records s) ''in'' = Some (demo_prompt_record {})" and "dict_get (lw_records s) ''out'' = Some (demo_output ''out'')"
  shows "\<exists>ts s'. begin_deletion demo_lifecycle_hash demo_lifecycle_policy demo_plan (td_seconds 3) s = Some ([], ts, s')"
proof -
  obtain fs ts s' where b: "begin_deletion demo_lifecycle_hash demo_lifecycle_policy demo_plan (td_seconds 3) s = Some (fs, ts, s')"
    using begin_deletion_total [OF assms(1), of demo_lifecycle_policy demo_plan "td_seconds 3"] by auto
  have "execution_findings demo_lifecycle_hash demo_lifecycle_policy demo_plan (td_seconds 3) s = []"
    by (rule demo_execution_findings [OF assms(2,3)])
  then have "fs = []" using b by (auto simp: begin_deletion_def Let_def split: option.splits)
  then show ?thesis using b by blast
qed

lemma demo_deleted:
  assumes "catalog_valid demo_lifecycle_hash (lw_records s)"
    and "dict_get (lw_records s) ''in'' = Some (demo_prompt_record {})" and "dict_get (lw_records s) ''out'' = Some (demo_output ''out'')"
  shows "\<exists>d s2. execute_deletion demo_lifecycle_hash demo_lifecycle_policy [(''store'', demo_store_connector)] demo_plan (td_seconds 3) s () =
      Some (d, s2, ()) \<and> lv_is_complete d \<and>
    (\<forall>a r. a \<notin> {''in'', ''out''} \<longrightarrow> dict_get (lw_records s) a = Some r \<longrightarrow> dict_get (lw_records s2) a = Some r)"
proof -
  let ?h = demo_lifecycle_hash and ?p = demo_lifecycle_policy and ?cs = "[(''store'', demo_store_connector)]"
  obtain ts s1 where b: "begin_deletion ?h ?p demo_plan (td_seconds 3) s = Some ([], ts, s1)" using demo_begun [OF assms] by blast
  note bs = begin_deletion_Some [OF b assms(1)]
  have "\<forall>a\<in>set (dl_actions demo_plan). dict_get ts (dx_artifact_id a) \<noteq> None" using bs(4) by (auto simp: settleable_def plan_artifacts_def)
  then obtain x where r: "run_deletions ?h ?cs (td_seconds 3) ts (dl_actions demo_plan) no_outcome () = Some (x, ())"
    using run_deletions_total [of "dl_actions demo_plan" ts ?h ?cs "td_seconds 3" no_outcome "()"] by auto
  have "\<forall>a\<in>set (dl_actions demo_plan). dx_connector_id a = ''store'' \<and> \<not> limited_guarantee a (td_seconds 3)"
    by (simp add: demo_plan_def demo_deletion_action_def limited_guarantee_def)
  then have x: "do_findings x = []" using demo_run_deletions [OF r] by (simp add: no_outcome_def)
  obtain t where t: "finish_deletion ?h demo_plan ts x s1 = Some t"
      "catalog_advanced (set (plan_artifacts demo_plan)) (lw_records s1) (lw_records t)"
    using finish_deletion_Some [OF bs(3,4)] by blast
  let ?res = "deletion_result_of ?h ALLOW [] (td_seconds 3) demo_plan (map snd ts) (do_receipts x) (do_verifications x) t"
  have "execute_deletion ?h ?p ?cs demo_plan (td_seconds 3) s () = Some (fst ?res, snd ?res, ())"
    using b r t(1) x by (simp add: execute_deletion_def held_findings_def demo_plan_def Let_def split: prod.split)
  moreover have "lv_is_complete (fst ?res)" by (simp add: lv_is_complete_def)
  moreover have "dict_get (lw_records (snd ?res)) a = Some r" if "a \<notin> {''in'', ''out''}" "dict_get (lw_records s) a = Some r" for a r
    using catalog_advanced_get [OF bs(2) that(2)] catalog_advanced_get [OF t(2), of a r] that(1) by (auto simp: demo_artifacts)
  ultimately show ?thesis by blast
qed

lemma demo_inv: "lifecycle_inv demo_lifecycle_hash \<lparr>lt_state = demo_data_catalog, lt_flights = []\<rparr>"
  using lifecycle_run.run_inv [OF lifecycle_init_inv demo_lifecycle_admissible] by (metis demo_lifecycle_run)

lemma demo_data_catalog_get:
  "dict_get (lw_records demo_data_catalog) ''in'' = Some (demo_prompt_record {})" "dict_get (lw_records demo_data_catalog) ''out'' = Some (demo_output ''out'')"
  "catalog_valid demo_lifecycle_hash (lw_records demo_data_catalog)"
  using demo_inv by (simp_all add: lifecycle_inv_def) (simp_all add: demo_data_catalog_def)

theorem tombstoned_never_used_witness:
  "\<exists>z. lj_action (fst (authorize_use demo_lifecycle_hash demo_lifecycle_policy
    \<lparr>uq_request_id = ''u'', uq_artifact_id = ''in'', uq_expected_digest = ''ain'', uq_principal = \<lparr>li_principal_id = ''a'', li_tenant_id = ''t'',
      li_scopes = {}\<rparr>, uq_purpose_id = ''support'', uq_residency = ''eu'', uq_kind = Use_inference, uq_retention_until = None\<rparr>
    (td_seconds 4) z)) = BLOCK"
proof -
  obtain ts s where b: "begin_deletion demo_lifecycle_hash demo_lifecycle_policy demo_plan (td_seconds 3) demo_data_catalog = Some ([], ts, s)"
    using demo_begun [OF demo_data_catalog_get(3,1,2)] by blast
  have "list_all (lifecycle_admissible demo_lifecycle_hash) (demo_lifecycle_ops @ [])" using demo_lifecycle_admissible by simp
  moreover have "begin_deletion demo_lifecycle_hash demo_lifecycle_policy demo_plan (td_seconds 3) (lt_state \<lparr>lt_state = demo_data_catalog, lt_flights = []\<rparr>) = Some ([], ts, s)"
    using b by simp
  ultimately show ?thesis
    using tombstoned_never_used [OF _ demo_lifecycle_run [symmetric], of "[]" demo_plan "td_seconds 3" ts s "''in''" _
        "\<lparr>uq_request_id = ''u'', uq_artifact_id = ''in'', uq_expected_digest = ''ain'', uq_principal = \<lparr>li_principal_id = ''a'', li_tenant_id = ''t'',
      li_scopes = {}\<rparr>, uq_purpose_id = ''support'', uq_residency = ''eu'', uq_kind = Use_inference, uq_retention_until = None\<rparr>" "td_seconds 4"]
    by (simp add: demo_artifacts) blast
qed

theorem held_artifact_untouched_witness:
  "dict_get (catalog_of (lifecycle_step demo_lifecycle_hash demo_lifecycle_policy
     \<lparr>lt_state = \<lparr>lw_records = [(''in'', demo_prompt_record {''case''})], lw_sink = None\<rparr>, lt_flights = []\<rparr> (Lf_begin demo_plan (td_seconds 3)))) ''in'' =
   Some (demo_prompt_record {''case''})"
  using held_artifact_untouched [of demo_lifecycle_hash "[Lf_register (demo_prompt_record {''case''}) 0]" "[Lf_begin demo_plan (td_seconds 3)]" _
      demo_lifecycle_policy None "''in''" "demo_prompt_record {''case''}"]
  by (simp add: demo_registered demo_prompt_ok del: lifecycle_step.simps) (simp add: demo_prompt_record_def demo_metadata_def)

theorem use_allowed_exactly_witness:
  "lj_action (fst (authorize_use demo_lifecycle_hash demo_lifecycle_policy
    \<lparr>uq_request_id = ''u'', uq_artifact_id = ''in'', uq_expected_digest = ''ain'', uq_principal = \<lparr>li_principal_id = ''a'', li_tenant_id = ''t'',
      li_scopes = {}\<rparr>, uq_purpose_id = ''support'', uq_residency = ''eu'', uq_kind = Use_inference, uq_retention_until = None\<rparr>
    (td_seconds 2) demo_data_catalog)) = ALLOW"
  unfolding use_allowed_exactly
  by (simp add: demo_data_catalog_get lifecycle_integrity_def lifecycle_payload_def) (simp add: demo_lifecycle_defs td_seconds_def)

theorem deletion_never_raises_witness:
  "\<exists>d s w'. execute_deletion demo_lifecycle_hash demo_lifecycle_policy [(''store'', demo_store_connector)] demo_plan (td_seconds 900) demo_data_catalog () =
    Some (d, s, w')"
  using deletion_never_raises [OF demo_lifecycle_admissible demo_lifecycle_run [symmetric], of "[(''store'', demo_store_connector)]" demo_plan
      "td_seconds 900" "()"] by simp

text \<open>The demo catalog with an output that is derived after the deletion was planned.\<close>

definition demo_late_catalog :: lifecycle_state where
  "demo_late_catalog = \<lparr>lw_records = dict_set (lw_records demo_data_catalog) ''late'' (demo_output ''late''), lw_sink = None\<rparr>"

lemma demo_late_step:
  "lifecycle_step demo_lifecycle_hash demo_lifecycle_policy \<lparr>lt_state = demo_data_catalog, lt_flights = []\<rparr>
     (Lf_derive (demo_derivation ''late'') (td_seconds 1)) = \<lparr>lt_state = demo_late_catalog, lt_flights = []\<rparr>"
  using demo_derived [of "''late''" "lw_records demo_data_catalog" "[]"] demo_data_catalog_get(1)
  by (simp add: demo_late_catalog_def demo_data_catalog_def del: lifecycle_step.simps)

lemma demo_late_deleted:
  obtains d s2 where "execute_deletion demo_lifecycle_hash demo_lifecycle_policy [(''store'', demo_store_connector)] demo_plan (td_seconds 3)
      demo_late_catalog () = Some (d, s2, ())" "lv_is_complete d" "dict_get (lw_records s2) ''late'' = Some (demo_output ''late'')"
proof -
  have "lifecycle_inv demo_lifecycle_hash \<lparr>lt_state = demo_late_catalog, lt_flights = []\<rparr>"
    using lifecycle_step_inv [OF demo_inv, of "Lf_derive (demo_derivation ''late'') (td_seconds 1)" demo_lifecycle_policy] demo_late_step by simp
  then have valid: "catalog_valid demo_lifecycle_hash (lw_records demo_late_catalog)" by (simp add: lifecycle_inv_def)
  show thesis using demo_deleted [OF valid] that demo_data_catalog_get by (auto simp: demo_late_catalog_def)
qed

theorem complete_deletion_erases_lineage_witness:
  "\<exists>d s2 w' t'. execute_deletion demo_lifecycle_hash demo_lifecycle_policy [(''store'', demo_store_connector)] demo_plan (td_seconds 3) demo_late_catalog () =
    Some (d, s2, w') \<and> dict_get (lw_records s2) ''out'' = Some t' \<and> lr_state t' = Del_verified \<and> copy_deleted d (demo_output ''out'') (demo_location ''y'')"
proof -
  let ?y = "\<lparr>lt_state = demo_data_catalog, lt_flights = []\<rparr>" and ?late = "[Lf_derive (demo_derivation ''late'') (td_seconds 1)]"
  obtain res where plan: "plan_deletion demo_lifecycle_hash demo_lifecycle_policy demo_erasure_request (td_seconds 2)
      (lt_state ?y) = Some (res, demo_data_catalog)" "lq_plan res = Some demo_plan"
    using demo_planned by auto
  have adm: "list_all (lifecycle_admissible demo_lifecycle_hash) (demo_lifecycle_ops @ ?late)"
    using demo_lifecycle_admissible by simp
  have run: "\<lparr>lt_state = demo_late_catalog, lt_flights = []\<rparr> = foldl (lifecycle_step demo_lifecycle_hash demo_lifecycle_policy) ?y ?late"
    using demo_late_step by (simp del: lifecycle_step.simps)
  obtain d s2 where ex: "execute_deletion demo_lifecycle_hash demo_lifecycle_policy [(''store'', demo_store_connector)] demo_plan (td_seconds 3)
      (lt_state \<lparr>lt_state = demo_late_catalog, lt_flights = []\<rparr>) () = Some (d, s2, ())" "lv_is_complete d"
    by (rule demo_late_deleted) simp
  have q: "dq_cascade demo_erasure_request" "lr_tenant_id (demo_prompt_record {}) = dq_tenant_id demo_erasure_request"
    "lf_subjects (lr_lifecycle (demo_prompt_record {})) \<inter> dq_subjects demo_erasure_request \<noteq> {}"
    by (simp_all add: demo_erasure_request_def demo_prompt_record_def demo_metadata_def)
  have edge: "(derived_directly (catalog_of ?y))\<^sup>*\<^sup>* ''in'' ''out''" using demo_edge by simp
  have get: "dict_get (catalog_of ?y) ''in'' = Some (demo_prompt_record {})" by (simp add: demo_data_catalog_get)
  have active: "lr_state (demo_output ''out'') \<noteq> Del_verified" "set (lr_locations (demo_output ''out'')) = {demo_location ''y''}"
    by (simp_all add: demo_output_def)
  show ?thesis
    using complete_deletion_erases_lineage [OF adm demo_lifecycle_run [symmetric] plan q(1) run ex get q(2,3) edge] ex(1) active
    by (auto simp: demo_data_catalog_get)
qed

text \<open>
  A plan does not notice what is derived after it was made: an output derived between planning and execution survives a deletion that
  reports itself complete, and stays usable.
\<close>

theorem late_descendant_survives:
  "\<exists>s1 d s2. lifecycle_step demo_lifecycle_hash demo_lifecycle_policy \<lparr>lt_state = demo_data_catalog, lt_flights = []\<rparr>
      (Lf_derive (demo_derivation ''late'') (td_seconds 1)) = \<lparr>lt_state = s1, lt_flights = []\<rparr> \<and>
    execute_deletion demo_lifecycle_hash demo_lifecycle_policy [(''store'', demo_store_connector)] demo_plan (td_seconds 3) s1 () = Some (d, s2, ()) \<and>
    lv_is_complete d \<and> dict_get (lw_records s2) ''late'' = Some (demo_output ''late'') \<and> lr_state (demo_output ''late'') = Del_active"
proof -
  obtain d s2 where "execute_deletion demo_lifecycle_hash demo_lifecycle_policy [(''store'', demo_store_connector)] demo_plan (td_seconds 3)
      demo_late_catalog () = Some (d, s2, ())" "lv_is_complete d" "dict_get (lw_records s2) ''late'' = Some (demo_output ''late'')"
    by (rule demo_late_deleted)
  then show ?thesis using demo_late_step by (intro exI [of _ demo_late_catalog] exI [of _ d] exI [of _ s2]) (auto simp: demo_output_def)
qed

end
