(* ===== verification/Privileged_Access.thy ===== *)
theory Privileged_Access
  imports Core_Models
begin

text \<open>
  \<open>privileged_access.py\<close> with \<open>models/privileged_access.py\<close>: step-up authentication and just-in-time grants for high-risk
  operations. The digests are parameters (\<open>priv_hash\<close>), and so are the identity, risk and backend services and the two evidence
  verifiers, which may answer differently at every call (\<open>priv_services\<close>): \<open>None\<close> where a service raises. The grant
  store is \<open>MemoryPrivilegeGrantStateStore\<close>. Identifier patterns are left out.
\<close>

section \<open>Data\<close>

datatype priv_operation = Po_model_deploy | Po_weight_export | Po_training_data_read | Po_pipeline_modify | Po_prompt_modify
  | Po_safety_policy_modify | Po_config_modify

datatype assurance = As_basic | As_multi_factor | As_phishing_resistant | As_hardware_bound

fun assurance_level :: "assurance \<Rightarrow> nat" where
  "assurance_level As_basic = 1" | "assurance_level As_multi_factor = 2"
| "assurance_level As_phishing_resistant = 3" | "assurance_level As_hardware_bound = 4"

datatype priv_phase = Ph_issue | Ph_execute | Ph_revoke

datatype grant_status = Gs_stored | Gs_collision | Gs_consumed | Gs_replayed | Gs_revoked | Gs_missing | Gs_expired

datatype priv_code =
    Pv_allowed | Pv_operation_not_classified | Pv_policy_mismatch | Pv_actor_context_mismatch | Pv_identity_inactive
  | Pv_identity_unavailable | Pv_role_denied | Pv_session_expired | Pv_session_duration_exceeded | Pv_scope_denied
  | Pv_step_up_required | Pv_step_up_invalid | Pv_step_up_expired | Pv_step_up_unavailable | Pv_assurance_insufficient
  | Pv_approval_required | Pv_approval_invalid | Pv_approver_not_independent | Pv_approval_unavailable | Pv_risk_denied
  | Pv_risk_unavailable | Pv_backend_denied | Pv_authorization_unavailable | Pv_grant_invalid | Pv_grant_expired
  | Pv_grant_replayed | Pv_grant_revoked | Pv_grant_state_unavailable | Pv_identity_changed | Pv_role_changed
  | Pv_policy_changed | Pv_risk_changed | Pv_session_changed

record priv_rule =
  pvo_operation :: priv_operation
  pvo_scopes :: "ident set"
  pvo_roles :: "ident set"
  pvo_assurance :: assurance
  pvo_needs_approval :: bool
  pvo_approvers :: "ident set"
  pvo_max_session :: int
  pvo_max_step_up_age :: int
  pvo_max_ttl :: int
  pvo_max_risk :: int

definition priv_rule_ok :: "priv_rule \<Rightarrow> bool" where
  "priv_rule_ok r \<longleftrightarrow> (pvo_needs_approval r \<longleftrightarrow> pvo_approvers r \<noteq> {}) \<and> pvo_scopes r \<noteq> {} \<and> pvo_roles r \<noteq> {} \<and>
     1 \<le> pvo_max_session r \<and> 1 \<le> pvo_max_step_up_age r \<and> 1 \<le> pvo_max_ttl r"

record priv_policy =
  pvp_policy_id :: ident
  pvp_version :: nat
  pvp_rules :: "priv_rule list"

definition priv_policy_ok :: "priv_policy \<Rightarrow> bool" where
  "priv_policy_ok p \<longleftrightarrow> distinct (map pvo_operation (pvp_rules p)) \<and> pvp_rules p \<noteq> [] \<and> list_all priv_rule_ok (pvp_rules p)"

definition priv_policy_for :: "priv_policy \<Rightarrow> priv_operation \<Rightarrow> priv_rule option" where
  "priv_policy_for p x = List.find (\<lambda>r. pvo_operation r = x) (pvp_rules p)"

record priv_actor =
  pva_actor_id :: ident
  pva_tenant_id :: ident
  pva_session_id :: ident
  pva_identity_version :: ident
  pva_role_version :: ident
  pva_risk_version :: ident

record identity_snapshot =
  pvi_actor_id :: ident
  pvi_tenant_id :: ident
  pvi_session_id :: ident
  pvi_identity_version :: ident
  pvi_role_version :: ident
  pvi_roles :: "ident set"
  pvi_active :: bool
  pvi_started_at :: datetime
  pvi_expires_at :: datetime

record risk_snapshot =
  pvr_actor_id :: ident
  pvr_tenant_id :: ident
  pvr_session_id :: ident
  pvr_risk_version :: ident
  pvr_score :: int
  pvr_blocked :: bool
  pvr_assessed_at :: datetime
  pvr_expires_at :: datetime

record priv_request =
  pvq_request_id :: ident
  pvq_actor :: priv_actor
  pvq_operation :: priv_operation
  pvq_target_id :: string
  pvq_purpose_id :: ident
  pvq_scopes :: "ident set"
  pvq_policy_id :: ident
  pvq_policy_version :: nat
  pvq_policy_digest :: string
  pvq_nonce :: ident

record step_up_evidence =
  pvs_evidence_id :: ident
  pvs_request_digest :: string
  pvs_actor_id :: ident
  pvs_tenant_id :: ident
  pvs_session_id :: ident
  pvs_policy_digest :: string
  pvs_nonce :: ident
  pvs_assurance :: assurance
  pvs_methods :: "ident set"
  pvs_authenticated_at :: datetime
  pvs_expires_at :: datetime

record approval_evidence =
  pvv_approval_id :: ident
  pvv_request_digest :: string
  pvv_actor_id :: ident
  pvv_tenant_id :: ident
  pvv_approver_id :: ident
  pvv_policy_digest :: string
  pvv_nonce :: ident
  pvv_approved_at :: datetime
  pvv_expires_at :: datetime

record backend_decision =
  pvb_request_digest :: string
  pvb_allowed :: bool
  pvb_revision :: ident
  pvb_reason :: ident
  pvb_expires_at :: datetime

record jit_grant =
  pvg_grant_id :: ident
  pvg_request_digest :: string
  pvg_actor_ref :: string
  pvg_tenant_ref :: string
  pvg_session_ref :: string
  pvg_operation :: priv_operation
  pvg_target_ref :: string
  pvg_scopes :: "ident set"
  pvg_policy_digest :: string
  pvg_identity_version :: ident
  pvg_role_version :: ident
  pvg_risk_version :: ident
  pvg_step_up_digest :: string
  pvg_approval_digest :: "string option"
  pvg_issued_at :: datetime
  pvg_expires_at :: datetime
  pvg_digest :: string

record priv_permit =
  pvx_authorization_id :: string
  pvx_request_digest :: string
  pvx_grant_digest :: string
  pvx_actor_ref :: string
  pvx_tenant_ref :: string
  pvx_operation :: priv_operation
  pvx_target_ref :: string
  pvx_scopes :: "ident set"
  pvx_backend_revision :: ident
  pvx_expires_at :: datetime

record priv_finding =
  pvf_code :: priv_code
  pvf_severity :: severity
  pvf_message :: string

record priv_audit =
  pvt_occurred_at :: datetime
  pvt_phase :: priv_phase
  pvt_action :: guard_action
  pvt_code :: priv_code
  pvt_request_ref :: string
  pvt_actor_ref :: string
  pvt_tenant_ref :: string
  pvt_target_ref :: string
  pvt_operation :: priv_operation
  pvt_grant_ref :: "string option"

record priv_decision =
  pvd_action :: guard_action
  pvd_findings :: "priv_finding list"
  pvd_grant :: "jit_grant option"
  pvd_permit :: "priv_permit option"
  pvd_audit :: priv_audit

definition pvd_is_allowed :: "priv_decision \<Rightarrow> bool" where
  "pvd_is_allowed d \<longleftrightarrow> pvd_action d = ALLOW"

definition pvd_requires_step_up :: "priv_decision \<Rightarrow> bool" where
  "pvd_requires_step_up d \<longleftrightarrow> pvd_action d = REQUIRE_APPROVAL"

record priv_hash =
  pvh_reference :: "string \<Rightarrow> string"
  pvh_policy :: "priv_policy \<Rightarrow> string"
  pvh_request :: "priv_request \<Rightarrow> string"
  pvh_step_up :: "step_up_evidence \<Rightarrow> string"
  pvh_approval :: "approval_evidence \<Rightarrow> string"
  pvh_grant :: "jit_grant \<Rightarrow> string"
  pvh_seed :: "string \<Rightarrow> ident \<Rightarrow> string"
  pvh_permit :: "string \<Rightarrow> string \<Rightarrow> ident \<Rightarrow> string"

text \<open>The digest of a request covers its target by reference, and not its own identifier.\<close>

definition priv_target_ref :: "priv_hash \<Rightarrow> priv_request \<Rightarrow> string" where
  "priv_target_ref h q = pvh_reference h (pvq_target_id q)"

definition priv_request_digest :: "priv_hash \<Rightarrow> priv_request \<Rightarrow> string" where
  "priv_request_digest h q = pvh_request h (q\<lparr>pvq_request_id := [], pvq_target_id := priv_target_ref h q\<rparr>)"

definition grant_integrity :: "priv_hash \<Rightarrow> jit_grant \<Rightarrow> bool" where
  "grant_integrity h g \<longleftrightarrow> pvg_digest g = pvh_grant h (g\<lparr>pvg_digest := []\<rparr>)"

text \<open>\<open>JITPrivilegeGrant.create\<close>; \<open>None\<close> where its validator raises.\<close>

definition create_grant :: "priv_hash \<Rightarrow> jit_grant \<Rightarrow> jit_grant option" where
  "create_grant h g = (let s = g\<lparr>pvg_digest := pvh_grant h (g\<lparr>pvg_digest := []\<rparr>)\<rparr> in
     if pvg_expires_at s \<le> pvg_issued_at s \<or> \<not> grant_integrity h s then None else Some s)"

section \<open>The grant store\<close>

record grant_entry =
  pge_digest :: string
  pge_session_ref :: string
  pge_expires_at :: datetime
  pge_status :: grant_status

record grant_store =
  pgs_max :: nat
  pgs_grants :: "(ident, grant_entry) dict"

definition new_grant_store :: "nat \<Rightarrow> grant_store option" where
  "new_grant_store n = (if n < 1 then None else Some \<lparr>pgs_max = n, pgs_grants = []\<rparr>)"

definition register_grant :: "jit_grant \<Rightarrow> grant_store \<Rightarrow> grant_status \<times> grant_store" where
  "register_grant g s = (case dict_get (pgs_grants s) (pvg_grant_id g) of
       Some e \<Rightarrow> (if pge_digest e = pvg_digest g then Gs_replayed else Gs_collision, s)
     | None \<Rightarrow> if pgs_max s \<le> length (pgs_grants s) then (Gs_collision, s)
         else (Gs_stored, s\<lparr>pgs_grants := dict_set (pgs_grants s) (pvg_grant_id g)
           \<lparr>pge_digest = pvg_digest g, pge_session_ref = pvg_session_ref g, pge_expires_at = pvg_expires_at g, pge_status = Gs_stored\<rparr>\<rparr>))"

definition set_status :: "ident \<Rightarrow> grant_entry \<Rightarrow> grant_status \<Rightarrow> grant_store \<Rightarrow> grant_store" where
  "set_status a e st s = s\<lparr>pgs_grants := dict_set (pgs_grants s) a (e\<lparr>pge_status := st\<rparr>)\<rparr>"

definition consume_grant :: "ident \<Rightarrow> string \<Rightarrow> datetime \<Rightarrow> grant_store \<Rightarrow> grant_status \<times> grant_store" where
  "consume_grant a digest now s = (case dict_get (pgs_grants s) a of
       None \<Rightarrow> (Gs_missing, s)
     | Some e \<Rightarrow>
         if pge_digest e \<noteq> digest then (Gs_missing, s)
         else if pge_status e = Gs_revoked then (Gs_revoked, s)
         else if pge_status e = Gs_consumed then (Gs_replayed, s)
         else if pge_expires_at e \<le> now then (Gs_expired, set_status a e Gs_expired s)
         else (Gs_consumed, set_status a e Gs_consumed s))"

definition revoke_grant :: "ident \<Rightarrow> grant_store \<Rightarrow> grant_status \<times> grant_store" where
  "revoke_grant a s = (case dict_get (pgs_grants s) a of
       None \<Rightarrow> (Gs_missing, s) | Some e \<Rightarrow> (Gs_revoked, set_status a e Gs_revoked s))"

definition session_stored :: "string \<Rightarrow> grant_entry \<Rightarrow> bool" where
  "session_stored ref e \<longleftrightarrow> pge_session_ref e = ref \<and> pge_status e = Gs_stored"

definition revoke_session_grants :: "string \<Rightarrow> grant_store \<Rightarrow> nat \<times> grant_store" where
  "revoke_session_grants ref s =
     (length (filter (\<lambda>(a, e). session_stored ref e) (pgs_grants s)),
      s\<lparr>pgs_grants := map (\<lambda>(a, e). (a, if session_stored ref e then e\<lparr>pge_status := Gs_revoked\<rparr> else e)) (pgs_grants s)\<rparr>)"

section \<open>The manager\<close>

text \<open>What the external services answer at one call; the identity and risk services may also answer \<open>None\<close>.\<close>

record priv_services =
  pve_identity :: "ident \<Rightarrow> ident \<Rightarrow> ident \<Rightarrow> datetime \<Rightarrow> identity_snapshot option option"
  pve_risk :: "ident \<Rightarrow> ident \<Rightarrow> ident \<Rightarrow> datetime \<Rightarrow> risk_snapshot option option"
  pve_backend :: "priv_request \<Rightarrow> identity_snapshot \<Rightarrow> datetime \<Rightarrow> backend_decision option"
  pve_verify_step_up :: "step_up_evidence \<Rightarrow> bool option"
  pve_verify_approval :: "(approval_evidence \<Rightarrow> bool option) option"

definition static_step_up_verifier :: "priv_hash \<Rightarrow> (ident \<times> string) set \<Rightarrow> step_up_evidence \<Rightarrow> bool option" where
  "static_step_up_verifier h accepted e = Some ((pvs_evidence_id e, pvh_step_up h e) \<in> accepted)"

definition static_priv_approval_verifier :: "priv_hash \<Rightarrow> (ident \<times> string) set \<Rightarrow> approval_evidence \<Rightarrow> bool option" where
  "static_priv_approval_verifier h accepted e = Some ((pvv_approval_id e, pvh_approval h e) \<in> accepted)"

record priv_runtime =
  pvm_store :: grant_store
  pvm_sink :: "(nat \<times> priv_audit list) option"

definition pv_find :: "priv_code \<Rightarrow> string \<Rightarrow> priv_finding" where
  "pv_find c msg = \<lparr>pvf_code = c, pvf_severity = CRITICAL, pvf_message = msg\<rparr>"

definition pv_find_high :: "priv_code \<Rightarrow> string \<Rightarrow> priv_finding" where
  "pv_find_high c msg = \<lparr>pvf_code = c, pvf_severity = HIGH, pvf_message = msg\<rparr>"

fun dedup_priv :: "priv_finding list \<Rightarrow> priv_finding list" where
  "dedup_priv [] = []"
| "dedup_priv (f # fs) = f # dedup_priv (filter (\<lambda>g. pvf_code g \<noteq> pvf_code f) fs)"

definition priv_publish :: "priv_audit \<Rightarrow> priv_runtime \<Rightarrow> priv_runtime" where
  "priv_publish e r = r\<lparr>pvm_sink := map_option (\<lambda>(n, evs). (n, deque_append n evs e)) (pvm_sink r)\<rparr>"

text \<open>The decision; \<open>None\<close> where \<open>findings[0]\<close> raises.\<close>

definition priv_decide ::
  "priv_hash \<Rightarrow> priv_request \<Rightarrow> priv_phase \<Rightarrow> priv_finding list \<Rightarrow> datetime \<Rightarrow> guard_action option \<Rightarrow> jit_grant option \<Rightarrow>
   priv_permit option \<Rightarrow> string option \<Rightarrow> priv_runtime \<Rightarrow> (priv_decision \<times> priv_runtime) option" where
  "priv_decide h q phase fs now action grant permit grant_ref r =
     (let action = (case action of Some a \<Rightarrow> a | None \<Rightarrow> if grant \<noteq> None \<or> permit \<noteq> None then ALLOW else BLOCK) in
      if action \<noteq> ALLOW \<and> fs = [] then None
      else (let e = \<lparr>pvt_occurred_at = now, pvt_phase = phase, pvt_action = action,
          pvt_code = (if action = ALLOW then Pv_allowed else pvf_code (hd fs)), pvt_request_ref = pvh_reference h (pvq_request_id q),
          pvt_actor_ref = pvh_reference h (pva_actor_id (pvq_actor q)), pvt_tenant_ref = pvh_reference h (pva_tenant_id (pvq_actor q)),
          pvt_target_ref = priv_target_ref h q, pvt_operation = pvq_operation q,
          pvt_grant_ref = (case grant_ref of Some x \<Rightarrow> Some x | None \<Rightarrow> map_option (\<lambda>g. pvh_reference h (pvg_grant_id g)) grant)\<rparr> in
        Some (\<lparr>pvd_action = action, pvd_findings = dedup_priv fs, pvd_grant = grant, pvd_permit = permit, pvd_audit = e\<rparr>, priv_publish e r)))"

section \<open>Checks\<close>

definition priv_policy_findings :: "priv_hash \<Rightarrow> priv_policy \<Rightarrow> priv_request \<Rightarrow> priv_rule option \<times> priv_finding list" where
  "priv_policy_findings h p q = (case priv_policy_for p (pvq_operation q) of
       None \<Rightarrow> (None, [pv_find Pv_operation_not_classified ''Privileged AI operation has no explicit policy classification''])
     | Some rule \<Rightarrow> (Some rule,
         (if pvq_policy_id q \<noteq> pvp_policy_id p \<or> pvq_policy_version q \<noteq> pvp_version p \<or> pvq_policy_digest q \<noteq> pvh_policy h p
            then [pv_find Pv_policy_mismatch ''Request is not bound to the current privileged access policy''] else []) @
         (if pvq_scopes q \<noteq> pvo_scopes rule
            then [pv_find Pv_scope_denied ''Requested scopes do not exactly match the classified operation''] else [])))"

definition step_up_bound :: "priv_hash \<Rightarrow> priv_policy \<Rightarrow> priv_request \<Rightarrow> step_up_evidence \<Rightarrow> bool" where
  "step_up_bound h p q e \<longleftrightarrow> pvs_request_digest e = priv_request_digest h q \<and> pvs_actor_id e = pva_actor_id (pvq_actor q) \<and>
     pvs_tenant_id e = pva_tenant_id (pvq_actor q) \<and> pvs_session_id e = pva_session_id (pvq_actor q) \<and>
     pvs_policy_digest e = pvh_policy h p \<and> pvs_nonce e = pvq_nonce q"

definition step_up_findings ::
  "priv_hash \<Rightarrow> priv_policy \<Rightarrow> priv_services \<Rightarrow> priv_request \<Rightarrow> priv_rule \<Rightarrow> step_up_evidence option \<Rightarrow> datetime \<Rightarrow> priv_finding list" where
  "step_up_findings h p v q rule evidence now = (case evidence of
       None \<Rightarrow> [pv_find_high Pv_step_up_required ''Fresh step-up authentication is required'']
     | Some e \<Rightarrow>
         (case pve_verify_step_up v e of
            None \<Rightarrow> [pv_find Pv_step_up_unavailable ''Step-up authentication service is unavailable'']
          | Some ok \<Rightarrow> if \<not> step_up_bound h p q e \<or> \<not> ok
              then [pv_find Pv_step_up_invalid ''Step-up evidence is not valid for this exact request''] else []) @
         (if now < pvs_authenticated_at e \<or> pvs_expires_at e \<le> now \<or> td_seconds (pvo_max_step_up_age rule) < now - pvs_authenticated_at e
            then [pv_find_high Pv_step_up_expired ''Step-up evidence is not fresh''] else []) @
         (if assurance_level (pvs_assurance e) < assurance_level (pvo_assurance rule)
            then [pv_find_high Pv_assurance_insufficient ''Authentication assurance is below the classified requirement''] else []))"

definition priv_approval_bound :: "priv_hash \<Rightarrow> priv_policy \<Rightarrow> priv_request \<Rightarrow> priv_rule \<Rightarrow> approval_evidence \<Rightarrow> datetime \<Rightarrow> bool" where
  "priv_approval_bound h p q rule e now \<longleftrightarrow> pvv_request_digest e = priv_request_digest h q \<and> pvv_actor_id e = pva_actor_id (pvq_actor q) \<and>
     pvv_tenant_id e = pva_tenant_id (pvq_actor q) \<and> pvv_approver_id e \<in> pvo_approvers rule \<and>
     pvv_policy_digest e = pvh_policy h p \<and> pvv_nonce e = pvq_nonce q \<and> pvv_approved_at e \<le> now \<and> now < pvv_expires_at e"

definition priv_approval_findings ::
  "priv_hash \<Rightarrow> priv_policy \<Rightarrow> priv_services \<Rightarrow> priv_request \<Rightarrow> priv_rule \<Rightarrow> approval_evidence option \<Rightarrow> datetime \<Rightarrow> priv_finding list" where
  "priv_approval_findings h p v q rule evidence now =
     (if \<not> pvo_needs_approval rule then
        (if evidence \<noteq> None
         then [pv_find_high Pv_approval_invalid ''Approval was supplied for an operation that does not require it''] else [])
      else (case evidence of
          None \<Rightarrow> [pv_find_high Pv_approval_required ''Independent approval is required'']
        | Some e \<Rightarrow>
            (if pvv_approver_id e = pva_actor_id (pvq_actor q)
               then [pv_find Pv_approver_not_independent ''Actor cannot approve their own privileged action''] else []) @
            (case (case pve_verify_approval v of None \<Rightarrow> None | Some verify \<Rightarrow> verify e) of
               None \<Rightarrow> [pv_find Pv_approval_unavailable ''Independent approval service is unavailable'']
             | Some ok \<Rightarrow> if \<not> priv_approval_bound h p q rule e now \<or> \<not> ok
                 then [pv_find Pv_approval_invalid ''Approval is not valid for this exact request''] else [])))"

definition identity_findings :: "priv_request \<Rightarrow> priv_rule \<Rightarrow> datetime \<Rightarrow> identity_snapshot \<Rightarrow> priv_finding list" where
  "identity_findings q rule now i = (let a = pvq_actor q in
     (if (pvi_actor_id i, pvi_tenant_id i) \<noteq> (pva_actor_id a, pva_tenant_id a)
        then [pv_find Pv_actor_context_mismatch ''Identity response does not match the requested actor context''] else []) @
     (if pvi_session_id i \<noteq> pva_session_id a
        then [pv_find Pv_session_changed ''Identity response belongs to a different session''] else []) @
     (if \<not> pvi_active i then [pv_find Pv_identity_inactive ''Identity is inactive''] else []) @
     (if now < pvi_started_at i \<or> pvi_expires_at i \<le> now
        then [pv_find_high Pv_session_expired ''Privileged session is outside its usable lifetime''] else []) @
     (if td_seconds (pvo_max_session rule) < pvi_expires_at i - pvi_started_at i
        then [pv_find_high Pv_session_duration_exceeded ''Session duration exceeds the classified maximum''] else []) @
     (if pvi_roles i \<inter> pvo_roles rule = {}
        then [pv_find Pv_role_denied ''Current roles are not eligible for this privileged operation''] else []) @
     (if pva_identity_version a \<noteq> pvi_identity_version i
        then [pv_find Pv_identity_changed ''Request identity version is stale''] else []) @
     (if pva_role_version a \<noteq> pvi_role_version i then [pv_find Pv_role_changed ''Request role version is stale''] else []))"

definition risk_findings :: "priv_request \<Rightarrow> priv_rule \<Rightarrow> datetime \<Rightarrow> risk_snapshot \<Rightarrow> priv_finding list" where
  "risk_findings q rule now k = (let a = pvq_actor q in
     (if (pvr_actor_id k, pvr_tenant_id k, pvr_session_id k) \<noteq> (pva_actor_id a, pva_tenant_id a, pva_session_id a) \<or>
         now < pvr_assessed_at k \<or> pvr_expires_at k \<le> now \<or> pvr_blocked k \<or> pvo_max_risk rule < pvr_score k
        then [pv_find Pv_risk_denied ''Current risk state does not permit privileged access''] else []) @
     (if pva_risk_version a \<noteq> pvr_risk_version k then [pv_find Pv_risk_changed ''Request risk version is stale''] else []))"

record authority =
  pvw_identity :: "identity_snapshot option"
  pvw_risk :: "risk_snapshot option"
  pvw_backend :: "backend_decision option"
  pvw_findings :: "priv_finding list"

definition current_authority ::
  "priv_hash \<Rightarrow> priv_services \<Rightarrow> priv_request \<Rightarrow> priv_rule \<Rightarrow> datetime \<Rightarrow> authority" where
  "current_authority h v q rule now = (let a = pvq_actor q in
     case pve_identity v (pva_actor_id a) (pva_tenant_id a) (pva_session_id a) now of
       None \<Rightarrow> \<lparr>pvw_identity = None, pvw_risk = None, pvw_backend = None,
         pvw_findings = [pv_find Pv_identity_unavailable ''Identity and role service is unavailable'']\<rparr>
     | Some None \<Rightarrow> \<lparr>pvw_identity = None, pvw_risk = None, pvw_backend = None,
         pvw_findings = [pv_find Pv_identity_inactive ''Identity or session is not active'']\<rparr>
     | Some (Some i) \<Rightarrow>
         (let fs = identity_findings q rule now i in
          case pve_risk v (pva_actor_id a) (pva_tenant_id a) (pva_session_id a) now of
            None \<Rightarrow> \<lparr>pvw_identity = Some i, pvw_risk = None, pvw_backend = None,
              pvw_findings = fs @ [pv_find Pv_risk_unavailable ''Risk service is unavailable'']\<rparr>
          | Some None \<Rightarrow> \<lparr>pvw_identity = Some i, pvw_risk = None, pvw_backend = None,
              pvw_findings = fs @ [pv_find Pv_risk_denied ''Current risk state is unavailable or denied'']\<rparr>
          | Some (Some k) \<Rightarrow>
              (let fs = fs @ risk_findings q rule now k in
               case pve_backend v q i now of
                 None \<Rightarrow> \<lparr>pvw_identity = Some i, pvw_risk = Some k, pvw_backend = None,
                   pvw_findings = fs @ [pv_find Pv_authorization_unavailable ''Authoritative backend authorization is unavailable'']\<rparr>
               | Some b \<Rightarrow> \<lparr>pvw_identity = Some i, pvw_risk = Some k, pvw_backend = Some b, pvw_findings = fs @
                   (if \<not> pvb_allowed b \<or> pvb_request_digest b \<noteq> priv_request_digest h q \<or> pvb_expires_at b \<le> now
                      then [pv_find Pv_backend_denied ''Authoritative backend denied the exact privileged action''] else [])\<rparr>)))"

definition grant_binding_findings :: "priv_hash \<Rightarrow> priv_request \<Rightarrow> jit_grant \<Rightarrow> datetime \<Rightarrow> priv_finding list" where
  "grant_binding_findings h q g now =
     (if \<not> grant_integrity h g then [pv_find Pv_grant_invalid ''JIT grant integrity is invalid'']
      else if now < pvg_issued_at g \<or> pvg_expires_at g \<le> now
        then [pv_find_high Pv_grant_expired ''JIT grant is outside its usable lifetime'']
      else if pvg_request_digest g \<noteq> priv_request_digest h q \<or> pvg_actor_ref g \<noteq> pvh_reference h (pva_actor_id (pvq_actor q)) \<or>
          pvg_tenant_ref g \<noteq> pvh_reference h (pva_tenant_id (pvq_actor q)) \<or>
          pvg_session_ref g \<noteq> pvh_reference h (pva_session_id (pvq_actor q)) \<or>
          pvg_operation g \<noteq> pvq_operation q \<or> pvg_target_ref g \<noteq> priv_target_ref h q \<or> pvg_scopes g \<noteq> pvq_scopes q
        then [pv_find Pv_grant_invalid ''JIT grant is not bound to this exact privileged action'']
      else [])"

definition grant_state_finding :: "grant_status \<Rightarrow> priv_finding option" where
  "grant_state_finding st = (case st of
       Gs_consumed \<Rightarrow> None
     | Gs_replayed \<Rightarrow> Some (pv_find Pv_grant_replayed ''JIT grant was already consumed'')
     | Gs_revoked \<Rightarrow> Some (pv_find Pv_grant_revoked ''JIT grant was revoked'')
     | Gs_expired \<Rightarrow> Some (pv_find_high Pv_grant_expired ''JIT grant expired before atomic consumption'')
     | Gs_missing \<Rightarrow> Some (pv_find Pv_grant_invalid ''JIT grant is not registered'')
     | _ \<Rightarrow> Some (pv_find Pv_grant_state_unavailable ''JIT grant state is unavailable''))"

section \<open>Issuing and executing\<close>

definition grant_expiry ::
  "priv_rule \<Rightarrow> datetime \<Rightarrow> identity_snapshot \<Rightarrow> risk_snapshot \<Rightarrow> backend_decision \<Rightarrow> step_up_evidence \<Rightarrow> approval_evidence option \<Rightarrow> datetime" where
  "grant_expiry rule now i k b e approval =
     foldl min (now + td_seconds (pvo_max_ttl rule))
       ([pvi_expires_at i, pvr_expires_at k, pvb_expires_at b, pvs_expires_at e] @
        (case approval of None \<Rightarrow> [] | Some x \<Rightarrow> [pvv_expires_at x]))"

definition grant_id_of :: "priv_hash \<Rightarrow> priv_request \<Rightarrow> ident" where
  "grant_id_of h q = ''jit-'' @ take 32 (pvh_seed h (priv_request_digest h q) (pvq_nonce q))"

definition new_grant ::
  "priv_hash \<Rightarrow> priv_policy \<Rightarrow> priv_request \<Rightarrow> priv_rule \<Rightarrow> datetime \<Rightarrow> identity_snapshot \<Rightarrow> risk_snapshot \<Rightarrow> backend_decision \<Rightarrow>
   step_up_evidence \<Rightarrow> approval_evidence option \<Rightarrow> jit_grant option" where
  "new_grant h p q rule now i k b e approval = create_grant h
     \<lparr>pvg_grant_id = grant_id_of h q, pvg_request_digest = priv_request_digest h q, pvg_actor_ref = pvh_reference h (pva_actor_id (pvq_actor q)),
      pvg_tenant_ref = pvh_reference h (pva_tenant_id (pvq_actor q)), pvg_session_ref = pvh_reference h (pva_session_id (pvq_actor q)),
      pvg_operation = pvq_operation q, pvg_target_ref = priv_target_ref h q, pvg_scopes = pvq_scopes q, pvg_policy_digest = pvh_policy h p,
      pvg_identity_version = pvi_identity_version i, pvg_role_version = pvi_role_version i, pvg_risk_version = pvr_risk_version k,
      pvg_step_up_digest = pvh_step_up h e, pvg_approval_digest = map_option (pvh_approval h) approval,
      pvg_issued_at = now, pvg_expires_at = grant_expiry rule now i k b e approval, pvg_digest = []\<rparr>"

definition is_missing_code :: "priv_code \<Rightarrow> bool" where
  "is_missing_code c \<longleftrightarrow> c \<in> {Pv_step_up_required, Pv_approval_required}"

definition no_authority :: authority where
  "no_authority = \<lparr>pvw_identity = None, pvw_risk = None, pvw_backend = None, pvw_findings = []\<rparr>"

definition issue_grant ::
  "priv_hash \<Rightarrow> priv_policy \<Rightarrow> priv_services \<Rightarrow> priv_request \<Rightarrow> step_up_evidence option \<Rightarrow> approval_evidence option \<Rightarrow> datetime \<Rightarrow>
   priv_runtime \<Rightarrow> (priv_decision \<times> priv_runtime) option" where
  "issue_grant h p v q step_up approval now r =
     (case priv_policy_findings h p q of (rule, fs) \<Rightarrow>
        let fs = fs @ (case rule of None \<Rightarrow> [] | Some x \<Rightarrow> step_up_findings h p v q x step_up now @ priv_approval_findings h p v q x approval now) in
        if list_ex (\<lambda>f. is_missing_code (pvf_code f)) fs
        then priv_decide h q Ph_issue fs now (Some REQUIRE_APPROVAL) None None None r
        else
          (let w = (case rule of Some x \<Rightarrow> if fs = [] then current_authority h v q x now else no_authority | None \<Rightarrow> no_authority);
               fs = fs @ pvw_findings w in
           case (rule, step_up, pvw_identity w, pvw_risk w, pvw_backend w, fs) of
             (Some x, Some e, Some i, Some k, Some b, []) \<Rightarrow>
               (case new_grant h p q x now i k b e approval of
                  None \<Rightarrow> None
                | Some g \<Rightarrow>
                    (case register_grant g (pvm_store r) of (st, store) \<Rightarrow>
                       let r = r\<lparr>pvm_store := store\<rparr> in
                       if st = Gs_stored then priv_decide h q Ph_issue [] now None (Some g) None None r
                       else priv_decide h q Ph_issue
                         [pv_find (if st = Gs_replayed then Pv_grant_replayed else Pv_grant_state_unavailable)
                           ''JIT grant could not be registered atomically''] now None None None None r))
           | _ \<Rightarrow> priv_decide h q Ph_issue fs now None None None None r))"

definition require_grant ::
  "priv_hash \<Rightarrow> priv_policy \<Rightarrow> priv_services \<Rightarrow> priv_request \<Rightarrow> step_up_evidence option \<Rightarrow> approval_evidence option \<Rightarrow> datetime \<Rightarrow>
   priv_runtime \<Rightarrow> ((priv_decision + jit_grant) \<times> priv_runtime) option" where
  "require_grant h p v q step_up approval now r = map_option (\<lambda>(d, r').
     (case pvd_grant d of Some x \<Rightarrow> (if pvd_is_allowed d then Inr x else Inl d) | None \<Rightarrow> Inl d, r'))
     (issue_grant h p v q step_up approval now r)"

definition is_revoking_code :: "priv_code \<Rightarrow> bool" where
  "is_revoking_code c \<longleftrightarrow> c \<in> {Pv_identity_changed, Pv_role_changed, Pv_policy_changed, Pv_risk_changed, Pv_session_changed,
     Pv_identity_inactive, Pv_risk_denied}"

definition change_findings :: "priv_hash \<Rightarrow> priv_policy \<Rightarrow> jit_grant \<Rightarrow> authority \<Rightarrow> priv_finding list" where
  "change_findings h p g w =
     (case pvw_identity w of None \<Rightarrow> []
      | Some i \<Rightarrow> (if pvi_identity_version i \<noteq> pvg_identity_version g
            then [pv_find Pv_identity_changed ''Identity changed after JIT grant issuance''] else []) @
          (if pvi_role_version i \<noteq> pvg_role_version g then [pv_find Pv_role_changed ''Roles changed after JIT grant issuance''] else [])) @
     (case pvw_risk w of None \<Rightarrow> []
      | Some k \<Rightarrow> if pvr_risk_version k \<noteq> pvg_risk_version g
          then [pv_find Pv_risk_changed ''Risk state changed after JIT grant issuance''] else []) @
     (if pvg_policy_digest g \<noteq> pvh_policy h p
        then [pv_find Pv_policy_changed ''Privileged access policy changed after grant issuance''] else [])"

definition execution_authority ::
  "priv_hash \<Rightarrow> priv_policy \<Rightarrow> priv_services \<Rightarrow> priv_request \<Rightarrow> jit_grant \<Rightarrow> datetime \<Rightarrow> authority" where
  "execution_authority h p v q g now =
     (case priv_policy_findings h p q of (rule, fs) \<Rightarrow>
        let fs = fs @ grant_binding_findings h q g now;
            w = (case rule of Some x \<Rightarrow> if fs = [] then current_authority h v q x now else no_authority | None \<Rightarrow> no_authority) in
        w\<lparr>pvw_findings := fs @ pvw_findings w @ change_findings h p g w\<rparr>)"

definition authorize_execution ::
  "priv_hash \<Rightarrow> priv_policy \<Rightarrow> priv_services \<Rightarrow> priv_request \<Rightarrow> jit_grant \<Rightarrow> datetime \<Rightarrow> priv_runtime \<Rightarrow>
   (priv_decision \<times> priv_runtime) option" where
  "authorize_execution h p v q g now r =
     (let w = execution_authority h p v q g now; fs = pvw_findings w; ref = Some (pvh_reference h (pvg_grant_id g));
          r = (if list_ex (\<lambda>f. is_revoking_code (pvf_code f)) fs
            then r\<lparr>pvm_store := snd (revoke_grant (pvg_grant_id g) (pvm_store r))\<rparr> else r) in
      case (pvw_backend w, fs) of
        (Some b, []) \<Rightarrow>
          (case consume_grant (pvg_grant_id g) (pvg_digest g) now (pvm_store r) of (st, store) \<Rightarrow>
             let r = r\<lparr>pvm_store := store\<rparr> in
             case grant_state_finding st of
               Some f \<Rightarrow> priv_decide h q Ph_execute [f] now None None None ref r
             | None \<Rightarrow> priv_decide h q Ph_execute [] now None None (Some
                 \<lparr>pvx_authorization_id = pvh_permit h (priv_request_digest h q) (pvg_digest g) (pvb_revision b),
                  pvx_request_digest = priv_request_digest h q, pvx_grant_digest = pvg_digest g, pvx_actor_ref = pvg_actor_ref g,
                  pvx_tenant_ref = pvg_tenant_ref g, pvx_operation = pvq_operation q, pvx_target_ref = priv_target_ref h q,
                  pvx_scopes = pvq_scopes q, pvx_backend_revision = pvb_revision b,
                  pvx_expires_at = min (pvg_expires_at g) (pvb_expires_at b)\<rparr>) ref r)
      | _ \<Rightarrow> priv_decide h q Ph_execute fs now None None None ref r)"

definition require_execution ::
  "priv_hash \<Rightarrow> priv_policy \<Rightarrow> priv_services \<Rightarrow> priv_request \<Rightarrow> jit_grant \<Rightarrow> datetime \<Rightarrow> priv_runtime \<Rightarrow>
   ((priv_decision + priv_permit) \<times> priv_runtime) option" where
  "require_execution h p v q g now r = map_option (\<lambda>(d, r').
     (case pvd_permit d of Some x \<Rightarrow> (if pvd_is_allowed d then Inr x else Inl d) | None \<Rightarrow> Inl d, r'))
     (authorize_execution h p v q g now r)"

definition revoke_priv_session :: "priv_hash \<Rightarrow> ident \<Rightarrow> priv_runtime \<Rightarrow> nat \<times> priv_runtime" where
  "revoke_priv_session h session r = (case revoke_session_grants (pvh_reference h session) (pvm_store r) of
     (n, store) \<Rightarrow> (n, r\<lparr>pvm_store := store\<rparr>))"

end
