(* ===== verification/Privileged_Properties.thy ===== *)
theory Privileged_Properties
  imports Privileged_Access
begin

text \<open>
  The properties of just-in-time privileges: what an issued grant and an allowed execution rest on, single use along every
  history, permanence of session revocation, and that the manager always answers.
\<close>

section \<open>Decisions\<close>

lemma priv_decide_Some:
  assumes "priv_decide h q phase fs now action grant permit ref r = Some (d, r')"
  shows "pvd_action d = (case action of Some a \<Rightarrow> a | None \<Rightarrow> if grant \<noteq> None \<or> permit \<noteq> None then ALLOW else BLOCK)"
    "pvd_grant d = grant" "pvd_permit d = permit" "pvm_store r' = pvm_store r"
  using assms by (auto simp: priv_decide_def priv_publish_def Let_def split: if_splits)

lemma priv_decide_total: "fs \<noteq> [] \<or> grant \<noteq> None \<or> permit \<noteq> None \<Longrightarrow> priv_decide h q phase fs now None grant permit ref r \<noteq> None"
  by (auto simp: priv_decide_def Let_def)

lemma priv_decide_total_findings: "fs \<noteq> [] \<Longrightarrow> priv_decide h q phase fs now action grant permit ref r \<noteq> None"
  by (auto simp: priv_decide_def Let_def)

text \<open>The services agree that the actor, in its session, may do exactly what it asks.\<close>

definition authority_current :: "priv_hash \<Rightarrow> priv_services \<Rightarrow> priv_request \<Rightarrow> priv_rule \<Rightarrow> datetime \<Rightarrow> identity_snapshot \<Rightarrow> risk_snapshot \<Rightarrow>
   backend_decision \<Rightarrow> bool" where
  "authority_current h v q rule now i k b \<longleftrightarrow>
     pve_identity v (pva_actor_id (pvq_actor q)) (pva_tenant_id (pvq_actor q)) (pva_session_id (pvq_actor q)) now = Some (Some i) \<and>
     pvi_actor_id i = pva_actor_id (pvq_actor q) \<and> pvi_tenant_id i = pva_tenant_id (pvq_actor q) \<and>
     pvi_session_id i = pva_session_id (pvq_actor q) \<and> pvi_active i \<and> pvi_started_at i \<le> now \<and> now < pvi_expires_at i \<and>
     pvi_expires_at i - pvi_started_at i \<le> td_seconds (pvo_max_session rule) \<and> pvi_roles i \<inter> pvo_roles rule \<noteq> {} \<and>
     pvi_identity_version i = pva_identity_version (pvq_actor q) \<and> pvi_role_version i = pva_role_version (pvq_actor q) \<and>
     pve_risk v (pva_actor_id (pvq_actor q)) (pva_tenant_id (pvq_actor q)) (pva_session_id (pvq_actor q)) now = Some (Some k) \<and>
     \<not> pvr_blocked k \<and> pvr_score k \<le> pvo_max_risk rule \<and> now < pvr_expires_at k \<and> pvr_risk_version k = pva_risk_version (pvq_actor q) \<and>
     pve_backend v q i now = Some b \<and> pvb_allowed b \<and> pvb_request_digest b = priv_request_digest h q \<and> now < pvb_expires_at b"

lemma identity_findings_Nil:
  "identity_findings q rule now i = [] \<Longrightarrow> pvi_actor_id i = pva_actor_id (pvq_actor q) \<and> pvi_tenant_id i = pva_tenant_id (pvq_actor q) \<and>
     pvi_session_id i = pva_session_id (pvq_actor q) \<and> pvi_active i \<and> pvi_started_at i \<le> now \<and> now < pvi_expires_at i \<and>
     pvi_expires_at i - pvi_started_at i \<le> td_seconds (pvo_max_session rule) \<and> pvi_roles i \<inter> pvo_roles rule \<noteq> {} \<and>
     pvi_identity_version i = pva_identity_version (pvq_actor q) \<and> pvi_role_version i = pva_role_version (pvq_actor q)"
  unfolding identity_findings_def Let_def append_is_Nil_conv guard_Nil by (auto simp: not_le not_less)

lemma risk_findings_Nil:
  "risk_findings q rule now k = [] \<Longrightarrow> \<not> pvr_blocked k \<and> pvr_score k \<le> pvo_max_risk rule \<and> now < pvr_expires_at k \<and>
     pvr_risk_version k = pva_risk_version (pvq_actor q)"
  unfolding risk_findings_def Let_def append_is_Nil_conv guard_Nil by (auto simp: not_le not_less)

lemma current_authority_clean:
  assumes "pvw_findings (current_authority h v q rule now) = []"
  shows "\<exists>i k b. pvw_identity (current_authority h v q rule now) = Some i \<and> pvw_risk (current_authority h v q rule now) = Some k \<and>
    pvw_backend (current_authority h v q rule now) = Some b \<and> authority_current h v q rule now i k b"
proof -
  let ?a = "pvq_actor q"
  obtain i where i: "pve_identity v (pva_actor_id ?a) (pva_tenant_id ?a) (pva_session_id ?a) now = Some (Some i)"
    using assms by (auto simp: current_authority_def Let_def split: option.splits)
  obtain k where k: "pve_risk v (pva_actor_id ?a) (pva_tenant_id ?a) (pva_session_id ?a) now = Some (Some k)"
    using assms i by (auto simp: current_authority_def Let_def split: option.splits)
  obtain b where b: "pve_backend v q i now = Some b"
    using assms i k by (auto simp: current_authority_def Let_def split: option.splits)
  have fs: "identity_findings q rule now i = []" "risk_findings q rule now k = []" "pvb_allowed b"
    "pvb_request_digest b = priv_request_digest h q" "now < pvb_expires_at b"
    using assms i k b by (auto simp: current_authority_def Let_def split: if_splits)
  have "authority_current h v q rule now i k b"
    unfolding authority_current_def using i k b identity_findings_Nil [OF fs(1)] risk_findings_Nil [OF fs(2)] fs(3-5) by blast
  then show ?thesis using i k b by (simp add: current_authority_def Let_def)
qed

lemma current_authority_backend:
  "pvw_backend (current_authority h v q rule now) = None \<Longrightarrow> pvw_findings (current_authority h v q rule now) \<noteq> []"
  by (auto simp: current_authority_def Let_def split: option.splits)

lemma priv_policy_findings_Nil:
  "priv_policy_findings h p q = (Some x, []) \<Longrightarrow> priv_policy_for p (pvq_operation q) = Some x \<and> pvq_scopes q = pvo_scopes x \<and>
     pvq_policy_id q = pvp_policy_id p \<and> pvq_policy_version q = pvp_version p \<and> pvq_policy_digest q = pvh_policy h p"
  by (auto simp: priv_policy_findings_def split: option.splits)

section \<open>Issued grants\<close>

definition step_up_fresh :: "priv_hash \<Rightarrow> priv_policy \<Rightarrow> priv_services \<Rightarrow> priv_request \<Rightarrow> priv_rule \<Rightarrow> step_up_evidence \<Rightarrow> datetime \<Rightarrow> bool" where
  "step_up_fresh h p v q rule e now \<longleftrightarrow> pve_verify_step_up v e = Some True \<and>
     pvs_request_digest e = priv_request_digest h q \<and> pvs_actor_id e = pva_actor_id (pvq_actor q) \<and>
     pvs_tenant_id e = pva_tenant_id (pvq_actor q) \<and> pvs_session_id e = pva_session_id (pvq_actor q) \<and>
     pvs_policy_digest e = pvh_policy h p \<and> pvs_nonce e = pvq_nonce q \<and> pvs_authenticated_at e \<le> now \<and>
     now < pvs_expires_at e \<and> now - pvs_authenticated_at e \<le> td_seconds (pvo_max_step_up_age rule) \<and>
     assurance_level (pvo_assurance rule) \<le> assurance_level (pvs_assurance e)"

definition approved_independently ::
  "priv_hash \<Rightarrow> priv_policy \<Rightarrow> priv_services \<Rightarrow> priv_request \<Rightarrow> priv_rule \<Rightarrow> approval_evidence option \<Rightarrow> datetime \<Rightarrow> bool" where
  "approved_independently h p v q rule approval now \<longleftrightarrow> (if pvo_needs_approval rule
     then \<exists>e verify. approval = Some e \<and> pvv_approver_id e \<noteq> pva_actor_id (pvq_actor q) \<and> pvv_approver_id e \<in> pvo_approvers rule \<and>
       pvv_request_digest e = priv_request_digest h q \<and> pvv_actor_id e = pva_actor_id (pvq_actor q) \<and>
       pvv_tenant_id e = pva_tenant_id (pvq_actor q) \<and> pvv_policy_digest e = pvh_policy h p \<and> pvv_nonce e = pvq_nonce q \<and>
       pvv_approved_at e \<le> now \<and> now < pvv_expires_at e \<and>
       pve_verify_approval v = Some verify \<and> verify e = Some True
     else approval = None)"

lemma step_up_findings_Nil: "step_up_findings h p v q rule e now = [] \<Longrightarrow> \<exists>x. e = Some x \<and> step_up_fresh h p v q rule x now"
  by (auto simp: step_up_findings_def step_up_fresh_def step_up_bound_def split: option.splits if_splits)

lemma priv_approval_findings_Nil: "priv_approval_findings h p v q rule e now = [] \<Longrightarrow> approved_independently h p v q rule e now"
  by (auto simp: priv_approval_findings_def approved_independently_def priv_approval_bound_def split: option.splits if_splits)

definition grant_justified ::
  "priv_hash \<Rightarrow> priv_policy \<Rightarrow> priv_services \<Rightarrow> priv_request \<Rightarrow> step_up_evidence option \<Rightarrow> approval_evidence option \<Rightarrow> datetime \<Rightarrow> jit_grant \<Rightarrow> bool" where
  "grant_justified h p v q step_up approval now g \<longleftrightarrow> (\<exists>rule e i k b. priv_policy_for p (pvq_operation q) = Some rule \<and>
     pvq_scopes q = pvo_scopes rule \<and> step_up = Some e \<and> step_up_fresh h p v q rule e now \<and>
     approved_independently h p v q rule approval now \<and> authority_current h v q rule now i k b \<and>
     new_grant h p q rule now i k b e approval = Some g)"

lemma issue_grant_cases:
  assumes "issue_grant h p v q step_up approval now r = Some (d, r')"
  obtains (Issued) g where "grant_justified h p v q step_up approval now g" "register_grant g (pvm_store r) = (Gs_stored, pvm_store r')"
      "pvd_action d = ALLOW" "pvd_grant d = Some g"
  | (Refused) "pvd_action d \<noteq> ALLOW" "pvd_grant d = None" "pvm_store r' = pvm_store r"
proof -
  obtain rule fs0 where pf: "priv_policy_findings h p q = (rule, fs0)" by (cases "priv_policy_findings h p q")
  let ?fs = "fs0 @ (case rule of None \<Rightarrow> [] | Some x \<Rightarrow> step_up_findings h p v q x step_up now @ priv_approval_findings h p v q x approval now)"
  show thesis
  proof (cases "list_ex (\<lambda>f. is_missing_code (pvf_code f)) ?fs")
    case True
    then show thesis using assms pf by (intro Refused) (auto simp: issue_grant_def Let_def dest: priv_decide_Some)
  next
    case False
    let ?w = "case rule of Some x \<Rightarrow> if ?fs = [] then current_authority h v q x now else no_authority | None \<Rightarrow> no_authority"
    show thesis
    proof (cases "\<exists>x e i k b. rule = Some x \<and> step_up = Some e \<and> pvw_identity ?w = Some i \<and> pvw_risk ?w = Some k \<and> pvw_backend ?w = Some b \<and>
        ?fs @ pvw_findings ?w = []")
      case True
      then obtain x e i k b where c: "rule = Some x" "step_up = Some e" "pvw_identity ?w = Some i" "pvw_risk ?w = Some k" "pvw_backend ?w = Some b"
          "?fs = []" "pvw_findings ?w = []" by auto
      have w: "?w = current_authority h v q x now" using c(1,6) by simp
      have pf': "priv_policy_findings h p q = (Some x, [])" using pf c(1,6) by simp
      obtain g where g: "new_grant h p q x now i k b e approval = Some g"
        using assms pf False c by (cases "new_grant h p q x now i k b e approval") (auto simp: issue_grant_def Let_def)
      obtain st store where reg: "register_grant g (pvm_store r) = (st, store)" by (cases "register_grant g (pvm_store r)")
      have "authority_current h v q x now i k b" using current_authority_clean [of h v q x now] c(3-5,7) unfolding w by auto
      moreover have "step_up_fresh h p v q x e now" using step_up_findings_Nil [of h p v q x step_up now] c(1,2,6) by auto
      moreover have "approved_independently h p v q x approval now" using priv_approval_findings_Nil [of h p v q x approval now] c(1,6) by auto
      moreover have "priv_policy_for p (pvq_operation q) = Some x \<and> pvq_scopes q = pvo_scopes x"
        using priv_policy_findings_Nil [OF pf'] by blast
      ultimately have just: "grant_justified h p v q step_up approval now g" using c(2) g unfolding grant_justified_def by blast
      show thesis
      proof (cases "st = Gs_stored")
        case True
        have dec: "priv_decide h q Ph_issue [] now None (Some g) None None (r\<lparr>pvm_store := store\<rparr>) = Some (d, r')"
          using assms pf False c g reg True by (simp add: issue_grant_def Let_def)
        show thesis using priv_decide_Some [OF dec] reg True by (intro Issued [OF just]) auto
      next
        case stored: False
        then have store: "store = pvm_store r" using reg by (auto simp: register_grant_def split: option.splits if_splits)
        have dec: "\<exists>f. priv_decide h q Ph_issue [f] now None None None None (r\<lparr>pvm_store := store\<rparr>) = Some (d, r')"
          using assms pf False c g reg stored by (auto simp: issue_grant_def Let_def)
        then obtain f where dec: "priv_decide h q Ph_issue [f] now None None None None (r\<lparr>pvm_store := store\<rparr>) = Some (d, r')" ..
        show thesis using priv_decide_Some [OF dec] store by (intro Refused) auto
      qed
    next
      case no: False
      have "priv_decide h q Ph_issue (?fs @ pvw_findings ?w) now None None None None r = Some (d, r')"
        using assms pf False no by (auto simp: issue_grant_def Let_def split: option.splits list.splits)
      then show thesis using priv_decide_Some [of h q Ph_issue "?fs @ pvw_findings ?w" now None None None None r d r'] by (intro Refused) auto
    qed
  qed
qed

section \<open>Executions\<close>

definition execution_justified ::
  "priv_hash \<Rightarrow> priv_policy \<Rightarrow> priv_services \<Rightarrow> priv_request \<Rightarrow> jit_grant \<Rightarrow> datetime \<Rightarrow> bool" where
  "execution_justified h p v q g now \<longleftrightarrow> (\<exists>rule i k b. priv_policy_for p (pvq_operation q) = Some rule \<and>
     pvq_scopes q = pvo_scopes rule \<and> pvq_policy_digest q = pvh_policy h p \<and>
     authority_current h v q rule now i k b \<and> grant_integrity h g \<and> pvg_issued_at g \<le> now \<and> now < pvg_expires_at g \<and>
     pvg_request_digest g = priv_request_digest h q \<and> pvg_operation g = pvq_operation q \<and> pvg_target_ref g = priv_target_ref h q \<and>
     pvg_scopes g = pvq_scopes q \<and> pvg_policy_digest g = pvh_policy h p \<and> pvg_session_ref g = pvh_reference h (pva_session_id (pvq_actor q)) \<and>
     pvg_identity_version g = pvi_identity_version i \<and> pvg_role_version g = pvi_role_version i \<and> pvg_risk_version g = pvr_risk_version k)"

lemma grant_binding_findings_Nil:
  "grant_binding_findings h q g now = [] \<Longrightarrow> grant_integrity h g \<and> pvg_issued_at g \<le> now \<and> now < pvg_expires_at g \<and>
     pvg_request_digest g = priv_request_digest h q \<and> pvg_operation g = pvq_operation q \<and> pvg_target_ref g = priv_target_ref h q \<and>
     pvg_scopes g = pvq_scopes q \<and> pvg_session_ref g = pvh_reference h (pva_session_id (pvq_actor q))"
  by (auto simp: grant_binding_findings_def not_le not_less split: if_splits)

lemma execution_authority_clean:
  assumes "pvw_findings (execution_authority h p v q g now) = []"
  shows "execution_justified h p v q g now \<and> (\<exists>b. pvw_backend (execution_authority h p v q g now) = Some b)"
proof -
  obtain rule fs0 where pf: "priv_policy_findings h p q = (rule, fs0)" by (cases "priv_policy_findings h p q")
  have nil: "fs0 = []" "grant_binding_findings h q g now = []" using assms by (simp_all add: execution_authority_def pf Let_def)
  then obtain x where x: "rule = Some x" using pf by (cases rule) (auto simp: priv_policy_findings_def split: option.splits)
  let ?w = "current_authority h v q x now"
  have w: "execution_authority h p v q g now = ?w\<lparr>pvw_findings := pvw_findings ?w @ change_findings h p g ?w\<rparr>"
    by (simp add: execution_authority_def pf nil x Let_def)
  have wf: "pvw_findings ?w = []" "change_findings h p g ?w = []" using assms unfolding w by simp_all
  obtain i k b where c: "pvw_identity ?w = Some i" "pvw_risk ?w = Some k" "pvw_backend ?w = Some b" "authority_current h v q x now i k b"
    using current_authority_clean [OF wf(1)] by blast
  have ch: "pvi_identity_version i = pvg_identity_version g" "pvi_role_version i = pvg_role_version g" "pvr_risk_version k = pvg_risk_version g"
    "pvg_policy_digest g = pvh_policy h p"
    using wf(2) by (simp_all add: change_findings_def c)
  have "execution_justified h p v q g now"
    unfolding execution_justified_def
    using priv_policy_findings_Nil [of h p q x] pf nil(1) x c(4) grant_binding_findings_Nil [OF nil(2)] ch
    by (intro exI [of _ x] exI [of _ i] exI [of _ k] exI [of _ b]) auto
  then show ?thesis using c(3) by (simp add: w)
qed

lemma execution_authority_backend:
  assumes "pvw_backend (execution_authority h p v q g now) = None"
  shows "pvw_findings (execution_authority h p v q g now) \<noteq> []"
proof
  assume "pvw_findings (execution_authority h p v q g now) = []"
  with execution_authority_clean [OF this] assms show False by simp
qed

text \<open>The store as execution finds it: with the grant revoked when the live state has changed.\<close>

definition live_store :: "priv_hash \<Rightarrow> priv_policy \<Rightarrow> priv_services \<Rightarrow> priv_request \<Rightarrow> jit_grant \<Rightarrow> datetime \<Rightarrow> grant_store \<Rightarrow> grant_store" where
  "live_store h p v q g now s = (if list_ex (\<lambda>f. is_revoking_code (pvf_code f)) (pvw_findings (execution_authority h p v q g now))
     then snd (revoke_grant (pvg_grant_id g) s) else s)"

lemma authorize_execution_cases:
  assumes "authorize_execution h p v q g now r = Some (d, r')"
  obtains (Executed) "execution_justified h p v q g now" "consume_grant (pvg_grant_id g) (pvg_digest g) now (pvm_store r) = (Gs_consumed, pvm_store r')"
      "pvd_action d = ALLOW"
  | (Unconsumed) st where "consume_grant (pvg_grant_id g) (pvg_digest g) now (pvm_store r) = (st, pvm_store r')" "st \<noteq> Gs_consumed"
      "pvd_action d = BLOCK"
  | (Stopped) "pvd_action d = BLOCK" "pvm_store r' = live_store h p v q g now (pvm_store r)"
proof (cases "pvw_findings (execution_authority h p v q g now) = []")
  case True
  note clean = execution_authority_clean [OF True]
  then obtain b where b: "pvw_backend (execution_authority h p v q g now) = Some b" by blast
  obtain st store where c: "consume_grant (pvg_grant_id g) (pvg_digest g) now (pvm_store r) = (st, store)"
    by (cases "consume_grant (pvg_grant_id g) (pvg_digest g) now (pvm_store r)")
  show thesis
  proof (cases "grant_state_finding st")
    case None
    then have st: "st = Gs_consumed" by (cases st) (simp_all add: grant_state_finding_def)
    have "\<exists>permit. priv_decide h q Ph_execute [] now None None (Some permit) (Some (pvh_reference h (pvg_grant_id g))) (r\<lparr>pvm_store := store\<rparr>) = Some (d, r')"
      using assms True b c None by (auto simp: authorize_execution_def Let_def)
    then obtain permit where dec: "priv_decide h q Ph_execute [] now None None (Some permit) (Some (pvh_reference h (pvg_grant_id g))) (r\<lparr>pvm_store := store\<rparr>) = Some (d, r')" ..
    show thesis using priv_decide_Some [OF dec] clean c st by (intro Executed) auto
  next
    case (Some f)
    have dec: "priv_decide h q Ph_execute [f] now None None None (Some (pvh_reference h (pvg_grant_id g))) (r\<lparr>pvm_store := store\<rparr>) = Some (d, r')"
      using assms True b c Some by (simp add: authorize_execution_def Let_def)
    have "st \<noteq> Gs_consumed" using Some by (auto simp: grant_state_finding_def)
    then show thesis using priv_decide_Some [OF dec] c by (intro Unconsumed [of st]) auto
  qed
next
  case False
  have dec: "priv_decide h q Ph_execute (pvw_findings (execution_authority h p v q g now)) now None None None (Some (pvh_reference h (pvg_grant_id g)))
      (r\<lparr>pvm_store := live_store h p v q g now (pvm_store r)\<rparr>) = Some (d, r')"
    using assms False by (cases "pvw_findings (execution_authority h p v q g now)")
      (auto simp: authorize_execution_def live_store_def Let_def split: option.splits if_splits)
  show thesis using priv_decide_Some [OF dec] by (intro Stopped) auto
qed

section \<open>Histories\<close>

text \<open>
  A grant as it was issued: the services at that time, the request, the evidence, the time and the grant. \<open>priv_history h p G E r\<close>: the
  manager, started on an empty store, has issued the grants \<open>G\<close>, executed the requests with the grants \<open>E\<close>, latest first, and is in state \<open>r\<close>.
\<close>

type_synonym issued_grant = "priv_services \<times> priv_request \<times> step_up_evidence option \<times> approval_evidence option \<times> datetime \<times> jit_grant"
type_synonym execution = "priv_services \<times> priv_request \<times> jit_grant \<times> datetime"

inductive priv_history :: "priv_hash \<Rightarrow> priv_policy \<Rightarrow> issued_grant list \<Rightarrow> execution list \<Rightarrow> priv_runtime \<Rightarrow> bool" for h p where
  Priv_init: "new_grant_store n = Some s \<Longrightarrow> priv_history h p [] [] \<lparr>pvm_store = s, pvm_sink = sink\<rparr>"
| Priv_issue: "priv_history h p G E r \<Longrightarrow> issue_grant h p v q su ap now r = Some (d, r') \<Longrightarrow>
    priv_history h p (case pvd_grant d of Some g \<Rightarrow> (v, q, su, ap, now, g) # G | None \<Rightarrow> G) E r'"
| Priv_execute: "priv_history h p G E r \<Longrightarrow> authorize_execution h p v q g now r = Some (d, r') \<Longrightarrow>
    priv_history h p G (if pvd_action d = ALLOW then (v, q, g, now) # E else E) r'"
| Priv_revoke: "priv_history h p G E r \<Longrightarrow> revoke_priv_session h session r = (n, r') \<Longrightarrow> priv_history h p G E r'"

definition execution_grant :: "execution \<Rightarrow> jit_grant" where
  "execution_grant x = (case x of (v, q, g, now) \<Rightarrow> g)"

definition spent_grant :: "ident \<Rightarrow> grant_store \<Rightarrow> bool" where
  "spent_grant a s \<longleftrightarrow> (\<exists>e. dict_get (pgs_grants s) a = Some e \<and> pge_status e \<in> {Gs_consumed, Gs_revoked})"

definition store_backed :: "priv_hash \<Rightarrow> priv_policy \<Rightarrow> issued_grant list \<Rightarrow> grant_store \<Rightarrow> bool" where
  "store_backed h p G s \<longleftrightarrow> (\<forall>a e. dict_get (pgs_grants s) a = Some e \<longrightarrow> (\<exists>(v, q, su, ap, t, g) \<in> set G.
     pvg_grant_id g = a \<and> pvg_digest g = pge_digest e \<and> pvg_session_ref g = pge_session_ref e \<and> grant_justified h p v q su ap t g))"

text \<open>How each store operation changes one entry.\<close>

lemma register_grant_get:
  "register_grant g s = (st, s') \<Longrightarrow> dict_get (pgs_grants s') a = (if st = Gs_stored \<and> a = pvg_grant_id g
     then Some \<lparr>pge_digest = pvg_digest g, pge_session_ref = pvg_session_ref g, pge_expires_at = pvg_expires_at g, pge_status = Gs_stored\<rparr>
     else dict_get (pgs_grants s) a) \<and> (st = Gs_stored \<longrightarrow> dict_get (pgs_grants s) (pvg_grant_id g) = None)"
  by (auto simp: register_grant_def split: option.splits if_splits)

definition entry_kept :: "grant_entry \<Rightarrow> grant_entry \<Rightarrow> bool" where
  "entry_kept e e' \<longleftrightarrow> pge_digest e' = pge_digest e \<and> pge_session_ref e' = pge_session_ref e \<and> pge_expires_at e' = pge_expires_at e \<and>
     (pge_status e = Gs_revoked \<longrightarrow> pge_status e' = Gs_revoked) \<and>
     (pge_status e = Gs_consumed \<longrightarrow> pge_status e' \<in> {Gs_consumed, Gs_revoked})"

definition entries_kept :: "grant_store \<Rightarrow> grant_store \<Rightarrow> bool" where
  "entries_kept s s' \<longleftrightarrow> (\<forall>a. case dict_get (pgs_grants s) a of None \<Rightarrow> dict_get (pgs_grants s') a = None
     | Some e \<Rightarrow> (\<exists>e'. dict_get (pgs_grants s') a = Some e' \<and> entry_kept e e'))"

lemma entry_kept_refl [simp]: "entry_kept e e"
  by (simp add: entry_kept_def)

lemma entries_kept_refl [simp]: "entries_kept s s"
  by (simp add: entries_kept_def split: option.split)

lemma entries_kept_back: "entries_kept s s' \<Longrightarrow> dict_get (pgs_grants s') a = Some e' \<Longrightarrow> \<exists>e. dict_get (pgs_grants s) a = Some e \<and> entry_kept e e'"
  unfolding entries_kept_def by (drule spec [of _ a]) (auto split: option.splits)

lemma entries_kept_get: "entries_kept s s' \<Longrightarrow> dict_get (pgs_grants s) a = Some e \<Longrightarrow> \<exists>e'. dict_get (pgs_grants s') a = Some e' \<and> entry_kept e e'"
  unfolding entries_kept_def by (drule spec [of _ a]) auto

lemma set_status_kept:
  "dict_get (pgs_grants s) a = Some e \<Longrightarrow> entry_kept e (e\<lparr>pge_status := st\<rparr>) \<Longrightarrow> entries_kept s (set_status a e st s)"
  by (auto simp: entries_kept_def set_status_def split: option.split)

lemma consume_grant_kept: "consume_grant a digest now s = (st, s') \<Longrightarrow> entries_kept s s'"
  by (auto simp: consume_grant_def split: option.splits if_splits intro!: set_status_kept) (auto simp: entry_kept_def)

lemma revoke_grant_kept: "entries_kept s (snd (revoke_grant a s))"
  by (auto simp: revoke_grant_def entry_kept_def split: option.splits intro!: set_status_kept)

lemma revoke_session_get:
  "dict_get (pgs_grants (snd (revoke_session_grants ref s))) a =
     map_option (\<lambda>e. if session_stored ref e then e\<lparr>pge_status := Gs_revoked\<rparr> else e) (dict_get (pgs_grants s) a)"
proof -
  have "dict_get (map (\<lambda>(a, e). (a, F e)) m) a = map_option F (dict_get m a)" for F and m :: "(ident, grant_entry) dict"
    by (induction m) auto
  then show ?thesis by (simp add: revoke_session_grants_def)
qed

lemma revoke_session_kept: "entries_kept s (snd (revoke_session_grants ref s))"
  by (auto simp: entries_kept_def revoke_session_get session_stored_def entry_kept_def split: option.split)

lemma live_store_kept: "entries_kept s (live_store h p v q g now s)"
  by (simp add: live_store_def revoke_grant_kept)

lemma store_backed_kept:
  assumes "store_backed h p G s" and "entries_kept s s'"
  shows "store_backed h p G s'"
  unfolding store_backed_def
proof (intro allI impI)
  fix a e' assume "dict_get (pgs_grants s') a = Some e'"
  then obtain e where e: "dict_get (pgs_grants s) a = Some e" "entry_kept e e'" using entries_kept_back [OF assms(2)] by blast
  show "\<exists>(v, q, su, ap, t, g)\<in>set G. pvg_grant_id g = a \<and> pvg_digest g = pge_digest e' \<and> pvg_session_ref g = pge_session_ref e' \<and>
      grant_justified h p v q su ap t g"
    using assms(1) [unfolded store_backed_def, rule_format, OF e(1)] e(2) by (simp add: entry_kept_def)
qed

lemma store_backed_more: "store_backed h p G s \<Longrightarrow> store_backed h p (x # G) s"
  unfolding store_backed_def by (meson list.set_intros(2))

lemma spent_kept:
  assumes "spent_grant a s" and "entries_kept s s'"
  shows "spent_grant a s'"
proof -
  obtain e where e: "dict_get (pgs_grants s) a = Some e" "pge_status e \<in> {Gs_consumed, Gs_revoked}" using assms(1) by (auto simp: spent_grant_def)
  obtain e' where "dict_get (pgs_grants s') a = Some e'" "entry_kept e e'" using entries_kept_get [OF assms(2) e(1)] by blast
  then show ?thesis using e(2) by (auto simp: spent_grant_def entry_kept_def)
qed

lemma authorize_execution_kept:
  assumes "authorize_execution h p v q g now r = Some (d, r')"
  shows "entries_kept (pvm_store r) (pvm_store r')"
  using assms by (cases rule: authorize_execution_cases) (auto intro: consume_grant_kept simp: live_store_kept)

section \<open>Properties\<close>

lemma priv_history_inv:
  assumes "priv_history h p G E r"
  shows "store_backed h p G (pvm_store r) \<and> distinct (map (\<lambda>x. pvg_grant_id (execution_grant x)) E) \<and>
    (\<forall>x\<in>set E. spent_grant (pvg_grant_id (execution_grant x)) (pvm_store r)) \<and>
    (\<forall>(v, q, g, now)\<in>set E. execution_justified h p v q g now \<and> (\<exists>(v0, q0, su, ap, t, g0)\<in>set G.
       pvg_grant_id g0 = pvg_grant_id g \<and> pvg_digest g0 = pvg_digest g \<and> grant_justified h p v0 q0 su ap t g0))"
  using assms
proof (induction rule: priv_history.induct)
  case (Priv_init n s sink)
  then show ?case by (auto simp: store_backed_def new_grant_store_def split: if_splits)
next
  case (Priv_issue G E r v q su ap now d r')
  from Priv_issue(2) show ?case
  proof (cases rule: issue_grant_cases)
    case (Issued g)
    note get = register_grant_get [OF Issued(2)]
    have "store_backed h p ((v, q, su, ap, now, g) # G) (pvm_store r')"
      unfolding store_backed_def
    proof (intro allI impI)
      fix a e assume e: "dict_get (pgs_grants (pvm_store r')) a = Some e"
      show "\<exists>(v, q, su, ap, t, g)\<in>set ((v, q, su, ap, now, g) # G). pvg_grant_id g = a \<and> pvg_digest g = pge_digest e \<and>
          pvg_session_ref g = pge_session_ref e \<and> grant_justified h p v q su ap t g"
      proof (cases "a = pvg_grant_id g")
        case True
        then show ?thesis using e get [of a] Issued(1) by auto
      next
        case False
        then have "dict_get (pgs_grants (pvm_store r)) a = Some e" using e get [of a] by simp
        then show ?thesis using Priv_issue.IH unfolding store_backed_def by fastforce
      qed
    qed
    moreover have "spent_grant b (pvm_store r')" if "spent_grant b (pvm_store r)" for b
      using that get [of b] by (auto simp: spent_grant_def)
    ultimately show ?thesis using Priv_issue.IH Issued(4) by fastforce
  next
    case Refused
    then show ?thesis using Priv_issue.IH by simp
  qed
next
  case (Priv_execute G E r v q g now d r')
  have kept: "entries_kept (pvm_store r) (pvm_store r')" by (rule authorize_execution_kept [OF Priv_execute(2)])
  have spent: "\<forall>x\<in>set E. spent_grant (pvg_grant_id (execution_grant x)) (pvm_store r')"
    using Priv_execute.IH spent_kept [OF _ kept] by blast
  have backed: "store_backed h p G (pvm_store r')" using Priv_execute.IH store_backed_kept [OF _ kept] by blast
  from Priv_execute(2) show ?case
  proof (cases rule: authorize_execution_cases)
    case Executed
    obtain e where e: "dict_get (pgs_grants (pvm_store r)) (pvg_grant_id g) = Some e" "pge_digest e = pvg_digest g"
        "pge_status e \<notin> {Gs_consumed, Gs_revoked}"
      using Executed(2) by (auto simp: consume_grant_def split: option.splits if_splits)
    then have fresh: "\<not> spent_grant (pvg_grant_id g) (pvm_store r)" by (simp add: spent_grant_def)
    have "pvm_store r' = set_status (pvg_grant_id g) e Gs_consumed (pvm_store r)"
      using Executed(2) e by (auto simp: consume_grant_def split: if_splits)
    then have now_spent: "spent_grant (pvg_grant_id g) (pvm_store r')" by (simp add: spent_grant_def set_status_def)
    have "\<exists>(v0, q0, su, ap, t, g0)\<in>set G. pvg_grant_id g0 = pvg_grant_id g \<and> pvg_digest g0 = pvg_digest g \<and> grant_justified h p v0 q0 su ap t g0"
      using Priv_execute.IH e unfolding store_backed_def by fastforce
    then show ?thesis using Priv_execute.IH Executed spent backed fresh now_spent by (auto simp: execution_grant_def)
  qed (use Priv_execute.IH spent backed in auto)
next
  case (Priv_revoke G E r session n r')
  have "entries_kept (pvm_store r) (pvm_store r')"
    using Priv_revoke(2) revoke_session_kept [of "pvm_store r" "pvh_reference h session"]
    by (auto simp: revoke_priv_session_def split: prod.splits dest: arg_cong [where f = snd])
  then show ?case using Priv_revoke.IH spent_kept store_backed_kept by blast
qed

text \<open>
  C22: no standing privilege. Along every history of issuing, executing and revoking, every allowed execution had, at its time, the
  active identity, an eligible role, an acceptable risk and the backend's consent for exactly this request, under the policy's
  exact scopes; and its grant carries the identifier and the digest of a grant that the manager had issued on fresh, verified step-up
  evidence of sufficient assurance and, where the policy asks for it, on the verified approval of someone other than the actor.
\<close>

theorem privileged_execution_justified:
  assumes "priv_history h p G E r" and "(v, q, g, now) \<in> set E"
  shows "execution_justified h p v q g now \<and> (\<exists>(v0, q0, su, ap, t, g0)\<in>set G.
    pvg_grant_id g0 = pvg_grant_id g \<and> pvg_digest g0 = pvg_digest g \<and> grant_justified h p v0 q0 su ap t g0)"
  using priv_history_inv [OF assms(1)] assms(2) by blast

text \<open>A just-in-time grant is executed at most once, whatever requests, grants and revocations come between.\<close>

theorem jit_grant_single_use:
  assumes "priv_history h p G E r"
  shows "distinct (map (\<lambda>x. pvg_grant_id (execution_grant x)) E)"
  using priv_history_inv [OF assms] by blast

section \<open>Revocation\<close>

text \<open>The operations that follow, as a step relation on the runtime.\<close>

inductive priv_steps :: "priv_hash \<Rightarrow> priv_policy \<Rightarrow> priv_runtime \<Rightarrow> priv_runtime \<Rightarrow> bool" for h p where
  Steps_refl: "priv_steps h p r r"
| Steps_issue: "priv_steps h p r s \<Longrightarrow> issue_grant h p v q su ap now s = Some (d, t) \<Longrightarrow> priv_steps h p r t"
| Steps_execute: "priv_steps h p r s \<Longrightarrow> authorize_execution h p v q g now s = Some (d, t) \<Longrightarrow> priv_steps h p r t"
| Steps_revoke: "priv_steps h p r s \<Longrightarrow> revoke_priv_session h session s = (n, t) \<Longrightarrow> priv_steps h p r t"

definition revoked_entry :: "ident \<Rightarrow> priv_runtime \<Rightarrow> bool" where
  "revoked_entry a r \<longleftrightarrow> (\<exists>e. dict_get (pgs_grants (pvm_store r)) a = Some e \<and> pge_status e = Gs_revoked)"

lemma revoked_entry_kept:
  assumes "revoked_entry a r" and "entries_kept (pvm_store r) (pvm_store s)"
  shows "revoked_entry a s"
proof -
  obtain e where e: "dict_get (pgs_grants (pvm_store r)) a = Some e" "pge_status e = Gs_revoked" using assms(1) by (auto simp: revoked_entry_def)
  obtain e' where "dict_get (pgs_grants (pvm_store s)) a = Some e'" "entry_kept e e'" using entries_kept_get [OF assms(2) e(1)] by blast
  then show ?thesis using e(2) by (auto simp: revoked_entry_def entry_kept_def)
qed

lemma revoked_entry_steps:
  assumes "priv_steps h p r s" and "revoked_entry a r"
  shows "revoked_entry a s"
  using assms
proof (induction rule: priv_steps.induct)
  case (Steps_issue r s v q su ap now d t)
  from Steps_issue(2) show ?case
  proof (cases rule: issue_grant_cases)
    case (Issued g)
    then show ?thesis using Steps_issue.IH Steps_issue.prems register_grant_get [OF Issued(2), of a] by (auto simp: revoked_entry_def)
  qed (use Steps_issue.IH Steps_issue.prems in \<open>auto simp: revoked_entry_def\<close>)
next
  case (Steps_execute r s v q g now d t)
  then show ?case using revoked_entry_kept authorize_execution_kept by blast
next
  case (Steps_revoke r s session n t)
  have "entries_kept (pvm_store s) (pvm_store t)"
    using Steps_revoke(2) revoke_session_kept [of "pvm_store s" "pvh_reference h session"]
    by (auto simp: revoke_priv_session_def split: prod.splits dest: arg_cong [where f = snd])
  then show ?case using revoked_entry_kept Steps_revoke by blast
qed

text \<open>
  C23: revoking a session withdraws its grants for good. A grant of the session that the store holds unused when the session is
  revoked is never executed afterwards, whatever operations follow.
\<close>

theorem revoked_session_never_executes:
  assumes "dict_get (pgs_grants (pvm_store r)) (pvg_grant_id g) = Some e" and "session_stored (pvh_reference h session) e"
    and "revoke_priv_session h session r = (n, r1)" and "priv_steps h p r1 r2"
    and "authorize_execution h p v q g now r2 = Some (d, r3)"
  shows "pvd_action d = BLOCK"
proof -
  have "revoked_entry (pvg_grant_id g) r1"
    using assms(1-3) revoke_session_get [of "pvh_reference h session" "pvm_store r" "pvg_grant_id g"]
    by (auto simp: revoke_priv_session_def revoked_entry_def split: prod.splits dest: arg_cong [where f = snd])
  then have rev: "revoked_entry (pvg_grant_id g) r2" using revoked_entry_steps assms(4) by blast
  from assms(5) show ?thesis
  proof (cases rule: authorize_execution_cases)
    case Executed
    then show ?thesis using rev by (auto simp: consume_grant_def revoked_entry_def split: option.splits if_splits)
  qed simp_all
qed

section \<open>The manager always answers\<close>

lemma foldl_min_gt: "(now :: int) < x \<Longrightarrow> \<forall>y\<in>set ys. now < y \<Longrightarrow> now < foldl min x ys"
  by (induction ys arbitrary: x) auto

lemma issue_grant_total:
  assumes "priv_policy_ok p"
  shows "issue_grant h p v q step_up approval now r \<noteq> None"
proof -
  obtain rule fs0 where pf: "priv_policy_findings h p q = (rule, fs0)" by (cases "priv_policy_findings h p q")
  let ?fs = "fs0 @ (case rule of None \<Rightarrow> [] | Some x \<Rightarrow> step_up_findings h p v q x step_up now @ priv_approval_findings h p v q x approval now)"
  let ?w = "case rule of Some x \<Rightarrow> if ?fs = [] then current_authority h v q x now else no_authority | None \<Rightarrow> no_authority"
  show ?thesis
  proof (cases "list_ex (\<lambda>f. is_missing_code (pvf_code f)) ?fs")
    case True
    then have "?fs \<noteq> []" by auto
    then show ?thesis using pf True by (simp add: issue_grant_def Let_def priv_decide_total_findings del: not_None_eq)
  next
    case miss: False
    show ?thesis
    proof (cases "?fs @ pvw_findings ?w = []")
      case True
      then have fs: "?fs = []" by simp
      then obtain x where x: "rule = Some x" using pf by (cases rule) (auto simp: priv_policy_findings_def split: option.splits)
      have w: "?w = current_authority h v q x now" using fs x by simp
      obtain i k b where a: "pvw_identity ?w = Some i" "pvw_risk ?w = Some k" "pvw_backend ?w = Some b" "authority_current h v q x now i k b"
        using current_authority_clean [of h v q x now] True unfolding w by auto
      obtain e where e: "step_up = Some e" "step_up_fresh h p v q x e now" using step_up_findings_Nil [of h p v q x step_up now] fs x by auto
      have ap: "approved_independently h p v q x approval now" using priv_approval_findings_Nil [of h p v q x approval now] fs x by auto
      have "x \<in> set (pvp_rules p)"
        using priv_policy_findings_Nil [of h p q x] pf fs x by (auto simp: priv_policy_for_def find_Some_iff)
      then have ttl: "1 \<le> pvo_max_ttl x" using assms by (auto simp: priv_policy_ok_def list_all_iff priv_rule_ok_def)
      have "now < grant_expiry x now i k b e approval"
        unfolding grant_expiry_def
        by (rule foldl_min_gt)
          (use ttl a(4) e(2) ap in \<open>auto simp: td_seconds_def authority_current_def step_up_fresh_def approved_independently_def
             split: option.splits if_splits\<close>)
      then obtain g where g: "new_grant h p q x now i k b e approval = Some g"
        by (auto simp: new_grant_def create_grant_def grant_integrity_def Let_def)
      obtain st store where reg: "register_grant g (pvm_store r) = (st, store)" by (cases "register_grant g (pvm_store r)")
      have wf: "pvw_findings (current_authority h v q x now) = []" using True w by simp
      show ?thesis using pf miss x fs a e(1) g reg wf by (simp add: issue_grant_def Let_def priv_decide_total del: not_None_eq)
    next
      case False
      have "issue_grant h p v q step_up approval now r = priv_decide h q Ph_issue (?fs @ pvw_findings ?w) now None None None None r"
        using pf miss False by (auto simp: issue_grant_def Let_def split: option.split list.split)
      then show ?thesis using priv_decide_total_findings [OF False] by (simp del: not_None_eq)
    qed
  qed
qed

lemma authorize_execution_total: "authorize_execution h p v q g now r \<noteq> None"
proof (cases "pvw_findings (execution_authority h p v q g now) = []")
  case True
  then obtain b where "pvw_backend (execution_authority h p v q g now) = Some b" using execution_authority_clean by blast
  then show ?thesis using True
    by (auto simp: authorize_execution_def Let_def priv_decide_total simp del: not_None_eq split: prod.split option.split)
next
  case False
  then show ?thesis
    by (cases "pvw_findings (execution_authority h p v q g now)")
      (auto simp: authorize_execution_def Let_def priv_decide_total_findings simp del: not_None_eq split: option.split)
qed

text \<open>
  The manager always answers. Under a valid policy neither issuing nor executing ever raises, whatever the services and verifiers do:
  failing services lead to a decision that denies.
\<close>

theorem privileged_access_never_raises:
  assumes "priv_policy_ok p"
  shows "\<exists>x y. issue_grant h p v q step_up approval now r = Some x \<and> authorize_execution h p v q' g later r = Some y"
  using issue_grant_total [OF assms] authorize_execution_total by fastforce

text \<open>
  The policy of a presented grant is compared although its integrity, its lifetime and its binding to the request have not been
  established, and a mismatch revokes the stored grant of that identifier: a forged grant withdraws a genuine one.
\<close>

theorem forged_grant_revokes_genuine:
  assumes "dict_get (pgs_grants (pvm_store r)) (pvg_grant_id f) = Some e" and "pvg_policy_digest f \<noteq> pvh_policy h p"
    and "authorize_execution h p v q f now r = Some (d, r')"
  shows "revoked_entry (pvg_grant_id f) r'"
proof -
  have "pv_find Pv_policy_changed ''Privileged access policy changed after grant issuance'' \<in> set (pvw_findings (execution_authority h p v q f now))"
    using assms(2) by (simp add: execution_authority_def change_findings_def Let_def split: prod.split)
  moreover have "is_revoking_code (pvf_code (pv_find Pv_policy_changed ''Privileged access policy changed after grant issuance''))"
    by (simp add: is_revoking_code_def pv_find_def)
  ultimately have rv: "list_ex (\<lambda>f. is_revoking_code (pvf_code f)) (pvw_findings (execution_authority h p v q f now))"
    by (auto simp: list_ex_iff)
  have ne: "pvw_findings (execution_authority h p v q f now) \<noteq> []" using rv by auto
  from assms(3) show ?thesis
  proof (cases rule: authorize_execution_cases)
    case Executed
    then show ?thesis using assms(2) by (auto simp: execution_justified_def)
  next
    case Stopped
    then show ?thesis using rv assms(1) by (simp add: live_store_def revoke_grant_def revoked_entry_def set_status_def)
  next
    case (Unconsumed st)
    have "\<exists>fs. priv_decide h q Ph_execute fs now None None None (Some (pvh_reference h (pvg_grant_id f)))
        (r\<lparr>pvm_store := live_store h p v q f now (pvm_store r)\<rparr>) = Some (d, r')"
      using assms(3) ne by (cases "pvw_findings (execution_authority h p v q f now)")
        (auto simp: authorize_execution_def live_store_def Let_def split: option.splits if_splits)
    then have "pvm_store r' = live_store h p v q f now (pvm_store r)" using priv_decide_Some(4) by fastforce
    then show ?thesis using rv assms(1) by (simp add: live_store_def revoke_grant_def revoked_entry_def set_status_def)
  qed
qed

section \<open>A concrete deployment\<close>

definition demo_priv_hash :: priv_hash where
  "demo_priv_hash = \<lparr>pvh_reference = (\<lambda>x. CHR ''#'' # x), pvh_policy = (\<lambda>_. ''p''), pvh_request = (\<lambda>_. ''rq''), pvh_step_up = (\<lambda>_. ''s''),
     pvh_approval = (\<lambda>_. ''a''), pvh_grant = (\<lambda>_. ''g''), pvh_seed = (\<lambda>_ n. n), pvh_permit = (\<lambda>_ _ _. ''x'')\<rparr>"

definition demo_priv_rule :: priv_rule where
  "demo_priv_rule = \<lparr>pvo_operation = Po_model_deploy, pvo_scopes = {''deploy''}, pvo_roles = {''lead''}, pvo_assurance = As_multi_factor,
     pvo_needs_approval = True, pvo_approvers = {''bob''}, pvo_max_session = 3600, pvo_max_step_up_age = 300, pvo_max_ttl = 60, pvo_max_risk = 30\<rparr>"

definition demo_priv_policy :: priv_policy where
  "demo_priv_policy = \<lparr>pvp_policy_id = ''pol'', pvp_version = 1, pvp_rules = [demo_priv_rule]\<rparr>"

definition demo_priv_actor :: priv_actor where
  "demo_priv_actor = \<lparr>pva_actor_id = ''ann'', pva_tenant_id = ''t'', pva_session_id = ''s'', pva_identity_version = ''i1'',
     pva_role_version = ''r1'', pva_risk_version = ''k1''\<rparr>"

definition demo_priv_request :: priv_request where
  "demo_priv_request = \<lparr>pvq_request_id = ''q'', pvq_actor = demo_priv_actor, pvq_operation = Po_model_deploy, pvq_target_id = ''model'',
     pvq_purpose_id = ''release'', pvq_scopes = {''deploy''}, pvq_policy_id = ''pol'', pvq_policy_version = 1, pvq_policy_digest = ''p'', pvq_nonce = ''n''\<rparr>"

definition demo_identity :: identity_snapshot where
  "demo_identity = \<lparr>pvi_actor_id = ''ann'', pvi_tenant_id = ''t'', pvi_session_id = ''s'', pvi_identity_version = ''i1'', pvi_role_version = ''r1'',
     pvi_roles = {''lead''}, pvi_active = True, pvi_started_at = 0, pvi_expires_at = td_seconds 3000\<rparr>"

definition demo_risk :: risk_snapshot where
  "demo_risk = \<lparr>pvr_actor_id = ''ann'', pvr_tenant_id = ''t'', pvr_session_id = ''s'', pvr_risk_version = ''k1'', pvr_score = 5, pvr_blocked = False,
     pvr_assessed_at = 0, pvr_expires_at = td_seconds 500\<rparr>"

definition demo_priv_backend :: backend_decision where
  "demo_priv_backend = \<lparr>pvb_request_digest = ''rq'', pvb_allowed = True, pvb_revision = ''v1'', pvb_reason = ''ok'', pvb_expires_at = td_seconds 400\<rparr>"

definition demo_priv_step_up :: step_up_evidence where
  "demo_priv_step_up = \<lparr>pvs_evidence_id = ''e'', pvs_request_digest = ''rq'', pvs_actor_id = ''ann'', pvs_tenant_id = ''t'', pvs_session_id = ''s'',
     pvs_policy_digest = ''p'', pvs_nonce = ''n'', pvs_assurance = As_hardware_bound, pvs_methods = {''key''}, pvs_authenticated_at = 0,
     pvs_expires_at = td_seconds 300\<rparr>"

definition demo_priv_approval :: approval_evidence where
  "demo_priv_approval = \<lparr>pvv_approval_id = ''a'', pvv_request_digest = ''rq'', pvv_actor_id = ''ann'', pvv_tenant_id = ''t'', pvv_approver_id = ''bob'',
     pvv_policy_digest = ''p'', pvv_nonce = ''n'', pvv_approved_at = 0, pvv_expires_at = td_seconds 300\<rparr>"

definition demo_services :: priv_services where
  "demo_services = \<lparr>pve_identity = (\<lambda>_ _ _ _. Some (Some demo_identity)), pve_risk = (\<lambda>_ _ _ _. Some (Some demo_risk)),
     pve_backend = (\<lambda>_ _ _. Some demo_priv_backend), pve_verify_step_up = (\<lambda>_. Some True), pve_verify_approval = Some (\<lambda>_. Some True)\<rparr>"

definition demo_jit :: jit_grant where
  "demo_jit = \<lparr>pvg_grant_id = ''jit-n'', pvg_request_digest = ''rq'', pvg_actor_ref = ''#ann'', pvg_tenant_ref = ''#t'', pvg_session_ref = ''#s'',
     pvg_operation = Po_model_deploy, pvg_target_ref = ''#model'', pvg_scopes = {''deploy''}, pvg_policy_digest = ''p'', pvg_identity_version = ''i1'',
     pvg_role_version = ''r1'', pvg_risk_version = ''k1'', pvg_step_up_digest = ''s'', pvg_approval_digest = Some ''a'', pvg_issued_at = td_seconds 1,
     pvg_expires_at = td_seconds 61, pvg_digest = ''g''\<rparr>"

lemmas demo_priv_defs = demo_priv_hash_def demo_priv_rule_def demo_priv_policy_def demo_priv_actor_def demo_priv_request_def demo_identity_def
  demo_risk_def demo_priv_backend_def demo_priv_step_up_def demo_priv_approval_def demo_services_def demo_jit_def

definition demo_priv_start :: priv_runtime where
  "demo_priv_start = \<lparr>pvm_store = \<lparr>pgs_max = 5, pgs_grants = []\<rparr>, pvm_sink = None\<rparr>"

definition demo_priv_held :: priv_runtime where
  "demo_priv_held = \<lparr>pvm_store = \<lparr>pgs_max = 5, pgs_grants = [(''jit-n'', \<lparr>pge_digest = ''g'', pge_session_ref = ''#s'',
     pge_expires_at = td_seconds 61, pge_status = Gs_stored\<rparr>)]\<rparr>, pvm_sink = None\<rparr>"

lemma demo_priv_checks:
  "priv_policy_findings demo_priv_hash demo_priv_policy demo_priv_request = (Some demo_priv_rule, [])"
  "step_up_findings demo_priv_hash demo_priv_policy demo_services demo_priv_request demo_priv_rule (Some demo_priv_step_up) (td_seconds 1) = []"
  "priv_approval_findings demo_priv_hash demo_priv_policy demo_services demo_priv_request demo_priv_rule (Some demo_priv_approval) (td_seconds 1) = []"
  "current_authority demo_priv_hash demo_services demo_priv_request demo_priv_rule (td_seconds t) =
    \<lparr>pvw_identity = Some demo_identity, pvw_risk = Some demo_risk, pvw_backend = Some demo_priv_backend, pvw_findings = []\<rparr>" if "0 \<le> t" "t < 60"
  using that
  by (simp_all add: priv_policy_findings_def priv_policy_for_def step_up_findings_def step_up_bound_def priv_request_digest_def
      priv_approval_findings_def priv_approval_bound_def current_authority_def identity_findings_def risk_findings_def demo_priv_defs td_seconds_def Let_def)

lemma demo_new_grant:
  "new_grant demo_priv_hash demo_priv_policy demo_priv_request demo_priv_rule (td_seconds 1) demo_identity demo_risk demo_priv_backend demo_priv_step_up
    (Some demo_priv_approval) = Some demo_jit"
  by (simp add: new_grant_def create_grant_def grant_integrity_def grant_id_of_def grant_expiry_def priv_request_digest_def priv_target_ref_def
      demo_priv_defs td_seconds_def)

lemma demo_issued:
  "\<exists>d. issue_grant demo_priv_hash demo_priv_policy demo_services demo_priv_request (Some demo_priv_step_up) (Some demo_priv_approval) (td_seconds 1)
    demo_priv_start = Some (d, demo_priv_held) \<and> pvd_grant d = Some demo_jit"
proof -
  have reg: "register_grant demo_jit (pvm_store demo_priv_start) = (Gs_stored, pvm_store demo_priv_held)"
    by (simp add: register_grant_def demo_priv_start_def demo_priv_held_def demo_jit_def)
  have "demo_priv_start\<lparr>pvm_store := pvm_store demo_priv_held\<rparr> = demo_priv_held" by (simp add: demo_priv_start_def demo_priv_held_def)
  then show ?thesis
    using reg demo_priv_checks [of 1] demo_new_grant
    by (simp add: issue_grant_def Let_def priv_decide_def) (simp add: priv_publish_def demo_priv_held_def)
qed

lemma demo_executed:
  "\<exists>d r'. authorize_execution demo_priv_hash demo_priv_policy demo_services demo_priv_request demo_jit (td_seconds 2) demo_priv_held =
    Some (d, r') \<and> pvd_action d = ALLOW"
proof -
  have "grant_binding_findings demo_priv_hash demo_priv_request demo_jit (td_seconds 2) = []"
    by (simp add: grant_binding_findings_def grant_integrity_def priv_request_digest_def priv_target_ref_def demo_priv_defs td_seconds_def)
  moreover have "change_findings demo_priv_hash demo_priv_policy demo_jit \<lparr>pvw_identity = Some demo_identity, pvw_risk = Some demo_risk,
      pvw_backend = Some demo_priv_backend, pvw_findings = []\<rparr> = []"
    by (simp add: change_findings_def demo_priv_defs)
  ultimately have "execution_authority demo_priv_hash demo_priv_policy demo_services demo_priv_request demo_jit (td_seconds 2) =
      \<lparr>pvw_identity = Some demo_identity, pvw_risk = Some demo_risk, pvw_backend = Some demo_priv_backend, pvw_findings = []\<rparr>"
    using demo_priv_checks(1,4) [of 2] by (simp add: execution_authority_def Let_def)
  moreover have "fst (consume_grant (pvg_grant_id demo_jit) (pvg_digest demo_jit) (td_seconds 2) (pvm_store demo_priv_held)) = Gs_consumed"
    by (simp add: consume_grant_def demo_priv_held_def demo_jit_def td_seconds_def)
  ultimately show ?thesis
    by (auto simp: authorize_execution_def Let_def grant_state_finding_def priv_decide_def split: prod.split)
qed

lemma demo_priv_history:
  "\<exists>r. priv_history demo_priv_hash demo_priv_policy [(demo_services, demo_priv_request, Some demo_priv_step_up, Some demo_priv_approval, td_seconds 1, demo_jit)]
    [(demo_services, demo_priv_request, demo_jit, td_seconds 2)] r"
proof -
  have "priv_history demo_priv_hash demo_priv_policy [] [] demo_priv_start"
    unfolding demo_priv_start_def by (rule Priv_init [of 5]) (simp add: new_grant_store_def)
  moreover obtain d where "issue_grant demo_priv_hash demo_priv_policy demo_services demo_priv_request (Some demo_priv_step_up) (Some demo_priv_approval)
      (td_seconds 1) demo_priv_start = Some (d, demo_priv_held)" "pvd_grant d = Some demo_jit"
    using demo_issued by blast
  ultimately have h: "priv_history demo_priv_hash demo_priv_policy
      [(demo_services, demo_priv_request, Some demo_priv_step_up, Some demo_priv_approval, td_seconds 1, demo_jit)] [] demo_priv_held"
    using Priv_issue by fastforce
  obtain d r' where "authorize_execution demo_priv_hash demo_priv_policy demo_services demo_priv_request demo_jit (td_seconds 2) demo_priv_held =
      Some (d, r')" "pvd_action d = ALLOW"
    using demo_executed by blast
  then show ?thesis using Priv_execute [OF h] by fastforce
qed

theorem privileged_execution_justified_witness:
  "execution_justified demo_priv_hash demo_priv_policy demo_services demo_priv_request demo_jit (td_seconds 2)"
proof -
  obtain r where "priv_history demo_priv_hash demo_priv_policy [(demo_services, demo_priv_request, Some demo_priv_step_up, Some demo_priv_approval, td_seconds 1, demo_jit)]
      [(demo_services, demo_priv_request, demo_jit, td_seconds 2)] r"
    using demo_priv_history by blast
  from privileged_execution_justified [OF this] show ?thesis by simp
qed

theorem jit_grant_single_use_witness:
  "distinct (map (\<lambda>x. pvg_grant_id (execution_grant x)) [(demo_services, demo_priv_request, demo_jit, td_seconds 2)])"
proof -
  obtain r where "priv_history demo_priv_hash demo_priv_policy [(demo_services, demo_priv_request, Some demo_priv_step_up, Some demo_priv_approval, td_seconds 1, demo_jit)]
      [(demo_services, demo_priv_request, demo_jit, td_seconds 2)] r"
    using demo_priv_history by blast
  from jit_grant_single_use [OF this] show ?thesis .
qed

theorem revoked_session_never_executes_witness:
  "\<exists>d r'. authorize_execution demo_priv_hash demo_priv_policy demo_services demo_priv_request demo_jit (td_seconds 2)
    (snd (revoke_priv_session demo_priv_hash ''s'' demo_priv_held)) = Some (d, r') \<and> pvd_action d = BLOCK"
proof -
  have ok: "priv_policy_ok demo_priv_policy" by (simp add: priv_policy_ok_def priv_rule_ok_def demo_priv_policy_def demo_priv_rule_def)
  have "authorize_execution demo_priv_hash demo_priv_policy demo_services demo_priv_request demo_jit (td_seconds 2)
      (snd (revoke_priv_session demo_priv_hash ''s'' demo_priv_held)) \<noteq> None"
    by (rule authorize_execution_total)
  then obtain d r' where ex: "authorize_execution demo_priv_hash demo_priv_policy demo_services demo_priv_request demo_jit (td_seconds 2)
      (snd (revoke_priv_session demo_priv_hash ''s'' demo_priv_held)) = Some (d, r')" by auto
  have "dict_get (pgs_grants (pvm_store demo_priv_held)) (pvg_grant_id demo_jit) = Some \<lparr>pge_digest = ''g'', pge_session_ref = ''#s'',
      pge_expires_at = td_seconds 61, pge_status = Gs_stored\<rparr>"
    by (simp add: demo_priv_held_def demo_jit_def)
  from revoked_session_never_executes [OF this _ _ Steps_refl ex, of "''s''" "fst (revoke_priv_session demo_priv_hash ''s'' demo_priv_held)"]
  show ?thesis using ex by (simp add: session_stored_def demo_priv_hash_def)
qed

theorem privileged_access_never_raises_witness:
  "\<exists>x y. issue_grant demo_priv_hash demo_priv_policy demo_services demo_priv_request None None 0 demo_priv_start = Some x \<and>
    authorize_execution demo_priv_hash demo_priv_policy demo_services demo_priv_request demo_jit (td_seconds 900) demo_priv_start = Some y"
  by (rule privileged_access_never_raises) (simp add: priv_policy_ok_def priv_rule_ok_def demo_priv_policy_def demo_priv_rule_def)

end
