(* ===== verification/Text_Normalizer.thy ===== *)
theory Text_Normalizer
  imports Text_Codec
begin

text \<open>
  \<open>normalization/normalizer.py\<close>: the passes of \<open>TextNormalizer.normalize\<close>, in their order, and the extraction of
  base64 payloads. \<open>html.unescape\<close>, the NFC form and \<open>str.isprintable\<close> are tables of the Python standard library and
  the fields of \<open>unicode_lib\<close>; \<open>unquote\<close>, \<open>bytes.fromhex\<close>, \<open>bytes.decode(errors="replace")\<close> and
  \<open>base64.b64decode\<close> are written out. The entropy function, which nothing here uses, is left out.
\<close>

section \<open>Character classes\<close>

definition zero_width_char :: "nat \<Rightarrow> bool" where
  "zero_width_char c \<longleftrightarrow> c \<in> {0x200b, 0x200c, 0x200d, 0x200e, 0x200f, 0x2028, 0x2029, 0x2060, 0x2061, 0x2062, 0x2063,
     0x2064, 0xfeff, 0x00ad, 0x034f, 0x115f, 0x1160, 0x17b4, 0x17b5, 0x3164, 0xffa0}"

definition bidi_control :: "nat \<Rightarrow> bool" where
  "bidi_control c \<longleftrightarrow> c \<in> {0x200f, 0x061c, 0x202a, 0x202b, 0x202c, 0x202d, 0x202e, 0x2066, 0x2067, 0x2068, 0x2069}"

definition tag_char :: "nat \<Rightarrow> bool" where
  "tag_char c \<longleftrightarrow> 0xe0000 \<le> c \<and> c \<le> 0xe007f"

definition variation_selector :: "nat \<Rightarrow> bool" where
  "variation_selector c \<longleftrightarrow> 0xfe00 \<le> c \<and> c \<le> 0xfe0f \<or> 0xe0100 \<le> c \<and> c \<le> 0xe01ef"

definition unusual_ws :: "nat \<Rightarrow> bool" where
  "unusual_ws c \<longleftrightarrow> c \<in> {0x00a0, 0x1680, 0x202f, 0x205f, 0x3000} \<or> 0x2000 \<le> c \<and> c \<le> 0x200a"

definition is_hex :: "nat \<Rightarrow> bool" where
  "is_hex c \<longleftrightarrow> 48 \<le> c \<and> c \<le> 57 \<or> 65 \<le> c \<and> c \<le> 70 \<or> 97 \<le> c \<and> c \<le> 102"

definition hex_value :: "nat \<Rightarrow> nat" where
  "hex_value c = (if c \<le> 57 then c - 48 else if c \<le> 70 then c - 55 else c - 87)"

definition homoglyphs :: "(nat \<times> nat) list" where
  "homoglyphs =
     [(0x0430, 97), (0x0435, 101), (0x043e, 111), (0x0440, 112), (0x0441, 99), (0x0445, 120), (0x0456, 105),
      (0x0410, 65), (0x0412, 66), (0x0415, 69), (0x041c, 77), (0x041d, 72), (0x041e, 79), (0x0420, 80),
      (0x0421, 67), (0x0422, 84), (0x0425, 88), (0x0443, 121)]
     @ map (\<lambda>i. (0xff41 + i, 97 + i)) [0..<26]"

definition map_homoglyph :: "nat \<Rightarrow> nat" where
  "map_homoglyph c = (case map_of homoglyphs c of Some d \<Rightarrow> d | None \<Rightarrow> c)"

section \<open>Decoders\<close>

text \<open>\<open>bytes.decode("utf-8", errors="replace")\<close>: one replacement character per ill-formed sequence.\<close>

function utf8_decode_replace :: "pybytes \<Rightarrow> pytext" where
  "utf8_decode_replace [] = []"
| "utf8_decode_replace (b # bs) =
     (case utf8_step b bs of
        (Some c, n) \<Rightarrow> c # utf8_decode_replace (drop n bs)
      | (None, n) \<Rightarrow> 0xfffd # utf8_decode_replace (drop n bs))"
  by pat_completeness auto
termination by (relation "measure length") auto

fun has_pct :: "pytext \<Rightarrow> bool" where
  "has_pct (c # a # b # r) = (c = 37 \<and> is_hex a \<and> is_hex b \<or> has_pct (a # b # r))"
| "has_pct _ = False"

fun pct_bytes :: "pytext \<Rightarrow> pybytes" where
  "pct_bytes (c # a # b # r) =
     (if c = 37 \<and> is_hex a \<and> is_hex b then (hex_value a * 16 + hex_value b) # pct_bytes r else c # pct_bytes (a # b # r))"
| "pct_bytes t = t"

text \<open>\<open>urllib.parse.unquote\<close> decodes every maximal run of ASCII characters on its own.\<close>

function unquote_runs :: "pytext \<Rightarrow> pytext" where
  "unquote_runs [] = []"
| "unquote_runs (c # r) =
     (if c < 128 then utf8_decode_replace (pct_bytes (c # takeWhile (\<lambda>x. x < 128) r)) @ unquote_runs (dropWhile (\<lambda>x. x < 128) r)
      else c # unquote_runs r)"
  by pat_completeness auto
termination by (relation "measure length") (auto simp: le_imp_less_Suc length_dropWhile_le)

definition unquote :: "pytext \<Rightarrow> pytext" where
  "unquote t = (if 37 \<in> set t then unquote_runs t else t)"

fun hex_bytes :: "pytext \<Rightarrow> pybytes" where
  "hex_bytes (a # b # r) = (hex_value a * 16 + hex_value b) # hex_bytes r"
| "hex_bytes _ = []"

text \<open>\<open>_decode_hex_match\<close>: \<open>bytes.fromhex\<close> raises on an odd number of digits, and the match is kept.\<close>

definition decode_hex_match :: "nat \<Rightarrow> nat \<Rightarrow> pytext \<Rightarrow> pytext" where
  "decode_hex_match c x digits =
     (if even (length digits) then utf8_decode_replace (hex_bytes digits) else c # x # digits)"

function hex_sub :: "pytext \<Rightarrow> pytext" where
  "hex_sub [] = []"
| "hex_sub [c] = [c]"
| "hex_sub (c # x # r) =
     (if (c = 48 \<or> c = 92) \<and> x = 120 \<and> 2 \<le> length (takeWhile is_hex r)
      then decode_hex_match c x (takeWhile is_hex r) @ hex_sub (dropWhile is_hex r)
      else c # hex_sub (x # r))"
  by pat_completeness auto
termination by (relation "measure length") (auto simp: le_imp_less_Suc length_dropWhile_le le_SucI)

section \<open>Normalization\<close>

record unicode_lib =
  ul_unescape :: "pytext \<Rightarrow> pytext"
  ul_nfc :: "pytext \<Rightarrow> pytext"
  ul_printable :: "nat \<Rightarrow> bool"

record normalizer =
  nz_html :: bool
  nz_url :: bool
  nz_unicode :: bool
  nz_zero_width :: bool
  nz_whitespace :: bool
  nz_homoglyphs :: bool
  nz_base64 :: bool
  nz_hex :: bool
  nz_bidi :: bool
  nz_tags :: bool
  nz_variation :: bool

definition default_normalizer :: normalizer where
  "default_normalizer = \<lparr>nz_html = True, nz_url = True, nz_unicode = True, nz_zero_width = True, nz_whitespace = True,
     nz_homoglyphs = True, nz_base64 = True, nz_hex = True, nz_bidi = True, nz_tags = True, nz_variation = True\<rparr>"

definition strip_channel :: "string \<Rightarrow> bool \<Rightarrow> (nat \<Rightarrow> bool) \<Rightarrow> pytext \<times> (string, nat) dict \<Rightarrow> pytext \<times> (string, nat) dict" where
  "strip_channel signal enabled p = (\<lambda>(current, counts).
     if \<not> enabled then (current, counts)
     else let matches = filter p current in
       if matches = [] then (current, counts)
       else (filter (\<lambda>c. \<not> p c) current, dict_set counts signal (length matches)))"

definition strip_invisible_unicode :: "bool \<Rightarrow> bool \<Rightarrow> bool \<Rightarrow> bool \<Rightarrow> pytext \<Rightarrow> pytext \<times> (string, nat) dict" where
  "strip_invisible_unicode bidi zero_width tags variation t =
     strip_channel ''variation_selectors'' variation variation_selector
      (strip_channel ''unicode_tag_chars'' tags tag_char
        (strip_channel ''zero_width_chars'' zero_width zero_width_char
          (strip_channel ''bidi_control_chars'' bidi bidi_control (t, []))))"

text \<open>A decoding pass records its signal when it changed the text.\<close>

definition decode_pass :: "bool \<Rightarrow> string \<Rightarrow> (pytext \<Rightarrow> pytext) \<Rightarrow> pytext \<times> string list \<Rightarrow> pytext \<times> string list" where
  "decode_pass enabled signal f = (\<lambda>(current, signals).
     if \<not> enabled then (current, signals)
     else let decoded = f current in (decoded, if decoded \<noteq> current then signals @ [signal] else signals))"

definition url_pass :: "normalizer \<Rightarrow> pytext \<times> string list \<Rightarrow> pytext \<times> string list" where
  "url_pass nz = (\<lambda>(current, signals). decode_pass (nz_url nz \<and> has_pct current) ''url_encoding'' unquote (current, signals))"

definition invisible_pass :: "normalizer \<Rightarrow> pytext \<times> string list \<Rightarrow> pytext \<times> string list" where
  "invisible_pass nz = (\<lambda>(current, signals).
     let (t, counts) = strip_invisible_unicode (nz_bidi nz) (nz_zero_width nz) (nz_tags nz) (nz_variation nz) current
     in (t, signals @ map fst counts))"

definition whitespace_pass :: "normalizer \<Rightarrow> pytext \<times> string list \<Rightarrow> pytext \<times> string list" where
  "whitespace_pass nz = (\<lambda>(current, signals).
     if nz_whitespace nz \<and> list_ex unusual_ws current
     then (map (\<lambda>c. if unusual_ws c then 32 else c) current, signals @ [''unusual_whitespace'']) else (current, signals))"

record normalized =
  nr_original :: pytext
  nr_normalized :: pytext
  nr_signals :: "string list"

definition normalize_text :: "unicode_lib \<Rightarrow> normalizer \<Rightarrow> pytext \<Rightarrow> normalized" where
  "normalize_text ul nz t =
     (let p = decode_pass (nz_html nz) ''html_entities'' (ul_unescape ul) (t, []);
          p = decode_pass (nz_unicode nz) ''unicode_normalization'' (ul_nfc ul) p;
          p = url_pass nz p;
          p = invisible_pass nz p;
          p = whitespace_pass nz p;
          p = decode_pass (nz_homoglyphs nz) ''homoglyphs'' (map map_homoglyph) p;
          (current, signals) = decode_pass (nz_hex nz) ''hex_encoding'' hex_sub p
      in \<lparr>nr_original = t, nr_normalized = current, nr_signals = signals\<rparr>)"

definition was_obfuscated :: "normalized \<Rightarrow> bool" where
  "was_obfuscated r \<longleftrightarrow> nr_signals r \<noteq> []"

definition decoded_variants :: "normalized \<Rightarrow> pytext list" where
  "decoded_variants r = nr_normalized r # (if nr_original r \<noteq> nr_normalized r then [nr_original r] else [])"

definition has_homoglyphs :: "pytext \<Rightarrow> bool" where
  "has_homoglyphs t \<longleftrightarrow> list_ex (\<lambda>c. map_of homoglyphs c \<noteq> None) t"

section \<open>Base64 payloads\<close>

definition b64_value :: "nat \<Rightarrow> nat option" where
  "b64_value c =
     (if 65 \<le> c \<and> c \<le> 90 then Some (c - 65) else if 97 \<le> c \<and> c \<le> 122 then Some (c - 71)
      else if 48 \<le> c \<and> c \<le> 57 then Some (c + 4) else if c = 43 then Some 62 else if c = 47 then Some 63 else None)"

definition b64_char :: "nat \<Rightarrow> bool" where
  "b64_char c \<longleftrightarrow> b64_value c \<noteq> None"

text \<open>
  \<open>binascii.a2b_base64\<close> in its lenient mode: position in the quantum, left-over bits and pads seen. Pads end
  the input once they complete a quantum; a quantum left open at the end is an error.
\<close>

fun a2b_base64 :: "pytext \<Rightarrow> nat \<Rightarrow> nat \<Rightarrow> nat \<Rightarrow> pybytes option" where
  "a2b_base64 [] q bits pads = (if q = 0 then Some [] else None)"
| "a2b_base64 (c # r) q bits pads =
     (if c = 61 then
        if 2 \<le> q \<and> 4 \<le> q + Suc pads then Some [] else a2b_base64 r q bits (if 2 \<le> q then Suc pads else pads)
      else (case b64_value c of
          None \<Rightarrow> a2b_base64 r q bits pads
        | Some v \<Rightarrow>
            if q = 0 then a2b_base64 r 1 v 0
            else if q = 1 then map_option ((#) (bits * 4 + v div 16)) (a2b_base64 r 2 (v mod 16) 0)
            else if q = 2 then map_option ((#) (bits * 16 + v div 4)) (a2b_base64 r 3 (v mod 4) 0)
            else map_option ((#) (bits * 64 + v)) (a2b_base64 r 0 0 0)))"

definition b64_pad :: "pytext \<Rightarrow> pytext" where
  "b64_pad s = (if length s mod 4 \<noteq> 0 then s @ replicate (4 - length s mod 4) 61 else s)"

definition urlsafe_char :: "nat \<Rightarrow> nat" where
  "urlsafe_char c = (if c = 45 then 43 else if c = 95 then 47 else c)"

definition mostly_printable :: "unicode_lib \<Rightarrow> pytext \<Rightarrow> bool" where
  "mostly_printable ul t \<longleftrightarrow>
     7 * max (length t) 1 < 10 * length (filter (\<lambda>c. ul_printable ul c \<or> c \<in> {10, 13, 9}) t)"

fun try_decoders :: "unicode_lib \<Rightarrow> pybytes option list \<Rightarrow> pytext option" where
  "try_decoders ul [] = None"
| "try_decoders ul (raw # rest) =
     (case Option.bind raw utf8_decode of
        Some t \<Rightarrow> if mostly_printable ul t then Some t else try_decoders ul rest
      | None \<Rightarrow> try_decoders ul rest)"

definition try_decode_base64 :: "unicode_lib \<Rightarrow> pytext \<Rightarrow> pytext option" where
  "try_decode_base64 ul s =
     try_decoders ul [a2b_base64 (b64_pad s) 0 0 0, a2b_base64 (map urlsafe_char (b64_pad s)) 0 0 0]"

text \<open>
  The candidates of \<open>_B64_CANDIDATE\<close>: neither neighbour of a match may be of the alphabet or a pad, so a match is a
  maximal run of such characters, and it is one when the run is at least 20 characters and at most two pads.
\<close>

function class_runs :: "(nat \<Rightarrow> bool) \<Rightarrow> pytext \<Rightarrow> pytext list" where
  "class_runs p [] = []"
| "class_runs p (c # r) =
     (if p c then (c # takeWhile p r) # class_runs p (dropWhile p r) else class_runs p r)"
  by pat_completeness auto
termination by (relation "measure (length \<circ> snd)") (auto simp: le_imp_less_Suc length_dropWhile_le)

definition is_b64_candidate :: "pytext \<Rightarrow> bool" where
  "is_b64_candidate s \<longleftrightarrow> 20 \<le> length (takeWhile b64_char s) \<and> length (dropWhile b64_char s) \<le> 2 \<and>
     list_all (\<lambda>c. c = 61) (dropWhile b64_char s)"

definition b64_candidates :: "pytext \<Rightarrow> pytext list" where
  "b64_candidates t = filter is_b64_candidate (class_runs (\<lambda>c. b64_char c \<or> c = 61) t)"

definition extract_base64_payloads :: "unicode_lib \<Rightarrow> pytext \<Rightarrow> pytext list" where
  "extract_base64_payloads ul t = List.map_filter (try_decode_base64 ul) (b64_candidates t)"

definition is_likely_base64 :: "unicode_lib \<Rightarrow> pytext \<Rightarrow> bool" where
  "is_likely_base64 ul t \<longleftrightarrow>
     (case b64_candidates t of [] \<Rightarrow> False | s # _ \<Rightarrow> try_decode_base64 ul s \<noteq> None)"

end
