(* ===== verification/Goal_Text.thy ===== *)
theory Goal_Text
  imports Text_Normalizer
begin

text \<open>
  The hijack patterns of \<open>goal_integrity.py\<close>. A pattern is the list of its parts, matched by backtracking over the text
  with the character before it; \<open>rx_rel\<close> says declaratively what a pattern matches and the matcher is proved to decide
  it. Which code points are word characters and spaces, and \<open>str.casefold\<close>, are parameters.
\<close>

section \<open>A matcher for the patterns\<close>

datatype rx_item =
    Word_break
  | One_of "pytext list"
  | Up_to nat
  | Spaces nat

record char_lib =
  cl_unicode :: unicode_lib
  cl_word :: "nat \<Rightarrow> bool"
  cl_space :: "nat \<Rightarrow> bool"
  cl_casefold :: "pytext \<Rightarrow> pytext"

text \<open>
  \<open>re.IGNORECASE\<close> on a lower-case pattern letter: also its upper case, and the non-ASCII characters that Python folds
  to \<open>i\<close>, \<open>s\<close> and \<open>k\<close>.
\<close>

definition same_letter :: "nat \<Rightarrow> nat \<Rightarrow> bool" where
  "same_letter p c \<longleftrightarrow> c = p \<or> 97 \<le> p \<and> p \<le> 122 \<and> c + 32 = p \<or> p = 105 \<and> (c = 0x130 \<or> c = 0x131) \<or> p = 115 \<and> c = 0x17f \<or>
     p = 107 \<and> c = 0x212a"

definition at_break :: "(nat \<Rightarrow> bool) \<Rightarrow> nat option \<Rightarrow> pytext \<Rightarrow> bool" where
  "at_break wd prev t \<longleftrightarrow>
     (case prev of None \<Rightarrow> False | Some c \<Rightarrow> wd c) \<noteq> (case t of [] \<Rightarrow> False | c # _ \<Rightarrow> wd c)"

fun after_word :: "pytext \<Rightarrow> nat option \<Rightarrow> pytext \<Rightarrow> (nat option \<times> pytext) option" where
  "after_word [] prev t = Some (prev, t)"
| "after_word (w # ws) prev [] = None"
| "after_word (w # ws) prev (c # t) = (if same_letter w c then after_word ws (Some c) t else None)"

fun gap_then :: "(nat \<Rightarrow> bool) \<Rightarrow> nat \<Rightarrow> (nat option \<Rightarrow> pytext \<Rightarrow> bool) \<Rightarrow> nat option \<Rightarrow> pytext \<Rightarrow> bool" where
  "gap_then ok n k prev [] = k prev []"
| "gap_then ok n k prev (c # t) = (k prev (c # t) \<or> 0 < n \<and> ok c \<and> gap_then ok (n - 1) k (Some c) t)"

fun spaces_then :: "(nat \<Rightarrow> bool) \<Rightarrow> nat \<Rightarrow> (nat option \<Rightarrow> pytext \<Rightarrow> bool) \<Rightarrow> nat option \<Rightarrow> pytext \<Rightarrow> bool" where
  "spaces_then sp m k prev [] = (m = 0 \<and> k prev [])"
| "spaces_then sp m k prev (c # t) = (m = 0 \<and> k prev (c # t) \<or> sp c \<and> spaces_then sp (m - 1) k (Some c) t)"

fun rx_at :: "char_lib \<Rightarrow> rx_item list \<Rightarrow> nat option \<Rightarrow> pytext \<Rightarrow> bool" where
  "rx_at cl [] = (\<lambda>prev t. True)"
| "rx_at cl (Word_break # r) = (\<lambda>prev t. at_break (cl_word cl) prev t \<and> rx_at cl r prev t)"
| "rx_at cl (One_of ws # r) =
     (\<lambda>prev t. list_ex (\<lambda>w. case after_word w prev t of None \<Rightarrow> False | Some (p, u) \<Rightarrow> rx_at cl r p u) ws)"
| "rx_at cl (Up_to n # r) = (\<lambda>prev t. gap_then (\<lambda>c. c \<noteq> 10) n (rx_at cl r) prev t)"
| "rx_at cl (Spaces m # r) = (\<lambda>prev t. spaces_then (cl_space cl) m (rx_at cl r) prev t)"

fun rx_search :: "char_lib \<Rightarrow> rx_item list \<Rightarrow> nat option \<Rightarrow> pytext \<Rightarrow> bool" where
  "rx_search cl r prev [] = rx_at cl r prev []"
| "rx_search cl r prev (c # t) = (rx_at cl r prev (c # t) \<or> rx_search cl r (Some c) t)"

section \<open>The patterns\<close>

definition any_word :: "string list \<Rightarrow> rx_item" where
  "any_word ws = One_of (map ident_text ws)"

definition hijack_patterns :: "rx_item list list" where
  "hijack_patterns =
     [[Word_break, any_word [''ignore'', ''disregard'', ''forget'', ''override'', ''bypass''], Word_break, Up_to 80, Word_break,
       any_word [''authorized'', ''original'', ''current'', ''previous'', ''primary''], Word_break, Up_to 40, Word_break,
       any_word [''goal'', ''objective'', ''mission'', ''constraint'', ''constraints'', ''manifest''], Word_break],
      [Word_break, any_word [''replace'', ''change'', ''switch'', ''redirect'', ''rewrite'', ''adopt''], Word_break, Up_to 60,
       Word_break, any_word [''goal'', ''objective'', ''mission'', ''purpose''], Word_break],
      [Word_break, any_word [''new'', ''hidden'', ''actual'', ''real'', ''replacement''], Spaces 1,
       any_word [''goal'', ''objective'', ''mission'', ''task''], Spaces 0, any_word ['':'']],
      [Word_break, any_word [''unrelated'', ''different'', ''attacker-selected'', ''attacker selected''], Spaces 1,
       any_word [''goal'', ''objective'', ''task'', ''mission''], Word_break],
      [Word_break, any_word [''do''], Spaces 1, any_word [''not''], Spaces 1, any_word [''follow'', ''honor'', ''enforce''],
       Word_break, Up_to 60, Word_break, any_word [''goal'', ''manifest'', ''constraint'', ''constraints''], Word_break]]"

definition compact_hijack_patterns :: "rx_item list list" where
  "compact_hijack_patterns =
     [[any_word [''ignore'', ''disregard'', ''forget'', ''override'', ''bypass''], any_word ['''', ''the''],
       any_word [''authorized'', ''original'', ''current'', ''previous'', ''primary''],
       any_word [''goal'', ''objective'', ''mission'', ''constraint'', ''constraints'', ''manifest'']],
      [any_word [''replace'', ''change'', ''switch'', ''redirect'', ''rewrite'', ''adopt''], any_word ['''', ''the''],
       any_word [''goal'', ''objective'', ''mission'', ''purpose'']]]"

definition contains_hijack :: "char_lib \<Rightarrow> pytext \<Rightarrow> bool" where
  "contains_hijack cl t \<longleftrightarrow> list_ex (\<lambda>r. rx_search cl r None t) hijack_patterns"

definition contains_compact_hijack :: "char_lib \<Rightarrow> pytext \<Rightarrow> bool" where
  "contains_compact_hijack cl t \<longleftrightarrow> list_ex (\<lambda>r. rx_search cl r None t) compact_hijack_patterns"

text \<open>\<open>re.sub(r"\W+", "", text.casefold())\<close>.\<close>

definition compact_text :: "char_lib \<Rightarrow> pytext \<Rightarrow> pytext" where
  "compact_text cl t = filter (cl_word cl) (cl_casefold cl t)"

text \<open>\<open>_detect_hijack\<close>: whether the text holds an instruction, and whether it was encoded.\<close>

definition detect_hijack :: "char_lib \<Rightarrow> pytext \<Rightarrow> bool \<times> bool" where
  "detect_hijack cl t =
     (let found = (\<lambda>u. contains_hijack cl u \<or> contains_compact_hijack cl (compact_text cl u));
          plain_direct = contains_hijack cl t;
          original_direct = (plain_direct \<or> contains_compact_hijack cl (compact_text cl t));
          nr = normalize_text (cl_unicode cl) default_normalizer t;
          normalized_direct = found (nr_normalized nr);
          decoded_direct = list_ex found (extract_base64_payloads (cl_unicode cl) (nr_normalized nr));
          encoded = (decoded_direct \<or> normalized_direct \<and> was_obfuscated nr \<and> \<not> plain_direct)
      in (original_direct \<or> normalized_direct \<or> decoded_direct, encoded))"

section \<open>What the patterns match\<close>

definition prev_of :: "nat option \<Rightarrow> pytext \<Rightarrow> nat option" where
  "prev_of prev x = (if x = [] then prev else Some (last x))"

lemma prev_of_simps [simp]:
  "prev_of p [] = p" "prev_of p (c # x) = prev_of (Some c) x" "prev_of p (x @ y) = prev_of (prev_of p x) y"
  by (simp_all add: prev_of_def)

inductive rx_rel :: "char_lib \<Rightarrow> rx_item list \<Rightarrow> nat option \<Rightarrow> pytext \<Rightarrow> pytext \<Rightarrow> bool" for cl where
  Rx_done: "rx_rel cl [] prev [] t"
| Rx_break: "at_break (cl_word cl) prev (s @ t) \<Longrightarrow> rx_rel cl r prev s t \<Longrightarrow> rx_rel cl (Word_break # r) prev s t"
| Rx_word: "w \<in> set ws \<Longrightarrow> list_all2 same_letter w x \<Longrightarrow> rx_rel cl r (prev_of prev x) s t \<Longrightarrow>
    rx_rel cl (One_of ws # r) prev (x @ s) t"
| Rx_gap: "length x \<le> n \<Longrightarrow> 10 \<notin> set x \<Longrightarrow> rx_rel cl r (prev_of prev x) s t \<Longrightarrow> rx_rel cl (Up_to n # r) prev (x @ s) t"
| Rx_spaces: "m \<le> length x \<Longrightarrow> list_all (cl_space cl) x \<Longrightarrow> rx_rel cl r (prev_of prev x) s t \<Longrightarrow>
    rx_rel cl (Spaces m # r) prev (x @ s) t"

inductive_cases rx_relE:
  "rx_rel cl [] prev s t" "rx_rel cl (Word_break # r) prev s t" "rx_rel cl (One_of ws # r) prev s t"
  "rx_rel cl (Up_to n # r) prev s t" "rx_rel cl (Spaces m # r) prev s t"

lemma split_Cons: "(\<exists>x u. c # t = x @ u \<and> P x u) \<longleftrightarrow> P [] (c # t) \<or> (\<exists>x u. t = x @ u \<and> P (c # x) u)"
proof
  assume "\<exists>x u. c # t = x @ u \<and> P x u"
  then obtain x u where "c # t = x @ u" "P x u" by blast
  then show "P [] (c # t) \<or> (\<exists>x u. t = x @ u \<and> P (c # x) u)" by (cases x) auto
next
  assume "P [] (c # t) \<or> (\<exists>x u. t = x @ u \<and> P (c # x) u)"
  then show "\<exists>x u. c # t = x @ u \<and> P x u" by (metis append_Cons append_Nil)
qed

lemma split_part: "(\<exists>x s v. t = x @ s @ v \<and> P x s v) \<longleftrightarrow> (\<exists>s u. t = s @ u \<and> (\<exists>x r. s = x @ r \<and> P x r u))" (is "?l = ?r")
proof
  assume ?l
  then obtain x s v where "t = (x @ s) @ v" "P x s v" by auto
  then show ?r by blast
next
  assume ?r
  then obtain x r u where "t = x @ r @ u" "P x r u" by auto
  then show ?l by blast
qed

lemma split_rest:
  "(\<exists>u x. t = x @ u \<and> L x \<and> (\<exists>s v. u = s @ v \<and> R x s v)) \<longleftrightarrow> (\<exists>x s v. t = x @ s @ v \<and> L x \<and> R x s v)"
  by auto

lemma after_word_iff: "after_word w prev t = Some (p, u) \<longleftrightarrow> (\<exists>x. t = x @ u \<and> list_all2 same_letter w x \<and> p = prev_of prev x)"
proof (induction w prev t rule: after_word.induct)
  case (1 prev t)
  then show ?case by auto
next
  case (2 w ws prev)
  then show ?case by (auto simp: list_all2_Cons1)
next
  case (3 w ws prev c t)
  then show ?case by (auto simp: list_all2_Cons1 Cons_eq_append_conv)
qed

lemma gap_then_iff:
  "gap_then ok n k prev t \<longleftrightarrow> (\<exists>x u. t = x @ u \<and> length x \<le> n \<and> list_all ok x \<and> k (prev_of prev x) u)"
proof (induction ok n k prev t rule: gap_then.induct)
  case (1 ok n k prev)
  then show ?case by auto
next
  case (2 ok n k prev c t)
  have e: "(\<exists>x u. c # t = x @ u \<and> length x \<le> n \<and> list_all ok x \<and> k (prev_of prev x) u) \<longleftrightarrow>
      k prev (c # t) \<or> 0 < n \<and> ok c \<and> (\<exists>x u. t = x @ u \<and> length x \<le> n - 1 \<and> list_all ok x \<and> k (prev_of (Some c) x) u)"
    unfolding split_Cons [where P = "\<lambda>x u. length x \<le> n \<and> list_all ok x \<and> k (prev_of prev x) u"] by (cases n) auto
  show ?case
  proof (cases "0 < n \<and> ok c")
    case True
    then show ?thesis using 2 e by simp
  qed (use e in auto)
qed

lemma spaces_then_iff:
  "spaces_then sp m k prev t \<longleftrightarrow> (\<exists>x u. t = x @ u \<and> m \<le> length x \<and> list_all sp x \<and> k (prev_of prev x) u)"
proof (induction sp m k prev t rule: spaces_then.induct)
  case (1 sp m k prev)
  then show ?case by auto
next
  case (2 sp m k prev c t)
  have e: "(\<exists>x u. c # t = x @ u \<and> m \<le> length x \<and> list_all sp x \<and> k (prev_of prev x) u) \<longleftrightarrow>
      m = 0 \<and> k prev (c # t) \<or> sp c \<and> (\<exists>x u. t = x @ u \<and> m - 1 \<le> length x \<and> list_all sp x \<and> k (prev_of (Some c) x) u)"
    unfolding split_Cons [where P = "\<lambda>x u. m \<le> length x \<and> list_all sp x \<and> k (prev_of prev x) u"] by (cases m) auto
  show ?case
  proof (cases "sp c")
    case True
    then show ?thesis using 2 e by simp
  qed (use e in auto)
qed

lemma rx_rel_word: "rx_rel cl (One_of ws # r) prev s t \<longleftrightarrow>
    (\<exists>x v. s = x @ v \<and> (\<exists>w \<in> set ws. list_all2 same_letter w x \<and> rx_rel cl r (prev_of prev x) v t))"
  by (auto intro: Rx_word elim!: rx_relE)

lemma rx_rel_gap: "rx_rel cl (Up_to n # r) prev s t \<longleftrightarrow>
    (\<exists>x v. s = x @ v \<and> length x \<le> n \<and> 10 \<notin> set x \<and> rx_rel cl r (prev_of prev x) v t)"
  by (auto intro: Rx_gap elim!: rx_relE)

lemma rx_rel_spaces: "rx_rel cl (Spaces m # r) prev s t \<longleftrightarrow>
    (\<exists>x v. s = x @ v \<and> m \<le> length x \<and> list_all (cl_space cl) x \<and> rx_rel cl r (prev_of prev x) v t)"
  by (auto intro: Rx_spaces elim!: rx_relE)

lemma rx_at_iff: "rx_at cl r prev t \<longleftrightarrow> (\<exists>s u. t = s @ u \<and> rx_rel cl r prev s u)"
proof (induction r arbitrary: prev t)
  case Nil
  then show ?case by (auto intro: rx_rel.intros)
next
  case (Cons item r)
  note IH = Cons.IH
  show ?case
  proof (cases item)
    case Word_break
    then show ?thesis using IH by (auto intro: rx_rel.intros elim!: rx_relE)
  next
    case (One_of ws)
    have "rx_at cl (One_of ws # r) prev t \<longleftrightarrow> (\<exists>w \<in> set ws. \<exists>p u. after_word w prev t = Some (p, u) \<and> rx_at cl r p u)"
      unfolding rx_at.simps list_ex_iff by (intro bex_cong refl) (auto split: option.splits)
    also have "\<dots> \<longleftrightarrow> (\<exists>w \<in> set ws. \<exists>u x. t = x @ u \<and> list_all2 same_letter w x \<and> rx_at cl r (prev_of prev x) u)"
      unfolding after_word_iff by (intro bex_cong refl iffI; elim exE conjE) auto
    also have "\<dots> \<longleftrightarrow> (\<exists>w \<in> set ws. \<exists>x s v. t = x @ s @ v \<and> list_all2 same_letter w x \<and> rx_rel cl r (prev_of prev x) s v)"
      by (simp only: IH split_rest)
    also have "\<dots> \<longleftrightarrow>
        (\<exists>x s v. t = x @ s @ v \<and> (\<exists>w \<in> set ws. list_all2 same_letter w x \<and> rx_rel cl r (prev_of prev x) s v))"
      by blast
    finally show ?thesis unfolding split_part rx_rel_word One_of .
  next
    case (Up_to n)
    have "list_all (\<lambda>c. c \<noteq> 10) x \<longleftrightarrow> 10 \<notin> set x" for x :: pytext by (auto simp: list_all_iff)
    then have "rx_at cl (Up_to n # r) prev t \<longleftrightarrow>
        (\<exists>x s v. t = x @ s @ v \<and> length x \<le> n \<and> 10 \<notin> set x \<and> rx_rel cl r (prev_of prev x) s v)"
      unfolding rx_at.simps gap_then_iff IH by blast
    then show ?thesis unfolding split_part rx_rel_gap Up_to .
  next
    case (Spaces m)
    have "rx_at cl (Spaces m # r) prev t \<longleftrightarrow>
        (\<exists>x s v. t = x @ s @ v \<and> m \<le> length x \<and> list_all (cl_space cl) x \<and> rx_rel cl r (prev_of prev x) s v)"
      unfolding rx_at.simps spaces_then_iff IH by blast
    then show ?thesis unfolding split_part rx_rel_spaces Spaces .
  qed
qed

lemma rx_search_at: "rx_search cl r prev t \<longleftrightarrow> (\<exists>x u. t = x @ u \<and> rx_at cl r (prev_of prev x) u)"
proof (induction t arbitrary: prev)
  case (Cons c t)
  have "(\<exists>x u. c # t = x @ u \<and> rx_at cl r (prev_of prev x) u) \<longleftrightarrow>
      rx_at cl r prev (c # t) \<or> (\<exists>x u. t = x @ u \<and> rx_at cl r (prev_of (Some c) x) u)"
    unfolding split_Cons [where P = "\<lambda>x u. rx_at cl r (prev_of prev x) u"] by simp
  then show ?case using Cons by simp
qed simp

text \<open>The matcher decides the declarative meaning of a pattern: it finds one exactly when some part of the text matches.\<close>

theorem rx_search_iff:
  "rx_search cl r None t \<longleftrightarrow> (\<exists>x s u. t = x @ s @ u \<and> rx_rel cl r (prev_of None x) s u)"
  unfolding rx_search_at rx_at_iff by blast

end
