(* ===== verification/Goal_Records.thy ===== *)
theory Goal_Records
  imports Core_Models Goal_Text "HOL-Library.FSet" "HOL-Library.List_Lexorder" "HOL-Library.Char_ord" "HOL-Library.Countable"
begin

text \<open>
  \<open>models/goal.py\<close>: goal manifests and their digests, proposed steps and mutations, approvals, the policy, results and
  audit events. SHA-256 over canonical JSON is a function \<open>goal_digest\<close> of the payload; payloads list what the code
  puts in the dictionary. The approver set is serialized in its iteration order, so a context keeps it as a list.
  Identifier patterns and maximal lengths of identifiers are left out.
\<close>

datatype constraint_kind = Ck_requirement | Ck_prohibition | Ck_boundary

instance constraint_kind :: countable by countable_datatype

datatype goal_source = So_user | So_application | So_agent | So_delegate | So_retrieved | So_tool | So_memory

instance goal_source :: countable by countable_datatype

datatype goal_operation = Go_plan_step | Go_mutation

datatype goal_code =
    Gl_integrity_invalid | Gl_manifest_expired | Gl_approval_context_expired | Gl_state_binding_mismatch | Gl_stale_manifest
  | Gl_execution_mismatch | Gl_session_mismatch | Gl_owner_mismatch | Gl_tenant_mismatch | Gl_actor_not_authorized
  | Gl_delegation_not_established | Gl_goal_binding_mismatch | Gl_constraint_binding_mismatch | Gl_action_not_allowed
  | Gl_delegate_not_allowed | Gl_step_sequence_invalid | Gl_step_replayed | Gl_step_limit_exceeded
  | Gl_step_content_limit_exceeded | Gl_hijack_pattern | Gl_encoded_hijack | Gl_split_drift | Gl_approval_required
  | Gl_mutation_limit_exceeded | Gl_approval_invalid | Gl_approval_expired | Gl_approval_replayed | Gl_invalid_mutation

section \<open>Manifests\<close>

record goal_owner =
  glo_owner_id :: ident
  glo_tenant_id :: ident

record goal_principal =
  gln_actor_id :: ident
  gln_owner_id :: ident
  gln_tenant_id :: ident

record goal_constraint =
  glc_id :: ident
  glc_kind :: constraint_kind
  glc_description :: pytext

record goal_context =
  glx_context_id :: ident
  glx_authorized_by :: ident
  glx_approvers :: "ident list"
  glx_issued_at :: datetime
  glx_expires_at :: datetime

definition goal_context_ok :: "goal_context \<Rightarrow> bool" where
  "goal_context_ok x \<longleftrightarrow> glx_approvers x \<noteq> [] \<and> length (glx_approvers x) \<le> 1000 \<and> distinct (glx_approvers x) \<and>
     glx_issued_at x < glx_expires_at x"

text \<open>The dictionaries that are hashed: constraints by identifier, sets sorted, the approval context as dumped.\<close>

type_synonym constraint_fields = "ident \<times> pytext \<times> constraint_kind"

datatype goal_payload =
    Constraint_content constraint_fields
  | Goal_content "ident list" "ident list" "constraint_fields list" pytext
  | Manifest_content "ident \<times> ident \<times> ident list \<times> datetime \<times> datetime" ident datetime string datetime ident
      "ident \<times> ident" "string option" ident nat string ident
  | Mutation_content ident string ident "ident \<times> ident \<times> ident" "ident list option" "ident list option"
      "constraint_fields list option" "pytext option" pytext ident goal_source

instance goal_payload :: countable by countable_datatype

type_synonym goal_digest = "goal_payload \<Rightarrow> string"

definition constraint_payload :: "goal_constraint \<Rightarrow> constraint_fields" where
  "constraint_payload c = (glc_id c, glc_description c, glc_kind c)"

definition constraint_digest :: "goal_digest \<Rightarrow> goal_constraint \<Rightarrow> string" where
  "constraint_digest dg c = dg (Constraint_content (constraint_payload c))"

definition constraints_payload :: "goal_constraint list \<Rightarrow> constraint_fields list" where
  "constraints_payload cs = map constraint_payload (sort_key glc_id cs)"

record goal_manifest =
  glm_id :: ident
  glm_execution_id :: ident
  glm_session_id :: ident
  glm_owner :: goal_owner
  glm_primary_actor :: ident
  glm_objective :: pytext
  glm_constraints :: "goal_constraint list"
  glm_actions :: "ident fset"
  glm_delegates :: "ident fset"
  glm_context :: goal_context
  glm_issued_at :: datetime
  glm_expires_at :: datetime
  glm_revision :: nat
  glm_parent_digest :: "string option"
  glm_root_digest :: string
  glm_goal_digest :: string
  glm_digest :: string

definition goal_content_digest :: "goal_digest \<Rightarrow> pytext \<Rightarrow> goal_constraint list \<Rightarrow> ident fset \<Rightarrow> ident fset \<Rightarrow> string" where
  "goal_content_digest dg objective cs actions delegates =
     dg (Goal_content (sorted_list_of_fset actions) (sorted_list_of_fset delegates) (constraints_payload cs) objective)"

definition context_payload :: "goal_context \<Rightarrow> ident \<times> ident \<times> ident list \<times> datetime \<times> datetime" where
  "context_payload x = (glx_context_id x, glx_authorized_by x, glx_approvers x, glx_issued_at x, glx_expires_at x)"

text \<open>\<open>_manifest_digest\<close> over the fields of \<open>m\<close>, with the goal digest given.\<close>

definition manifest_digest_with :: "goal_digest \<Rightarrow> string \<Rightarrow> goal_manifest \<Rightarrow> string" where
  "manifest_digest_with dg goal m =
     dg (Manifest_content (context_payload (glm_context m)) (glm_execution_id m) (glm_expires_at m) goal (glm_issued_at m)
       (glm_id m) (glo_owner_id (glm_owner m), glo_tenant_id (glm_owner m)) (glm_parent_digest m) (glm_primary_actor m)
       (glm_revision m) (glm_root_digest m) (glm_session_id m))"

definition manifest_integrity :: "goal_digest \<Rightarrow> goal_manifest \<Rightarrow> bool" where
  "manifest_integrity dg m \<longleftrightarrow>
     (let goal = goal_content_digest dg (glm_objective m) (glm_constraints m) (glm_actions m) (glm_delegates m)
      in glm_goal_digest m = goal \<and> glm_digest m = manifest_digest_with dg goal m)"

definition constraint_ids :: "goal_manifest \<Rightarrow> ident set" where
  "constraint_ids m = glc_id ` set (glm_constraints m)"

text \<open>The field bounds and \<open>validate_manifest\<close>.\<close>

definition goal_manifest_ok :: "goal_digest \<Rightarrow> goal_manifest \<Rightarrow> bool" where
  "goal_manifest_ok dg m \<longleftrightarrow>
     1 \<le> length (glm_objective m) \<and> length (glm_objective m) \<le> 16000 \<and> length (glm_constraints m) \<le> 128 \<and>
     1 \<le> fcard (glm_actions m) \<and> fcard (glm_actions m) \<le> 1000 \<and> fcard (glm_delegates m) \<le> 1000 \<and>
     1 \<le> glm_revision m \<and> glm_revision m \<le> 10000 \<and>
     distinct (map glc_id (glm_constraints m)) \<and> glm_primary_actor m |\<notin>| glm_delegates m \<and>
     glm_issued_at m < glm_expires_at m \<and> manifest_integrity dg m"

text \<open>
  \<open>GoalManifest.create\<close>: the digests are computed and the manifest validated. The argument's own digest fields are
  ignored; its root digest is \<open>root_arg\<close> when one is given. \<open>None\<close> where validation raises.
\<close>

definition seal_manifest :: "goal_digest \<Rightarrow> string option \<Rightarrow> goal_manifest \<Rightarrow> goal_manifest" where
  "seal_manifest dg root_arg m =
     (let goal = goal_content_digest dg (glm_objective m) (glm_constraints m) (glm_actions m) (glm_delegates m);
          root_digest = (case root_arg of Some r \<Rightarrow> if r \<noteq> [] then r else goal | None \<Rightarrow> goal);
          m' = m\<lparr>glm_root_digest := root_digest, glm_goal_digest := goal\<rparr>
      in m'\<lparr>glm_digest := manifest_digest_with dg goal m'\<rparr>)"

definition create_manifest :: "goal_digest \<Rightarrow> string option \<Rightarrow> goal_manifest \<Rightarrow> goal_manifest option" where
  "create_manifest dg root_arg m =
     (let m' = seal_manifest dg root_arg m in if goal_manifest_ok dg m' then Some m' else None)"

section \<open>Proposals\<close>

record plan_step =
  gls_id :: ident
  gls_sequence :: nat
  gls_execution_id :: ident
  gls_session_id :: ident
  gls_principal :: goal_principal
  gls_source :: goal_source
  gls_action_id :: ident
  gls_description :: pytext
  gls_expected_digest :: string
  gls_constraints :: "ident set"
  gls_delegated_to :: "ident option"

record goal_approval =
  gla_id :: ident
  gla_mutation_digest :: string
  gla_approver_id :: ident
  gla_expires_at :: datetime

record goal_mutation =
  glu_id :: ident
  glu_execution_id :: ident
  glu_session_id :: ident
  glu_principal :: goal_principal
  glu_source :: goal_source
  glu_expected_digest :: string
  glu_reason :: pytext
  glu_objective :: "pytext option"
  glu_constraints :: "goal_constraint list option"
  glu_actions :: "ident fset option"
  glu_delegates :: "ident fset option"
  glu_approval :: "goal_approval option"

definition goal_mutation_ok :: "goal_mutation \<Rightarrow> bool" where
  "goal_mutation_ok u \<longleftrightarrow> \<not> (glu_objective u = None \<and> glu_constraints u = None \<and> glu_actions u = None \<and> glu_delegates u = None)"

definition mutation_digest :: "goal_digest \<Rightarrow> goal_mutation \<Rightarrow> string" where
  "mutation_digest dg u =
     dg (Mutation_content (glu_execution_id u) (glu_expected_digest u) (glu_id u)
       (gln_actor_id (glu_principal u), gln_owner_id (glu_principal u), gln_tenant_id (glu_principal u))
       (map_option sorted_list_of_fset (glu_actions u)) (map_option sorted_list_of_fset (glu_delegates u))
       (map_option constraints_payload (glu_constraints u)) (glu_objective u) (glu_reason u) (glu_session_id u) (glu_source u))"

section \<open>Policy and results\<close>

record goal_policy =
  glp_max_steps :: nat
  glp_max_mutations :: nat
  glp_max_step_chars :: nat
  glp_max_history_chars :: nat
  glp_all_constraints :: bool
  glp_detect_encoded :: bool
  glp_detect_split :: bool

definition goal_policy_ok :: "goal_policy \<Rightarrow> bool" where
  "goal_policy_ok p \<longleftrightarrow> 1 \<le> glp_max_steps p \<and> glp_max_steps p \<le> 1000000 \<and> glp_max_mutations p \<le> 10000 \<and>
     1 \<le> glp_max_step_chars p \<and> glp_max_step_chars p \<le> 1000000 \<and> 1 \<le> glp_max_history_chars p \<and> glp_max_history_chars p \<le> 2000000"

record goal_finding =
  glf_code :: goal_code
  glf_severity :: severity
  glf_message :: string

record authorized_step =
  glz_authorization_id :: ident
  glz_step_id :: ident
  glz_sequence :: nat
  glz_manifest_digest :: string
  glz_execution_id :: ident
  glz_session_id :: ident
  glz_actor_id :: ident
  glz_action_id :: ident
  glz_delegated_to :: "ident option"
  glz_description :: pytext

record goal_audit =
  gle_operation :: goal_operation
  gle_action :: guard_action
  gle_manifest_id :: ident
  gle_execution_id :: ident
  gle_session_id :: ident
  gle_owner_id :: ident
  gle_tenant_id :: ident
  gle_actor_id :: ident
  gle_source :: goal_source
  gle_root_digest :: string
  gle_goal_digest :: string
  gle_manifest_digest :: string
  gle_change_digest :: "string option"
  gle_approval_id :: "ident option"
  gle_codes :: "goal_code list"

record goal_result =
  glr_action :: guard_action
  glr_findings :: "goal_finding list"
  glr_authorization :: "authorized_step option"
  glr_updated :: "goal_manifest option"
  glr_event :: goal_audit

definition goal_is_authorized :: "goal_result \<Rightarrow> bool" where
  "goal_is_authorized r \<longleftrightarrow> glr_action r = ALLOW \<and> glr_authorization r \<noteq> None"

definition goal_is_blocked :: "goal_result \<Rightarrow> bool" where
  "goal_is_blocked r \<longleftrightarrow> glr_action r = BLOCK"

definition goal_requires_approval :: "goal_result \<Rightarrow> bool" where
  "goal_requires_approval r \<longleftrightarrow> glr_action r = REQUIRE_APPROVAL"

section \<open>Manifest facts\<close>

lemma seal_manifest_simps [simp]:
  "glm_id (seal_manifest dg root_arg m) = glm_id m" "glm_execution_id (seal_manifest dg root_arg m) = glm_execution_id m"
  "glm_session_id (seal_manifest dg root_arg m) = glm_session_id m" "glm_owner (seal_manifest dg root_arg m) = glm_owner m"
  "glm_primary_actor (seal_manifest dg root_arg m) = glm_primary_actor m" "glm_objective (seal_manifest dg root_arg m) = glm_objective m"
  "glm_constraints (seal_manifest dg root_arg m) = glm_constraints m" "glm_actions (seal_manifest dg root_arg m) = glm_actions m"
  "glm_delegates (seal_manifest dg root_arg m) = glm_delegates m" "glm_context (seal_manifest dg root_arg m) = glm_context m"
  "glm_issued_at (seal_manifest dg root_arg m) = glm_issued_at m" "glm_expires_at (seal_manifest dg root_arg m) = glm_expires_at m"
  "glm_revision (seal_manifest dg root_arg m) = glm_revision m" "glm_parent_digest (seal_manifest dg root_arg m) = glm_parent_digest m"
  by (simp_all add: seal_manifest_def Let_def)

lemma seal_manifest_root: "r \<noteq> [] \<Longrightarrow> glm_root_digest (seal_manifest dg (Some r) m) = r"
  by (simp add: seal_manifest_def Let_def)

lemma seal_manifest_integrity: "manifest_integrity dg (seal_manifest dg root_arg m)"
  by (simp add: seal_manifest_def manifest_integrity_def manifest_digest_with_def Let_def)

text \<open>Integrity-valid manifests with the same digest agree on everything that the digests cover.\<close>

lemma same_digest:
  assumes "inj dg" and "manifest_integrity dg m" "manifest_integrity dg m'" and "glm_digest m = glm_digest m'"
  shows "glm_revision m = glm_revision m'" and "glm_delegates m = glm_delegates m'" and "glm_actions m = glm_actions m'"
    and "glm_root_digest m = glm_root_digest m'" and "glm_expires_at m = glm_expires_at m'"
proof -
  let ?goal = "\<lambda>m. goal_content_digest dg (glm_objective m) (glm_constraints m) (glm_actions m) (glm_delegates m)"
  have "manifest_digest_with dg (?goal m) m = manifest_digest_with dg (?goal m') m'"
    using assms(2-4) by (simp add: manifest_integrity_def Let_def)
  then have f: "glm_revision m = glm_revision m'" "glm_root_digest m = glm_root_digest m'" "glm_expires_at m = glm_expires_at m'"
      "?goal m = ?goal m'"
    by (simp_all add: manifest_digest_with_def inj_eq [OF assms(1)])
  then show "glm_revision m = glm_revision m'" "glm_root_digest m = glm_root_digest m'" "glm_expires_at m = glm_expires_at m'"
    by simp_all
  have "sorted_list_of_fset (glm_actions m) = sorted_list_of_fset (glm_actions m')"
       "sorted_list_of_fset (glm_delegates m) = sorted_list_of_fset (glm_delegates m')"
    using f(4) by (simp_all add: goal_content_digest_def inj_eq [OF assms(1)])
  then show "glm_actions m = glm_actions m'" "glm_delegates m = glm_delegates m'"
    by (metis sorted_list_of_fset_simps(2))+
qed

text \<open>
  A manifest whose approver set comes back in another iteration order fails its integrity check, although nothing in it
  has changed: the order is hashed with the approval context.
\<close>

lemma reordered_approvers_invalid:
  assumes "inj dg" and "manifest_integrity dg m" and "ys \<noteq> glx_approvers (glm_context m)"
  shows "\<not> manifest_integrity dg (m\<lparr>glm_context := (glm_context m)\<lparr>glx_approvers := ys\<rparr>\<rparr>)"
  using assms by (auto simp: manifest_integrity_def manifest_digest_with_def context_payload_def inj_eq Let_def)

end
