(* ===== verification/Goal_Integrity.thy ===== *)
theory Goal_Integrity
  imports Goal_Records
begin

text \<open>
  \<open>goal_integrity.py\<close>: the execution state and \<open>GoalIntegrityGuard\<close>. \<open>validate_step\<close> and \<open>validate_mutation\<close> check a
  proposal, then take the lock, check again and update the state; the two halves are separate definitions, so that
  callers may interleave between them. The approval verifier is a function that may raise. \<open>None\<close> where validation of the
  updated manifest raises.
\<close>

section \<open>State\<close>

record goal_state =
  glt_manifest_id :: ident
  glt_manifest_digest :: string
  glt_execution_id :: ident
  glt_session_id :: ident
  glt_primary_actor :: ident
  glt_delegates :: "ident set"
  glt_step_count :: nat
  glt_mutation_count :: nat
  glt_seen_steps :: "ident set"
  glt_used_approvals :: "ident set"
  glt_fragments :: "pytext list"
  glt_drift_chars :: int

record goal_guard =
  glg_policy :: goal_policy
  glg_lib :: char_lib
  glg_digest :: goal_digest

type_synonym goal_verifier = "(goal_approval \<Rightarrow> bool option) option"

definition static_goal_verifier :: "ident set \<Rightarrow> goal_verifier" where
  "static_goal_verifier valid = Some (\<lambda>a. Some (gla_id a \<in> valid))"

text \<open>\<open>None\<close> where \<open>new_state\<close> raises.\<close>

definition new_goal_state :: "goal_guard \<Rightarrow> goal_manifest \<Rightarrow> goal_state option" where
  "new_goal_state g m =
     (if \<not> manifest_integrity (glg_digest g) m then None
      else Some \<lparr>glt_manifest_id = glm_id m, glt_manifest_digest = glm_digest m, glt_execution_id = glm_execution_id m,
        glt_session_id = glm_session_id m, glt_primary_actor = glm_primary_actor m, glt_delegates = {}, glt_step_count = 0,
        glt_mutation_count = 0, glt_seen_steps = {}, glt_used_approvals = {}, glt_fragments = [], glt_drift_chars = 0\<rparr>)"

section \<open>Findings\<close>

definition gl_find :: "goal_code \<Rightarrow> string \<Rightarrow> goal_finding" where
  "gl_find c msg = \<lparr>glf_code = c, glf_severity = HIGH, glf_message = msg\<rparr>"

definition gl_find_critical :: "goal_code \<Rightarrow> string \<Rightarrow> goal_finding" where
  "gl_find_critical c msg = \<lparr>glf_code = c, glf_severity = CRITICAL, glf_message = msg\<rparr>"

definition manifest_findings :: "goal_guard \<Rightarrow> goal_manifest \<Rightarrow> goal_state \<Rightarrow> datetime \<Rightarrow> goal_finding list" where
  "manifest_findings g m s now =
     (if \<not> manifest_integrity (glg_digest g) m
        then [gl_find_critical Gl_integrity_invalid ''Goal manifest failed its integrity check''] else []) @
     (if glm_expires_at m \<le> now then [gl_find Gl_manifest_expired ''Goal manifest has expired''] else []) @
     (if glx_expires_at (glm_context m) \<le> now
        then [gl_find Gl_approval_context_expired ''Original goal approval context has expired''] else []) @
     (if glt_manifest_id s \<noteq> glm_id m \<or> glt_execution_id s \<noteq> glm_execution_id m \<or> glt_session_id s \<noteq> glm_session_id m \<or>
         glt_primary_actor s \<noteq> glm_primary_actor m
        then [gl_find_critical Gl_state_binding_mismatch ''Execution state is not bound to this goal manifest'']
      else if glt_manifest_digest s \<noteq> glm_digest m
        then [gl_find Gl_stale_manifest ''Goal manifest is stale or differs from execution state''] else [])"

definition request_binding_findings ::
  "goal_manifest \<Rightarrow> ident \<Rightarrow> ident \<Rightarrow> goal_principal \<Rightarrow> string \<Rightarrow> goal_state \<Rightarrow> goal_finding list" where
  "request_binding_findings m execution session who expected s =
     map snd (filter fst
       [(execution \<noteq> glm_execution_id m, gl_find Gl_execution_mismatch ''Proposal belongs to a different execution''),
        (session \<noteq> glm_session_id m, gl_find Gl_session_mismatch ''Proposal belongs to a different session''),
        (gln_owner_id who \<noteq> glo_owner_id (glm_owner m),
         gl_find Gl_owner_mismatch ''Proposal owner differs from the authorized goal owner''),
        (gln_tenant_id who \<noteq> glo_tenant_id (glm_owner m),
         gl_find Gl_tenant_mismatch ''Proposal tenant differs from the authorized goal tenant''),
        (expected \<noteq> glm_digest m, gl_find Gl_goal_binding_mismatch ''Proposal is not bound to the current goal manifest'')]) @
     (if gln_actor_id who \<notin> insert (glm_primary_actor m) (glt_delegates s)
      then [gl_find (if gln_actor_id who |\<in>| glm_delegates m then Gl_delegation_not_established else Gl_actor_not_authorized)
              ''Actor is not authorized for the current execution''] else [])"

definition state_step_findings :: "goal_guard \<Rightarrow> plan_step \<Rightarrow> goal_state \<Rightarrow> goal_finding list" where
  "state_step_findings g p s =
     (if gls_id p \<in> glt_seen_steps s
        then [gl_find Gl_step_replayed ''Plan step identifier has already been authorized''] else []) @
     (if gls_sequence p \<noteq> glt_step_count s + 1
        then [gl_find Gl_step_sequence_invalid ''Plan step sequence is missing, duplicated, or out of order''] else []) @
     (if glp_max_steps (glg_policy g) \<le> glt_step_count s
        then [gl_find Gl_step_limit_exceeded ''Plan step limit has been reached for this execution''] else [])"

definition constraint_mismatch :: "goal_guard \<Rightarrow> goal_manifest \<Rightarrow> plan_step \<Rightarrow> bool" where
  "constraint_mismatch g m p \<longleftrightarrow>
     (if glp_all_constraints (glg_policy g) then gls_constraints p \<noteq> constraint_ids m
      else \<not> gls_constraints p \<subseteq> constraint_ids m)"

text \<open>The text that is searched for an instruction split over several steps.\<close>

definition combined_history :: "goal_state \<Rightarrow> pytext \<Rightarrow> pytext" where
  "combined_history s description = concat (glt_fragments s) @ 32 # description"

definition split_hijack :: "goal_guard \<Rightarrow> goal_state \<Rightarrow> pytext \<Rightarrow> bool" where
  "split_hijack g s description \<longleftrightarrow>
     (let combined = combined_history s description in
      contains_hijack (glg_lib g) combined \<or> contains_compact_hijack (glg_lib g) (compact_text (glg_lib g) combined))"

definition content_findings :: "goal_guard \<Rightarrow> plan_step \<Rightarrow> goal_state \<Rightarrow> goal_finding list" where
  "content_findings g p s =
     (let (direct, encoded) = detect_hijack (glg_lib g) (gls_description p) in
      (if encoded \<and> glp_detect_encoded (glg_policy g)
         then [gl_find Gl_encoded_hijack ''Plan step contains an encoded goal-hijacking instruction'']
       else if direct then [gl_find Gl_hijack_pattern ''Plan step contains a goal-hijacking instruction''] else []) @
      (if glp_detect_split (glg_policy g) \<and> glt_fragments s \<noteq> [] \<and> \<not> direct \<and> \<not> encoded \<and> split_hijack g s (gls_description p)
       then [gl_find Gl_split_drift ''Goal-hijacking instruction was assembled across plan steps''] else []))"

definition step_findings :: "goal_guard \<Rightarrow> goal_manifest \<Rightarrow> plan_step \<Rightarrow> goal_state \<Rightarrow> goal_finding list" where
  "step_findings g m p s =
     state_step_findings g p s @
     (if constraint_mismatch g m p
        then [gl_find Gl_constraint_binding_mismatch ''Plan step does not carry the authorized constraint set''] else []) @
     (if gls_action_id p |\<notin>| glm_actions m
        then [gl_find Gl_action_not_allowed ''Plan step action is outside the goal manifest''] else []) @
     (case gls_delegated_to p of
        Some d \<Rightarrow> if d |\<notin>| glm_delegates m
          then [gl_find Gl_delegate_not_allowed ''Plan step delegates to an actor outside the goal manifest''] else []
      | None \<Rightarrow> []) @
     (if glp_max_step_chars (glg_policy g) < length (gls_description p)
        then [gl_find Gl_step_content_limit_exceeded ''Plan step exceeds the bounded goal-drift scan limit'']
      else content_findings g p s)"

definition is_material_mutation :: "goal_manifest \<Rightarrow> goal_mutation \<Rightarrow> bool" where
  "is_material_mutation m u \<longleftrightarrow>
     (case glu_objective u of Some x \<Rightarrow> x \<noteq> glm_objective m | None \<Rightarrow> False) \<or>
     (case glu_constraints u of Some x \<Rightarrow> x \<noteq> glm_constraints m | None \<Rightarrow> False) \<or>
     (case glu_actions u of Some x \<Rightarrow> x \<noteq> glm_actions m | None \<Rightarrow> False) \<or>
     (case glu_delegates u of Some x \<Rightarrow> x \<noteq> glm_delegates m | None \<Rightarrow> False)"

definition mutation_structure_findings :: "goal_manifest \<Rightarrow> goal_mutation \<Rightarrow> goal_finding list" where
  "mutation_structure_findings m u =
     (let duplicate = (case glu_constraints u of Some cs \<Rightarrow> \<not> distinct (map glc_id cs) | None \<Rightarrow> False);
          invalid = (case glu_delegates u of Some ds \<Rightarrow> glm_primary_actor m |\<in>| ds | None \<Rightarrow> False)
      in if \<not> duplicate \<and> \<not> invalid then []
         else [gl_find Gl_invalid_mutation ''Proposed goal mutation contains an invalid constraint or delegate set''])"

definition goal_approval_invalid ::
  "goal_guard \<Rightarrow> goal_verifier \<Rightarrow> goal_manifest \<Rightarrow> goal_mutation \<Rightarrow> goal_approval \<Rightarrow> bool" where
  "goal_approval_invalid g v m u a \<longleftrightarrow>
     gla_mutation_digest a \<noteq> mutation_digest (glg_digest g) u \<or>
     gla_approver_id a \<notin> set (glx_approvers (glm_context m)) \<or>
     (case v of None \<Rightarrow> True | Some verify \<Rightarrow> verify a \<noteq> Some True)"

definition goal_approval_findings ::
  "goal_guard \<Rightarrow> goal_verifier \<Rightarrow> goal_manifest \<Rightarrow> goal_mutation \<Rightarrow> goal_approval \<Rightarrow> goal_state \<Rightarrow> datetime \<Rightarrow> goal_finding list" where
  "goal_approval_findings g v m u a s now =
     (if gla_id a \<in> glt_used_approvals s
        then [gl_find Gl_approval_replayed ''Goal mutation approval has already been consumed''] else []) @
     (if gla_expires_at a \<le> now then [gl_find Gl_approval_expired ''Goal mutation approval has expired''] else []) @
     (if goal_approval_invalid g v m u a
        then [gl_find Gl_approval_invalid ''Goal mutation approval is invalid for this exact change''] else [])"

section \<open>Results\<close>

definition goal_event ::
  "goal_manifest \<Rightarrow> goal_operation \<Rightarrow> guard_action \<Rightarrow> ident \<Rightarrow> goal_source \<Rightarrow> goal_finding list \<Rightarrow> string option \<Rightarrow> ident option \<Rightarrow> goal_audit" where
  "goal_event m operation action actor source findings change approval =
     \<lparr>gle_operation = operation, gle_action = action, gle_manifest_id = glm_id m, gle_execution_id = glm_execution_id m,
      gle_session_id = glm_session_id m, gle_owner_id = glo_owner_id (glm_owner m), gle_tenant_id = glo_tenant_id (glm_owner m),
      gle_actor_id = actor, gle_source = source, gle_root_digest = glm_root_digest m, gle_goal_digest = glm_goal_digest m,
      gle_manifest_digest = glm_digest m, gle_change_digest = change, gle_approval_id = approval,
      gle_codes = map glf_code findings\<rparr>"

definition step_result :: "goal_manifest \<Rightarrow> plan_step \<Rightarrow> goal_finding list \<Rightarrow> authorized_step option \<Rightarrow> goal_result" where
  "step_result m p findings authorization =
     (let action = (if authorization = None then BLOCK else ALLOW) in
      \<lparr>glr_action = action, glr_findings = findings, glr_authorization = authorization, glr_updated = None,
       glr_event = goal_event m Go_plan_step action (gln_actor_id (gls_principal p)) (gls_source p) findings None None\<rparr>)"

definition mutation_result ::
  "goal_guard \<Rightarrow> goal_manifest \<Rightarrow> goal_mutation \<Rightarrow> guard_action \<Rightarrow> goal_finding list \<Rightarrow> goal_manifest option \<Rightarrow> goal_result" where
  "mutation_result g m u action findings updated =
     \<lparr>glr_action = action, glr_findings = findings, glr_authorization = None, glr_updated = updated,
      glr_event = goal_event m Go_mutation action (gln_actor_id (glu_principal u)) (glu_source u) findings
        (Some (mutation_digest (glg_digest g) u)) (map_option gla_id (glu_approval u))\<rparr>"

section \<open>Plan steps\<close>

definition step_check :: "goal_guard \<Rightarrow> goal_manifest \<Rightarrow> plan_step \<Rightarrow> datetime \<Rightarrow> goal_state \<Rightarrow> goal_finding list" where
  "step_check g m p now s =
     manifest_findings g m s now @
     request_binding_findings m (gls_execution_id p) (gls_session_id p) (gls_principal p) (gls_expected_digest p) s @
     step_findings g m p s"

fun trim_history :: "int \<Rightarrow> pytext list \<Rightarrow> int \<Rightarrow> pytext list \<times> int" where
  "trim_history limit [] n = ([], n)"
| "trim_history limit (x # xs) n = (if limit < n then trim_history limit xs (n - int (length x)) else (x # xs, n))"

definition remember_step :: "goal_guard \<Rightarrow> pytext \<Rightarrow> goal_state \<Rightarrow> goal_state" where
  "remember_step g description s =
     (let normalized = nr_normalized (normalize_text (cl_unicode (glg_lib g)) default_normalizer description);
          (fragments, chars) = trim_history (int (glp_max_history_chars (glg_policy g))) (glt_fragments s @ [normalized])
            (glt_drift_chars s + int (length normalized))
      in s\<lparr>glt_fragments := fragments, glt_drift_chars := chars\<rparr>)"

definition authorize_step :: "ident \<Rightarrow> goal_manifest \<Rightarrow> plan_step \<Rightarrow> authorized_step" where
  "authorize_step fresh m p =
     \<lparr>glz_authorization_id = fresh, glz_step_id = gls_id p, glz_sequence = gls_sequence p, glz_manifest_digest = glm_digest m,
      glz_execution_id = gls_execution_id p, glz_session_id = gls_session_id p, glz_actor_id = gln_actor_id (gls_principal p),
      glz_action_id = gls_action_id p, glz_delegated_to = gls_delegated_to p, glz_description = gls_description p\<rparr>"

text \<open>The locked half: counters and identifiers are checked again, then updated.\<close>

definition commit_step :: "goal_guard \<Rightarrow> ident \<Rightarrow> goal_manifest \<Rightarrow> plan_step \<Rightarrow> goal_state \<Rightarrow> goal_result \<times> goal_state" where
  "commit_step g fresh m p s =
     (let concurrent = state_step_findings g p s in
      if concurrent \<noteq> [] then (step_result m p concurrent None, s)
      else
        (let s = s\<lparr>glt_step_count := glt_step_count s + 1, glt_seen_steps := insert (gls_id p) (glt_seen_steps s)\<rparr>;
             s = remember_step g (gls_description p) s;
             s = (case gls_delegated_to p of Some d \<Rightarrow> s\<lparr>glt_delegates := insert d (glt_delegates s)\<rparr> | None \<Rightarrow> s)
         in (step_result m p [] (Some (authorize_step fresh m p)), s)))"

definition validate_step ::
  "goal_guard \<Rightarrow> ident \<Rightarrow> goal_manifest \<Rightarrow> plan_step \<Rightarrow> datetime \<Rightarrow> goal_state \<Rightarrow> goal_result \<times> goal_state" where
  "validate_step g fresh m p now s =
     (let findings = step_check g m p now s in
      if findings \<noteq> [] then (step_result m p findings None, s) else commit_step g fresh m p s)"

definition require_step ::
  "goal_guard \<Rightarrow> ident \<Rightarrow> goal_manifest \<Rightarrow> plan_step \<Rightarrow> datetime \<Rightarrow> goal_state \<Rightarrow> (goal_result + authorized_step) \<times> goal_state" where
  "require_step g fresh m p now s =
     (let (r, s') = validate_step g fresh m p now s in
      (case glr_authorization r of
         Some z \<Rightarrow> if goal_is_authorized r then (Inr z, s') else (Inl r, s')
       | None \<Rightarrow> (Inl r, s')))"

section \<open>Mutations\<close>

text \<open>The unlocked half: a final result, or the approval with which to take the lock.\<close>

definition mutation_check ::
  "goal_guard \<Rightarrow> goal_verifier \<Rightarrow> goal_manifest \<Rightarrow> goal_mutation \<Rightarrow> datetime \<Rightarrow> goal_state \<Rightarrow> goal_result + goal_approval" where
  "mutation_check g v m u now s =
     (let findings = manifest_findings g m s now @
        request_binding_findings m (glu_execution_id u) (glu_session_id u) (glu_principal u) (glu_expected_digest u) s in
      if findings \<noteq> [] then Inl (mutation_result g m u BLOCK findings None)
      else (let findings = mutation_structure_findings m u in
        if findings \<noteq> [] then Inl (mutation_result g m u BLOCK findings None)
        else if \<not> is_material_mutation m u then Inl (mutation_result g m u ALLOW [] (Some m))
        else (let limit = (if glp_max_mutations (glg_policy g) \<le> glt_mutation_count s
              then [gl_find Gl_mutation_limit_exceeded ''Goal mutation limit has been reached for this execution''] else []) in
          (case glu_approval u of
             None \<Rightarrow> Inl (mutation_result g m u (if limit \<noteq> [] then BLOCK else REQUIRE_APPROVAL)
               (limit @ [gl_find Gl_approval_required ''Material goal change requires explicit out-of-band approval'']) None)
           | Some a \<Rightarrow>
               (let findings = limit @ goal_approval_findings g v m u a s now in
                if findings \<noteq> [] then Inl (mutation_result g m u BLOCK findings None) else Inr a)))))"

definition updated_manifest :: "goal_guard \<Rightarrow> goal_manifest \<Rightarrow> goal_mutation \<Rightarrow> datetime \<Rightarrow> goal_manifest option" where
  "updated_manifest g m u now =
     create_manifest (glg_digest g) (Some (glm_root_digest m))
       (m\<lparr>glm_objective := (case glu_objective u of Some x \<Rightarrow> if x \<noteq> [] then x else glm_objective m | None \<Rightarrow> glm_objective m),
          glm_constraints := (case glu_constraints u of Some x \<Rightarrow> x | None \<Rightarrow> glm_constraints m),
          glm_actions := (case glu_actions u of Some x \<Rightarrow> x | None \<Rightarrow> glm_actions m),
          glm_delegates := (case glu_delegates u of Some x \<Rightarrow> x | None \<Rightarrow> glm_delegates m),
          glm_issued_at := now, glm_revision := glm_revision m + 1, glm_parent_digest := Some (glm_digest m)\<rparr>)"

definition commit_mutation ::
  "goal_guard \<Rightarrow> goal_manifest \<Rightarrow> goal_mutation \<Rightarrow> goal_approval \<Rightarrow> datetime \<Rightarrow> goal_state \<Rightarrow> goal_result option \<times> goal_state" where
  "commit_mutation g m u a now s =
     (if gla_id a \<in> glt_used_approvals s
      then (Some (mutation_result g m u BLOCK [gl_find Gl_approval_replayed ''Goal mutation approval has already been consumed''] None), s)
      else if glt_manifest_digest s \<noteq> glm_digest m
      then (Some (mutation_result g m u BLOCK [gl_find Gl_stale_manifest ''Goal manifest was superseded before mutation authorization''] None), s)
      else (case updated_manifest g m u now of
          None \<Rightarrow> (None, s)
        | Some m' \<Rightarrow>
            (Some (mutation_result g m u ALLOW [] (Some m')),
             s\<lparr>glt_manifest_digest := glm_digest m', glt_mutation_count := glt_mutation_count s + 1,
               glt_used_approvals := insert (gla_id a) (glt_used_approvals s),
               glt_delegates := glt_delegates s \<inter> fset (glm_delegates m')\<rparr>)))"

definition validate_mutation ::
  "goal_guard \<Rightarrow> goal_verifier \<Rightarrow> goal_manifest \<Rightarrow> goal_mutation \<Rightarrow> datetime \<Rightarrow> goal_state \<Rightarrow> goal_result option \<times> goal_state" where
  "validate_mutation g v m u now s =
     (case mutation_check g v m u now s of
        Inl r \<Rightarrow> (Some r, s)
      | Inr a \<Rightarrow> commit_mutation g m u a now s)"

definition require_mutation ::
  "goal_guard \<Rightarrow> goal_verifier \<Rightarrow> goal_manifest \<Rightarrow> goal_mutation \<Rightarrow> datetime \<Rightarrow> goal_state \<Rightarrow> (goal_result + goal_manifest) option \<times> goal_state" where
  "require_mutation g v m u now s =
     (let (r, s') = validate_mutation g v m u now s in
      (case r of
         None \<Rightarrow> (None, s')
       | Some x \<Rightarrow> (case glr_updated x of
           Some m' \<Rightarrow> if glr_action x = ALLOW then (Some (Inr m'), s') else (Some (Inl x), s')
         | None \<Rightarrow> (Some (Inl x), s'))))"

section \<open>The audit sink\<close>

record goal_sink =
  glk_max_events :: nat
  glk_events :: "goal_audit list"

definition new_goal_sink :: "int \<Rightarrow> goal_sink option" where
  "new_goal_sink n = (if n < 1 then None else Some \<lparr>glk_max_events = nat n, glk_events = []\<rparr>)"

definition goal_sink_emit :: "goal_audit \<Rightarrow> goal_sink \<Rightarrow> goal_sink" where
  "goal_sink_emit e k = k\<lparr>glk_events := deque_append (glk_max_events k) (glk_events k) e\<rparr>"

definition goal_sink_clear :: "goal_sink \<Rightarrow> goal_sink" where
  "goal_sink_clear k = k\<lparr>glk_events := []\<rparr>"

text \<open>\<open>_result\<close> emits the event of every result it builds; a guard may have no sink.\<close>

definition publish_goal :: "goal_result \<Rightarrow> goal_sink option \<Rightarrow> goal_sink option" where
  "publish_goal r k = map_option (goal_sink_emit (glr_event r)) k"

section \<open>Concurrent callers\<close>

text \<open>
  Calls in progress: steps and mutations that passed the unlocked half and wait for the lock. The histories record
  the steps that were authorized, with the time of their check, the approved mutations, and the manifests in force.
\<close>

record goal_run =
  glw_state :: goal_state
  glw_sink :: "goal_sink option"
  glw_steps :: "(goal_manifest \<times> plan_step \<times> datetime) list"
  glw_mutations :: "(goal_verifier \<times> goal_manifest \<times> goal_mutation \<times> goal_approval \<times> datetime) list"
  glw_granted :: "(goal_manifest \<times> plan_step \<times> datetime) list"
  glw_approved :: "(goal_verifier \<times> goal_manifest \<times> goal_mutation \<times> goal_approval \<times> datetime) list"
  glw_lineage :: "goal_manifest list"

definition remove_nth :: "nat \<Rightarrow> 'a list \<Rightarrow> 'a list" where
  "remove_nth i xs = take i xs @ drop (Suc i) xs"

datatype goal_label =
    Ask_step goal_manifest plan_step datetime
  | Enter_step nat ident
  | Ask_mutation goal_verifier goal_manifest goal_mutation datetime
  | Enter_mutation nat

fun goal_run_step :: "goal_guard \<Rightarrow> goal_run \<Rightarrow> goal_label \<Rightarrow> goal_run" where
  "goal_run_step g w (Ask_step m p now) =
     (let findings = step_check g m p now (glw_state w) in
      if findings \<noteq> [] then w\<lparr>glw_sink := publish_goal (step_result m p findings None) (glw_sink w)\<rparr>
      else w\<lparr>glw_steps := glw_steps w @ [(m, p, now)]\<rparr>)"
| "goal_run_step g w (Enter_step i fresh) =
     (if length (glw_steps w) \<le> i then w
      else (let (m, p, now) = glw_steps w ! i;
                (r, s) = commit_step g fresh m p (glw_state w)
            in w\<lparr>glw_state := s, glw_sink := publish_goal r (glw_sink w), glw_steps := remove_nth i (glw_steps w),
                 glw_granted := glw_granted w @ (if goal_is_authorized r then [(m, p, now)] else [])\<rparr>))"
| "goal_run_step g w (Ask_mutation v m u now) =
     (case mutation_check g v m u now (glw_state w) of
        Inl r \<Rightarrow> w\<lparr>glw_sink := publish_goal r (glw_sink w)\<rparr>
      | Inr a \<Rightarrow> w\<lparr>glw_mutations := glw_mutations w @ [(v, m, u, a, now)]\<rparr>)"
| "goal_run_step g w (Enter_mutation i) =
     (if length (glw_mutations w) \<le> i then w
      else (let (v, m, u, a, now) = glw_mutations w ! i;
                (r, s) = commit_mutation g m u a now (glw_state w);
                w' = w\<lparr>glw_state := s, glw_mutations := remove_nth i (glw_mutations w)\<rparr>
            in (case r of
                  None \<Rightarrow> w'
                | Some x \<Rightarrow>
                    (case glr_updated x of
                       Some m' \<Rightarrow> w'\<lparr>glw_sink := publish_goal x (glw_sink w), glw_approved := glw_approved w @ [(v, m, u, a, now)],
                         glw_lineage := glw_lineage w @ [m']\<rparr>
                     | None \<Rightarrow> w'\<lparr>glw_sink := publish_goal x (glw_sink w)\<rparr>))))"

definition initial_goal_run :: "goal_manifest \<Rightarrow> goal_state \<Rightarrow> goal_sink option \<Rightarrow> goal_run" where
  "initial_goal_run m s k = \<lparr>glw_state = s, glw_sink = k, glw_steps = [], glw_mutations = [], glw_granted = [],
     glw_approved = [], glw_lineage = [m]\<rparr>"

end
