(* ===== verification/Goal_Properties.thy ===== *)
theory Goal_Properties
  imports Goal_Integrity
begin

text \<open>
  Goal integrity under concurrent callers: invariants of \<open>goal_run_step\<close> over every interleaving of the locked and the
  unlocked halves, what holds only of calls that do not overlap, and the cases that the guard does not notice.
\<close>

section \<open>Checks\<close>

definition step_authorized :: "goal_guard \<Rightarrow> goal_manifest \<Rightarrow> plan_step \<Rightarrow> datetime \<Rightarrow> bool" where
  "step_authorized g m p now \<longleftrightarrow> manifest_integrity (glg_digest g) m \<and> now < glm_expires_at m \<and> now < glx_expires_at (glm_context m) \<and>
     gls_execution_id p = glm_execution_id m \<and> gls_session_id p = glm_session_id m \<and>
     gln_owner_id (gls_principal p) = glo_owner_id (glm_owner m) \<and> gln_tenant_id (gls_principal p) = glo_tenant_id (glm_owner m) \<and>
     gls_expected_digest p = glm_digest m \<and> gls_action_id p |\<in>| glm_actions m \<and>
     (\<forall>d. gls_delegated_to p = Some d \<longrightarrow> d |\<in>| glm_delegates m) \<and> gls_constraints p \<subseteq> constraint_ids m \<and>
     (glp_all_constraints (glg_policy g) \<longrightarrow> gls_constraints p = constraint_ids m) \<and>
     length (gls_description p) \<le> glp_max_step_chars (glg_policy g) \<and> \<not> contains_hijack (glg_lib g) (gls_description p) \<and>
     list_all (\<lambda>t. \<not> contains_hijack (glg_lib g) t) (extract_base64_payloads (cl_unicode (glg_lib g))
       (nr_normalized (normalize_text (cl_unicode (glg_lib g)) default_normalizer (gls_description p))))"

lemma manifest_findings_Nil:
  "manifest_findings g m s now = [] \<Longrightarrow> manifest_integrity (glg_digest g) m \<and> now < glm_expires_at m \<and>
     now < glx_expires_at (glm_context m) \<and> glt_manifest_digest s = glm_digest m"
  by (auto simp: manifest_findings_def not_le split: if_splits)

lemma request_binding_Nil:
  "request_binding_findings m e q who expected s = [] \<Longrightarrow> e = glm_execution_id m \<and> q = glm_session_id m \<and>
     gln_owner_id who = glo_owner_id (glm_owner m) \<and> gln_tenant_id who = glo_tenant_id (glm_owner m) \<and> expected = glm_digest m \<and>
     gln_actor_id who \<in> insert (glm_primary_actor m) (glt_delegates s)"
  by (simp add: request_binding_findings_def map_snd_filter_fst_Nil split: if_splits)

lemma content_findings_Nil:
  "content_findings g p s = [] \<Longrightarrow> \<not> fst (detect_hijack (glg_lib g) (gls_description p)) \<and>
     (glp_detect_split (glg_policy g) \<and> glt_fragments s \<noteq> [] \<longrightarrow> \<not> split_hijack g s (gls_description p))"
proof -
  obtain d e where de: "detect_hijack (glg_lib g) (gls_description p) = (d, e)" by (cases "detect_hijack (glg_lib g) (gls_description p)")
  have "e \<Longrightarrow> d" using de by (auto simp: detect_hijack_def Let_def)
  moreover assume "content_findings g p s = []"
  ultimately show ?thesis using de by (auto simp: content_findings_def split: if_splits)
qed

lemma step_findings_Nil:
  "step_findings g m p s = [] \<Longrightarrow> state_step_findings g p s = [] \<and> \<not> constraint_mismatch g m p \<and> gls_action_id p |\<in>| glm_actions m \<and>
     (\<forall>d. gls_delegated_to p = Some d \<longrightarrow> d |\<in>| glm_delegates m) \<and> length (gls_description p) \<le> glp_max_step_chars (glg_policy g) \<and>
     content_findings g p s = []"
  by (auto simp: step_findings_def not_less split: if_splits option.splits)

lemma step_check_Nil:
  assumes "step_check g m p now s = []"
  shows "step_authorized g m p now" and "state_step_findings g p s = []" and "glt_manifest_digest s = glm_digest m"
    and "gln_actor_id (gls_principal p) \<in> insert (glm_primary_actor m) (glt_delegates s)"
    and "glp_detect_split (glg_policy g) \<and> glt_fragments s \<noteq> [] \<Longrightarrow> \<not> split_hijack g s (gls_description p)"
proof -
  have n: "manifest_findings g m s now = []" "step_findings g m p s = []"
      "request_binding_findings m (gls_execution_id p) (gls_session_id p) (gls_principal p) (gls_expected_digest p) s = []"
    using assms by (auto simp: step_check_def)
  note f = manifest_findings_Nil [OF n(1)] request_binding_Nil [OF n(3)] step_findings_Nil [OF n(2)]
  then have "content_findings g p s = []" by blast
  note c = content_findings_Nil [OF this]
  show "state_step_findings g p s = []" "glt_manifest_digest s = glm_digest m"
    "gln_actor_id (gls_principal p) \<in> insert (glm_primary_actor m) (glt_delegates s)" using f by blast+
  show "glp_detect_split (glg_policy g) \<and> glt_fragments s \<noteq> [] \<Longrightarrow> \<not> split_hijack g s (gls_description p)" using c by blast
  have "\<not> contains_hijack (glg_lib g) (gls_description p)"
    "list_all (\<lambda>t. \<not> contains_hijack (glg_lib g) t) (extract_base64_payloads (cl_unicode (glg_lib g))
       (nr_normalized (normalize_text (cl_unicode (glg_lib g)) default_normalizer (gls_description p))))"
    using c by (auto simp: detect_hijack_def Let_def list_ex_iff list_all_iff)
  then show "step_authorized g m p now" using f by (auto simp: step_authorized_def constraint_mismatch_def split: if_splits)
qed

lemma state_step_Nil:
  "state_step_findings g p s = [] \<longleftrightarrow> gls_id p \<notin> glt_seen_steps s \<and> gls_sequence p = glt_step_count s + 1 \<and>
     glt_step_count s < glp_max_steps (glg_policy g)"
  by (auto simp: state_step_findings_def split: if_splits)

lemma remember_step_simps [simp]:
  "glt_step_count (remember_step g t s) = glt_step_count s" "glt_seen_steps (remember_step g t s) = glt_seen_steps s"
  "glt_manifest_digest (remember_step g t s) = glt_manifest_digest s" "glt_mutation_count (remember_step g t s) = glt_mutation_count s"
  "glt_used_approvals (remember_step g t s) = glt_used_approvals s" "glt_delegates (remember_step g t s) = glt_delegates s"
  by (simp_all add: remember_step_def split_def Let_def)

lemma commit_step_cases:
  assumes "commit_step g fresh m p s = (r, s')"
  obtains (Granted) "goal_is_authorized r" "state_step_findings g p s = []" "glt_step_count s' = glt_step_count s + 1"
      "glt_seen_steps s' = insert (gls_id p) (glt_seen_steps s)" "glt_manifest_digest s' = glt_manifest_digest s"
      "glt_mutation_count s' = glt_mutation_count s" "glt_used_approvals s' = glt_used_approvals s"
      "glt_delegates s' = glt_delegates s \<union> set_option (gls_delegated_to p)"
      "glt_fragments s' = glt_fragments (remember_step g (gls_description p) s)"
      "glt_drift_chars s' = glt_drift_chars (remember_step g (gls_description p) s)"
  | (Refused) "\<not> goal_is_authorized r" "s' = s"
proof (cases "state_step_findings g p s = []")
  case False
  then show thesis using assms Refused by (auto simp: commit_step_def step_result_def goal_is_authorized_def Let_def)
next
  case True
  show thesis
    by (rule Granted)
      (use True assms in \<open>auto simp: commit_step_def step_result_def goal_is_authorized_def remember_step_def split_def Let_def split: option.splits\<close>)
qed

section \<open>Steps under every interleaving\<close>

definition step_inv :: "goal_guard \<Rightarrow> goal_run \<Rightarrow> bool" where
  "step_inv g w \<longleftrightarrow> glt_step_count (glw_state w) = length (glw_granted w) \<and>
     map (\<lambda>(m, p, now). gls_sequence p) (glw_granted w) = map Suc [0..<length (glw_granted w)] \<and>
     glt_seen_steps (glw_state w) = set (map (\<lambda>(m, p, now). gls_id p) (glw_granted w)) \<and>
     distinct (map (\<lambda>(m, p, now). gls_id p) (glw_granted w)) \<and>
     length (glw_granted w) \<le> glp_max_steps (glg_policy g) \<and>
     list_all (\<lambda>(m, p, now). step_authorized g m p now) (glw_granted w) \<and>
     list_all (\<lambda>(m, p, now). step_authorized g m p now) (glw_steps w)"

lemma set_remove_nth: "set (remove_nth i xs) \<subseteq> set xs"
  by (auto simp: remove_nth_def dest: in_set_takeD in_set_dropD)

lemma commit_mutation_cases:
  assumes "commit_mutation g m u a now s = (r, s')"
  obtains (Changed) m' x where "r = Some x" "glr_updated x = Some m'" "updated_manifest g m u now = Some m'" "gla_id a \<notin> glt_used_approvals s"
      "glt_manifest_digest s = glm_digest m"
      "s' = s\<lparr>glt_manifest_digest := glm_digest m', glt_mutation_count := glt_mutation_count s + 1,
        glt_used_approvals := insert (gla_id a) (glt_used_approvals s), glt_delegates := glt_delegates s \<inter> fset (glm_delegates m')\<rparr>"
  | (Kept) "\<And>x. r = Some x \<Longrightarrow> glr_updated x = None" "s' = s"
  using assms by (auto simp: commit_mutation_def mutation_result_def split: if_splits option.splits)

lemma step_inv_step: "step_inv g w \<Longrightarrow> step_inv g (goal_run_step g w l)"
proof (cases l)
  case (Ask_step m p now)
  assume "step_inv g w"
  then show ?thesis using Ask_step step_check_Nil(1) [of g m p now "glw_state w"] by (auto simp: step_inv_def Let_def)
next
  case (Enter_step i fresh)
  assume inv: "step_inv g w"
  show ?thesis
  proof (cases "length (glw_steps w) \<le> i")
    case True
    then show ?thesis using Enter_step inv by simp
  next
    case False
    obtain m p now where x: "glw_steps w ! i = (m, p, now)" by (cases "glw_steps w ! i")
    then have auth: "step_authorized g m p now"
      using inv False nth_mem [of i "glw_steps w"] by (auto simp: step_inv_def list_all_iff)
    obtain r s where c: "commit_step g fresh m p (glw_state w) = (r, s)" by (cases "commit_step g fresh m p (glw_state w)")
    have pend: "list_all (\<lambda>(m, p, now). step_authorized g m p now) (remove_nth i (glw_steps w))"
      using inv set_remove_nth [of i "glw_steps w"] by (auto simp: step_inv_def list_all_iff)
    from c show ?thesis
    proof (cases rule: commit_step_cases)
      case Granted
      then show ?thesis using Enter_step inv False x c auth pend by (auto simp: step_inv_def state_step_Nil)
    next
      case Refused
      then show ?thesis using Enter_step inv False x c pend by (simp add: step_inv_def)
    qed
  qed
next
  case (Ask_mutation v m u now)
  assume "step_inv g w"
  then show ?thesis using Ask_mutation by (simp add: step_inv_def split: sum.splits)
next
  case (Enter_mutation i)
  assume inv: "step_inv g w"
  obtain v m u a now where x: "glw_mutations w ! i = (v, m, u, a, now)" by (cases "glw_mutations w ! i")
  obtain r s where c: "commit_mutation g m u a now (glw_state w) = (r, s)" by (cases "commit_mutation g m u a now (glw_state w)")
  from c have "glt_step_count s = glt_step_count (glw_state w)" "glt_seen_steps s = glt_seen_steps (glw_state w)"
    by (cases rule: commit_mutation_cases; simp)+
  then show ?thesis using Enter_mutation inv x c by (auto simp: step_inv_def Let_def split: option.splits)
qed

interpretation goal_steps: preserved "goal_run_step g" "step_inv g" "\<lambda>_. True" for g
  by unfold_locales (rule step_inv_step)

lemma initial_step_inv: "new_goal_state g m = Some s \<Longrightarrow> step_inv g (initial_goal_run m s k)"
  by (auto simp: step_inv_def initial_goal_run_def new_goal_state_def split: if_splits)

section \<open>The drift history\<close>

definition drift_inv :: "goal_guard \<Rightarrow> goal_state \<Rightarrow> bool" where
  "drift_inv g s \<longleftrightarrow> glt_drift_chars s = int (length (concat (glt_fragments s))) \<and>
     glt_drift_chars s \<le> int (glp_max_history_chars (glg_policy g))"

lemma trim_history_sum:
  assumes "n = int (length (concat xs))" and "0 \<le> limit"
  shows "snd (trim_history limit xs n) = int (length (concat (fst (trim_history limit xs n))))" and "snd (trim_history limit xs n) \<le> limit"
  using assms by (induction limit xs n rule: trim_history.induct) auto

lemma remember_step_drift: "drift_inv g s \<Longrightarrow> drift_inv g (remember_step g t s)"
proof -
  assume inv: "drift_inv g s"
  let ?n = "nr_normalized (normalize_text (cl_unicode (glg_lib g)) default_normalizer t)"
  have "glt_drift_chars s + int (length ?n) = int (length (concat (glt_fragments s @ [?n])))" using inv by (simp add: drift_inv_def)
  from trim_history_sum [OF this, of "int (glp_max_history_chars (glg_policy g))"]
  show ?thesis by (simp add: drift_inv_def remember_step_def split_def Let_def)
qed

lemma drift_inv_step: "drift_inv g (glw_state w) \<Longrightarrow> drift_inv g (glw_state (goal_run_step g w l))"
proof (cases l)
  case (Enter_step i fresh)
  assume inv: "drift_inv g (glw_state w)"
  obtain m p now where x: "glw_steps w ! i = (m, p, now)" by (cases "glw_steps w ! i")
  obtain r s where c: "commit_step g fresh m p (glw_state w) = (r, s)" by (cases "commit_step g fresh m p (glw_state w)")
  from c have "drift_inv g s"
    by (cases rule: commit_step_cases) (use inv remember_step_drift [OF inv, of "gls_description p"] in \<open>auto simp: drift_inv_def\<close>)
  then show ?thesis using Enter_step inv x c by simp
next
  case (Enter_mutation i)
  assume inv: "drift_inv g (glw_state w)"
  obtain v m u a now where x: "glw_mutations w ! i = (v, m, u, a, now)" by (cases "glw_mutations w ! i")
  obtain r s where c: "commit_mutation g m u a now (glw_state w) = (r, s)" by (cases "commit_mutation g m u a now (glw_state w)")
  from c have "drift_inv g s" by (cases rule: commit_mutation_cases) (use inv in \<open>auto simp: drift_inv_def\<close>)
  then show ?thesis using Enter_mutation inv x c by (auto simp: Let_def split: option.splits)
qed (auto simp: Let_def split: sum.splits)

interpretation goal_drift: preserved "goal_run_step g" "\<lambda>w. drift_inv g (glw_state w)" "\<lambda>_. True" for g
  by unfold_locales (rule drift_inv_step)

text \<open>The text kept to recognise split instructions is bounded by the policy, and the running count of it is exact.\<close>

theorem drift_history_bounded:
  assumes "new_goal_state g m = Some s" and "w = foldl (goal_run_step g) (initial_goal_run m s k) ls"
  shows "drift_inv g (glw_state w)"
proof -
  have "drift_inv g (glw_state (initial_goal_run m s k))"
    using assms(1) by (auto simp: drift_inv_def initial_goal_run_def new_goal_state_def split: if_splits)
  then show ?thesis unfolding assms(2) by (rule goal_drift.run_inv) (simp add: list_all_iff)
qed

section \<open>Mutations under every interleaving\<close>

definition mutation_approved ::
  "goal_guard \<Rightarrow> goal_verifier \<Rightarrow> goal_manifest \<Rightarrow> goal_mutation \<Rightarrow> goal_approval \<Rightarrow> datetime \<Rightarrow> bool" where
  "mutation_approved g v m u a now \<longleftrightarrow> manifest_integrity (glg_digest g) m \<and> now < glm_expires_at m \<and> now < glx_expires_at (glm_context m) \<and>
     glu_execution_id u = glm_execution_id m \<and> glu_session_id u = glm_session_id m \<and>
     gln_owner_id (glu_principal u) = glo_owner_id (glm_owner m) \<and> gln_tenant_id (glu_principal u) = glo_tenant_id (glm_owner m) \<and>
     glu_expected_digest u = glm_digest m \<and> glu_approval u = Some a \<and> gla_mutation_digest a = mutation_digest (glg_digest g) u \<and>
     gla_approver_id a \<in> set (glx_approvers (glm_context m)) \<and> now < gla_expires_at a \<and>
     (\<exists>verify. v = Some verify \<and> verify a = Some True)"

lemma mutation_check_Inr:
  assumes "mutation_check g v m u now s = Inr a"
  shows "mutation_approved g v m u a now" and "glt_manifest_digest s = glm_digest m"
    and "glt_mutation_count s < glp_max_mutations (glg_policy g)"
proof -
  have n: "manifest_findings g m s now = []"
      "request_binding_findings m (glu_execution_id u) (glu_session_id u) (glu_principal u) (glu_expected_digest u) s = []"
    using assms by (auto simp: mutation_check_def Let_def split: if_splits)
  have a: "glu_approval u = Some a" "goal_approval_findings g v m u a s now = []" "glt_mutation_count s < glp_max_mutations (glg_policy g)"
    using assms by (auto simp: mutation_check_def Let_def split: if_splits option.splits)
  then have i: "now < gla_expires_at a" "\<not> goal_approval_invalid g v m u a" by (auto simp: goal_approval_findings_def split: if_splits)
  show "glt_manifest_digest s = glm_digest m" "glt_mutation_count s < glp_max_mutations (glg_policy g)"
    using manifest_findings_Nil [OF n(1)] a(3) by blast+
  show "mutation_approved g v m u a now"
    using manifest_findings_Nil [OF n(1)] request_binding_Nil [OF n(2)] a(1) i
    by (auto simp: mutation_approved_def goal_approval_invalid_def split: option.splits)
qed

lemma updated_manifest_Some:
  assumes "updated_manifest g m u now = Some m'"
  shows "manifest_integrity (glg_digest g) m'" and "glm_revision m' = glm_revision m + 1" and "glm_parent_digest m' = Some (glm_digest m)"
    and "glm_expires_at m' = glm_expires_at m" and "glm_root_digest m \<noteq> [] \<Longrightarrow> glm_root_digest m' = glm_root_digest m"
  using assms seal_manifest_integrity [of "glg_digest g"]
  by (auto simp: updated_manifest_def create_manifest_def Let_def seal_manifest_root split: if_splits)

definition approval_of :: "goal_verifier \<times> goal_manifest \<times> goal_mutation \<times> goal_approval \<times> datetime \<Rightarrow> goal_approval" where
  "approval_of = (\<lambda>(v, m, u, a, now). a)"

definition manifest_step :: "goal_guard \<Rightarrow> goal_manifest \<Rightarrow> goal_verifier \<times> goal_manifest \<times> goal_mutation \<times> goal_approval \<times> datetime \<Rightarrow>
   goal_manifest \<Rightarrow> bool" where
  "manifest_step g old x new \<longleftrightarrow> (case x of (v, m, u, a, now) \<Rightarrow>
     mutation_approved g v m u a now \<and> glm_digest m = glm_digest old \<and> updated_manifest g m u now = Some new)"

definition goal_pending_ok :: "goal_guard \<Rightarrow> goal_manifest list \<Rightarrow> goal_verifier \<times> goal_manifest \<times> goal_mutation \<times> goal_approval \<times> datetime \<Rightarrow> bool" where
  "goal_pending_ok g L x \<longleftrightarrow> (case x of (v, m, u, a, now) \<Rightarrow> mutation_approved g v m u a now \<and>
     (\<exists>i < min (glp_max_mutations (glg_policy g)) (length L). glm_digest m = glm_digest (L ! i)))"

definition in_lineage :: "goal_guard \<Rightarrow> goal_manifest \<Rightarrow> nat \<Rightarrow> goal_manifest \<Rightarrow> bool" where
  "in_lineage g m0 i m \<longleftrightarrow> manifest_integrity (glg_digest g) m \<and> glm_revision m = glm_revision m0 + i \<and>
     glm_root_digest m = glm_root_digest m0 \<and> glm_expires_at m = glm_expires_at m0"

definition mutation_inv :: "goal_guard \<Rightarrow> goal_manifest \<Rightarrow> goal_run \<Rightarrow> bool" where
  "mutation_inv g m0 w \<longleftrightarrow> inj (glg_digest g) \<and> glm_root_digest m0 \<noteq> [] \<and>
     length (glw_lineage w) = Suc (length (glw_approved w)) \<and> glw_lineage w ! 0 = m0 \<and>
     glt_manifest_digest (glw_state w) = glm_digest (last (glw_lineage w)) \<and>
     glt_mutation_count (glw_state w) = length (glw_approved w) \<and>
     glt_used_approvals (glw_state w) = set (map (gla_id \<circ> approval_of) (glw_approved w)) \<and>
     distinct (map (gla_id \<circ> approval_of) (glw_approved w)) \<and> length (glw_approved w) \<le> glp_max_mutations (glg_policy g) \<and>
     (\<forall>i < length (glw_approved w). manifest_step g (glw_lineage w ! i) (glw_approved w ! i) (glw_lineage w ! Suc i)) \<and>
     (\<forall>i < length (glw_lineage w). in_lineage g m0 i (glw_lineage w ! i)) \<and>
     (\<forall>x \<in> set (glw_mutations w). goal_pending_ok g (glw_lineage w) x)"

lemma mutation_inv_same:
  assumes "mutation_inv g m0 w" and "glw_lineage w' = glw_lineage w" and "glw_approved w' = glw_approved w"
    and "set (glw_mutations w') \<subseteq> set (glw_mutations w)"
    and "glt_manifest_digest (glw_state w') = glt_manifest_digest (glw_state w)"
    and "glt_mutation_count (glw_state w') = glt_mutation_count (glw_state w)"
    and "glt_used_approvals (glw_state w') = glt_used_approvals (glw_state w)"
  shows "mutation_inv g m0 w'"
  using assms(1,4) unfolding mutation_inv_def assms(2,3,5-7) by blast

lemma lineage_last: "length L = Suc n \<Longrightarrow> last L = L ! n"
  by (metis diff_Suc_1 last_conv_nth length_0_conv nat.distinct(1))

lemma mutation_inv_change:
  assumes inv: "mutation_inv g m0 w" and i: "i < length (glw_mutations w)" and x: "glw_mutations w ! i = (v, m, u, a, now)"
    and up: "updated_manifest g m u now = Some m'" and fresh: "gla_id a \<notin> glt_used_approvals (glw_state w)"
    and dig: "glt_manifest_digest (glw_state w) = glm_digest m"
    and w': "glw_lineage w' = glw_lineage w @ [m']" "glw_approved w' = glw_approved w @ [(v, m, u, a, now)]"
      "glw_mutations w' = remove_nth i (glw_mutations w)" "glt_manifest_digest (glw_state w') = glm_digest m'"
      "glt_mutation_count (glw_state w') = glt_mutation_count (glw_state w) + 1"
      "glt_used_approvals (glw_state w') = insert (gla_id a) (glt_used_approvals (glw_state w))"
  shows "mutation_inv g m0 w'"
proof -
  let ?L = "glw_lineage w" and ?A = "glw_approved w" and ?max = "glp_max_mutations (glg_policy g)"
  let ?n = "length ?A"
  have len: "length ?L = Suc ?n" and inj: "inj (glg_digest g)" and lastL: "glt_manifest_digest (glw_state w) = glm_digest (?L ! ?n)"
    using inv lineage_last [of ?L ?n] by (auto simp: mutation_inv_def)
  have all: "in_lineage g m0 j (?L ! j)" if "j < Suc ?n" for j using inv that len by (simp add: mutation_inv_def)
  have pend: "goal_pending_ok g ?L y" if "y \<in> set (glw_mutations w)" for y using inv that by (simp add: mutation_inv_def)
  have "goal_pending_ok g ?L (v, m, u, a, now)" using pend nth_mem [OF i] x by metis
  then obtain k where k: "k < ?max" "k < Suc ?n" "glm_digest m = glm_digest (?L ! k)" and appr: "mutation_approved g v m u a now"
    using len by (auto simp: goal_pending_ok_def)
  have mi: "manifest_integrity (glg_digest g) m" using appr by (simp add: mutation_approved_def)
  have Lk: "in_lineage g m0 k (?L ! k)" "in_lineage g m0 ?n (?L ! ?n)" using all k(2) by simp_all
  have "glm_digest (?L ! k) = glm_digest (?L ! ?n)" using k(3) dig lastL by simp
  from same_digest(1) [OF inj _ _ this] Lk have kn: "k = ?n" by (simp add: in_lineage_def)
  note sd = same_digest [OF inj mi _ k(3)]
  note um = updated_manifest_Some [OF up]
  have root0: "glm_root_digest m0 \<noteq> []" using inv by (simp add: mutation_inv_def)
  have "glm_root_digest m = glm_root_digest m0" "glm_revision m = glm_revision m0 + ?n" "glm_expires_at m = glm_expires_at m0"
    using sd Lk(1) kn by (auto simp: in_lineage_def)
  then have new: "in_lineage g m0 (Suc ?n) m'" using um root0 by (simp add: in_lineage_def)
  have st: "manifest_step g (?L ! ?n) (v, m, u, a, now) m'" using appr k(3) kn up by (simp add: manifest_step_def)
  have steps: "manifest_step g ((?L @ [m']) ! j) ((?A @ [(v, m, u, a, now)]) ! j) ((?L @ [m']) ! Suc j)" if "j < Suc ?n" for j
  proof (cases "j = ?n")
    case True
    then show ?thesis using st len by (simp add: nth_append)
  next
    case False
    then have "manifest_step g (?L ! j) (?A ! j) (?L ! Suc j)" using that inv by (simp add: mutation_inv_def)
    then show ?thesis using that False len by (simp add: nth_append)
  qed
  have elems: "in_lineage g m0 j ((?L @ [m']) ! j)" if "j < Suc (Suc ?n)" for j
  proof (cases "j = Suc ?n")
    case True
    then show ?thesis using new len by (simp add: nth_append)
  next
    case False
    then show ?thesis using that all [of j] len by (simp add: nth_append)
  qed
  have more: "goal_pending_ok g (?L @ [m']) y" if "y \<in> set (remove_nth i (glw_mutations w))" for y
  proof -
    have "goal_pending_ok g ?L y" using pend that set_remove_nth by fast
    then show ?thesis by (auto simp: goal_pending_ok_def nth_append split: prod.splits)
  qed
  have rest: "(?L @ [m']) ! 0 = m0" "glt_mutation_count (glw_state w) = ?n"
      "glt_used_approvals (glw_state w) = set (map (gla_id \<circ> approval_of) ?A)" "distinct (map (gla_id \<circ> approval_of) ?A)"
    using inv len by (auto simp: mutation_inv_def nth_append)
  have ids: "distinct (map (gla_id \<circ> approval_of) (?A @ [(v, m, u, a, now)]))" using rest(3,4) fresh by (auto simp: approval_of_def)
  have used: "insert (gla_id a) (glt_used_approvals (glw_state w)) = set (map (gla_id \<circ> approval_of) (?A @ [(v, m, u, a, now)]))"
    using rest(3) by (simp add: approval_of_def)
  show ?thesis
    unfolding mutation_inv_def w' used
    by (intro conjI allI ballI impI inj root0 rest(1) ids) (use rest(2) steps elems more len k(1) kn in \<open>simp_all del: nth_append\<close>)
qed

lemma mutation_inv_step: "mutation_inv g m0 w \<Longrightarrow> mutation_inv g m0 (goal_run_step g w l)"
proof (cases l)
  case (Ask_step m p now)
  assume "mutation_inv g m0 w"
  then show ?thesis using Ask_step by (auto simp: Let_def intro: mutation_inv_same)
next
  case (Enter_step i fresh)
  assume inv: "mutation_inv g m0 w"
  obtain m p now where x: "glw_steps w ! i = (m, p, now)" by (cases "glw_steps w ! i")
  obtain r s where c: "commit_step g fresh m p (glw_state w) = (r, s)" by (cases "commit_step g fresh m p (glw_state w)")
  from c have "glt_manifest_digest s = glt_manifest_digest (glw_state w)" "glt_mutation_count s = glt_mutation_count (glw_state w)"
      "glt_used_approvals s = glt_used_approvals (glw_state w)"
    by (cases rule: commit_step_cases; simp)+
  then show ?thesis using Enter_step inv x c by (auto intro: mutation_inv_same)
next
  case (Ask_mutation v m u now)
  assume inv: "mutation_inv g m0 w"
  show ?thesis
  proof (cases "mutation_check g v m u now (glw_state w)")
    case (Inl r)
    then show ?thesis using Ask_mutation inv by (auto intro: mutation_inv_same)
  next
    case (Inr a)
    let ?n = "length (glw_approved w)"
    have "length (glw_lineage w) = Suc ?n" "glt_manifest_digest (glw_state w) = glm_digest (last (glw_lineage w))"
        "glt_mutation_count (glw_state w) = ?n" using inv by (auto simp: mutation_inv_def)
    then have "goal_pending_ok g (glw_lineage w) (v, m, u, a, now)"
      using mutation_check_Inr [OF Inr] by (auto simp: goal_pending_ok_def lineage_last intro!: exI [of _ ?n])
    then show ?thesis using Ask_mutation inv Inr by (auto simp: mutation_inv_def)
  qed
next
  case (Enter_mutation i)
  assume inv: "mutation_inv g m0 w"
  show ?thesis
  proof (cases "length (glw_mutations w) \<le> i")
    case True
    then show ?thesis using Enter_mutation inv by simp
  next
    case False
    obtain v m u a now where x: "glw_mutations w ! i = (v, m, u, a, now)" by (cases "glw_mutations w ! i")
    obtain r s where c: "commit_mutation g m u a now (glw_state w) = (r, s)" by (cases "commit_mutation g m u a now (glw_state w)")
    from c show ?thesis
    proof (cases rule: commit_mutation_cases)
      case (Changed m' y)
      then show ?thesis
        using Enter_mutation False x c by (intro mutation_inv_change [OF inv _ x Changed(3-5)]) (simp_all add: Let_def)
    next
      case Kept
      then show ?thesis
        using Enter_mutation False x c set_remove_nth [of i "glw_mutations w"]
        by (intro mutation_inv_same [OF inv]) (auto simp: Let_def split: option.splits)
    qed
  qed
qed

interpretation goal_mutations: preserved "goal_run_step g" "mutation_inv g m0" "\<lambda>_. True" for g m0
  by unfold_locales (rule mutation_inv_step)

end
