(* ===== verification/Normalizer_Properties.thy ===== *)
theory Normalizer_Properties
  imports Text_Normalizer
begin

text \<open>
  What normalization guarantees: which characters its output cannot contain, when it leaves a text alone, and that the
  percent, hexadecimal and base64 encodings of a text are undone; and where the order of its passes defeats it.
\<close>

section \<open>The passes\<close>

definition hidden_char :: "nat \<Rightarrow> bool" where
  "hidden_char c \<longleftrightarrow> zero_width_char c \<or> bidi_control c \<or> tag_char c \<or> variation_selector c \<or> unusual_ws c \<or>
     map_of homoglyphs c \<noteq> None"

lemma strip_channel_snd_Nil: "strip_channel s e p (t, cs) = (u, []) \<Longrightarrow> u = t \<and> cs = []"
  by (cases cs) (auto simp: strip_channel_def Let_def split: if_splits)

lemma strip_invisible_Nil: "strip_invisible_unicode b z g v t = (u, []) \<Longrightarrow> u = t"
  unfolding strip_invisible_unicode_def
  by (cases "strip_channel ''bidi_control_chars'' b bidi_control (t, [])";
      cases "strip_channel ''zero_width_chars'' z zero_width_char (strip_channel ''bidi_control_chars'' b bidi_control (t, []))";
      cases "strip_channel ''unicode_tag_chars'' g tag_char (strip_channel ''zero_width_chars'' z zero_width_char
         (strip_channel ''bidi_control_chars'' b bidi_control (t, [])))")
    (auto dest: strip_channel_snd_Nil)

lemma strip_channel_fst: "fst (strip_channel s e p (t, cs)) = (if e then filter (\<lambda>c. \<not> p c) t else t)"
  by (auto simp: strip_channel_def Let_def filter_empty_conv filter_id_conv)

lemma strip_invisible_fst:
  "fst (strip_invisible_unicode True True True True t)
     = filter (\<lambda>c. \<not> (bidi_control c \<or> zero_width_char c \<or> tag_char c \<or> variation_selector c)) t"
proof -
  have step: "fst (strip_channel s True p x) = filter (\<lambda>c. \<not> p c) (fst x)" for s p x
    using strip_channel_fst [of s True p "fst x" "snd x"] by simp
  show ?thesis unfolding strip_invisible_unicode_def step by (simp add: conj_ac)
qed

lemma default_normalizer_simps [simp]:
  "nz_html default_normalizer" "nz_url default_normalizer" "nz_unicode default_normalizer" "nz_zero_width default_normalizer"
  "nz_whitespace default_normalizer" "nz_homoglyphs default_normalizer" "nz_hex default_normalizer" "nz_bidi default_normalizer"
  "nz_tags default_normalizer" "nz_variation default_normalizer"
  by (simp_all add: default_normalizer_def)

definition after_passes :: "unicode_lib \<Rightarrow> normalizer \<Rightarrow> pytext \<Rightarrow> pytext \<times> string list" where
  "after_passes ul nz t =
     decode_pass (nz_homoglyphs nz) ''homoglyphs'' (map map_homoglyph)
      (whitespace_pass nz (invisible_pass nz (url_pass nz
        (decode_pass (nz_unicode nz) ''unicode_normalization'' (ul_nfc ul)
          (decode_pass (nz_html nz) ''html_entities'' (ul_unescape ul) (t, []))))))"

lemma normalize_text_passes:
  "normalize_text ul nz t =
     (let (u, s) = decode_pass (nz_hex nz) ''hex_encoding'' hex_sub (after_passes ul nz t)
      in \<lparr>nr_original = t, nr_normalized = u, nr_signals = s\<rparr>)"
  by (simp add: normalize_text_def after_passes_def Let_def)

lemma decode_pass_eq: "decode_pass e s f x = (if e then (f (fst x), if f (fst x) \<noteq> fst x then snd x @ [s] else snd x) else x)"
  by (cases x) (simp add: decode_pass_def Let_def)

lemma decode_pass_Nil: "snd (decode_pass e s f x) = [] \<Longrightarrow> decode_pass e s f x = x"
  by (cases x) (auto simp: decode_pass_def Let_def split: if_splits)

lemma url_pass_Nil: "snd (url_pass nz x) = [] \<Longrightarrow> url_pass nz x = x"
  by (cases x) (auto simp: url_pass_def dest: decode_pass_Nil)

lemma invisible_pass_Nil: "snd (invisible_pass nz x) = [] \<Longrightarrow> invisible_pass nz x = x"
  by (cases x) (auto simp: invisible_pass_def split: prod.splits dest: strip_invisible_Nil)

lemma whitespace_pass_Nil: "snd (whitespace_pass nz x) = [] \<Longrightarrow> whitespace_pass nz x = x"
  by (cases x) (auto simp: whitespace_pass_def split: if_splits)

lemma after_passes_Nil: "snd (after_passes ul nz t) = [] \<Longrightarrow> after_passes ul nz t = (t, [])"
  unfolding after_passes_def
  by (metis decode_pass_Nil invisible_pass_Nil url_pass_Nil whitespace_pass_Nil)

text \<open>A text without signals is returned as it came: whatever normalization changes, it reports.\<close>

theorem unsignalled_text_unchanged:
  assumes "\<not> was_obfuscated (normalize_text ul nz t)"
  shows "nr_normalized (normalize_text ul nz t) = t" and "decoded_variants (normalize_text ul nz t) = [t]"
proof -
  let ?h = "decode_pass (nz_hex nz) ''hex_encoding'' hex_sub"
  have "snd (?h (after_passes ul nz t)) = []"
    using assms by (simp add: was_obfuscated_def normalize_text_passes split: prod.splits)
  then have "?h (after_passes ul nz t) = after_passes ul nz t" by (rule decode_pass_Nil)
  moreover from this \<open>snd _ = []\<close> have "after_passes ul nz t = (t, [])" using after_passes_Nil by simp
  ultimately have e: "?h (after_passes ul nz t) = (t, [])" by simp
  then show "nr_normalized (normalize_text ul nz t) = t" "decoded_variants (normalize_text ul nz t) = [t]"
    by (simp_all add: normalize_text_passes decoded_variants_def)
qed

section \<open>What cannot remain\<close>

lemma homoglyph_image: "map_of homoglyphs c = Some d \<Longrightarrow> d < 123 \<and> 64 < d"
proof -
  assume "map_of homoglyphs c = Some d"
  then have "(c, d) \<in> set homoglyphs" by (rule map_of_SomeD)
  then show ?thesis by (auto simp: homoglyphs_def)
qed

lemma homoglyph_not_ascii: "c < 128 \<Longrightarrow> map_of homoglyphs c = None"
proof -
  assume "c < 128"
  then have "c \<notin> fst ` set homoglyphs" by (auto simp: homoglyphs_def)
  then show ?thesis by (simp add: map_of_eq_None_iff)
qed

lemma ascii_not_hidden: "c < 128 \<Longrightarrow> \<not> hidden_char c"
  by (auto simp: hidden_char_def zero_width_char_def bidi_control_def tag_char_def variation_selector_def unusual_ws_def
      homoglyph_not_ascii)

lemma map_homoglyph_clean:
  assumes "\<not> (bidi_control c \<or> zero_width_char c \<or> tag_char c \<or> variation_selector c \<or> unusual_ws c)"
  shows "\<not> hidden_char (map_homoglyph c)"
proof (cases "map_of homoglyphs c")
  case None
  then show ?thesis using assms by (simp add: map_homoglyph_def hidden_char_def)
next
  case (Some d)
  then show ?thesis using homoglyph_image [OF Some] ascii_not_hidden [of d] by (simp add: map_homoglyph_def)
qed

lemma after_passes_clean:
  "list_all (\<lambda>c. \<not> hidden_char c) (fst (after_passes ul default_normalizer t))"
proof -
  define x where "x = url_pass default_normalizer (decode_pass True ''unicode_normalization'' (ul_nfc ul)
          (decode_pass True ''html_entities'' (ul_unescape ul) (t, [])))"
  have x: "after_passes ul default_normalizer t = decode_pass True ''homoglyphs'' (map map_homoglyph)
      (whitespace_pass default_normalizer (invisible_pass default_normalizer x))"
    by (simp add: after_passes_def x_def)
  let ?inv = "\<lambda>c. bidi_control c \<or> zero_width_char c \<or> tag_char c \<or> variation_selector c"
  have i: "fst (invisible_pass default_normalizer x) = filter (\<lambda>c. \<not> ?inv c) (fst x)"
    using strip_invisible_fst [of "fst x"] by (cases x) (auto simp: invisible_pass_def split: prod.splits)
  have sp: "\<not> ?inv 32" "\<not> unusual_ws 32"
    by (simp_all add: zero_width_char_def bidi_control_def tag_char_def variation_selector_def unusual_ws_def)
  have w: "fst (whitespace_pass default_normalizer y) = map (\<lambda>c. if unusual_ws c then 32 else c) (fst y)" for y
    by (cases y) (auto simp: whitespace_pass_def list_ex_iff intro!: map_idI [symmetric])
  have "\<not> hidden_char (map_homoglyph c)" if "c \<in> set (fst (whitespace_pass default_normalizer (invisible_pass default_normalizer x)))" for c
    using that sp unfolding w i by (auto intro!: map_homoglyph_clean)
  then show ?thesis
    unfolding x by (simp add: decode_pass_eq list_all_iff)
qed

text \<open>
  C26: unless the last pass decoded a hexadecimal escape, the normalized text holds no zero-width, bidirectional, tag or
  variation character, no unusual space and no homoglyph, whatever the standard-library tables are.
\<close>

theorem normalized_text_clean:
  assumes "''hex_encoding'' \<notin> set (nr_signals (normalize_text ul default_normalizer t))"
  shows "list_all (\<lambda>c. \<not> hidden_char c) (nr_normalized (normalize_text ul default_normalizer t))"
proof -
  obtain u s where p: "after_passes ul default_normalizer t = (u, s)" by (cases "after_passes ul default_normalizer t")
  have "hex_sub u = u"
    using assms by (auto simp: normalize_text_passes p decode_pass_def Let_def split: if_splits)
  then show ?thesis
    using after_passes_clean [of ul t] by (simp add: normalize_text_passes p decode_pass_def Let_def)
qed

definition plain_lib :: unicode_lib where
  "plain_lib = \<lparr>ul_unescape = (\<lambda>t. t), ul_nfc = (\<lambda>t. t), ul_printable = (\<lambda>c. 32 \<le> c \<and> c < 127)\<rparr>"

section \<open>Encodings are undone\<close>

lemma utf8_decode_replace_strict: "utf8_decode bs = Some t \<Longrightarrow> utf8_decode_replace bs = t"
proof (induction bs arbitrary: t rule: utf8_decode.induct)
  case (2 b bs)
  then show ?case by (auto split: prod.splits option.splits)
qed simp

lemma utf8_encode_bytes: "utf8_encode t = Some bs \<Longrightarrow> list_all (\<lambda>b. b < 256) bs"
proof -
  have "b < 256" if "is_scalar c" "b \<in> set (utf8_char c)" for b c
    using that by (auto simp: utf8_char_def is_scalar_def split: if_splits)
  moreover assume "utf8_encode t = Some bs"
  ultimately show ?thesis by (auto simp: utf8_encode_def list_all_iff split: if_splits) blast
qed

lemma hex_digit_value: "n < 16 \<Longrightarrow> is_hex (hex_digit n) \<and> hex_value (hex_digit n) = n \<and> hex_digit n < 128"
  by (simp add: is_hex_def hex_digit_def hex_value_def)

lemma byte_nibbles: "b < 256 \<Longrightarrow> b div 16 < 16 \<and> b mod 16 < (16 :: nat)"
  by auto

lemma hex_bytes_text: "list_all (\<lambda>b. b < 256) bs \<Longrightarrow> hex_bytes (hex_text bs) = bs"
  by (induction bs) (use hex_digit_value byte_nibbles in \<open>simp_all add: hex_text_def\<close>)

lemma hex_text_hex: "list_all (\<lambda>b. b < 256) bs \<Longrightarrow> list_all is_hex (hex_text bs)"
  by (induction bs) (use hex_digit_value byte_nibbles in \<open>simp_all add: hex_text_def\<close>)

lemma hex_text_length [simp]: "length (hex_text bs) = 2 * length bs"
  by (induction bs) (simp_all add: hex_text_def)

lemma while_append_stop:
  assumes "list_all p w" and "r = [] \<or> \<not> p (hd r)"
  shows "takeWhile p (w @ r) = w" and "dropWhile p (w @ r) = r"
  using assms by (induction w) (cases r; simp)+

definition pct_text :: "pybytes \<Rightarrow> pytext" where
  "pct_text bs = concat (map (\<lambda>b. [37, hex_digit (b div 16), hex_digit (b mod 16)]) bs)"

lemma pct_bytes_text: "list_all (\<lambda>b. b < 256) bs \<Longrightarrow> pct_bytes (pct_text bs) = bs"
  by (induction bs) (use hex_digit_value byte_nibbles in \<open>simp_all add: pct_text_def\<close>)

lemma pct_text_ascii: "list_all (\<lambda>b. b < 256) bs \<Longrightarrow> list_all (\<lambda>c. c < 128) (pct_text bs)"
  by (induction bs) (use hex_digit_value byte_nibbles in \<open>simp_all add: pct_text_def\<close>)

lemma unquote_ascii:
  assumes "list_all (\<lambda>c. c < 128) t" and "t \<noteq> []"
  shows "unquote_runs t = utf8_decode_replace (pct_bytes t)"
proof -
  obtain c r where t: "t = c # r" using assms(2) by (cases t) auto
  have r: "\<forall>x \<in> set r. x < 128" and "c < 128" using assms(1) t by (auto simp: list_all_iff)
  then show ?thesis
    unfolding t by (simp add: takeWhile_eq_all_conv [THEN iffD2, OF r] dropWhile_eq_Nil_conv [THEN iffD2, OF r])
qed

lemma percent_decoded:
  assumes "utf8_encode t = Some bs" and "t \<noteq> []"
  shows "unquote (pct_text bs) = t"
proof -
  have b: "list_all (\<lambda>b. b < 256) bs" by (rule utf8_encode_bytes [OF assms(1)])
  obtain c u where "t = c # u" using assms(2) by (cases t) auto
  then have "bs \<noteq> []" using utf8_encode_length [OF assms(1)] utf8_size_bounds(1) [of c] by auto
  then have "37 \<in> set (pct_text bs)" "pct_text bs \<noteq> []" by (cases bs; simp add: pct_text_def)+
  then show ?thesis
    using unquote_ascii [OF pct_text_ascii [OF b]] pct_bytes_text [OF b]
      utf8_decode_replace_strict [OF utf8_roundtrip(1) [OF assms(1)]] by (simp add: unquote_def)
qed

lemma hex_escape_decoded:
  assumes "utf8_encode t = Some bs" and "t \<noteq> []" and "c = 48 \<or> c = 92" and "r = [] \<or> \<not> is_hex (hd r)"
  shows "hex_sub (c # 120 # hex_text bs @ r) = t @ hex_sub r"
proof -
  have b: "list_all (\<lambda>b. b < 256) bs" by (rule utf8_encode_bytes [OF assms(1)])
  obtain d u where "t = d # u" using assms(2) by (cases t) auto
  then have "1 \<le> length bs" using utf8_encode_length [OF assms(1)] utf8_size_bounds(1) [of d] by simp
  then show ?thesis
    using assms(3) while_append_stop [OF hex_text_hex [OF b] assms(4)] hex_bytes_text [OF b]
      utf8_decode_replace_strict [OF utf8_roundtrip(1) [OF assms(1)]]
    by (auto simp: decode_hex_match_def)
qed

section \<open>Base64 payloads are found\<close>

lemma b64_digit_value: "n < 64 \<Longrightarrow> b64_value (b64_digit n) = Some n \<and> b64_digit n \<noteq> 61"
  by (auto simp: b64_digit_def b64_value_def)

lemma b64_sextets:
  assumes "a < 256" "b < 256" "c < (256 :: nat)"
  shows "a div 4 < 64" "a mod 4 * 16 + b div 16 < 64" "b mod 16 * 4 + c div 64 < 64" "c mod 64 < 64"
    "a mod 4 * 16 < 64" "b mod 16 * 4 < 64"
  using assms by (auto simp: less_mult_imp_div_less)

lemma a2b_quad:
  assumes "a < 256" "b < 256" "c < 256"
  shows "a2b_base64 (b64_digit (a div 4) # b64_digit (a mod 4 * 16 + b div 16) # b64_digit (b mod 16 * 4 + c div 64) #
      b64_digit (c mod 64) # r) 0 0 p = map_option (\<lambda>bs. a # b # c # bs) (a2b_base64 r 0 0 0)"
proof -
  note d = b64_sextets [OF assms, THEN b64_digit_value]
  have q: "(a mod 4 * 16 + b div 16) div 16 = a mod 4" "(a mod 4 * 16 + b div 16) mod 16 = b div 16"
    "(b mod 16 * 4 + c div 64) div 4 = b mod 16" "(b mod 16 * 4 + c div 64) mod 4 = c div 64"
    using assms by (auto simp: less_mult_imp_div_less)
  show ?thesis using d q by (cases "a2b_base64 r 0 0 0") (simp_all add: mult.commute)
qed

lemma a2b_encode: "list_all (\<lambda>b. b < 256) bs \<Longrightarrow> a2b_base64 (b64_encode bs) 0 0 0 = Some bs"
proof (induction bs rule: b64_encode.induct)
  case (2 a)
  then have "a < 256" by simp
  note d = b64_sextets(1,5) [OF this this this, THEN b64_digit_value]
  show ?case using d by (simp add: mult.commute)
next
  case (3 a b)
  then have ab: "a < 256" "b < 256" by simp_all
  note d = b64_sextets(1,2,6) [OF ab ab(2), THEN b64_digit_value]
  have q: "(a mod 4 * 16 + b div 16) div 16 = a mod 4" "(a mod 4 * 16 + b div 16) mod 16 = b div 16"
    using ab by (auto simp: less_mult_imp_div_less)
  show ?case using d q by (simp add: mult.commute)
next
  case (4 a b c r)
  then show ?case using a2b_quad [of a b c "b64_encode r" 0] by simp
qed simp

lemma b64_encode_shape:
  "list_all (\<lambda>b. b < 256) bs \<Longrightarrow>
   \<exists>x p. b64_encode bs = x @ p \<and> list_all b64_char x \<and> length p \<le> 2 \<and> list_all (\<lambda>c. c = 61) p \<and>
     4 * length bs \<le> 3 * length x \<and> length (x @ p) mod 4 = 0"
proof (induction bs rule: b64_encode.induct)
  case 1
  show ?case by (intro exI [of _ "[]"]) simp
next
  case (2 a)
  then have "a < 256" by simp
  note d = b64_sextets(1,5) [OF this this this, THEN b64_digit_value]
  show ?case
    by (intro exI [of _ "[b64_digit (a div 4), b64_digit (a mod 4 * 16)]"] exI [of _ "[61, 61]"])
      (use d in \<open>simp add: b64_char_def\<close>)
next
  case (3 a b)
  then have ab: "a < 256" "b < 256" by simp_all
  note d = b64_sextets(1,2,6) [OF ab ab(2), THEN b64_digit_value]
  show ?case
    by (intro exI [of _ "[b64_digit (a div 4), b64_digit (a mod 4 * 16 + b div 16), b64_digit (b mod 16 * 4)]"] exI [of _ "[61]"])
      (use d in \<open>simp add: b64_char_def\<close>)
next
  case (4 a b c r)
  then obtain x p where r: "b64_encode r = x @ p" "list_all b64_char x" "length p \<le> 2" "list_all (\<lambda>c. c = 61) p"
      "4 * length r \<le> 3 * length x" "length (x @ p) mod 4 = 0" by auto
  let ?q = "[b64_digit (a div 4), b64_digit (a mod 4 * 16 + b div 16), b64_digit (b mod 16 * 4 + c div 64), b64_digit (c mod 64)]"
  have "a < 256" "b < 256" "c < 256" using 4 by simp_all
  note d = b64_sextets(1-4) [OF this, THEN b64_digit_value]
  have "length ((?q @ x) @ p) = 4 + length (x @ p)" by simp
  then have l: "length ((?q @ x) @ p) mod 4 = 0" using r(6) by (simp only: mod_add_self1)
  have "list_all b64_char (?q @ x)" using d r(2) by (simp add: b64_char_def)
  moreover have "b64_encode (a # b # c # r) = (?q @ x) @ p" by (simp add: r(1))
  moreover have "4 * length (a # b # c # r) \<le> 3 * length (?q @ x)" using r(5) by simp
  ultimately show ?case using l r(3,4) by (intro exI [of _ "?q @ x"] exI [of _ p] conjI)
qed

lemma class_runs_split: "\<not> p x \<Longrightarrow> class_runs p (pre @ x # ys) = class_runs p pre @ class_runs p ys"
  by (induction p pre rule: class_runs.induct) (simp_all add: takeWhile_tail dropWhile_append3)

lemma class_runs_run:
  assumes "list_all p w" and "w \<noteq> []" and "r = [] \<or> \<not> p (hd r)"
  shows "class_runs p (w @ r) = w # class_runs p r"
proof -
  obtain c v where "w = c # v" using assms(2) by (cases w) auto
  then show ?thesis using assms(1,3) while_append_stop [of p v r] by simp
qed

text \<open>
  C27: an encoded payload is found wherever it stands: if neither neighbour is a character of the base64 alphabet, the padding
  character \<open>=\<close> counted in, the base64 of any mostly printable text of at least 15 bytes is among the candidates and decodes to
  that text.
\<close>

theorem embedded_base64_extracted:
  assumes "utf8_encode t = Some bs" and "15 \<le> length bs" and "mostly_printable ul t"
    and "pre = [] \<or> \<not> (b64_char (last pre) \<or> last pre = 61)"
    and "post = [] \<or> \<not> (b64_char (hd post) \<or> hd post = 61)"
  shows "t \<in> set (extract_base64_payloads ul (pre @ b64_encode bs @ post))"
proof -
  let ?C = "\<lambda>c. b64_char c \<or> c = 61" and ?w = "b64_encode bs"
  have b: "list_all (\<lambda>b. b < 256) bs" by (rule utf8_encode_bytes [OF assms(1)])
  obtain x p where w: "?w = x @ p" "list_all b64_char x" "length p \<le> 2" "list_all (\<lambda>c. c = 61) p"
      "4 * length bs \<le> 3 * length x" "length ?w mod 4 = 0"
    using b64_encode_shape [OF b] by auto
  have e: "\<not> b64_char 61" by (simp add: b64_char_def b64_value_def)
  have "p = [] \<or> \<not> b64_char (hd p)" using w(4) e by (cases p) auto
  then have cand: "is_b64_candidate ?w"
    using while_append_stop [OF w(2), of p] w assms(2) by (auto simp: is_b64_candidate_def)
  have "list_all ?C ?w" "?w \<noteq> []" using w assms(2) by (auto simp: list_all_iff)
  then have run: "class_runs ?C (?w @ post) = ?w # class_runs ?C post"
    using assms(5) by (intro class_runs_run) auto
  have "?w \<in> set (class_runs ?C (pre @ ?w @ post))"
  proof (cases "pre = []")
    case False
    then have "pre @ ?w @ post = butlast pre @ last pre # (?w @ post)" by simp
    then show ?thesis using class_runs_split [of ?C "last pre" "butlast pre" "?w @ post"] assms(4) False run
      by (simp only:) simp
  qed (simp add: run)
  moreover have "try_decode_base64 ul ?w = Some t"
    using a2b_encode [OF b] w(6) utf8_roundtrip(1) [OF assms(1)] assms(3) by (simp add: try_decode_base64_def b64_pad_def)
  ultimately show ?thesis using cand by (force simp: extract_base64_payloads_def b64_candidates_def map_filter_def)
qed

lemmas normalizer_defs = normalize_text_def decode_pass_def url_pass_def invisible_pass_def whitespace_pass_def
  strip_invisible_unicode_def strip_channel_def default_normalizer_def zero_width_char_def bidi_control_def tag_char_def
  variation_selector_def unusual_ws_def is_hex_def hex_value_def decode_hex_match_def utf8_step_def utf8_need_def lead_bits_def
  second_ok_def is_cont_def map_homoglyph_def homoglyphs_def upt_rec [of _ 26] plain_lib_def unquote_def

lemmas b64_defs = extract_base64_payloads_def b64_candidates_def map_filter_simps is_b64_candidate_def b64_char_def b64_value_def
  try_decode_base64_def b64_pad_def mostly_printable_def urlsafe_char_def

section \<open>Where the order of the passes matters\<close>

lemma hex_sub_plain: "48 \<notin> set t \<Longrightarrow> 92 \<notin> set t \<Longrightarrow> hex_sub t = t"
  by (induction t rule: hex_sub.induct) auto

lemma has_pct_plain: "37 \<notin> set t \<Longrightarrow> \<not> has_pct t"
  by (induction t rule: has_pct.induct) auto

lemma strip_channel_none: "list_all (\<lambda>c. \<not> p c) t \<Longrightarrow> strip_channel s e p (t, cs) = (t, cs)"
  by (simp add: strip_channel_def Let_def list_all_iff)

text \<open>ASCII text without percent signs only goes through the hexadecimal pass.\<close>

lemma ascii_normal:
  assumes "list_all (\<lambda>c. c < 128 \<and> c \<noteq> 37) t"
  shows "normalize_text plain_lib default_normalizer t =
    \<lparr>nr_original = t, nr_normalized = hex_sub t, nr_signals = (if hex_sub t \<noteq> t then [''hex_encoding''] else [])\<rparr>"
proof -
  have h: "\<not> hidden_char c" if "c \<in> set t" for c using assms that ascii_not_hidden by (auto simp: list_all_iff)
  then have inv: "strip_invisible_unicode True True True True t = (t, [])"
    unfolding strip_invisible_unicode_def by (simp add: strip_channel_none list_all_iff hidden_char_def)
  have ws: "\<not> list_ex unusual_ws t" using h by (auto simp: list_ex_iff hidden_char_def)
  have hg: "map map_homoglyph t = t" using h by (intro map_idI) (auto simp: map_homoglyph_def hidden_char_def)
  have "37 \<notin> set t" using assms by (auto simp: list_all_iff)
  then have "\<not> has_pct t" by (rule has_pct_plain)
  with inv ws hg show ?thesis
    by (simp add: normalize_text_def decode_pass_def url_pass_def invisible_pass_def whitespace_pass_def plain_lib_def Let_def)
qed

text \<open>
  The hexadecimal pass comes last, so what it decodes is neither stripped nor mapped: the escape of a zero-width space
  leaves a zero-width space in the normalized text.
\<close>

lemma hex_escape_hides_invisible:
  "nr_normalized (normalize_text plain_lib default_normalizer
     [92, 120, 101, 50, 56, 48, 56, 98]) = [0x200b]"
  "zero_width_char 0x200b"
  by (simp_all add: ascii_normal is_hex_def hex_value_def decode_hex_match_def utf8_step_def utf8_need_def lead_bits_def second_ok_def
      is_cont_def zero_width_char_def)

text \<open>
  It also comes before the base64 payloads are extracted: a payload whose encoding happens to hold \<open>0x\<close> and two
  hexadecimal digits is found in the original text and lost in the normalized one.
\<close>

lemma replicate_3: "replicate 3 x = [x, x, x]"
  by (simp add: numeral_3_eq_3)

lemma hex_pass_loses_payload:
  "extract_base64_payloads plain_lib [89, 87, 70, 104, 89, 87, 70, 104, 89, 87, 70, 104, 89, 87, 70, 104, 99, 48, 120, 52, 98, 71, 70, 104] = [[97, 97, 97, 97, 97, 97, 97, 97, 97, 97, 97, 97, 115, 76, 120, 108, 97, 97]]"
  "extract_base64_payloads plain_lib (nr_normalized (normalize_text plain_lib default_normalizer
     [89, 87, 70, 104, 89, 87, 70, 104, 89, 87, 70, 104, 89, 87, 70, 104, 99, 48, 120, 52, 98, 71, 70, 104])) = []"
  by (simp_all add: ascii_normal is_hex_def hex_value_def decode_hex_match_def b64_defs utf8_step_def utf8_need_def lead_bits_def replicate_3,
      simp_all add: plain_lib_def)

theorem unsignalled_text_unchanged_witness:
  "nr_normalized (normalize_text plain_lib default_normalizer [104, 105]) = [104, 105] \<and>
   decoded_variants (normalize_text plain_lib default_normalizer [104, 105]) = [[104, 105]]"
proof -
  have "\<not> was_obfuscated (normalize_text plain_lib default_normalizer [104, 105])"
    by (simp add: was_obfuscated_def normalizer_defs Let_def)
  from unsignalled_text_unchanged [OF this] show ?thesis by blast
qed

theorem normalized_text_clean_witness:
  "list_all (\<lambda>c. \<not> hidden_char c) (nr_normalized (normalize_text plain_lib default_normalizer [0x430, 0x200b, 0x2003, 105]))"
proof -
  have "''hex_encoding'' \<notin> set (nr_signals (normalize_text plain_lib default_normalizer [0x430, 0x200b, 0x2003, 105]))"
    by (simp add: normalizer_defs Let_def)
  from normalized_text_clean [OF this] show ?thesis .
qed

theorem embedded_base64_extracted_witness:
  "replicate 16 97 \<in> set (extract_base64_payloads plain_lib ([32] @ b64_encode (replicate 16 97) @ [46]))"
proof -
  have e: "utf8_encode (replicate 16 97) = Some (replicate 16 97)" by (rule utf8_encode_ascii) (simp add: list_all_iff)
  have p: "mostly_printable plain_lib (replicate 16 97)" by (simp add: mostly_printable_def plain_lib_def)
  show ?thesis by (rule embedded_base64_extracted [OF e _ p]) (simp_all add: b64_char_def b64_value_def)
qed

end
