(* ===== verification/Spec2Isabelle.thy ===== *)
theory Spec2Isabelle
  imports Guard_Release Agent_Session Memory_Protocol State_Backend Resource_Decompress
    Failure_Properties Mcp_Messages Stream_Properties Workflow_Properties Inter_Agent_Properties
    Credential_Properties Boundary_Properties High_Impact_Totality Tenant_Properties Data_Properties
    Privileged_Properties Goal_Demo
begin

text \<open>
  A verification development for trustrail, a Python library that guards LLM applications: every
  prompt, document, tool call, agent action and model output passes rules whose findings are
  aggregated into one action, and the surrounding subsystems account for resources, contain failing
  dependencies and authenticate messages. All paths below are under \<open>src/src/trustrail/\<close>.

  \<^bold>\<open>Parts and theories.\<close>

  \<^item> \<open>Trustrail_Prelude\<close>: Python texts as lists of code points (\<open>pytext\<close>) with their UTF-8 length,
    dynamically typed values, insertion-ordered dictionaries (\<open>dict\<close>, with the locale
    \<open>ordered_dict\<close>), bounded deques, times, and two locales for state machines: \<open>single_use\<close>
    (a key that is consumed is never accepted again) and \<open>preserved\<close> (an invariant of every step
    holds along every run).
  \<^item> \<open>Core_Models\<close>: \<open>models/enums.py\<close> and \<open>models/core.py\<close>. Contexts, findings, risk scores,
    decisions, results and audit events.
  \<^item> \<open>Rule_Base\<close>: \<open>rules/base.py\<close>. A rule is a record of its identity, its runtime controls and its
    detector, an arbitrary function that decides or raises.
  \<^item> \<open>Guard_Engine\<close>, \<open>Guard_Verdicts\<close>: \<open>guard.py\<close> with \<open>models/config.py\<close>. Overrides and the rule
    cache (\<open>build_rule_cache\<close>), the rules of a stage (\<open>get_rules_for_stage\<close>), the loop over them
    (\<open>eval_rule\<close>, \<open>eval_loop\<close>), the decision table (\<open>determine_action\<close>) and the timeout result.
    A finding's object identity is its position in the list of findings.
  \<^item> \<open>Guard_Async\<close>: the async rules and external providers of \<open>guard.py\<close>, how one check ends (reply,
    timeout, exception) and how the pipeline merges its decisions into the synchronous evaluation.
  \<^item> \<open>Guard_Api\<close>, \<open>Guard_Release\<close>: the public methods of \<open>Guard\<close> that release content (\<open>check\<close>,
    \<open>protect\<close>, documents, conversations, composed prompts, memory-write approval) with
    \<open>models/rag.py\<close>, \<open>models/prompt.py\<close> and the cross-boundary rule. Alerts and audit events are kept in
    a \<open>trail\<close>.
  \<^item> \<open>Agent_Session\<close>: \<open>agents/session.py\<close>, the counters and limits of an agent session.
  \<^item> \<open>Worklist\<close>, \<open>Memory_Records\<close>, \<open>Memory_Taint\<close>: \<open>memory.py\<close> and \<open>models/memory.py\<close>. The
    breadth-first lineage search, the records with their validators, and \<open>MemoryTaintManager\<close>: the
    two-phase write, retrieval, quarantine, revalidation. \<open>Memory_Invariant\<close> has the well-formed
    states, \<open>Memory_Demo\<close> a small concrete manager, \<open>Memory_Safety\<close> and \<open>Memory_Protocol\<close> the
    properties, among them the refinement of an abstract register of memory slots, action by action.
  \<^item> \<open>State_Backend\<close>: \<open>state/backends.py\<close>. \<open>MemoryStateBackend\<close> with lazy expiry and
    least-recently-used eviction, and \<open>FixedWindowRateLimiter\<close> on top of it through the locale
    \<open>window_counter\<close>, interpreted on the backend.
  \<^item> \<open>Resource_Nesting\<close>, \<open>Resource_Ledger\<close>, \<open>Resource_Decompress\<close>: \<open>resource.py\<close> and
    \<open>models/resource.py\<close>. The nesting scanners, the reservation ledger of
    \<open>ResourceBudgetManager\<close> and the incremental decompressor.
  \<^item> \<open>Failure_Containment\<close>, \<open>Failure_Properties\<close>: \<open>failure_containment.py\<close> and its models. The
    manager's state (circuits, permits, attempts, side effects, events), \<open>authorize\<close>,
    \<open>record_outcome\<close>, \<open>snapshot\<close> and \<open>require_permit\<close>.
  \<^item> \<open>Mcp_Messages\<close>: \<open>mcp_messages.py\<close> and its models. Signing, the ordered checks of \<open>verify\<close>, and
    the replay store.
  \<^item> \<open>Stream_Scanner\<close>, \<open>Stream_Properties\<close>: \<open>streaming/scanner.py\<close>. \<open>process_chunk\<close> with its two
    rule loops, its look-behind buffer and its terminal state; \<open>scan\<close>, \<open>finalize\<close> and \<open>reset\<close>.

  \<^item> \<open>Workflow_Records\<close>, \<open>Workflow_Integrity\<close>, \<open>Workflow_Properties\<close>: \<open>workflow_integrity.py\<close> and its
    models. Hash-linked entries, signed checkpoints, the atomic resume store, the signer, and the verifier that authorizes
    one resume.
  \<^item> \<open>Delegated_Identity\<close>, \<open>Delegated_Properties\<close>: \<open>delegated_identity.py\<close> and its models. Delegation chains
    whose authority may only shrink, single-use grants, and the transport and execution boundaries.
  \<^item> \<open>Inter_Agent\<close>, \<open>Inter_Agent_Properties\<close>: \<open>inter_agent.py\<close> and its models. Signed messages between agents,
    their hops, and the replay and ordering store.
  \<^item> \<open>Text_Codec\<close>: UTF-8, hexadecimal and base64 of the standard library, with their inverses.
  \<^item> \<open>Credential_Broker\<close>, \<open>Credential_Boundary\<close>, \<open>Credential_Properties\<close>, \<open>Boundary_Properties\<close>:
    \<open>credentials.py\<close> and its models. Issue, resolution and revocation of credentials, and the scanner of payloads and
    streams for issued secrets in every encoding.
  \<^item> \<open>High_Impact\<close>, \<open>High_Impact_Gate\<close>, \<open>High_Impact_Properties\<close>, \<open>High_Impact_Totality\<close>:
    \<open>high_impact_approval.py\<close> and its models. The preview of a plan, the fatigue and nonce store, and the gate.
  \<^item> \<open>Tenant_Isolation\<close>, \<open>Tenant_Guard\<close>, \<open>Tenant_Properties\<close>: \<open>tenant_isolation.py\<close> and its models. Bindings,
    namespaced state and the guard around it.
  \<^item> \<open>Data_Lifecycle\<close>, \<open>Data_Deletion\<close>, \<open>Data_Lineage\<close>, \<open>Data_Properties\<close>: \<open>data_lifecycle.py\<close> and its
    models. The catalog of artifacts with inherited obligations, and deletion along the lineage around arbitrary connectors.
  \<^item> \<open>Privileged_Access\<close>, \<open>Privileged_Properties\<close>: \<open>privileged_access.py\<close> and its models. Step-up evidence,
    independent approval and just-in-time grants, with services that may answer differently at every call.
  \<^item> \<open>Text_Normalizer\<close>, \<open>Normalizer_Properties\<close>: \<open>normalization/normalizer.py\<close>, its passes in their order and the
    extraction of base64 payloads.
  \<^item> \<open>Goal_Text\<close>, \<open>Goal_Records\<close>, \<open>Goal_Integrity\<close>, \<open>Goal_Properties\<close>, \<open>Goal_Demo\<close>:
    \<open>goal_integrity.py\<close> and \<open>models/goal.py\<close>. The hijack patterns with a matcher proved against its meaning, sealed
    manifests, and the guard as two halves around its lock, so that callers interleave; the properties stand in \<open>Goal_Demo\<close>.

  The guard and the scanner share rules, the sensitive-data modes and the score; agent sessions call
  the guard; the limiter reaches the backend through \<open>window_counter\<close>; ledger, containment manager,
  message verifier, memory manager and several of the later components instantiate \<open>single_use\<close> for their one-time
  identifiers or \<open>preserved\<close> for their invariants; goal integrity calls the normalizer on every step.

  \<^bold>\<open>What the lemmas show.\<close> For the guard: complete mediation, fail-closed rules, monotonicity of the
  decision table, switched-off categories never run, sensitive data handled as configured; async
  checks only strengthen a verdict; conversations and prompts are released as a whole or not at
  all; agent sessions stay within their limits. For the memory manager: every reachable state is
  well formed, traces are exactly the transitive lineage, quarantine covers it and lasts, reservation
  and retrieval have exact conditions, one-time identifiers are single-use, stored content is
  immutable. For the scanner: the same over chunked streams, and that a pattern no longer than the overlap plus one on
  which a rule stops is never emitted, however the text is cut. For the backend and limiter:
  capacity, eviction order, exact and non-extendable windows. For the ledger: budgets, rolling
  windows and concurrency hold in every reachable state; leases and reservations are single-use;
  refusals cost nothing. For the decompressor: output and ratio bounds whatever the decoder does.
  For the containment manager: single-use attempts and reports, bounded retries, committed side
  effects are final, complete admission control, gapless events. For messages: authenticity,
  at-most-once acceptance, and acceptance of what the signer signs. For workflows: an authorized resume continues the
  signed chain at its successor. For delegation: authority never grows along a chain and grants are used once under every
  interleaving. For agents' messages: content within the sender's authority, with its lineage. For credentials: released for the
  exact execution only, usable while its reference stands, never after revocation, and never part of an allowed payload or
  stream. For high-impact plans:
  what runs was previewed in full and approved, and the gate never raises. For tenants: state is read by its own tenant
  and touched under verified authority only. For the data lifecycle: a complete deletion reaches the whole lineage that existed
  when it was planned, obligations are inherited and
  tombstoned artifacts stay unused. For privileged access: every execution rests on fresh step-up evidence and, where
  required, on independent approval, and a revoked session executes nothing. For the normalizer: what its output cannot
  contain, and that encoded text is recovered. For goals: steps are authorized in order and once, every goal change
  consumed its own approval and extends one sealed chain, whatever the interleaving.

  Some lemmas record behaviour that differs from what the code or the repository's documents intend: a backend
  that exceeds its capacity through \<open>increment\<close>, a half-open circuit that nothing but an accepted report frees, so that a lost
  probe can close it off for ever, a half-open circuit closed by a success other than its probe's, content released although its
  action is to quarantine it, a memory write that launders taint because its parents are not looked
  at again on commit, a failed read that quarantines whatever memory it names, an artifact derived after planning that
  survives a complete deletion, a forged grant that revokes a genuine one, a hijack instruction cut into three steps that
  is not recognised, a withdrawn delegate that stays active after an overlapping step, a manifest that depends on the order of a
  set, and escapes that put invisible characters back after they were stripped.

  \<^bold>\<open>Bounds and termination.\<close> No definition needs fuel: loops of the source are structural recursions
  on the list they consume, the two loops of the decompressor terminate because every iteration
  that continues shortens the pending input, the lineage search because the queue together with
  the unseen memories shrinks, and the decoders because each step consumes its input. Times are integers (microseconds
  in \<open>datetime\<close>, an abstract unit for monotonic seconds); Python's integers are unbounded and modelled as \<open>int\<close>, or as
  \<open>nat\<close> where the source validates them to be non-negative.

  \<^bold>\<open>Parameters.\<close> Detectors (\<open>ru_evaluate\<close>), zlib (\<open>zlib\<close> record), Ed25519, SHA-256 and canonical
  JSON (\<open>crypto\<close>, \<open>goal_digest\<close> and the like), the Unicode tables behind NFC, HTML entities, \<open>casefold\<close> and word
  characters, hooks and attesters of the containment manager, the content expressions,
  normalizer and verifiers of the memory manager (\<open>mem_env\<close>), async checks and providers, identity, risk, approval and
  deletion services, random identifiers and the clock are arguments of the definitions that use them. Where a theorem
  needs digests without collisions, or JSON that is read back as it was written (\<open>json_reads_back\<close>), it says so as a
  hypothesis.

  \<^bold>\<open>Not modelled.\<close> Locks (every operation under a lock is one step), latencies, wall-clock timing of
  the engine, log sinks, the Redis backend, the individual detectors, argument selection of the decorators, identifier
  patterns, and the remaining subsystems of the repository: tool authorization (\<open>agency.py\<close>), the MCP primitives,
  transport, OAuth, onboarding and isolation guards, browser, code and workload isolation, ingestion connectors, data labels and
  sensitive-data flow, grounding and citations, training data, supply chain, structured output, vector stores, rogue-agent and
  campaign detection, the policies, the command line and the integrations.
\<close>

end
